(* ===== verification/Prelude.thy ===== *)
theory Prelude
  imports Complex_Main "HOL-Library.AList" "HOL-Library.Sublist" "HOL-Library.Multiset"
    "HOL-Library.List_Lexorder" "HOL-Library.Char_ord"
begin

text \<open>
  Shared vocabulary of the development: the types every component uses for Python values, the
  string functions of the standard library the code calls, order-preserving deduplication,
  stable sorting (Python's \<open>list.sort\<close> and SQL's \<open>ORDER BY\<close>), tables of rows updated by key,
  and the generic lemmas about them.
\<close>

section \<open>Theorem collections\<close>

named_theorems op_defs \<open>definitions of the operations of the components\<close>
named_theorems frame_simps \<open>what an operation leaves unchanged\<close>
named_theorems wf_intros \<open>preservation of well-formedness by the operations\<close>

section \<open>Python values\<close>

text \<open>
  A float (a wall-clock time, a duration, a ratio) is a \<^typ>\<open>real\<close>: rounding and NaN are not
  modelled. A \<open>str\<close> is the list of the bytes of its UTF-8 encoding. A \<open>dict\<close> whose insertion
  order is observed is an association list changed with \<^const>\<open>AList.update\<close>, which replaces a
  value in place and appends a new key, as a Python \<open>dict\<close> does.
\<close>

type_synonym pyfloat = real
type_synonym 'v pydict = "(string \<times> 'v) list"

datatype json =
    JNull
  | JBool bool
  | JInt int
  | JNum pyfloat
  | JStr string
  | JList "json list"
  | JObj "(string \<times> json) list"

definition dict_merge :: "'v pydict \<Rightarrow> 'v pydict \<Rightarrow> 'v pydict" where
  "dict_merge d e = foldl (\<lambda>acc kv. AList.update (fst kv) (snd kv) acc) d e"

lemma map_of_dict_merge_other:
  "k \<notin> fst ` set e \<Longrightarrow> map_of (dict_merge d e) k = map_of d k"
  unfolding dict_merge_def by (induction e arbitrary: d) (auto simp: update_conv')

lemma dict_merge_snoc:
  "dict_merge d (e @ [(k, v)]) = AList.update k v (dict_merge d e)"
  by (simp add: dict_merge_def)

section \<open>Results\<close>

abbreviation (input) ok :: "'a \<Rightarrow> 'e + 'a" where "ok \<equiv> Inr"
abbreviation (input) raise :: "'e \<Rightarrow> 'e + 'a" where "raise \<equiv> Inl"

definition is_ok :: "'e + 'a \<Rightarrow> bool" where
  "is_ok r = (case r of Inl _ \<Rightarrow> False | Inr _ \<Rightarrow> True)"

lemma is_ok_simps [simp]: "is_ok (Inr x)" "\<not> is_ok (Inl e)"
  by (simp_all add: is_ok_def)

fun and_then :: "'e + 'a \<Rightarrow> ('a \<Rightarrow> 'e + 'b) \<Rightarrow> 'e + 'b" where
  "and_then (Inl e) f = Inl e"
| "and_then (Inr x) f = f x"

fun map_result :: "('a \<Rightarrow> 'e + 'b) \<Rightarrow> 'a list \<Rightarrow> 'e + 'b list" where
  "map_result f [] = Inr []"
| "map_result f (x # xs) = and_then (f x) (\<lambda>y. and_then (map_result f xs) (\<lambda>ys. Inr (y # ys)))"

lemma and_then_Inr: "and_then r f = Inr y \<longleftrightarrow> (\<exists>x. r = Inr x \<and> f x = Inr y)"
  by (cases r) auto

lemma map_result_ok: "(\<And>x. x \<in> set xs \<Longrightarrow> f x = Inr (g x)) \<Longrightarrow> map_result f xs = Inr (map g xs)"
  by (induction xs) auto

section \<open>Strings\<close>

text \<open>
  \<open>str.strip\<close>, \<open>str.lower\<close>, \<open>in\<close> and \<open>startswith\<close>. White space is ASCII white space
  (tab, newline, vertical tab, form feed, carriage return, the four separators 28 to 31, space);
  \<open>lower\<close> changes ASCII letters only.
\<close>

definition py_space :: "char \<Rightarrow> bool" where
  "py_space c = (let n = of_char c :: nat in n = 32 \<or> (9 \<le> n \<and> n \<le> 13) \<or> (28 \<le> n \<and> n \<le> 31))"

definition py_lstrip :: "string \<Rightarrow> string" where
  "py_lstrip s = dropWhile py_space s"

definition py_rstrip :: "string \<Rightarrow> string" where
  "py_rstrip s = rev (dropWhile py_space (rev s))"

definition py_strip :: "string \<Rightarrow> string" where
  "py_strip s = py_rstrip (py_lstrip s)"

definition py_lower_char :: "char \<Rightarrow> char" where
  "py_lower_char c = (let n = of_char c :: nat in if 65 \<le> n \<and> n \<le> 90 then char_of (n + 32) else c)"

definition py_lower :: "string \<Rightarrow> string" where
  "py_lower s = map py_lower_char s"

fun py_contains :: "string \<Rightarrow> string \<Rightarrow> bool" where
  "py_contains k [] = (k = [])"
| "py_contains k (c # cs) = (prefix k (c # cs) \<or> py_contains k cs)"

fun show_nat :: "nat \<Rightarrow> string" where
  "show_nat n = (if n < 10 then [char_of (48 + n)] else show_nat (n div 10) @ [char_of (48 + n mod 10)])"

declare show_nat.simps [simp del]

definition show_int :: "int \<Rightarrow> string" where
  "show_int i = (if i < 0 then CHR ''-'' # show_nat (nat (- i)) else show_nat (nat i))"

fun py_join :: "string \<Rightarrow> string list \<Rightarrow> string" where
  "py_join sep [] = []"
| "py_join sep [x] = x"
| "py_join sep (x # y # ys) = x @ sep @ py_join sep (y # ys)"

text \<open>\<open>str\<close> of a natural number can be read back, so it is injective.\<close>

definition read_nat :: "string \<Rightarrow> nat" where
  "read_nat s = foldl (\<lambda>a c. a * 10 + (of_char c - 48)) 0 s"

lemma digit_char: "n < 10 \<Longrightarrow> of_char (char_of (48 + n) :: char) = 48 + n"
  for n :: nat
  by simp

lemma show_nat_small: "n < 10 \<Longrightarrow> show_nat n = [char_of (48 + n)]"
  by (subst show_nat.simps) simp

lemma show_nat_big: "\<not> n < 10 \<Longrightarrow> show_nat n = show_nat (n div 10) @ [char_of (48 + n mod 10)]"
  by (subst show_nat.simps) simp

lemma read_show_nat: "read_nat (show_nat n) = n"
proof (induction n rule: show_nat.induct)
  case (1 n)
  show ?case
  proof (cases "n < 10")
    case True
    then show ?thesis by (simp add: show_nat_small read_nat_def)
  next
    case False
    then have "read_nat (show_nat n) = read_nat (show_nat (n div 10)) * 10 + n mod 10"
      by (simp add: show_nat_big read_nat_def)
    with 1 False show ?thesis by simp
  qed
qed

lemma show_nat_inj [simp]: "show_nat m = show_nat n \<longleftrightarrow> m = n"
  by (metis read_show_nat)

lemma show_nat_digits: "c \<in> set (show_nat n) \<Longrightarrow> 48 \<le> (of_char c :: nat) \<and> of_char c < (58 :: nat)"
proof (induction n rule: show_nat.induct)
  case (1 n)
  show ?case
  proof (cases "n < 10")
    case True
    with 1 have "c = char_of (48 + n)" by (simp add: show_nat_small)
    with digit_char[OF True] True show ?thesis by simp
  next
    case False
    with 1 show_nat_big[of n] have "c \<in> set (show_nat (n div 10)) \<or> c = char_of (48 + n mod 10)" by auto
    then show ?thesis
    proof
      assume "c \<in> set (show_nat (n div 10))"
      with 1 False show ?thesis by blast
    next
      assume c: "c = char_of (48 + n mod 10)"
      have "n mod 10 < 10" by simp
      from digit_char[OF this] this show ?thesis unfolding c by linarith
    qed
  qed
qed

lemma py_contains_sublist: "py_contains k s \<longleftrightarrow> sublist k s"
proof (induction s)
  case Nil
  then show ?case by simp
next
  case (Cons c cs)
  then show ?case by (simp add: sublist_Cons_right)
qed

lemma py_contains_append: "py_contains k s \<Longrightarrow> py_contains k (a @ s @ b)"
  unfolding py_contains_sublist sublist_def by (metis append.assoc)

lemma py_rstrip_Nil [simp]: "py_rstrip [] = []"
  by (simp add: py_rstrip_def)

lemma py_strip_Nil [simp]: "py_strip [] = []"
  by (simp add: py_strip_def py_lstrip_def)

lemma py_strip_eq_Nil_iff: "py_strip s = [] \<longleftrightarrow> (\<forall>c \<in> set s. py_space c)"
  by (auto simp: py_strip_def py_rstrip_def py_lstrip_def dropWhile_eq_Nil_conv
      dest: set_dropWhileD)
    (metis dropWhile_eq_Nil_conv in_set_conv_decomp dropWhile_append1 dropWhile_append2
      append_is_Nil_conv set_takeWhileD takeWhile_dropWhile_id Un_iff set_append)

lemma py_rstrip_idem [simp]: "py_rstrip (py_rstrip s) = py_rstrip s"
  by (simp add: py_rstrip_def)

lemma py_rstrip_append: "\<exists>t. s = py_rstrip s @ t"
proof -
  have "rev s = takeWhile py_space (rev s) @ dropWhile py_space (rev s)" by simp
  then have "s = rev (dropWhile py_space (rev s)) @ rev (takeWhile py_space (rev s))"
    by (metis rev_append rev_rev_ident)
  then show ?thesis unfolding py_rstrip_def by blast
qed

lemma py_lstrip_strip: "py_lstrip (py_strip s) = py_strip s"
proof (cases "py_strip s")
  case Nil
  then show ?thesis by (simp add: py_lstrip_def)
next
  case (Cons c cs)
  obtain t where "py_lstrip s = py_strip s @ t" using py_rstrip_append[of "py_lstrip s"] by (auto simp: py_strip_def)
  with Cons have "dropWhile py_space s = c # (cs @ t)" by (simp add: py_lstrip_def)
  then have "\<not> py_space c" by (metis dropWhile_eq_Cons_conv)
  with Cons show ?thesis by (simp add: py_lstrip_def)
qed

lemma py_strip_idem [simp]: "py_strip (py_strip s) = py_strip s"
proof -
  have "py_strip (py_strip s) = py_rstrip (py_strip s)" unfolding py_strip_def[of "py_strip s"] by (simp add: py_lstrip_strip)
  then show ?thesis by (simp add: py_strip_def)
qed

section \<open>Order-preserving deduplication\<close>

text \<open>\<open>tuple(dict.fromkeys(xs))\<close>: the first occurrence of each element, in order.\<close>

fun dedup_onto :: "'a list \<Rightarrow> 'a list \<Rightarrow> 'a list" where
  "dedup_onto acc [] = acc"
| "dedup_onto acc (x # xs) = (if x \<in> set acc then dedup_onto acc xs else dedup_onto (acc @ [x]) xs)"

definition dedup :: "'a list \<Rightarrow> 'a list" where
  "dedup xs = dedup_onto [] xs"

lemma set_dedup_onto: "set (dedup_onto acc xs) = set acc \<union> set xs"
  by (induction acc xs rule: dedup_onto.induct) auto

lemma distinct_dedup_onto: "distinct acc \<Longrightarrow> distinct (dedup_onto acc xs)"
  by (induction acc xs rule: dedup_onto.induct) auto

lemma set_dedup [simp]: "set (dedup xs) = set xs"
  by (simp add: dedup_def set_dedup_onto)

lemma distinct_dedup [simp]: "distinct (dedup xs)"
  by (simp add: dedup_def distinct_dedup_onto)

section \<open>Stable sorting by a comparison\<close>

text \<open>
  \<open>sort_by le xs\<close> is the stable sort of \<open>xs\<close>: it is Python's \<open>list.sort\<close> with a key and SQL's
  \<open>ORDER BY\<close> where rows that compare equal keep the order of the table.
\<close>

fun insert_by :: "('a \<Rightarrow> 'a \<Rightarrow> bool) \<Rightarrow> 'a \<Rightarrow> 'a list \<Rightarrow> 'a list" where
  "insert_by le x [] = [x]"
| "insert_by le x (y # ys) = (if le x y then x # y # ys else y # insert_by le x ys)"

fun sort_by :: "('a \<Rightarrow> 'a \<Rightarrow> bool) \<Rightarrow> 'a list \<Rightarrow> 'a list" where
  "sort_by le [] = []"
| "sort_by le (x # xs) = insert_by le x (sort_by le xs)"

definition total_preorder :: "('a \<Rightarrow> 'a \<Rightarrow> bool) \<Rightarrow> bool" where
  "total_preorder le \<longleftrightarrow> (\<forall>x y. le x y \<or> le y x) \<and> (\<forall>x y z. le x y \<longrightarrow> le y z \<longrightarrow> le x z)"

lemma total_preorder_key [intro]: "total_preorder (\<lambda>a b. f a \<le> (f b :: 'k :: linorder))"
  by (auto simp: total_preorder_def)

lemma total_preorder_key_desc [intro]: "total_preorder (\<lambda>a b. f b \<le> (f a :: 'k :: linorder))"
  by (auto simp: total_preorder_def)

lemma mset_insert_by [simp]: "mset (insert_by le x ys) = add_mset x (mset ys)"
  by (induction le x ys rule: insert_by.induct) auto

lemma mset_sort_by [simp]: "mset (sort_by le xs) = mset xs"
  by (induction xs) auto

lemma set_sort_by [simp]: "set (sort_by le xs) = set xs"
  by (metis mset_sort_by set_mset_mset)

lemma length_sort_by [simp]: "length (sort_by le xs) = length xs"
  by (metis mset_sort_by size_mset)

lemma sort_by_eq_Nil [simp]: "sort_by le xs = [] \<longleftrightarrow> xs = []"
  by (metis length_0_conv length_sort_by)

lemma set_insert_by: "set (insert_by le x ys) = insert x (set ys)"
  by (induction le x ys rule: insert_by.induct) auto

lemma sorted_wrt_insert_by:
  assumes "total_preorder le" and "sorted_wrt le ys"
  shows "sorted_wrt le (insert_by le x ys)"
  using assms(2)
proof (induction ys)
  case Nil
  then show ?case by simp
next
  case (Cons y ys)
  with assms(1) show ?case
    by (auto simp: set_insert_by total_preorder_def)
qed

lemma sorted_wrt_sort_by: "total_preorder le \<Longrightarrow> sorted_wrt le (sort_by le xs)"
  by (induction xs) (auto intro: sorted_wrt_insert_by)

lemma sort_by_head_le:
  assumes "total_preorder le" and "sort_by le xs = y # ys" and "x \<in> set xs"
  shows "le y x"
proof -
  from assms(1) have s: "sorted_wrt le (y # ys)"
    using sorted_wrt_sort_by assms(2) by metis
  from assms(2,3) have "x \<in> set (y # ys)"
    by (metis set_sort_by)
  with s assms(1) show ?thesis by (auto simp: total_preorder_def)
qed

lemma distinct_map_sort_by [simp]: "distinct (map f (sort_by le xs)) = distinct (map f xs)"
  by (metis mset_map mset_sort_by mset_eq_imp_distinct_iff)

section \<open>Tables of rows\<close>

text \<open>\<open>UPDATE t SET ... WHERE key = k\<close> and \<open>DELETE FROM t WHERE key = k\<close> on a list of rows.\<close>

definition update_where :: "('r \<Rightarrow> bool) \<Rightarrow> ('r \<Rightarrow> 'r) \<Rightarrow> 'r list \<Rightarrow> 'r list" where
  "update_where p f rs = map (\<lambda>r. if p r then f r else r) rs"

definition find_key :: "('r \<Rightarrow> 'k) \<Rightarrow> 'k \<Rightarrow> 'r list \<Rightarrow> 'r option" where
  "find_key key k rs = find (\<lambda>r. key r = k) rs"

lemma update_where_Nil [simp]: "update_where p f [] = []"
  by (simp add: update_where_def)

lemma update_where_Cons [simp]:
  "update_where p f (r # rs) = (if p r then f r else r) # update_where p f rs"
  by (simp add: update_where_def)

lemma set_update_where: "set (update_where p f rs) = (\<lambda>r. if p r then f r else r) ` set rs"
  by (simp add: update_where_def)

lemma map_update_where:
  "(\<And>r. p r \<Longrightarrow> g (f r) = g r) \<Longrightarrow> map g (update_where p f rs) = map g rs"
  by (auto simp: update_where_def)

lemma find_key_SomeD: "find_key key k rs = Some r \<Longrightarrow> r \<in> set rs \<and> key r = k"
  by (auto simp: find_key_def find_Some_iff)

lemma find_key_None_iff: "find_key key k rs = None \<longleftrightarrow> k \<notin> key ` set rs"
  by (auto simp: find_key_def find_None_iff)

lemma find_key_unique:
  "distinct (map key rs) \<Longrightarrow> r \<in> set rs \<Longrightarrow> find_key key (key r) rs = Some r"
  by (induction rs) (auto simp: find_key_def image_iff)

lemma find_key_append:
  "find_key key k (xs @ ys) = (case find_key key k xs of None \<Rightarrow> find_key key k ys | Some r \<Rightarrow> Some r)"
  by (induction xs) (auto simp: find_key_def)

lemma find_key_update_where:
  assumes "\<And>r. p r \<Longrightarrow> key (f r) = key r"
  shows "find_key key k (update_where p f rs) =
    map_option (\<lambda>r. if p r then f r else r) (find_key key k rs)"
  using assms by (induction rs) (auto simp: find_key_def)

text \<open>\<open>INSERT ... ON CONFLICT(key) DO UPDATE\<close>: the row with the key is replaced in place, or appended.\<close>

definition upsert :: "('r \<Rightarrow> 'k) \<Rightarrow> 'r \<Rightarrow> 'r list \<Rightarrow> 'r list" where
  "upsert key v rs = (if key v \<in> set (map key rs) then update_where (\<lambda>r. key r = key v) (\<lambda>_. v) rs
     else rs @ [v])"

lemma find_key_upsert: "find_key key k (upsert key v rs) = (if k = key v then Some v else find_key key k rs)"
proof (cases "key v \<in> set (map key rs)")
  case True
  have "find_key key k (update_where (\<lambda>r. key r = key v) (\<lambda>_. v) rs) =
      (if k = key v then map_option (\<lambda>_. v) (find_key key k rs) else find_key key k rs)"
    by (induction rs) (auto simp: find_key_def)
  moreover have "find_key key (key v) rs \<noteq> None" using True by (auto simp: find_key_None_iff)
  ultimately show ?thesis using True by (auto simp: upsert_def)
next
  case False
  then have "find_key key (key v) rs = None" by (simp add: find_key_None_iff)
  moreover have "find_key key k [v] = (if k = key v then Some v else None)" by (simp add: find_key_def)
  ultimately show ?thesis using False by (auto simp: upsert_def find_key_append split: option.splits)
qed

lemma distinct_upsert: "distinct (map key rs) \<Longrightarrow> distinct (map key (upsert key v rs))"
  using map_update_where[of "\<lambda>r. key r = key v" key "\<lambda>_. v" rs] by (auto simp: upsert_def)

lemma set_upsert: "r \<in> set (upsert key v rs) \<Longrightarrow> r = v \<or> r \<in> set rs \<and> key r \<noteq> key v"
  unfolding upsert_def set_update_where by (auto simp: set_update_where image_iff split: if_splits)

lemma find_key_delete:
  "find_key key k (filter (\<lambda>r. key r \<noteq> k') rs) = (if k = k' then None else find_key key k rs)"
  by (induction rs) (auto simp: find_key_def)

lemma distinct_rows_eq:
  "distinct (map key rs) \<Longrightarrow> a \<in> set rs \<Longrightarrow> b \<in> set rs \<Longrightarrow> key a = key b \<Longrightarrow> a = b"
  by (metis distinct_map inj_onD)

lemma find_key_sort_by:
  assumes "distinct (map key rs)"
  shows "find_key key k (sort_by le rs) = find_key key k rs"
proof (cases "find_key key k rs")
  case None
  then have "find_key key k (sort_by le rs) = None" by (simp add: find_key_None_iff)
  with None show ?thesis by simp
next
  case (Some r)
  then have "r \<in> set (sort_by le rs)" "key r = k" by (auto dest: find_key_SomeD)
  moreover have "distinct (map key (sort_by le rs))" using assms by simp
  ultimately show ?thesis using Some find_key_unique by metis
qed

text \<open>A dictionary filled from rows with distinct keys.\<close>

lemma map_of_fold_update:
  "distinct (map key rs) \<Longrightarrow> map_of (fold (\<lambda>r. AList.update (key r) (g r)) rs al) k =
    (case find_key key k rs of Some r \<Rightarrow> Some (g r) | None \<Rightarrow> map_of al k)"
proof (induction rs arbitrary: al)
  case Nil
  then show ?case by (simp add: find_key_def)
next
  case (Cons r rs)
  have "key r = k \<Longrightarrow> find_key key k rs = None"
    using Cons.prems by (auto simp: find_key_None_iff)
  with Cons show ?case
    by (auto simp: update_conv' find_key_def split: option.splits)
qed

section \<open>Lists\<close>

lemma take_subset: "set (take n xs) \<subseteq> set xs"
  by (rule set_take_subset)

lemma filter_id_set: "(\<And>x. x \<in> set xs \<Longrightarrow> P x) \<Longrightarrow> filter P xs = xs"
  by (induction xs) auto

end
