(* ===== verification/Interfaces.thy ===== *)
theory Interfaces
  imports Prelude
begin

text \<open>
  The interfaces between components, as locales. Each is interpreted, in the theory of the
  component that provides it, on that component's model, and the properties rest on the facts
  the interpretation gives.

  \<^item> \<open>guarded_moves\<close>: an object with a status that only moves along the edges of a table;
    \<open>terminal_moves\<close> adds statuses no edge leaves. Providers: the job queue, the goal plane.
  \<^item> \<open>keyed_table\<close>: a store with at most one entry per key. Providers: heartbeats, the
    circuit-breaker mirror, the goal store.
  \<^item> \<open>bounded_retry\<close>: a retry decision guarded by an attempt counter. Providers: the job queue,
    the CI retry orchestrator.
  \<^item> \<open>event_loop\<close>: a loop that runs until an event stops it. Providers: the worker loop and the
    supervisor watch loop.
\<close>

section \<open>Objects whose status moves along a table of edges\<close>

locale guarded_moves =
  fixes status :: "'x \<Rightarrow> 's"
    and edges :: "'s \<Rightarrow> 's set"
    and act :: "'o \<Rightarrow> 'x \<Rightarrow> 'x"
    and good :: "'x \<Rightarrow> bool"
  assumes act_follows_edges: "good x \<Longrightarrow> status (act a x) = status x \<or> status (act a x) \<in> edges (status x)"
    and good_act: "good x \<Longrightarrow> good (act a x)"
begin

definition edge_rel :: "('s \<times> 's) set" where
  "edge_rel = {(s, t). t \<in> edges s}"

lemma good_run: "good x \<Longrightarrow> good (fold act as x)"
  by (induction as arbitrary: x) (auto intro: good_act)

text \<open>Every single step of a history stays or takes one edge.\<close>

lemma step_follows_edge:
  assumes "good x" and "k < length as"
  shows "status (fold act (take (Suc k) as) x) = status (fold act (take k as) x)
    \<or> status (fold act (take (Suc k) as) x) \<in> edges (status (fold act (take k as) x))"
  using act_follows_edges[OF good_run[OF assms(1), of "take k as"], of "as ! k"]
  by (simp add: take_Suc_conv_app_nth[OF assms(2)])

lemma run_follows_edges: "good x \<Longrightarrow> (status x, status (fold act as x)) \<in> edge_rel\<^sup>*"
proof (induction as arbitrary: x)
  case Nil
  then show ?case by simp
next
  case (Cons a as)
  have "(status x, status (act a x)) \<in> edge_rel\<^sup>*"
    using act_follows_edges[OF Cons.prems, of a] by (auto simp: edge_rel_def)
  moreover have "(status (act a x), status (fold act as (act a x))) \<in> edge_rel\<^sup>*"
    using Cons good_act by blast
  ultimately show ?case by simp
qed

lemma closed_set_invariant:
  assumes "good x" and "status x \<in> S" and "\<And>s. s \<in> S \<Longrightarrow> edges s \<subseteq> S"
  shows "status (fold act as x) \<in> S"
proof -
  have "s \<in> S \<Longrightarrow> t \<in> S" if "(s, t) \<in> edge_rel\<^sup>*" for s t
    using that assms(3) by (induction rule: rtrancl_induct) (auto simp: edge_rel_def)
  with run_follows_edges[OF assms(1)] assms(2) show ?thesis by blast
qed

end

locale terminal_moves = guarded_moves status edges act good
  for status :: "'x \<Rightarrow> 's"
    and edges :: "'s \<Rightarrow> 's set"
    and act :: "'o \<Rightarrow> 'x \<Rightarrow> 'x"
    and good :: "'x \<Rightarrow> bool" +
  fixes terminal :: "'s \<Rightarrow> bool"
  assumes terminal_no_edges: "terminal s \<Longrightarrow> edges s = {}"
begin

lemma terminal_absorbing:
  assumes "good x" and "terminal (status x)"
  shows "status (fold act as x) = status x"
  using closed_set_invariant[OF assms(1), of "{status x}"] terminal_no_edges assms(2) by auto

end

section \<open>Stores with one entry per key\<close>

text \<open>A history of writes: an entry put under its key, or a key dropped.\<close>

datatype ('k, 'v) table_op = Put 'v | Del 'k

locale keyed_table =
  fixes lookup :: "'t \<Rightarrow> 'k \<Rightarrow> 'v option"
    and put :: "'v \<Rightarrow> 't \<Rightarrow> 't"
    and del :: "'k \<Rightarrow> 't \<Rightarrow> 't"
    and key :: "'v \<Rightarrow> 'k"
    and valid :: "'v \<Rightarrow> bool"
    and inv :: "'t \<Rightarrow> bool"
  assumes lookup_put: "inv t \<Longrightarrow> valid v \<Longrightarrow> lookup (put v t) k = (if k = key v then Some v else lookup t k)"
    and lookup_del: "inv t \<Longrightarrow> lookup (del k' t) k = (if k = k' then None else lookup t k)"
    and inv_put: "inv t \<Longrightarrow> inv (put v t)"
    and inv_del: "inv t \<Longrightarrow> inv (del k' t)"
begin

primrec step :: "('k, 'v) table_op \<Rightarrow> 't \<Rightarrow> 't" where
  "step (Put v) t = put v t"
| "step (Del k) t = del k t"

primrec touches :: "'k \<Rightarrow> ('k, 'v) table_op \<Rightarrow> bool" where
  "touches k (Put v) \<longleftrightarrow> key v = k"
| "touches k (Del k') \<longleftrightarrow> k' = k"

primrec valid_op :: "('k, 'v) table_op \<Rightarrow> bool" where
  "valid_op (Put v) \<longleftrightarrow> valid v"
| "valid_op (Del k) \<longleftrightarrow> True"

lemma inv_step: "inv t \<Longrightarrow> inv (step a t)"
  by (cases a) (auto intro: inv_put inv_del)

lemma inv_steps: "inv t \<Longrightarrow> inv (fold step as t)"
  by (induction as arbitrary: t) (auto intro: inv_step)

text \<open>The last write to a key decides what a lookup gives.\<close>

lemma last_write_wins:
  assumes "inv t" and "list_all valid_op as"
  shows "lookup (fold step as t) k =
    (case find (touches k) (rev as) of
       None \<Rightarrow> lookup t k | Some (Put v) \<Rightarrow> Some v | Some (Del k') \<Rightarrow> None)"
  using assms
proof (induction as rule: rev_induct)
  case Nil
  then show ?case by simp
next
  case (snoc a as)
  then have "inv (fold step as t)" by (simp add: inv_steps)
  with snoc show ?case by (cases a) (auto simp: lookup_put lookup_del)
qed

lemma put_put_overwrites:
  "inv t \<Longrightarrow> valid v \<Longrightarrow> valid w \<Longrightarrow> key v = key w \<Longrightarrow> lookup (put w (put v t)) = lookup (put w t)"
  by (auto simp: fun_eq_iff lookup_put inv_put)

end

section \<open>Retries bounded by a counter\<close>

text \<open>
  \<open>retry a x = Some y\<close> when the policy, called with arguments \<open>a\<close>, grants another attempt and \<open>y\<close>
  is the state after it; \<open>None\<close> when it refuses. Other activity may happen between two grants, as
  long as it does not lower the counter.
\<close>

locale bounded_retry =
  fixes attempts :: "'x \<Rightarrow> nat"
    and limit :: nat
    and retry :: "'a \<Rightarrow> 'x \<Rightarrow> 'x option"
    and good :: "'x \<Rightarrow> bool"
  assumes retry_counts: "good x \<Longrightarrow> retry a x = Some y \<Longrightarrow> attempts y = Suc (attempts x)"
    and retry_bounded: "good x \<Longrightarrow> retry a x = Some y \<Longrightarrow> attempts x < limit"
    and retry_good: "good x \<Longrightarrow> retry a x = Some y \<Longrightarrow> good y"
begin

inductive retries :: "'x \<Rightarrow> nat \<Rightarrow> 'x \<Rightarrow> bool" where
  none: "good x \<Longrightarrow> retries x 0 x"
| grant: "retries x n y \<Longrightarrow> retry a y = Some z \<Longrightarrow> retries x (Suc n) z"
| other: "retries x n y \<Longrightarrow> attempts y \<le> attempts z \<Longrightarrow> good z \<Longrightarrow> retries x n z"

lemma retries_count: "retries x n y \<Longrightarrow> attempts x + n \<le> attempts y \<and> good y"
  by (induction rule: retries.induct) (auto dest: retry_counts retry_good)

lemma exhausted_refuses: "good x \<Longrightarrow> limit \<le> attempts x \<Longrightarrow> retry a x = None"
  using retry_bounded by (cases "retry a x") (auto simp: not_less[symmetric])

lemma retries_bound: "retries x n y \<Longrightarrow> n \<le> limit - attempts x"
proof (induction rule: retries.induct)
  case (none x)
  then show ?case by simp
next
  case (grant x n y a z)
  have "attempts x + n < limit"
    using retries_count[OF grant.hyps(1)] retry_bounded[OF _ grant.hyps(2)] by fastforce
  then show ?case by simp
next
  case (other x n y z)
  then show ?case by simp
qed

end

section \<open>Loops that run until told to stop\<close>

text \<open>
  \<open>loop ev s\<close> meets the event \<open>ev k\<close> at its iteration \<open>k\<close>; it returns the state in which it stopped, or
  \<open>None\<close> when it never does.
\<close>

locale event_loop =
  fixes stops :: "'e \<Rightarrow> nat \<Rightarrow> bool"
    and step :: "'e \<Rightarrow> 's \<Rightarrow> 's"
    and count :: "'s \<Rightarrow> nat"
    and loop :: "(nat \<Rightarrow> 'e) \<Rightarrow> 's \<Rightarrow> 's option"
  assumes count_step: "count (step e s) = Suc (count s)"
    and loop_unfold: "loop ev s = (if stops (ev (count s)) (count s) then Some s else loop ev (step (ev (count s)) s))"
    and loop_stopped: "loop ev s = Some t \<Longrightarrow> stops (ev (count t)) (count t)"
    and loop_count: "loop ev s = Some t \<Longrightarrow> count s \<le> count t"
begin

primrec run :: "(nat \<Rightarrow> 'e) \<Rightarrow> 's \<Rightarrow> nat \<Rightarrow> 's" where
  "run ev s 0 = s"
| "run ev s (Suc k) = step (ev (count (run ev s k))) (run ev s k)"

lemma count_run: "count (run ev s k) = count s + k"
  by (induction k) (simp_all add: count_step)

lemma run_shift: "run ev (step (ev (count s)) s) k = run ev s (Suc k)"
  by (induction k) simp_all

lemma loop_reaches:
  "(\<And>j. j < k \<Longrightarrow> \<not> stops (ev (count s + j)) (count s + j)) \<Longrightarrow> loop ev s = loop ev (run ev s k)"
proof (induction k)
  case (Suc k)
  then have "loop ev s = loop ev (run ev s k)" by simp
  also have "\<dots> = loop ev (run ev s (Suc k))"
    using Suc.prems[of k] loop_unfold[of ev "run ev s k"] by (simp add: count_run)
  finally show ?case .
qed simp

lemma loop_returns:
  assumes "stops (ev k) k" and "count s \<le> k"
  shows "\<exists>n. loop ev s = Some (run ev s n) \<and> (\<forall>j. count s \<le> j \<and> j < count s + n \<longrightarrow> \<not> stops (ev j) j)"
proof -
  define n where "n = (LEAST n. stops (ev (count s + n)) (count s + n))"
  have "stops (ev (count s + (k - count s))) (count s + (k - count s))" using assms by simp
  then have n: "stops (ev (count s + n)) (count s + n)" unfolding n_def by (rule LeastI)
  have l: "\<not> stops (ev (count s + j)) (count s + j)" if "j < n" for j
    using that not_less_Least unfolding n_def by blast
  have "loop ev s = loop ev (run ev s n)" using l by (rule loop_reaches)
  also have "\<dots> = Some (run ev s n)" using n loop_unfold[of ev "run ev s n"] by (simp add: count_run)
  finally have r: "loop ev s = Some (run ev s n)" .
  have "\<not> stops (ev j) j" if "count s \<le> j" "j < count s + n" for j using l[of "j - count s"] that by simp
  with r show ?thesis by blast
qed

text \<open>The loop returns the state after the first iterations that did not stop it, or never returns.\<close>

lemma loop_result:
  obtains (returns) n where "loop ev s = Some (run ev s n)" "stops (ev (count s + n)) (count s + n)"
      "\<And>j. count s \<le> j \<Longrightarrow> j < count s + n \<Longrightarrow> \<not> stops (ev j) j"
  | (forever) "loop ev s = None" "\<And>k. count s \<le> k \<Longrightarrow> \<not> stops (ev k) k"
proof (cases "\<exists>k. count s \<le> k \<and> stops (ev k) k")
  case True
  then obtain n where n: "loop ev s = Some (run ev s n)" "\<forall>j. count s \<le> j \<and> j < count s + n \<longrightarrow> \<not> stops (ev j) j"
    using loop_returns by blast
  have "stops (ev (count s + n)) (count s + n)" using loop_stopped[OF n(1)] by (simp add: count_run)
  with n show ?thesis by (intro returns) auto
next
  case False
  have none: "loop ev s \<noteq> Some t" for t
    using loop_count[of ev s t] loop_stopped[of ev s t] False by blast
  then have "loop ev s = None" by (metis option.exhaust)
  with False show ?thesis by (intro forever) auto
qed

lemma run_inv: "P s \<Longrightarrow> (\<And>e t. P t \<Longrightarrow> P (step e t)) \<Longrightarrow> P (run ev s k)"
  by (induction k) simp_all

end

end
