(* ===== verification/JobState.thy ===== *)
theory JobState
  imports Interfaces
begin

text \<open>
  The job state machine, \<open>job_queue/state_machine.py\<close>: the eleven states, their stored names,
  the table of allowed transitions, and \<open>validate_transition\<close>.
\<close>

datatype job_state =
    Discovered
  | Queued
  | Assigned
  | InProgress
  | WaitingForRole
  | Researching
  | PendingApproval
  | ReadyForObsidian
  | Saved
  | FailedRetryable
  | FailedTerminal

text \<open>\<open>JobState.value\<close> and the constructor \<open>JobState(text)\<close> (a \<open>ValueError\<close> for an unknown name).\<close>

primrec job_state_value :: "job_state \<Rightarrow> string" where
  "job_state_value Discovered = ''discovered''"
| "job_state_value Queued = ''queued''"
| "job_state_value Assigned = ''assigned''"
| "job_state_value InProgress = ''in_progress''"
| "job_state_value WaitingForRole = ''waiting_for_role''"
| "job_state_value Researching = ''researching''"
| "job_state_value PendingApproval = ''pending_approval''"
| "job_state_value ReadyForObsidian = ''ready_for_obsidian''"
| "job_state_value Saved = ''saved''"
| "job_state_value FailedRetryable = ''failed_retryable''"
| "job_state_value FailedTerminal = ''failed_terminal''"

definition all_job_states :: "job_state list" where
  "all_job_states = [Discovered, Queued, Assigned, InProgress, WaitingForRole, Researching,
     PendingApproval, ReadyForObsidian, Saved, FailedRetryable, FailedTerminal]"

definition job_state_of_value :: "string \<Rightarrow> job_state option" where
  "job_state_of_value v = find (\<lambda>s. job_state_value s = v) all_job_states"

primrec STATE_TRANSITIONS :: "job_state \<Rightarrow> job_state set" where
  "STATE_TRANSITIONS Discovered = {Queued, FailedTerminal}"
| "STATE_TRANSITIONS Queued = {Assigned, WaitingForRole, FailedTerminal}"
| "STATE_TRANSITIONS Assigned = {InProgress, Queued, FailedRetryable}"
| "STATE_TRANSITIONS InProgress =
     {Researching, PendingApproval, ReadyForObsidian, Saved, FailedRetryable, FailedTerminal,
      WaitingForRole}"
| "STATE_TRANSITIONS WaitingForRole = {Queued, Assigned, FailedTerminal}"
| "STATE_TRANSITIONS Researching = {InProgress, ReadyForObsidian, FailedRetryable, FailedTerminal}"
| "STATE_TRANSITIONS PendingApproval = {InProgress, ReadyForObsidian, Saved, FailedTerminal}"
| "STATE_TRANSITIONS ReadyForObsidian = {Assigned, Saved, FailedRetryable, FailedTerminal}"
| "STATE_TRANSITIONS FailedRetryable = {Queued, FailedTerminal}"
| "STATE_TRANSITIONS Saved = {}"
| "STATE_TRANSITIONS FailedTerminal = {}"

definition TERMINAL_STATES :: "job_state set" where
  "TERMINAL_STATES = {Saved, FailedTerminal}"

definition is_terminal :: "job_state \<Rightarrow> bool" where
  "is_terminal s \<longleftrightarrow> s \<in> TERMINAL_STATES"

datatype transition_error = NoOpTransition job_state job_state | NotAllowed job_state job_state

definition validate_transition :: "job_state \<Rightarrow> job_state \<Rightarrow> transition_error + unit" where
  "validate_transition current target =
     (if current = target then Inl (NoOpTransition current target)
      else if target \<notin> STATE_TRANSITIONS current then Inl (NotAllowed current target)
      else Inr ())"

section \<open>Facts\<close>

lemma in_all_job_states [simp]: "s \<in> set all_job_states"
  by (cases s) (simp_all add: all_job_states_def)

lemma no_self_transition [simp]: "s \<notin> STATE_TRANSITIONS s"
  by (cases s) simp_all

lemma validate_transition_iff:
  "validate_transition s t = Inr u \<longleftrightarrow> t \<in> STATE_TRANSITIONS s"
  by (auto simp: validate_transition_def)

lemma terminal_simps [simp]:
  "is_terminal s \<longleftrightarrow> s = Saved \<or> s = FailedTerminal"
  by (simp add: is_terminal_def TERMINAL_STATES_def)

lemma terminal_iff_no_exit: "STATE_TRANSITIONS s = {} \<longleftrightarrow> is_terminal s"
  by (cases s) simp_all

lemma job_state_value_inj: "job_state_value s = job_state_value t \<Longrightarrow> s = t"
  by (cases s; cases t) simp_all

lemma job_state_of_value_roundtrip: "job_state_of_value (job_state_value s) = Some s"
  by (cases s) (simp_all add: job_state_of_value_def all_job_states_def)

lemma job_state_of_value_Some: "job_state_of_value v = Some s \<Longrightarrow> job_state_value s = v"
  by (auto simp: job_state_of_value_def find_Some_iff)

abbreviation job_edges :: "(job_state \<times> job_state) set" where
  "job_edges \<equiv> {(s, t). t \<in> STATE_TRANSITIONS s}"

lemma edge_path: "t \<in> STATE_TRANSITIONS s \<Longrightarrow> (s, t) \<in> job_edges\<^sup>*"
  by (rule r_into_rtrancl) simp

lemma can_finish: "\<exists>t. is_terminal t \<and> (s, t) \<in> job_edges\<^sup>*"
proof -
  have "(Assigned, FailedTerminal) \<in> job_edges\<^sup>*"
    by (rule rtrancl_trans[OF edge_path edge_path, of InProgress]) simp_all
  moreover have "(x, FailedTerminal) \<in> job_edges\<^sup>*"
    if "FailedTerminal \<in> STATE_TRANSITIONS x" for x
    using that by (rule edge_path)
  ultimately show ?thesis
    by (cases s) (force intro: exI[of _ FailedTerminal] exI[of _ Saved])+
qed

text \<open>
  Which states lead to \<open>saved\<close> in one step: a job is only saved out of work that ran, never
  straight out of the queue, a lease or a wait.
\<close>

lemma saved_entry: "Saved \<in> STATE_TRANSITIONS s \<longleftrightarrow> s \<in> {InProgress, PendingApproval, ReadyForObsidian}"
  by (cases s) simp_all

end
