(* ===== verification/JobQueue.thy ===== *)
theory JobQueue
  imports JobState
begin

text \<open>
  The job queue, \<open>job_queue/store.py\<close>: the two SQLite tables as lists of rows in insertion order,
  every method of \<open>JobQueue\<close> as a function from the tables to a result and the tables after it.
  Each method but \<open>requeue_retryable\<close>, which takes two, runs in one transaction that is rolled back when it raises,
  so a raising call returns the tables it was given. JSON columns are read back as the values written to them.
\<close>

record job =
  job_id :: string
  session_id :: string
  job_type :: string
  jstate :: job_state
  payload :: "json pydict"
  jresult :: "json pydict"
  jrole :: "string option"
  priority :: int
  attempt :: int
  max_attempts :: int
  available_at :: pyfloat
  picked_by :: "string option"
  picked_until :: "pyfloat option"
  created_at :: pyfloat
  updated_at :: pyfloat

record queue_db =
  job_rows :: "job list"
  dep_rows :: "(string \<times> string) list" \<comment> \<open>\<open>(job_id, parent_id)\<close>\<close>

datatype queue_error =
    SessionIdRequired
  | JobTypeRequired
  | MaxAttemptsTooSmall
  | WorkerIdRequired
  | UnknownJobId string
  | ExpectsFailedRetryable job_state
  | InvalidTransition transition_error
  | IntegrityError
  | QueueDatabaseError

type_synonym 'a queue_result = "(queue_error + 'a) \<times> queue_db"

definition empty_db :: queue_db where
  "empty_db = \<lparr>job_rows = [], dep_rows = []\<rparr>"

definition get_job :: "queue_db \<Rightarrow> string \<Rightarrow> job option" where
  "get_job db jid = find_key job_id jid (job_rows db)"

definition job_ids :: "queue_db \<Rightarrow> string set" where
  "job_ids db = job_id ` set (job_rows db)"

text \<open>\<open>UPDATE job_queue SET ... WHERE job_id = ?\<close>\<close>

definition update_job :: "string \<Rightarrow> (job \<Rightarrow> job) \<Rightarrow> queue_db \<Rightarrow> queue_db" where
  "update_job jid f db = db\<lparr>job_rows := update_where (\<lambda>r. job_id r = jid) f (job_rows db)\<rparr>"

section \<open>Producer side\<close>

text \<open>
  The two inserts. \<open>job_id\<close> is a primary key; \<open>foreign_keys = ON\<close> makes an unknown parent a
  constraint violation, which \<open>INSERT OR IGNORE\<close> does not absorb (it absorbs a repeated pair).
\<close>

fun insert_deps :: "string \<Rightarrow> string list \<Rightarrow> string set \<Rightarrow> (string \<times> string) list \<Rightarrow>
    (string \<times> string) list option" where
  "insert_deps jid [] ids deps = Some deps"
| "insert_deps jid (p # ps) ids deps =
     (if p = [] then insert_deps jid ps ids deps
      else if p \<notin> ids then None
      else insert_deps jid ps ids (if (jid, p) \<in> set deps then deps else deps @ [(jid, p)]))"

definition new_job :: "string \<Rightarrow> string \<Rightarrow> string \<Rightarrow> string option \<Rightarrow> json pydict \<Rightarrow> int \<Rightarrow> int \<Rightarrow>
    pyfloat \<Rightarrow> string list \<Rightarrow> pyfloat \<Rightarrow> job" where
  "new_job new_id sid jtype role pl prio maxa ready_at after_jobs now =
     \<lparr>job_id = new_id, session_id = sid, job_type = jtype,
      jstate = (if after_jobs \<noteq> [] then WaitingForRole else Queued),
      payload = pl, jresult = [], jrole = role, priority = prio, attempt = 0,
      max_attempts = maxa, available_at = ready_at, picked_by = None, picked_until = None,
      created_at = now, updated_at = now\<rparr>"

definition enqueue :: "string \<Rightarrow> string \<Rightarrow> string \<Rightarrow> string option \<Rightarrow> json pydict \<Rightarrow> int \<Rightarrow> int \<Rightarrow>
    pyfloat option \<Rightarrow> string list \<Rightarrow> pyfloat \<Rightarrow> queue_db \<Rightarrow> job queue_result" where
  "enqueue new_id sid jtype role pl prio maxa avail after_jobs now db =
     (if sid = [] then (Inl SessionIdRequired, db)
      else if jtype = [] then (Inl JobTypeRequired, db)
      else if maxa < 1 then (Inl MaxAttemptsTooSmall, db)
      else
        let ready_at = (case avail of Some a \<Rightarrow> a | None \<Rightarrow> now);
            job = new_job new_id sid jtype role pl prio maxa ready_at after_jobs now
        in if new_id \<in> job_ids db then (Inl IntegrityError, db)
           else case insert_deps new_id after_jobs (insert new_id (job_ids db)) (dep_rows db) of
                  None \<Rightarrow> (Inl IntegrityError, db)
                | Some deps \<Rightarrow> (Inr job, \<lparr>job_rows = job_rows db @ [job], dep_rows = deps\<rparr>))"

text \<open>
  \<open>enqueue_fanout\<close>: one \<open>enqueue\<close> per role, each its own transaction; \<open>fresh i\<close> is the id the
  \<open>i\<close>-th call draws. A raise keeps the rows of the calls before it.
\<close>

fun enqueue_fanout_from :: "nat \<Rightarrow> (nat \<Rightarrow> string) \<Rightarrow> string \<Rightarrow> string \<Rightarrow> string list \<Rightarrow> json pydict \<Rightarrow>
    int \<Rightarrow> string list \<Rightarrow> pyfloat \<Rightarrow> queue_db \<Rightarrow> job list queue_result" where
  "enqueue_fanout_from i fresh sid jtype [] pl prio after_jobs now db = (Inr [], db)"
| "enqueue_fanout_from i fresh sid jtype (r # rs) pl prio after_jobs now db =
     (case enqueue (fresh i) sid jtype (Some r) pl prio 3 None after_jobs now db of
        (Inl e, db1) \<Rightarrow> (Inl e, db1)
      | (Inr j, db1) \<Rightarrow>
          (case enqueue_fanout_from (Suc i) fresh sid jtype rs pl prio after_jobs now db1 of
             (Inl e, db2) \<Rightarrow> (Inl e, db2)
           | (Inr js, db2) \<Rightarrow> (Inr (j # js), db2)))"

definition enqueue_fanout :: "(nat \<Rightarrow> string) \<Rightarrow> string \<Rightarrow> string \<Rightarrow> string list \<Rightarrow> json pydict \<Rightarrow>
    int \<Rightarrow> string list \<Rightarrow> pyfloat \<Rightarrow> queue_db \<Rightarrow> job list queue_result" where
  "enqueue_fanout fresh sid jtype roles pl prio after_jobs now db =
     enqueue_fanout_from 0 fresh sid jtype roles pl prio after_jobs now db"

section \<open>Consumer side\<close>

definition DEFAULT_LEASE_SECONDS :: pyfloat where
  "DEFAULT_LEASE_SECONDS = 60"

definition deps_blocked :: "queue_db \<Rightarrow> string \<Rightarrow> bool" where
  "deps_blocked db jid \<longleftrightarrow>
     list_ex (\<lambda>(c, p). c = jid \<and>
       list_ex (\<lambda>pj. job_id pj = p \<and> jstate pj \<noteq> Saved) (job_rows db)) (dep_rows db)"

definition pick_eligible :: "queue_db \<Rightarrow> string list \<Rightarrow> string list \<Rightarrow> pyfloat \<Rightarrow> job \<Rightarrow> bool" where
  "pick_eligible db job_types roles now j \<longleftrightarrow>
     jstate j = Queued \<and> available_at j \<le> now
     \<and> (job_types = [] \<or> job_type j \<in> set job_types)
     \<and> (roles = [] \<or> (case jrole j of None \<Rightarrow> False | Some r \<Rightarrow> r \<in> set roles))
     \<and> \<not> deps_blocked db (job_id j)"

text \<open>\<open>ORDER BY priority DESC, available_at ASC, created_at ASC\<close>\<close>

definition pick_before :: "job \<Rightarrow> job \<Rightarrow> bool" where
  "pick_before a b \<longleftrightarrow>
     priority b < priority a
     \<or> priority a = priority b
       \<and> (available_at a < available_at b
          \<or> available_at a = available_at b \<and> created_at a \<le> created_at b)"

definition lease_until :: "pyfloat \<Rightarrow> pyfloat \<Rightarrow> pyfloat" where
  "lease_until now lease_seconds = now + max 1 lease_seconds"

text \<open>\<open>busy\<close> is true when \<open>BEGIN IMMEDIATE\<close> cannot get the write lock.\<close>

definition pick :: "bool \<Rightarrow> string \<Rightarrow> string list \<Rightarrow> string list \<Rightarrow> pyfloat \<Rightarrow> pyfloat \<Rightarrow> queue_db \<Rightarrow>
    job option queue_result" where
  "pick busy worker_id job_types roles lease_seconds now db =
     (if worker_id = [] then (Inl WorkerIdRequired, db)
      else if busy then (Inl QueueDatabaseError, db)
      else
        case sort_by pick_before (filter (pick_eligible db job_types roles now) (job_rows db)) of
          [] \<Rightarrow> (Inr None, db)
        | row # _ \<Rightarrow>
            (case validate_transition (jstate row) Assigned of
               Inl e \<Rightarrow> (Inl (InvalidTransition e), db)
             | Inr _ \<Rightarrow>
                 let claim = (\<lambda>j. j\<lparr>jstate := Assigned, picked_by := Some worker_id,
                       picked_until := Some (lease_until now lease_seconds), updated_at := now\<rparr>)
                 in (Inr (Some (claim row)), update_job (job_id row) claim db)))"

definition transition :: "string \<Rightarrow> job_state \<Rightarrow> json pydict option \<Rightarrow> pyfloat option \<Rightarrow> bool \<Rightarrow>
    bool \<Rightarrow> pyfloat \<Rightarrow> queue_db \<Rightarrow> job queue_result" where
  "transition jid target result avail clear_lease bump_attempt now db =
     (case get_job db jid of
        None \<Rightarrow> (Inl (UnknownJobId jid), db)
      | Some current \<Rightarrow>
          (case validate_transition (jstate current) target of
             Inl e \<Rightarrow> (Inl (InvalidTransition e), db)
           | Inr _ \<Rightarrow>
               let upd = (\<lambda>j. j\<lparr>
                     jstate := target,
                     jresult := (case result of None \<Rightarrow> jresult j
                                 | Some r \<Rightarrow> dict_merge (jresult j) r),
                     attempt := (if bump_attempt then attempt j + 1 else attempt j),
                     available_at := (case avail of None \<Rightarrow> available_at j | Some a \<Rightarrow> a),
                     picked_by := (if clear_lease then None else picked_by j),
                     picked_until := (if clear_lease then None else picked_until j),
                     updated_at := now\<rparr>)
               in (Inr (upd current), update_job jid upd db)))"

definition lease_active_states :: "job_state set" where
  "lease_active_states =
     {Assigned, InProgress, Researching, ReadyForObsidian, WaitingForRole, PendingApproval}"

definition renew_lease :: "string \<Rightarrow> pyfloat \<Rightarrow> string option \<Rightarrow> pyfloat \<Rightarrow> queue_db \<Rightarrow>
    job option queue_result" where
  "renew_lease jid lease_seconds worker_id now db =
     (case get_job db jid of
        None \<Rightarrow> (Inr None, db)
      | Some current \<Rightarrow>
          if jstate current \<notin> lease_active_states then (Inr None, db)
          else if (case worker_id of None \<Rightarrow> False
                   | Some w \<Rightarrow> (case picked_by current of None \<Rightarrow> [] | Some p \<Rightarrow> p) \<noteq> w)
          then (Inr None, db)
          else
            let upd = (\<lambda>j. j\<lparr>picked_until := Some (lease_until now lease_seconds),
                              updated_at := now\<rparr>)
            in (Inr (Some (upd current)), update_job jid upd db))"

section \<open>Read helpers\<close>

definition list_for_session :: "string \<Rightarrow> job_state list \<Rightarrow> queue_db \<Rightarrow> job list" where
  "list_for_session sid states db =
     sort_by (\<lambda>a b. created_at a \<le> created_at b)
       (filter (\<lambda>j. session_id j = sid \<and> (states = [] \<or> jstate j \<in> set states)) (job_rows db))"

definition count_by_type_and_state :: "queue_db \<Rightarrow> string \<times> string \<Rightarrow> nat option" where
  "count_by_type_and_state db key =
     (let n = length (filter (\<lambda>j. (job_type j, job_state_value (jstate j)) = key) (job_rows db))
      in if n = 0 then None else Some n)"

fun min_option :: "pyfloat list \<Rightarrow> pyfloat option" where
  "min_option [] = None"
| "min_option (x # xs) = Some (case min_option xs of None \<Rightarrow> x | Some y \<Rightarrow> min x y)"

definition oldest_queued_at_per_type :: "queue_db \<Rightarrow> string \<Rightarrow> pyfloat option" where
  "oldest_queued_at_per_type db jtype =
     min_option (map available_at
       (filter (\<lambda>j. jstate j = Queued \<and> job_type j = jtype) (job_rows db)))"

definition recent_failed :: "int \<Rightarrow> job_state list \<Rightarrow> queue_db \<Rightarrow> job list" where
  "recent_failed limit states db =
     (if states = [] then []
      else if limit \<le> 0 then []
      else take (nat limit)
             (sort_by (\<lambda>a b. updated_at b \<le> updated_at a)
               (filter (\<lambda>j. jstate j \<in> set states) (job_rows db))))"

section \<open>Maintenance\<close>

definition reap_states :: "job_state set" where
  "reap_states = {Assigned, InProgress, Researching, ReadyForObsidian}"

definition lease_expired :: "pyfloat \<Rightarrow> job \<Rightarrow> bool" where
  "lease_expired now j \<longleftrightarrow>
     jstate j \<in> reap_states \<and> (case picked_until j of None \<Rightarrow> False | Some u \<Rightarrow> u \<le> now)"

definition json_opt_str :: "string option \<Rightarrow> json" where
  "json_opt_str x = (case x of None \<Rightarrow> JNull | Some s \<Rightarrow> JStr s)"

definition json_opt_num :: "pyfloat option \<Rightarrow> json" where
  "json_opt_num x = (case x of None \<Rightarrow> JNull | Some n \<Rightarrow> JNum n)"

definition reaped_result :: "pyfloat \<Rightarrow> job \<Rightarrow> json pydict" where
  "reaped_result now j = dict_merge (jresult j)
     [(''error'', JStr ''lease_expired''),
      (''reaped_at'', JNum now),
      (''previous_picked_by'', json_opt_str (picked_by j)),
      (''previous_picked_until'', json_opt_num (picked_until j)),
      (''previous_state'', JStr (job_state_value (jstate j)))]"

definition reap_row :: "pyfloat \<Rightarrow> job \<Rightarrow> job" where
  "reap_row now j = j\<lparr>jstate := FailedRetryable, jresult := reaped_result now j,
     picked_by := None, picked_until := None, updated_at := now\<rparr>"

text \<open>The loop over the selected rows; a row whose transition is refused is skipped.\<close>

fun reap_loop :: "pyfloat \<Rightarrow> job list \<Rightarrow> queue_db \<Rightarrow> job list \<times> queue_db" where
  "reap_loop now [] db = ([], db)"
| "reap_loop now (j # js) db =
     (case validate_transition (jstate j) FailedRetryable of
        Inl _ \<Rightarrow> reap_loop now js db
      | Inr _ \<Rightarrow>
          (let db1 = update_job (job_id j) (\<lambda>_. reap_row now j) db;
               (moved, db2) = reap_loop now js db1
           in (reap_row now j # moved, db2)))"

definition reap_expired_leases :: "pyfloat \<Rightarrow> queue_db \<Rightarrow> job list \<times> queue_db" where
  "reap_expired_leases now db = reap_loop now (filter (lease_expired now) (job_rows db)) db"

text \<open>
  \<open>requeue_retryable\<close> reads the row with \<open>get\<close>, in a transaction of its own, and then moves it
  with \<open>transition\<close>: \<open>requeue_decide\<close> is the part before the second transaction (the checks and
  the arguments it chooses), \<open>requeue_apply\<close> the second transaction. \<open>requeue_retryable\<close> is the call that nothing
  interrupts; \<open>JobRecovery\<close> has the two transactions as steps of their own, with other processes in between.
\<close>

record requeue_plan =
  rq_target :: job_state
  rq_available :: "pyfloat option"
  rq_bump :: bool

definition requeue_decide :: "string \<Rightarrow> pyfloat \<Rightarrow> pyfloat \<Rightarrow> queue_db \<Rightarrow> queue_error + requeue_plan" where
  "requeue_decide jid backoff_seconds now db =
     (case get_job db jid of
        None \<Rightarrow> Inl (UnknownJobId jid)
      | Some current \<Rightarrow>
          if jstate current \<noteq> FailedRetryable then Inl (ExpectsFailedRetryable (jstate current))
          else if attempt current + 1 \<ge> max_attempts current
          then Inr \<lparr>rq_target = FailedTerminal, rq_available = None, rq_bump = False\<rparr>
          else Inr \<lparr>rq_target = Queued, rq_available = Some (now + max 0 backoff_seconds),
                    rq_bump = True\<rparr>)"

definition requeue_apply :: "string \<Rightarrow> requeue_plan \<Rightarrow> pyfloat \<Rightarrow> queue_db \<Rightarrow> job queue_result" where
  "requeue_apply jid plan now db =
     transition jid (rq_target plan) None (rq_available plan) True (rq_bump plan) now db"

definition requeue_retryable :: "string \<Rightarrow> pyfloat \<Rightarrow> pyfloat \<Rightarrow> queue_db \<Rightarrow> job queue_result" where
  "requeue_retryable jid backoff_seconds now db =
     (case requeue_decide jid backoff_seconds now db of
        Inl e \<Rightarrow> (Inl e, db)
      | Inr plan \<Rightarrow> requeue_apply jid plan now db)"

end
