(* ===== verification/JobQueueLemmas.thy ===== *)
theory JobQueueLemmas
  imports JobQueue
begin

text \<open>
  Lemmas about the job queue: well-formed tables, what one method may do to a row, the methods as
  one kind of operation so that a history is a list, and the interfaces the queue provides.
\<close>

section \<open>Well-formed tables\<close>

definition row_ok :: "job \<Rightarrow> bool" where
  "row_ok j \<longleftrightarrow> 0 \<le> attempt j \<and> 1 \<le> max_attempts j \<and> (picked_by j \<noteq> None \<longrightarrow> picked_until j \<noteq> None)"

definition queue_wf :: "queue_db \<Rightarrow> bool" where
  "queue_wf db \<longleftrightarrow> distinct (map job_id (job_rows db))
     \<and> (\<forall>(c, p) \<in> set (dep_rows db). c \<in> job_ids db \<and> p \<in> job_ids db)
     \<and> distinct (dep_rows db)
     \<and> (\<forall>j \<in> set (job_rows db). row_ok j)"

text \<open>What one call may do to a row that is already in the table.\<close>

definition row_evolves :: "job \<Rightarrow> job \<Rightarrow> bool" where
  "row_evolves j j' \<longleftrightarrow>
     job_id j' = job_id j \<and> session_id j' = session_id j \<and> job_type j' = job_type j
     \<and> payload j' = payload j \<and> jrole j' = jrole j \<and> priority j' = priority j
     \<and> max_attempts j' = max_attempts j \<and> created_at j' = created_at j
     \<and> attempt j \<le> attempt j'
     \<and> (j' = j \<or> jstate j' = jstate j \<and> jstate j \<in> lease_active_states
         \<or> jstate j' \<in> STATE_TRANSITIONS (jstate j))"

lemma row_evolves_refl [simp]: "row_evolves j j"
  by (simp add: row_evolves_def)

lemma row_evolves_state: "row_evolves j j' \<Longrightarrow> jstate j' = jstate j \<or> jstate j' \<in> STATE_TRANSITIONS (jstate j)"
  by (auto simp: row_evolves_def)

lemma row_evolves_terminal: "row_evolves j j' \<Longrightarrow> is_terminal (jstate j) \<Longrightarrow> j' = j"
  by (auto simp: row_evolves_def lease_active_states_def)

definition db_evolves :: "queue_db \<Rightarrow> queue_db \<Rightarrow> bool" where
  "db_evolves db db' \<longleftrightarrow>
     (\<forall>jid j. get_job db jid = Some j \<longrightarrow> (\<exists>j'. get_job db' jid = Some j' \<and> row_evolves j j'))"

lemma db_evolves_refl [simp]: "db_evolves db db"
  by (auto simp: db_evolves_def)

lemma db_evolvesD:
  "db_evolves db db' \<Longrightarrow> get_job db jid = Some j \<Longrightarrow>
    \<exists>j'. get_job db' jid = Some j' \<and> row_evolves j j'"
  by (auto simp: db_evolves_def)

section \<open>Lookups and updates\<close>

lemma get_job_SomeD: "get_job db jid = Some j \<Longrightarrow> j \<in> set (job_rows db) \<and> job_id j = jid"
  by (auto simp: get_job_def dest: find_key_SomeD)

lemma get_job_in: "queue_wf db \<Longrightarrow> j \<in> set (job_rows db) \<Longrightarrow> get_job db (job_id j) = Some j"
  by (auto simp: get_job_def queue_wf_def intro: find_key_unique)

lemma get_job_exists: "jid \<in> job_ids db \<longleftrightarrow> (\<exists>j. get_job db jid = Some j)"
  unfolding get_job_def job_ids_def
  by (metis find_key_None_iff option.distinct(1) option.exhaust)

lemma update_job_deps [simp]: "dep_rows (update_job jid f db) = dep_rows db"
  by (simp add: update_job_def)

lemma get_job_update_job:
  assumes "\<And>j. job_id j = jid \<Longrightarrow> job_id (f j) = jid"
  shows "get_job (update_job jid f db) k =
    (if k = jid then map_option f (get_job db jid) else get_job db k)"
proof (cases "k = jid")
  case True
  have "find_key job_id jid (update_where (\<lambda>r. job_id r = jid) f rs) =
      map_option f (find_key job_id jid rs)" for rs
    using assms by (induction rs) (auto simp: find_key_def)
  with True show ?thesis by (simp add: get_job_def update_job_def)
next
  case False
  have "find_key job_id k (update_where (\<lambda>r. job_id r = jid) f rs) = find_key job_id k rs" for rs
    using assms False by (induction rs) (auto simp: find_key_def)
  with False show ?thesis by (simp add: get_job_def update_job_def)
qed

lemma map_id_update_job:
  "(\<And>j. job_id j = jid \<Longrightarrow> job_id (f j) = jid) \<Longrightarrow>
    map job_id (job_rows (update_job jid f db)) = map job_id (job_rows db)"
  unfolding update_job_def by (simp add: map_update_where)

lemma job_ids_update_job:
  "(\<And>j. job_id j = jid \<Longrightarrow> job_id (f j) = jid) \<Longrightarrow> job_ids (update_job jid f db) = job_ids db"
  unfolding job_ids_def using map_id_update_job[of jid f db] by (metis list.set_map)

lemma queue_wf_update_job:
  assumes "queue_wf db" and "\<And>j. job_id j = jid \<Longrightarrow> job_id (f j) = jid"
    and "\<And>j. j \<in> set (job_rows db) \<Longrightarrow> job_id j = jid \<Longrightarrow> row_ok j \<Longrightarrow> row_ok (f j)"
  shows "queue_wf (update_job jid f db)"
proof -
  have "\<forall>j \<in> set (job_rows (update_job jid f db)). row_ok j"
    using assms(1,3) by (auto simp: update_job_def set_update_where queue_wf_def)
  with assms(1,2) show ?thesis
    by (simp add: queue_wf_def map_id_update_job job_ids_update_job)
qed

lemma db_evolves_update_job:
  assumes "\<And>j. job_id j = jid \<Longrightarrow> job_id (f j) = jid"
    and "\<And>j. get_job db jid = Some j \<Longrightarrow> row_evolves j (f j)"
  shows "db_evolves db (update_job jid f db)"
  using assms(2) by (auto simp: db_evolves_def get_job_update_job[OF assms(1)])

lemma update_job_rows:
  assumes "row \<in> set (job_rows db)" and "queue_wf db"
  shows "job_rows (update_job (job_id row) f db) =
    map (\<lambda>r. if job_id r = job_id row then f row else r) (job_rows db)"
  using assms distinct_rows_eq[of job_id "job_rows db" _ row]
  by (auto simp: update_job_def update_where_def queue_wf_def)

section \<open>enqueue\<close>

lemma insert_deps_SomeD:
  assumes "insert_deps jid ps ids deps = Some deps'" and "distinct deps"
  shows "set deps' = set deps \<union> {(jid, p) | p. p \<in> set ps \<and> p \<noteq> []} \<and> distinct deps'
    \<and> (\<forall>p \<in> set ps. p \<noteq> [] \<longrightarrow> p \<in> ids)"
  using assms
proof (induction jid ps ids deps arbitrary: deps' rule: insert_deps.induct)
  case (1 jid ids deps)
  then show ?case by simp
next
  case (2 jid p ps ids deps)
  show ?case
  proof (cases "p = []")
    case True
    with 2 show ?thesis by auto
  next
    case False
    with "2.prems" have p: "p \<in> ids" by (auto split: if_splits)
    let ?d = "if (jid, p) \<in> set deps then deps else deps @ [(jid, p)]"
    have "set deps' = set ?d \<union> {(jid, p) | p. p \<in> set ps \<and> p \<noteq> []} \<and> distinct deps'
      \<and> (\<forall>p \<in> set ps. p \<noteq> [] \<longrightarrow> p \<in> ids)"
      using False p "2.IH"(2)[of deps'] "2.prems" by auto
    with False p show ?thesis by (auto split: if_splits)
  qed
qed

lemma enqueue_Inr:
  assumes "enqueue new_id sid jtype role pl prio maxa avail after_jobs now db = (Inr j, db')"
  obtains deps where "new_id \<notin> job_ids db" "sid \<noteq> []" "jtype \<noteq> []" "1 \<le> maxa"
    "j = new_job new_id sid jtype role pl prio maxa (case avail of Some a \<Rightarrow> a | None \<Rightarrow> now) after_jobs now"
    "db' = \<lparr>job_rows = job_rows db @ [j], dep_rows = deps\<rparr>"
    "insert_deps new_id after_jobs (insert new_id (job_ids db)) (dep_rows db) = Some deps"
  using assms by (auto simp: enqueue_def Let_def split: if_splits option.splits)

lemma enqueue_Inl:
  "enqueue new_id sid jtype role pl prio maxa avail after_jobs now db = (Inl e, db') \<Longrightarrow> db' = db"
  by (auto simp: enqueue_def Let_def split: if_splits option.splits)

lemma enqueue_wf:
  assumes wf: "queue_wf db"
    and e: "enqueue new_id sid jtype role pl prio maxa avail after_jobs now db = (r, db')"
  shows "queue_wf db'"
proof (cases r)
  case (Inl x)
  with e wf show ?thesis using enqueue_Inl by blast
next
  case (Inr j)
  from e[unfolded Inr] obtain deps where new: "new_id \<notin> job_ids db" and maxa: "1 \<le> maxa"
    and j: "j = new_job new_id sid jtype role pl prio maxa (case avail of Some a \<Rightarrow> a | None \<Rightarrow> now) after_jobs now"
    and db': "db' = \<lparr>job_rows = job_rows db @ [j], dep_rows = deps\<rparr>"
    and deps: "insert_deps new_id after_jobs (insert new_id (job_ids db)) (dep_rows db) = Some deps"
    by (rule enqueue_Inr)
  from j have id: "job_id j = new_id" by (simp add: new_job_def)
  have ids: "job_ids db' = insert new_id (job_ids db)" by (auto simp: db' job_ids_def id)
  have "set deps = set (dep_rows db) \<union> {(new_id, p) | p. p \<in> set after_jobs \<and> p \<noteq> []}"
    "distinct deps" "\<forall>p \<in> set after_jobs. p \<noteq> [] \<longrightarrow> p \<in> insert new_id (job_ids db)"
    using insert_deps_SomeD[OF deps] wf by (auto simp: queue_wf_def)
  moreover have "row_ok j" using maxa by (simp add: j new_job_def row_ok_def)
  moreover have "distinct (map job_id (job_rows db'))"
    using wf new id by (auto simp: db' queue_wf_def job_ids_def)
  ultimately show ?thesis
    using wf by (auto simp: queue_wf_def ids) (auto simp: db')
qed

lemma enqueue_evolves:
  assumes "enqueue new_id sid jtype role pl prio maxa avail after_jobs now db = (r, db')"
  shows "db_evolves db db'"
proof (cases r)
  case (Inl x)
  with assms show ?thesis using enqueue_Inl by fastforce
next
  case (Inr j)
  with assms show ?thesis
    by (auto elim!: enqueue_Inr simp: db_evolves_def get_job_def find_key_append)
qed

section \<open>pick\<close>

lemma total_preorder_pick_before: "total_preorder pick_before"
  unfolding total_preorder_def pick_before_def by auto

lemma pick_cases:
  assumes "pick busy w types roles lease now db = (r, db')"
  obtains (error) e where "r = Inl e" "db' = db"
  | (none) "r = Inr None" "db' = db" "filter (pick_eligible db types roles now) (job_rows db) = []"
  | (claimed) row rest where
      "sort_by pick_before (filter (pick_eligible db types roles now) (job_rows db)) = row # rest"
      "row \<in> set (job_rows db)" "pick_eligible db types roles now row" "w \<noteq> []"
      "r = Inr (Some (row\<lparr>jstate := Assigned, picked_by := Some w,
             picked_until := Some (lease_until now lease), updated_at := now\<rparr>))"
      "db' = update_job (job_id row) (\<lambda>j. j\<lparr>jstate := Assigned, picked_by := Some w,
             picked_until := Some (lease_until now lease), updated_at := now\<rparr>) db"
proof (cases "sort_by pick_before (filter (pick_eligible db types roles now) (job_rows db))")
  case Nil
  then have f: "filter (pick_eligible db types roles now) (job_rows db) = []" by simp
  show ?thesis
    using assms none error f by (auto simp: pick_def split: if_splits)
next
  case (Cons row rest)
  then have "row \<in> set (filter (pick_eligible db types roles now) (job_rows db))"
    by (metis list.set_intros(1) set_sort_by)
  then have row: "row \<in> set (job_rows db)" "pick_eligible db types roles now row" by auto
  then have "jstate row = Queued" by (simp add: pick_eligible_def)
  then have v: "validate_transition (jstate row) Assigned = Inr ()"
    by (simp add: validate_transition_def)
  show ?thesis
  proof (cases "w = [] \<or> busy")
    case True
    with assms error show ?thesis by (auto simp: pick_def split: if_splits)
  next
    case False
    with assms Cons v row show ?thesis
      by (intro claimed[of row rest]) (auto simp: pick_def Let_def)
  qed
qed

lemma pick_not_error:
  assumes "w \<noteq> []"
  shows "pick False w types roles lease now db \<noteq> (Inl e, db')"
proof (cases "sort_by pick_before (filter (pick_eligible db types roles now) (job_rows db))")
  case Nil
  with assms show ?thesis by (simp add: pick_def)
next
  case (Cons row rest)
  then have "row \<in> set (filter (pick_eligible db types roles now) (job_rows db))"
    by (metis list.set_intros(1) set_sort_by)
  then have "validate_transition (jstate row) Assigned = Inr ()"
    by (simp add: validate_transition_def pick_eligible_def)
  with assms Cons show ?thesis by (simp add: pick_def Let_def)
qed

lemma pick_wf: "queue_wf db \<Longrightarrow> pick busy w types roles lease now db = (r, db') \<Longrightarrow> queue_wf db'"
  by (erule pick_cases) (auto intro!: queue_wf_update_job simp: row_ok_def)

lemma pick_evolves:
  assumes "queue_wf db" and "pick busy w types roles lease now db = (r, db')"
  shows "db_evolves db db'"
  using assms(2)
proof (cases rule: pick_cases)
  case (claimed row rest)
  have "get_job db (job_id row) = Some row" using assms(1) claimed(2) by (rule get_job_in)
  with claimed show ?thesis
    by (auto intro!: db_evolves_update_job simp: row_evolves_def pick_eligible_def)
qed auto

section \<open>transition, renew_lease, requeue_retryable\<close>

lemma transition_cases:
  assumes "transition jid target res avail clear bump now db = (r, db')"
  obtains (error) e where "r = Inl e" "db' = db"
  | (moved) current f where "get_job db jid = Some current" "target \<in> STATE_TRANSITIONS (jstate current)"
      "r = Inr (f current)" "db' = update_job jid f db"
      "f = (\<lambda>j. j\<lparr>jstate := target,
              jresult := (case res of None \<Rightarrow> jresult j | Some x \<Rightarrow> dict_merge (jresult j) x),
              attempt := (if bump then attempt j + 1 else attempt j),
              available_at := (case avail of None \<Rightarrow> available_at j | Some a \<Rightarrow> a),
              picked_by := (if clear then None else picked_by j),
              picked_until := (if clear then None else picked_until j),
              updated_at := now\<rparr>)"
  using assms
  by (auto simp: transition_def Let_def validate_transition_def split: option.splits sum.splits if_splits)

lemma transition_wf:
  "queue_wf db \<Longrightarrow> transition jid target res avail clear bump now db = (r, db') \<Longrightarrow> queue_wf db'"
  by (erule transition_cases) (auto intro!: queue_wf_update_job simp: row_ok_def)

lemma transition_evolves:
  assumes "transition jid target res avail clear bump now db = (r, db')"
  shows "db_evolves db db'"
  using assms
  by (cases rule: transition_cases) (auto intro!: db_evolves_update_job simp: row_evolves_def)

lemma renew_lease_cases:
  assumes "renew_lease jid lease w now db = (r, db')"
  obtains (refused) "r = Inr None" "db' = db"
  | (renewed) current f where "get_job db jid = Some current" "jstate current \<in> lease_active_states"
      "r = Inr (Some (f current))" "db' = update_job jid f db"
      "\<And>v. w = Some v \<Longrightarrow> v \<noteq> [] \<Longrightarrow> picked_by current = Some v"
      "f = (\<lambda>j. j\<lparr>picked_until := Some (lease_until now lease), updated_at := now\<rparr>)"
  using assms
  by (auto simp: renew_lease_def Let_def split: option.splits if_splits)

lemma renew_lease_wf:
  "queue_wf db \<Longrightarrow> renew_lease jid lease w now db = (r, db') \<Longrightarrow> queue_wf db'"
  by (erule renew_lease_cases) (auto intro!: queue_wf_update_job simp: row_ok_def)

lemma renew_lease_evolves:
  assumes "renew_lease jid lease w now db = (r, db')"
  shows "db_evolves db db'"
  using assms
  by (cases rule: renew_lease_cases) (auto intro!: db_evolves_update_job simp: row_evolves_def)

lemma requeue_as_transition:
  assumes "requeue_retryable jid backoff now db = (r, db')"
  obtains (error) e where "r = Inl e" "db' = db"
  | (terminal) current where "get_job db jid = Some current" "jstate current = FailedRetryable"
      "max_attempts current \<le> attempt current + 1"
      "transition jid FailedTerminal None None True False now db = (r, db')"
  | (queued) current where "get_job db jid = Some current" "jstate current = FailedRetryable"
      "attempt current + 1 < max_attempts current"
      "transition jid Queued None (Some (now + max 0 backoff)) True True now db = (r, db')"
  using assms
  by (auto simp: requeue_retryable_def requeue_decide_def requeue_apply_def
      split: option.splits if_splits)

lemma requeue_wf: "queue_wf db \<Longrightarrow> requeue_retryable jid backoff now db = (r, db') \<Longrightarrow> queue_wf db'"
  by (erule requeue_as_transition) (auto dest: transition_wf)

lemma requeue_evolves:
  assumes "requeue_retryable jid backoff now db = (r, db')"
  shows "db_evolves db db'"
  using assms by (cases rule: requeue_as_transition) (auto dest: transition_evolves)

section \<open>reap_expired_leases\<close>

lemma reap_row_id [simp]: "job_id (reap_row now j) = job_id j"
  by (simp add: reap_row_def)

lemma reap_states_retryable: "s \<in> reap_states \<Longrightarrow> validate_transition s FailedRetryable = Inr ()"
  by (auto simp: reap_states_def validate_transition_def)

lemma reap_loop_rows:
  assumes "distinct (map job_id js)" and "\<And>j. j \<in> set js \<Longrightarrow> jstate j \<in> reap_states"
  shows "fst (reap_loop now js db) = map (reap_row now) js
    \<and> dep_rows (snd (reap_loop now js db)) = dep_rows db
    \<and> job_rows (snd (reap_loop now js db)) =
      map (\<lambda>r. case find_key job_id (job_id r) js of None \<Rightarrow> r | Some j \<Rightarrow> reap_row now j) (job_rows db)"
  using assms
proof (induction js arbitrary: db)
  case Nil
  then show ?case by (simp add: find_key_def)
next
  case (Cons j js)
  then have v: "validate_transition (jstate j) FailedRetryable = Inr ()"
    by (simp add: reap_states_retryable)
  let ?db1 = "update_job (job_id j) (\<lambda>_. reap_row now j) db"
  have IH: "fst (reap_loop now js ?db1) = map (reap_row now) js
    \<and> dep_rows (snd (reap_loop now js ?db1)) = dep_rows ?db1
    \<and> job_rows (snd (reap_loop now js ?db1)) =
      map (\<lambda>r. case find_key job_id (job_id r) js of None \<Rightarrow> r | Some j \<Rightarrow> reap_row now j) (job_rows ?db1)"
    using Cons.IH[of ?db1] Cons.prems by auto
  have fresh: "find_key job_id (job_id j) js = None"
    using Cons.prems(1) by (auto simp: find_key_None_iff)
  have "map (\<lambda>r. case find_key job_id (job_id r) js of None \<Rightarrow> r | Some j \<Rightarrow> reap_row now j) (job_rows ?db1)
    = map (\<lambda>r. case find_key job_id (job_id r) (j # js) of None \<Rightarrow> r | Some j \<Rightarrow> reap_row now j) (job_rows db)"
    using fresh by (auto simp: update_job_def update_where_def find_key_def)
  with IH v show ?case
    by (simp add: Let_def split_beta)
qed

lemma reap_rows:
  assumes "queue_wf db"
  shows "job_rows (snd (reap_expired_leases now db)) =
      map (\<lambda>j. if lease_expired now j then reap_row now j else j) (job_rows db)"
    and "fst (reap_expired_leases now db) = map (reap_row now) (filter (lease_expired now) (job_rows db))"
    and "dep_rows (snd (reap_expired_leases now db)) = dep_rows db"
proof -
  let ?js = "filter (lease_expired now) (job_rows db)"
  have d: "distinct (map job_id (job_rows db))" using assms by (simp add: queue_wf_def)
  have dj: "distinct (map job_id ?js)" using d by (simp add: distinct_map_filter)
  have st: "\<And>j. j \<in> set ?js \<Longrightarrow> jstate j \<in> reap_states" by (simp add: lease_expired_def)
  have look: "find_key job_id (job_id r) ?js = (if lease_expired now r then Some r else None)"
    if r: "r \<in> set (job_rows db)" for r
  proof (cases "lease_expired now r")
    case True
    with r show ?thesis using find_key_unique[OF dj, of r] by simp
  next
    case False
    then have "job_id r \<notin> job_id ` set ?js"
      using distinct_rows_eq[OF d r] by auto
    with False show ?thesis by (simp add: find_key_None_iff)
  qed
  note loop = reap_loop_rows[OF dj st, where db = db and now = now]
  show "job_rows (snd (reap_expired_leases now db)) =
      map (\<lambda>j. if lease_expired now j then reap_row now j else j) (job_rows db)"
    using loop look by (auto simp: reap_expired_leases_def)
  show "fst (reap_expired_leases now db) = map (reap_row now) ?js"
    and "dep_rows (snd (reap_expired_leases now db)) = dep_rows db"
    using loop by (auto simp: reap_expired_leases_def)
qed

lemma find_key_map:
  "(\<And>r. key (f r) = key r) \<Longrightarrow> find_key key k (map f rs) = map_option f (find_key key k rs)"
  by (induction rs) (auto simp: find_key_def)

lemma get_job_reap:
  "queue_wf db \<Longrightarrow> get_job (snd (reap_expired_leases now db)) jid =
    map_option (\<lambda>j. if lease_expired now j then reap_row now j else j) (get_job db jid)"
  unfolding get_job_def by (subst reap_rows(1), assumption) (simp add: find_key_map)

lemma reap_again:
  assumes "queue_wf db"
  shows "reap_expired_leases now (snd (reap_expired_leases now db)) = ([], snd (reap_expired_leases now db))"
proof -
  have "\<not> lease_expired now (reap_row now j)" for j
    by (simp add: lease_expired_def reap_row_def reap_states_def)
  then have "filter (lease_expired now) (job_rows (snd (reap_expired_leases now db))) = []"
    by (auto simp: reap_rows[OF assms] filter_empty_conv)
  then show ?thesis by (simp add: reap_expired_leases_def[of now "snd (reap_expired_leases now db)"])
qed

lemma reap_wf:
  assumes "queue_wf db"
  shows "queue_wf (snd (reap_expired_leases now db))"
proof -
  have m: "map job_id (job_rows (snd (reap_expired_leases now db))) = map job_id (job_rows db)"
    by (simp add: reap_rows[OF assms])
  then have ids: "job_ids (snd (reap_expired_leases now db)) = job_ids db"
    unfolding job_ids_def by (metis list.set_map)
  have "\<forall>j \<in> set (job_rows (snd (reap_expired_leases now db))). row_ok j"
    using assms by (auto simp: reap_rows[OF assms] queue_wf_def row_ok_def reap_row_def)
  with m ids assms show ?thesis by (simp add: queue_wf_def reap_rows(3)[OF assms])
qed

lemma reap_evolves:
  assumes "queue_wf db"
  shows "db_evolves db (snd (reap_expired_leases now db))"
proof -
  have "row_evolves j (reap_row now j)" if "lease_expired now j" for j
    using that by (auto simp: row_evolves_def reap_row_def lease_expired_def reap_states_def)
  then show ?thesis by (auto simp: db_evolves_def get_job_reap[OF assms])
qed

end
