(* ===== verification/JobQueueHistory.thy ===== *)
theory JobQueueHistory
  imports JobQueueLemmas
begin

text \<open>
  Histories of the job queue: every method that changes the tables as one kind of operation, a
  history as a list of them, and the interfaces the queue provides, interpreted on it.
\<close>

datatype queue_op =
    OpEnqueue string string string "string option" "json pydict" int int "pyfloat option"
      "string list" pyfloat
  | OpPick bool string "string list" "string list" pyfloat pyfloat
  | OpTransition string job_state "json pydict option" "pyfloat option" bool bool pyfloat
  | OpRenewLease string pyfloat "string option" pyfloat
  | OpReap pyfloat
  | OpRequeue string pyfloat pyfloat

primrec apply_op :: "queue_op \<Rightarrow> queue_db \<Rightarrow> queue_db" where
  "apply_op (OpEnqueue i s t r p n m a d w) db = snd (enqueue i s t r p n m a d w db)"
| "apply_op (OpPick b w ts rs l n) db = snd (pick b w ts rs l n db)"
| "apply_op (OpTransition i t r a c b n) db = snd (transition i t r a c b n db)"
| "apply_op (OpRenewLease i l w n) db = snd (renew_lease i l w n db)"
| "apply_op (OpReap n) db = snd (reap_expired_leases n db)"
| "apply_op (OpRequeue i b n) db = snd (requeue_retryable i b n db)"

abbreviation run_queue :: "queue_op list \<Rightarrow> queue_db \<Rightarrow> queue_db" where
  "run_queue ops db \<equiv> fold apply_op ops db"

lemma apply_op_wf: "queue_wf db \<Longrightarrow> queue_wf (apply_op op db)"
  by (cases op)
    (auto intro: enqueue_wf[OF _ surjective_pairing] pick_wf[OF _ surjective_pairing]
      transition_wf[OF _ surjective_pairing] renew_lease_wf[OF _ surjective_pairing]
      requeue_wf[OF _ surjective_pairing] reap_wf)

lemma apply_op_evolves: "queue_wf db \<Longrightarrow> db_evolves db (apply_op op db)"
  by (cases op)
    (auto intro: enqueue_evolves[OF surjective_pairing] pick_evolves[OF _ surjective_pairing]
      transition_evolves[OF surjective_pairing] renew_lease_evolves[OF surjective_pairing]
      requeue_evolves[OF surjective_pairing] reap_evolves)

lemma run_queue_wf: "queue_wf db \<Longrightarrow> queue_wf (run_queue ops db)"
  by (induction ops arbitrary: db) (auto intro: apply_op_wf)

lemma empty_db_wf [simp]: "queue_wf empty_db"
  by (simp add: queue_wf_def empty_db_def)

section \<open>The queue as a machine whose rows follow the transition table\<close>

definition job_status :: "string \<Rightarrow> queue_db \<Rightarrow> job_state" where
  "job_status jid db = (case get_job db jid of None \<Rightarrow> Discovered | Some j \<Rightarrow> jstate j)"

definition holds_job :: "string \<Rightarrow> queue_db \<Rightarrow> bool" where
  "holds_job jid db \<longleftrightarrow> queue_wf db \<and> get_job db jid \<noteq> None"

lemma apply_op_job:
  assumes "holds_job jid db"
  obtains j j' where "get_job db jid = Some j" "get_job (apply_op op db) jid = Some j'"
    "row_evolves j j'"
  using assms db_evolvesD[OF apply_op_evolves] unfolding holds_job_def by blast

interpretation jq: terminal_moves "job_status jid" STATE_TRANSITIONS apply_op "holds_job jid" is_terminal
  for jid
proof unfold_locales
  fix op db
  assume h: "holds_job jid db"
  then obtain j j' where jj: "get_job db jid = Some j" "get_job (apply_op op db) jid = Some j'"
    "row_evolves j j'" by (rule apply_op_job)
  show "job_status jid (apply_op op db) = job_status jid db
      \<or> job_status jid (apply_op op db) \<in> STATE_TRANSITIONS (job_status jid db)"
    using row_evolves_state[OF jj(3)] jj(1,2) by (simp add: job_status_def)
  show "holds_job jid (apply_op op db)"
    using h jj(2) apply_op_wf by (auto simp: holds_job_def)
next
  show "is_terminal s \<Longrightarrow> STATE_TRANSITIONS s = {}" for s
    using terminal_iff_no_exit by blast
qed

lemma run_queue_job:
  assumes "queue_wf db" and "get_job db jid = Some j"
  obtains j' where "get_job (run_queue ops db) jid = Some j'"
  using assms jq.good_run[of jid db ops] by (auto simp: holds_job_def)

lemma run_queue_terminal_row:
  "queue_wf db \<Longrightarrow> get_job db jid = Some j \<Longrightarrow> is_terminal (jstate j) \<Longrightarrow>
    get_job (run_queue ops db) jid = Some j"
proof (induction ops arbitrary: db)
  case Nil
  then show ?case by simp
next
  case (Cons op ops)
  then obtain j' where "get_job (apply_op op db) jid = Some j'" "row_evolves j j'"
    using db_evolvesD[OF apply_op_evolves] by blast
  with Cons have "get_job (apply_op op db) jid = Some j"
    using row_evolves_terminal by blast
  with Cons show ?case by (simp add: apply_op_wf)
qed

text \<open>The part of \<open>row_evolves\<close> that holds over a whole history.\<close>

definition row_evolves_star :: "job \<Rightarrow> job \<Rightarrow> bool" where
  "row_evolves_star j j' \<longleftrightarrow>
     job_id j' = job_id j \<and> session_id j' = session_id j \<and> job_type j' = job_type j
     \<and> payload j' = payload j \<and> jrole j' = jrole j \<and> priority j' = priority j
     \<and> max_attempts j' = max_attempts j \<and> created_at j' = created_at j
     \<and> attempt j \<le> attempt j'"

lemma run_queue_evolves:
  "queue_wf db \<Longrightarrow> get_job db jid = Some j \<Longrightarrow> get_job (run_queue ops db) jid = Some j' \<Longrightarrow>
    row_evolves_star j j'"
proof (induction ops arbitrary: db j)
  case Nil
  then show ?case by (simp add: row_evolves_star_def)
next
  case (Cons op ops)
  then obtain i where i: "get_job (apply_op op db) jid = Some i" "row_evolves j i"
    using db_evolvesD[OF apply_op_evolves] by blast
  then have "row_evolves_star i j'" using Cons.IH[of "apply_op op db" i] Cons.prems by (simp add: apply_op_wf)
  with i(2) show ?case by (auto simp: row_evolves_star_def row_evolves_def)
qed

section \<open>How a row comes back to the queue\<close>

text \<open>Only two calls name a row and put it back to \<open>queued\<close>.\<close>

fun requeues :: "string \<Rightarrow> queue_op \<Rightarrow> bool" where
  "requeues jid (OpTransition i t r a c b n) \<longleftrightarrow> i = jid \<and> t = Queued"
| "requeues jid (OpRequeue i b n) \<longleftrightarrow> i = jid"
| "requeues jid op \<longleftrightarrow> False"

lemma transition_status:
  assumes "get_job db jid = Some j" and "jstate j \<noteq> Queued" and "i \<noteq> jid \<or> t \<noteq> Queued"
  shows "\<exists>j'. get_job (snd (transition i t r a c b n db)) jid = Some j' \<and> jstate j' \<noteq> Queued"
proof -
  obtain r' db' where p: "transition i t r a c b n db = (r', db')" by fastforce
  then show ?thesis
  proof (cases rule: transition_cases)
    case (error e)
    with p assms show ?thesis by simp
  next
    case (moved current f)
    then have "job_id (f j) = job_id j" for j by simp
    with moved p assms show ?thesis by (auto simp: get_job_update_job)
  qed
qed

lemma not_requeued_stays_out:
  assumes wf: "queue_wf db" and g: "get_job db jid = Some j" and q: "jstate j \<noteq> Queued"
    and op: "\<not> requeues jid op"
  shows "\<exists>j'. get_job (apply_op op db) jid = Some j' \<and> jstate j' \<noteq> Queued"
proof (cases op)
  case (OpEnqueue i s t r p n m a d w)
  then show ?thesis
    using g q
    by (cases "enqueue i s t r p n m a d w db"; cases "fst (enqueue i s t r p n m a d w db)")
      (auto elim!: enqueue_Inr dest!: enqueue_Inl simp: get_job_def find_key_append)
next
  case (OpPick b w ts rs l n)
  obtain r db' where p: "pick b w ts rs l n db = (r, db')" by fastforce
  then have e: "apply_op op db = db'" by (simp add: OpPick)
  from p show ?thesis
    unfolding e using g q by (cases rule: pick_cases) (auto simp: get_job_update_job pick_eligible_def)
next
  case (OpTransition i t r a c b n)
  with g q op show ?thesis using transition_status by auto
next
  case (OpRenewLease i l w n)
  obtain r db' where p: "renew_lease i l w n db = (r, db')" by fastforce
  then have e: "apply_op op db = db'" by (simp add: OpRenewLease)
  from p show ?thesis
    unfolding e using g q by (cases rule: renew_lease_cases) (auto simp: get_job_update_job)
next
  case (OpReap n)
  with g q show ?thesis by (auto simp: get_job_reap[OF wf] reap_row_def)
next
  case (OpRequeue i b n)
  obtain r db' where p: "requeue_retryable i b n db = (r, db')" by fastforce
  then have e: "apply_op op db = db'" by (simp add: OpRequeue)
  have i: "i \<noteq> jid" using op OpRequeue by simp
  have t: "transition i t re a c bm n db = (r, db') \<Longrightarrow>
      \<exists>j'. get_job db' jid = Some j' \<and> jstate j' \<noteq> Queued" for t re a c bm
    using transition_status[OF g q, of i t re a c bm n] i by simp
  from p show ?thesis
    unfolding e using g q t by (cases rule: requeue_as_transition) auto
qed

lemma not_requeued_run:
  assumes "queue_wf db" and "get_job db jid = Some j" and "jstate j \<noteq> Queued"
    and "list_all (\<lambda>op. \<not> requeues jid op) ops"
  shows "\<exists>j'. get_job (run_queue ops db) jid = Some j' \<and> jstate j' \<noteq> Queued"
  using assms
proof (induction ops arbitrary: db j)
  case Nil
  then show ?case by simp
next
  case (Cons op ops)
  then obtain j' where "get_job (apply_op op db) jid = Some j'" "jstate j' \<noteq> Queued"
    using not_requeued_stays_out[of db jid j op] by auto
  with Cons show ?case by (simp add: apply_op_wf)
qed

text \<open>A job waiting for its parents moves only when a call names it.\<close>

fun names_transition :: "string \<Rightarrow> queue_op \<Rightarrow> bool" where
  "names_transition jid (OpTransition i t r a c b n) \<longleftrightarrow> i = jid"
| "names_transition jid op \<longleftrightarrow> False"

lemma waiting_stays:
  assumes wf: "queue_wf db" and g: "get_job db jid = Some j" and s: "jstate j = WaitingForRole"
    and op: "\<not> names_transition jid op"
  shows "\<exists>j'. get_job (apply_op op db) jid = Some j' \<and> jstate j' = WaitingForRole"
proof (cases op)
  case (OpEnqueue i s t r p n m a d w)
  then show ?thesis
    using g s
    by (cases "enqueue i s t r p n m a d w db"; cases "fst (enqueue i s t r p n m a d w db)")
      (auto elim!: enqueue_Inr dest!: enqueue_Inl simp: get_job_def find_key_append)
next
  case (OpPick b w ts rs l n)
  obtain r db' where p: "pick b w ts rs l n db = (r, db')" by fastforce
  then have e: "apply_op op db = db'" by (simp add: OpPick)
  from p show ?thesis
    unfolding e using g s get_job_in[OF wf]
    by (cases rule: pick_cases) (auto simp: get_job_update_job pick_eligible_def)
next
  case (OpTransition i t r a c b n)
  obtain r' db' where p: "transition i t r a c b n db = (r', db')" by fastforce
  then have e: "apply_op op db = db'" by (simp add: OpTransition)
  have i: "i \<noteq> jid" using op OpTransition by simp
  from p show ?thesis
    unfolding e using g s i
    by (cases rule: transition_cases) (auto simp: get_job_update_job dest: get_job_SomeD)
next
  case (OpRenewLease i l w n)
  obtain r db' where p: "renew_lease i l w n db = (r, db')" by fastforce
  then have e: "apply_op op db = db'" by (simp add: OpRenewLease)
  from p show ?thesis
    unfolding e using g s by (cases rule: renew_lease_cases) (auto simp: get_job_update_job)
next
  case (OpReap n)
  with g s show ?thesis
    by (auto simp: get_job_reap[OF wf] reap_row_def lease_expired_def reap_states_def)
next
  case (OpRequeue i b n)
  obtain r db' where p: "requeue_retryable i b n db = (r, db')" by fastforce
  then have e: "apply_op op db = db'" by (simp add: OpRequeue)
  have t: "get_job db i = Some c \<Longrightarrow> jstate c = FailedRetryable \<Longrightarrow> transition i t re a cl bm n db = (r, db') \<Longrightarrow>
      \<exists>j'. get_job db' jid = Some j' \<and> jstate j' = WaitingForRole" for c t re a cl bm
    using g s by (cases "i = jid"; auto elim!: transition_cases simp: get_job_update_job dest: get_job_SomeD)
  from p show ?thesis
    unfolding e using g s t by (cases rule: requeue_as_transition) auto
qed

lemma waiting_run:
  assumes "queue_wf db" and "get_job db jid = Some j" and "jstate j = WaitingForRole"
    and "list_all (\<lambda>op. \<not> names_transition jid op) ops"
  shows "\<exists>j'. get_job (run_queue ops db) jid = Some j' \<and> jstate j' = WaitingForRole"
  using assms
proof (induction ops arbitrary: db j)
  case Nil
  then show ?case by simp
next
  case (Cons op ops)
  then obtain j' where "get_job (apply_op op db) jid = Some j'" "jstate j' = WaitingForRole"
    using waiting_stays[of db jid j op] by auto
  with Cons show ?case by (simp add: apply_op_wf)
qed

lemma pick_result:
  assumes "queue_wf db" and "pick b w ts rs l n db = (Inr (Some j), db')"
  obtains row where "row \<in> set (job_rows db)" "pick_eligible db ts rs n row"
    "job_id j = job_id row" "jstate j = Assigned" "get_job db (job_id row) = Some row"
    "get_job db' (job_id j) = Some j" "picked_by j = Some w" "picked_until j = Some (lease_until n l)"
    "\<And>k. k \<noteq> job_id j \<Longrightarrow> get_job db' k = get_job db k"
proof -
  from assms(2) show ?thesis
  proof (cases rule: pick_cases)
    case (claimed row rest)
    have "get_job db (job_id row) = Some row" using assms(1) claimed(2) by (rule get_job_in)
    with claimed that[of row] show ?thesis by (auto simp: get_job_update_job)
  qed auto
qed

section \<open>Retries are bounded\<close>

definition job_attempts :: "string \<Rightarrow> queue_db \<Rightarrow> nat" where
  "job_attempts jid db = (case get_job db jid of None \<Rightarrow> 0 | Some j \<Rightarrow> nat (attempt j))"

definition holds_job_max :: "string \<Rightarrow> int \<Rightarrow> queue_db \<Rightarrow> bool" where
  "holds_job_max jid m db \<longleftrightarrow> queue_wf db \<and> (\<exists>j. get_job db jid = Some j \<and> max_attempts j = m)"

definition requeue_grant :: "string \<Rightarrow> pyfloat \<times> pyfloat \<Rightarrow> queue_db \<Rightarrow> queue_db option" where
  "requeue_grant jid bn db = (case requeue_retryable jid (fst bn) (snd bn) db of
     (Inl e, db') \<Rightarrow> None | (Inr j, db') \<Rightarrow> if jstate j = Queued then Some db' else None)"

lemma apply_op_holds_max:
  assumes "holds_job_max jid m db"
  shows "holds_job_max jid m (apply_op op db)"
proof -
  from assms obtain j where wf: "queue_wf db" and j: "get_job db jid = Some j" "max_attempts j = m"
    by (auto simp: holds_job_max_def)
  then obtain j' where "get_job (apply_op op db) jid = Some j'" "row_evolves j j'"
    using db_evolvesD[OF apply_op_evolves] by blast
  with wf j show ?thesis by (auto simp: holds_job_max_def row_evolves_def intro: apply_op_wf)
qed

lemma apply_op_attempts:
  assumes "holds_job_max jid m db"
  shows "job_attempts jid db \<le> job_attempts jid (apply_op op db)"
proof -
  from assms obtain j where "queue_wf db" "get_job db jid = Some j"
    by (auto simp: holds_job_max_def)
  then obtain j' where "get_job db jid = Some j" "get_job (apply_op op db) jid = Some j'"
    "row_evolves j j'"
    using db_evolvesD[OF apply_op_evolves] by blast
  then show ?thesis by (auto simp: job_attempts_def row_evolves_def intro: nat_mono)
qed

lemma get_job_row_ok: "queue_wf db \<Longrightarrow> get_job db jid = Some j \<Longrightarrow> row_ok j"
  by (auto simp: queue_wf_def dest: get_job_SomeD)

lemma requeue_grantD:
  assumes "holds_job_max jid m db" and "requeue_grant jid bn db = Some db'"
  shows "job_attempts jid db' = Suc (job_attempts jid db)" "job_attempts jid db < nat (m - 1)"
    "db' = apply_op (OpRequeue jid (fst bn) (snd bn)) db"
proof -
  from assms(2) obtain j where r: "requeue_retryable jid (fst bn) (snd bn) db = (Inr j, db')"
    and q: "jstate j = Queued"
    by (auto simp: requeue_grant_def split: prod.splits sum.splits if_splits)
  show "db' = apply_op (OpRequeue jid (fst bn) (snd bn)) db" using r by simp
  from assms(1) obtain c where c: "get_job db jid = Some c" "max_attempts c = m" "queue_wf db"
    by (auto simp: holds_job_max_def)
  then have "0 \<le> attempt c" using get_job_row_ok by (auto simp: row_ok_def)
  from r have "job_attempts jid db' = Suc (job_attempts jid db) \<and> job_attempts jid db < nat (m - 1)"
  proof (cases rule: requeue_as_transition)
    case (terminal d)
    from terminal(4) show ?thesis using q by (cases rule: transition_cases) auto
  next
    case (queued d)
    from queued(4) show ?thesis
    proof (cases rule: transition_cases)
      case (moved e f)
      then have "job_id (f x) = job_id x" for x by simp
      then have "get_job db' jid = Some (f c)" using moved c(1) by (auto simp: get_job_update_job)
      then have "job_attempts jid db' = nat (attempt c + 1)" using moved(5) by (simp add: job_attempts_def)
      with c queued(1,3) \<open>0 \<le> attempt c\<close> show ?thesis by (simp add: job_attempts_def)
    qed simp
  qed auto
  then show "job_attempts jid db' = Suc (job_attempts jid db)" "job_attempts jid db < nat (m - 1)" by auto
qed

interpretation jr: bounded_retry "job_attempts jid" "nat (m - 1)" "requeue_grant jid" "holds_job_max jid m"
  for jid m
proof unfold_locales
  fix x y bn
  assume h: "holds_job_max jid m x" and r: "requeue_grant jid bn x = Some y"
  note D = requeue_grantD[OF h r]
  show "job_attempts jid y = Suc (job_attempts jid x)" by (fact D(1))
  show "job_attempts jid x < nat (m - 1)" by (fact D(2))
  show "holds_job_max jid m y" unfolding D(3) using h by (rule apply_op_holds_max)
qed

text \<open>How many requeues of \<open>jid\<close> a history grants.\<close>

fun requeue_grants :: "string \<Rightarrow> queue_op list \<Rightarrow> queue_db \<Rightarrow> nat" where
  "requeue_grants jid [] db = 0"
| "requeue_grants jid (op # ops) db =
     (case op of OpRequeue i b n \<Rightarrow> if i = jid \<and> requeue_grant jid (b, n) db \<noteq> None then 1 else 0
      | _ \<Rightarrow> 0) + requeue_grants jid ops (apply_op op db)"

lemma requeue_grants_retries:
  "jr.retries jid m x n db \<Longrightarrow> holds_job_max jid m db \<Longrightarrow>
    jr.retries jid m x (requeue_grants jid ops db + n) (run_queue ops db)"
proof (induction ops arbitrary: db n)
  case Nil
  then show ?case by simp
next
  case (Cons op ops)
  have h: "holds_job_max jid m (apply_op op db)" using Cons.prems(2) by (rule apply_op_holds_max)
  show ?case
  proof (cases "\<exists>b t db'. op = OpRequeue jid b t \<and> requeue_grant jid (b, t) db = Some db'")
    case True
    then obtain b t db' where op: "op = OpRequeue jid b t" and g: "requeue_grant jid (b, t) db = Some db'"
      by blast
    have "db' = apply_op op db" using requeue_grantD(3)[OF Cons.prems(2) g] op by simp
    with g have "jr.retries jid m x (Suc n) (apply_op op db)"
      using Cons.prems(1) by (metis jr.grant)
    with Cons.IH h have "jr.retries jid m x (requeue_grants jid ops (apply_op op db) + Suc n)
      (run_queue ops (apply_op op db))" by blast
    moreover have "requeue_grants jid (op # ops) db = Suc (requeue_grants jid ops (apply_op op db))"
      using op g by simp
    ultimately show ?thesis by simp
  next
    case False
    then have "requeue_grants jid (op # ops) db = requeue_grants jid ops (apply_op op db)"
      by (cases op) auto
    moreover have "jr.retries jid m x n (apply_op op db)"
      using Cons.prems(1) apply_op_attempts[OF Cons.prems(2)] h by (rule jr.other)
    ultimately show ?thesis using Cons.IH h by simp
  qed
qed

end
