(* ===== verification/PyJson.thy ===== *)
theory PyJson
  imports Interfaces
begin

text \<open>
  How the code reads JSON values it did not write itself: truth values, \<open>str\<close>, \<open>int\<close>, iteration, and the
  updates of a dictionary such as \<open>session.extra\<close>. Also UTF-8, for the literals of the source that are not
  ASCII, and the slices \<open>xs[-n:]\<close>.
\<close>

section \<open>Reading a value\<close>

text \<open>
  What the code takes from Python for values of another type than the one it expects: \<open>str\<close> of a value
  that is not a string, integer, boolean or null, \<open>int\<close> of a string, and the characters of a string.
\<close>

record json_host =
  host_str :: "json \<Rightarrow> string"
  host_int :: "string \<Rightarrow> int option"
  host_chars :: "string \<Rightarrow> string list"

text \<open>A host for closed examples.\<close>

definition plain_json :: json_host where
  "plain_json = \<lparr>host_str = (\<lambda>_. []), host_int = (\<lambda>_. None), host_chars = (\<lambda>_. [])\<rparr>"

definition json_str :: "json_host \<Rightarrow> json \<Rightarrow> string" where
  "json_str h j = (case j of JStr s \<Rightarrow> s | JInt i \<Rightarrow> show_int i
     | JBool b \<Rightarrow> if b then ''True'' else ''False'' | JNull \<Rightarrow> ''None'' | _ \<Rightarrow> host_str h j)"

text \<open>\<open>int(x)\<close>; \<open>None\<close> where Python raises.\<close>

definition py_int :: "json_host \<Rightarrow> json \<Rightarrow> int option" where
  "py_int h j = (case j of JInt i \<Rightarrow> Some i
     | JBool b \<Rightarrow> Some (if b then 1 else 0)
     | JNum x \<Rightarrow> Some (if 0 \<le> x then \<lfloor>x\<rfloor> else \<lceil>x\<rceil>)
     | JStr s \<Rightarrow> host_int h s
     | _ \<Rightarrow> None)"

text \<open>\<open>for x in j\<close>; \<open>None\<close> where Python raises.\<close>

definition py_iter :: "json_host \<Rightarrow> json \<Rightarrow> json list option" where
  "py_iter h j = (case j of JList xs \<Rightarrow> Some xs
     | JStr s \<Rightarrow> Some (map JStr (host_chars h s))
     | JObj kvs \<Rightarrow> Some (map (JStr \<circ> fst) kvs)
     | _ \<Rightarrow> None)"

definition truthy :: "json \<Rightarrow> bool" where
  "truthy j = (case j of JNull \<Rightarrow> False | JBool b \<Rightarrow> b | JInt i \<Rightarrow> i \<noteq> 0 | JNum x \<Rightarrow> x \<noteq> 0
     | JStr s \<Rightarrow> s \<noteq> [] | JList xs \<Rightarrow> xs \<noteq> [] | JObj kvs \<Rightarrow> kvs \<noteq> [])"

text \<open>\<open>d.get(k)\<close>, and \<open>d.get(k) or default\<close>.\<close>

definition dict_get :: "json pydict \<Rightarrow> string \<Rightarrow> json" where
  "dict_get d k = (case map_of d k of None \<Rightarrow> JNull | Some v \<Rightarrow> v)"

definition dict_get_or :: "json pydict \<Rightarrow> string \<Rightarrow> json \<Rightarrow> json" where
  "dict_get_or d k v = (if truthy (dict_get d k) then dict_get d k else v)"

definition opt_json :: "string option \<Rightarrow> json" where
  "opt_json x = (case x of None \<Rightarrow> JNull | Some s \<Rightarrow> JStr s)"

lemma truthy_simps [simp]:
  "truthy (JStr s) \<longleftrightarrow> s \<noteq> []" "\<not> truthy JNull" "truthy (JInt i) \<longleftrightarrow> i \<noteq> 0" "truthy (JList xs) \<longleftrightarrow> xs \<noteq> []"
  "truthy (JObj kvs) \<longleftrightarrow> kvs \<noteq> []" "truthy (JBool b) \<longleftrightarrow> b"
  by (simp_all add: truthy_def)

lemma json_str_simps [simp]: "json_str h (JStr s) = s" "json_str h (JInt i) = show_int i" "json_str h JNull = ''None''"
  by (simp_all add: json_str_def)

lemma dict_get_update: "dict_get (AList.update k v d) k' = (if k' = k then v else dict_get d k')"
  by (simp add: dict_get_def update_conv')

lemma dict_get_simps [simp]:
  "dict_get [] k = JNull" "dict_get ((k', v) # d) k = (if k = k' then v else dict_get d k)"
  by (simp_all add: dict_get_def)

text \<open>\<open>None if x is None else (str(x).strip() or None)\<close>.\<close>

definition clean_str :: "string \<Rightarrow> string option" where
  "clean_str s = (let t = py_strip s in if t = [] then None else Some t)"

definition optional_str :: "json_host \<Rightarrow> json \<Rightarrow> string option" where
  "optional_str h j = (if j = JNull then None else clean_str (json_str h j))"

lemma clean_str_stable: "clean_str s = Some t \<Longrightarrow> clean_str t = Some t"
  by (auto simp: clean_str_def Let_def split: if_splits)

section \<open>Slices\<close>

text \<open>\<open>xs[-n:]\<close>: the last \<open>n\<close> elements for a positive \<open>n\<close>; \<open>xs[0:]\<close> and \<open>xs[m:]\<close> otherwise.\<close>

definition last_slice :: "int \<Rightarrow> 'a list \<Rightarrow> 'a list" where
  "last_slice n xs = (if 0 < n then drop (length xs - nat n) xs else drop (nat (- n)) xs)"

text \<open>The idiom \<open>if len(xs) > n: xs = xs[-n:]\<close>.\<close>

definition cap_last :: "int \<Rightarrow> 'a list \<Rightarrow> 'a list" where
  "cap_last n xs = (if n < int (length xs) then last_slice n xs else xs)"

lemma cap_last_pos: "0 < n \<Longrightarrow> cap_last n xs = drop (length xs - nat n) xs"
  by (auto simp: cap_last_def last_slice_def)

lemma length_cap_last: "0 < n \<Longrightarrow> int (length (cap_last n xs)) \<le> n"
  by (simp add: cap_last_pos)

lemma cap_last_map: "cap_last n (map f xs) = map f (cap_last n xs)"
  by (simp add: cap_last_def last_slice_def drop_map)

text \<open>Capping after every append is capping once at the end.\<close>

lemma cap_last_append: "0 < n \<Longrightarrow> cap_last n (cap_last n xs @ ys) = cap_last n (xs @ ys)"
  by (cases "length xs \<le> nat n") (simp_all add: cap_last_pos drop_append add.commute)

lemma cap_last_snoc: "0 < n \<Longrightarrow> \<exists>ys. cap_last n (xs @ [x]) = ys @ [x]"
  by (intro exI[of _ "drop (length xs + 1 - nat n) xs"]) (simp add: cap_last_pos)

section \<open>UTF-8\<close>

fun utf8_char :: "nat \<Rightarrow> string" where
  "utf8_char n =
     (if n < 128 then [char_of n]
      else if n < 2048 then [char_of (192 + n div 64), char_of (128 + n mod 64)]
      else if n < 65536 then [char_of (224 + n div 4096), char_of (128 + n div 64 mod 64), char_of (128 + n mod 64)]
      else [char_of (240 + n div 262144), char_of (128 + n div 4096 mod 64), char_of (128 + n div 64 mod 64),
            char_of (128 + n mod 64)])"

definition utf8 :: "nat list \<Rightarrow> string" where
  "utf8 ns = concat (map utf8_char ns)"

end
