(* ===== verification/PyText.thy ===== *)
theory PyText
  imports PyJson
begin

text \<open>
  Text handling that counts characters or lines: \<open>s[:n]\<close>, \<open>isalnum\<close>, \<open>split\<close> on a character, counting, file
  paths, and reading a file in text mode. Strings are UTF-8, so a character is a byte that does not continue
  another with the bytes that continue it.
\<close>

section \<open>Characters\<close>

definition continues :: "char \<Rightarrow> bool" where
  "continues c \<longleftrightarrow> 128 \<le> (of_char c :: nat) \<and> (of_char c :: nat) < 192"

text \<open>\<open>s[:n]\<close>.\<close>

fun chars :: "nat \<Rightarrow> string \<Rightarrow> string" where
  "chars n [] = []"
| "chars n (c # cs) = (if continues c then c # chars n cs else if n = 0 then [] else c # chars (n - 1) cs)"

text \<open>The characters of a string, each as its bytes.\<close>

function char_list :: "string \<Rightarrow> string list" where
  "char_list [] = []"
| "char_list (c # cs) = (c # takeWhile continues cs) # char_list (dropWhile continues cs)"
  by pat_completeness auto
termination
  by (relation "measure length") (simp_all add: length_dropWhile_le le_imp_less_Suc)

text \<open>\<open>isalnum\<close> of a character; for characters outside ASCII it is the argument \<open>wide\<close>.\<close>

definition alnum :: "(string \<Rightarrow> bool) \<Rightarrow> string \<Rightarrow> bool" where
  "alnum wide s = (case s of
     [c] \<Rightarrow> (let n = of_char c :: nat
             in if n < 128 then (48 \<le> n \<and> n \<le> 57) \<or> (65 \<le> n \<and> n \<le> 90) \<or> (97 \<le> n \<and> n \<le> 122) else wide s)
   | _ \<Rightarrow> list_all (\<lambda>c. 128 \<le> (of_char c :: nat)) s \<and> wide s)"

text \<open>\<open>s.strip(c)\<close> and \<open>s.rstrip(c)\<close>.\<close>

definition rstrip_char :: "char \<Rightarrow> string \<Rightarrow> string" where
  "rstrip_char c s = rev (dropWhile (\<lambda>x. x = c) (rev s))"

definition strip_char :: "char \<Rightarrow> string \<Rightarrow> string" where
  "strip_char c s = rstrip_char c (dropWhile (\<lambda>x. x = c) s)"

lemma chars_prefix: "prefix (chars n s) s"
  by (induction n s rule: chars.induct) auto

lemma concat_char_list: "concat (char_list s) = s"
  by (induction s rule: char_list.induct) simp_all

lemma set_rstrip_char: "set (rstrip_char c s) \<subseteq> set s"
  by (auto simp: rstrip_char_def dest: set_dropWhileD)

lemma set_strip_char: "set (strip_char c s) \<subseteq> set s"
  using set_rstrip_char[of c "dropWhile (\<lambda>x. x = c) s"] by (auto simp: strip_char_def dest: set_dropWhileD)

lemma set_chars: "set (chars n s) \<subseteq> set s"
  using chars_prefix by (rule set_mono_prefix)

section \<open>Lines and paths\<close>

text \<open>\<open>s.split(c)\<close>.\<close>

fun split_at :: "char \<Rightarrow> string \<Rightarrow> string list" where
  "split_at c [] = [[]]"
| "split_at c (x # xs) =
     (if x = c then [] # split_at c xs
      else case split_at c xs of [] \<Rightarrow> [[x]] | l # ls \<Rightarrow> (x # l) # ls)"

lemma split_at_nonempty [simp]: "split_at c s \<noteq> []"
  by (induction s) (auto split: list.split)

lemma join_split_at: "py_join [c] (split_at c s) = s"
proof (induction s)
  case Nil
  then show ?case by simp
next
  case (Cons x xs)
  obtain l ls where l: "split_at c xs = l # ls" by (cases "split_at c xs") auto
  with Cons show ?case by (cases ls) auto
qed

lemma split_at_append: "c \<notin> set a \<Longrightarrow> split_at c (a @ c # b) = a # split_at c b"
  by (induction a) auto

lemma split_at_none: "c \<notin> set a \<Longrightarrow> split_at c a = [a]"
  by (induction a) auto

definition newline :: char where
  "newline = CHR 0x0A"

definition count_char :: "char \<Rightarrow> string \<Rightarrow> nat" where
  "count_char c s = length (filter (\<lambda>x. x = c) s)"

text \<open>\<open>'..' in Path(p).parts\<close>.\<close>

definition has_dotdot :: "string \<Rightarrow> bool" where
  "has_dotdot p \<longleftrightarrow> ''..'' \<in> set (split_at (CHR ''/'') p)"

text \<open>What \<open>read_text\<close> returns for a file with the given content: line ends become newlines.\<close>

fun text_mode :: "string \<Rightarrow> string" where
  "text_mode [] = []"
| "text_mode [c] = [if c = CHR 0x0D then newline else c]"
| "text_mode (c # d # cs) =
     (if c = CHR 0x0D \<and> d = newline then newline # text_mode cs
      else (if c = CHR 0x0D then newline else c) # text_mode (d # cs))"

lemma text_mode_id: "CHR 0x0D \<notin> set s \<Longrightarrow> text_mode s = s"
  by (induction s rule: text_mode.induct) auto

end
