(* ===== verification/PyUnicode.thy ===== *)
theory PyUnicode
  imports PyText
begin

text \<open>
  Text outside ASCII as the conversation code reads it: code points, white space as \<open>str.isspace\<close> and the
  \<open>\s\<close> of a pattern define it, words, runs of characters, and the small patterns of the source. \<open>str.lower\<close> and
  the rounding of floats come from a host.
\<close>

section \<open>Characters\<close>

text \<open>The code point of one character, given as its bytes.\<close>

fun code_point :: "string \<Rightarrow> nat" where
  "code_point [a] = of_char a"
| "code_point [a, b] = (of_char a - 192) * 64 + (of_char b - 128)"
| "code_point [a, b, c] = (of_char a - 224) * 4096 + (of_char b - 128) * 64 + (of_char c - 128)"
| "code_point [a, b, c, d] = (of_char a - 240) * 262144 + (of_char b - 128) * 4096 + (of_char c - 128) * 64 + (of_char d - 128)"
| "code_point _ = 0"

definition space_char :: "string \<Rightarrow> bool" where
  "space_char s \<longleftrightarrow> (let n = code_point s in (9 \<le> n \<and> n \<le> 13) \<or> (28 \<le> n \<and> n \<le> 32) \<or> n = 133 \<or> n = 160 \<or> n = 5760
     \<or> (8192 \<le> n \<and> n \<le> 8202) \<or> n = 8232 \<or> n = 8233 \<or> n = 8239 \<or> n = 8287 \<or> n = 12288)"

text \<open>\<open>len(s)\<close>.\<close>

definition py_len :: "string \<Rightarrow> nat" where
  "py_len s = length (char_list s)"

text \<open>The longest runs of characters that satisfy \<open>p\<close>.\<close>

function runs :: "('a \<Rightarrow> bool) \<Rightarrow> 'a list \<Rightarrow> 'a list list" where
  "runs p [] = []"
| "runs p (c # cs) = (if p c then (c # takeWhile p cs) # runs p (dropWhile p cs) else runs p cs)"
  by pat_completeness auto
termination
  by (relation "measure (\<lambda>(p, cs). length cs)") (simp_all add: length_dropWhile_le le_imp_less_Suc)

text \<open>\<open>s.split()\<close>, \<open>' '.join(s.split())\<close> and \<open>s.strip()\<close>.\<close>

definition py_words :: "string \<Rightarrow> string list" where
  "py_words s = map concat (runs (\<lambda>c. \<not> space_char c) (char_list s))"

definition squeeze :: "string \<Rightarrow> string" where
  "squeeze s = py_join '' '' (py_words s)"

definition trim :: "(string \<Rightarrow> bool) \<Rightarrow> string \<Rightarrow> string" where
  "trim p s = concat (rev (dropWhile p (rev (dropWhile p (char_list s)))))"

definition wide_strip :: "string \<Rightarrow> string" where
  "wide_strip s = trim space_char s"

definition any_in :: "string \<Rightarrow> string list \<Rightarrow> bool" where
  "any_in s ks \<longleftrightarrow> list_ex (\<lambda>k. py_contains k s) ks"

lemma any_in_iff: "any_in s ks \<longleftrightarrow> (\<exists>k \<in> set ks. py_contains k s)"
  by (simp add: any_in_def list_ex_iff)

section \<open>Patterns\<close>

text \<open>
  A character as a pattern with \<open>IGNORECASE\<close> compares it with a lower-case ASCII letter: the dotted and
  dotless i, the long s and the Kelvin sign are letters, too.
\<close>

definition fold_case :: "string \<Rightarrow> string" where
  "fold_case s = (case s of [c] \<Rightarrow> [py_lower_char c]
     | _ \<Rightarrow> (let n = code_point s in if n = 304 \<or> n = 305 then ''i'' else if n = 383 then ''s'' else if n = 8490 then ''k'' else s))"

text \<open>The patterns are literals and \<open>\s*\<close>; no literal of the source is white space, so \<open>\s*\<close> takes all it can.\<close>

datatype pattern_item = Lit string | Spaces

fun matches_here :: "pattern_item list \<Rightarrow> string list \<Rightarrow> bool" where
  "matches_here [] cs = True"
| "matches_here (Spaces # ps) cs = matches_here ps (dropWhile space_char cs)"
| "matches_here (Lit l # ps) cs = (length (char_list l) \<le> length cs
     \<and> map fold_case (take (length (char_list l)) cs) = map fold_case (char_list l)
     \<and> matches_here ps (drop (length (char_list l)) cs))"

fun occurs :: "('a list \<Rightarrow> bool) \<Rightarrow> 'a list \<Rightarrow> bool" where
  "occurs m [] = m []"
| "occurs m (c # cs) = (m (c # cs) \<or> occurs m cs)"

definition searches :: "pattern_item list list \<Rightarrow> string \<Rightarrow> bool" where
  "searches alts s \<longleftrightarrow> occurs (\<lambda>cs. list_ex (\<lambda>ps. matches_here ps cs) alts) (char_list s)"

text \<open>The first result of a partial matcher over all positions, from the left.\<close>

fun first_match :: "('a list \<Rightarrow> 'b option) \<Rightarrow> 'a list \<Rightarrow> 'b option" where
  "first_match m [] = m []"
| "first_match m (c # cs) = (case m (c # cs) of None \<Rightarrow> first_match m cs | Some x \<Rightarrow> Some x)"

section \<open>Host\<close>

text \<open>
  What the code takes from Python: \<open>str.lower\<close>, JSON values as text, the rounding of a float result, times
  and \<open>:.2f\<close> as text, and the digits outside ASCII. \<open>plain_talk\<close> is a host for closed examples.
\<close>

record talk_host =
  th_lower :: "string \<Rightarrow> string"
  th_json :: json_host
  th_round :: "real \<Rightarrow> real"
  th_parse_time :: "string \<Rightarrow> real option"
  th_show_time :: "real \<Rightarrow> string"
  th_fixed2 :: "real \<Rightarrow> string"
  th_digit :: "string \<Rightarrow> nat option"

definition plain_talk :: talk_host where
  "plain_talk = \<lparr>th_lower = py_lower, th_json = plain_json, th_round = (\<lambda>x. x), th_parse_time = (\<lambda>_. None), th_show_time = (\<lambda>_. []),
     th_fixed2 = (\<lambda>_. []), th_digit = (\<lambda>_. None)\<rparr>"

lemma runs_nonempty: "r \<in> set (runs p cs) \<Longrightarrow> r \<noteq> []"
  by (induction p cs rule: runs.induct) (auto split: if_splits)

end
