(* ===== verification/JobRecovery.thy ===== *)
theory JobRecovery
  imports JobQueueHistory PyUnicode PyJson
begin

text \<open>
  What happens to the tables of the queue beside the single calls of \<open>JobQueue\<close>: the two transactions of a requeue
  with other processes between them, the recovery of failed coding jobs (\<open>job_queue/coding_execute_recovery.py\<close>), which
  writes a terminally failed row back to the queue in SQL of its own, and the approval cards that
  \<open>job_queue/pr_merge_continuation_worker.py\<close> withdraws the same way. No other code writes these tables.
\<close>

section \<open>Reviving a failed coding job\<close>

text \<open>\<open>setdefault('revivals', []).append(...)\<close>; \<open>None\<close> where the stored value is no list and the code raises.\<close>

definition revival_result :: "json pydict \<Rightarrow> pyfloat \<Rightarrow> job \<Rightarrow> json pydict option" where
  "revival_result info now row =
     (let entry = JObj (dict_merge [(''at'', JNum now), (''from_state'', JStr (job_state_value (jstate row)))] info)
      in case map_of (jresult row) ''revivals'' of
           None \<Rightarrow> Some (AList.update ''revivals'' (JList [entry]) (jresult row))
         | Some (JList es) \<Rightarrow> Some (AList.update ''revivals'' (JList (es @ [entry])) (jresult row))
         | Some _ \<Rightarrow> None)"

definition revived_row :: "json pydict \<Rightarrow> pyfloat \<Rightarrow> job \<Rightarrow> job" where
  "revived_row res now j = j\<lparr>jstate := Queued, attempt := 0, available_at := now, picked_by := None,
     picked_until := None, jresult := res, updated_at := now\<rparr>"

text \<open>The result is \<open>None\<close> when the call raises; the transaction is then rolled back.\<close>

definition revive_failed_terminal_row :: "string \<Rightarrow> json pydict \<Rightarrow> pyfloat \<Rightarrow> queue_db \<Rightarrow> bool option \<times> queue_db" where
  "revive_failed_terminal_row jid info now db =
     (case get_job db jid of
        None \<Rightarrow> (Some False, db)
      | Some row \<Rightarrow>
          if jstate row \<noteq> FailedTerminal then (Some False, db)
          else case revival_result info now row of
                 None \<Rightarrow> (None, db)
               | Some res \<Rightarrow> (Some True, update_job jid (revived_row res now) db))"

section \<open>The two recovery sweeps\<close>

text \<open>
  What the sweeps take from outside: the resolver of a repository when one is injected, the default one, both with
  \<open>None\<close> for a raise, and the test for a directory.
\<close>

record recovery_host =
  rv_json :: json_host
  rv_resolver :: "(string \<Rightarrow> string option option) option"
  rv_default_resolver :: "string \<Rightarrow> string option option"
  rv_is_dir :: "string \<Rightarrow> bool"

definition resolve_repo_for_request_payload :: "recovery_host \<Rightarrow> json pydict \<Rightarrow> string option \<times> string" where
  "resolve_repo_for_request_payload h pl =
     (let full = wide_strip (json_str (rv_json h) (dict_get_or pl ''repo_full_name'' (JStr [])))
      in if full = [] then (None, [])
         else case rv_resolver h of
             Some f \<Rightarrow> (case f full of
                 Some (Some r) \<Rightarrow> if wide_strip r \<noteq> [] \<and> rv_is_dir h r then (Some r, full) else (None, full)
               | _ \<Rightarrow> (None, full))
           | None \<Rightarrow> (case rv_default_resolver h full of
                 Some (Some r) \<Rightarrow> if r \<noteq> [] \<and> rv_is_dir h r then (Some r, full) else (None, full)
               | _ \<Rightarrow> (None, full)))"

definition failure_reason :: "recovery_host \<Rightarrow> job \<Rightarrow> string" where
  "failure_reason h row = wide_strip (json_str (rv_json h)
     (dict_get_or (jresult row) ''reason'' (dict_get_or (jresult row) ''error'' (JStr []))))"

definition TARGET_REPO_MISSING_REASON_PREFIX :: string where
  "TARGET_REPO_MISSING_REASON_PREFIX = ''target_repo_checkout_missing''"

definition BOOTSTRAP_REQUIRED_REASON_PREFIX :: string where
  "BOOTSTRAP_REQUIRED_REASON_PREFIX = ''bootstrap_required''"

definition BOOTSTRAP_RECOVERABLE_SUB_TOKENS :: "string list" where
  "BOOTSTRAP_RECOVERABLE_SUB_TOKENS = [''editor_record_only_insufficient'', ''live_editor_unavailable'']"

definition classify_bootstrap_reason :: "string \<Rightarrow> string option" where
  "classify_bootstrap_reason reason =
     (let text = wide_strip reason
      in if prefix (BOOTSTRAP_REQUIRED_REASON_PREFIX @ '':'') text
         then find (\<lambda>t. py_contains t (drop (length BOOTSTRAP_REQUIRED_REASON_PREFIX + 1) text)) BOOTSTRAP_RECOVERABLE_SUB_TOKENS
         else None)"

definition is_bootstrap_capability_enabled :: "string option \<Rightarrow> bool" where
  "is_bootstrap_capability_enabled v \<longleftrightarrow>
     py_lower (wide_strip (case v of None \<Rightarrow> [] | Some s \<Rightarrow> s)) \<in> set [''1'', ''true'', ''yes'', ''on'']"

text \<open>The rows a sweep looks at, and the note it leaves on a row it brings back, if it does.\<close>

definition recovery_rows :: "int \<Rightarrow> queue_db \<Rightarrow> job list" where
  "recovery_rows limit db =
     (let rows = sort_by (\<lambda>a b. updated_at b \<le> updated_at a)
        (filter (\<lambda>j. job_type j = ''coding_execute'' \<and> jstate j \<in> {FailedRetryable, FailedTerminal}) (job_rows db))
      in if limit < 0 then rows else take (nat limit) rows)"

definition target_repo_note :: "recovery_host \<Rightarrow> job \<Rightarrow> json pydict option" where
  "target_repo_note h row =
     (if \<not> prefix TARGET_REPO_MISSING_REASON_PREFIX (failure_reason h row) then None
      else case resolve_repo_for_request_payload h (payload row) of
          (None, _) \<Rightarrow> None
        | (Some r, full) \<Rightarrow> Some [(''reason'', JStr ''target_repo_checkout_appeared''), (''resolved_repo_path'', JStr r),
            (''repo_full_name'', JStr full)])"

definition bootstrap_note :: "recovery_host \<Rightarrow> job \<Rightarrow> json pydict option" where
  "bootstrap_note h row =
     (case classify_bootstrap_reason (failure_reason h row) of
        None \<Rightarrow> None
      | Some token \<Rightarrow> (case resolve_repo_for_request_payload h (payload row) of
          (None, _) \<Rightarrow> None
        | (Some r, full) \<Rightarrow> Some [(''reason'', JStr ''bootstrap_capability_enabled''), (''trigger_sub_token'', JStr token),
            (''original_reason'', JStr (failure_reason h row)), (''editor'', JStr ''GreenfieldBootstrapEditor''),
            (''env'', JStr ''YULE_CODING_EXECUTOR_GREENFIELD_BOOTSTRAP_ENABLED''),
            (''repo_full_name'', JStr full), (''resolved_repo_path'', JStr r)]))"

text \<open>The loop over the rows; \<open>clock\<close> tells when the row of an id is written, and 5 seconds is the back-off of \<open>requeue_retryable\<close>.\<close>

fun recover_loop :: "(job \<Rightarrow> json pydict option) \<Rightarrow> (string \<Rightarrow> pyfloat) \<Rightarrow> job list \<Rightarrow> queue_db \<Rightarrow> string list \<times> queue_db" where
  "recover_loop f clock [] db = ([], db)"
| "recover_loop f clock (row # rows) db =
     (case f row of
        None \<Rightarrow> recover_loop f clock rows db
      | Some info \<Rightarrow>
          (let (ok, db1) = (if jstate row = FailedRetryable
                 then map_prod is_ok id (requeue_retryable (job_id row) 5 (clock (job_id row)) db)
                 else map_prod (\<lambda>b. b = Some True) id (revive_failed_terminal_row (job_id row) info (clock (job_id row)) db));
               (revived, db2) = recover_loop f clock rows db1
           in (if ok then job_id row # revived else revived, db2)))"

definition recover_target_repo_missing_rows ::
    "recovery_host \<Rightarrow> int \<Rightarrow> (string \<Rightarrow> pyfloat) \<Rightarrow> queue_db \<Rightarrow> string list \<times> queue_db" where
  "recover_target_repo_missing_rows h limit clock db = recover_loop (target_repo_note h) clock (recovery_rows limit db) db"

definition recover_bootstrap_required_rows ::
    "recovery_host \<Rightarrow> bool \<Rightarrow> int \<Rightarrow> (string \<Rightarrow> pyfloat) \<Rightarrow> queue_db \<Rightarrow> string list \<times> queue_db" where
  "recover_bootstrap_required_rows h enabled limit clock db =
     (if \<not> enabled then ([], db) else recover_loop (bootstrap_note h) clock (recovery_rows limit db) db)"

section \<open>Withdrawing approval cards\<close>

text \<open>\<open>_supersede_old_pr_merge_cards\<close> lists the saved cards in one transaction and withdraws them in another.\<close>

definition supersede_targets :: "json_host \<Rightarrow> string \<Rightarrow> string option \<Rightarrow> queue_db \<Rightarrow> string list" where
  "supersede_targets h sid keep db =
     (if sid = [] then []
      else map job_id (filter (\<lambda>j. job_type j = ''approval_post''
          \<and> json_str h (dict_get_or (payload j) ''approval_kind'' (JStr [])) = ''pr_merge''
          \<and> (case keep of None \<Rightarrow> True | Some k \<Rightarrow> k = [] \<or> job_id j \<noteq> k)) (list_for_session sid [Saved] db)))"

definition superseded_row :: "string option \<Rightarrow> string \<Rightarrow> job \<Rightarrow> job" where
  "superseded_row keep stamp j = j\<lparr>jstate := FailedTerminal, jresult := dict_merge (jresult j)
     [(''superseded'', JBool True), (''superseded_by'', JStr ''draft_escalation_card''),
      (''superseded_keep_job_id'', opt_json keep), (''superseded_at'', JStr stamp)]\<rparr>"

definition supersede_rows :: "string list \<Rightarrow> string option \<Rightarrow> string \<Rightarrow> queue_db \<Rightarrow> queue_db" where
  "supersede_rows ids keep stamp db = fold (\<lambda>jid. update_job jid (superseded_row keep stamp)) ids db"

section \<open>Histories of several processes\<close>

text \<open>
  One step is one transaction. Between the two transactions of a requeue or of a withdrawal a process holds what it
  read; a second read, or a crash, drops it. The sweeps call the revival for coding jobs only.
\<close>

datatype open_call =
    Requeue_Open string requeue_plan pyfloat
  | Supersede_Open "string list" "string option"

record store_state =
  ss_db :: queue_db
  ss_open :: "string \<Rightarrow> open_call option"

datatype store_op =
    Call queue_op
  | Requeue_Read string string pyfloat pyfloat \<comment> \<open>process, job, back-off, time\<close>
  | Requeue_Write string
  | Revive string "json pydict" pyfloat
  | Supersede_Read string json_host string "string option"
  | Supersede_Write string string

fun apply_store :: "store_op \<Rightarrow> store_state \<Rightarrow> store_state" where
  "apply_store (Call op) s = s\<lparr>ss_db := apply_op op (ss_db s)\<rparr>"
| "apply_store (Requeue_Read p jid backoff now) s = s\<lparr>ss_open := (ss_open s)(p :=
     (case requeue_decide jid backoff now (ss_db s) of Inl e \<Rightarrow> None | Inr plan \<Rightarrow> Some (Requeue_Open jid plan now)))\<rparr>"
| "apply_store (Requeue_Write p) s = (case ss_open s p of
     Some (Requeue_Open jid plan now) \<Rightarrow>
       \<lparr>ss_db = snd (requeue_apply jid plan now (ss_db s)), ss_open = (ss_open s)(p := None)\<rparr>
   | _ \<Rightarrow> s)"
| "apply_store (Revive jid info now) s = (case get_job (ss_db s) jid of
     Some j \<Rightarrow> if job_type j = ''coding_execute''
       then s\<lparr>ss_db := snd (revive_failed_terminal_row jid info now (ss_db s))\<rparr> else s
   | None \<Rightarrow> s)"
| "apply_store (Supersede_Read p h sid keep) s = s\<lparr>ss_open := (ss_open s)(p \<mapsto>
     Supersede_Open (supersede_targets h sid keep (ss_db s)) keep)\<rparr>"
| "apply_store (Supersede_Write p stamp) s = (case ss_open s p of
     Some (Supersede_Open ids keep) \<Rightarrow>
       \<lparr>ss_db = supersede_rows ids keep stamp (ss_db s), ss_open = (ss_open s)(p := None)\<rparr>
   | _ \<Rightarrow> s)"

definition quiet_store :: "queue_db \<Rightarrow> store_state" where
  "quiet_store db = \<lparr>ss_db = db, ss_open = (\<lambda>_. None)\<rparr>"

abbreviation run_store :: "store_op list \<Rightarrow> store_state \<Rightarrow> store_state" where
  "run_store ops s \<equiv> fold apply_store ops s"

text \<open>A requeue whose write follows its read at once is the call \<open>requeue_retryable\<close>.\<close>

lemma requeue_at_once:
  "ss_db (run_store [Requeue_Read p jid b now, Requeue_Write p] s) = snd (requeue_retryable jid b now (ss_db s))"
  by (auto simp: requeue_retryable_def requeue_decide_def split: option.splits)

section \<open>What one step may do to a row\<close>

definition same_job :: "job \<Rightarrow> job \<Rightarrow> bool" where
  "same_job j j' \<longleftrightarrow> job_id j' = job_id j \<and> session_id j' = session_id j \<and> job_type j' = job_type j
     \<and> payload j' = payload j \<and> jrole j' = jrole j \<and> priority j' = priority j
     \<and> max_attempts j' = max_attempts j \<and> created_at j' = created_at j"

fun writes_around :: "store_op \<Rightarrow> job \<Rightarrow> job \<Rightarrow> bool" where
  "writes_around (Revive jid info now) j j' \<longleftrightarrow> jid = job_id j \<and> job_type j = ''coding_execute''
     \<and> jstate j = FailedTerminal \<and> jstate j' = Queued \<and> attempt j' = 0 \<and> picked_by j' = None \<and> picked_until j' = None"
| "writes_around (Supersede_Write p stamp) j j' \<longleftrightarrow> job_type j = ''approval_post'' \<and> is_terminal (jstate j)
     \<and> jstate j' = FailedTerminal \<and> attempt j' = attempt j \<and> picked_by j' = picked_by j \<and> picked_until j' = picked_until j"
| "writes_around op j j' \<longleftrightarrow> False"

definition row_step :: "store_op \<Rightarrow> job \<Rightarrow> job \<Rightarrow> bool" where
  "row_step op j j' \<longleftrightarrow> row_evolves j j' \<or> same_job j j' \<and> writes_around op j j'"

lemma row_step_refl [simp]: "row_step op j j"
  by (simp add: row_step_def)

lemma row_step_same: "row_step op j j' \<Longrightarrow> same_job j j'"
  by (auto simp: row_step_def row_evolves_def same_job_def)

lemma same_job_trans: "same_job a b \<Longrightarrow> same_job b c \<Longrightarrow> same_job a c"
  by (simp add: same_job_def)

definition store_ok :: "store_state \<Rightarrow> bool" where
  "store_ok s \<longleftrightarrow> queue_wf (ss_db s)
     \<and> (\<forall>p ids keep. ss_open s p = Some (Supersede_Open ids keep) \<longrightarrow>
          (\<forall>jid \<in> set ids. \<exists>j. get_job (ss_db s) jid = Some j \<and> job_type j = ''approval_post'' \<and> is_terminal (jstate j)))"

lemma quiet_store_simps [simp]: "ss_db (quiet_store db) = db" "ss_open (quiet_store db) p = None"
  by (simp_all add: quiet_store_def)

lemma quiet_store_ok: "queue_wf db \<Longrightarrow> store_ok (quiet_store db)"
  by (simp add: store_ok_def)

lemma superseded_simps [simp]: "job_id (superseded_row keep stamp j) = job_id j"
  "jstate (superseded_row keep stamp j) = FailedTerminal" "attempt (superseded_row keep stamp j) = attempt j"
  "picked_by (superseded_row keep stamp j) = picked_by j" "picked_until (superseded_row keep stamp j) = picked_until j"
  "same_job j (superseded_row keep stamp j)" "row_ok (superseded_row keep stamp j) = row_ok j"
  by (simp_all add: superseded_row_def same_job_def row_ok_def)

lemma supersede_wf: "queue_wf db \<Longrightarrow> queue_wf (supersede_rows ids keep stamp db)"
proof (induction ids arbitrary: db)
  case (Cons i ids)
  then have "queue_wf (update_job i (superseded_row keep stamp) db)" by (intro queue_wf_update_job) auto
  then show ?case using Cons.IH by (simp add: supersede_rows_def)
qed (simp add: supersede_rows_def)

lemma get_job_supersede:
  assumes "get_job db k = Some j"
  shows "\<exists>j'. get_job (supersede_rows ids keep stamp db) k = Some j'
    \<and> (if k \<in> set ids then same_job j j' \<and> jstate j' = FailedTerminal \<and> attempt j' = attempt j
         \<and> picked_by j' = picked_by j \<and> picked_until j' = picked_until j else j' = j)"
  using assms
proof (induction ids arbitrary: db j)
  case Nil
  then show ?case by (simp add: supersede_rows_def)
next
  case (Cons i ids)
  let ?db = "update_job i (superseded_row keep stamp) db"
  have u: "supersede_rows (i # ids) keep stamp db = supersede_rows ids keep stamp ?db" by (simp add: supersede_rows_def)
  have g: "get_job ?db k = Some (if k = i then superseded_row keep stamp j else j)"
    using Cons.prems by (subst get_job_update_job) auto
  show ?case unfolding u using Cons.IH[OF g] same_job_trans[OF superseded_simps(6)] by (cases "k = i") (auto split: if_splits)
qed

lemma supersede_targets_saved:
  assumes "queue_wf db" and "jid \<in> set (supersede_targets h sid keep db)"
  shows "\<exists>j. get_job db jid = Some j \<and> job_type j = ''approval_post'' \<and> is_terminal (jstate j)"
  using assms get_job_in[OF assms(1)] by (auto simp: supersede_targets_def list_for_session_def split: if_splits)

lemma revived_simps [simp]: "job_id (revived_row res now j) = job_id j" "jstate (revived_row res now j) = Queued"
  "attempt (revived_row res now j) = 0" "picked_by (revived_row res now j) = None" "picked_until (revived_row res now j) = None"
  "same_job j (revived_row res now j)"
  by (simp_all add: revived_row_def same_job_def)

lemma revive_cases:
  obtains (none) "snd (revive_failed_terminal_row jid info now db) = db" "fst (revive_failed_terminal_row jid info now db) \<noteq> Some True"
  | (revived) j res where "get_job db jid = Some j" "jstate j = FailedTerminal"
      "snd (revive_failed_terminal_row jid info now db) = update_job jid (revived_row res now) db"
      "fst (revive_failed_terminal_row jid info now db) = Some True"
proof (cases "\<exists>j res. get_job db jid = Some j \<and> jstate j = FailedTerminal \<and> revival_result info now j = Some res")
  case True
  then show ?thesis using revived by (auto simp: revive_failed_terminal_row_def)
next
  case False
  then show ?thesis by (intro none) (auto simp: revive_failed_terminal_row_def split: option.split)
qed

lemma revive_wf: "queue_wf db \<Longrightarrow> queue_wf (snd (revive_failed_terminal_row jid info now db))"
  by (cases rule: revive_cases[of jid info now db])
    (auto intro!: queue_wf_update_job simp: row_ok_def revived_row_def)

lemma apply_store_step:
  assumes "store_ok s" and "get_job (ss_db s) jid = Some j"
  shows "\<exists>j'. get_job (ss_db (apply_store op s)) jid = Some j' \<and> row_step op j j'"
proof (cases op)
  case (Call qo)
  then show ?thesis using assms db_evolvesD[OF apply_op_evolves] by (auto simp: store_ok_def row_step_def)
next
  case (Requeue_Read p i b now)
  then show ?thesis using assms by simp
next
  case (Requeue_Write p)
  then show ?thesis
    using assms db_evolvesD[OF transition_evolves[OF surjective_pairing]]
    by (auto simp: requeue_apply_def row_step_def split: option.splits open_call.splits)
next
  case (Revive i info now)
  show ?thesis
  proof (cases rule: revive_cases[of i info now "ss_db s"])
    case none
    then show ?thesis using assms Revive by (auto split: option.splits)
  next
    case (revived k res)
    then show ?thesis using assms Revive get_job_SomeD[OF assms(2)]
      by (cases "jid = i") (auto simp: get_job_update_job row_step_def dest: get_job_SomeD split: option.splits)
  qed
next
  case (Supersede_Read p h sid keep)
  then show ?thesis using assms by simp
next
  case (Supersede_Write p stamp)
  show ?thesis
  proof (cases "ss_open s p")
    case (Some c)
    show ?thesis
    proof (cases c)
      case (Supersede_Open ids keep)
      then have t: "\<forall>i \<in> set ids. \<exists>j. get_job (ss_db s) i = Some j \<and> job_type j = ''approval_post'' \<and> is_terminal (jstate j)"
        using assms(1) Some by (auto simp: store_ok_def)
      show ?thesis
        using get_job_supersede[OF assms(2), of ids keep stamp] t assms(2) Supersede_Write Some Supersede_Open
        by (cases "jid \<in> set ids") (auto simp: row_step_def)
    qed (use assms Supersede_Write Some in simp)
  qed (use assms Supersede_Write in simp)
qed

lemma writes_around_terminal:
  "row_step op j j' \<Longrightarrow> job_type j = ''approval_post'' \<Longrightarrow> is_terminal (jstate j) \<Longrightarrow> is_terminal (jstate j')"
  by (cases op) (auto simp: row_step_def dest: row_evolves_terminal)

lemma apply_store_wf: "store_ok s \<Longrightarrow> queue_wf (ss_db (apply_store op s))"
  by (cases op)
    (auto simp: store_ok_def requeue_apply_def split: option.splits open_call.splits
      intro: apply_op_wf revive_wf supersede_wf transition_wf[OF _ surjective_pairing])

lemma apply_store_opens:
  assumes "ss_open (apply_store op s) p = Some (Supersede_Open ids keep)"
  obtains (kept) "ss_open s p = Some (Supersede_Open ids keep)"
  | (read) h sid where "op = Supersede_Read p h sid keep" "ids = supersede_targets h sid keep (ss_db s)"
  using assms by (cases op) (auto split: if_splits sum.splits option.splits open_call.splits)

lemma apply_store_ok:
  assumes "store_ok s"
  shows "store_ok (apply_store op s)"
  unfolding store_ok_def
proof (intro conjI allI impI ballI)
  show wf: "queue_wf (ss_db (apply_store op s))" using assms by (rule apply_store_wf)
  fix p ids keep jid
  assume "ss_open (apply_store op s) p = Some (Supersede_Open ids keep)" and jid: "jid \<in> set ids"
  then show "\<exists>j. get_job (ss_db (apply_store op s)) jid = Some j \<and> job_type j = ''approval_post'' \<and> is_terminal (jstate j)"
  proof (cases rule: apply_store_opens)
    case kept
    then obtain j where j: "get_job (ss_db s) jid = Some j" "job_type j = ''approval_post''" "is_terminal (jstate j)"
      using assms jid unfolding store_ok_def by blast
    then obtain j' where "get_job (ss_db (apply_store op s)) jid = Some j'" "row_step op j j'"
      using apply_store_step[OF assms] by blast
    then show ?thesis using j writes_around_terminal row_step_same by (fastforce simp: same_job_def)
  next
    case (read h sid)
    then show ?thesis using supersede_targets_saved assms jid by (simp add: store_ok_def)
  qed
qed

lemma run_store_ok: "store_ok s \<Longrightarrow> store_ok (run_store ops s)"
  by (induction ops arbitrary: s) (auto intro: apply_store_ok)

end
