(* ===== verification/JobQueueProps.thy ===== *)
theory JobQueueProps
  imports JobQueueHistory
begin

text \<open>
  What the job queue promises its producers and workers, stated on the model of every method of
  \<open>JobQueue\<close>: integrity of the tables, which row a worker is given and that nobody else gets it,
  dependencies, leases, the bound on the requeues of one process, and
  two places where the code does not do what its documentation says. Several processes and the
  writers beside the queue follow in \<open>JobRecoveryProps\<close>.
\<close>

text \<open>Two stored jobs, used to instantiate the theorems below.\<close>

definition two_jobs :: queue_db where
  "two_jobs = \<lparr>job_rows = [new_job ''a'' ''s'' ''coding'' None [] 0 3 1 [] 1,
     new_job ''b'' ''s'' ''coding'' None [] 5 3 2 [] 2], dep_rows = []\<rparr>"

lemma two_jobs_wf: "queue_wf two_jobs"
  by (simp add: two_jobs_def queue_wf_def new_job_def row_ok_def)

abbreviation two_enqueues :: "queue_op list" where
  "two_enqueues \<equiv> [OpEnqueue ''a'' ''s'' ''coding'' None [] 0 3 None [] 1,
     OpEnqueue ''b'' ''s'' ''coding'' None [] 5 3 None [] 2]"

lemma two_jobs_run: "run_queue two_enqueues empty_db = two_jobs"
  by (simp add: enqueue_def empty_db_def job_ids_def two_jobs_def new_job_def Let_def)

lemma two_jobs_get: "get_job two_jobs ''b'' = Some (new_job ''b'' ''s'' ''coding'' None [] 5 3 2 [] 2)"
  by (simp add: two_jobs_def get_job_def find_key_def new_job_def)

lemma two_jobs_pick:
  "pick False ''v'' [] [] 60 9 two_jobs =
    (Inr (Some ((new_job ''b'' ''s'' ''coding'' None [] 5 3 2 [] 2)\<lparr>jstate := Assigned,
        picked_by := Some ''v'', picked_until := Some 69, updated_at := 9\<rparr>)),
     \<lparr>job_rows = [new_job ''a'' ''s'' ''coding'' None [] 0 3 1 [] 1,
        (new_job ''b'' ''s'' ''coding'' None [] 5 3 2 [] 2)\<lparr>jstate := Assigned,
           picked_by := Some ''v'', picked_until := Some 69, updated_at := 9\<rparr>], dep_rows = []\<rparr>)"
  by (simp add: two_jobs_def pick_def pick_eligible_def new_job_def deps_blocked_def pick_before_def
      validate_transition_def update_job_def lease_until_def)

section \<open>Integrity\<close>

text \<open>C29: every history of calls, successful or raising, started on an empty database keeps
  the tables well formed: job ids are unique, every dependency row links two existing jobs and
  occurs once, attempts are never negative, and a leased row has a lease deadline.\<close>

theorem queue_invariant: "queue_wf (run_queue ops empty_db)"
  by (simp add: run_queue_wf)

section \<open>Who gets which job\<close>

text \<open>C1: \<open>pick\<close> by a named worker on an unlocked database gives the best eligible job or
  nothing. A returned job was queued, available, of an accepted type and role, with no unsaved
  parent; no eligible row has a higher priority, or the same priority and an earlier time; it is
  stored as assigned to the worker with a lease of at least one second, and no other row changes.
  Nothing is returned exactly when no row is eligible, and then nothing changes.\<close>

theorem pick_returns_best_eligible:
  assumes "queue_wf db" and "w \<noteq> []"
  shows "case pick False w types roles lease now db of
      (Inl e, db') \<Rightarrow> False
    | (Inr None, db') \<Rightarrow> db' = db \<and> (\<forall>j \<in> set (job_rows db). \<not> pick_eligible db types roles now j)
    | (Inr (Some j), db') \<Rightarrow>
        (\<exists>row \<in> set (job_rows db). pick_eligible db types roles now row
          \<and> (\<forall>o' \<in> set (job_rows db). pick_eligible db types roles now o' \<longrightarrow> pick_before row o')
          \<and> j = row\<lparr>jstate := Assigned, picked_by := Some w,
                picked_until := Some (now + max 1 lease), updated_at := now\<rparr>
          \<and> job_rows db' = map (\<lambda>r. if job_id r = job_id row then j else r) (job_rows db)
          \<and> dep_rows db' = dep_rows db)"
proof -
  obtain r db' where p: "pick False w types roles lease now db = (r, db')" by fastforce
  then show ?thesis
  proof (cases rule: pick_cases)
    case (error e)
    with p assms(2) show ?thesis by (simp add: pick_not_error)
  next
    case none
    with p show ?thesis by (auto simp: filter_empty_conv)
  next
    case (claimed row rest)
    let ?claim = "\<lambda>j. j\<lparr>jstate := Assigned, picked_by := Some w,
        picked_until := Some (lease_until now lease), updated_at := now\<rparr>"
    have best: "\<forall>o' \<in> set (job_rows db). pick_eligible db types roles now o' \<longrightarrow> pick_before row o'"
      using sort_by_head_le[OF total_preorder_pick_before claimed(1)] by simp
    have "job_rows (update_job (job_id row) ?claim db) =
        map (\<lambda>r. if job_id r = job_id row then ?claim row else r) (job_rows db)"
      using claimed(2) assms(1) by (rule update_job_rows)
    with p claimed best show ?thesis by (auto simp: lease_until_def intro!: bexI[of _ row])
  qed
qed

theorem pick_returns_best_eligible_witness:
  "case pick False ''w'' [] [] 60 5 empty_db of (Inr None, db') \<Rightarrow> db' = empty_db | _ \<Rightarrow> False"
  using pick_returns_best_eligible[of empty_db "''w''" "[]" "[]" 60 5]
  by (simp add: pick_def empty_db_def queue_wf_def)

text \<open>C2: a job handed to one worker is handed to nobody else until a call puts that very job
  back to queued: in every history without a requeue of it or a transition of it to queued, no
  later pick, by any worker with any filters, returns it again.\<close>

theorem claim_exclusive:
  assumes "queue_wf db" and "pick busy1 w1 types1 roles1 lease1 now1 db = (Inr (Some j1), db1)"
    and "list_all (\<lambda>op. \<not> requeues (job_id j1) op) ops"
    and "pick busy2 w2 types2 roles2 lease2 now2 (run_queue ops db1) = (Inr (Some j2), db2)"
  shows "job_id j2 \<noteq> job_id j1"
proof
  assume same: "job_id j2 = job_id j1"
  have wf1: "queue_wf db1" using assms(1,2) by (rule pick_wf)
  from assms(1,2) have "get_job db1 (job_id j1) = Some j1" "jstate j1 = Assigned"
    by (rule pick_result, simp)+
  then obtain k where k: "get_job (run_queue ops db1) (job_id j1) = Some k" "jstate k \<noteq> Queued"
    using not_requeued_run[OF wf1 _ _ assms(3)] by auto
  from run_queue_wf[OF wf1] assms(4) obtain row where
    "get_job (run_queue ops db1) (job_id j2) = Some row" "jstate row = Queued"
    by (rule pick_result) (simp add: pick_eligible_def)
  with k same show False by simp
qed

theorem claim_exclusive_witness:
  "\<exists>j1 db1 j2 db2. pick False ''v'' [] [] 60 9 two_jobs = (Inr (Some j1), db1)
    \<and> pick False ''w'' [] [] 60 9 db1 = (Inr (Some j2), db2) \<and> job_id j2 \<noteq> job_id j1"
proof -
  obtain j1 db1 where p1: "pick False ''v'' [] [] 60 9 two_jobs = (Inr (Some j1), db1)"
    by (simp add: two_jobs_pick)
  moreover obtain j2 db2 where p2: "pick False ''w'' [] [] 60 9 db1 = (Inr (Some j2), db2)"
    using p1[unfolded two_jobs_pick]
    by (auto simp: pick_def pick_eligible_def new_job_def deps_blocked_def validate_transition_def)
  ultimately show ?thesis
    using claim_exclusive[OF two_jobs_wf p1, of "[]"] by auto
qed

text \<open>A job is only handed out when every job it depends on is saved, and those jobs stay
  saved whatever happens to the queue afterwards.\<close>

lemma picked_parents_saved:
  assumes "queue_wf db" and "pick busy w types roles lease now db = (Inr (Some j), db1)"
    and "(job_id j, p) \<in> set (dep_rows db)"
  shows "\<exists>pj. get_job (run_queue ops db1) p = Some pj \<and> jstate pj = Saved"
proof -
  from assms(1,2) obtain row where row: "pick_eligible db types roles now row" "job_id j = job_id row"
    "get_job db (job_id row) = Some row" "\<And>k. k \<noteq> job_id j \<Longrightarrow> get_job db1 k = get_job db k"
    by (rule pick_result) blast
  then have q: "jstate row = Queued" by (simp add: pick_eligible_def)
  from assms(1,3) have "p \<in> job_ids db" by (auto simp: queue_wf_def)
  then obtain pj where pj: "get_job db p = Some pj" by (auto simp: get_job_exists)
  have "pj \<in> set (job_rows db)" "job_id pj = p" using get_job_SomeD[OF pj] by auto
  with row(1,2) assms(3) have saved: "jstate pj = Saved"
    by (auto simp: pick_eligible_def deps_blocked_def list_ex_iff)
  with row q pj have "p \<noteq> job_id j" by auto
  with row(4) pj have "get_job db1 p = Some pj" by simp
  then have "get_job (run_queue ops db1) p = Some pj"
    using run_queue_terminal_row[OF pick_wf[OF assms(1,2)]] saved by simp
  with saved show ?thesis by simp
qed

definition parent_child :: queue_db where
  "parent_child = \<lparr>job_rows = [(new_job ''p'' ''s'' ''research'' None [] 0 3 1 [] 1)\<lparr>jstate := Saved\<rparr>,
     (new_job ''c'' ''s'' ''coding'' None [] 5 3 2 [''p''] 2)\<lparr>jstate := Queued\<rparr>],
     dep_rows = [(''c'', ''p'')]\<rparr>"

lemma parent_child_wf: "queue_wf parent_child"
  by (simp add: parent_child_def queue_wf_def new_job_def row_ok_def job_ids_def)

section \<open>Leases\<close>

text \<open>C28: One reaper pass fails exactly the rows whose deadline is now or past while they are assigned, in
  progress, researching or ready for Obsidian: each becomes retryable with its lease cleared and
  the previous holder, deadline and state merged into its result, and its attempt counter is not touched; every other row and all
  dependencies are untouched, the moved rows are returned in table order, and a second pass at
  the same time finds nothing. (\<open>docs/operations.md\<close> tells of a deadline strictly past, of rows in progress only, and of an
  attempt counted; none of the three is what the code does.)\<close>

theorem reap_exact:
  fixes now :: pyfloat and db :: queue_db
  assumes "queue_wf db"
  defines "expired \<equiv> \<lambda>j. jstate j \<in> {Assigned, InProgress, Researching, ReadyForObsidian}
      \<and> (\<exists>u. picked_until j = Some u \<and> u \<le> now)"
    and "failed \<equiv> \<lambda>j. j\<lparr>jstate := FailedRetryable, jresult := dict_merge (jresult j)
        [(''error'', JStr ''lease_expired''), (''reaped_at'', JNum now),
         (''previous_picked_by'', case picked_by j of None \<Rightarrow> JNull | Some w \<Rightarrow> JStr w),
         (''previous_picked_until'', case picked_until j of None \<Rightarrow> JNull | Some u \<Rightarrow> JNum u),
         (''previous_state'', JStr (job_state_value (jstate j)))],
      picked_by := None, picked_until := None, updated_at := now\<rparr>"
  shows "case reap_expired_leases now db of (moved, db') \<Rightarrow>
      job_rows db' = map (\<lambda>j. if expired j then failed j else j) (job_rows db)
      \<and> (\<forall>j. attempt (failed j) = attempt j)
      \<and> dep_rows db' = dep_rows db
      \<and> moved = map failed (filter expired (job_rows db))
      \<and> reap_expired_leases now db' = ([], db')"
proof -
  have x: "lease_expired now = expired"
    by (auto simp: fun_eq_iff expired_def lease_expired_def reap_states_def split: option.splits)
  have f: "reap_row now = failed"
    by (simp add: fun_eq_iff failed_def reap_row_def reaped_result_def json_opt_str_def json_opt_num_def)
  have "reap_expired_leases now (snd (reap_expired_leases now db)) = ([], snd (reap_expired_leases now db))"
    using assms(1) by (rule reap_again)
  then show ?thesis by (simp add: split_beta reap_rows[OF assms(1)] x f) (simp add: failed_def)
qed

theorem reap_exact_witness:
  "reap_expired_leases 100 (snd (reap_expired_leases 100 two_jobs)) =
     ([], snd (reap_expired_leases 100 two_jobs))"
  using reap_exact[OF two_jobs_wf, of 100] by (simp add: split_beta)

text \<open>A lease renewed by its holder is safe until it runs out: another worker's renewal is
  refused and changes nothing, and no reaper pass before the new deadline touches the row.\<close>

lemma lease_holder_protected:
  assumes "queue_wf db" and "renew_lease jid lease (Some w) now db = (Inr (Some j), db1)" and "w \<noteq> []"
  shows "get_job db1 jid = Some j \<and> picked_by j = Some w \<and> picked_until j = Some (now + max 1 lease)
    \<and> (\<forall>v lease' now'. v \<noteq> w \<longrightarrow> renew_lease jid lease' (Some v) now' db1 = (Inr None, db1))
    \<and> (\<forall>t. t < now + max 1 lease \<longrightarrow> get_job (snd (reap_expired_leases t db1)) jid = Some j)"
proof -
  note wf1 = renew_lease_wf[OF assms(1,2)]
  from assms(2,3) obtain c f where c: "get_job db jid = Some c" "j = f c" "db1 = update_job jid f db"
    "picked_by c = Some w"
    and f: "f = (\<lambda>j. j\<lparr>picked_until := Some (lease_until now lease), updated_at := now\<rparr>)"
    by (auto elim!: renew_lease_cases)
  then have g: "get_job db1 jid = Some j" by (simp add: get_job_update_job get_job_SomeD)
  have 1: "get_job db1 jid = Some j \<and> picked_by j = Some w \<and> picked_until j = Some (now + max 1 lease)"
    using g c f by (simp add: lease_until_def)
  then have 2: "v \<noteq> w \<Longrightarrow> renew_lease jid lease' (Some v) now' db1 = (Inr None, db1)" for v lease' now'
    by (auto simp: renew_lease_def)
  from 1 have "t < now + max 1 lease \<Longrightarrow> get_job (snd (reap_expired_leases t db1)) jid = Some j" for t
    by (simp add: get_job_reap[OF wf1] lease_expired_def)
  with 1 2 show ?thesis by blast
qed

definition leased_job :: queue_db where
  "leased_job = \<lparr>job_rows = [(new_job ''a'' ''s'' ''coding'' None [] 0 3 1 [] 1)\<lparr>jstate := InProgress,
     picked_by := Some ''w'', picked_until := Some 20\<rparr>], dep_rows = []\<rparr>"

lemma leased_job_wf: "queue_wf leased_job"
  by (simp add: leased_job_def queue_wf_def new_job_def row_ok_def)

lemma leased_job_renew:
  "renew_lease ''a'' 60 (Some ''w'') 10 leased_job =
    (Inr (Some ((new_job ''a'' ''s'' ''coding'' None [] 0 3 1 [] 1)\<lparr>jstate := InProgress,
       picked_by := Some ''w'', picked_until := Some 70, updated_at := 10\<rparr>)),
     \<lparr>job_rows = [(new_job ''a'' ''s'' ''coding'' None [] 0 3 1 [] 1)\<lparr>jstate := InProgress,
       picked_by := Some ''w'', picked_until := Some 70, updated_at := 10\<rparr>], dep_rows = []\<rparr>)"
  by (simp add: leased_job_def renew_lease_def get_job_def find_key_def new_job_def update_job_def
      lease_active_states_def lease_until_def)

section \<open>Retries\<close>

text \<open>However long the history after it, a stored job is put back to the queue by calls of
  \<open>requeue_retryable\<close> that nothing interrupts at most \<open>max_attempts - 1 - attempt\<close> times.\<close>

lemma calls_requeue_bounded:
  assumes "queue_wf db" and "get_job db jid = Some j"
  shows "int (requeue_grants jid ops db) \<le> max 0 (max_attempts j - 1 - attempt j)"
proof -
  have h: "holds_job_max jid (max_attempts j) db" using assms by (auto simp: holds_job_max_def)
  have "requeue_grants jid ops db + 0 \<le> nat (max_attempts j - 1) - job_attempts jid db"
    using jr.retries_bound[OF requeue_grants_retries[OF jr.none[OF h] h]] .
  moreover have "0 \<le> attempt j" using get_job_row_ok[OF assms] by (simp add: row_ok_def)
  ultimately show ?thesis using assms(2) by (simp add: job_attempts_def)
qed

text \<open>Once the attempts are used up, a requeue of the failed job makes it terminally failed with its lease cleared.\<close>

lemma exhausted_requeue_fails:
  assumes "queue_wf db" and "get_job db jid = Some j" and "jstate j = FailedRetryable" and "max_attempts j \<le> attempt j + 1"
  shows "requeue_retryable jid backoff now db =
    (let j' = j\<lparr>jstate := FailedTerminal, picked_by := None, picked_until := None, updated_at := now\<rparr>
     in (Inr j', db\<lparr>job_rows := map (\<lambda>r. if job_id r = jid then j' else r) (job_rows db)\<rparr>))"
  using assms get_job_SomeD[OF assms(2)] update_job_rows[of j db]
  by (auto simp: requeue_retryable_def requeue_decide_def requeue_apply_def transition_def
      validate_transition_def update_job_def Let_def)

text \<open>\<open>requeue_retryable\<close> decides on one read and writes in a later transaction that only
  checks the transition table. When another requeue and a pick come in between, the late write
  still succeeds: it takes a live lease away from the worker holding it, counts the attempt a
  second time, and makes the job available to others while that worker runs it.\<close>

lemma stale_requeue_steals_lease:
  assumes "get_job db jid = Some c" and "jstate c = FailedRetryable" and "attempt c + 1 < max_attempts c"
    and "requeue_decide jid backoff now db = Inr plan"
    and "get_job db1 jid = Some h" and "jstate h = Assigned" and "picked_by h = Some w"
  shows "\<exists>j db2. requeue_apply jid plan now db1 = (Inr j, db2) \<and> get_job db2 jid = Some j
    \<and> jstate j = Queued \<and> picked_by j = None \<and> picked_until j = None \<and> attempt j = attempt h + 1"
proof -
  have "plan = \<lparr>rq_target = Queued, rq_available = Some (now + max 0 backoff), rq_bump = True\<rparr>"
    using assms(1-4) by (auto simp: requeue_decide_def)
  with assms(5-7) get_job_SomeD[OF assms(5)] show ?thesis
    by (auto simp: requeue_apply_def transition_def validate_transition_def Let_def get_job_update_job)
qed

definition failed_job :: queue_db where
  "failed_job = \<lparr>job_rows = [(new_job ''a'' ''s'' ''coding'' None [] 0 9 1 [] 1)\<lparr>jstate := FailedRetryable\<rparr>],
     dep_rows = []\<rparr>"

definition taken_job :: queue_db where
  "taken_job = run_queue [OpRequeue ''a'' 0 10, OpPick False ''w'' [] [] 60 11] failed_job"

lemma taken_job: "taken_job = \<lparr>job_rows = [(new_job ''a'' ''s'' ''coding'' None [] 0 9 1 [] 1)\<lparr>jstate := Assigned,
     attempt := 1, available_at := 10, picked_by := Some ''w'', picked_until := Some 71, updated_at := 11\<rparr>],
     dep_rows = []\<rparr>"
  by (simp add: taken_job_def failed_job_def requeue_retryable_def requeue_decide_def requeue_apply_def
      transition_def validate_transition_def get_job_def find_key_def new_job_def update_job_def pick_def
      pick_eligible_def deps_blocked_def lease_until_def Let_def)

section \<open>Waiting jobs\<close>

text \<open>A job enqueued behind parents starts in \<open>waiting_for_role\<close>, and no call of the queue
  moves it on when its parents are saved: it stays there, and is never handed out, in every
  history without an explicit \<open>transition\<close> of that very job.\<close>

lemma waiting_job_never_promoted:
  assumes "queue_wf db" and "get_job db jid = Some j" and "jstate j = WaitingForRole"
    and "list_all (\<lambda>op. \<not> names_transition jid op) ops"
  shows "(\<exists>j'. get_job (run_queue ops db) jid = Some j' \<and> jstate j' = WaitingForRole)
    \<and> (\<forall>busy w types roles lease now k db2.
         pick busy w types roles lease now (run_queue ops db) = (Inr (Some k), db2) \<longrightarrow> job_id k \<noteq> jid)"
proof -
  from waiting_run[OF assms] obtain j' where
    j': "get_job (run_queue ops db) jid = Some j'" "jstate j' = WaitingForRole" by blast
  have "job_id k \<noteq> jid"
    if "pick busy w types roles lease now (run_queue ops db) = (Inr (Some k), db2)"
    for busy w types roles lease now k db2
  proof -
    from run_queue_wf[OF assms(1)] that obtain row where
      row: "pick_eligible (run_queue ops db) types roles now row" "job_id k = job_id row"
        "get_job (run_queue ops db) (job_id row) = Some row" by (rule pick_result)
    then have "jstate row = Queued" by (simp add: pick_eligible_def)
    show ?thesis
    proof
      assume "job_id k = jid"
      with row(2,3) j'(1) have "row = j'" by simp
      with \<open>jstate row = Queued\<close> j'(2) show False by simp
    qed
  qed
  with j' show ?thesis by blast
qed

definition waiting_child :: queue_db where
  "waiting_child = \<lparr>job_rows = [(new_job ''p'' ''s'' ''research'' None [] 0 3 1 [] 1)\<lparr>jstate := InProgress\<rparr>,
     new_job ''c'' ''s'' ''coding'' None [] 5 3 2 [''p''] 2], dep_rows = [(''c'', ''p'')]\<rparr>"

end
