(* ===== verification/JobRecoveryProps.thy ===== *)
theory JobRecoveryProps
  imports JobRecovery JobQueueProps
begin

text \<open>
  What holds of the queue when processes interleave and the direct writes of the recovery and of the approval cards
  take part: the life of a row, step by step, and how often a job can be put back to the queue.
\<close>

section \<open>The life of a row\<close>

lemma run_store_job:
  assumes "store_ok s" and "get_job (ss_db s) jid = Some j"
  shows "\<exists>j'. get_job (ss_db (run_store ops s)) jid = Some j' \<and> same_job j j'"
  using assms
proof (induction ops arbitrary: s j)
  case Nil
  then show ?case by (simp add: same_job_def)
next
  case (Cons op ops)
  then obtain i where "get_job (ss_db (apply_store op s)) jid = Some i" "row_step op j i" using apply_store_step by blast
  then show ?case using Cons.IH[of "apply_store op s" i] Cons.prems apply_store_ok row_step_same same_job_trans by fastforce
qed

lemma row_step_attempt: "row_step op j j' \<Longrightarrow> (\<forall>info t. op \<noteq> Revive (job_id j) info t) \<Longrightarrow> attempt j \<le> attempt j'"
  by (cases op) (auto simp: row_step_def row_evolves_def)

lemma row_step_terminal:
  "row_step op j j' \<Longrightarrow> is_terminal (jstate j) \<Longrightarrow> (\<forall>info t. op \<noteq> Revive (job_id j) info t) \<Longrightarrow>
    (\<forall>p t. op \<noteq> Supersede_Write p t) \<Longrightarrow> j' = j"
  by (cases op) (auto simp: row_step_def dest: row_evolves_terminal)

lemma run_store_attempt:
  assumes "store_ok s" and "get_job (ss_db s) jid = Some j" and "get_job (ss_db (run_store ops s)) jid = Some j'"
    and "\<forall>info t. Revive jid info t \<notin> set ops"
  shows "attempt j \<le> attempt j'"
  using assms
proof (induction ops arbitrary: s j)
  case (Cons op ops)
  then obtain i where i: "get_job (ss_db (apply_store op s)) jid = Some i" "row_step op j i" using apply_store_step by blast
  moreover have "\<forall>info t. op \<noteq> Revive (job_id j) info t" using Cons.prems(4) get_job_SomeD[OF Cons.prems(2)] by auto
  ultimately have "attempt j \<le> attempt i" by (metis row_step_attempt)
  moreover have "attempt i \<le> attempt j'" using Cons.IH[OF apply_store_ok[OF Cons.prems(1)] i(1)] Cons.prems(3,4) by simp
  ultimately show ?case by simp
qed simp

lemma run_store_terminal:
  assumes "store_ok s" and "get_job (ss_db s) jid = Some j" and "is_terminal (jstate j)"
    and "\<forall>info t. Revive jid info t \<notin> set ops" and "\<forall>p t. Supersede_Write p t \<notin> set ops"
  shows "get_job (ss_db (run_store ops s)) jid = Some j"
  using assms
proof (induction ops arbitrary: s)
  case (Cons op ops)
  then obtain i where i: "get_job (ss_db (apply_store op s)) jid = Some i" "row_step op j i" using apply_store_step by blast
  moreover have "\<forall>info t. op \<noteq> Revive (job_id j) info t" "\<forall>p t. op \<noteq> Supersede_Write p t"
    using Cons.prems(4,5) get_job_SomeD[OF Cons.prems(2)] by auto
  ultimately have "i = j" using row_step_terminal Cons.prems(3) by blast
  then show ?case using Cons i apply_store_ok by simp
qed simp

lemma row_evolves_move:
  "row_evolves a b \<Longrightarrow> (jstate b = jstate a \<or> jstate b \<in> STATE_TRANSITIONS (jstate a)) \<and> attempt a \<le> attempt b
    \<and> (is_terminal (jstate a) \<longrightarrow> b = a)"
  using row_evolves_terminal by (auto simp: row_evolves_def)

lemma run_store_trace:
  assumes "store_ok s" and "get_job (ss_db s) jid = Some j" and "k < length ops"
  shows "\<exists>a b. get_job (ss_db (run_store (take k ops) s)) jid = Some a \<and> get_job (ss_db (run_store (take (Suc k) ops) s)) jid = Some b
    \<and> same_job j a \<and> row_step (ops ! k) a b"
proof -
  let ?t = "run_store (take k ops) s"
  obtain a where a: "get_job (ss_db ?t) jid = Some a" "same_job j a" using run_store_job[OF assms(1,2)] by blast
  then obtain b where "get_job (ss_db (apply_store (ops ! k) ?t)) jid = Some b" "row_step (ops ! k) a b"
    using apply_store_step[OF run_store_ok[OF assms(1)]] by blast
  then show ?thesis using a by (auto simp: take_Suc_conv_app_nth[OF assms(3)])
qed

text \<open>C21: The life of a job, in every history of the tables: calls of the queue, requeues whose two transactions are
  interleaved with those of other processes, revivals of the recovery and withdrawals of approval cards. The job stays in the
  table with its identity, payload, role, priority and limits. Each single step leaves its state, or moves it
  along one edge of \<open>STATE_TRANSITIONS\<close>, never lowers its attempt counter and never touches a saved or terminally failed
  row, with two exceptions: a revival puts a terminally failed coding job back to the queue with its counter at zero, and a withdrawal
  makes a saved approval card terminally failed. Without these two the counter never goes down over the
  whole history, and a terminal row never changes.\<close>

theorem job_history:
  assumes "s = run_store ops1 (quiet_store empty_db)" and "get_job (ss_db s) jid = Some j"
  shows "\<exists>j'. get_job (ss_db (run_store ops2 s)) jid = Some j'
    \<and> (job_id j', session_id j', job_type j', payload j', jrole j', priority j', max_attempts j', created_at j')
      = (job_id j, session_id j, job_type j, payload j, jrole j, priority j, max_attempts j, created_at j)
    \<and> (\<forall>k < length ops2. \<exists>a b. get_job (ss_db (run_store (take k ops2) s)) jid = Some a
        \<and> get_job (ss_db (run_store (take (Suc k) ops2) s)) jid = Some b
        \<and> ((jstate b = jstate a \<or> jstate b \<in> STATE_TRANSITIONS (jstate a)) \<and> attempt a \<le> attempt b
              \<and> (is_terminal (jstate a) \<longrightarrow> b = a)
           \<or> (\<exists>info t. ops2 ! k = Revive jid info t) \<and> job_type j = ''coding_execute''
              \<and> jstate a = FailedTerminal \<and> jstate b = Queued \<and> attempt b = 0 \<and> picked_by b = None \<and> picked_until b = None
           \<or> (\<exists>p t. ops2 ! k = Supersede_Write p t) \<and> job_type j = ''approval_post''
              \<and> is_terminal (jstate a) \<and> jstate b = FailedTerminal \<and> attempt b = attempt a))
    \<and> ((\<forall>info t. Revive jid info t \<notin> set ops2) \<longrightarrow> attempt j \<le> attempt j'
        \<and> (is_terminal (jstate j) \<and> (\<forall>p t. Supersede_Write p t \<notin> set ops2) \<longrightarrow> j' = j))"
proof -
  have ok: "store_ok s" using assms(1) by (simp add: run_store_ok quiet_store_ok)
  obtain j' where j': "get_job (ss_db (run_store ops2 s)) jid = Some j'" "same_job j j'" using run_store_job[OF ok assms(2)] by blast
  have step: "(jstate b = jstate a \<or> jstate b \<in> STATE_TRANSITIONS (jstate a)) \<and> attempt a \<le> attempt b
              \<and> (is_terminal (jstate a) \<longrightarrow> b = a)
           \<or> (\<exists>info t. op = Revive jid info t) \<and> job_type j = ''coding_execute''
              \<and> jstate a = FailedTerminal \<and> jstate b = Queued \<and> attempt b = 0 \<and> picked_by b = None \<and> picked_until b = None
           \<or> (\<exists>p t. op = Supersede_Write p t) \<and> job_type j = ''approval_post''
              \<and> is_terminal (jstate a) \<and> jstate b = FailedTerminal \<and> attempt b = attempt a"
    if "row_step op a b" "same_job j a" for op a b
    using that row_evolves_move[of a b] get_job_SomeD[OF assms(2)] by (cases op) (auto simp: row_step_def same_job_def)
  have trace: "\<exists>a b. get_job (ss_db (run_store (take k ops2) s)) jid = Some a
      \<and> get_job (ss_db (run_store (take (Suc k) ops2) s)) jid = Some b \<and> same_job j a \<and> row_step (ops2 ! k) a b"
    if "k < length ops2" for k using run_store_trace[OF ok assms(2) that] .
  have last: "(\<forall>info t. Revive jid info t \<notin> set ops2) \<longrightarrow> attempt j \<le> attempt j'
      \<and> (is_terminal (jstate j) \<and> (\<forall>p t. Supersede_Write p t \<notin> set ops2) \<longrightarrow> j' = j)"
    using run_store_attempt[OF ok assms(2) j'(1)] run_store_terminal[OF ok assms(2)] j'(1) by auto
  show ?thesis
  proof (intro exI[of _ j'] conjI last j'(1))
    show "(job_id j', session_id j', job_type j', payload j', jrole j', priority j', max_attempts j', created_at j')
      = (job_id j, session_id j, job_type j, payload j, jrole j, priority j, max_attempts j, created_at j)"
      using j'(2) by (simp add: same_job_def)
  next
    show "\<forall>k < length ops2. \<exists>a b. get_job (ss_db (run_store (take k ops2) s)) jid = Some a
        \<and> get_job (ss_db (run_store (take (Suc k) ops2) s)) jid = Some b
        \<and> ((jstate b = jstate a \<or> jstate b \<in> STATE_TRANSITIONS (jstate a)) \<and> attempt a \<le> attempt b
              \<and> (is_terminal (jstate a) \<longrightarrow> b = a)
           \<or> (\<exists>info t. ops2 ! k = Revive jid info t) \<and> job_type j = ''coding_execute''
              \<and> jstate a = FailedTerminal \<and> jstate b = Queued \<and> attempt b = 0 \<and> picked_by b = None \<and> picked_until b = None
           \<or> (\<exists>p t. ops2 ! k = Supersede_Write p t) \<and> job_type j = ''approval_post''
              \<and> is_terminal (jstate a) \<and> jstate b = FailedTerminal \<and> attempt b = attempt a)"
    proof (intro allI impI)
      fix k
      assume "k < length ops2"
      then obtain a b where ab: "get_job (ss_db (run_store (take k ops2) s)) jid = Some a"
        "get_job (ss_db (run_store (take (Suc k) ops2) s)) jid = Some b" "same_job j a" "row_step (ops2 ! k) a b"
        using trace by blast
      then show "\<exists>a b. get_job (ss_db (run_store (take k ops2) s)) jid = Some a
          \<and> get_job (ss_db (run_store (take (Suc k) ops2) s)) jid = Some b
          \<and> ((jstate b = jstate a \<or> jstate b \<in> STATE_TRANSITIONS (jstate a)) \<and> attempt a \<le> attempt b
                \<and> (is_terminal (jstate a) \<longrightarrow> b = a)
             \<or> (\<exists>info t. ops2 ! k = Revive jid info t) \<and> job_type j = ''coding_execute''
                \<and> jstate a = FailedTerminal \<and> jstate b = Queued \<and> attempt b = 0 \<and> picked_by b = None \<and> picked_until b = None
             \<or> (\<exists>p t. ops2 ! k = Supersede_Write p t) \<and> job_type j = ''approval_post''
                \<and> is_terminal (jstate a) \<and> jstate b = FailedTerminal \<and> attempt b = attempt a)"
        using step[OF ab(4,3)] by blast
    qed
  qed
qed

text \<open>A coding job that failed for good and is revived.\<close>

definition revival_ops :: "store_op list" where
  "revival_ops = [Call (OpEnqueue ''a'' ''s'' ''coding_execute'' None [] 0 1 None [] 1),
     Call (OpPick False ''w'' [] [] 60 2), Call (OpTransition ''a'' InProgress None None False False 3), Call (OpTransition ''a'' FailedTerminal None None True False 4)]"

theorem job_history_witness:
  "\<exists>j j'. get_job (ss_db (run_store revival_ops (quiet_store empty_db))) ''a'' = Some j \<and> jstate j = FailedTerminal
    \<and> get_job (ss_db (run_store [Revive ''a'' [] 9] (run_store revival_ops (quiet_store empty_db)))) ''a'' = Some j'
    \<and> job_id j' = job_id j"
proof -
  have "\<exists>j. get_job (ss_db (run_store revival_ops (quiet_store empty_db))) ''a'' = Some j \<and> jstate j = FailedTerminal"
    by (simp add: revival_ops_def quiet_store_def empty_db_def enqueue_def job_ids_def new_job_def Let_def pick_def pick_eligible_def
        deps_blocked_def validate_transition_def transition_def get_job_def find_key_def update_job_def)
  then show ?thesis using job_history[OF refl, of revival_ops "''a''" _ "[Revive ''a'' [] 9]"] by fastforce
qed

section \<open>Requeues of several processes\<close>

text \<open>The requeues of \<open>jid\<close> that put it back to the queue, each counted at its write.\<close>

fun store_grants :: "string \<Rightarrow> store_op list \<Rightarrow> store_state \<Rightarrow> nat" where
  "store_grants jid [] s = 0"
| "store_grants jid (op # ops) s =
     (case op of
        Requeue_Write p \<Rightarrow> (case ss_open s p of
            Some (Requeue_Open i plan now) \<Rightarrow>
              if i = jid \<and> rq_target plan = Queued \<and> is_ok (fst (requeue_apply jid plan now (ss_db s))) then 1 else 0
          | _ \<Rightarrow> 0)
      | _ \<Rightarrow> 0) + store_grants jid ops (apply_store op s)"

















text \<open>Two processes read the failed row before either writes; the second write comes after the job was handed out again. The
  job of two attempts is put back twice, the bound for two processes, and the worker that holds it loses its lease.\<close>

definition two_processes :: "store_op list" where
  "two_processes = [Requeue_Read ''p'' ''a'' 0 10, Requeue_Read ''q'' ''a'' 0 10, Requeue_Write ''p'',
     Call (OpPick False ''w'' [] [] 60 11), Requeue_Write ''q'']"

definition once_failed :: queue_db where
  "once_failed = \<lparr>job_rows = [(new_job ''a'' ''s'' ''coding_execute'' None [] 0 2 1 [] 1)\<lparr>jstate := FailedRetryable\<rparr>],
     dep_rows = []\<rparr>"


lemma second_process_goes_past_the_limit: "store_grants ''a'' two_processes (quiet_store once_failed) = 2"
  by (simp add: two_processes_def once_failed_def quiet_store_def requeue_decide_def requeue_apply_def transition_def
      validate_transition_def get_job_def find_key_def new_job_def update_job_def pick_def pick_eligible_def
      deps_blocked_def lease_until_def is_ok_def Let_def)


section \<open>Recovery sweeps\<close>

text \<open>A sweep is such a history: requeues of the rows that may be retried and revivals of those that failed for good.\<close>

lemma recover_loop_history:
  assumes "\<And>row. row \<in> set rows \<Longrightarrow> job_type row = ''coding_execute'' \<and> (\<exists>j. get_job (ss_db s) (job_id row) = Some j \<and> job_type j = ''coding_execute'')"
    and "store_ok s"
  shows "\<exists>ops. ss_db (run_store ops s) = snd (recover_loop f clock rows (ss_db s)) \<and> length ops \<le> length rows
    \<and> list_all (\<lambda>op. \<exists>row \<in> set rows. (\<exists>t. op = Call (OpRequeue (job_id row) 5 t)) \<or> (\<exists>info t. op = Revive (job_id row) info t)) ops"
  using assms
proof (induction rows arbitrary: s)
  case Nil
  show ?case by (intro exI[of _ "[]"]) simp
next
  case (Cons row rows)
  have later: "\<exists>ops. ss_db (run_store ops t) = snd (recover_loop f clock rows (ss_db t)) \<and> length ops \<le> length rows
      \<and> list_all (\<lambda>op. \<exists>row \<in> set (row # rows). (\<exists>t. op = Call (OpRequeue (job_id row) 5 t)) \<or> (\<exists>info t. op = Revive (job_id row) info t)) ops"
    if t: "t = s \<or> (\<exists>op. t = apply_store op s)" for t
  proof -
    have ok: "store_ok t" using t Cons.prems(2) apply_store_ok by auto
    have "job_type r = ''coding_execute'' \<and> (\<exists>j. get_job (ss_db t) (job_id r) = Some j \<and> job_type j = ''coding_execute'')"
      if r: "r \<in> set rows" for r
      using t Cons.prems(1)[of r] r apply_store_step[OF Cons.prems(2), of "job_id r"] row_step_same
      by (fastforce simp: same_job_def)
    from Cons.IH[OF this ok] show ?thesis by (fastforce simp: list_all_iff)
  qed
  show ?case
  proof (cases "f row")
    case None
    then show ?thesis using later[of s] by (auto intro: le_SucI)
  next
    case (Some info)
    let ?op = "if jstate row = FailedRetryable then Call (OpRequeue (job_id row) 5 (clock (job_id row)))
      else Revive (job_id row) info (clock (job_id row))"
    have "snd (recover_loop f clock (row # rows) (ss_db s)) = snd (recover_loop f clock rows (ss_db (apply_store ?op s)))"
      using Some Cons.prems(1)[of row] by (auto simp: split_beta Let_def)
    moreover obtain ops where "ss_db (run_store ops (apply_store ?op s)) = snd (recover_loop f clock rows (ss_db (apply_store ?op s)))"
      "length ops \<le> length rows"
      "list_all (\<lambda>op. \<exists>row \<in> set (row # rows). (\<exists>t. op = Call (OpRequeue (job_id row) 5 t)) \<or> (\<exists>info t. op = Revive (job_id row) info t)) ops"
      using later[of "apply_store ?op s"] by blast
    ultimately show ?thesis by (intro exI[of _ "?op # ops"]) auto
  qed
qed

text \<open>A sweep reports every row it requeued as brought back, also one whose attempts were used up: that row has just
  become terminally failed, and the next sweep revives it with all its attempts.\<close>

lemma sweep_reports_a_dead_job:
  assumes "get_job db (job_id row) = Some row" and "jstate row = FailedRetryable" and "max_attempts row \<le> attempt row + 1"
    and "f row = Some info"
  shows "\<exists>db'. recover_loop f clock [row] db = ([job_id row], db')
    \<and> (\<exists>j. get_job db' (job_id row) = Some j \<and> jstate j = FailedTerminal)"
  using assms
  by (auto simp: requeue_retryable_def requeue_decide_def requeue_apply_def transition_def validate_transition_def
      is_ok_def Let_def get_job_update_job)

end
