(* ===== verification/Heartbeat.thy ===== *)
theory Heartbeat
  imports JobQueueHistory
begin

text \<open>
  Heartbeats, \<open>job_queue/heartbeat.py\<close>: the \<open>service_heartbeats\<close> table as a list of rows, every
  method of \<open>HeartbeatStore\<close>, and the watchdog tick \<open>run_supervisor_sweep\<close> over this table and the
  job queue.
\<close>

record heartbeat =
  hb_service :: string
  hb_last_beat :: pyfloat
  hb_pid :: "int option"
  hb_metadata :: "json pydict"

type_synonym heartbeat_db = "heartbeat list"

datatype heartbeat_error = ServiceIdRequired

definition DEFAULT_HEARTBEAT_DEADLINE_SECONDS :: pyfloat where
  "DEFAULT_HEARTBEAT_DEADLINE_SECONDS = 90"

definition is_alive :: "pyfloat \<Rightarrow> pyfloat \<Rightarrow> heartbeat \<Rightarrow> bool" where
  "is_alive now deadline r \<longleftrightarrow> now - hb_last_beat r \<le> max 1 deadline"

definition record_beat :: "string \<Rightarrow> int option \<Rightarrow> json pydict option \<Rightarrow> pyfloat \<Rightarrow> heartbeat_db \<Rightarrow>
    (heartbeat_error + heartbeat) \<times> heartbeat_db" where
  "record_beat service_id pid metadata now db =
     (if service_id = [] then (Inl ServiceIdRequired, db)
      else
        let row = \<lparr>hb_service = service_id, hb_last_beat = now, hb_pid = pid,
                   hb_metadata = (case metadata of None \<Rightarrow> [] | Some m \<Rightarrow> m)\<rparr>
        in (Inr row, upsert hb_service row db))"

definition get_beat :: "heartbeat_db \<Rightarrow> string \<Rightarrow> heartbeat option" where
  "get_beat db service_id = find_key hb_service service_id db"

definition list_beats :: "heartbeat_db \<Rightarrow> heartbeat list" where
  "list_beats db = sort_by (\<lambda>a b. hb_service a \<le> hb_service b) db"

definition stale_services :: "pyfloat \<Rightarrow> pyfloat \<Rightarrow> heartbeat_db \<Rightarrow> heartbeat list" where
  "stale_services deadline now db =
     (let cutoff = now - max 1 deadline
      in sort_by (\<lambda>a b. hb_last_beat a \<le> hb_last_beat b) (filter (\<lambda>r. hb_last_beat r \<le> cutoff) db))"

definition clear_beat :: "string \<Rightarrow> heartbeat_db \<Rightarrow> heartbeat_db" where
  "clear_beat service_id db = filter (\<lambda>r. hb_service r \<noteq> service_id) db"

section \<open>The watchdog tick\<close>

record sweep_report =
  sweep_stale :: "heartbeat list"
  reaped_jobs :: nat
  swept_at :: pyfloat

definition run_supervisor_sweep :: "pyfloat \<Rightarrow> pyfloat \<Rightarrow> heartbeat_db \<Rightarrow> queue_db \<Rightarrow>
    sweep_report \<times> queue_db" where
  "run_supervisor_sweep deadline now hb db =
     (let stale = stale_services deadline now hb;
          (reaped, db') = reap_expired_leases now db
      in (\<lparr>sweep_stale = stale, reaped_jobs = length reaped, swept_at = now\<rparr>, db'))"

section \<open>The table as a store with one row per service\<close>

definition put_beat :: "heartbeat \<Rightarrow> heartbeat_db \<Rightarrow> heartbeat_db" where
  "put_beat r db = snd (record_beat (hb_service r) (hb_pid r) (Some (hb_metadata r)) (hb_last_beat r) db)"

definition beats_wf :: "heartbeat_db \<Rightarrow> bool" where
  "beats_wf db \<longleftrightarrow> distinct (map hb_service db) \<and> [] \<notin> hb_service ` set db"

lemma record_beat_ok:
  "s \<noteq> [] \<Longrightarrow> record_beat s pid md now db =
    (let row = \<lparr>hb_service = s, hb_last_beat = now, hb_pid = pid, hb_metadata = (case md of None \<Rightarrow> [] | Some m \<Rightarrow> m)\<rparr>
     in (Inr row, upsert hb_service row db))"
  by (simp add: record_beat_def)

interpretation hb: keyed_table get_beat put_beat clear_beat hb_service "\<lambda>r. hb_service r \<noteq> []" beats_wf
proof unfold_locales
  show "hb_service v \<noteq> [] \<Longrightarrow> get_beat (put_beat v t) k = (if k = hb_service v then Some v else get_beat t k)" for t v k
    by (simp add: put_beat_def record_beat_ok get_beat_def find_key_upsert Let_def)
  show "get_beat (clear_beat k' t) k = (if k = k' then None else get_beat t k)" for t k k'
    by (simp add: get_beat_def clear_beat_def find_key_delete)
  show "beats_wf t \<Longrightarrow> beats_wf (put_beat v t)" for t v
    by (auto simp: beats_wf_def put_beat_def record_beat_def Let_def distinct_upsert dest!: set_upsert)
  show "beats_wf t \<Longrightarrow> beats_wf (clear_beat k' t)" for t k'
    by (auto simp: beats_wf_def clear_beat_def distinct_map_filter)
qed

text \<open>The calls a service and an operator make, as a history.\<close>

datatype beat_op = Beat string "int option" "json pydict option" pyfloat | ClearBeat string

primrec apply_beat :: "beat_op \<Rightarrow> heartbeat_db \<Rightarrow> heartbeat_db" where
  "apply_beat (Beat s pid md now) db = snd (record_beat s pid md now db)"
| "apply_beat (ClearBeat s) db = clear_beat s db"

definition beat_row :: "string \<Rightarrow> int option \<Rightarrow> json pydict option \<Rightarrow> pyfloat \<Rightarrow> heartbeat" where
  "beat_row s pid md now = \<lparr>hb_service = s, hb_last_beat = now, hb_pid = pid,
     hb_metadata = (case md of None \<Rightarrow> [] | Some m \<Rightarrow> m)\<rparr>"

primrec beat_write :: "beat_op \<Rightarrow> (string, heartbeat) table_op" where
  "beat_write (Beat s pid md now) = Put (beat_row s pid md now)"
| "beat_write (ClearBeat s) = Del s"

primrec names_service :: "beat_op \<Rightarrow> string" where
  "names_service (Beat s pid md now) = s"
| "names_service (ClearBeat s) = s"

lemma apply_beat_write: "apply_beat a db = hb.step (beat_write a) db"
  by (cases a) (simp_all add: put_beat_def beat_row_def record_beat_def Let_def)

lemma apply_beats_write: "fold apply_beat as db = fold hb.step (map beat_write as) db"
  by (induction as arbitrary: db) (simp_all add: apply_beat_write)

lemma beats_wf_run: "beats_wf db \<Longrightarrow> beats_wf (fold apply_beat as db)"
  by (simp add: apply_beats_write hb.inv_steps)

text \<open>A call without a service id changes nothing.\<close>

lemma apply_beat_unnamed: "names_service a = [] \<Longrightarrow> beats_wf db \<Longrightarrow> apply_beat a db = db"
  by (cases a) (force simp: record_beat_def clear_beat_def beats_wf_def intro!: filter_id_set)+

lemma apply_beats_named:
  "beats_wf db \<Longrightarrow> fold apply_beat as db = fold apply_beat (filter (\<lambda>a. names_service a \<noteq> []) as) db"
proof (induction as arbitrary: db)
  case Nil
  then show ?case by simp
next
  case (Cons a as)
  have "beats_wf (apply_beat a db)" using beats_wf_run[OF Cons.prems, of "[a]"] by simp
  with Cons show ?case by (simp add: apply_beat_unnamed)
qed

lemma named_valid: "list_all hb.valid_op (map beat_write (filter (\<lambda>a. names_service a \<noteq> []) as))"
proof -
  have "names_service a \<noteq> [] \<Longrightarrow> hb.valid_op (beat_write a)" for a
    by (cases a) (simp_all add: beat_row_def)
  then show ?thesis by (simp add: list_all_iff)
qed

lemma find_filter_named:
  "s \<noteq> [] \<Longrightarrow> find (\<lambda>a. names_service a = s) (filter (\<lambda>a. names_service a \<noteq> []) as) =
    find (\<lambda>a. names_service a = s) as"
  by (induction as) auto

lemma find_touches:
  "find (hb.touches s) (map beat_write as) = map_option beat_write (find (\<lambda>a. names_service a = s) as)"
proof (induction as)
  case Nil
  then show ?case by simp
next
  case (Cons a as)
  then show ?case by (cases a) (auto simp: beat_row_def)
qed

section \<open>Properties\<close>

text \<open>What \<open>get\<close> gives for a service is decided by the last call that named it: the row of the
  last \<open>record\<close>, nothing after a \<open>clear\<close>, and what was there before when no call named it. Calls for
  other services, and calls that raise for want of a service id, do not matter, and the table keeps one row per service.\<close>

lemma last_beat_wins:
  assumes "beats_wf db" and "s \<noteq> []"
  shows "get_beat (fold apply_beat as db) s =
      (case find (\<lambda>a. names_service a = s) (rev as) of
         None \<Rightarrow> get_beat db s
       | Some (Beat s' pid md now) \<Rightarrow> Some \<lparr>hb_service = s', hb_last_beat = now, hb_pid = pid,
             hb_metadata = (case md of None \<Rightarrow> [] | Some m \<Rightarrow> m)\<rparr>
       | Some (ClearBeat s') \<Rightarrow> None)
    \<and> distinct (map hb_service (fold apply_beat as db))"
proof -
  let ?as = "filter (\<lambda>a. names_service a \<noteq> []) as"
  have "get_beat (fold apply_beat as db) s =
      (case find (hb.touches s) (map beat_write (rev ?as)) of
         None \<Rightarrow> get_beat db s | Some (Put v) \<Rightarrow> Some v | Some (Del k) \<Rightarrow> None)"
    by (subst apply_beats_named[OF assms(1)])
      (simp only: apply_beats_write hb.last_write_wins[OF assms(1) named_valid] rev_map)
  moreover have "find (hb.touches s) (map beat_write (rev ?as)) =
      map_option beat_write (find (\<lambda>a. names_service a = s) (rev as))"
    using find_filter_named[OF assms(2), of "rev as"] by (simp only: find_touches rev_filter)
  ultimately show ?thesis
    using beats_wf_run[OF assms(1), of as]
    by (auto simp: beats_wf_def beat_row_def split: option.splits beat_op.splits)
qed

text \<open>\<open>stale_services\<close> reports, oldest beat first, the registered services that are not alive
  and also those whose last beat is exactly the deadline ago, which \<open>is_alive\<close> still counts as
  alive. A service that never beat, or was cleared, is not reported.\<close>

lemma stale_services_exact:
  "mset (stale_services deadline now db) =
      mset (filter (\<lambda>r. \<not> is_alive now deadline r \<or> hb_last_beat r = now - max 1 deadline) db)
    \<and> sorted_wrt (\<lambda>a b. hb_last_beat a \<le> hb_last_beat b) (stale_services deadline now db)
    \<and> filter (\<lambda>r. is_alive now deadline r \<and> r \<in> set (stale_services deadline now db)) db =
      filter (\<lambda>r. hb_last_beat r = now - max 1 deadline) db"
proof -
  have "hb_last_beat r \<le> now - max 1 deadline \<longleftrightarrow>
      \<not> is_alive now deadline r \<or> hb_last_beat r = now - max 1 deadline" for r
    by (auto simp: is_alive_def)
  moreover have "sorted_wrt (\<lambda>a b. hb_last_beat a \<le> hb_last_beat b) (stale_services deadline now db)"
    unfolding stale_services_def Let_def by (intro sorted_wrt_sort_by total_preorder_key)
  ultimately show ?thesis by (auto simp: stale_services_def Let_def is_alive_def intro!: filter_cong)
qed

text \<open>One watchdog tick reports the stale services and the number of jobs whose lease has run
  out, fails exactly those jobs for retry, and leaves no expired lease behind: the next tick at the
  same time reaps nothing and changes nothing.\<close>

lemma sweep_reaps_expired:
  assumes "queue_wf db"
  shows "case run_supervisor_sweep deadline now hb db of (rep, db') \<Rightarrow>
      sweep_stale rep = stale_services deadline now hb
      \<and> reaped_jobs rep = length (filter (lease_expired now) (job_rows db))
      \<and> (\<forall>jid. get_job db' jid =
           map_option (\<lambda>j. if lease_expired now j then reap_row now j else j) (get_job db jid))
      \<and> run_supervisor_sweep deadline now hb db' = (rep\<lparr>reaped_jobs := 0\<rparr>, db')"
proof -
  let ?db' = "snd (reap_expired_leases now db)"
  have "reap_expired_leases now ?db' = ([], ?db')"
    using assms by (rule reap_again)
  then show ?thesis
    using assms by (simp add: run_supervisor_sweep_def split_beta Let_def get_job_reap reap_rows)
qed

end
