(* ===== verification/CircuitBreaker.thy ===== *)
theory CircuitBreaker
  imports Interfaces
begin

text \<open>
  The restart circuit breaker, \<open>circuit_breaker.py\<close>: the per-service ledger, the registry with its
  dictionary of ledgers and its optional SQLite mirror of the open circuits, every method of both,
  and the projection the status command reads.
\<close>

record breaker_policy =
  window_seconds :: pyfloat
  max_restarts :: int

definition default_breaker_policy :: breaker_policy where
  "default_breaker_policy = \<lparr>window_seconds = 300, max_restarts = 5\<rparr>"

record breaker_state =
  br_service :: string
  restart_events :: "pyfloat list"
  opened_at :: "pyfloat option"
  last_reason :: "string option"

record circuit_row =
  cr_service :: string
  cr_opened_at :: pyfloat
  cr_reason :: string

text \<open>\<open>persistence\<close> is the mirror table, \<open>None\<close> when the registry was built without one.\<close>

record registry =
  policy :: breaker_policy
  states :: "(string \<times> breaker_state) list"
  persistence :: "circuit_row list option"

definition fresh_state :: "string \<Rightarrow> breaker_state" where
  "fresh_state s = \<lparr>br_service = s, restart_events = [], opened_at = None, last_reason = None\<rparr>"

section \<open>The mirror table\<close>

definition mark_open :: "string \<Rightarrow> pyfloat \<Rightarrow> string \<Rightarrow> circuit_row list \<Rightarrow> circuit_row list" where
  "mark_open s t why rows =
     (if s = [] then rows else upsert cr_service \<lparr>cr_service = s, cr_opened_at = t, cr_reason = why\<rparr> rows)"

definition clear_circuit :: "string \<Rightarrow> circuit_row list \<Rightarrow> bool \<times> circuit_row list" where
  "clear_circuit s rows =
     (if s = [] then (False, rows)
      else (s \<in> set (map cr_service rows), filter (\<lambda>r. cr_service r \<noteq> s) rows))"

definition load_open_circuits :: "circuit_row list \<Rightarrow> circuit_row list" where
  "load_open_circuits rows = sort_by (\<lambda>a b. cr_opened_at a \<le> cr_opened_at b) rows"

section \<open>The registry\<close>

text \<open>
  \<open>failing\<close> is true when the SQLite call raises; the registry logs the error and goes on.
\<close>

definition loaded_state :: "circuit_row \<Rightarrow> breaker_state" where
  "loaded_state row = (fresh_state (cr_service row))\<lparr>opened_at := Some (cr_opened_at row),
     last_reason := Some (cr_reason row)\<rparr>"

definition load_row :: "circuit_row \<Rightarrow> (string \<times> breaker_state) list \<Rightarrow> (string \<times> breaker_state) list" where
  "load_row row sts = AList.update (cr_service row) (loaded_state row) sts"

definition new_registry :: "breaker_policy \<Rightarrow> circuit_row list option \<Rightarrow> bool \<Rightarrow> bool \<Rightarrow> registry" where
  "new_registry pol db load_existing failing =
     \<lparr>policy = pol,
      states = (case db of
          Some rows \<Rightarrow> if load_existing \<and> \<not> failing then fold load_row (load_open_circuits rows) [] else []
        | None \<Rightarrow> []),
      persistence = db\<rparr>"

definition breaker_state_of :: "string \<Rightarrow> registry \<Rightarrow> breaker_state \<times> registry" where
  "breaker_state_of s reg = (case map_of (states reg) s of
     Some st \<Rightarrow> (st, reg)
   | None \<Rightarrow> (fresh_state s, reg\<lparr>states := AList.update s (fresh_state s) (states reg)\<rparr>))"

definition event_count_in_window :: "pyfloat \<Rightarrow> pyfloat \<Rightarrow> breaker_state \<Rightarrow> nat" where
  "event_count_in_window now window st =
     length (filter (\<lambda>t. now - max 0 window \<le> t) (restart_events st))"

definition int_of_float :: "pyfloat \<Rightarrow> int" where
  "int_of_float x = (if 0 \<le> x then \<lfloor>x\<rfloor> else \<lceil>x\<rceil>)"

definition trip_reason :: "string option \<Rightarrow> nat \<Rightarrow> pyfloat \<Rightarrow> string" where
  "trip_reason reason n window = (case reason of
     Some (c # cs) \<Rightarrow> c # cs
   | _ \<Rightarrow> show_nat n @ '' restarts within '' @ show_int (int_of_float window) @ ''s window'')"

definition persist_open :: "bool \<Rightarrow> breaker_state \<Rightarrow> registry \<Rightarrow> registry" where
  "persist_open failing st reg = (case (persistence reg, opened_at st) of
     (Some rows, Some t) \<Rightarrow>
       if failing then reg
       else reg\<lparr>persistence := Some (mark_open (br_service st) t
              (case last_reason st of None \<Rightarrow> [] | Some w \<Rightarrow> w) rows)\<rparr>
   | _ \<Rightarrow> reg)"

definition record_restart :: "bool \<Rightarrow> string \<Rightarrow> pyfloat \<Rightarrow> string option \<Rightarrow> registry \<Rightarrow>
    breaker_state \<times> registry" where
  "record_restart failing s now reason reg =
     (let (st, reg) = breaker_state_of s reg;
          cutoff = now - window_seconds (policy reg);
          events = filter (\<lambda>t. cutoff \<le> t) (restart_events st) @ [now];
          st = st\<lparr>restart_events := events\<rparr>
      in if opened_at st = None \<and> max_restarts (policy reg) < int (length events)
         then
           let st = st\<lparr>opened_at := Some now,
                       last_reason := Some (trip_reason reason (length events) (window_seconds (policy reg)))\<rparr>
           in (st, persist_open failing st (reg\<lparr>states := AList.update s st (states reg)\<rparr>))
         else (st, reg\<lparr>states := AList.update s st (states reg)\<rparr>))"

definition is_open :: "string \<Rightarrow> registry \<Rightarrow> bool" where
  "is_open s reg = (case map_of (states reg) s of None \<Rightarrow> False | Some st \<Rightarrow> opened_at st \<noteq> None)"

definition reset_circuit :: "bool \<Rightarrow> string \<Rightarrow> registry \<Rightarrow> bool \<times> registry" where
  "reset_circuit failing s reg =
     (let had_in_memory = s \<in> fst ` set (states reg);
          reg = reg\<lparr>states := AList.delete s (states reg)\<rparr>
      in case persistence reg of
           None \<Rightarrow> (had_in_memory, reg)
         | Some rows \<Rightarrow>
             if failing then (had_in_memory, reg)
             else let (had_persisted, rows') = clear_circuit s rows
                  in (had_in_memory \<or> had_persisted, reg\<lparr>persistence := Some rows'\<rparr>))"

section \<open>Snapshots\<close>

record circuit_snapshot =
  sn_service :: string
  sn_is_open :: bool
  sn_count :: nat
  sn_opened_at :: "pyfloat option"
  sn_reason :: "string option"

definition snapshot :: "pyfloat \<Rightarrow> registry \<Rightarrow> (string \<times> circuit_snapshot) list" where
  "snapshot now reg = map (\<lambda>(s, st). (s,
     \<lparr>sn_service = s, sn_is_open = (opened_at st \<noteq> None),
      sn_count = event_count_in_window now (window_seconds (policy reg)) st,
      sn_opened_at = opened_at st, sn_reason = last_reason st\<rparr>)) (states reg)"

definition load_persisted_circuit_snapshots :: "bool \<Rightarrow> circuit_row list \<Rightarrow> (string \<times> circuit_snapshot) list" where
  "load_persisted_circuit_snapshots failing rows =
     (if failing then []
      else fold (\<lambda>row out. AList.update (cr_service row)
             \<lparr>sn_service = cr_service row, sn_is_open = True, sn_count = 0,
              sn_opened_at = Some (cr_opened_at row),
              sn_reason = (if cr_reason row = [] then None else Some (cr_reason row))\<rparr> out)
           (load_open_circuits rows) [])"

section \<open>Histories\<close>

text \<open>What the supervisor and the operator do to a registry.\<close>

datatype breaker_op = Restart bool string pyfloat "string option" | Reset bool string

primrec apply_breaker :: "breaker_op \<Rightarrow> registry \<Rightarrow> registry" where
  "apply_breaker (Restart failing s now reason) reg = snd (record_restart failing s now reason reg)"
| "apply_breaker (Reset failing s) reg = snd (reset_circuit failing s reg)"

abbreviation run_breaker :: "breaker_op list \<Rightarrow> registry \<Rightarrow> registry" where
  "run_breaker ops reg \<equiv> fold apply_breaker ops reg"

definition ledger :: "string \<Rightarrow> registry \<Rightarrow> pyfloat list" where
  "ledger s reg = (case map_of (states reg) s of None \<Rightarrow> [] | Some st \<Rightarrow> restart_events st)"

definition opened :: "string \<Rightarrow> registry \<Rightarrow> (pyfloat \<times> string option) option" where
  "opened s reg = (case map_of (states reg) s of None \<Rightarrow> None
     | Some st \<Rightarrow> map_option (\<lambda>t. (t, last_reason st)) (opened_at st))"

definition names_ok :: "registry \<Rightarrow> bool" where
  "names_ok reg \<longleftrightarrow> (\<forall>s st. map_of (states reg) s = Some st \<longrightarrow> br_service st = s)"

lemma is_open_opened: "is_open s reg \<longleftrightarrow> opened s reg \<noteq> None"
  by (auto simp: is_open_def opened_def split: option.splits)

lemma persist_open_frame [simp]:
  "states (persist_open f st reg) = states reg" "policy (persist_open f st reg) = policy reg"
  by (auto simp: persist_open_def split: option.splits)

lemma breaker_state_of_eq:
  "breaker_state_of s reg = (st, reg') \<Longrightarrow> policy reg' = policy reg \<and> persistence reg' = persistence reg
    \<and> st = (case map_of (states reg) s of None \<Rightarrow> fresh_state s | Some x \<Rightarrow> x)
    \<and> map_of (states reg') = (map_of (states reg))(s \<mapsto> st)"
  by (auto simp: breaker_state_of_def update_conv' fun_eq_iff split: option.splits)

lemma record_restart_effect:
  defines "evs s now reg \<equiv> filter (\<lambda>t. now - window_seconds (policy reg) \<le> t) (ledger s reg) @ [now]"
  defines "trips s now reg \<equiv> opened s reg = None \<and> max_restarts (policy reg) < int (length (evs s now reg))"
  defines "why s now reason reg \<equiv> trip_reason reason (length (evs s now reg)) (window_seconds (policy reg))"
  assumes "record_restart f s now reason reg = (st, reg')"
  shows "policy reg' = policy reg"
    and "ledger k reg' = (if k = s then evs s now reg else ledger k reg)"
    and "opened k reg' = (if k = s \<and> trips s now reg then Some (now, Some (why s now reason reg)) else opened k reg)"
    and "names_ok reg \<Longrightarrow> names_ok reg'"
    and "names_ok reg \<Longrightarrow> persistence reg' =
      (if trips s now reg \<and> \<not> f then map_option (mark_open s now (why s now reason reg)) (persistence reg)
       else persistence reg)"
proof -
  obtain st0 reg0 where r0: "breaker_state_of s reg = (st0, reg0)" by fastforce
  note B = breaker_state_of_eq[OF r0]
  have e0: "restart_events st0 = ledger s reg"
    using B by (auto simp: ledger_def fresh_state_def split: option.splits)
  have o0: "opened_at st0 = None \<longleftrightarrow> opened s reg = None"
    using B by (auto simp: opened_def fresh_state_def split: option.splits)
  have n0: "names_ok reg \<Longrightarrow> br_service st0 = s"
    using B by (auto simp: names_ok_def fresh_state_def split: option.splits)
  note D = assms(4)[unfolded record_restart_def r0 Let_def prod.case, simplified B e0, symmetric]
  show "policy reg' = policy reg"
    using D B by (auto split: if_splits)
  show "ledger k reg' = (if k = s then evs s now reg else ledger k reg)"
    using D B e0 by (auto simp: ledger_def evs_def update_conv' split: if_splits)
  show "opened k reg' = (if k = s \<and> trips s now reg then Some (now, Some (why s now reason reg)) else opened k reg)"
    using D B e0 o0
    by (auto simp: opened_def trips_def why_def evs_def update_conv' split: if_splits option.splits)
  show "names_ok reg \<Longrightarrow> names_ok reg'"
    using D B n0 by (auto simp: names_ok_def update_conv' split: if_splits)
  show "names_ok reg \<Longrightarrow> persistence reg' =
      (if trips s now reg \<and> \<not> f then map_option (mark_open s now (why s now reason reg)) (persistence reg)
       else persistence reg)"
    using D B e0 o0 n0
    by (auto simp: persist_open_def trips_def why_def evs_def split: if_splits option.splits)
qed

lemma reset_effect:
  assumes "reset_circuit f s reg = (b, reg')"
  shows "policy reg' = policy reg" and "ledger k reg' = (if k = s then [] else ledger k reg)"
    and "opened k reg' = (if k = s then None else opened k reg)"
    and "names_ok reg \<Longrightarrow> names_ok reg'"
    and "persistence reg' = (if f then persistence reg else map_option (\<lambda>rows. snd (clear_circuit s rows)) (persistence reg))"
proof -
  have e: "states reg' = AList.delete s (states reg)" "policy reg' = policy reg"
    "persistence reg' = (if f then persistence reg else map_option (\<lambda>rows. snd (clear_circuit s rows)) (persistence reg))"
    using assms by (auto simp: reset_circuit_def Let_def split: option.splits if_splits prod.splits)
  show "policy reg' = policy reg" by (fact e(2))
  show "persistence reg' = (if f then persistence reg else map_option (\<lambda>rows. snd (clear_circuit s rows)) (persistence reg))"
    by (fact e(3))
  show "ledger k reg' = (if k = s then [] else ledger k reg)"
    by (simp add: ledger_def e delete_conv')
  show "opened k reg' = (if k = s then None else opened k reg)"
    by (simp add: opened_def e delete_conv')
  show "names_ok reg \<Longrightarrow> names_ok reg'"
    by (auto simp: names_ok_def e delete_conv' split: if_splits)
qed

section \<open>When the breaker opens\<close>

text \<open>
  The reference: over the restart times of one service, some restart is preceded (itself included)
  by more than \<open>max_restarts\<close> restarts that are at most \<open>window_seconds\<close> older.
\<close>

definition trips_on :: "breaker_policy \<Rightarrow> pyfloat list \<Rightarrow> bool" where
  "trips_on pol ts = list_ex (\<lambda>i. max_restarts pol <
     int (length (filter (\<lambda>t. ts ! i - window_seconds pol \<le> t) (take (Suc i) ts)))) [0..<length ts]"

definition restart_times :: "string \<Rightarrow> breaker_op list \<Rightarrow> pyfloat list" where
  "restart_times s ops = List.map_filter (\<lambda>a. case a of
     Restart f k now why \<Rightarrow> if k = s then Some now else None | Reset f k \<Rightarrow> None) ops"

fun op_time :: "breaker_op \<Rightarrow> pyfloat option" where
  "op_time (Restart f k now why) = Some now"
| "op_time (Reset f k) = None"

lemma restart_times_simps [simp]:
  "restart_times s [] = []"
  "restart_times s (Restart f k now why # ops) = (if k = s then now # restart_times s ops else restart_times s ops)"
  "restart_times s (Reset f k # ops) = restart_times s ops"
  "restart_times s (ops1 @ ops2) = restart_times s ops1 @ restart_times s ops2"
  by (simp_all add: restart_times_def List.map_filter_def)

lemma trips_on_snoc:
  "trips_on pol (ts @ [t]) \<longleftrightarrow> trips_on pol ts \<or>
    max_restarts pol < int (length (filter (\<lambda>u. t - window_seconds pol \<le> u) (ts @ [t])))"
proof -
  have "list_ex (\<lambda>i. max_restarts pol <
      int (length (filter (\<lambda>u. (ts @ [t]) ! i - window_seconds pol \<le> u) (take (Suc i) (ts @ [t])))))
      [0..<length ts] \<longleftrightarrow> trips_on pol ts"
    unfolding trips_on_def by (auto simp: list_ex_iff nth_append)
  then show ?thesis by (simp add: trips_on_def nth_append)
qed

text \<open>The trimmed ledger holds exactly the restarts of the current window.\<close>

lemma ledger_is_window:
  assumes "list_all (\<lambda>a. case a of Restart _ _ _ _ \<Rightarrow> True | Reset _ k \<Rightarrow> k \<noteq> s) ops"
    and "sorted (restart_times s ops)" and "0 \<le> window_seconds (policy reg)"
    and "ledger s reg = []" and "opened s reg = None"
  shows "policy (run_breaker ops reg) = policy reg
    \<and> ledger s (run_breaker ops reg) =
        (if restart_times s ops = [] then []
         else filter (\<lambda>t. last (restart_times s ops) - window_seconds (policy reg) \<le> t) (restart_times s ops))
    \<and> (opened s (run_breaker ops reg) \<noteq> None \<longleftrightarrow> trips_on (policy reg) (restart_times s ops))"
  using assms(1,2)
proof (induction ops rule: rev_induct)
  case Nil
  then show ?case using assms by (simp add: trips_on_def)
next
  case (snoc a ops)
  let ?reg = "run_breaker ops reg" and ?ts = "restart_times s ops" and ?w = "window_seconds (policy reg)"
  have IH: "policy ?reg = policy reg"
      "ledger s ?reg = (if ?ts = [] then [] else filter (\<lambda>t. last ?ts - ?w \<le> t) ?ts)"
      "opened s ?reg \<noteq> None \<longleftrightarrow> trips_on (policy reg) ?ts"
    using snoc by (auto simp: sorted_append)
  show ?case
  proof (cases a)
    case (Reset f k)
    obtain b r' where r: "reset_circuit f k ?reg = (b, r')" by fastforce
    from snoc.prems(1) Reset have "k \<noteq> s" by simp
    with Reset IH reset_effect[OF r] r show ?thesis by simp
  next
    case (Restart f k now why)
    obtain st r' where r: "record_restart f k now why ?reg = (st, r')" by fastforce
    note E = record_restart_effect(1,2,3)[OF r]
    show ?thesis
    proof (cases "k = s")
      case False
      with Restart IH E r show ?thesis by simp
    next
      case True
      have le: "t \<in> set ?ts \<Longrightarrow> t \<le> now" for t
        using snoc.prems(2) Restart True by (auto simp: sorted_append)
      have trim: "filter (\<lambda>t. now - ?w \<le> t) (ledger s ?reg) = filter (\<lambda>t. now - ?w \<le> t) ?ts"
        using le[OF last_in_set] by (auto simp: IH(2) intro!: filter_cong)
      have l: "ledger s r' = filter (\<lambda>t. now - ?w \<le> t) (?ts @ [now])"
        using E(2)[of s] True trim assms(3) by (simp add: IH(1))
      have "opened s r' \<noteq> None \<longleftrightarrow> trips_on (policy reg) (?ts @ [now])"
        using E(3)[of s] True trim IH(3) assms(3)
        by (auto simp: IH(1) trips_on_snoc)
      with l True Restart r E(1) IH(1) show ?thesis by simp
    qed
  qed
qed

text \<open>C31: over any history of restarts and resets in time order, a service whose breaker started
  with an empty ledger and was not reset is open exactly when more than \<open>max_restarts\<close> of its own
  restarts fell within one window: trimming the ledger at every restart loses nothing, and other
  services' restarts and resets do not matter.\<close>

theorem breaker_is_sliding_window:
  assumes "list_all (\<lambda>a. case a of Restart _ _ _ _ \<Rightarrow> True | Reset _ k \<Rightarrow> k \<noteq> s) ops"
    and "sorted (restart_times s ops)" and "0 \<le> window_seconds (policy reg)"
    and "map_of (states reg) s = None"
  shows "is_open s (run_breaker ops reg) \<longleftrightarrow>
    (\<exists>i < length (restart_times s ops). max_restarts (policy reg) <
       int (length (filter (\<lambda>t. restart_times s ops ! i - window_seconds (policy reg) \<le> t)
              (take (Suc i) (restart_times s ops)))))"
proof -
  have "ledger s reg = []" "opened s reg = None" using assms(4) by (simp_all add: ledger_def opened_def)
  from ledger_is_window[OF assms(1-3) this] show ?thesis
    by (auto simp: is_open_opened trips_on_def list_ex_iff)
qed

theorem breaker_is_sliding_window_witness:
  "\<not> is_open ''a'' (run_breaker (map (\<lambda>t. Restart False ''a'' t None) [1, 2, 3, 4, 5]) (new_registry default_breaker_policy None True False))"
proof -
  define ts :: "pyfloat list" where "ts = [1, 2, 3, 4, 5]"
  let ?ops = "map (\<lambda>t. Restart False ''a'' t None) ts" and ?reg = "new_registry default_breaker_policy None True False"
  have rt: "restart_times ''a'' (map (\<lambda>t. Restart False ''a'' t None) xs) = xs" for xs
    by (induction xs) simp_all
  have "list_all (\<lambda>a. case a of Restart _ _ _ _ \<Rightarrow> True | Reset _ k \<Rightarrow> k \<noteq> ''a'') ?ops" "sorted ts"
    by (simp_all add: list_all_iff ts_def)
  with breaker_is_sliding_window[of "''a''" ?ops ?reg] have "is_open ''a'' (run_breaker ?ops ?reg) \<longleftrightarrow>
      (\<exists>i < length ts. 5 < int (length (filter (\<lambda>t. ts ! i - 300 \<le> t) (take (Suc i) ts))))"
    by (simp only: rt) (simp add: new_registry_def default_breaker_policy_def)
  moreover have "int (length (filter P (take (Suc i) ts))) \<le> 5" if "i < length ts" for P i
    using length_filter_le[of P "take (Suc i) ts"] that by (simp add: ts_def)
  ultimately have "\<not> is_open ''a'' (run_breaker ?ops ?reg)" by (meson not_less)
  then show ?thesis unfolding ts_def .
qed

section \<open>The mirror\<close>

text \<open>The mirror holds one row for each open named service, with the time and reason it opened.\<close>

definition mirror_row :: "string \<Rightarrow> (pyfloat \<times> string option) option \<Rightarrow> circuit_row option" where
  "mirror_row s op = map_option (\<lambda>(t, why). \<lparr>cr_service = s, cr_opened_at = t,
     cr_reason = (case why of None \<Rightarrow> [] | Some w \<Rightarrow> w)\<rparr>) op"

definition mirror_ok :: "registry \<Rightarrow> bool" where
  "mirror_ok reg \<longleftrightarrow> names_ok reg \<and> (case persistence reg of None \<Rightarrow> True
     | Some rows \<Rightarrow> distinct (map cr_service rows) \<and> [] \<notin> cr_service ` set rows
         \<and> (\<forall>s. s \<noteq> [] \<longrightarrow> find_key cr_service s rows = mirror_row s (opened s reg)))"

definition circuit_lookup :: "circuit_row list \<Rightarrow> string \<Rightarrow> circuit_row option" where
  "circuit_lookup rows s = find_key cr_service s rows"

definition put_circuit :: "circuit_row \<Rightarrow> circuit_row list \<Rightarrow> circuit_row list" where
  "put_circuit r rows = mark_open (cr_service r) (cr_opened_at r) (cr_reason r) rows"

definition drop_circuit :: "string \<Rightarrow> circuit_row list \<Rightarrow> circuit_row list" where
  "drop_circuit s rows = snd (clear_circuit s rows)"

definition circuits_wf :: "circuit_row list \<Rightarrow> bool" where
  "circuits_wf rows \<longleftrightarrow> distinct (map cr_service rows) \<and> [] \<notin> cr_service ` set rows"

interpretation cr: keyed_table circuit_lookup put_circuit drop_circuit cr_service "\<lambda>r. cr_service r \<noteq> []" circuits_wf
proof unfold_locales
  show "cr_service v \<noteq> [] \<Longrightarrow> circuit_lookup (put_circuit v t) k = (if k = cr_service v then Some v else circuit_lookup t k)"
    for t v k by (simp add: circuit_lookup_def put_circuit_def mark_open_def find_key_upsert)
  show "circuits_wf t \<Longrightarrow> circuit_lookup (drop_circuit k' t) k = (if k = k' then None else circuit_lookup t k)" for t k k'
    by (auto simp: circuit_lookup_def drop_circuit_def clear_circuit_def find_key_delete circuits_wf_def find_key_None_iff)
  show "circuits_wf t \<Longrightarrow> circuits_wf (put_circuit v t)" for t v
    by (auto simp: circuits_wf_def put_circuit_def mark_open_def distinct_upsert dest!: set_upsert)
  show "circuits_wf t \<Longrightarrow> circuits_wf (drop_circuit k' t)" for t k'
    by (auto simp: circuits_wf_def drop_circuit_def clear_circuit_def distinct_map_filter)
qed

lemma lookup_put_circuit:
  "k \<noteq> [] \<Longrightarrow> circuit_lookup (put_circuit r rows) k = (if k = cr_service r then Some r else circuit_lookup rows k)"
  by (auto simp: circuit_lookup_def put_circuit_def mark_open_def find_key_upsert)

lemma circuit_lookup_name:
  "circuit_lookup rows s = Some r \<Longrightarrow> r = \<lparr>cr_service = s, cr_opened_at = cr_opened_at r, cr_reason = cr_reason r\<rparr>"
  by (auto simp: circuit_lookup_def dest!: find_key_SomeD)

lemma mark_open_put: "mark_open s t why rows = put_circuit \<lparr>cr_service = s, cr_opened_at = t, cr_reason = why\<rparr> rows"
  by (simp add: put_circuit_def)

lemma mirror_okD:
  "mirror_ok reg \<Longrightarrow> persistence reg = Some rows \<Longrightarrow> names_ok reg \<and> circuits_wf rows
    \<and> (\<forall>s. s \<noteq> [] \<longrightarrow> circuit_lookup rows s = mirror_row s (opened s reg))"
  by (simp add: mirror_ok_def circuits_wf_def circuit_lookup_def)

lemma mirror_okI:
  "names_ok reg \<Longrightarrow> (\<And>rows. persistence reg = Some rows \<Longrightarrow> circuits_wf rows
    \<and> (\<forall>s. s \<noteq> [] \<longrightarrow> circuit_lookup rows s = mirror_row s (opened s reg))) \<Longrightarrow> mirror_ok reg"
  by (auto simp: mirror_ok_def circuits_wf_def circuit_lookup_def split: option.splits)

primrec db_works :: "breaker_op \<Rightarrow> bool" where
  "db_works (Restart f s t why) \<longleftrightarrow> \<not> f"
| "db_works (Reset f s) \<longleftrightarrow> \<not> f"

lemma mirror_ok_step:
  assumes "mirror_ok reg" and "db_works a"
  shows "mirror_ok (apply_breaker a reg)"
proof (cases a)
  case (Restart f s t why)
  obtain st r' where r: "record_restart f s t why reg = (st, r')" by fastforce
  note E = record_restart_effect[OF r]
  have n: "names_ok reg" using assms(1) by (simp add: mirror_ok_def)
  have "mirror_ok r'"
  proof (rule mirror_okI)
    show "names_ok r'" using E(4) n .
    fix rows' assume p: "persistence r' = Some rows'"
    then obtain rows where rows: "persistence reg = Some rows"
      using E(5)[OF n] by (auto split: if_splits)
    note M = mirror_okD[OF assms(1) rows]
    show "circuits_wf rows' \<and> (\<forall>k. k \<noteq> [] \<longrightarrow> circuit_lookup rows' k = mirror_row k (opened k r'))"
      using p E(5)[OF n] M assms(2) Restart
      by (auto simp: E(3) rows mark_open_put cr.inv_put lookup_put_circuit mirror_row_def split: if_splits)
  qed
  with Restart r show ?thesis by simp
next
  case (Reset f s)
  obtain b r' where r: "reset_circuit f s reg = (b, r')" by fastforce
  note E = reset_effect[OF r]
  have n: "names_ok reg" using assms(1) by (simp add: mirror_ok_def)
  have "mirror_ok r'"
  proof (rule mirror_okI)
    show "names_ok r'" using E(4) n .
    fix rows' assume p: "persistence r' = Some rows'"
    then obtain rows where rows: "persistence reg = Some rows" "rows' = drop_circuit s rows"
      using E(5) assms(2) Reset by (auto simp: drop_circuit_def split: if_splits)
    note M = mirror_okD[OF assms(1) rows(1)]
    show "circuits_wf rows' \<and> (\<forall>k. k \<noteq> [] \<longrightarrow> circuit_lookup rows' k = mirror_row k (opened k r'))"
      using rows(2) E(3) M by (auto simp: cr.inv_del cr.lookup_del mirror_row_def)
  qed
  with Reset r show ?thesis by simp
qed

lemma mirror_ok_run: "mirror_ok reg \<Longrightarrow> list_all db_works ops \<Longrightarrow> mirror_ok (run_breaker ops reg)"
  by (induction ops arbitrary: reg) (auto intro: mirror_ok_step)

lemma new_registry_states:
  assumes "circuits_wf rows"
  shows "map_of (states (new_registry pol (Some rows) True False)) s =
    map_option loaded_state (circuit_lookup rows s)"
proof -
  have d: "distinct (map cr_service (load_open_circuits rows))"
    using assms by (simp add: load_open_circuits_def circuits_wf_def)
  have f: "fold load_row = fold (\<lambda>r. AList.update (cr_service r) (loaded_state r))"
    by (simp add: load_row_def[abs_def])
  have "find_key cr_service s (load_open_circuits rows) = circuit_lookup rows s"
    using assms by (simp add: load_open_circuits_def find_key_sort_by circuits_wf_def circuit_lookup_def)
  with map_of_fold_update[OF d, of loaded_state "[]" s] show ?thesis
    by (simp add: new_registry_def f split: option.splits)
qed

lemma new_registry_opened:
  assumes "circuits_wf rows"
  shows "opened s (new_registry pol (Some rows) True False) =
    map_option (\<lambda>r. (cr_opened_at r, Some (cr_reason r))) (circuit_lookup rows s)"
  by (auto simp: opened_def new_registry_states[OF assms] loaded_state_def split: option.splits)

lemma new_registry_mirror_ok:
  assumes "circuits_wf rows"
  shows "mirror_ok (new_registry pol (Some rows) True False)"
proof (rule mirror_okI)
  show "names_ok (new_registry pol (Some rows) True False)"
    by (auto simp: names_ok_def new_registry_states[OF assms] loaded_state_def fresh_state_def circuit_lookup_def
        dest: find_key_SomeD)
  fix rows' assume "persistence (new_registry pol (Some rows) True False) = Some rows'"
  then have "rows' = rows" by (simp add: new_registry_def)
  then show "circuits_wf rows' \<and> (\<forall>s. s \<noteq> [] \<longrightarrow>
      circuit_lookup rows' s = mirror_row s (opened s (new_registry pol (Some rows) True False)))"
    using assms circuit_lookup_name[of rows]
    by (auto simp: new_registry_opened[OF assms] mirror_row_def map_option_case split: option.splits)
qed

text \<open>As long as the SQLite calls succeed, the mirror a sibling process reads agrees with the
  registry after every history that starts from a registry loaded from the mirror: a named service
  has a row exactly when its breaker is open, with the time and reason it opened, and the status
  projection of the table shows it.\<close>

lemma mirror_agrees:
  assumes "distinct (map cr_service rows0)" and "[] \<notin> cr_service ` set rows0"
    and "list_all db_works ops" and "s \<noteq> []"
    and "persistence (run_breaker ops (new_registry pol (Some rows0) True False)) = Some rows"
  shows "(s \<in> cr_service ` set rows \<longleftrightarrow> is_open s (run_breaker ops (new_registry pol (Some rows0) True False)))
    \<and> map_of (load_persisted_circuit_snapshots False rows) s =
       (case opened s (run_breaker ops (new_registry pol (Some rows0) True False)) of None \<Rightarrow> None
        | Some (t, why) \<Rightarrow> Some \<lparr>sn_service = s, sn_is_open = True, sn_count = 0, sn_opened_at = Some t,
            sn_reason = (case why of None \<Rightarrow> None | Some w \<Rightarrow> if w = [] then None else Some w)\<rparr>)"
proof -
  have wf0: "circuits_wf rows0" using assms(1,2) by (simp add: circuits_wf_def)
  let ?reg = "run_breaker ops (new_registry pol (Some rows0) True False)"
  have "mirror_ok ?reg" using mirror_ok_run[OF new_registry_mirror_ok[OF wf0] assms(3)] .
  from mirror_okD[OF this assms(5)] assms(4)
  have wf: "circuits_wf rows" and look: "circuit_lookup rows s = mirror_row s (opened s ?reg)" by auto
  have "s \<in> cr_service ` set rows \<longleftrightarrow> circuit_lookup rows s \<noteq> None"
    by (simp add: circuit_lookup_def find_key_None_iff)
  then have 1: "s \<in> cr_service ` set rows \<longleftrightarrow> is_open s ?reg"
    by (simp add: look mirror_row_def is_open_opened)
  have d: "distinct (map cr_service (load_open_circuits rows))"
    using wf by (simp add: load_open_circuits_def circuits_wf_def)
  have "find_key cr_service s (load_open_circuits rows) = circuit_lookup rows s"
    using wf by (simp add: load_open_circuits_def find_key_sort_by circuits_wf_def circuit_lookup_def)
  then have "map_of (load_persisted_circuit_snapshots False rows) s = (case circuit_lookup rows s of None \<Rightarrow> None
      | Some row \<Rightarrow> Some \<lparr>sn_service = cr_service row, sn_is_open = True, sn_count = 0,
          sn_opened_at = Some (cr_opened_at row),
          sn_reason = (if cr_reason row = [] then None else Some (cr_reason row))\<rparr>)"
    by (simp add: load_persisted_circuit_snapshots_def map_of_fold_update[OF d] split: option.splits)
  with 1 show ?thesis by (auto simp: look mirror_row_def split: option.splits)
qed

text \<open>An open circuit outlives the supervisor. When the registry has a mirror that worked, a new
  registry built on it (whatever its policy) has exactly the same named circuits open, with the
  same time and reason, as the one before the restart.\<close>

lemma open_circuit_survives_restart:
  assumes "distinct (map cr_service rows0)" and "[] \<notin> cr_service ` set rows0"
    and "list_all db_works ops" and "s \<noteq> []"
    and "persistence (run_breaker ops (new_registry pol (Some rows0) True False)) = Some rows"
  shows "opened s (new_registry pol' (Some rows) True False) =
      map_option (\<lambda>(t, why). (t, Some (case why of None \<Rightarrow> [] | Some w \<Rightarrow> w)))
        (opened s (run_breaker ops (new_registry pol (Some rows0) True False)))
    \<and> ledger s (new_registry pol' (Some rows) True False) = []"
proof -
  have wf0: "circuits_wf rows0" using assms(1,2) by (simp add: circuits_wf_def)
  let ?reg = "run_breaker ops (new_registry pol (Some rows0) True False)"
  have "mirror_ok ?reg" using mirror_ok_run[OF new_registry_mirror_ok[OF wf0] assms(3)] .
  from mirror_okD[OF this assms(5)] assms(4)
  have wf: "circuits_wf rows" and look: "circuit_lookup rows s = mirror_row s (opened s ?reg)" by auto
  show ?thesis
    by (cases "opened s ?reg")
      (auto simp: new_registry_opened[OF wf] look mirror_row_def ledger_def new_registry_states[OF wf]
        loaded_state_def fresh_state_def split: option.splits)
qed

end
