(* ===== verification/Supervisor.thy ===== *)
theory Supervisor
  imports CircuitBreaker
begin

text \<open>
  The service inventory, \<open>services.py\<close>, and the subprocess supervisor, \<open>subprocess_supervisor.py\<close>:
  which services are spawned, the spawn / wait / back off loop of one service under the circuit
  breaker, and the shutdown that drains the children. What the outside does (how a child exits, when
  shutdown is requested, what the clock says, whether SQLite raises) is an argument, one entry per
  turn of the loop.
\<close>

section \<open>The inventory\<close>

datatype service_kind =
    RESEARCH_WORKER
  | ROLE_WORKER
  | APPROVAL_WORKER
  | OBSIDIAN_WRITER
  | CODING_EXECUTOR
  | GITHUB_WORK_ORDER_EXECUTOR
  | SUPERVISOR
  | DISCORD_GATEWAY
  | DISCORD_MEMBER_BOT
  | DIGEST_SCHEDULER
  | RESERVED_DISCORD_GATEWAY

text \<open>The \<open>description\<close> of a row is text for operators and is left out.\<close>

record service_spec =
  service_id :: string
  kind :: service_kind
  srole :: "string option"
  auto_spawn :: bool

definition is_implemented :: "service_spec \<Rightarrow> bool" where
  "is_implemented s \<longleftrightarrow> kind s \<noteq> RESERVED_DISCORD_GATEWAY"

definition ENGINEERING_ROLES :: "string list" where
  "ENGINEERING_ROLES = [''tech-lead'', ''backend-engineer'', ''qa-engineer'', ''devops-engineer'',
     ''ai-engineer'', ''frontend-engineer'', ''product-designer'']"

definition is_truthy_env :: "string option \<Rightarrow> bool" where
  "is_truthy_env v = (case v of None \<Rightarrow> False
     | Some s \<Rightarrow> py_lower (py_strip s) \<in> {''1'', ''true'', ''yes'', ''on''})"

definition coding_executor_autospawn_enabled :: "(string \<Rightarrow> string option) \<Rightarrow> bool" where
  "coding_executor_autospawn_enabled env = is_truthy_env (env ''YULE_CODING_EXECUTOR_AUTOSPAWN'')"

definition build_engineering_profile :: "(string \<Rightarrow> string option) \<Rightarrow> service_spec list" where
  "build_engineering_profile env =
     (let row = (\<lambda>i k. \<lparr>service_id = i, kind = k, srole = None, auto_spawn = True\<rparr>)
      in [row ''eng-supervisor-watch'' SUPERVISOR, row ''eng-research-worker'' RESEARCH_WORKER]
         @ map (\<lambda>r. \<lparr>service_id = ''eng-role-'' @ r, kind = ROLE_WORKER, srole = Some r, auto_spawn = True\<rparr>)
             ENGINEERING_ROLES
         @ [row ''eng-approval-worker'' APPROVAL_WORKER, row ''eng-obsidian-writer'' OBSIDIAN_WRITER,
            (row ''eng-coding-executor'' CODING_EXECUTOR)
              \<lparr>auto_spawn := coding_executor_autospawn_enabled env\<rparr>,
            row ''eng-github-work-order-executor'' GITHUB_WORK_ORDER_EXECUTOR,
            row ''eng-discord-gateway'' DISCORD_GATEWAY]
         @ map (\<lambda>r. \<lparr>service_id = ''eng-member-'' @ r, kind = DISCORD_MEMBER_BOT, srole = Some r, auto_spawn = True\<rparr>)
             ENGINEERING_ROLES
         @ [row ''eng-digest-scheduler'' DIGEST_SCHEDULER])"

text \<open>\<open>env\<close> is the environment when the module was imported; an unknown profile raises.\<close>

definition list_services :: "(string \<Rightarrow> string option) \<Rightarrow> string \<Rightarrow> string + service_spec list" where
  "list_services env profile =
     (if profile = ''engineering'' then Inr (build_engineering_profile env) else Inl profile)"

definition resolve_service :: "(string \<Rightarrow> string option) \<Rightarrow> string \<Rightarrow> service_spec option" where
  "resolve_service env sid = find (\<lambda>s. service_id s = sid) (build_engineering_profile env)"

section \<open>What \<open>runtime up\<close> spawns\<close>

datatype skip_reason = Reserved | OptIn

record dry_run_plan =
  plan_services :: "(string \<times> string list) list"
  plan_skipped :: "(string \<times> skip_reason) list"

text \<open>The loop of \<open>run_runtime_up\<close> that builds the managed processes, as the command lines it keeps.\<close>

fun select_managed :: "string list \<Rightarrow> service_spec list \<Rightarrow> (string \<times> string list) list" where
  "select_managed base_cmd [] = []"
| "select_managed base_cmd (s # ss) =
     (if \<not> is_implemented s then select_managed base_cmd ss
      else if \<not> auto_spawn s then select_managed base_cmd ss
      else (service_id s, base_cmd @ [service_id s]) # select_managed base_cmd ss)"

fun dry_run_onto :: "string list \<Rightarrow> service_spec list \<Rightarrow> dry_run_plan \<Rightarrow> dry_run_plan" where
  "dry_run_onto base_cmd [] plan = plan"
| "dry_run_onto base_cmd (s # ss) plan =
     (if \<not> is_implemented s then dry_run_onto base_cmd ss (plan\<lparr>plan_skipped := plan_skipped plan @ [(service_id s, Reserved)]\<rparr>)
      else if \<not> auto_spawn s then dry_run_onto base_cmd ss (plan\<lparr>plan_skipped := plan_skipped plan @ [(service_id s, OptIn)]\<rparr>)
      else dry_run_onto base_cmd ss (plan\<lparr>plan_services := plan_services plan @ [(service_id s, base_cmd @ [service_id s])]\<rparr>))"

definition build_dry_run_plan :: "(string \<Rightarrow> string option) \<Rightarrow> string \<Rightarrow> string list \<Rightarrow> string + dry_run_plan" where
  "build_dry_run_plan env profile base_cmd = (case list_services env profile of
     Inl e \<Rightarrow> Inl e
   | Inr specs \<Rightarrow> Inr (dry_run_onto base_cmd specs \<lparr>plan_services = [], plan_skipped = []\<rparr>))"

section \<open>The loop of one service\<close>

definition DEFAULT_BACKOFF_SCHEDULE :: "pyfloat list" where
  "DEFAULT_BACKOFF_SCHEDULE = [1, 2, 5, 10, 30]"

definition EXIT_PREVENT_RESTART :: int where
  "EXIT_PREVENT_RESTART = 78"

definition backoff_for :: "nat \<Rightarrow> pyfloat list \<Rightarrow> pyfloat" where
  "backoff_for restart_count schedule =
     (if schedule = [] then 1 else schedule ! min restart_count (length schedule - 1))"

datatype child_outcome = SpawnFailed | Exited "int option"

text \<open>
  One turn: whether shutdown was requested when the loop tested it, what the spawned child did,
  whether shutdown was requested by the time it exited, the clock when the restart is recorded, and
  whether the breaker's SQLite write raises.
\<close>

record turn =
  shutdown_before :: bool
  outcome :: child_outcome
  shutdown_after :: bool
  clock :: pyfloat
  db_raises :: bool

record managed =
  restart_count :: nat
  last_exit_code :: "int option"
  stopped_intentionally :: bool
  circuits :: "registry option"
  spawns :: nat \<comment> \<open>calls of \<open>spawn_fn\<close>\<close>
  sleeps :: "pyfloat list" \<comment> \<open>calls of \<open>sleep_fn\<close>, in order\<close>

datatype loop_end = ShutdownSeen | CircuitOpen | ConfigError | StillSupervising

definition record_in :: "turn \<Rightarrow> string \<Rightarrow> string \<Rightarrow> managed \<Rightarrow> managed" where
  "record_in t s reason m = (case circuits m of
     None \<Rightarrow> m
   | Some reg \<Rightarrow> m\<lparr>circuits := Some (snd (record_restart (db_raises t) s (clock t) (Some reason) reg))\<rparr>)"

definition exit_reason :: "int option \<Rightarrow> string" where
  "exit_reason code = (case code of None \<Rightarrow> ''exited'' | Some c \<Rightarrow> ''exit_code='' @ show_int c)"

definition circuit_blocks :: "string \<Rightarrow> managed \<Rightarrow> bool" where
  "circuit_blocks s m = (case circuits m of None \<Rightarrow> False | Some reg \<Rightarrow> is_open s reg)"

fun supervise_one :: "pyfloat list \<Rightarrow> string \<Rightarrow> turn list \<Rightarrow> managed \<Rightarrow> loop_end \<times> managed" where
  "supervise_one schedule s [] m = (StillSupervising, m)"
| "supervise_one schedule s (t # ts) m =
     (if shutdown_before t then (ShutdownSeen, m)
      else if circuit_blocks s m then (CircuitOpen, m\<lparr>stopped_intentionally := True\<rparr>)
      else
        let m = m\<lparr>spawns := spawns m + 1\<rparr>
        in case outcome t of
             SpawnFailed \<Rightarrow>
               (let m = m\<lparr>sleeps := sleeps m @ [backoff_for (restart_count m) schedule]\<rparr>;
                    m = m\<lparr>restart_count := restart_count m + 1\<rparr>;
                    m = record_in t s ''spawn_failed'' m
                in supervise_one schedule s ts m)
           | Exited code \<Rightarrow>
               (let m = m\<lparr>last_exit_code := code\<rparr>
                in if shutdown_after t then (ShutdownSeen, m)
                   else if code = Some EXIT_PREVENT_RESTART
                   then (ConfigError, m\<lparr>stopped_intentionally := True\<rparr>)
                   else
                     let backoff = backoff_for (restart_count m) schedule;
                         m = m\<lparr>restart_count := restart_count m + 1\<rparr>;
                         m = record_in t s (exit_reason code) m;
                         m = m\<lparr>sleeps := sleeps m @ [backoff]\<rparr>
                     in supervise_one schedule s ts m))"

definition new_managed :: "registry option \<Rightarrow> managed" where
  "new_managed reg = \<lparr>restart_count = 0, last_exit_code = None, stopped_intentionally = False,
     circuits = reg, spawns = 0, sleeps = []\<rparr>"

section \<open>Draining the children\<close>

text \<open>
  \<open>exited i n\<close> is what \<open>_process_done\<close> says of child \<open>n\<close> after \<open>i\<close> polls; a child is \<open>NoChild\<close> when
  its process was never spawned. \<open>terminate\<close> and \<open>kill\<close> may raise; the error is logged.
\<close>

datatype child = NoChild | Child

definition child_done :: "(nat \<Rightarrow> string \<Rightarrow> bool) \<Rightarrow> nat \<Rightarrow> string \<times> child \<Rightarrow> bool" where
  "child_done exited i mp = (snd mp = NoChild \<or> exited i (fst mp))"

function drain_polls :: "(nat \<Rightarrow> string \<Rightarrow> bool) \<Rightarrow> (string \<times> child) list \<Rightarrow> pyfloat \<Rightarrow> pyfloat \<Rightarrow> nat \<Rightarrow> bool \<times> nat" where
  "drain_polls exited managed deadline waited i =
     (if waited < deadline then
        if list_all (child_done exited i) managed then (True, i)
        else drain_polls exited managed deadline (waited + 1 / 2) (Suc i)
      else (False, i))"
  by pat_completeness auto
termination
proof (relation "measure (\<lambda>(e, m, d, w, i). nat \<lceil>(d - w) * 2\<rceil>)")
  show "wf (measure (\<lambda>(e :: nat \<Rightarrow> string \<Rightarrow> bool, m :: (string \<times> child) list, d :: pyfloat, w, i :: nat). nat \<lceil>(d - w) * 2\<rceil>))"
    by simp
next
  fix d w :: pyfloat
  assume "w < d"
  then have "0 < \<lceil>(d - w) * 2\<rceil>" by simp
  moreover have "(d - (w + 1 / 2)) * 2 = (d - w) * 2 - 1" by (simp add: algebra_simps)
  then have "\<lceil>(d - (w + 1 / 2)) * 2\<rceil> = \<lceil>(d - w) * 2\<rceil> - 1"
    by (simp only: ceiling_diff_one)
  ultimately have "nat \<lceil>(d - (w + 1 / 2)) * 2\<rceil> < nat \<lceil>(d - w) * 2\<rceil>" by linarith
  then show "((e, m, d, w + 1 / 2, Suc i), (e, m, d, w, i)) \<in>
      measure (\<lambda>(e :: nat \<Rightarrow> string \<Rightarrow> bool, m :: (string \<times> child) list, d :: pyfloat, w, i :: nat). nat \<lceil>(d - w) * 2\<rceil>)"
    for e m i by simp
qed

declare drain_polls.simps [simp del]

record drained =
  terminated :: "string list"
  polls :: nat
  killed :: "string list"

definition drain_children :: "(nat \<Rightarrow> string \<Rightarrow> bool) \<Rightarrow> (string \<times> child) list \<Rightarrow> pyfloat \<Rightarrow> drained" where
  "drain_children exited managed shutdown_timeout =
     (let sigterm = map fst (filter (\<lambda>mp. \<not> child_done exited 0 mp) managed);
          (all_done, i) = drain_polls exited managed (max 0 shutdown_timeout) 0 0
      in \<lparr>terminated = sigterm, polls = i,
          killed = (if all_done then [] else map fst (filter (\<lambda>mp. \<not> child_done exited i mp) managed))\<rparr>)"

section \<open>Properties\<close>

text \<open>\<open>runtime up\<close> starts exactly the implemented services marked for automatic start, in
  inventory order, each with its own id as the last argument; the dry run shows the same command
  lines and lists every other service as skipped with the reason, so each service of the inventory is
  in exactly one of the two lists; and the coding executor is started only when its own environment
  flag is on.\<close>

lemma runtime_up_selection:
  "(\<forall>specs base. let plan = dry_run_onto base specs \<lparr>plan_services = [], plan_skipped = []\<rparr> in
      select_managed base specs = plan_services plan
      \<and> plan_services plan = map (\<lambda>s. (service_id s, base @ [service_id s]))
          (filter (\<lambda>s. is_implemented s \<and> auto_spawn s) specs)
      \<and> plan_skipped plan = map (\<lambda>s. (service_id s, if is_implemented s then OptIn else Reserved))
          (filter (\<lambda>s. \<not> (is_implemented s \<and> auto_spawn s)) specs))
    \<and> distinct (map service_id (build_engineering_profile env))
    \<and> ((''eng-coding-executor'', base @ [''eng-coding-executor'']) \<in> set (select_managed base (build_engineering_profile env))
        \<longleftrightarrow> coding_executor_autospawn_enabled env)"
proof -
  have dry: "dry_run_onto b specs p =
      p\<lparr>plan_services := plan_services p @ map (\<lambda>s. (service_id s, b @ [service_id s])) (filter (\<lambda>s. is_implemented s \<and> auto_spawn s) specs),
        plan_skipped := plan_skipped p @ map (\<lambda>s. (service_id s, if is_implemented s then OptIn else Reserved))
          (filter (\<lambda>s. \<not> (is_implemented s \<and> auto_spawn s)) specs)\<rparr>" for b specs p
    by (induction b specs p rule: dry_run_onto.induct) auto
  have sel: "select_managed b specs = map (\<lambda>s. (service_id s, b @ [service_id s]))
      (filter (\<lambda>s. is_implemented s \<and> auto_spawn s) specs)" for b specs
    by (induction b specs rule: select_managed.induct) auto
  have "distinct (map service_id (build_engineering_profile env))"
    by (simp add: build_engineering_profile_def Let_def ENGINEERING_ROLES_def)
  moreover have "(''eng-coding-executor'', base @ [''eng-coding-executor'']) \<in>
      set (select_managed base (build_engineering_profile env)) \<longleftrightarrow> coding_executor_autospawn_enabled env"
    by (auto simp: sel build_engineering_profile_def Let_def ENGINEERING_ROLES_def is_implemented_def)
  ultimately show ?thesis by (simp add: dry sel Let_def)
qed

text \<open>A turn in which the child is spawned and goes down again with an ordinary error.\<close>

definition crash :: "turn \<Rightarrow> bool" where
  "crash t \<longleftrightarrow> \<not> shutdown_before t \<and> (outcome t = SpawnFailed
     \<or> \<not> shutdown_after t \<and> (\<exists>code. outcome t = Exited code \<and> code \<noteq> Some EXIT_PREVENT_RESTART))"

definition crash_reason :: "turn \<Rightarrow> string" where
  "crash_reason t = (case outcome t of SpawnFailed \<Rightarrow> ''spawn_failed'' | Exited c \<Rightarrow> exit_reason c)"

text \<open>The registry after a restart, when there is one.\<close>

definition after_restart :: "turn \<Rightarrow> string \<Rightarrow> managed \<Rightarrow> registry option" where
  "after_restart t s m =
     map_option (\<lambda>reg. snd (record_restart (db_raises t) s (clock t) (Some (crash_reason t)) reg)) (circuits m)"

lemma supervise_crash:
  assumes "crash t" and "\<not> circuit_blocks s m"
  obtains m' where "supervise_one schedule s (t # ts) m = supervise_one schedule s ts m'"
    "restart_count m' = restart_count m + 1" "spawns m' = spawns m + 1"
    "sleeps m' = sleeps m @ [backoff_for (restart_count m) schedule]"
    "circuits m' = after_restart t s m" "stopped_intentionally m' = stopped_intentionally m"
proof (cases "outcome t")
  case SpawnFailed
  with assms that show ?thesis
    by (auto simp: crash_def Let_def record_in_def after_restart_def crash_reason_def split: option.splits)
next
  case (Exited code)
  with assms that show ?thesis
    by (auto simp: crash_def Let_def record_in_def after_restart_def crash_reason_def split: option.splits)
qed

lemma supervise_blocked:
  "circuit_blocks s m \<Longrightarrow> \<not> shutdown_before t \<Longrightarrow>
    supervise_one schedule s (t # ts) m = (CircuitOpen, m\<lparr>stopped_intentionally := True\<rparr>)"
  by simp

text \<open>Crashes that all lie in one window, with \<open>k\<close> of them still to go before the breaker trips.\<close>

lemma crash_loop_aux:
  assumes "length ts > k" and "list_all crash (take (Suc k) ts)"
    and "\<not> shutdown_before (ts ! k)"
    and "\<forall>t \<in> set (take k ts). hi - w \<le> clock t \<and> clock t \<le> hi"
    and "circuits m = Some reg" and "opened s reg = None" and "window_seconds (policy reg) = w"
    and "\<forall>t \<in> set (ledger s reg). hi - w \<le> t"
    and "max_restarts (policy reg) + 1 = int (length (ledger s reg) + k)" and "0 < k"
  shows "\<exists>m'. supervise_one schedule s ts m = (CircuitOpen, m') \<and> spawns m' = spawns m + k
    \<and> restart_count m' = restart_count m + k \<and> stopped_intentionally m'
    \<and> sleeps m' = sleeps m @ map (\<lambda>i. backoff_for (restart_count m + i) schedule) [0..<k]"
  using assms
proof (induction ts arbitrary: k m reg)
  case Nil
  then show ?case by simp
next
  case (Cons t ts)
  then obtain k' where k: "k = Suc k'" by (cases k) auto
  have t: "crash t" "hi - w \<le> clock t" "clock t \<le> hi" using Cons.prems k by auto
  obtain st reg' where r: "record_restart (db_raises t) s (clock t) (Some (crash_reason t)) reg = (st, reg')"
    by fastforce
  note E = record_restart_effect(1,2,3)[OF r]
  have keep: "filter (\<lambda>u. clock t - window_seconds (policy reg) \<le> u) (ledger s reg) = ledger s reg"
    using Cons.prems(7,8) t by (intro filter_id_set) force
  have "\<not> circuit_blocks s m"
    using Cons.prems(5,6) by (simp add: circuit_blocks_def is_open_opened)
  from supervise_crash[OF t(1) this, of schedule ts] obtain m1 where
    m1: "supervise_one schedule s (t # ts) m = supervise_one schedule s ts m1"
      "restart_count m1 = restart_count m + 1" "spawns m1 = spawns m + 1"
      "sleeps m1 = sleeps m @ [backoff_for (restart_count m) schedule]"
      "circuits m1 = Some reg'"
    using Cons.prems(5) r by (auto simp: after_restart_def)
  show ?case
  proof (cases k')
    case 0
    have "opened s reg' \<noteq> None"
      using E(3)[of s] Cons.prems(6,9) keep k 0 by simp
    then have b: "circuit_blocks s m1" using m1(5) by (simp add: circuit_blocks_def is_open_opened)
    obtain t2 rest where "ts = t2 # rest" "\<not> shutdown_before t2"
      using Cons.prems(1,3) k 0 by (cases ts) auto
    with m1 b k 0 show ?thesis by (simp add: supervise_blocked)
  next
    case (Suc k'')
    have "opened s reg' = None" using E(3)[of s] Cons.prems(6,9) keep k Suc by simp
    moreover have "ledger s reg' = ledger s reg @ [clock t]" using E(2)[of s] keep by simp
    ultimately have "\<exists>m'. supervise_one schedule s ts m1 = (CircuitOpen, m') \<and> spawns m' = spawns m1 + k'
        \<and> restart_count m' = restart_count m1 + k' \<and> stopped_intentionally m'
        \<and> sleeps m' = sleeps m1 @ map (\<lambda>i. backoff_for (restart_count m1 + i) schedule) [0..<k']"
      using Cons.prems k Suc m1(5) E(1) t by (intro Cons.IH[of k' m1 reg']) auto
    moreover have "map (\<lambda>i. backoff_for (restart_count m + i) schedule) [0..<Suc k'] =
        backoff_for (restart_count m) schedule # map (\<lambda>i. backoff_for (restart_count m + 1 + i) schedule) [0..<k']"
      by (rule nth_equalityI) (simp_all add: nth_Cons del: upt_Suc split: nat.split)
    ultimately show ?thesis using m1 k by auto
  qed
qed

text \<open>Under a circuit breaker a crash loop ends. When a service with no restarts on record goes
  down more than \<open>max_restarts\<close> times within one window, it is spawned exactly \<open>max_restarts + 1\<close>
  times, with the backoffs of the schedule between them, and then left stopped for the operator.\<close>

lemma crash_loop_stops:
  assumes "map_of (states reg) s = None" and "max_restarts (policy reg) = int n"
    and "Suc n < length ts" and "list_all crash ts"
    and "\<forall>t \<in> set ts. hi - window_seconds (policy reg) \<le> clock t \<and> clock t \<le> hi"
  shows "\<exists>m. supervise_one schedule s ts (new_managed (Some reg)) = (CircuitOpen, m)
    \<and> spawns m = n + 1 \<and> restart_count m = n + 1 \<and> stopped_intentionally m
    \<and> sleeps m = map (\<lambda>i. backoff_for i schedule) [0..<n + 1]"
proof -
  have "ledger s reg = []" "opened s reg = None" using assms(1) by (simp_all add: ledger_def opened_def)
  moreover have "list_all crash (take (Suc (Suc n)) ts)" using assms(4) by (auto simp: list_all_iff dest: in_set_takeD)
  moreover have "\<not> shutdown_before (ts ! Suc n)" using assms(3,4) by (auto simp: list_all_length crash_def)
  moreover have "\<forall>t \<in> set (take (Suc n) ts). hi - window_seconds (policy reg) \<le> clock t \<and> clock t \<le> hi"
    using assms(5) by (auto dest: in_set_takeD)
  ultimately show ?thesis
    using crash_loop_aux[of "Suc n" ts hi "window_seconds (policy reg)" "new_managed (Some reg)" reg s schedule] assms(2,3)
    by (simp add: new_managed_def)
qed

definition crash_turn :: "pyfloat \<Rightarrow> turn" where
  "crash_turn t = \<lparr>shutdown_before = False, outcome = Exited (Some 1), shutdown_after = False, clock = t, db_raises = False\<rparr>"

text \<open>Without a registry, which is how both command-line entry points call \<open>run_runtime_up\<close>, the
  same crash loop never stops: every turn spawns the child again.\<close>

lemma crash_loop_without_breaker:
  assumes "list_all crash ts"
  shows "\<exists>m. supervise_one schedule s ts (new_managed None) = (StillSupervising, m)
    \<and> spawns m = length ts \<and> restart_count m = length ts \<and> \<not> stopped_intentionally m"
proof -
  have "\<exists>m'. supervise_one schedule s ts m = (StillSupervising, m') \<and> spawns m' = spawns m + length ts
      \<and> restart_count m' = restart_count m + length ts \<and> stopped_intentionally m' = stopped_intentionally m"
    if "circuits m = None" for m
    using assms that
  proof (induction ts arbitrary: m)
    case Nil
    then show ?case by simp
  next
    case (Cons t ts)
    then have "crash t" "\<not> circuit_blocks s m" by (simp_all add: circuit_blocks_def)
    from supervise_crash[OF this, of schedule ts] obtain m1 where
      "supervise_one schedule s (t # ts) m = supervise_one schedule s ts m1"
      "restart_count m1 = restart_count m + 1" "spawns m1 = spawns m + 1"
      "circuits m1 = None" "stopped_intentionally m1 = stopped_intentionally m"
      using Cons.prems(2) by (auto simp: after_restart_def)
    with Cons.IH[of m1] Cons.prems(1) show ?case by auto
  qed
  from this[of "new_managed None"] show ?thesis by (simp add: new_managed_def)
qed

text \<open>Once the loop of a service has ended, nothing that happens later spawns it again; and exit
  code 78 ends it at once, with no further spawn, restart count or sleep, whatever the breaker says.\<close>

lemma stopped_service_stays_down:
  "(fst (supervise_one schedule s ts m) \<noteq> StillSupervising \<longrightarrow>
      supervise_one schedule s (ts @ later) m = supervise_one schedule s ts m)
    \<and> (\<not> shutdown_before t \<and> \<not> circuit_blocks s m \<and> outcome t = Exited (Some 78) \<and> \<not> shutdown_after t \<longrightarrow>
      supervise_one schedule s (t # later) m =
        (ConfigError, m\<lparr>spawns := spawns m + 1, last_exit_code := Some 78, stopped_intentionally := True\<rparr>))"
proof
  show "fst (supervise_one schedule s ts m) \<noteq> StillSupervising \<longrightarrow>
      supervise_one schedule s (ts @ later) m = supervise_one schedule s ts m"
    by (induction schedule s ts m rule: supervise_one.induct)
      (auto simp: Let_def split: child_outcome.splits if_splits)
qed (simp add: EXIT_PREVENT_RESTART_def Let_def)

lemma drain_polls_result:
  "i \<le> snd (drain_polls exited managed deadline w i)
    \<and> (fst (drain_polls exited managed deadline w i) \<longrightarrow>
        list_all (child_done exited (snd (drain_polls exited managed deadline w i))) managed)
    \<and> int (snd (drain_polls exited managed deadline w i)) \<le> int i + max 0 \<lceil>(deadline - w) * 2\<rceil>
    \<and> (\<not> fst (drain_polls exited managed deadline w i) \<longrightarrow>
        (\<forall>k. i \<le> k \<and> k < snd (drain_polls exited managed deadline w i) \<longrightarrow> \<not> list_all (child_done exited k) managed)
        \<and> deadline \<le> w + real (snd (drain_polls exited managed deadline w i) - i) / 2)"
proof (induction exited managed deadline w i rule: drain_polls.induct)
  case (1 exited managed deadline w i)
  show ?case
  proof (cases "w < deadline \<and> \<not> list_all (child_done exited i) managed")
    case False
    then have eq: "drain_polls exited managed deadline w i = (w < deadline, i)"
      by (subst drain_polls.simps) auto
    show ?thesis unfolding eq using False by auto
  next
    case True
    then have eq: "drain_polls exited managed deadline w i = drain_polls exited managed deadline (w + 1 / 2) (Suc i)"
      by (subst drain_polls.simps) simp
    have c: "\<lceil>(deadline - (w + 1 / 2)) * 2\<rceil> = \<lceil>(deadline - w) * 2\<rceil> - 1"
    proof -
      have "(deadline - (w + 1 / 2)) * 2 = (deadline - w) * 2 - 1" by (simp add: algebra_simps)
      then show ?thesis by (simp only: ceiling_diff_one)
    qed
    have pos: "0 < \<lceil>(deadline - w) * 2\<rceil>" using True by simp
    let ?r = "drain_polls exited managed deadline (w + 1 / 2) (Suc i)"
    have IH: "Suc i \<le> snd ?r \<and> (fst ?r \<longrightarrow> list_all (child_done exited (snd ?r)) managed)
      \<and> int (snd ?r) \<le> int (Suc i) + max 0 \<lceil>(deadline - (w + 1 / 2)) * 2\<rceil>
      \<and> (\<not> fst ?r \<longrightarrow> (\<forall>k. Suc i \<le> k \<and> k < snd ?r \<longrightarrow> \<not> list_all (child_done exited k) managed)
        \<and> deadline \<le> w + 1 / 2 + real (snd ?r - Suc i) / 2)"
      using 1 True by blast
    have "real (snd ?r - i) = 1 + real (snd ?r - Suc i)" using IH by (simp add: of_nat_diff)
    then have "deadline \<le> w + real (snd ?r - i) / 2" if "\<not> fst ?r"
      using IH that by (simp add: field_simps)
    moreover have "\<not> list_all (child_done exited k) managed" if "\<not> fst ?r" "i \<le> k" "k < snd ?r" for k
      using IH True that by (cases "k = i") auto
    ultimately show ?thesis unfolding eq using IH c pos by auto
  qed
qed

text \<open>The shutdown of the children ends, after at most two polls per second of the timeout. It
  asks every child that is running to terminate before it polls, kills exactly the children that
  are still running when it gives up, and kills nobody when all have gone; it gives up only after
  the whole timeout, with at least one child running at every earlier poll.\<close>

lemma drain_children_result:
  "let d = drain_children exited managed timeout in
     int (polls d) \<le> \<lceil>max 0 timeout * 2\<rceil>
     \<and> terminated d = map fst (filter (\<lambda>(n, c). c = Child \<and> \<not> exited 0 n) managed)
     \<and> killed d = map fst (filter (\<lambda>(n, c). c = Child \<and> \<not> exited (polls d) n) managed)
     \<and> (killed d = [] \<or> max 0 timeout \<le> real (polls d) / 2
          \<and> (\<forall>k < polls d. \<exists>(n, c) \<in> set managed. c = Child \<and> \<not> exited k n))"
proof -
  obtain b i where p: "drain_polls exited managed (max 0 timeout) 0 0 = (b, i)" by fastforce
  have f: "(\<lambda>mp. \<not> child_done exited k mp) = (\<lambda>(n, c). c = Child \<and> \<not> exited k n)" for k
    by (auto simp: child_done_def fun_eq_iff split: child.splits intro: child.exhaust)
  have nd: "\<not> list_all (child_done exited k) managed \<longleftrightarrow> (\<exists>(n, c) \<in> set managed. c = Child \<and> \<not> exited k n)" for k
    using f[of k] by (auto simp: list_all_iff fun_eq_iff)
  note R = drain_polls_result[of 0 exited managed "max 0 timeout" 0, unfolded p, simplified]
  have d: "drain_children exited managed timeout =
      \<lparr>terminated = map fst (filter (\<lambda>(n, c). c = Child \<and> \<not> exited 0 n) managed), polls = i,
       killed = (if b then [] else map fst (filter (\<lambda>(n, c). c = Child \<and> \<not> exited i n) managed))\<rparr>"
    by (simp add: drain_children_def p f)
  have "b \<Longrightarrow> filter (\<lambda>(n, c). c = Child \<and> \<not> exited i n) managed = []"
    using R by (auto simp: f[symmetric] filter_empty_conv list_all_iff)
  then show ?thesis using R by (auto simp: d Let_def nd max_def)
qed

end
