(* ===== verification/AutonomyLock.thy ===== *)
theory AutonomyLock
  imports Interfaces
begin

text \<open>
  The advisory locks between autonomy ticks, \<open>job_queue/autonomy_lock.py\<close>: the scope strings, the
  token, and every method of \<open>AutonomyLockRegistry\<close>. Each method reads the clock once, inside the
  mutex; the reading is the argument \<open>now\<close>.
\<close>

section \<open>Scopes\<close>

definition branch_scope :: "string \<Rightarrow> string \<Rightarrow> string" where
  "branch_scope repo branch = ''branch:'' @ py_strip repo @ '':'' @ py_strip branch"

definition session_scope :: "string \<Rightarrow> string" where
  "session_scope sid = ''session:'' @ py_strip sid"

definition coding_job_scope :: "string \<Rightarrow> string \<Rightarrow> string" where
  "coding_job_scope sid role = ''coding_job:'' @ py_strip sid @ '':'' @ py_strip role"

section \<open>The registry\<close>

record lock =
  lk_scope :: string
  lk_holder :: string
  acquired_at :: pyfloat
  expires_at :: pyfloat
  token_id :: string

record lock_registry =
  holders :: "(string \<times> lock) list"
  default_ttl :: pyfloat
  counter :: nat

definition new_locks :: "pyfloat \<Rightarrow> lock_registry" where
  "new_locks ttl = \<lparr>holders = [], default_ttl = max 1 ttl, counter = 0\<rparr>"

definition token_of :: "pyfloat \<Rightarrow> nat \<Rightarrow> string" where
  "token_of now n = show_int (if 0 \<le> now then \<lfloor>now * 1000\<rfloor> else \<lceil>now * 1000\<rceil>) @ ''-'' @ show_nat n"

definition acquire :: "string \<Rightarrow> string \<Rightarrow> pyfloat option \<Rightarrow> pyfloat \<Rightarrow> lock_registry \<Rightarrow>
    lock option \<times> lock_registry" where
  "acquire scope holder ttl now reg =
     (if scope = [] \<or> holder = [] then (None, reg)
      else
        let ttl = max 1 (case ttl of Some t \<Rightarrow> t | None \<Rightarrow> default_ttl reg)
        in if (case map_of (holders reg) scope of None \<Rightarrow> False | Some current \<Rightarrow> now < expires_at current)
           then (None, reg)
           else
             let n = counter reg + 1;
                 token = \<lparr>lk_scope = scope, lk_holder = holder, acquired_at = now,
                          expires_at = now + ttl, token_id = token_of now n\<rparr>
             in (Some token, reg\<lparr>counter := n, holders := AList.update scope token (holders reg)\<rparr>))"

definition release :: "lock option \<Rightarrow> lock_registry \<Rightarrow> bool \<times> lock_registry" where
  "release l reg = (case l of
     None \<Rightarrow> (False, reg)
   | Some l \<Rightarrow> (case map_of (holders reg) (lk_scope l) of
       None \<Rightarrow> (False, reg)
     | Some current \<Rightarrow>
         if token_id current \<noteq> token_id l then (False, reg)
         else (True, reg\<lparr>holders := AList.delete (lk_scope l) (holders reg)\<rparr>)))"

definition is_held :: "string \<Rightarrow> pyfloat \<Rightarrow> lock_registry \<Rightarrow> bool \<times> lock_registry" where
  "is_held scope now reg =
     (if scope = [] then (False, reg)
      else case map_of (holders reg) scope of
        None \<Rightarrow> (False, reg)
      | Some current \<Rightarrow>
          if expires_at current \<le> now
          then (False, reg\<lparr>holders := AList.delete scope (holders reg)\<rparr>)
          else (True, reg))"

definition held_scopes :: "pyfloat \<Rightarrow> lock_registry \<Rightarrow> (string \<times> lock) list" where
  "held_scopes now reg = filter (\<lambda>(s, t). now < expires_at t) (holders reg)"

definition reset_locks :: "lock_registry \<Rightarrow> lock_registry" where
  "reset_locks reg = reg\<lparr>holders := []\<rparr>"

section \<open>Histories\<close>

datatype lock_op = Acquire string string "pyfloat option" pyfloat | Release "lock option" | IsHeld string pyfloat | ResetLocks

primrec apply_lock :: "lock_op \<Rightarrow> lock_registry \<Rightarrow> lock_registry" where
  "apply_lock (Acquire scope holder ttl now) reg = snd (acquire scope holder ttl now reg)"
| "apply_lock (Release l) reg = snd (release l reg)"
| "apply_lock (IsHeld scope now) reg = snd (is_held scope now reg)"
| "apply_lock ResetLocks reg = reset_locks reg"

abbreviation run_locks :: "lock_op list \<Rightarrow> lock_registry \<Rightarrow> lock_registry" where
  "run_locks ops reg \<equiv> fold apply_lock ops reg"

lemma token_of_inj: "token_of t m = token_of u n \<Longrightarrow> m = n"
proof -
  have s: "takeWhile (\<lambda>c. c \<noteq> CHR ''-'') (rev (token_of x k)) = rev (show_nat k)" for x k
  proof -
    have "\<forall>c \<in> set (rev (show_nat k)). c \<noteq> CHR ''-''"
      using show_nat_digits by fastforce
    then show ?thesis by (simp add: token_of_def takeWhile_append)
  qed
  assume "token_of t m = token_of u n"
  then show ?thesis using s[of t m] s[of u n] by simp
qed

lemma acquire_cases:
  assumes "acquire scope holder ttl now reg = (r, reg')"
  obtains (refused) "r = None" "reg' = reg"
  | (granted) l where "r = Some l" "scope \<noteq> []" "holder \<noteq> []" "lk_scope l = scope" "lk_holder l = holder"
      "token_id l = token_of now (counter reg + 1)" "now + 1 \<le> expires_at l"
      "\<And>c. map_of (holders reg) scope = Some c \<Longrightarrow> expires_at c \<le> now"
      "reg' = reg\<lparr>counter := counter reg + 1, holders := AList.update scope l (holders reg)\<rparr>"
proof (cases r)
  case None
  with assms have "reg' = reg" by (auto simp: acquire_def Let_def split: if_splits)
  with None show ?thesis by (rule refused)
next
  case (Some l)
  with assms have g: "scope \<noteq> []" "holder \<noteq> []"
    "\<not> (case map_of (holders reg) scope of None \<Rightarrow> False | Some current \<Rightarrow> now < expires_at current)"
    by (auto simp: acquire_def Let_def split: if_splits)
  with assms Some have "l = \<lparr>lk_scope = scope, lk_holder = holder, acquired_at = now,
      expires_at = now + max 1 (case ttl of Some t \<Rightarrow> t | None \<Rightarrow> default_ttl reg),
      token_id = token_of now (counter reg + 1)\<rparr>"
    "reg' = reg\<lparr>counter := counter reg + 1, holders := AList.update scope l (holders reg)\<rparr>"
    by (auto simp: acquire_def Let_def)
  with Some g show ?thesis by (intro granted[of l]) (auto split: option.splits)
qed

lemma counter_mono: "counter reg \<le> counter (apply_lock a reg)"
proof (cases a)
  case (Acquire scope holder ttl now)
  obtain r reg' where q: "acquire scope holder ttl now reg = (r, reg')" by fastforce
  then show ?thesis by (cases rule: acquire_cases) (simp_all add: Acquire q)
qed (auto simp: release_def is_held_def reset_locks_def split: option.splits)

lemma counter_mono_run: "counter reg \<le> counter (run_locks ops reg)"
proof (induction ops arbitrary: reg)
  case Nil
  then show ?case by simp
next
  case (Cons a ops)
  from Cons[of "apply_lock a reg"] counter_mono[of reg a] show ?case by simp
qed

section \<open>Properties\<close>

text \<open>What a history may do while \<open>l\<close> is live: anything at a time before it expires, except giving
  \<open>l\<close> itself back and dropping all locks.\<close>

fun while_live :: "lock \<Rightarrow> lock_op \<Rightarrow> bool" where
  "while_live l (Acquire scope holder ttl now) \<longleftrightarrow> now < expires_at l"
| "while_live l (Release (Some k)) \<longleftrightarrow> token_id k \<noteq> token_id l"
| "while_live l (Release None) \<longleftrightarrow> True"
| "while_live l (IsHeld scope now) \<longleftrightarrow> now < expires_at l"
| "while_live l ResetLocks \<longleftrightarrow> False"

lemma live_lock_stays:
  assumes "map_of (holders reg) s = Some l" and "lk_scope l = s" and "while_live l a"
  shows "map_of (holders (apply_lock a reg)) s = Some l"
proof (cases a)
  case (Acquire scope holder ttl now)
  obtain r reg' where q: "acquire scope holder ttl now reg = (r, reg')" by fastforce
  then show ?thesis
  proof (cases rule: acquire_cases)
    case refused
    with q Acquire assms show ?thesis by simp
  next
    case (granted k)
    from assms(3) Acquire have "now < expires_at l" by simp
    with granted(8) assms(1) have "scope \<noteq> s" by force
    with q Acquire granted(9) assms(1) show ?thesis by (simp add: update_conv')
  qed
next
  case (Release x)
  with assms show ?thesis
    by (cases x) (auto simp: release_def delete_conv' split: option.splits)
next
  case (IsHeld scope now)
  with assms show ?thesis
    by (auto simp: is_held_def delete_conv' split: option.splits)
next
  case ResetLocks
  with assms(3) show ?thesis by simp
qed

lemma live_lock_run:
  "map_of (holders reg) s = Some l \<Longrightarrow> lk_scope l = s \<Longrightarrow> list_all (while_live l) ops \<Longrightarrow>
    map_of (holders (run_locks ops reg)) s = Some l"
  by (induction ops arbitrary: reg) (auto dest: live_lock_stays)

text \<open>A granted lock excludes everybody else for at least a second: until it expires, is given
  back or the registry is reset, the scope counts as held and every other \<open>acquire\<close> of it, by any
  holder, is refused and changes nothing.\<close>

lemma lock_exclusive:
  assumes "acquire s h ttl t reg = (Some l, reg1)" and "list_all (while_live l) ops" and "t' < expires_at l"
  shows "t + 1 \<le> expires_at l
    \<and> is_held s t' (run_locks ops reg1) = (True, run_locks ops reg1)
    \<and> (\<forall>h' ttl'. acquire s h' ttl' t' (run_locks ops reg1) = (None, run_locks ops reg1))"
proof -
  from assms(1) have g: "map_of (holders reg1) s = Some l" "lk_scope l = s" "s \<noteq> []" "t + 1 \<le> expires_at l"
    by (auto elim!: acquire_cases simp: update_conv')
  have "map_of (holders (run_locks ops reg1)) s = Some l"
    using g(1,2) assms(2) by (rule live_lock_run)
  with g assms(3) show ?thesis by (simp add: is_held_def acquire_def Let_def)
qed

text \<open>Releasing a token whose lease ran out and was claimed again is a no-op: whatever happened
  between the two grants of a scope, giving back the first token neither drops the second holder's
  lock nor changes anything.\<close>

lemma stale_release_noop:
  assumes "acquire s h1 ttl1 t1 reg = (Some l1, reg1)"
    and "acquire s h2 ttl2 t2 (run_locks ops reg1) = (Some l2, reg2)"
  shows "release (Some l1) reg2 = (False, reg2) \<and> fst (release (Some l2) reg2)"
proof -
  from assms(1) have 1: "token_id l1 = token_of t1 (counter reg + 1)" "counter reg1 = counter reg + 1" "lk_scope l1 = s"
    by (auto elim!: acquire_cases)
  from assms(2) have 2: "token_id l2 = token_of t2 (counter (run_locks ops reg1) + 1)"
    "map_of (holders reg2) s = Some l2" "lk_scope l2 = s"
    by (auto elim!: acquire_cases simp: update_conv')
  have "counter reg + 1 \<noteq> counter (run_locks ops reg1) + 1"
    using counter_mono_run[of reg1 ops] 1(2) by simp
  then have "token_id l2 \<noteq> token_id l1" using 1(1) 2(1) token_of_inj by metis
  with 1 2 show ?thesis by (simp add: release_def)
qed

end
