(* ===== verification/Goal.thy ===== *)
theory Goal
  imports PyJson
begin

text \<open>
  The goal record and its status rules, \<open>forgekit_goal/models.py\<close> and \<open>forgekit_goal/transitions.py\<close>:
  the immutable value object with its mutators, the transition matrix with the guard on \<open>done\<close>, and
  the JSON form. The clock is an argument, one string per reading; a new random id is an argument.
\<close>

datatype goal_status = DRAFT | ACTIVE | BLOCKED | AWAITING_APPROVAL | DONE | ABANDONED

primrec goal_status_value :: "goal_status \<Rightarrow> string" where
  "goal_status_value DRAFT = ''draft''"
| "goal_status_value ACTIVE = ''active''"
| "goal_status_value BLOCKED = ''blocked''"
| "goal_status_value AWAITING_APPROVAL = ''awaiting_approval''"
| "goal_status_value DONE = ''done''"
| "goal_status_value ABANDONED = ''abandoned''"

definition goal_status_of_value :: "string \<Rightarrow> goal_status option" where
  "goal_status_of_value v = find (\<lambda>s. goal_status_value s = v)
     [DRAFT, ACTIVE, BLOCKED, AWAITING_APPROVAL, DONE, ABANDONED]"

lemma goal_status_roundtrip [simp]: "goal_status_of_value (goal_status_value s) = Some s"
  by (cases s) (simp_all add: goal_status_of_value_def)

definition KNOWN_MODES :: "string list" where
  "KNOWN_MODES = [''manual'', ''assisted'', ''auto'']"

definition SCHEMA_VERSION :: int where
  "SCHEMA_VERSION = 1"

record evidence =
  ev_ts :: string
  ev_kind :: string
  ev_summary :: string
  ev_ref :: "string option"

record goal =
  gid :: string
  title :: string
  intent :: string
  gstatus :: goal_status
  mode :: "string option"
  parent_id :: "string option"
  children :: "string list"
  packets :: "string list"
  evidence :: "evidence list"
  gcreated_at :: string
  gupdated_at :: string

datatype goal_error =
    EmptyTitle
  | UnknownMode string
  | EmptyPacketId
  | EmptyChildId
  | OwnChild
  | InvalidGoalTransition goal_status goal_status
  | DoneWithoutEvidence
  | KeyMissing string
  | NewerSchema int
  | UnknownStatus string
  | NotAnInteger string
  | WrongType
  | NoPlanSteps
  | UnsafeGoalId string
  | NoSuchGoal string

type_synonym 'a goal_result = "goal_error + 'a"

section \<open>Construction and mutators\<close>

definition create :: "string \<Rightarrow> string \<Rightarrow> string option \<Rightarrow> string option \<Rightarrow> string option \<Rightarrow> string \<Rightarrow>
    string \<Rightarrow> goal goal_result" where
  "create ttl itt md parent given_id fresh_id now =
     (let t = py_strip ttl
      in if t = [] then Inl EmptyTitle
         else if (case md of None \<Rightarrow> False | Some m \<Rightarrow> m \<notin> set KNOWN_MODES)
         then Inl (UnknownMode (case md of None \<Rightarrow> [] | Some m \<Rightarrow> m))
         else Inr \<lparr>gid = (case given_id of Some (c # cs) \<Rightarrow> c # cs | _ \<Rightarrow> fresh_id),
                   title = t, intent = py_strip itt, gstatus = DRAFT, mode = md, parent_id = parent,
                   children = [], packets = [], evidence = [], gcreated_at = now, gupdated_at = now\<rparr>)"

definition with_status :: "goal_status \<Rightarrow> string \<Rightarrow> goal \<Rightarrow> goal" where
  "with_status s now g = g\<lparr>gupdated_at := now, gstatus := s\<rparr>"

text \<open>\<open>add_evidence\<close> reads the clock twice: for the record and for the goal.\<close>

definition add_evidence :: "string \<Rightarrow> string \<Rightarrow> string option \<Rightarrow> string \<Rightarrow> string \<Rightarrow> goal \<Rightarrow> goal" where
  "add_evidence kind summary ref now1 now2 g =
     (let rec = \<lparr>ev_ts = now1, ev_kind = kind, ev_summary = summary, ev_ref = ref\<rparr>
      in g\<lparr>gupdated_at := now2, evidence := evidence g @ [rec]\<rparr>)"

definition link_packet :: "string \<Rightarrow> string \<Rightarrow> goal \<Rightarrow> goal goal_result" where
  "link_packet pid now g =
     (let p = py_strip pid
      in if p = [] then Inl EmptyPacketId
         else if p \<in> set (packets g) then Inr g
         else Inr (g\<lparr>gupdated_at := now, packets := packets g @ [p]\<rparr>))"

definition unlink_packet :: "string \<Rightarrow> string \<Rightarrow> goal \<Rightarrow> goal" where
  "unlink_packet pid now g =
     (if pid \<notin> set (packets g) then g
      else g\<lparr>gupdated_at := now, packets := filter (\<lambda>p. p \<noteq> pid) (packets g)\<rparr>)"

definition add_child :: "string \<Rightarrow> string \<Rightarrow> goal \<Rightarrow> goal goal_result" where
  "add_child cid now g =
     (let c = py_strip cid
      in if c = [] then Inl EmptyChildId
         else if c = gid g then Inl OwnChild
         else if c \<in> set (children g) then Inr g
         else Inr (g\<lparr>gupdated_at := now, children := children g @ [c]\<rparr>))"

section \<open>Status rules\<close>

primrec ALLOWED :: "goal_status \<Rightarrow> goal_status set" where
  "ALLOWED DRAFT = {ACTIVE, ABANDONED}"
| "ALLOWED ACTIVE = {BLOCKED, AWAITING_APPROVAL, DONE, ABANDONED}"
| "ALLOWED BLOCKED = {ACTIVE, ABANDONED}"
| "ALLOWED AWAITING_APPROVAL = {ACTIVE, BLOCKED, DONE, ABANDONED}"
| "ALLOWED DONE = {ACTIVE}"
| "ALLOWED ABANDONED = {ACTIVE}"

definition can_transition :: "goal_status \<Rightarrow> goal_status \<Rightarrow> bool" where
  "can_transition src dst \<longleftrightarrow> dst \<in> ALLOWED src"

definition apply_status :: "goal_status \<Rightarrow> string \<Rightarrow> goal \<Rightarrow> goal goal_result" where
  "apply_status dst now g =
     (if dst = gstatus g then Inr g
      else if \<not> can_transition (gstatus g) dst then Inl (InvalidGoalTransition (gstatus g) dst)
      else if dst = DONE \<and> evidence g = [] then Inl DoneWithoutEvidence
      else Inr (with_status dst now g))"

section \<open>JSON\<close>

definition json_int :: "json_host \<Rightarrow> json \<Rightarrow> int goal_result" where
  "json_int h j = (case py_int h j of Some i \<Rightarrow> Inr i
     | None \<Rightarrow> Inl (case j of JStr s \<Rightarrow> NotAnInteger s | _ \<Rightarrow> WrongType))"

definition json_items :: "json_host \<Rightarrow> json \<Rightarrow> json list goal_result" where
  "json_items h j = (case py_iter h j of Some xs \<Rightarrow> Inr xs | None \<Rightarrow> Inl WrongType)"

definition json_need :: "json pydict \<Rightarrow> string \<Rightarrow> json goal_result" where
  "json_need d k = (case map_of d k of None \<Rightarrow> Inl (KeyMissing k) | Some v \<Rightarrow> Inr v)"

definition json_default :: "json pydict \<Rightarrow> string \<Rightarrow> json \<Rightarrow> json" where
  "json_default d k v = (case map_of d k of None \<Rightarrow> v | Some x \<Rightarrow> x)"

definition json_optional :: "json_host \<Rightarrow> json pydict \<Rightarrow> string \<Rightarrow> string option" where
  "json_optional h d k = (case map_of d k of None \<Rightarrow> None | Some JNull \<Rightarrow> None | Some v \<Rightarrow> Some (json_str h v))"

definition evidence_to_dict :: "evidence \<Rightarrow> json" where
  "evidence_to_dict e = JObj ([(''ts'', JStr (ev_ts e)), (''kind'', JStr (ev_kind e)), (''summary'', JStr (ev_summary e))]
     @ (case ev_ref e of None \<Rightarrow> [] | Some r \<Rightarrow> [(''ref'', JStr r)]))"

definition evidence_from_dict :: "json_host \<Rightarrow> json \<Rightarrow> evidence goal_result" where
  "evidence_from_dict h j = (case j of
     JObj d \<Rightarrow> and_then (json_need d ''ts'') (\<lambda>ts. and_then (json_need d ''kind'') (\<lambda>k.
       and_then (json_need d ''summary'') (\<lambda>s.
         Inr \<lparr>ev_ts = json_str h ts, ev_kind = json_str h k, ev_summary = json_str h s,
              ev_ref = json_optional h d ''ref''\<rparr>)))
   | _ \<Rightarrow> Inl WrongType)"

definition to_dict :: "goal \<Rightarrow> json" where
  "to_dict g = JObj [
     (''schema_version'', JInt SCHEMA_VERSION), (''id'', JStr (gid g)), (''title'', JStr (title g)),
     (''intent'', JStr (intent g)), (''status'', JStr (goal_status_value (gstatus g))),
     (''mode'', opt_json (mode g)), (''parent_id'', opt_json (parent_id g)),
     (''children'', JList (map JStr (children g))), (''packets'', JList (map JStr (packets g))),
     (''evidence'', JList (map evidence_to_dict (evidence g))),
     (''created_at'', JStr (gcreated_at g)), (''updated_at'', JStr (gupdated_at g))]"

definition from_dict :: "json_host \<Rightarrow> json \<Rightarrow> goal goal_result" where
  "from_dict h j = (case j of
     JObj d \<Rightarrow>
       and_then (json_int h (json_default d ''schema_version'' (JInt 1))) (\<lambda>version.
         if SCHEMA_VERSION < version then Inl (NewerSchema version)
         else and_then (json_need d ''id'') (\<lambda>i. and_then (json_need d ''title'') (\<lambda>t.
           let st = json_str h (json_default d ''status'' (JStr ''draft''))
           in case goal_status_of_value st of
                None \<Rightarrow> Inl (UnknownStatus st)
              | Some status \<Rightarrow>
                  and_then (json_items h (json_default d ''children'' (JList []))) (\<lambda>cs.
                  and_then (json_items h (json_default d ''packets'' (JList []))) (\<lambda>ps.
                  and_then (json_items h (json_default d ''evidence'' (JList []))) (\<lambda>es.
                  and_then (map_result (evidence_from_dict h) es) (\<lambda>evs.
                    Inr \<lparr>gid = json_str h i, title = json_str h t,
                         intent = json_str h (json_default d ''intent'' (JStr [])), gstatus = status,
                         mode = json_optional h d ''mode'', parent_id = json_optional h d ''parent_id'',
                         children = map (json_str h) cs, packets = map (json_str h) ps, evidence = evs,
                         gcreated_at = json_str h (json_default d ''created_at'' (JStr [])),
                         gupdated_at = json_str h (json_default d ''updated_at'' (JStr []))\<rparr>)))))))
   | _ \<Rightarrow> Inl WrongType)"

lemma goal_json_roundtrip_eq: "from_dict h (to_dict g) = Inr g"
proof -
  have "evidence_from_dict h (evidence_to_dict e) = Inr e" for e
    by (cases e) (auto simp: evidence_from_dict_def evidence_to_dict_def json_need_def json_optional_def
        json_str_def split: option.splits)
  then have "map_result (evidence_from_dict h) (map evidence_to_dict es) = Inr es" for es
    by (induction es) simp_all
  then show ?thesis
    by (cases g) (auto simp: from_dict_def to_dict_def json_default_def json_int_def py_int_def py_iter_def json_need_def json_items_def
        json_str_def json_optional_def opt_json_def SCHEMA_VERSION_def comp_def split: option.splits)
qed

section \<open>Histories of a goal\<close>

text \<open>The sanctioned changes: the mutators and \<open>apply\<close>. \<open>with_status\<close> is only called by \<open>apply\<close>.\<close>

datatype goal_op =
    AddEvidence string string "string option" string string
  | LinkPacket string string
  | UnlinkPacket string string
  | AddChild string string
  | ApplyStatus goal_status string

definition or_same :: "goal goal_result \<Rightarrow> goal \<Rightarrow> goal" where
  "or_same r g = (case r of Inl e \<Rightarrow> g | Inr g' \<Rightarrow> g')"

primrec apply_goal :: "goal_op \<Rightarrow> goal \<Rightarrow> goal" where
  "apply_goal (AddEvidence k s r t1 t2) g = add_evidence k s r t1 t2 g"
| "apply_goal (LinkPacket p t) g = or_same (link_packet p t g) g"
| "apply_goal (UnlinkPacket p t) g = unlink_packet p t g"
| "apply_goal (AddChild c t) g = or_same (add_child c t g) g"
| "apply_goal (ApplyStatus s t) g = or_same (apply_status s t g) g"

definition goal_ok :: "goal \<Rightarrow> bool" where
  "goal_ok g \<longleftrightarrow> distinct (packets g) \<and> distinct (children g) \<and> gid g \<notin> set (children g)
     \<and> [] \<notin> set (packets g) \<and> [] \<notin> set (children g) \<and> (gstatus g = DONE \<longrightarrow> evidence g \<noteq> [])"

lemma apply_goal_ok: "goal_ok g \<Longrightarrow> goal_ok (apply_goal a g)"
  by (cases a) (auto simp: goal_ok_def or_same_def add_evidence_def link_packet_def unlink_packet_def add_child_def
      apply_status_def with_status_def Let_def split: sum.splits if_splits)

lemma apply_goal_evidence: "\<exists>es. evidence (apply_goal a g) = evidence g @ es"
  by (cases a) (auto simp: or_same_def add_evidence_def link_packet_def unlink_packet_def add_child_def
      apply_status_def with_status_def Let_def)

lemma apply_goal_frame: "(gid (apply_goal a g), title (apply_goal a g), intent (apply_goal a g), mode (apply_goal a g),
    parent_id (apply_goal a g), gcreated_at (apply_goal a g)) = (gid g, title g, intent g, mode g, parent_id g, gcreated_at g)"
  by (cases a) (auto simp: or_same_def add_evidence_def link_packet_def unlink_packet_def add_child_def
      apply_status_def with_status_def Let_def)

interpretation gl: guarded_moves gstatus ALLOWED apply_goal goal_ok
proof unfold_locales
  fix g :: goal and a
  show "gstatus (apply_goal a g) = gstatus g \<or> gstatus (apply_goal a g) \<in> ALLOWED (gstatus g)"
    by (cases a) (auto simp: or_same_def add_evidence_def link_packet_def unlink_packet_def add_child_def
        apply_status_def with_status_def can_transition_def Let_def)
next
  show "goal_ok g \<Longrightarrow> goal_ok (apply_goal a g)" for g a by (rule apply_goal_ok)
qed

lemma run_goal_evidence: "\<exists>es. evidence (fold apply_goal as g) = evidence g @ es"
proof (induction as arbitrary: g)
  case Nil
  then show ?case by simp
next
  case (Cons a as)
  from Cons[of "apply_goal a g"] apply_goal_evidence[of a g] show ?case by auto
qed

lemma run_goal_frame: "(gid (fold apply_goal as g), title (fold apply_goal as g), intent (fold apply_goal as g),
    mode (fold apply_goal as g), parent_id (fold apply_goal as g), gcreated_at (fold apply_goal as g)) =
    (gid g, title g, intent g, mode g, parent_id g, gcreated_at g)"
proof (induction as arbitrary: g)
  case Nil
  then show ?case by simp
next
  case (Cons a as)
  from Cons[of "apply_goal a g"] apply_goal_frame[of a g] show ?case by simp
qed

section \<open>Properties\<close>

lemma apply_goal_status:
  "gstatus (apply_goal a g) \<noteq> gstatus g \<Longrightarrow> \<exists>t. a = ApplyStatus (gstatus (apply_goal a g)) t"
  by (cases a) (auto simp: or_same_def add_evidence_def link_packet_def unlink_packet_def add_child_def
      apply_status_def with_status_def Let_def split: if_splits)

text \<open>C25: Whatever mutators and status changes a created goal goes through, successful or
  raising: each single step leaves its status, or is a status change along one of the fourteen moves of the
  matrix; a status change succeeds exactly along such a move, or to the status the goal has, and to \<open>done\<close> only with
  evidence on record. The evidence only grows at the end, the goal is never \<open>done\<close> without evidence,
  its packets and children stay free of duplicates and empty ids, and
  it never becomes its own child; its identity, title, intent, mode and parent do not change.\<close>

theorem goal_history:
  assumes "create t i md par given fresh now = Inr g"
  defines "moves \<equiv> {(DRAFT, ACTIVE), (DRAFT, ABANDONED), (ACTIVE, BLOCKED),
      (ACTIVE, AWAITING_APPROVAL), (ACTIVE, DONE), (ACTIVE, ABANDONED), (BLOCKED, ACTIVE), (BLOCKED, ABANDONED),
      (AWAITING_APPROVAL, ACTIVE), (AWAITING_APPROVAL, BLOCKED), (AWAITING_APPROVAL, DONE), (AWAITING_APPROVAL, ABANDONED),
      (DONE, ACTIVE), (ABANDONED, ACTIVE)}"
  shows "let g1 = fold apply_goal as g; g2 = fold apply_goal bs g1 in
      (\<forall>k < length as. let before = gstatus (fold apply_goal (take k as) g); after = gstatus (fold apply_goal (take (Suc k) as) g)
         in after = before \<or> (before, after) \<in> moves \<and> (\<exists>t. as ! k = ApplyStatus after t))
      \<and> (\<forall>dst u. apply_status dst u g1 =
           (if dst = gstatus g1 then Inr g1
            else if (gstatus g1, dst) \<notin> moves then Inl (InvalidGoalTransition (gstatus g1) dst)
            else if dst = DONE \<and> evidence g1 = [] then Inl DoneWithoutEvidence
            else Inr (g1\<lparr>gstatus := dst, gupdated_at := u\<rparr>)))
      \<and> prefix (evidence g1) (evidence g2)
      \<and> (gstatus g2 = DONE \<longrightarrow> evidence g2 \<noteq> [])
      \<and> distinct (packets g2) \<and> [] \<notin> set (packets g2)
      \<and> distinct (children g2) \<and> [] \<notin> set (children g2) \<and> gid g2 \<notin> set (children g2)
      \<and> (gid g2, title g2, intent g2, mode g2, parent_id g2) = (gid g, title g, intent g, mode g, parent_id g)"
proof -
  have ok: "goal_ok g" using assms(1) by (auto simp: create_def goal_ok_def Let_def split: if_splits)
  then have ok2: "goal_ok (fold apply_goal bs (fold apply_goal as g))" by (intro gl.good_run)
  have m: "t \<in> ALLOWED s \<longleftrightarrow> (s, t) \<in> moves" for s t by (cases s) (auto simp: moves_def)
  have "gstatus (fold apply_goal (take (Suc k) as) g) = gstatus (fold apply_goal (take k as) g)
      \<or> (gstatus (fold apply_goal (take k as) g), gstatus (fold apply_goal (take (Suc k) as) g)) \<in> moves
        \<and> (\<exists>t. as ! k = ApplyStatus (gstatus (fold apply_goal (take (Suc k) as) g)) t)" if k: "k < length as" for k
    using gl.step_follows_edge[OF ok k] apply_goal_status[of "as ! k" "fold apply_goal (take k as) g"]
    by (auto simp: m take_Suc_conv_app_nth[OF k])
  moreover have "apply_status dst u h = (if dst = gstatus h then Inr h
      else if (gstatus h, dst) \<notin> moves then Inl (InvalidGoalTransition (gstatus h) dst)
      else if dst = DONE \<and> evidence h = [] then Inl DoneWithoutEvidence
      else Inr (h\<lparr>gstatus := dst, gupdated_at := u\<rparr>))" for dst u h
    by (cases h) (simp add: apply_status_def can_transition_def m with_status_def)
  ultimately show ?thesis
    using ok2 run_goal_evidence[of bs "fold apply_goal as g"] run_goal_frame[of bs "fold apply_goal as g"] run_goal_frame[of as g]
    by (auto simp: Let_def goal_ok_def prefix_def)
qed

theorem goal_history_witness:
  "\<exists>g. create ''t'' [] None None None ''goal-1'' ''1'' = Inr g
    \<and> (gstatus (fold apply_goal [ApplyStatus ACTIVE ''2'', ApplyStatus DONE ''3''] g) = DONE \<longrightarrow>
        evidence (fold apply_goal [ApplyStatus ACTIVE ''2'', ApplyStatus DONE ''3''] g) \<noteq> [])"
proof -
  obtain g where g: "create ''t'' [] None None None ''goal-1'' ''1'' = Inr g"
    by (simp add: create_def Let_def py_strip_def py_lstrip_def py_rstrip_def py_space_def)
  from goal_history[OF g, of "[]" "[ApplyStatus ACTIVE ''2'', ApplyStatus DONE ''3'']"] g show ?thesis
    by (auto simp: Let_def)
qed

text \<open>C38: the file form loses nothing: reading back what was written gives the same goal, with
  status, links, children and every evidence record.\<close>

theorem goal_json_roundtrip: "from_dict h (to_dict g) = Inr g"
  by (rule goal_json_roundtrip_eq)

end
