(* ===== verification/GoalPlan.thy ===== *)
theory GoalPlan
  imports Goal
begin

text \<open>
  Goal planning, \<open>forgekit_goal/planning.py\<close>: decomposition into child goals, the tally of a goal's
  packets from its evidence, progress, the next legal move of a plan, and the bounded replan policy.
  Reasons and summaries shown to operators are constructors, except where the code reads one back.
\<close>

definition EV_PROPOSAL :: string where "EV_PROPOSAL = ''proposal''"
definition EV_EXECUTION :: string where "EV_EXECUTION = ''execution''"
definition EV_VERIFICATION :: string where "EV_VERIFICATION = ''verification''"
definition EV_DECISION :: string where "EV_DECISION = ''decision''"
definition EV_PLAN :: string where "EV_PLAN = ''plan''"
definition EV_REPLAN :: string where "EV_REPLAN = ''replan''"
definition EV_BLOCKED :: string where "EV_BLOCKED = ''blocked''"

lemmas ev_kinds = EV_PROPOSAL_def EV_EXECUTION_def EV_VERIFICATION_def EV_DECISION_def EV_PLAN_def
  EV_REPLAN_def EV_BLOCKED_def

section \<open>Decomposition\<close>

record plan_step =
  step_title :: string
  step_intent :: string

text \<open>
  \<open>clock k\<close> is the \<open>k\<close>-th reading of \<open>now\<close>, \<open>uuid i\<close> the id \<open>create\<close> would draw for the \<open>i\<close>-th child,
  \<open>new_id\<close> the caller's generator when it passed one.
\<close>

fun decompose_from :: "(nat \<Rightarrow> string) \<Rightarrow> (nat \<Rightarrow> string) \<Rightarrow> (nat \<Rightarrow> string) option \<Rightarrow> goal \<Rightarrow>
    plan_step list \<Rightarrow> nat \<Rightarrow> nat \<Rightarrow> goal \<Rightarrow> (goal \<times> goal list \<times> nat) goal_result" where
  "decompose_from clock uuid new_id parent [] i k g = Inr (g, [], k)"
| "decompose_from clock uuid new_id parent (s # ss) i k g =
     and_then (create (step_title s) (step_intent s) (mode parent) (Some (gid parent))
         (case new_id of None \<Rightarrow> None | Some f \<Rightarrow> Some (f i)) (uuid i) (clock k)) (\<lambda>child.
     and_then (add_child (gid child) (clock (k + 1)) g) (\<lambda>g'.
     and_then (decompose_from clock uuid new_id parent ss (i + 1)
         (if py_strip (gid child) \<in> set (children g) then k + 1 else k + 2) g') (\<lambda>(g'', cs, k').
     Inr (g'', child # cs, k'))))"

definition decompose :: "(nat \<Rightarrow> string) \<Rightarrow> (nat \<Rightarrow> string) \<Rightarrow> (nat \<Rightarrow> string) option \<Rightarrow> goal \<Rightarrow>
    plan_step list \<Rightarrow> (goal \<times> goal list) goal_result" where
  "decompose clock uuid new_id parent steps =
     (let steps = filter (\<lambda>s. py_strip (step_title s) \<noteq> []) steps
      in if steps = [] then Inl NoPlanSteps
         else and_then (decompose_from clock uuid new_id parent steps 0 0 parent) (\<lambda>(g, cs, k).
           Inr (add_evidence EV_PLAN
                  (''decomposed into '' @ show_nat (length cs) @ '' step(s): '' @ py_join '', '' (map title cs))
                  None (clock k) (clock (k + 1)) g, cs)))"

section \<open>Packet accounting\<close>

definition packet_refs :: "goal \<Rightarrow> string \<Rightarrow> string set" where
  "packet_refs g k = set (concat (map (\<lambda>e. case ev_ref e of
     Some r \<Rightarrow> if ev_kind e = k \<and> r \<noteq> [] then [r] else [] | None \<Rightarrow> []) (evidence g)))"

record packet_tally =
  total :: nat
  executed :: nat
  blocked :: nat
  pending :: nat

definition tally_packets :: "goal \<Rightarrow> packet_tally" where
  "tally_packets g =
     (let proposed = packet_refs g EV_PROPOSAL \<inter> set (packets g);
          executed_refs = packet_refs g EV_EXECUTION \<inter> proposed;
          decision_refs = packet_refs g EV_DECISION \<inter> proposed;
          blocked_refs = decision_refs - executed_refs;
          pending_refs = proposed - executed_refs - blocked_refs
      in \<lparr>total = card proposed, executed = card executed_refs, blocked = card blocked_refs,
          pending = card pending_refs\<rparr>)"

definition is_goal_complete :: "goal \<Rightarrow> bool" where
  "is_goal_complete g \<longleftrightarrow>
     gstatus g \<noteq> ABANDONED
     \<and> (let t = tally_packets g in total t \<noteq> 0
          \<and> list_ex (\<lambda>e. ev_kind e = EV_VERIFICATION) (evidence g) \<and> pending t = 0 \<and> blocked t = 0)"

section \<open>Progress\<close>

record goal_progress =
  pr_goal :: string
  pr_decomposed :: bool
  pr_total :: nat
  pr_done :: nat
  pr_blocked :: nat
  pr_pending :: nat
  pr_ratio :: pyfloat
  pr_complete :: bool
  pr_next :: "string option"

text \<open>\<open>{c.id: c for c in children}\<close>: the last goal with an id wins.\<close>

definition by_id :: "goal list \<Rightarrow> string \<Rightarrow> goal option" where
  "by_id gs = map_of (rev (map (\<lambda>c. (gid c, c)) gs))"

definition children_in_order :: "goal \<Rightarrow> (string \<Rightarrow> goal option) \<Rightarrow> goal list" where
  "children_in_order parent resolved = List.map_filter resolved (children parent)"

definition progress :: "goal \<Rightarrow> goal list \<Rightarrow> goal_progress" where
  "progress g cs =
     (let kids = (if children g \<noteq> [] then children_in_order g (by_id cs) else [])
      in if kids \<noteq> [] then
           let dn = filter (\<lambda>c. gstatus c = DONE) kids;
               bl = filter (\<lambda>c. gstatus c = BLOCKED) kids;
               pd = filter (\<lambda>c. gstatus c \<notin> {DONE, ABANDONED}) kids
           in \<lparr>pr_goal = gid g, pr_decomposed = True, pr_total = length kids, pr_done = length dn,
               pr_blocked = length bl, pr_pending = length pd,
               pr_ratio = of_nat (length dn) / of_nat (length kids),
               pr_complete = (length dn = length kids \<and> 0 < length kids),
               pr_next = (case pd of [] \<Rightarrow> None | c # _ \<Rightarrow> Some (gid c))\<rparr>
         else
           let t = tally_packets g;
               proposed_order = filter (\<lambda>p. p \<in> packet_refs g EV_PROPOSAL) (packets g);
               ex = packet_refs g EV_EXECUTION;
               bl = packet_refs g EV_DECISION - ex
           in \<lparr>pr_goal = gid g, pr_decomposed = False, pr_total = total t, pr_done = executed t,
               pr_blocked = blocked t, pr_pending = pending t,
               pr_ratio = (if total t \<noteq> 0 then of_nat (executed t) / of_nat (total t) else 0),
               pr_complete = is_goal_complete g,
               pr_next = find (\<lambda>p. p \<notin> ex \<and> p \<notin> bl) proposed_order\<rparr>)"

section \<open>The next legal move\<close>

datatype continuation = ADVANCE | COMPLETE | REPLAN | WAIT | NOOP

datatype continuation_reason =
    NoChildren
  | ParentAlready goal_status
  | ChildIdsUnresolved
  | ChildBlocked string
  | ChildAwaitingApproval string
  | ChildGateBlocked string
  | ChildRunning string
  | ActivateNext string
  | AllStepsDone nat

record continuation_move =
  move :: continuation
  target_id :: "string option"
  reason :: continuation_reason

fun walk_children :: "goal list \<Rightarrow> continuation_move option" where
  "walk_children [] = None"
| "walk_children (c # cs) = (case gstatus c of
     DONE \<Rightarrow> walk_children cs
   | ABANDONED \<Rightarrow> walk_children cs
   | BLOCKED \<Rightarrow> Some \<lparr>move = REPLAN, target_id = Some (gid c), reason = ChildBlocked (gid c)\<rparr>
   | AWAITING_APPROVAL \<Rightarrow> Some \<lparr>move = WAIT, target_id = Some (gid c), reason = ChildAwaitingApproval (gid c)\<rparr>
   | ACTIVE \<Rightarrow>
       (let t = tally_packets c
        in if pending t = 0 \<and> 0 < blocked t
           then Some \<lparr>move = REPLAN, target_id = Some (gid c), reason = ChildGateBlocked (gid c)\<rparr>
           else Some \<lparr>move = WAIT, target_id = Some (gid c), reason = ChildRunning (gid c)\<rparr>)
   | DRAFT \<Rightarrow> Some \<lparr>move = ADVANCE, target_id = Some (gid c), reason = ActivateNext (gid c)\<rparr>)"

definition continuation_action :: "goal \<Rightarrow> goal list \<Rightarrow> continuation_move" where
  "continuation_action parent cs =
     (if children parent = [] then \<lparr>move = NOOP, target_id = None, reason = NoChildren\<rparr>
      else if gstatus parent \<in> {DONE, ABANDONED}
      then \<lparr>move = NOOP, target_id = None, reason = ParentAlready (gstatus parent)\<rparr>
      else
        let kids = children_in_order parent (by_id cs)
        in if kids = [] then \<lparr>move = NOOP, target_id = None, reason = ChildIdsUnresolved\<rparr>
           else case walk_children kids of
                  Some m \<Rightarrow> m
                | None \<Rightarrow> \<lparr>move = COMPLETE, target_id = Some (gid parent), reason = AllStepsDone (length kids)\<rparr>)"

section \<open>Risk of pending work\<close>

text \<open>\<open>s[1:s.index("]")]\<close> of a summary that starts with a bracketed tag.\<close>

definition bracket_tag :: "string \<Rightarrow> string option" where
  "bracket_tag summary =
     (let s = py_lstrip summary
      in if prefix ''['' s \<and> CHR '']'' \<in> set s
         then Some (py_lower (py_strip (takeWhile (\<lambda>c. c \<noteq> CHR '']'') (tl s)))) else None)"

fun proposal_risk_in :: "string \<Rightarrow> evidence list \<Rightarrow> string" where
  "proposal_risk_in pid [] = ''risky''"
| "proposal_risk_in pid (e # es) =
     (if ev_kind e = EV_PROPOSAL \<and> ev_ref e = Some pid
      then (case bracket_tag (ev_summary e) of Some tag \<Rightarrow> tag | None \<Rightarrow> proposal_risk_in pid es)
      else proposal_risk_in pid es)"

definition proposal_risk :: "goal \<Rightarrow> string \<Rightarrow> string" where
  "proposal_risk g pid = proposal_risk_in pid (evidence g)"

definition pending_packet_ids :: "goal \<Rightarrow> string list" where
  "pending_packet_ids g =
     (let proposed = packet_refs g EV_PROPOSAL \<inter> set (packets g);
          attempted = packet_refs g EV_EXECUTION \<union> packet_refs g EV_DECISION
      in filter (\<lambda>p. p \<in> proposed \<and> p \<notin> attempted) (packets g))"

definition blocked_packet_ids :: "goal \<Rightarrow> string list" where
  "blocked_packet_ids g =
     (let proposed = packet_refs g EV_PROPOSAL \<inter> set (packets g);
          ex = packet_refs g EV_EXECUTION;
          decided = packet_refs g EV_DECISION
      in filter (\<lambda>p. p \<in> proposed \<and> p \<in> decided \<and> p \<notin> ex) (packets g))"

definition blocked_reason :: "goal \<Rightarrow> string option" where
  "blocked_reason g = map_option ev_summary
     (find (\<lambda>e. ev_kind e \<in> {EV_DECISION, EV_BLOCKED}) (rev (evidence g)))"

datatype disposition = NEEDS_APPROVAL | AUTONOMOUS_SAFE | DISPO_NONE

definition approval_disposition :: "goal \<Rightarrow> disposition" where
  "approval_disposition g =
     (let pids = pending_packet_ids g
      in if pids = [] then DISPO_NONE
         else if list_ex (\<lambda>p. proposal_risk g p \<noteq> ''safe'') pids then NEEDS_APPROVAL
         else AUTONOMOUS_SAFE)"

section \<open>Replan\<close>

datatype replan_action = REPLAN_RETRY | REPLAN_ESCALATE | REPLAN_NONE

record replan_decision =
  ra :: replan_action
  ra_reason :: string
  ra_unlink :: "string list"
  ra_attempt :: nat

definition replan_attempts :: "goal \<Rightarrow> nat" where
  "replan_attempts g = length (filter (\<lambda>e. ev_kind e = EV_REPLAN) (evidence g))"

definition is_stuck :: "goal \<Rightarrow> bool" where
  "is_stuck g \<longleftrightarrow> (let t = tally_packets g in 0 < blocked t \<and> pending t = 0 \<and> \<not> is_goal_complete g)"

text \<open>The dash between spaces that the texts contain, as its three bytes.\<close>

definition em_dash :: string where
  "em_dash = '' '' @ [CHR 0xE2, CHR 0x80, CHR 0x94] @ '' ''"

definition replan :: "goal \<Rightarrow> int \<Rightarrow> replan_decision" where
  "replan g max_attempts =
     (if \<not> is_stuck g then \<lparr>ra = REPLAN_NONE, ra_reason = ''not stuck'', ra_unlink = [], ra_attempt = 0\<rparr>
      else
        let why = (case blocked_reason g of Some (c # cs) \<Rightarrow> c # cs | _ \<Rightarrow> ''gate-blocked (no recorded reason)'');
            attempts = replan_attempts g
        in if int attempts < max_attempts
           then \<lparr>ra = REPLAN_RETRY,
                 ra_reason = ''retry '' @ show_nat (attempts + 1) @ ''/'' @ show_int max_attempts
                   @ '': abandon blocked approach'' @ em_dash @ why,
                 ra_unlink = blocked_packet_ids g, ra_attempt = attempts + 1\<rparr>
           else \<lparr>ra = REPLAN_ESCALATE,
                 ra_reason = ''escalate after '' @ show_nat attempts @ '' retry: '' @ why,
                 ra_unlink = [], ra_attempt = attempts\<rparr>)"

section \<open>Plan steps from discovered work\<close>

definition area_key :: "string \<Rightarrow> string" where
  "area_key area = (let a = py_strip area in if a = [] then ''general'' else a)"

definition derive_plan_steps :: "(string \<times> string) list \<Rightarrow> plan_step list" where
  "derive_plan_steps items =
     map (\<lambda>a. \<lparr>step_title = a, step_intent = show_nat (length (filter (\<lambda>(x, _). area_key x = a) items))
              @ '' finding(s) in '' @ a\<rparr>)
       (dedup (map (\<lambda>(x, _). area_key x) items))"

definition is_big_goal :: "(string \<times> string) list \<Rightarrow> bool" where
  "is_big_goal items \<longleftrightarrow> 2 \<le> card (set (map (\<lambda>(x, _). area_key x) items))"

section \<open>Facts about the tally\<close>

lemma packet_refs_iff: "p \<in> packet_refs g k \<longleftrightarrow> p \<noteq> [] \<and> (\<exists>e \<in> set (evidence g). ev_kind e = k \<and> ev_ref e = Some p)"
proof -
  have m: "p \<in> set (case ev_ref e of Some r \<Rightarrow> if ev_kind e = k \<and> r \<noteq> [] then [r] else [] | None \<Rightarrow> []) \<longleftrightarrow>
      p \<noteq> [] \<and> ev_kind e = k \<and> ev_ref e = Some p" for e
    by (cases "ev_ref e") auto
  have "p \<in> packet_refs g k \<longleftrightarrow> (\<exists>e \<in> set (evidence g). p \<noteq> [] \<and> ev_kind e = k \<and> ev_ref e = Some p)"
    unfolding packet_refs_def set_concat set_map image_image by (simp only: m UN_iff)
  then show ?thesis by blast
qed

lemma finite_packet_refs [simp]: "finite (packet_refs g kind)"
  unfolding packet_refs_def by (rule finite_set)

lemma tally_partition: "total (tally_packets g) = executed (tally_packets g) + blocked (tally_packets g) + pending (tally_packets g)"
proof -
  let ?p = "packet_refs g EV_PROPOSAL \<inter> set (packets g)"
  let ?x = "packet_refs g EV_EXECUTION \<inter> ?p"
  let ?b = "packet_refs g EV_DECISION \<inter> ?p - ?x"
  have "card (?p - ?x - ?b) = card (?p - ?x) - card ?b" by (rule card_Diff_subset) auto
  moreover have "card (?p - ?x) = card ?p - card ?x" by (rule card_Diff_subset) auto
  moreover have "card ?x \<le> card ?p" "card ?b \<le> card (?p - ?x)" by (intro card_mono; auto)+
  ultimately show ?thesis by (simp add: tally_packets_def Let_def)
qed

lemma set_pending_ids: "set (pending_packet_ids g) = packet_refs g EV_PROPOSAL \<inter> set (packets g)
    - packet_refs g EV_EXECUTION - packet_refs g EV_DECISION"
  by (auto simp: pending_packet_ids_def)

lemma set_blocked_ids: "set (blocked_packet_ids g) = packet_refs g EV_PROPOSAL \<inter> set (packets g)
    \<inter> packet_refs g EV_DECISION - packet_refs g EV_EXECUTION"
  by (auto simp: blocked_packet_ids_def)

lemma tally_pending: "pending (tally_packets g) = card (set (pending_packet_ids g))"
  unfolding set_pending_ids by (simp add: tally_packets_def Let_def) (rule arg_cong[of _ _ card], auto)

lemma tally_blocked: "blocked (tally_packets g) = card (set (blocked_packet_ids g))"
  unfolding set_blocked_ids by (simp add: tally_packets_def Let_def) (rule arg_cong[of _ _ card], auto)

lemma pending_zero: "pending (tally_packets g) = 0 \<longleftrightarrow> pending_packet_ids g = []"
  by (simp add: tally_pending)

lemma blocked_zero: "blocked (tally_packets g) = 0 \<longleftrightarrow> blocked_packet_ids g = []"
  by (simp add: tally_blocked)

lemma total_zero: "total (tally_packets g) = 0 \<longleftrightarrow> (\<forall>p \<in> set (packets g). p \<notin> packet_refs g EV_PROPOSAL)"
  by (auto simp: tally_packets_def Let_def card_eq_0_iff)

text \<open>When the next move is to complete, and what it is otherwise about.\<close>

lemma walk_children_None: "walk_children ks = None \<longleftrightarrow> (\<forall>k \<in> set ks. gstatus k \<in> {DONE, ABANDONED})"
  by (induction ks) (auto simp: Let_def split: goal_status.splits if_splits)

lemma walk_children_move: "walk_children ks = Some x \<Longrightarrow> move x \<noteq> COMPLETE
    \<and> (move x = ADVANCE \<longrightarrow> (\<exists>k \<in> set ks. target_id x = Some (gid k) \<and> gstatus k = DRAFT))"
  by (induction ks) (auto simp: Let_def split: goal_status.splits if_splits)

lemma no_children: "children parent = [] \<Longrightarrow> children_in_order parent m = []"
  by (simp add: children_in_order_def List.map_filter_def)

lemma move_complete_iff:
  "move (continuation_action parent cs) = COMPLETE \<longleftrightarrow>
      gstatus parent \<notin> {DONE, ABANDONED} \<and> children_in_order parent (by_id cs) \<noteq> []
      \<and> (\<forall>k \<in> set (children_in_order parent (by_id cs)). gstatus k \<in> {DONE, ABANDONED})"
  unfolding walk_children_None[symmetric]
  using no_children walk_children_move by (auto simp: continuation_action_def Let_def split: option.splits)

lemma move_advance:
  "move (continuation_action parent cs) = ADVANCE \<Longrightarrow>
    \<exists>k \<in> set (children_in_order parent (by_id cs)). target_id (continuation_action parent cs) = Some (gid k) \<and> gstatus k = DRAFT"
  using walk_children_move by (auto simp: continuation_action_def Let_def split: option.splits if_splits)

lemma progress_complete_iff:
  assumes "children_in_order parent (by_id cs) \<noteq> []"
  shows "pr_complete (progress parent cs) \<longleftrightarrow> (\<forall>k \<in> set (children_in_order parent (by_id cs)). gstatus k = DONE)"
proof -
  have f: "length (filter P ks) = length ks \<longleftrightarrow> (\<forall>k \<in> set ks. P k)" for P :: "goal \<Rightarrow> bool" and ks
    by (metis filter_True length_filter_less linorder_neqE_nat order_less_irrefl)
  show ?thesis using assms no_children[of parent] by (auto simp: progress_def Let_def f)
qed

section \<open>Properties\<close>

text \<open>Completion is backed by evidence. A goal counts as complete exactly when it is not
  abandoned, some linked packet was proposed, every linked and proposed packet has an execution
  record, and there is a verification record; and executed, blocked and pending always partition the
  proposed packets.\<close>

lemma completion_needs_execution:
  "(is_goal_complete g \<longleftrightarrow>
      gstatus g \<noteq> ABANDONED
      \<and> (\<exists>p \<in> set (packets g). p \<in> packet_refs g EV_PROPOSAL)
      \<and> (\<forall>p \<in> set (packets g). p \<in> packet_refs g EV_PROPOSAL \<longrightarrow> p \<in> packet_refs g EV_EXECUTION)
      \<and> (\<exists>e \<in> set (evidence g). ev_kind e = EV_VERIFICATION))
   \<and> total (tally_packets g) = executed (tally_packets g) + blocked (tally_packets g) + pending (tally_packets g)"
proof -
  have "pending (tally_packets g) = 0 \<and> blocked (tally_packets g) = 0 \<longleftrightarrow>
      set (pending_packet_ids g) = {} \<and> set (blocked_packet_ids g) = {}"
    by (simp add: pending_zero blocked_zero)
  also have "\<dots> \<longleftrightarrow> (\<forall>p \<in> set (packets g). p \<in> packet_refs g EV_PROPOSAL \<longrightarrow> p \<in> packet_refs g EV_EXECUTION)"
    unfolding set_pending_ids set_blocked_ids by blast
  finally show ?thesis
    unfolding is_goal_complete_def Let_def list_ex_iff total_zero using tally_partition[of g] by blast
qed

definition finished_leaf :: goal where
  "finished_leaf = \<lparr>gid = ''g'', title = ''t'', intent = [], gstatus = ACTIVE, mode = None, parent_id = None,
     children = [], packets = [''p''],
     evidence = [\<lparr>ev_ts = ''1'', ev_kind = ''proposal'', ev_summary = ''[safe] x'', ev_ref = Some ''p''\<rparr>,
       \<lparr>ev_ts = ''2'', ev_kind = ''execution'', ev_summary = ''ok'', ev_ref = Some ''p''\<rparr>,
       \<lparr>ev_ts = ''3'', ev_kind = ''verification'', ev_summary = ''ok'', ev_ref = None\<rparr>],
     gcreated_at = ''0'', gupdated_at = ''3''\<rparr>"

text \<open>The next move of a plan is decided by its first unfinished step and never skips it: a draft
  step is the only one that is advanced, a blocked one or one whose every attempt was refused goes
  to the operator, anything else waits; a parent is only offered for completion when no resolved
  step is unfinished.\<close>

lemma continuation_follows_plan:
  assumes "children parent \<noteq> []" and "gstatus parent \<notin> {DONE, ABANDONED}"
    and "children_in_order parent (by_id cs) = pre @ c # post"
    and "list_all (\<lambda>k. gstatus k \<in> {DONE, ABANDONED}) pre" and "gstatus c \<notin> {DONE, ABANDONED}"
  shows "continuation_action parent cs =
    (case gstatus c of
       DRAFT \<Rightarrow> \<lparr>move = ADVANCE, target_id = Some (gid c), reason = ActivateNext (gid c)\<rparr>
     | BLOCKED \<Rightarrow> \<lparr>move = REPLAN, target_id = Some (gid c), reason = ChildBlocked (gid c)\<rparr>
     | AWAITING_APPROVAL \<Rightarrow> \<lparr>move = WAIT, target_id = Some (gid c), reason = ChildAwaitingApproval (gid c)\<rparr>
     | _ \<Rightarrow> if pending_packet_ids c = [] \<and> blocked_packet_ids c \<noteq> []
           then \<lparr>move = REPLAN, target_id = Some (gid c), reason = ChildGateBlocked (gid c)\<rparr>
           else \<lparr>move = WAIT, target_id = Some (gid c), reason = ChildRunning (gid c)\<rparr>)"
proof -
  have "walk_children (pre @ c # post) = walk_children (c # post)"
    using assms(4) by (induction pre) auto
  with assms show ?thesis
    by (auto simp: continuation_action_def Let_def pending_zero[symmetric] blocked_zero[symmetric] split: goal_status.splits)
qed

text \<open>Completion of a plan does not mean that every step was done. A parent is offered for
  completion exactly when every step that could be resolved is done or abandoned, so a plan whose
  steps were all abandoned, or whose unfinished steps are missing from the store, completes, while
  \<open>progress\<close> of the same plan says it is not complete.\<close>

lemma completion_ignores_abandoned:
  "(move (continuation_action parent cs) = COMPLETE \<longleftrightarrow>
      gstatus parent \<notin> {DONE, ABANDONED} \<and> children_in_order parent (by_id cs) \<noteq> []
      \<and> (\<forall>k \<in> set (children_in_order parent (by_id cs)). gstatus k \<in> {DONE, ABANDONED}))
   \<and> (children_in_order parent (by_id cs) \<noteq> [] \<longrightarrow>
      (pr_complete (progress parent cs) \<longleftrightarrow> (\<forall>k \<in> set (children_in_order parent (by_id cs)). gstatus k = DONE)))"
  using move_complete_iff[of parent cs] progress_complete_iff[of parent cs] by blast

text \<open>Work is only declared safe to run without the operator when there is pending work and the
  recorded tag of every pending packet reads \<open>safe\<close>; a pending packet with any other tag, or with no
  readable tag at all, makes the goal need approval.\<close>

lemma autonomous_only_if_all_safe:
  "(approval_disposition g = AUTONOMOUS_SAFE \<longleftrightarrow>
      pending_packet_ids g \<noteq> [] \<and> (\<forall>p \<in> set (pending_packet_ids g). proposal_risk g p = ''safe''))
   \<and> (p \<in> set (pending_packet_ids g)
       \<and> (\<forall>e \<in> set (evidence g). ev_kind e = EV_PROPOSAL \<and> ev_ref e = Some p \<longrightarrow> bracket_tag (ev_summary e) \<noteq> Some ''safe'')
      \<longrightarrow> approval_disposition g = NEEDS_APPROVAL)"
proof -
  have "proposal_risk_in p es = ''safe'' \<Longrightarrow> \<exists>e \<in> set es. ev_kind e = EV_PROPOSAL \<and> ev_ref e = Some p
      \<and> bracket_tag (ev_summary e) = Some ''safe''" for p es
    by (induction p es rule: proposal_risk_in.induct) (auto split: if_splits option.splits)
  then show ?thesis
    by (auto simp: approval_disposition_def Let_def list_ex_iff proposal_risk_def)
qed

text \<open>One decomposition links the children it creates, in order.\<close>

lemma create_draft:
  "create t i md par given fresh now = Inr c \<Longrightarrow>
    gstatus c = DRAFT \<and> parent_id c = par \<and> mode c = md \<and> children c = [] \<and> packets c = [] \<and> evidence c = []
    \<and> title c = py_strip t"
  by (auto simp: create_def Let_def split: if_splits)

lemma decompose_from_children:
  assumes "decompose_from clock uuid new_id parent ss i k g = Inr (g', cs, k')"
    and "\<forall>c \<in> set cs. py_strip (gid c) = gid c" and "distinct (children g @ map gid cs)"
  shows "length cs = length ss \<and> map title cs = map (\<lambda>s. py_strip (step_title s)) ss
    \<and> list_all (\<lambda>c. gstatus c = DRAFT \<and> parent_id c = Some (gid parent) \<and> mode c = mode parent \<and> packets c = []) cs
    \<and> children g' = children g @ map gid cs \<and> gid g' = gid g \<and> gstatus g' = gstatus g \<and> evidence g' = evidence g
    \<and> packets g' = packets g"
  using assms
proof (induction ss arbitrary: i k g cs)
  case Nil
  then show ?case by simp
next
  case (Cons s ss)
  let ?k2 = "\<lambda>c. if py_strip (gid c) \<in> set (children g) then k + 1 else k + 2"
  from Cons.prems(1) obtain c g1 cs' where c: "create (step_title s) (step_intent s) (mode parent) (Some (gid parent))
      (case new_id of None \<Rightarrow> None | Some f \<Rightarrow> Some (f i)) (uuid i) (clock k) = Inr c"
    and g1: "add_child (gid c) (clock (k + 1)) g = Inr g1" and cs: "cs = c # cs'"
    and r: "decompose_from clock uuid new_id parent ss (i + 1) (?k2 c) g1 = Inr (g', cs', k')"
    by (auto simp: and_then_Inr)
  have strip: "py_strip (gid c) = gid c" "gid c \<notin> set (children g)"
    using Cons.prems(2,3) by (auto simp: cs)
  from g1 have g1': "children g1 = children g @ [gid c]" "gid g1 = gid g" "gstatus g1 = gstatus g"
    "evidence g1 = evidence g" "packets g1 = packets g"
    by (auto simp: add_child_def Let_def strip split: if_splits)
  have "distinct (children g1 @ map gid cs')" "\<forall>c \<in> set cs'. py_strip (gid c) = gid c"
    using Cons.prems(2,3) by (auto simp: cs g1'(1))
  from Cons.IH[OF r this(2,1)] g1' create_draft[OF c] show ?case by (simp add: cs)
qed

text \<open>Decomposing a goal only creates records: one draft child per step with a title, in order,
  carrying the parent's id and mode, linked to the parent, and one \<open>plan\<close> record; the plan then
  stands at zero of that many steps and its next move is to activate the first child.\<close>

lemma decompose_makes_plan:
  assumes "decompose clock uuid new_id parent steps = Inr (g, cs)" and "children parent = []"
    and "gstatus parent = ACTIVE"
    and "distinct (map gid cs)" and "\<forall>c \<in> set cs. py_strip (gid c) = gid c"
  shows "map title cs = map (\<lambda>s. py_strip (step_title s)) (filter (\<lambda>s. py_strip (step_title s) \<noteq> []) steps)
    \<and> (\<forall>c \<in> set cs. gstatus c = DRAFT \<and> parent_id c = Some (gid parent) \<and> mode c = mode parent)
    \<and> children g = map gid cs
    \<and> (\<exists>e. evidence g = evidence parent @ [e] \<and> ev_kind e = EV_PLAN)
    \<and> (gid g, gstatus g, packets g) = (gid parent, gstatus parent, packets parent)
    \<and> pr_total (progress g cs) = length cs \<and> pr_done (progress g cs) = 0 \<and> \<not> pr_complete (progress g cs)
    \<and> continuation_action g cs = \<lparr>move = ADVANCE, target_id = Some (gid (hd cs)), reason = ActivateNext (gid (hd cs))\<rparr>"
proof -
  let ?steps = "filter (\<lambda>s. py_strip (step_title s) \<noteq> []) steps"
  from assms(1) obtain g0 k where r: "decompose_from clock uuid new_id parent ?steps 0 0 parent = Inr (g0, cs, k)"
    and ne: "?steps \<noteq> []"
    and g: "g = add_evidence EV_PLAN (''decomposed into '' @ show_nat (length cs) @ '' step(s): '' @ py_join '', '' (map title cs))
        None (clock k) (clock (k + 1)) g0"
    by (auto simp: decompose_def Let_def and_then_Inr split: if_splits)
  have d: "distinct (children parent @ map gid cs)" using assms(2,4) by simp
  note D = decompose_from_children[OF r assms(5) d]
  have cs: "cs \<noteq> []" using D ne by (metis length_0_conv)
  have ch: "children g = map gid cs" using D assms(2) by (simp add: g add_evidence_def Let_def)
  have id: "by_id cs (gid c) = Some c" if "c \<in> set cs" for c
    using that assms(4) unfolding by_id_def rev_map
    by (intro map_of_is_SomeI) (auto simp: comp_def rev_map[symmetric])
  have "List.map_filter (by_id cs) (map gid ks) = ks" if "set ks \<subseteq> set cs" for ks
    using that by (induction ks) (simp_all add: List.map_filter_def id)
  then have kids: "children_in_order g (by_id cs) = cs" by (simp add: children_in_order_def ch)
  have draft: "\<forall>c \<in> set cs. gstatus c = DRAFT" using D by (simp add: list_all_iff)
  obtain c0 rest where c0: "cs = c0 # rest" using cs by (cases cs) auto
  have walk: "walk_children cs = Some \<lparr>move = ADVANCE, target_id = Some (gid (hd cs)), reason = ActivateNext (gid (hd cs))\<rparr>"
    using draft by (simp add: c0)
  have "gstatus g = ACTIVE" using D assms(3) by (simp add: g add_evidence_def Let_def)
  then have "continuation_action g cs = \<lparr>move = ADVANCE, target_id = Some (gid (hd cs)), reason = ActivateNext (gid (hd cs))\<rparr>"
    using ch cs draft walk by (simp add: continuation_action_def kids Let_def)
  moreover have "filter (\<lambda>c. gstatus c = DONE) cs = []" using draft by (auto simp: filter_empty_conv)
  then have "pr_total (progress g cs) = length cs \<and> pr_done (progress g cs) = 0 \<and> \<not> pr_complete (progress g cs)"
    using ch cs by (simp add: progress_def kids Let_def)
  ultimately show ?thesis
    using D ch by (auto simp: g add_evidence_def Let_def list_all_iff)
qed

text \<open>Discovered work is grouped without loss: the derived steps have distinct, non-blank titles,
  one per area in the order the areas were first seen, their counts add up to the number of
  findings, and a goal is big exactly when there is more than one step.\<close>

lemma plan_steps_from_discovery:
  "distinct (map step_title (derive_plan_steps items))
   \<and> set (map step_title (derive_plan_steps items)) = area_key ` fst ` set items
   \<and> [] \<notin> set (map step_title (derive_plan_steps items))
   \<and> map step_intent (derive_plan_steps items) =
       map (\<lambda>a. show_nat (length (filter (\<lambda>x. area_key (fst x) = a) items)) @ '' finding(s) in '' @ a)
         (map step_title (derive_plan_steps items))
   \<and> (\<Sum>a \<leftarrow> map step_title (derive_plan_steps items). length (filter (\<lambda>x. area_key (fst x) = a) items)) = length items
   \<and> (is_big_goal items \<longleftrightarrow> 2 \<le> length (derive_plan_steps items))"
proof -
  let ?ks = "map (\<lambda>x. area_key (fst x)) items"
  have t: "map step_title (derive_plan_steps items) = dedup ?ks"
    by (simp add: derive_plan_steps_def comp_def case_prod_unfold)
  have i: "map step_intent (derive_plan_steps items) =
      map (\<lambda>a. show_nat (length (filter (\<lambda>x. area_key (fst x) = a) items)) @ '' finding(s) in '' @ a) (dedup ?ks)"
    by (simp add: derive_plan_steps_def comp_def case_prod_unfold)
  have "length (filter (\<lambda>x. area_key (fst x) = a) items) = count_list ?ks a" for a
    by (induction items) auto
  moreover have "(\<Sum>a \<leftarrow> dedup ?ks. count_list ?ks a) = sum (count_list ?ks) (set ?ks)"
    using sum_list_distinct_conv_sum_set[OF distinct_dedup, of "count_list ?ks" ?ks] by simp
  moreover have "sum (count_list ?ks) (set ?ks) = length items" by (simp add: sum_count_set)
  moreover have "[] \<notin> set ?ks" by (auto simp: area_key_def Let_def split: if_splits)
  moreover have "card (set ?ks) = length (derive_plan_steps items)"
    using distinct_card[OF distinct_dedup, of ?ks] t by (metis length_map set_dedup)
  ultimately show ?thesis
    unfolding t i by (simp add: is_big_goal_def case_prod_unfold image_image)
qed

end
