(* ===== verification/GoalStore.thy ===== *)
theory GoalStore
  imports GoalPlan
begin

text \<open>
  The goal store, \<open>forgekit_goal/store.py\<close>: one JSON file per goal, as a dictionary from the file's
  stem to the JSON value in it. \<open>os.replace\<close> makes a write atomic: a file holds either its old or its
  new value. JSON text reads back as the value it was written from.
\<close>

type_synonym goal_files = "(string \<times> json) list"

definition goal_path :: "string \<Rightarrow> string goal_result" where
  "goal_path i =
     (let s = py_strip i
      in if s = [] \<or> CHR ''/'' \<in> set s \<or> s = ''.'' \<or> s = ''..'' then Inl (UnsafeGoalId s) else Inr s)"

definition write_file :: "string \<Rightarrow> json \<Rightarrow> goal_files \<Rightarrow> goal_files" where
  "write_file stem j fs = AList.update stem j fs"

definition remove_file :: "string \<Rightarrow> goal_files \<Rightarrow> goal_files" where
  "remove_file stem fs = AList.delete stem fs"

definition save_goal :: "goal \<Rightarrow> goal_files \<Rightarrow> string goal_result \<times> goal_files" where
  "save_goal g fs = (case goal_path (gid g) of
     Inl e \<Rightarrow> (Inl e, fs)
   | Inr stem \<Rightarrow> (Inr stem, write_file stem (to_dict g) fs))"

definition exists_goal :: "string \<Rightarrow> goal_files \<Rightarrow> bool goal_result" where
  "exists_goal i fs = and_then (goal_path i) (\<lambda>stem. Inr (map_of fs stem \<noteq> None))"

definition load_goal :: "json_host \<Rightarrow> string \<Rightarrow> goal_files \<Rightarrow> goal goal_result" where
  "load_goal h i fs = and_then (goal_path i) (\<lambda>stem. case map_of fs stem of
     None \<Rightarrow> Inl (NoSuchGoal i) | Some j \<Rightarrow> from_dict h j)"

text \<open>\<open>get\<close> turns every \<open>KeyError\<close> into \<open>None\<close>, also the one of a file without an id or title.\<close>

definition get_goal :: "json_host \<Rightarrow> string \<Rightarrow> goal_files \<Rightarrow> goal option goal_result" where
  "get_goal h i fs = (case load_goal h i fs of
     Inr g \<Rightarrow> Inr (Some g)
   | Inl (NoSuchGoal x) \<Rightarrow> Inr None
   | Inl (KeyMissing k) \<Rightarrow> Inr None
   | Inl e \<Rightarrow> Inl e)"

definition hidden :: "string \<Rightarrow> bool" where
  "hidden stem = prefix ''.'' stem"

definition load_all :: "json_host \<Rightarrow> goal_files \<Rightarrow> goal list goal_result" where
  "load_all h fs = and_then
     (map_result (\<lambda>(stem, j). from_dict h j)
       (filter (\<lambda>(stem, j). \<not> hidden stem)
         (sort_by (\<lambda>a b. fst a @ ''.json'' \<le> fst b @ ''.json'') fs)))
     (\<lambda>gs. Inr (sort_by (\<lambda>a b. gupdated_at b \<le> gupdated_at a) gs))"

definition delete_goal :: "string \<Rightarrow> goal_files \<Rightarrow> bool goal_result \<times> goal_files" where
  "delete_goal i fs = (case goal_path i of
     Inl e \<Rightarrow> (Inl e, fs)
   | Inr stem \<Rightarrow> if map_of fs stem \<noteq> None then (Inr True, remove_file stem fs) else (Inr False, fs))"

section \<open>The store as a table with one goal per file\<close>

definition file_goal :: "json_host \<Rightarrow> goal_files \<Rightarrow> string \<Rightarrow> goal option" where
  "file_goal h fs stem = (case map_of fs stem of None \<Rightarrow> None
     | Some j \<Rightarrow> (case from_dict h j of Inl e \<Rightarrow> None | Inr g \<Rightarrow> Some g))"

definition put_goal :: "goal \<Rightarrow> goal_files \<Rightarrow> goal_files" where
  "put_goal g fs = snd (save_goal g fs)"

definition safe_id :: "string \<Rightarrow> bool" where
  "safe_id i \<longleftrightarrow> is_ok (goal_path i)"

text \<open>Every file was written by \<open>save\<close>.\<close>

definition files_ok :: "goal_files \<Rightarrow> bool" where
  "files_ok fs \<longleftrightarrow> distinct (map fst fs)
     \<and> (\<forall>s j. map_of fs s = Some j \<longrightarrow> safe_id s \<and> (\<exists>g. j = to_dict g \<and> py_strip (gid g) = s))"

lemma write_file_map [simp]: "map_of (write_file s j fs) = (map_of fs)(s \<mapsto> j)"
  by (simp add: write_file_def update_conv')

lemma remove_file_map [simp]: "map_of (remove_file s fs) = (map_of fs)(s := None)"
  by (simp add: remove_file_def delete_conv')

lemma goal_path_strip: "goal_path i = Inr s \<Longrightarrow> s = py_strip i"
  by (auto simp: goal_path_def Let_def split: if_splits)

lemma safe_id_path: "safe_id i \<longleftrightarrow> goal_path i = Inr (py_strip i)"
  by (auto simp: safe_id_def goal_path_def Let_def)

lemma safe_id_strip [simp]: "safe_id (py_strip i) \<longleftrightarrow> safe_id i"
  by (simp add: safe_id_def goal_path_def)

lemma put_goal_eq:
  "put_goal g fs = (if safe_id (gid g) then write_file (py_strip (gid g)) (to_dict g) fs else fs)"
  by (auto simp: put_goal_def save_goal_def safe_id_def goal_path_def Let_def)

lemma files_ok_put: "files_ok fs \<Longrightarrow> files_ok (put_goal g fs)"
  by (auto simp: files_ok_def put_goal_eq) (simp add: write_file_def distinct_update)

lemma files_ok_remove: "files_ok fs \<Longrightarrow> files_ok (remove_file s fs)"
  by (auto simp: files_ok_def split: if_splits) (simp add: remove_file_def distinct_delete)

lemma file_goal_put:
  "safe_id (gid g) \<Longrightarrow> file_goal h (put_goal g fs) k = (if k = py_strip (gid g) then Some g else file_goal h fs k)"
  by (simp add: file_goal_def put_goal_eq goal_json_roundtrip_eq)

interpretation gs: keyed_table "file_goal h" put_goal remove_file "\<lambda>g. py_strip (gid g)" "\<lambda>g. safe_id (gid g)" files_ok
  for h
proof unfold_locales
  show "safe_id (gid v) \<Longrightarrow> file_goal h (put_goal v t) k = (if k = py_strip (gid v) then Some v else file_goal h t k)"
    for h v t k by (rule file_goal_put)
  show "file_goal h (remove_file k' t) k = (if k = k' then None else file_goal h t k)" for h t k k'
    by (simp add: file_goal_def)
  show "files_ok t \<Longrightarrow> files_ok (put_goal v t)" for t v by (rule files_ok_put)
  show "files_ok t \<Longrightarrow> files_ok (remove_file k' t)" for t k' by (rule files_ok_remove)
qed

lemma file_goal_Some: "file_goal h fs s = Some g \<longleftrightarrow> (\<exists>j. map_of fs s = Some j \<and> from_dict h j = Inr g)"
  by (auto simp: file_goal_def split: option.split sum.split)

lemma files_ok_lookup:
  assumes "files_ok fs" and "map_of fs s = Some j"
  obtains g where "j = to_dict g" "py_strip (gid g) = s" "from_dict h j = Inr g"
proof -
  from assms obtain g where "j = to_dict g" "py_strip (gid g) = s" unfolding files_ok_def by blast
  with that show ?thesis using goal_json_roundtrip_eq by blast
qed

lemma load_goal_file:
  assumes "files_ok fs" and "safe_id i"
  shows "load_goal h i fs = (case file_goal h fs (py_strip i) of None \<Rightarrow> Inl (NoSuchGoal i) | Some g \<Rightarrow> Inr g)"
proof (cases "map_of fs (py_strip i)")
  case None
  with assms(2) show ?thesis by (simp add: load_goal_def file_goal_def safe_id_path)
next
  case (Some j)
  with assms(1) obtain g where "from_dict h j = Inr g" by (rule files_ok_lookup)
  with Some assms(2) show ?thesis by (simp add: load_goal_def file_goal_def safe_id_path)
qed

lemma file_goal_safe: "files_ok fs \<Longrightarrow> file_goal h fs s = Some g \<Longrightarrow> safe_id s \<and> py_strip s = s \<and> py_strip (gid g) = s"
  by (fastforce simp: files_ok_def file_goal_def goal_json_roundtrip_eq split: option.splits sum.splits)

text \<open>What \<open>load_all\<close> gives on such a directory.\<close>

lemma load_all_ok:
  assumes "files_ok fs"
  obtains gs where "load_all h fs = Inr gs" "set gs = {g. \<exists>s. \<not> hidden s \<and> file_goal h fs s = Some g}"
    "distinct (map (\<lambda>g. py_strip (gid g)) gs)" "sorted_wrt (\<lambda>a b. gupdated_at b \<le> gupdated_at a) gs"
proof -
  let ?srt = "sort_by (\<lambda>a b. fst a @ ''.json'' \<le> fst b @ ''.json'') fs"
  let ?vis = "filter (\<lambda>(stem, j). \<not> hidden stem) ?srt"
  let ?g = "\<lambda>(s, j). projr (from_dict h j)"
  have d: "distinct (map fst fs)" using assms by (simp add: files_ok_def)
  have mem: "(s, j) \<in> set ?srt \<longleftrightarrow> map_of fs s = Some j" for s j
    using d by (simp add: map_of_eq_Some_iff)
  have parse: "\<exists>g. from_dict h j = Inr g \<and> py_strip (gid g) = s" if "(s, j) \<in> set ?vis" for s j
  proof -
    from that mem[of s j] have "map_of fs s = Some j" by simp
    with assms obtain g where "from_dict h j = Inr g" "py_strip (gid g) = s" by (rule files_ok_lookup)
    then show ?thesis by blast
  qed
  have r: "map_result (\<lambda>(stem, j). from_dict h j) ?vis = Inr (map ?g ?vis)"
  proof (rule map_result_ok)
    fix x assume x: "x \<in> set ?vis"
    obtain s j where sj: "x = (s, j)" by (rule prod.exhaust)
    from parse[OF x[unfolded sj]] show "(case x of (stem, j) \<Rightarrow> from_dict h j) = Inr (?g x)" by (auto simp: sj)
  qed
  let ?gs = "sort_by (\<lambda>a b. gupdated_at b \<le> gupdated_at a) (map ?g ?vis)"
  have all: "load_all h fs = Inr ?gs" by (simp add: load_all_def r)
  have members: "set ?gs = {g. \<exists>s. \<not> hidden s \<and> file_goal h fs s = Some g}"
  proof -
    show ?thesis
    proof (intro set_eqI iffI)
      fix g assume "g \<in> set ?gs"
      then obtain s j where sj: "(s, j) \<in> set ?vis" "g = ?g (s, j)" by auto
      have "\<not> hidden s" "map_of fs s = Some j" using sj(1) mem[of s j] by auto
      moreover have "from_dict h j = Inr g" using parse[OF sj(1)] sj(2) by auto
      ultimately show "g \<in> {g. \<exists>s. \<not> hidden s \<and> file_goal h fs s = Some g}" by (auto simp: file_goal_def)
    next
      fix g assume "g \<in> {g. \<exists>s. \<not> hidden s \<and> file_goal h fs s = Some g}"
      then obtain s j where s: "\<not> hidden s" "map_of fs s = Some j" "from_dict h j = Inr g"
        unfolding mem_Collect_eq file_goal_Some by blast
      have v: "(s, j) \<in> set ?vis" using s(1,2) mem[of s j] by simp
      have "g = ?g (s, j)" by (simp add: s(3))
      then have "g \<in> ?g ` set ?vis" using v by (rule image_eqI)
      then show "g \<in> set ?gs" by simp
    qed
  qed
  have "map (\<lambda>g. py_strip (gid g)) (map ?g ?vis) = map fst ?vis"
    using parse by fastforce
  moreover have "distinct (map fst ?vis)" using d by (simp add: distinct_map_filter)
  ultimately have "distinct (map (\<lambda>g. py_strip (gid g)) ?gs)"
    by (simp only: distinct_map_sort_by)
  moreover have "sorted_wrt (\<lambda>a b. gupdated_at b \<le> gupdated_at a) ?gs"
    by (intro sorted_wrt_sort_by total_preorder_key_desc)
  ultimately show ?thesis using all members by (intro that)
qed

section \<open>Properties\<close>

text \<open>The calls that change the directory.\<close>

datatype store_op = Save goal | Delete string

primrec apply_store :: "store_op \<Rightarrow> goal_files \<Rightarrow> goal_files" where
  "apply_store (Save g) fs = snd (save_goal g fs)"
| "apply_store (Delete i) fs = snd (delete_goal i fs)"

primrec store_id :: "store_op \<Rightarrow> string" where
  "store_id (Save g) = gid g"
| "store_id (Delete i) = i"

primrec store_write :: "store_op \<Rightarrow> (string, goal) table_op" where
  "store_write (Save g) = Put g"
| "store_write (Delete i) = Del (py_strip i)"

lemma apply_store_write:
  "safe_id (store_id a) \<Longrightarrow> apply_store a fs = gs.step (store_write a) fs"
proof (cases a)
  case (Save g)
  then show ?thesis by (simp add: put_goal_def)
next
  case (Delete i)
  assume "safe_id (store_id a)"
  moreover have "map_of fs s = None \<Longrightarrow> remove_file s fs = fs" for s
    by (simp add: remove_file_def map_of_eq_None_iff)
  ultimately show ?thesis using Delete by (auto simp: delete_goal_def safe_id_path)
qed

lemma apply_store_unsafe: "\<not> safe_id (store_id a) \<Longrightarrow> apply_store a fs = fs"
  by (cases a) (auto simp: save_goal_def delete_goal_def safe_id_def split: sum.splits)

lemma apply_stores_write:
  "fold apply_store as fs = fold gs.step (map store_write (filter (\<lambda>a. safe_id (store_id a)) as)) fs"
  by (induction as arbitrary: fs) (auto simp: apply_store_write apply_store_unsafe)

lemma files_ok_empty [simp]: "files_ok []"
  by (simp add: files_ok_def)

lemma files_ok_run: "files_ok fs \<Longrightarrow> files_ok (fold apply_store as fs)"
  by (simp add: apply_stores_write gs.inv_steps)

lemma valid_writes: "list_all gs.valid_op (map store_write (filter (\<lambda>a. safe_id (store_id a)) as))"
proof -
  have "safe_id (store_id a) \<Longrightarrow> gs.valid_op (store_write a)" for a by (cases a) simp_all
  then show ?thesis by (simp add: list_all_iff)
qed

lemma find_store_touches:
  "safe_id s \<Longrightarrow> find (gs.touches s) (map store_write (filter (\<lambda>a. safe_id (store_id a)) as)) =
    map_option store_write (find (\<lambda>a. py_strip (store_id a) = s) as)"
proof (induction as)
  case Nil
  then show ?case by simp
next
  case (Cons a as)
  have "py_strip (store_id a) = s \<Longrightarrow> safe_id (store_id a)"
    using Cons.prems by (metis safe_id_strip)
  moreover have "gs.touches s (store_write a) \<longleftrightarrow> py_strip (store_id a) = s" by (cases a) simp_all
  ultimately show ?case using Cons by auto
qed

text \<open>C37: the store is a durable map from goal ids to goals. After any history of saves and deletes,
  \<open>load\<close> of a safe id gives exactly the goal last saved under it, evidence and links included, or
  reports it missing when it was never saved or was deleted since; calls with unsafe ids write
  nothing. \<open>load_all\<close> succeeds and returns each stored goal that can be loaded by a visible id,
  once, newest first.\<close>

theorem store_is_map:
  assumes "is_ok (goal_path i)"
  shows "load_goal h i (fold apply_store as []) =
      (case find (\<lambda>a. py_strip (store_id a) = py_strip i) (rev as) of
         Some (Save g) \<Rightarrow> Inr g | _ \<Rightarrow> Inl (NoSuchGoal i))
    \<and> (\<exists>gs. load_all h (fold apply_store as []) = Inr gs
         \<and> sorted_wrt (\<lambda>a b. gupdated_at b \<le> gupdated_at a) gs \<and> distinct gs
         \<and> set gs = {g. \<exists>t. \<not> hidden (py_strip t) \<and> load_goal h t (fold apply_store as []) = Inr g})"
proof -
  let ?fs = "fold apply_store as []"
  have ok: "files_ok ?fs" by (simp add: files_ok_run)
  have safe: "safe_id i" using assms by (simp add: safe_id_def)
  let ?w = "map store_write (filter (\<lambda>a. safe_id (store_id a)) as)"
  have "file_goal h ?fs (py_strip i) = (case find (gs.touches (py_strip i)) (rev ?w) of
        None \<Rightarrow> file_goal h [] (py_strip i) | Some (Put v) \<Rightarrow> Some v | Some (Del k) \<Rightarrow> None)"
    unfolding apply_stores_write by (rule gs.last_write_wins[OF files_ok_empty valid_writes])
  moreover have "rev ?w = map store_write (filter (\<lambda>a. safe_id (store_id a)) (rev as))"
    by (simp add: rev_map rev_filter)
  ultimately have look: "file_goal h ?fs (py_strip i) = (case find (\<lambda>a. py_strip (store_id a) = py_strip i) (rev as) of
      Some (Save g) \<Rightarrow> Some g | _ \<Rightarrow> None)"
    using find_store_touches[of "py_strip i" "rev as"] safe
    by (cases "find (\<lambda>a. py_strip (store_id a) = py_strip i) (rev as)")
      (simp_all add: file_goal_def split: store_op.split)
  obtain gs where gs: "load_all h ?fs = Inr gs" "set gs = {g. \<exists>s. \<not> hidden s \<and> file_goal h ?fs s = Some g}"
    "distinct (map (\<lambda>g. py_strip (gid g)) gs)" "sorted_wrt (\<lambda>a b. gupdated_at b \<le> gupdated_at a) gs"
    using ok by (rule load_all_ok)
  have "(\<exists>t. \<not> hidden (py_strip t) \<and> load_goal h t ?fs = Inr g) \<longleftrightarrow> (\<exists>s. \<not> hidden s \<and> file_goal h ?fs s = Some g)" for g
  proof
    assume "\<exists>t. \<not> hidden (py_strip t) \<and> load_goal h t ?fs = Inr g"
    then obtain t where t: "\<not> hidden (py_strip t)" "load_goal h t ?fs = Inr g" by blast
    then have "safe_id t" by (auto simp: load_goal_def and_then_Inr safe_id_def)
    with t load_goal_file[OF ok this, of h] show "\<exists>s. \<not> hidden s \<and> file_goal h ?fs s = Some g"
      by (auto split: option.splits)
  next
    assume "\<exists>s. \<not> hidden s \<and> file_goal h ?fs s = Some g"
    then obtain s where s: "\<not> hidden s" "file_goal h ?fs s = Some g" by blast
    from file_goal_safe[OF ok s(2)] have "safe_id s" "py_strip s = s" by auto
    with s load_goal_file[OF ok this(1), of h] show "\<exists>t. \<not> hidden (py_strip t) \<and> load_goal h t ?fs = Inr g"
      by (intro exI[of _ s]) simp
  qed
  then have "set gs = {g. \<exists>t. \<not> hidden (py_strip t) \<and> load_goal h t ?fs = Inr g}" using gs(2) by simp
  moreover have "load_goal h i ?fs = (case find (\<lambda>a. py_strip (store_id a) = py_strip i) (rev as) of
         Some (Save g) \<Rightarrow> Inr g | _ \<Rightarrow> Inl (NoSuchGoal i))"
    using load_goal_file[OF ok safe, of h] look by (auto split: option.splits store_op.splits)
  ultimately show ?thesis using gs distinct_map by blast
qed

theorem store_is_map_witness:
  "load_goal plain_json ''goal-1'' (fold apply_store [Save (finished_leaf\<lparr>gid := ''goal-1''\<rparr>), Save (finished_leaf\<lparr>gid := ''../x''\<rparr>),
      Delete ''goal-2''] []) = Inr (finished_leaf\<lparr>gid := ''goal-1''\<rparr>)"
proof -
  have "py_strip ''goal-1'' = ''goal-1''" "py_strip ''goal-2'' = ''goal-2''" "py_strip ''../x'' = ''../x''"
    by (simp_all add: py_strip_def py_lstrip_def py_rstrip_def py_space_def)
  then show ?thesis
    using store_is_map[of "''goal-1''" plain_json "[Save (finished_leaf\<lparr>gid := ''goal-1''\<rparr>), Save (finished_leaf\<lparr>gid := ''../x''\<rparr>), Delete ''goal-2'']"]
    by (simp add: goal_path_def)
qed

end
