(* ===== verification/GoalTick.thy ===== *)
theory GoalTick
  imports GoalStore
begin

text \<open>
  The goal-continuation tick of the runtime daemon, \<open>runtime/goal_continuation_tick.py\<close>: one pass over
  the stored goals that closes finished steps, replans or escalates stuck ones and advances or closes
  decomposed plans. The operator-facing summary line is left out; its counters are kept.
\<close>

section \<open>The pass\<close>

text \<open>
  \<open>cfiles\<close> is the store, \<open>cby\<close> the dictionary \<open>by_id\<close>, \<open>ck\<close> how often the clock was read, \<open>cerr\<close> an
  exception that left the pass (an unsafe id met by \<open>save\<close>): nothing runs after it.
\<close>

record pass =
  cfiles :: goal_files
  cby :: "string \<Rightarrow> goal option"
  ck :: nat
  cerr :: "goal_error option"
  n_children :: nat
  n_advanced :: nat
  n_parents :: nat
  n_replans :: nat
  n_retries :: nat
  n_escalations :: nat
  n_waits :: nat

definition save_in :: "goal \<Rightarrow> pass \<Rightarrow> pass" where
  "save_in g st = (case save_goal g (cfiles st) of
     (Inl e, fs) \<Rightarrow> st\<lparr>cerr := Some e\<rparr>
   | (Inr s, fs) \<Rightarrow> st\<lparr>cfiles := fs, cby := (cby st)(gid g \<mapsto> g)\<rparr>)"

text \<open>A counter is raised only when the save before it returned.\<close>

definition when_saved :: "(pass \<Rightarrow> pass) \<Rightarrow> pass \<Rightarrow> pass" where
  "when_saved f st = (if cerr st = None then f st else st)"

definition roll_up :: "(nat \<Rightarrow> string) \<Rightarrow> goal \<Rightarrow> pass \<Rightarrow> pass" where
  "roll_up clock g st =
     (if gstatus g \<noteq> ACTIVE \<or> children g \<noteq> [] then st
      else if \<not> is_goal_complete g then st
      else
        let t = tally_packets g; k = ck st;
            g2 = add_evidence ''verification''
              (''plan step complete'' @ em_dash @ show_nat (executed t) @ ''/'' @ show_nat (total t) @ '' packet verified'')
              None (clock k) (clock (k + 1)) g
        in case apply_status DONE (clock (k + 2)) g2 of
             Inl e \<Rightarrow> st\<lparr>ck := k + 2\<rparr>
           | Inr g3 \<Rightarrow> when_saved (\<lambda>s. s\<lparr>n_children := n_children s + 1\<rparr>) (save_in g3 (st\<lparr>ck := k + 3\<rparr>)))"

fun unlink_all :: "(nat \<Rightarrow> string) \<Rightarrow> string list \<Rightarrow> nat \<Rightarrow> goal \<Rightarrow> goal \<times> nat" where
  "unlink_all clock [] k g = (g, k)"
| "unlink_all clock (p # ps) k g =
     unlink_all clock ps (if p \<in> set (packets g) then k + 1 else k) (unlink_packet p (clock k) g)"

definition replan_leaf :: "(nat \<Rightarrow> string) \<Rightarrow> int \<Rightarrow> goal \<Rightarrow> pass \<Rightarrow> pass" where
  "replan_leaf clock max_attempts g0 st =
     (let g = (case cby st (gid g0) of Some g \<Rightarrow> g | None \<Rightarrow> g0)
      in if gstatus g \<noteq> ACTIVE \<or> children g \<noteq> [] then st
         else if \<not> is_stuck g then st
         else
           let d = replan g max_attempts
           in case ra d of
                REPLAN_RETRY \<Rightarrow>
                  (let (g2, k) = unlink_all clock (ra_unlink d) (ck st) g;
                       g3 = add_evidence EV_REPLAN (ra_reason d) None (clock k) (clock (k + 1)) g2
                   in when_saved (\<lambda>s. s\<lparr>n_retries := n_retries s + 1\<rparr>) (save_in g3 (st\<lparr>ck := k + 2\<rparr>)))
              | REPLAN_ESCALATE \<Rightarrow>
                  (let k = ck st;
                       g2 = add_evidence EV_BLOCKED (ra_reason d) None (clock k) (clock (k + 1)) g
                   in case apply_status AWAITING_APPROVAL (clock (k + 2)) g2 of
                        Inl e \<Rightarrow> st\<lparr>ck := k + 2\<rparr>
                      | Inr g3 \<Rightarrow> when_saved (\<lambda>s. s\<lparr>n_escalations := n_escalations s + 1\<rparr>)
                          (save_in g3 (st\<lparr>ck := k + 3\<rparr>)))
              | REPLAN_NONE \<Rightarrow> st)"

definition advance_parent :: "(nat \<Rightarrow> string) \<Rightarrow> goal \<Rightarrow> pass \<Rightarrow> pass" where
  "advance_parent clock p0 st =
     (let parent = (case cby st (gid p0) of Some g \<Rightarrow> g | None \<Rightarrow> p0);
          kids = List.map_filter (cby st) (children parent);
          a = continuation_action parent kids
      in case move a of
           ADVANCE \<Rightarrow>
             (case target_id a of
                None \<Rightarrow> st
              | Some t \<Rightarrow>
                  (case cby st t of
                     None \<Rightarrow> st
                   | Some child \<Rightarrow>
                       if gstatus child = DRAFT
                       then (case apply_status ACTIVE (clock (ck st)) child of
                               Inl e \<Rightarrow> st
                             | Inr c2 \<Rightarrow> when_saved (\<lambda>s. s\<lparr>n_advanced := n_advanced s + 1\<rparr>)
                                 (save_in c2 (st\<lparr>ck := ck st + 1\<rparr>)))
                       else st))
         | COMPLETE \<Rightarrow>
             (let k = ck st;
                  p2 = add_evidence ''verification''
                    (''all '' @ show_nat (pr_total (progress parent kids)) @ '' plan step done'' @ em_dash @ ''goal complete'')
                    None (clock k) (clock (k + 1)) parent
              in case apply_status DONE (clock (k + 2)) p2 of
                   Inl e \<Rightarrow> st\<lparr>ck := k + 2\<rparr>
                 | Inr p3 \<Rightarrow> when_saved (\<lambda>s. s\<lparr>n_parents := n_parents s + 1\<rparr>) (save_in p3 (st\<lparr>ck := k + 3\<rparr>)))
         | REPLAN \<Rightarrow> st\<lparr>n_replans := n_replans st + 1\<rparr>
         | WAIT \<Rightarrow> st\<lparr>n_waits := n_waits st + 1\<rparr>
         | NOOP \<Rightarrow> st)"

fun each_goal :: "(goal \<Rightarrow> pass \<Rightarrow> pass) \<Rightarrow> goal list \<Rightarrow> pass \<Rightarrow> pass" where
  "each_goal f [] st = st"
| "each_goal f (g # gs) st = (if cerr st \<noteq> None then st else each_goal f gs (f g st))"

text \<open>\<open>xs[:n]\<close>, also for a negative \<open>n\<close>.\<close>

definition py_take :: "int \<Rightarrow> 'a list \<Rightarrow> 'a list" where
  "py_take n xs = (if 0 \<le> n then take (nat n) xs else take (length xs - nat (- n)) xs)"

definition start_pass :: "goal list \<Rightarrow> goal_files \<Rightarrow> pass" where
  "start_pass goals files = \<lparr>cfiles = files, cby = by_id goals, ck = 0, cerr = None, n_children = 0,
     n_advanced = 0, n_parents = 0, n_replans = 0, n_retries = 0, n_escalations = 0, n_waits = 0\<rparr>"

definition run_pass :: "(nat \<Rightarrow> string) \<Rightarrow> int \<Rightarrow> int \<Rightarrow> goal list \<Rightarrow> goal_files \<Rightarrow> pass" where
  "run_pass clock max_goals max_attempts goals files =
     (let st = each_goal (roll_up clock) goals (start_pass goals files);
          st = each_goal (replan_leaf clock max_attempts) goals st
      in each_goal (advance_parent clock)
           (py_take max_goals (filter (\<lambda>g. children g \<noteq> [] \<and> gstatus g = ACTIVE) goals)) st)"

record tick_outcome =
  waiting :: bool
  blocked_count :: nat

text \<open>A store that cannot be read makes the tick report it and change nothing.\<close>

definition continuation_tick :: "json_host \<Rightarrow> (nat \<Rightarrow> string) \<Rightarrow> int \<Rightarrow> int \<Rightarrow> goal_files \<Rightarrow>
    tick_outcome goal_result \<times> goal_files" where
  "continuation_tick h clock max_goals max_attempts files = (case load_all h files of
     Inl e \<Rightarrow> (Inr \<lparr>waiting = False, blocked_count = 0\<rparr>, files)
   | Inr goals \<Rightarrow>
       (let st = run_pass clock max_goals max_attempts goals files
        in case cerr st of
             Some e \<Rightarrow> (Inl e, cfiles st)
           | None \<Rightarrow> (Inr \<lparr>waiting = (0 < n_escalations st + n_replans st),
                           blocked_count = n_escalations st + n_replans st\<rparr>, cfiles st)))"

section \<open>What one pass may do to a goal\<close>

definition goal_frame :: "goal \<Rightarrow> goal \<Rightarrow> bool" where
  "goal_frame g g' \<longleftrightarrow> (gid g', title g', intent g', mode g', parent_id g', children g', gcreated_at g')
     = (gid g, title g, intent g, mode g, parent_id g, children g, gcreated_at g)"

text \<open>Some step of the plan is stored, and every stored step is done or abandoned.\<close>

definition plan_finished :: "(string \<Rightarrow> goal option) \<Rightarrow> goal \<Rightarrow> bool" where
  "plan_finished m g \<longleftrightarrow> (\<exists>c \<in> set (children g). m c \<noteq> None)
     \<and> (\<forall>c \<in> set (children g). \<forall>k. m c = Some k \<longrightarrow> gstatus k \<in> {DONE, ABANDONED})"

text \<open>\<open>before\<close> and \<open>after\<close> are the stored goals by id before the pass and after it.\<close>

definition tick_move :: "int \<Rightarrow> (string \<Rightarrow> goal option) \<Rightarrow> (string \<Rightarrow> goal option) \<Rightarrow> goal \<Rightarrow> goal \<Rightarrow> bool" where
  "tick_move max_attempts before after g g' \<longleftrightarrow> goal_frame g g' \<and>
     (g' = g
      \<or> gstatus g = ACTIVE \<and> children g = [] \<and> is_goal_complete g
          \<and> gstatus g' = DONE \<and> packets g' = packets g
          \<and> (\<exists>e. evidence g' = evidence g @ [e] \<and> ev_kind e = EV_VERIFICATION)
      \<or> gstatus g = ACTIVE \<and> children g = [] \<and> is_stuck g \<and> int (replan_attempts g) < max_attempts
          \<and> gstatus g' = ACTIVE \<and> packets g' = filter (\<lambda>p. p \<notin> set (blocked_packet_ids g)) (packets g)
          \<and> (\<exists>e. evidence g' = evidence g @ [e] \<and> ev_kind e = EV_REPLAN)
      \<or> gstatus g = ACTIVE \<and> children g = [] \<and> is_stuck g \<and> max_attempts \<le> int (replan_attempts g)
          \<and> gstatus g' = AWAITING_APPROVAL \<and> packets g' = packets g
          \<and> (\<exists>e. evidence g' = evidence g @ [e] \<and> ev_kind e = EV_BLOCKED)
      \<or> gstatus g = DRAFT \<and> gstatus g' = ACTIVE \<and> packets g' = packets g \<and> evidence g' = evidence g
          \<and> (\<exists>i p. before i = Some p \<and> gstatus p = ACTIVE \<and> gid g \<in> set (children p))
      \<or> gstatus g = ACTIVE \<and> children g \<noteq> [] \<and> gstatus g' = DONE \<and> packets g' = packets g
          \<and> (\<exists>e. evidence g' = evidence g @ [e] \<and> ev_kind e = EV_VERIFICATION)
          \<and> plan_finished after g)"

text \<open>The visible goals of a directory whose files carry clean ids.\<close>

definition view :: "json_host \<Rightarrow> goal_files \<Rightarrow> string \<Rightarrow> goal option" where
  "view h fs i = (if hidden i then None else file_goal h fs i)"

definition store_ok :: "json_host \<Rightarrow> goal_files \<Rightarrow> bool" where
  "store_ok h fs \<longleftrightarrow> files_ok fs \<and> (\<forall>s g. file_goal h fs s = Some g \<longrightarrow> gid g = s)"

definition pass_ok :: "json_host \<Rightarrow> int \<Rightarrow> goal_files \<Rightarrow> pass \<Rightarrow> bool" where
  "pass_ok h ma fs0 st \<longleftrightarrow> store_ok h (cfiles st) \<and> cby st = view h (cfiles st) \<and> cerr st = None
     \<and> dom (cby st) = dom (view h fs0)
     \<and> (\<forall>i. hidden i \<longrightarrow> file_goal h (cfiles st) i = file_goal h fs0 i)
     \<and> (\<forall>i g0 g. view h fs0 i = Some g0 \<longrightarrow> cby st i = Some g \<longrightarrow> tick_move ma (view h fs0) (cby st) g0 g)"

lemma view_id: "store_ok h fs \<Longrightarrow> view h fs i = Some g \<Longrightarrow> gid g = i \<and> safe_id i \<and> py_strip i = i \<and> \<not> hidden i"
  using file_goal_safe[of fs h i g] by (auto simp: view_def store_ok_def split: if_splits)

lemma tick_move_refl [simp]: "tick_move ma b a g g"
  by (simp add: tick_move_def goal_frame_def)

text \<open>A write of a goal that was not finished keeps every move made so far legal.\<close>

lemma plan_finished_after:
  assumes "plan_finished a g" and "a i = Some k" and "gstatus k \<notin> {DONE, ABANDONED}"
  shows "plan_finished (a(i \<mapsto> k')) g"
proof -
  have "i \<notin> set (children g)" using assms unfolding plan_finished_def by blast
  then have "c \<in> set (children g) \<Longrightarrow> (a(i \<mapsto> k')) c = a c" for c by auto
  with assms(1) show ?thesis unfolding plan_finished_def by simp
qed

lemma tick_move_after:
  assumes "tick_move ma b a g g'" and "a i = Some k" and "gstatus k \<notin> {DONE, ABANDONED}"
  shows "tick_move ma b (a(i \<mapsto> k')) g g'"
  using assms(1) plan_finished_after[where a = a and i = i and k = k and g = g and k' = k', OF _ assms(2,3)] unfolding tick_move_def by blast

lemma pass_ok_save:
  assumes ok: "pass_ok h ma fs0 st" and g: "cby st i = Some g" "gstatus g \<notin> {DONE, ABANDONED}" "gid g' = i"
    and m: "view h fs0 i = Some g0" "tick_move ma (view h fs0) ((cby st)(i \<mapsto> g')) g0 g'"
  shows "pass_ok h ma fs0 (save_in g' (st\<lparr>ck := k\<rparr>)) \<and> cby (save_in g' (st\<lparr>ck := k\<rparr>)) = (cby st)(i \<mapsto> g')
    \<and> cerr (save_in g' (st\<lparr>ck := k\<rparr>)) = None"
proof -
  from ok have so: "store_ok h (cfiles st)" and cv: "cby st = view h (cfiles st)" and ce: "cerr st = None"
    by (simp_all add: pass_ok_def)
  have mv: "\<And>j a b. view h fs0 j = Some a \<Longrightarrow> cby st j = Some b \<Longrightarrow> tick_move ma (view h fs0) (cby st) a b"
    using ok unfolding pass_ok_def by blast
  from g(1) cv view_id[OF so] have i: "safe_id i" "py_strip i = i" "\<not> hidden i" by auto
  then have sv: "save_goal g' (cfiles st) = (Inr i, put_goal g' (cfiles st))"
    using g(3) by (simp add: put_goal_def save_goal_def safe_id_path)
  then have s: "save_in g' (st\<lparr>ck := k\<rparr>) = st\<lparr>ck := k, cfiles := put_goal g' (cfiles st), cby := (cby st)(i \<mapsto> g')\<rparr>"
    by (simp add: save_in_def g(3))
  have fg: "file_goal h (put_goal g' (cfiles st)) j = (if j = i then Some g' else file_goal h (cfiles st) j)" for j
    using file_goal_put[of g' h "cfiles st" j] g(3) i by simp
  have "store_ok h (put_goal g' (cfiles st))"
    using so g(3) by (auto simp: store_ok_def files_ok_put fg split: if_splits)
  moreover have "(cby st)(i \<mapsto> g') = view h (put_goal g' (cfiles st))"
    by (auto simp: cv view_def fg i(3))
  moreover have "dom ((cby st)(i \<mapsto> g')) = dom (view h fs0)"
  proof -
    have d: "dom (cby st) = dom (view h fs0)" using ok unfolding pass_ok_def by (elim conjE)
    have "i \<in> dom (cby st)" using g(1) by (rule domI)
    moreover have "dom ((cby st)(i \<mapsto> g')) = insert i (dom (cby st))" by (simp only: dom_fun_upd option.distinct if_False)
    ultimately show ?thesis using d by (simp only: insert_absorb)
  qed
  moreover have "\<forall>j. hidden j \<longrightarrow> file_goal h (put_goal g' (cfiles st)) j = file_goal h fs0 j"
    using ok i(3) unfolding pass_ok_def fg by metis
  moreover have "tick_move ma (view h fs0) ((cby st)(i \<mapsto> g')) a b"
    if "view h fs0 j = Some a" "((cby st)(i \<mapsto> g')) j = Some b" for j a b
  proof (cases "j = i")
    case True
    with that m show ?thesis by simp
  next
    case False
    with that have "tick_move ma (view h fs0) (cby st) a b" by (intro mv) simp_all
    then show ?thesis using g(1,2) by (rule tick_move_after)
  qed
  ultimately show ?thesis using ce by (simp add: s pass_ok_def)
qed

lemma pass_ok_frame:
  "pass_ok h ma fs0 (st\<lparr>ck := k\<rparr>) = pass_ok h ma fs0 st"
  "pass_ok h ma fs0 (st\<lparr>n_children := k\<rparr>) = pass_ok h ma fs0 st"
  "pass_ok h ma fs0 (st\<lparr>n_advanced := k\<rparr>) = pass_ok h ma fs0 st"
  "pass_ok h ma fs0 (st\<lparr>n_parents := k\<rparr>) = pass_ok h ma fs0 st"
  "pass_ok h ma fs0 (st\<lparr>n_replans := k\<rparr>) = pass_ok h ma fs0 st"
  "pass_ok h ma fs0 (st\<lparr>n_retries := k\<rparr>) = pass_ok h ma fs0 st"
  "pass_ok h ma fs0 (st\<lparr>n_escalations := k\<rparr>) = pass_ok h ma fs0 st"
  "pass_ok h ma fs0 (st\<lparr>n_waits := k\<rparr>) = pass_ok h ma fs0 st"
  by (simp_all add: pass_ok_def)

section \<open>The three loops\<close>

lemma unlink_all_result:
  "fst (unlink_all clock ps k g) = fst (unlink_all clock ps k g)\<lparr>gupdated_at := gupdated_at (fst (unlink_all clock ps k g))\<rparr>
    \<and> goal_frame g (fst (unlink_all clock ps k g))
    \<and> packets (fst (unlink_all clock ps k g)) = filter (\<lambda>p. p \<notin> set ps) (packets g)
    \<and> gstatus (fst (unlink_all clock ps k g)) = gstatus g \<and> evidence (fst (unlink_all clock ps k g)) = evidence g"
proof (induction clock ps k g rule: unlink_all.induct)
  case (1 clock k g)
  then show ?case by (simp add: goal_frame_def)
next
  case (2 clock p ps k g)
  have "packets (unlink_packet p (clock k) g) = filter (\<lambda>q. q \<noteq> p) (packets g)"
    by (auto simp: unlink_packet_def intro!: filter_id_set[symmetric])
  moreover have "goal_frame g (unlink_packet p (clock k) g)" "gstatus (unlink_packet p (clock k) g) = gstatus g"
    "evidence (unlink_packet p (clock k) g) = evidence g"
    by (simp_all add: unlink_packet_def goal_frame_def)
  ultimately show ?case using 2 by (auto simp: goal_frame_def intro!: filter_cong)
qed

lemma pass_okD: "pass_ok h ma fs0 st \<Longrightarrow> cerr st = None"
  by (simp add: pass_ok_def)

lemma pass_ok_view: "pass_ok h ma fs0 st \<Longrightarrow> cby st i = Some g \<Longrightarrow> gid g = i"
  using view_id[of h "cfiles st" i g] by (simp add: pass_ok_def)

lemma goal_frame_refl [simp]: "goal_frame g g"
  by (simp add: goal_frame_def)

lemma add_evidence_simps [simp]:
  "gid (add_evidence k s r t u g) = gid g" "gstatus (add_evidence k s r t u g) = gstatus g"
  "children (add_evidence k s r t u g) = children g" "packets (add_evidence k s r t u g) = packets g"
  "goal_frame g (add_evidence k s r t u g)"
  "evidence (add_evidence k s r t u g) = evidence g @ [\<lparr>ev_ts = t, ev_kind = k, ev_summary = s, ev_ref = r\<rparr>]"
  by (simp_all add: add_evidence_def Let_def goal_frame_def)

lemma with_status_simps [simp]:
  "gid (with_status s t g) = gid g" "gstatus (with_status s t g) = s" "children (with_status s t g) = children g"
  "packets (with_status s t g) = packets g" "evidence (with_status s t g) = evidence g"
  "goal_frame x (with_status s t g) = goal_frame x g"
  by (simp_all add: with_status_def goal_frame_def)

lemma roll_up_ok:
  assumes ok: "pass_ok h ma fs0 st" and g: "cby st (gid g) = Some g" "view h fs0 (gid g) = Some g"
  shows "pass_ok h ma fs0 (roll_up clock g st) \<and> (\<forall>j. j \<noteq> gid g \<longrightarrow> cby (roll_up clock g st) j = cby st j)
    \<and> (cby (roll_up clock g st) = cby st
        \<or> children g = [] \<and> (\<exists>x. cby (roll_up clock g st) (gid g) = Some x \<and> gstatus x \<noteq> ACTIVE))"
proof (cases "gstatus g = ACTIVE \<and> children g = [] \<and> is_goal_complete g")
  case False
  then have "roll_up clock g st = st" by (auto simp: roll_up_def)
  with ok show ?thesis by simp
next
  case True
  define msg where "msg = ''plan step complete'' @ em_dash @ show_nat (executed (tally_packets g)) @ ''/''
      @ show_nat (total (tally_packets g)) @ '' packet verified''"
  define g3 where "g3 = with_status DONE (clock (ck st + 2))
      (add_evidence ''verification'' msg None (clock (ck st)) (clock (ck st + 1)) g)"
  have r: "roll_up clock g st = when_saved (\<lambda>s. s\<lparr>n_children := n_children s + 1\<rparr>) (save_in g3 (st\<lparr>ck := ck st + 3\<rparr>))"
    using True by (simp add: roll_up_def apply_status_def can_transition_def Let_def g3_def msg_def)
  have "tick_move ma (view h fs0) ((cby st)(gid g \<mapsto> g3)) g g3"
    using True by (simp add: tick_move_def g3_def EV_VERIFICATION_def)
  from pass_ok_save[OF ok g(1) _ _ g(2) this, of "ck st + 3"] True
  show ?thesis by (auto simp: r when_saved_def pass_ok_frame g3_def)
qed

lemma replan_leaf_ok:
  assumes ok: "pass_ok h ma fs0 st" and g: "cby st (gid g0) = Some g" "view h fs0 (gid g0) = Some g0"
    and same: "g = g0 \<or> gstatus g \<noteq> ACTIVE"
  shows "pass_ok h ma fs0 (replan_leaf clock ma g0 st) \<and> (\<forall>j. j \<noteq> gid g0 \<longrightarrow> cby (replan_leaf clock ma g0 st) j = cby st j)
    \<and> (cby (replan_leaf clock ma g0 st) = cby st \<or> children g0 = [])"
proof (cases "gstatus g = ACTIVE \<and> children g = [] \<and> is_stuck g")
  case False
  then have "replan_leaf clock ma g0 st = st" using g(1) by (auto simp: replan_leaf_def Let_def)
  with ok show ?thesis by simp
next
  case True
  with same have gg: "g = g0" by simp
  note g1 = g(1)[unfolded gg] and T = True[unfolded gg]
  define why where "why = ra_reason (replan g0 ma)"
  show ?thesis
  proof (cases "int (replan_attempts g0) < ma")
    case True
    define u where "u = fst (unlink_all clock (blocked_packet_ids g0) (ck st) g0)"
    define k where "k = snd (unlink_all clock (blocked_packet_ids g0) (ck st) g0)"
    define g3 where "g3 = add_evidence EV_REPLAN why None (clock k) (clock (k + 1)) u"
    have r: "replan_leaf clock ma g0 st = when_saved (\<lambda>s. s\<lparr>n_retries := n_retries s + 1\<rparr>) (save_in g3 (st\<lparr>ck := k + 2\<rparr>))"
      using True T g1 by (simp add: replan_leaf_def replan_def Let_def split_beta g3_def u_def k_def why_def)
    have U: "goal_frame g0 u" "packets u = filter (\<lambda>p. p \<notin> set (blocked_packet_ids g0)) (packets g0)"
      "gstatus u = gstatus g0" "evidence u = evidence g0"
      using unlink_all_result[of clock "blocked_packet_ids g0" "ck st" g0] by (simp_all add: u_def)
    have "goal_frame g0 g3" using U(1) by (simp add: g3_def goal_frame_def add_evidence_def Let_def)
    with T True U have m: "tick_move ma (view h fs0) ((cby st)(gid g0 \<mapsto> g3)) g0 g3"
      by (simp add: tick_move_def g3_def)
    have "gid g3 = gid g0" using U(1) by (simp add: g3_def goal_frame_def)
    from pass_ok_save[OF ok g1 _ this g(2) m, of "k + 2"] T
    show ?thesis by (auto simp: r when_saved_def pass_ok_frame)
  next
    case False
    define g3 where "g3 = with_status AWAITING_APPROVAL (clock (ck st + 2))
        (add_evidence EV_BLOCKED why None (clock (ck st)) (clock (ck st + 1)) g0)"
    have r: "replan_leaf clock ma g0 st = when_saved (\<lambda>s. s\<lparr>n_escalations := n_escalations s + 1\<rparr>) (save_in g3 (st\<lparr>ck := ck st + 3\<rparr>))"
      using False T g1 by (simp add: replan_leaf_def replan_def apply_status_def can_transition_def Let_def g3_def why_def)
    have "tick_move ma (view h fs0) ((cby st)(gid g0 \<mapsto> g3)) g0 g3"
      using T False by (simp add: tick_move_def g3_def)
    from pass_ok_save[OF ok g1 _ _ g(2) this, of "ck st + 3"] T
    show ?thesis by (auto simp: r when_saved_def pass_ok_frame g3_def)
  qed
qed

lemma resolved_children:
  assumes "\<And>c k. m c = Some k \<Longrightarrow> gid k = c"
  shows "List.map_filter (by_id (List.map_filter m cs)) cs = List.map_filter m cs"
proof -
  have ids: "set (List.map_filter m ds) = {k. \<exists>c \<in> set ds. m c = Some k}" for ds
    by (auto simp: List.map_filter_def) force
  have "by_id ks c = (if c \<in> gid ` set ks then m c else None)" if "\<forall>k \<in> set ks. m (gid k) = Some k" for ks c
    using that by (induction ks rule: rev_induct) (auto simp: by_id_def)
  moreover have "\<forall>k \<in> set (List.map_filter m cs). m (gid k) = Some k" using assms by (auto simp: ids)
  ultimately have b: "by_id (List.map_filter m cs) c = (if c \<in> gid ` set (List.map_filter m cs) then m c else None)" for c
    by blast
  have "by_id (List.map_filter m cs) c = m c" if "c \<in> set cs" for c
  proof (cases "m c")
    case None
    then show ?thesis by (simp add: b)
  next
    case (Some k)
    then have "k \<in> set (List.map_filter m cs)" "gid k = c" using that assms by (auto simp: ids)
    then show ?thesis by (simp add: b image_iff) metis
  qed
  then have "c \<in> set ds \<Longrightarrow> set ds \<subseteq> set cs \<Longrightarrow> by_id (List.map_filter m cs) c = m c" for c ds by blast
  then have "set ds \<subseteq> set cs \<Longrightarrow> List.map_filter (by_id (List.map_filter m cs)) ds = List.map_filter m ds" for ds
    by (induction ds) (auto simp: List.map_filter_def)
  then show ?thesis by simp
qed

end
