(* ===== verification/GoalTickProps.thy ===== *)
theory GoalTickProps
  imports GoalTick
begin

text \<open>
  The three loops of a continuation tick keep every stored goal within its legal moves; the whole tick is
  honest, and its replans are bounded.
\<close>

lemma set_map_filter: "set (List.map_filter m ds) = {k. \<exists>c \<in> set ds. m c = Some k}"
  by (auto simp: List.map_filter_def) force

lemma distinct_map_Cons: "distinct (map f (x # xs)) \<Longrightarrow> y \<in> set xs \<Longrightarrow> f y \<noteq> f x"
  by (metis distinct.simps(2) image_eqI list.set_map list.simps(9))

lemma tick_move_draft: "tick_move ma b a g g' \<Longrightarrow> gstatus g' = DRAFT \<Longrightarrow> g' = g"
  by (auto simp: tick_move_def)

lemma advance_parent_ok:
  assumes ok: "pass_ok h ma fs0 st" and p: "cby st (gid p) = Some p" "view h fs0 (gid p) = Some p"
    and act: "gstatus p = ACTIVE" "children p \<noteq> []"
  shows "pass_ok h ma fs0 (advance_parent clock p st)
    \<and> (\<forall>q. gstatus q = ACTIVE \<longrightarrow> gid q \<noteq> gid p \<longrightarrow> cby st (gid q) = Some q \<longrightarrow> cby (advance_parent clock p st) (gid q) = Some q)"
proof -
  define kids where "kids = List.map_filter (cby st) (children p)"
  define a where "a = continuation_action p kids"
  have co: "children_in_order p (by_id kids) = kids"
    unfolding children_in_order_def kids_def by (rule resolved_children) (rule pass_ok_view[OF ok])
  have mem: "set kids = {k. \<exists>c \<in> set (children p). cby st c = Some k}" by (simp add: kids_def set_map_filter)
  consider (adv) "move a = ADVANCE" | (comp) "move a = COMPLETE" | (other) "move a \<noteq> ADVANCE \<and> move a \<noteq> COMPLETE" by blast
  then show ?thesis
  proof cases
    case other
    then show ?thesis using ok p(1)
      by (cases "move a") (simp_all add: advance_parent_def Let_def kids_def[symmetric] a_def[symmetric] pass_ok_frame)
  next
    case adv
    then obtain k where k: "k \<in> set kids" "target_id a = Some (gid k)" "gstatus k = DRAFT"
      using move_advance[of p kids] by (auto simp: a_def co)
    then obtain c where c: "c \<in> set (children p)" "cby st c = Some k" by (auto simp: mem)
    then have gk: "gid k = c" using pass_ok_view[OF ok] by blast
    obtain k0 where k0: "view h fs0 c = Some k0"
    proof -
      have "c \<in> dom (view h fs0)" using ok c(2) unfolding pass_ok_def by (metis domI)
      with that show ?thesis by blast
    qed
    have "tick_move ma (view h fs0) (cby st) k0 k" using ok k0 c(2) unfolding pass_ok_def by blast
    then have kk: "k0 = k" using k(3) tick_move_draft by blast
    define c2 where "c2 = with_status ACTIVE (clock (ck st)) k"
    have r: "advance_parent clock p st = when_saved (\<lambda>s. s\<lparr>n_advanced := n_advanced s + 1\<rparr>) (save_in c2 (st\<lparr>ck := ck st + 1\<rparr>))"
      using adv k c(2) gk p(1)
      by (simp add: advance_parent_def Let_def kids_def[symmetric] a_def[symmetric] apply_status_def can_transition_def c2_def)
    have m: "tick_move ma (view h fs0) ((cby st)(c \<mapsto> c2)) k c2"
      using k(3) c(1) p(2) act(1) gk unfolding tick_move_def by (auto simp: c2_def)
    from pass_ok_save[OF ok c(2) _ _ k0, of c2 "ck st + 1"] m k(3) gk kk
    have s: "pass_ok h ma fs0 (save_in c2 (st\<lparr>ck := ck st + 1\<rparr>))"
      "cby (save_in c2 (st\<lparr>ck := ck st + 1\<rparr>)) = (cby st)(c \<mapsto> c2)" "cerr (save_in c2 (st\<lparr>ck := ck st + 1\<rparr>)) = None"
      by (simp_all add: c2_def)
    have "gstatus q = ACTIVE \<Longrightarrow> cby st (gid q) = Some q \<Longrightarrow> gid q \<noteq> c" for q using c(2) k(3) by auto
    with s show ?thesis by (auto simp: r when_saved_def pass_ok_frame)
  next
    case comp
    then have fin: "kids \<noteq> []" "\<forall>k \<in> set kids. gstatus k \<in> {DONE, ABANDONED}"
      using move_complete_iff[of p kids] by (auto simp: a_def co)
    define msg where "msg = ''all '' @ show_nat (pr_total (progress p kids)) @ '' plan step done'' @ em_dash @ ''goal complete''"
    define p3 where "p3 = with_status DONE (clock (ck st + 2)) (add_evidence ''verification'' msg None (clock (ck st)) (clock (ck st + 1)) p)"
    have r: "advance_parent clock p st = when_saved (\<lambda>s. s\<lparr>n_parents := n_parents s + 1\<rparr>) (save_in p3 (st\<lparr>ck := ck st + 3\<rparr>))"
      using comp p(1) act
      by (simp add: advance_parent_def Let_def kids_def[symmetric] a_def[symmetric] apply_status_def can_transition_def p3_def msg_def)
    have "plan_finished (cby st) p"
    proof -
      have "hd kids \<in> set kids" using fin(1) by simp
      then have e: "\<exists>c \<in> set (children p). cby st c = Some (hd kids)" unfolding mem by simp
      have "gstatus k \<in> {DONE, ABANDONED}" if "c \<in> set (children p)" "cby st c = Some k" for c k
      proof -
        have "k \<in> set kids" using that unfolding mem by blast
        with fin(2) show ?thesis by blast
      qed
      with e show ?thesis unfolding plan_finished_def by (metis option.distinct(1))
    qed
    then have "plan_finished ((cby st)(gid p \<mapsto> p3)) p"
      using p(1) by (rule plan_finished_after) (simp add: act)
    then have m: "tick_move ma (view h fs0) ((cby st)(gid p \<mapsto> p3)) p p3"
      using act by (simp add: tick_move_def p3_def EV_VERIFICATION_def)
    from pass_ok_save[OF ok p(1) _ _ p(2) m, of "ck st + 3"] act show ?thesis
      by (auto simp: r when_saved_def pass_ok_frame p3_def)
  qed
qed

lemma roll_up_loop:
  assumes "pass_ok h ma fs0 st" and "distinct (map gid gs)"
    and "\<forall>g \<in> set gs. cby st (gid g) = Some g \<and> view h fs0 (gid g) = Some g"
  shows "pass_ok h ma fs0 (each_goal (roll_up clock) gs st)
    \<and> (\<forall>j. cby (each_goal (roll_up clock) gs st) j = cby st j
        \<or> (\<exists>g \<in> set gs. gid g = j \<and> children g = [] \<and>
            (\<exists>x. cby (each_goal (roll_up clock) gs st) j = Some x \<and> gstatus x \<noteq> ACTIVE)))"
  using assms
proof (induction gs arbitrary: st)
  case Nil
  then show ?case by simp
next
  case (Cons g gs)
  let ?st1 = "roll_up clock g st"
  have g: "cby st (gid g) = Some g" "view h fs0 (gid g) = Some g" using Cons.prems(3) by auto
  note S = roll_up_ok[OF Cons.prems(1) g, of clock]
  have q: "\<forall>k \<in> set gs. cby ?st1 (gid k) = Some k \<and> view h fs0 (gid k) = Some k"
  proof
    fix k assume k: "k \<in> set gs"
    have "cby st (gid k) = Some k \<and> view h fs0 (gid k) = Some k"
      using Cons.prems(3) k by (blast intro: list.set_intros(2))
    moreover have "gid k \<noteq> gid g" by (rule distinct_map_Cons[OF Cons.prems(2) k])
    moreover have "cby ?st1 (gid k) = cby st (gid k)" using S calculation by blast
    ultimately show "cby ?st1 (gid k) = Some k \<and> view h fs0 (gid k) = Some k" by simp
  qed
  have d: "distinct (map gid gs)" "gid g \<notin> gid ` set gs" using Cons.prems(2) by auto
  have e: "each_goal (roll_up clock) (g # gs) st = each_goal (roll_up clock) gs ?st1"
    using pass_okD[OF Cons.prems(1)] by simp
  note IH = Cons.IH[OF conjunct1[OF S] d(1) q]
  have "cby (each_goal (roll_up clock) gs ?st1) j = cby st j
      \<or> (\<exists>g' \<in> set (g # gs). gid g' = j \<and> children g' = []
          \<and> (\<exists>x. cby (each_goal (roll_up clock) gs ?st1) j = Some x \<and> gstatus x \<noteq> ACTIVE))" for j
  proof (cases "j = gid g")
    case True
    have "cby (each_goal (roll_up clock) gs ?st1) j = cby ?st1 j"
      using conjunct2[OF IH, THEN spec, of j] d(2) True by (metis image_eqI)
    with S True show ?thesis by auto
  next
    case False
    with S have "cby ?st1 j = cby st j" by simp
    then show ?thesis using conjunct2[OF IH, THEN spec, of j] by (metis list.set_intros(2))
  qed
  with IH show ?case unfolding e by blast
qed

lemma replan_loop:
  assumes "pass_ok h ma fs0 st" and "distinct (map gid gs)"
    and "\<forall>g \<in> set gs. view h fs0 (gid g) = Some g \<and> (\<exists>x. cby st (gid g) = Some x \<and> (x = g \<or> gstatus x \<noteq> ACTIVE))"
  shows "pass_ok h ma fs0 (each_goal (replan_leaf clock ma) gs st)
    \<and> (\<forall>j. cby (each_goal (replan_leaf clock ma) gs st) j = cby st j \<or> (\<exists>g \<in> set gs. gid g = j \<and> children g = []))"
  using assms
proof (induction gs arbitrary: st)
  case Nil
  then show ?case by simp
next
  case (Cons g gs)
  let ?st1 = "replan_leaf clock ma g st"
  obtain x where x: "cby st (gid g) = Some x" "x = g \<or> gstatus x \<noteq> ACTIVE" "view h fs0 (gid g) = Some g"
    using Cons.prems(3) by auto
  note S = replan_leaf_ok[OF Cons.prems(1) x(1,3,2), of clock]
  have q: "\<forall>k \<in> set gs. view h fs0 (gid k) = Some k \<and> (\<exists>x. cby ?st1 (gid k) = Some x \<and> (x = k \<or> gstatus x \<noteq> ACTIVE))"
  proof
    fix k assume k: "k \<in> set gs"
    have "gid k \<noteq> gid g" by (rule distinct_map_Cons[OF Cons.prems(2) k])
    with S have "cby ?st1 (gid k) = cby st (gid k)" by simp
    with k Cons.prems(3) show "view h fs0 (gid k) = Some k \<and> (\<exists>x. cby ?st1 (gid k) = Some x \<and> (x = k \<or> gstatus x \<noteq> ACTIVE))"
      by simp
  qed
  have d: "distinct (map gid gs)" using Cons.prems(2) by simp
  have e: "each_goal (replan_leaf clock ma) (g # gs) st = each_goal (replan_leaf clock ma) gs ?st1"
    using pass_okD[OF Cons.prems(1)] by simp
  note IH = Cons.IH[OF conjunct1[OF S] d q]
  have "cby (each_goal (replan_leaf clock ma) gs ?st1) j = cby st j \<or> (\<exists>g' \<in> set (g # gs). gid g' = j \<and> children g' = [])" for j
  proof (cases "j = gid g")
    case True
    have "cby ?st1 = cby st \<or> children g = []" using S by blast
    then show ?thesis using conjunct2[OF IH, THEN spec, of j] True
      by (metis list.set_intros(1) list.set_intros(2))
  next
    case False
    with S have "cby ?st1 j = cby st j" by simp
    then show ?thesis using conjunct2[OF IH, THEN spec, of j] by (metis list.set_intros(2))
  qed
  with IH show ?case unfolding e by blast
qed

lemma advance_loop:
  assumes "pass_ok h ma fs0 st" and "distinct (map gid ps)"
    and "\<forall>p \<in> set ps. cby st (gid p) = Some p \<and> view h fs0 (gid p) = Some p \<and> gstatus p = ACTIVE \<and> children p \<noteq> []"
  shows "pass_ok h ma fs0 (each_goal (advance_parent clock) ps st)"
  using assms
proof (induction ps arbitrary: st)
  case Nil
  then show ?case by simp
next
  case (Cons p ps)
  let ?st1 = "advance_parent clock p st"
  have p: "cby st (gid p) = Some p" "view h fs0 (gid p) = Some p" "gstatus p = ACTIVE" "children p \<noteq> []"
    using Cons.prems(3) by auto
  note S = advance_parent_ok[OF Cons.prems(1) p, of clock]
  have "\<forall>q \<in> set ps. cby ?st1 (gid q) = Some q \<and> view h fs0 (gid q) = Some q \<and> gstatus q = ACTIVE \<and> children q \<noteq> []"
  proof
    fix q assume q: "q \<in> set ps"
    have "gid q \<noteq> gid p" by (rule distinct_map_Cons[OF Cons.prems(2) q])
    with q Cons.prems(3) S show "cby ?st1 (gid q) = Some q \<and> view h fs0 (gid q) = Some q \<and> gstatus q = ACTIVE \<and> children q \<noteq> []"
      by simp
  qed
  with Cons.IH[OF conjunct1[OF S]] Cons.prems(2) pass_okD[OF Cons.prems(1)] show ?case by simp
qed

lemma distinct_py_take: "distinct xs \<Longrightarrow> distinct (py_take n xs)"
  by (simp add: py_take_def distinct_take)

lemma set_py_take: "set (py_take n xs) \<subseteq> set xs"
  by (auto simp: py_take_def dest: in_set_takeD)

lemma start_pass_ok:
  assumes "store_ok h fs" and "load_all h fs = Inr gs"
  shows "pass_ok h ma fs (start_pass gs fs) \<and> distinct (map gid gs)
    \<and> (\<forall>g \<in> set gs. view h fs (gid g) = Some g) \<and> cby (start_pass gs fs) = view h fs"
proof -
  have ok: "files_ok fs" "\<And>s g. file_goal h fs s = Some g \<Longrightarrow> gid g = s"
    using assms(1) by (auto simp: store_ok_def)
  obtain gs' where "load_all h fs = Inr gs'" "set gs' = {g. \<exists>s. \<not> hidden s \<and> file_goal h fs s = Some g}"
    "distinct (map (\<lambda>g. py_strip (gid g)) gs')"
    using ok(1) by (rule load_all_ok[where h = h])
  with assms(2) have s: "set gs = {g. \<exists>s. \<not> hidden s \<and> file_goal h fs s = Some g}"
    and d: "distinct (map (\<lambda>g. py_strip (gid g)) gs)" by auto
  have strip: "py_strip (gid g) = gid g" if "g \<in> set gs" for g
    using that file_goal_safe[OF ok(1)] ok(2) by (force simp: s)
  have dd: "distinct (map gid gs)"
  proof -
    have "map (\<lambda>g. py_strip (gid g)) gs = map gid gs" using strip by simp
    with d show ?thesis by simp
  qed
  have v: "\<forall>g \<in> set gs. view h fs (gid g) = Some g" using ok(2) by (auto simp: s view_def)
  have "by_id gs i = view h fs i" for i
  proof (cases "view h fs i")
    case None
    have "i \<notin> gid ` set gs" using v None by auto
    then show ?thesis using None by (auto simp: by_id_def map_of_eq_None_iff rev_map image_iff)
  next
    case (Some g)
    then have "g \<in> set gs" "gid g = i" using ok(2) by (auto simp: s view_def split: if_splits)
    then have "(i, g) \<in> set (rev (map (\<lambda>c. (gid c, c)) gs))" by auto
    moreover have "distinct (map fst (rev (map (\<lambda>c. (gid c, c)) gs)))"
      using dd by (simp add: rev_map[symmetric] comp_def)
    ultimately show ?thesis using Some by (simp add: by_id_def map_of_is_SomeI)
  qed
  then have b: "by_id gs = view h fs" by blast
  then have "pass_ok h ma fs (start_pass gs fs)"
    using assms(1) by (auto simp: pass_ok_def start_pass_def)
  with dd v b show ?thesis by (simp add: start_pass_def)
qed

lemma run_pass_ok:
  assumes "store_ok h fs" and "load_all h fs = Inr gs"
  shows "pass_ok h ma fs (run_pass clock mg ma gs fs)"
proof -
  note S = start_pass_ok[OF assms, of ma]
  let ?st1 = "each_goal (roll_up clock) gs (start_pass gs fs)"
  let ?st2 = "each_goal (replan_leaf clock ma) gs ?st1"
  let ?ps = "py_take mg (filter (\<lambda>g. children g \<noteq> [] \<and> gstatus g = ACTIVE) gs)"
  have q1: "\<forall>g \<in> set gs. cby (start_pass gs fs) (gid g) = Some g \<and> view h fs (gid g) = Some g" using S by simp
  note R = roll_up_loop[OF conjunct1[OF S] _ q1, of clock]
  have R1: "pass_ok h ma fs ?st1" using R S by blast
  have q2: "\<forall>g \<in> set gs. view h fs (gid g) = Some g \<and> (\<exists>x. cby ?st1 (gid g) = Some x \<and> (x = g \<or> gstatus x \<noteq> ACTIVE))"
    using R S q1 by (metis (no_types, lifting))
  note P = replan_loop[OF R1 _ q2, of clock]
  have P1: "pass_ok h ma fs ?st2" using P S by blast
  have q3: "\<forall>p \<in> set ?ps. cby ?st2 (gid p) = Some p \<and> view h fs (gid p) = Some p \<and> gstatus p = ACTIVE \<and> children p \<noteq> []"
  proof
    fix p assume "p \<in> set ?ps"
    then have p: "p \<in> set gs" "gstatus p = ACTIVE" "children p \<noteq> []" using set_py_take by fastforce+
    have u: "g = p" if "g \<in> set gs" "gid g = gid p" for g
      using that p(1) S by (metis option.inject)
    have "cby ?st2 (gid p) = cby ?st1 (gid p)" using P S u p(3) by blast
    moreover have "cby ?st1 (gid p) = cby (start_pass gs fs) (gid p)" using R S u p(3) by blast
    ultimately show "cby ?st2 (gid p) = Some p \<and> view h fs (gid p) = Some p \<and> gstatus p = ACTIVE \<and> children p \<noteq> []"
      using q1 p by simp
  qed
  have "distinct (map gid ?ps)"
    using S by (simp add: py_take_def take_map[symmetric] distinct_take distinct_map_filter)
  from advance_loop[OF P1 this q3] show ?thesis by (simp add: run_pass_def Let_def)
qed

section \<open>The whole tick\<close>

lemma continuation_tick_pass:
  assumes "store_ok h fs"
  obtains st where "continuation_tick h clock mg ma fs =
      (Inr \<lparr>waiting = (0 < n_escalations st + n_replans st), blocked_count = n_escalations st + n_replans st\<rparr>, cfiles st)"
    "pass_ok h ma fs st"
proof -
  have ok: "files_ok fs" using assms by (simp add: store_ok_def)
  obtain gs where gs: "load_all h fs = Inr gs" using load_all_ok[OF ok] by blast
  have p: "pass_ok h ma fs (run_pass clock mg ma gs fs)" by (rule run_pass_ok[OF assms gs])
  show ?thesis
    by (rule that[of "run_pass clock mg ma gs fs"]) (simp_all add: continuation_tick_def gs Let_def pass_okD[OF p] p)
qed

lemma continuation_tick_moves:
  assumes "store_ok h fs"
  shows "is_ok (fst (continuation_tick h clock mg ma fs)) \<and> store_ok h (snd (continuation_tick h clock mg ma fs))
    \<and> dom (view h (snd (continuation_tick h clock mg ma fs))) = dom (view h fs)
    \<and> (\<forall>i. hidden i \<longrightarrow> file_goal h (snd (continuation_tick h clock mg ma fs)) i = file_goal h fs i)
    \<and> (\<forall>i g g'. view h fs i = Some g \<longrightarrow> view h (snd (continuation_tick h clock mg ma fs)) i = Some g' \<longrightarrow>
          tick_move ma (view h fs) (view h (snd (continuation_tick h clock mg ma fs))) g g')"
proof -
  obtain st where st: "continuation_tick h clock mg ma fs =
      (Inr \<lparr>waiting = (0 < n_escalations st + n_replans st), blocked_count = n_escalations st + n_replans st\<rparr>, cfiles st)"
    "pass_ok h ma fs st"
    by (rule continuation_tick_pass[OF assms])
  have cv: "cby st = view h (cfiles st)" and "store_ok h (cfiles st)" "dom (cby st) = dom (view h fs)"
    "\<forall>i. hidden i \<longrightarrow> file_goal h (cfiles st) i = file_goal h fs i"
    and m: "\<forall>i g g'. view h fs i = Some g \<longrightarrow> cby st i = Some g' \<longrightarrow> tick_move ma (view h fs) (cby st) g g'"
    using st(2) unfolding pass_ok_def by blast+
  then show ?thesis unfolding st(1) fst_conv snd_conv cv by (intro conjI) (rule is_ok_simps(1), assumption+)
qed

text \<open>C8: One continuation tick is honest. On a store whose files carry their own clean ids it never
  fails, keeps every visible goal and its identity, and changes a goal in one of five ways only: a leaf
  whose packets are all verified is closed with a verification record; a stuck leaf below the replan
  limit drops exactly its blocked packets and records the replan; a stuck leaf at the limit waits for
  approval; a DRAFT step of an ACTIVE plan is started; an ACTIVE plan is closed when some step is still
  stored and every stored step is done or abandoned.\<close>

theorem continuation_tick_honest:
  assumes "store_ok h fs" and "continuation_tick h clock max_goals max_attempts fs = (r, fs')"
  shows "is_ok r \<and> store_ok h fs' \<and> dom (view h fs') = dom (view h fs)
    \<and> (\<forall>i g g'. view h fs i = Some g \<longrightarrow> view h fs' i = Some g' \<longrightarrow>
          tick_move max_attempts (view h fs) (view h fs') g g')"
  using continuation_tick_moves[OF assms(1), of clock max_goals max_attempts] assms(2) by simp

lemma store_ok_put:
  assumes "store_ok h fs" and "safe_id (gid g)" and "py_strip (gid g) = gid g"
  shows "store_ok h (put_goal g fs)"
  using assms file_goal_put[of g h fs] by (auto simp: store_ok_def files_ok_put split: if_splits)

lemma store_ok_empty: "store_ok h []"
  by (simp add: store_ok_def files_ok_empty file_goal_def)

definition one_leaf :: goal_files where
  "one_leaf = put_goal (finished_leaf\<lparr>gid := ''goal-1''\<rparr>) []"

lemma one_leaf_ok: "store_ok plain_json one_leaf"
  unfolding one_leaf_def
  by (rule store_ok_put[OF store_ok_empty])
    (simp_all add: safe_id_def goal_path_def py_strip_def py_lstrip_def py_rstrip_def py_space_def)

theorem continuation_tick_honest_witness:
  "is_ok (fst (continuation_tick plain_json (\<lambda>_. ''t'') 20 2 one_leaf))
    \<and> dom (view plain_json (snd (continuation_tick plain_json (\<lambda>_. ''t'') 20 2 one_leaf))) = dom (view plain_json one_leaf)"
  using continuation_tick_honest[OF one_leaf_ok, of "\<lambda>_. ''t''" 20 2, OF prod.collapse[symmetric]] by simp

section \<open>Replans over many ticks\<close>

fun ticks :: "json_host \<Rightarrow> int \<Rightarrow> int \<Rightarrow> (nat \<Rightarrow> string) list \<Rightarrow> goal_files \<Rightarrow> goal_files" where
  "ticks h max_goals max_attempts [] fs = fs"
| "ticks h max_goals max_attempts (clock # cs) fs =
     ticks h max_goals max_attempts cs (snd (continuation_tick h clock max_goals max_attempts fs))"

lemma tick_move_attempts:
  assumes "tick_move ma b a g g'"
  shows "int (replan_attempts g') \<le> max (int (replan_attempts g)) ma"
  using assms unfolding tick_move_def
  by (elim conjE disjE exE) (simp_all add: replan_attempts_def ev_kinds)

text \<open>C34: However often the tick runs, no goal disappears and no goal is replanned past the limit: its
  replan records never exceed the larger of the limit and what it carried at the start.\<close>

theorem replans_bounded:
  assumes "store_ok h fs" and "view h fs i = Some g"
  shows "\<exists>g'. view h (ticks h max_goals max_attempts cs fs) i = Some g' \<and> goal_frame g g'
    \<and> int (replan_attempts g') \<le> max (int (replan_attempts g)) max_attempts"
  using assms
proof (induction cs arbitrary: fs g)
  case Nil
  then show ?case by simp
next
  case (Cons clock cs)
  let ?fs = "snd (continuation_tick h clock max_goals max_attempts fs)"
  note T = continuation_tick_moves[OF Cons.prems(1), of clock max_goals max_attempts]
  obtain g1 where g1: "view h ?fs i = Some g1" using T Cons.prems(2) by (metis domD domI)
  with T Cons.prems(2) have m: "tick_move max_attempts (view h fs) (view h ?fs) g g1" by blast
  have ok: "store_ok h ?fs" using T by blast
  obtain g' where "view h (ticks h max_goals max_attempts cs ?fs) i = Some g'" "goal_frame g1 g'"
    "int (replan_attempts g') \<le> max (int (replan_attempts g1)) max_attempts"
    using Cons.IH[OF ok g1] by blast
  moreover have "goal_frame g g1" using m by (simp add: tick_move_def)
  ultimately show ?case using tick_move_attempts[OF m] by (auto simp: goal_frame_def)
qed

theorem replans_bounded_witness:
  "\<exists>g'. view plain_json (ticks plain_json 20 2 [\<lambda>_. ''t'', \<lambda>_. ''u''] one_leaf) ''goal-1'' = Some g'
    \<and> int (replan_attempts g') \<le> max (int (replan_attempts (finished_leaf\<lparr>gid := ''goal-1''\<rparr>))) 2"
proof -
  have "view plain_json one_leaf ''goal-1'' = Some (finished_leaf\<lparr>gid := ''goal-1''\<rparr>)"
    using file_goal_put[of "finished_leaf\<lparr>gid := ''goal-1''\<rparr>" plain_json "[]" "''goal-1''"]
    by (simp add: view_def one_leaf_def hidden_def safe_id_def goal_path_def py_strip_def py_lstrip_def py_rstrip_def py_space_def)
  from replans_bounded[OF one_leaf_ok this, of 20 2 "[\<lambda>_. ''t'', \<lambda>_. ''u'']"] show ?thesis by blast
qed

end
