(* ===== verification/CIStatus.thy ===== *)
theory CIStatus
  imports PyJson
begin

text \<open>
  CI results and the retry policy, \<open>agents/job_queue/ci_status.py\<close>: aggregation of check runs, the retry log of
  a pull request in \<open>session.extra\<close>, the retry decision and its bridge to the completion states. Fields of a
  check run are strings or null. Times are arguments.
\<close>

section \<open>Aggregation of check runs\<close>

definition CI_SUCCESS :: string where "CI_SUCCESS = ''success''"
definition CI_FAILURE :: string where "CI_FAILURE = ''failure''"
definition CI_CANCELLED :: string where "CI_CANCELLED = ''cancelled''"
definition CI_TIMED_OUT :: string where "CI_TIMED_OUT = ''timed_out''"
definition CI_PENDING :: string where "CI_PENDING = ''pending''"
definition CI_UNKNOWN :: string where "CI_UNKNOWN = ''unknown''"

lemmas ci_names = CI_SUCCESS_def CI_FAILURE_def CI_CANCELLED_def CI_TIMED_OUT_def CI_PENDING_def CI_UNKNOWN_def

definition CONCLUSION_MAP :: "string pydict" where
  "CONCLUSION_MAP = [(''success'', CI_SUCCESS), (''neutral'', CI_SUCCESS), (''skipped'', CI_SUCCESS),
     (''failure'', CI_FAILURE), (''action_required'', CI_FAILURE), (''cancelled'', CI_CANCELLED),
     (''timed_out'', CI_TIMED_OUT), (''stale'', CI_UNKNOWN)]"

record ci_status =
  ci_pr_number :: int
  ci_head_sha :: string
  ci_conclusion :: string
  ci_fetched_at :: string
  ci_failing_runs :: "string list"
  ci_pending_runs :: "string list"

definition is_failure :: "ci_status \<Rightarrow> bool" where
  "is_failure s \<longleftrightarrow> ci_conclusion s \<in> {CI_FAILURE, CI_CANCELLED, CI_TIMED_OUT}"

definition is_success :: "ci_status \<Rightarrow> bool" where
  "is_success s \<longleftrightarrow> ci_conclusion s = CI_SUCCESS"

definition is_pending :: "ci_status \<Rightarrow> bool" where
  "is_pending s \<longleftrightarrow> ci_conclusion s = CI_PENDING"

record check_run =
  run_name :: "string option"
  run_check_name :: "string option"
  run_status :: "string option"
  run_conclusion :: "string option"

definition or_text :: "string option \<Rightarrow> string \<Rightarrow> string" where
  "or_text x y = (case x of Some (c # cs) \<Rightarrow> c # cs | _ \<Rightarrow> y)"

definition run_label :: "check_run \<Rightarrow> string" where
  "run_label r = or_text (run_name r) (or_text (run_check_name r) ''(unnamed)'')"

definition run_pending :: "check_run \<Rightarrow> bool" where
  "run_pending r \<longleftrightarrow> (let status = py_lower (or_text (run_status r) []) in status \<noteq> [] \<and> status \<noteq> ''completed'')"

definition run_result :: "check_run \<Rightarrow> string" where
  "run_result r = (case map_of CONCLUSION_MAP (py_lower (or_text (run_conclusion r) [])) of Some c \<Rightarrow> c | None \<Rightarrow> CI_UNKNOWN)"

text \<open>The local variables of the loop.\<close>

record run_tally =
  failing :: "string list"
  waiting_runs :: "string list"
  has_pending :: bool
  has_failure :: bool
  has_cancelled :: bool
  has_timed_out :: bool

definition tally_run :: "check_run \<Rightarrow> run_tally \<Rightarrow> run_tally" where
  "tally_run r t =
     (let name = run_label r
      in if run_pending r then t\<lparr>has_pending := True, waiting_runs := waiting_runs t @ [name]\<rparr>
         else if run_result r = CI_FAILURE then t\<lparr>has_failure := True, failing := failing t @ [name]\<rparr>
         else if run_result r = CI_CANCELLED then t\<lparr>has_cancelled := True, failing := failing t @ [name]\<rparr>
         else if run_result r = CI_TIMED_OUT then t\<lparr>has_timed_out := True, failing := failing t @ [name]\<rparr>
         else t)"

definition overall :: "run_tally \<Rightarrow> string" where
  "overall t =
     (if has_pending t \<and> \<not> (has_failure t \<or> has_cancelled t \<or> has_timed_out t) then CI_PENDING
      else if has_failure t then CI_FAILURE
      else if has_timed_out t then CI_TIMED_OUT
      else if has_cancelled t then CI_CANCELLED
      else if has_pending t then CI_PENDING
      else CI_SUCCESS)"

definition from_check_runs :: "string \<Rightarrow> int \<Rightarrow> string \<Rightarrow> check_run list \<Rightarrow> string option \<Rightarrow> ci_status" where
  "from_check_runs now pr_number head_sha runs fetched_at =
     (let seen = or_text fetched_at now
      in if runs = [] then
           \<lparr>ci_pr_number = pr_number, ci_head_sha = head_sha, ci_conclusion = CI_UNKNOWN, ci_fetched_at = seen,
            ci_failing_runs = [], ci_pending_runs = []\<rparr>
         else
           let t = fold tally_run runs \<lparr>failing = [], waiting_runs = [], has_pending = False, has_failure = False,
                 has_cancelled = False, has_timed_out = False\<rparr>
           in \<lparr>ci_pr_number = pr_number, ci_head_sha = head_sha, ci_conclusion = overall t, ci_fetched_at = seen,
               ci_failing_runs = failing t, ci_pending_runs = waiting_runs t\<rparr>)"

section \<open>Policy, log and decision\<close>

record retry_policy =
  max_attempts :: int
  base_backoff_seconds :: pyfloat
  backoff_multiplier :: pyfloat
  max_backoff_seconds :: pyfloat

definition default_policy :: retry_policy where
  "default_policy = \<lparr>max_attempts = 3, base_backoff_seconds = 60, backoff_multiplier = 2, max_backoff_seconds = 1800\<rparr>"

definition policy_backoff_for :: "retry_policy \<Rightarrow> int \<Rightarrow> pyfloat" where
  "policy_backoff_for p attempt =
     (if attempt \<le> 1 then 0
      else min (max_backoff_seconds p) (base_backoff_seconds p * backoff_multiplier p ^ nat (attempt - 2)))"

text \<open>\<open>last_attempt_at\<close> and \<open>last_failure_reason\<close> are passed on as they were read.\<close>

record retry_log =
  rl_pr_number :: int
  rl_attempts :: int
  rl_last_attempt_at :: json
  rl_last_failure_reason :: json
  rl_head_sha_history :: "string list"

definition empty_log :: "int \<Rightarrow> retry_log" where
  "empty_log pr = \<lparr>rl_pr_number = pr, rl_attempts = 0, rl_last_attempt_at = JNull, rl_last_failure_reason = JNull,
     rl_head_sha_history = []\<rparr>"

definition log_to_payload :: "retry_log \<Rightarrow> json" where
  "log_to_payload l = JObj [(''pr_number'', JInt (rl_pr_number l)), (''attempts'', JInt (rl_attempts l)),
     (''last_attempt_at'', rl_last_attempt_at l), (''last_failure_reason'', rl_last_failure_reason l),
     (''head_sha_history'', JList (map JStr (rl_head_sha_history l)))]"

datatype ci_error = NotAMapping | BadInteger | NotIterable

definition int_field :: "json_host \<Rightarrow> json pydict \<Rightarrow> string \<Rightarrow> ci_error + int" where
  "int_field h d k = (case py_int h (dict_get_or d k (JInt 0)) of Some i \<Rightarrow> Inr i | None \<Rightarrow> Inl BadInteger)"

definition log_from_payload :: "json_host \<Rightarrow> json \<Rightarrow> ci_error + retry_log" where
  "log_from_payload h j =
     (if \<not> truthy j then Inr (empty_log 0)
      else case j of
        JObj d \<Rightarrow>
          and_then (int_field h d ''pr_number'') (\<lambda>pr.
          and_then (int_field h d ''attempts'') (\<lambda>n.
            case py_iter h (dict_get_or d ''head_sha_history'' (JList [])) of
              None \<Rightarrow> Inl NotIterable
            | Some hs \<Rightarrow> Inr \<lparr>rl_pr_number = pr, rl_attempts = n, rl_last_attempt_at = dict_get d ''last_attempt_at'',
                rl_last_failure_reason = dict_get d ''last_failure_reason'', rl_head_sha_history = map (json_str h) hs\<rparr>))
      | _ \<Rightarrow> Inl NotAMapping)"

definition appended :: "string \<Rightarrow> string option \<Rightarrow> string \<Rightarrow> retry_log \<Rightarrow> retry_log" where
  "appended head_sha reason seen l = l\<lparr>rl_attempts := rl_attempts l + 1, rl_last_attempt_at := JStr seen,
     rl_last_failure_reason := opt_json reason, rl_head_sha_history := rl_head_sha_history l @ [head_sha]\<rparr>"

record retry_verdict =
  should_retry :: bool
  rv_reason :: string
  next_attempt :: int
  wait_seconds :: pyfloat
  escalation_status :: "string option"
  completion_status :: "string option"

definition spaced_dash :: string where
  "spaced_dash = '' '' @ utf8 [0x2014] @ '' ''"

definition decide_retry :: "ci_status \<Rightarrow> retry_log \<Rightarrow> retry_policy \<Rightarrow> retry_verdict" where
  "decide_retry s l p =
     (if is_success s then
        \<lparr>should_retry = False, rv_reason = ''ci passed'' @ spaced_dash @ ''coding_execute terminal done'',
         next_attempt = rl_attempts l, wait_seconds = 0, escalation_status = None, completion_status = Some ''done''\<rparr>
      else if is_pending s then
        \<lparr>should_retry = False, rv_reason = ''ci still pending'' @ spaced_dash @ ''selector defers until run completes'',
         next_attempt = rl_attempts l, wait_seconds = 0, escalation_status = None, completion_status = None\<rparr>
      else if ci_conclusion s = CI_UNKNOWN then
        \<lparr>should_retry = False,
         rv_reason = ''ci status unknown (no check runs / api unreachable)'' @ spaced_dash @ ''operator inspection required'',
         next_attempt = rl_attempts l, wait_seconds = 0, escalation_status = Some ''blocked'',
         completion_status = Some ''blocked''\<rparr>
      else if max_attempts p \<le> rl_attempts l then
        \<lparr>should_retry = False,
         rv_reason = ''ci '' @ ci_conclusion s @ '' after '' @ show_int (rl_attempts l) @ '' attempts (>= max ''
           @ show_int (max_attempts p) @ '')'' @ spaced_dash @ ''escalate to blocked, operator review required'',
         next_attempt = rl_attempts l, wait_seconds = 0, escalation_status = Some ''blocked'',
         completion_status = Some ''blocked''\<rparr>
      else
        \<lparr>should_retry = True,
         rv_reason = ''ci '' @ ci_conclusion s @ '' on attempt '' @ show_int (rl_attempts l) @ ''/'' @ show_int (max_attempts p)
           @ '' ('' @ show_nat (length (ci_failing_runs s)) @ '' failing run(s))'' @ spaced_dash @ ''schedule retry'',
         next_attempt = rl_attempts l + 1, wait_seconds = policy_backoff_for p (rl_attempts l + 1),
         escalation_status = None, completion_status = Some ''retry_ready''\<rparr>)"

definition derive_completion_status_from_ci :: "ci_status \<Rightarrow> retry_log \<Rightarrow> retry_policy \<Rightarrow> string" where
  "derive_completion_status_from_ci s l p =
     (case completion_status (decide_retry s l p) of Some (c # cs) \<Rightarrow> c # cs | _ \<Rightarrow> ''retry_ready'')"

section \<open>The log in the session\<close>

definition RETRY_LOG_KEY :: string where
  "RETRY_LOG_KEY = ''ci_retry_logs''"

definition read_retry_log :: "json_host \<Rightarrow> json pydict \<Rightarrow> int \<Rightarrow> ci_error + retry_log" where
  "read_retry_log h extra pr =
     (if extra = [] then Inr (empty_log pr)
      else
        let payload = (case dict_get_or extra RETRY_LOG_KEY (JObj []) of JObj logs \<Rightarrow> dict_get logs (show_int pr) | _ \<Rightarrow> JNull)
        in if \<not> truthy payload then Inr (empty_log pr)
           else and_then (log_from_payload h payload) (\<lambda>l.
             Inr (if rl_pr_number l = 0 then l\<lparr>rl_pr_number := pr\<rparr> else l)))"

definition record_retry_attempt :: "json_host \<Rightarrow> json pydict \<Rightarrow> int \<Rightarrow> string \<Rightarrow> string option \<Rightarrow> string \<Rightarrow>
    ci_error + json pydict" where
  "record_retry_attempt h extra pr head_sha reason seen =
     (let logs = (case dict_get extra RETRY_LOG_KEY of JObj logs \<Rightarrow> logs | _ \<Rightarrow> [])
      in and_then (read_retry_log h extra pr) (\<lambda>current.
           Inr (AList.update RETRY_LOG_KEY
             (JObj (AList.update (show_int pr) (log_to_payload (appended head_sha reason seen current)) logs)) extra)))"

definition partition_row :: "json pydict \<Rightarrow> retry_log \<Rightarrow> retry_policy \<Rightarrow> string \<Rightarrow> json pydict" where
  "partition_row row l p verdict = AList.update ''ci_retry_status'' (JStr verdict)
     (AList.update ''ci_retry_max'' (JInt (max_attempts p))
       (AList.update ''ci_retry_attempts'' (JInt (rl_attempts l)) row))"

fun partition_failed_prs_by_retry :: "json_host \<Rightarrow> (int \<Rightarrow> retry_log option) \<Rightarrow> retry_policy \<Rightarrow> json pydict list \<Rightarrow>
    ci_error + (json pydict list \<times> json pydict list)" where
  "partition_failed_prs_by_retry h retry_lookup p [] = Inr ([], [])"
| "partition_failed_prs_by_retry h retry_lookup p (row # rows) =
     and_then (int_field h row ''pr_number'') (\<lambda>pr.
       let l = (case retry_lookup pr of Some l \<Rightarrow> l | None \<Rightarrow> empty_log pr)
       in and_then (partition_failed_prs_by_retry h retry_lookup p rows) (\<lambda>(retryable, escalated).
            if max_attempts p \<le> rl_attempts l
            then Inr (retryable, partition_row row l p ''escalated'' # escalated)
            else Inr (partition_row row l p ''retryable'' # retryable, escalated)))"

section \<open>Aggregation\<close>

definition result_in :: "string set \<Rightarrow> check_run \<Rightarrow> bool" where
  "result_in R r \<longleftrightarrow> \<not> run_pending r \<and> run_result r \<in> R"

lemma ci_distinct [simp]:
  "CI_FAILURE \<noteq> CI_CANCELLED" "CI_FAILURE \<noteq> CI_TIMED_OUT" "CI_CANCELLED \<noteq> CI_TIMED_OUT"
  "CI_CANCELLED \<noteq> CI_FAILURE" "CI_TIMED_OUT \<noteq> CI_FAILURE" "CI_TIMED_OUT \<noteq> CI_CANCELLED"
  by (simp_all add: ci_names)

lemma tally_fold:
  "fold tally_run rs t = \<lparr>
     failing = failing t @ map run_label (filter (result_in {CI_FAILURE, CI_CANCELLED, CI_TIMED_OUT}) rs),
     waiting_runs = waiting_runs t @ map run_label (filter run_pending rs),
     has_pending = (has_pending t \<or> list_ex run_pending rs),
     has_failure = (has_failure t \<or> list_ex (result_in {CI_FAILURE}) rs),
     has_cancelled = (has_cancelled t \<or> list_ex (result_in {CI_CANCELLED}) rs),
     has_timed_out = (has_timed_out t \<or> list_ex (result_in {CI_TIMED_OUT}) rs)\<rparr>"
proof (induction rs arbitrary: t)
  case Nil
  then show ?case by simp
next
  case (Cons r rs)
  have e: "fold tally_run (r # rs) t = fold tally_run rs (tally_run r t)" by simp
  show ?case unfolding e Cons by (simp add: tally_run_def result_in_def[of _ r] Let_def)
qed

text \<open>The aggregate of the check runs is decided by the worst run, in the order failure, timed out,
  cancelled, pending, success; without runs it is unknown. A failing run outweighs runs that are still
  going, and a finished run whose conclusion is stale, missing or unrecognised counts as passed. The failing
  and pending runs are listed by name in their order.\<close>

lemma ci_aggregation_exact:
  "ci_conclusion (from_check_runs now pr sha runs seen) =
     (if runs = [] then CI_UNKNOWN
      else if list_ex (result_in {CI_FAILURE}) runs then CI_FAILURE
      else if list_ex (result_in {CI_TIMED_OUT}) runs then CI_TIMED_OUT
      else if list_ex (result_in {CI_CANCELLED}) runs then CI_CANCELLED
      else if list_ex run_pending runs then CI_PENDING
      else CI_SUCCESS)
   \<and> ci_failing_runs (from_check_runs now pr sha runs seen)
       = map run_label (filter (result_in {CI_FAILURE, CI_CANCELLED, CI_TIMED_OUT}) runs)
   \<and> ci_pending_runs (from_check_runs now pr sha runs seen) = map run_label (filter run_pending runs)"
  by (simp add: from_check_runs_def Let_def tally_fold overall_def)

section \<open>The retry log\<close>

lemma show_int_inj [simp]: "show_int i = show_int j \<longleftrightarrow> i = j"
proof -
  have m: "CHR ''-'' \<notin> set (show_nat n)" for n
    using show_nat_digits[of "CHR ''-''" n] by auto
  have "show_nat a \<noteq> CHR ''-'' # s" for a s using m[of a] by auto
  then show ?thesis by (auto simp: show_int_def dest: sym)
qed

lemma read_logs_cases:
  "read_retry_log h extra pr =
     (let payload = (case dict_get extra RETRY_LOG_KEY of JObj logs \<Rightarrow> dict_get logs (show_int pr) | _ \<Rightarrow> JNull)
      in if \<not> truthy payload then Inr (empty_log pr)
         else and_then (log_from_payload h payload) (\<lambda>l. Inr (if rl_pr_number l = 0 then l\<lparr>rl_pr_number := pr\<rparr> else l)))"
proof (cases "dict_get extra RETRY_LOG_KEY")
  case (JObj logs)
  then show ?thesis by (cases "extra = []"; cases "logs = []") (simp_all add: read_retry_log_def dict_get_or_def Let_def)
qed (auto simp: read_retry_log_def dict_get_or_def Let_def truthy_def)

lemma payload_fields:
  "log_to_payload l = JObj d \<Longrightarrow> dict_get d ''pr_number'' = JInt (rl_pr_number l)
    \<and> dict_get d ''attempts'' = JInt (rl_attempts l) \<and> dict_get d ''last_attempt_at'' = rl_last_attempt_at l
    \<and> dict_get d ''last_failure_reason'' = rl_last_failure_reason l
    \<and> dict_get d ''head_sha_history'' = JList (map JStr (rl_head_sha_history l)) \<and> d \<noteq> []"
  by (auto simp: log_to_payload_def)

lemma retry_log_payload: "log_from_payload h (log_to_payload l) = Inr l"
proof -
  obtain d where d: "log_to_payload l = JObj d" by (simp add: log_to_payload_def)
  note f = payload_fields[OF d]
  have i: "int_field h d ''pr_number'' = Inr (rl_pr_number l)" "int_field h d ''attempts'' = Inr (rl_attempts l)"
    using f by (simp_all add: int_field_def dict_get_or_def py_int_def)
  have "py_iter h (dict_get_or d ''head_sha_history'' (JList [])) = Some (map JStr (rl_head_sha_history l))"
    using f by (simp add: dict_get_or_def py_iter_def)
  moreover have "map (json_str h) (map JStr xs) = xs" for xs by (induction xs) simp_all
  ultimately show ?thesis using d f i by (simp add: log_from_payload_def)
qed

lemma read_log_number:
  "read_retry_log h extra pr = Inr l \<Longrightarrow> rl_pr_number l \<noteq> 0 \<or> pr = 0"
  by (auto simp: read_logs_cases Let_def and_then_Inr empty_log_def split: if_splits
      dest: arg_cong[where f = rl_pr_number])

lemma record_ok:
  assumes "read_retry_log h extra pr = Inr l"
  obtains extra' where "record_retry_attempt h extra pr sha reason seen = Inr extra'"
    "read_retry_log h extra' pr = Inr (appended sha reason seen l)"
    "\<And>n. n \<noteq> pr \<Longrightarrow> read_retry_log h extra' n = read_retry_log h extra n"
    "\<And>k. k \<noteq> RETRY_LOG_KEY \<Longrightarrow> dict_get extra' k = dict_get extra k"
proof -
  define logs where "logs = (case dict_get extra RETRY_LOG_KEY of JObj logs \<Rightarrow> logs | _ \<Rightarrow> [])"
  define a where "a = appended sha reason seen l"
  define extra' where "extra' = AList.update RETRY_LOG_KEY (JObj (AList.update (show_int pr) (log_to_payload a) logs)) extra"
  have r: "record_retry_attempt h extra pr sha reason seen = Inr extra'"
    by (simp add: record_retry_attempt_def assms extra'_def logs_def a_def Let_def)
  have k: "dict_get extra' RETRY_LOG_KEY = JObj (AList.update (show_int pr) (log_to_payload a) logs)"
    by (simp add: extra'_def dict_get_update)
  have "rl_pr_number a \<noteq> 0 \<or> pr = 0" using read_log_number[OF assms] by (simp add: a_def appended_def)
  moreover have "truthy (log_to_payload a)" by (simp add: log_to_payload_def)
  ultimately have "read_retry_log h extra' pr = Inr a"
    by (auto simp: read_logs_cases k dict_get_update retry_log_payload)
  moreover have "read_retry_log h extra' n = read_retry_log h extra n" if "n \<noteq> pr" for n
    using that unfolding read_logs_cases k
    by (cases "dict_get extra RETRY_LOG_KEY") (simp_all add: dict_get_update logs_def)
  moreover have "dict_get extra' q = dict_get extra q" if "q \<noteq> RETRY_LOG_KEY" for q
    using that by (simp add: extra'_def dict_get_update)
  ultimately show ?thesis using r by (intro that[of extra']) (simp_all add: a_def)
qed

text \<open>Recording an attempt and reading the log again gives the log with that attempt: one more attempt
  whatever the commit was, and the head sha at the end of the history. The logs of other pull requests and
  all other keys of the session stay as they were.\<close>

lemma retry_log_roundtrip:
  assumes "read_retry_log h extra pr = Inr l"
  shows "\<exists>extra'. record_retry_attempt h extra pr sha reason seen = Inr extra'
    \<and> read_retry_log h extra' pr = Inr (appended sha reason seen l)
    \<and> (n = pr \<or> read_retry_log h extra' n = read_retry_log h extra n)
    \<and> (k = RETRY_LOG_KEY \<or> dict_get extra' k = dict_get extra k)"
  by (rule record_ok[OF assms, of sha reason seen]) blast

end
