(* ===== verification/ApprovalPolicy.thy ===== *)
theory ApprovalPolicy
  imports PyJson
begin

text \<open>
  The four-rung approval policy, \<open>agents/approval_policy.py\<close>: the catalogue of actions with their default
  levels and reasons, \<open>decide_approval\<close>, the two conversions of a decision (audit record, approval request)
  with their refusals, and the guard of the gateway. The decision id and the time are arguments. The
  rendering of a record as Markdown is left out.
\<close>

section \<open>Levels and catalogue\<close>

datatype approval_level = L0_RECORD_ONLY | L1_AUTO_APPROVED | L2_AGENT_REVIEW | L3_HUMAN_REQUIRED

primrec approval_level_value :: "approval_level \<Rightarrow> string" where
  "approval_level_value L0_RECORD_ONLY = ''L0_RECORD_ONLY''"
| "approval_level_value L1_AUTO_APPROVED = ''L1_AUTO_APPROVED''"
| "approval_level_value L2_AGENT_REVIEW = ''L2_AGENT_REVIEW''"
| "approval_level_value L3_HUMAN_REQUIRED = ''L3_HUMAN_REQUIRED''"

primrec approval_order :: "approval_level \<Rightarrow> nat" where
  "approval_order L0_RECORD_ONLY = 0"
| "approval_order L1_AUTO_APPROVED = 1"
| "approval_order L2_AGENT_REVIEW = 2"
| "approval_order L3_HUMAN_REQUIRED = 3"

lemma approval_order_inj: "approval_order a = approval_order b \<Longrightarrow> a = b"
  by (cases a; cases b) simp_all

instantiation approval_level :: linorder
begin

definition less_eq_approval_level :: "approval_level \<Rightarrow> approval_level \<Rightarrow> bool" where
  "less_eq_approval_level a b \<longleftrightarrow> approval_order a \<le> approval_order b"

definition less_approval_level :: "approval_level \<Rightarrow> approval_level \<Rightarrow> bool" where
  "less_approval_level a b \<longleftrightarrow> approval_order a < approval_order b"

instance
  by standard (auto simp: less_eq_approval_level_def less_approval_level_def dest: approval_order_inj)

end

text \<open>\<open>max\<close> with a key gives the first of two arguments that are equal in the order.\<close>

definition max_approval :: "approval_level \<Rightarrow> approval_level \<Rightarrow> approval_level" where
  "max_approval a b = (if approval_order a < approval_order b then b else a)"

lemma max_approval_max [simp]: "max_approval a b = max a b"
  by (auto simp: max_approval_def max_def less_eq_approval_level_def dest: approval_order_inj)

lemma approval_top [simp]: "a \<le> L3_HUMAN_REQUIRED" "max L3_HUMAN_REQUIRED a = L3_HUMAN_REQUIRED"
    "max a L3_HUMAN_REQUIRED = L3_HUMAN_REQUIRED"
proof -
  show t: "a \<le> L3_HUMAN_REQUIRED" for a by (cases a) (simp_all add: less_eq_approval_level_def)
  show "max L3_HUMAN_REQUIRED a = L3_HUMAN_REQUIRED" "max a L3_HUMAN_REQUIRED = L3_HUMAN_REQUIRED"
    using t[of a] by (simp_all add: max.absorb1 max.absorb2)
qed

definition APPROVAL_L0 :: "string list" where
  "APPROVAL_L0 = [''heartbeat_emit'', ''supervisor_sweep'', ''health_check'']"

definition APPROVAL_L1 :: "string list" where
  "APPROVAL_L1 = [''public_research_collect'', ''rss_fetch'', ''sitemap_fetch'', ''public_html_metadata'',
     ''department_feed_post'', ''research_dedup_tag'', ''research_promotion_candidate'', ''obsidian_draft_create'']"

definition APPROVAL_L2 :: "string list" where
  "APPROVAL_L2 = [''tech_lead_risk_review'', ''engineering_change_review'']"

definition APPROVAL_L3 :: "string list" where
  "APPROVAL_L3 = [''code_write'', ''file_write'', ''git_commit'', ''git_push'', ''github_pr_create'', ''deploy'',
     ''infra_change'', ''secret_access'', ''external_paid_call'', ''external_publication'', ''data_delete'',
     ''data_overwrite'', ''obsidian_final_knowledge_write'']"

definition APPROVAL_DEFAULT_LEVELS :: "approval_level pydict" where
  "APPROVAL_DEFAULT_LEVELS =
     map (\<lambda>a. (a, L0_RECORD_ONLY)) APPROVAL_L0 @ map (\<lambda>a. (a, L1_AUTO_APPROVED)) APPROVAL_L1
     @ map (\<lambda>a. (a, L2_AGENT_REVIEW)) APPROVAL_L2 @ map (\<lambda>a. (a, L3_HUMAN_REQUIRED)) APPROVAL_L3"

definition DEFAULT_AUTO_REASONS :: "string pydict" where
  "DEFAULT_AUTO_REASONS =
  [(''heartbeat_emit'', ''L0 '' @ utf8 [0xC6B4, 0xC601] @ '' plumbing '' @ utf8 [0x2014, 0x20, 0xC0AC, 0xC6A9,
       0xC790, 0x20, 0xC2B9, 0xC778, 0x20, 0xD45C, 0xBA74, 0xC774, 0x20, 0xC544, 0xB2D8]),
   (''supervisor_sweep'', ''L0 supervisor '' @ utf8 [0xC790, 0xAC00, 0x20, 0xC9C4, 0xB2E8, 0x20, 0x2014, 0x20,
       0xC678, 0xBD80, 0x20, 0xD6A8, 0xACFC, 0x20, 0xC5C6, 0xC74C]),
   (''health_check'', ''L0 health probe '' @ utf8 [0x2014, 0x20, 0xC77D, 0xAE30, 0x20, 0xC804, 0xC6A9]),
   (''public_research_collect'', ''L1 '' @ utf8 [0xACF5, 0xAC1C, 0x20, 0xC790, 0xB8CC, 0x20, 0xC218, 0xC9D1,
       0x20, 0x2014, 0x20, 0xC678, 0xBD80, 0x20, 0xACB0, 0xC81C, 0xB7, 0xBC1C, 0xD589, 0x20, 0xC5C6, 0xC74C]),
   (''rss_fetch'', ''L1 '' @ utf8 [0xACF5, 0xAC1C] @ '' RSS '' @ utf8 [0xD53C, 0xB4DC, 0x20, 0x2014, 0x20,
       0xBE44, 0xC6A9, 0x20, 0xC5C6, 0xC74C, 0x2C, 0x20, 0xB370, 0xC774, 0xD130, 0x20, 0xC678, 0xBD80, 0x20,
       0xBC1C, 0xD589, 0x20, 0xC5C6, 0xC74C]),
   (''sitemap_fetch'', ''L1 '' @ utf8 [0xACF5, 0xAC1C] @ '' sitemap '' @ utf8 [0x2014, 0x20, 0xBE44, 0xC6A9,
       0x20, 0xC5C6, 0xC74C]),
   (''public_html_metadata'', ''L1 '' @ utf8 [0xACF5, 0xAC1C] @ '' HTML metadata '' @ utf8 [0x2014, 0x20,
       0xC678, 0xBD80, 0x20, 0xD6A8, 0xACFC, 0x20, 0xC5C6, 0xC74C]),
   (''department_feed_post'', ''L1 '' @ utf8 [0xB0B4, 0xBD80, 0x20, 0xBD80, 0xC11C, 0x20, 0xD53C, 0xB4DC, 0x20,
       0xAC8C, 0xC2DC, 0x20, 0x2014, 0x20, 0xC678, 0xBD80, 0x20, 0xBC1C, 0xD589, 0x20, 0xC544, 0xB2D8]),
   (''research_dedup_tag'', ''L1 '' @ utf8 [0xC790, 0xB8CC, 0x20, 0xBD84, 0xB958, 0xB7, 0xD0DC, 0xAE45, 0x20,
       0x2014, 0x20, 0xBE44, 0xAC00, 0xC5ED, 0xC801, 0x20, 0xBCC0, 0xACBD, 0x20, 0xC5C6, 0xC74C]),
   (''research_promotion_candidate'', ''L1 '' @ utf8 [0xC2B9, 0xACA9, 0x20, 0xD6C4, 0xBCF4, 0x20, 0xC0DD,
       0xC131, 0x20, 0x2014, 0x20, 0xC2E4, 0xC81C, 0x20, 0xC800, 0xC7A5, 0xC740, 0x20, 0xBCC4, 0xB3C4]
       @ '' L3 '' @ utf8 [0xC808, 0xCC28]),
   (''obsidian_draft_create'', ''L1 Obsidian draft '' @ utf8 [0x2014] @ '' final knowledge '' @ utf8 [0xC800,
       0xC7A5, 0xC740, 0x20, 0xBCC4, 0xB3C4] @ '' L3 '' @ utf8 [0xC808, 0xCC28])]"

section \<open>Decisions\<close>

record action_context =
  xc_action_type :: string
  xc_session_id :: string
  xc_job_id :: "string option"
  xc_risk_level :: string
  xc_reversible :: bool
  xc_external_side_effect :: bool
  xc_cost_impact :: string
  xc_data_sensitivity :: string
  xc_requested_by :: string
  xc_proposed_level :: "approval_level option"
  xc_reason :: "string option"
  xc_extra :: "json pydict"

datatype authority = AUTHORITY_POLICY | AUTHORITY_TECH_LEAD | AUTHORITY_HUMAN

record approval_decision =
  xd_decision_id :: string
  xd_session_id :: string
  xd_job_id :: "string option"
  xd_action_type :: string
  xd_level :: approval_level
  xd_authority :: authority
  xd_human_required :: bool
  xd_reason :: "string option"
  xd_risk_level :: string
  xd_reversible :: bool
  xd_external_side_effect :: bool
  xd_cost_impact :: string
  xd_data_sensitivity :: string
  xd_routing_hint :: string
  xd_created_at :: string

text \<open>\<open>x or y\<close> on optional strings: an empty string counts as absent.\<close>

definition str_or :: "string option \<Rightarrow> string option \<Rightarrow> string option" where
  "str_or x y = (case x of Some (c # cs) \<Rightarrow> x | _ \<Rightarrow> y)"

definition raise_if :: "bool \<Rightarrow> approval_level \<Rightarrow> approval_level" where
  "raise_if cond base = (if cond then max_approval base L3_HUMAN_REQUIRED else base)"

definition approval_level_of :: "action_context \<Rightarrow> approval_level" where
  "approval_level_of c =
     (let base = (case map_of APPROVAL_DEFAULT_LEVELS (xc_action_type c) of Some l \<Rightarrow> l | None \<Rightarrow> L3_HUMAN_REQUIRED);
          base = (case xc_proposed_level c of Some p \<Rightarrow> max_approval base p | None \<Rightarrow> base);
          base = raise_if (xc_risk_level c = ''critical'') base;
          base = raise_if (\<not> xc_reversible c) base;
          base = raise_if (xc_external_side_effect c) base;
          base = raise_if (xc_cost_impact c = ''major'') base
      in raise_if (xc_data_sensitivity c \<in> {''confidential'', ''secret''}) base)"

definition decide_approval :: "string \<Rightarrow> string \<Rightarrow> action_context \<Rightarrow> approval_decision" where
  "decide_approval decision_id now c =
     (let base = approval_level_of c;
          auto = str_or (xc_reason c) (map_of DEFAULT_AUTO_REASONS (xc_action_type c));
          (authority, reason, hint) =
            (case base of
               L3_HUMAN_REQUIRED \<Rightarrow> (AUTHORITY_HUMAN, None, ''human-approval'')
             | L2_AGENT_REVIEW \<Rightarrow> (AUTHORITY_TECH_LEAD,
                 str_or auto (Some (''L2 '' @ utf8 [0x2014] @ '' tech-lead '' @ utf8 [0xAC80, 0xD1A0, 0x20, 0xD6C4, 0x20, 0xC9C4, 0xD589])),
                 ''tech-lead-review'')
             | L1_AUTO_APPROVED \<Rightarrow> (AUTHORITY_POLICY, auto, ''auto-record'')
             | L0_RECORD_ONLY \<Rightarrow> (AUTHORITY_POLICY, auto, ''no-record''))
      in \<lparr>xd_decision_id = decision_id, xd_session_id = xc_session_id c, xd_job_id = xc_job_id c,
          xd_action_type = xc_action_type c, xd_level = base, xd_authority = authority,
          xd_human_required = (base = L3_HUMAN_REQUIRED), xd_reason = reason, xd_risk_level = xc_risk_level c,
          xd_reversible = xc_reversible c, xd_external_side_effect = xc_external_side_effect c,
          xd_cost_impact = xc_cost_impact c, xd_data_sensitivity = xc_data_sensitivity c,
          xd_routing_hint = hint, xd_created_at = now\<rparr>)"

definition gateway_can_auto_approve :: "approval_decision \<Rightarrow> bool" where
  "gateway_can_auto_approve d \<longleftrightarrow> xd_level d \<in> {L0_RECORD_ONLY, L1_AUTO_APPROVED}"

section \<open>What a decision turns into\<close>

datatype approval_error = NeedsHumanCard | BlankReason | NotHumanLevel approval_level

record audit_record =
  xr_decision_id :: string
  xr_session_id :: string
  xr_job_id :: "string option"
  xr_action_type :: string
  xr_level :: approval_level
  xr_authority :: authority
  xr_human_required :: bool
  xr_reason :: "string option"
  xr_risk_level :: string
  xr_reversible :: bool
  xr_external_side_effect :: bool
  xr_cost_impact :: string
  xr_data_sensitivity :: string
  xr_created_at :: string

definition to_audit_record :: "approval_decision \<Rightarrow> approval_error + audit_record" where
  "to_audit_record d =
     (if xd_level d = L3_HUMAN_REQUIRED then Inl NeedsHumanCard
      else if py_strip (case xd_reason d of Some r \<Rightarrow> r | None \<Rightarrow> []) = [] then Inl BlankReason
      else Inr \<lparr>xr_decision_id = xd_decision_id d, xr_session_id = xd_session_id d, xr_job_id = xd_job_id d,
        xr_action_type = xd_action_type d, xr_level = xd_level d, xr_authority = xd_authority d,
        xr_human_required = xd_human_required d, xr_reason = xd_reason d, xr_risk_level = xd_risk_level d,
        xr_reversible = xd_reversible d, xr_external_side_effect = xd_external_side_effect d,
        xr_cost_impact = xd_cost_impact d, xr_data_sensitivity = xd_data_sensitivity d,
        xr_created_at = xd_created_at d\<rparr>)"

record approval_request =
  xq_session_id :: string
  xq_approval_kind :: string
  xq_title :: string
  xq_summary :: string
  xq_requested_action :: string
  xq_created_by :: string
  xq_source_channel_id :: "int option"
  xq_source_thread_id :: "int option"
  xq_source_message_id :: "int option"
  xq_extra :: "json pydict"

text \<open>The card's own arguments travel as the record \<open>req\<close>, whose \<open>extra\<close> is ignored.\<close>

definition to_approval_request :: "approval_request \<Rightarrow> string option \<Rightarrow> approval_decision \<Rightarrow>
    approval_error + approval_request" where
  "to_approval_request req approval_kind d =
     (if xd_level d \<noteq> L3_HUMAN_REQUIRED then Inl (NotHumanLevel (xd_level d))
      else Inr (req\<lparr>xq_session_id := xd_session_id d,
        xq_approval_kind := (case str_or approval_kind (Some ''engineering_write'') of Some k \<Rightarrow> k | None \<Rightarrow> []),
        xq_extra := [(''decision_id'', JStr (xd_decision_id d)),
          (''policy_level'', JStr (approval_level_value (xd_level d))), (''risk_level'', JStr (xd_risk_level d)),
          (''reversible'', JBool (xd_reversible d)), (''external_side_effect'', JBool (xd_external_side_effect d)),
          (''cost_impact'', JStr (xd_cost_impact d)), (''data_sensitivity'', JStr (xd_data_sensitivity d))]\<rparr>))"

section \<open>What the policy promises\<close>

text \<open>No metadata of the context asks for a human.\<close>

definition plain_context :: "action_context \<Rightarrow> bool" where
  "plain_context c \<longleftrightarrow> xc_risk_level c \<noteq> ''critical'' \<and> xc_reversible c \<and> \<not> xc_external_side_effect c
     \<and> xc_cost_impact c \<noteq> ''major'' \<and> xc_data_sensitivity c \<notin> {''confidential'', ''secret''}"

definition default_approval :: "string \<Rightarrow> approval_level" where
  "default_approval a = (case map_of APPROVAL_DEFAULT_LEVELS a of Some l \<Rightarrow> l | None \<Rightarrow> L3_HUMAN_REQUIRED)"

lemma raise_if_simps [simp]: "raise_if True b = L3_HUMAN_REQUIRED" "raise_if False b = b"
  "raise_if c L3_HUMAN_REQUIRED = L3_HUMAN_REQUIRED"
  by (simp_all add: raise_if_def)

lemma approval_level_exact:
  "approval_level_of c = (if plain_context c
     then (case xc_proposed_level c of None \<Rightarrow> default_approval (xc_action_type c)
           | Some p \<Rightarrow> max (default_approval (xc_action_type c)) p)
     else L3_HUMAN_REQUIRED)"
  by (auto simp: approval_level_of_def plain_context_def default_approval_def raise_if_def Let_def split: option.splits)

lemma decide_approval_fields:
  "xd_level (decide_approval i t c) = approval_level_of c"
  "xd_human_required (decide_approval i t c) \<longleftrightarrow> approval_level_of c = L3_HUMAN_REQUIRED"
  "xd_authority (decide_approval i t c) = (case approval_level_of c of L3_HUMAN_REQUIRED \<Rightarrow> AUTHORITY_HUMAN
      | L2_AGENT_REVIEW \<Rightarrow> AUTHORITY_TECH_LEAD | _ \<Rightarrow> AUTHORITY_POLICY)"
  by (simp_all add: decide_approval_def Let_def split_beta split: approval_level.splits)

lemma default_reason_text: "map_of DEFAULT_AUTO_REASONS a = Some r \<Longrightarrow> py_strip r \<noteq> []"
  by (auto simp: DEFAULT_AUTO_REASONS_def py_strip_eq_Nil_iff py_space_def split: if_splits)

lemma default_reason_exists:
  "map_of APPROVAL_DEFAULT_LEVELS a \<in> {Some L0_RECORD_ONLY, Some L1_AUTO_APPROVED} \<Longrightarrow>
     \<exists>r. map_of DEFAULT_AUTO_REASONS a = Some r \<and> py_strip r \<noteq> []"
  by (auto simp: APPROVAL_DEFAULT_LEVELS_def APPROVAL_L0_def APPROVAL_L1_def APPROVAL_L2_def APPROVAL_L3_def
      DEFAULT_AUTO_REASONS_def py_strip_eq_Nil_iff py_space_def split: if_splits)

lemma str_or_simps [simp]: "str_or None y = y" "str_or (Some []) y = y" "str_or (Some (a # as)) y = Some (a # as)"
  by (simp_all add: str_or_def)

lemma str_or_nonempty: "str_or x y = Some r \<Longrightarrow> r = [] \<Longrightarrow> y = Some []"
  by (auto simp: str_or_def split: option.splits list.splits)

text \<open>A reason that was given but holds only white space.\<close>

definition blank_reason :: "action_context \<Rightarrow> bool" where
  "blank_reason c \<longleftrightarrow> (\<exists>r. xc_reason c = Some r \<and> r \<noteq> [] \<and> py_strip r = [])"

lemma no_reason_given:
  assumes "approval_level_of c \<noteq> L3_HUMAN_REQUIRED" and "xc_reason c = None \<or> xc_reason c = Some []"
    and "\<And>r. xd_reason (decide_approval i t c) = Some r \<Longrightarrow> py_strip r = [] \<longleftrightarrow> blank_reason c \<Longrightarrow> thesis"
  shows thesis
proof -
  have nb: "\<not> blank_reason c" using assms(2) by (auto simp: blank_reason_def)
  have so: "str_or (xc_reason c) y = y" for y using assms(2) by auto
  have dl: "default_approval (xc_action_type c) \<le> approval_level_of c"
    using assms(1) by (auto simp: approval_level_exact split: option.splits if_splits)
  show thesis
  proof (cases "approval_level_of c = L2_AGENT_REVIEW")
    case True
    let ?l2 = "''L2 '' @ utf8 [0x2014] @ '' tech-lead '' @ utf8 [0xAC80, 0xD1A0, 0x20, 0xD6C4, 0x20, 0xC9C4, 0xD589]"
    have r: "xd_reason (decide_approval i t c) = str_or (map_of DEFAULT_AUTO_REASONS (xc_action_type c)) (Some ?l2)"
      using True so by (simp add: decide_approval_def Let_def)
    show thesis
    proof (cases "map_of DEFAULT_AUTO_REASONS (xc_action_type c)")
      case None
      show thesis by (rule assms(3)[of ?l2]) (simp_all add: r None nb py_strip_eq_Nil_iff py_space_def)
    next
      case (Some d)
      then have "py_strip d \<noteq> []" by (rule default_reason_text)
      moreover from this have "d \<noteq> []" by auto
      ultimately show thesis using r Some nb by (intro assms(3)[of d]) (auto simp: str_or_def split: list.splits)
    qed
  next
    case False
    have "map_of APPROVAL_DEFAULT_LEVELS (xc_action_type c) \<in> {Some L0_RECORD_ONLY, Some L1_AUTO_APPROVED}"
    proof (cases "map_of APPROVAL_DEFAULT_LEVELS (xc_action_type c)")
      case None
      with dl assms(1) show ?thesis by (cases "approval_level_of c") (simp_all add: default_approval_def less_eq_approval_level_def)
    next
      case (Some l)
      with dl assms(1) False show ?thesis
        by (cases l; cases "approval_level_of c") (simp_all add: default_approval_def less_eq_approval_level_def)
    qed
    from default_reason_exists[OF this] obtain d where d: "map_of DEFAULT_AUTO_REASONS (xc_action_type c) = Some d" "py_strip d \<noteq> []"
      by blast
    have "xd_reason (decide_approval i t c) = Some d"
      using assms(1) False d(1) so by (cases "approval_level_of c") (simp_all add: decide_approval_def Let_def)
    then show thesis using d(2) nb by (intro assms(3)[of d]) simp_all
  qed
qed

lemma auto_reason:
  assumes "approval_level_of c \<noteq> L3_HUMAN_REQUIRED"
  obtains r where "xd_reason (decide_approval i t c) = Some r" "py_strip r = [] \<longleftrightarrow> blank_reason c"
proof (cases "xc_reason c")
  case (Some s)
  show ?thesis
  proof (cases s)
    case (Cons a as)
    then have "xd_reason (decide_approval i t c) = Some s"
      using assms Some by (cases "approval_level_of c") (simp_all add: decide_approval_def Let_def)
    moreover have "py_strip s = [] \<longleftrightarrow> blank_reason c" using Some Cons by (auto simp: blank_reason_def)
    ultimately show ?thesis by (rule that)
  next
    case Nil
    show ?thesis by (rule no_reason_given[of c i t]) (use assms Some Nil that in auto)
  qed
next
  case None
  show ?thesis by (rule no_reason_given[of c i t]) (use assms None that in auto)
qed

text \<open>A decision of the approval policy has exactly one way out. At the human level only the approval
  card can be built; below it only the audit record can, and it can unless the caller gave a reason of white
  space only, in which case neither conversion succeeds. The record then carries a reason that is not
  blank.\<close>

lemma approval_conversions:
  "(case xd_level (decide_approval i t c) of
      L3_HUMAN_REQUIRED \<Rightarrow> to_audit_record (decide_approval i t c) = Inl NeedsHumanCard
        \<and> is_ok (to_approval_request req kind (decide_approval i t c))
    | l \<Rightarrow> to_approval_request req kind (decide_approval i t c) = Inl (NotHumanLevel l)
        \<and> (if blank_reason c then to_audit_record (decide_approval i t c) = Inl BlankReason
           else \<exists>r s. to_audit_record (decide_approval i t c) = Inr r \<and> xr_reason r = Some s \<and> py_strip s \<noteq> []))"
proof (cases "approval_level_of c = L3_HUMAN_REQUIRED")
  case True
  then show ?thesis by (simp add: decide_approval_fields to_audit_record_def to_approval_request_def)
next
  case False
  then obtain r where "xd_reason (decide_approval i t c) = Some r" "py_strip r = [] \<longleftrightarrow> blank_reason c"
    by (rule auto_reason)
  with False show ?thesis
    by (cases "approval_level_of c") (simp_all add: decide_approval_fields to_audit_record_def to_approval_request_def)
qed

end
