(* ===== verification/AutonomyPolicy.thy ===== *)
theory AutonomyPolicy
  imports ApprovalPolicy
begin

text \<open>
  The five-rung autonomy ladder, \<open>agents/lifecycle/autonomy_policy.py\<close>: the catalogue of actions with their
  default levels and reasons, \<open>decide_autonomy\<close> with its escalation rules, \<open>can_auto_execute\<close> and the bridge
  of a level 3 or 4 decision to the approval policy. The decision id and the time are arguments.
\<close>

section \<open>Levels and catalogue\<close>

datatype autonomy_level = L0_AUTO_RECORD_OPTIONAL | L1_AUTO_RECORD_REQUIRED | L2_AUTO_POST_REPORT
  | L3_HUMAN_APPROVAL | L4_STRONG_APPROVAL_OR_FORBIDDEN

primrec autonomy_level_value :: "autonomy_level \<Rightarrow> string" where
  "autonomy_level_value L0_AUTO_RECORD_OPTIONAL = ''L0_AUTO_RECORD_OPTIONAL''"
| "autonomy_level_value L1_AUTO_RECORD_REQUIRED = ''L1_AUTO_RECORD_REQUIRED''"
| "autonomy_level_value L2_AUTO_POST_REPORT = ''L2_AUTO_POST_REPORT''"
| "autonomy_level_value L3_HUMAN_APPROVAL = ''L3_HUMAN_APPROVAL''"
| "autonomy_level_value L4_STRONG_APPROVAL_OR_FORBIDDEN = ''L4_STRONG_APPROVAL_OR_FORBIDDEN''"

primrec LEVEL_ORDER :: "autonomy_level \<Rightarrow> nat" where
  "LEVEL_ORDER L0_AUTO_RECORD_OPTIONAL = 0"
| "LEVEL_ORDER L1_AUTO_RECORD_REQUIRED = 1"
| "LEVEL_ORDER L2_AUTO_POST_REPORT = 2"
| "LEVEL_ORDER L3_HUMAN_APPROVAL = 3"
| "LEVEL_ORDER L4_STRONG_APPROVAL_OR_FORBIDDEN = 4"

lemma LEVEL_ORDER_inj: "LEVEL_ORDER a = LEVEL_ORDER b \<Longrightarrow> a = b"
  by (cases a; cases b) simp_all

instantiation autonomy_level :: linorder
begin

definition less_eq_autonomy_level :: "autonomy_level \<Rightarrow> autonomy_level \<Rightarrow> bool" where
  "less_eq_autonomy_level a b \<longleftrightarrow> LEVEL_ORDER a \<le> LEVEL_ORDER b"

definition less_autonomy_level :: "autonomy_level \<Rightarrow> autonomy_level \<Rightarrow> bool" where
  "less_autonomy_level a b \<longleftrightarrow> LEVEL_ORDER a < LEVEL_ORDER b"

instance
  by standard (auto simp: less_eq_autonomy_level_def less_autonomy_level_def dest: LEVEL_ORDER_inj)

end

definition max_level :: "autonomy_level \<Rightarrow> autonomy_level \<Rightarrow> autonomy_level" where
  "max_level a b = (if LEVEL_ORDER a < LEVEL_ORDER b then b else a)"

lemma max_level_max [simp]: "max_level a b = max a b"
  by (auto simp: max_level_def max_def less_eq_autonomy_level_def dest: LEVEL_ORDER_inj)

definition L0_ACTIONS :: "string list" where
  "L0_ACTIONS =
  [''status_query'', ''queue_inspect'', ''heartbeat_check'', ''local_file_read'', ''session_lookup'',
       ''topic_lookup'', ''memory_read'']"

definition L1_ACTIONS :: "string list" where
  "L1_ACTIONS =
  [''user_ordered_research'', ''thread_snapshot_capture'', ''link_collection'', ''role_take_record'',
       ''failure_audit_record'', ''retry_audit_record'', ''research_log_save'', ''agent_ops_record'',
       ''forum_handoff_decision'']"

definition L2_ACTIONS :: "string list" where
  "L2_ACTIONS =
  [''draft_document_create'', ''blog_draft_create'', ''self_improvement_proposal'',
       ''failure_postmortem_create'', ''test_execute'', ''low_risk_docs_edit'', ''low_risk_test_edit'',
       ''feature_branch_create'', ''local_commit'', ''vault_research_log_commit'']"

definition L3_ACTIONS :: "string list" where
  "L3_ACTIONS =
  [''knowledge_note_finalize'', ''decision_record_finalize'', ''document_overwrite'', ''runtime_code_change'',
       ''push_to_shared_repo'', ''draft_pr_create'', ''runtime_restart'', ''external_paid_call'',
       ''large_scale_crawl'', ''vault_remote_push'']"

definition L4_ACTIONS :: "string list" where
  "L4_ACTIONS =
  [''main_branch_push'', ''branch_merge'', ''deploy'', ''secret_access'', ''secret_modify'', ''prod_db_write'',
       ''destructive_delete'', ''external_publication'', ''blog_publication'']"

definition DEFAULT_LEVELS :: "autonomy_level pydict" where
  "DEFAULT_LEVELS = map (\<lambda>a. (a, L0_AUTO_RECORD_OPTIONAL)) L0_ACTIONS
     @ map (\<lambda>a. (a, L1_AUTO_RECORD_REQUIRED)) L1_ACTIONS @ map (\<lambda>a. (a, L2_AUTO_POST_REPORT)) L2_ACTIONS
     @ map (\<lambda>a. (a, L3_HUMAN_APPROVAL)) L3_ACTIONS @ map (\<lambda>a. (a, L4_STRONG_APPROVAL_OR_FORBIDDEN)) L4_ACTIONS"

definition DEFAULT_REASONS :: "string pydict" where
  "DEFAULT_REASONS =
  [(''status_query'', ''L0 '' @ utf8 [0x2014, 0x20, 0xC77D, 0xAE30, 0x20, 0xC804, 0xC6A9, 0x20, 0xC0C1, 0xD0DC,
       0x20, 0xC870, 0xD68C]),
   (''queue_inspect'', ''L0 '' @ utf8 [0x2014, 0x20, 0xD050, 0x20, 0xC0C1, 0xD0DC, 0x20, 0xC870, 0xD68C, 0x2C,
       0x20, 0xBCC0, 0xACBD, 0x20, 0xC5C6, 0xC74C]),
   (''heartbeat_check'', ''L0 '' @ utf8 [0x2014] @ '' supervisor heartbeat '' @ utf8 [0xC870, 0xD68C]),
   (''local_file_read'', ''L0 '' @ utf8 [0x2014, 0x20, 0xB85C, 0xCEEC, 0x20, 0xD30C, 0xC77C, 0x20, 0xC77D,
       0xAE30, 0x2C, 0x20, 0xBD80, 0xC791, 0xC6A9, 0x20, 0xC5C6, 0xC74C]),
   (''session_lookup'', ''L0 '' @ utf8 [0x2014, 0x20, 0xC138, 0xC158, 0x20, 0xC870, 0xD68C]),
   (''topic_lookup'', ''L0 '' @ utf8 [0x2014] @ '' topic ledger '' @ utf8 [0xC870, 0xD68C]),
   (''memory_read'', ''L0 '' @ utf8 [0x2014, 0x20, 0xBA54, 0xBAA8, 0xB9AC, 0x20, 0xC870, 0xD68C]),
   (''user_ordered_research'', ''L1 '' @ utf8 [0x2014, 0x20, 0xC0AC, 0xC6A9, 0xC790, 0x20, 0xBA85, 0xC2DC,
       0x20, 0xC624, 0xB354, 0x20, 0xAE30, 0xBC18, 0x20, 0xB9AC, 0xC11C, 0xCE58] @ '', audit '' @ utf8 [0xD544,
       0xC218]),
   (''thread_snapshot_capture'', ''L1 '' @ utf8 [0x2014, 0x20, 0xC6B4, 0xC601, 0x2D, 0xB9AC, 0xC11C, 0xCE58]
       @ '' thread '' @ utf8 [0xC2A4, 0xB0C5, 0xC0F7] @ '', audit '' @ utf8 [0xD544, 0xC218]),
   (''link_collection'', ''L1 '' @ utf8 [0x2014, 0x20, 0xACF5, 0xAC1C, 0x20, 0xB9C1, 0xD06C, 0x20, 0xC218,
       0xC9D1] @ '', audit '' @ utf8 [0xD544, 0xC218]),
   (''role_take_record'', ''L1 '' @ utf8 [0x2014, 0x20, 0xC5ED, 0xD560, 0xBCC4, 0x20, 0xC758, 0xACAC, 0x20,
       0xAE30, 0xB85D] @ '', audit '' @ utf8 [0xD544, 0xC218]),
   (''failure_audit_record'', ''L1 '' @ utf8 [0x2014, 0x20, 0xC2E4, 0xD328] @ '' audit, audit ''
       @ utf8 [0xD544, 0xC218]),
   (''retry_audit_record'', ''L1 '' @ utf8 [0x2014, 0x20, 0xC7AC, 0xC2DC, 0xB3C4] @ '' audit, audit ''
       @ utf8 [0xD544, 0xC218]),
   (''research_log_save'', ''L1 '' @ utf8 [0x2014] @ '' research-log Obsidian '' @ utf8 [0xC790, 0xB3D9, 0x20,
       0xC800, 0xC7A5]),
   (''agent_ops_record'', ''L1 '' @ utf8 [0x2014] @ '' agent-ops '' @ utf8 [0xC790, 0xB3D9, 0x20, 0xAE30,
       0xB85D]),
   (''forum_handoff_decision'', ''L1 '' @ utf8 [0x2014, 0x20, 0xC6B4, 0xC601, 0x2D, 0xB9AC, 0xC11C, 0xCE58]
       @ '' thread '' @ utf8 [0xC800, 0xC7A5] @ '' dispatch '' @ utf8 [0xACB0, 0xC815] @ '' audit''),
   (''draft_document_create'', ''L2 '' @ utf8 [0x2014] @ '' draft '' @ utf8 [0xBB38, 0xC11C, 0x20, 0xC790,
       0xB3D9, 0x20, 0xC0DD, 0xC131, 0x2C, 0x20, 0xC0AC, 0xD6C4, 0x20, 0xBCF4, 0xACE0]),
   (''blog_draft_create'', ''L2 '' @ utf8 [0x2014, 0x20, 0xBE14, 0xB85C, 0xADF8, 0x20, 0xCD08, 0xC548, 0x20,
       0xC790, 0xB3D9, 0x20, 0xC0DD, 0xC131, 0x2C, 0x20, 0xC678, 0xBD80, 0x20, 0xBC1C, 0xD589, 0xC740, 0x20,
       0xBCC4, 0xB3C4] @ '' L4''),
   (''self_improvement_proposal'', ''L2 '' @ utf8 [0x2014] @ '' self-improvement '' @ utf8 [0xC81C, 0xC548,
       0x20, 0xC790, 0xB3D9, 0x20, 0xC0DD, 0xC131, 0x2C, 0x20, 0xC0AC, 0xD6C4, 0x20, 0xBCF4, 0xACE0]),
   (''failure_postmortem_create'', ''L2 '' @ utf8 [0x2014] @ '' failure postmortem '' @ utf8 [0xC790, 0xB3D9,
       0x20, 0xC0DD, 0xC131, 0x2C, 0x20, 0xC0AC, 0xD6C4, 0x20, 0xBCF4, 0xACE0]),
   (''test_execute'', ''L2 '' @ utf8 [0x2014, 0x20, 0xD14C, 0xC2A4, 0xD2B8, 0x20, 0xC790, 0xB3D9, 0x20, 0xC2E4,
       0xD589, 0x2C, 0x20, 0xACB0, 0xACFC, 0x20, 0xAE30, 0xB85D]),
   (''low_risk_docs_edit'', ''L2 '' @ utf8 [0x2014, 0x20, 0xB0AE, 0xC740, 0x20, 0xC704, 0xD5D8] @ '' docs ''
       @ utf8 [0xC218, 0xC815, 0x2C, 0x20, 0xC0AC, 0xD6C4, 0x20, 0xBCF4, 0xACE0]),
   (''low_risk_test_edit'', ''L2 '' @ utf8 [0x2014, 0x20, 0xB0AE, 0xC740, 0x20, 0xC704, 0xD5D8] @ '' test ''
       @ utf8 [0xC218, 0xC815, 0x2C, 0x20, 0xC0AC, 0xD6C4, 0x20, 0xBCF4, 0xACE0]),
   (''feature_branch_create'', ''L2 '' @ utf8 [0x2014] @ '' feature branch '' @ utf8 [0xC0DD, 0xC131, 0x2C,
       0x20, 0xB85C, 0xCEEC, 0x20, 0xD55C, 0xC815]),
   (''local_commit'', ''L2 '' @ utf8 [0x2014, 0x20, 0xB85C, 0xCEEC] @ '' commit, push '' @ utf8 [0xBCC4,
       0xB3C4] @ '' L3''),
   (''vault_research_log_commit'', ''L2 '' @ utf8 [0x2014] @ '' vault research-log branch '' @ utf8 [0xC790,
       0xB3D9] @ '' commit'')]"

definition LEGACY_ACTION_BRIDGE :: "string pydict" where
  "LEGACY_ACTION_BRIDGE =
  [(''knowledge_note_finalize'', ''obsidian_final_knowledge_write''),
   (''decision_record_finalize'', ''obsidian_final_knowledge_write''),
   (''document_overwrite'', ''data_overwrite''),
   (''runtime_code_change'', ''code_write''),
   (''push_to_shared_repo'', ''git_push''),
   (''draft_pr_create'', ''github_pr_create''),
   (''runtime_restart'', ''infra_change''),
   (''external_paid_call'', ''external_paid_call''),
   (''vault_remote_push'', ''git_push''),
   (''main_branch_push'', ''git_push''),
   (''branch_merge'', ''git_push''),
   (''deploy'', ''deploy''),
   (''secret_access'', ''secret_access''),
   (''secret_modify'', ''secret_access''),
   (''prod_db_write'', ''data_overwrite''),
   (''destructive_delete'', ''data_delete''),
   (''external_publication'', ''external_publication''),
   (''blog_publication'', ''external_publication'')]"

section \<open>Decisions\<close>

record autonomy_context =
  ac_action :: string
  ac_session_id :: string
  ac_job_id :: "string option"
  ac_topic_key :: "string option"
  ac_summary :: string
  ac_risk_level :: string
  ac_reversible :: bool
  ac_external_side_effect :: bool
  ac_cost_impact :: string
  ac_data_sensitivity :: string
  ac_requested_by :: string
  ac_proposed_level :: "autonomy_level option"
  ac_reason :: "string option"
  ac_extra :: "json pydict"

text \<open>The defaults of the dataclass.\<close>

definition new_context :: "string \<Rightarrow> autonomy_context" where
  "new_context action = \<lparr>ac_action = action, ac_session_id = [], ac_job_id = None, ac_topic_key = None,
     ac_summary = [], ac_risk_level = ''medium'', ac_reversible = True, ac_external_side_effect = False,
     ac_cost_impact = ''none'', ac_data_sensitivity = ''public'', ac_requested_by = ''policy'',
     ac_proposed_level = None, ac_reason = None, ac_extra = []\<rparr>"

record autonomy_decision =
  ad_decision_id :: string
  ad_session_id :: string
  ad_job_id :: "string option"
  ad_action :: string
  ad_level :: autonomy_level
  ad_audit_required :: bool
  ad_requires_human :: bool
  ad_reason :: string
  ad_escalations :: "string list"
  ad_risk_level :: string
  ad_reversible :: bool
  ad_external_side_effect :: bool
  ad_cost_impact :: string
  ad_data_sensitivity :: string
  ad_topic_key :: "string option"
  ad_summary :: string
  ad_created_at :: string

definition generic_reason_for_level :: "autonomy_level \<Rightarrow> string" where
  "generic_reason_for_level l = (case l of
     L0_AUTO_RECORD_OPTIONAL \<Rightarrow> ''L0 '' @ utf8 [0x2014, 0x20, 0xC790, 0xB3D9, 0x20, 0xC2E4, 0xD589, 0x2C, 0x20,
       0xAE30, 0xB85D, 0x20, 0xC120, 0xD0DD]
   | L1_AUTO_RECORD_REQUIRED \<Rightarrow> ''L1 '' @ utf8 [0x2014, 0x20, 0xC790, 0xB3D9, 0x20, 0xC2E4, 0xD589]
       @ '', audit '' @ utf8 [0xAE30, 0xB85D, 0x20, 0xD544, 0xC218]
   | L2_AUTO_POST_REPORT \<Rightarrow> ''L2 '' @ utf8 [0x2014, 0x20, 0xC790, 0xB3D9, 0x20, 0xC2E4, 0xD589, 0x2C, 0x20,
       0xC0AC, 0xD6C4, 0x20, 0xBCF4, 0xACE0, 0x20, 0xD544, 0xC218]
   | L3_HUMAN_APPROVAL \<Rightarrow> ''L3 '' @ utf8 [0x2014, 0x20, 0xC0AC, 0xC6A9, 0xC790, 0x20, 0xC2B9, 0xC778, 0x20, 0xD544, 0xC694]
   | L4_STRONG_APPROVAL_OR_FORBIDDEN \<Rightarrow> ''L4 '' @ utf8 [0x2014, 0x20, 0xAC15, 0xD55C, 0x20, 0xC2B9, 0xC778, 0x20,
       0xB610, 0xB294, 0x20, 0xAE08, 0xC9C0, 0x20, 0x28, 0xAE30, 0xBCF8, 0x20, 0xCC28, 0xB2E8, 0x29])"

text \<open>One escalation rule: raise to at least \<open>target\<close>, and record why when that changed the level.\<close>

definition escalate :: "bool \<Rightarrow> autonomy_level \<Rightarrow> string \<Rightarrow> autonomy_level \<times> string list \<Rightarrow> autonomy_level \<times> string list" where
  "escalate cond target why st =
     (if cond
      then let escalated = max_level (fst st) target
           in (escalated, if escalated \<noteq> fst st then snd st @ [why] else snd st)
      else st)"

definition decide_level :: "autonomy_context \<Rightarrow> autonomy_level \<times> string list" where
  "decide_level c =
     (let base = (case map_of DEFAULT_LEVELS (ac_action c) of Some l \<Rightarrow> l | None \<Rightarrow> L4_STRONG_APPROVAL_OR_FORBIDDEN);
          st = (case ac_proposed_level c of
                  Some p \<Rightarrow> if LEVEL_ORDER base < LEVEL_ORDER p then (p, [''proposed_level_override'']) else (base, [])
                | None \<Rightarrow> (base, []));
          st = escalate (ac_risk_level c = ''critical'') L4_STRONG_APPROVAL_OR_FORBIDDEN ''risk_critical'' st;
          st = escalate (\<not> ac_reversible c) L3_HUMAN_APPROVAL ''irreversible'' st;
          st = escalate (ac_external_side_effect c) L3_HUMAN_APPROVAL ''external_side_effect'' st;
          st = escalate (ac_cost_impact c = ''major'') L3_HUMAN_APPROVAL ''cost_major'' st
      in escalate (ac_data_sensitivity c \<in> {''confidential'', ''secret''}) L4_STRONG_APPROVAL_OR_FORBIDDEN
           (''data_'' @ ac_data_sensitivity c) st)"

definition reason_for :: "autonomy_context \<Rightarrow> autonomy_level \<Rightarrow> string" where
  "reason_for c base =
     (let given = py_strip (case ac_reason c of Some r \<Rightarrow> r | None \<Rightarrow> [])
      in if given \<noteq> [] then given
         else case map_of DEFAULT_REASONS (ac_action c) of
                Some (x # xs) \<Rightarrow> x # xs
              | _ \<Rightarrow> generic_reason_for_level base)"

definition decide_autonomy :: "string \<Rightarrow> string \<Rightarrow> autonomy_context \<Rightarrow> autonomy_decision" where
  "decide_autonomy decision_id now c =
     (let (base, escalations) = decide_level c
      in \<lparr>ad_decision_id = decision_id, ad_session_id = ac_session_id c, ad_job_id = ac_job_id c,
          ad_action = ac_action c, ad_level = base, ad_audit_required = (base \<noteq> L0_AUTO_RECORD_OPTIONAL),
          ad_requires_human = (base \<in> {L3_HUMAN_APPROVAL, L4_STRONG_APPROVAL_OR_FORBIDDEN}),
          ad_reason = reason_for c base, ad_escalations = escalations, ad_risk_level = ac_risk_level c,
          ad_reversible = ac_reversible c, ad_external_side_effect = ac_external_side_effect c,
          ad_cost_impact = ac_cost_impact c, ad_data_sensitivity = ac_data_sensitivity c,
          ad_topic_key = ac_topic_key c, ad_summary = ac_summary c, ad_created_at = now\<rparr>)"

definition can_auto_execute :: "autonomy_decision \<Rightarrow> bool" where
  "can_auto_execute d \<longleftrightarrow> \<not> ad_requires_human d"

text \<open>The bridge; \<open>Inl\<close> is the \<open>ValueError\<close> for levels 0 to 2.\<close>

definition to_action_context :: "autonomy_decision \<Rightarrow> autonomy_level + action_context" where
  "to_action_context d =
     (if ad_level d \<notin> {L3_HUMAN_APPROVAL, L4_STRONG_APPROVAL_OR_FORBIDDEN} then Inl (ad_level d)
      else Inr \<lparr>
        xc_action_type = (case map_of LEGACY_ACTION_BRIDGE (ad_action d) of Some a \<Rightarrow> a | None \<Rightarrow> ad_action d),
        xc_session_id = ad_session_id d, xc_job_id = ad_job_id d, xc_risk_level = ad_risk_level d,
        xc_reversible = ad_reversible d, xc_external_side_effect = ad_external_side_effect d,
        xc_cost_impact = ad_cost_impact d, xc_data_sensitivity = ad_data_sensitivity d,
        xc_requested_by = ad_action d, xc_proposed_level = Some L3_HUMAN_REQUIRED, xc_reason = None,
        xc_extra = [(''autonomy_decision_id'', JStr (ad_decision_id d)),
          (''autonomy_level'', JStr (autonomy_level_value (ad_level d))),
          (''topic_key'', opt_json (ad_topic_key d)), (''summary'', JStr (ad_summary d))]\<rparr>)"

section \<open>The level is the strictest of the rules\<close>

lemma level_bounds [simp]: "L0_AUTO_RECORD_OPTIONAL \<le> l" "l \<le> L4_STRONG_APPROVAL_OR_FORBIDDEN"
  "max L4_STRONG_APPROVAL_OR_FORBIDDEN l = L4_STRONG_APPROVAL_OR_FORBIDDEN"
  "max l L4_STRONG_APPROVAL_OR_FORBIDDEN = L4_STRONG_APPROVAL_OR_FORBIDDEN"
  by (cases l; simp add: less_eq_autonomy_level_def max_def)+

definition default_level :: "string \<Rightarrow> autonomy_level" where
  "default_level a = (case map_of DEFAULT_LEVELS a of Some l \<Rightarrow> l | None \<Rightarrow> L4_STRONG_APPROVAL_OR_FORBIDDEN)"

text \<open>The rules that apply to a context, each with the level it asks for.\<close>

definition demands :: "autonomy_context \<Rightarrow> autonomy_level list" where
  "demands c = default_level (ac_action c) # (case ac_proposed_level c of Some p \<Rightarrow> [p] | None \<Rightarrow> [])
     @ (if ac_risk_level c = ''critical'' then [L4_STRONG_APPROVAL_OR_FORBIDDEN] else [])
     @ (if \<not> ac_reversible c then [L3_HUMAN_APPROVAL] else [])
     @ (if ac_external_side_effect c then [L3_HUMAN_APPROVAL] else [])
     @ (if ac_cost_impact c = ''major'' then [L3_HUMAN_APPROVAL] else [])
     @ (if ac_data_sensitivity c \<in> {''confidential'', ''secret''} then [L4_STRONG_APPROVAL_OR_FORBIDDEN] else [])"

lemma fst_escalate: "fst (escalate p t w st) = (if p then max (fst st) t else fst st)"
  by (simp add: escalate_def Let_def)

text \<open>The recorded reasons are empty exactly when the level is still the one the escalation began with.\<close>

definition trail_ok :: "autonomy_level \<Rightarrow> autonomy_level \<times> string list \<Rightarrow> bool" where
  "trail_ok base st \<longleftrightarrow> base \<le> fst st \<and> (snd st = [] \<longleftrightarrow> fst st = base)"

lemma trail_escalate: "trail_ok base st \<Longrightarrow> trail_ok base (escalate p t w st)"
  by (auto simp: trail_ok_def escalate_def Let_def max_def)

lemma max_list_Max: "foldl max x xs = Max (set (x # xs))" for x :: "'a::linorder"
proof (induction xs arbitrary: x)
  case Nil
  then show ?case by simp
next
  case (Cons y ys)
  have "foldl max x (y # ys) = Max (set (max x y # ys))" using Cons by simp
  also have "\<dots> = Max (set (x # y # ys))" by (cases ys) (simp_all add: max.assoc)
  finally show ?case .
qed

lemma decide_level_exact: "fst (decide_level c) = Max (set (demands c))"
proof -
  have p: "(if LEVEL_ORDER b < LEVEL_ORDER l then (l, ws) else (b, [])) = (max b l, if LEVEL_ORDER b < LEVEL_ORDER l then ws else [])"
    for b l and ws :: "string list"
    by (simp add: max_level_max[symmetric] max_level_def del: max_level_max)
  have "fst (decide_level c) = foldl max (default_level (ac_action c)) (tl (demands c))"
    by (cases "ac_proposed_level c")
      (simp_all add: decide_level_def demands_def default_level_def[symmetric] fst_escalate Let_def p)
  moreover have "set (demands c) = set (default_level (ac_action c) # tl (demands c))" by (simp add: demands_def)
  ultimately show ?thesis by (simp only: max_list_Max)
qed

lemma decide_level_trail: "trail_ok (default_level (ac_action c)) (decide_level c)"
proof -
  have "trail_ok (default_level (ac_action c)) (case ac_proposed_level c of
      Some p \<Rightarrow> if LEVEL_ORDER (default_level (ac_action c)) < LEVEL_ORDER p then (p, [''proposed_level_override''])
        else (default_level (ac_action c), [])
    | None \<Rightarrow> (default_level (ac_action c), []))"
    by (auto simp: trail_ok_def less_eq_autonomy_level_def split: option.splits)
  then show ?thesis
    unfolding decide_level_def Let_def default_level_def[symmetric] by (intro trail_escalate)
qed

section \<open>What the ladder promises\<close>

definition LOW_ACTIONS :: "string list" where
  "LOW_ACTIONS = L0_ACTIONS @ L1_ACTIONS @ L2_ACTIONS"

lemmas action_lists = L0_ACTIONS_def L1_ACTIONS_def L2_ACTIONS_def L3_ACTIONS_def L4_ACTIONS_def

lemma map_of_const: "map_of (map (\<lambda>a. (a, l)) xs @ ys) a = (if a \<in> set xs then Some l else map_of ys a)"
  by (induction xs) auto

lemma default_level_cases:
  "default_level a = (if a \<in> set L0_ACTIONS then L0_AUTO_RECORD_OPTIONAL
     else if a \<in> set L1_ACTIONS then L1_AUTO_RECORD_REQUIRED else if a \<in> set L2_ACTIONS then L2_AUTO_POST_REPORT
     else if a \<in> set L3_ACTIONS then L3_HUMAN_APPROVAL else L4_STRONG_APPROVAL_OR_FORBIDDEN)"
  using map_of_const[of "L4_STRONG_APPROVAL_OR_FORBIDDEN" L4_ACTIONS "[]" a]
  by (simp add: default_level_def DEFAULT_LEVELS_def map_of_const del: map_of_append)

lemma default_level_low: "default_level a \<le> L2_AUTO_POST_REPORT \<longleftrightarrow> a \<in> set LOW_ACTIONS"
  by (simp add: default_level_cases LOW_ACTIONS_def less_eq_autonomy_level_def)

lemma decision_level: "ad_level (decide_autonomy i t c) = Max (set (demands c))"
  by (simp add: decide_autonomy_def split_beta decide_level_exact)

lemma human_iff: "ad_requires_human (decide_autonomy i t c) \<longleftrightarrow> \<not> ad_level (decide_autonomy i t c) \<le> L2_AUTO_POST_REPORT"
  by (cases "fst (decide_level c)") (simp_all add: decide_autonomy_def split_beta less_eq_autonomy_level_def)

lemma bridge_reason: "map_of DEFAULT_REASONS a = Some r \<Longrightarrow> py_strip r \<noteq> []"
  by (auto simp: DEFAULT_REASONS_def py_strip_eq_Nil_iff py_space_def split: if_splits)

lemma generic_reason: "py_strip (generic_reason_for_level l) \<noteq> []"
  by (cases l) (simp_all add: generic_reason_for_level_def py_strip_eq_Nil_iff py_space_def)

lemma reason_not_blank: "py_strip (reason_for c l) \<noteq> []"
  using bridge_reason[of "ac_action c"] generic_reason[of l]
  by (auto simp: reason_for_def Let_def split: option.splits list.splits)

lemma ball_if: "(\<forall>l \<in> set (if b then [x] else []). P l) \<longleftrightarrow> \<not> (b \<and> \<not> P x)"
  by (cases b) simp_all

lemma demands_low: "(\<forall>l \<in> set (demands c). P l) \<longleftrightarrow> P (default_level (ac_action c))
    \<and> (case ac_proposed_level c of None \<Rightarrow> True | Some p \<Rightarrow> P p)
    \<and> \<not> (ac_risk_level c = ''critical'' \<and> \<not> P L4_STRONG_APPROVAL_OR_FORBIDDEN)
    \<and> \<not> (\<not> ac_reversible c \<and> \<not> P L3_HUMAN_APPROVAL) \<and> \<not> (ac_external_side_effect c \<and> \<not> P L3_HUMAN_APPROVAL)
    \<and> \<not> (ac_cost_impact c = ''major'' \<and> \<not> P L3_HUMAN_APPROVAL)
    \<and> \<not> (ac_data_sensitivity c \<in> {''confidential'', ''secret''} \<and> \<not> P L4_STRONG_APPROVAL_OR_FORBIDDEN)"
  by (simp only: demands_def ball_Un ball_if set_append list.set ball_simps) (simp split: option.split)

text \<open>C18: The level of a decision is the strictest of the rules that apply to its context. So the agent may
  run an action on its own exactly when the action is catalogued at level 0, 1 or 2, nobody proposed a human
  level, and it is reversible, without external effect, major cost, critical risk or confidential data; an
  action the catalogue does not know never runs unattended. Everything above level 0 is audited, the
  escalations are recorded exactly when the level left the default, and the reason is never blank.\<close>

theorem autonomy_level_strictest:
  "ad_level (decide_autonomy i t c) = Max (set (demands c))
    \<and> (can_auto_execute (decide_autonomy i t c) \<longleftrightarrow>
          ac_action c \<in> set LOW_ACTIONS \<and> ac_proposed_level c \<notin> {Some L3_HUMAN_APPROVAL, Some L4_STRONG_APPROVAL_OR_FORBIDDEN}
          \<and> ac_risk_level c \<noteq> ''critical'' \<and> ac_reversible c \<and> \<not> ac_external_side_effect c
          \<and> ac_cost_impact c \<noteq> ''major'' \<and> ac_data_sensitivity c \<notin> {''confidential'', ''secret''})
    \<and> (ad_audit_required (decide_autonomy i t c) \<longleftrightarrow> ad_level (decide_autonomy i t c) \<noteq> L0_AUTO_RECORD_OPTIONAL)
    \<and> (ad_escalations (decide_autonomy i t c) = [] \<longleftrightarrow> ad_level (decide_autonomy i t c) = default_level (ac_action c))
    \<and> py_strip (ad_reason (decide_autonomy i t c)) \<noteq> []"
proof (intro conjI)
  have hi: "\<not> L4_STRONG_APPROVAL_OR_FORBIDDEN \<le> L2_AUTO_POST_REPORT" "\<not> L3_HUMAN_APPROVAL \<le> L2_AUTO_POST_REPORT"
    by (simp_all add: less_eq_autonomy_level_def)
  have pr: "p \<le> L2_AUTO_POST_REPORT \<longleftrightarrow> p \<notin> {L3_HUMAN_APPROVAL, L4_STRONG_APPROVAL_OR_FORBIDDEN}" for p
    by (cases p) (simp_all add: less_eq_autonomy_level_def)
  have "can_auto_execute (decide_autonomy i t c) \<longleftrightarrow> (\<forall>l \<in> set (demands c). l \<le> L2_AUTO_POST_REPORT)"
  proof -
    have "set (demands c) \<noteq> {}" by (simp add: demands_def)
    then have "Max (set (demands c)) \<le> L2_AUTO_POST_REPORT \<longleftrightarrow> (\<forall>l \<in> set (demands c). l \<le> L2_AUTO_POST_REPORT)"
      by (intro Max_le_iff) simp_all
    then show ?thesis using human_iff[of i t c] by (simp only: can_auto_execute_def decision_level not_not)
  qed
  also have "\<dots> \<longleftrightarrow> ac_action c \<in> set LOW_ACTIONS \<and> ac_proposed_level c \<notin> {Some L3_HUMAN_APPROVAL, Some L4_STRONG_APPROVAL_OR_FORBIDDEN}
          \<and> ac_risk_level c \<noteq> ''critical'' \<and> ac_reversible c \<and> \<not> ac_external_side_effect c
          \<and> ac_cost_impact c \<noteq> ''major'' \<and> ac_data_sensitivity c \<notin> {''confidential'', ''secret''}"
    unfolding demands_low unfolding default_level_low unfolding pr hi by (cases "ac_proposed_level c") (simp_all only: option.case option.inject insert_iff empty_iff not_not option.distinct simp_thms)
  finally show "can_auto_execute (decide_autonomy i t c) \<longleftrightarrow> ac_action c \<in> set LOW_ACTIONS
          \<and> ac_proposed_level c \<notin> {Some L3_HUMAN_APPROVAL, Some L4_STRONG_APPROVAL_OR_FORBIDDEN}
          \<and> ac_risk_level c \<noteq> ''critical'' \<and> ac_reversible c \<and> \<not> ac_external_side_effect c
          \<and> ac_cost_impact c \<noteq> ''major'' \<and> ac_data_sensitivity c \<notin> {''confidential'', ''secret''}" .
  show "ad_escalations (decide_autonomy i t c) = [] \<longleftrightarrow> ad_level (decide_autonomy i t c) = default_level (ac_action c)"
    using decide_level_trail[of c] by (simp add: decide_autonomy_def split_beta trail_ok_def)
qed (rule decision_level, simp_all add: decide_autonomy_def split_beta reason_not_blank)

text \<open>C20: The two policies agree on who decides. A decision of the ladder that the agent may not run on its
  own always crosses the bridge, whatever the action is called there, and the approval policy then demands a
  human: the gateway may not approve it and an approval card can be built. A decision the agent may run is
  refused by the bridge.\<close>

theorem human_decisions_reach_a_person:
  "case to_action_context (decide_autonomy i t c) of
     Inl l \<Rightarrow> can_auto_execute (decide_autonomy i t c) \<and> l = ad_level (decide_autonomy i t c)
   | Inr x \<Rightarrow> \<not> can_auto_execute (decide_autonomy i t c)
       \<and> xd_human_required (decide_approval i' t' x) \<and> xd_authority (decide_approval i' t' x) = AUTHORITY_HUMAN
       \<and> \<not> gateway_can_auto_approve (decide_approval i' t' x)
       \<and> is_ok (to_approval_request req kind (decide_approval i' t' x))
       \<and> xc_session_id x = ac_session_id c \<and> xc_job_id x = ac_job_id c"
proof (cases "ad_requires_human (decide_autonomy i t c)")
  case False
  then have "to_action_context (decide_autonomy i t c) = Inl (ad_level (decide_autonomy i t c))"
    by (auto simp: to_action_context_def decide_autonomy_def split_beta)
  with False show ?thesis by (simp add: can_auto_execute_def)
next
  case True
  then obtain x where x: "to_action_context (decide_autonomy i t c) = Inr x" "xc_proposed_level x = Some L3_HUMAN_REQUIRED"
    "xc_session_id x = ac_session_id c" "xc_job_id x = ac_job_id c"
    by (simp add: to_action_context_def decide_autonomy_def split_beta)
  have "approval_level_of x = L3_HUMAN_REQUIRED" using x(2) by (simp add: approval_level_exact)
  with x True show ?thesis
    by (simp add: can_auto_execute_def decide_approval_fields gateway_can_auto_approve_def to_approval_request_def)
qed

end
