(* ===== verification/AgentOps.thy ===== *)
theory AgentOps
  imports AutonomyPolicy
begin

text \<open>
  The agent-ops audit log, \<open>agents/lifecycle/agent_ops_log.py\<close>: entries built from autonomy decisions, their
  payload, and the bounded list of payloads in \<open>session.extra\<close>. The entry id and the time are arguments. The
  Markdown renderers are left out.
\<close>

section \<open>Entries\<close>

record ops_entry =
  oe_entry_id :: string
  oe_session_id :: string
  oe_action :: string
  oe_level :: string
  oe_summary :: string
  oe_reasoning :: string
  oe_outcome :: string
  oe_references :: "string list"
  oe_topic_key :: "string option"
  oe_job_id :: "string option"
  oe_decision_id :: "string option"
  oe_actor :: string
  oe_recorded_at :: string

definition ops_fields :: "ops_entry \<Rightarrow> json pydict" where
  "ops_fields e = [
     (''entry_id'', JStr (oe_entry_id e)), (''session_id'', JStr (oe_session_id e)), (''action'', JStr (oe_action e)),
     (''autonomy_level'', JStr (oe_level e)), (''summary'', JStr (oe_summary e)),
     (''reasoning'', JStr (oe_reasoning e)), (''outcome'', JStr (oe_outcome e)),
     (''references'', JList (map JStr (oe_references e))), (''topic_key'', opt_json (oe_topic_key e)),
     (''job_id'', opt_json (oe_job_id e)), (''decision_id'', opt_json (oe_decision_id e)),
     (''actor'', JStr (oe_actor e)), (''recorded_at'', JStr (oe_recorded_at e))]"

definition ops_to_payload :: "ops_entry \<Rightarrow> json" where
  "ops_to_payload e = JObj (ops_fields e)"

text \<open>Iterating over \<open>references\<close> is the one step of \<open>from_payload\<close> that can raise.\<close>

datatype audit_error = ReferencesNotIterable

definition text_field :: "json_host \<Rightarrow> json pydict \<Rightarrow> string \<Rightarrow> string \<Rightarrow> string" where
  "text_field h d k dflt = json_str h (dict_get_or d k (JStr dflt))"

definition nonempty_strings :: "json list \<Rightarrow> string list" where
  "nonempty_strings rs = List.map_filter (\<lambda>r. case r of JStr (c # cs) \<Rightarrow> Some (c # cs) | _ \<Rightarrow> None) rs"

definition ops_from_payload :: "json_host \<Rightarrow> json \<Rightarrow> audit_error + ops_entry option" where
  "ops_from_payload h j = (case j of
     JObj d \<Rightarrow>
       (case dict_get d ''entry_id'' of
          JStr (c # cs) \<Rightarrow>
            (case py_iter h (dict_get_or d ''references'' (JList [])) of
               None \<Rightarrow> Inl ReferencesNotIterable
             | Some refs \<Rightarrow> Inr (Some \<lparr>oe_entry_id = c # cs, oe_session_id = text_field h d ''session_id'' [],
                 oe_action = text_field h d ''action'' [], oe_level = text_field h d ''autonomy_level'' [],
                 oe_summary = text_field h d ''summary'' [], oe_reasoning = text_field h d ''reasoning'' [],
                 oe_outcome = text_field h d ''outcome'' [], oe_references = nonempty_strings refs,
                 oe_topic_key = optional_str h (dict_get d ''topic_key''),
                 oe_job_id = optional_str h (dict_get d ''job_id''),
                 oe_decision_id = optional_str h (dict_get d ''decision_id''),
                 oe_actor = text_field h d ''actor'' ''engineering-agent'',
                 oe_recorded_at = text_field h d ''recorded_at'' []\<rparr>))
        | _ \<Rightarrow> Inr None)
   | _ \<Rightarrow> Inr None)"

definition opt_clean :: "string option \<Rightarrow> string option" where
  "opt_clean x = (case x of None \<Rightarrow> None | Some s \<Rightarrow> clean_str s)"

text \<open>\<open>x or y or ""\<close>.\<close>

definition text_or :: "string option \<Rightarrow> string \<Rightarrow> string" where
  "text_or x y = (case x of Some (c # cs) \<Rightarrow> c # cs | _ \<Rightarrow> y)"

definition build_agent_ops_entry :: "string \<Rightarrow> string \<Rightarrow> autonomy_decision \<Rightarrow> string \<Rightarrow> string option \<Rightarrow>
    string list \<Rightarrow> string option \<Rightarrow> string \<Rightarrow> string option \<Rightarrow> ops_entry" where
  "build_agent_ops_entry entry_id now d outcome summary references job_id actor recorded_at =
     \<lparr>oe_entry_id = entry_id, oe_session_id = ad_session_id d, oe_action = ad_action d,
      oe_level = autonomy_level_value (ad_level d), oe_summary = py_strip (text_or summary (ad_summary d)),
      oe_reasoning = py_strip (ad_reason d), oe_outcome = py_strip outcome,
      oe_references = filter (\<lambda>r. r \<noteq> []) references, oe_topic_key = opt_clean (ad_topic_key d),
      oe_job_id = opt_clean (str_or job_id (ad_job_id d)), oe_decision_id = clean_str (ad_decision_id d),
      oe_actor = actor, oe_recorded_at = text_or recorded_at now\<rparr>"

section \<open>The log in the session\<close>

definition AUDIT_KEY :: string where
  "AUDIT_KEY = ''agent_ops_audit''"

definition is_mapping :: "json \<Rightarrow> bool" where
  "is_mapping j = (case j of JObj _ \<Rightarrow> True | _ \<Rightarrow> False)"

definition audit_items :: "json pydict \<Rightarrow> json list" where
  "audit_items extra = (case dict_get extra AUDIT_KEY of JList xs \<Rightarrow> filter is_mapping xs | _ \<Rightarrow> [])"

definition append_agent_ops_audit :: "int \<Rightarrow> json pydict \<Rightarrow> ops_entry \<Rightarrow> json pydict" where
  "append_agent_ops_audit max_entries extra e =
     AList.update AUDIT_KEY (JList (cap_last max_entries (audit_items extra @ [ops_to_payload e]))) extra"

definition read_agent_ops_audit :: "json_host \<Rightarrow> json \<Rightarrow> audit_error + ops_entry list" where
  "read_agent_ops_audit h extra = (case extra of
     JObj d \<Rightarrow>
       (case dict_get d AUDIT_KEY of
          JList xs \<Rightarrow> and_then (map_result (ops_from_payload h) xs) (\<lambda>ys. Inr (List.map_filter id ys))
        | _ \<Rightarrow> Inr [])
   | _ \<Rightarrow> Inr [])"

section \<open>What is read back\<close>

text \<open>The entries \<open>build_agent_ops_entry\<close> makes.\<close>

definition clean_entry :: "ops_entry \<Rightarrow> bool" where
  "clean_entry e \<longleftrightarrow> oe_entry_id e \<noteq> [] \<and> oe_actor e \<noteq> [] \<and> [] \<notin> set (oe_references e)
     \<and> opt_clean (oe_topic_key e) = oe_topic_key e \<and> opt_clean (oe_job_id e) = oe_job_id e
     \<and> opt_clean (oe_decision_id e) = oe_decision_id e"

lemma opt_clean_stable [simp]: "opt_clean (opt_clean x) = opt_clean x" "opt_clean (clean_str s) = clean_str s"
  by (auto simp: opt_clean_def clean_str_stable split: option.splits)

lemma build_clean: "i \<noteq> [] \<Longrightarrow> actor \<noteq> [] \<Longrightarrow> clean_entry (build_agent_ops_entry i t d out s refs job actor r)"
  by (simp add: clean_entry_def build_agent_ops_entry_def)

lemma optional_str_opt [simp]: "optional_str h (opt_json x) = opt_clean x"
  by (simp add: optional_str_def opt_json_def opt_clean_def split: option.split)

lemma nonempty_strings_map: "[] \<notin> set ss \<Longrightarrow> nonempty_strings (map JStr ss) = ss"
  by (induction ss) (auto simp: nonempty_strings_def List.map_filter_def split: list.split)

lemma text_field_JStr: "dict_get d k = JStr s \<Longrightarrow> text_field h d k [] = s"
  by (simp add: text_field_def dict_get_or_def)

lemma ops_field [simp]:
  "dict_get (ops_fields e) ''entry_id'' = JStr (oe_entry_id e)"
  "dict_get (ops_fields e) ''session_id'' = JStr (oe_session_id e)"
  "dict_get (ops_fields e) ''action'' = JStr (oe_action e)"
  "dict_get (ops_fields e) ''autonomy_level'' = JStr (oe_level e)"
  "dict_get (ops_fields e) ''summary'' = JStr (oe_summary e)"
  "dict_get (ops_fields e) ''reasoning'' = JStr (oe_reasoning e)"
  "dict_get (ops_fields e) ''outcome'' = JStr (oe_outcome e)"
  "dict_get (ops_fields e) ''references'' = JList (map JStr (oe_references e))"
  "dict_get (ops_fields e) ''topic_key'' = opt_json (oe_topic_key e)"
  "dict_get (ops_fields e) ''job_id'' = opt_json (oe_job_id e)"
  "dict_get (ops_fields e) ''decision_id'' = opt_json (oe_decision_id e)"
  "dict_get (ops_fields e) ''actor'' = JStr (oe_actor e)"
  "dict_get (ops_fields e) ''recorded_at'' = JStr (oe_recorded_at e)"
  by (simp_all add: ops_fields_def)

lemma payload_roundtrip:
  assumes "clean_entry e"
  shows "ops_from_payload h (ops_to_payload e) = Inr (Some e)"
proof -
  obtain c cs where i: "oe_entry_id e = c # cs" using assms by (cases "oe_entry_id e") (simp_all add: clean_entry_def)
  have refs: "py_iter h (dict_get_or (ops_fields e) ''references'' (JList [])) = Some (map JStr (oe_references e))"
    by (simp add: dict_get_or_def py_iter_def)
  have actor: "text_field h (ops_fields e) ''actor'' ''engineering-agent'' = oe_actor e"
    using assms by (simp add: text_field_def dict_get_or_def clean_entry_def)
  show ?thesis
    using assms i by (simp add: ops_from_payload_def ops_to_payload_def refs actor text_field_JStr
        nonempty_strings_map clean_entry_def)
qed

lemma payload_mapping [simp]: "is_mapping (ops_to_payload e)"
  by (simp add: is_mapping_def ops_to_payload_def)

lemma skip_non_mappings:
  "map_result (ops_from_payload h) (filter is_mapping xs) = Inr ys \<Longrightarrow>
     \<exists>zs. map_result (ops_from_payload h) xs = Inr zs \<and> List.map_filter id zs = List.map_filter id ys"
proof (induction xs arbitrary: ys)
  case Nil
  then show ?case by simp
next
  case (Cons x xs)
  show ?case
  proof (cases "is_mapping x")
    case True
    with Cons.prems obtain y ys' where y: "ops_from_payload h x = Inr y" "ys = y # ys'"
      "map_result (ops_from_payload h) (filter is_mapping xs) = Inr ys'"
      by (auto simp: and_then_Inr)
    with Cons.IH[OF y(3)] show ?thesis by (auto simp: map_filter_simps split: option.split)
  next
    case False
    then have "ops_from_payload h x = Inr None" by (auto simp: ops_from_payload_def is_mapping_def split: json.splits)
    with Cons.IH[of ys] Cons.prems False show ?thesis by (auto simp: map_filter_simps)
  qed
qed

lemma read_items:
  assumes "audit_items extra = map ops_to_payload es" and "list_all clean_entry es"
  shows "read_agent_ops_audit h (JObj extra) = Inr es"
proof -
  have r: "map_result (ops_from_payload h) (map ops_to_payload es) = Inr (map Some es)"
    using assms(2) by (induction es) (simp_all add: payload_roundtrip)
  have i: "List.map_filter id (map Some es) = es" by (induction es) (simp_all add: map_filter_simps)
  show ?thesis
  proof (cases "dict_get extra AUDIT_KEY")
    case (JList xs)
    then have "map_result (ops_from_payload h) (filter is_mapping xs) = Inr (map Some es)"
      using assms(1) r by (simp add: audit_items_def)
    from skip_non_mappings[OF this] show ?thesis by (auto simp: read_agent_ops_audit_def JList i)
  qed (use assms(1) in \<open>simp_all add: read_agent_ops_audit_def audit_items_def\<close>)
qed

lemma items_append: "0 < m \<Longrightarrow> audit_items (append_agent_ops_audit m extra e) = cap_last m (audit_items extra @ [ops_to_payload e])"
proof -
  have "filter is_mapping (cap_last m xs) = cap_last m xs" if "\<forall>x \<in> set xs. is_mapping x" for xs
    using that by (auto simp: filter_id_conv cap_last_def last_slice_def dest: in_set_dropD)
  moreover have "\<forall>x \<in> set (audit_items extra @ [ops_to_payload e]). is_mapping x"
    by (auto simp: audit_items_def split: json.splits)
  moreover have "audit_items (AList.update AUDIT_KEY (JList xs) d) = filter is_mapping xs" for xs d
    by (simp add: audit_items_def dict_get_update)
  ultimately show ?thesis unfolding append_agent_ops_audit_def by simp
qed

lemma append_other_keys: "k \<noteq> AUDIT_KEY \<Longrightarrow> dict_get (append_agent_ops_audit m extra e) k = dict_get extra k"
  by (simp add: append_agent_ops_audit_def dict_get_update)

lemma items_appends:
  assumes "0 < m" and "audit_items extra = map ops_to_payload old"
  shows "audit_items (foldl (append_agent_ops_audit m) extra es)
     = map ops_to_payload (if es = [] then old else cap_last m (old @ es))"
  using assms(2)
proof (induction es arbitrary: extra old)
  case Nil
  then show ?case by simp
next
  case (Cons e es)
  have "audit_items (append_agent_ops_audit m extra e) = map ops_to_payload (cap_last m (old @ [e]))"
    using Cons.prems by (simp add: items_append[OF assms(1)] cap_last_map[symmetric])
  from Cons.IH[OF this] show ?case using cap_last_append[OF assms(1), of "old @ [e]" es] by simp
qed

lemma clean_cap: "list_all clean_entry es \<Longrightarrow> list_all clean_entry (cap_last m es)"
  by (auto simp: list_all_iff cap_last_def last_slice_def dest: in_set_dropD)

text \<open>The audit log loses nothing but its oldest entries. Whatever else the session holds, after any
  number of appends the log reads back as the most recent \<open>max_entries\<close> of the entries it held and those
  appended, in order and field for field; reading never fails and no other key of the session changes.\<close>

lemma audit_log_reads_back:
  assumes "0 < max_entries" and "audit_items extra = map ops_to_payload old"
    and "list_all clean_entry (old @ es)"
  shows "read_agent_ops_audit h (JObj (foldl (append_agent_ops_audit max_entries) extra es))
      = Inr (if es = [] then old else cap_last max_entries (old @ es))
    \<and> (k = AUDIT_KEY \<or> dict_get (foldl (append_agent_ops_audit max_entries) extra es) k = dict_get extra k)"
proof
  show "read_agent_ops_audit h (JObj (foldl (append_agent_ops_audit max_entries) extra es))
      = Inr (if es = [] then old else cap_last max_entries (old @ es))"
    using assms(3) by (intro read_items) (auto simp: items_appends[OF assms(1,2)] clean_cap)
  have "k \<noteq> AUDIT_KEY \<Longrightarrow> dict_get (foldl (append_agent_ops_audit max_entries) extra es) k = dict_get extra k"
    by (induction es arbitrary: extra) (simp_all add: append_other_keys)
  then show "k = AUDIT_KEY \<or> dict_get (foldl (append_agent_ops_audit max_entries) extra es) k = dict_get extra k" by blast
qed

definition sample_entry :: ops_entry where
  "sample_entry = build_agent_ops_entry ''e1'' ''t'' (decide_autonomy ''d1'' ''t'' (new_context ''local_commit''))
     ''done'' None [''r''] None ''engineering-agent'' None"

end
