(* ===== verification/CompletionHook.thy ===== *)
theory CompletionHook
  imports AgentOps
begin

text \<open>
  The completion hook, \<open>agents/job_queue/completion_hook.py\<close>: the four standard end states, the routing hint
  for the next-task selector, and the audit entry every completion leaves. The ids and the time that
  \<open>decide_autonomy\<close> and \<open>build_agent_ops_entry\<close> draw are arguments.
\<close>

section \<open>End states\<close>

definition COMPLETION_DONE :: string where "COMPLETION_DONE = ''done''"
definition COMPLETION_BLOCKED :: string where "COMPLETION_BLOCKED = ''blocked''"
definition COMPLETION_NEEDS_APPROVAL :: string where "COMPLETION_NEEDS_APPROVAL = ''needs_approval''"
definition COMPLETION_RETRY_READY :: string where "COMPLETION_RETRY_READY = ''retry_ready''"

lemmas completion_names = COMPLETION_DONE_def COMPLETION_BLOCKED_def COMPLETION_NEEDS_APPROVAL_def COMPLETION_RETRY_READY_def

definition COMPLETION_STATUSES :: "string list" where
  "COMPLETION_STATUSES = [COMPLETION_DONE, COMPLETION_BLOCKED, COMPLETION_NEEDS_APPROVAL, COMPLETION_RETRY_READY]"

record completion_event =
  ev_job_id :: string
  ev_job_type :: string
  ev_session_id :: string
  ev_status :: string
  ev_reason :: string
  ev_role :: "string option"
  ev_metadata :: "json pydict"
  ev_completed_at :: string

record completion_routing =
  rt_status :: string
  rt_select_next :: bool
  rt_source :: "string option"
  rt_blocking_reason :: "string option"
  rt_audit_id :: "string option"

definition normalise_completion_status :: "string \<Rightarrow> string" where
  "normalise_completion_status value =
     (let raw = py_lower (py_strip value)
      in if raw \<in> {''done'', ''saved'', ''completed'', ''ok'', ''success''} then COMPLETION_DONE
         else if raw \<in> {''retry_ready'', ''failed_retryable'', ''retry'', ''transient''} then COMPLETION_RETRY_READY
         else if raw \<in> {''needs_approval'', ''pending_approval'', ''approval_required''} then COMPLETION_NEEDS_APPROVAL
         else COMPLETION_BLOCKED)"

definition source_for_done :: "string \<Rightarrow> string" where
  "source_for_done job_type =
     (case map_of [(''research_collect'', ''deliberation_after_research''), (''role_take'', ''synthesis_after_takes''),
        (''approval_post'', ''obsidian_or_coding_after_approval''), (''obsidian_write'', ''next_task_default''),
        (''coding_execute'', ''next_task_default'')] job_type of
        Some s \<Rightarrow> s | None \<Rightarrow> ''next_task_default'')"

definition build_routing :: "string \<Rightarrow> completion_event \<Rightarrow> completion_routing" where
  "build_routing status e =
     (if status = COMPLETION_DONE then
        \<lparr>rt_status = status, rt_select_next = True, rt_source = Some (source_for_done (ev_job_type e)),
         rt_blocking_reason = None, rt_audit_id = None\<rparr>
      else if status = COMPLETION_RETRY_READY then
        \<lparr>rt_status = status, rt_select_next = True, rt_source = Some ''retry_same'',
         rt_blocking_reason = None, rt_audit_id = None\<rparr>
      else if status = COMPLETION_NEEDS_APPROVAL then
        \<lparr>rt_status = status, rt_select_next = False, rt_source = None,
         rt_blocking_reason = Some ''awaiting_human_approval'', rt_audit_id = None\<rparr>
      else
        \<lparr>rt_status = status, rt_select_next = False, rt_source = None,
         rt_blocking_reason = Some (if ev_reason e \<noteq> [] then ev_reason e else ''blocked_external''), rt_audit_id = None\<rparr>)"

definition action_for_status :: "string \<Rightarrow> string" where
  "action_for_status status =
     (if status \<in> {COMPLETION_DONE, COMPLETION_RETRY_READY} then ''forum_handoff_decision'' else ''failure_audit_record'')"

definition default_reason_for :: "string \<Rightarrow> string" where
  "default_reason_for status = ''L1 '' @ utf8 [0x2014] @
     (if status = COMPLETION_DONE then '' job completed; next-task selector eligible''
      else if status = COMPLETION_RETRY_READY then '' transient failure; same source retry eligible''
      else if status = COMPLETION_NEEDS_APPROVAL then '' job awaiting human approval; selector deferred''
      else '' job blocked; operator surface notified'')"

definition summary_for_event :: "completion_event \<Rightarrow> string \<Rightarrow> string" where
  "summary_for_event e status =
     (let base = ev_job_type e @ '' '' @ utf8 [0xC644, 0xB8CC] @ '' (status='' @ status @ '')''
      in if ev_reason e \<noteq> [] then base @ '' '' @ utf8 [0x2014] @ '' '' @ ev_reason e else base)"

section \<open>Recording a completion\<close>

text \<open>The default of \<open>append_agent_ops_audit\<close>.\<close>

definition MAX_AUDIT_ENTRIES :: int where
  "MAX_AUDIT_ENTRIES = 200"

definition completion_decision :: "string \<Rightarrow> string \<Rightarrow> completion_event \<Rightarrow> autonomy_decision" where
  "completion_decision decision_id now e =
     (let status = normalise_completion_status (ev_status e)
      in decide_autonomy decision_id now ((new_context (action_for_status status))\<lparr>
           ac_session_id := ev_session_id e, ac_job_id := Some (ev_job_id e), ac_summary := summary_for_event e status,
           ac_reason := Some (if ev_reason e \<noteq> [] then ev_reason e else default_reason_for status)\<rparr>))"

definition completion_entry :: "string \<Rightarrow> string \<Rightarrow> string \<Rightarrow> completion_event \<Rightarrow> ops_entry" where
  "completion_entry decision_id entry_id now e =
     (let status = normalise_completion_status (ev_status e)
      in build_agent_ops_entry entry_id now (completion_decision decision_id now e)
           (''job_completion:'' @ status @ '':'' @ ev_job_type e) (Some (summary_for_event e status)) []
           (Some (ev_job_id e)) ''engineering-agent'' None)"

definition record_completion :: "string \<Rightarrow> string \<Rightarrow> string \<Rightarrow> completion_event \<Rightarrow> json pydict \<Rightarrow>
    json pydict \<times> completion_routing" where
  "record_completion decision_id entry_id now e extra =
     (let routing = build_routing (normalise_completion_status (ev_status e)) e;
          audit = completion_entry decision_id entry_id now e
      in (append_agent_ops_audit MAX_AUDIT_ENTRIES extra audit,
          routing\<lparr>rt_audit_id := Some (oe_entry_id audit)\<rparr>))"

section \<open>Every completion is audited at level 1\<close>

lemma completion_actions_low: "action_for_status s \<in> set LOW_ACTIONS \<and> default_level (action_for_status s) = L1_AUTO_RECORD_REQUIRED"
  by (simp add: action_for_status_def LOW_ACTIONS_def default_level_cases action_lists)

lemma completion_level: "ad_level (completion_decision i t e) = L1_AUTO_RECORD_REQUIRED"
  by (simp add: completion_decision_def Let_def decision_level demands_def new_context_def completion_actions_low)

lemma completion_entry_clean: "entry_id \<noteq> [] \<Longrightarrow> clean_entry (completion_entry d entry_id t e)"
  by (simp add: completion_entry_def Let_def build_clean)

lemma normalise_range: "normalise_completion_status v \<in> set COMPLETION_STATUSES"
  by (simp add: normalise_completion_status_def COMPLETION_STATUSES_def Let_def)

lemma status_distinct: "distinct COMPLETION_STATUSES"
  by (simp add: COMPLETION_STATUSES_def completion_names)

lemma routing_exact:
  "rt_status (build_routing s e) = s" "rt_select_next (build_routing s e) \<longleftrightarrow> s \<in> {COMPLETION_DONE, COMPLETION_RETRY_READY}"
  "rt_blocking_reason (build_routing s e) = None \<longleftrightarrow> rt_select_next (build_routing s e)"
  "rt_source (build_routing s e) = None \<longleftrightarrow> \<not> rt_select_next (build_routing s e)"
  "rt_blocking_reason (build_routing s e) \<noteq> Some []"
  by (simp_all add: build_routing_def)

text \<open>C36: Recording a completion maps any worker status to one of the four standard ones and fires the
  selector exactly for done and retry-ready, with a non-empty blocking reason in the other two cases. It
  appends one audit entry, of level 1 and naming the job and its status, whose id the routing carries; the
  log reads back as the last 200 entries and no other key of the session changes.\<close>

theorem completion_routed_and_audited:
  assumes "entry_id \<noteq> []" and "audit_items extra = map ops_to_payload old" and "list_all clean_entry old"
    and "record_completion d entry_id t e extra = (extra', r)"
  shows "rt_status r = normalise_completion_status (ev_status e) \<and> rt_status r \<in> set COMPLETION_STATUSES
    \<and> (rt_select_next r \<longleftrightarrow> rt_status r \<in> {COMPLETION_DONE, COMPLETION_RETRY_READY})
    \<and> (rt_blocking_reason r = None \<longleftrightarrow> rt_select_next r) \<and> rt_blocking_reason r \<noteq> Some []
    \<and> (\<exists>a. read_agent_ops_audit h (JObj extra') = Inr (cap_last 200 (old @ [a]))
          \<and> rt_audit_id r = Some (oe_entry_id a) \<and> oe_entry_id a = entry_id
          \<and> oe_level a = ''L1_AUTO_RECORD_REQUIRED'' \<and> oe_session_id a = ev_session_id e
          \<and> oe_outcome a = py_strip (''job_completion:'' @ rt_status r @ '':'' @ ev_job_type e))
    \<and> (k = AUDIT_KEY \<or> dict_get extra' k = dict_get extra k)"
proof -
  let ?a = "completion_entry d entry_id t e"
  have r: "r = (build_routing (normalise_completion_status (ev_status e)) e)\<lparr>rt_audit_id := Some (oe_entry_id ?a)\<rparr>"
    and x: "extra' = append_agent_ops_audit MAX_AUDIT_ENTRIES extra ?a"
    using assms(4) by (auto simp: record_completion_def Let_def)
  have items: "audit_items extra' = map ops_to_payload (cap_last 200 (old @ [?a]))"
    by (simp add: x items_append MAX_AUDIT_ENTRIES_def assms(2) cap_last_map[symmetric])
  have "list_all clean_entry (old @ [?a])" using assms(1,3) by (simp add: completion_entry_clean)
  then have "read_agent_ops_audit h (JObj extra') = Inr (cap_last 200 (old @ [?a]))"
    by (intro read_items[OF items] clean_cap)
  moreover have "oe_entry_id ?a = entry_id" "oe_level ?a = ''L1_AUTO_RECORD_REQUIRED''" "oe_session_id ?a = ev_session_id e"
    "oe_outcome ?a = py_strip (''job_completion:'' @ normalise_completion_status (ev_status e) @ '':'' @ ev_job_type e)"
    by (simp_all add: completion_entry_def build_agent_ops_entry_def Let_def completion_level)
      (simp add: completion_decision_def decide_autonomy_def Let_def split_beta)
  moreover have "k \<noteq> AUDIT_KEY \<Longrightarrow> dict_get extra' k = dict_get extra k" by (simp add: x append_other_keys)
  ultimately show ?thesis using normalise_range[of "ev_status e"] by (auto simp: r routing_exact)
qed

definition sample_event :: completion_event where
  "sample_event = \<lparr>ev_job_id = ''j1'', ev_job_type = ''role_take'', ev_session_id = ''s1'', ev_status = '' saved '',
     ev_reason = [], ev_role = None, ev_metadata = [], ev_completed_at = ''t''\<rparr>"

theorem completion_routed_and_audited_witness:
  "rt_select_next (snd (record_completion ''d1'' ''e1'' ''t'' sample_event []))
    \<and> (\<exists>a. read_agent_ops_audit plain_json (JObj (fst (record_completion ''d1'' ''e1'' ''t'' sample_event []))) = Inr (cap_last 200 [a]))"
proof -
  have "normalise_completion_status (ev_status sample_event) = COMPLETION_DONE"
    by (simp add: sample_event_def normalise_completion_status_def py_lower_def py_lower_char_def py_strip_def
        py_lstrip_def py_rstrip_def py_space_def)
  then show ?thesis
    using completion_routed_and_audited[OF _ _ _ prod.collapse[symmetric], of "''e1''" "[]" "[]" "''d1''" "''t''" sample_event plain_json]
    by (auto simp: audit_items_def)
qed

end
