(* ===== verification/CIRetry.thy ===== *)
theory CIRetry
  imports CIStatus CompletionHook
begin

text \<open>
  The CI retry orchestrator, \<open>agents/job_queue/ci_retry_orchestrator.py\<close>: one poll of a pull request fetches
  its CI status, records an attempt, decides, requeues or records the completion, and persists
  \<open>session.extra\<close>. \<open>build_coding_execute_request\<close> (here: the role and branch hint it returns, or that it
  raised) and \<open>worker.enqueue\<close> (the job id for a branch hint, or that it raised) are inputs of a poll, as are
  the GitHub answer, the clock and the fresh ids. The optional progress post has no effect on the result.
\<close>

section \<open>One poll\<close>

definition fetch_status :: "string \<Rightarrow> int \<Rightarrow> string \<Rightarrow> check_run list option \<Rightarrow> ci_status" where
  "fetch_status now pr_number head_sha answer = (case answer of
     None \<Rightarrow> \<lparr>ci_pr_number = pr_number, ci_head_sha = head_sha, ci_conclusion = CI_UNKNOWN, ci_fetched_at = [],
       ci_failing_runs = [], ci_pending_runs = []\<rparr>
   | Some runs \<Rightarrow> from_check_runs now pr_number head_sha runs None)"

definition PROGRESS_KEY :: string where
  "PROGRESS_KEY = ''coding_execute_progress''"

definition DISPATCH_KEY :: string where
  "DISPATCH_KEY = ''coding_execute_dispatch''"

definition progress_items :: "json pydict \<Rightarrow> json list" where
  "progress_items extra = (case dict_get extra PROGRESS_KEY of JList xs \<Rightarrow> xs | _ \<Rightarrow> [])"

definition append_progress :: "json pydict \<Rightarrow> int \<Rightarrow> string \<Rightarrow> string \<Rightarrow> string \<Rightarrow> int \<Rightarrow> string \<Rightarrow> json pydict" where
  "append_progress extra pr_number head_sha status reason attempts seen =
     AList.update PROGRESS_KEY (JList (cap_last 50 (progress_items extra @ [JObj [
       (''pr_number'', JInt pr_number), (''head_sha'', JStr head_sha), (''completion_status'', JStr status),
       (''reason'', JStr reason), (''attempt_count'', JInt attempts), (''at'', JStr seen)]]))) extra"

text \<open>\<open>base.rsplit("-attempt", 1)[0]\<close>: what precedes the last occurrence.\<close>

fun before_last :: "string \<Rightarrow> string \<Rightarrow> string" where
  "before_last k [] = []"
| "before_last k (c # cs) =
     (if py_contains k cs then c # before_last k cs else if prefix k (c # cs) then [] else c # cs)"

definition bump_branch_hint :: "json pydict \<Rightarrow> string \<Rightarrow> string \<Rightarrow> string" where
  "bump_branch_hint extra executor_role branch_hint =
     (let attempts = length (progress_items extra) + 1
      in if branch_hint = [] then ''agent/'' @ executor_role @ ''/retry-'' @ show_nat attempts
         else
           let base = (if py_contains ''-attempt'' branch_hint then before_last ''-attempt'' branch_hint else branch_hint)
           in base @ ''-attempt'' @ show_nat attempts)"

record poll =
  po_answer :: "check_run list option"
  po_head_sha :: string
  po_now :: string
  po_request :: "(string \<times> string) option"
  po_enqueue :: "string \<Rightarrow> string option"
  po_decision_id :: string
  po_entry_id :: string
  po_persists :: bool

definition requeue_coding_execute :: "poll \<Rightarrow> json pydict \<Rightarrow> string option" where
  "requeue_coding_execute p extra = (case po_request p of
     None \<Rightarrow> None
   | Some (role, hint) \<Rightarrow> po_enqueue p (bump_branch_hint extra role hint))"

record ci_decision =
  cd_pr_number :: int
  cd_head_sha :: string
  cd_completion_status :: string
  cd_reason :: string
  cd_attempt_count :: int
  cd_max_attempts :: int
  cd_wait_seconds :: pyfloat
  cd_requeued_job_id :: "string option"
  cd_audit_entry_id :: "string option"

text \<open>
  \<open>session_id\<close> and \<open>extra\<close> are the session's fields. The result is the decision and \<open>session.extra\<close> as stored
  afterwards; an unreadable retry log raises before anything is stored.
\<close>

definition terminal_completion :: "string \<Rightarrow> bool" where
  "terminal_completion s \<longleftrightarrow> s \<in> {COMPLETION_DONE, COMPLETION_BLOCKED, COMPLETION_NEEDS_APPROVAL}"

definition poll_completion :: "json_host \<Rightarrow> retry_policy \<Rightarrow> int \<Rightarrow> string \<Rightarrow> json pydict \<Rightarrow> poll \<Rightarrow> ci_status \<Rightarrow>
    retry_log \<Rightarrow> string \<Rightarrow> json pydict \<Rightarrow> json pydict \<times> string option" where
  "poll_completion h pol pr sid coding_job p status l done_status extra =
     (if terminal_completion done_status then
        let e = \<lparr>ev_job_id = json_str h (dict_get_or coding_job ''session_id'' (JStr sid)), ev_job_type = ''coding_execute'',
              ev_session_id = (if sid \<noteq> [] then sid else json_str h (dict_get_or coding_job ''session_id'' (JStr []))),
              ev_status = done_status, ev_reason = rv_reason (decide_retry status l pol), ev_role = None,
              ev_metadata = [(''pr_number'', JInt pr), (''head_sha'', JStr (po_head_sha p)),
                (''attempts'', JInt (rl_attempts l + 1)), (''ci_conclusion'', JStr (ci_conclusion status))],
              ev_completed_at = po_now p\<rparr>;
            (extra2, routing) = record_completion (po_decision_id p) (po_entry_id p) (po_now p) e extra
        in (extra2, rt_audit_id routing)
      else (extra, None))"

definition orchestrate_ci_retry :: "json_host \<Rightarrow> retry_policy \<Rightarrow> int \<Rightarrow> string \<Rightarrow> poll \<Rightarrow> json pydict \<Rightarrow>
    ci_error + (ci_decision \<times> json pydict)" where
  "orchestrate_ci_retry h pol pr sid p extra =
     (let coding_job = (case dict_get extra ''coding_job'' of JObj d \<Rightarrow> d | _ \<Rightarrow> []);
          status = fetch_status (po_now p) pr (po_head_sha p) (po_answer p)
      in and_then (read_retry_log h extra pr) (\<lambda>l.
         and_then (record_retry_attempt h extra pr (po_head_sha p)
             (Some (if is_failure status then ''ci_failure'' else ci_conclusion status)) (po_now p)) (\<lambda>extra1.
         let verdict = decide_retry status l pol;
             completion = derive_completion_status_from_ci status l pol;
             extra2 = append_progress extra1 pr (po_head_sha p) completion (rv_reason verdict) (rl_attempts l + 1) (po_now p);
             requeued = (if should_retry verdict then requeue_coding_execute p extra else None);
             extra3 = (if requeued \<noteq> None then AList.delete DISPATCH_KEY extra2 else extra2);
             (extra4, audit_id) = poll_completion h pol pr sid coding_job p status l completion extra3
         in Inr (\<lparr>cd_pr_number = pr, cd_head_sha = po_head_sha p, cd_completion_status = completion,
                  cd_reason = rv_reason verdict, cd_attempt_count = rl_attempts l + 1,
                  cd_max_attempts = max_attempts pol, cd_wait_seconds = wait_seconds verdict,
                  cd_requeued_job_id = requeued, cd_audit_entry_id = audit_id\<rparr>,
                 if po_persists p then extra4 else extra))))"

section \<open>What a poll does to the session\<close>

lemma dict_get_delete: "dict_get (AList.delete k d) k' = (if k' = k then JNull else dict_get d k')"
  by (simp add: dict_get_def delete_conv')

lemma read_log_frame: "dict_get extra' RETRY_LOG_KEY = dict_get extra RETRY_LOG_KEY \<Longrightarrow>
    read_retry_log h extra' n = read_retry_log h extra n"
  by (simp add: read_logs_cases)

lemma keys_distinct [simp]: "RETRY_LOG_KEY \<noteq> PROGRESS_KEY" "RETRY_LOG_KEY \<noteq> DISPATCH_KEY" "RETRY_LOG_KEY \<noteq> AUDIT_KEY"
  by (simp_all add: RETRY_LOG_KEY_def PROGRESS_KEY_def DISPATCH_KEY_def AUDIT_KEY_def)

lemma poll_completion_log: "dict_get (fst (poll_completion h pol pr sid cj p s l c extra)) RETRY_LOG_KEY = dict_get extra RETRY_LOG_KEY"
  by (simp add: poll_completion_def record_completion_def Let_def append_other_keys)

lemma poll_step:
  assumes "read_retry_log h extra pr = Inr l"
  obtains d extra' where "orchestrate_ci_retry h pol pr sid p extra = Inr (d, extra')"
    "cd_completion_status d = derive_completion_status_from_ci (fetch_status (po_now p) pr (po_head_sha p) (po_answer p)) l pol"
    "cd_requeued_job_id d = (if should_retry (decide_retry (fetch_status (po_now p) pr (po_head_sha p) (po_answer p)) l pol)
       then requeue_coding_execute p extra else None)"
    "cd_attempt_count d = rl_attempts l + 1"
    "\<not> po_persists p \<longrightarrow> extra' = extra"
    "po_persists p \<longrightarrow> (\<exists>l'. read_retry_log h extra' pr = Inr l' \<and> rl_attempts l' = rl_attempts l + 1)"
    "n \<noteq> pr \<longrightarrow> read_retry_log h extra' n = read_retry_log h extra n"
proof -
  define s where "s = fetch_status (po_now p) pr (po_head_sha p) (po_answer p)"
  obtain extra1 where e1: "record_retry_attempt h extra pr (po_head_sha p)
      (Some (if is_failure s then ''ci_failure'' else ci_conclusion s)) (po_now p) = Inr extra1"
    "read_retry_log h extra1 pr = Inr (appended (po_head_sha p) (Some (if is_failure s then ''ci_failure'' else ci_conclusion s)) (po_now p) l)"
    "\<And>n. n \<noteq> pr \<Longrightarrow> read_retry_log h extra1 n = read_retry_log h extra n"
    by (rule record_ok[OF assms, of "po_head_sha p" "Some (if is_failure s then ''ci_failure'' else ci_conclusion s)" "po_now p"]) blast
  define r where "r = (if should_retry (decide_retry s l pol) then requeue_coding_execute p extra else None)"
  define c where "c = derive_completion_status_from_ci s l pol"
  define extra2 where "extra2 = append_progress extra1 pr (po_head_sha p) c (rv_reason (decide_retry s l pol)) (rl_attempts l + 1) (po_now p)"
  define extra3 where "extra3 = (if r \<noteq> None then AList.delete DISPATCH_KEY extra2 else extra2)"
  define e4 where "e4 = poll_completion h pol pr sid (case dict_get extra ''coding_job'' of JObj d \<Rightarrow> d | _ \<Rightarrow> []) p s l c extra3"
  have "dict_get extra3 RETRY_LOG_KEY = dict_get extra1 RETRY_LOG_KEY"
    by (simp add: extra3_def extra2_def append_progress_def dict_get_update dict_get_delete)
  then have k: "read_retry_log h (fst e4) n = read_retry_log h extra1 n" for n
    by (intro read_log_frame) (simp add: e4_def poll_completion_log)
  obtain d where d: "orchestrate_ci_retry h pol pr sid p extra = Inr (d, if po_persists p then fst e4 else extra)"
    "cd_completion_status d = c" "cd_requeued_job_id d = r" "cd_attempt_count d = rl_attempts l + 1"
    by (simp add: orchestrate_ci_retry_def assms Let_def split_beta e1(1)[unfolded s_def] r_def c_def
        extra2_def extra3_def e4_def s_def)
  show ?thesis
    by (rule that[OF d(1)]) (simp_all add: d(2-4) c_def r_def s_def[symmetric] k e1(2,3) appended_def)
qed

lemma and_then_cases: "and_then r f = (case r of Inl e \<Rightarrow> Inl e | Inr x \<Rightarrow> f x)"
  by (cases r) simp_all

section \<open>Retries are bounded\<close>

definition log_attempts :: "json_host \<Rightarrow> int \<Rightarrow> json pydict \<Rightarrow> nat" where
  "log_attempts h pr extra = (case read_retry_log h extra pr of Inr l \<Rightarrow> nat (rl_attempts l) | Inl e \<Rightarrow> 0)"

definition log_readable :: "json_host \<Rightarrow> int \<Rightarrow> json pydict \<Rightarrow> bool" where
  "log_readable h pr extra \<longleftrightarrow> (\<exists>l. read_retry_log h extra pr = Inr l \<and> 0 \<le> rl_attempts l)"

text \<open>A poll that put a new job on the queue and stored that it did.\<close>

definition stored_retry :: "json_host \<Rightarrow> retry_policy \<Rightarrow> int \<Rightarrow> string \<Rightarrow> poll \<Rightarrow> json pydict \<Rightarrow> json pydict option" where
  "stored_retry h pol pr sid p extra = (case orchestrate_ci_retry h pol pr sid p extra of
     Inr (d, extra') \<Rightarrow> if cd_requeued_job_id d \<noteq> None \<and> po_persists p then Some extra' else None
   | Inl e \<Rightarrow> None)"

lemma retry_below_limit: "should_retry (decide_retry s l pol) \<Longrightarrow> rl_attempts l < max_attempts pol"
  by (auto simp: decide_retry_def split: if_splits)

lemma poll_readable:
  assumes "log_readable h pr extra"
  obtains d extra' where "orchestrate_ci_retry h pol pr sid p extra = Inr (d, extra')" "log_readable h pr extra'"
    "log_attempts h pr extra' = log_attempts h pr extra + (if po_persists p then 1 else 0)"
    "cd_requeued_job_id d \<noteq> None \<longrightarrow> log_attempts h pr extra < nat (max_attempts pol)"
proof -
  obtain l where l: "read_retry_log h extra pr = Inr l" "0 \<le> rl_attempts l" using assms by (auto simp: log_readable_def)
  obtain d extra' where P: "orchestrate_ci_retry h pol pr sid p extra = Inr (d, extra')"
    "cd_requeued_job_id d = (if should_retry (decide_retry (fetch_status (po_now p) pr (po_head_sha p) (po_answer p)) l pol)
       then requeue_coding_execute p extra else None)"
    "\<not> po_persists p \<longrightarrow> extra' = extra"
    "po_persists p \<longrightarrow> (\<exists>l'. read_retry_log h extra' pr = Inr l' \<and> rl_attempts l' = rl_attempts l + 1)"
    by (rule poll_step[OF l(1), of pol sid p pr]) blast
  have lim: "cd_requeued_job_id d \<noteq> None \<longrightarrow> rl_attempts l < max_attempts pol"
    using P(2) retry_below_limit by (auto split: if_splits)
  show ?thesis
  proof (cases "po_persists p")
    case True
    with P(4) obtain l' where "read_retry_log h extra' pr = Inr l'" "rl_attempts l' = rl_attempts l + 1" by blast
    with l lim True show ?thesis
      by (intro that[OF P(1)]) (auto simp: log_readable_def log_attempts_def nat_add_distrib)
  next
    case False
    with P(3) l lim assms show ?thesis by (intro that[OF P(1)]) (auto simp: log_attempts_def)
  qed
qed

interpretation ci: bounded_retry "log_attempts h pr" "nat (max_attempts pol)" "stored_retry h pol pr sid" "log_readable h pr"
  for h pr pol sid
proof
  fix x p y
  assume g: "log_readable h pr x" and r: "stored_retry h pol pr sid p x = Some y"
  obtain d x' where P: "orchestrate_ci_retry h pol pr sid p x = Inr (d, x')" "log_readable h pr x'"
    "log_attempts h pr x' = log_attempts h pr x + (if po_persists p then 1 else 0)"
    "cd_requeued_job_id d \<noteq> None \<longrightarrow> log_attempts h pr x < nat (max_attempts pol)"
    by (rule poll_readable[OF g])
  with r have "y = x' \<and> po_persists p \<and> cd_requeued_job_id d \<noteq> None" by (auto simp: stored_retry_def split: if_splits)
  with P show "log_attempts h pr y = Suc (log_attempts h pr x)" "log_attempts h pr x < nat (max_attempts pol)" "log_readable h pr y"
    by simp_all
qed

fun run_polls :: "json_host \<Rightarrow> retry_policy \<Rightarrow> int \<Rightarrow> string \<Rightarrow> poll list \<Rightarrow> json pydict \<Rightarrow>
    ci_error + (ci_decision list \<times> json pydict)" where
  "run_polls h pol pr sid [] extra = Inr ([], extra)"
| "run_polls h pol pr sid (p # ps) extra =
     and_then (orchestrate_ci_retry h pol pr sid p extra) (\<lambda>(d, extra1).
     and_then (run_polls h pol pr sid ps extra1) (\<lambda>(ds, extra2). Inr (d # ds, extra2)))"

definition requeues :: "ci_decision list \<Rightarrow> nat" where
  "requeues ds = length (filter (\<lambda>d. cd_requeued_job_id d \<noteq> None) ds)"

text \<open>The new jobs whose poll could not store that it made them.\<close>

definition unstored_requeues :: "poll list \<Rightarrow> ci_decision list \<Rightarrow> nat" where
  "unstored_requeues ps ds = length (filter (\<lambda>(p, d). \<not> po_persists p \<and> cd_requeued_job_id d \<noteq> None) (zip ps ds))"

lemma run_polls_retries:
  assumes "ci.retries h pr pol sid x0 n extra" and "log_readable h pr extra"
  shows "\<exists>ds extra' k. run_polls h pol pr sid ps extra = Inr (ds, extra') \<and> log_readable h pr extra' \<and> length ds = length ps
    \<and> ci.retries h pr pol sid x0 (n + k) extra' \<and> requeues ds = k + unstored_requeues ps ds
    \<and> log_attempts h pr extra' = log_attempts h pr extra + length (filter po_persists ps)
    \<and> (nat (max_attempts pol) \<le> log_attempts h pr extra \<longrightarrow> requeues ds = 0)"
  using assms
proof (induction ps arbitrary: n extra)
  case Nil
  then show ?case by (auto simp: requeues_def unstored_requeues_def intro: exI[of _ 0])
next
  case (Cons p ps)
  obtain d extra1 where P: "orchestrate_ci_retry h pol pr sid p extra = Inr (d, extra1)" "log_readable h pr extra1"
    "log_attempts h pr extra1 = log_attempts h pr extra + (if po_persists p then 1 else 0)"
    "cd_requeued_job_id d \<noteq> None \<longrightarrow> log_attempts h pr extra < nat (max_attempts pol)"
    by (rule poll_readable[OF Cons.prems(2)]) blast
  let ?k = "if cd_requeued_job_id d \<noteq> None \<and> po_persists p then 1 else 0"
  have step: "ci.retries h pr pol sid x0 (n + ?k) extra1"
  proof (cases "cd_requeued_job_id d \<noteq> None \<and> po_persists p")
    case True
    then have "stored_retry h pol pr sid p extra = Some extra1" using P(1) by (auto simp: stored_retry_def)
    then show ?thesis using ci.retries.grant[OF Cons.prems(1)] True by simp
  next
    case False
    then show ?thesis using ci.retries.other[OF Cons.prems(1) _ P(2)] P(3) by auto
  qed
  obtain ds extra' k where R: "run_polls h pol pr sid ps extra1 = Inr (ds, extra')" "log_readable h pr extra'" "length ds = length ps"
    "ci.retries h pr pol sid x0 (n + ?k + k) extra'" "requeues ds = k + unstored_requeues ps ds"
    "log_attempts h pr extra' = log_attempts h pr extra1 + length (filter po_persists ps)"
    "nat (max_attempts pol) \<le> log_attempts h pr extra1 \<longrightarrow> requeues ds = 0"
    using Cons.IH[OF step P(2)] by blast
  have "requeues (d # ds) = (?k + k) + unstored_requeues (p # ps) (d # ds)"
    using R(5) by (auto simp: requeues_def unstored_requeues_def)
  moreover have "nat (max_attempts pol) \<le> log_attempts h pr extra \<longrightarrow> requeues (d # ds) = 0"
    using P(3,4) R(7) by (auto simp: requeues_def)
  ultimately show ?case using P R by (intro exI[of _ "d # ds"] exI[of _ extra'] exI[of _ "?k + k"]) (simp add: add.assoc)
qed

text \<open>C24: However many times a pull request is polled, and whatever commits and results the polls see, the
  orchestrator never fails on a readable log, and the new jobs it puts on the queue are at most
  \<open>max_attempts\<close> minus the attempts already logged, plus those whose poll could not store the session
  afterwards: a failed save is swallowed and the attempt forgotten, so that such a job is not counted. Every poll whose
  session is stored counts one attempt, and once the attempts are used up no job is put on the queue at all, stored or not.\<close>

theorem ci_retries_bounded:
  assumes "read_retry_log h extra pr = Inr l" and "0 \<le> rl_attempts l"
  shows "\<exists>ds extra' l'. run_polls h pol pr sid ps extra = Inr (ds, extra') \<and> length ds = length ps
    \<and> int (requeues ds) \<le> max 0 (max_attempts pol - rl_attempts l)
        + int (length (filter (\<lambda>(p, d). \<not> po_persists p \<and> cd_requeued_job_id d \<noteq> None) (zip ps ds)))
    \<and> (max_attempts pol \<le> rl_attempts l \<longrightarrow> requeues ds = 0)
    \<and> read_retry_log h extra' pr = Inr l' \<and> rl_attempts l' = rl_attempts l + int (length (filter po_persists ps))"
proof -
  have g: "log_readable h pr extra" using assms by (auto simp: log_readable_def)
  obtain ds extra' k where R: "run_polls h pol pr sid ps extra = Inr (ds, extra')" "log_readable h pr extra'" "length ds = length ps"
    "ci.retries h pr pol sid extra (0 + k) extra'" "requeues ds = k + unstored_requeues ps ds"
    "log_attempts h pr extra' = log_attempts h pr extra + length (filter po_persists ps)"
    "nat (max_attempts pol) \<le> log_attempts h pr extra \<longrightarrow> requeues ds = 0"
    using run_polls_retries[OF ci.retries.none[OF g] g] by blast
  from R(2) obtain l' where l': "read_retry_log h extra' pr = Inr l'" "0 \<le> rl_attempts l'" by (auto simp: log_readable_def)
  have "k \<le> nat (max_attempts pol) - log_attempts h pr extra" using ci.retries_bound[OF R(4)] by simp
  then have "int (requeues ds) \<le> max 0 (max_attempts pol - rl_attempts l)
      + int (length (filter (\<lambda>(p, d). \<not> po_persists p \<and> cd_requeued_job_id d \<noteq> None) (zip ps ds)))"
    using assms R(5) by (simp add: log_attempts_def unstored_requeues_def)
  moreover have "rl_attempts l' = rl_attempts l + int (length (filter po_persists ps))" "max_attempts pol \<le> rl_attempts l \<longrightarrow> requeues ds = 0"
    using R(6,7) assms l' by (simp_all add: log_attempts_def nat_mono)
  ultimately show ?thesis using R(1,3) l'(1) by blast
qed

section \<open>Polls of a pending run\<close>

definition pending_poll :: "int \<Rightarrow> poll \<Rightarrow> bool" where
  "pending_poll pr p \<longleftrightarrow> is_pending (fetch_status (po_now p) pr (po_head_sha p) (po_answer p)) \<and> po_persists p"

lemma pending_no_retry: "is_pending s \<Longrightarrow> \<not> should_retry (decide_retry s l pol)"
  by (simp add: decide_retry_def)

lemma failure_past_limit:
  assumes "is_failure s" and "max_attempts pol \<le> rl_attempts l"
  shows "\<not> should_retry (decide_retry s l pol) \<and> derive_completion_status_from_ci s l pol = ''blocked''"
  using assms by (auto simp: decide_retry_def derive_completion_status_from_ci_def is_failure_def is_success_def
      is_pending_def ci_names)

lemma pending_polls:
  assumes "read_retry_log h extra pr = Inr l" and "list_all (pending_poll pr) ps"
  shows "\<exists>ds extra' l'. run_polls h pol pr sid ps extra = Inr (ds, extra') \<and> requeues ds = 0
    \<and> read_retry_log h extra' pr = Inr l' \<and> rl_attempts l' = rl_attempts l + int (length ps)"
  using assms
proof (induction ps arbitrary: extra l)
  case Nil
  then show ?case by (simp add: requeues_def)
next
  case (Cons p ps)
  obtain d extra1 where P: "orchestrate_ci_retry h pol pr sid p extra = Inr (d, extra1)"
    "cd_requeued_job_id d = (if should_retry (decide_retry (fetch_status (po_now p) pr (po_head_sha p) (po_answer p)) l pol)
       then requeue_coding_execute p extra else None)"
    "po_persists p \<longrightarrow> (\<exists>l'. read_retry_log h extra1 pr = Inr l' \<and> rl_attempts l' = rl_attempts l + 1)"
    by (rule poll_step[OF Cons.prems(1), of pol sid p pr]) blast
  have p: "pending_poll pr p" "list_all (pending_poll pr) ps" using Cons.prems(2) by simp_all
  then have n: "cd_requeued_job_id d = None" using P(2) by (simp add: pending_poll_def pending_no_retry)
  obtain l1 where l1: "read_retry_log h extra1 pr = Inr l1" "rl_attempts l1 = rl_attempts l + 1"
    using P(3) p(1) by (auto simp: pending_poll_def)
  from Cons.IH[OF l1(1) p(2)] show ?case using P(1) n l1(2) by (auto simp: requeues_def)
qed

lemma run_polls_snoc:
  "run_polls h pol pr sid (ps @ [p]) extra = and_then (run_polls h pol pr sid ps extra) (\<lambda>(ds, extra1).
     and_then (orchestrate_ci_retry h pol pr sid p extra1) (\<lambda>(d, extra2). Inr (ds @ [d], extra2)))"
proof (induction ps arbitrary: extra)
  case Nil
  then show ?case by (cases "orchestrate_ci_retry h pol pr sid p extra") auto
next
  case (Cons q ps)
  show ?case
  proof (cases "orchestrate_ci_retry h pol pr sid q extra")
    case (Inr r)
    then show ?thesis
      using Cons[of "snd r"]
      by (cases r; cases "run_polls h pol pr sid ps (snd r)") (auto split: prod.splits sum.splits simp: and_then_cases)
  qed simp
qed

text \<open>The retry budget is spent by waiting. Polls that find the checks still running requeue nothing, but
  each counts as an attempt: once there were \<open>max_attempts\<close> of them, the first real failure is reported
  blocked, and not a single retry was ever made.\<close>

lemma pending_polls_spend_budget:
  assumes "read_retry_log h extra pr = Inr l" and "list_all (pending_poll pr) ps"
    and "max_attempts pol \<le> rl_attempts l + int (length ps)"
    and "is_failure (fetch_status (po_now p) pr (po_head_sha p) (po_answer p))"
  shows "\<exists>ds d extra'. run_polls h pol pr sid (ps @ [p]) extra = Inr (ds @ [d], extra')
    \<and> requeues (ds @ [d]) = 0 \<and> cd_completion_status d = ''blocked''"
proof -
  obtain ds extra1 l1 where R: "run_polls h pol pr sid ps extra = Inr (ds, extra1)" "requeues ds = 0"
    "read_retry_log h extra1 pr = Inr l1" "rl_attempts l1 = rl_attempts l + int (length ps)"
    using pending_polls[OF assms(1,2)] by blast
  have F: "\<not> should_retry (decide_retry (fetch_status (po_now p) pr (po_head_sha p) (po_answer p)) l1 pol)
      \<and> derive_completion_status_from_ci (fetch_status (po_now p) pr (po_head_sha p) (po_answer p)) l1 pol = ''blocked''"
    using assms(3) R(4) by (intro failure_past_limit assms(4)) simp
  obtain d extra2 where D: "orchestrate_ci_retry h pol pr sid p extra1 = Inr (d, extra2)"
    "cd_completion_status d = ''blocked''" "cd_requeued_job_id d = None"
    by (rule poll_step[OF R(3), of pol sid p pr]) (use F in auto)
  then show ?thesis using R by (auto simp: run_polls_snoc requeues_def)
qed

definition sample_poll :: "string option \<Rightarrow> string option \<Rightarrow> poll" where
  "sample_poll status conclusion = \<lparr>po_answer = Some [\<lparr>run_name = Some ''build'', run_check_name = None,
     run_status = status, run_conclusion = conclusion\<rparr>], po_head_sha = ''abc'', po_now = ''t'',
     po_request = Some (''backend'', ''agent/backend/x''), po_enqueue = (\<lambda>b. Some ''job-2''), po_decision_id = ''d1'',
     po_entry_id = ''e1'', po_persists = True\<rparr>"

lemma sample_pending: "pending_poll 7 (sample_poll (Some ''queued'') None)"
  by (simp add: pending_poll_def sample_poll_def fetch_status_def from_check_runs_def tally_run_def run_pending_def
      or_text_def py_lower_def py_lower_char_def overall_def is_pending_def Let_def)

lemma sample_failing: "is_failure (fetch_status (po_now (sample_poll None (Some ''failure''))) 7
    (po_head_sha (sample_poll None (Some ''failure''))) (po_answer (sample_poll None (Some ''failure''))))"
  by (simp add: sample_poll_def fetch_status_def from_check_runs_def tally_run_def run_pending_def run_result_def
      CONCLUSION_MAP_def or_text_def py_lower_def py_lower_char_def overall_def is_failure_def Let_def)

lemma stored_polls: "filter (\<lambda>(p, d). \<not> po_persists p \<and> cd_requeued_job_id d \<noteq> None) (zip (replicate n (sample_poll a b)) ds) = []"
  by (auto simp: filter_empty_conv sample_poll_def dest: set_zip_leftD)

theorem ci_retries_bounded_witness:
  "\<exists>ds extra' l'. run_polls plain_json default_policy 7 ''s1'' (replicate 9 (sample_poll None (Some ''failure''))) [] = Inr (ds, extra')
    \<and> int (requeues ds) \<le> 3 \<and> read_retry_log plain_json extra' 7 = Inr l' \<and> rl_attempts l' = 9"
proof -
  have r: "read_retry_log plain_json [] 7 = Inr (empty_log 7)" by (simp add: read_retry_log_def)
  obtain ds extra' l' where R: "run_polls plain_json default_policy 7 ''s1'' (replicate 9 (sample_poll None (Some ''failure''))) [] = Inr (ds, extra')"
    "int (requeues ds) \<le> max 0 (max_attempts default_policy - rl_attempts (empty_log 7)) + int (length (filter
      (\<lambda>(p, d). \<not> po_persists p \<and> cd_requeued_job_id d \<noteq> None) (zip (replicate 9 (sample_poll None (Some ''failure''))) ds)))"
    "read_retry_log plain_json extra' 7 = Inr l'"
    "rl_attempts l' = rl_attempts (empty_log 7) + int (length (filter po_persists (replicate 9 (sample_poll None (Some ''failure'')))))"
    using ci_retries_bounded[OF r, of default_policy "''s1''" "replicate 9 (sample_poll None (Some ''failure''))"]
    by (auto simp: empty_log_def)
  have "rl_attempts l' = 9" using R(4) by (simp add: empty_log_def sample_poll_def)
  moreover have "int (requeues ds) \<le> 3"
    using R(2) unfolding stored_polls by (simp add: empty_log_def default_policy_def)
  ultimately show ?thesis using R(1,3) by blast
qed

end
