(* ===== verification/WorkerLoop.thy ===== *)
theory WorkerLoop
  imports Heartbeat
begin

text \<open>
  The loops that drive the queue, \<open>job_queue/worker_loop.py\<close>: \<open>run_worker_loop\<close> (one consumer) and
  \<open>run_supervisor_watch_loop\<close> (the watchdog). Both run until a shutdown event or a test limit, so each is a
  partial function of the events it meets, one record per iteration. What a job's processing and other
  processes do to the queue is a list of calls of the queue; sleeping changes nothing. Logging is left out.
\<close>

section \<open>The worker loop\<close>

record worker_config =
  wc_service_id :: string
  wc_heartbeats :: bool
  wc_job_types :: "string list"
  wc_roles :: "string list"
  wc_heartbeat_interval :: pyfloat
  wc_lease_seconds :: pyfloat
  wc_max_iterations :: "int option"

text \<open>
  One iteration as the loop meets it: the answer of the shutdown probe, the calls other processes made in the
  meantime, the clock, whether the heartbeat write fails, whether the queue is locked, the time \<open>pick\<close> reads,
  and what \<open>process_job\<close> does to the queue and whether it raises.
\<close>

record worker_event =
  we_shutdown :: bool
  we_others :: "queue_op list"
  we_clock :: pyfloat
  we_beat_fails :: bool
  we_busy :: bool
  we_pick_now :: pyfloat
  we_process :: "job \<Rightarrow> queue_op list \<times> bool"

record worker_state =
  ws_queue :: queue_db
  ws_beats :: heartbeat_db
  ws_last_heartbeat :: pyfloat
  ws_iterations :: nat
  ws_processed :: nat
  ws_failed :: nat
  ws_idle :: nat

definition worker_start :: "queue_db \<Rightarrow> heartbeat_db \<Rightarrow> worker_state" where
  "worker_start q hb = \<lparr>ws_queue = q, ws_beats = hb, ws_last_heartbeat = 0, ws_iterations = 0, ws_processed = 0,
     ws_failed = 0, ws_idle = 0\<rparr>"

definition worker_beat :: "worker_config \<Rightarrow> worker_event \<Rightarrow> worker_state \<Rightarrow> worker_state" where
  "worker_beat c e st =
     (if wc_heartbeats c \<and> wc_heartbeat_interval c \<le> we_clock e - ws_last_heartbeat st
      then st\<lparr>ws_beats := (if we_beat_fails e then ws_beats st
                          else snd (record_beat (wc_service_id c) None None (we_clock e) (ws_beats st))),
              ws_last_heartbeat := we_clock e\<rparr>
      else st)"

definition worker_take :: "worker_config \<Rightarrow> worker_event \<Rightarrow> worker_state \<Rightarrow> worker_state" where
  "worker_take c e st =
     (case pick (we_busy e) (wc_service_id c) (wc_job_types c) (wc_roles c) (wc_lease_seconds c) (we_pick_now e) (ws_queue st) of
        (Inl err, q) \<Rightarrow> st\<lparr>ws_queue := q, ws_idle := ws_idle st + 1\<rparr>
      | (Inr None, q) \<Rightarrow> st\<lparr>ws_queue := q, ws_idle := ws_idle st + 1\<rparr>
      | (Inr (Some j), q) \<Rightarrow>
          (case we_process e j of
             (ops, True) \<Rightarrow> st\<lparr>ws_queue := run_queue ops q, ws_failed := ws_failed st + 1\<rparr>
           | (ops, False) \<Rightarrow> st\<lparr>ws_queue := run_queue ops q, ws_processed := ws_processed st + 1\<rparr>))"

definition worker_iteration :: "worker_config \<Rightarrow> worker_event \<Rightarrow> worker_state \<Rightarrow> worker_state" where
  "worker_iteration c e st =
     worker_take c e (worker_beat c e
       (st\<lparr>ws_iterations := ws_iterations st + 1, ws_queue := run_queue (we_others e) (ws_queue st)\<rparr>))"

definition worker_stops :: "worker_config \<Rightarrow> worker_event \<Rightarrow> nat \<Rightarrow> bool" where
  "worker_stops c e k \<longleftrightarrow> we_shutdown e \<or> (case wc_max_iterations c of None \<Rightarrow> False | Some m \<Rightarrow> m \<le> int k)"

partial_function (option) run_worker_loop :: "worker_config \<Rightarrow> (nat \<Rightarrow> worker_event) \<Rightarrow> worker_state \<Rightarrow> worker_state option" where
  "run_worker_loop c ev st =
     (if worker_stops c (ev (ws_iterations st)) (ws_iterations st) then Some st
      else run_worker_loop c ev (worker_iteration c (ev (ws_iterations st)) st))"

section \<open>The supervisor watch loop\<close>

text \<open>The three optional side tasks, each with its spacing; \<open>None\<close> for a task that is not configured.\<close>

datatype side_task = StatusPost | AutonomyTick | SelfImprovement

record watch_config =
  wa_deadline :: pyfloat
  wa_max_iterations :: "int option"
  wa_interval :: "side_task \<Rightarrow> pyfloat option"

record watch_event =
  va_shutdown :: bool
  va_others :: "queue_op list"
  va_beat_fails :: bool
  va_beat_now :: pyfloat
  va_sweep_fails :: bool
  va_sweep_now :: pyfloat
  va_clock :: "side_task \<Rightarrow> pyfloat"

text \<open>\<open>vs_log\<close> records when each side task ran, oldest first.\<close>

record watch_state =
  vs_queue :: queue_db
  vs_beats :: heartbeat_db
  vs_iterations :: nat
  vs_last :: "side_task \<Rightarrow> pyfloat option"
  vs_log :: "(side_task \<times> pyfloat) list"
  vs_reports :: "sweep_report list"

definition SUPERVISOR_SERVICE_ID :: string where
  "SUPERVISOR_SERVICE_ID = ''eng-supervisor-watch''"

definition watch_start :: "queue_db \<Rightarrow> heartbeat_db \<Rightarrow> watch_state" where
  "watch_start q hb = \<lparr>vs_queue = q, vs_beats = hb, vs_iterations = 0, vs_last = (\<lambda>_. None), vs_log = [], vs_reports = []\<rparr>"

definition task_enabled :: "watch_config \<Rightarrow> side_task \<Rightarrow> bool" where
  "task_enabled c t \<longleftrightarrow> (case wa_interval c t of None \<Rightarrow> False | Some i \<Rightarrow> 0 < i)"

definition side_task_gate :: "watch_config \<Rightarrow> watch_event \<Rightarrow> side_task \<Rightarrow> watch_state \<Rightarrow> watch_state" where
  "side_task_gate c e t st =
     (if \<not> task_enabled c t then st
      else
        let now_clock = va_clock e t;
            interval = (case wa_interval c t of Some i \<Rightarrow> i | None \<Rightarrow> 0)
        in if (case vs_last st t of None \<Rightarrow> True | Some l \<Rightarrow> interval \<le> now_clock - l)
           then st\<lparr>vs_log := vs_log st @ [(t, now_clock)], vs_last := (vs_last st)(t := Some now_clock)\<rparr>
           else st)"

definition supervisor_metadata :: "watch_config \<Rightarrow> nat \<Rightarrow> json pydict" where
  "supervisor_metadata c n = [(''iteration'', JInt (int n)), (''deadline_seconds'', JNum (wa_deadline c)),
     (''post_enabled'', JBool (task_enabled c StatusPost)), (''autonomy_enabled'', JBool (task_enabled c AutonomyTick)),
     (''si_enabled'', JBool (task_enabled c SelfImprovement))]"

definition watch_iteration :: "watch_config \<Rightarrow> int \<Rightarrow> watch_event \<Rightarrow> watch_state \<Rightarrow> watch_state" where
  "watch_iteration c supervisor_pid e st0 =
     (let n = vs_iterations st0 + 1;
          st = st0\<lparr>vs_iterations := n, vs_queue := run_queue (va_others e) (vs_queue st0),
            vs_beats := (if va_beat_fails e then vs_beats st0
              else snd (record_beat SUPERVISOR_SERVICE_ID (Some supervisor_pid) (Some (supervisor_metadata c n)) (va_beat_now e) (vs_beats st0)))\<rparr>
      in if va_sweep_fails e then st
         else
           let (report, q) = run_supervisor_sweep (wa_deadline c) (va_sweep_now e) (vs_beats st) (vs_queue st)
           in side_task_gate c e SelfImprovement (side_task_gate c e AutonomyTick (side_task_gate c e StatusPost
                (st\<lparr>vs_queue := q, vs_reports := vs_reports st @ [report]\<rparr>))))"

definition watch_stops :: "watch_config \<Rightarrow> watch_event \<Rightarrow> nat \<Rightarrow> bool" where
  "watch_stops c e k \<longleftrightarrow> va_shutdown e \<or> (case wa_max_iterations c of None \<Rightarrow> False | Some m \<Rightarrow> m \<le> int k)"

partial_function (option) run_supervisor_watch_loop :: "watch_config \<Rightarrow> int \<Rightarrow> (nat \<Rightarrow> watch_event) \<Rightarrow> watch_state \<Rightarrow> watch_state option" where
  "run_supervisor_watch_loop c supervisor_pid ev st =
     (if watch_stops c (ev (vs_iterations st)) (vs_iterations st) then Some st
      else run_supervisor_watch_loop c supervisor_pid ev (watch_iteration c supervisor_pid (ev (vs_iterations st)) st))"

text \<open>
  One self-improvement tick: the pairs handed to \<open>dispatch_fn\<close>, in order. \<open>None\<close> is a detector or a planner
  that raised; whether a dispatch raises changes nothing.
\<close>

definition self_improvement_tick :: "'s list option \<Rightarrow> ('s \<Rightarrow> 'p option) \<Rightarrow> ('s \<times> 'p) list" where
  "self_improvement_tick signals plan = (case signals of
     None \<Rightarrow> []
   | Some ss \<Rightarrow> List.map_filter (\<lambda>s. map_option (Pair s) (plan s)) ss)"

section \<open>Both loops as event loops\<close>

lemma worker_count: "ws_iterations (worker_iteration c e st) = Suc (ws_iterations st)"
  by (simp add: worker_iteration_def worker_take_def worker_beat_def split: prod.split sum.split option.split bool.split)

lemma side_task_frame [simp]: "vs_iterations (side_task_gate c e t st) = vs_iterations st"
  "vs_queue (side_task_gate c e t st) = vs_queue st" "vs_beats (side_task_gate c e t st) = vs_beats st"
  "vs_reports (side_task_gate c e t st) = vs_reports st"
  by (simp_all add: side_task_gate_def Let_def)

lemma watch_count: "vs_iterations (watch_iteration c pid e st) = Suc (vs_iterations st)"
  by (simp add: watch_iteration_def Let_def split_beta)

lemma worker_loop_stopped:
  assumes "run_worker_loop c ev st = Some t"
  shows "worker_stops c (ev (ws_iterations t)) (ws_iterations t) \<and> ws_iterations st \<le> ws_iterations t"
proof (rule run_worker_loop.raw_induct[OF _ assms, where P = "\<lambda>c ev st t.
    worker_stops c (ev (ws_iterations t)) (ws_iterations t) \<and> ws_iterations st \<le> ws_iterations t"])
  fix loop c ev st t
  assume IH: "\<And>c ev st t. loop c ev st = Some t \<Longrightarrow>
      worker_stops c (ev (ws_iterations t)) (ws_iterations t) \<and> ws_iterations st \<le> ws_iterations t"
    and step: "(if worker_stops c (ev (ws_iterations st)) (ws_iterations st) then Some st
      else loop c ev (worker_iteration c (ev (ws_iterations st)) st)) = Some t"
  show "worker_stops c (ev (ws_iterations t)) (ws_iterations t) \<and> ws_iterations st \<le> ws_iterations t"
  proof (cases "worker_stops c (ev (ws_iterations st)) (ws_iterations st)")
    case False
    with IH[of c ev "worker_iteration c (ev (ws_iterations st)) st" t] step show ?thesis by (simp add: worker_count)
  qed (use step in simp)
qed

lemma watch_loop_stopped:
  assumes "run_supervisor_watch_loop c pid ev st = Some t"
  shows "watch_stops c (ev (vs_iterations t)) (vs_iterations t) \<and> vs_iterations st \<le> vs_iterations t"
proof (rule run_supervisor_watch_loop.raw_induct[OF _ assms, where P = "\<lambda>c pid ev st t.
    watch_stops c (ev (vs_iterations t)) (vs_iterations t) \<and> vs_iterations st \<le> vs_iterations t"])
  fix loop c pid ev st t
  assume IH: "\<And>c pid ev st t. loop c pid ev st = Some t \<Longrightarrow>
      watch_stops c (ev (vs_iterations t)) (vs_iterations t) \<and> vs_iterations st \<le> vs_iterations t"
    and step: "(if watch_stops c (ev (vs_iterations st)) (vs_iterations st) then Some st
      else loop c pid ev (watch_iteration c pid (ev (vs_iterations st)) st)) = Some t"
  show "watch_stops c (ev (vs_iterations t)) (vs_iterations t) \<and> vs_iterations st \<le> vs_iterations t"
  proof (cases "watch_stops c (ev (vs_iterations st)) (vs_iterations st)")
    case False
    with IH[of c pid ev "watch_iteration c pid (ev (vs_iterations st)) st" t] step show ?thesis by (simp add: watch_count)
  qed (use step in simp)
qed

interpretation wk: event_loop "worker_stops c" "worker_iteration c" ws_iterations "run_worker_loop c" for c
proof
  fix e s show "ws_iterations (worker_iteration c e s) = Suc (ws_iterations s)" by (rule worker_count)
next
  fix ev s
  show "run_worker_loop c ev s = (if worker_stops c (ev (ws_iterations s)) (ws_iterations s) then Some s
      else run_worker_loop c ev (worker_iteration c (ev (ws_iterations s)) s))"
    by (rule run_worker_loop.simps)
qed (use worker_loop_stopped in blast)+

interpretation wt: event_loop "watch_stops c" "watch_iteration c pid" vs_iterations "run_supervisor_watch_loop c pid" for c pid
proof
  fix e s show "vs_iterations (watch_iteration c pid e s) = Suc (vs_iterations s)" by (rule watch_count)
next
  fix ev s
  show "run_supervisor_watch_loop c pid ev s = (if watch_stops c (ev (vs_iterations s)) (vs_iterations s) then Some s
      else run_supervisor_watch_loop c pid ev (watch_iteration c pid (ev (vs_iterations s)) s))"
    by (rule run_supervisor_watch_loop.simps)
qed (use watch_loop_stopped in blast)+

end
