(* ===== verification/WorkerLoopProps.thy ===== *)
theory WorkerLoopProps
  imports WorkerLoop
begin

text \<open>
  What the two loops do over any number of iterations: the worker loop's effect on the queue is a history of
  queue calls, a looping worker stays alive in the heartbeat table, and the watchdog frees expired leases and
  spaces its side tasks.
\<close>

section \<open>The worker loop\<close>

text \<open>What one iteration does, told from the queue it starts with: the calls of other processes, one pick with the
  arguments of the worker, and the calls of the job that was picked.\<close>

definition turn_pick :: "worker_config \<Rightarrow> worker_event \<Rightarrow> queue_op" where
  "turn_pick c e = OpPick (we_busy e) (wc_service_id c) (wc_job_types c) (wc_roles c) (wc_lease_seconds c) (we_pick_now e)"

definition turn_job :: "worker_config \<Rightarrow> worker_event \<Rightarrow> queue_db \<Rightarrow> job option" where
  "turn_job c e q = (case pick (we_busy e) (wc_service_id c) (wc_job_types c) (wc_roles c) (wc_lease_seconds c) (we_pick_now e)
       (run_queue (we_others e) q) of (Inr (Some j), _) \<Rightarrow> Some j | _ \<Rightarrow> None)"

definition turn_calls :: "worker_config \<Rightarrow> worker_event \<Rightarrow> queue_db \<Rightarrow> queue_op list" where
  "turn_calls c e q = we_others e @ turn_pick c e # (case turn_job c e q of None \<Rightarrow> [] | Some j \<Rightarrow> fst (we_process e j))"

primrec calls_before :: "worker_config \<Rightarrow> (nat \<Rightarrow> worker_event) \<Rightarrow> queue_db \<Rightarrow> nat \<Rightarrow> queue_op list" where
  "calls_before c ev q 0 = []"
| "calls_before c ev q (Suc k) = calls_before c ev q k @ turn_calls c (ev k) (run_queue (calls_before c ev q k) q)"

lemma worker_iteration_calls:
  "ws_queue (worker_iteration c e st) = run_queue (turn_calls c e (ws_queue st)) (ws_queue st)
   \<and> ws_processed (worker_iteration c e st)
      = ws_processed st + (if \<exists>j. turn_job c e (ws_queue st) = Some j \<and> \<not> snd (we_process e j) then 1 else 0)
   \<and> ws_failed (worker_iteration c e st)
      = ws_failed st + (if \<exists>j. turn_job c e (ws_queue st) = Some j \<and> snd (we_process e j) then 1 else 0)
   \<and> ws_idle (worker_iteration c e st) = ws_idle st + (if turn_job c e (ws_queue st) = None then 1 else 0)"
proof -
  let ?q = "run_queue (we_others e) (ws_queue st)"
  obtain r q' where p: "pick (we_busy e) (wc_service_id c) (wc_job_types c) (wc_roles c) (wc_lease_seconds c) (we_pick_now e) ?q = (r, q')"
    by fastforce
  obtain st1 where b: "worker_beat c e (st\<lparr>ws_iterations := ws_iterations st + 1, ws_queue := ?q\<rparr>) = st1" "ws_queue st1 = ?q"
    "ws_processed st1 = ws_processed st" "ws_failed st1 = ws_failed st" "ws_idle st1 = ws_idle st"
    by (simp add: worker_beat_def)
  have q': "apply_op (turn_pick c e) ?q = q'" by (simp add: turn_pick_def p)
  show ?thesis
  proof (cases "\<exists>j. r = Inr (Some j)")
    case True
    then obtain j where j: "r = Inr (Some j)" by blast
    obtain ops f where o: "we_process e j = (ops, f)" by (cases "we_process e j")
    have t: "turn_job c e (ws_queue st) = Some j" by (simp add: turn_job_def p j)
    show ?thesis unfolding worker_iteration_def b(1)
      by (cases f) (simp_all add: worker_take_def b p j o t turn_calls_def q')
  next
    case False
    then have t: "turn_job c e (ws_queue st) = None" by (simp add: turn_job_def p split: sum.split option.split)
    show ?thesis unfolding worker_iteration_def b(1)
      using False by (auto simp: worker_take_def b p t turn_calls_def q' split: sum.split option.split)
  qed
qed

lemma card_below_Suc: "card {i. i < Suc k \<and> P i} = card {i. i < k \<and> P i} + (if P k then 1 else 0)"
proof -
  have "{i. i < Suc k \<and> P i} = {i. i < k \<and> P i} \<union> (if P k then {k} else {})" by (auto simp: less_Suc_eq)
  then show ?thesis by auto
qed

text \<open>The worker after \<open>k\<close> iterations.\<close>

lemma worker_run:
  fixes c :: worker_config
  defines "J \<equiv> \<lambda>ev q k. turn_job c (ev k) (run_queue (calls_before c ev q k) q)"
  shows "ws_iterations (wk.run c ev (worker_start q hb) k) = k
    \<and> ws_queue (wk.run c ev (worker_start q hb) k) = run_queue (calls_before c ev q k) q
    \<and> ws_processed (wk.run c ev (worker_start q hb) k) = card {i. i < k \<and> (\<exists>j. J ev q i = Some j \<and> \<not> snd (we_process (ev i) j))}
    \<and> ws_failed (wk.run c ev (worker_start q hb) k) = card {i. i < k \<and> (\<exists>j. J ev q i = Some j \<and> snd (we_process (ev i) j))}
    \<and> ws_idle (wk.run c ev (worker_start q hb) k) = card {i. i < k \<and> J ev q i = None}"
proof (induction k)
  case 0
  show ?case by (simp add: worker_start_def)
next
  case (Suc k)
  have s: "wk.run c ev (worker_start q hb) (Suc k) = worker_iteration c (ev k) (wk.run c ev (worker_start q hb) k)"
    using Suc by simp
  have i: "ws_iterations (wk.run c ev (worker_start q hb) (Suc k)) = Suc k" using Suc by (simp only: s worker_count)
  note it = worker_iteration_calls[of c "ev k" "wk.run c ev (worker_start q hb) k"]
  show ?case unfolding card_below_Suc using i it Suc unfolding s by (simp add: J_def)
qed

text \<open>C30: The worker loop ends exactly at the first iteration where shutdown is requested or the iteration
  limit is met, and never otherwise: a queue error, an empty queue or a job that raises does not end it. Iteration \<open>k\<close>
  makes exactly one pick, under the worker's own name, types, roles and lease, after what other processes did, and then the calls of the
  job that the pick returned, if it returned one. The queue at the end is what these calls
  made of it, in this order and without any other. The counters tell how many iterations
  processed their job, how many had a job that raised, and how many got none.\<close>

theorem worker_loop_serves:
  "let stops = (\<lambda>k. we_shutdown (ev k) \<or> (case wc_max_iterations c of None \<Rightarrow> False | Some m \<Rightarrow> m \<le> int k))
   in case run_worker_loop c ev (worker_start q hb) of
     None \<Rightarrow> \<forall>k. \<not> stops k
   | Some st \<Rightarrow> stops (ws_iterations st) \<and> (\<forall>k < ws_iterations st. \<not> stops k)
       \<and> (\<exists>J. let call = (\<lambda>k. we_others (ev k)
              @ OpPick (we_busy (ev k)) (wc_service_id c) (wc_job_types c) (wc_roles c) (wc_lease_seconds c) (we_pick_now (ev k))
              # (case J k of None \<Rightarrow> [] | Some j \<Rightarrow> fst (we_process (ev k) j)));
              Q = (\<lambda>k. run_queue (concat (map call [0..<k])) q)
            in (\<forall>k. J k = (case pick (we_busy (ev k)) (wc_service_id c) (wc_job_types c) (wc_roles c) (wc_lease_seconds c) (we_pick_now (ev k))
                    (run_queue (we_others (ev k)) (Q k)) of (Inr (Some j), _) \<Rightarrow> Some j | _ \<Rightarrow> None))
              \<and> ws_queue st = Q (ws_iterations st)
              \<and> ws_processed st = card {k. k < ws_iterations st \<and> (\<exists>j. J k = Some j \<and> \<not> snd (we_process (ev k) j))}
              \<and> ws_failed st = card {k. k < ws_iterations st \<and> (\<exists>j. J k = Some j \<and> snd (we_process (ev k) j))}
              \<and> ws_idle st = card {k. k < ws_iterations st \<and> J k = None})"
proof (cases rule: wk.loop_result[of c ev "worker_start q hb"])
  case (returns n)
  define J where "J = (\<lambda>k. turn_job c (ev k) (run_queue (calls_before c ev q k) q))"
  have z: "ws_iterations (worker_start q hb) = 0" by (simp add: worker_start_def)
  have calls: "concat (map (\<lambda>k. we_others (ev k)
      @ OpPick (we_busy (ev k)) (wc_service_id c) (wc_job_types c) (wc_roles c) (wc_lease_seconds c) (we_pick_now (ev k))
      # (case J k of None \<Rightarrow> [] | Some j \<Rightarrow> fst (we_process (ev k) j))) [0..<k]) = calls_before c ev q k" for k
    by (induction k) (simp_all add: turn_calls_def turn_pick_def J_def)
  have job: "J k = (case pick (we_busy (ev k)) (wc_service_id c) (wc_job_types c) (wc_roles c) (wc_lease_seconds c) (we_pick_now (ev k))
      (run_queue (we_others (ev k)) (run_queue (calls_before c ev q k) q)) of (Inr (Some j), _) \<Rightarrow> Some j | _ \<Rightarrow> None)" for k
    by (simp add: J_def turn_job_def)
  let ?st = "wk.run c ev (worker_start q hb) n"
  have run: "ws_iterations ?st = n" "ws_queue ?st = run_queue (calls_before c ev q n) q"
    "ws_processed ?st = card {k. k < n \<and> (\<exists>j. J k = Some j \<and> \<not> snd (we_process (ev k) j))}"
    "ws_failed ?st = card {k. k < n \<and> (\<exists>j. J k = Some j \<and> snd (we_process (ev k) j))}"
    "ws_idle ?st = card {k. k < n \<and> J k = None}"
    using worker_run[of c ev q hb n] unfolding J_def by blast+
  have "worker_stops c (ev n) n" "\<forall>k < n. \<not> worker_stops c (ev k) k" using returns(2,3) by (simp_all add: z)
  then show ?thesis
    unfolding Let_def returns(1) option.case run worker_stops_def
    by (intro conjI exI[of _ J]) (simp_all add: calls job[symmetric])
next
  case forever
  then show ?thesis by (simp add: worker_start_def worker_stops_def)
qed

section \<open>A looping worker stays alive\<close>

lemma get_beat_record: "s \<noteq> [] \<Longrightarrow> get_beat (snd (record_beat s pid md now db)) s
    = Some \<lparr>hb_service = s, hb_last_beat = now, hb_pid = pid, hb_metadata = (case md of None \<Rightarrow> [] | Some m \<Rightarrow> m)\<rparr>"
  by (simp add: record_beat_ok get_beat_def find_key_upsert Let_def)

text \<open>After an iteration that read the clock as \<open>t\<close>.\<close>

definition beat_fresh :: "worker_config \<Rightarrow> pyfloat \<Rightarrow> worker_state \<Rightarrow> bool" where
  "beat_fresh c t st \<longleftrightarrow> (\<exists>r. get_beat (ws_beats st) (wc_service_id c) = Some r \<and> hb_last_beat r = ws_last_heartbeat st
     \<and> t - hb_last_beat r \<le> max 0 (wc_heartbeat_interval c))"

lemma worker_take_beats [simp]: "ws_beats (worker_take c e st) = ws_beats st"
  "ws_last_heartbeat (worker_take c e st) = ws_last_heartbeat st"
  by (simp_all add: worker_take_def split: prod.split sum.split option.split bool.split)

lemma beat_step:
  assumes "wc_heartbeats c" and "wc_service_id c \<noteq> []" and "\<not> we_beat_fails e"
    and "wc_heartbeat_interval c \<le> we_clock e - ws_last_heartbeat st \<or> beat_fresh c t st"
  shows "beat_fresh c (we_clock e) (worker_iteration c e st)"
proof (cases "wc_heartbeat_interval c \<le> we_clock e - ws_last_heartbeat st")
  case True
  with assms(1-3) show ?thesis by (simp add: beat_fresh_def worker_iteration_def worker_beat_def get_beat_record)
next
  case False
  with assms(4) obtain r where "get_beat (ws_beats st) (wc_service_id c) = Some r" "hb_last_beat r = ws_last_heartbeat st"
    by (auto simp: beat_fresh_def)
  with False show ?thesis by (simp add: beat_fresh_def worker_iteration_def worker_beat_def)
qed

lemma run_fresh:
  assumes "wc_heartbeats c" and "wc_service_id c \<noteq> []" and "\<And>k. \<not> we_beat_fails (ev k)"
    and "wc_heartbeat_interval c \<le> we_clock (ev 0)"
  shows "beat_fresh c (we_clock (ev k)) (wk.run c ev (worker_start q hb) (Suc k))"
proof (induction k)
  case 0
  have "wc_heartbeat_interval c \<le> we_clock (ev 0) - ws_last_heartbeat (worker_start q hb)"
    using assms(4) by (simp add: worker_start_def)
  then have "beat_fresh c (we_clock (ev 0)) (worker_iteration c (ev 0) (worker_start q hb))"
    by (intro beat_step[OF assms(1,2,3)] disjI1)
  then show ?case by (simp add: worker_start_def)
next
  case (Suc k)
  have "ws_iterations (wk.run c ev (worker_start q hb) (Suc k)) = Suc k"
    by (simp only: wk.count_run) (simp add: worker_start_def)
  then have e: "wk.run c ev (worker_start q hb) (Suc (Suc k))
      = worker_iteration c (ev (Suc k)) (wk.run c ev (worker_start q hb) (Suc k))" by simp
  show ?case unfolding e using Suc by (intro beat_step[OF assms(1,2,3)] disjI2)
qed

text \<open>A worker that keeps looping is never taken for dead. While its heartbeat writes succeed, after
  every iteration its row in the heartbeat table is alive at the time that iteration read, whatever deadline
  of at least the heartbeat interval is used.\<close>

lemma looping_worker_alive:
  assumes "wc_heartbeats c" and "wc_service_id c \<noteq> []" and "\<And>k. \<not> we_beat_fails (ev k)"
    and "wc_heartbeat_interval c \<le> we_clock (ev 0)" and "wc_heartbeat_interval c \<le> deadline"
    and "run_worker_loop c ev (worker_start q hb) = Some st" and "ws_iterations st = Suc k"
  shows "\<exists>r. get_beat (ws_beats st) (wc_service_id c) = Some r \<and> is_alive (we_clock (ev k)) deadline r"
proof (cases rule: wk.loop_result[of c ev "worker_start q hb"])
  case (returns n)
  then have s: "st = wk.run c ev (worker_start q hb) n" using assms(6) by simp
  then have "n = Suc k" using assms(7) by (simp add: wk.count_run) (simp add: worker_start_def)
  then have "beat_fresh c (we_clock (ev k)) st" unfolding s using run_fresh[of c ev, OF assms(1-4)] by simp
  then show ?thesis using assms(5) by (auto simp: beat_fresh_def is_alive_def)
next
  case forever
  with assms(6) show ?thesis by simp
qed

section \<open>The watchdog\<close>

definition task_times :: "side_task \<Rightarrow> watch_state \<Rightarrow> pyfloat list" where
  "task_times t st = map snd (filter (\<lambda>x. fst x = t) (vs_log st))"

definition spaced :: "watch_config \<Rightarrow> side_task \<Rightarrow> watch_state \<Rightarrow> bool" where
  "spaced c t st \<longleftrightarrow> (case wa_interval c t of
     None \<Rightarrow> task_times t st = []
   | Some i \<Rightarrow> if 0 < i then successively (\<lambda>a b. i \<le> b - a) (task_times t st) else task_times t st = [])"

definition gates_ok :: "watch_config \<Rightarrow> watch_state \<Rightarrow> bool" where
  "gates_ok c st \<longleftrightarrow> (\<forall>t. spaced c t st \<and> vs_last st t = (if task_times t st = [] then None else Some (last (task_times t st))))"

lemma gates_side_task:
  assumes "gates_ok c st"
  shows "gates_ok c (side_task_gate c e t st)"
proof (cases "side_task_gate c e t st = st")
  case True
  with assms show ?thesis by simp
next
  case False
  define x where "x = va_clock e t"
  obtain i where i: "wa_interval c t = Some i" "0 < i" using False
    by (auto simp: side_task_gate_def task_enabled_def split: option.splits if_splits)
  have open_gate: "case vs_last st t of None \<Rightarrow> True | Some l \<Rightarrow> i \<le> x - l"
    using False i by (auto simp: side_task_gate_def task_enabled_def x_def Let_def split: option.splits if_splits)
  then have g: "side_task_gate c e t st = st\<lparr>vs_log := vs_log st @ [(t, x)], vs_last := (vs_last st)(t := Some x)\<rparr>"
    using i by (cases "vs_last st t") (simp_all add: side_task_gate_def task_enabled_def Let_def x_def)
  have times: "task_times u (side_task_gate c e t st) = task_times u st @ (if u = t then [x] else [])" for u
    by (simp add: g task_times_def)
  have L: "vs_last st t = (if task_times t st = [] then None else Some (last (task_times t st)))" "spaced c t st"
    using assms by (simp_all add: gates_ok_def)
  have "spaced c u (side_task_gate c e t st)" for u
  proof (cases "u = t")
    case True
    have "successively (\<lambda>a b. i \<le> b - a) (task_times t st)" using L(2) i by (simp add: spaced_def)
    then show ?thesis using open_gate L(1) i True
      by (cases "task_times t st = []") (simp_all add: spaced_def times successively_append_iff)
  next
    case False
    then have eq: "task_times u (side_task_gate c e t st) = task_times u st" by (simp add: times)
    have "spaced c u st" using assms by (simp add: gates_ok_def)
    then show ?thesis unfolding spaced_def eq .
  qed
  moreover have "vs_last (side_task_gate c e t st) u
      = (if task_times u (side_task_gate c e t st) = [] then None else Some (last (task_times u (side_task_gate c e t st))))" for u
    using assms by (simp add: times) (simp add: g gates_ok_def)
  ultimately show ?thesis by (simp add: gates_ok_def)
qed

lemma gates_frame:
  assumes "vs_log s = vs_log s'" and "vs_last s = vs_last s'"
  shows "gates_ok c s = gates_ok c s'"
  unfolding gates_ok_def spaced_def task_times_def assms ..

lemma gates_iteration:
  assumes "gates_ok c st"
  shows "gates_ok c (watch_iteration c pid e st)"
proof -
  have f: "gates_ok c (s\<lparr>vs_iterations := n\<rparr>) = gates_ok c s" "gates_ok c (s\<lparr>vs_queue := q\<rparr>) = gates_ok c s"
    "gates_ok c (s\<lparr>vs_beats := b\<rparr>) = gates_ok c s" "gates_ok c (s\<lparr>vs_reports := r\<rparr>) = gates_ok c s" for s n q b r
    by (rule gates_frame; simp)+
  show ?thesis using assms by (simp add: watch_iteration_def Let_def split_beta f gates_side_task)
qed

lemma watch_queue_wf: "queue_wf (vs_queue st) \<Longrightarrow> queue_wf (vs_queue (watch_iteration c pid e st))"
  by (auto simp: watch_iteration_def Let_def split_beta run_supervisor_sweep_def intro!: reap_wf run_queue_wf)

lemma watch_frees_leases:
  assumes "queue_wf (vs_queue st)" and "\<not> va_sweep_fails e" and "j \<in> set (job_rows (vs_queue (watch_iteration c pid e st)))"
  shows "\<not> lease_expired (va_sweep_now e) j"
proof -
  let ?q = "run_queue (va_others e) (vs_queue st)"
  have "vs_queue (watch_iteration c pid e st) = snd (reap_expired_leases (va_sweep_now e) ?q)"
    using assms(2) by (simp add: watch_iteration_def Let_def split_beta run_supervisor_sweep_def)
  with assms(3) have "j \<in> set (job_rows (snd (reap_expired_leases (va_sweep_now e) ?q)))" by simp
  then show ?thesis unfolding reap_rows[OF run_queue_wf[OF assms(1)]]
    by (auto simp: lease_expired_def reap_row_def reap_states_def split: if_splits)
qed

text \<open>C32: The watch loop ends only on shutdown or at its limit. Two runs of one side task are at least its
  interval apart, a task without a positive interval never runs, and after an iteration whose sweep did not
  raise no job holds a lease that had expired when the sweep read the clock.\<close>

theorem watch_loop_guards:
  assumes "queue_wf q" and "run_supervisor_watch_loop c pid ev (watch_start q hb) = Some st"
  shows "watch_stops c (ev (vs_iterations st)) (vs_iterations st)
    \<and> (\<forall>k < vs_iterations st. \<not> watch_stops c (ev k) k)
    \<and> (\<forall>t. spaced c t st) \<and> queue_wf (vs_queue st)
    \<and> (\<forall>k j. vs_iterations st = Suc k \<longrightarrow> \<not> va_sweep_fails (ev k) \<longrightarrow> j \<in> set (job_rows (vs_queue st)) \<longrightarrow>
          \<not> lease_expired (va_sweep_now (ev k)) j)"
proof (cases rule: wt.loop_result[of c pid ev "watch_start q hb"])
  case (returns n)
  then have s: "st = wt.run c pid ev (watch_start q hb) n" using assms(2) by simp
  have i: "vs_iterations (wt.run c pid ev (watch_start q hb) m) = m" for m
    by (simp only: wt.count_run) (simp add: watch_start_def)
  have inv: "gates_ok c (wt.run c pid ev (watch_start q hb) m) \<and> queue_wf (vs_queue (wt.run c pid ev (watch_start q hb) m))" for m
  proof (rule wt.run_inv[where P = "\<lambda>s. gates_ok c s \<and> queue_wf (vs_queue s)"])
    have "spaced c t (watch_start q hb)" for t
      by (cases "wa_interval c t") (simp_all add: spaced_def task_times_def watch_start_def)
    then show "gates_ok c (watch_start q hb) \<and> queue_wf (vs_queue (watch_start q hb))"
      using assms(1) by (simp add: gates_ok_def) (simp add: task_times_def watch_start_def)
  qed (auto intro: gates_iteration watch_queue_wf)
  have "\<not> lease_expired (va_sweep_now (ev k)) j"
    if k: "vs_iterations st = Suc k" "\<not> va_sweep_fails (ev k)" "j \<in> set (job_rows (vs_queue st))" for k j
  proof -
    have "n = Suc k" using k(1) i[of n] unfolding s by simp
    then have "st = watch_iteration c pid (ev k) (wt.run c pid ev (watch_start q hb) k)" using s i[of k] by simp
    with k watch_frees_leases inv show ?thesis by blast
  qed
  moreover have "watch_stops c (ev n) n \<and> (\<forall>k < n. \<not> watch_stops c (ev k) k)"
    using returns by (simp add: watch_start_def)
  ultimately show ?thesis using inv[of n] i[of n] unfolding s by (simp add: gates_ok_def)
next
  case forever
  with assms(2) show ?thesis by simp
qed

section \<open>Closed examples\<close>

definition sample_worker :: worker_config where
  "sample_worker = \<lparr>wc_service_id = ''eng-worker'', wc_heartbeats = True, wc_job_types = [], wc_roles = [],
     wc_heartbeat_interval = 30, wc_lease_seconds = 60, wc_max_iterations = Some 2\<rparr>"

definition sample_worker_events :: "nat \<Rightarrow> worker_event" where
  "sample_worker_events k = \<lparr>we_shutdown = False, we_others = [], we_clock = 1000 + 20 * real k, we_beat_fails = False,
     we_busy = False, we_pick_now = 1000 + 20 * real k, we_process = (\<lambda>j. ([], False))\<rparr>"

lemma sample_worker_returns: "\<exists>st. run_worker_loop sample_worker sample_worker_events (worker_start empty_db []) = Some st
    \<and> ws_iterations st = 2"
proof (cases rule: wk.loop_result[of sample_worker sample_worker_events "worker_start empty_db []"])
  case (returns n)
  have z: "ws_iterations (worker_start empty_db []) = 0" by (simp add: worker_start_def)
  have "2 \<le> n" using returns(2) by (simp add: z worker_stops_def sample_worker_events_def sample_worker_def)
  moreover have "\<not> 2 < n"
    using returns(3)[of 2] by (auto simp: z worker_stops_def sample_worker_events_def sample_worker_def)
  ultimately show ?thesis using returns(1) by (simp add: wk.count_run z)
next
  case forever
  have "\<not> worker_stops sample_worker (sample_worker_events 2) 2" by (rule forever(2)) (simp add: worker_start_def)
  then show ?thesis by (simp add: worker_stops_def sample_worker_def)
qed

theorem worker_loop_serves_witness:
  "\<exists>st J. run_worker_loop sample_worker sample_worker_events (worker_start empty_db []) = Some st
    \<and> ws_iterations st = 2 \<and> ws_idle st = card {k. k < (2 :: nat) \<and> J k = (None :: job option)}"
proof -
  obtain st where st: "run_worker_loop sample_worker sample_worker_events (worker_start empty_db []) = Some st"
    "ws_iterations st = 2"
    using sample_worker_returns by blast
  note served = worker_loop_serves[where c = sample_worker and ev = sample_worker_events and q = empty_db and hb = "[]",
    unfolded st(1) Let_def option.case]
  from served obtain J :: "nat \<Rightarrow> job option" where "ws_idle st = card {k. k < ws_iterations st \<and> J k = None}"
    by (elim conjE exE)
  with st show ?thesis by auto
qed

definition sample_watch :: watch_config where
  "sample_watch = \<lparr>wa_deadline = 90, wa_max_iterations = Some 1,
     wa_interval = (\<lambda>t. if t = StatusPost then Some 60 else None)\<rparr>"

definition sample_watch_event :: watch_event where
  "sample_watch_event = \<lparr>va_shutdown = False, va_others = [], va_beat_fails = False, va_beat_now = 1000,
     va_sweep_fails = False, va_sweep_now = 1000, va_clock = (\<lambda>_. 1000)\<rparr>"

theorem watch_loop_guards_witness:
  "\<exists>st. run_supervisor_watch_loop sample_watch 7 (\<lambda>_. sample_watch_event) (watch_start empty_db []) = Some st
    \<and> (\<forall>t. spaced sample_watch t st)"
proof -
  have z: "vs_iterations (watch_start empty_db []) = 0" by (simp add: watch_start_def)
  have "watch_stops sample_watch sample_watch_event 1" by (simp add: watch_stops_def sample_watch_def)
  then obtain n where n: "run_supervisor_watch_loop sample_watch 7 (\<lambda>_. sample_watch_event) (watch_start empty_db [])
      = Some (wt.run sample_watch 7 (\<lambda>_. sample_watch_event) (watch_start empty_db []) n)"
    using wt.loop_returns[of sample_watch "\<lambda>_. sample_watch_event" 1 "watch_start empty_db []" 7] z by auto
  with watch_loop_guards[OF empty_db_wf n] show ?thesis by blast
qed

end
