(* ===== verification/Identity.thy ===== *)
theory Identity
  imports PyJson
begin

text \<open>
  The registry of agent identities, \<open>forgekit_config/identity/registry.py\<close>: canonical ids, their departments
  and aliases, and the normalisation every gate uses to decide who signs and who executes.
\<close>

record identity =
  id_canonical :: string
  id_label :: string
  id_department :: string
  id_cssclass :: string
  id_color :: string
  id_aliases :: "string list"
  id_email_local :: string
  id_supports_github_app :: bool

definition SEED :: "identity list" where
  "SEED = map (\<lambda>(c, l, d, css, color, email, as). \<lparr>id_canonical = c, id_label = l, id_department = d,
       id_cssclass = css, id_color = color, id_aliases = as, id_email_local = email, id_supports_github_app = True\<rparr>) [
     (''product-manager'', ''Product (PM)'', ''product'', ''fk-pm'', ''#f23ccf'', ''pm'', [''product-agent'', ''pm'']),
     (''gateway'', ''Engineering Gateway'', ''engineering'', ''fk-gateway'', ''#8b90a0'', ''gateway'', []),
     (''tech-lead'', ''Tech Lead'', ''engineering'', ''fk-techlead'', ''#00d8f0'', ''techlead'', []),
     (''frontend-engineer'', ''Frontend'', ''engineering'', ''fk-fe'', ''#3ddc97'', ''fe'', [''fe'']),
     (''backend-engineer'', ''Backend'', ''engineering'', ''fk-be'', ''#e0b020'', ''be'', [''be'']),
     (''devops-engineer'', ''DevOps'', ''engineering'', ''fk-devops'', ''#ff5c7a'', ''devops'', [''devops'']),
     (''qa-engineer'', ''QA'', ''engineering'', ''fk-qa'', ''#9b8cf0'', ''qa'', [''qa'']),
     (''security-engineer'', ''Security'', ''engineering'', ''fk-security'', ''#ff8c42'', ''security'', [''security'']),
     (''ai-engineer'', ''AI Engineer'', ''engineering'', ''fk-ai'', ''#38bdf8'', ''ai'', []),
     (''platform-runtime-engineer'', ''Platform Runtime'', ''engineering'', ''fk-platform'', ''#14b8a6'', ''platform'', []),
     (''knowledge-engineer'', ''Knowledge Engineer'', ''engineering'', ''fk-knowledge'', ''#f59e0b'', ''knowledge'', []),
     (''ops-observer'', ''Ops Observer'', ''ops'', ''fk-ops'', ''#2f6f7a'', ''ops'', []),
     (''ux-ui-designer'', ''UX/UI Designer'', ''design'', ''fk-ux'', ''#7dd3fc'', ''uxui'', [''ux'']),
     (''design-systems-designer'', ''Design Systems'', ''design'', ''fk-dsys'', ''#a78bfa'', ''dsys'', []),
     (''illustration-brand-designer'', ''Illustration/Brand'', ''design'', ''fk-illus'', ''#fb7185'', ''brandart'', []),
     (''design-lead'', ''Design Lead'', ''design'', ''fk-design-lead'', ''#22d3ee'', ''designlead'', []),
     (''user-researcher'', ''User Researcher'', ''product'', ''fk-user-research'', ''#c084fc'', ''user-research'', []),
     (''growth-marketer'', ''Growth'', ''marketing'', ''fk-growth'', ''#34d399'', ''growth'', []),
     (''growth-analyst'', ''Growth Analyst'', ''marketing'', ''fk-growth-analyst'', ''#10b981'', ''growth-analyst'', []),
     (''content-strategist'', ''Content'', ''marketing'', ''fk-content'', ''#f59e0b'', ''content'', []),
     (''brand-manager'', ''Brand Manager'', ''marketing'', ''fk-brand'', ''#ec4899'', ''brand'', []),
     (''seo-specialist'', ''SEO'', ''marketing'', ''fk-seo'', ''#84cc16'', ''seo'', []),
     (''budget-analyst'', ''Budget Analyst'', ''finance'', ''fk-budget'', ''#fbbf24'', ''budget'', []),
     (''recruiter'', ''Recruiter'', ''people'', ''fk-recruiter'', ''#60a5fa'', ''recruiter'', []),
     (''people-ops'', ''People Ops'', ''people'', ''fk-peopleops'', ''#f472b6'', ''peopleops'', []),
     (''culture-coach'', ''Culture Coach'', ''people'', ''fk-culture'', ''#a78bfa'', ''culture'', []),
     (''contract-reviewer'', ''Contract Reviewer'', ''legal'', ''fk-contract'', ''#f97316'', ''contract'', []),
     (''privacy-officer'', ''Privacy Officer'', ''legal'', ''fk-privacy'', ''#fb7185'', ''privacy'', []),
     (''sales-rep'', ''Sales'', ''sales'', ''fk-sales'', ''#22c55e'', ''sales'', []),
     (''customer-success'', ''Customer Success'', ''sales'', ''fk-cs'', ''#06b6d4'', ''cs'', [])]"

definition FALLBACK :: identity where
  "FALLBACK = \<lparr>id_canonical = ''forgekit'', id_label = ''forgekit'', id_department = ''core'', id_cssclass = ''fk-agent'',
     id_color = ''#8b90a0'', id_aliases = [], id_email_local = ''agent'', id_supports_github_app = True\<rparr>"

text \<open>The two dictionaries; a later entry for a key replaces an earlier one.\<close>

definition BY_ID :: "identity pydict" where
  "BY_ID = dict_merge [] (map (\<lambda>i. (id_canonical i, i)) SEED)"

definition ALIAS :: "string pydict" where
  "ALIAS = dict_merge [] (concat (map (\<lambda>i. map (\<lambda>a. (a, id_canonical i)) (id_canonical i # id_aliases i)) SEED))"

definition canonical_id :: "string \<Rightarrow> string" where
  "canonical_id agent_id = (case map_of ALIAS (py_strip agent_id) of Some c \<Rightarrow> c | None \<Rightarrow> [])"

definition resolve_identity :: "string \<Rightarrow> identity" where
  "resolve_identity agent_id = (case map_of BY_ID (canonical_id agent_id) of Some i \<Rightarrow> i | None \<Rightarrow> FALLBACK)"

definition is_known :: "string \<Rightarrow> bool" where
  "is_known agent_id \<longleftrightarrow> canonical_id agent_id \<noteq> []"

section \<open>Normalisation is stable\<close>

lemma alias_table: "ALIAS = concat (map (\<lambda>i. map (\<lambda>a. (a, id_canonical i)) (id_canonical i # id_aliases i)) SEED)"
  by code_simp

lemma aliases_canonical: "list_all (\<lambda>(a, c). map_of ALIAS c = Some c \<and> py_strip c = c \<and> c \<noteq> []) ALIAS"
  unfolding alias_table by code_simp

lemma canonical_known: "map_of ALIAS a = Some c \<Longrightarrow> map_of ALIAS c = Some c \<and> py_strip c = c \<and> c \<noteq> []"
  using aliases_canonical by (auto simp: list_all_iff dest: map_of_SomeD)

lemma no_empty_alias: "map_of ALIAS [] = None"
  unfolding alias_table by code_simp

lemma canonical_idem [simp]: "canonical_id (canonical_id a) = canonical_id a"
  by (cases "map_of ALIAS (py_strip a)") (auto simp: canonical_id_def no_empty_alias dest: canonical_known)

lemma resolve_canonical: "resolve_identity (canonical_id a) = resolve_identity a"
  by (simp add: resolve_identity_def)

end
