(* ===== verification/Autopilot.thy ===== *)
theory Autopilot
  imports Identity
begin

text \<open>
  The internal approval chain of the autopilot, \<open>forgekit_runtime/autopilot\<close>: the approval levels and the
  classification of a piece of work by its wording (\<open>approval.py\<close>), the artifacts passed along
  (\<open>artifacts.py\<close>), the chain PM, gateway, tech lead (\<open>chain.py\<close>) and the check right before execution
  (\<open>execution.py\<close>).
\<close>

section \<open>Approval levels\<close>

definition L0_COLLECT :: string where "L0_COLLECT = ''L0_collect''"
definition L1_PROPOSE :: string where "L1_PROPOSE = ''L1_propose''"
definition L2_INTERNAL_APPROVE :: string where "L2_INTERNAL_APPROVE = ''L2_internal_approve''"
definition L3_USER_APPROVE :: string where "L3_USER_APPROVE = ''L3_user_approve''"
definition L4_RESTRICTED :: string where "L4_RESTRICTED = ''L4_restricted''"

lemmas exec_levels = L0_COLLECT_def L1_PROPOSE_def L2_INTERNAL_APPROVE_def L3_USER_APPROVE_def L4_RESTRICTED_def

definition RESTRICTED_WORDS :: "string list" where
  "RESTRICTED_WORDS = [''deploy'', (utf8 [0xBC30, 0xD3EC]), ''secret'', (utf8 [0xBE44,
    0xBC00]), ''infra'', (utf8 [0xC778, 0xD504, 0xB77C]), ''iam'', ''migration'',
     (utf8 [0xB9C8, 0xC774, 0xADF8, 0xB808, 0xC774, 0xC158]), ''production'', (utf8 [0xD504, 0xB85C, 0xB355,
       0xC158]), ''destructive'', ''rm -rf'']"

definition RISKY_WORDS :: "string list" where
  "RISKY_WORDS = [''rewrite'', (utf8 [0xB300, 0xADDC, 0xBAA8]), ''broad'', ''schema'', ''auth'', (utf8 [0xAD8C,
    0xD55C]), (utf8 [0xC0AD, 0xC81C]), ''delete'']"

definition classify_level :: "string \<Rightarrow> string \<Rightarrow> string" where
  "classify_level text risk_class =
     (let blob = py_lower (text @ '' '' @ risk_class)
      in if risk_class = ''blocked'' \<or> list_ex (\<lambda>k. py_contains k blob) RESTRICTED_WORDS then L4_RESTRICTED
         else if risk_class = ''risky'' \<or> list_ex (\<lambda>k. py_contains k blob) RISKY_WORDS then L3_USER_APPROVE
         else L2_INTERNAL_APPROVE)"

definition autopilot_can_execute :: "string \<Rightarrow> bool" where
  "autopilot_can_execute level \<longleftrightarrow> level = L2_INTERNAL_APPROVE"

definition needs_user :: "string \<Rightarrow> bool" where
  "needs_user level \<longleftrightarrow> level \<in> {L3_USER_APPROVE, L4_RESTRICTED}"

section \<open>Artifacts\<close>

record repo_finding =
  rf_repo :: string
  rf_finding :: string
  rf_kind :: string
  rf_evidence :: string

record pm_packet =
  pp_finding :: repo_finding
  pp_why_it_matters :: string
  pp_user_value :: string
  pp_missing :: "string list"
  pp_recommended_owner :: string

record gateway_route =
  gr_packet_summary :: string
  gr_owner_role :: string
  gr_route_reason :: string

record signoff =
  sg_packet_summary :: string
  sg_decision_class :: string
  sg_approval_level :: string
  sg_signoff_by :: string
  sg_can_execute :: bool
  sg_rationale :: string

record task_split =
  ts_decision_summary :: string
  ts_executor :: string
  ts_tasks :: "string list"
  ts_diff_limit :: int
  ts_file_limit :: int

section \<open>The chain\<close>

definition OWNER_BY_KIND :: "string pydict" where
  "OWNER_BY_KIND = [(''docs'', ''tech-lead''), (''test'', ''qa''), (''lint'', ''be''), (''ops'', ''devops''),
     (''discomfort'', ''fe''), (''gap'', ''be'')]"

definition CLASS_BY_LEVEL :: "string pydict" where
  "CLASS_BY_LEVEL = [(L2_INTERNAL_APPROVE, ''safe''), (L3_USER_APPROVE, ''risky''), (L4_RESTRICTED, ''blocked'')]"

text \<open>\<open>d.get(k, default)\<close>.\<close>

definition get_default :: "'v pydict \<Rightarrow> string \<Rightarrow> 'v \<Rightarrow> 'v" where
  "get_default d k v = (case map_of d k of Some x \<Rightarrow> x | None \<Rightarrow> v)"

definition pm_structure :: "repo_finding \<Rightarrow> pm_packet" where
  "pm_structure f = \<lparr>pp_finding = f, pp_why_it_matters = [CHR 0x27] @ rf_finding f @ [CHR 0x27] @ ('' ''
    @ utf8 [0xB294, 0x20, 0xC720, 0xC9C0, 0xBCF4, 0xC218, 0x2F, 0xC2E0, 0xB8B0, 0x2F, 0xC0AC, 0xC6A9, 0xC790, 0x20,
    0xACBD, 0xD5D8, 0xC5D0, 0x20, 0xC601, 0xD5A5]),
     pp_user_value = (utf8 [0xAC1C, 0xC120, 0x20, 0xC2DC] @ '' operator/'' @ utf8 [0xC0AC, 0xC6A9, 0xC790, 0xAC00,
       0x20, 0xCCB4, 0xAC10, 0xD558, 0xB294, 0x20, 0xB9C8, 0xCC30, 0x20, 0xAC10, 0xC18C]),
     pp_missing = [''acceptance criteria'', (utf8 [0xAC80, 0xC99D, 0x20, 0xBC29, 0xBC95])],
     pp_recommended_owner = get_default OWNER_BY_KIND (rf_kind f) ''tech-lead''\<rparr>"

definition gateway_route :: "pm_packet \<Rightarrow> gateway_route" where
  "gateway_route p = \<lparr>gr_packet_summary = rf_finding (pp_finding p), gr_owner_role = pp_recommended_owner p,
     gr_route_reason = ''kind='' @ rf_kind (pp_finding p) @ ('' '' @ utf8 [0x2192] @ '' '')
       @ pp_recommended_owner p\<rparr>"

definition tech_lead_signoff :: "string \<Rightarrow> pm_packet \<Rightarrow> gateway_route \<Rightarrow> signoff" where
  "tech_lead_signoff risk_class p r =
     (let level = classify_level (rf_finding (pp_finding p)) risk_class;
          decision_class = get_default CLASS_BY_LEVEL level ''risky''
      in \<lparr>sg_packet_summary = rf_finding (pp_finding p), sg_decision_class = decision_class, sg_approval_level = level,
          sg_signoff_by = ''tech-lead'', sg_can_execute = autopilot_can_execute level,
          sg_rationale = get_default [
            (''safe'', (''safe class '' @ utf8 [0x2014, 0x20, 0xB0B4, 0xBD80, 0x20, 0xC2B9, 0xC778] @ ''(PM''
              @ utf8 [0x2192] @ ''gateway'' @ utf8 [0x2192] @ ''tech-lead)'' @ utf8 [0xC73C, 0xB85C, 0x20, 0xC2E4,
              0xD589, 0x20, 0xAC00, 0xB2A5] @ '', user '' @ utf8 [0xC2B9, 0xC778, 0x20, 0xBD88, 0xC694])),
            (''risky'', (''risky '' @ utf8 [0x2014] @ '' user '' @ utf8 [0xC2B9, 0xC778, 0x20, 0xD544, 0xC694]
              @ ''(L3), autopilot '' @ utf8 [0xC740] @ '' propose '' @ utf8 [0xAE4C, 0xC9C0, 0xB9CC])),
            (''blocked'', (''restricted '' @ utf8 [0x2014] @ '' deploy/secret/infra, '' @ utf8 [0xC790, 0xB3D9,
              0x20, 0xC2E4, 0xD589, 0x20, 0xAE08, 0xC9C0] @ ''(L4), operator+runbook''))] decision_class []\<rparr>)"

definition run_internal_chain :: "repo_finding \<Rightarrow> string \<Rightarrow> pm_packet \<times> gateway_route \<times> signoff \<times> string list" where
  "run_internal_chain f risk_class =
     (let p = pm_structure f; r = gateway_route p; d = tech_lead_signoff risk_class p r
      in (p, r, d, [''pm:structure'', (''gateway:route'' @ utf8 [0x2192]) @ gr_owner_role r,
            ''tech-lead:'' @ sg_decision_class d @ ''/'' @ sg_approval_level d]))"

definition can_specialist_execute :: "signoff option \<Rightarrow> bool" where
  "can_specialist_execute d \<longleftrightarrow> (case d of None \<Rightarrow> False | Some s \<Rightarrow> sg_can_execute s)"

section \<open>The check before execution\<close>

definition SAFE_CLASS_ALLOWLIST :: "string list" where
  "SAFE_CLASS_ALLOWLIST = [''docs'', ''tests'', ''lint'', ''format'', ''small-refactor'', ''note'', ''runbook'',
     ''ui-polish'', ''stale-packet-cleanup'']"

definition AUTO_FORBIDDEN :: "string list" where
  "AUTO_FORBIDDEN = [''deploy'', ''infra-apply'', ''secret'', ''schema-migration'', ''broad-rewrite'', ''prod-config'',
     ''attack-flow'']"

record limits =
  max_diff :: int
  max_files :: int
  max_risk_score :: pyfloat
  failure_threshold :: int

definition default_limits :: limits where
  "default_limits = \<lparr>max_diff = 200, max_files = 10, max_risk_score = 1, failure_threshold = 3\<rparr>"

text \<open>Why a gate refuses; the code renders each as a sentence for the operator.\<close>

datatype refusal =
    NoInternalSignoff
  | NotSafeClass string
  | DiffOverLimit int int
  | FilesOverLimit int int
  | RiskOverLimit pyfloat pyfloat
  | NoExecutor
  | NotRouted
  | NoDecision
  | NotSigned string
  | FakeSignoff
  | NoHandoff
  | BadHandoff
  | UnknownExecutor string
  | RouterExecutor string
  | ScopeCreep string string string
  | DestructiveNeverAuto
  | RiskyWithoutOperator
  | SafeWithoutSignoff
  | ChainNotCleared

definition if_then :: "bool \<Rightarrow> 'r \<Rightarrow> 'r list" where
  "if_then c r = (if c then [r] else [])"

lemma if_then_Nil [simp]: "if_then c r = [] \<longleftrightarrow> \<not> c"
  by (simp add: if_then_def)

lemma set_if_then [simp]: "set (if_then c r) = (if c then {r} else {})"
  by (simp add: if_then_def)

definition validate_execution :: "signoff option \<Rightarrow> task_split \<Rightarrow> limits \<Rightarrow> int \<Rightarrow> int \<Rightarrow> pyfloat \<Rightarrow> bool \<times> refusal list" where
  "validate_execution decision split caps diff files risk =
     (let reasons =
        if_then (\<not> can_specialist_execute decision) NoInternalSignoff
        @ (case decision of None \<Rightarrow> [] | Some d \<Rightarrow> if_then (sg_decision_class d \<noteq> ''safe'') (NotSafeClass (sg_decision_class d)))
        @ if_then (max_diff caps < diff) (DiffOverLimit diff (max_diff caps))
        @ if_then (max_files caps < files) (FilesOverLimit files (max_files caps))
        @ if_then (max_risk_score caps < risk) (RiskOverLimit risk (max_risk_score caps))
        @ if_then (ts_executor split = []) NoExecutor
      in (reasons = [], reasons))"

section \<open>Facts\<close>

text \<open>Work whose wording and risk class mention nothing restricted or risky.\<close>

definition plain_wording :: "string \<Rightarrow> bool" where
  "plain_wording text \<longleftrightarrow> \<not> list_ex (\<lambda>k. py_contains k (py_lower text)) (RESTRICTED_WORDS @ RISKY_WORDS)"

lemma level_distinct [simp]:
  "L2_INTERNAL_APPROVE \<noteq> L3_USER_APPROVE" "L2_INTERNAL_APPROVE \<noteq> L4_RESTRICTED" "L3_USER_APPROVE \<noteq> L4_RESTRICTED"
  "L3_USER_APPROVE \<noteq> L2_INTERNAL_APPROVE" "L4_RESTRICTED \<noteq> L2_INTERNAL_APPROVE" "L4_RESTRICTED \<noteq> L3_USER_APPROVE"
  by (simp_all add: exec_levels)

lemma class_of_level [simp]:
  "get_default CLASS_BY_LEVEL L2_INTERNAL_APPROVE x = ''safe''" "get_default CLASS_BY_LEVEL L3_USER_APPROVE x = ''risky''"
  "get_default CLASS_BY_LEVEL L4_RESTRICTED x = ''blocked''"
  by (simp_all add: get_default_def CLASS_BY_LEVEL_def)

lemma classify_cases: "classify_level t r \<in> {L2_INTERNAL_APPROVE, L3_USER_APPROVE, L4_RESTRICTED}"
  by (simp add: classify_level_def Let_def)

lemma classify_internal: "classify_level t r = L2_INTERNAL_APPROVE \<longleftrightarrow> r \<notin> {''blocked'', ''risky''} \<and> plain_wording (t @ '' '' @ r)"
  by (auto simp: classify_level_def plain_wording_def Let_def)

lemma py_lower_append: "py_lower (a @ b) = py_lower a @ py_lower b"
  by (simp add: py_lower_def)

lemma plain_wording_part: "plain_wording (a @ b @ c) \<Longrightarrow> plain_wording b"
  by (auto simp: plain_wording_def list_ex_iff py_lower_append dest: py_contains_append)

text \<open>What the chain decides is the wording of the finding: there is no execution right without plain wording.\<close>

lemma chain_decision:
  assumes "run_internal_chain f risk_class = (p, r, d, trace)"
  shows "sg_approval_level d = classify_level (rf_finding f) risk_class"
    "sg_can_execute d \<longleftrightarrow> risk_class \<notin> {''blocked'', ''risky''} \<and> plain_wording (rf_finding f @ '' '' @ risk_class)"
    "sg_decision_class d = ''safe'' \<longleftrightarrow> sg_can_execute d"
    "sg_signoff_by d = ''tech-lead''" "sg_packet_summary d = rf_finding f"
    "gr_owner_role r = get_default OWNER_BY_KIND (rf_kind f) ''tech-lead''"
proof -
  have d: "d = tech_lead_signoff risk_class (pm_structure f) (gateway_route (pm_structure f))"
    and r: "r = gateway_route (pm_structure f)"
    using assms by (auto simp: run_internal_chain_def Let_def)
  show lvl: "sg_approval_level d = classify_level (rf_finding f) risk_class"
    by (simp add: d tech_lead_signoff_def pm_structure_def Let_def)
  have can: "sg_can_execute d \<longleftrightarrow> classify_level (rf_finding f) risk_class = L2_INTERNAL_APPROVE"
    by (simp add: d tech_lead_signoff_def pm_structure_def autopilot_can_execute_def Let_def)
  then show "sg_can_execute d \<longleftrightarrow> risk_class \<notin> {''blocked'', ''risky''} \<and> plain_wording (rf_finding f @ '' '' @ risk_class)"
    by (simp only: classify_internal)
  have "sg_decision_class d = get_default CLASS_BY_LEVEL (classify_level (rf_finding f) risk_class) ''risky''"
    by (simp add: d tech_lead_signoff_def pm_structure_def Let_def)
  with can classify_cases[of "rf_finding f" risk_class] show "sg_decision_class d = ''safe'' \<longleftrightarrow> sg_can_execute d" by auto
  show "sg_signoff_by d = ''tech-lead''" "sg_packet_summary d = rf_finding f"
    by (simp_all add: d tech_lead_signoff_def pm_structure_def Let_def)
  show "gr_owner_role r = get_default OWNER_BY_KIND (rf_kind f) ''tech-lead''"
    by (simp add: r gateway_route_def pm_structure_def)
qed

end
