(* ===== verification/DesignArtifacts.thy ===== *)
theory DesignArtifacts
  imports Autopilot
begin

text \<open>
  The typed artifacts of the design lane, \<open>decision_lane/schemas.py\<close>, and the validators that decide whether
  an artifact is real, \<open>decision_lane/validators.py\<close>. A violation is a constructor where the code has a
  sentence for people.
\<close>

section \<open>Artifacts\<close>

record pm_brief =
  pb_topic :: string
  pb_problem :: string
  pb_user_value :: string
  pb_target_users :: "string list"
  pb_acceptance_criteria :: "string list"
  pb_success_metrics :: "string list"
  pb_constraints :: "string list"
  pb_out_of_scope :: "string list"
  pb_priority :: string
  pb_requested_by :: string

definition PONYTAIL_VERDICTS :: "string list" where
  "PONYTAIL_VERDICTS = [''keep'', ''simplify'', ''use-native'', ''reject-dependency'', ''reduce-surface'']"

record ponytail =
  py_required :: bool
  py_consulted :: bool
  py_verdict :: string
  py_notes :: string
  py_consultee :: string
  py_rejected_alternative :: string
  py_why_more_complex :: string

record stack_option =
  so_name :: string
  so_summary :: string
  so_pros :: "string list"
  so_cons :: "string list"
  so_risk :: string
  so_fit :: int

record stack_comparison =
  sc_decision_topic :: string
  sc_options :: "stack_option list"
  sc_recommended :: string
  sc_rationale :: string
  sc_tradeoffs :: "string list"
  sc_assumptions :: "string list"
  sc_ponytail :: "ponytail option"

definition option_names :: "stack_comparison \<Rightarrow> string list" where
  "option_names s = map so_name (sc_options s)"

definition recommended_option :: "stack_comparison \<Rightarrow> stack_option option" where
  "recommended_option s = find (\<lambda>o'. so_name o' = sc_recommended s) (sc_options s)"

record consult_note =
  cn_consult_id :: string
  cn_topic :: string
  cn_by_role :: string
  cn_to_roles :: "string list"
  cn_question :: string
  cn_note :: string
  cn_refs :: "string list"

record participant =
  pa_role :: string
  pa_stance :: string
  pa_position :: string
  pa_concerns :: "string list"

record meeting =
  mt_meeting_id :: string
  mt_topic :: string
  mt_agenda :: "string list"
  mt_participants :: "participant list"
  mt_decisions :: "string list"
  mt_open_questions :: "string list"
  mt_round_index :: int
  mt_escalated :: bool
  mt_ponytail :: "ponytail option"

definition has_dissent :: "meeting \<Rightarrow> bool" where
  "has_dissent m \<longleftrightarrow> list_ex (\<lambda>p. pa_stance p \<in> {''oppose'', ''conditional''} \<or> pa_concerns p \<noteq> []) (mt_participants m)"

definition DECISION_DRAFT :: string where "DECISION_DRAFT = ''draft''"
definition SIGNED_OFF :: string where "SIGNED_OFF = ''signed_off''"
definition CONDITIONAL :: string where "CONDITIONAL = ''conditional''"
definition DECISION_BLOCKED :: string where "DECISION_BLOCKED = ''blocked''"
definition ESCALATED :: string where "ESCALATED = ''escalated''"
definition NEEDS_INFO :: string where "NEEDS_INFO = ''needs_info''"

lemmas decision_statuses = DECISION_DRAFT_def SIGNED_OFF_def CONDITIONAL_def DECISION_BLOCKED_def ESCALATED_def NEEDS_INFO_def

record decision =
  td_decision_id :: string
  td_pm_brief_ref :: string
  td_meeting_ref :: string
  td_design_system :: string
  td_coding_convention :: string
  td_stack_decision :: "stack_comparison option"
  td_tradeoffs :: "string list"
  td_integration_notes :: "string list"
  td_risk_class :: string
  td_approval_level :: string
  td_conditions :: "string list"
  td_rationale :: string
  td_signoff_by :: string
  td_status :: string
  td_introduces_dependency :: bool
  td_introduces_abstraction :: bool
  td_ponytail :: "ponytail option"

definition needs_ponytail :: "decision \<Rightarrow> bool" where
  "needs_ponytail d \<longleftrightarrow> td_introduces_dependency d \<or> td_introduces_abstraction d
     \<or> (case td_ponytail d of None \<Rightarrow> False | Some p \<Rightarrow> py_required p)"

record handoff =
  ho_handoff_id :: string
  ho_decision_ref :: string
  ho_executor_role :: string
  ho_scope :: "string list"
  ho_forbidden_scope :: "string list"
  ho_test_strategy :: string
  ho_rollback_plan :: string
  ho_acceptance_criteria :: "string list"
  ho_operator_required :: bool
  ho_ponytail :: "ponytail option"

record rejected_option =
  ro_name :: string
  ro_why_not :: string

record briefing =
  br_handoff_id :: string
  br_executor_role :: string
  br_decision_ref :: string
  br_goal :: string
  br_proposed_stack :: string
  br_proposed_stack_summary :: string
  br_stack_rationale :: string
  br_rejected_options :: "rejected_option list"
  br_coding_conventions :: string
  br_design_system :: string
  br_integration_notes :: "string list"
  br_scope :: "string list"
  br_forbidden_scope :: "string list"
  br_test_strategy :: string
  br_rollback_plan :: string
  br_acceptance_criteria :: "string list"
  br_operator_required :: bool
  br_ponytail :: "ponytail option"

section \<open>Validators\<close>

datatype violation =
    Blank string string
  | Missing string string
  | TooFewOptions
  | UnnamedOption
  | NoPros string
  | NoCons string
  | NotAnOption string
  | UnregisteredRole string string
  | BadVerdict
  | TooFewParticipants
  | TooFewRoles
  | EmptyPosition string
  | UnknownStance string
  | RubberStamp
  | Undecided
  | NotTechLead string
  | NoStack
  | UnknownRiskClass string
  | NoConditions
  | PonytailMissing
  | WrongDecisionRef
  | NotSignedDecision string
  | NotAnEngineer string
  | UnexplainedRejection

text \<open>\<open>Blank artifact field\<close> and \<open>Missing artifact field\<close> are the checks on strings and on tuples.\<close>

definition blank :: "string \<Rightarrow> bool" where
  "blank s \<longleftrightarrow> py_strip s = []"

definition NON_EXECUTOR_ROLES :: "string list" where
  "NON_EXECUTOR_ROLES = [''gateway'', ''tech-lead'', ''product-manager'']"

definition validate_pm_brief :: "pm_brief \<Rightarrow> violation list" where
  "validate_pm_brief b =
     if_then (blank (pb_topic b)) (Blank ''PM brief'' ''topic'')
     @ if_then (blank (pb_problem b)) (Blank ''PM brief'' ''problem'')
     @ if_then (blank (pb_user_value b)) (Blank ''PM brief'' ''user_value'')
     @ if_then (pb_acceptance_criteria b = []) (Missing ''PM brief'' ''acceptance_criteria'')
     @ if_then (pb_success_metrics b = []) (Missing ''PM brief'' ''success_metrics'')"

definition validate_option :: "stack_option \<Rightarrow> violation list" where
  "validate_option x =
     (if blank (so_name x) then [UnnamedOption]
      else if_then (so_pros x = []) (NoPros (so_name x)) @ if_then (so_cons x = []) (NoCons (so_name x)))"

definition validate_stack_comparison :: "stack_comparison \<Rightarrow> violation list" where
  "validate_stack_comparison s =
     if_then (blank (sc_decision_topic s)) (Blank ''stack'' ''decision_topic'')
     @ if_then (length (sc_options s) < 2) TooFewOptions
     @ concat (map validate_option (sc_options s))
     @ (if blank (sc_recommended s) then [Blank ''stack'' ''recommended'']
        else if_then (sc_recommended s \<notin> set (option_names s)) (NotAnOption (sc_recommended s)))
     @ if_then (blank (sc_rationale s)) (Blank ''stack'' ''rationale'')
     @ if_then (sc_tradeoffs s = []) (Missing ''stack'' ''tradeoffs'')"

definition validate_consult :: "consult_note \<Rightarrow> violation list" where
  "validate_consult n =
     if_then (blank (cn_consult_id n)) (Blank ''consult'' ''consult_id'')
     @ if_then (blank (cn_topic n)) (Blank ''consult'' ''topic'')
     @ (if blank (cn_by_role n) then [Blank ''consult'' ''by_role'']
        else if_then (canonical_id (cn_by_role n) = []) (UnregisteredRole ''by_role'' (cn_by_role n)))
     @ (if cn_to_roles n = [] then [Missing ''consult'' ''to_roles'']
        else concat (map (\<lambda>r. if_then (canonical_id r = []) (UnregisteredRole ''to_role'' r)) (cn_to_roles n)))
     @ if_then (blank (cn_question n)) (Blank ''consult'' ''question'')"

definition validate_ponytail :: "ponytail \<Rightarrow> violation list" where
  "validate_ponytail p =
     (if \<not> py_required p then []
      else if py_consulted p
      then if_then (py_verdict p \<notin> set PONYTAIL_VERDICTS) BadVerdict
           @ if_then (blank (py_notes p)) (Blank ''ponytail'' ''notes'')
      else if_then (blank (py_rejected_alternative p)) (Blank ''ponytail'' ''rejected_alternative'')
           @ if_then (blank (py_why_more_complex p)) (Blank ''ponytail'' ''why_more_complex''))"

definition canonical_role :: "participant \<Rightarrow> string" where
  "canonical_role p = (let c = canonical_id (pa_role p) in if c \<noteq> [] then c else py_strip (pa_role p))"

definition validate_participant :: "participant \<Rightarrow> violation list" where
  "validate_participant p =
     if_then (blank (pa_position p)) (EmptyPosition (pa_role p))
     @ if_then (pa_stance p \<noteq> [] \<and> pa_stance p \<notin> {''support'', ''oppose'', ''conditional'', ''neutral''})
         (UnknownStance (pa_stance p))"

definition validate_meeting :: "meeting \<Rightarrow> violation list" where
  "validate_meeting m =
     if_then (blank (mt_meeting_id m)) (Blank ''meeting'' ''meeting_id'')
     @ if_then (blank (mt_topic m)) (Blank ''meeting'' ''topic'')
     @ if_then (mt_agenda m = []) (Missing ''meeting'' ''agenda'')
     @ if_then (length (mt_participants m) < 2) TooFewParticipants
     @ if_then (card (set (filter (\<lambda>c. c \<noteq> []) (map canonical_role (mt_participants m)))) < 2) TooFewRoles
     @ concat (map validate_participant (mt_participants m))
     @ if_then (\<not> has_dissent m) RubberStamp
     @ if_then (mt_decisions m = [] \<and> \<not> mt_escalated m) Undecided"

definition validate_tech_lead_decision :: "decision \<Rightarrow> violation list" where
  "validate_tech_lead_decision d =
     if_then (blank (td_decision_id d)) (Blank ''signoff'' ''decision_id'')
     @ if_then (blank (td_pm_brief_ref d)) (Blank ''signoff'' ''pm_brief_ref'')
     @ if_then (blank (td_meeting_ref d)) (Blank ''signoff'' ''meeting_ref'')
     @ if_then (canonical_id (td_signoff_by d) \<noteq> ''tech-lead'') (NotTechLead (td_signoff_by d))
     @ if_then (blank (td_design_system d)) (Blank ''signoff'' ''design_system'')
     @ if_then (blank (td_coding_convention d)) (Blank ''signoff'' ''coding_convention'')
     @ (case td_stack_decision d of None \<Rightarrow> [NoStack] | Some s \<Rightarrow> validate_stack_comparison s)
     @ if_then (td_tradeoffs d = []) (Missing ''signoff'' ''tradeoffs'')
     @ if_then (blank (td_rationale d)) (Blank ''signoff'' ''rationale'')
     @ if_then (td_risk_class d \<notin> {''safe'', ''risky'', ''blocked''}) (UnknownRiskClass (td_risk_class d))
     @ if_then (td_status d = CONDITIONAL \<and> td_conditions d = []) NoConditions
     @ (if needs_ponytail d
        then (case td_ponytail d of
                None \<Rightarrow> [PonytailMissing]
              | Some p \<Rightarrow> if \<not> py_required p then [PonytailMissing] else validate_ponytail p)
        else [])"

definition validate_handoff :: "handoff \<Rightarrow> decision \<Rightarrow> violation list" where
  "validate_handoff h d =
     if_then (blank (ho_handoff_id h)) (Blank ''handoff'' ''handoff_id'')
     @ if_then (ho_decision_ref h \<noteq> td_decision_id d) WrongDecisionRef
     @ if_then (td_status d \<notin> {SIGNED_OFF, CONDITIONAL}) (NotSignedDecision (td_status d))
     @ (let c = canonical_id (ho_executor_role h)
        in if c = [] then [UnregisteredRole ''executor_role'' (ho_executor_role h)]
           else if_then (c \<in> set NON_EXECUTOR_ROLES \<or> id_department (resolve_identity c) \<noteq> ''engineering'') (NotAnEngineer c))
     @ if_then (ho_scope h = []) (Missing ''handoff'' ''scope'')
     @ if_then (blank (ho_test_strategy h)) (Blank ''handoff'' ''test_strategy'')"

definition validate_specialist_briefing :: "briefing \<Rightarrow> violation list" where
  "validate_specialist_briefing b =
     if_then (blank (br_handoff_id b)) (Blank ''briefing'' ''handoff_id'')
     @ if_then (blank (br_executor_role b)) (Blank ''briefing'' ''executor_role'')
     @ if_then (blank (br_goal b)) (Blank ''briefing'' ''goal'')
     @ if_then (blank (br_proposed_stack b)) (Blank ''briefing'' ''proposed_stack'')
     @ if_then (blank (br_stack_rationale b)) (Blank ''briefing'' ''stack_rationale'')
     @ (if br_rejected_options b = [] then [Missing ''briefing'' ''rejected_options'']
        else if_then (list_ex (\<lambda>r. blank (ro_name r) \<or> blank (ro_why_not r)) (br_rejected_options b)) UnexplainedRejection)
     @ if_then (blank (br_coding_conventions b)) (Blank ''briefing'' ''coding_conventions'')
     @ if_then (blank (br_design_system b)) (Blank ''briefing'' ''design_system'')
     @ if_then (br_scope b = []) (Missing ''briefing'' ''scope'')
     @ if_then (blank (br_test_strategy b)) (Blank ''briefing'' ''test_strategy'')
     @ if_then (br_acceptance_criteria b = []) (Missing ''briefing'' ''acceptance_criteria'')"

section \<open>What a valid artifact is\<close>

lemma concat_map_Nil: "concat (map f xs) = [] \<longleftrightarrow> (\<forall>x \<in> set xs. f x = [])"
  by (induction xs) auto

lemma valid_brief: "validate_pm_brief b = [] \<longleftrightarrow> \<not> blank (pb_topic b) \<and> \<not> blank (pb_problem b) \<and> \<not> blank (pb_user_value b)
    \<and> pb_acceptance_criteria b \<noteq> [] \<and> pb_success_metrics b \<noteq> []"
  by (auto simp: validate_pm_brief_def)

lemma valid_stack: "validate_stack_comparison s = [] \<longleftrightarrow> \<not> blank (sc_decision_topic s) \<and> 2 \<le> length (sc_options s)
    \<and> (\<forall>x \<in> set (sc_options s). \<not> blank (so_name x) \<and> so_pros x \<noteq> [] \<and> so_cons x \<noteq> [])
    \<and> \<not> blank (sc_recommended s) \<and> sc_recommended s \<in> set (option_names s)
    \<and> \<not> blank (sc_rationale s) \<and> sc_tradeoffs s \<noteq> []"
proof -
  have "validate_option x = [] \<longleftrightarrow> \<not> blank (so_name x) \<and> so_pros x \<noteq> [] \<and> so_cons x \<noteq> []" for x
    by (simp add: validate_option_def)
  then show ?thesis by (auto simp: validate_stack_comparison_def concat_map_Nil not_less)
qed

lemma valid_meeting: "validate_meeting m = [] \<longleftrightarrow> \<not> blank (mt_meeting_id m) \<and> \<not> blank (mt_topic m) \<and> mt_agenda m \<noteq> []
    \<and> 2 \<le> length (mt_participants m) \<and> 2 \<le> card (set (map canonical_role (mt_participants m)) - {[]})
    \<and> (\<forall>p \<in> set (mt_participants m). validate_participant p = [])
    \<and> has_dissent m \<and> (mt_decisions m \<noteq> [] \<or> mt_escalated m)"
proof -
  have k: "set (filter (\<lambda>c. c \<noteq> []) xs) = set xs - {[]}" for xs :: "string list" by auto
  show ?thesis unfolding validate_meeting_def k by (auto simp: concat_map_Nil not_less)
qed

text \<open>A valid decision under its own name, for the proofs about the lane.\<close>

lemma valid_decisionD:
  assumes "validate_tech_lead_decision d = []"
  shows "canonical_id (td_signoff_by d) = ''tech-lead''" "\<not> blank (td_decision_id d)" "\<not> blank (td_pm_brief_ref d)"
    "\<not> blank (td_meeting_ref d)" "\<not> blank (td_design_system d)" "\<not> blank (td_coding_convention d)"
    "\<exists>s. td_stack_decision d = Some s \<and> validate_stack_comparison s = []" "td_tradeoffs d \<noteq> []" "\<not> blank (td_rationale d)"
    "td_status d = CONDITIONAL \<Longrightarrow> td_conditions d \<noteq> []"
    "needs_ponytail d \<Longrightarrow> \<exists>p. td_ponytail d = Some p \<and> py_required p \<and> validate_ponytail p = []"
  using assms by (auto simp: validate_tech_lead_decision_def split: option.splits if_splits)

lemma valid_handoffD:
  assumes "validate_handoff h d = []"
  shows "ho_decision_ref h = td_decision_id d" "td_status d \<in> {SIGNED_OFF, CONDITIONAL}"
    "canonical_id (ho_executor_role h) \<noteq> []" "canonical_id (ho_executor_role h) \<notin> set NON_EXECUTOR_ROLES"
    "id_department (resolve_identity (ho_executor_role h)) = ''engineering''" "ho_scope h \<noteq> []" "\<not> blank (ho_test_strategy h)"
  using assms by (auto simp: validate_handoff_def Let_def resolve_canonical split: if_splits)

end
