(* ===== verification/DesignLane.thy ===== *)
theory DesignLane
  imports DesignArtifacts
begin

text \<open>
  The design lane: gateway, tech lead, engineer handoff and briefing (\<open>decision_lane/lane.py\<close>,
  \<open>decision_lane/gateway.py\<close>), the readiness ladder over the artifacts that exist (\<open>readiness.py\<close>), and the
  governance log from which the same ladder is replayed (\<open>decision_log.py\<close>). The payload of an event and
  its JSON text are not modelled: readiness reads neither.
\<close>

section \<open>Gateway and tech lead\<close>

record routing =
  rt_topic :: string
  rt_forwarded :: bool
  rt_to_role :: string
  rt_blocking :: "violation list"

definition route_to_tech_lead :: "pm_brief \<Rightarrow> meeting \<Rightarrow> routing" where
  "route_to_tech_lead b m =
     (let blocking = validate_pm_brief b @ validate_meeting m
      in \<lparr>rt_topic = pb_topic b, rt_forwarded = (blocking = []), rt_to_role = ''tech-lead'', rt_blocking = blocking\<rparr>)"

datatype verdict = GATEWAY_APPROVE | GATEWAY_REJECT | GATEWAY_REQUEST_INFO

datatype request = NeedBrief | NeedMeeting | Fix violation

record gateway_packet =
  gp_topic :: string
  gp_verdict :: verdict
  gp_info_requested :: "request list"
  gp_reject_reason :: string

definition gateway_review :: "pm_brief option \<Rightarrow> meeting option \<Rightarrow> string \<Rightarrow> gateway_packet" where
  "gateway_review brief meeting policy_block =
     (let topic = (case brief of Some b \<Rightarrow> if pb_topic b \<noteq> [] then pb_topic b else ''(no brief)'' | None \<Rightarrow> ''(no brief)'')
      in if policy_block \<noteq> []
         then \<lparr>gp_topic = topic, gp_verdict = GATEWAY_REJECT, gp_info_requested = [], gp_reject_reason = policy_block\<rparr>
         else
           let info = (case brief of None \<Rightarrow> [NeedBrief] | Some b \<Rightarrow> map Fix (validate_pm_brief b))
                    @ (case meeting of None \<Rightarrow> [NeedMeeting] | Some m \<Rightarrow> map Fix (validate_meeting m))
           in \<lparr>gp_topic = topic, gp_verdict = (if info \<noteq> [] then GATEWAY_REQUEST_INFO else GATEWAY_APPROVE),
               gp_info_requested = info, gp_reject_reason = []\<rparr>)"

definition gateway_packet_ok :: "gateway_packet \<Rightarrow> bool" where
  "gateway_packet_ok p \<longleftrightarrow> \<not> blank (gp_topic p) \<and> (case gp_verdict p of
       GATEWAY_APPROVE \<Rightarrow> gp_info_requested p = [] \<and> gp_reject_reason p = []
     | GATEWAY_REQUEST_INFO \<Rightarrow> gp_info_requested p \<noteq> []
     | GATEWAY_REJECT \<Rightarrow> \<not> blank (gp_reject_reason p))"

text \<open>What the tech lead supplies besides brief, meeting and stack.\<close>

record design_inputs =
  di_design_system :: string
  di_coding_convention :: string
  di_integration_notes :: "string list"
  di_risk_class :: string
  di_conditions :: "string list"
  di_rationale :: string
  di_signoff_by :: string
  di_decision_id :: string
  di_introduces_dependency :: bool
  di_introduces_abstraction :: bool
  di_ponytail :: "ponytail option"

definition decision_candidate :: "pm_brief \<Rightarrow> meeting \<Rightarrow> stack_comparison \<Rightarrow> design_inputs \<Rightarrow> decision" where
  "decision_candidate b m s d =
     (let level = classify_level (sc_decision_topic s @ '' '' @ di_rationale d @ '' '' @ di_risk_class d) (di_risk_class d);
          klass = get_default CLASS_BY_LEVEL level ''risky'';
          status = (if mt_escalated m then ESCALATED else if klass = ''blocked'' then DECISION_BLOCKED
            else if di_conditions d \<noteq> [] then CONDITIONAL else SIGNED_OFF)
      in \<lparr>td_decision_id = (if di_decision_id d \<noteq> [] then di_decision_id d else ''decision:'' @ mt_meeting_id m),
          td_pm_brief_ref = pb_topic b, td_meeting_ref = mt_meeting_id m, td_design_system = di_design_system d,
          td_coding_convention = di_coding_convention d, td_stack_decision = Some s, td_tradeoffs = sc_tradeoffs s,
          td_integration_notes = di_integration_notes d, td_risk_class = klass, td_approval_level = level,
          td_conditions = di_conditions d,
          td_rationale = (if di_rationale d \<noteq> [] then di_rationale d else sc_rationale s),
          td_signoff_by = di_signoff_by d, td_status = status,
          td_introduces_dependency = di_introduces_dependency d,
          td_introduces_abstraction = di_introduces_abstraction d,
          td_ponytail = (if di_ponytail d \<noteq> None then di_ponytail d else sc_ponytail s)\<rparr>)"

definition tech_lead_decide :: "pm_brief \<Rightarrow> meeting \<Rightarrow> stack_comparison \<Rightarrow> design_inputs \<Rightarrow> decision" where
  "tech_lead_decide b m s d =
     (let candidate = decision_candidate b m s d
      in if td_status candidate \<in> {SIGNED_OFF, CONDITIONAL} \<and> validate_tech_lead_decision candidate \<noteq> []
         then candidate\<lparr>td_status := ESCALATED\<rparr> else candidate)"

section \<open>Handoff and briefing\<close>

record work_order =
  wo_executor_role :: string
  wo_scope :: "string list"
  wo_test_strategy :: string
  wo_forbidden_scope :: "string list"
  wo_rollback_plan :: string
  wo_acceptance_criteria :: "string list"
  wo_handoff_id :: string

definition handoff_to_engineer :: "decision \<Rightarrow> work_order \<Rightarrow> handoff" where
  "handoff_to_engineer d w =
     \<lparr>ho_handoff_id = (if wo_handoff_id w \<noteq> [] then wo_handoff_id w else ''handoff:'' @ td_decision_id d),
      ho_decision_ref = td_decision_id d, ho_executor_role = wo_executor_role w, ho_scope = wo_scope w,
      ho_forbidden_scope = wo_forbidden_scope w, ho_test_strategy = wo_test_strategy w,
      ho_rollback_plan = wo_rollback_plan w, ho_acceptance_criteria = wo_acceptance_criteria w,
      ho_operator_required = (\<not> autopilot_can_execute (td_approval_level d)), ho_ponytail = td_ponytail d\<rparr>"

definition can_engineer_start :: "decision option \<Rightarrow> handoff option \<Rightarrow> bool" where
  "can_engineer_start decision handoff = (case (decision, handoff) of
     (Some d, Some h) \<Rightarrow> td_status d \<in> {SIGNED_OFF, CONDITIONAL} \<and> validate_tech_lead_decision d = []
       \<and> validate_handoff h d = []
   | _ \<Rightarrow> False)"

definition rejected_options :: "stack_comparison \<Rightarrow> rejected_option list" where
  "rejected_options s = map (\<lambda>x. \<lparr>ro_name = so_name x,
       ro_why_not = (if py_join ''; '' (so_cons x) \<noteq> [] then py_join ''; '' (so_cons x)
         else if so_risk x \<noteq> [] then so_risk x else (utf8 [0xADFC, 0xAC70, 0x20, 0xBBF8, 0xAE30,
           0xC7AC]))\<rparr>)
     (filter (\<lambda>x. so_name x \<noteq> sc_recommended s) (sc_options s))"

definition build_specialist_briefing :: "pm_brief option \<Rightarrow> decision \<Rightarrow> handoff \<Rightarrow> briefing" where
  "build_specialist_briefing brief d h =
     (let stack = td_stack_decision d;
          recommended = (case stack of Some s \<Rightarrow> sc_recommended s | None \<Rightarrow> []);
          rec_opt = (case stack of Some s \<Rightarrow> recommended_option s | None \<Rightarrow> None);
          rejected = (case stack of Some s \<Rightarrow> rejected_options s | None \<Rightarrow> []);
          goal = (case brief of
              Some b \<Rightarrow> if pb_problem b \<noteq> [] \<or> pb_user_value b \<noteq> [] then pb_problem b
                @ ('' '' @ utf8 [0x2192] @ '' '') @ pb_user_value b else td_rationale d
            | None \<Rightarrow> td_rationale d);
          why = (case stack of Some s \<Rightarrow> sc_rationale s | None \<Rightarrow> [])
      in \<lparr>br_handoff_id = ho_handoff_id h, br_executor_role = ho_executor_role h, br_decision_ref = td_decision_id d,
          br_goal = goal, br_proposed_stack = recommended,
          br_proposed_stack_summary = (case rec_opt of Some x \<Rightarrow> so_summary x | None \<Rightarrow> []),
          br_stack_rationale = (if why \<noteq> [] then why else td_rationale d), br_rejected_options = rejected,
          br_coding_conventions = td_coding_convention d, br_design_system = td_design_system d,
          br_integration_notes = td_integration_notes d, br_scope = ho_scope h, br_forbidden_scope = ho_forbidden_scope h,
          br_test_strategy = ho_test_strategy h, br_rollback_plan = ho_rollback_plan h,
          br_acceptance_criteria = ho_acceptance_criteria h, br_operator_required = ho_operator_required h,
          br_ponytail = td_ponytail d\<rparr>)"

definition can_specialist_start :: "pm_brief option \<Rightarrow> decision option \<Rightarrow> handoff option \<Rightarrow> bool" where
  "can_specialist_start brief decision handoff \<longleftrightarrow> can_engineer_start decision handoff
     \<and> (case (decision, handoff) of
          (Some d, Some h) \<Rightarrow> validate_specialist_briefing (build_specialist_briefing brief d h) = []
        | _ \<Rightarrow> False)"

definition tech_lead_request_more_info :: "pm_brief \<Rightarrow> meeting \<Rightarrow> string list \<Rightarrow> string \<Rightarrow> string \<Rightarrow> decision" where
  "tech_lead_request_more_info b m info decision_id signoff_by =
     \<lparr>td_decision_id = (if decision_id \<noteq> [] then decision_id else ''decision:'' @ mt_meeting_id m),
      td_pm_brief_ref = pb_topic b, td_meeting_ref = mt_meeting_id m, td_design_system = [], td_coding_convention = [],
      td_stack_decision = None, td_tradeoffs = [], td_integration_notes = [], td_risk_class = ''safe'',
      td_approval_level = [], td_conditions = info,
      td_rationale = (utf8 [0xC124, 0xACC4, 0x20, 0xC785, 0xB825, 0x28, 0xC2A4, 0xD0DD, 0x2F, 0xB514, 0xC790,
        0xC778, 0xC2DC, 0xC2A4, 0xD15C, 0x2F, 0xCF54, 0xB529, 0xCEE8, 0xBCA4, 0xC158] @ ''/tradeoff) ''
        @ utf8 [0xBD80, 0xC871, 0x20, 0x2014, 0x20, 0xCD94, 0xAC00, 0xC815, 0xBCF4, 0x20, 0xC694, 0xCCAD, 0x28,
        0xC2B9, 0xC778, 0x2F, 0xBC18, 0xB824, 0x20, 0xC544, 0xB2D8] @ '')''),
      td_signoff_by = signoff_by, td_status = NEEDS_INFO, td_introduces_dependency = False,
      td_introduces_abstraction = False, td_ponytail = None\<rparr>"

record lane_result =
  ln_routing :: routing
  ln_decision :: "decision option"
  ln_handoff :: "handoff option"
  ln_briefing :: "briefing option"
  ln_engineer_may_start :: bool
  ln_operator_required :: bool
  ln_violations :: "violation list"
  ln_trace :: "string list"

text \<open>\<open>run_lane\<close> has no parameters for a decision id, dependencies, abstractions or a consult of its own.\<close>

definition lane_inputs :: "design_inputs \<Rightarrow> design_inputs" where
  "lane_inputs d = d\<lparr>di_decision_id := [], di_introduces_dependency := False, di_introduces_abstraction := False,
     di_ponytail := None\<rparr>"

definition run_lane :: "pm_brief \<Rightarrow> meeting \<Rightarrow> stack_comparison \<Rightarrow> design_inputs \<Rightarrow> work_order \<Rightarrow> lane_result" where
  "run_lane b m s di w =
     (let r = route_to_tech_lead b m;
          t1 = [''gateway:route'' @ (if rt_forwarded r then (utf8 [0x2192] @ ''tech-lead'') else (utf8 [0x2192]
            @ ''blocked''))]
      in if \<not> rt_forwarded r
         then \<lparr>ln_routing = r, ln_decision = None, ln_handoff = None, ln_briefing = None, ln_engineer_may_start = False,
               ln_operator_required = False, ln_violations = rt_blocking r, ln_trace = t1\<rparr>
         else
           let d = tech_lead_decide b m s (lane_inputs di);
               t2 = t1 @ [''tech-lead:'' @ td_status d @ ''/'' @ td_approval_level d]
           in if td_status d \<notin> {SIGNED_OFF, CONDITIONAL}
              then \<lparr>ln_routing = r, ln_decision = Some d, ln_handoff = None, ln_briefing = None,
                    ln_engineer_may_start = False, ln_operator_required = False,
                    ln_violations = validate_tech_lead_decision d, ln_trace = t2\<rparr>
              else
                let h = handoff_to_engineer d (w\<lparr>wo_acceptance_criteria := pb_acceptance_criteria b, wo_handoff_id := []\<rparr>);
                    br = build_specialist_briefing (Some b) d h;
                    b_viol = validate_specialist_briefing br;
                    may_start = can_specialist_start (Some b) (Some d) (Some h)
                in \<lparr>ln_routing = r, ln_decision = Some d, ln_handoff = Some h, ln_briefing = Some br,
                    ln_engineer_may_start = may_start, ln_operator_required = ho_operator_required h,
                    ln_violations = validate_handoff h d @ b_viol,
                    ln_trace = t2 @ [(''engineer:handoff'' @ utf8 [0x2192]) @ wo_executor_role w,
                      ''briefing:'' @ (if b_viol = [] then ''ok'' else ''thin''),
                      (if may_start then ''engineer:start'' else ''engineer:blocked'')]\<rparr>)"

section \<open>The readiness ladder\<close>

datatype stage = STAGE_NO_PM_BRIEF | STAGE_MEETING_PENDING | STAGE_DECISION_PENDING | STAGE_HANDOFF_PENDING | STAGE_EXECUTABLE

primrec stage_value :: "stage \<Rightarrow> string" where
  "stage_value STAGE_NO_PM_BRIEF = ''no_pm_brief''"
| "stage_value STAGE_MEETING_PENDING = ''meeting_pending''"
| "stage_value STAGE_DECISION_PENDING = ''decision_pending''"
| "stage_value STAGE_HANDOFF_PENDING = ''handoff_pending''"
| "stage_value STAGE_EXECUTABLE = ''executable''"

record readiness =
  rd_stage :: stage
  rd_executable :: bool
  rd_confirmed :: "string list"
  rd_missing :: "string list"
  rd_blocking :: "violation list"
  rd_next_action :: string

definition waiting_at :: "stage \<Rightarrow> string list \<Rightarrow> string \<Rightarrow> violation list \<Rightarrow> string \<Rightarrow> readiness" where
  "waiting_at st confirmed missing blocking next_action = \<lparr>rd_stage = st, rd_executable = False, rd_confirmed = confirmed,
     rd_missing = [missing], rd_blocking = blocking, rd_next_action = next_action\<rparr>"

definition assess_handoff :: "string list \<Rightarrow> decision \<Rightarrow> handoff option \<Rightarrow> readiness" where
  "assess_handoff confirmed d handoff = (case handoff of
     None \<Rightarrow> waiting_at STAGE_HANDOFF_PENDING confirmed
       (''engineer handoff '' @ utf8 [0x2014, 0x20, 0xB2E8, 0xC77C] @ '' executor '' @ utf8 [0xB7] @ '' scope ''
         @ utf8 [0xB7] @ '' test '' @ utf8 [0xC804, 0xB7B5]) [] (''tech-lead '' @ utf8 [0x2192]
         @ '' engineer handoff '' @ utf8 [0xBC1C, 0xD589])
   | Some h \<Rightarrow>
       (let hviol = validate_handoff h d
        in if hviol \<noteq> [] then waiting_at STAGE_HANDOFF_PENDING confirmed (utf8 [0xC720, 0xD6A8, 0xD55C]
          @ '' handoff'') hviol (''handoff '' @ utf8 [0xBCF4, 0xC644, 0x20, 0x28, 0xB2E8, 0xC77C]
          @ '' engineer executor)'')
           else \<lparr>rd_stage = STAGE_EXECUTABLE, rd_executable = True,
                 rd_confirmed = confirmed @ [''handoff: '' @ ho_handoff_id h @ ('' '' @ utf8 [0x2192] @ '' '')
                   @ ho_executor_role h],
                 rd_missing = [], rd_blocking = [],
                 rd_next_action = (''specialist '' @ utf8 [0xC2E4, 0xD589, 0x20, 0xC778, 0xAC00, 0x20, 0x2014,
                   0x20, 0xBAA8, 0xB4E0] @ '' precondition '' @ utf8 [0xD655, 0xC815] @ '', execution gate ''
                   @ utf8 [0xD1B5, 0xACFC, 0x20, 0xAC00, 0xB2A5])\<rparr>))"

definition assess_decision :: "string list \<Rightarrow> decision option \<Rightarrow> handoff option \<Rightarrow> readiness" where
  "assess_decision confirmed decision handoff = (case decision of
     None \<Rightarrow> waiting_at STAGE_DECISION_PENDING confirmed
       (''tech-lead decision '' @ utf8 [0x2014] @ '' design system+convention+stack+tradeoff+approval, ''
         @ utf8 [0xC11C, 0xBA85]) []
       (''tech-lead '' @ utf8 [0xC11C, 0xBA85, 0x20, 0xD544, 0xC694, 0x20, 0x2014] @ '' decision '' @ utf8 [0xC5C6,
         0xC774, 0xB294] @ '' specialist '' @ utf8 [0xC2E4, 0xD589, 0x20, 0xBD88, 0xAC00])
   | Some d \<Rightarrow>
       (let dviol = validate_tech_lead_decision d
        in if dviol \<noteq> [] \<or> td_status d \<notin> {SIGNED_OFF, CONDITIONAL}
           then waiting_at STAGE_DECISION_PENDING confirmed (utf8 [0xC11C, 0xBA85, 0xB41C] @ '' tech-lead decision'')
                  (if dviol \<noteq> [] then dviol else [NotSignedDecision (td_status d)]) (''tech-lead ''
                    @ utf8 [0xC11C, 0xBA85, 0x2F, 0xBCF4, 0xC644])
           else assess_handoff (confirmed @ [''tech-lead decision: '' @ td_decision_id d @ '' ('' @ td_status d @ ''/''
                  @ td_approval_level d @ '')'']) d handoff))"

definition participants_text :: "meeting \<Rightarrow> string" where
  "participants_text m = '' ('' @ show_nat (length (mt_participants m)) @ ('' '' @ utf8 [0xCC38, 0xC11D] @ '')'')"

definition assess_lane_readiness :: "pm_brief option \<Rightarrow> meeting option \<Rightarrow> decision option \<Rightarrow> handoff option \<Rightarrow> readiness" where
  "assess_lane_readiness brief meeting decision handoff = (case brief of
     None \<Rightarrow> waiting_at STAGE_NO_PM_BRIEF [] (''PM brief '' @ utf8 [0x2014, 0x20, 0xBB38, 0xC81C]
       @ '' / '' @ utf8 [0xC0AC, 0xC6A9, 0xC790, 0xAC00, 0xCE58] @ '' / acceptance / '' @ utf8 [0xC131, 0xACF5,
       0xC9C0, 0xD45C]) []
       (''PM '' @ utf8 [0xC774] @ '' brief '' @ utf8 [0xB97C, 0x20, 0xD655, 0xC815, 0xD574, 0xC57C]
         @ '' tech-lead lane '' @ utf8 [0xC9C4, 0xC785, 0x20, 0xAC00, 0xB2A5] @ '' (PM artifact '' @ utf8 [0xC5C6,
         0xC774, 0xB294, 0x20, 0xC2E4, 0xD589, 0x20, 0xBD88, 0xAC00] @ '')'')
   | Some b \<Rightarrow>
       if validate_pm_brief b \<noteq> [] then waiting_at STAGE_NO_PM_BRIEF [] (utf8 [0xC720, 0xD6A8, 0xD55C]
         @ '' PM brief'') (validate_pm_brief b) (''PM brief '' @ utf8 [0xBCF4, 0xC644])
       else
         let confirmed = [''PM brief: '' @ pb_topic b]
         in case meeting of
              None \<Rightarrow> waiting_at STAGE_MEETING_PENDING confirmed (utf8 [0xC2E4, 0xC7AC]
                @ '' design meeting '' @ utf8 [0x2014, 0x20, 0x2265, 0x32, 0x20, 0xC5ED, 0xD560, 0x20, 0xB7, 0x20,
                0xBC18, 0xB300, 0x2F, 0xC6B0, 0xB824]) []
                (''design meeting '' @ utf8 [0xC18C, 0xC9D1])
            | Some m \<Rightarrow>
                if validate_meeting m \<noteq> []
                then waiting_at STAGE_MEETING_PENDING confirmed (utf8 [0xC720, 0xD6A8, 0xD55C]
                  @ '' meeting'') (validate_meeting m) (''meeting '' @ utf8 [0xBCF4, 0xC644] @ '' (rubber-stamp ''
                  @ utf8 [0xAE08, 0xC9C0] @ '')'')
                else assess_decision (confirmed @ [''meeting: '' @ mt_meeting_id m @ participants_text m]) decision handoff)"

section \<open>The governance log\<close>

definition KIND_BRIEF :: string where "KIND_BRIEF = ''brief''"
definition KIND_CONSULT :: string where "KIND_CONSULT = ''consult''"
definition KIND_GATEWAY :: string where "KIND_GATEWAY = ''gateway''"
definition KIND_MEETING :: string where "KIND_MEETING = ''meeting''"
definition KIND_DECISION :: string where "KIND_DECISION = ''decision''"
definition KIND_APPROVAL :: string where "KIND_APPROVAL = ''approval''"
definition KIND_HANDOFF :: string where "KIND_HANDOFF = ''handoff''"

lemmas event_kinds = KIND_BRIEF_def KIND_CONSULT_def KIND_GATEWAY_def KIND_MEETING_def KIND_DECISION_def KIND_APPROVAL_def
  KIND_HANDOFF_def

record gov_event =
  ge_kind :: string
  ge_actor :: string
  ge_summary :: string
  ge_valid :: bool
  ge_ref :: string

text \<open>The artifacts of one call of \<open>record_lane_artifacts\<close>; adoption reviews and merge receipts are left out.\<close>

record operator_approval =
  oa_approver :: string
  oa_decision_ref :: string
  oa_approved :: bool

record lane_artifacts =
  la_brief :: "pm_brief option"
  la_consult :: "consult_note list"
  la_gateway :: "gateway_packet option"
  la_meeting :: "meeting option"
  la_decision :: "decision option"
  la_approval :: "operator_approval option"
  la_handoff :: "handoff option"
  la_briefing :: "briefing option"

definition no_artifacts :: lane_artifacts where
  "no_artifacts = \<lparr>la_brief = None, la_consult = [], la_gateway = None, la_meeting = None, la_decision = None,
     la_approval = None, la_handoff = None, la_briefing = None\<rparr>"

definition verdict_value :: "verdict \<Rightarrow> string" where
  "verdict_value v = (case v of GATEWAY_APPROVE \<Rightarrow> ''approve'' | GATEWAY_REJECT \<Rightarrow> ''reject''
     | GATEWAY_REQUEST_INFO \<Rightarrow> ''request_more_info'')"

definition event_for :: "string \<Rightarrow> string \<Rightarrow> string \<Rightarrow> bool \<Rightarrow> string \<Rightarrow> gov_event" where
  "event_for k actor summary valid r =
     \<lparr>ge_kind = k, ge_actor = actor, ge_summary = summary, ge_valid = valid, ge_ref = r\<rparr>"

definition consult_event :: "consult_note \<Rightarrow> gov_event" where
  "consult_event n = event_for KIND_CONSULT (cn_by_role n)
     (''consult '' @ cn_consult_id n @ '': '' @ cn_by_role n @ (utf8 [0x2192] @ ''['')
       @ (let t = py_join '', '' (cn_to_roles n) in if t \<noteq> [] then t else ''-'')
       @ ''] ('' @ cn_topic n @ '')'') (validate_consult n = []) (cn_consult_id n)"

definition handoff_event :: "lane_artifacts \<Rightarrow> handoff \<Rightarrow> gov_event" where
  "handoff_event a h = event_for KIND_HANDOFF (ho_executor_role h)
     (''handoff '' @ ho_handoff_id h @ ('' '' @ utf8 [0x2192] @ '' '') @ ho_executor_role h)
     ((case la_decision a of None \<Rightarrow> False | Some d \<Rightarrow> validate_handoff h d = [])
       \<and> (case la_briefing a of None \<Rightarrow> True | Some b \<Rightarrow> validate_specialist_briefing b = []))
     (ho_handoff_id h)"

definition lane_events :: "lane_artifacts \<Rightarrow> gov_event list" where
  "lane_events a =
     (case la_brief a of None \<Rightarrow> [] | Some b \<Rightarrow> [event_for KIND_BRIEF ''product-manager'' (''PM brief: '' @ pb_topic b)
        (validate_pm_brief b = []) (pb_topic b)])
     @ map consult_event (la_consult a)
     @ (case la_gateway a of None \<Rightarrow> [] | Some g \<Rightarrow> [event_for KIND_GATEWAY ''gateway''
          (''gateway '' @ verdict_value (gp_verdict g) @ '': '' @ gp_topic g)
          (gateway_packet_ok g \<and> gp_verdict g = GATEWAY_APPROVE) (gp_topic g)])
     @ (case la_meeting a of None \<Rightarrow> [] | Some m \<Rightarrow> [event_for KIND_MEETING ''tech-lead''
          (''meeting '' @ mt_meeting_id m @ participants_text m) (validate_meeting m = []) (mt_meeting_id m)])
     @ (case la_decision a of None \<Rightarrow> [] | Some d \<Rightarrow> [event_for KIND_DECISION (td_signoff_by d)
          (''decision '' @ td_decision_id d @ '' ('' @ td_status d @ ''/'' @ td_approval_level d @ '')'')
          (validate_tech_lead_decision d = [] \<and> td_status d \<in> {SIGNED_OFF, CONDITIONAL}) (td_decision_id d)])
     @ (case la_approval a of None \<Rightarrow> [] | Some p \<Rightarrow> [event_for KIND_APPROVAL (oa_approver p)
          (''operator approval ref='' @ oa_decision_ref p) (oa_approved p) (oa_decision_ref p)])
     @ (case la_handoff a of None \<Rightarrow> [] | Some h \<Rightarrow> [handoff_event a h])"

definition has_event :: "string \<Rightarrow> gov_event list \<Rightarrow> bool" where
  "has_event k es \<longleftrightarrow> list_ex (\<lambda>e. ge_kind e = k \<and> ge_valid e) es"

definition event_label :: "string \<Rightarrow> gov_event list \<Rightarrow> string" where
  "event_label k es = (case find (\<lambda>e. ge_kind e = k \<and> ge_valid e) es of Some e \<Rightarrow> ge_summary e | None \<Rightarrow> [])"

definition readiness_from_log :: "gov_event list \<Rightarrow> readiness" where
  "readiness_from_log es =
     (if \<not> has_event KIND_BRIEF es
      then waiting_at STAGE_NO_PM_BRIEF [] (''PM brief ('' @ utf8 [0xC720, 0xD6A8] @ '')'') [] (''PM brief ''
        @ utf8 [0xD655, 0xC815, 0x20, 0x2014, 0x20, 0xC5C6, 0xC73C, 0xBA74] @ '' tech-lead lane '' @ utf8 [0xC2E4,
        0xD589, 0x20, 0xBD88, 0xAC00])
      else if \<not> has_event KIND_MEETING es
      then waiting_at STAGE_MEETING_PENDING [event_label KIND_BRIEF es] (utf8 [0xC2E4, 0xC7AC] @ '' meeting (''
        @ utf8 [0xC720, 0xD6A8] @ '')'') [] (''design meeting '' @ utf8 [0xC18C, 0xC9D1])
      else if \<not> has_event KIND_DECISION es
      then waiting_at STAGE_DECISION_PENDING [event_label KIND_BRIEF es, event_label KIND_MEETING es]
             (utf8 [0xC11C, 0xBA85, 0xB41C] @ '' tech-lead decision'') [] (''tech-lead '' @ utf8 [0xC11C, 0xBA85,
               0x20, 0x2014, 0x20, 0xC5C6, 0xC73C, 0xBA74] @ '' specialist '' @ utf8 [0xC2E4, 0xD589, 0x20, 0xBD88,
               0xAC00])
      else if \<not> has_event KIND_HANDOFF es
      then waiting_at STAGE_HANDOFF_PENDING
             [event_label KIND_BRIEF es, event_label KIND_MEETING es, event_label KIND_DECISION es]
             (utf8 [0xC720, 0xD6A8, 0xD55C] @ '' engineer handoff'') [] (''engineer handoff '' @ utf8 [0xBC1C,
               0xD589])
      else \<lparr>rd_stage = STAGE_EXECUTABLE, rd_executable = True,
            rd_confirmed = [event_label KIND_BRIEF es, event_label KIND_MEETING es, event_label KIND_DECISION es, event_label KIND_HANDOFF es],
            rd_missing = [], rd_blocking = [], rd_next_action = (''specialist '' @ utf8 [0xC2E4, 0xD589, 0x20,
              0xC778, 0xAC00, 0x20, 0x2014] @ '' replay '' @ utf8 [0xD655, 0xC778, 0x20, 0xC644, 0xB8CC])\<rparr>)"

end
