(* ===== verification/DesignLaneProps.thy ===== *)
theory DesignLaneProps
  imports DesignLane
begin

text \<open>
  What the design lane guarantees: when an engineer may start, that the log replays the same readiness as
  the artifacts, and that the replayed readiness is never withdrawn.
\<close>

section \<open>Classes and signatures\<close>

lemma candidate_simps [simp]:
  "td_pm_brief_ref (decision_candidate b m s d) = pb_topic b" "td_meeting_ref (decision_candidate b m s d) = mt_meeting_id m"
  "td_design_system (decision_candidate b m s d) = di_design_system d"
  "td_coding_convention (decision_candidate b m s d) = di_coding_convention d"
  "td_stack_decision (decision_candidate b m s d) = Some s" "td_tradeoffs (decision_candidate b m s d) = sc_tradeoffs s"
  "td_conditions (decision_candidate b m s d) = di_conditions d"
  "td_signoff_by (decision_candidate b m s d) = di_signoff_by d"
  "td_rationale (decision_candidate b m s d) = (if di_rationale d \<noteq> [] then di_rationale d else sc_rationale s)"
  "td_approval_level (decision_candidate b m s d) =
     classify_level (sc_decision_topic s @ '' '' @ di_rationale d @ '' '' @ di_risk_class d) (di_risk_class d)"
  "td_decision_id (decision_candidate b m s d) = (if di_decision_id d \<noteq> [] then di_decision_id d else ''decision:'' @ mt_meeting_id m)"
  by (simp_all add: decision_candidate_def Let_def)

lemma not_signed_names [simp]: "ESCALATED \<noteq> SIGNED_OFF" "ESCALATED \<noteq> CONDITIONAL" "DECISION_BLOCKED \<noteq> SIGNED_OFF"
  "DECISION_BLOCKED \<noteq> CONDITIONAL" "SIGNED_OFF \<noteq> CONDITIONAL" "CONDITIONAL \<noteq> SIGNED_OFF"
  by (simp_all add: decision_statuses)

lemma candidate_class: "td_risk_class (decision_candidate b m s d) \<in> {''safe'', ''risky'', ''blocked''}"
  "td_risk_class (decision_candidate b m s d) = ''blocked'' \<longleftrightarrow> td_approval_level (decision_candidate b m s d) = L4_RESTRICTED"
  using classify_cases[of "sc_decision_topic s @ '' '' @ di_rationale d @ '' '' @ di_risk_class d" "di_risk_class d"]
  by (auto simp: decision_candidate_def Let_def)

lemma candidate_signed: "td_status (decision_candidate b m s d) \<in> {SIGNED_OFF, CONDITIONAL} \<longleftrightarrow>
    \<not> mt_escalated m \<and> td_approval_level (decision_candidate b m s d) \<noteq> L4_RESTRICTED"
  using candidate_class(2)[of b m s d] by (auto simp: decision_candidate_def Let_def)

text \<open>A decision is only ever signed when it passes the validator.\<close>

lemma signed_is_valid: "td_status (tech_lead_decide b m s d) \<in> {SIGNED_OFF, CONDITIONAL} \<longleftrightarrow>
    td_status (decision_candidate b m s d) \<in> {SIGNED_OFF, CONDITIONAL} \<and> validate_tech_lead_decision (decision_candidate b m s d) = []"
  by (auto simp: tech_lead_decide_def Let_def)

lemma signed_candidate: "td_status (tech_lead_decide b m s d) \<in> {SIGNED_OFF, CONDITIONAL} \<Longrightarrow>
    tech_lead_decide b m s d = decision_candidate b m s d"
  by (auto simp: tech_lead_decide_def Let_def split: if_splits)

section \<open>When an engineer may start\<close>

lemma blank_append [simp]: "blank (a @ b) \<longleftrightarrow> blank a \<and> blank b"
  by (auto simp: blank_def py_strip_eq_Nil_iff)

lemma blank_Cons [simp]: "blank (c # cs) \<longleftrightarrow> py_space c \<and> blank cs"
  by (auto simp: blank_def py_strip_eq_Nil_iff)

lemma blank_Nil [simp]: "blank []"
  by (simp add: blank_def)

lemma letters_not_space [simp]: "\<not> py_space (CHR ''d'')" "\<not> py_space (CHR ''h'')"
  by (simp_all add: py_space_def)

lemma known_not_blank: "canonical_id r \<noteq> [] \<Longrightarrow> \<not> blank r"
  by (auto simp: canonical_id_def blank_def no_empty_alias)

lemma lane_candidate_valid:
  assumes "validate_pm_brief b = []" and "validate_meeting m = []"
  shows "validate_tech_lead_decision (decision_candidate b m s (lane_inputs d)) = [] \<longleftrightarrow>
    canonical_id (di_signoff_by d) = ''tech-lead'' \<and> \<not> blank (di_design_system d) \<and> \<not> blank (di_coding_convention d)
    \<and> validate_stack_comparison s = [] \<and> \<not> (di_rationale d \<noteq> [] \<and> blank (di_rationale d))
    \<and> (case sc_ponytail s of None \<Rightarrow> True | Some p \<Rightarrow> validate_ponytail p = [])"
proof -
  let ?c = "decision_candidate b m s (lane_inputs d)"
  have p: "td_introduces_dependency ?c = False" "td_introduces_abstraction ?c = False" "td_ponytail ?c = sc_ponytail s"
    by (simp_all add: decision_candidate_def lane_inputs_def Let_def)
  have k: "td_status ?c = CONDITIONAL \<Longrightarrow> di_conditions d \<noteq> []"
    by (auto simp: decision_candidate_def lane_inputs_def Let_def decision_statuses split: if_splits)
  have r: "td_risk_class ?c \<in> {''safe'', ''risky'', ''blocked''}" by (rule candidate_class(1))
  have pony: "(if needs_ponytail ?c then (case td_ponytail ?c of None \<Rightarrow> [PonytailMissing]
      | Some p \<Rightarrow> if \<not> py_required p then [PonytailMissing] else validate_ponytail p) else []) = [] \<longleftrightarrow>
      (case sc_ponytail s of None \<Rightarrow> True | Some p \<Rightarrow> validate_ponytail p = [])"
    by (auto simp: needs_ponytail_def p validate_ponytail_def split: option.split)
  show ?thesis
    unfolding validate_tech_lead_decision_def append_is_Nil_conv pony
    using assms k r by (auto simp: valid_brief valid_meeting valid_stack lane_inputs_def)
qed

lemma handoff_valid:
  assumes "td_status d \<in> {SIGNED_OFF, CONDITIONAL}" and "wo_handoff_id w = []"
  shows "validate_handoff (handoff_to_engineer d w) d = [] \<longleftrightarrow>
    canonical_id (wo_executor_role w) \<notin> {[], ''gateway'', ''tech-lead'', ''product-manager''}
    \<and> id_department (resolve_identity (wo_executor_role w)) = ''engineering'' \<and> wo_scope w \<noteq> [] \<and> \<not> blank (wo_test_strategy w)"
  using assms by (auto simp: validate_handoff_def handoff_to_engineer_def Let_def NON_EXECUTOR_ROLES_def resolve_canonical)

lemma briefing_valid:
  assumes b: "validate_pm_brief b = []" and s: "validate_stack_comparison s = []" "td_stack_decision d = Some s"
    and d: "\<not> blank (td_design_system d)" "\<not> blank (td_coding_convention d)"
    and w: "canonical_id (wo_executor_role w) \<noteq> []" "wo_scope w \<noteq> []" "\<not> blank (wo_test_strategy w)" "wo_handoff_id w = []"
      "wo_acceptance_criteria w = pb_acceptance_criteria b"
  shows "validate_specialist_briefing (build_specialist_briefing (Some b) d (handoff_to_engineer d w)) = [] \<longleftrightarrow>
    rejected_options s \<noteq> [] \<and> list_all (\<lambda>r. \<not> blank (ro_why_not r)) (rejected_options s)"
proof -
  have n: "\<not> blank (ro_name r)" if "r \<in> set (rejected_options s)" for r
    using that s(1) by (auto simp: rejected_options_def valid_stack)
  have pb: "pb_problem b \<noteq> []" using b by (auto simp: valid_brief)
  have sr: "sc_rationale s \<noteq> []" using s(1) by (auto simp: valid_stack)
  show ?thesis
    using b s d w known_not_blank[OF w(1)] n pb sr
    by (auto simp: validate_specialist_briefing_def build_specialist_briefing_def handoff_to_engineer_def Let_def
        list_ex_iff list_all_iff valid_brief valid_stack)
qed

definition lane_order :: "pm_brief \<Rightarrow> work_order \<Rightarrow> work_order" where
  "lane_order b w = w\<lparr>wo_acceptance_criteria := pb_acceptance_criteria b, wo_handoff_id := []\<rparr>"

lemma lane_order_simps [simp]: "wo_handoff_id (lane_order b w) = []" "wo_acceptance_criteria (lane_order b w) = pb_acceptance_criteria b"
    "wo_executor_role (lane_order b w) = wo_executor_role w" "wo_scope (lane_order b w) = wo_scope w"
    "wo_test_strategy (lane_order b w) = wo_test_strategy w"
  by (simp_all add: lane_order_def)

lemma run_lane_start:
  fixes b m s di w
  assumes "validate_pm_brief b = []" and "validate_meeting m = []"
  defines "c \<equiv> decision_candidate b m s (lane_inputs di)"
  defines "h \<equiv> handoff_to_engineer c (lane_order b w)"
  shows "ln_engineer_may_start (run_lane b m s di w) \<longleftrightarrow> \<not> mt_escalated m \<and> td_approval_level c \<noteq> L4_RESTRICTED
      \<and> validate_tech_lead_decision c = [] \<and> validate_handoff h c = []
      \<and> validate_specialist_briefing (build_specialist_briefing (Some b) c h) = []" (is "?start \<longleftrightarrow> ?real")
    and "ln_engineer_may_start (run_lane b m s di w) \<Longrightarrow> ln_operator_required (run_lane b m s di w) \<longleftrightarrow> td_approval_level c \<noteq> L2_INTERNAL_APPROVE"
proof -
  define d where "d = tech_lead_decide b m s (lane_inputs di)"
  have st: "td_status d \<in> {SIGNED_OFF, CONDITIONAL} \<longleftrightarrow>
      \<not> mt_escalated m \<and> td_approval_level c \<noteq> L4_RESTRICTED \<and> validate_tech_lead_decision c = []"
    unfolding d_def c_def by (simp only: signed_is_valid candidate_signed conj_assoc)
  have "?start \<longleftrightarrow> td_status d \<in> {SIGNED_OFF, CONDITIONAL}
      \<and> can_specialist_start (Some b) (Some d) (Some (handoff_to_engineer d (lane_order b w)))"
    using assms(1,2) by (simp add: run_lane_def route_to_tech_lead_def Let_def d_def[symmetric] lane_order_def)
  moreover have "d = c" if "td_status d \<in> {SIGNED_OFF, CONDITIONAL}"
    using that unfolding d_def c_def by (rule signed_candidate)
  ultimately have start: "?start \<longleftrightarrow> td_status d \<in> {SIGNED_OFF, CONDITIONAL} \<and> d = c \<and> can_specialist_start (Some b) (Some c) (Some h)"
    by (auto simp: h_def)
  also have "\<dots> \<longleftrightarrow> ?real"
    using st \<open>td_status d \<in> {SIGNED_OFF, CONDITIONAL} \<Longrightarrow> d = c\<close>
    by (auto simp: can_specialist_start_def can_engineer_start_def)
  finally show "?start \<longleftrightarrow> ?real" .
  show "ln_operator_required (run_lane b m s di w) \<longleftrightarrow> td_approval_level c \<noteq> L2_INTERNAL_APPROVE" if ?start
    using that start assms(1,2)
    by (auto simp: run_lane_def route_to_tech_lead_def Let_def d_def[symmetric] handoff_to_engineer_def autopilot_can_execute_def)
qed

text \<open>C27: An engineer may start out of the lane exactly when the design is real: a valid brief and a valid
  meeting that did not escalate, wording that is not restricted, a sign-off by the tech lead and nobody else
  with design system, coding convention and a comparison of at least two options, a complete consult when
  one was owed, at least one rejected option and a reason for each, and a work order with scope and test
  strategy for one engineer who neither routes nor decides. The operator is required unless the wording is
  of the internal level.\<close>

theorem lane_start_exact:
  "(ln_engineer_may_start (run_lane b m s di w) \<longleftrightarrow>
      validate_pm_brief b = [] \<and> validate_meeting m = [] \<and> \<not> mt_escalated m
      \<and> classify_level (sc_decision_topic s @ '' '' @ di_rationale di @ '' '' @ di_risk_class di) (di_risk_class di) \<noteq> L4_RESTRICTED
      \<and> canonical_id (di_signoff_by di) = ''tech-lead'' \<and> \<not> blank (di_design_system di) \<and> \<not> blank (di_coding_convention di)
      \<and> validate_stack_comparison s = [] \<and> \<not> (di_rationale di \<noteq> [] \<and> blank (di_rationale di))
      \<and> (case sc_ponytail s of None \<Rightarrow> True | Some p \<Rightarrow> validate_ponytail p = [])
      \<and> rejected_options s \<noteq> [] \<and> list_all (\<lambda>r. \<not> blank (ro_why_not r)) (rejected_options s)
      \<and> canonical_id (wo_executor_role w) \<notin> {[], ''gateway'', ''tech-lead'', ''product-manager''}
      \<and> id_department (resolve_identity (wo_executor_role w)) = ''engineering''
      \<and> wo_scope w \<noteq> [] \<and> \<not> blank (wo_test_strategy w))
    \<and> (ln_engineer_may_start (run_lane b m s di w) \<and> \<not> ln_operator_required (run_lane b m s di w) \<longleftrightarrow>
        ln_engineer_may_start (run_lane b m s di w)
        \<and> classify_level (sc_decision_topic s @ '' '' @ di_rationale di @ '' '' @ di_risk_class di) (di_risk_class di) = L2_INTERNAL_APPROVE)"
proof (cases "validate_pm_brief b = [] \<and> validate_meeting m = []")
  case False
  then have "\<not> ln_engineer_may_start (run_lane b m s di w)" by (auto simp: run_lane_def route_to_tech_lead_def Let_def)
  with False show ?thesis by blast
next
  case real: True
  define c where "c = decision_candidate b m s (lane_inputs di)"
  have level: "td_approval_level c =
      classify_level (sc_decision_topic s @ '' '' @ di_rationale di @ '' '' @ di_risk_class di) (di_risk_class di)"
    by (simp add: c_def lane_inputs_def)
  have C: "validate_tech_lead_decision c = [] \<longleftrightarrow>
      canonical_id (di_signoff_by di) = ''tech-lead'' \<and> \<not> blank (di_design_system di) \<and> \<not> blank (di_coding_convention di)
      \<and> validate_stack_comparison s = [] \<and> \<not> (di_rationale di \<noteq> [] \<and> blank (di_rationale di))
      \<and> (case sc_ponytail s of None \<Rightarrow> True | Some p \<Rightarrow> validate_ponytail p = [])"
    unfolding c_def using real by (intro lane_candidate_valid) simp_all
  have H: "validate_handoff (handoff_to_engineer c (lane_order b w)) c = [] \<longleftrightarrow>
      canonical_id (wo_executor_role w) \<notin> {[], ''gateway'', ''tech-lead'', ''product-manager''}
      \<and> id_department (resolve_identity (wo_executor_role w)) = ''engineering'' \<and> wo_scope w \<noteq> [] \<and> \<not> blank (wo_test_strategy w)"
    if "td_approval_level c \<noteq> L4_RESTRICTED" "\<not> mt_escalated m"
    using handoff_valid[of c "lane_order b w"] that candidate_signed[of b m s "lane_inputs di"] by (simp add: c_def)
  have B: "validate_specialist_briefing (build_specialist_briefing (Some b) c (handoff_to_engineer c (lane_order b w))) = [] \<longleftrightarrow>
      rejected_options s \<noteq> [] \<and> list_all (\<lambda>r. \<not> blank (ro_why_not r)) (rejected_options s)"
    if "validate_tech_lead_decision c = []" "canonical_id (wo_executor_role w) \<noteq> []" "wo_scope w \<noteq> []" "\<not> blank (wo_test_strategy w)"
    using briefing_valid[of b s c "lane_order b w"] real that C by (simp add: c_def lane_inputs_def)
  show ?thesis
    using run_lane_start[OF conjunct1[OF real] conjunct2[OF real], of s di w] C H B real
    unfolding c_def[symmetric] level by blast
qed

section \<open>What the log replays\<close>

lemma has_event_option: "has_event k (case x of None \<Rightarrow> [] | Some v \<Rightarrow> f v) \<longleftrightarrow> (\<exists>v. x = Some v \<and> has_event k (f v))"
  by (cases x) (simp_all add: has_event_def)

lemma has_event_append [simp]: "has_event k (es @ es') \<longleftrightarrow> has_event k es \<or> has_event k es'"
  by (simp add: has_event_def)

lemma has_event_Nil [simp]: "\<not> has_event k []"
  by (simp add: has_event_def)

lemma has_event_one [simp]: "has_event k [event_for k' who summary valid r] \<longleftrightarrow> k' = k \<and> valid"
  by (simp add: has_event_def event_for_def)

lemma has_event_consults: "k \<noteq> KIND_CONSULT \<Longrightarrow> \<not> has_event k (map consult_event ns)"
  by (induction ns) (simp_all add: has_event_def consult_event_def event_for_def)

lemma has_event_concat: "has_event k (concat (map f xs)) \<longleftrightarrow> (\<exists>x \<in> set xs. has_event k (f x))"
  by (induction xs) auto

lemma lane_event_brief: "has_event KIND_BRIEF (lane_events a) \<longleftrightarrow> (\<exists>b. la_brief a = Some b \<and> validate_pm_brief b = [])"
  and lane_event_meeting: "has_event KIND_MEETING (lane_events a) \<longleftrightarrow> (\<exists>m. la_meeting a = Some m \<and> validate_meeting m = [])"
  and lane_event_decision: "has_event KIND_DECISION (lane_events a) \<longleftrightarrow>
      (\<exists>d. la_decision a = Some d \<and> validate_tech_lead_decision d = [] \<and> td_status d \<in> {SIGNED_OFF, CONDITIONAL})"
  and lane_event_handoff: "has_event KIND_HANDOFF (lane_events a) \<longleftrightarrow>
      (\<exists>d h. la_decision a = Some d \<and> la_handoff a = Some h \<and> validate_handoff h d = []
        \<and> (case la_briefing a of None \<Rightarrow> True | Some b \<Rightarrow> validate_specialist_briefing b = []))"
  unfolding lane_events_def has_event_append has_event_option handoff_event_def has_event_one
  by (simp_all add: has_event_consults event_kinds) (cases "la_decision a"; cases "la_handoff a"; simp)

lemma log_executable: "rd_executable (readiness_from_log es) \<longleftrightarrow>
    has_event KIND_BRIEF es \<and> has_event KIND_MEETING es \<and> has_event KIND_DECISION es \<and> has_event KIND_HANDOFF es"
  by (simp add: readiness_from_log_def waiting_at_def)

lemma log_stage: "rd_stage (readiness_from_log es) =
    (if \<not> has_event KIND_BRIEF es then STAGE_NO_PM_BRIEF else if \<not> has_event KIND_MEETING es then STAGE_MEETING_PENDING
     else if \<not> has_event KIND_DECISION es then STAGE_DECISION_PENDING
     else if \<not> has_event KIND_HANDOFF es then STAGE_HANDOFF_PENDING else STAGE_EXECUTABLE)"
  by (simp add: readiness_from_log_def waiting_at_def)

lemma log_monotone: "rd_executable (readiness_from_log es) \<Longrightarrow> rd_executable (readiness_from_log (es @ es'))"
  by (simp add: log_executable)

text \<open>C35: Replaying the log gives what the artifacts say. The stage read from one record of brief, meeting,
  decision and handoff is the stage assessed from them directly, and over any sequence of records the replay
  says executable exactly when some record holds a valid brief, some a valid meeting, some a valid signed
  decision, and some a handoff valid for the decision of the same record. For a single record that is the
  hard gate \<open>can_engineer_start\<close> on top of a real brief and meeting.\<close>

theorem log_readiness_exact:
  "rd_stage (readiness_from_log (lane_events (no_artifacts\<lparr>la_brief := b, la_meeting := m, la_decision := d, la_handoff := h\<rparr>)))
      = rd_stage (assess_lane_readiness b m d h)
    \<and> (rd_executable (assess_lane_readiness b m d h) \<longleftrightarrow>
        (\<exists>x. b = Some x \<and> validate_pm_brief x = []) \<and> (\<exists>x. m = Some x \<and> validate_meeting x = []) \<and> can_engineer_start d h)
    \<and> (rd_executable (readiness_from_log (concat (map lane_events as))) \<longleftrightarrow>
        (\<exists>a \<in> set as. \<exists>x. la_brief a = Some x \<and> validate_pm_brief x = [])
        \<and> (\<exists>a \<in> set as. \<exists>x. la_meeting a = Some x \<and> validate_meeting x = [])
        \<and> (\<exists>a \<in> set as. \<exists>x. la_decision a = Some x \<and> validate_tech_lead_decision x = [] \<and> td_status x \<in> {SIGNED_OFF, CONDITIONAL})
        \<and> (\<exists>a \<in> set as. \<exists>x y. la_decision a = Some x \<and> la_handoff a = Some y \<and> validate_handoff y x = []
             \<and> (case la_briefing a of None \<Rightarrow> True | Some z \<Rightarrow> validate_specialist_briefing z = [])))"
proof (intro conjI)
  show "rd_stage (readiness_from_log (lane_events (no_artifacts\<lparr>la_brief := b, la_meeting := m, la_decision := d, la_handoff := h\<rparr>)))
      = rd_stage (assess_lane_readiness b m d h)"
    unfolding log_stage lane_event_brief lane_event_meeting lane_event_decision lane_event_handoff
    by (auto simp: assess_lane_readiness_def assess_decision_def assess_handoff_def waiting_at_def Let_def no_artifacts_def
        split: option.split)
  show "rd_executable (assess_lane_readiness b m d h) \<longleftrightarrow>
      (\<exists>x. b = Some x \<and> validate_pm_brief x = []) \<and> (\<exists>x. m = Some x \<and> validate_meeting x = []) \<and> can_engineer_start d h"
    by (auto simp: assess_lane_readiness_def assess_decision_def assess_handoff_def waiting_at_def Let_def can_engineer_start_def
        split: option.split)
qed (simp only: log_executable has_event_concat lane_event_brief lane_event_meeting lane_event_decision lane_event_handoff)

text \<open>Readiness is never withdrawn. Once a log replays as executable it stays executable whatever is
  recorded next, also when that is a decision by which the tech lead blocks the design.\<close>

lemma withdrawn_design_stays_executable:
  assumes "rd_executable (readiness_from_log es)"
  shows "rd_executable (readiness_from_log (es @ lane_events (no_artifacts\<lparr>la_decision := Some (d\<lparr>td_status := DECISION_BLOCKED\<rparr>)\<rparr>)))"
  using assms by (rule log_monotone)

section \<open>A sample design\<close>

definition sample_brief :: pm_brief where
  "sample_brief = \<lparr>pb_topic = ''search'', pb_problem = ''slow'', pb_user_value = ''fast'', pb_target_users = [],
     pb_acceptance_criteria = [''p95''], pb_success_metrics = [''ms''], pb_constraints = [], pb_out_of_scope = [],
     pb_priority = ''normal'', pb_requested_by = ''operator''\<rparr>"

definition sample_meeting :: meeting where
  "sample_meeting = \<lparr>mt_meeting_id = ''m1'', mt_topic = ''search'', mt_agenda = [''stack''],
     mt_participants = [
       \<lparr>pa_role = ''be'', pa_stance = ''support'', pa_position = ''yes'', pa_concerns = []\<rparr>,
       \<lparr>pa_role = ''qa'', pa_stance = ''oppose'', pa_position = ''no'', pa_concerns = [''tests'']\<rparr>],
     mt_decisions = [''use b''], mt_open_questions = [], mt_round_index = 1, mt_escalated = False, mt_ponytail = None\<rparr>"

definition sample_stack :: stack_comparison where
  "sample_stack = \<lparr>sc_decision_topic = ''index'', sc_options = [
       \<lparr>so_name = ''a'', so_summary = [], so_pros = [''x''], so_cons = [''y''], so_risk = [], so_fit = 0\<rparr>,
       \<lparr>so_name = ''b'', so_summary = [], so_pros = [''x''], so_cons = [''y''], so_risk = [], so_fit = 0\<rparr>],
     sc_recommended = ''b'', sc_rationale = ''fits'', sc_tradeoffs = [''t''], sc_assumptions = [], sc_ponytail = None\<rparr>"

definition sample_decision :: decision where
  "sample_decision = \<lparr>td_decision_id = ''d1'', td_pm_brief_ref = ''search'', td_meeting_ref = ''m1'', td_design_system = ''ds'',
     td_coding_convention = ''cc'', td_stack_decision = Some sample_stack, td_tradeoffs = [''t''], td_integration_notes = [],
     td_risk_class = ''safe'', td_approval_level = L2_INTERNAL_APPROVE, td_conditions = [], td_rationale = ''fits'',
     td_signoff_by = ''tech-lead'', td_status = SIGNED_OFF, td_introduces_dependency = False,
     td_introduces_abstraction = False, td_ponytail = None\<rparr>"

definition sample_handoff :: handoff where
  "sample_handoff = \<lparr>ho_handoff_id = ''h1'', ho_decision_ref = ''d1'', ho_executor_role = ''be'', ho_scope = [''s''],
     ho_forbidden_scope = [], ho_test_strategy = ''unit'', ho_rollback_plan = [], ho_acceptance_criteria = [],
     ho_operator_required = False, ho_ponytail = None\<rparr>"

definition sample_log :: "gov_event list" where
  "sample_log = lane_events (no_artifacts\<lparr>la_brief := Some sample_brief, la_meeting := Some sample_meeting,
     la_decision := Some sample_decision, la_handoff := Some sample_handoff\<rparr>)"

lemma sample_parts_valid: "validate_pm_brief sample_brief = []" "validate_meeting sample_meeting = []"
  "validate_tech_lead_decision sample_decision = []" "validate_handoff sample_handoff sample_decision = []"
  by code_simp+

lemma sample_log_executable: "rd_executable (readiness_from_log sample_log)"
  unfolding log_executable sample_log_def lane_event_brief lane_event_meeting lane_event_decision lane_event_handoff
  using sample_parts_valid by (auto simp: no_artifacts_def) (simp add: sample_decision_def)

end
