(* ===== verification/ExecGate.thy ===== *)
theory ExecGate
  imports DesignLaneProps PyText
begin

text \<open>
  The gates right before something is executed, \<open>decision_lane/enforcement.py\<close>: the action is classified
  again when it is about to run, and the whole approval chain is checked against that class, once for signed
  designs (\<open>authorize_execution\<close>) and once for findings of the autopilot (\<open>authorize_runtime_execution\<close>).
\<close>

section \<open>The action\<close>

record action_request =
  aq_kind :: string
  aq_summary :: string
  aq_diff :: int
  aq_files :: int
  aq_risk_flag :: string

definition LEVEL_RANK :: "nat pydict" where
  "LEVEL_RANK = [(L2_INTERNAL_APPROVE, 0), (L3_USER_APPROVE, 1), (L4_RESTRICTED, 2)]"

definition ACTION_CLASS :: "string pydict" where
  "ACTION_CLASS = [(L2_INTERNAL_APPROVE, ''safe''), (L3_USER_APPROVE, ''risky''), (L4_RESTRICTED, ''destructive'')]"

definition classify_action :: "action_request \<Rightarrow> string \<times> string" where
  "classify_action r =
     (let level = classify_level (aq_kind r @ '' '' @ aq_summary r @ '' '' @ aq_risk_flag r) (aq_risk_flag r);
          kind = py_strip (aq_kind r);
          level = (if kind \<in> set AUTO_FORBIDDEN then L4_RESTRICTED
            else if kind \<noteq> [] \<and> kind \<notin> set SAFE_CLASS_ALLOWLIST \<and> level = L2_INTERNAL_APPROVE then L3_USER_APPROVE
            else level)
      in (get_default ACTION_CLASS level ''risky'', level))"

record exec_verdict =
  vd_allowed :: bool
  vd_action_class :: string
  vd_approval_level :: string
  vd_executor_id :: string
  vd_approval_metadata :: string
  vd_satisfied :: "string list"
  vd_blocking_reasons :: "refusal list"

definition exceeds :: "string \<Rightarrow> string \<Rightarrow> bool" where
  "exceeds level signed \<longleftrightarrow> signed \<noteq> [] \<and> get_default LEVEL_RANK signed 1 < get_default LEVEL_RANK level 1"

section \<open>Signed designs\<close>

text \<open>One check of the chain: the reasons to refuse, and the approvals it found.\<close>

definition check :: "refusal list \<Rightarrow> string \<Rightarrow> refusal list \<times> string list" where
  "check reasons approval = (reasons, if reasons = [] then [approval] else [])"

definition check_design :: "decision option \<Rightarrow> refusal list \<times> string list" where
  "check_design decision = check (case decision of
       None \<Rightarrow> [NoDecision]
     | Some d \<Rightarrow> if td_status d \<notin> {SIGNED_OFF, CONDITIONAL} then [NotSigned (td_status d)]
         else if_then (validate_tech_lead_decision d \<noteq> []) FakeSignoff) ''tech-lead''"

definition check_handoff :: "decision option \<Rightarrow> handoff option \<Rightarrow> refusal list \<times> string list" where
  "check_handoff decision handoff = check (case handoff of
       None \<Rightarrow> [NoHandoff]
     | Some h \<Rightarrow> (case decision of None \<Rightarrow> [] | Some d \<Rightarrow> if_then (validate_handoff h d \<noteq> []) BadHandoff)) ''handoff''"

definition approved_for :: "decision option \<Rightarrow> operator_approval option \<Rightarrow> bool" where
  "approved_for decision approval = (case (approval, decision) of
     (Some a, Some d) \<Rightarrow> oa_approved a \<and> oa_decision_ref a = td_decision_id d
   | _ \<Rightarrow> False)"

definition check_class :: "string \<Rightarrow> bool \<Rightarrow> refusal list \<times> string list" where
  "check_class action_class operator_ok =
     (if action_class = ''destructive'' then ([DestructiveNeverAuto], [])
      else if action_class = ''risky'' then check (if_then (\<not> operator_ok) RiskyWithoutOperator) ''operator''
      else ([], [''internal-safe'']))"

definition metadata_base :: "string \<Rightarrow> string \<Rightarrow> string \<Rightarrow> string" where
  "metadata_base what level signer = ''decision='' @ what @ '';level='' @ level @ '';signoff='' @ signer"

definition operator_suffix :: "string list \<Rightarrow> operator_approval option \<Rightarrow> string" where
  "operator_suffix satisfied approval = (case approval of
     Some a \<Rightarrow> if ''operator'' \<in> set satisfied then '';operator='' @ oa_approver a else []
   | None \<Rightarrow> [])"

definition authorize_execution :: "decision option \<Rightarrow> handoff option \<Rightarrow> action_request \<Rightarrow> routing option \<Rightarrow>
    operator_approval option \<Rightarrow> exec_verdict" where
  "authorize_execution decision handoff req routing approval =
     (let routed = (case routing of None \<Rightarrow> False | Some r \<Rightarrow> rt_forwarded r);
          (action_class, level) = classify_action req;
          checks = [check (if_then (\<not> routed) NotRouted) ''gateway'', check_design decision, check_handoff decision handoff,
            (case decision of None \<Rightarrow> [] | Some d \<Rightarrow>
               if_then (exceeds level (td_approval_level d)) (ScopeCreep action_class level (td_approval_level d)), []),
            check_class action_class (approved_for decision approval)];
          reasons = concat (map fst checks);
          satisfied = concat (map snd checks);
          signer = (case decision of Some d \<Rightarrow> canonical_id (td_signoff_by d) | None \<Rightarrow> [])
      in \<lparr>vd_allowed = (reasons = []), vd_action_class = action_class, vd_approval_level = level,
          vd_executor_id = (case handoff of Some h \<Rightarrow> canonical_id (ho_executor_role h) | None \<Rightarrow> []),
          vd_approval_metadata = (case decision of None \<Rightarrow> []
            | Some d \<Rightarrow> metadata_base (td_decision_id d) level (if signer \<noteq> [] then signer else ''unknown'') @ operator_suffix satisfied approval),
          vd_satisfied = satisfied, vd_blocking_reasons = reasons\<rparr>)"

text \<open>\<open>assert_executable\<close>: the verdict, or \<open>ExecutionBlocked\<close> with its reasons.\<close>

definition assert_executable :: "decision option \<Rightarrow> handoff option \<Rightarrow> action_request \<Rightarrow> routing option \<Rightarrow>
    operator_approval option \<Rightarrow> refusal list + exec_verdict" where
  "assert_executable decision handoff req routing approval =
     (let v = authorize_execution decision handoff req routing approval
      in if vd_allowed v then Inr v else Inl (vd_blocking_reasons v))"

section \<open>Findings of the autopilot\<close>

definition runtime_executor_violation :: "string \<Rightarrow> refusal list" where
  "runtime_executor_violation role =
     (let c = canonical_id role
      in if c = [] then [UnknownExecutor role]
         else if_then (c \<in> {''gateway'', ''product-manager''} \<or> id_department (resolve_identity c) \<noteq> ''engineering'') (RouterExecutor c))"

definition check_runtime_class :: "string \<Rightarrow> signoff option \<Rightarrow> operator_approval option \<Rightarrow> refusal list \<times> string list" where
  "check_runtime_class action_class decision approval =
     (if action_class \<in> {''destructive'', ''risky''}
      then check_class action_class (case approval of None \<Rightarrow> False | Some a \<Rightarrow> oa_approved a)
      else check (case decision of None \<Rightarrow> [] | Some d \<Rightarrow> if_then (\<not> sg_can_execute d) SafeWithoutSignoff) ''internal-safe'')"

definition authorize_runtime_execution :: "signoff option \<Rightarrow> action_request \<Rightarrow> string \<Rightarrow> bool \<Rightarrow>
    operator_approval option \<Rightarrow> exec_verdict" where
  "authorize_runtime_execution decision req executor_role gateway_ok approval =
     (let (action_class, level) = classify_action req;
          signed = (case decision of Some d \<Rightarrow> sg_approval_level d | None \<Rightarrow> []);
          checks = [check (if_then (\<not> gateway_ok) NotRouted) ''gateway'',
            check (if_then (decision = None) NoDecision) ''tech-lead'',
            (runtime_executor_violation executor_role, []),
            (if_then (decision \<noteq> None \<and> exceeds level signed) (ScopeCreep action_class level signed), []),
            check_runtime_class action_class decision approval];
          reasons = concat (map fst checks);
          satisfied = concat (map snd checks);
          signer = (case decision of Some d \<Rightarrow> canonical_id (sg_signoff_by d) | None \<Rightarrow> [])
      in \<lparr>vd_allowed = (reasons = []), vd_action_class = action_class, vd_approval_level = level,
          vd_executor_id = canonical_id executor_role,
          vd_approval_metadata = (case decision of
              Some d \<Rightarrow> if reasons = [] then metadata_base (chars 40 (sg_packet_summary d)) level
                     (if signer \<noteq> [] then signer else ''tech-lead'') @ operator_suffix satisfied approval else []
            | None \<Rightarrow> []),
          vd_satisfied = satisfied, vd_blocking_reasons = reasons\<rparr>)"

definition bridge_to_autopilot :: "decision \<Rightarrow> signoff" where
  "bridge_to_autopilot d =
     \<lparr>sg_packet_summary = td_pm_brief_ref d, sg_decision_class = td_risk_class d, sg_approval_level = td_approval_level d,
      sg_signoff_by = (let c = canonical_id (td_signoff_by d) in if c \<noteq> [] then c else ''tech-lead''),
      sg_can_execute = (td_status d = SIGNED_OFF \<and> td_approval_level d = L2_INTERNAL_APPROVE), sg_rationale = td_rationale d\<rparr>"

section \<open>The sentences of the refusals\<close>

text \<open>As the runtime gate words them. \<open>str\<close> of a number that is not an integer is an argument.\<close>

definition refusal_text :: "(pyfloat \<Rightarrow> string) \<Rightarrow> refusal \<Rightarrow> string" where
  "refusal_text float_str r = (case r of
     NoInternalSignoff \<Rightarrow> (''tech-lead '' @ utf8 [0xB0B4, 0xBD80, 0x20, 0xC2B9, 0xC778]
       @ ''(can_execute) '' @ utf8 [0xC5C6, 0xC74C])
   | NotSafeClass c \<Rightarrow> (''safe class '' @ utf8 [0xC544, 0xB2D8] @ ''('') @ c @ ('') '' @ utf8 [0x2014,
     0x20, 0xC790, 0xB3D9, 0x20, 0xC2E4, 0xD589, 0x20, 0xAE08, 0xC9C0])
   | DiffOverLimit d m \<Rightarrow> ''diff '' @ show_int d @ ('' > '' @ utf8 [0xD55C, 0xB3C4] @ '' '') @ show_int m
   | FilesOverLimit f m \<Rightarrow> ''files '' @ show_int f @ ('' > '' @ utf8 [0xD55C, 0xB3C4] @ '' '') @ show_int m
   | RiskOverLimit x m \<Rightarrow> ''risk '' @ float_str x @ ('' > '' @ utf8 [0xD55C, 0xB3C4] @ '' '') @ float_str m
   | NoExecutor \<Rightarrow> (''executor '' @ utf8 [0xBBF8, 0xC9C0, 0xC815])
   | NotRouted \<Rightarrow> (''gateway '' @ utf8 [0xC2B9, 0xC778, 0x28, 0xB77C, 0xC6B0, 0xD305, 0x29, 0x20,
     0xC5C6, 0xC74C, 0x20, 0x2014, 0x20, 0xBBF8, 0xACBD, 0xC720, 0x20, 0xC2E4, 0xD589])
   | NoDecision \<Rightarrow> (''tech-lead '' @ utf8 [0xACB0, 0xC815, 0x20, 0xC5C6, 0xC74C, 0x28, 0xC11C, 0xBA85,
     0x20, 0xC5C6, 0xC74C] @ '')'')
   | NotSigned s \<Rightarrow> (''tech-lead '' @ utf8 [0xC11C, 0xBA85, 0x20, 0xC548, 0x20, 0xB428] @ ''(status='')
     @ s @ '')''
   | FakeSignoff \<Rightarrow> (''tech-lead '' @ utf8 [0xC11C, 0xBA85, 0x20, 0xBB34, 0xD6A8] @ ''(fake signoff)'')
   | NoHandoff \<Rightarrow> (''engineer handoff '' @ utf8 [0xC5C6, 0xC74C])
   | BadHandoff \<Rightarrow> (''handoff '' @ utf8 [0xBB34, 0xD6A8])
   | UnknownExecutor e \<Rightarrow> ''executor '' @ [CHR 0x27] @ e @ [CHR 0x27] @ ('' '' @ utf8 [0xC2DD, 0xBCC4,
     0xC790, 0x20, 0xB808, 0xC9C0, 0xC2A4, 0xD2B8, 0xB9AC, 0xC5D0, 0x20, 0xC5C6, 0xC74C])
   | RouterExecutor c \<Rightarrow> [CHR 0x27] @ c @ [CHR 0x27] @ ('' '' @ utf8 [0xC740, 0x20, 0xC2E4, 0xD589,
     0x20, 0xC2AC, 0xB86F, 0xC744, 0x20, 0xAC00, 0xC9C8, 0x20, 0xC218, 0x20, 0xC5C6, 0xC74C]
     @ '' (router/non-engineering '' @ utf8 [0xC5ED, 0xD560] @ '')'')
   | ScopeCreep c l s \<Rightarrow> ''execution class('' @ c @ ''/'' @ l @ ('') > '' @ utf8 [0xC11C, 0xBA85, 0x20,
     0xBC94, 0xC704] @ ''('') @ s @ ('') '' @ utf8 [0x2014, 0x20, 0xC7AC, 0xC11C, 0xBA85, 0x20, 0xD544, 0xC694])
   | DestructiveNeverAuto \<Rightarrow> (''destructive(L4) '' @ utf8 [0x2014, 0x20, 0xC790, 0xB3D9, 0x20, 0xC2E4,
     0xD589, 0x20, 0xAE08, 0xC9C0] @ '', operator + runbook '' @ utf8 [0xC804, 0xC6A9])
   | RiskyWithoutOperator \<Rightarrow> (''risky(L3) '' @ utf8 [0x2014] @ '' operator '' @ utf8 [0xC2B9, 0xC778,
     0x20, 0xC5C6, 0xC74C])
   | SafeWithoutSignoff \<Rightarrow> (''safe '' @ utf8 [0xC778, 0xB370, 0x20, 0xB0B4, 0xBD80, 0x20, 0xC11C,
     0xBA85] @ ''(can_execute) '' @ utf8 [0xBBF8, 0xD1B5, 0xACFC])
   | ChainNotCleared \<Rightarrow> (utf8 [0xB0B4, 0xBD80] @ '' chain '' @ utf8 [0xC2B9, 0xC778]
     @ ''(can_execute) '' @ utf8 [0xC5C6, 0xC74C]))"

section \<open>What an allowed verdict means\<close>

lemma check_simps [simp]: "fst (check rs a) = rs" "snd (check rs a) = (if rs = [] then [a] else [])"
  by (simp_all add: check_def)

lemma action_class_values [simp]:
  "get_default ACTION_CLASS L2_INTERNAL_APPROVE x = ''safe''" "get_default ACTION_CLASS L3_USER_APPROVE x = ''risky''"
  "get_default ACTION_CLASS L4_RESTRICTED x = ''destructive''"
  by (simp_all add: get_default_def ACTION_CLASS_def)

lemma level_rank_values [simp]:
  "get_default LEVEL_RANK L2_INTERNAL_APPROVE x = 0" "get_default LEVEL_RANK L3_USER_APPROVE x = 1"
  "get_default LEVEL_RANK L4_RESTRICTED x = 2"
  by (simp_all add: get_default_def LEVEL_RANK_def)

lemma action_level: "snd (classify_action r) \<in> {L2_INTERNAL_APPROVE, L3_USER_APPROVE, L4_RESTRICTED}"
  "fst (classify_action r) = get_default ACTION_CLASS (snd (classify_action r)) ''risky''"
  "snd (classify_action r) = L2_INTERNAL_APPROVE \<longleftrightarrow>
     classify_level (aq_kind r @ '' '' @ aq_summary r @ '' '' @ aq_risk_flag r) (aq_risk_flag r) = L2_INTERNAL_APPROVE
     \<and> py_strip (aq_kind r) \<notin> set AUTO_FORBIDDEN \<and> py_strip (aq_kind r) \<in> insert [] (set SAFE_CLASS_ALLOWLIST)"
  using classify_cases[of "aq_kind r @ '' '' @ aq_summary r @ '' '' @ aq_risk_flag r" "aq_risk_flag r"]
  unfolding classify_action_def Let_def by auto

lemma classify_action_cases:
  obtains "classify_action r = (''safe'', L2_INTERNAL_APPROVE)" | "classify_action r = (''risky'', L3_USER_APPROVE)"
  | "classify_action r = (''destructive'', L4_RESTRICTED)"
proof -
  have p: "classify_action r = (get_default ACTION_CLASS (snd (classify_action r)) ''risky'', snd (classify_action r))"
    using action_level(2)[of r] by (metis prod.collapse)
  from action_level(1)[of r] consider "snd (classify_action r) = L2_INTERNAL_APPROVE" | "snd (classify_action r) = L3_USER_APPROVE"
    | "snd (classify_action r) = L4_RESTRICTED" by blast
  then show ?thesis
  proof cases
    case 1 show ?thesis by (rule that(1)) (subst p, simp add: 1)
  next
    case 2 show ?thesis by (rule that(2)) (subst p, simp add: 2)
  next
    case 3 show ?thesis by (rule that(3)) (subst p, simp add: 3)
  qed
qed

lemma classify_action_safe: "classify_action r = (''safe'', L2_INTERNAL_APPROVE) \<longleftrightarrow>
    aq_risk_flag r \<notin> {''blocked'', ''risky''}
    \<and> plain_wording ((aq_kind r @ '' '' @ aq_summary r @ '' '' @ aq_risk_flag r) @ '' '' @ aq_risk_flag r)
    \<and> py_strip (aq_kind r) \<in> insert [] (set SAFE_CLASS_ALLOWLIST)"
proof -
  have "list_all (\<lambda>k. k \<notin> insert [] (set SAFE_CLASS_ALLOWLIST)) AUTO_FORBIDDEN"
    by (simp add: AUTO_FORBIDDEN_def SAFE_CLASS_ALLOWLIST_def)
  then have n: "k \<notin> set AUTO_FORBIDDEN" if "k \<in> insert [] (set SAFE_CLASS_ALLOWLIST)" for k
    using that unfolding list_all_iff by blast
  have "classify_action r = (''safe'', L2_INTERNAL_APPROVE) \<longleftrightarrow> snd (classify_action r) = L2_INTERNAL_APPROVE"
    by (rule classify_action_cases[of r]) simp_all
  then show ?thesis unfolding action_level(3) classify_internal using n by blast
qed

lemma executor_ok: "runtime_executor_violation role = [] \<longleftrightarrow>
    canonical_id role \<notin> {[], ''gateway'', ''product-manager''} \<and> id_department (resolve_identity role) = ''engineering''"
  by (auto simp: runtime_executor_violation_def Let_def resolve_canonical)

text \<open>The runtime gate for findings, without an operator: only work that is safe when it runs.\<close>

lemma runtime_allowed_safe: "vd_allowed (authorize_runtime_execution (Some d) r role g None) \<longleftrightarrow>
    g \<and> canonical_id role \<notin> {[], ''gateway'', ''product-manager''} \<and> id_department (resolve_identity role) = ''engineering''
    \<and> classify_action r = (''safe'', L2_INTERNAL_APPROVE) \<and> sg_can_execute d"
  unfolding authorize_runtime_execution_def Let_def
  by (rule classify_action_cases[of r])
    (auto simp: executor_ok check_runtime_class_def check_class_def exceeds_def)

text \<open>How an action is classified when it is about to run, by its kind, its flag and its words.\<close>

lemma classify_action_exact:
  "classify_action r =
    (let wording = py_lower ((aq_kind r @ '' '' @ aq_summary r @ '' '' @ aq_risk_flag r) @ '' '' @ aq_risk_flag r)
     in if py_strip (aq_kind r) \<in> set AUTO_FORBIDDEN \<or> aq_risk_flag r = ''blocked'' \<or> list_ex (\<lambda>k. py_contains k wording) RESTRICTED_WORDS
        then (''destructive'', L4_RESTRICTED)
        else if py_strip (aq_kind r) \<notin> set ([] # SAFE_CLASS_ALLOWLIST) \<or> aq_risk_flag r = ''risky'' \<or> list_ex (\<lambda>k. py_contains k wording) RISKY_WORDS
        then (''risky'', L3_USER_APPROVE)
        else (''safe'', L2_INTERNAL_APPROVE))"
  by (auto simp: classify_action_def classify_level_def Let_def)

text \<open>C6: What the gate for signed designs lets through. Execution is allowed exactly when the gateway routed
  the work, the tech lead's decision is signed and valid, the handoff is valid for it, and the action as it is about to run
  is neither of a forbidden kind nor flagged as blocked nor worded with a restricted word; and if it is of an unknown kind,
  flagged as risky or worded with a risky word, the signed level is not the internal one and an
  operator approved it with a reference to this very decision. The
  chokepoint returns the verdict when it allows, and otherwise raises with the reasons, of which there is at least one.\<close>

theorem design_gate_exact:
  "let wording = py_lower ((aq_kind r @ '' '' @ aq_summary r @ '' '' @ aq_risk_flag r) @ '' '' @ aq_risk_flag r);
       forbidden = py_strip (aq_kind r) \<in> set AUTO_FORBIDDEN \<or> aq_risk_flag r = ''blocked''
         \<or> list_ex (\<lambda>k. py_contains k wording) RESTRICTED_WORDS;
       plain = py_strip (aq_kind r) \<in> set ([] # SAFE_CLASS_ALLOWLIST) \<and> aq_risk_flag r \<noteq> ''risky''
         \<and> list_all (\<lambda>k. \<not> py_contains k wording) RISKY_WORDS;
       v = authorize_execution decision handoff r routing approval
   in (vd_allowed v \<longleftrightarrow> (\<exists>rt d h. routing = Some rt \<and> rt_forwarded rt \<and> decision = Some d \<and> handoff = Some h
        \<and> td_status d \<in> {SIGNED_OFF, CONDITIONAL} \<and> validate_tech_lead_decision d = [] \<and> validate_handoff h d = []
        \<and> (if forbidden then False
           else if plain then True
           else td_approval_level d \<noteq> ''L2_internal_approve''
             \<and> (\<exists>a. approval = Some a \<and> oa_approved a \<and> oa_decision_ref a = td_decision_id d))))
      \<and> assert_executable decision handoff r routing approval = (if vd_allowed v then Inr v else Inl (vd_blocking_reasons v))
      \<and> (vd_allowed v \<longleftrightarrow> vd_blocking_reasons v = [])"
proof -
  let ?wording = "py_lower ((aq_kind r @ '' '' @ aq_summary r @ '' '' @ aq_risk_flag r) @ '' '' @ aq_risk_flag r)"
  let ?forbidden = "py_strip (aq_kind r) \<in> set AUTO_FORBIDDEN \<or> aq_risk_flag r = ''blocked''
      \<or> list_ex (\<lambda>k. py_contains k ?wording) RESTRICTED_WORDS"
  let ?plain = "py_strip (aq_kind r) \<in> set ([] # SAFE_CLASS_ALLOWLIST) \<and> aq_risk_flag r \<noteq> ''risky''
      \<and> list_all (\<lambda>k. \<not> py_contains k ?wording) RISKY_WORDS"
  have x: "exceeds L3_USER_APPROVE s \<longleftrightarrow> s = L2_INTERNAL_APPROVE" "\<not> exceeds L2_INTERNAL_APPROVE s" for s
    by (auto simp: exceeds_def get_default_def LEVEL_RANK_def exec_levels)
  have l: "L2_INTERNAL_APPROVE = ''L2_internal_approve''" by (simp add: exec_levels)
  have v: "vd_allowed v \<longleftrightarrow> vd_blocking_reasons v = []" if "v = authorize_execution decision handoff r routing approval" for v
    by (simp add: that authorize_execution_def Let_def split: prod.split)
  have main: "vd_allowed (authorize_execution decision handoff r routing approval) \<longleftrightarrow>
      (\<exists>rt d h. routing = Some rt \<and> rt_forwarded rt \<and> decision = Some d \<and> handoff = Some h
        \<and> td_status d \<in> {SIGNED_OFF, CONDITIONAL} \<and> validate_tech_lead_decision d = [] \<and> validate_handoff h d = []
        \<and> (if fst (classify_action r) = ''destructive'' then False
           else if fst (classify_action r) = ''risky'' then td_approval_level d \<noteq> L2_INTERNAL_APPROVE
             \<and> (\<exists>a. approval = Some a \<and> oa_approved a \<and> oa_decision_ref a = td_decision_id d)
           else True))"
    unfolding authorize_execution_def Let_def
    by (rule classify_action_cases[of r]; cases decision; cases handoff; cases routing; cases approval)
      (auto simp: check_design_def check_handoff_def check_class_def approved_for_def x)
  have "fst (classify_action r) = ''destructive'' \<longleftrightarrow> ?forbidden"
    "\<not> ?forbidden \<Longrightarrow> fst (classify_action r) = ''risky'' \<longleftrightarrow> \<not> ?plain"
    unfolding classify_action_exact Let_def by (simp_all add: list_all_iff list_ex_iff)
  then have "(if fst (classify_action r) = ''destructive'' then False else if fst (classify_action r) = ''risky'' then A else True)
      \<longleftrightarrow> (if ?forbidden then False else if ?plain then True else A)" for A by presburger
  note main = main[unfolded this l]
  show ?thesis unfolding Let_def by (intro conjI main v refl) (simp add: assert_executable_def Let_def)
qed

end
