(* ===== verification/Attribution.thy ===== *)
theory Attribution
  imports ExecGate
begin

text \<open>
  Who a commit belongs to and which approval it carries: \<open>forgekit_config/identity/models.py\<close> and
  \<open>attribution.py\<close>, the trailers of \<open>decision_lane/enforcement.py\<close>, and the commit message of
  \<open>selfimprove/execute_bridge.py\<close>. The environment is a dictionary of strings.
\<close>

section \<open>Names derived from an identity\<close>

definition py_upper :: "string \<Rightarrow> string" where
  "py_upper s = map (\<lambda>c. let n = of_char c :: nat in if 97 \<le> n \<and> n \<le> 122 then char_of (n - 32) else c) s"

text \<open>\<open>s.replace(k, "")\<close>.\<close>

function py_remove :: "string \<Rightarrow> string \<Rightarrow> string" where
  "py_remove k s = (if k = [] \<or> s = [] then s else if prefix k s then py_remove k (drop (length k) s)
     else hd s # py_remove k (tl s))"
  by pat_completeness auto
termination
  by (relation "measure (length \<circ> snd)") auto

declare py_remove.simps [simp del]

definition github_app_env_prefix :: "string \<Rightarrow> bool \<Rightarrow> string" where
  "github_app_env_prefix canonical shared =
     (if shared then ''YULE_GITHUB_APP_SHARED_''
      else ''YULE_GITHUB_APP_''
        @ py_upper (map (\<lambda>c. if c = CHR ''-'' then CHR ''_'' else c) (py_strip canonical)) @ ''_'')"

definition git_author_name :: "identity \<Rightarrow> string" where
  "git_author_name i = py_strip (''Forgekit '' @ id_label i)"

definition git_author_email :: "identity \<Rightarrow> string" where
  "git_author_email i =
     (let stem = (if id_email_local i \<noteq> [] then id_email_local i
        else if py_remove ''fk-'' (id_cssclass i) \<noteq> [] then py_remove ''fk-'' (id_cssclass i) else id_canonical i)
      in py_strip (if stem \<noteq> [] then stem else ''agent'') @ ''@forgekit.local'')"

definition git_author_for :: "string \<Rightarrow> string" where
  "git_author_for agent_id =
     (let i = resolve_identity agent_id in git_author_name i @ '' <'' @ git_author_email i @ ''>'')"

section \<open>Credentials of the GitHub app\<close>

definition REQUIRED_SUFFIXES :: "string list" where
  "REQUIRED_SUFFIXES = [''APP_ID'', ''INSTALLATION_ID'', ''PRIVATE_KEY_PEM'']"

definition present :: "string pydict \<Rightarrow> string \<Rightarrow> nat" where
  "present env p = length (filter (\<lambda>s. py_strip (get_default env (p @ s) []) \<noteq> []) REQUIRED_SUFFIXES)"

definition github_app_status :: "string \<Rightarrow> string pydict \<Rightarrow> string" where
  "github_app_status agent_id env =
     (let i = resolve_identity agent_id;
          have_own = present env (github_app_env_prefix (id_canonical i) False);
          need = length REQUIRED_SUFFIXES
      in if \<not> id_supports_github_app i then ''planned''
         else if have_own = need then ''dedicated_configured''
         else if 0 < have_own then ''partial_credentials''
         else if present env (github_app_env_prefix [] True) = need then ''shared_fallback''
         else ''missing'')"

section \<open>Trailers\<close>

record trailer_fields =
  tf_flow :: string
  tf_mode :: string
  tf_handoff_from :: string
  tf_handoff_to :: string
  tf_approval :: string

definition commit_trailers :: "string \<Rightarrow> trailer_fields \<Rightarrow> string pydict \<Rightarrow> string list" where
  "commit_trailers agent_id f env =
     (let i = resolve_identity agent_id;
          opt = (\<lambda>label v. if_then (v \<noteq> []) (label @ v))
      in [''Forgekit-Agent: '' @ id_canonical i, ''Forgekit-Role: '' @ id_label i, ''Forgekit-Dept: '' @ id_department i,
          ''Forgekit-GitHub-App: '' @ github_app_status agent_id env, ''Forgekit-Vault-Class: '' @ id_cssclass i]
         @ opt ''Forgekit-Flow: '' (tf_flow f) @ opt ''Forgekit-Mode: '' (tf_mode f)
         @ opt ''Forgekit-Handoff-From: '' (tf_handoff_from f) @ opt ''Forgekit-Handoff-To: '' (tf_handoff_to f)
         @ opt ''Forgekit-Approval: '' (tf_approval f))"

definition execution_commit_trailers :: "exec_verdict \<Rightarrow> string \<Rightarrow> string pydict \<Rightarrow> string list" where
  "execution_commit_trailers v flow env =
     (if \<not> vd_allowed v then []
      else commit_trailers (vd_executor_id v)
        \<lparr>tf_flow = flow, tf_mode = vd_action_class v, tf_handoff_from = ''tech-lead'',
         tf_handoff_to = vd_executor_id v, tf_approval = vd_approval_metadata v\<rparr> env)"

datatype trailer_violation = NotApproved | AgentTrailerMissing string | ApprovalTrailerMissing

definition validate_execution_trailers :: "string \<Rightarrow> exec_verdict \<Rightarrow> trailer_violation list" where
  "validate_execution_trailers message v =
     (if \<not> vd_allowed v then [NotApproved]
      else if_then (\<not> py_contains (''Forgekit-Agent: '' @ vd_executor_id v) message) (AgentTrailerMissing (vd_executor_id v))
        @ if_then (\<not> py_contains (''Forgekit-Approval: '' @ vd_approval_metadata v) message) ApprovalTrailerMissing)"

definition build_execution_commit_message :: "exec_verdict \<Rightarrow> string \<Rightarrow> string pydict \<Rightarrow> string" where
  "build_execution_commit_message v finding env =
     (let trailers = execution_commit_trailers v ''selfimprove-execute'' env;
          subject = py_rstrip ((utf8 [0x2705] @ '' forgekit '' @ utf8 [0xC790, 0xAC00, 0xAC1C, 0xC120, 0x20,
            0xC2E4, 0xD589] @ '': '') @ chars 60 finding);
          body = (utf8 [0xBCC0, 0xACBD, 0x20, 0xC774, 0xC720]) @ [newline]
            @ (''- '' @ utf8 [0xC2B9, 0xC778, 0xB41C] @ '' self-improvement packet '' @ utf8 [0xC758]
              @ '' safe-class '' @ utf8 [0xC791, 0xC5C5, 0x20, 0xC2E4, 0xD589] @ '' (approval='')
              @ vd_approval_metadata v @ '')'' @ [newline, newline]
            @ (utf8 [0xC8FC, 0xC694, 0x20, 0xBCC0, 0xACBD, 0x20, 0xC0AC, 0xD56D]) @ [newline] @ ''- '' @ finding
              @ [newline, newline]
            @ (utf8 [0xBE44, 0xACE0]) @ [newline]
            @ (''- PM'' @ utf8 [0x2192] @ ''gateway'' @ utf8 [0x2192] @ ''tech-lead '' @ utf8 [0xB0B4, 0xBD80,
              0x20, 0xC2B9, 0xC778] @ '' + decision-lane '' @ utf8 [0xC2E4, 0xD589, 0x20, 0xAC8C, 0xC774, 0xD2B8,
              0x20, 0xD1B5, 0xACFC, 0xBD84, 0xB9CC, 0x20, 0xC2E4, 0xD589]) @ [newline]
      in subject @ [newline, newline] @ body @ [newline] @ py_join [newline] trailers @ [newline])"

section \<open>What the trailers say\<close>

lemma canonical_resolves: "canonical_id a \<noteq> [] \<Longrightarrow> id_canonical (resolve_identity a) = canonical_id a"
proof -
  have t: "list_all (\<lambda>(a, c). case map_of BY_ID c of Some i \<Rightarrow> id_canonical i = c | None \<Rightarrow> False) ALIAS"
    unfolding alias_table by code_simp
  assume "canonical_id a \<noteq> []"
  then obtain c where "map_of ALIAS (py_strip a) = Some c" "canonical_id a = c"
    by (auto simp: canonical_id_def split: option.splits)
  then have "(py_strip a, canonical_id a) \<in> set ALIAS" by (simp add: map_of_SomeD)
  with t have "case map_of BY_ID (canonical_id a) of Some i \<Rightarrow> id_canonical i = canonical_id a | None \<Rightarrow> False"
    unfolding list_all_iff by blast
  then show ?thesis by (simp add: resolve_identity_def split: option.splits)
qed

lemma py_contains_self [simp]: "py_contains s s"
  by (simp add: py_contains_sublist)

lemma contains_join: "s \<in> set ls \<Longrightarrow> py_contains s (py_join sep ls)"
proof (induction sep ls rule: py_join.induct)
  case (2 sep x)
  then show ?case using py_contains_append[of s s "[]" "[]"] by simp
next
  case (3 sep x y ys)
  then show ?case
    using py_contains_append[of s x "[]" "sep @ py_join sep (y # ys)"]
      py_contains_append[of s "py_join sep (y # ys)" "x @ sep" "[]"]
    by auto
qed simp

text \<open>A commit for an allowed verdict names its executor and carries its approval; a refused one never does.\<close>

lemma message_trailers_valid:
  assumes "vd_executor_id v = canonical_id r" "canonical_id r \<noteq> []" "vd_approval_metadata v \<noteq> []"
  shows "validate_execution_trailers (build_execution_commit_message v finding env) v = [] \<longleftrightarrow> vd_allowed v"
proof (cases "vd_allowed v")
  case True
  let ?ts = "execution_commit_trailers v ''selfimprove-execute'' env"
  have ts: "''Forgekit-Agent: '' @ vd_executor_id v \<in> set ?ts" "''Forgekit-Approval: '' @ vd_approval_metadata v \<in> set ?ts"
    using True assms by (simp_all add: execution_commit_trailers_def commit_trailers_def Let_def canonical_resolves)
  have "py_contains t (build_execution_commit_message v finding env)" if "t \<in> set ?ts" for t
  proof -
    obtain a where a: "build_execution_commit_message v finding env = a @ py_join [newline] ?ts @ [newline]"
      by (simp add: build_execution_commit_message_def Let_def)
    show ?thesis unfolding a using that by (intro py_contains_append contains_join)
  qed
  with ts True show ?thesis by (simp add: validate_execution_trailers_def)
qed (simp add: validate_execution_trailers_def)

end
