(* ===== verification/Packets.thy ===== *)
theory Packets
  imports GoalTick Attribution
begin

text \<open>
  Improvement packets: \<open>selfimprove/packet.py\<close>, the observation pass and routing of \<open>selfimprove/loop.py\<close>,
  their linking to a goal in \<open>selfimprove/goal_tick.py\<close>, and the first packet of a goal without repository
  gaps in \<open>runtime/goal_intent.py\<close>. What the repository scan finds is an argument, as is the hash function
  (from text to hexadecimal digits).
\<close>

section \<open>Packets and their risk\<close>

definition RISK_SAFE :: string where "RISK_SAFE = ''safe''"
definition RISK_RISKY :: string where "RISK_RISKY = ''risky''"
definition RISK_BLOCKED :: string where "RISK_BLOCKED = ''blocked''"

lemmas risks = RISK_SAFE_def RISK_RISKY_def RISK_BLOCKED_def

definition BLOCKED_AREAS :: "string list" where
  "BLOCKED_AREAS = [''deploy'', ''secret'', ''infra'', ''iam'', ''migration'', ''production'', (utf8 [0xBC30,
    0xD3EC]), (utf8 [0xC778, 0xD504, 0xB77C])]"

definition RISKY_AREAS :: "string list" where
  "RISKY_AREAS = [''rewrite'', ''broad'', ''schema'', ''auth'', (utf8 [0xAD8C, 0xD55C]), (utf8 [0xB300, 0xADDC,
    0xBAA8])]"

record improvement =
  im_finding :: string
  im_why :: string
  im_area :: string
  im_risk :: string
  im_change :: string
  im_confidence :: pyfloat
  im_approval_needed :: bool
  im_owner :: string
  im_origin :: string
  im_discomfort :: string

definition classify_risk :: "string \<Rightarrow> string \<Rightarrow> string" where
  "classify_risk finding area =
     (let blob = py_lower (finding @ '' '' @ area)
      in if list_ex (\<lambda>k. py_contains k blob) BLOCKED_AREAS then RISK_BLOCKED
         else if list_ex (\<lambda>k. py_contains k blob) RISKY_AREAS then RISK_RISKY
         else RISK_SAFE)"

definition make_packet :: "string \<Rightarrow> string \<Rightarrow> string \<Rightarrow> string \<Rightarrow> string \<Rightarrow> string \<Rightarrow> string \<Rightarrow> improvement" where
  "make_packet finding why area change owner origin discomfort =
     (let risk = classify_risk finding area
      in \<lparr>im_finding = finding, im_why = why, im_area = area, im_risk = risk, im_change = change,
          im_confidence = 6 / 10, im_approval_needed = (risk \<noteq> RISK_SAFE), im_owner = owner, im_origin = origin,
          im_discomfort = discomfort\<rparr>)"

section \<open>Observation and routing\<close>

definition from_repo_local :: "string list \<Rightarrow> improvement list" where
  "from_repo_local titles = concat (map (\<lambda>t.
     if py_contains ''TODO/FIXME'' t
     then [make_packet t (utf8 [0xB204, 0xC801] @ '' TODO/FIXME '' @ utf8 [0xB294, 0x20, 0xBBF8, 0xC644, 0x20,
       0xC758, 0xB3C4, 0x2F, 0xBD80, 0xCC44, 0x20, 0xC2E0, 0xD638, 0x20, 0x2014, 0x20, 0xC815, 0xB9AC, 0x20,
       0xC2DC, 0x20, 0xAC00, 0xB3C5, 0xC131, 0xB7, 0xC2E0, 0xB8B0, 0x20, 0xD5A5, 0xC0C1])
       ''docs/code'' (''TODO '' @ utf8 [0xC815, 0xB9AC, 0x20, 0xB610, 0xB294, 0x20, 0xC774, 0xC288, 0xD654]
         @ '' + '' @ utf8 [0xC791, 0xC740, 0x20, 0xB9AC, 0xD329, 0xD130]) ''be'' ''repo-local''
       (utf8 [0xAC1C, 0xBC1C, 0xC790, 0xAC00, 0x20, 0xCF54, 0xB4DC, 0x20, 0xC758, 0xB3C4, 0xB97C, 0x20, 0xC2E0,
         0xB8B0, 0xD558, 0xAE30, 0x20, 0xC5B4, 0xB835, 0xB2E4])]
     else if py_contains (utf8 [0xC904]) t \<or> py_contains (utf8 [0xBD84, 0xB9AC]) t
     then [make_packet t (''1000 '' @ utf8 [0xC904, 0x20, 0xCD08, 0xACFC, 0x20, 0xD30C, 0xC77C, 0xC740, 0x20,
       0xCC45, 0xC784, 0x20, 0xBD84, 0xB9AC, 0x20, 0xAC00, 0xB4DC, 0xB808, 0xC77C, 0x20, 0xC704, 0xBC18, 0x20,
       0x2014, 0x20, 0xBCC0, 0xACBD, 0x20, 0xC704, 0xD5D8, 0x2191])
       ''refactor'' (utf8 [0xCC45, 0xC784, 0x20, 0xBD84, 0xB9AC, 0x28, 0xBCC4, 0xB3C4, 0x20, 0xBAA8, 0xB4C8]
         @ '')'') ''be'' ''repo-local''
       (utf8 [0xD30C, 0xC77C, 0xC774, 0x20, 0xCEE4, 0xC11C, 0x20, 0xC218, 0xC815, 0x20, 0xC2DC, 0x20, 0xC0AC,
         0xC774, 0xB4DC, 0xC774, 0xD399, 0xD2B8, 0xAC00, 0x20, 0xB450, 0xB835, 0xB2E4])]
     else []) titles)"

definition from_signals :: "string list \<Rightarrow> improvement list" where
  "from_signals texts = map (\<lambda>t. make_packet t (''discovery '' @ utf8 [0xAC00, 0x20, 0xC7A1, 0xC740]
    @ '' forgekit '' @ utf8 [0xC790, 0xCCB4, 0x20, 0xAC1C, 0xC120, 0x20, 0xC2E0, 0xD638])
     ''docs/ux'' (utf8 [0xAC1C, 0xC120, 0xC548, 0x20, 0xD328, 0xD0B7, 0xD654, 0x20, 0xD6C4] @ '' tech-lead ''
       @ utf8 [0xAC80, 0xD1A0]) ''tech-lead'' ''idea-discovery''
     (''operator/'' @ utf8 [0xC0AC, 0xC6A9, 0xC790, 0xAC00, 0x20, 0xCF58, 0xC194, 0xC5D0, 0xC11C, 0x20, 0xBD88,
       0xD3B8, 0xC744, 0x20, 0xB290, 0xB08C])) texts"

definition run_self_improvement :: "(int \<Rightarrow> string list) \<Rightarrow> string list \<Rightarrow> int \<Rightarrow> improvement list" where
  "run_self_improvement collect signals limit =
     py_take limit (from_repo_local (collect limit) @ from_signals signals)"

definition route_packet :: "improvement \<Rightarrow> string" where
  "route_packet p =
     (if im_risk p = RISK_BLOCKED then (''blocked '' @ utf8 [0x2192] @ '' runbook + operator '' @ utf8 [0xC2B9,
       0xC778, 0x20, 0x28, 0xC790, 0xB3D9, 0x20, 0xC2E4, 0xD589, 0x20, 0xAE08, 0xC9C0] @ '')'')
      else if im_risk p = RISK_RISKY then (''risky '' @ utf8 [0x2192] @ '' approval-wait (operator ''
        @ utf8 [0xACB0, 0xC815] @ '')'')
      else (''safe '' @ utf8 [0x2192] @ '' tech-lead ready ('' @ utf8 [0xC2B9, 0xC778, 0x20, 0xCCB4, 0xACC4, 0x20,
        0xB0B4, 0x20, 0xC790, 0xB3D9, 0x20, 0xAC00, 0xB2A5] @ '')''))"

section \<open>Linking packets to a goal\<close>

definition packet_id :: "(string \<Rightarrow> string) \<Rightarrow> improvement \<Rightarrow> string" where
  "packet_id sha1 p = ''packet-'' @ take 12 (sha1 (im_finding p @ [CHR 0x00] @ im_area p @ [CHR 0x00] @ im_risk p))"

definition proposal_text :: "improvement \<Rightarrow> string" where
  "proposal_text p = ''['' @ im_risk p @ ''] '' @ im_finding p @ '' -> '' @ route_packet p"

text \<open>The clock is read once for a new link and twice for a record.\<close>

fun link_each :: "(nat \<Rightarrow> string) \<Rightarrow> (string \<Rightarrow> string) \<Rightarrow> improvement list \<Rightarrow> nat \<Rightarrow> goal \<Rightarrow>
    (goal \<times> (string \<times> string \<times> string) list \<times> nat \<times> nat) goal_result" where
  "link_each clock sha1 [] k g = Inr (g, [], 0, k)"
| "link_each clock sha1 (p # ps) k g =
     (let pid = packet_id sha1 p; k1 = (if py_strip pid \<in> set (packets g) then k else k + 1)
      in and_then (link_packet pid (clock k) g) (\<lambda>g1.
         and_then (link_each clock sha1 ps (k1 + 2)
             (add_evidence EV_PROPOSAL (proposal_text p) (Some pid) (clock k1) (clock (k1 + 1)) g1)) (\<lambda>(g', routes, n, k').
         Inr (g', (pid, im_risk p, route_packet p) # routes, (if im_risk p \<noteq> RISK_SAFE then n + 1 else n), k'))))"

definition link_packets :: "(nat \<Rightarrow> string) \<Rightarrow> (string \<Rightarrow> string) \<Rightarrow> improvement list \<Rightarrow> nat \<Rightarrow> goal \<Rightarrow>
    (goal \<times> (string \<times> string \<times> string) list \<times> nat \<times> nat) goal_result" where
  "link_packets clock sha1 ps k g =
     and_then (link_each clock sha1 ps k g) (\<lambda>(g', routes, n, k').
       if 0 < n \<and> can_transition (gstatus g') AWAITING_APPROVAL
       then and_then (apply_status AWAITING_APPROVAL (clock k') g') (\<lambda>g''. Inr (g'', routes, n, k' + 1))
       else Inr (g', routes, n, k'))"

record goal_tick_result =
  gt_goal :: goal
  gt_packets :: "improvement list"
  gt_routes :: "(string \<times> string \<times> string) list"
  gt_proposed :: nat
  gt_approval_waiting :: nat

definition tick_goal :: "(nat \<Rightarrow> string) \<Rightarrow> (string \<Rightarrow> string) \<Rightarrow> (int \<Rightarrow> string list) \<Rightarrow> string list \<Rightarrow> int \<Rightarrow> goal \<Rightarrow>
    goal_tick_result goal_result" where
  "tick_goal clock sha1 collect signals limit g =
     (let si = run_self_improvement collect signals limit
      in and_then (link_packets clock sha1 si 0 g) (\<lambda>(g', routes, n, k).
           Inr \<lparr>gt_goal = g', gt_packets = si, gt_routes = routes, gt_proposed = length si, gt_approval_waiting = n\<rparr>))"

section \<open>The first packet of an intent\<close>

definition intent_packets :: "string \<Rightarrow> improvement list" where
  "intent_packets goal_title =
     (let ttl = py_strip goal_title;
          rd = assess_lane_readiness None None None None;
          chain = py_join ('' '' @ utf8 [0x2192] @ '' '') (map stage_value
            [STAGE_NO_PM_BRIEF, STAGE_MEETING_PENDING, STAGE_DECISION_PENDING, STAGE_HANDOFF_PENDING, STAGE_EXECUTABLE])
      in if ttl = [] then []
         else [\<lparr>im_finding = (''PM brief '' @ utf8 [0xC791, 0xC131] @ '': '') @ ttl,
           im_why = (''goal '' @ utf8 [0xC744, 0x20, 0xC2E4, 0xD589, 0xD558, 0xB824, 0xBA74, 0x20, 0xACB0, 0xC815,
             0x20, 0xB808, 0xC778] @ ''('') @ chain @ ('')'' @ utf8 [0xC744, 0x20, 0xD1B5, 0xACFC, 0xD574, 0xC57C,
             0x20, 0xD55C, 0xB2E4, 0x2E, 0x20, 0xD604, 0xC7AC] @ '' stage='') @ stage_value (rd_stage rd)
             @ ('' '' @ utf8 [0x2014] @ '' '') @ (''PM brief '' @ utf8 [0xC791, 0xC131]) @ (''. PM brief ''
               @ utf8 [0xAC00, 0x20, 0xD655, 0xC815, 0xB3FC, 0xC57C] @ '' tech-lead decision '' @ utf8 [0x2192]
               @ '' specialist packet '' @ utf8 [0xC73C, 0xB85C, 0x20, 0xC804, 0xAC1C, 0xB41C, 0xB2E4] @ ''.''),
           im_area = ''planning/decision'', im_risk = RISK_RISKY,
           im_change = (''PM brief '' @ utf8 [0xD655, 0xC815, 0x20, 0x2192] @ '' design meeting '' @ utf8 [0x2192]
             @ '' tech-lead '' @ utf8 [0xC11C, 0xBA85, 0x20, 0x2192] @ '' specialist handoff''),
           im_confidence = 6 / 10, im_approval_needed = True, im_owner = ''product-manager'', im_origin = ''goal-intent'',
           im_discomfort = (''goal '' @ utf8 [0xB9CC, 0x20, 0xAE30, 0xB85D, 0xB418, 0xACE0, 0x20, 0xBD84, 0xD574,
             0x2F, 0xC2E4, 0xD589, 0xC774, 0x20, 0xC2DC, 0xC791, 0xB418, 0xC9C0, 0x20, 0xC54A, 0xC74C]
             @ ''(packets: 0)'')\<rparr>])"

section \<open>What linking does\<close>

text \<open>A hash whose digits are hexadecimal, as \<open>hexdigest\<close> returns them.\<close>

definition hex_digits :: "(string \<Rightarrow> string) \<Rightarrow> bool" where
  "hex_digits h \<longleftrightarrow> (\<forall>s. list_all (\<lambda>c. \<not> py_space c) (h s))"

lemma dropWhile_none: "list_all (\<lambda>c. \<not> P c) s \<Longrightarrow> dropWhile P s = s"
  by (cases s) simp_all

lemma strip_no_space: "list_all (\<lambda>c. \<not> py_space c) s \<Longrightarrow> py_strip s = s"
  by (simp add: py_strip_def py_lstrip_def py_rstrip_def dropWhile_none)

lemma packet_id_nonempty [simp]: "packet_id h p \<noteq> []"
  by (simp add: packet_id_def)

lemma packet_id_clean: "hex_digits h \<Longrightarrow> py_strip (packet_id h p) = packet_id h p"
  by (rule strip_no_space)
    (auto simp: packet_id_def hex_digits_def list_all_iff py_space_def dest: in_set_takeD)

lemma link_each_result:
  assumes "hex_digits h"
  shows "\<exists>g' rs k'. link_each clock h ps k g = Inr (g', rs, length (filter (\<lambda>p. im_risk p \<noteq> RISK_SAFE) ps), k')
    \<and> goal_frame g g' \<and> gstatus g' = gstatus g
    \<and> set (packets g') = set (packets g) \<union> packet_id h ` set ps
    \<and> (\<exists>es. evidence g' = evidence g @ es
         \<and> map (\<lambda>e. (ev_kind e, ev_summary e, ev_ref e)) es = map (\<lambda>p. (EV_PROPOSAL, proposal_text p, Some (packet_id h p))) ps)"
proof (induction ps arbitrary: k g)
  case Nil
  then show ?case by (simp add: goal_frame_def)
next
  case (Cons p ps)
  define g1 where "g1 = (if packet_id h p \<in> set (packets g) then g
      else g\<lparr>gupdated_at := clock k, packets := packets g @ [packet_id h p]\<rparr>)"
  define k1 where "k1 = (if packet_id h p \<in> set (packets g) then k else k + 1)"
  define g2 where "g2 = add_evidence EV_PROPOSAL (proposal_text p) (Some (packet_id h p)) (clock k1) (clock (k1 + 1)) g1"
  have l: "link_packet (packet_id h p) (clock k) g = Inr g1"
    by (simp add: packet_id_clean[OF assms] link_packet_def g1_def Let_def)
  obtain g' rs k' es where r: "link_each clock h ps (k1 + 2) g2 = Inr (g', rs, length (filter (\<lambda>p. im_risk p \<noteq> RISK_SAFE) ps), k')"
    "goal_frame g2 g'" "gstatus g' = gstatus g2" "set (packets g') = set (packets g2) \<union> packet_id h ` set ps"
    "evidence g' = evidence g2 @ es"
    "map (\<lambda>e. (ev_kind e, ev_summary e, ev_ref e)) es = map (\<lambda>p. (EV_PROPOSAL, proposal_text p, Some (packet_id h p))) ps"
    using Cons.IH[of "k1 + 2" g2] by blast
  have "goal_frame g g'" using r(2) by (simp add: g2_def g1_def goal_frame_def add_evidence_def)
  moreover have "set (packets g1) = insert (packet_id h p) (set (packets g))" "gstatus g1 = gstatus g" "evidence g1 = evidence g"
    by (auto simp: g1_def)
  moreover have "link_each clock h (p # ps) k g = and_then (link_each clock h ps (k1 + 2) g2) (\<lambda>(g', routes, n, k').
      Inr (g', (packet_id h p, im_risk p, route_packet p) # routes, (if im_risk p \<noteq> RISK_SAFE then n + 1 else n), k'))"
    by (simp add: packet_id_clean[OF assms] l Let_def k1_def g2_def)
  ultimately show ?case
    using r(3-6) unfolding r(1) by (intro exI[of _ g']) (auto simp: g2_def)
qed

text \<open>Packets that are not safe park a goal that may be parked, and only those.\<close>

lemma link_packets_result:
  assumes "hex_digits h"
  obtains g' rs k' es where
    "link_packets clock h ps k g = Inr (g', rs, length (filter (\<lambda>p. im_risk p \<noteq> RISK_SAFE) ps), k')"
    "goal_frame g g'" "set (packets g') = set (packets g) \<union> packet_id h ` set ps"
    "gstatus g' = (if list_ex (\<lambda>p. im_risk p \<noteq> RISK_SAFE) ps \<and> can_transition (gstatus g) AWAITING_APPROVAL
       then AWAITING_APPROVAL else gstatus g)"
    "evidence g' = evidence g @ es"
    "map (\<lambda>e. (ev_kind e, ev_summary e, ev_ref e)) es = map (\<lambda>p. (EV_PROPOSAL, proposal_text p, Some (packet_id h p))) ps"
proof -
  obtain g1 rs k1 es where r: "link_each clock h ps k g = Inr (g1, rs, length (filter (\<lambda>p. im_risk p \<noteq> RISK_SAFE) ps), k1)"
    "goal_frame g g1" "gstatus g1 = gstatus g" "set (packets g1) = set (packets g) \<union> packet_id h ` set ps"
    "evidence g1 = evidence g @ es"
    "map (\<lambda>e. (ev_kind e, ev_summary e, ev_ref e)) es = map (\<lambda>p. (EV_PROPOSAL, proposal_text p, Some (packet_id h p))) ps"
    using link_each_result[OF assms] by blast
  have n: "0 < length (filter (\<lambda>p. im_risk p \<noteq> RISK_SAFE) ps) \<longleftrightarrow> list_ex (\<lambda>p. im_risk p \<noteq> RISK_SAFE) ps"
    by (auto simp: list_ex_iff filter_empty_conv)
  show ?thesis
  proof (cases "list_ex (\<lambda>p. im_risk p \<noteq> RISK_SAFE) ps \<and> can_transition (gstatus g) AWAITING_APPROVAL")
    case True
    then have "gstatus g \<noteq> AWAITING_APPROVAL" by (auto simp: can_transition_def)
    then have a: "apply_status AWAITING_APPROVAL (clock k1) g1 = Inr (with_status AWAITING_APPROVAL (clock k1) g1)"
      using True r(3) by (simp add: apply_status_def)
    show ?thesis
      by (rule that[of "with_status AWAITING_APPROVAL (clock k1) g1" rs "k1 + 1" es])
        (use True r a n in \<open>simp_all add: link_packets_def goal_frame_def with_status_def\<close>)
  next
    case False
    then show ?thesis
      by (intro that[of g1 rs k1 es]) (use r n in \<open>auto simp: link_packets_def\<close>)
  qed
qed

end
