(* ===== verification/Governance.thy ===== *)
theory Governance
  imports Packets DesignLaneProps
begin

text \<open>
  The design chain of a goal, \<open>runtime/goal_governance.py\<close>, and the session file it is logged in
  (\<open>decision_lane/decision_log.py\<close>). The logs are a map from file stem to events; whether a write succeeds is
  an argument.
\<close>

section \<open>Session files\<close>

type_synonym gov_logs = "string \<Rightarrow> gov_event list"

definition safe_session :: "(string \<Rightarrow> bool) \<Rightarrow> string \<Rightarrow> string" where
  "safe_session wide session_id =
     (let s = concat (map (\<lambda>c. if alnum wide c \<or> c \<in> {''-'', ''_''} then c else ''-'') (char_list (py_strip session_id)))
      in if s \<noteq> [] then s else ''session'')"

definition record_lane_artifacts :: "(string \<Rightarrow> bool) \<Rightarrow> (string \<Rightarrow> bool) \<Rightarrow> string \<Rightarrow> lane_artifacts \<Rightarrow> gov_logs \<Rightarrow> gov_logs" where
  "record_lane_artifacts wide writable session_id a logs =
     (let f = safe_session wide session_id
      in if writable f then logs(f := logs f @ lane_events a) else logs)"

definition replay_governance_log :: "(string \<Rightarrow> bool) \<Rightarrow> gov_logs \<Rightarrow> string \<Rightarrow> gov_event list" where
  "replay_governance_log wide logs session_id = logs (safe_session wide session_id)"

section \<open>Goals that need a design\<close>

definition GOV_REQUIRED :: string where "GOV_REQUIRED = ''governance''"

definition is_governance_required :: "goal \<Rightarrow> bool" where
  "is_governance_required g \<longleftrightarrow> list_ex (\<lambda>e. ev_kind e = GOV_REQUIRED) (evidence g)"

definition mark_governance_required :: "string \<Rightarrow> string \<Rightarrow> string \<Rightarrow> goal \<Rightarrow> goal" where
  "mark_governance_required why now1 now2 g =
     (if is_governance_required g then g
      else add_evidence GOV_REQUIRED (if why \<noteq> [] then why else (''design chain required (PM''
        @ utf8 [0x2192] @ ''tech-lead'' @ utf8 [0x2192] @ ''specialist)''))
             (Some (gid g)) now1 now2 g)"

definition governance_anchor :: "goal \<Rightarrow> (string \<Rightarrow> goal option) \<Rightarrow> goal" where
  "governance_anchor g goals =
     (case (case parent_id g of Some (c # cs) \<Rightarrow> goals (c # cs) | _ \<Rightarrow> None) of
        Some parent \<Rightarrow> if is_governance_required parent then parent else g
      | None \<Rightarrow> g)"

definition frame_pm_brief :: "goal \<Rightarrow> string \<Rightarrow> string list \<Rightarrow> string list \<Rightarrow> string list \<Rightarrow> pm_brief" where
  "frame_pm_brief g user_value acceptance success_metrics constraints =
     \<lparr>pb_topic = (if title g \<noteq> [] then title g else gid g), pb_problem = (if intent g \<noteq> [] then intent g else title g),
      pb_user_value = user_value, pb_target_users = [], pb_acceptance_criteria = acceptance,
      pb_success_metrics = success_metrics, pb_constraints = constraints, pb_out_of_scope = [], pb_priority = ''normal'',
      pb_requested_by = ''operator''\<rparr>"

text \<open>\<open>record_pm_brief\<close> as the scheduler calls it: without a brief of its own.\<close>

definition record_pm_brief :: "(string \<Rightarrow> bool) \<Rightarrow> (string \<Rightarrow> bool) \<Rightarrow> goal \<Rightarrow> gov_logs \<Rightarrow> gov_logs" where
  "record_pm_brief wide writable g logs =
     record_lane_artifacts wide writable (gid g) (no_artifacts\<lparr>la_brief := Some (frame_pm_brief g [] [] [] [])\<rparr>) logs"

definition governance_readiness :: "(string \<Rightarrow> bool) \<Rightarrow> gov_logs \<Rightarrow> string \<Rightarrow> readiness" where
  "governance_readiness wide logs goal_id = readiness_from_log (replay_governance_log wide logs goal_id)"

definition design_ready :: "(string \<Rightarrow> bool) \<Rightarrow> gov_logs \<Rightarrow> string \<Rightarrow> bool" where
  "design_ready wide logs goal_id \<longleftrightarrow> rd_executable (governance_readiness wide logs goal_id)"

definition design_gate :: "(string \<Rightarrow> bool) \<Rightarrow> gov_logs \<Rightarrow> (string \<Rightarrow> goal option) \<Rightarrow> goal \<Rightarrow> bool \<times> string \<times> string" where
  "design_gate wide logs goals g =
     (let anchor = governance_anchor g goals; r = governance_readiness wide logs (gid anchor)
      in if \<not> is_governance_required anchor then (True, ''not_required'', [])
         else if rd_executable r then (True, stage_value (rd_stage r), [])
         else (False, stage_value (rd_stage r), if rd_next_action r \<noteq> [] then rd_next_action r else (''design artifact '' @ utf8 [0xD544, 0xC694])))"

section \<open>Facts\<close>

lemma design_gate_allows: "fst (design_gate wide logs goals g) \<longleftrightarrow>
    \<not> is_governance_required (governance_anchor g goals) \<or> design_ready wide logs (gid (governance_anchor g goals))"
  by (simp add: design_gate_def Let_def design_ready_def)

text \<open>A brief framed from a goal alone is never valid: it brings no design forward.\<close>

lemma framed_brief_invalid: "validate_pm_brief (frame_pm_brief g [] acc met con) \<noteq> []"
  by (simp add: valid_brief frame_pm_brief_def blank_def py_strip_def py_lstrip_def py_rstrip_def)

lemma recorded_brief_no_progress:
  "design_ready wide (record_pm_brief wide writable g logs) i \<longleftrightarrow> design_ready wide logs i"
proof -
  have "has_event k (lane_events (no_artifacts\<lparr>la_brief := Some (frame_pm_brief g [] [] [] [])\<rparr>)) \<Longrightarrow> False"
    for k
    using framed_brief_invalid[of g] by (auto simp: lane_events_def no_artifacts_def)
  then show ?thesis
    by (auto simp: design_ready_def governance_readiness_def replay_governance_log_def record_pm_brief_def
        record_lane_artifacts_def log_executable Let_def)
qed

lemma mark_is_required: "is_governance_required (mark_governance_required r t u g)"
  by (simp add: mark_governance_required_def) (simp add: is_governance_required_def)

lemma mark_frame: "gid (mark_governance_required r t u g) = gid g" "gstatus (mark_governance_required r t u g) = gstatus g"
  "packets (mark_governance_required r t u g) = packets g" "children (mark_governance_required r t u g) = children g"
  "mode (mark_governance_required r t u g) = mode g" "title (mark_governance_required r t u g) = title g"
  by (auto simp: mark_governance_required_def add_evidence_def)

end
