(* ===== verification/Mutator.thy ===== *)
theory Mutator
  imports PyText Autopilot
begin

text \<open>
  The bounded writer of the autopilot, \<open>autopilot/runner.py\<close>: which writes are allowed, the write itself, and
  the check that it landed. The repository is a map from relative paths to file contents; files are valid
  UTF-8. What the operating system and other processes do to one write is an argument, as are the Python
  parser and an injected verifier. Content hashes, which only reports show, are left out.
\<close>

section \<open>Tasks and outcomes\<close>

type_synonym tree = "string \<Rightarrow> string option"

definition SAFE_ACTIONS :: "string list" where
  "SAFE_ACTIONS = [''note'', ''docs-stub'', ''format'', ''source-format'']"

definition ALLOWED_WRITE_PREFIXES :: "string list" where
  "ALLOWED_WRITE_PREFIXES = [''runs/'', ''docs/'', ''examples/'']"

definition SOURCE_EXTENSIONS :: "string list" where
  "SOURCE_EXTENSIONS = [''.py'']"

record exec_task =
  tk_action :: string
  tk_rel_path :: string
  tk_content :: string
  tk_summary :: string

record exec_outcome =
  xo_executed :: bool
  xo_action :: string
  xo_path :: string
  xo_lines_changed :: nat
  xo_verified :: bool
  xo_refused_reason :: string

record mutator =
  mu_max_diff_lines :: int
  mu_source_prefixes :: "string list"
  mu_parses :: "string \<Rightarrow> bool"
  mu_source_verifier :: "(string \<Rightarrow> bool) option"

text \<open>
  One write as it happens: the exceptions of reading and writing, what a failed write leaves behind, what
  another process writes to the file before it is read again, and whether that read or the roll back fails.
\<close>

record disk =
  dk_read_error :: "string option"
  dk_write_error :: "(string \<times> string option) option"
  dk_interference :: "string option"
  dk_reread_fails :: bool
  dk_restore_fails :: bool

definition quiet_disk :: disk where
  "quiet_disk = \<lparr>dk_read_error = None, dk_write_error = None, dk_interference = None, dk_reread_fails = False,
     dk_restore_fails = False\<rparr>"

section \<open>What may be written\<close>

definition norm_path :: "string \<Rightarrow> string" where
  "norm_path p = map (\<lambda>c. if c = CHR 0x5C then CHR ''/'' else c) p"

definition path_ok :: "string \<Rightarrow> bool" where
  "path_ok rel_path =
     (let rp = py_strip rel_path
      in if rp = [] \<or> prefix ''/'' rp \<or> has_dotdot rp then False
         else list_ex (\<lambda>pre. prefix pre (norm_path rp)) ALLOWED_WRITE_PREFIXES)"

definition source_path_ok :: "string \<Rightarrow> string list \<Rightarrow> bool" where
  "source_path_ok rel_path enabled =
     (let rp = py_strip rel_path; norm = norm_path rp
      in if rp = [] \<or> prefix ''/'' rp \<or> has_dotdot rp then False
         else if \<not> list_ex (\<lambda>e. suffix e norm) SOURCE_EXTENSIONS then False
         else enabled \<noteq> [] \<and> list_ex (\<lambda>pre. prefix pre norm) enabled)"

definition validate_task :: "mutator \<Rightarrow> exec_task \<Rightarrow> bool \<times> string" where
  "validate_task mu t =
     (if tk_action t \<notin> set SAFE_ACTIONS then (False, ''non-safe action: '' @ tk_action t @ ('' (''
       @ utf8 [0xC790, 0xB3D9, 0x20, 0xC2E4, 0xD589, 0x20, 0xAE08, 0xC9C0] @ '')''))
      else if tk_action t = ''source-format''
      then (if mu_source_prefixes mu = [] then (False, (''source-format '' @ utf8 [0xBE44, 0xD65C, 0xC131]
        @ '' (source_prefixes '' @ utf8 [0xBBF8, 0xC124, 0xC815, 0x20, 0x2014, 0x20, 0xC18C, 0xC2A4, 0x20, 0xC218,
        0xC815, 0x20, 0xAE30, 0xBCF8] @ '' OFF)''))
            else if \<not> source_path_ok (tk_rel_path t) (mu_source_prefixes mu)
            then (False, (''source '' @ utf8 [0xACBD, 0xB85C, 0x20, 0xBD88, 0xD5C8] @ '': '') @ tk_rel_path t
              @ ('' ('' @ utf8 [0xD5C8, 0xC6A9] @ '': '') @ py_join '', '' (mu_source_prefixes mu)
                    @ ('' '' @ utf8 [0xB7] @ '' '') @ py_join '', '' SOURCE_EXTENSIONS @ '')'')
            else (True, []))
      else if \<not> path_ok (tk_rel_path t)
      then (False, (''write '' @ utf8 [0xACBD, 0xB85C, 0x20, 0xBD88, 0xD5C8] @ '': '') @ tk_rel_path t @ ('' (''
        @ utf8 [0xD5C8, 0xC6A9] @ '' prefix: '') @ py_join '', '' ALLOWED_WRITE_PREFIXES @ '')'')
      else
        let approx = (if tk_content t \<noteq> [] then count_char newline (tk_content t) + 1 else 1)
        in if mu_max_diff_lines mu < int approx
           then (False, ''diff '' @ show_nat approx @ ('' > '' @ utf8 [0xD55C, 0xB3C4] @ '' '')
             @ show_int (mu_max_diff_lines mu))
           else (True, []))"

section \<open>Writing\<close>

definition refused :: "exec_task \<Rightarrow> string \<Rightarrow> exec_outcome" where
  "refused t why = \<lparr>xo_executed = False, xo_action = tk_action t, xo_path = tk_rel_path t, xo_lines_changed = 0,
     xo_verified = False, xo_refused_reason = why\<rparr>"

definition lines_changed :: "string \<Rightarrow> string \<Rightarrow> nat" where
  "lines_changed after before =
     length (filter (\<lambda>(a, b). a \<noteq> b) (zip (split_at newline after) (split_at newline before)))
     + nat \<bar>int (count_char newline after) - int (count_char newline before)\<bar>"

definition over_limit :: "mutator \<Rightarrow> nat \<Rightarrow> string" where
  "over_limit mu n = ''diff '' @ show_nat n @ ('' > '' @ utf8 [0xD55C, 0xB3C4] @ '' '')
    @ show_int (mu_max_diff_lines mu)"

text \<open>The file after a write that returned, and what the read after it gives.\<close>

definition landed :: "disk \<Rightarrow> string \<Rightarrow> string" where
  "landed dk after = (case dk_interference dk of None \<Rightarrow> after | Some x \<Rightarrow> x)"

definition reread_equals :: "disk \<Rightarrow> string \<Rightarrow> bool" where
  "reread_equals dk after \<longleftrightarrow> \<not> dk_reread_fails dk \<and> text_mode (landed dk after) = after"

definition whitespace_normalize :: "string \<Rightarrow> string" where
  "whitespace_normalize text =
     (let body = py_join [newline] (map py_rstrip (split_at newline text))
      in if py_strip body \<noteq> [] then rstrip_char newline body @ [newline] else body)"

text \<open>\<open>"".join(text.split())\<close>.\<close>

definition nonspace :: "string \<Rightarrow> string" where
  "nonspace text = filter (\<lambda>c. \<not> py_space c) text"

definition execute_source_format :: "mutator \<Rightarrow> disk \<Rightarrow> exec_task \<Rightarrow> tree \<Rightarrow> exec_outcome \<times> tree" where
  "execute_source_format mu dk t tr = (case tr (tk_rel_path t) of
     None \<Rightarrow> (refused t (utf8 [0xB300, 0xC0C1] @ '' source '' @ utf8 [0xD30C, 0xC77C, 0x20, 0xC5C6,
       0xC74C]), tr)
   | Some content \<Rightarrow>
       (case dk_read_error dk of
          Some exc \<Rightarrow> (refused t ((''read '' @ utf8 [0xC2E4, 0xD328] @ '': '') @ exc), tr)
        | None \<Rightarrow>
            let before = text_mode content; after = whitespace_normalize before; n = lines_changed after before
            in if \<not> mu_parses mu before then (refused t (utf8 [0xB300, 0xC0C1, 0xC774, 0x20, 0xC774, 0xBBF8,
              0x20, 0xD30C, 0xC2F1, 0x20, 0xBD88, 0xAC00, 0x20, 0x2014] @ '' skip ('' @ utf8 [0xAC74, 0xB4DC,
              0xB9AC, 0xC9C0, 0x20, 0xC54A, 0xC74C] @ '')''), tr)
               else if nonspace after \<noteq> nonspace before
               then (refused t (''non-whitespace '' @ utf8 [0xBCC0, 0xACBD, 0x20, 0xAC10, 0xC9C0, 0x20, 0x2014]
                 @ '' safe-class '' @ utf8 [0xC544, 0xB2D8] @ '' (approval '' @ utf8 [0xD544, 0xC694] @ '')''), tr)
               else if after = before then (refused t (utf8 [0xBCC0, 0xACBD, 0x20, 0xC5C6, 0xC74C]
                 @ '' (no-op)''), tr)
               else if mu_max_diff_lines mu < int n then (refused t (over_limit mu n), tr)
               else case dk_write_error dk of
                 Some (exc, left) \<Rightarrow> (refused t ((''write '' @ utf8 [0xC2E4, 0xD328] @ '': '')
                   @ exc), tr(tk_rel_path t := left))
               | None \<Rightarrow>
                   if reread_equals dk after \<and> (case mu_source_verifier mu of None \<Rightarrow> mu_parses mu after | Some v \<Rightarrow> v after)
                   then (\<lparr>xo_executed = True, xo_action = tk_action t, xo_path = tk_rel_path t, xo_lines_changed = n,
                          xo_verified = True, xo_refused_reason = []\<rparr>, tr(tk_rel_path t \<mapsto> landed dk after))
                   else ((refused t (''verify '' @ utf8 [0xC2E4, 0xD328, 0x20, 0x2014] @ '' rollback (''
                     @ utf8 [0xC6D0, 0xBCF8, 0x20, 0xBCF5, 0xC6D0, 0x2C, 0x20, 0xCEE4, 0xBC0B, 0x20, 0xC548, 0x20,
                     0xD568] @ '')''))\<lparr>xo_lines_changed := n\<rparr>,
                          tr(tk_rel_path t \<mapsto> (if dk_restore_fails dk then landed dk after else before)))))"

definition planned_content :: "exec_task \<Rightarrow> string \<Rightarrow> string" where
  "planned_content t before =
     (if tk_action t = ''format'' then py_join [newline] (map py_rstrip (split_at newline before))
      else if tk_action t = ''note'' then tk_content t else before @ [newline] @ tk_content t)"

definition execute_task :: "mutator \<Rightarrow> disk \<Rightarrow> exec_task \<Rightarrow> tree \<Rightarrow> exec_outcome \<times> tree" where
  "execute_task mu dk t tr =
     (if \<not> fst (validate_task mu t) then (refused t (snd (validate_task mu t)), tr)
      else if tk_action t = ''source-format'' then execute_source_format mu dk t tr
      else
        let before = (case tr (tk_rel_path t) of
              Some content \<Rightarrow> if dk_read_error dk = None then text_mode content else [] | None \<Rightarrow> []);
            after = planned_content t before; n = lines_changed after before
        in if after = before then (refused t (utf8 [0xBCC0, 0xACBD, 0x20, 0xC5C6, 0xC74C] @ '' (no-op)''), tr)
           else if mu_max_diff_lines mu < int n then (refused t (over_limit mu n), tr)
           else case dk_write_error dk of
             Some (exc, left) \<Rightarrow> (refused t ((''write '' @ utf8 [0xC2E4, 0xD328] @ '': '')
               @ exc), tr(tk_rel_path t := left))
           | None \<Rightarrow>
               (\<lparr>xo_executed = reread_equals dk after, xo_action = tk_action t, xo_path = tk_rel_path t, xo_lines_changed = n,
                 xo_verified = reread_equals dk after,
                 xo_refused_reason = (if reread_equals dk after then [] else (''verify '' @ utf8 [0xC2E4, 0xD328,
                   0x20, 0x2014, 0x20, 0xACB0, 0xACFC, 0x20, 0xBD88, 0xC77C, 0xCE58]))\<rparr>,
                tr(tk_rel_path t \<mapsto> landed dk after)))"

section \<open>What a write can touch\<close>

lemma source_format_frame: "p \<noteq> tk_rel_path t \<Longrightarrow> snd (execute_source_format mu dk t tr) p = tr p"
  by (auto simp: execute_source_format_def Let_def split: option.splits if_splits)

lemma execute_frame: "p \<noteq> tk_rel_path t \<Longrightarrow> snd (execute_task mu dk t tr) p = tr p"
  using source_format_frame[of p t mu dk tr] by (auto simp: execute_task_def Let_def split: option.splits if_splits)

lemma execute_refused: "\<not> fst (validate_task mu t) \<Longrightarrow> execute_task mu dk t tr = (refused t (snd (validate_task mu t)), tr)"
  by (simp add: execute_task_def)

lemma valid_paths:
  assumes "fst (validate_task mu t)"
  shows "tk_action t \<in> set SAFE_ACTIONS"
    "(if tk_action t = ''source-format'' then source_path_ok (tk_rel_path t) (mu_source_prefixes mu) else path_ok (tk_rel_path t))"
  using assms by (auto simp: validate_task_def Let_def split: if_splits)

lemma executed_source:
  assumes "xo_executed (fst (execute_source_format mu dk t tr))"
  obtains content where "tr (tk_rel_path t) = Some content" "mu_parses mu (text_mode content)"
    "nonspace (whitespace_normalize (text_mode content)) = nonspace (text_mode content)"
    "snd (execute_source_format mu dk t tr) (tk_rel_path t) = Some (landed dk (whitespace_normalize (text_mode content)))"
    "reread_equals dk (whitespace_normalize (text_mode content))"
    "int (xo_lines_changed (fst (execute_source_format mu dk t tr))) \<le> mu_max_diff_lines mu"
  using assms by (auto simp: execute_source_format_def refused_def Let_def split: option.splits if_splits)

text \<open>A path that passed has no component \<open>..\<close>, also where white space surrounds it.\<close>

lemma split_at_first: "c \<notin> set s \<Longrightarrow> b = [] \<or> hd b = c \<Longrightarrow> \<exists>ls. split_at c (s @ b) = s # ls"
proof (induction s)
  case Nil
  then show ?case by (cases b) auto
qed auto

lemma split_at_later:
  assumes "c \<notin> set s" and "b = [] \<or> hd b = c"
  shows "a \<noteq> [] \<Longrightarrow> last a = c \<Longrightarrow> s \<in> set (tl (split_at c (a @ s @ b)))"
proof (induction a)
  case (Cons x a)
  obtain l ls where l: "split_at c (a @ s @ b) = l # ls" by (cases "split_at c (a @ s @ b)") auto
  show ?case
  proof (cases "a = []")
    case True
    then show ?thesis using Cons.prems split_at_first[OF assms] by auto
  next
    case False
    then have "s \<in> set ls" using Cons l by simp
    then show ?thesis using l by simp
  qed
qed simp

lemma component_in_split:
  assumes "c \<notin> set s" and "a = [] \<or> last a = c" and "b = [] \<or> hd b = c"
  shows "s \<in> set (split_at c (a @ s @ b))"
proof (cases "a = []")
  case True
  then show ?thesis using split_at_first[OF assms(1,3)] by auto
next
  case False
  then have "s \<in> set (tl (split_at c (a @ s @ b)))" using assms split_at_later[OF assms(1,3)] by blast
  then show ?thesis by (meson list.set_sel(2) split_at_nonempty)
qed

lemma strip_around:
  assumes "s \<noteq> []" and "\<not> py_space (hd s)" and "\<not> py_space (last s)"
  shows "py_strip (a @ s @ b) = dropWhile py_space a @ s @ py_rstrip b"
proof -
  have "py_lstrip (a @ s @ b) = dropWhile py_space a @ s @ b"
    using assms(1,2) by (cases s; cases "\<forall>c \<in> set a. py_space c") (auto simp: py_lstrip_def dropWhile_append)
  moreover have "py_rstrip (x @ s @ b) = x @ s @ py_rstrip b" for x
    using assms(1,3) by (cases s rule: rev_cases; cases "\<forall>c \<in> set b. py_space c") (auto simp: py_rstrip_def dropWhile_append)
  ultimately show ?thesis by (simp add: py_strip_def)
qed

definition climbs :: "string \<Rightarrow> bool" where
  "climbs p \<longleftrightarrow> (\<exists>a b. p = a @ ''..'' @ b \<and> (a = [] \<or> last a = CHR ''/'') \<and> (b = [] \<or> hd b = CHR ''/''))"

lemma strip_climbs:
  assumes "climbs p"
  shows "has_dotdot (py_strip p)"
proof -
  obtain a b where p: "p = a @ ''..'' @ b" and ends: "a = [] \<or> last a = CHR ''/''" "b = [] \<or> hd b = CHR ''/''"
    using assms by (auto simp: climbs_def)
  have sp: "\<not> py_space (CHR ''/'')" "\<not> py_space (CHR ''.'')" by (simp_all add: py_space_def)
  have "py_strip p = dropWhile py_space a @ ''..'' @ py_rstrip b" unfolding p by (rule strip_around) (simp_all add: sp)
  moreover have "dropWhile py_space a = [] \<or> last (dropWhile py_space a) = CHR ''/''"
    using ends(1) by (cases a rule: rev_cases) (auto simp: dropWhile_append sp)
  moreover have "py_rstrip b = [] \<or> hd (py_rstrip b) = CHR ''/''"
    using ends(2) by (cases b) (auto simp: py_rstrip_def dropWhile_append sp)
  moreover have "CHR ''/'' \<notin> set ''..''" by simp
  ultimately show ?thesis unfolding has_dotdot_def by (metis component_in_split)
qed

lemma strip_absolute: "prefix ''/'' p \<Longrightarrow> prefix ''/'' (py_strip p)"
  using strip_around[of "''/''" "[]"] by (auto simp: prefix_def py_space_def)

text \<open>C26: One write of the autopilot is confined and verified. Whatever the task, the disk and other
  processes do, no file but the target changes, and nothing changes unless the action is one of the four safe ones
  and the path is relative, has no component \<open>..\<close>, and, with white space around it removed and backslashes read as
  slashes, starts with \<open>runs/\<close>, \<open>docs/\<close> or \<open>examples/\<close>, or for source formatting ends in \<open>.py\<close> and starts with an
  enabled prefix. (The path written is the one given, white space and backslashes included.) A write reported as executed was
  read back equal to what the action plans from the content read before, where a failed read counts as
  an empty file; it changes no more lines than the limit; and a source edit moves only white space of a file that parsed.\<close>

theorem mutator_confined:
  "let p = tk_rel_path t; shown = map (\<lambda>c. if c = CHR 0x5C then CHR ''/'' else c) (py_strip p);
       before = (case tr p of Some y \<Rightarrow> if dk_read_error dk = None then text_mode y else [] | None \<Rightarrow> [])
   in case execute_task mu dk t tr of (r, tr') \<Rightarrow>
     (tr' = tr \<or> tk_action t \<in> {''note'', ''docs-stub'', ''format'', ''source-format''} \<and> (\<exists>x. tr' = tr(p := x))
        \<and> \<not> prefix ''/'' p \<and> \<not> (\<exists>a b. p = a @ ''..'' @ b \<and> (a = [] \<or> last a = CHR ''/'') \<and> (b = [] \<or> hd b = CHR ''/''))
        \<and> (if tk_action t = ''source-format'' then suffix ''.py'' shown \<and> list_ex (\<lambda>pre. prefix pre shown) (mu_source_prefixes mu)
           else list_ex (\<lambda>pre. prefix pre shown) [''runs/'', ''docs/'', ''examples/'']))
     \<and> (if xo_executed r
        then \<exists>x. tr' p = Some x \<and> xo_verified r
          \<and> int (length (filter (\<lambda>(a, b). a \<noteq> b) (zip (split_at newline (text_mode x)) (split_at newline before)))
              + nat \<bar>int (count_char newline (text_mode x)) - int (count_char newline before)\<bar>) \<le> mu_max_diff_lines mu
          \<and> (if tk_action t = ''source-format''
             then tr p \<noteq> None \<and> dk_read_error dk = None \<and> mu_parses mu before
               \<and> filter (\<lambda>c. \<not> py_space c) (text_mode x) = filter (\<lambda>c. \<not> py_space c) before
             else text_mode x = (if tk_action t = ''note'' then tk_content t
               else if tk_action t = ''docs-stub'' then before @ [newline] @ tk_content t
               else py_join [newline] (map py_rstrip (split_at newline before))))
        else True)"
proof -
  let ?p = "tk_rel_path t"
  obtain r tr' where e: "execute_task mu dk t tr = (r, tr')" by (cases "execute_task mu dk t tr")
  show ?thesis
  proof (cases "fst (validate_task mu t)")
    case False
    then have "r = refused t (snd (validate_task mu t))" "tr' = tr" using e by (simp_all add: execute_refused)
    then show ?thesis unfolding e by (simp add: refused_def Let_def)
  next
    case ok: True
    note path = valid_paths[OF ok]
    have frame: "tr' = tr(?p := tr' ?p)" using execute_frame[of _ t mu dk tr] e by (intro ext) simp
    have rel: "\<not> prefix ''/'' ?p" "\<not> climbs ?p"
      using path(2) strip_absolute strip_climbs by (auto simp: path_ok_def source_path_ok_def Let_def split: if_splits)
    define before where "before = (case tr ?p of Some y \<Rightarrow> if dk_read_error dk = None then text_mode y else [] | None \<Rightarrow> [])"
    have res: "\<exists>x. tr' ?p = Some x \<and> xo_verified r \<and> int (lines_changed (text_mode x) before) \<le> mu_max_diff_lines mu
        \<and> (if tk_action t = ''source-format''
           then tr ?p \<noteq> None \<and> dk_read_error dk = None \<and> mu_parses mu before \<and> nonspace (text_mode x) = nonspace before
           else text_mode x = planned_content t before)" if "xo_executed r"
    proof (cases "tk_action t = ''source-format''")
      case True
      then have "execute_source_format mu dk t tr = (r, tr')" using e ok by (simp add: execute_task_def)
      then show ?thesis using that True
        by (auto simp: execute_source_format_def refused_def reread_equals_def before_def Let_def split: option.splits if_splits)
    next
      case False
      then show ?thesis using e ok that
        by (auto simp: execute_task_def refused_def reread_equals_def before_def[symmetric] Let_def split: option.splits if_splits prod.splits)
    qed
    have "tk_action t \<in> {''note'', ''docs-stub'', ''format'', ''source-format''}" using path(1) by (auto simp: SAFE_ACTIONS_def)
    then show ?thesis
      using e frame res rel path(2) unfolding Let_def before_def[symmetric] climbs_def
      by (auto simp: path_ok_def source_path_ok_def norm_path_def ALLOWED_WRITE_PREFIXES_def SOURCE_EXTENSIONS_def Let_def
          lines_changed_def nonspace_def planned_content_def split: if_splits)
  qed
qed

end
