(* ===== verification/GoalExec.thy ===== *)
theory GoalExec
  imports Governance Mutator
begin

text \<open>
  From an approved goal to a commit, \<open>selfimprove/execute_bridge.py\<close>: the packet is read back from the goal's
  evidence, goes through the three gates, is written by the bounded mutator, committed, and recorded. git is
  an argument, with what the code relies on as \<open>git_documented\<close>; so are the disk, the clock, the vault and
  whether the goal could be saved. Sentences shown to operators only are left out; those recorded as evidence
  are kept.
\<close>

section \<open>Reading the packet back\<close>

datatype bridge_error = NoPackets | NotLinked | NothingProposed | NoProposal | UnreadableProposal

text \<open>The pattern is a bracketed risk, the finding, an arrow and the route; the finding stays on one line and
  is as short as possible.\<close>

definition route_matches :: "string \<Rightarrow> bool" where
  "route_matches s = (let r = py_lstrip s in newline \<notin> set (if r \<noteq> [] \<and> last r = newline then butlast r else r))"

fun up_to_arrow :: "string \<Rightarrow> string option" where
  "up_to_arrow s =
     (if prefix ''->'' (py_lstrip s) \<and> route_matches (drop 2 (py_lstrip s)) then Some []
      else case s of [] \<Rightarrow> None
        | c # cs \<Rightarrow> if c = newline then None else map_option (\<lambda>f. c # f) (up_to_arrow cs))"

declare up_to_arrow.simps [simp del]

definition parse_proposal :: "string \<Rightarrow> (string \<times> string) option" where
  "parse_proposal s =
     (case s of
        [] \<Rightarrow> None
      | b # rest \<Rightarrow>
          let risk = takeWhile (\<lambda>c. c \<noteq> CHR '']'') rest; after = dropWhile (\<lambda>c. c \<noteq> CHR '']'') rest
          in if b \<noteq> CHR ''['' \<or> risk = [] \<or> after = [] then None
             else map_option (\<lambda>f. (py_strip risk, py_strip f)) (up_to_arrow (py_lstrip (tl after))))"

definition proposal_for :: "goal \<Rightarrow> string \<Rightarrow> evidence option" where
  "proposal_for g pid = find (\<lambda>e. ev_kind e = EV_PROPOSAL \<and> ev_ref e = Some pid \<and> pid \<noteq> []) (rev (evidence g))"

text \<open>The id, the finding and the risk; or the error with the id as far as it was known.\<close>

definition read_packet :: "goal \<Rightarrow> string \<Rightarrow> (string \<times> bridge_error) + (string \<times> string \<times> string)" where
  "read_packet g pid = (case proposal_for g pid of
     None \<Rightarrow> Inl (pid, NoProposal)
   | Some e \<Rightarrow> (case parse_proposal (ev_summary e) of
       None \<Rightarrow> Inl (pid, UnreadableProposal)
     | Some (risk, finding) \<Rightarrow>
         Inr (pid, finding, if risk \<in> {RISK_SAFE, RISK_RISKY, RISK_BLOCKED} then risk else classify_risk finding [])))"

definition resolve_packet :: "goal \<Rightarrow> string option \<Rightarrow> (string \<times> bridge_error) + (string \<times> string \<times> string)" where
  "resolve_packet g wanted =
     (if packets g = [] then Inl ([], NoPackets)
      else case (case wanted of None \<Rightarrow> [] | Some p \<Rightarrow> py_strip p) of
        [] \<Rightarrow> (case find (\<lambda>p. proposal_for g p \<noteq> None) (rev (packets g)) of
                None \<Rightarrow> Inl ([], NothingProposed) | Some p \<Rightarrow> read_packet g p)
      | c # cs \<Rightarrow> if c # cs \<in> set (packets g) then read_packet g (c # cs) else Inl ([], NotLinked))"

section \<open>The three gates\<close>

definition executor_for :: "string \<Rightarrow> string" where
  "executor_for owner_role =
     (let c = canonical_id owner_role
      in if c \<noteq> [] \<and> is_known c then c
         else let f = canonical_id ''backend-engineer'' in if f \<noteq> [] then f else ''backend-engineer'')"

record gate_result =
  ga_authorized :: bool
  ga_verdict :: exec_verdict
  ga_executor :: string
  ga_reasons :: "refusal list"

definition bridge_gates :: "string \<Rightarrow> string \<Rightarrow> string \<Rightarrow> gate_result" where
  "bridge_gates pid finding risk =
     (let (p, route, d, trace) = run_internal_chain
            \<lparr>rf_repo = ''forgekit'', rf_finding = finding, rf_kind = ''gap'', rf_evidence = ''self-improvement packet '' @ pid\<rparr> risk;
          executor = executor_for (gr_owner_role route);
          req = \<lparr>aq_kind = (if risk = RISK_SAFE then ''note'' else risk), aq_summary = finding, aq_diff = 0, aq_files = 0,
            aq_risk_flag = risk\<rparr>;
          v = authorize_runtime_execution (Some d) req executor True None;
          chain_ok = can_specialist_execute (Some d);
          (val_ok, val_reasons) = validate_execution (Some d)
            \<lparr>ts_decision_summary = finding, ts_executor = executor, ts_tasks = [finding], ts_diff_limit = 0,
              ts_file_limit = 0\<rparr> default_limits 0 0 0
      in \<lparr>ga_authorized = (vd_allowed v \<and> chain_ok \<and> val_ok), ga_verdict = v, ga_executor = executor,
          ga_reasons = vd_blocking_reasons v @ val_reasons @ if_then (\<not> chain_ok) ChainNotCleared\<rparr>)"

section \<open>The note and the repository\<close>

definition slug :: "(string \<Rightarrow> bool) \<Rightarrow> string \<Rightarrow> string" where
  "slug wide text =
     (let s = strip_char (CHR ''-'')
        (chars 40 (concat (map (\<lambda>c. if alnum wide c then c else ''-'') (char_list (py_lower text)))))
      in if s \<noteq> [] then s else ''task'')"

definition safe_task :: "(string \<Rightarrow> bool) \<Rightarrow> string \<Rightarrow> string \<Rightarrow> exec_task" where
  "safe_task wide pid finding =
     \<lparr>tk_action = ''note'', tk_rel_path = ''runs/forgekit/selfimprove/'' @ slug wide finding @ ''-'' @ slug wide pid @ ''.md'',
      tk_content = (''# self-improvement note '' @ utf8 [0x2014] @ '' packet '') @ pid @ [newline, newline]
        @ ''- finding: '' @ finding @ [newline]
        @ (''- class: safe (internal-approved: PM'' @ utf8 [0x2192] @ ''gateway'' @ utf8 [0x2192]
          @ ''tech-lead + decision-lane)'') @ [newline]
        @ (''- action: '' @ utf8 [0xC548, 0xC804, 0x20, 0xD074, 0xB798, 0xC2A4] @ '' note '' @ utf8 [0xAE30,
          0xB85D, 0x20, 0x28, 0xC2E4, 0xC81C] @ '' bounded write '' @ utf8 [0xB7] @ '' BoundedMutator ''
          @ utf8 [0xAC80, 0xC99D] @ '')'') @ [newline],
      tk_summary = finding\<rparr>"

text \<open>The last commit, the index and the files on disk; and git as the code calls it. An error is its text.\<close>

record repo =
  rp_head :: tree
  rp_index :: tree
  rp_work :: tree

record git =
  git_tracked :: "string \<Rightarrow> repo \<Rightarrow> bool"
  git_add :: "string \<Rightarrow> repo \<Rightarrow> string option \<times> repo"
  git_commit :: "string \<Rightarrow> string \<Rightarrow> string \<Rightarrow> string \<Rightarrow> repo \<Rightarrow> (string + string) \<times> repo"
  git_checkout :: "string \<Rightarrow> repo \<Rightarrow> repo"

text \<open>
  What git documents: \<open>ls-files\<close> lists the index; \<open>add\<close> stages one path or fails and stages nothing; \<open>commit\<close>
  records the index or fails and records nothing; \<open>checkout -- path\<close> restores a path from the index.
\<close>

definition git_documented :: "git \<Rightarrow> bool" where
  "git_documented g \<longleftrightarrow>
     (\<forall>p r. git_tracked g p r \<longleftrightarrow> rp_index r p \<noteq> None)
     \<and> (\<forall>p r. snd (git_add g p r) = (if fst (git_add g p r) = None then r\<lparr>rp_index := (rp_index r)(p := rp_work r p)\<rparr> else r))
     \<and> (\<forall>a n m t r. snd (git_commit g a n m t r) = (if is_ok (fst (git_commit g a n m t r)) then r\<lparr>rp_head := rp_index r\<rparr> else r))
     \<and> (\<forall>p r. rp_index r p \<noteq> None \<longrightarrow> git_checkout g p r = r\<lparr>rp_work := (rp_work r)(p := rp_index r p)\<rparr>)"

definition git_rollback :: "git \<Rightarrow> bool \<Rightarrow> string \<Rightarrow> bool \<Rightarrow> repo \<Rightarrow> repo" where
  "git_rollback g unlink_fails rel tracked r =
     (if tracked then git_checkout g rel r
      else if rp_work r rel \<noteq> None \<and> \<not> unlink_fails then r\<lparr>rp_work := (rp_work r)(rel := None)\<rparr> else r)"

text \<open>The text before and after the first occurrence of \<open>k\<close>.\<close>

fun py_cut :: "string \<Rightarrow> string \<Rightarrow> (string \<times> string) option" where
  "py_cut k [] = (if k = [] then Some ([], []) else None)"
| "py_cut k (c # cs) = (if prefix k (c # cs) then Some ([], drop (length k) (c # cs))
     else map_option (\<lambda>(a, b). (c # a, b)) (py_cut k cs))"

definition committer :: "string \<Rightarrow> string \<times> string" where
  "committer author =
     (case py_cut '' <'' author of Some (a, b) \<Rightarrow> py_strip a | None \<Rightarrow> author,
      case py_cut ''<'' author of Some (a, b) \<Rightarrow> py_strip (rstrip_char (CHR ''>'') b) | None \<Rightarrow> ''forgekit@forgekit.local'')"

definition git_commit_path :: "git \<Rightarrow> string \<Rightarrow> string \<Rightarrow> string \<Rightarrow> repo \<Rightarrow> (string + string) \<times> repo" where
  "git_commit_path g rel author message r =
     (case git_add g rel r of
        (Some err, r1) \<Rightarrow> (Inl ((''git add '' @ utf8 [0xC2E4, 0xD328] @ '': '') @ py_strip err), r1)
      | (None, r1) \<Rightarrow>
          (case git_commit g author (fst (committer author)) (snd (committer author)) message r1 of
             (Inl err, r2) \<Rightarrow> (Inl ((''git commit '' @ utf8 [0xC2E4, 0xD328] @ '': '') @ err), r2)
           | (Inr sha, r2) \<Rightarrow> (Inr (py_strip sha), r2)))"

section \<open>Execution\<close>

datatype outcome_kind = OUTCOME_EXECUTED | OUTCOME_BLOCKED | OUTCOME_AWAITING | OUTCOME_ERROR

record exec_result =
  xr_outcome :: outcome_kind
  xr_executed :: bool
  xr_packet_id :: string
  xr_action_class :: string
  xr_executor_id :: string
  xr_approval_metadata :: string
  xr_commit_message :: string
  xr_reasons :: "string list"
  xr_error :: "bridge_error option"
  xr_applied :: bool
  xr_commit_sha :: string
  xr_changed_path :: string
  xr_vault_note :: string

text \<open>
  One call: the clock by reading, the disk and git as they behave in it, whether a new file cannot be deleted or
  the goal cannot be saved, the vault note it wrote when a vault is connected and took it, and the texts of the
  host: \<open>str\<close> of a number, \<open>isalnum\<close> outside ASCII, the environment variables.
\<close>

record attempt =
  at_clock :: "nat \<Rightarrow> string"
  at_disk :: disk
  at_git :: git
  at_unlink_fails :: bool
  at_save_fails :: bool
  at_vault :: "string option"
  at_float_str :: "pyfloat \<Rightarrow> string"
  at_wide :: "string \<Rightarrow> bool"
  at_env :: "string pydict"

record world =
  wd_files :: goal_files
  wd_repo :: repo

text \<open>\<open>_save\<close> swallows every exception.\<close>

definition save_quietly :: "attempt \<Rightarrow> bool \<Rightarrow> goal \<Rightarrow> world \<Rightarrow> world" where
  "save_quietly att persist g w = (if persist \<and> \<not> at_save_fails att then w\<lparr>wd_files := put_goal g (wd_files w)\<rparr> else w)"

definition not_executed :: "outcome_kind \<Rightarrow> string \<Rightarrow> exec_result" where
  "not_executed k pid = \<lparr>xr_outcome = k, xr_executed = False, xr_packet_id = pid, xr_action_class = [], xr_executor_id = [],
     xr_approval_metadata = [], xr_commit_message = [], xr_reasons = [], xr_error = None, xr_applied = False,
     xr_commit_sha = [], xr_changed_path = [], xr_vault_note = []\<rparr>"

definition decision_record :: "attempt \<Rightarrow> nat \<Rightarrow> string \<Rightarrow> string \<Rightarrow> goal \<Rightarrow> goal" where
  "decision_record att k pid text g = add_evidence EV_DECISION text (Some pid) (at_clock att k) (at_clock att (k + 1)) g"

text \<open>\<open>_apply_real_execution\<close>, from the \<open>k\<close>-th reading of the clock on.\<close>

definition apply_real_execution :: "attempt \<Rightarrow> bool \<Rightarrow> string \<Rightarrow> mutator \<Rightarrow> nat \<Rightarrow> string \<Rightarrow> string \<Rightarrow> gate_result \<Rightarrow>
    goal \<Rightarrow> world \<Rightarrow> exec_result \<times> world" where
  "apply_real_execution att persist approver mu k pid finding ga g w =
     (let v = ga_verdict ga; author = git_author_for (ga_executor ga);
          message = build_execution_commit_message v finding (at_env att);
          task = safe_task (at_wide att) pid finding; rel = tk_rel_path task;
          tracked = git_tracked (at_git att) rel (wd_repo w);
          (out, work) = execute_task mu (at_disk att) task (rp_work (wd_repo w));
          r1 = (wd_repo w)\<lparr>rp_work := work\<rparr>;
          undo = git_rollback (at_git att) (at_unlink_fails att) rel tracked;
          refused = (not_executed OUTCOME_BLOCKED pid)\<lparr>xr_action_class := vd_action_class v, xr_executor_id := ga_executor ga\<rparr>
      in if \<not> (xo_executed out \<and> xo_verified out)
         then
           let why = (if xo_refused_reason out \<noteq> [] then xo_refused_reason out else (''bounded write ''
             @ utf8 [0xBBF8, 0xAC80, 0xC99D]));
               g' = decision_record att k pid ((''apply '' @ utf8 [0xAC70, 0xBD80, 0x20, 0x2014] @ '' packet '')
                 @ pid @ '': '' @ why @ ('' (rollback, '' @ utf8 [0xCEE4, 0xBC0B, 0x20, 0xC548, 0x20, 0xD568]
                 @ '')'')) g
           in (refused\<lparr>xr_reasons := [why]\<rparr>, save_quietly att persist g' (w\<lparr>wd_repo := undo r1\<rparr>))
         else case git_commit_path (at_git att) rel author message r1 of
           (Inl err, r2) \<Rightarrow>
             let g' = decision_record att k pid ((''apply '' @ utf8 [0xCEE4, 0xBC0B, 0x20, 0xC2E4, 0xD328, 0x20,
               0x2014] @ '' packet '') @ pid @ '': '' @ err @ '' (rollback)'') g
             in (refused\<lparr>xr_reasons := [err], xr_changed_path := rel\<rparr>, save_quietly att persist g' (w\<lparr>wd_repo := undo r2\<rparr>))
         | (Inr sha, r2) \<Rightarrow>
             let g1 = add_evidence EV_EXECUTION
                   ((''safe-class '' @ utf8 [0xC2E4, 0xC81C, 0x20, 0xC2E4, 0xD589, 0x20, 0x2014] @ '' packet '')
                     @ pid @ '': '' @ finding @ '' [executor='' @ ga_executor ga @ '' author='' @ author
                    @ '' approver='' @ approver @ '' approval='' @ vd_approval_metadata v @ '' file='' @ rel @ '' commit='' @ sha
                    @ (''] (BoundedMutator '' @ utf8 [0xAC80, 0xC99D] @ '' + git -C '' @ utf8 [0xCEE4, 0xBC0B]
                      @ '', push '' @ utf8 [0xC548, 0x20, 0xD568]
                      @ '')'')) (Some pid) (at_clock att k) (at_clock att (k + 1)) g;
                 g2 = add_evidence EV_VERIFICATION
                   ((utf8 [0xC2E4, 0xD589, 0x20, 0xAC80, 0xC99D, 0x20, 0xD1B5, 0xACFC, 0x20, 0x2014]
                     @ '' bounded write '' @ utf8 [0xC7AC, 0xC77D, 0xAE30, 0x20, 0xAC80, 0xC99D]
                     @ '' + 3-gate(chain/decision-lane/validate) '' @ utf8 [0xD1B5, 0xACFC] @ '', commit='') @ sha
                    @ '', action_class='' @ vd_action_class v @ '', approval='' @ vd_approval_metadata v)
                   (Some pid) (at_clock att (k + 2)) (at_clock att (k + 3)) g1;
                 g3 = (case at_vault att of None \<Rightarrow> g2 | Some path \<Rightarrow>
                   add_evidence EV_VERIFICATION ((''vault evidence note '' @ utf8 [0xAE30, 0xB85D, 0x20, 0x2014]
                     @ '' '') @ path) (Some pid)
                     (at_clock att (k + 4)) (at_clock att (k + 5)) g2)
             in (\<lparr>xr_outcome = OUTCOME_EXECUTED, xr_executed = True, xr_packet_id = pid, xr_action_class = vd_action_class v,
                  xr_executor_id = ga_executor ga, xr_approval_metadata = vd_approval_metadata v, xr_commit_message = message,
                  xr_reasons = [], xr_error = None, xr_applied = True, xr_commit_sha = sha, xr_changed_path = rel,
                  xr_vault_note = (case at_vault att of None \<Rightarrow> [] | Some p \<Rightarrow> p)\<rparr>,
                 save_quietly att persist g3 (w\<lparr>wd_repo := r2\<rparr>)))"

text \<open>Without a mutator only the authorisation is recorded.\<close>

definition record_authorisation :: "attempt \<Rightarrow> bool \<Rightarrow> string \<Rightarrow> nat \<Rightarrow> string \<Rightarrow> string \<Rightarrow> gate_result \<Rightarrow> goal \<Rightarrow> world \<Rightarrow>
    exec_result \<times> world" where
  "record_authorisation att persist approver k pid finding ga g w =
     (let v = ga_verdict ga;
          g1 = add_evidence EV_EXECUTION
            ((''safe-class '' @ utf8 [0xC2E4, 0xD589, 0x20, 0xC778, 0xAC00, 0x20, 0x2014] @ '' packet '') @ pid
              @ '': '' @ finding @ '' [executor='' @ ga_executor ga @ '' author=''
             @ git_author_for (ga_executor ga) @ '' approver='' @ approver @ '' approval='' @ vd_approval_metadata v
             @ (''] ('' @ utf8 [0xC2E4, 0xC81C, 0x20, 0xD30C, 0xC77C] @ '' mutation '' @ utf8 [0xC740]
               @ '' BoundedMutator '' @ utf8 [0xAC8C, 0xC774, 0xD2B8, 0x20, 0x2014, 0x20, 0xBCF8, 0x20, 0xB2E8,
               0xACC4, 0xB294, 0x20, 0xC778, 0xAC00, 0x2B, 0xAC80, 0xC99D, 0x20, 0xAE30, 0xB85D] @ '')''))
            (Some pid) (at_clock att k) (at_clock att (k + 1)) g;
          g2 = add_evidence EV_VERIFICATION
            ((utf8 [0xC2E4, 0xD589, 0x20, 0xAC8C, 0xC774, 0xD2B8, 0x20, 0xC7AC, 0xAC80, 0xC99D, 0x20, 0xD1B5,
              0xACFC, 0x20, 0x2014] @ '' chain(can_execute)+decision-lane(authorize)+validate_execution ''
              @ utf8 [0xBAA8, 0xB450, 0x20, 0xD1B5, 0xACFC] @ '', action_class='')
             @ vd_action_class v @ '', approval='' @ vd_approval_metadata v)
            (Some pid) (at_clock att (k + 2)) (at_clock att (k + 3)) g1
      in ((not_executed OUTCOME_EXECUTED pid)\<lparr>xr_executed := True, xr_action_class := vd_action_class v,
            xr_executor_id := ga_executor ga, xr_approval_metadata := vd_approval_metadata v,
            xr_commit_message := build_execution_commit_message v finding (at_env att)\<rparr>,
          save_quietly att persist g2 w))"

definition reopen :: "attempt \<Rightarrow> goal \<Rightarrow> goal \<times> nat" where
  "reopen att g =
     (if gstatus g = AWAITING_APPROVAL \<and> can_transition (gstatus g) ACTIVE
      then (case apply_status ACTIVE (at_clock att 0) g of Inr g' \<Rightarrow> (g', 1) | Inl e \<Rightarrow> (g, 0)) else (g, 0))"

definition execute_approved_packet :: "attempt \<Rightarrow> bool \<Rightarrow> string \<Rightarrow> mutator option \<Rightarrow> string option \<Rightarrow> goal \<Rightarrow> world \<Rightarrow>
    exec_result \<times> world" where
  "execute_approved_packet att persist approver mu wanted g w =
     (case resolve_packet g wanted of
        Inl (pid, err) \<Rightarrow> ((not_executed OUTCOME_ERROR pid)\<lparr>xr_error := Some err\<rparr>, w)
      | Inr (pid, finding, risk) \<Rightarrow>
          let ga = bridge_gates pid finding risk; v = ga_verdict ga;
              texts = map (refusal_text (at_float_str att)) (ga_reasons ga)
          in if \<not> ga_authorized ga
             then ((not_executed OUTCOME_BLOCKED pid)\<lparr>xr_action_class := vd_action_class v, xr_executor_id := ga_executor ga,
                     xr_reasons := texts\<rparr>,
                   save_quietly att persist (decision_record att 0 pid
                     ((''execute '' @ utf8 [0xAC70, 0xBD80, 0x20, 0x2014] @ '' packet '') @ pid @ '' ('' @ risk
                       @ ''): '' @ chars 200 (py_join ''; '' texts)) g) w)
             else
               let (g', k) = reopen att g
               in case mu of
                    Some m \<Rightarrow> if risk = RISK_SAFE then apply_real_execution att persist approver m k pid finding ga g' w
                             else record_authorisation att persist approver k pid finding ga g' w
                  | None \<Rightarrow> record_authorisation att persist approver k pid finding ga g' w)"

end
