(* ===== verification/GoalExecProps.thy ===== *)
theory GoalExecProps
  imports GoalExec
begin

text \<open>
  What an approved packet can do: it is executed only when it was proposed as safe and is worded plainly, the
  write stays in one directory, and what reaches the commit is what git documents.
\<close>

section \<open>The gates\<close>

definition padded :: "string \<Rightarrow> string" where
  "padded finding = ''note '' @ finding @ '' safe safe''"

lemma executor_be: "executor_for (get_default OWNER_BY_KIND ''gap'' ''tech-lead'') = ''backend-engineer''"
  by code_simp

lemma engineer_facts: "canonical_id ''backend-engineer'' = ''backend-engineer''"
  "id_department (resolve_identity ''backend-engineer'') = ''engineering''" "py_strip ''note'' = ''note''"
  "''note'' \<in> set SAFE_CLASS_ALLOWLIST"
  by code_simp+

lemma gate_executor: "ga_executor (bridge_gates pid finding risk) = ''backend-engineer''"
  "vd_executor_id (ga_verdict (bridge_gates pid finding risk)) = ''backend-engineer''"
proof -
  let ?f = "\<lparr>rf_repo = ''forgekit'', rf_finding = finding, rf_kind = ''gap'', rf_evidence = ''self-improvement packet '' @ pid\<rparr>"
  obtain p r d t where c: "run_internal_chain ?f risk = (p, r, d, t)" by (metis prod_cases4)
  have "executor_for (gr_owner_role r) = ''backend-engineer''" using chain_decision(6)[OF c] executor_be by simp
  then show "ga_executor (bridge_gates pid finding risk) = ''backend-engineer''"
    "vd_executor_id (ga_verdict (bridge_gates pid finding risk)) = ''backend-engineer''"
    unfolding bridge_gates_def c Let_def prod.case
    by (simp_all add: authorize_runtime_execution_def engineer_facts Let_def split: prod.split)
qed

lemma gates_exact:
  assumes "risk \<in> {RISK_SAFE, RISK_RISKY, RISK_BLOCKED}"
  shows "ga_authorized (bridge_gates pid finding risk) \<longleftrightarrow> risk = RISK_SAFE \<and> plain_wording (padded finding)"
proof -
  let ?f = "\<lparr>rf_repo = ''forgekit'', rf_finding = finding, rf_kind = ''gap'', rf_evidence = ''self-improvement packet '' @ pid\<rparr>"
  let ?q = "\<lparr>aq_kind = (if risk = RISK_SAFE then ''note'' else risk), aq_summary = finding, aq_diff = 0, aq_files = 0,
      aq_risk_flag = risk\<rparr>"
  obtain p r d t where c: "run_internal_chain ?f risk = (p, r, d, t)" by (metis prod_cases4)
  have ex: "executor_for (gr_owner_role r) = ''backend-engineer''" using chain_decision(6)[OF c] executor_be by simp
  have can: "sg_can_execute d \<longleftrightarrow> risk \<notin> {''blocked'', ''risky''} \<and> plain_wording (finding @ '' '' @ risk)"
    using chain_decision(2)[OF c] by simp
  have cls: "sg_decision_class d = ''safe'' \<longleftrightarrow> sg_can_execute d" using chain_decision(3)[OF c] .
  have "ga_authorized (bridge_gates pid finding risk) \<longleftrightarrow>
      vd_allowed (authorize_runtime_execution (Some d) ?q ''backend-engineer'' True None) \<and> sg_can_execute d"
    unfolding bridge_gates_def c Let_def prod.case ex
    using cls by (auto simp: validate_execution_def can_specialist_execute_def default_limits_def Let_def)
  also have "\<dots> \<longleftrightarrow> classify_action ?q = (''safe'', L2_INTERNAL_APPROVE) \<and> sg_can_execute d"
    unfolding runtime_allowed_safe by (simp add: engineer_facts)
  also have "\<dots> \<longleftrightarrow> risk = RISK_SAFE \<and> plain_wording (padded finding)"
  proof (cases "risk = RISK_SAFE")
    case True
    have "plain_wording (padded finding) \<Longrightarrow> plain_wording (finding @ '' safe'')"
      using plain_wording_part[of "''note ''" "finding @ '' safe''" "'' safe''"] by (simp add: padded_def)
    then show ?thesis
      using True can engineer_facts(3,4) by (auto simp: classify_action_safe risks padded_def)
  next
    case False
    with assms can show ?thesis by (auto simp: risks)
  qed
  finally show ?thesis .
qed

lemma padded_plain: "plain_wording (padded finding) \<Longrightarrow> plain_wording finding"
  unfolding padded_def by (rule plain_wording_part)

lemma read_packet_risk: "read_packet g p = Inr (pid, finding, risk) \<Longrightarrow>
    pid = p \<and> risk \<in> {RISK_SAFE, RISK_RISKY, RISK_BLOCKED}
    \<and> (\<exists>e tag. proposal_for g p = Some e \<and> parse_proposal (ev_summary e) = Some (tag, finding)
        \<and> (risk = tag \<or> tag \<notin> {RISK_SAFE, RISK_RISKY, RISK_BLOCKED} \<and> risk = classify_risk finding []))"
  by (auto simp: read_packet_def classify_risk_def Let_def split: option.splits if_splits)

lemma find_member: "find P xs = Some x \<Longrightarrow> x \<in> set xs \<and> P x"
  by (auto simp: find_Some_iff)

lemma proposal_for_Some: "proposal_for g p = Some e \<Longrightarrow>
    e \<in> set (evidence g) \<and> ev_kind e = EV_PROPOSAL \<and> ev_ref e = Some p \<and> p \<noteq> []"
  using find_member[of _ "rev (evidence g)" e] by (auto simp: proposal_for_def)

lemma resolve_linked:
  assumes "resolve_packet g wanted = Inr (pid, finding, risk)"
  shows "pid \<in> set (packets g) \<and> read_packet g pid = Inr (pid, finding, risk)"
proof -
  define q where "q = (case wanted of None \<Rightarrow> [] | Some p \<Rightarrow> py_strip p)"
  have "\<exists>p \<in> set (packets g). read_packet g p = Inr (pid, finding, risk)"
  proof (cases q)
    case Nil
    then show ?thesis
      using assms find_member[of "\<lambda>p. proposal_for g p \<noteq> None" "rev (packets g)"]
      by (force simp: resolve_packet_def q_def[symmetric] split: if_splits option.splits)
  next
    case (Cons c cs)
    then show ?thesis
      using assms by (auto simp: resolve_packet_def q_def[symmetric] split: if_splits)
  qed
  then show ?thesis using read_packet_risk by blast
qed

section \<open>The note\<close>

lemma alnum_not: "alnum wide s \<Longrightarrow> c \<in> set s \<Longrightarrow>
    c \<notin> {CHR ''/'', CHR '' '', CHR ''.'', CHR 0x5C, CHR 0x0A, CHR 0x0D} \<and> \<not> py_space c"
proof -
  assume a: "alnum wide s" "c \<in> set s"
  then have "128 \<le> (of_char c :: nat) \<or> (48 \<le> (of_char c :: nat) \<and> (of_char c :: nat) \<le> 57)
      \<or> (65 \<le> (of_char c :: nat) \<and> (of_char c :: nat) \<le> 90) \<or> (97 \<le> (of_char c :: nat) \<and> (of_char c :: nat) \<le> 122)"
    by (auto simp: alnum_def Let_def list_all_iff split: list.splits if_splits)
  then show ?thesis by (auto simp: py_space_def)
qed

lemma slug_chars: "c \<in> set (slug wide t) \<Longrightarrow>
    c \<notin> {CHR ''/'', CHR '' '', CHR ''.'', CHR 0x5C, CHR 0x0A, CHR 0x0D} \<and> \<not> py_space c"
proof -
  let ?m = "concat (map (\<lambda>c. if alnum wide c then c else ''-'') (char_list (py_lower t)))"
  assume "c \<in> set (slug wide t)"
  then have "c \<in> set ?m \<or> c \<in> set ''task''"
    using set_strip_char[of "CHR ''-''" "chars 40 ?m"] set_chars[of 40 ?m] by (auto simp: slug_def Let_def split: if_splits)
  then show ?thesis
    using alnum_not[of wide _ c] by (auto simp: py_space_def split: if_splits)
qed

lemma strip_ends: "s \<noteq> [] \<Longrightarrow> \<not> py_space (hd s) \<Longrightarrow> \<not> py_space (last s) \<Longrightarrow> py_strip s = s"
proof -
  assume s: "s \<noteq> []" "\<not> py_space (hd s)" "\<not> py_space (last s)"
  then have "dropWhile py_space s = s" "dropWhile py_space (rev s) = rev s"
    by (simp_all add: dropWhile_eq_self_iff hd_rev)
  then show ?thesis by (simp add: py_strip_def py_lstrip_def py_rstrip_def)
qed

lemma note_path_ok: "path_ok (tk_rel_path (safe_task wide pid finding))"
  "prefix ''runs/forgekit/selfimprove/'' (tk_rel_path (safe_task wide pid finding))"
proof -
  define x where "x = slug wide finding @ ''-'' @ slug wide pid @ ''.md''"
  have p: "tk_rel_path (safe_task wide pid finding) = ''runs/forgekit/selfimprove/'' @ x"
    by (simp add: safe_task_def x_def)
  then show "prefix ''runs/forgekit/selfimprove/'' (tk_rel_path (safe_task wide pid finding))" by simp
  have x: "CHR ''/'' \<notin> set x" "x \<noteq> ''..''"
    using slug_chars[of _ wide finding] slug_chars[of _ wide pid] by (auto simp: x_def dest!: arg_cong[of _ _ last])
  have "py_strip (''runs/forgekit/selfimprove/'' @ x) = ''runs/forgekit/selfimprove/'' @ x"
    by (rule strip_ends) (auto simp: x_def py_space_def)
  moreover have "split_at (CHR ''/'') (''runs/forgekit/selfimprove/'' @ x) = [''runs'', ''forgekit'', ''selfimprove'', x]"
    using split_at_append[of "CHR ''/''" "''runs''" "''forgekit/selfimprove/'' @ x"]
      split_at_append[of "CHR ''/''" "''forgekit''" "''selfimprove/'' @ x"]
      split_at_append[of "CHR ''/''" "''selfimprove''" x] split_at_none[OF x(1)] by simp
  ultimately show "path_ok (tk_rel_path (safe_task wide pid finding))"
    using x(2) by (simp add: p path_ok_def Let_def has_dotdot_def ALLOWED_WRITE_PREFIXES_def norm_path_def)
qed

end
