(* ===== verification/AutopilotCycle.thy ===== *)
theory AutopilotCycle
  imports GoalExecProps
begin

text \<open>
  The autopilot's cycle, \<open>forgekit_runtime/autopilot/orchestrator.py\<close>, and the daemon pass that drives it,
  \<open>runtime/autopilot_tick.py\<close>: findings go through the internal chain, and what it clears is written as a note
  by the bounded mutator, one executor at a time. \<open>dk k\<close> is what the disk does during the \<open>k\<close>-th write of a cycle.
\<close>

section \<open>One executor at a time\<close>

record arbiter =
  ab_holder :: "string option"
  ab_queue :: "string list"
  ab_log :: "string list"

definition new_arbiter :: arbiter where
  "new_arbiter = \<lparr>ab_holder = None, ab_queue = [], ab_log = []\<rparr>"

definition acquire :: "string \<Rightarrow> arbiter \<Rightarrow> bool \<times> arbiter" where
  "acquire executor a =
     (if ab_holder a = None then (True, a\<lparr>ab_holder := Some executor, ab_log := ab_log a @ [''grant:'' @ executor]\<rparr>)
      else (False, if executor \<notin> set (ab_queue a) then a\<lparr>ab_queue := ab_queue a @ [executor]\<rparr> else a))"

text \<open>A holder with an empty name is passed over in the log: \<open>if self._holder\<close>.\<close>

definition release :: "string \<Rightarrow> arbiter \<Rightarrow> arbiter" where
  "release executor a =
     (if ab_holder a = Some executor
      then let log = ab_log a @ [''release:'' @ executor]
           in case ab_queue a of
                [] \<Rightarrow> a\<lparr>ab_holder := None, ab_log := log\<rparr>
              | e # q \<Rightarrow> a\<lparr>ab_holder := Some e, ab_queue := q, ab_log := (if e \<noteq> [] then log @ [''grant:'' @ e] else log)\<rparr>
      else a)"

section \<open>The cycle\<close>

datatype proposal =
    NeedsOperator string string string
  | QueuedFor string string
  | LaneRefused string string exec_verdict
  | NoMutator string
  | WriteRefused string string string

record executed_rec =
  ex_finding :: string
  ex_executor :: string
  ex_path :: string
  ex_lines_changed :: nat
  ex_approval :: string

record orchestrator =
  or_allowlist :: "string list"
  or_failure_threshold :: nat
  or_kill_switch :: bool
  or_mutator :: "mutator option"
  or_authorizer :: "(repo_finding \<Rightarrow> signoff \<Rightarrow> string \<Rightarrow> string \<Rightarrow> exec_verdict option) option"

datatype halt = NotHalted | KillSwitch | RepeatedFailures

record cycle =
  cy_steps :: "string list"
  cy_executed :: "executed_rec list"
  cy_proposed :: "proposal list"
  cy_arbiter :: arbiter
  cy_blocked_repo :: bool
  cy_halt :: halt
  cy_failures :: nat
  cy_writes :: nat
  cy_tree :: tree

definition DEFAULT_ALLOWLIST :: "string list" where
  "DEFAULT_ALLOWLIST = [''forgekit'', ''bkurs-fe'', ''bkurs-be'']"

definition is_allowed :: "orchestrator \<Rightarrow> string \<Rightarrow> bool" where
  "is_allowed oc repo_name \<longleftrightarrow> py_strip repo_name \<in> set (or_allowlist oc)"

definition note_task :: "(string \<Rightarrow> bool) \<Rightarrow> string \<Rightarrow> repo_finding \<Rightarrow> exec_task" where
  "note_task wide repo_name f =
     \<lparr>tk_action = ''note'', tk_rel_path = ''runs/forgekit/autopilot/'' @ repo_name @ ''-'' @ slug wide (rf_finding f) @ ''.md'',
      tk_content = (''# autopilot note '' @ utf8 [0x2014] @ '' '') @ repo_name @ [newline, newline]
        @ ''- finding: '' @ rf_finding f @ [newline]
        @ ''- kind: '' @ rf_kind f @ [newline]
        @ (''- class: safe (internal-approved: PM'' @ utf8 [0x2192] @ ''gateway'' @ utf8 [0x2192] @ ''tech-lead)'')
          @ [newline]
        @ (''- action: '' @ utf8 [0xC548, 0xC804, 0x20, 0xD074, 0xB798, 0xC2A4] @ '' note '' @ utf8 [0xAE30,
          0xB85D, 0x20, 0x28, 0xC2E4, 0xC81C, 0x20, 0xCF54, 0xB4DC] @ '' mutation '' @ utf8 [0xC740, 0x20, 0xD6C4,
          0xC18D, 0x20, 0xB2E8, 0xACC4] @ '')'') @ [newline],
      tk_summary = rf_finding f\<rparr>"

definition start_cycle :: "arbiter \<Rightarrow> tree \<Rightarrow> cycle" where
  "start_cycle a tr = \<lparr>cy_steps = [], cy_executed = [], cy_proposed = [], cy_arbiter = a, cy_blocked_repo = False,
     cy_halt = NotHalted, cy_failures = 0, cy_writes = 0, cy_tree = tr\<rparr>"

definition propose :: "proposal \<Rightarrow> cycle \<Rightarrow> cycle" where
  "propose p st = st\<lparr>cy_proposed := cy_proposed st @ [p]\<rparr>"

definition step :: "string list \<Rightarrow> cycle \<Rightarrow> cycle" where
  "step ss st = st\<lparr>cy_steps := cy_steps st @ ss\<rparr>"

definition let_go :: "string \<Rightarrow> cycle \<Rightarrow> cycle" where
  "let_go executor st = st\<lparr>cy_arbiter := release executor (cy_arbiter st)\<rparr>"

text \<open>The write, with the slot held: the rest of the loop's body after the lane's verdict.\<close>

definition write_note :: "orchestrator \<Rightarrow> (string \<Rightarrow> bool) \<Rightarrow> (nat \<Rightarrow> disk) \<Rightarrow> string \<Rightarrow> string \<Rightarrow> string \<Rightarrow> repo_finding \<Rightarrow> cycle \<Rightarrow> cycle" where
  "write_note oc wide dk repo_name executor approval f st = (case or_mutator oc of
     None \<Rightarrow> let_go executor (propose (NoMutator (rf_finding f)) st)
   | Some mu \<Rightarrow>
       (let st = step [''execute:'' @ executor] st;
            (out, tr) = execute_task mu (dk (cy_writes st)) (note_task wide repo_name f) (cy_tree st);
            st = step [''verify''] (st\<lparr>cy_tree := tr, cy_writes := cy_writes st + 1\<rparr>)
        in if \<not> (xo_executed out \<and> xo_verified out)
           then let st = st\<lparr>cy_failures := cy_failures st + 1\<rparr>;
                    why = (if xo_refused_reason out \<noteq> [] then xo_refused_reason out else (''verify ''
                      @ utf8 [0xC2E4, 0xD328]));
                    st = let_go executor (propose (WriteRefused (rf_finding f) executor why) st)
                in if or_failure_threshold oc \<le> cy_failures st then st\<lparr>cy_halt := RepeatedFailures\<rparr> else st
           else let_go executor (step [''record'']
             (st\<lparr>cy_executed := cy_executed st @ [\<lparr>ex_finding = rf_finding f, ex_executor = executor, ex_path = xo_path out,
                ex_lines_changed = xo_lines_changed out, ex_approval = approval\<rparr>]\<rparr>))))"

definition run_finding :: "orchestrator \<Rightarrow> (string \<Rightarrow> bool) \<Rightarrow> (nat \<Rightarrow> disk) \<Rightarrow> (repo_finding \<Rightarrow> string) \<Rightarrow> string \<Rightarrow> repo_finding \<Rightarrow> cycle \<Rightarrow> cycle" where
  "run_finding oc wide dk risk_of repo_name f st =
     (let (p, route, d, trace) = run_internal_chain f (risk_of f);
          st = step [''observe:'' @ chars 30 (rf_finding f), ''classify'', ''pm_structure'', ''gateway_route'',
                 ''tech_lead_signoff:'' @ sg_decision_class d] st
      in if \<not> can_specialist_execute (Some d)
         then propose (NeedsOperator (rf_finding f) (sg_decision_class d) (sg_approval_level d)) st
         else
           let executor = gr_owner_role route; (granted, arb) = acquire executor (cy_arbiter st); st = st\<lparr>cy_arbiter := arb\<rparr>
           in if \<not> granted then propose (QueuedFor (rf_finding f) executor) st
              else case or_authorizer oc of
                None \<Rightarrow> write_note oc wide dk repo_name executor [] f st
              | Some authorize \<Rightarrow>
                  (let st = step [''lane_authorize''] st
                   in case authorize f d executor (risk_of f) of
                        None \<Rightarrow> write_note oc wide dk repo_name executor [] f st
                      | Some v \<Rightarrow>
                          if \<not> vd_allowed v then let_go executor (propose (LaneRefused (rf_finding f) executor v) st)
                          else write_note oc wide dk repo_name executor (vd_approval_metadata v) f st))"

fun run_findings :: "orchestrator \<Rightarrow> (string \<Rightarrow> bool) \<Rightarrow> (nat \<Rightarrow> disk) \<Rightarrow> (repo_finding \<Rightarrow> string) \<Rightarrow> string \<Rightarrow> repo_finding list \<Rightarrow> cycle \<Rightarrow> cycle" where
  "run_findings oc wide dk risk_of repo_name [] st = st"
| "run_findings oc wide dk risk_of repo_name (f # fs) st =
     (let st = run_finding oc wide dk risk_of repo_name f st
      in if cy_halt st = RepeatedFailures then st else run_findings oc wide dk risk_of repo_name fs st)"

definition run_cycle :: "orchestrator \<Rightarrow> (string \<Rightarrow> bool) \<Rightarrow> (nat \<Rightarrow> disk) \<Rightarrow> (repo_finding \<Rightarrow> string) \<Rightarrow> string \<Rightarrow> repo_finding list \<Rightarrow> arbiter \<Rightarrow> tree \<Rightarrow> cycle" where
  "run_cycle oc wide dk risk_of repo_name fs arb tr =
     (if \<not> is_allowed oc repo_name then (start_cycle arb tr)\<lparr>cy_blocked_repo := True\<rparr>
      else if or_kill_switch oc then (start_cycle arb tr)\<lparr>cy_halt := KillSwitch\<rparr>
      else run_findings oc wide dk risk_of repo_name fs (start_cycle arb tr))"

text \<open>The lane's check, as \<open>make_runtime_authorizer\<close> builds it.\<close>

definition runtime_authorizer :: "bool \<Rightarrow> (repo_finding \<Rightarrow> operator_approval option) \<Rightarrow> repo_finding \<Rightarrow> signoff \<Rightarrow> string \<Rightarrow> string \<Rightarrow> exec_verdict option" where
  "runtime_authorizer gateway_ok approval_for f d executor risk =
     Some (authorize_runtime_execution (Some d)
       \<lparr>aq_kind = rf_kind f, aq_summary = rf_finding f, aq_diff = 0, aq_files = 0, aq_risk_flag = risk\<rparr> executor gateway_ok (approval_for f))"

section \<open>The daemon's pass\<close>

record autopilot =
  ap_repo_name :: string
  ap_orchestrator :: orchestrator
  ap_cooldown_ticks :: int
  ap_executed_sigs :: "string set"
  ap_cooldown_until :: int

definition RESTRICTED_PROBE :: string where
  "RESTRICTED_PROBE = (utf8 [0xC6B4, 0xC601, 0x2F, 0xBC30, 0xD3EC, 0x20, 0xC900, 0xBE44, 0x20, 0xC810, 0xAC80])"

definition finding_sig :: "repo_finding \<Rightarrow> string" where
  "finding_sig f = rf_repo f @ '':'' @ rf_finding f"

text \<open>\<open>titles\<close> are what the collector gave before it ended or failed.\<close>

definition observe :: "string \<Rightarrow> string list \<Rightarrow> repo_finding list" where
  "observe repo_name titles = map (\<lambda>t. \<lparr>rf_repo = repo_name, rf_finding = t, rf_kind = ''docs'', rf_evidence = []\<rparr>) titles
     @ [\<lparr>rf_repo = repo_name, rf_finding = RESTRICTED_PROBE, rf_kind = ''ops'', rf_evidence = []\<rparr>]"

datatype skip = NoSkip | Cooldown | Skipped nat halt

record pass_outcome =
  po_waiting :: bool
  po_blocked_count :: nat
  po_executed :: nat
  po_paths :: "string list"
  po_skipped :: skip
  po_next_eligible :: int

definition autopilot_tick :: "(string \<Rightarrow> bool) \<Rightarrow> (nat \<Rightarrow> disk) \<Rightarrow> string list \<Rightarrow> int \<Rightarrow> autopilot \<Rightarrow> tree \<Rightarrow> pass_outcome \<times> autopilot \<times> tree" where
  "autopilot_tick wide dk titles n ap tr =
     (if n < ap_cooldown_until ap
      then (\<lparr>po_waiting = True, po_blocked_count = 0, po_executed = 0, po_paths = [], po_skipped = Cooldown,
             po_next_eligible = ap_cooldown_until ap\<rparr>, ap, tr)
      else
        let observed = observe (ap_repo_name ap) titles;
            fresh = filter (\<lambda>f. finding_sig f \<notin> ap_executed_sigs ap) observed;
            res = run_cycle (ap_orchestrator ap) wide dk (\<lambda>_. []) (ap_repo_name ap) fresh new_arbiter tr;
            halted = (cy_halt res \<noteq> NotHalted);
            until = (if halted then n + ap_cooldown_ticks ap else ap_cooldown_until ap);
            dupes = length observed - length fresh
        in (\<lparr>po_waiting = (cy_proposed res \<noteq> [] \<or> cy_blocked_repo res \<or> halted), po_blocked_count = length (cy_proposed res),
             po_executed = length (cy_executed res), po_paths = filter (\<lambda>p. p \<noteq> []) (map ex_path (cy_executed res)),
             po_skipped = (if dupes \<noteq> 0 \<or> halted then Skipped dupes (cy_halt res) else NoSkip),
             po_next_eligible = (if halted then until else 0)\<rparr>,
            ap\<lparr>ap_executed_sigs := ap_executed_sigs ap \<union> (\<lambda>e. ap_repo_name ap @ '':'' @ ex_finding e) ` set (cy_executed res),
               ap_cooldown_until := until\<rparr>,
            cy_tree res))"

end
