(* ===== verification/GoalScheduler.thy ===== *)
theory GoalScheduler
  imports Governance GoalTickProps
begin

text \<open>
  The scheduler tick of the daemon, \<open>runtime/goal_scheduler_tick.py\<close>: it discovers work for active goals without
  any, links it, and splits goals whose work spans several areas into one child per area. \<open>sc_discover n\<close> is the
  discovery for the \<open>n\<close>-th goal of the tick, \<open>sc_clock n\<close> the clock while that goal is marked (0), decomposed (1) and
  linked (2), \<open>sc_uuid\<close> the ids drawn in order.
\<close>

section \<open>Who needs work\<close>

definition needs_packetizing :: "goal \<Rightarrow> bool" where
  "needs_packetizing g \<longleftrightarrow> children g = [] \<and>
     (if \<not> list_ex (\<lambda>e. ev_kind e = EV_PROPOSAL) (evidence g) then True
      else let t = tally_packets g
           in list_ex (\<lambda>e. ev_kind e = EV_REPLAN) (evidence g) \<and> pending t = 0 \<and> blocked t = 0 \<and> \<not> is_goal_complete g)"

section \<open>One goal\<close>

record scheduler =
  sc_host :: json_host
  sc_sha1 :: "string \<Rightarrow> string"
  sc_wide :: "string \<Rightarrow> bool"
  sc_writable :: "string \<Rightarrow> bool"
  sc_discover :: "nat \<Rightarrow> improvement list"
  sc_clock :: "nat \<Rightarrow> nat \<Rightarrow> nat \<Rightarrow> string"
  sc_uuid :: "nat \<Rightarrow> string"
  sc_max_goals :: int
  sc_threshold :: int

text \<open>\<open>sd_n\<close> counts the goals visited, \<open>sd_u\<close> the ids drawn; \<open>sd_err\<close> is an exception that left the tick.\<close>

record sched =
  sd_files :: goal_files
  sd_logs :: gov_logs
  sd_n :: nat
  sd_u :: nat
  sd_err :: "goal_error option"
  sd_packetized :: nat
  sd_decomposed :: nat
  sd_awaiting :: nat
  sd_governed :: nat

definition area_packets :: "string \<Rightarrow> improvement list \<Rightarrow> improvement list" where
  "area_packets area ps = filter (\<lambda>p. area_key (im_area p) = area) ps"

fun route_areas :: "(nat \<Rightarrow> string) \<Rightarrow> (string \<Rightarrow> string) \<Rightarrow> improvement list \<Rightarrow> nat \<Rightarrow> (plan_step \<times> goal) list \<Rightarrow>
    goal list goal_result" where
  "route_areas clock sha1 ps k [] = Inr []"
| "route_areas clock sha1 ps k ((s, child) # rest) =
     and_then (link_packets clock sha1 (area_packets (step_title s) ps) k child) (\<lambda>(c, routes, n, k').
     and_then (route_areas clock sha1 ps k' rest) (\<lambda>cs. Inr (c # cs)))"

definition decompose_and_route :: "(nat \<Rightarrow> string) \<Rightarrow> (nat \<Rightarrow> string) \<Rightarrow> (nat \<Rightarrow> string) \<Rightarrow> (string \<Rightarrow> string) \<Rightarrow> goal \<Rightarrow> improvement list \<Rightarrow>
    (goal \<times> goal list) goal_result" where
  "decompose_and_route clock clock' uuid sha1 g ps =
     (let steps = derive_plan_steps (map (\<lambda>p. (im_area p, im_finding p)) ps)
      in and_then (decompose clock uuid None g steps) (\<lambda>(parent, cs).
         and_then (route_areas clock' sha1 ps 0 (zip steps cs)) (\<lambda>routed. Inr (parent, routed))))"

definition save_sched :: "goal \<Rightarrow> sched \<Rightarrow> sched" where
  "save_sched g st = (case save_goal g (sd_files st) of
     (Inl e, fs) \<Rightarrow> st\<lparr>sd_err := Some e\<rparr>
   | (Inr s, fs) \<Rightarrow> st\<lparr>sd_files := fs\<rparr>)"

fun save_children :: "goal list \<Rightarrow> sched \<Rightarrow> sched" where
  "save_children [] st = st"
| "save_children (c # cs) st =
     (if sd_err st \<noteq> None then st
      else let st = save_sched c st
           in if sd_err st \<noteq> None then st
              else save_children cs (if gstatus c = AWAITING_APPROVAL then st\<lparr>sd_awaiting := sd_awaiting st + 1\<rparr> else st))"

definition split_goal :: "scheduler \<Rightarrow> improvement list \<Rightarrow> goal \<Rightarrow> sched \<Rightarrow> sched" where
  "split_goal sc ps g st =
     (let n = sd_n st; fresh = \<not> is_governance_required g;
          logs = (if fresh then record_pm_brief (sc_wide sc) (sc_writable sc) g (sd_logs st) else sd_logs st);
          g = (if fresh then mark_governance_required (''big goal '' @ utf8 [0x2014]
            @ '' design chain required (PM brief recorded first)'')
                 (sc_clock sc n 0 0) (sc_clock sc n 0 1) g else g);
          st = st\<lparr>sd_n := n + 1, sd_logs := logs, sd_governed := (if fresh then sd_governed st + 1 else sd_governed st)\<rparr>
      in case decompose_and_route (sc_clock sc n 1) (sc_clock sc n 2) (\<lambda>i. sc_uuid sc (sd_u st + i)) (sc_sha1 sc) g ps of
           Inl e \<Rightarrow> st\<lparr>sd_err := Some e\<rparr>
         | Inr (parent, made) \<Rightarrow>
             (let st = save_sched parent (st\<lparr>sd_u := sd_u st + length made\<rparr>);
                  st = save_children made st
              in if sd_err st \<noteq> None then st else st\<lparr>sd_decomposed := sd_decomposed st + 1\<rparr>))"

definition packetize_goal :: "scheduler \<Rightarrow> improvement list \<Rightarrow> goal \<Rightarrow> sched \<Rightarrow> sched" where
  "packetize_goal sc ps g st =
     (let n = sd_n st; st = st\<lparr>sd_n := n + 1\<rparr>
      in case link_packets (sc_clock sc n 2) (sc_sha1 sc) ps 0 g of
           Inl e \<Rightarrow> st\<lparr>sd_err := Some e\<rparr>
         | Inr (g2, routes, risky, k) \<Rightarrow>
             (let st = save_sched g2 st
              in if sd_err st \<noteq> None then st
                 else st\<lparr>sd_packetized := sd_packetized st + 1, sd_awaiting := (if 0 < risky then sd_awaiting st + 1 else sd_awaiting st)\<rparr>))"

definition is_split :: "scheduler \<Rightarrow> improvement list \<Rightarrow> bool" where
  "is_split sc ps \<longleftrightarrow> is_big_goal (map (\<lambda>p. (im_area p, im_finding p)) ps)
     \<and> sc_threshold sc \<le> int (card (set (map (\<lambda>p. area_key (im_area p)) ps)))"

definition found_packets :: "scheduler \<Rightarrow> nat \<Rightarrow> goal \<Rightarrow> improvement list" where
  "found_packets sc n g = (if sc_discover sc n \<noteq> [] then sc_discover sc n else intent_packets (title g))"

definition schedule_goal :: "scheduler \<Rightarrow> goal \<Rightarrow> sched \<Rightarrow> sched" where
  "schedule_goal sc g st =
     (let ps = found_packets sc (sd_n st) g
      in if sd_err st \<noteq> None then st
         else if ps = [] then st\<lparr>sd_n := sd_n st + 1\<rparr>
         else if is_split sc ps then split_goal sc ps g st
         else packetize_goal sc ps g st)"

section \<open>One tick\<close>

definition start_sched :: "goal_files \<Rightarrow> gov_logs \<Rightarrow> sched" where
  "start_sched fs logs = \<lparr>sd_files = fs, sd_logs = logs, sd_n = 0, sd_u = 0, sd_err = None, sd_packetized = 0,
     sd_decomposed = 0, sd_awaiting = 0, sd_governed = 0\<rparr>"

definition schedule_candidates :: "scheduler \<Rightarrow> goal list \<Rightarrow> goal list" where
  "schedule_candidates sc gs = py_take (sc_max_goals sc) (filter (\<lambda>g. gstatus g = ACTIVE \<and> needs_packetizing g) gs)"

definition scheduler_tick :: "scheduler \<Rightarrow> goal_files \<Rightarrow> gov_logs \<Rightarrow> sched" where
  "scheduler_tick sc fs logs = (case load_all (sc_host sc) fs of
     Inl e \<Rightarrow> start_sched fs logs
   | Inr gs \<Rightarrow> fold (schedule_goal sc) (schedule_candidates sc gs) (start_sched fs logs))"

definition scheduler_outcome :: "sched \<Rightarrow> tick_outcome goal_result" where
  "scheduler_outcome st = (case sd_err st of
     Some e \<Rightarrow> Inl e
   | None \<Rightarrow> Inr \<lparr>waiting = ((0 < sd_packetized st \<or> 0 < sd_decomposed st) \<and> 0 < sd_awaiting st), blocked_count = 0\<rparr>)"

end
