(* ===== verification/GoalRun.thy ===== *)
theory GoalRun
  imports GoalExecProps
begin

text \<open>
  The execution tick of the daemon, \<open>runtime/goal_exec_tick.py\<close>: it takes the first active goals, asks the design
  gate, and applies their proposed packets that were not attempted before. \<open>slot n\<close> is what the host does during
  the \<open>n\<close>-th write of the tick. The summary line is left out; its counters are kept, and with them a trace of the
  attempts.
\<close>

section \<open>Candidates\<close>

definition attempted_packet_ids :: "goal \<Rightarrow> string set" where
  "attempted_packet_ids g = packet_refs g EV_EXECUTION \<union> packet_refs g EV_DECISION"

definition proposed_packet_ids :: "goal \<Rightarrow> string list" where
  "proposed_packet_ids g = filter (\<lambda>p. p \<in> packet_refs g EV_PROPOSAL) (packets g)"

definition pending_packets :: "goal \<Rightarrow> string list" where
  "pending_packets g = filter (\<lambda>p. p \<notin> attempted_packet_ids g) (proposed_packet_ids g)"

section \<open>The tick\<close>

record ticker =
  tc_host :: json_host
  tc_wide :: "string \<Rightarrow> bool"
  tc_mutator :: mutator
  tc_max_goals :: int
  tc_max_packets :: int
  tc_approver :: string
  tc_logs :: gov_logs

record exec_pass =
  xp_world :: world
  xp_n :: nat
  xp_executed :: nat
  xp_blocked :: nat
  xp_skipped_done :: nat
  xp_gov_blocked :: nat
  xp_paths :: "string list"
  xp_trace :: "(string \<times> string \<times> exec_result) list"

definition reload_goal :: "json_host \<Rightarrow> string \<Rightarrow> goal \<Rightarrow> goal_files \<Rightarrow> goal" where
  "reload_goal h i fallback fs = (case get_goal h i fs of Inr (Some g) \<Rightarrow> g | _ \<Rightarrow> fallback)"

definition count_outcome :: "string \<Rightarrow> string \<Rightarrow> exec_result \<Rightarrow> exec_pass \<Rightarrow> exec_pass" where
  "count_outcome i p r st =
     (let st = st\<lparr>xp_n := xp_n st + 1, xp_trace := xp_trace st @ [(i, p, r)]\<rparr>
      in if xr_executed r \<and> xr_applied r
         then st\<lparr>xp_executed := xp_executed st + 1,
                 xp_paths := xp_paths st @ (if xr_changed_path r \<noteq> [] then [xr_changed_path r] else [])\<rparr>
         else if xr_outcome r = OUTCOME_BLOCKED then st\<lparr>xp_blocked := xp_blocked st + 1\<rparr> else st)"

fun attempt_packets :: "ticker \<Rightarrow> (nat \<Rightarrow> attempt) \<Rightarrow> string \<Rightarrow> string list \<Rightarrow> goal \<Rightarrow> exec_pass \<Rightarrow> exec_pass" where
  "attempt_packets tc slot i [] g st = st"
| "attempt_packets tc slot i (p # ps) g st =
     (let (r, w) = execute_approved_packet (slot (xp_n st)) True (tc_approver tc) (Some (tc_mutator tc)) (Some p) g (xp_world st)
      in attempt_packets tc slot i ps (reload_goal (tc_host tc) i g (wd_files w)) (count_outcome i p r (st\<lparr>xp_world := w\<rparr>)))"

text \<open>One refusal per stage is recorded, and a failed save is swallowed.\<close>

definition record_governance_block :: "attempt \<Rightarrow> goal \<Rightarrow> string \<Rightarrow> string \<Rightarrow> world \<Rightarrow> world" where
  "record_governance_block a g stage why w =
     (let ref = ''governance:'' @ stage
      in if list_ex (\<lambda>e. ev_kind e = EV_DECISION \<and> ev_ref e = Some ref) (evidence g) then w
         else save_quietly a True (add_evidence EV_DECISION
           ((utf8 [0xC124, 0xACC4, 0x20, 0xBBF8, 0xC644, 0x20, 0x2014] @ '' specialist '' @ utf8 [0xC2E4, 0xD589,
             0x20, 0xCC28, 0xB2E8] @ '' (stage='') @ stage @ ''): ''
             @ why) (Some ref) (at_clock a 0) (at_clock a 1) g) w)"

definition exec_goal :: "ticker \<Rightarrow> (nat \<Rightarrow> attempt) \<Rightarrow> (string \<Rightarrow> goal option) \<Rightarrow> goal \<Rightarrow> exec_pass \<Rightarrow> exec_pass" where
  "exec_goal tc slot goals g st =
     (let (allowed, stage, why) = design_gate (tc_wide tc) (tc_logs tc) goals g
      in if \<not> allowed
         then st\<lparr>xp_world := record_governance_block (slot (xp_n st)) g stage why (xp_world st), xp_n := xp_n st + 1,
                 xp_gov_blocked := xp_gov_blocked st + 1\<rparr>
         else if pending_packets g = [] then st\<lparr>xp_skipped_done := xp_skipped_done st + 1\<rparr>
         else attempt_packets tc slot (gid g) (py_take (tc_max_packets tc) (pending_packets g)) g st)"

definition start_exec :: "world \<Rightarrow> exec_pass" where
  "start_exec w = \<lparr>xp_world = w, xp_n = 0, xp_executed = 0, xp_blocked = 0, xp_skipped_done = 0, xp_gov_blocked = 0,
     xp_paths = [], xp_trace = []\<rparr>"

definition active_goals :: "ticker \<Rightarrow> goal list \<Rightarrow> goal list" where
  "active_goals tc gs = py_take (tc_max_goals tc) (filter (\<lambda>g. gstatus g = ACTIVE) gs)"

record run_outcome = tick_outcome +
  ro_executed :: nat
  ro_paths :: "string list"

definition exec_pass_over :: "ticker \<Rightarrow> (nat \<Rightarrow> attempt) \<Rightarrow> world \<Rightarrow> exec_pass" where
  "exec_pass_over tc slot w = (case load_all (tc_host tc) (wd_files w) of
     Inl e \<Rightarrow> start_exec w
   | Inr gs \<Rightarrow> fold (exec_goal tc slot (by_id gs)) (active_goals tc gs) (start_exec w))"

definition exec_tick :: "ticker \<Rightarrow> (nat \<Rightarrow> attempt) \<Rightarrow> world \<Rightarrow> run_outcome \<times> world" where
  "exec_tick tc slot w =
     (let st = exec_pass_over tc slot w
      in (\<lparr>waiting = (0 < xp_blocked st \<or> 0 < xp_gov_blocked st), blocked_count = xp_blocked st,
           ro_executed = xp_executed st, ro_paths = xp_paths st\<rparr>, xp_world st))"

end
