(* ===== verification/Serve.thy ===== *)
theory Serve
  imports AutopilotCycle GoalScheduler GoalRun "HOL-Library.While_Combinator"
begin

text \<open>
  The always-on service: the tick that composes the four passes (\<open>forgekit_console/cli/runtime_cmd.py\<close>,
  \<open>_build_tick_fn\<close>), the heartbeat file and the kill switch (\<open>runtime/heartbeat.py\<close>), and the loop that drives the
  tick (\<open>runtime/daemon.py\<close>). The loop need not return: it is a \<open>while_option\<close>. Summary lines are events.
\<close>

section \<open>The combined tick\<close>

text \<open>What a service keeps between ticks: goal store and repository, governance logs, and in memory the autopilot.\<close>

record service =
  sv_world :: world
  sv_logs :: gov_logs
  sv_autopilot :: autopilot

text \<open>The settings and hosts of the four passes in one tick.\<close>

record hosts =
  hs_wide :: "string \<Rightarrow> bool"
  hs_disk :: "nat \<Rightarrow> disk"
  hs_titles :: "string list"
  hs_scheduler :: scheduler
  hs_ticker :: ticker
  hs_slot :: "nat \<Rightarrow> attempt"
  hs_clock :: "nat \<Rightarrow> string"
  hs_max_goals :: int
  hs_max_attempts :: int

record serve_outcome = tick_outcome +
  so_executed :: nat
  so_paths :: "string list"
  so_skipped :: skip
  so_next_eligible :: int

definition autopilot_part :: "hosts \<Rightarrow> int \<Rightarrow> service \<Rightarrow> pass_outcome \<times> service" where
  "autopilot_part hs n sv =
     (let (a, ap, tree) = autopilot_tick (hs_wide hs) (hs_disk hs) (hs_titles hs) n (sv_autopilot sv) (rp_work (wd_repo (sv_world sv)))
      in (a, sv\<lparr>sv_world := (sv_world sv)\<lparr>wd_repo := (wd_repo (sv_world sv))\<lparr>rp_work := tree\<rparr>\<rparr>, sv_autopilot := ap\<rparr>))"

definition scheduler_part :: "hosts \<Rightarrow> service \<Rightarrow> tick_outcome goal_result \<times> service" where
  "scheduler_part hs sv =
     (let st = scheduler_tick (hs_scheduler hs) (wd_files (sv_world sv)) (sv_logs sv)
      in (scheduler_outcome st, sv\<lparr>sv_world := (sv_world sv)\<lparr>wd_files := sd_files st\<rparr>, sv_logs := sd_logs st\<rparr>))"

definition exec_part :: "hosts \<Rightarrow> service \<Rightarrow> run_outcome \<times> service" where
  "exec_part hs sv =
     (let (g, w) = exec_tick ((hs_ticker hs)\<lparr>tc_logs := sv_logs sv\<rparr>) (hs_slot hs) (sv_world sv)
      in (g, sv\<lparr>sv_world := w\<rparr>))"

definition continuation_part :: "hosts \<Rightarrow> service \<Rightarrow> tick_outcome goal_result \<times> service" where
  "continuation_part hs sv =
     (let (c, fs) = continuation_tick (tc_host (hs_ticker hs)) (hs_clock hs) (hs_max_goals hs) (hs_max_attempts hs) (wd_files (sv_world sv))
      in (c, sv\<lparr>sv_world := (sv_world sv)\<lparr>wd_files := fs\<rparr>\<rparr>))"

text \<open>An exception of the scheduler or the continuation leaves the tick; the other two passes raise none.\<close>

definition combined_tick :: "hosts \<Rightarrow> int \<Rightarrow> service \<Rightarrow> serve_outcome goal_result \<times> service" where
  "combined_tick hs n sv =
     (let (a, sv) = autopilot_part hs n sv; (s, sv) = scheduler_part hs sv
      in case s of Inl e \<Rightarrow> (Inl e, sv)
         | Inr s \<Rightarrow>
             (let (g, sv) = exec_part hs sv; (c, sv) = continuation_part hs sv
              in case c of Inl e \<Rightarrow> (Inl e, sv)
                 | Inr c \<Rightarrow>
                     (Inr \<lparr>waiting = (po_waiting a \<or> waiting s \<or> waiting g \<or> waiting c),
                           blocked_count = po_blocked_count a + blocked_count g + blocked_count c,
                           so_executed = po_executed a + ro_executed g, so_paths = po_paths a @ ro_paths g,
                           so_skipped = po_skipped a, so_next_eligible = po_next_eligible a\<rparr>, sv)))"

section \<open>Heartbeat and kill switch\<close>

record beat =
  bt_status :: json
  bt_tick :: int
  bt_ts :: json
  bt_pid :: int
  bt_note :: json

definition STATUS_RUNNING :: string where "STATUS_RUNNING = ''running''"
definition STATUS_IDLE :: string where "STATUS_IDLE = ''idle''"
definition STATUS_STOPPED :: string where "STATUS_STOPPED = ''stopped''"

definition beat_alive :: "beat \<Rightarrow> bool" where
  "beat_alive b \<longleftrightarrow> bt_status b \<in> {JStr STATUS_RUNNING, JStr STATUS_IDLE}"

definition beat_dict :: "beat \<Rightarrow> json" where
  "beat_dict b = JObj [(''status'', bt_status b), (''tick'', JInt (bt_tick b)), (''ts'', bt_ts b), (''pid'', JInt (bt_pid b)),
     (''note'', bt_note b)]"

text \<open>The file's value, \<open>None\<close> when there is none or it is no JSON. Writing it may fail and says so.\<close>

definition write_heartbeat :: "bool \<Rightarrow> beat \<Rightarrow> json option \<Rightarrow> bool \<times> json option" where
  "write_heartbeat fails b f = (if fails then (False, f) else (True, Some (beat_dict b)))"

definition dict_get_default :: "json pydict \<Rightarrow> string \<Rightarrow> json \<Rightarrow> json" where
  "dict_get_default d k v = (case map_of d k of None \<Rightarrow> v | Some x \<Rightarrow> x)"

text \<open>\<open>None\<close> where the code raises: a value that is no dictionary, or a tick or pid that is no number.\<close>

definition read_heartbeat :: "json_host \<Rightarrow> json option \<Rightarrow> beat option" where
  "read_heartbeat h f = (case f of
     None \<Rightarrow> Some \<lparr>bt_status = JStr STATUS_STOPPED, bt_tick = 0, bt_ts = JStr [], bt_pid = 0, bt_note = JStr ''no heartbeat''\<rparr>
   | Some (JObj d) \<Rightarrow> (case (py_int h (dict_get_or d ''tick'' (JInt 0)), py_int h (dict_get_or d ''pid'' (JInt 0))) of
       (Some t, Some p) \<Rightarrow> Some \<lparr>bt_status = dict_get_default d ''status'' (JStr STATUS_STOPPED), bt_tick = t,
         bt_ts = dict_get_default d ''ts'' (JStr []), bt_pid = p, bt_note = dict_get_default d ''note'' (JStr [])\<rparr>
     | _ \<Rightarrow> None)
   | Some j \<Rightarrow> None)"

text \<open>The kill file exists or not.\<close>

definition request_kill :: "bool \<Rightarrow> bool \<Rightarrow> bool \<times> bool" where
  "request_kill fails killed = (if fails then (False, killed) else (True, True))"

definition clear_kill :: "bool \<Rightarrow> bool \<Rightarrow> bool" where
  "clear_kill fails killed = (killed \<and> fails)"

section \<open>The loop\<close>

record daemon =
  da_max_ticks :: int
  da_pid :: int
  da_resume :: bool
  da_notifier :: bool

text \<open>
  One turn of the loop as the host makes it: whether a stop was requested, whether \<open>runtime stop\<close> was run since the
  last turn, the clock and the tick's summary in the heartbeat, and whether the heartbeat cannot be written or
  the notifier raises. Turn \<open>k\<close> is the one before the \<open>k\<close>-th tick of this process.
\<close>

record turn_event =
  te_stop :: bool
  te_kill :: bool
  te_ts :: string
  te_note :: string
  te_beat_fails :: bool
  te_notify_fails :: bool

record ('w, 'e) serving =
  sg_state :: 'w
  sg_raised :: "'e option"
  sg_tick :: int
  sg_run :: nat
  sg_killed :: bool
  sg_beat :: "json option"
  sg_ticks :: int
  sg_waits :: nat
  sg_notified :: nat
  sg_heartbeats :: nat
  sg_executed :: nat

definition beat_now :: "daemon \<Rightarrow> string \<Rightarrow> string \<Rightarrow> string \<Rightarrow> int \<Rightarrow> beat" where
  "beat_now c status note ts tick = \<lparr>bt_status = JStr status, bt_tick = tick, bt_ts = JStr ts, bt_pid = da_pid c, bt_note = JStr note\<rparr>"

text \<open>\<open>_resume_tick\<close>: the tick to count from.\<close>

definition resume_tick :: "json_host \<Rightarrow> daemon \<Rightarrow> json option \<Rightarrow> int option" where
  "resume_tick h c f = (if \<not> da_resume c then Some 0 else
     case read_heartbeat h f of None \<Rightarrow> None | Some b \<Rightarrow> Some (if bt_tick b \<le> 0 then 0 else bt_tick b))"

definition notify_waiting :: "daemon \<Rightarrow> bool \<Rightarrow> serve_outcome \<Rightarrow> bool" where
  "notify_waiting c fails out \<longleftrightarrow> da_notifier c \<and> waiting out \<and> \<not> fails"

definition start_serving :: "daemon \<Rightarrow> turn_event \<Rightarrow> int \<Rightarrow> json option \<Rightarrow> bool \<Rightarrow> 'w \<Rightarrow> ('w, 'e) serving" where
  "start_serving c e t f killed w =
     \<lparr>sg_state = w, sg_raised = None, sg_tick = t, sg_run = 0, sg_killed = killed,
      sg_beat = (if t \<noteq> 0 then snd (write_heartbeat (te_beat_fails e) (beat_now c STATUS_IDLE (te_note e) (te_ts e) t) f) else f),
      sg_ticks = 0, sg_waits = 0, sg_notified = 0, sg_heartbeats = 0, sg_executed = 0\<rparr>"

definition kill_set :: "turn_event \<Rightarrow> ('w, 'e) serving \<Rightarrow> bool" where
  "kill_set e st \<longleftrightarrow> sg_killed st \<or> te_kill e"

definition turn_stops :: "daemon \<Rightarrow> turn_event \<Rightarrow> ('w, 'e) serving \<Rightarrow> bool" where
  "turn_stops c e st \<longleftrightarrow> sg_raised st \<noteq> None \<or> te_stop e \<or> kill_set e st
     \<or> da_max_ticks c \<noteq> 0 \<and> da_max_ticks c \<le> int (sg_run st)"

text \<open>\<open>tick k n\<close> is the \<open>k\<close>-th call of the tick function in this process, with the number \<open>n\<close>.\<close>

definition serve_turn :: "daemon \<Rightarrow> turn_event \<Rightarrow> (nat \<Rightarrow> int \<Rightarrow> 'w \<Rightarrow> ('e + serve_outcome) \<times> 'w) \<Rightarrow> ('w, 'e) serving \<Rightarrow> ('w, 'e) serving" where
  "serve_turn c e tick st =
     (let n = sg_tick st + 1; (r, w) = tick (sg_run st) n (sg_state st);
          st = st\<lparr>sg_tick := n, sg_run := sg_run st + 1, sg_state := w, sg_killed := kill_set e st\<rparr>
      in case r of
           Inl x \<Rightarrow> st\<lparr>sg_raised := Some x\<rparr>
         | Inr out \<Rightarrow>
             (let (ok, f) = write_heartbeat (te_beat_fails e) (beat_now c STATUS_RUNNING (te_note e) (te_ts e) n) (sg_beat st)
              in st\<lparr>sg_ticks := n, sg_executed := sg_executed st + so_executed out, sg_beat := f,
                   sg_heartbeats := (if ok then sg_heartbeats st + 1 else sg_heartbeats st),
                   sg_waits := (if waiting out then sg_waits st + 1 else sg_waits st),
                   sg_notified := (if notify_waiting c (te_notify_fails e) out then sg_notified st + 1 else sg_notified st)\<rparr>))"

definition serve_loop :: "daemon \<Rightarrow> (nat \<Rightarrow> turn_event) \<Rightarrow> (nat \<Rightarrow> int \<Rightarrow> 'w \<Rightarrow> ('e + serve_outcome) \<times> 'w) \<Rightarrow>
    ('w, 'e) serving \<Rightarrow> ('w, 'e) serving option" where
  "serve_loop c ev tick = while_option (\<lambda>st. \<not> turn_stops c (ev (sg_run st)) st) (\<lambda>st. serve_turn c (ev (sg_run st)) tick st)"

datatype stop_reason = StoppedByKill | StoppedByMax | StopRequested | StoppedByError

definition stop_cause :: "daemon \<Rightarrow> turn_event \<Rightarrow> ('w, 'e) serving \<Rightarrow> stop_reason" where
  "stop_cause c e st = (if sg_raised st \<noteq> None then StoppedByError else if te_stop e then StopRequested
     else if kill_set e st then StoppedByKill else StoppedByMax)"

text \<open>After an exception nothing is written; else the last heartbeat says that the service stopped.\<close>

definition end_serving :: "daemon \<Rightarrow> turn_event \<Rightarrow> turn_event \<Rightarrow> ('w, 'e) serving \<Rightarrow> ('w, 'e) serving" where
  "end_serving c e e1 st = (if sg_raised st \<noteq> None then st
     else st\<lparr>sg_killed := kill_set e st,
             sg_beat := snd (write_heartbeat (te_beat_fails e1) (beat_now c STATUS_STOPPED (te_note e1) (te_ts e1) (sg_tick st)) (sg_beat st))\<rparr>)"

text \<open>One process: \<open>e0\<close> and \<open>e1\<close> are the writes of its first and last heartbeat. \<open>Some None\<close> is an exception before
  the first turn, \<open>None\<close> a loop that never ends.\<close>

definition serve :: "json_host \<Rightarrow> daemon \<Rightarrow> turn_event \<Rightarrow> turn_event \<Rightarrow> (nat \<Rightarrow> turn_event) \<Rightarrow>
    (nat \<Rightarrow> int \<Rightarrow> 'w \<Rightarrow> ('e + serve_outcome) \<times> 'w) \<Rightarrow> json option \<Rightarrow> bool \<Rightarrow> 'w \<Rightarrow> (stop_reason \<times> ('w, 'e) serving) option option" where
  "serve h c e0 e1 ev tick f killed w = (case resume_tick h c f of
     None \<Rightarrow> Some None
   | Some t \<Rightarrow> (case serve_loop c ev tick (start_serving c e0 t f killed w) of
       None \<Rightarrow> None
     | Some st \<Rightarrow> Some (Some (stop_cause c (ev (sg_run st)) st, end_serving c (ev (sg_run st)) e1 st))))"

text \<open>\<open>forgekit runtime serve\<close> clears the switch first; \<open>once\<close> runs one tick with the number 1.\<close>

definition serve_command :: "json_host \<Rightarrow> daemon \<Rightarrow> turn_event \<Rightarrow> turn_event \<Rightarrow> (nat \<Rightarrow> turn_event) \<Rightarrow>
    (nat \<Rightarrow> int \<Rightarrow> 'w \<Rightarrow> ('e + serve_outcome) \<times> 'w) \<Rightarrow> json option \<Rightarrow> bool \<Rightarrow> bool \<Rightarrow> 'w \<Rightarrow> (stop_reason \<times> ('w, 'e) serving) option option" where
  "serve_command h c e0 e1 ev tick f unlink_fails killed w = serve h c e0 e1 ev tick f (clear_kill unlink_fails killed) w"

definition once :: "daemon \<Rightarrow> turn_event \<Rightarrow> (int \<Rightarrow> 'w \<Rightarrow> ('e + serve_outcome) \<times> 'w) \<Rightarrow> json option \<Rightarrow> 'w \<Rightarrow>
    ('e + serve_outcome) \<times> bool \<times> json option \<times> 'w" where
  "once c e tick f w = (case tick 1 w of
     (Inl x, w) \<Rightarrow> (Inl x, False, f, w)
   | (Inr out, w) \<Rightarrow> (Inr out, notify_waiting c (te_notify_fails e) out,
       snd (write_heartbeat (te_beat_fails e) (beat_now c STATUS_IDLE (te_note e) (te_ts e) 1) f), w))"

end
