(* ===== verification/GoalCommit.thy ===== *)
theory GoalCommit
  imports GoalExecProps
begin

text \<open>
  What reaches the repository and the goal when an approved packet is applied: properties of
  \<open>selfimprove/execute_bridge.py\<close> on top of the documented behaviour of git.
\<close>

section \<open>Writing the note\<close>

lemma note_written:
  assumes "tk_action t = ''note''" "xo_executed (fst (execute_task mu dk t tr))"
  shows "\<exists>c. snd (execute_task mu dk t tr) = tr(tk_rel_path t \<mapsto> c) \<and> text_mode c = tk_content t"
  using assms by (auto simp: execute_task_def refused_def reread_equals_def planned_content_def Let_def split: if_splits option.splits)

lemma task_frame: "\<exists>x. snd (execute_task mu dk t tr) = tr(tk_rel_path t := x)"
  by (rule exI[of _ "snd (execute_task mu dk t tr) (tk_rel_path t)"]) (auto simp: execute_frame)

lemma safe_task_action [simp]: "tk_action (safe_task wide pid finding) = ''note''"
  by (simp add: safe_task_def)

section \<open>Committing it\<close>

lemma save_quietly_repo [simp]: "wd_repo (save_quietly a persist g w) = wd_repo w"
  by (simp add: save_quietly_def)

text \<open>What one commit attempt leaves: a commit of everything staged, or at most the note staged.\<close>

lemma commit_path_cases:
  assumes "git_documented g" "git_commit_path g rel author msg r = (x, r')"
  shows "is_ok x \<and> r' = r\<lparr>rp_index := (rp_index r)(rel := rp_work r rel), rp_head := (rp_index r)(rel := rp_work r rel)\<rparr>
    \<or> \<not> is_ok x \<and> (r' = r \<and> fst (git_add g rel r) \<noteq> None
        \<or> r' = r\<lparr>rp_index := (rp_index r)(rel := rp_work r rel)\<rparr> \<and> fst (git_add g rel r) = None)"
proof -
  obtain e r1 where a: "git_add g rel r = (e, r1)" by fastforce
  then have r1: "r1 = (if e = None then r\<lparr>rp_index := (rp_index r)(rel := rp_work r rel)\<rparr> else r)"
    using assms(1) unfolding git_documented_def by (metis fst_conv snd_conv)
  show ?thesis
  proof (cases e)
    case (Some err)
    then show ?thesis using assms(2) a r1 by (auto simp: git_commit_path_def is_ok_def)
  next
    case None
    obtain y r2 where c: "git_commit g author (fst (committer author)) (snd (committer author)) msg r1 = (y, r2)" by fastforce
    then have "r2 = (if is_ok y then r1\<lparr>rp_head := rp_index r1\<rparr> else r1)"
      using assms(1) unfolding git_documented_def by (metis fst_conv snd_conv)
    then show ?thesis
      using None assms(2) a c r1 by (auto simp: git_commit_path_def is_ok_def split: sum.splits)
  qed
qed

lemma rollback_documented:
  assumes "git_documented g" "tracked \<longrightarrow> rp_index r rel \<noteq> None"
  shows "\<exists>x. git_rollback g u rel tracked r = r\<lparr>rp_work := (rp_work r)(rel := x)\<rparr> \<and> (tracked \<longrightarrow> x = rp_index r rel)"
proof (cases tracked)
  case True
  with assms show ?thesis by (auto simp: git_rollback_def git_documented_def)
next
  case False
  then show ?thesis
    by (cases "rp_work r rel \<noteq> None \<and> \<not> u") (auto simp: git_rollback_def fun_upd_idem intro: exI[of _ "rp_work r rel"])
qed

text \<open>One application, by its three ends: committed, refused before the commit, failed at the commit.\<close>

datatype ending = Committed | Refused | CommitFailed

definition ending_of :: "exec_result \<Rightarrow> ending" where
  "ending_of r = (if xr_applied r then Committed else if xr_changed_path r = [] then Refused else CommitFailed)"

lemma apply_result:
  fixes mu :: mutator
  assumes doc: "git_documented (at_git a)"
    and run: "apply_real_execution a persist approver mu k pid finding ga g w = (r, w')"
  defines "task \<equiv> safe_task (at_wide a) pid finding" and "R \<equiv> wd_repo w" and "R' \<equiv> wd_repo w'"
  defines "p \<equiv> tk_rel_path task"
  shows "case ending_of r of
     Committed \<Rightarrow> (\<exists>c. text_mode c = tk_content task \<and> R' = \<lparr>rp_head = (rp_index R)(p \<mapsto> c), rp_index = (rp_index R)(p \<mapsto> c),
           rp_work = (rp_work R)(p \<mapsto> c)\<rparr>)
         \<and> xr_outcome r = OUTCOME_EXECUTED \<and> xr_executed r \<and> xr_changed_path r = p
         \<and> xr_commit_message r = build_execution_commit_message (ga_verdict ga) finding (at_env a)
         \<and> xr_approval_metadata r = vd_approval_metadata (ga_verdict ga) \<and> xr_packet_id r = pid
   | Refused \<Rightarrow> xr_outcome r = OUTCOME_BLOCKED \<and> \<not> xr_executed r \<and> (\<exists>x. R' = R\<lparr>rp_work := (rp_work R)(p := x)\<rparr>)
   | CommitFailed \<Rightarrow> xr_outcome r = OUTCOME_BLOCKED \<and> \<not> xr_executed r \<and> xr_changed_path r = p \<and> xr_packet_id r = pid
         \<and> (\<exists>c x. text_mode c = tk_content task
              \<and> (R' = R\<lparr>rp_work := (rp_work R)(p := x)\<rparr> \<and> (\<exists>y. fst (git_add (at_git a) p y) \<noteq> None)
                 \<or> R' = R\<lparr>rp_index := (rp_index R)(p \<mapsto> c), rp_work := (rp_work R)(p := x)\<rparr>
                   \<and> (git_tracked (at_git a) p R \<longrightarrow> x = Some c)))"
proof -
  obtain out work where e: "execute_task mu (at_disk a) task (rp_work R) = (out, work)" by fastforce
  have tr: "git_tracked (at_git a) p R \<longleftrightarrow> rp_index R p \<noteq> None"
    using doc unfolding git_documented_def by blast
  note defs = apply_real_execution_def Let_def task_def[symmetric] R_def[symmetric] p_def[symmetric]
  have pn: "p \<noteq> []" using note_path_ok(2)[of "at_wide a" pid finding] by (auto simp: p_def task_def)
  show ?thesis
  proof (cases "xo_executed out \<and> xo_verified out")
    case False
    obtain x where x: "work = (rp_work R)(p := x)" using task_frame[of mu "at_disk a" task "rp_work R"] by (auto simp: e p_def)
    have "\<exists>y. git_rollback (at_git a) (at_unlink_fails a) p (git_tracked (at_git a) p R) (R\<lparr>rp_work := work\<rparr>)
        = R\<lparr>rp_work := (rp_work R)(p := y)\<rparr>"
      using rollback_documented[OF doc, of "git_tracked (at_git a) p R" "R\<lparr>rp_work := work\<rparr>" p "at_unlink_fails a"] tr
      by (auto simp: x)
    then show ?thesis
      using run False by (auto simp: defs e ending_of_def not_executed_def R'_def)
  next
    case True
    have act: "tk_action task = ''note''" by (simp add: task_def)
    obtain c where c: "work = (rp_work R)(p \<mapsto> c)" "text_mode c = tk_content task"
      using True note_written[OF act, of mu "at_disk a" "rp_work R"] by (auto simp: e p_def)
    let ?r1 = "R\<lparr>rp_work := work\<rparr>"
    obtain y r2 where cp: "git_commit_path (at_git a) p (git_author_for (ga_executor ga))
        (build_execution_commit_message (ga_verdict ga) finding (at_env a)) ?r1 = (y, r2)" by fastforce
    show ?thesis
    proof (cases y)
      case (Inr sha)
      then have "r2 = \<lparr>rp_head = (rp_index R)(p \<mapsto> c), rp_index = (rp_index R)(p \<mapsto> c), rp_work = (rp_work R)(p \<mapsto> c)\<rparr>"
        using commit_path_cases[OF doc cp] by (simp add: is_ok_def c)
      then show ?thesis
        using run True Inr c(2) by (auto simp: defs e cp ending_of_def R'_def)
    next
      case (Inl err)
      let ?undone = "git_rollback (at_git a) (at_unlink_fails a) p (git_tracked (at_git a) p R) r2"
      have "\<exists>x. ?undone = R\<lparr>rp_work := (rp_work R)(p := x)\<rparr> \<and> (\<exists>y. fst (git_add (at_git a) p y) \<noteq> None)
          \<or> ?undone = R\<lparr>rp_index := (rp_index R)(p \<mapsto> c), rp_work := (rp_work R)(p := x)\<rparr>
            \<and> (git_tracked (at_git a) p R \<longrightarrow> x = Some c)"
      proof -
        consider (unstaged) "r2 = ?r1" "fst (git_add (at_git a) p ?r1) \<noteq> None"
          | (staged) "r2 = ?r1\<lparr>rp_index := (rp_index R)(p \<mapsto> c)\<rparr>"
          using commit_path_cases[OF doc cp] Inl by (auto simp: is_ok_def c)
        then show ?thesis
        proof cases
          case unstaged
          then show ?thesis
            using rollback_documented[OF doc, of "git_tracked (at_git a) p R" r2 p "at_unlink_fails a"] tr by (fastforce simp: c)
        next
          case staged
          then show ?thesis
            using rollback_documented[OF doc, of "git_tracked (at_git a) p R" r2 p "at_unlink_fails a"] by (fastforce simp: c)
        qed
      qed
      moreover have "R' = ?undone" "xr_outcome r = OUTCOME_BLOCKED" "\<not> xr_executed r" "\<not> xr_applied r" "xr_changed_path r = p"
        "xr_packet_id r = pid" using run True Inl by (auto simp: defs e cp not_executed_def R'_def)
      ultimately show ?thesis using c(2) pn by (simp add: ending_of_def) blast
    qed
  qed
qed

section \<open>One approved packet\<close>

text \<open>The ways a call can go: nothing to execute, refused by a gate, or applied after passing all three.\<close>

lemma execute_cases:
  assumes "execute_approved_packet a persist approver (Some m) wanted g w = (r, w')"
  obtains (error) pid err where "resolve_packet g wanted = Inl (pid, err)" "r = (not_executed OUTCOME_ERROR pid)\<lparr>xr_error := Some err\<rparr>" "w' = w"
  | (refused) pid finding risk why where "resolve_packet g wanted = Inr (pid, finding, risk)"
      "\<not> (risk = RISK_SAFE \<and> plain_wording (padded finding))"
      "xr_outcome r = OUTCOME_BLOCKED" "\<not> xr_applied r" "\<not> xr_executed r" "xr_changed_path r = []" "xr_packet_id r = pid"
      "w' = save_quietly a persist (decision_record a 0 pid why g) w"
  | (applied) pid finding k where "resolve_packet g wanted = Inr (pid, finding, RISK_SAFE)" "plain_wording (padded finding)"
      "ga_authorized (bridge_gates pid finding RISK_SAFE)"
      "apply_real_execution a persist approver m k pid finding (bridge_gates pid finding RISK_SAFE) (fst (reopen a g)) w = (r, w')"
proof (cases "resolve_packet g wanted")
  case (Inl x)
  then show ?thesis
    using assms by (cases x) (auto simp: execute_approved_packet_def intro: error)
next
  case (Inr x)
  obtain pid finding risk where x: "resolve_packet g wanted = Inr (pid, finding, risk)"
    using Inr by (cases x) auto
  have risk: "risk \<in> {RISK_SAFE, RISK_RISKY, RISK_BLOCKED}"
    using resolve_linked[OF x] read_packet_risk by blast
  show ?thesis
  proof (cases "ga_authorized (bridge_gates pid finding risk)")
    case True
    then have s: "risk = RISK_SAFE" "plain_wording (padded finding)" using gates_exact[OF risk] by auto
    obtain g' k where gk: "reopen a g = (g', k)" by fastforce
    show ?thesis
      using assms True s(1) by (intro applied[OF x[unfolded s(1)] s(2), of k]) (auto simp: execute_approved_packet_def x Let_def gk)
  next
    case False
    then have "\<not> (risk = RISK_SAFE \<and> plain_wording (padded finding))" using gates_exact[OF risk] by auto
    then show ?thesis
      using assms False by (intro refused[OF x]) (auto simp: execute_approved_packet_def x Let_def not_executed_def)
  qed
qed

lemma gates_verdict:
  assumes "ga_authorized (bridge_gates pid finding risk)"
  shows "vd_allowed (ga_verdict (bridge_gates pid finding risk))" "vd_approval_metadata (ga_verdict (bridge_gates pid finding risk)) \<noteq> []"
proof -
  let ?f = "\<lparr>rf_repo = ''forgekit'', rf_finding = finding, rf_kind = ''gap'', rf_evidence = ''self-improvement packet '' @ pid\<rparr>"
  obtain p rt d t where c: "run_internal_chain ?f risk = (p, rt, d, t)" by (metis prod_cases4)
  note b = assms[unfolded bridge_gates_def c Let_def prod.case]
  have v: "vd_allowed (authorize_runtime_execution (Some d) q role g op) \<Longrightarrow>
      vd_approval_metadata (authorize_runtime_execution (Some d) q role g op) \<noteq> []" for q role g op
    by (auto simp: authorize_runtime_execution_def metadata_base_def Let_def split: prod.splits)
  show "vd_allowed (ga_verdict (bridge_gates pid finding risk))" "vd_approval_metadata (ga_verdict (bridge_gates pid finding risk)) \<noteq> []"
    unfolding bridge_gates_def c Let_def prod.case using b v by (auto split: prod.splits)
qed

section \<open>What is recorded\<close>

text \<open>A goal that differs from \<open>g\<close> by its status, by evidence appended and by the time of the change; and the file of the
  goal after a save, which is left out when nothing is to be persisted and lost when the write fails.\<close>

definition records :: "goal \<Rightarrow> goal_status \<Rightarrow> evidence list \<Rightarrow> goal \<Rightarrow> bool" where
  "records g s es g' \<longleftrightarrow> (\<exists>t. g' = g\<lparr>gstatus := s, evidence := evidence g @ es, gupdated_at := t\<rparr>)"

definition goal_saved :: "attempt \<Rightarrow> bool \<Rightarrow> goal \<Rightarrow> goal_status \<Rightarrow> evidence list \<Rightarrow> world \<Rightarrow> world \<Rightarrow> bool" where
  "goal_saved a persist g s es w w' \<longleftrightarrow> (if persist \<and> \<not> at_save_fails a
     then \<exists>g'. records g s es g' \<and> wd_files w' = put_goal g' (wd_files w) else wd_files w' = wd_files w)"

definition reopened_status :: "goal \<Rightarrow> goal_status" where
  "reopened_status g = (if gstatus g = AWAITING_APPROVAL then ACTIVE else gstatus g)"

lemma records_refl: "records g (gstatus g) [] g"
  by (auto simp: records_def intro!: exI[of _ "gupdated_at g"])

lemma records_add: "records g s es h \<Longrightarrow>
    records g s (es @ [\<lparr>ev_ts = t1, ev_kind = k, ev_summary = x, ev_ref = i\<rparr>]) (add_evidence k x i t1 t2 h)"
  by (cases g) (auto simp: records_def add_evidence_def)

lemma records_reopen: "records g (reopened_status g) [] (fst (reopen a g))"
proof (cases "gstatus g = AWAITING_APPROVAL")
  case True
  then show ?thesis
    by (cases g) (auto simp: records_def reopen_def reopened_status_def apply_status_def can_transition_def with_status_def)
next
  case False
  then show ?thesis using records_refl[of g] by (simp add: reopen_def reopened_status_def)
qed

lemma goal_savedI: "records g s es g' \<Longrightarrow> goal_saved a persist g s es w (save_quietly a persist g' (w\<lparr>wd_repo := x\<rparr>))"
  "records g s es g' \<Longrightarrow> goal_saved a persist g s es w (save_quietly a persist g' w)"
  by (auto simp: goal_saved_def save_quietly_def)

lemma decision_saved:
  assumes "records g s [] h"
  shows "\<exists>e. goal_saved a persist g s [e] w (save_quietly a persist (decision_record a k pid x h) (w\<lparr>wd_repo := y\<rparr>))
    \<and> ev_kind e = EV_DECISION \<and> ev_ref e = Some pid"
  using goal_savedI(1)[OF records_add[OF assms]] unfolding decision_record_def by fastforce

lemma execution_saved:
  assumes "records g s [] h"
  shows "goal_saved a persist g s (\<lparr>ev_ts = t0, ev_kind = k1, ev_summary = x1, ev_ref = i\<rparr>
      # \<lparr>ev_ts = t2, ev_kind = k2, ev_summary = x2, ev_ref = i\<rparr>
      # (case v of None \<Rightarrow> [] | Some f \<Rightarrow> [\<lparr>ev_ts = t4, ev_kind = k2, ev_summary = x3 f, ev_ref = i\<rparr>])) w
    (save_quietly a persist (case v of None \<Rightarrow> add_evidence k2 x2 i t2 t3 (add_evidence k1 x1 i t0 t1 h)
       | Some f \<Rightarrow> add_evidence k2 (x3 f) i t4 t5 (add_evidence k2 x2 i t2 t3 (add_evidence k1 x1 i t0 t1 h))) (w\<lparr>wd_repo := y\<rparr>))"
  using records_add[OF records_add[OF assms]] records_add[OF records_add[OF records_add[OF assms]]]
  by (auto intro!: goal_savedI split: option.split)

lemma sublist_skip: "sublist r x \<Longrightarrow> sublist r (a @ x)"
  by (auto simp: sublist_append)

lemma execution_text: "py_contains (a @ b @ c @ d @ e @ f @ h @ i) (z1 @ z2 @ z3 @ z4 @ z5 @ z6 @ z7 @ z8 @ a @ b @ c @ d @ e @ f @ h @ i @ z9)"
  unfolding py_contains_sublist
  by (rule sublist_skip, rule sublist_skip, rule sublist_skip, rule sublist_skip, rule sublist_skip, rule sublist_skip,
      rule sublist_skip, rule sublist_skip, rule prefix_imp_sublist) simp

text \<open>What an application records: an execution with the approval, the file and the commit, and its verification; or
  a decision that tells why nothing was applied.\<close>

lemma apply_record:
  assumes "apply_real_execution a persist approver m k pid finding ga (fst (reopen a g)) w = (r, w')"
  shows "if xr_applied r
    then \<exists>e1 e2 es. goal_saved a persist g (reopened_status g) (e1 # e2 # es) w w'
      \<and> ev_kind e1 = EV_EXECUTION \<and> ev_ref e1 = Some (xr_packet_id r)
      \<and> py_contains ('' approver='' @ approver @ '' approval='' @ xr_approval_metadata r @ '' file='' @ xr_changed_path r
          @ '' commit='' @ xr_commit_sha r) (ev_summary e1)
      \<and> ev_kind e2 = EV_VERIFICATION \<and> ev_ref e2 = Some (xr_packet_id r)
      \<and> length es \<le> 1 \<and> list_all (\<lambda>e. ev_kind e = EV_VERIFICATION) es
    else \<exists>e. goal_saved a persist g (reopened_status g) [e] w w' \<and> ev_kind e = EV_DECISION \<and> ev_ref e = Some (xr_packet_id r)"
proof -
  let ?task = "safe_task (at_wide a) pid finding" and ?g = "fst (reopen a g)"
  obtain out work where e: "execute_task m (at_disk a) ?task (rp_work (wd_repo w)) = (out, work)" by fastforce
  obtain y r2 where c: "git_commit_path (at_git a) (tk_rel_path ?task) (git_author_for (ga_executor ga))
      (build_execution_commit_message (ga_verdict ga) finding (at_env a)) ((wd_repo w)\<lparr>rp_work := work\<rparr>) = (y, r2)" by fastforce
  note run = assms[unfolded apply_real_execution_def Let_def e c prod.case]
  note dec = decision_saved[OF records_reopen]
  show ?thesis
  proof (cases "xo_executed out \<and> xo_verified out")
    case False
    then have "\<not> xr_applied r" "xr_packet_id r = pid" "\<exists>x y. w' = save_quietly a persist (decision_record a k pid x ?g) (w\<lparr>wd_repo := y\<rparr>)"
      using run by (auto simp: not_executed_def)
    then show ?thesis using dec by fastforce
  next
    case ok: True
    show ?thesis
    proof (cases y)
      case (Inl err)
      then have "\<not> xr_applied r" "xr_packet_id r = pid" "\<exists>x y. w' = save_quietly a persist (decision_record a k pid x ?g) (w\<lparr>wd_repo := y\<rparr>)"
        using run ok by (auto simp: not_executed_def)
      then show ?thesis using dec by fastforce
    next
      case (Inr sha)
      have nn: "(\<not> (xo_executed out \<and> xo_verified out)) = False" using ok by simp
      note R = run[unfolded Inr nn if_False sum.case prod.inject]
      show ?thesis
        unfolding R[THEN conjunct1, symmetric] R[THEN conjunct2, symmetric] exec_result.simps if_True
        by (intro exI conjI, rule execution_saved[OF records_reopen])
          (simp_all only: evidence.select_convs execution_text, simp_all split: option.split)
    qed
  qed
qed

text \<open>C3: What an approved packet can commit. A commit happens only for a linked packet whose last proposal was
  recorded as safe (or with an unknown tag that its wording classifies as safe) and is worded plainly; it
  consists of whatever was staged before plus one note under \<open>runs/forgekit/selfimprove\<close>, whose content is the
  planned one, and its message names the executor and carries the approval. The goal is then saved with two or three records
  appended, first the execution of this packet with approver, approval, file and commit, then its verification, and with the status active if it
  awaited approval. In every other case the last
  commit is the one from before, and the goal is either left alone, when there was no packet to execute, or saved with one decision on
  the packet appended. Saving is all or nothing: it is left out when nothing is to be persisted, and a write that fails is not
  noticed. git is assumed to do what it documents.\<close>

theorem commit_is_gated:
  assumes "git_documented (at_git a)" and "execute_approved_packet a persist approver (Some m) wanted g w = (r, w')"
  shows "if xr_applied r
    then ( \<exists>e tag finding c. xr_packet_id r \<in> set (packets g)
      \<and> e \<in> set (evidence g) \<and> ev_kind e = EV_PROPOSAL \<and> ev_ref e = Some (xr_packet_id r)
      \<and> parse_proposal (ev_summary e) = Some (tag, finding) \<and> tag \<notin> {RISK_RISKY, RISK_BLOCKED} \<and> plain_wording finding
      \<and> prefix ''runs/forgekit/selfimprove/'' (xr_changed_path r)
      \<and> text_mode c = tk_content (safe_task (at_wide a) (xr_packet_id r) finding)
      \<and> wd_repo w' = \<lparr>rp_head = (rp_index (wd_repo w))(xr_changed_path r \<mapsto> c),
           rp_index = (rp_index (wd_repo w))(xr_changed_path r \<mapsto> c), rp_work = (rp_work (wd_repo w))(xr_changed_path r \<mapsto> c)\<rparr>
      \<and> py_contains ''Forgekit-Agent: backend-engineer'' (xr_commit_message r)
      \<and> py_contains (''Forgekit-Approval: '' @ xr_approval_metadata r) (xr_commit_message r))
      \<and> (\<exists>e1 e2 es. goal_saved a persist g (reopened_status g) (e1 # e2 # es) w w'
        \<and> ev_kind e1 = EV_EXECUTION \<and> ev_ref e1 = Some (xr_packet_id r)
        \<and> py_contains ('' approver='' @ approver @ '' approval='' @ xr_approval_metadata r @ '' file='' @ xr_changed_path r
            @ '' commit='' @ xr_commit_sha r) (ev_summary e1)
        \<and> ev_kind e2 = EV_VERIFICATION \<and> ev_ref e2 = Some (xr_packet_id r)
        \<and> length es \<le> 1 \<and> list_all (\<lambda>e. ev_kind e = EV_VERIFICATION) es)
    else rp_head (wd_repo w') = rp_head (wd_repo w)
      \<and> (if xr_outcome r = OUTCOME_ERROR then w' = w
         else \<exists>e s. goal_saved a persist g s [e] w w' \<and> s \<in> {gstatus g, reopened_status g}
           \<and> ev_kind e = EV_DECISION \<and> ev_ref e = Some (xr_packet_id r))"
  using assms(2)
proof (cases rule: execute_cases)
  case (error pid err)
  then show ?thesis by (simp add: not_executed_def)
next
  case (refused pid finding risk why)
  have "\<exists>e. goal_saved a persist g (gstatus g) [e] w w' \<and> ev_kind e = EV_DECISION \<and> ev_ref e = Some pid"
    using goal_savedI(2)[OF records_add[OF records_refl[of g]]] unfolding refused(8) decision_record_def by fastforce
  then show ?thesis using refused(3,4,7,8) by auto
next
  case (applied pid finding k)
  let ?ga = "bridge_gates pid finding RISK_SAFE" and ?p = "tk_rel_path (safe_task (at_wide a) pid finding)"
  note R = apply_result[OF assms(1) applied(4)]
  show ?thesis
  proof (cases "ending_of r")
    case Committed
    obtain c where c: "text_mode c = tk_content (safe_task (at_wide a) pid finding)"
      "wd_repo w' = \<lparr>rp_head = (rp_index (wd_repo w))(?p \<mapsto> c), rp_index = (rp_index (wd_repo w))(?p \<mapsto> c),
        rp_work = (rp_work (wd_repo w))(?p \<mapsto> c)\<rparr>"
      "xr_changed_path r = ?p" "xr_commit_message r = build_execution_commit_message (ga_verdict ?ga) finding (at_env a)"
      "xr_approval_metadata r = vd_approval_metadata (ga_verdict ?ga)" "xr_packet_id r = pid"
      using R Committed by auto
    have m: "validate_execution_trailers (xr_commit_message r) (ga_verdict ?ga) = []"
      unfolding c(4) using message_trailers_valid[of "ga_verdict ?ga" "''backend-engineer''"] gates_verdict[OF applied(3)]
      by (simp add: gate_executor engineer_facts)
    obtain e tag where e: "proposal_for g pid = Some e" "parse_proposal (ev_summary e) = Some (tag, finding)"
      "RISK_SAFE = tag \<or> tag \<notin> {RISK_SAFE, RISK_RISKY, RISK_BLOCKED}" and l: "pid \<in> set (packets g)"
      using resolve_linked[OF applied(1)] read_packet_risk[of g pid pid finding RISK_SAFE] by blast
    have tag: "tag \<notin> {RISK_RISKY, RISK_BLOCKED}" using e(3) by (auto simp: risks)
    have "py_contains ''Forgekit-Agent: backend-engineer'' (xr_commit_message r)"
      "py_contains (''Forgekit-Approval: '' @ xr_approval_metadata r) (xr_commit_message r)"
      using m gates_verdict(1)[OF applied(3)] by (auto simp: validate_execution_trailers_def gate_executor c(5) split: if_splits)
    moreover have "xr_applied r" using Committed by (auto simp: ending_of_def split: if_splits)
    moreover note apply_record[OF applied(4)]
    ultimately show ?thesis
      using e(2) l tag proposal_for_Some[OF e(1)] padded_plain[OF applied(2)] c(1,2,3,6) note_path_ok(2)[of "at_wide a" pid finding]
      by auto
  next
    case Refused
    then have "\<not> xr_applied r" by (auto simp: ending_of_def split: if_splits)
    then show ?thesis using R Refused apply_record[OF applied(4)] by auto
  next
    case CommitFailed
    then have "\<not> xr_applied r" by (auto simp: ending_of_def split: if_splits)
    then show ?thesis using R CommitFailed apply_record[OF applied(4)] by auto
  qed
qed

text \<open>C39: A failed commit is not undone. When staging works and the commit then fails, the roll back leaves the
  note staged, because git restores a path from the index: the next commit of anyone will contain it. For a
  note that was tracked the file on disk keeps the new content as well.\<close>

theorem failed_commit_stays_staged:
  assumes "git_documented (at_git a)" and "execute_approved_packet a persist approver (Some m) wanted g w = (r, w')"
    and "\<not> xr_applied r" and "xr_changed_path r \<noteq> []" and "\<And>y. fst (git_add (at_git a) (xr_changed_path r) y) = None"
  shows "\<exists>c. rp_index (wd_repo w') = (rp_index (wd_repo w))(xr_changed_path r \<mapsto> c)
      \<and> (\<exists>finding. text_mode c = tk_content (safe_task (at_wide a) (xr_packet_id r) finding))
      \<and> (rp_index (wd_repo w) (xr_changed_path r) = None \<or> rp_work (wd_repo w') (xr_changed_path r) = Some c)"
  using assms(2)
proof (cases rule: execute_cases)
  case (applied pid finding k)
  have "ending_of r = CommitFailed" using assms(3,4) by (simp add: ending_of_def)
  moreover have "git_tracked (at_git a) p y \<longleftrightarrow> rp_index y p \<noteq> None" for p y
    using assms(1) unfolding git_documented_def by blast
  ultimately show ?thesis using apply_result[OF assms(1) applied(4)] assms(5) by auto
qed (use assms(4) in \<open>simp_all add: not_executed_def\<close>)

text \<open>Where git refuses to stage files under \<open>runs/\<close>, as it does for ignored files, no approved packet is
  ever applied, whatever the goal, the packet and the state of the repository.\<close>

lemma ignored_notes_never_applied:
  assumes "\<And>p y. prefix ''runs/'' p \<Longrightarrow> fst (git_add (at_git a) p y) \<noteq> None"
  shows "\<not> xr_applied (fst (execute_approved_packet a persist approver (Some m) wanted g w))"
proof -
  obtain r w' where e: "execute_approved_packet a persist approver (Some m) wanted g w = (r, w')" by fastforce
  from e show ?thesis
  proof (cases rule: execute_cases)
    case (applied pid finding k)
    have "prefix ''runs/'' (tk_rel_path (safe_task (at_wide a) pid finding))"
      using note_path_ok(2)[of "at_wide a" pid finding] by (auto simp: prefix_def)
    then have f: "git_commit_path (at_git a) (tk_rel_path (safe_task (at_wide a) pid finding)) author msg y \<noteq> (Inr sha, z)"
      for author msg y sha z
      using assms[of "tk_rel_path (safe_task (at_wide a) pid finding)" y]
      by (cases "git_add (at_git a) (tk_rel_path (safe_task (at_wide a) pid finding)) y")
        (auto simp: git_commit_path_def split: option.splits)
    show ?thesis
      using applied(4) f by (auto simp: e apply_real_execution_def Let_def not_executed_def split: prod.splits if_splits sum.splits)
  qed (simp_all add: e not_executed_def)
qed

section \<open>A sample repository\<close>

definition plain_git :: git where
  "plain_git = \<lparr>git_tracked = (\<lambda>p r. rp_index r p \<noteq> None),
     git_add = (\<lambda>p r. (None, r\<lparr>rp_index := (rp_index r)(p := rp_work r p)\<rparr>)),
     git_commit = (\<lambda>a n e m r. (Inr ''c1'', r\<lparr>rp_head := rp_index r\<rparr>)),
     git_checkout = (\<lambda>p r. r\<lparr>rp_work := (rp_work r)(p := rp_index r p)\<rparr>)\<rparr>"

definition locked_git :: git where
  "locked_git = plain_git\<lparr>git_commit := (\<lambda>a n e m r. (Inl ''locked'', r))\<rparr>"

definition ignoring_git :: git where
  "ignoring_git = plain_git\<lparr>git_add := (\<lambda>p r. (Some ''ignored'', r))\<rparr>"

lemma sample_gits_documented: "git_documented plain_git" "git_documented locked_git" "git_documented ignoring_git"
  by (simp_all add: git_documented_def plain_git_def locked_git_def ignoring_git_def is_ok_def)

definition sample_attempt :: "git \<Rightarrow> attempt" where
  "sample_attempt v = \<lparr>at_clock = (\<lambda>_. ''t''), at_disk = quiet_disk, at_git = v, at_unlink_fails = False,
     at_save_fails = False, at_vault = None, at_float_str = (\<lambda>_. ''0''), at_wide = (\<lambda>_. False), at_env = []\<rparr>"

definition sample_goal :: goal where
  "sample_goal = \<lparr>gid = ''g'', title = ''t'', intent = [], gstatus = ACTIVE, mode = None, parent_id = None, children = [],
     packets = [''p1''], evidence = [\<lparr>ev_ts = ''t'', ev_kind = ''proposal'', ev_summary = ''[safe] tidy docs -> safe'',
       ev_ref = Some ''p1''\<rparr>], gcreated_at = ''t'', gupdated_at = ''t''\<rparr>"

definition sample_mutator :: mutator where
  "sample_mutator = \<lparr>mu_max_diff_lines = 200, mu_source_prefixes = [], mu_parses = (\<lambda>_. True), mu_source_verifier = None\<rparr>"

definition empty_world :: world where
  "empty_world = \<lparr>wd_files = [], wd_repo = \<lparr>rp_head = Map.empty, rp_index = Map.empty, rp_work = Map.empty\<rparr>\<rparr>"

definition sample_run :: "git \<Rightarrow> exec_result \<times> world" where
  "sample_run v = execute_approved_packet (sample_attempt v) True ''operator'' (Some sample_mutator) (Some ''p1'') sample_goal empty_world"

lemma sample_resolved: "resolve_packet sample_goal (Some ''p1'') = Inr (''p1'', ''tidy docs'', ''safe'')"
  by code_simp

lemma contains_set: "py_contains k s \<Longrightarrow> set k \<subseteq> set s"
  by (auto simp: py_contains_sublist sublist_def)

lemma sample_plain: "plain_wording (padded ''tidy docs'')"
proof -
  have l: "py_lower (padded ''tidy docs'') = padded ''tidy docs''"
    by (simp add: py_lower_def padded_def py_lower_char_def Let_def)
  have "list_all (\<lambda>k. list_ex (\<lambda>c. c \<notin> set (padded ''tidy docs'')) k) (RESTRICTED_WORDS @ RISKY_WORDS)"
    by (simp add: RESTRICTED_WORDS_def RISKY_WORDS_def utf8_def padded_def char_of_def)
  then show ?thesis
    using contains_set[of _ "padded ''tidy docs''"] unfolding plain_wording_def l list_all_iff list_ex_iff by blast
qed

text \<open>On a disk that works, a note that fits and is new is written and verified.\<close>

lemma quiet_note:
  assumes "fst (validate_task mu t)" "tk_action t = ''note''" "CHR 0x0D \<notin> set (tk_content t)" "tk_content t \<noteq> []"
    and "int (count_char newline (tk_content t)) + 1 \<le> mu_max_diff_lines mu" and "tr (tk_rel_path t) = None"
  shows "xo_executed (fst (execute_task mu quiet_disk t tr)) \<and> xo_verified (fst (execute_task mu quiet_disk t tr))"
proof -
  have "length (filter (\<lambda>(a, b). a \<noteq> b) (zip (split_at newline (tk_content t)) [[]])) \<le> 1"
    by (rule order_trans[OF length_filter_le]) simp
  then have "lines_changed (tk_content t) [] \<le> 1 + count_char newline (tk_content t)"
    by (simp add: lines_changed_def count_char_def)
  then show ?thesis
    using assms by (simp add: execute_task_def planned_content_def quiet_disk_def reread_equals_def landed_def text_mode_id Let_def)
qed

lemma sample_note:
  "xo_executed (fst (execute_task sample_mutator quiet_disk (safe_task (\<lambda>_. False) ''p1'' ''tidy docs'') Map.empty)) \<and>
   xo_verified (fst (execute_task sample_mutator quiet_disk (safe_task (\<lambda>_. False) ''p1'' ''tidy docs'') Map.empty))"
proof (rule quiet_note)
  let ?t = "safe_task (\<lambda>_. False) ''p1'' ''tidy docs''"
  have n: "count_char newline (tk_content ?t) = 5" "tk_content ?t \<noteq> []"
    by (auto simp: count_char_def safe_task_def utf8_def newline_def char_of_def bit_0)
  show "CHR 0x0D \<notin> set (tk_content ?t)" "tk_content ?t \<noteq> []"
    by (auto simp: safe_task_def utf8_def newline_def char_of_def bit_0)
  show "fst (validate_task sample_mutator ?t)"
    using note_path_ok(1)[of "\<lambda>_. False" "''p1''" "''tidy docs''"] n
    by (simp add: validate_task_def sample_mutator_def SAFE_ACTIONS_def Let_def)
  show "int (count_char newline (tk_content ?t)) + 1 \<le> mu_max_diff_lines sample_mutator"
    using n by (simp add: sample_mutator_def)
qed (simp_all)

lemma sample_applies:
  "xr_applied (fst (sample_run v)) \<longleftrightarrow> (\<exists>sha r2. git_commit_path v (tk_rel_path (safe_task (\<lambda>_. False) ''p1'' ''tidy docs''))
      (git_author_for ''backend-engineer'') (build_execution_commit_message (ga_verdict (bridge_gates ''p1'' ''tidy docs'' RISK_SAFE)) ''tidy docs'' [])
      \<lparr>rp_head = Map.empty, rp_index = Map.empty,
       rp_work = snd (execute_task sample_mutator quiet_disk (safe_task (\<lambda>_. False) ''p1'' ''tidy docs'') Map.empty)\<rparr> = (Inr sha, r2))"
  "xr_changed_path (fst (sample_run v)) = tk_rel_path (safe_task (\<lambda>_. False) ''p1'' ''tidy docs'')"
proof -
  have a: "ga_authorized (bridge_gates ''p1'' ''tidy docs'' RISK_SAFE)"
    using sample_plain by (simp add: gates_exact)
  have r: "resolve_packet sample_goal (Some ''p1'') = Inr (''p1'', ''tidy docs'', RISK_SAFE)"
    using sample_resolved by (simp add: RISK_SAFE_def)
  obtain out work where e: "execute_task sample_mutator quiet_disk (safe_task (\<lambda>_. False) ''p1'' ''tidy docs'') Map.empty = (out, work)"
    by fastforce
  have x: "xo_executed out" "xo_verified out" using sample_note by (simp_all add: e)
  have g: "reopen (sample_attempt v) sample_goal = (sample_goal, 0)" by (simp add: reopen_def sample_goal_def)
  have at: "at_wide (sample_attempt v) = (\<lambda>_. False)" "at_disk (sample_attempt v) = quiet_disk" "at_git (sample_attempt v) = v"
    "at_env (sample_attempt v) = []" "rp_work (wd_repo empty_world) = Map.empty"
    "wd_repo empty_world\<lparr>rp_work := work\<rparr> = \<lparr>rp_head = Map.empty, rp_index = Map.empty, rp_work = work\<rparr>"
    by (simp_all add: sample_attempt_def empty_world_def)
  note run = sample_run_def execute_approved_packet_def r sum.case prod.case Let_def a not_True_eq_False if_False g option.case
    simp_thms(6) if_True apply_real_execution_def at e gate_executor(1)
  show "xr_applied (fst (sample_run v)) \<longleftrightarrow> (\<exists>sha r2. git_commit_path v (tk_rel_path (safe_task (\<lambda>_. False) ''p1'' ''tidy docs''))
      (git_author_for ''backend-engineer'') (build_execution_commit_message (ga_verdict (bridge_gates ''p1'' ''tidy docs'' RISK_SAFE)) ''tidy docs'' [])
      \<lparr>rp_head = Map.empty, rp_index = Map.empty,
       rp_work = snd (execute_task sample_mutator quiet_disk (safe_task (\<lambda>_. False) ''p1'' ''tidy docs'') Map.empty)\<rparr> = (Inr sha, r2))"
    unfolding run using x a by (auto simp: not_executed_def split: sum.splits prod.splits)
  show "xr_changed_path (fst (sample_run v)) = tk_rel_path (safe_task (\<lambda>_. False) ''p1'' ''tidy docs'')"
    unfolding run using x a by (auto simp: not_executed_def split: sum.splits prod.splits)
qed

lemma sample_commits: "xr_applied (fst (sample_run plain_git))" "\<not> xr_applied (fst (sample_run locked_git))"
  "xr_changed_path (fst (sample_run v)) \<noteq> []"
  using note_path_ok(2)[of "\<lambda>_. False" "''p1''" "''tidy docs''"]
  by (auto simp: sample_applies git_commit_path_def plain_git_def locked_git_def)

theorem commit_is_gated_witness:
  "\<exists>e tag finding. e \<in> set (evidence sample_goal) \<and> parse_proposal (ev_summary e) = Some (tag, finding) \<and> plain_wording finding
      \<and> rp_head (wd_repo (snd (sample_run plain_git))) (xr_changed_path (fst (sample_run plain_git))) \<noteq> None"
proof -
  have a: "at_git (sample_attempt v) = v" for v by (simp add: sample_attempt_def)
  show ?thesis
    using commit_is_gated[of "sample_attempt plain_git", unfolded a, OF sample_gits_documented(1),
        of True "''operator''" sample_mutator "Some ''p1''" sample_goal empty_world "fst (sample_run plain_git)"
          "snd (sample_run plain_git)"] sample_commits(1)
    by (auto simp: sample_run_def)
qed

theorem failed_commit_stays_staged_witness:
  "rp_index (wd_repo (snd (sample_run locked_git))) (xr_changed_path (fst (sample_run locked_git))) \<noteq> None"
proof -
  have a: "at_git (sample_attempt v) = v" for v by (simp add: sample_attempt_def)
  have s: "execute_approved_packet (sample_attempt locked_git) True ''operator'' (Some sample_mutator) (Some ''p1'') sample_goal empty_world
      = (fst (sample_run locked_git), snd (sample_run locked_git))"
    by (simp add: sample_run_def)
  have "fst (git_add locked_git p y) = None" for p y by (simp add: locked_git_def plain_git_def)
  then show ?thesis
    using failed_commit_stays_staged[of "sample_attempt locked_git", unfolded a, OF sample_gits_documented(2) s]
      sample_commits(2,3) by auto
qed

end
