(* ===== verification/GoalRunProps.thy ===== *)
theory GoalRunProps
  imports GoalRun GoalCommit GoalTickProps
begin

text \<open>
  What execution ticks do to the stored goals: only gated packets of the first active goals are attempted, each
  packet at most once over any history, and goals further back can wait for ever.
\<close>

section \<open>What one attempt records\<close>

text \<open>The goal after an attempt of \<open>pid\<close>: the same goal with records about \<open>pid\<close>, one of which settles it.\<close>

definition recorded :: "string \<Rightarrow> goal \<Rightarrow> goal \<Rightarrow> bool" where
  "recorded pid g g' \<longleftrightarrow> (gid g', packets g', children g', parent_id g') = (gid g, packets g, children g, parent_id g)
     \<and> gstatus g' \<in> {gstatus g, ACTIVE}
     \<and> (\<exists>es. evidence g' = evidence g @ es \<and> (\<forall>e \<in> set es. ev_ref e = Some pid)
          \<and> (\<exists>e \<in> set es. ev_kind e \<in> {EV_EXECUTION, EV_DECISION}))"

lemma recorded_decision: "recorded pid g (decision_record a k pid why g)"
  by (simp add: recorded_def decision_record_def) (simp add: add_evidence_def)

lemma reopen_frame: "(gid (fst (reopen a g)), packets (fst (reopen a g)), children (fst (reopen a g)), parent_id (fst (reopen a g)),
    evidence (fst (reopen a g))) = (gid g, packets g, children g, parent_id g, evidence g) \<and> gstatus (fst (reopen a g)) \<in> {gstatus g, ACTIVE}"
  by (auto simp: reopen_def apply_status_def with_status_def split: sum.split)

lemma recorded_reopen: "recorded pid (fst (reopen a g)) g' \<Longrightarrow> recorded pid g g'"
  using reopen_frame[of a g] by (auto simp: recorded_def)

lemma apply_records:
  assumes "apply_real_execution a persist approver m k pid finding ga g w = (r, w')"
  shows "\<exists>g' y. recorded pid g g' \<and> w' = save_quietly a persist g' y \<and> wd_files y = wd_files w"
proof -
  obtain out work where e: "execute_task m (at_disk a) (safe_task (at_wide a) pid finding) (rp_work (wd_repo w)) = (out, work)"
    by fastforce
  obtain x r2 where c: "git_commit_path (at_git a) (tk_rel_path (safe_task (at_wide a) pid finding)) (git_author_for (ga_executor ga))
      (build_execution_commit_message (ga_verdict ga) finding (at_env a)) (wd_repo w\<lparr>rp_work := work\<rparr>) = (x, r2)" by fastforce
  show ?thesis
  proof (cases "xo_executed out \<and> xo_verified out")
    case False
    then show ?thesis
      using assms recorded_decision by (fastforce simp: apply_real_execution_def Let_def e)
  next
    case True
    show ?thesis
    proof (cases x)
      case (Inl err)
      then show ?thesis
        using assms True recorded_decision by (fastforce simp: apply_real_execution_def Let_def e c)
    next
      case (Inr sha)
      have "recorded pid g (case at_vault a of None \<Rightarrow> add_evidence EV_VERIFICATION s2 (Some pid) t3 t4 (add_evidence EV_EXECUTION s1 (Some pid) t1 t2 g)
          | Some path \<Rightarrow> add_evidence EV_VERIFICATION (s3 path) (Some pid) t5 t6
              (add_evidence EV_VERIFICATION s2 (Some pid) t3 t4 (add_evidence EV_EXECUTION s1 (Some pid) t1 t2 g)))"
        for s1 s2 s3 t1 t2 t3 t4 t5 t6
        by (cases "at_vault a") (simp_all add: recorded_def, simp_all add: add_evidence_def)
      then show ?thesis
        using assms True Inr by (fastforce simp: apply_real_execution_def Let_def e c)
    qed
  qed
qed

lemma execute_records:
  assumes "execute_approved_packet a persist approver (Some m) wanted g w = (r, w')"
  obtains (error) "xr_outcome r = OUTCOME_ERROR" "w' = w"
  | (records) pid g' y where "recorded pid g g'" "w' = save_quietly a persist g' y" "wd_files y = wd_files w"
      "\<And>p. wanted = Some p \<Longrightarrow> py_strip p = p \<Longrightarrow> p \<noteq> [] \<Longrightarrow> pid = p"
proof -
  have id: "pid = p" if "resolve_packet g wanted = Inr (pid, finding, risk)" "wanted = Some p" "py_strip p = p" "p \<noteq> []"
    for pid finding risk p
    using that read_packet_risk by (auto simp: resolve_packet_def split: if_splits list.splits)
  from assms(1) show ?thesis
  proof (cases rule: execute_cases)
    case (error pid err)
    then show ?thesis by (simp add: not_executed_def that(1))
  next
    case (refused pid finding risk why)
    show ?thesis by (rule that(2)[OF recorded_decision refused(8) refl]) (rule id[OF refused(1)])
  next
    case (applied pid finding k)
    obtain g' y where "recorded pid (fst (reopen a g)) g'" "w' = save_quietly a persist g' y" "wd_files y = wd_files w"
      using apply_records[OF applied(4)] by blast
    then show ?thesis using that(2)[of pid g' y] recorded_reopen id[OF applied(1)] by blast
  qed
qed

lemma recorded_attempted:
  assumes "recorded p g g'" "p \<noteq> []"
  shows "attempted_packet_ids g' = insert p (attempted_packet_ids g)"
proof -
  obtain es e where es: "evidence g' = evidence g @ es" "\<forall>e \<in> set es. ev_ref e = Some p" "e \<in> set es"
    "ev_kind e \<in> {EV_EXECUTION, EV_DECISION}"
    using assms(1) by (auto simp: recorded_def)
  have "q \<in> attempted_packet_ids g' \<longleftrightarrow> q \<in> insert p (attempted_packet_ids g)" for q
    unfolding attempted_packet_ids_def using es assms(2) by (auto simp: packet_refs_iff)
  then show ?thesis by blast
qed

section \<open>The store under an attempt\<close>

lemma save_quietly_files: "wd_files (save_quietly a True g w) = (if at_save_fails a then wd_files w else put_goal g (wd_files w))"
  by (simp add: save_quietly_def)

lemma stored_put:
  assumes "store_ok h fs" "file_goal h fs i = Some g0" "gid g = i"
  shows "store_ok h (put_goal g fs)" "file_goal h (put_goal g fs) j = (if j = i then Some g else file_goal h fs j)"
    "get_goal h i (put_goal g fs) = Inr (Some g)"
proof -
  have i: "safe_id i" "py_strip i = i" using assms file_goal_safe[of fs h i g0] by (auto simp: store_ok_def)
  show f: "file_goal h (put_goal g fs) j = (if j = i then Some g else file_goal h fs j)" for j
    using file_goal_put[of g h fs j] assms(3) i by simp
  have ok: "files_ok (put_goal g fs)" using assms(1) by (simp add: store_ok_def files_ok_put)
  then show "store_ok h (put_goal g fs)" using assms f by (auto simp: store_ok_def split: if_splits)
  show "get_goal h i (put_goal g fs) = Inr (Some g)"
    using load_goal_file[OF ok, of i h] i f by (simp add: get_goal_def)
qed

lemma get_stored:
  assumes "store_ok h fs" "file_goal h fs i = Some g"
  shows "get_goal h i fs = Inr (Some g)"
proof -
  have "files_ok fs" "safe_id i" "py_strip i = i" using assms file_goal_safe[of fs h i g] by (auto simp: store_ok_def)
  then show ?thesis using load_goal_file[of fs i h] assms(2) by (simp add: get_goal_def)
qed

definition attempted_in :: "json_host \<Rightarrow> goal_files \<Rightarrow> string \<Rightarrow> string set" where
  "attempted_in h fs i = (case file_goal h fs i of None \<Rightarrow> {} | Some g \<Rightarrow> attempted_packet_ids g)"

definition keys :: "(string \<times> string \<times> exec_result) list \<Rightarrow> (string \<times> string) list" where
  "keys tr = map (\<lambda>(i, p, r). (i, p)) (filter (\<lambda>(i, p, r). xr_outcome r \<noteq> OUTCOME_ERROR) tr)"

lemma keys_append [simp]: "keys (a @ b) = keys a @ keys b"
  by (simp add: keys_def)

lemma count_outcome_simps [simp]:
  "xp_world (count_outcome i p r st) = xp_world st" "xp_trace (count_outcome i p r st) = xp_trace st @ [(i, p, r)]"
  "xp_n (count_outcome i p r st) = xp_n st + 1"
  by (simp_all add: count_outcome_def Let_def)

text \<open>A goal's packets as links make them.\<close>

definition packets_clean :: "goal \<Rightarrow> bool" where
  "packets_clean g \<longleftrightarrow> distinct (packets g) \<and> (\<forall>p \<in> set (packets g). py_strip p = p)"

definition clean_store :: "json_host \<Rightarrow> goal_files \<Rightarrow> bool" where
  "clean_store h fs \<longleftrightarrow> store_ok h fs \<and> (\<forall>s g. file_goal h fs s = Some g \<longrightarrow> packets_clean g)"

text \<open>Whatever happens to the saves, attempts at a goal touch only its file.\<close>

lemma attempts_frame:
  fixes slot :: "nat \<Rightarrow> attempt" and ps :: "string list"
  assumes "store_ok (tc_host tc) (wd_files (xp_world st))" "gid g = i" "file_goal (tc_host tc) (wd_files (xp_world st)) i \<noteq> None"
  defines "st' \<equiv> attempt_packets tc slot i ps g st"
  shows "store_ok (tc_host tc) (wd_files (xp_world st'))
    \<and> (\<forall>j. j \<noteq> i \<longrightarrow> file_goal (tc_host tc) (wd_files (xp_world st')) j = file_goal (tc_host tc) (wd_files (xp_world st)) j)
    \<and> (\<exists>tr. xp_trace st' = xp_trace st @ tr \<and> map (\<lambda>(j, p, r). (j, p)) tr = map (Pair i) ps)"
  unfolding st'_def using assms(1-3)
proof (induction tc slot i ps g st rule: attempt_packets.induct)
  case (1 tc slot i g st)
  then show ?case by simp
next
  case (2 tc slot i p ps g st)
  let ?h = "tc_host tc"
  obtain r w where e: "execute_approved_packet (slot (xp_n st)) True (tc_approver tc) (Some (tc_mutator tc)) (Some p) g (xp_world st) = (r, w)"
    by fastforce
  define g2 where "g2 = reload_goal ?h i g (wd_files w)"
  define s2 where "s2 = count_outcome i p r (st\<lparr>xp_world := w\<rparr>)"
  obtain g0 where g0: "file_goal ?h (wd_files (xp_world st)) i = Some g0" using 2(4) by blast
  have w: "store_ok ?h (wd_files w) \<and> (\<exists>g1. file_goal ?h (wd_files w) i = Some g1)
      \<and> (\<forall>j. j \<noteq> i \<longrightarrow> file_goal ?h (wd_files w) j = file_goal ?h (wd_files (xp_world st)) j)"
    using e
  proof (cases rule: execute_records)
    case error
    then show ?thesis using 2(2) g0 by simp
  next
    case (records pid g' y)
    then have "gid g' = i" using 2(3) by (simp add: recorded_def)
    then show ?thesis using stored_put[OF 2(2) g0] 2(2) g0 records(2,3) by (simp add: save_quietly_files)
  qed
  then obtain g1 where g1: "file_goal ?h (wd_files w) i = Some g1" "store_ok ?h (wd_files w)" by blast
  then have "gid g2 = i" using get_stored[of ?h "wd_files w" i g1] by (auto simp: g2_def reload_goal_def store_ok_def)
  moreover have s2: "xp_world s2 = w" "xp_trace s2 = xp_trace st @ [(i, p, r)]" by (simp_all add: s2_def)
  moreover have "attempt_packets tc slot i (p # ps) g st = attempt_packets tc slot i ps g2 s2" by (simp add: e g2_def s2_def)
  ultimately show ?case
    using 2(1)[OF e[symmetric] refl, folded g2_def s2_def] w g1 by auto
qed

lemma attempts_once:
  assumes "clean_store (tc_host tc) (wd_files (xp_world st))" "file_goal (tc_host tc) (wd_files (xp_world st)) i = Some g"
    and "\<And>n. \<not> at_save_fails (slot n)"
    and "distinct ps" "list_all (\<lambda>p. py_strip p = p \<and> p \<noteq> []) ps" "set ps \<inter> attempted_packet_ids g = {}"
  defines "st' \<equiv> attempt_packets tc slot i ps g st"
  shows "clean_store (tc_host tc) (wd_files (xp_world st'))
    \<and> (\<forall>j. j \<noteq> i \<longrightarrow> file_goal (tc_host tc) (wd_files (xp_world st')) j = file_goal (tc_host tc) (wd_files (xp_world st)) j)
    \<and> attempted_packet_ids g \<subseteq> attempted_in (tc_host tc) (wd_files (xp_world st')) i
    \<and> (\<exists>tr. xp_trace st' = xp_trace st @ tr \<and> set (keys tr) \<subseteq> {i} \<times> set ps \<and> distinct (keys tr)
         \<and> (\<forall>(j, p) \<in> set (keys tr). p \<in> attempted_in (tc_host tc) (wd_files (xp_world st')) i))"
  unfolding st'_def using assms(1-6)
proof (induction tc slot i ps g st rule: attempt_packets.induct)
  case (1 tc slot i g st)
  then show ?case by (simp add: attempted_in_def keys_def)
next
  case (2 tc slot i p ps g st)
  let ?h = "tc_host tc"
  obtain r w where e: "execute_approved_packet (slot (xp_n st)) True (tc_approver tc) (Some (tc_mutator tc)) (Some p) g (xp_world st) = (r, w)"
    by fastforce
  have so: "store_ok ?h (wd_files (xp_world st))" using 2(2) by (simp add: clean_store_def)
  have gi: "gid g = i" using so 2(3) by (auto simp: store_ok_def)
  have p: "py_strip p = p" "p \<noteq> []" using 2(6) by simp_all
  define g2 where "g2 = reload_goal ?h i g (wd_files w)"
  define s2 where "s2 = count_outcome i p r (st\<lparr>xp_world := w\<rparr>)"
  have ap: "attempt_packets tc slot i (p # ps) g st = attempt_packets tc slot i ps g2 s2"
    by (simp add: e g2_def s2_def)
  define ok where "ok \<longleftrightarrow> clean_store ?h (wd_files w) \<and> file_goal ?h (wd_files w) i = Some g2 \<and> set ps \<inter> attempted_packet_ids g2 = {}
      \<and> (\<forall>j. j \<noteq> i \<longrightarrow> file_goal ?h (wd_files w) j = file_goal ?h (wd_files (xp_world st)) j)
      \<and> attempted_packet_ids g \<subseteq> attempted_packet_ids g2 \<and> (xr_outcome r \<noteq> OUTCOME_ERROR \<longrightarrow> p \<in> attempted_packet_ids g2)"
  have ok
    using e
  proof (cases rule: execute_records)
    case error
    then show ok
      using 2(2,3,7) get_stored[OF so 2(3)] by (auto simp: ok_def g2_def reload_goal_def)
  next
    case (records pid g' y)
    have g': "recorded p g g'" using records(1,4) p by simp
    then have f: "wd_files w = put_goal g' (wd_files (xp_world st))" using records(2,3) 2(4) by (simp add: save_quietly_files)
    have gi': "gid g' = i" "packets g' = packets g" using g' gi by (auto simp: recorded_def)
    note put = stored_put[OF so 2(3) gi'(1)]
    have g2: "g2 = g'" using put(3) by (simp add: g2_def reload_goal_def f)
    have "clean_store ?h (wd_files w)"
      using 2(2,3) put gi'(2) by (auto simp: clean_store_def f packets_clean_def split: if_splits)
    then show ok
      using put recorded_attempted[OF g' p(2)] 2(5,7) by (auto simp: ok_def f g2)
  qed
  note w = this[unfolded ok_def]
  have "xp_world s2 = w" "xp_trace s2 = xp_trace st @ [(i, p, r)]" by (simp_all add: s2_def)
  note IH = 2(1)[OF e[symmetric] refl, folded g2_def s2_def, unfolded this(1)]
  obtain tr where tr: "clean_store ?h (wd_files (xp_world (attempt_packets tc slot i ps g2 s2)))"
    "\<forall>j. j \<noteq> i \<longrightarrow> file_goal ?h (wd_files (xp_world (attempt_packets tc slot i ps g2 s2))) j = file_goal ?h (wd_files w) j"
    "attempted_packet_ids g2 \<subseteq> attempted_in ?h (wd_files (xp_world (attempt_packets tc slot i ps g2 s2))) i"
    "xp_trace (attempt_packets tc slot i ps g2 s2) = xp_trace s2 @ tr" "set (keys tr) \<subseteq> {i} \<times> set ps" "distinct (keys tr)"
    "\<forall>(j, p) \<in> set (keys tr). p \<in> attempted_in ?h (wd_files (xp_world (attempt_packets tc slot i ps g2 s2))) i"
    using IH w 2(4,5,6) by auto
  show ?case
    unfolding ap using w tr 2(5) \<open>xp_trace s2 = _\<close>
    by (intro conjI exI[of _ "(i, p, r) # tr"]) (auto simp: keys_def)
qed

section \<open>One tick\<close>

text \<open>What a trace of attempts does to the settled packets.\<close>

definition settles :: "json_host \<Rightarrow> goal_files \<Rightarrow> (string \<times> string \<times> exec_result) list \<Rightarrow> goal_files \<Rightarrow> bool" where
  "settles h fs tr fs' \<longleftrightarrow> distinct (keys tr) \<and> (\<forall>j. attempted_in h fs j \<subseteq> attempted_in h fs' j)
     \<and> (\<forall>(j, p) \<in> set (keys tr). p \<notin> attempted_in h fs j \<and> p \<in> attempted_in h fs' j)"

lemma settles_nil: "(\<And>j. attempted_in h fs j \<subseteq> attempted_in h fs' j) \<Longrightarrow> settles h fs [] fs'"
  by (simp add: settles_def keys_def)

lemma settles_trans: "settles h fs tr fs1 \<Longrightarrow> settles h fs1 tr' fs2 \<Longrightarrow> settles h fs (tr @ tr') fs2"
  unfolding settles_def keys_append distinct_append set_append by fast

lemma exec_goal_moves:
  fixes goals :: "string \<Rightarrow> goal option"
  assumes "clean_store (tc_host tc) (wd_files (xp_world st))" "file_goal (tc_host tc) (wd_files (xp_world st)) (gid g) = Some g"
    and "\<And>n. \<not> at_save_fails (slot n)"
  defines "st' \<equiv> exec_goal tc slot goals g st"
  shows "clean_store (tc_host tc) (wd_files (xp_world st'))
    \<and> (\<forall>j. j \<noteq> gid g \<longrightarrow> file_goal (tc_host tc) (wd_files (xp_world st')) j = file_goal (tc_host tc) (wd_files (xp_world st)) j)
    \<and> (\<exists>tr. xp_trace st' = xp_trace st @ tr \<and> settles (tc_host tc) (wd_files (xp_world st)) tr (wd_files (xp_world st')))"
proof -
  let ?h = "tc_host tc"
  obtain allowed stage why where gate: "design_gate (tc_wide tc) (tc_logs tc) goals g = (allowed, stage, why)" by (metis prod_cases3)
  have so: "store_ok ?h (wd_files (xp_world st))" using assms(1) by (simp add: clean_store_def)
  show ?thesis
  proof (cases allowed)
    case False
    show ?thesis
    proof (cases "list_ex (\<lambda>e. ev_kind e = EV_DECISION \<and> ev_ref e = Some (''governance:'' @ stage)) (evidence g)")
      case True
      then show ?thesis
        using assms(1) False by (auto simp: st'_def exec_goal_def gate record_governance_block_def Let_def intro!: settles_nil)
    next
      case f: False
      define g' where "g' = add_evidence EV_DECISION
        ((utf8 [0xC124, 0xACC4, 0x20, 0xBBF8, 0xC644, 0x20, 0x2014] @ '' specialist '' @ utf8 [0xC2E4, 0xD589,
          0x20, 0xCC28, 0xB2E8] @ '' (stage='') @ stage @ ''): '' @ why) (Some (''governance:'' @ stage))
        (at_clock (slot (xp_n st)) 0) (at_clock (slot (xp_n st)) 1) g"
      have g': "gid g' = gid g" "packets g' = packets g" "attempted_packet_ids g \<subseteq> attempted_packet_ids g'"
        by (auto simp: g'_def add_evidence_def attempted_packet_ids_def packet_refs_iff)
      have st': "xp_trace st' = xp_trace st" "wd_files (xp_world st') = put_goal g' (wd_files (xp_world st))"
        using False f assms(3) by (auto simp: st'_def exec_goal_def gate record_governance_block_def Let_def save_quietly_files g'_def)
      note put = stored_put[OF so assms(2) g'(1)]
      have "clean_store ?h (put_goal g' (wd_files (xp_world st)))"
        using assms(1,2) put g'(2) by (auto simp: clean_store_def packets_clean_def split: if_splits)
      moreover have "attempted_in ?h (wd_files (xp_world st)) j \<subseteq> attempted_in ?h (put_goal g' (wd_files (xp_world st))) j" for j
        using put(2) g'(3) assms(2) by (auto simp: attempted_in_def)
      ultimately show ?thesis using put(2) by (auto simp: st' intro!: settles_nil)
    qed
  next
    case True
    let ?ps = "py_take (tc_max_packets tc) (pending_packets g)"
    show ?thesis
    proof (cases "pending_packets g = []")
      case p: True
      then show ?thesis using True assms(1) by (auto simp: st'_def exec_goal_def gate intro!: settles_nil)
    next
      case False
      have st': "st' = attempt_packets tc slot (gid g) ?ps g st" using True False by (simp add: st'_def exec_goal_def gate)
      have cl: "packets_clean g" using assms(1,2) by (auto simp: clean_store_def)
      have "distinct ?ps" using cl by (auto simp: packets_clean_def pending_packets_def proposed_packet_ids_def intro: distinct_py_take)
      moreover have "list_all (\<lambda>p. py_strip p = p \<and> p \<noteq> []) ?ps" "set ?ps \<inter> attempted_packet_ids g = {}"
        using cl set_py_take[of "tc_max_packets tc" "pending_packets g"]
        by (auto simp: packets_clean_def pending_packets_def proposed_packet_ids_def list_all_iff packet_refs_iff)
      ultimately have A: "clean_store ?h (wd_files (xp_world st'))
        \<and> (\<forall>j. j \<noteq> gid g \<longrightarrow> file_goal ?h (wd_files (xp_world st')) j = file_goal ?h (wd_files (xp_world st)) j)
        \<and> attempted_packet_ids g \<subseteq> attempted_in ?h (wd_files (xp_world st')) (gid g)
        \<and> (\<exists>tr. xp_trace st' = xp_trace st @ tr \<and> set (keys tr) \<subseteq> {gid g} \<times> set ?ps \<and> distinct (keys tr)
         \<and> (\<forall>(j, p) \<in> set (keys tr). p \<in> attempted_in ?h (wd_files (xp_world st')) (gid g)))"
        unfolding st' by (intro attempts_once assms)
      then have m: "attempted_in ?h (wd_files (xp_world st)) j \<subseteq> attempted_in ?h (wd_files (xp_world st')) j" for j
        using assms(2) by (cases "j = gid g") (auto simp: attempted_in_def)
      obtain tr where tr: "xp_trace st' = xp_trace st @ tr" "set (keys tr) \<subseteq> {gid g} \<times> set ?ps" "distinct (keys tr)"
        "\<forall>(j, p) \<in> set (keys tr). p \<in> attempted_in ?h (wd_files (xp_world st')) (gid g)" using A by blast
      have "settles ?h (wd_files (xp_world st)) tr (wd_files (xp_world st'))"
        using m tr(2,3,4) assms(2) \<open>set ?ps \<inter> _ = {}\<close> by (fastforce simp: settles_def attempted_in_def)
      then show ?thesis using A tr(1) by blast
    qed
  qed
qed

lemma exec_goals_move:
  fixes goals :: "string \<Rightarrow> goal option"
  assumes "clean_store (tc_host tc) (wd_files (xp_world st))" "distinct (map gid gs)"
    and "\<forall>g \<in> set gs. file_goal (tc_host tc) (wd_files (xp_world st)) (gid g) = Some g" "\<And>n. \<not> at_save_fails (slot n)"
  shows "clean_store (tc_host tc) (wd_files (xp_world (fold (exec_goal tc slot goals) gs st)))
    \<and> (\<exists>tr. xp_trace (fold (exec_goal tc slot goals) gs st) = xp_trace st @ tr
      \<and> settles (tc_host tc) (wd_files (xp_world st)) tr (wd_files (xp_world (fold (exec_goal tc slot goals) gs st))))"
  using assms(1-3)
proof (induction gs arbitrary: st)
  case Nil
  then show ?case by (auto intro: settles_nil)
next
  case (Cons g gs)
  let ?st = "exec_goal tc slot goals g st"
  obtain tr where S: "clean_store (tc_host tc) (wd_files (xp_world ?st))"
    "\<forall>j. j \<noteq> gid g \<longrightarrow> file_goal (tc_host tc) (wd_files (xp_world ?st)) j = file_goal (tc_host tc) (wd_files (xp_world st)) j"
    "xp_trace ?st = xp_trace st @ tr" "settles (tc_host tc) (wd_files (xp_world st)) tr (wd_files (xp_world ?st))"
    using exec_goal_moves[where goals = goals and slot = slot, OF Cons.prems(1) _ assms(4), of g] Cons.prems(3) by auto
  have "\<forall>g' \<in> set gs. file_goal (tc_host tc) (wd_files (xp_world ?st)) (gid g') = Some g'"
    using S(2) Cons.prems(3) distinct_map_Cons[OF Cons.prems(2)] by auto
  then obtain tr' where T: "clean_store (tc_host tc) (wd_files (xp_world (fold (exec_goal tc slot goals) gs ?st)))"
    "xp_trace (fold (exec_goal tc slot goals) gs ?st) = xp_trace ?st @ tr'"
    "settles (tc_host tc) (wd_files (xp_world ?st)) tr' (wd_files (xp_world (fold (exec_goal tc slot goals) gs ?st)))"
    using Cons.IH[OF S(1)] Cons.prems(2) by auto
  show ?case
    using T(1,2) settles_trans[OF S(4) T(3)] S(3) by (auto intro!: exI[of _ "tr @ tr'"])
qed

lemma exec_goal_frame:
  fixes goals :: "string \<Rightarrow> goal option" and slot :: "nat \<Rightarrow> attempt"
  assumes "store_ok (tc_host tc) (wd_files (xp_world st))" "file_goal (tc_host tc) (wd_files (xp_world st)) (gid g) = Some g"
    "0 \<le> tc_max_packets tc"
  defines "st' \<equiv> exec_goal tc slot goals g st"
  shows "store_ok (tc_host tc) (wd_files (xp_world st'))
    \<and> (\<forall>j. j \<noteq> gid g \<longrightarrow> file_goal (tc_host tc) (wd_files (xp_world st')) j = file_goal (tc_host tc) (wd_files (xp_world st)) j)
    \<and> (\<exists>tr. xp_trace st' = xp_trace st @ tr \<and> int (length tr) \<le> tc_max_packets tc
         \<and> (\<forall>(i, p, r) \<in> set tr. i = gid g \<and> p \<in> set (pending_packets g) \<and> fst (design_gate (tc_wide tc) (tc_logs tc) goals g)))"
proof -
  obtain allowed stage why where gate: "design_gate (tc_wide tc) (tc_logs tc) goals g = (allowed, stage, why)" by (metis prod_cases3)
  consider (closed) "\<not> allowed" | (idle) "allowed" "pending_packets g = []" | (run) "allowed" "pending_packets g \<noteq> []" by blast
  then show ?thesis
  proof cases
    case closed
    have "wd_files (xp_world st') = wd_files (xp_world st) \<or> (\<exists>s r t u. wd_files (xp_world st') =
        put_goal (add_evidence EV_DECISION s r t u g) (wd_files (xp_world st)))"
      using closed by (auto simp: st'_def exec_goal_def gate record_governance_block_def Let_def save_quietly_files)
    then show ?thesis
      using stored_put[OF assms(1,2)] assms closed by (auto simp: st'_def exec_goal_def gate)
  next
    case idle
    then show ?thesis using assms by (auto simp: st'_def exec_goal_def gate)
  next
    case run
    let ?ps = "py_take (tc_max_packets tc) (pending_packets g)"
    have st': "st' = attempt_packets tc slot (gid g) ?ps g st" using run by (simp add: st'_def exec_goal_def gate)
    obtain tr where tr: "xp_trace st' = xp_trace st @ tr" "map (\<lambda>(j, p, r). (j, p)) tr = map (Pair (gid g)) ?ps"
      "store_ok (tc_host tc) (wd_files (xp_world st'))"
      "\<forall>j. j \<noteq> gid g \<longrightarrow> file_goal (tc_host tc) (wd_files (xp_world st')) j = file_goal (tc_host tc) (wd_files (xp_world st)) j"
      using attempts_frame[of tc st g "gid g" slot ?ps] assms(1,2) by (auto simp: st')
    have "length tr = length ?ps" using arg_cong[OF tr(2), of length] by simp
    then have "int (length tr) \<le> tc_max_packets tc" using assms(3) by (simp add: py_take_def)
    moreover have "i = gid g \<and> p \<in> set (pending_packets g)" if "(i, p, r) \<in> set tr" for i p r
    proof -
      have "(i, p) \<in> set (map (Pair (gid g)) ?ps)" unfolding tr(2)[symmetric] using that by force
      then show ?thesis using set_py_take[of "tc_max_packets tc" "pending_packets g"] by auto
    qed
    ultimately show ?thesis using tr(1,3,4) run by (auto simp: gate)
  qed
qed

text \<open>What makes packet \<open>p\<close> of \<open>g\<close> fair game: the goal is active and designed where it has to be, the packet proposed
  and not attempted before.\<close>

definition may_attempt :: "ticker \<Rightarrow> (string \<Rightarrow> goal option) \<Rightarrow> goal \<Rightarrow> string \<Rightarrow> bool" where
  "may_attempt tc goals g p \<longleftrightarrow> gstatus g = ACTIVE \<and> p \<in> set (packets g) \<and> p \<in> packet_refs g EV_PROPOSAL
     \<and> p \<notin> packet_refs g EV_EXECUTION \<and> p \<notin> packet_refs g EV_DECISION
     \<and> (is_governance_required (governance_anchor g goals) \<longrightarrow>
          design_ready (tc_wide tc) (tc_logs tc) (gid (governance_anchor g goals)))"

lemma exec_goals_frame:
  assumes "store_ok (tc_host tc) (wd_files (xp_world st))" "distinct (map gid gs)" "0 \<le> tc_max_packets tc"
    "\<forall>g \<in> set gs. gstatus g = ACTIVE \<and> file_goal (tc_host tc) (wd_files (xp_world st)) (gid g) = Some g"
  shows "(\<forall>j. j \<notin> gid ` set gs \<longrightarrow> file_goal (tc_host tc) (wd_files (xp_world (fold (exec_goal tc slot goals) gs st))) j
        = file_goal (tc_host tc) (wd_files (xp_world st)) j)
    \<and> (\<exists>tr. xp_trace (fold (exec_goal tc slot goals) gs st) = xp_trace st @ tr
      \<and> int (length tr) \<le> int (length gs) * tc_max_packets tc
      \<and> (\<forall>(i, p, r) \<in> set tr. \<exists>g \<in> set gs. i = gid g \<and> may_attempt tc goals g p))"
  using assms(1,2,4)
proof (induction gs arbitrary: st)
  case Nil
  then show ?case by simp
next
  case (Cons g gs)
  let ?st = "exec_goal tc slot goals g st"
  obtain tr where S: "store_ok (tc_host tc) (wd_files (xp_world ?st))"
    "\<forall>j. j \<noteq> gid g \<longrightarrow> file_goal (tc_host tc) (wd_files (xp_world ?st)) j = file_goal (tc_host tc) (wd_files (xp_world st)) j"
    "xp_trace ?st = xp_trace st @ tr" "int (length tr) \<le> tc_max_packets tc"
    "\<forall>(i, p, r) \<in> set tr. i = gid g \<and> p \<in> set (pending_packets g) \<and> fst (design_gate (tc_wide tc) (tc_logs tc) goals g)"
    using exec_goal_frame[where goals = goals and slot = slot, OF Cons.prems(1) _ assms(3), of g] Cons.prems(3) by auto
  have "\<forall>g' \<in> set gs. gstatus g' = ACTIVE \<and> file_goal (tc_host tc) (wd_files (xp_world ?st)) (gid g') = Some g'"
    using S(2) Cons.prems(3) distinct_map_Cons[OF Cons.prems(2)] by auto
  note IH = Cons.IH[OF S(1) _ this]
  have head: "\<forall>(i, p, r) \<in> set tr. i = gid g \<and> may_attempt tc goals g p"
    using S(5) Cons.prems(3)
    by (auto simp: may_attempt_def design_gate_allows pending_packets_def proposed_packet_ids_def attempted_packet_ids_def)
  obtain tr' where T: "xp_trace (fold (exec_goal tc slot goals) gs ?st) = xp_trace ?st @ tr'"
    "int (length tr') \<le> int (length gs) * tc_max_packets tc"
    "\<forall>(i, p, r) \<in> set tr'. \<exists>g \<in> set gs. i = gid g \<and> may_attempt tc goals g p"
    "\<forall>j. j \<notin> gid ` set gs \<longrightarrow> file_goal (tc_host tc) (wd_files (xp_world (fold (exec_goal tc slot goals) gs ?st))) j
        = file_goal (tc_host tc) (wd_files (xp_world ?st)) j"
    using IH Cons.prems(2) by auto
  have n: "int (length (tr @ tr')) \<le> int (length (g # gs)) * tc_max_packets tc" using S(4) T(2) by (simp add: distrib_right)
  have f: "fold (exec_goal tc slot goals) (g # gs) st = fold (exec_goal tc slot goals) gs ?st" by simp
  have m: "\<forall>(i, p, r) \<in> set (tr @ tr'). \<exists>g' \<in> set (g # gs). i = gid g' \<and> may_attempt tc goals g' p"
    using head T(3) by fastforce
  have e: "xp_trace (fold (exec_goal tc slot goals) gs ?st) = xp_trace st @ tr @ tr'" using T(1) S(3) by simp
  show ?case unfolding f using e n m S(2) T(4) by fastforce
qed

text \<open>The goals a tick reads from a store whose files are in order.\<close>

lemma read_store:
  assumes "store_ok h fs"
  obtains gs where "load_all h fs = Inr gs" "distinct (map gid gs)" "\<forall>g \<in> set gs. file_goal h fs (gid g) = Some g" "by_id gs = view h fs"
proof -
  have "files_ok fs" using assms by (simp add: store_ok_def)
  then obtain gs where gs: "load_all h fs = Inr gs" by (rule load_all_ok[where h = h])
  show ?thesis
    using start_pass_ok[OF assms gs, of 0] by (intro that[OF gs]) (auto simp: view_def start_pass_def split: if_splits)
qed

lemma distinct_map_py_take: "distinct (map f xs) \<Longrightarrow> distinct (map f (py_take n xs))"
  by (simp add: py_take_def take_map[symmetric] distinct_take)

lemma active_goals_sub: "set (active_goals tc gs) \<subseteq> {g \<in> set gs. gstatus g = ACTIVE}"
  using set_py_take[of "tc_max_goals tc" "filter (\<lambda>g. gstatus g = ACTIVE) gs"] by (auto simp: active_goals_def)

lemma active_goals_distinct: "distinct (map gid gs) \<Longrightarrow> distinct (map gid (active_goals tc gs))"
  by (simp add: active_goals_def distinct_map_py_take distinct_map_filter)

lemma exec_tick_moves:
  assumes "clean_store (tc_host tc) (wd_files w)" "\<And>n. \<not> at_save_fails (slot n)"
  shows "clean_store (tc_host tc) (wd_files (snd (exec_tick tc slot w)))
    \<and> settles (tc_host tc) (wd_files w) (xp_trace (exec_pass_over tc slot w)) (wd_files (snd (exec_tick tc slot w)))"
proof -
  have "store_ok (tc_host tc) (wd_files w)" using assms(1) by (simp add: clean_store_def)
  then obtain gs where gs: "load_all (tc_host tc) (wd_files w) = Inr gs" "distinct (map gid gs)"
    "\<forall>g \<in> set gs. file_goal (tc_host tc) (wd_files w) (gid g) = Some g" by (rule read_store)
  show ?thesis
    using exec_goals_move[where goals = "by_id gs" and st = "start_exec w" and slot = slot and tc = tc and gs = "active_goals tc gs", OF _ active_goals_distinct[OF gs(2)] _ assms(2)]
      assms(1) gs(3) active_goals_sub[of tc gs]
    by (auto simp: exec_tick_def exec_pass_over_def gs(1) Let_def start_exec_def)
qed

section \<open>Properties\<close>

text \<open>A history of the store: ticks, whose settings and hosts may differ from one to the next, and whatever else
  writes goals, as long as it forgets no attempt.\<close>

inductive exec_history :: "json_host \<Rightarrow> world \<Rightarrow> (string \<times> string \<times> exec_result) list \<Rightarrow> world \<Rightarrow> bool" for h where
  start: "exec_history h w [] w"
| tick: "exec_history h w tr w' \<Longrightarrow> tc_host tc = h \<Longrightarrow> (\<And>n. \<not> at_save_fails (slot n)) \<Longrightarrow>
    exec_history h w (tr @ xp_trace (exec_pass_over tc slot w')) (snd (exec_tick tc slot w'))"
| edit: "exec_history h w tr w' \<Longrightarrow> clean_store h (wd_files w'') \<Longrightarrow>
    (\<And>j. attempted_in h (wd_files w') j \<subseteq> attempted_in h (wd_files w'') j) \<Longrightarrow> exec_history h w tr w''"

text \<open>A packet is attempted at most once. Over any history of execution ticks and other writes to the store,
  no packet of a goal is applied or refused a second time, across restarts and changes of settings, and
  none that was attempted before: provided no save fails and no other writer removes the record of an attempt. Attempts that end
  in an error leave no record and are not covered.\<close>

lemma attempted_once:
  assumes "clean_store h (wd_files w)" and "exec_history h w tr w'"
  shows "distinct (keys tr) \<and> (\<forall>(i, p) \<in> set (keys tr). p \<notin> attempted_in h (wd_files w) i \<and> p \<in> attempted_in h (wd_files w') i)"
proof -
  have "clean_store h (wd_files w') \<and> settles h (wd_files w) tr (wd_files w')"
    using assms(2,1)
  proof (induction rule: exec_history.induct)
    case (start w)
    then show ?case by (simp add: settles_nil)
  next
    case (tick w tr w' tc slot)
    then have c: "clean_store (tc_host tc) (wd_files w')" "settles h (wd_files w) tr (wd_files w')" by auto
    show ?case using exec_tick_moves[OF c(1) tick(3)] settles_trans[OF c(2)] tick(2) by auto
  next
    case (edit w tr w' w'')
    then have "settles h (wd_files w) (tr @ []) (wd_files w'')" by (intro settles_trans[of _ _ _ "wd_files w'"] settles_nil) auto
    then show ?case using edit(2) by simp
  qed
  then show ?thesis by (simp add: settles_def)
qed

text \<open>C9: What one execution tick may attempt. Every attempt is at a packet of one of the first \<open>max_goals\<close> active
  goals, proposed, not attempted before, and only when the goal needs no design or its design chain is signed
  through; at most \<open>max_packets\<close> packets of a goal are attempted, and the file of no other goal changes. This
  holds whatever the host, the saves and git do.\<close>

theorem exec_tick_gated:
  assumes "store_ok (tc_host tc) (wd_files w)" and "0 \<le> tc_max_goals tc" and "0 \<le> tc_max_packets tc"
  shows "\<exists>gs. load_all (tc_host tc) (wd_files w) = Inr gs
    \<and> (\<forall>(i, p, r) \<in> set (xp_trace (exec_pass_over tc slot w)).
         \<exists>g \<in> set (active_goals tc gs). i = gid g \<and> may_attempt tc (by_id gs) g p)
    \<and> int (length (xp_trace (exec_pass_over tc slot w))) \<le> tc_max_goals tc * tc_max_packets tc
    \<and> (\<forall>j. j \<notin> gid ` set (active_goals tc gs) \<longrightarrow>
         file_goal (tc_host tc) (wd_files (snd (exec_tick tc slot w))) j = file_goal (tc_host tc) (wd_files w) j)"
proof -
  obtain gs where gs: "load_all (tc_host tc) (wd_files w) = Inr gs" "distinct (map gid gs)"
    "\<forall>g \<in> set gs. file_goal (tc_host tc) (wd_files w) (gid g) = Some g" by (rule read_store[OF assms(1)])
  have "length (active_goals tc gs) \<le> nat (tc_max_goals tc)" using assms(2) by (simp add: active_goals_def py_take_def)
  then have "int (length (active_goals tc gs)) * tc_max_packets tc \<le> tc_max_goals tc * tc_max_packets tc"
    using assms(2,3) by (intro mult_right_mono) auto
  moreover have "distinct (map gid (active_goals tc gs))" "\<forall>g \<in> set (active_goals tc gs).
      gstatus g = ACTIVE \<and> file_goal (tc_host tc) (wd_files (xp_world (start_exec w))) (gid g) = Some g"
    using gs(3) active_goals_sub[of tc gs] active_goals_distinct[OF gs(2)] by (auto simp: start_exec_def)
  ultimately show ?thesis
    using exec_goals_frame[of tc "start_exec w" "active_goals tc gs" slot "by_id gs"] assms(1,3) gs(1)
    by (intro exI[of _ gs]) (fastforce simp: exec_tick_def exec_pass_over_def Let_def start_exec_def)
qed

text \<open>Goals can wait for ever. When each of the first \<open>max_goals\<close> active goals has nothing left to attempt, or a
  refusal of the design gate already on record, no number of ticks changes anything: every active goal behind
  them, with whatever approved packets, is never reached.\<close>

lemma idle_goals_starve:
  assumes "load_all (tc_host tc) (wd_files w) = Inr gs"
    and "\<forall>g \<in> set (active_goals tc gs). case design_gate (tc_wide tc) (tc_logs tc) (by_id gs) g of (allowed, stage, why) \<Rightarrow>
      if allowed then pending_packets g = []
      else \<exists>e \<in> set (evidence g). ev_kind e = EV_DECISION \<and> ev_ref e = Some (''governance:'' @ stage)"
  shows "fold (\<lambda>slot w. snd (exec_tick tc slot w)) slots w = w"
proof -
  have "xp_world (exec_goal tc slot (by_id gs) g st) = xp_world st" if "g \<in> set (active_goals tc gs)" for g st slot
    using assms(2) that by (fastforce simp: exec_goal_def record_governance_block_def Let_def list_ex_iff split: prod.splits)
  then have "xp_world (fold (exec_goal tc slot (by_id gs)) xs st) = xp_world st" if "set xs \<subseteq> set (active_goals tc gs)" for xs st slot
    using that by (induction xs arbitrary: st) auto
  then have "snd (exec_tick tc slot w) = w" for slot
    by (simp add: exec_tick_def exec_pass_over_def assms(1) Let_def) (simp add: start_exec_def)
  then show ?thesis by (induction slots) auto
qed

section \<open>A sample store\<close>

definition sample_ticker :: ticker where
  "sample_ticker = \<lparr>tc_host = plain_json, tc_wide = (\<lambda>_. False), tc_mutator = sample_mutator, tc_max_goals = 1,
     tc_max_packets = 2, tc_approver = ''operator'', tc_logs = (\<lambda>_. [])\<rparr>"

definition sample_world :: world where
  "sample_world = empty_world\<lparr>wd_files := [(''g'', to_dict sample_goal)]\<rparr>"

definition idle_goal :: goal where
  "idle_goal = sample_goal\<lparr>gid := ''i'', packets := [], evidence := [], gupdated_at := ''u''\<rparr>"

lemma sample_goals: "gid sample_goal = ''g''" "packets sample_goal = [''p1'']" "py_strip ''p1'' = ''p1''" "safe_id ''g''" "py_strip ''g'' = ''g''"
  "pending_packets sample_goal = [''p1'']" "pending_packets idle_goal = []" "parent_id sample_goal = None" "parent_id idle_goal = None"
  "\<not> is_governance_required sample_goal" "\<not> is_governance_required idle_goal" "gupdated_at sample_goal < gupdated_at idle_goal"
  "active_goals sample_ticker [sample_goal] = [sample_goal]" "active_goals sample_ticker [idle_goal, sample_goal] = [idle_goal]"
  by code_simp+

lemma no_design_needed: "parent_id g = None \<Longrightarrow> \<not> is_governance_required g \<Longrightarrow> design_gate wide logs goals g = (True, ''not_required'', [])"
  by (simp add: design_gate_def governance_anchor_def Let_def)

lemma sample_store: "clean_store plain_json (wd_files sample_world)"
  "load_all plain_json (wd_files sample_world) = Inr [sample_goal]"
proof -
  have f: "file_goal plain_json (wd_files sample_world) s = (if s = ''g'' then Some sample_goal else None)" for s
    by (simp add: sample_world_def file_goal_def goal_json_roundtrip_eq)
  have "files_ok (wd_files sample_world)" by (auto simp: sample_world_def files_ok_def sample_goals)
  then show "clean_store plain_json (wd_files sample_world)"
    by (auto simp: clean_store_def store_ok_def f packets_clean_def sample_goals split: if_splits)
  show "load_all plain_json (wd_files sample_world) = Inr [sample_goal]"
    by (simp add: sample_world_def load_all_def hidden_def goal_json_roundtrip_eq)
qed

lemma sample_pass:
  "\<exists>r. xp_trace (exec_pass_over sample_ticker (\<lambda>_. sample_attempt v) sample_world) = [(''g'', ''p1'', r)] \<and> xr_outcome r \<noteq> OUTCOME_ERROR"
proof -
  have h: "tc_host sample_ticker = plain_json" "tc_wide sample_ticker = (\<lambda>_. False)" "tc_logs sample_ticker = (\<lambda>_. [])"
    "py_take (tc_max_packets sample_ticker) [''p1''] = [''p1'']" by (simp_all add: sample_ticker_def py_take_def)
  obtain r w where e: "execute_approved_packet (sample_attempt v) True (tc_approver sample_ticker) (Some (tc_mutator sample_ticker))
      (Some ''p1'') sample_goal sample_world = (r, w)" by fastforce
  have "xr_outcome r \<noteq> OUTCOME_ERROR"
    using e
  proof (cases rule: execute_cases)
    case (error pid err)
    then show ?thesis by (simp add: sample_resolved)
  next
    case (refused pid finding risk why)
    then show ?thesis by simp
  next
    case (applied pid finding k)
    then show ?thesis
      by (auto simp: apply_real_execution_def Let_def not_executed_def
          split: prod.splits if_splits sum.splits)
  qed
  then show ?thesis
    by (simp add: exec_pass_over_def h sample_store sample_goals exec_goal_def no_design_needed start_exec_def e)
qed

theorem exec_tick_gated_witness:
  "\<exists>r. xp_trace (exec_pass_over sample_ticker (\<lambda>_. sample_attempt plain_git) sample_world) = [(''g'', ''p1'', r)]
     \<and> may_attempt sample_ticker (by_id [sample_goal]) sample_goal ''p1''"
proof -
  have s: "store_ok (tc_host sample_ticker) (wd_files sample_world)" "0 \<le> tc_max_goals sample_ticker" "0 \<le> tc_max_packets sample_ticker"
    "tc_host sample_ticker = plain_json"
    using sample_store(1) by (simp_all add: sample_ticker_def clean_store_def)
  show ?thesis
    using exec_tick_gated[OF s(1,2,3), of "\<lambda>_. sample_attempt plain_git"] sample_pass[of plain_git]
    by (auto simp: s(4) sample_store(2) sample_goals)
qed

end
