(* ===== verification/GoalSchedulerProps.thy ===== *)
theory GoalSchedulerProps
  imports GoalScheduler GoalRunProps
begin

text \<open>
  What scheduler ticks do to the stored goals, and how they meet the execution and continuation ticks.
\<close>

section \<open>Linking and splitting\<close>

text \<open>A goal with new proposals and design records, possibly parked for the operator.\<close>

definition proposes :: "goal \<Rightarrow> goal \<Rightarrow> bool" where
  "proposes g g' \<longleftrightarrow> (gid g', title g', intent g', mode g', parent_id g') = (gid g, title g, intent g, mode g, parent_id g)
     \<and> set (packets g) \<subseteq> set (packets g') \<and> (packets_clean g \<longrightarrow> packets_clean g')
     \<and> (gstatus g' = gstatus g \<or> gstatus g = ACTIVE \<and> gstatus g' = AWAITING_APPROVAL)
     \<and> (\<exists>es. evidence g' = evidence g @ es \<and> (\<forall>e \<in> set es. ev_kind e \<in> {EV_PROPOSAL, EV_PLAN, GOV_REQUIRED}))"

lemma proposes_refl: "proposes g g"
  by (simp add: proposes_def)

lemma proposes_trans: "proposes g g1 \<Longrightarrow> proposes g1 g2 \<Longrightarrow> proposes g g2"
  by (auto simp: proposes_def)

lemma proposes_evidence: "proposes g g1 \<Longrightarrow> kind \<in> {EV_PROPOSAL, EV_PLAN, GOV_REQUIRED} \<Longrightarrow> proposes g (add_evidence kind s r t u g1)"
  by (auto simp: proposes_def add_evidence_def packets_clean_def)

lemma park_from: "can_transition s AWAITING_APPROVAL \<longleftrightarrow> s = ACTIVE"
  by (cases s) (simp_all add: can_transition_def)

lemma link_each_clean:
  "hex_digits h \<Longrightarrow> link_each clock h ps k g = Inr (g', x) \<Longrightarrow> packets_clean g \<Longrightarrow> packets_clean g'"
proof (induction ps arbitrary: k g g' x)
  case Nil
  then show ?case by simp
next
  case (Cons p ps)
  from Cons.prems(2) obtain g1 k1 y where g1: "link_packet (packet_id h p) (clock k) g = Inr g1"
    "link_each clock h ps (k1 + 2) (add_evidence EV_PROPOSAL (proposal_text p) (Some (packet_id h p)) (clock k1) (clock (k1 + 1)) g1) = Inr (g', y)"
    by (auto simp: Let_def and_then_Inr)
  have "packets_clean g1"
    using g1(1) Cons.prems(1,3) by (auto simp: link_packet_def packets_clean_def packet_id_clean Let_def split: if_splits)
  then have "packets_clean (add_evidence EV_PROPOSAL s r t u g1)" for s r t u by (simp add: packets_clean_def)
  then show ?case using Cons.IH[OF Cons.prems(1) g1(2)] by simp
qed

lemma link_proposes:
  assumes "hex_digits h" "link_packets clock h ps k g = Inr (g', rs, n, k')"
  shows "proposes g g'" "children g' = children g" "n = length (filter (\<lambda>p. im_risk p \<noteq> RISK_SAFE) ps)"
    "set (packets g') = set (packets g) \<union> packet_id h ` set ps"
    "gstatus g' = (if list_ex (\<lambda>p. im_risk p \<noteq> RISK_SAFE) ps \<and> can_transition (gstatus g) AWAITING_APPROVAL
       then AWAITING_APPROVAL else gstatus g)"
    "\<exists>es. evidence g' = evidence g @ es \<and> map ev_ref es = map (\<lambda>p. Some (packet_id h p)) ps \<and> (\<forall>e \<in> set es. ev_kind e = EV_PROPOSAL)"
proof -
  obtain es where r: "goal_frame g g'" "set (packets g') = set (packets g) \<union> packet_id h ` set ps"
    "gstatus g' = (if list_ex (\<lambda>p. im_risk p \<noteq> RISK_SAFE) ps \<and> can_transition (gstatus g) AWAITING_APPROVAL
       then AWAITING_APPROVAL else gstatus g)" "n = length (filter (\<lambda>p. im_risk p \<noteq> RISK_SAFE) ps)"
    "evidence g' = evidence g @ es"
    "map (\<lambda>e. (ev_kind e, ev_summary e, ev_ref e)) es = map (\<lambda>p. (EV_PROPOSAL, proposal_text p, Some (packet_id h p))) ps"
    using link_packets_result[OF assms(1), of clock ps k g] assms(2) by (auto simp: prod_eq_iff)
  have "map ev_kind es = map (\<lambda>_. EV_PROPOSAL) ps"
    using arg_cong[OF r(6), of "map fst"] by (simp add: comp_def)
  then have k: "\<forall>e \<in> set es. ev_kind e = EV_PROPOSAL" by (metis (no_types, lifting) image_iff list.set_map)
  have f: "map ev_ref es = map (\<lambda>p. Some (packet_id h p)) ps"
    using arg_cong[OF r(6), of "map (\<lambda>x. snd (snd x))"] by (simp add: comp_def)
  have c: "packets_clean g \<Longrightarrow> packets_clean g'"
  proof -
    assume "packets_clean g"
    obtain g1 k1 where g1: "link_each clock h ps k g = Inr (g1, rs, n, k1)" "packets g' = packets g1"
      using assms(2) by (auto simp: link_packets_def and_then_Inr apply_status_def with_status_def split: if_splits)
    then have "packets_clean g1" using link_each_clean[OF assms(1) g1(1)] \<open>packets_clean g\<close> by simp
    then show ?thesis by (simp add: packets_clean_def g1(2))
  qed
  show "proposes g g'" using r c k by (auto simp: proposes_def goal_frame_def park_from split: if_splits)
  show "children g' = children g" using r(1) by (simp add: goal_frame_def)
  show "n = length (filter (\<lambda>p. im_risk p \<noteq> RISK_SAFE) ps)" by (fact r(4))
  show "set (packets g') = set (packets g) \<union> packet_id h ` set ps" by (fact r(2))
  show "gstatus g' = (if list_ex (\<lambda>p. im_risk p \<noteq> RISK_SAFE) ps \<and> can_transition (gstatus g) AWAITING_APPROVAL
       then AWAITING_APPROVAL else gstatus g)" by (fact r(3))
  show "\<exists>es. evidence g' = evidence g @ es \<and> map ev_ref es = map (\<lambda>p. Some (packet_id h p)) ps \<and> (\<forall>e \<in> set es. ev_kind e = EV_PROPOSAL)"
    using r(5) f k by blast
qed

text \<open>A child as a split leaves it: a draft with proposals only.\<close>

definition newborn :: "string \<Rightarrow> goal \<Rightarrow> bool" where
  "newborn parent c \<longleftrightarrow> gstatus c = DRAFT \<and> parent_id c = Some parent \<and> children c = [] \<and> packets_clean c
     \<and> (\<forall>e \<in> set (evidence c). ev_kind e = EV_PROPOSAL)"

lemma decompose_from_ids:
  "decompose_from clock uuid None parent ss i k g = Inr (g', cs, k') \<Longrightarrow>
    map gid cs = map uuid [i..<i + length cs] \<and> (\<forall>c \<in> set cs. children c = [] \<and> evidence c = [])"
proof (induction ss arbitrary: i k g cs)
  case Nil
  then show ?case by simp
next
  case (Cons s ss)
  then obtain c cs' g1 k1 where c: "create (step_title s) (step_intent s) (mode parent) (Some (gid parent)) None (uuid i) (clock k) = Inr c"
    "decompose_from clock uuid None parent ss (i + 1) k1 g1 = Inr (g', cs', k')" "cs = c # cs'"
    by (auto simp: and_then_Inr)
  have "gid c = uuid i" using c(1) by (auto simp: create_def Let_def split: if_splits)
  moreover have "[i..<i + length cs] = i # [i + 1..<i + 1 + length cs']" by (simp add: c(3) upt_conv_Cons del: upt_Suc)
  ultimately show ?case using Cons.IH[OF c(2)] create_draft[OF c(1)] by (simp add: c(3) del: upt_Suc)
qed

lemma route_areas_newborn:
  assumes "hex_digits h" "route_areas clock h ps k (zip steps cs) = Inr made" "length steps = length cs"
    "\<forall>c \<in> set cs. newborn p c"
  shows "map gid made = map gid cs \<and> (\<forall>c \<in> set made. newborn p c)
    \<and> map (\<lambda>c. set (packets c)) made = map2 (\<lambda>s c. set (packets c) \<union> packet_id h ` set (area_packets (step_title s) ps)) steps cs"
  using assms(2-4)
proof (induction steps arbitrary: cs k made)
  case Nil
  then show ?case by simp
next
  case (Cons s steps)
  then obtain c cs' where cs: "cs = c # cs'" by (cases cs) auto
  with Cons.prems(1) obtain c1 rs n k1 made' where c1: "link_packets clock h (area_packets (step_title s) ps) k c = Inr (c1, rs, n, k1)"
    "route_areas clock h ps k1 (zip steps cs') = Inr made'" "made = c1 # made'"
    by (auto simp: and_then_Inr)
  note L = link_proposes[OF assms(1) c1(1)]
  have n: "newborn p c" using Cons.prems(3) by (simp add: cs)
  then have "gstatus c1 = DRAFT" using L(5) by (simp add: newborn_def can_transition_def)
  then have "newborn p c1" using n L(1,2,6) by (auto simp: newborn_def proposes_def)
  moreover have "gid c1 = gid c" using L(1) by (simp add: proposes_def)
  ultimately show ?case
    using Cons.IH[OF c1(2)] Cons.prems(2,3) L(4) by (simp add: cs c1(3))
qed

lemma area_key_strip: "py_strip (area_key a) = area_key a"
  by (simp add: area_key_def Let_def) (simp add: py_strip_def py_lstrip_def py_rstrip_def py_space_def)

lemma step_titles: "s \<in> set (derive_plan_steps items) \<Longrightarrow> py_strip (step_title s) \<noteq> []"
  by (auto simp: derive_plan_steps_def area_key_strip) (auto simp: area_key_def Let_def split: if_splits)

lemma decompose_from_frame:
  "decompose_from clock uuid new_id parent ss i k g = Inr (g', cs, k') \<Longrightarrow>
    (title g', intent g', mode g', parent_id g') = (title g, intent g, mode g, parent_id g)"
proof (induction ss arbitrary: i k g cs)
  case Nil
  then show ?case by simp
next
  case (Cons s ss)
  from Cons.prems show ?case by (auto simp: and_then_Inr add_child_def Let_def dest!: Cons.IH split: if_splits)
qed

lemma children_in_order_self:
  assumes "distinct (map gid cs)" "children p = map gid cs"
  shows "children_in_order p (by_id cs) = cs"
proof -
  have id: "by_id cs (gid c) = Some c" if "c \<in> set cs" for c
    using that assms(1) unfolding by_id_def rev_map
    by (intro map_of_is_SomeI) (auto simp: comp_def rev_map[symmetric])
  have "List.map_filter (by_id cs) (map gid ks) = ks" if "set ks \<subseteq> set cs" for ks
    using that by (induction ks) (simp_all add: List.map_filter_def id)
  then show ?thesis by (simp add: children_in_order_def assms(2))
qed

lemma split_result:
  assumes "hex_digits h" "decompose_and_route clock clock' uuid h g ps = Inr (parent, made)"
    and "children g = []" "gstatus g = ACTIVE" "inj uuid" "\<forall>i. py_strip (uuid i) = uuid i"
  shows "proposes g parent" "gid parent = gid g" "packets parent = packets g" "gstatus parent = ACTIVE" "children parent = map gid made" "made \<noteq> []"
    "map gid made = map uuid [0..<length made]" "\<forall>c \<in> set made. newborn (gid g) c"
    "continuation_action parent made = \<lparr>move = ADVANCE, target_id = Some (gid (hd made)), reason = ActivateNext (gid (hd made))\<rparr>"
    "map (\<lambda>c. set (packets c)) made = map (\<lambda>s. packet_id h ` set (area_packets (step_title s) ps))
       (derive_plan_steps (map (\<lambda>p. (im_area p, im_finding p)) ps))"
proof -
  let ?steps = "derive_plan_steps (map (\<lambda>p. (im_area p, im_finding p)) ps)"
  obtain cs where d: "decompose clock uuid None g ?steps = Inr (parent, cs)"
    and r: "route_areas clock' h ps 0 (zip ?steps cs) = Inr made"
    using assms(2) by (auto simp: decompose_and_route_def Let_def and_then_Inr)
  have all: "filter (\<lambda>s. py_strip (step_title s) \<noteq> []) ?steps = ?steps"
using step_titles by (auto simp: filter_id_conv)
  obtain g0 k where f: "decompose_from clock uuid None g ?steps 0 0 g = Inr (g0, cs, k)"
    using d all by (auto simp: decompose_def Let_def and_then_Inr split: if_splits)
  have ids: "map gid cs = map uuid [0..<length cs]" "\<forall>c \<in> set cs. children c = [] \<and> evidence c = []"
    using decompose_from_ids[OF f] by simp_all
  have di: "distinct (map gid cs)" using assms(5) by (simp add: ids(1) distinct_map inj_on_def inj_def)
  have st: "\<forall>c \<in> set cs. py_strip (gid c) = gid c"
  proof
    fix c assume "c \<in> set cs"
    then have "gid c \<in> set (map uuid [0..<length cs])" unfolding ids(1)[symmetric] by simp
    then show "py_strip (gid c) = gid c" using assms(6) by auto
  qed
  note F = decompose_from_children[OF f st] and D = decompose_makes_plan[OF d assms(3,4) di st]
  have n: "\<forall>c \<in> set cs. newborn (gid g) c"
    using F ids(2) assms(3) di by (auto simp: newborn_def list_all_iff packets_clean_def)
  have l: "length ?steps = length cs" using F assms(3) di by simp
  note R = route_areas_newborn[OF assms(1) r l n]
  show "map gid made = map uuid [0..<length made]" using R ids(1) by (metis length_map)
  show "\<forall>c \<in> set made. newborn (gid g) c" using R by blast
  show "gid parent = gid g" "packets parent = packets g" "gstatus parent = ACTIVE" "children parent = map gid made"
    using D R assms(4) by simp_all
  have "?steps \<noteq> []" using d all by (auto simp: decompose_def Let_def split: if_splits)
  then have "cs \<noteq> []" using l by auto
  then show "made \<noteq> []" using R by (metis map_is_Nil_conv)
  have "(title parent, intent parent, mode parent, parent_id parent) = (title g, intent g, mode g, parent_id g)"
    using d all decompose_from_frame by (fastforce simp: decompose_def Let_def and_then_Inr add_evidence_def split: if_splits)
  then show "proposes g parent" using D by (auto simp: proposes_def packets_clean_def)
  obtain c rest where c: "made = c # rest" using \<open>made \<noteq> []\<close> by (cases made) auto
  have "children parent = map gid made" "distinct (map gid made)" using D R di by simp_all
  note ord = children_in_order_self[OF this(2,1)] this(1)
  have "gstatus c = DRAFT" using R c by (simp add: newborn_def)
  then show "continuation_action parent made = \<lparr>move = ADVANCE, target_id = Some (gid (hd made)), reason = ActivateNext (gid (hd made))\<rparr>"
    using continuation_follows_plan[of parent made "[]" c rest] ord D assms(4) c by simp
  have "map2 (\<lambda>s c. set (packets c) \<union> packet_id h ` set (area_packets (step_title s) ps)) ?steps cs
      = map (\<lambda>s. packet_id h ` set (area_packets (step_title s) ps)) ?steps"
    using F assms(3) di l by (intro nth_equalityI) (auto simp: list_all_length)
  then show "map (\<lambda>c. set (packets c)) made = map (\<lambda>s. packet_id h ` set (area_packets (step_title s) ps)) ?steps"
    using R by simp
qed

section \<open>The store under a tick\<close>

lemma save_sched_ok:
  assumes "store_ok h (sd_files st)" "safe_id (gid g)" "py_strip (gid g) = gid g"
  shows "save_sched g st = st\<lparr>sd_files := put_goal g (sd_files st)\<rparr>" "store_ok h (put_goal g (sd_files st))"
    "file_goal h (put_goal g (sd_files st)) j = (if j = gid g then Some g else file_goal h (sd_files st) j)"
  using assms GoalTickProps.store_ok_put[OF assms] file_goal_put[of g h "sd_files st" j]
  by (auto simp: save_sched_def save_goal_def safe_id_path put_goal_eq)

lemma save_children_ok:
  assumes "store_ok h (sd_files st)" "sd_err st = None" "\<forall>c \<in> set cs. safe_id (gid c) \<and> py_strip (gid c) = gid c \<and> gstatus c = DRAFT"
    "distinct (map gid cs)"
  shows "\<exists>fs. save_children cs st = st\<lparr>sd_files := fs\<rparr> \<and> store_ok h fs
    \<and> (\<forall>j. file_goal h fs j = (case map_of (map (\<lambda>c. (gid c, c)) cs) j of Some c \<Rightarrow> Some c | None \<Rightarrow> file_goal h (sd_files st) j))"
  using assms
proof (induction cs arbitrary: st)
  case Nil
  then show ?case by (intro exI[of _ "sd_files st"]) simp
next
  case (Cons c cs)
  let ?st = "st\<lparr>sd_files := put_goal c (sd_files st)\<rparr>"
  have c: "safe_id (gid c)" "py_strip (gid c) = gid c" "gstatus c = DRAFT" using Cons.prems(3) by auto
  note S = save_sched_ok[OF Cons.prems(1) c(1,2)]
  have e: "save_children (c # cs) st = save_children cs ?st" using Cons.prems(2) c(3) by (simp add: S(1))
  obtain fs where fs: "save_children cs ?st = ?st\<lparr>sd_files := fs\<rparr>" "store_ok h fs"
    "\<forall>j. file_goal h fs j = (case map_of (map (\<lambda>c. (gid c, c)) cs) j of Some c \<Rightarrow> Some c | None \<Rightarrow> file_goal h (sd_files ?st) j)"
    using Cons.IH[of ?st] Cons.prems(2,3,4) S(2) by auto
  have "gid c \<notin> dom (map_of (map (\<lambda>c. (gid c, c)) cs))" using Cons.prems(4) by (auto simp: dom_map_of_conv_image_fst)
  then show ?case
    using fs S(3) unfolding e by (intro exI[of _ fs]) (auto simp: domIff split: option.splits)
qed

text \<open>Ids as \<open>uuid4\<close> gives them: usable, different from each other and from those in the store.\<close>

definition fresh_ids :: "json_host \<Rightarrow> goal_files \<Rightarrow> (nat \<Rightarrow> string) \<Rightarrow> bool" where
  "fresh_ids h fs uuid \<longleftrightarrow> inj uuid \<and> (\<forall>i. safe_id (uuid i) \<and> py_strip (uuid i) = uuid i \<and> file_goal h fs (uuid i) = None)"

text \<open>The store during a tick, against the one before it: old goals at most got proposals, and only active ones
  that needed work; new ones are drafts below them.\<close>

definition sched_rel :: "scheduler \<Rightarrow> goal_files \<Rightarrow> gov_logs \<Rightarrow> sched \<Rightarrow> bool" where
  "sched_rel sc fs logs st \<longleftrightarrow> (let h = sc_host sc in store_ok h (sd_files st)
     \<and> (\<forall>i g0. file_goal h fs i = Some g0 \<longrightarrow> (\<exists>g. file_goal h (sd_files st) i = Some g \<and> proposes g0 g
          \<and> (g \<noteq> g0 \<longrightarrow> gstatus g0 = ACTIVE \<and> needs_packetizing g0)))
     \<and> (\<forall>i g. file_goal h fs i = None \<longrightarrow> file_goal h (sd_files st) i = Some g \<longrightarrow>
          (\<exists>n < sd_u st. i = sc_uuid sc n) \<and> (\<exists>p. newborn p g))
     \<and> (\<forall>i. design_ready (sc_wide sc) (sd_logs st) i = design_ready (sc_wide sc) logs i))"

lemma schedule_goal_rel:
  assumes R: "sched_rel sc fs logs st" and fresh: "fresh_ids (sc_host sc) fs (sc_uuid sc)" and hex: "hex_digits (sc_sha1 sc)"
    and g: "file_goal (sc_host sc) fs (gid g) = Some g" "file_goal (sc_host sc) (sd_files st) (gid g) = Some g"
      "gstatus g = ACTIVE" "needs_packetizing g"
  shows "sched_rel sc fs logs (schedule_goal sc g st)
    \<and> (\<forall>j. file_goal (sc_host sc) fs j \<noteq> None \<longrightarrow> j \<noteq> gid g \<longrightarrow>
         file_goal (sc_host sc) (sd_files (schedule_goal sc g st)) j = file_goal (sc_host sc) (sd_files st) j)"
proof -
  let ?h = "sc_host sc" and ?ps = "found_packets sc (sd_n st) g" and ?st' = "schedule_goal sc g st"
  have so: "store_ok ?h (sd_files st)" using R by (simp add: sched_rel_def Let_def)
  have gs: "safe_id (gid g)" "py_strip (gid g) = gid g"
    using file_goal_safe[OF conjunct1[OF so[unfolded store_ok_def]] g(2)] by simp_all
  consider (same) "?st' = st" | (none) "?st' = st\<lparr>sd_n := sd_n st + 1\<rparr>" | (split) "sd_err st = None" "?st' = split_goal sc ?ps g st"
    | (link) "sd_err st = None" "?st' = packetize_goal sc ?ps g st"
    by (cases "sd_err st = None"; cases "?ps = []"; cases "is_split sc ?ps") (simp_all add: schedule_goal_def Let_def)
  then show ?thesis
  proof cases
    case same
    then show ?thesis using R by simp
  next
    case none
    then show ?thesis using R by (auto simp: sched_rel_def)
  next
    case link
    show ?thesis
    proof (cases "link_packets (sc_clock sc (sd_n st) 2) (sc_sha1 sc) ?ps 0 g")
      case (Inl e)
      then show ?thesis using R link by (simp add: packetize_goal_def sched_rel_def Let_def)
    next
      case (Inr x)
      obtain g2 rs n k where x: "link_packets (sc_clock sc (sd_n st) 2) (sc_sha1 sc) ?ps 0 g = Inr (g2, rs, n, k)"
        using Inr by (cases x) auto
      have p: "proposes g g2" by (rule link_proposes(1)[OF hex x])
      then have i2: "gid g2 = gid g" by (simp add: proposes_def)
      have so2: "store_ok ?h (sd_files (st\<lparr>sd_n := Suc (sd_n st)\<rparr>))" using so by simp
      note S = save_sched_ok[OF so2, of g2, unfolded i2, OF gs]
      have f: "sd_files ?st' = put_goal g2 (sd_files st)" "sd_logs ?st' = sd_logs st" "sd_u ?st' = sd_u st"
        using link by (simp_all add: packetize_goal_def x Let_def S(1))
      show ?thesis
        using R S(2,3) p g(1,3,4) by (auto simp: sched_rel_def Let_def f)
    qed
  next
    case split
    define g1 where "g1 = (if \<not> is_governance_required g then mark_governance_required
       (''big goal '' @ utf8 [0x2014]
         @ '' design chain required (PM brief recorded first)'') (sc_clock sc (sd_n st) 0 0) (sc_clock sc (sd_n st) 0 1) g else g)"
    define logs1 where "logs1 = (if \<not> is_governance_required g then record_pm_brief (sc_wide sc) (sc_writable sc) g (sd_logs st) else sd_logs st)"
    define st1 where "st1 = st\<lparr>sd_n := sd_n st + 1, sd_logs := logs1,
      sd_governed := (if \<not> is_governance_required g then sd_governed st + 1 else sd_governed st)\<rparr>"
    let ?res = "decompose_and_route (sc_clock sc (sd_n st) 1) (sc_clock sc (sd_n st) 2) (\<lambda>i. sc_uuid sc (sd_u st1 + i)) (sc_sha1 sc) g1 ?ps"
    have e: "?st' = (case ?res of Inl e \<Rightarrow> st1\<lparr>sd_err := Some e\<rparr> | Inr (parent, made) \<Rightarrow>
        (let st = save_sched parent (st1\<lparr>sd_u := sd_u st1 + length made\<rparr>); st = save_children made st
         in if sd_err st \<noteq> None then st else st\<lparr>sd_decomposed := sd_decomposed st + 1\<rparr>))"
      unfolding split(2) split_goal_def Let_def g1_def st1_def logs1_def by (rule refl)
    have g1: "proposes g g1" using proposes_evidence[OF proposes_refl] proposes_refl
      by (simp add: g1_def mark_governance_required_def)
    have "gid g1 = gid g" "gstatus g1 = ACTIVE" "children g1 = []"
      using g(3,4) by (simp_all add: g1_def mark_frame needs_packetizing_def)
    note g1 = g1 this
    have logs1: "design_ready (sc_wide sc) logs1 i = design_ready (sc_wide sc) (sd_logs st) i" for i
      by (simp add: logs1_def recorded_brief_no_progress)
    have R1: "sched_rel sc fs logs st1" using R logs1 by (simp add: sched_rel_def st1_def Let_def)
    show ?thesis
    proof (cases ?res)
      case (Inl err)
      then show ?thesis using R1 by (simp add: e sched_rel_def Let_def) (simp add: st1_def)
    next
      case (Inr x)
      obtain parent made where x: "?res = Inr (parent, made)" using Inr by (cases x) auto
      have u1: "sd_u st1 = sd_u st" by (simp add: st1_def)
      let ?uuid = "\<lambda>i. sc_uuid sc (sd_u st + i)"
      have u: "inj ?uuid" "\<forall>i. py_strip (?uuid i) = ?uuid i" "\<forall>i. safe_id (?uuid i)" "\<And>n. file_goal ?h fs (sc_uuid sc n) = None"
        using fresh inj_compose[of "sc_uuid sc" "(+) (sd_u st)"] by (simp_all add: fresh_ids_def comp_def)
      note M = split_result[OF hex x[unfolded u1] g1(4,3) u(1,2)]
      have p: "proposes g parent" "gid parent = gid g" using proposes_trans[OF g1(1) M(1)] M(2) g1(2) by auto
      define st2 where "st2 = st1\<lparr>sd_u := sd_u st1 + length made\<rparr>"
      have st2: "sd_files st2 = sd_files st" "sd_err st2 = None" "sd_u st2 = sd_u st + length made" "sd_logs st2 = logs1"
        using split(1) by (simp_all add: st2_def st1_def)
      have so2: "store_ok ?h (sd_files st2)" using so by (simp add: st2(1))
      note S = save_sched_ok[OF so2, of parent, unfolded p(2), OF gs]
      define st3 where "st3 = st2\<lparr>sd_files := put_goal parent (sd_files st2)\<rparr>"
      have st3: "sd_files st3 = put_goal parent (sd_files st2)" "sd_err st3 = None" "sd_u st3 = sd_u st + length made" "sd_logs st3 = logs1"
        using st2 by (simp_all add: st3_def)
      have so3: "store_ok ?h (sd_files st3)" using S(2) by (simp add: st3)
      have ids: "gid c \<in> ?uuid ` {..<length made}" if "c \<in> set made" for c
        using that arg_cong[OF M(7), of set] by (auto simp: atLeast0LessThan)
      have cs: "\<forall>c \<in> set made. safe_id (gid c) \<and> py_strip (gid c) = gid c \<and> gstatus c = DRAFT"
        using ids u(2,3) M(8) by (fastforce simp: newborn_def)
      have d: "distinct (map gid made)" using u(1) by (simp add: M(7) distinct_map inj_on_def inj_def)
      obtain fs' where fs': "save_children made st3 = st3\<lparr>sd_files := fs'\<rparr>" "store_ok ?h fs'"
        "\<forall>j. file_goal ?h fs' j = (case map_of (map (\<lambda>c. (gid c, c)) made) j of Some c \<Rightarrow> Some c | None \<Rightarrow> file_goal ?h (sd_files st3) j)"
        using save_children_ok[OF so3 st3(2) cs d] by blast
      have f: "sd_files ?st' = fs'" "sd_u ?st' = sd_u st + length made" "sd_logs ?st' = logs1"
        unfolding e x sum.case prod.case Let_def st2_def[symmetric] S(1)[folded st3_def] fs'(1) by (simp_all add: st3)
      let ?kid = "map_of (map (\<lambda>c. (gid c, c)) made)"
      have kid: "c \<in> set made \<and> gid c = j" if "?kid j = Some c" for j c using map_of_SomeD[OF that] by auto
      have look: "file_goal ?h fs' j = (case ?kid j of Some c \<Rightarrow> Some c
          | None \<Rightarrow> if j = gid g then Some parent else file_goal ?h (sd_files st) j)" for j
        using fs'(3)[unfolded st3(1)] S(3) unfolding st2(1) by (cases "?kid j") simp_all
      have old: "?kid j = None" if "file_goal ?h fs j \<noteq> None" for j
      proof (cases "?kid j")
        case (Some c)
        then have "gid c \<in> ?uuid ` {..<length made}" "gid c = j" using kid[OF Some] ids[of c] by blast+
        then obtain i where "j = ?uuid i" by blast
        then show ?thesis using that u(4)[of "sd_u st + i"] by simp
      qed simp
      have new: "(\<exists>n < sd_u st + length made. j = sc_uuid sc n) \<and> newborn (gid g) c" if "?kid j = Some c" for j c
proof -
        have c: "c \<in> set made" "gid c = j" using kid[OF that] by simp_all
        then obtain i where "i < length made" "j = ?uuid i" using ids[of c] by blast
        then show ?thesis using M(8) c(1) g1(2) by (intro conjI exI[of _ "sd_u st + i"]) auto
      qed
      have "(\<exists>n < sd_u st + length made. i = sc_uuid sc n) \<and> (\<exists>p. newborn p k)"
        if n: "file_goal ?h fs i = None" "file_goal ?h fs' i = Some k" for i k
      proof (cases "?kid i")
        case (Some c)
        then show ?thesis using new n(2) by (auto simp: look)
      next
        case None
        then have "file_goal ?h (sd_files st) i = Some k" using n g(1) by (auto simp: look split: if_splits)
        then obtain m p where "m < sd_u st" "i = sc_uuid sc m" "newborn p k"
          using R[unfolded sched_rel_def Let_def] n(1) by blast
        then show ?thesis by (intro conjI exI[of _ m] exI[of _ p]) simp_all
      qed
      moreover have "\<exists>g'. file_goal ?h fs' i = Some g' \<and> proposes g0 g' \<and> (g' \<noteq> g0 \<longrightarrow> gstatus g0 = ACTIVE \<and> needs_packetizing g0)"
        if "file_goal ?h fs i = Some g0" for i g0
        using old[of i] that R p(1) g(1,3,4) by (auto simp: look sched_rel_def Let_def)
      moreover have "file_goal ?h fs' j = file_goal ?h (sd_files st) j" if "file_goal ?h fs j \<noteq> None" "j \<noteq> gid g" for j
        using old[OF that(1)] that(2) by (simp add: look)
      ultimately show ?thesis
        using fs'(2) logs1 R by (simp add: sched_rel_def f Let_def)
    qed
  qed
qed

lemma schedule_goals_rel:
  assumes "sched_rel sc fs logs st" "fresh_ids (sc_host sc) fs (sc_uuid sc)" "hex_digits (sc_sha1 sc)" "distinct (map gid gs)"
    and "\<forall>g \<in> set gs. file_goal (sc_host sc) fs (gid g) = Some g \<and> file_goal (sc_host sc) (sd_files st) (gid g) = Some g
           \<and> gstatus g = ACTIVE \<and> needs_packetizing g"
  shows "sched_rel sc fs logs (fold (schedule_goal sc) gs st)
    \<and> (\<forall>j. file_goal (sc_host sc) fs j \<noteq> None \<longrightarrow> j \<notin> gid ` set gs \<longrightarrow>
         file_goal (sc_host sc) (sd_files (fold (schedule_goal sc) gs st)) j = file_goal (sc_host sc) (sd_files st) j)"
  using assms(1,4,5)
proof (induction gs arbitrary: st)
  case Nil
  then show ?case by simp
next
  case (Cons g gs)
  have "file_goal (sc_host sc) fs (gid g) = Some g" "file_goal (sc_host sc) (sd_files st) (gid g) = Some g"
    "gstatus g = ACTIVE" "needs_packetizing g" using Cons.prems(3) by auto
  note S = schedule_goal_rel[OF Cons.prems(1) assms(2,3) this]
  have "file_goal (sc_host sc) (sd_files (schedule_goal sc g st)) (gid g') = file_goal (sc_host sc) (sd_files st) (gid g')" if "g' \<in> set gs" for g'
    using S Cons.prems(3) distinct_map_Cons[OF Cons.prems(2) that] that by auto
  then show ?case using Cons.IH[OF conjunct1[OF S]] Cons.prems(2,3) S by auto
qed

lemma scheduler_tick_rel:
  assumes "store_ok (sc_host sc) fs" "fresh_ids (sc_host sc) fs (sc_uuid sc)" "hex_digits (sc_sha1 sc)"
  shows "sched_rel sc fs logs (scheduler_tick sc fs logs)"
proof -
  obtain gs where gs: "load_all (sc_host sc) fs = Inr gs" "distinct (map gid gs)" "\<forall>g \<in> set gs. file_goal (sc_host sc) fs (gid g) = Some g"
    by (rule read_store[OF assms(1)])
  have "sched_rel sc fs logs (start_sched fs logs)"
    using assms(1) by (auto simp: sched_rel_def start_sched_def proposes_refl)
  moreover have "distinct (map gid (schedule_candidates sc gs))"
    using gs(2) by (simp add: schedule_candidates_def distinct_map_py_take distinct_map_filter)
  moreover have "set (schedule_candidates sc gs) \<subseteq> {g \<in> set gs. gstatus g = ACTIVE \<and> needs_packetizing g}"
    using set_py_take[of "sc_max_goals sc" "filter (\<lambda>g. gstatus g = ACTIVE \<and> needs_packetizing g) gs"] by (auto simp: schedule_candidates_def)
  ultimately show ?thesis
    using schedule_goals_rel[OF _ assms(2,3), of logs "start_sched fs logs" "schedule_candidates sc gs"] gs(3)
    by (auto simp: scheduler_tick_def gs(1) start_sched_def)
qed

lemma proposes_attempted: "proposes g g' \<Longrightarrow> attempted_packet_ids g' = attempted_packet_ids g"
proof -
  assume "proposes g g'"
  then obtain es where es: "evidence g' = evidence g @ es" "\<forall>e \<in> set es. ev_kind e \<in> {EV_PROPOSAL, EV_PLAN, GOV_REQUIRED}"
    by (auto simp: proposes_def)
  then have "ev_kind e \<notin> {EV_EXECUTION, EV_DECISION}" if "e \<in> set es" for e using that by (auto simp: ev_kinds GOV_REQUIRED_def)
  then have "packet_refs g' k = packet_refs g k" if "k \<in> {EV_EXECUTION, EV_DECISION}" for k
    using that by (intro set_eqI) (fastforce simp: packet_refs_iff es(1))
  then show ?thesis by (simp add: attempted_packet_ids_def)
qed

section \<open>Properties\<close>

text \<open>C19: The scheduler only proposes. Whatever it discovers, one tick leaves every stored goal as it was, or, if the
  goal is active and needed work, adds proposals, a plan or a design mark to it and at most parks it for
  the operator; goals that are new are drafts with a parent and proposals only. No packet becomes
  attempted, no goal done or active, and no design chain becomes executable by the brief it records.\<close>

theorem scheduler_only_proposes:
  assumes "store_ok (sc_host sc) fs" and "fresh_ids (sc_host sc) fs (sc_uuid sc)" and "hex_digits (sc_sha1 sc)"
  shows "let st = scheduler_tick sc fs logs; before = file_goal (sc_host sc) fs; after = file_goal (sc_host sc) (sd_files st)
    in store_ok (sc_host sc) (sd_files st)
      \<and> (\<forall>i g0. before i = Some g0 \<longrightarrow> (\<exists>g. after i = Some g \<and> attempted_packet_ids g = attempted_packet_ids g0
           \<and> (g = g0 \<or> gstatus g0 = ACTIVE \<and> children g0 = [] \<and> gstatus g \<in> {ACTIVE, AWAITING_APPROVAL} \<and> set (packets g0) \<subseteq> set (packets g)
               \<and> (\<exists>es. evidence g = evidence g0 @ es \<and> ev_kind ` set es \<subseteq> {EV_PROPOSAL, EV_PLAN, GOV_REQUIRED}))))
      \<and> (\<forall>i g. before i = None \<longrightarrow> after i = Some g \<longrightarrow>
           gstatus g = DRAFT \<and> parent_id g \<noteq> None \<and> ev_kind ` set (evidence g) \<subseteq> {EV_PROPOSAL})
      \<and> (\<forall>i. design_ready (sc_wide sc) (sd_logs st) i = design_ready (sc_wide sc) logs i)"
proof -
  note R = scheduler_tick_rel[OF assms, of logs]
  have old: "\<exists>g. file_goal (sc_host sc) (sd_files (scheduler_tick sc fs logs)) i = Some g \<and> attempted_packet_ids g = attempted_packet_ids g0
      \<and> (g = g0 \<or> gstatus g0 = ACTIVE \<and> children g0 = [] \<and> gstatus g \<in> {ACTIVE, AWAITING_APPROVAL} \<and> set (packets g0) \<subseteq> set (packets g)
           \<and> (\<exists>es. evidence g = evidence g0 @ es \<and> ev_kind ` set es \<subseteq> {EV_PROPOSAL, EV_PLAN, GOV_REQUIRED}))"
    if i: "file_goal (sc_host sc) fs i = Some g0" for i g0
  proof -
    obtain g where g: "file_goal (sc_host sc) (sd_files (scheduler_tick sc fs logs)) i = Some g" "proposes g0 g"
      "g \<noteq> g0 \<longrightarrow> gstatus g0 = ACTIVE \<and> needs_packetizing g0" using R[unfolded sched_rel_def Let_def] i by blast
    then show ?thesis
      using proposes_attempted[OF g(2)] by (intro exI[of _ g]) (auto simp: proposes_def needs_packetizing_def image_subset_iff)
  qed
  have new: "gstatus g = DRAFT \<and> parent_id g \<noteq> None \<and> ev_kind ` set (evidence g) \<subseteq> {EV_PROPOSAL}"
    if "file_goal (sc_host sc) fs i = None" "file_goal (sc_host sc) (sd_files (scheduler_tick sc fs logs)) i = Some g" for i g
    using R that by (fastforce simp: sched_rel_def newborn_def Let_def)
  show ?thesis
    using old new conjunct1[OF R[unfolded sched_rel_def Let_def]] R[unfolded sched_rel_def Let_def] unfolding Let_def by blast
qed

text \<open>The approval split does not reach the children of a split goal. Packets that are not safe park the goal they
  are linked to for the operator, but a split makes one draft per area, whatever the risk of its packets,
  and a draft cannot be parked: no child awaits approval, and the next move of the plan is to activate
  the first one. Between them the children carry all the packets.\<close>

lemma split_children_unparked:
  assumes "hex_digits sha1" and "inj uuid" and "\<forall>i. py_strip (uuid i) = uuid i" and "gstatus g = ACTIVE" and "children g = []"
    and "list_ex (\<lambda>p. im_risk p \<noteq> RISK_SAFE) ps"
    and "link_packets clock sha1 ps k g = Inr (leaf, rs, n, k')" and "decompose_and_route clock clock' uuid sha1 g ps = Inr (parent, made)"
  shows "gstatus leaf = AWAITING_APPROVAL \<and> gstatus parent = ACTIVE \<and> children parent = map gid made
    \<and> (\<forall>c \<in> set made. gstatus c = DRAFT \<and> parent_id c = Some (gid g))
    \<and> (\<Union>c \<in> set made. set (packets c)) = packet_id sha1 ` set ps
    \<and> continuation_action parent made = \<lparr>move = ADVANCE, target_id = Some (gid (hd made)), reason = ActivateNext (gid (hd made))\<rparr>"
proof -
  note M = split_result[OF assms(1,8,5,4,2,3)]
  have "(\<Union>c \<in> set made. set (packets c)) = \<Union>(set (map (\<lambda>c. set (packets c)) made))" by simp
  also have "\<dots> = packet_id sha1 ` (\<Union>s \<in> set (derive_plan_steps (map (\<lambda>p. (im_area p, im_finding p)) ps)). set (area_packets (step_title s) ps))"
    unfolding M(10) by auto
  also have "(\<Union>s \<in> set (derive_plan_steps (map (\<lambda>p. (im_area p, im_finding p)) ps)). set (area_packets (step_title s) ps)) = set ps"
    by (auto simp: area_packets_def derive_plan_steps_def)
  finally show ?thesis
    using M link_proposes(5)[OF assms(1,7)] assms(4,6) by (auto simp: newborn_def park_from)
qed

section \<open>Replans and rediscovery\<close>

text \<open>What a retry leaves: the refused packets are unlinked and the retry recorded.\<close>

definition retried :: "goal \<Rightarrow> goal \<Rightarrow> bool" where
  "retried g g1 \<longleftrightarrow> goal_frame g g1 \<and> gstatus g1 = gstatus g \<and> packets g1 = filter (\<lambda>p. p \<notin> set (blocked_packet_ids g)) (packets g)
     \<and> (\<exists>e. evidence g1 = evidence g @ [e] \<and> ev_kind e = EV_REPLAN \<and> ev_ref e = None)"

lemma save_in_cby: "safe_id (gid g) \<Longrightarrow> cby (save_in g st) = (cby st)(gid g \<mapsto> g)"
  by (simp add: save_in_def save_goal_def safe_id_path)

lemma retry_leaf:
  assumes "gstatus g = ACTIVE" "children g = []" "is_stuck g" "int (replan_attempts g) < ma" "safe_id (gid g)" "cby st (gid g) = Some g"
  obtains g1 where "cby (replan_leaf clock ma g st) (gid g) = Some g1" "retried g g1"
proof -
  obtain u k where u: "unlink_all clock (blocked_packet_ids g) (ck st) g = (u, k)" by fastforce
  define g1 where "g1 = add_evidence EV_REPLAN (ra_reason (replan g ma)) None (clock k) (clock (k + 1)) u"
  have r: "ra (replan g ma) = REPLAN_RETRY" "ra_unlink (replan g ma) = blocked_packet_ids g"
    using assms(3,4) by (simp_all add: replan_def Let_def)
  have "retried g g1" using unlink_all_result[of clock "blocked_packet_ids g" "ck st" g] u
    by (simp add: retried_def g1_def goal_frame_def add_evidence_def)
  moreover from this have i: "gid g1 = gid g" by (simp add: retried_def goal_frame_def)
  have "replan_leaf clock ma g st = when_saved (\<lambda>s. s\<lparr>n_retries := n_retries s + 1\<rparr>) (save_in g1 (st\<lparr>ck := k + 2\<rparr>))"
    using assms(1-4,6) r u by (simp add: replan_leaf_def Let_def g1_def)
  then have "cby (replan_leaf clock ma g st) (gid g) = Some g1"
    using save_in_cby[of g1] assms(5) by (simp add: i when_saved_def)
  ultimately show ?thesis by (intro that)
qed

lemma retried_refs:
  assumes "retried g g1"
  shows "packet_refs g1 k = packet_refs g k"
proof -
  obtain e where "evidence g1 = evidence g @ [e]" "ev_ref e = None" using assms by (auto simp: retried_def)
  then show ?thesis by (intro set_eqI) (auto simp: packet_refs_iff)
qed

lemma stuck_iff: "is_stuck g \<longleftrightarrow> blocked_packet_ids g \<noteq> [] \<and> pending_packet_ids g = []"
  using pending_zero[of g] blocked_zero[of g] unfolding is_stuck_def is_goal_complete_def Let_def
  by (cases "blocked (tally_packets g) = 0") auto

text \<open>Rediscovery brings no alternative. A packet is named by the hash of its text, so when the discovery after a
  retry finds what it found before, every packet is linked back under the name that is already refused or
  executed: the goal is stuck again at once, nothing becomes pending, and a retry is used up.\<close>

lemma rediscovery_keeps_stuck:
  assumes "gstatus g = ACTIVE" and "children g = []" and "is_stuck g" and "int (replan_attempts g) < ma" and "safe_id (gid g)"
    and "cby st (gid g) = Some g" and "hex_digits sha1"
    and "packet_id sha1 ` set ps \<subseteq> packet_refs g EV_EXECUTION \<union> packet_refs g EV_DECISION"
    and "packet_id sha1 ` set ps \<inter> set (blocked_packet_ids g) \<noteq> {}"
  shows "\<exists>g1 g2 rs n k'. cby (replan_leaf clock ma g st) (gid g) = Some g1 \<and> link_packets clock' sha1 ps k g1 = Inr (g2, rs, n, k')
    \<and> pending_packet_ids g2 = [] \<and> is_stuck g2 \<and> replan_attempts g2 = replan_attempts g + 1"
proof -
  obtain g1 where g1: "cby (replan_leaf clock ma g st) (gid g) = Some g1" "retried g g1" by (rule retry_leaf[OF assms(1-6)])
  obtain g2 rs n k' where g2: "link_packets clock' sha1 ps k g1 = Inr (g2, rs, n, k')"
    by (rule link_packets_result[OF assms(7), of clock' ps k g1])
  note L = link_proposes[OF assms(7) g2]
  obtain es where es: "evidence g2 = evidence g1 @ es" "map ev_ref es = map (\<lambda>p. Some (packet_id sha1 p)) ps" "\<forall>e \<in> set es. ev_kind e = EV_PROPOSAL"
    using L(6) by blast
  have refs: "packet_refs g2 q = packet_refs g q" if "q \<in> {EV_EXECUTION, EV_DECISION}" for q
  proof -
    have "q \<noteq> EV_PROPOSAL" using that by (auto simp: ev_kinds)
    then have "packet_refs g2 q = packet_refs g1 q" using es(1,3) by (intro set_eqI) (auto simp: packet_refs_iff)
    then show ?thesis using retried_refs[OF g1(2)] by simp
  qed
  have ids: "ev_ref ` set es = Some ` packet_id sha1 ` set ps"
    using arg_cong[OF es(2), of set] by (simp add: image_image)
  have proposed: "p \<in> packet_refs g2 EV_PROPOSAL \<longleftrightarrow> p \<in> packet_refs g EV_PROPOSAL \<or> p \<in> packet_id sha1 ` set ps" for p
  proof -
    have "p \<in> packet_refs g2 EV_PROPOSAL \<longleftrightarrow> p \<in> packet_refs g1 EV_PROPOSAL \<or> p \<noteq> [] \<and> Some p \<in> ev_ref ` set es"
      using es(3) by (simp add: packet_refs_iff es(1) image_iff bex_Un eq_commute[of "Some p"]) blast
    moreover have "[] \<notin> packet_id sha1 ` set ps" by (metis imageE packet_id_nonempty)
    ultimately show ?thesis using retried_refs[OF g1(2)] by (auto simp: ids)
  qed
  have pk: "set (packets g2) = set (packets g) - set (blocked_packet_ids g) \<union> packet_id sha1 ` set ps"
    using L(4) g1(2) by (auto simp: retried_def)
  have s: "blocked_packet_ids g \<noteq> []" "pending_packet_ids g = []" using assms(3) by (auto simp: stuck_iff)
  then have none: "packet_refs g EV_PROPOSAL \<inter> set (packets g) \<subseteq> packet_refs g EV_EXECUTION \<union> packet_refs g EV_DECISION"
    using set_pending_ids[of g] by auto
  have r2: "packet_refs g2 EV_EXECUTION = packet_refs g EV_EXECUTION" "packet_refs g2 EV_DECISION = packet_refs g EV_DECISION"
    by (simp_all add: refs)
  have p2: "packet_refs g2 EV_PROPOSAL = packet_refs g EV_PROPOSAL \<union> packet_id sha1 ` set ps" using proposed by blast
  have "set (pending_packet_ids g2) = {}" using none assms(8) unfolding set_pending_ids pk r2 p2 by blast
  moreover have "set (blocked_packet_ids g2) \<noteq> {}" using assms(9) unfolding set_blocked_ids pk r2 p2 by blast
  moreover have "filter (\<lambda>e. ev_kind e = EV_REPLAN) es = []" using es(3) by (auto simp: filter_empty_conv ev_kinds)
  then have "replan_attempts g2 = replan_attempts g + 1" using g1(2) by (auto simp: replan_attempts_def es(1) retried_def)
  ultimately show ?thesis using g1(1) g2 by (auto simp: stuck_iff)
qed

text \<open>Refused work can be closed as done. A leaf goal that is stuck with a refused packet, but has executed and
  verified another, loses the refused one to the retry; what is left counts as complete, so the scheduler
  does not look for an alternative, and the next continuation pass closes the goal.\<close>

lemma refused_work_closed:
  assumes "gstatus g = ACTIVE" and "children g = []" and "is_stuck g" and "int (replan_attempts g) < ma" and "safe_id (gid g)"
    and "cby st (gid g) = Some g" and "list_ex (\<lambda>e. ev_kind e = EV_VERIFICATION) (evidence g)"
    and "p \<in> set (packets g)" and "p \<in> packet_refs g EV_PROPOSAL" and "p \<in> packet_refs g EV_EXECUTION"
  shows "\<exists>g1. cby (replan_leaf clock ma g st) (gid g) = Some g1 \<and> gstatus g1 = ACTIVE \<and> \<not> needs_packetizing g1
    \<and> (\<exists>q \<in> set (packets g). q \<in> packet_refs g1 EV_DECISION \<and> q \<notin> packet_refs g1 EV_EXECUTION \<and> q \<notin> set (packets g1))
    \<and> (\<exists>g2. cby (roll_up clock' g1 st') (gid g) = Some g2 \<and> gstatus g2 = DONE)"
proof -
  obtain g1 where g1: "cby (replan_leaf clock ma g st) (gid g) = Some g1" "retried g g1" by (rule retry_leaf[OF assms(1-6)])
  note R = retried_refs[OF g1(2)]
  have f: "gid g1 = gid g" "children g1 = []" "gstatus g1 = ACTIVE" "packets g1 = filter (\<lambda>p. p \<notin> set (blocked_packet_ids g)) (packets g)"
    using g1(2) assms(1,2) by (simp_all add: retried_def goal_frame_def)
  have s: "blocked_packet_ids g \<noteq> []" "pending_packet_ids g = []" using assms(3) by (auto simp: stuck_iff)
  have "p \<notin> set (blocked_packet_ids g)" using assms(10) by (simp add: set_blocked_ids)
  then have p: "p \<in> set (packets g1)" "p \<in> packet_refs g1 EV_PROPOSAL" using assms(8,9) by (simp_all add: f R)
  have "set (pending_packet_ids g1) \<subseteq> set (pending_packet_ids g)" "set (blocked_packet_ids g1) = {}"
    by (auto simp: set_pending_ids set_blocked_ids R f)
  then have e: "pending_packet_ids g1 = []" "blocked_packet_ids g1 = []" using s by auto
  have c: "is_goal_complete g1"
    using g1(2) p e f assms(7) total_zero[of g1] by (auto simp: is_goal_complete_def Let_def pending_zero blocked_zero retried_def)
  have n: "\<not> needs_packetizing g1" using c p(2) by (auto simp: needs_packetizing_def Let_def packet_refs_iff list_ex_iff)
  obtain q where q: "q \<in> set (blocked_packet_ids g)" using s(1) by (cases "blocked_packet_ids g") auto
  then have q: "q \<in> set (packets g)" "q \<in> packet_refs g1 EV_DECISION" "q \<notin> packet_refs g1 EV_EXECUTION" "q \<notin> set (packets g1)"
    using set_blocked_ids[of g] by (simp_all add: R f)
  define v where "v = add_evidence ''verification''
      (''plan step complete'' @ em_dash @ show_nat (executed (tally_packets g1)) @ ''/'' @ show_nat (total (tally_packets g1)) @ '' packet verified'')
      None (clock' (ck st')) (clock' (ck st' + 1)) g1"
  have v: "gid v = gid g" "gstatus v = ACTIVE" "evidence v \<noteq> []" using f by (simp_all add: v_def)
  then have "roll_up clock' g1 st' = when_saved (\<lambda>s. s\<lparr>n_children := n_children s + 1\<rparr>)
      (save_in (with_status DONE (clock' (ck st' + 2)) v) (st'\<lparr>ck := ck st' + 3\<rparr>))"
    using f c v[unfolded v_def] by (simp add: roll_up_def Let_def v_def apply_status_def can_transition_def)
  then have "cby (roll_up clock' g1 st') (gid g) = Some (with_status DONE (clock' (ck st' + 2)) v)"
    using save_in_cby[of "with_status DONE (clock' (ck st' + 2)) v"] v(1) assms(5) by (simp add: when_saved_def with_status_def)
  then show ?thesis using g1(1) f(3) n q by (auto simp: with_status_def)
qed

section \<open>Samples\<close>

definition finding_packet :: "string \<Rightarrow> string \<Rightarrow> string \<Rightarrow> improvement" where
  "finding_packet finding area risk = \<lparr>im_finding = finding, im_why = [], im_area = area, im_risk = risk, im_change = [],
     im_confidence = 6 / 10, im_approval_needed = (risk \<noteq> RISK_SAFE), im_owner = ''be'', im_origin = ''repo-local'', im_discomfort = []\<rparr>"

text \<open>Ids as different numbers of letters, and a hash that keeps letters.\<close>

definition sample_uuid :: "nat \<Rightarrow> string" where
  "sample_uuid i = ''goal-'' @ replicate i CHR ''a''"

definition sample_sha1 :: "string \<Rightarrow> string" where
  "sample_sha1 s = filter (\<lambda>c. \<not> py_space c) s"

lemma sample_host: "inj sample_uuid" "\<forall>i. py_strip (sample_uuid i) = sample_uuid i" "\<forall>i. safe_id (sample_uuid i)" "hex_digits sample_sha1"
proof -
  show "inj sample_uuid" by (auto simp: sample_uuid_def inj_def)
  show s: "\<forall>i. py_strip (sample_uuid i) = sample_uuid i"
    by (intro allI strip_no_space) (simp add: sample_uuid_def py_space_def list_all_iff)
  show "\<forall>i. safe_id (sample_uuid i)"
    using s by (auto simp: safe_id_def goal_path_def sample_uuid_def Let_def is_ok_def)
  show "hex_digits sample_sha1" by (simp add: hex_digits_def sample_sha1_def list_all_iff)
qed

definition sample_scheduler :: scheduler where
  "sample_scheduler = \<lparr>sc_host = plain_json, sc_sha1 = sample_sha1, sc_wide = (\<lambda>_. False), sc_writable = (\<lambda>_. True),
     sc_discover = (\<lambda>_. [finding_packet ''x'' ''a'' RISK_SAFE, finding_packet ''y'' ''b'' RISK_RISKY]), sc_clock = (\<lambda>_ _ _. ''t''),
     sc_uuid = sample_uuid, sc_max_goals = 2, sc_threshold = 2\<rparr>"

definition idle_files :: goal_files where
  "idle_files = [(''i'', to_dict idle_goal)]"

lemma idle_store: "file_goal plain_json idle_files s = (if s = ''i'' then Some idle_goal else None)" "store_ok plain_json idle_files"
  "load_all plain_json idle_files = Inr [idle_goal]"
proof -
  show f: "file_goal plain_json idle_files s = (if s = ''i'' then Some idle_goal else None)" for s
    by (simp add: idle_files_def file_goal_def goal_json_roundtrip_eq)
  have i: "gid idle_goal = ''i''" "safe_id ''i''" "py_strip ''i'' = ''i''" by code_simp+
  then have "files_ok idle_files" by (auto simp: idle_files_def files_ok_def)
  then show "store_ok plain_json idle_files" by (simp add: store_ok_def f i)
  show "load_all plain_json idle_files = Inr [idle_goal]"
    by (simp add: idle_files_def load_all_def hidden_def goal_json_roundtrip_eq)
qed

theorem scheduler_only_proposes_witness:
  "needs_packetizing idle_goal \<and> (\<exists>g. file_goal plain_json (sd_files (scheduler_tick sample_scheduler idle_files (\<lambda>_. []))) ''i'' = Some g
     \<and> attempted_packet_ids g = attempted_packet_ids idle_goal)"
proof
  show "needs_packetizing idle_goal" by code_simp
  have h: "sc_host sample_scheduler = plain_json" "sc_uuid sample_scheduler = sample_uuid" "sc_sha1 sample_scheduler = sample_sha1"
    by (simp_all add: sample_scheduler_def)
  have s: "store_ok (sc_host sample_scheduler) idle_files" by (simp add: h idle_store)
  have f: "fresh_ids (sc_host sample_scheduler) idle_files (sc_uuid sample_scheduler)"
    using sample_host by (simp add: fresh_ids_def h idle_store) (simp add: sample_uuid_def)
  have x: "hex_digits (sc_sha1 sample_scheduler)" using sample_host(4) by (simp add: h)
  note old = conjunct1[OF conjunct2[OF scheduler_only_proposes[OF s f x, of "\<lambda>_. []", unfolded Let_def h]]]
  show "\<exists>g. file_goal plain_json (sd_files (scheduler_tick sample_scheduler idle_files (\<lambda>_. []))) ''i'' = Some g
     \<and> attempted_packet_ids g = attempted_packet_ids idle_goal"
    using old[rule_format, of "''i''" idle_goal] idle_store(1)[of "''i''"] by auto
qed

definition split_sample :: "improvement list" where
  "split_sample = [finding_packet ''x'' ''a'' RISK_RISKY, finding_packet ''y'' ''b'' RISK_RISKY]"

lemma route_areas_ok: "hex_digits h \<Longrightarrow> \<exists>cs. route_areas clock h ps k xs = Inr cs"
proof (induction xs arbitrary: k)
  case Nil
  then show ?case by simp
next
  case (Cons x xs)
  obtain s c where x: "x = (s, c)" by (cases x)
  obtain c' rs n k' where "link_packets clock h (area_packets (step_title s) ps) k c = Inr (c', rs, n, k')"
    by (rule link_packets_result[OF Cons.prems])
  moreover obtain cs where "route_areas clock h ps k' xs = Inr cs" using Cons.IH[OF Cons.prems, of k'] by blast
  ultimately show ?case by (simp add: x)
qed

text \<open>A goal with one executed packet and one that was refused.\<close>

definition refused_id :: string where
  "refused_id = ''packet-y'' @ [CHR 0x00] @ ''b'' @ [CHR 0x00] @ ''risky''"

lemma refused_id: "packet_id sample_sha1 (finding_packet ''y'' ''b'' RISK_RISKY) = refused_id"
  by (simp add: packet_id_def finding_packet_def sample_sha1_def risks py_space_def refused_id_def)

definition half_done :: goal where
  "half_done = sample_goal\<lparr>packets := [''p1'', refused_id], evidence := evidence sample_goal @
       [\<lparr>ev_ts = ''t'', ev_kind = ''execution'', ev_summary = [], ev_ref = Some ''p1''\<rparr>,
        \<lparr>ev_ts = ''t'', ev_kind = ''verification'', ev_summary = [], ev_ref = Some ''p1''\<rparr>,
        \<lparr>ev_ts = ''t'', ev_kind = ''proposal'', ev_summary = [], ev_ref = Some refused_id\<rparr>,
        \<lparr>ev_ts = ''t'', ev_kind = ''decision'', ev_summary = [], ev_ref = Some refused_id\<rparr>]\<rparr>"

definition half_pass :: pass where
  "half_pass = start_pass [half_done] []"

lemma half_done_facts: "gstatus half_done = ACTIVE" "children half_done = []" "is_stuck half_done" "int (replan_attempts half_done) < 1"
  "safe_id (gid half_done)" "list_ex (\<lambda>e. ev_kind e = EV_VERIFICATION) (evidence half_done)" "''p1'' \<in> set (packets half_done)"
  "''p1'' \<in> packet_refs half_done EV_PROPOSAL" "''p1'' \<in> packet_refs half_done EV_EXECUTION"
  "refused_id \<in> packet_refs half_done EV_DECISION" "refused_id \<in> set (blocked_packet_ids half_done)"
  by code_simp+

lemma half_pass_facts: "cby half_pass (gid half_done) = Some half_done"
  by (simp add: half_pass_def start_pass_def by_id_def)

end
