(* ===== verification/AutopilotCycleProps.thy ===== *)
theory AutopilotCycleProps
  imports AutopilotCycle
begin

text \<open>
  What a cycle of the autopilot may do, what a shared arbiter leads to, and what the daemon's pass does after a
  restart.
\<close>

section \<open>One finding\<close>

definition cleared :: "(repo_finding \<Rightarrow> string) \<Rightarrow> repo_finding \<Rightarrow> bool" where
  "cleared risk_of f \<longleftrightarrow> risk_of f \<notin> {''blocked'', ''risky''} \<and> plain_wording (rf_finding f @ '' '' @ risk_of f)"

text \<open>The lane's verdict on a finding, when there is a lane.\<close>

definition lane_verdict :: "orchestrator \<Rightarrow> (repo_finding \<Rightarrow> string) \<Rightarrow> repo_finding \<Rightarrow> exec_verdict option" where
  "lane_verdict oc risk_of f = (case run_internal_chain f (risk_of f) of (p, route, d, trace) \<Rightarrow>
     (case or_authorizer oc of None \<Rightarrow> None | Some authorize \<Rightarrow> authorize f d (gr_owner_role route) (risk_of f)))"

definition approved :: "orchestrator \<Rightarrow> (repo_finding \<Rightarrow> string) \<Rightarrow> repo_finding \<Rightarrow> bool" where
  "approved oc risk_of f \<longleftrightarrow> cleared risk_of f \<and> (case lane_verdict oc risk_of f of None \<Rightarrow> True | Some v \<Rightarrow> vd_allowed v)"

definition owner :: "repo_finding \<Rightarrow> string" where
  "owner f = get_default OWNER_BY_KIND (rf_kind f) ''tech-lead''"

definition turn :: "string \<Rightarrow> string list" where
  "turn e = [''grant:'' @ e, ''release:'' @ e]"

lemma frames [simp]:
  "cy_arbiter (step ss st) = cy_arbiter st" "cy_arbiter (propose p st) = cy_arbiter st" "cy_arbiter (let_go e st) = release e (cy_arbiter st)"
  "cy_executed (step ss st) = cy_executed st" "cy_executed (propose p st) = cy_executed st" "cy_executed (let_go e st) = cy_executed st"
  "cy_tree (step ss st) = cy_tree st" "cy_tree (propose p st) = cy_tree st" "cy_tree (let_go e st) = cy_tree st"
  "cy_failures (step ss st) = cy_failures st" "cy_failures (propose p st) = cy_failures st" "cy_failures (let_go e st) = cy_failures st"
  "cy_halt (step ss st) = cy_halt st" "cy_halt (propose p st) = cy_halt st" "cy_halt (let_go e st) = cy_halt st"
  "cy_writes (step ss st) = cy_writes st" "cy_writes (propose p st) = cy_writes st" "cy_writes (let_go e st) = cy_writes st"
  "cy_proposed (step ss st) = cy_proposed st" "cy_proposed (propose p st) = cy_proposed st @ [p]" "cy_proposed (let_go e st) = cy_proposed st"
  by (simp_all add: step_def propose_def let_go_def)

text \<open>A finding that is not approved writes nothing; an approved one holds the slot only for its turn.\<close>

definition did_nothing :: "cycle \<Rightarrow> cycle \<Rightarrow> bool" where
  "did_nothing st st' \<longleftrightarrow> (cy_executed st', cy_tree st', cy_failures st', cy_halt st', cy_writes st')
     = (cy_executed st, cy_tree st, cy_failures st, cy_halt st, cy_writes st)"

lemma run_finding_held:
  assumes "ab_holder (cy_arbiter st) = Some h"
  shows "did_nothing st (run_finding oc wide dk risk_of r f st) \<and> ab_holder (cy_arbiter (run_finding oc wide dk risk_of r f st)) = Some h
    \<and> ab_queue (cy_arbiter (run_finding oc wide dk risk_of r f st)) =
        (if cleared risk_of f \<and> owner f \<notin> set (ab_queue (cy_arbiter st)) then ab_queue (cy_arbiter st) @ [owner f] else ab_queue (cy_arbiter st))"
proof -
  obtain p route d trace where c: "run_internal_chain f (risk_of f) = (p, route, d, trace)" by (metis prod_cases4)
  note D = chain_decision[OF c]
  show ?thesis
    using assms D(2,6)
    by (auto simp: run_finding_def c can_specialist_execute_def acquire_def Let_def did_nothing_def cleared_def owner_def)
qed

text \<open>The write of an approved finding, by its end.\<close>

definition wrote :: "orchestrator \<Rightarrow> (string \<Rightarrow> bool) \<Rightarrow> (nat \<Rightarrow> disk) \<Rightarrow> string \<Rightarrow> repo_finding \<Rightarrow> cycle \<Rightarrow> cycle \<Rightarrow> bool" where
  "wrote oc wide dk r f st st' \<longleftrightarrow> (\<exists>mu out tr. or_mutator oc = Some mu
     \<and> execute_task mu (dk (cy_writes st)) (note_task wide r f) (cy_tree st) = (out, tr) \<and> cy_tree st' = tr \<and> cy_writes st' = cy_writes st + 1
     \<and> (if xo_executed out \<and> xo_verified out
        then cy_failures st' = cy_failures st \<and> cy_halt st' = cy_halt st
          \<and> (\<exists>a. cy_executed st' = cy_executed st @ [\<lparr>ex_finding = rf_finding f, ex_executor = owner f, ex_path = xo_path out,
                ex_lines_changed = xo_lines_changed out, ex_approval = a\<rparr>])
        else cy_executed st' = cy_executed st \<and> cy_failures st' = cy_failures st + 1
          \<and> cy_halt st' = (if or_failure_threshold oc \<le> cy_failures st + 1 then RepeatedFailures else cy_halt st)))"

definition free :: "arbiter \<Rightarrow> bool" where
  "free a \<longleftrightarrow> ab_holder a = None \<and> ab_queue a = []"

lemma release_held: "ab_queue a = [] \<Longrightarrow> ab_holder a = Some e \<Longrightarrow>
    free (release e a) \<and> ab_log (release e a) = ab_log a @ [''release:'' @ e]"
  by (simp add: release_def free_def)

lemma write_note_turn:
  assumes "ab_holder (cy_arbiter s) = Some (owner f)" "ab_queue (cy_arbiter s) = []" "did_nothing st s"
  shows "free (cy_arbiter (write_note oc wide dk r (owner f) a f s))
    \<and> ab_log (cy_arbiter (write_note oc wide dk r (owner f) a f s)) = ab_log (cy_arbiter s) @ [''release:'' @ owner f]
    \<and> (did_nothing st (write_note oc wide dk r (owner f) a f s) \<or> wrote oc wide dk r f st (write_note oc wide dk r (owner f) a f s))"
proof (cases "or_mutator oc")
  case None
  then show ?thesis using release_held[OF assms(2,1)] assms(3) by (simp add: write_note_def did_nothing_def)
next
  case (Some mu)
  obtain out tr where e: "execute_task mu (dk (cy_writes st)) (note_task wide r f) (cy_tree st) = (out, tr)" by fastforce
  show ?thesis
    using release_held[OF assms(2,1)] assms(3)
    by (cases "xo_executed out \<and> xo_verified out") (simp_all add: write_note_def Some e Let_def did_nothing_def wrote_def, blast)
qed

lemma run_finding_free:
  assumes "free (cy_arbiter st)"
  shows "free (cy_arbiter (run_finding oc wide dk risk_of r f st))
    \<and> ab_log (cy_arbiter (run_finding oc wide dk risk_of r f st)) = ab_log (cy_arbiter st) @ (if cleared risk_of f then turn (owner f) else [])
    \<and> (did_nothing st (run_finding oc wide dk risk_of r f st)
       \<or> approved oc risk_of f \<and> wrote oc wide dk r f st (run_finding oc wide dk risk_of r f st))"
proof -
  obtain q route d trace where c: "run_internal_chain f (risk_of f) = (q, route, d, trace)" by (metis prod_cases4)
  note D = chain_decision[OF c]
  have o: "gr_owner_role route = owner f" using D(6) by (simp add: owner_def)
  have can: "can_specialist_execute (Some d) \<longleftrightarrow> cleared risk_of f" using D(2) by (simp add: can_specialist_execute_def cleared_def)
  define s where "s = (step [''observe:'' @ chars 30 (rf_finding f), ''classify'', ''pm_structure'', ''gateway_route'',
     ''tech_lead_signoff:'' @ sg_decision_class d] st)\<lparr>cy_arbiter := (cy_arbiter st)\<lparr>ab_holder := Some (owner f),
     ab_log := ab_log (cy_arbiter st) @ [''grant:'' @ owner f]\<rparr>\<rparr>"
  have s: "ab_holder (cy_arbiter s) = Some (owner f)" "ab_queue (cy_arbiter s) = []" "did_nothing st s"
    "ab_log (cy_arbiter s) = ab_log (cy_arbiter st) @ [''grant:'' @ owner f]"
    using assms by (simp_all add: s_def did_nothing_def free_def)
  let ?s = "step [''lane_authorize''] s"
  have t: "ab_holder (cy_arbiter ?s) = Some (owner f)" "ab_queue (cy_arbiter ?s) = []" "did_nothing st ?s"
    using s by (simp_all add: did_nothing_def)
  have run: "run_finding oc wide dk risk_of r f st = (if \<not> cleared risk_of f
       then propose (NeedsOperator (rf_finding f) (sg_decision_class d) (sg_approval_level d))
         (step [''observe:'' @ chars 30 (rf_finding f), ''classify'', ''pm_structure'', ''gateway_route'', ''tech_lead_signoff:'' @ sg_decision_class d] st)
       else case or_authorizer oc of None \<Rightarrow> write_note oc wide dk r (owner f) [] f s
         | Some authorize \<Rightarrow> (case authorize f d (owner f) (risk_of f) of None \<Rightarrow> write_note oc wide dk r (owner f) [] f ?s
             | Some v \<Rightarrow> if \<not> vd_allowed v then let_go (owner f) (propose (LaneRefused (rf_finding f) (owner f) v) ?s)
                  else write_note oc wide dk r (owner f) (vd_approval_metadata v) f ?s))"
    using assms can by (simp add: run_finding_def c o acquire_def free_def Let_def s_def split: option.split)
  have v: "lane_verdict oc risk_of f = (case or_authorizer oc of None \<Rightarrow> None | Some authorize \<Rightarrow> authorize f d (owner f) (risk_of f))"
    by (simp add: lane_verdict_def c o split: option.split)
  show ?thesis
  proof (cases "cleared risk_of f")
    case False
    then show ?thesis using assms by (simp add: run did_nothing_def)
  next
    case True
    show ?thesis
      using True s(4) write_note_turn[OF s(1-3)] write_note_turn[OF t] release_held[OF t(2,1)] t(3)
      by (auto simp: run approved_def v turn_def did_nothing_def split: option.splits)
  qed
qed

section \<open>A whole cycle\<close>

lemma note_prefix: "prefix ''runs/forgekit/autopilot/'' (tk_rel_path (note_task wide r f))"
  by (simp add: note_task_def)

lemma execute_path: "xo_path (fst (execute_task mu dk t tr)) = tk_rel_path t"
  by (auto simp: execute_task_def execute_source_format_def refused_def Let_def split: option.splits)

text \<open>What a cycle did so far.\<close>

definition cycle_inv :: "orchestrator \<Rightarrow> (string \<Rightarrow> bool) \<Rightarrow> (repo_finding \<Rightarrow> string) \<Rightarrow> string \<Rightarrow> repo_finding set \<Rightarrow> tree \<Rightarrow> cycle \<Rightarrow> bool" where
  "cycle_inv oc wide risk_of r F tr st \<longleftrightarrow> free (cy_arbiter st)
     \<and> (\<exists>es. ab_log (cy_arbiter st) = concat (map turn es))
     \<and> (\<forall>x \<in> set (cy_executed st). \<exists>f \<in> F. approved oc risk_of f \<and> ex_finding x = rf_finding f \<and> ex_executor x = owner f
          \<and> ex_path x = tk_rel_path (note_task wide r f))
     \<and> (\<forall>p. cy_tree st p \<noteq> tr p \<longrightarrow> (\<exists>f \<in> F. approved oc risk_of f \<and> p = tk_rel_path (note_task wide r f)))
     \<and> cy_writes st = length (cy_executed st) + cy_failures st
     \<and> (if cy_halt st = RepeatedFailures then or_failure_threshold oc \<le> cy_failures st \<and> cy_failures st \<le> max (Suc 0) (or_failure_threshold oc)
        else cy_failures st = 0 \<or> cy_failures st < or_failure_threshold oc)"

lemma run_finding_inv:
  assumes "cycle_inv oc wide risk_of r F tr st" "f \<in> F" "cy_halt st \<noteq> RepeatedFailures"
  shows "cycle_inv oc wide risk_of r F tr (run_finding oc wide dk risk_of r f st)"
proof -
  let ?s = "run_finding oc wide dk risk_of r f st"
  have "free (cy_arbiter st)" using assms(1) by (simp add: cycle_inv_def)
  note T = run_finding_free[OF this, of oc wide dk risk_of r f]
  obtain es where es: "ab_log (cy_arbiter st) = concat (map turn es)" using assms(1) by (auto simp: cycle_inv_def)
  have log: "\<exists>es. ab_log (cy_arbiter ?s) = concat (map turn es)"
    using T es by (cases "cleared risk_of f") (auto intro: exI[of _ "es @ [owner f]"] exI[of _ es])
  from T consider (none) "did_nothing st ?s" | (wrote) "approved oc risk_of f" "wrote oc wide dk r f st ?s" by blast
  then show ?thesis
  proof cases
    case none
    then show ?thesis using assms(1,3) T log by (simp add: cycle_inv_def did_nothing_def)
  next
    case wrote
    then obtain mu out tr2 where w: "execute_task mu (dk (cy_writes st)) (note_task wide r f) (cy_tree st) = (out, tr2)" "cy_tree ?s = tr2"
      "cy_writes ?s = cy_writes st + 1"
      "if xo_executed out \<and> xo_verified out
        then cy_failures ?s = cy_failures st \<and> cy_halt ?s = cy_halt st
          \<and> (\<exists>a. cy_executed ?s = cy_executed st @ [\<lparr>ex_finding = rf_finding f, ex_executor = owner f, ex_path = xo_path out,
                ex_lines_changed = xo_lines_changed out, ex_approval = a\<rparr>])
        else cy_executed ?s = cy_executed st \<and> cy_failures ?s = cy_failures st + 1
          \<and> cy_halt ?s = (if or_failure_threshold oc \<le> cy_failures st + 1 then RepeatedFailures else cy_halt st)"
      by (auto simp: wrote_def)
    have path: "xo_path out = tk_rel_path (note_task wide r f)" using execute_path[of mu "dk (cy_writes st)" "note_task wide r f" "cy_tree st"] w(1) by simp
    have tree: "cy_tree ?s p = cy_tree st p" if "p \<noteq> tk_rel_path (note_task wide r f)" for p
      using execute_frame[OF that, of mu "dk (cy_writes st)" "cy_tree st"] w(1,2) by simp
    have t: "\<forall>p. cy_tree ?s p \<noteq> tr p \<longrightarrow> (\<exists>f \<in> F. approved oc risk_of f \<and> p = tk_rel_path (note_task wide r f))"
      using tree assms(1,2) wrote(1) unfolding cycle_inv_def by metis
    have x: "\<forall>x \<in> set (cy_executed ?s). \<exists>f \<in> F. approved oc risk_of f \<and> ex_finding x = rf_finding f \<and> ex_executor x = owner f
          \<and> ex_path x = tk_rel_path (note_task wide r f)"
      using w(4) path wrote(1) assms(1,2) by (auto simp: cycle_inv_def split: if_splits)
    have n: "cy_writes ?s = length (cy_executed ?s) + cy_failures ?s
      \<and> (if cy_halt ?s = RepeatedFailures then or_failure_threshold oc \<le> cy_failures ?s \<and> cy_failures ?s \<le> max (Suc 0) (or_failure_threshold oc)
        else cy_failures ?s = 0 \<or> cy_failures ?s < or_failure_threshold oc)"
      using w(3,4) assms(1,3) by (auto simp: cycle_inv_def split: if_splits)
    show ?thesis using T log t x n by (simp add: cycle_inv_def)
  qed
qed

lemma run_findings_inv:
  "cycle_inv oc wide risk_of r F tr st \<Longrightarrow> set fs \<subseteq> F \<Longrightarrow> cy_halt st \<noteq> RepeatedFailures \<Longrightarrow>
    cycle_inv oc wide risk_of r F tr (run_findings oc wide dk risk_of r fs st)"
proof (induction fs arbitrary: st)
  case Nil
  then show ?case by simp
next
  case (Cons f fs)
  then have "cycle_inv oc wide risk_of r F tr (run_finding oc wide dk risk_of r f st)" by (intro run_finding_inv) auto
  then show ?case using Cons by (simp add: Let_def)
qed

section \<open>Properties\<close>

text \<open>C22: One cycle of the autopilot. It does nothing for a repository that is not on the list or under the kill
  switch. Otherwise it executes only findings that the internal chain clears by their wording and risk and
  the lane allows, changes no file but their notes under \<open>runs/forgekit/autopilot\<close>, holds the slot for one
  executor at a time and gives it back, and stops when writes have failed as often as the threshold says.\<close>

theorem cycle_serial_and_bounded:
  "let st = run_cycle oc wide dk risk_of repo_name fs new_arbiter tr
   in (py_strip repo_name \<notin> set (or_allowlist oc) \<or> or_kill_switch oc \<longrightarrow> cy_executed st = [] \<and> cy_tree st = tr)
     \<and> (\<forall>x \<in> set (cy_executed st). \<exists>f \<in> set fs. approved oc risk_of f \<and> ex_finding x = rf_finding f
          \<and> prefix ''runs/forgekit/autopilot/'' (ex_path x))
     \<and> (\<forall>p. cy_tree st p \<noteq> tr p \<longrightarrow> (\<exists>f \<in> set fs. approved oc risk_of f \<and> p = tk_rel_path (note_task wide repo_name f)))
     \<and> ab_holder (cy_arbiter st) = None \<and> ab_queue (cy_arbiter st) = []
     \<and> (\<exists>es. ab_log (cy_arbiter st) = concat (map (\<lambda>e. [''grant:'' @ e, ''release:'' @ e]) es))
     \<and> cy_failures st \<le> max 1 (or_failure_threshold oc)"
proof -
  have start: "cycle_inv oc wide risk_of repo_name (set fs) tr (start_cycle new_arbiter tr)"
    by (auto simp: cycle_inv_def start_cycle_def new_arbiter_def free_def intro: exI[of _ "[]"])
  have turn: "turn = (\<lambda>e. [''grant:'' @ e, ''release:'' @ e])" by (simp add: turn_def fun_eq_iff)
  show ?thesis
  proof (cases "\<not> is_allowed oc repo_name \<or> or_kill_switch oc")
    case True
    then show ?thesis
      by (auto simp: run_cycle_def is_allowed_def start_cycle_def new_arbiter_def Let_def intro: exI[of _ "[]"])
  next
    case False
    then have run: "run_cycle oc wide dk risk_of repo_name fs new_arbiter tr = run_findings oc wide dk risk_of repo_name fs (start_cycle new_arbiter tr)"
      by (simp add: run_cycle_def)
    have "cycle_inv oc wide risk_of repo_name (set fs) tr (run_cycle oc wide dk risk_of repo_name fs new_arbiter tr)"
      unfolding run by (rule run_findings_inv[OF start]) (simp_all add: start_cycle_def)
    note I = this[unfolded cycle_inv_def free_def]
    have "cy_failures (run_cycle oc wide dk risk_of repo_name fs new_arbiter tr) \<le> max 1 (or_failure_threshold oc)"
      using I by (auto split: if_splits)
    then show ?thesis using I False note_prefix[of wide repo_name] unfolding Let_def turn[symmetric] is_allowed_def by (metis (no_types, lifting))
  qed
qed

text \<open>A queue that outlives its cycle locks the slot. A cycle that runs while another role holds a shared arbiter
  executes nothing and leaves its executors in the queue; when the holder lets go, the first of them is
  granted the slot although its cycle is over, and no later cycle over the arbiter ever executes anything.\<close>

lemma shared_arbiter_locks:
  assumes "ab_holder a = Some h" and "ab_queue a = []" and "f \<in> set fs" and "cleared risk_of f"
    and "is_allowed oc repo_name" and "\<not> or_kill_switch oc"
    and "st = run_cycle oc wide dk risk_of repo_name fs a tr"
  shows "cy_executed st = [] \<and> cy_tree st = tr \<and> (\<exists>e. ab_holder (release h (cy_arbiter st)) = Some e
    \<and> (\<forall>oc' wide' dk' risk' repo' fs' tr'. let st' = run_cycle oc' wide' dk' risk' repo' fs' (release h (cy_arbiter st)) tr'
         in cy_executed st' = [] \<and> cy_tree st' = tr' \<and> ab_holder (cy_arbiter st') = Some e))"
proof -
  have held: "ab_holder (cy_arbiter s) = Some x \<Longrightarrow> cy_halt s = NotHalted \<Longrightarrow>
      (cy_executed s', cy_tree s', ab_holder (cy_arbiter s')) = (cy_executed s, cy_tree s, Some x)
      \<and> set (ab_queue (cy_arbiter s')) = set (ab_queue (cy_arbiter s)) \<union> owner ` {f \<in> set gs. cleared ri f}"
    if "s' = run_findings o2 wi d2 ri re gs s" for s s' x o2 wi d2 ri re gs
    using that
  proof (induction gs arbitrary: s)
    case Nil
    then show ?case by simp
  next
    case (Cons g gs)
    let ?s = "run_finding o2 wi d2 ri re g s"
    note H = run_finding_held[OF Cons.prems(1), of o2 wi d2 ri re g]
    have h: "cy_halt ?s = NotHalted" using H Cons.prems(2) by (simp add: did_nothing_def)
    then have "s' = run_findings o2 wi d2 ri re gs ?s" using Cons.prems(3) by (simp add: Let_def)
    from Cons.IH[OF _ h this] H show ?case by (auto simp: did_nothing_def split: if_splits)
  qed
  have cyc: "(cy_executed s', cy_tree s', ab_holder (cy_arbiter s')) = ([], t, Some x)"
    if "s' = run_cycle o2 wi d2 ri re gs b t" "ab_holder b = Some x" for s' o2 wi d2 ri re gs b t x
    using that held[of _ o2 wi d2 ri re gs "start_cycle b t" x] by (auto simp: run_cycle_def start_cycle_def)
  have run: "st = run_findings oc wide dk risk_of repo_name fs (start_cycle a tr)" using assms(5-7) by (simp add: run_cycle_def)
  have st: "cy_executed st = []" "cy_tree st = tr" "ab_holder (cy_arbiter st) = Some h"
    using cyc[OF assms(7,1)] held[OF run, of h] assms(1) by (simp_all add: start_cycle_def)
  have "set (ab_queue (cy_arbiter st)) \<noteq> {}"
    using held[OF run, of h] assms(1-4) by (auto simp: start_cycle_def)
  then obtain e q where q: "ab_queue (cy_arbiter st) = e # q" by (cases "ab_queue (cy_arbiter st)") auto
  then have "ab_holder (release h (cy_arbiter st)) = Some e" using st(3) by (simp add: release_def Let_def)
  then show ?thesis using st(1,2) cyc[OF refl] by (auto simp: Let_def)
qed

section \<open>After a restart\<close>

text \<open>A note that is already there is a write that changes nothing, and counts as a failure.\<close>

lemma same_note_refused:
  assumes "tr (tk_rel_path (note_task wide r f)) = Some c" "text_mode c = tk_content (note_task wide r f)" "dk_read_error d = None"
  shows "\<not> xo_executed (fst (execute_task mu d (note_task wide r f) tr))" "snd (execute_task mu d (note_task wide r f) tr) = tr"
proof -
  have a: "tk_action (note_task wide r f) = ''note''" by (simp add: note_task_def)
  show "\<not> xo_executed (fst (execute_task mu d (note_task wide r f) tr))" "snd (execute_task mu d (note_task wide r f) tr) = tr"
    using assms by (simp_all add: execute_task_def a planned_content_def refused_def Let_def)
qed

definition known :: "(string \<Rightarrow> bool) \<Rightarrow> string \<Rightarrow> tree \<Rightarrow> repo_finding \<Rightarrow> bool" where
  "known wide r tr f \<longleftrightarrow> (\<exists>c. tr (tk_rel_path (note_task wide r f)) = Some c \<and> text_mode c = tk_content (note_task wide r f))"

lemma known_findings_fail:
  assumes "or_mutator oc = Some mu" "or_authorizer oc = None" "\<And>k. dk_read_error (dk k) = None"
    and "free (cy_arbiter st)" "cy_halt st = NotHalted" "\<forall>f \<in> set fs. cleared risk_of f \<and> known wide r (cy_tree st) f"
    and "cy_failures st < or_failure_threshold oc" "or_failure_threshold oc \<le> cy_failures st + length fs"
  shows "cy_executed (run_findings oc wide dk risk_of r (fs @ rest) st) = cy_executed st
    \<and> cy_tree (run_findings oc wide dk risk_of r (fs @ rest) st) = cy_tree st
    \<and> cy_halt (run_findings oc wide dk risk_of r (fs @ rest) st) = RepeatedFailures"
  using assms(4-8)
proof (induction fs arbitrary: st)
  case Nil
  then show ?case by simp
next
  case (Cons f fs)
  let ?s = "run_finding oc wide dk risk_of r f st"
  have c: "cleared risk_of f" "known wide r (cy_tree st) f" using Cons.prems(3) by auto
  obtain q route d trace where ch: "run_internal_chain f (risk_of f) = (q, route, d, trace)" by (metis prod_cases4)
  obtain out tr2 where e: "execute_task mu (dk (cy_writes st)) (note_task wide r f) (cy_tree st) = (out, tr2)" by fastforce
  have x: "\<not> xo_executed out" "tr2 = cy_tree st"
    using same_note_refused[of "cy_tree st" wide r f _ "dk (cy_writes st)" mu] c(2) assms(3) e by (auto simp: known_def)
  have s: "cy_executed ?s = cy_executed st \<and> cy_tree ?s = cy_tree st \<and> cy_failures ?s = cy_failures st + 1
      \<and> cy_halt ?s = (if or_failure_threshold oc \<le> cy_failures st + 1 then RepeatedFailures else NotHalted) \<and> free (cy_arbiter ?s)"
    using run_finding_free[OF Cons.prems(1), of oc wide dk risk_of r f] e x Cons.prems(2) c(1) assms(1)
      chain_decision[OF ch] Cons.prems(1)
    by (auto simp: run_finding_def ch can_specialist_execute_def cleared_def acquire_def free_def write_note_def assms(2) Let_def)
  show ?case
  proof (cases "or_failure_threshold oc \<le> cy_failures st + 1")
    case True
    then show ?thesis using s by (simp add: Let_def)
  next
    case False
    then show ?thesis using s Cons.IH[of ?s] Cons.prems by (simp add: Let_def)
  qed
qed

text \<open>The passes of a process over ticks \<open>ns\<close>, with what the collector gives unchanged.\<close>

fun passes :: "(string \<Rightarrow> bool) \<Rightarrow> (nat \<Rightarrow> disk) \<Rightarrow> string list \<Rightarrow> int list \<Rightarrow> autopilot \<Rightarrow> tree \<Rightarrow> pass_outcome list \<times> autopilot \<times> tree" where
  "passes wide dk titles [] ap tr = ([], ap, tr)"
| "passes wide dk titles (n # ns) ap tr =
     (let (out, ap, tr) = autopilot_tick wide dk titles n ap tr; (outs, r) = passes wide dk titles ns ap tr in (out # outs, r))"

lemma tick_stalls:
  assumes "or_mutator (ap_orchestrator ap) = Some mu" "or_authorizer (ap_orchestrator ap) = None"
    "is_allowed (ap_orchestrator ap) (ap_repo_name ap)" "\<not> or_kill_switch (ap_orchestrator ap)" "ap_executed_sigs ap = {}"
    "0 < or_failure_threshold (ap_orchestrator ap)" "or_failure_threshold (ap_orchestrator ap) \<le> length old" "\<And>k. dk_read_error (dk k) = None"
    "\<forall>t \<in> set old. let f = \<lparr>rf_repo = ap_repo_name ap, rf_finding = t, rf_kind = ''docs'', rf_evidence = []\<rparr>
       in plain_wording (t @ '' '') \<and> known wide (ap_repo_name ap) tr f"
  shows "\<exists>out u. autopilot_tick wide dk (old @ new) n ap tr = (out, ap\<lparr>ap_cooldown_until := u\<rparr>, tr) \<and> po_executed out = 0 \<and> po_waiting out"
proof (cases "n < ap_cooldown_until ap")
  case True
  define out where "out = \<lparr>po_waiting = True, po_blocked_count = 0, po_executed = 0, po_paths = [],
      po_skipped = Cooldown, po_next_eligible = ap_cooldown_until ap\<rparr>"
  have "autopilot_tick wide dk (old @ new) n ap tr = (out, ap\<lparr>ap_cooldown_until := ap_cooldown_until ap\<rparr>, tr)"
    "po_executed out = 0" "po_waiting out" using True by (simp_all add: autopilot_tick_def out_def)
  then show ?thesis by blast
next
  case False
  let ?F = "map (\<lambda>t. \<lparr>rf_repo = ap_repo_name ap, rf_finding = t, rf_kind = ''docs'', rf_evidence = []\<rparr>)"
  let ?probe = "\<lparr>rf_repo = ap_repo_name ap, rf_finding = RESTRICTED_PROBE, rf_kind = ''ops'', rf_evidence = []\<rparr>"
  define res where "res = run_cycle (ap_orchestrator ap) wide dk (\<lambda>_. []) (ap_repo_name ap) (observe (ap_repo_name ap) (old @ new)) new_arbiter tr"
  have "res = run_findings (ap_orchestrator ap) wide dk (\<lambda>_. []) (ap_repo_name ap) (?F old @ ?F new @ [?probe]) (start_cycle new_arbiter tr)"
    using assms(3,4) by (simp add: res_def run_cycle_def observe_def)
  moreover have "\<forall>f \<in> set (?F old). cleared (\<lambda>_. []) f \<and> known wide (ap_repo_name ap) (cy_tree (start_cycle new_arbiter tr)) f"
    using assms(9) by (auto simp: cleared_def start_cycle_def Let_def)
  ultimately have r: "cy_executed res = [] \<and> cy_tree res = tr \<and> cy_halt res = RepeatedFailures"
    using known_findings_fail[where dk = dk and st = "start_cycle new_arbiter tr" and fs = "?F old" and risk_of = "\<lambda>_. []" and wide = wide
        and r = "ap_repo_name ap" and rest = "?F new @ [?probe]", OF assms(1,2,8)] assms(6,7)
    by (simp add: start_cycle_def new_arbiter_def free_def)
  have all: "filter (\<lambda>f. finding_sig f \<notin> ap_executed_sigs ap) (observe (ap_repo_name ap) (old @ new)) = observe (ap_repo_name ap) (old @ new)"
    using assms(5) by simp
  have "ap\<lparr>ap_executed_sigs := {}\<rparr> = ap" using assms(5) by (cases ap) simp
  then have same: "ap\<lparr>ap_executed_sigs := {}, ap_cooldown_until := u\<rparr> = ap\<lparr>ap_cooldown_until := u\<rparr>" for u by metis
  show ?thesis
    using False r assms(5) by (simp add: autopilot_tick_def Let_def all res_def[symmetric] same) blast
qed

lemma passes_stall:
  assumes "or_mutator (ap_orchestrator ap) = Some mu" "or_authorizer (ap_orchestrator ap) = None"
    "is_allowed (ap_orchestrator ap) (ap_repo_name ap)" "\<not> or_kill_switch (ap_orchestrator ap)" "ap_executed_sigs ap = {}"
    "0 < or_failure_threshold (ap_orchestrator ap)" "or_failure_threshold (ap_orchestrator ap) \<le> length old" "\<And>k. dk_read_error (dk k) = None"
    "\<forall>t \<in> set old. let f = \<lparr>rf_repo = ap_repo_name ap, rf_finding = t, rf_kind = ''docs'', rf_evidence = []\<rparr>
       in plain_wording (t @ '' '') \<and> known wide (ap_repo_name ap) tr f"
  shows "\<exists>outs u. passes wide dk (old @ new) ns ap tr = (outs, ap\<lparr>ap_cooldown_until := u\<rparr>, tr)
    \<and> (\<forall>out \<in> set outs. po_executed out = 0 \<and> po_waiting out)"
  using assms
proof (induction ns arbitrary: ap)
  case Nil
  then show ?case by (intro exI[of _ "[]"] exI[of _ "ap_cooldown_until ap"]) simp
next
  case (Cons n ns)
  obtain out u where t: "autopilot_tick wide dk (old @ new) n ap tr = (out, ap\<lparr>ap_cooldown_until := u\<rparr>, tr)" "po_executed out = 0" "po_waiting out"
    using tick_stalls[where dk = dk and new = new and n = n, OF Cons.prems] by blast
  have "\<exists>outs u'. passes wide dk (old @ new) ns (ap\<lparr>ap_cooldown_until := u\<rparr>) tr = (outs, ap\<lparr>ap_cooldown_until := u\<rparr>\<lparr>ap_cooldown_until := u'\<rparr>, tr)
    \<and> (\<forall>out \<in> set outs. po_executed out = 0 \<and> po_waiting out)"
    by (rule Cons.IH) (use Cons.prems in simp_all)
  then obtain outs u' where "passes wide dk (old @ new) ns (ap\<lparr>ap_cooldown_until := u\<rparr>) tr = (outs, ap\<lparr>ap_cooldown_until := u'\<rparr>, tr)"
    "\<forall>out \<in> set outs. po_executed out = 0 \<and> po_waiting out" by auto
  then show ?case using t by (intro exI[of _ "out # outs"] exI[of _ u']) simp
qed

text \<open>The autopilot stalls after a restart. The notes of an earlier process are still there, but which findings it
  executed is forgotten: when as many of the first findings as the failure threshold have their note, each
  pass takes them for failed writes, stops at the threshold and cools down, and no pass ever executes
  anything, whatever new findings stand behind them.\<close>

lemma restart_stalls:
  assumes "or_mutator (ap_orchestrator ap) = Some mu" and "or_authorizer (ap_orchestrator ap) = None"
    and "is_allowed (ap_orchestrator ap) (ap_repo_name ap)" and "\<not> or_kill_switch (ap_orchestrator ap)"
    and "ap_executed_sigs ap = {}" and "titles = old @ new" and "0 < or_failure_threshold (ap_orchestrator ap)"
    and "or_failure_threshold (ap_orchestrator ap) \<le> length old" and "\<And>k. dk_read_error (dk k) = None"
    and "\<forall>t \<in> set old. let f = \<lparr>rf_repo = ap_repo_name ap, rf_finding = t, rf_kind = ''docs'', rf_evidence = []\<rparr>
           in plain_wording (t @ '' '') \<and> (\<exists>c. tr (tk_rel_path (note_task wide (ap_repo_name ap) f)) = Some c
                \<and> text_mode c = tk_content (note_task wide (ap_repo_name ap) f))"
  shows "case passes wide dk titles ns ap tr of (outs, ap', tr') \<Rightarrow>
    tr' = tr \<and> ap_executed_sigs ap' = {} \<and> (\<forall>out \<in> set outs. po_executed out = 0 \<and> po_waiting out)"
  using passes_stall[where dk = dk and new = new and ns = ns and wide = wide and tr = tr, OF assms(1-5,7-9) assms(10)[folded known_def]]
    assms(5,6) by auto

section \<open>Samples\<close>

definition sample_orchestrator :: orchestrator where
  "sample_orchestrator = \<lparr>or_allowlist = DEFAULT_ALLOWLIST, or_failure_threshold = 1, or_kill_switch = False,
     or_mutator = Some \<lparr>mu_max_diff_lines = 200, mu_source_prefixes = [], mu_parses = (\<lambda>_. True), mu_source_verifier = None\<rparr>,
     or_authorizer = None\<rparr>"

definition sample_finding :: repo_finding where
  "sample_finding = \<lparr>rf_repo = ''forgekit'', rf_finding = ''tidy docs'', rf_kind = ''docs'', rf_evidence = []\<rparr>"

definition sample_autopilot :: autopilot where
  "sample_autopilot = \<lparr>ap_repo_name = ''forgekit'', ap_orchestrator = sample_orchestrator, ap_cooldown_ticks = 3, ap_executed_sigs = {}, ap_cooldown_until = 0\<rparr>"

lemma sample_wording: "plain_wording (''tidy docs'' @ '' '')"
proof -
  have l: "py_lower (''tidy docs'' @ '' '') = ''tidy docs '' " by (simp add: py_lower_def py_lower_char_def Let_def)
  have "list_all (\<lambda>k. list_ex (\<lambda>c. c \<notin> set ''tidy docs '') k) (RESTRICTED_WORDS @ RISKY_WORDS)"
    by (simp add: RESTRICTED_WORDS_def RISKY_WORDS_def utf8_def char_of_def)
  moreover have "py_contains k s \<Longrightarrow> set k \<subseteq> set s" for k s by (auto simp: py_contains_sublist sublist_def)
  ultimately show ?thesis unfolding plain_wording_def l list_all_iff list_ex_iff by blast
qed

lemma sample_oc: "is_allowed sample_orchestrator ''forgekit''" "\<not> or_kill_switch sample_orchestrator"
  by (simp_all add: is_allowed_def sample_orchestrator_def DEFAULT_ALLOWLIST_def py_strip_def py_lstrip_def py_rstrip_def py_space_def)

theorem cycle_serial_and_bounded_witness:
  "cy_executed (run_cycle sample_orchestrator (\<lambda>_. False) (\<lambda>_. quiet_disk) (\<lambda>_. []) ''elsewhere'' [sample_finding] new_arbiter Map.empty) = []
   \<and> cy_failures (run_cycle sample_orchestrator (\<lambda>_. False) (\<lambda>_. quiet_disk) (\<lambda>_. []) ''forgekit'' [sample_finding] new_arbiter Map.empty) \<le> 1"
  using cycle_serial_and_bounded[of sample_orchestrator "\<lambda>_. False" "\<lambda>_. quiet_disk" "\<lambda>_. []" "''elsewhere''" "[sample_finding]" Map.empty]
    cycle_serial_and_bounded[of sample_orchestrator "\<lambda>_. False" "\<lambda>_. quiet_disk" "\<lambda>_. []" "''forgekit''" "[sample_finding]" Map.empty]
  by (auto simp: Let_def sample_orchestrator_def DEFAULT_ALLOWLIST_def py_strip_def py_lstrip_def py_rstrip_def py_space_def)

end
