(* ===== verification/ServeProps.thy ===== *)
theory ServeProps
  imports Serve GoalSchedulerProps AutopilotCycleProps
begin

text \<open>
  What the always-on service guarantees: the loop is bounded and its numbering survives restarts; and across all
  passes, ticks and restarts no packet is attempted twice and nothing outside \<open>runs/forgekit\<close> is touched.
\<close>

section \<open>The loop\<close>

text \<open>The first \<open>m\<close> calls of the tick function, numbered from \<open>t + 1\<close>: their results and the state they lead to.\<close>

primrec served :: "(nat \<Rightarrow> int \<Rightarrow> 'w \<Rightarrow> ('e + serve_outcome) \<times> 'w) \<Rightarrow> int \<Rightarrow> 'w \<Rightarrow> nat \<Rightarrow> ('e + serve_outcome) list \<times> 'w" where
  "served tick t w 0 = ([], w)"
| "served tick t w (Suc m) = (case served tick t w m of (os, w1) \<Rightarrow>
     (case tick m (t + 1 + int m) w1 of (r, w2) \<Rightarrow> (os @ [r], w2)))"

definition outcomes :: "('e + serve_outcome) list \<Rightarrow> serve_outcome list" where
  "outcomes os = List.map_filter (\<lambda>r. case r of Inl x \<Rightarrow> None | Inr out \<Rightarrow> Some out) os"

lemma outcomes_simps [simp]: "outcomes [] = []" "outcomes (os @ [Inl x]) = outcomes os" "outcomes (os @ [Inr out]) = outcomes os @ [out]"
  by (simp_all add: outcomes_def List.map_filter_def)

lemma length_served [simp]: "length (fst (served tick t w m)) = m"
  by (induction m) (simp_all split: prod.split, metis fst_conv)

text \<open>The state of the loop after some turns.\<close>

definition turns_ok :: "daemon \<Rightarrow> (nat \<Rightarrow> turn_event) \<Rightarrow> (nat \<Rightarrow> int \<Rightarrow> 'w \<Rightarrow> ('e + serve_outcome) \<times> 'w) \<Rightarrow> int \<Rightarrow> bool \<Rightarrow> 'w \<Rightarrow>
    ('w, 'e) serving \<Rightarrow> bool" where
  "turns_ok c ev tick t killed w st \<longleftrightarrow> (case served tick t w (sg_run st) of (os, w1) \<Rightarrow>
     sg_state st = w1 \<and> sg_tick st = t + int (sg_run st) \<and> sg_executed st = sum_list (map so_executed (outcomes os))
     \<and> sg_waits st = length (filter waiting (outcomes os)) \<and> sg_notified st \<le> sg_waits st \<and> sg_heartbeats st \<le> sg_run st
     \<and> (case sg_raised st of None \<Rightarrow> (\<forall>r \<in> set os. is_ok r) | Some x \<Rightarrow> (\<exists>us. os = us @ [Inl x] \<and> (\<forall>r \<in> set us. is_ok r)))
     \<and> sg_killed st = killed \<and> (\<forall>j < sg_run st. \<not> te_stop (ev j) \<and> \<not> te_kill (ev j)) \<and> (0 < sg_run st \<longrightarrow> \<not> killed)
     \<and> (da_max_ticks c \<noteq> 0 \<longrightarrow> int (sg_run st) \<le> max 0 (da_max_ticks c)))"

lemma start_ok: "turns_ok c ev tick t killed w (start_serving c e t f killed w)"
  by (simp add: turns_ok_def start_serving_def)

lemma turn_ok:
  assumes "turns_ok c ev tick t killed w st" and "\<not> turn_stops c (ev (sg_run st)) st"
  shows "turns_ok c ev tick t killed w (serve_turn c (ev (sg_run st)) tick st)"
proof -
  obtain os w1 where s: "served tick t w (sg_run st) = (os, w1)" by fastforce
  obtain r w2 where r: "tick (sg_run st) (sg_tick st + 1) (sg_state st) = (r, w2)" by fastforce
  have b: "sg_raised st = None" "\<not> te_stop (ev (sg_run st))" "\<not> te_kill (ev (sg_run st))" "\<not> sg_killed st"
    "da_max_ticks c \<noteq> 0 \<Longrightarrow> int (sg_run st) < da_max_ticks c"
    using assms(2) by (auto simp: turn_stops_def kill_set_def)
  have a: "sg_state st = w1" "sg_tick st + 1 = t + 1 + int (sg_run st)" "\<forall>r \<in> set os. is_ok r" "\<not> killed"
    "sg_notified st \<le> sg_waits st" "sg_heartbeats st \<le> sg_run st" "\<forall>j < sg_run st. \<not> te_stop (ev j) \<and> \<not> te_kill (ev j)"
    "sg_executed st = sum_list (map so_executed (outcomes os))" "sg_waits st = length (filter waiting (outcomes os))"
    using assms(1) b by (auto simp: turns_ok_def s)
  have n: "t + 1 + int (sg_run st) = sg_tick st + 1" using a(2) by simp
  have s2: "served tick t w (Suc (sg_run st)) = (os @ [r], w2)" using r by (simp only: served.simps s prod.case a(1)[symmetric] n)
  have j: "j < Suc (sg_run st) \<Longrightarrow> \<not> te_stop (ev j) \<and> \<not> te_kill (ev j)" for j
    using a(7) b(2,3) less_Suc_eq by auto
  have m: "da_max_ticks c \<noteq> 0 \<Longrightarrow> int (Suc (sg_run st)) \<le> max 0 (da_max_ticks c)" using b(5) by linarith
  show ?thesis
  proof (cases r)
    case (Inl x)
    have "serve_turn c (ev (sg_run st)) tick st = st\<lparr>sg_tick := sg_tick st + 1, sg_run := Suc (sg_run st), sg_state := w2,
        sg_killed := killed, sg_raised := Some x\<rparr>"
      using b(3,4) a(4) by (simp add: serve_turn_def r Inl kill_set_def)
    then show ?thesis using a j m s2 by (auto simp: turns_ok_def Inl simp del: served.simps)
  next
    case (Inr out)
    define f where "f = snd (write_heartbeat (te_beat_fails (ev (sg_run st)))
        (beat_now c STATUS_RUNNING (te_note (ev (sg_run st))) (te_ts (ev (sg_run st))) (sg_tick st + 1)) (sg_beat st))"
    have "serve_turn c (ev (sg_run st)) tick st = st\<lparr>sg_tick := sg_tick st + 1, sg_run := Suc (sg_run st), sg_state := w2,
        sg_killed := killed, sg_ticks := sg_tick st + 1, sg_executed := sg_executed st + so_executed out, sg_beat := f,
        sg_heartbeats := (if te_beat_fails (ev (sg_run st)) then sg_heartbeats st else sg_heartbeats st + 1),
        sg_waits := (if waiting out then sg_waits st + 1 else sg_waits st),
        sg_notified := (if notify_waiting c (te_notify_fails (ev (sg_run st))) out then sg_notified st + 1 else sg_notified st)\<rparr>"
      using b(3,4) a(4) by (simp add: serve_turn_def r Inr kill_set_def Let_def f_def write_heartbeat_def)
    then show ?thesis
      using a b(1) j m s2 by (auto simp: turns_ok_def Inr is_ok_def notify_waiting_def simp del: served.simps)
  qed
qed

lemma run_turn: "sg_run (serve_turn c e tick st) = Suc (sg_run st)"
  by (simp add: serve_turn_def Let_def write_heartbeat_def split: prod.split sum.split)

lemma serve_loop_ends:
  assumes "da_max_ticks c \<noteq> 0 \<or> (\<exists>k. te_stop (ev k) \<or> te_kill (ev k))" and "turns_ok c ev tick t killed w st0"
  obtains st where "serve_loop c ev tick st0 = Some st" "turns_ok c ev tick t killed w st" "turn_stops c (ev (sg_run st)) st"
proof -
  obtain K where K: "\<And>st. turns_ok c ev tick t killed w st \<Longrightarrow> \<not> turn_stops c (ev (sg_run st)) st \<Longrightarrow> sg_run st < K"
  proof (cases "da_max_ticks c = 0")
    case False
    then show ?thesis by (intro that[of "nat (da_max_ticks c)"]) (auto simp: turn_stops_def)
  next
    case True
    then obtain k where k: "te_stop (ev k) \<or> te_kill (ev k)" using assms(1) by blast
    show ?thesis
    proof (rule that[of k])
      fix s assume s: "turns_ok c ev tick t killed w s" "\<not> turn_stops c (ev (sg_run s)) s"
      have "\<forall>j < sg_run s. \<not> te_stop (ev j) \<and> \<not> te_kill (ev j)" using s(1) by (auto simp: turns_ok_def split: prod.splits)
      moreover have "sg_run s \<noteq> k" using k s(2) by (auto simp: turn_stops_def kill_set_def)
      ultimately show "sg_run s < k" using k linorder_neqE_nat by blast
    qed
  qed
  have "\<exists>st. serve_loop c ev tick st0 = Some st"
    unfolding serve_loop_def
    by (rule measure_while_option_Some[where P = "turns_ok c ev tick t killed w" and f = "\<lambda>s. K - sg_run s"])
      (use turn_ok K assms(2) in \<open>auto simp: run_turn diff_less_mono2\<close>)
  then obtain st where st: "serve_loop c ev tick st0 = Some st" by blast
  have "turns_ok c ev tick t killed w st"
    by (rule while_option_rule[where P = "turns_ok c ev tick t killed w", OF _ st[unfolded serve_loop_def] assms(2)]) (simp add: turn_ok)
  then show ?thesis using that st while_option_stop[OF st[unfolded serve_loop_def]] by simp
qed

text \<open>C33: The service loop is bounded and its numbering survives restarts. With a bound on the ticks, or a stop or kill
  request at some point, the loop returns. It has then called the tick a number of times within the bound,
  numbered on from the last heartbeat, never after a stop or kill request, and never again after a call
  raised; what it reports as executed and waiting is the sum over those calls. It says truly why it
  stopped; unless a call raised, the heartbeat left behind says so with the number of the last tick, and
  the next process counts on from there.\<close>

theorem serve_bounded:
  assumes "resume_tick h c f = Some t" and "da_max_ticks c \<noteq> 0 \<or> (\<exists>k. te_stop (ev k) \<or> te_kill (ev k))"
  shows "\<exists>why st os. serve h c e0 e1 ev tick f killed w = Some (Some (why, st))
    \<and> served tick t w (sg_run st) = (os, sg_state st) \<and> 0 \<le> t \<and> sg_tick st = t + int (sg_run st)
    \<and> (da_max_ticks c \<noteq> 0 \<longrightarrow> int (sg_run st) \<le> max 0 (da_max_ticks c))
    \<and> (\<forall>j < sg_run st. \<not> te_stop (ev j) \<and> \<not> te_kill (ev j)) \<and> (killed \<longrightarrow> sg_run st = 0)
    \<and> sg_executed st = sum_list (map so_executed (outcomes os)) \<and> sg_waits st = length (filter waiting (outcomes os))
    \<and> (case why of
         StoppedByError \<Rightarrow> (\<exists>us x. os = us @ [Inl x] \<and> (\<forall>r \<in> set us. is_ok r) \<and> sg_raised st = Some x)
       | StopRequested \<Rightarrow> te_stop (ev (sg_run st)) | StoppedByKill \<Rightarrow> killed \<or> te_kill (ev (sg_run st))
       | StoppedByMax \<Rightarrow> int (sg_run st) = max 0 (da_max_ticks c))
    \<and> (why \<noteq> StoppedByError \<and> \<not> te_beat_fails e1 \<longrightarrow> (\<forall>r \<in> set os. is_ok r)
         \<and> (\<exists>b. read_heartbeat h (sg_beat st) = Some b \<and> bt_status b = JStr STATUS_STOPPED \<and> bt_tick b = sg_tick st)
         \<and> (da_resume c \<longrightarrow> resume_tick h c (sg_beat st) = Some (sg_tick st)))"
proof -
  obtain st where st: "serve_loop c ev tick (start_serving c e0 t f killed w) = Some st"
    "turns_ok c ev tick t killed w st" "turn_stops c (ev (sg_run st)) st"
    by (rule serve_loop_ends[OF assms(2) start_ok[where f = f and e = e0]])
  obtain os where os: "served tick t w (sg_run st) = (os, sg_state st)" using st(2) by (auto simp: turns_ok_def split: prod.splits)
  note T = st(2)[unfolded turns_ok_def os prod.case]
  have t: "0 \<le> t" using assms(1) by (auto simp: resume_tick_def split: if_splits option.splits)
  let ?why = "stop_cause c (ev (sg_run st)) st" and ?st = "end_serving c (ev (sg_run st)) e1 st"
  have same: "sg_run ?st = sg_run st" "sg_state ?st = sg_state st" "sg_tick ?st = sg_tick st" "sg_executed ?st = sg_executed st"
    "sg_waits ?st = sg_waits st" "sg_raised ?st = sg_raised st" by (simp_all add: end_serving_def)
  have why: "case ?why of StoppedByError \<Rightarrow> (\<exists>us x. os = us @ [Inl x] \<and> (\<forall>r \<in> set us. is_ok r) \<and> sg_raised st = Some x)
       | StopRequested \<Rightarrow> te_stop (ev (sg_run st)) | StoppedByKill \<Rightarrow> killed \<or> te_kill (ev (sg_run st))
       | StoppedByMax \<Rightarrow> int (sg_run st) = max 0 (da_max_ticks c)"
    using T st(3) by (auto simp: stop_cause_def turn_stops_def kill_set_def)
  have beat: "(\<forall>r \<in> set os. is_ok r) \<and> read_heartbeat h (sg_beat ?st) = Some (beat_now c STATUS_STOPPED (te_note e1) (te_ts e1) (sg_tick st))"
    if "?why \<noteq> StoppedByError" "\<not> te_beat_fails e1"
  proof -
    have "sg_raised st = None" using that(1) by (auto simp: stop_cause_def split: if_splits)
    then show ?thesis
      using T that(2) by (auto simp: end_serving_def write_heartbeat_def beat_dict_def beat_now_def read_heartbeat_def
          dict_get_or_def dict_get_def dict_get_default_def truthy_def py_int_def)
  qed
  have ser: "serve h c e0 e1 ev tick f killed w = Some (Some (?why, ?st))" by (simp add: serve_def assms(1) st(1))
  have res: "resume_tick h c (sg_beat ?st) = Some (sg_tick st)" if "?why \<noteq> StoppedByError" "\<not> te_beat_fails e1" "da_resume c"
    using beat[OF that(1,2)] that(3) T t by (auto simp: resume_tick_def beat_now_def)
  show ?thesis
  proof (intro exI[of _ ?why] exI[of _ ?st] exI[of _ os], unfold same, intro conjI)
  qed (use T t os why beat res ser in \<open>auto simp: beat_now_def\<close>)
qed

section \<open>One tick and the store\<close>

lemma attempted_new_records:
  assumes "evidence g' = evidence g @ es" and "\<forall>e \<in> set es. ev_kind e \<notin> {EV_EXECUTION, EV_DECISION}"
  shows "attempted_packet_ids g' = attempted_packet_ids g"
proof -
  have "packet_refs g' k = packet_refs g k" if "k \<in> {EV_EXECUTION, EV_DECISION}" for k
    using that assms by (intro set_eqI) (fastforce simp: packet_refs_iff)
  then show ?thesis by (simp add: attempted_packet_ids_def)
qed

lemma tick_move_attempted:
  assumes "tick_move ma b a g g'"
  shows "attempted_packet_ids g' = attempted_packet_ids g \<and> (packets_clean g \<longrightarrow> packets_clean g')"
proof -
  from assms have "\<exists>es. evidence g' = evidence g @ es \<and> (\<forall>e \<in> set es. ev_kind e \<in> {EV_VERIFICATION, EV_REPLAN, EV_BLOCKED})"
    unfolding tick_move_def by auto
  then obtain es where es: "evidence g' = evidence g @ es" "\<forall>e \<in> set es. ev_kind e \<in> {EV_VERIFICATION, EV_REPLAN, EV_BLOCKED}" by blast
  then have "attempted_packet_ids g' = attempted_packet_ids g" by (intro attempted_new_records[OF es(1)]) (auto simp: ev_kinds)
  moreover have "packets g' = packets g \<or> (\<exists>P. packets g' = filter P (packets g))" using assms unfolding tick_move_def by auto
  then have "packets_clean g \<longrightarrow> packets_clean g'" by (auto simp: packets_clean_def)
  ultimately show ?thesis by simp
qed

text \<open>A step that keeps the store clean and forgets no attempt.\<close>

definition keeps :: "json_host \<Rightarrow> goal_files \<Rightarrow> goal_files \<Rightarrow> bool" where
  "keeps h fs fs' \<longleftrightarrow> clean_store h fs' \<and> (\<forall>j. attempted_in h fs j \<subseteq> attempted_in h fs' j)"

lemma continuation_keeps:
  assumes "clean_store h fs"
  shows "keeps h fs (snd (continuation_tick h clock mg ma fs))"
proof -
  let ?fs = "snd (continuation_tick h clock mg ma fs)"
  have so: "store_ok h fs" using assms by (simp add: clean_store_def)
  note T = continuation_tick_moves[OF so, of clock mg ma]
  have from_old: "\<exists>g. file_goal h fs i = Some g \<and> attempted_packet_ids g' = attempted_packet_ids g \<and> (packets_clean g \<longrightarrow> packets_clean g')"
    if "file_goal h ?fs i = Some g'" for i g'
  proof (cases "hidden i")
    case True
    then have "file_goal h fs i = Some g'" using T that by metis
    then show ?thesis by blast
  next
    case False
    then have v: "view h ?fs i = Some g'" using that by (simp add: view_def)
    then obtain g where g: "view h fs i = Some g" using T by (metis domD domI)
    then have "tick_move ma (view h fs) (view h ?fs) g g'" using T v by blast
    then show ?thesis using tick_move_attempted g False by (auto simp: view_def)
  qed
  have dom: "\<exists>g'. file_goal h ?fs i = Some g'" if "file_goal h fs i = Some g" for i g
  proof (cases "hidden i")
    case True
    then show ?thesis using T that by metis
  next
    case False
    then have "i \<in> dom (view h fs)" using that by (auto simp: view_def)
    then have "i \<in> dom (view h ?fs)" using T by simp
    then show ?thesis using False by (auto simp: view_def)
  qed
  have "clean_store h ?fs" using T from_old assms unfolding clean_store_def by blast
  moreover have "attempted_in h fs j \<subseteq> attempted_in h ?fs j" for j
    using dom[of j] from_old[of j] by (auto simp: attempted_in_def split: option.splits)
  ultimately show ?thesis by (simp add: keeps_def)
qed

lemma scheduler_keeps:
  assumes "clean_store (sc_host sc) fs" "fresh_ids (sc_host sc) fs (sc_uuid sc)" "hex_digits (sc_sha1 sc)"
  shows "keeps (sc_host sc) fs (sd_files (scheduler_tick sc fs logs))"
proof -
  have so: "store_ok (sc_host sc) fs" using assms(1) by (simp add: clean_store_def)
  note R = scheduler_tick_rel[OF so assms(2,3), of logs, unfolded sched_rel_def Let_def]
  let ?fs = "sd_files (scheduler_tick sc fs logs)"
  have old: "\<exists>g. file_goal (sc_host sc) ?fs i = Some g \<and> proposes g0 g" if "file_goal (sc_host sc) fs i = Some g0" for i g0
    using R that by blast
  have "packets_clean g" if g: "file_goal (sc_host sc) ?fs i = Some g" for i g
  proof (cases "file_goal (sc_host sc) fs i")
    case None
    then show ?thesis using R g unfolding newborn_def by blast
  next
    case (Some g0)
    then show ?thesis using old[OF Some] g assms(1) by (auto simp: clean_store_def proposes_def)
  qed
  then have "clean_store (sc_host sc) ?fs" using R by (simp add: clean_store_def)
  moreover have "attempted_in (sc_host sc) fs j \<subseteq> attempted_in (sc_host sc) ?fs j" for j
    using old[of j] proposes_attempted by (fastforce simp: attempted_in_def split: option.splits)
  ultimately show ?thesis by (simp add: keeps_def)
qed

text \<open>What the four passes need of their hosts: one store, saves that succeed, ids and hashes as their libraries make them.\<close>

definition hosts_ok :: "json_host \<Rightarrow> hosts \<Rightarrow> service \<Rightarrow> bool" where
  "hosts_ok h hs sv \<longleftrightarrow> sc_host (hs_scheduler hs) = h \<and> tc_host (hs_ticker hs) = h \<and> hex_digits (sc_sha1 (hs_scheduler hs))
     \<and> fresh_ids h (wd_files (sv_world sv)) (sc_uuid (hs_scheduler hs)) \<and> (\<forall>n. \<not> at_save_fails (hs_slot hs n))"

text \<open>The attempts of a tick: those of its execution pass, when the scheduler has not raised.\<close>

definition tick_trace :: "hosts \<Rightarrow> int \<Rightarrow> service \<Rightarrow> (string \<times> string \<times> exec_result) list" where
  "tick_trace hs n sv = (case scheduler_part hs (snd (autopilot_part hs n sv)) of (s, sv1) \<Rightarrow>
     if is_ok s then xp_trace (exec_pass_over ((hs_ticker hs)\<lparr>tc_logs := sv_logs sv1\<rparr>) (hs_slot hs) (sv_world sv1)) else [])"

lemma combined_tick_settles:
  assumes "clean_store h (wd_files (sv_world sv))" and "hosts_ok h hs sv"
  shows "clean_store h (wd_files (sv_world (snd (combined_tick hs n sv))))
    \<and> settles h (wd_files (sv_world sv)) (tick_trace hs n sv) (wd_files (sv_world (snd (combined_tick hs n sv))))"
proof -
  obtain a sv1 where a: "autopilot_part hs n sv = (a, sv1)" by fastforce
  obtain s sv2 where s: "scheduler_part hs sv1 = (s, sv2)" by fastforce
  have f1: "wd_files (sv_world sv1) = wd_files (sv_world sv)"
    using a by (auto simp: autopilot_part_def split: prod.splits)
  have f2: "wd_files (sv_world sv2) = sd_files (scheduler_tick (hs_scheduler hs) (wd_files (sv_world sv)) (sv_logs sv1))"
    using s by (auto simp: scheduler_part_def f1 Let_def)
  have k2: "keeps h (wd_files (sv_world sv)) (wd_files (sv_world sv2))"
    using scheduler_keeps[of "hs_scheduler hs" "wd_files (sv_world sv)"] assms unfolding f2 hosts_ok_def by auto
  then have c2: "clean_store h (wd_files (sv_world sv2))" and t2: "settles h (wd_files (sv_world sv)) [] (wd_files (sv_world sv2))"
    by (simp_all add: keeps_def settles_nil)
  show ?thesis
  proof (cases s)
    case (Inl e)
    then show ?thesis using c2 t2 by (simp add: combined_tick_def tick_trace_def a s is_ok_def)
  next
    case (Inr out)
    let ?tc = "(hs_ticker hs)\<lparr>tc_logs := sv_logs sv2\<rparr>"
    obtain g w3 where g: "exec_tick ?tc (hs_slot hs) (sv_world sv2) = (g, w3)" by fastforce
    have h: "tc_host ?tc = h" "\<And>n. \<not> at_save_fails (hs_slot hs n)" using assms(2) by (simp_all add: hosts_ok_def)
    note X = exec_tick_moves[where tc = ?tc and slot = "hs_slot hs" and w = "sv_world sv2", unfolded h(1) g snd_conv, OF c2 h(2)]
    obtain c sv4 where c: "continuation_part hs (sv2\<lparr>sv_world := w3\<rparr>) = (c, sv4)" by fastforce
    have f4: "wd_files (sv_world sv4) = snd (continuation_tick h (hs_clock hs) (hs_max_goals hs) (hs_max_attempts hs) (wd_files w3))"
      using c h(1) by (auto simp: continuation_part_def split: prod.splits)
    have k4: "keeps h (wd_files w3) (wd_files (sv_world sv4))" unfolding f4 using X by (intro continuation_keeps) simp
    have "snd (combined_tick hs n sv) = sv4"
      by (simp add: combined_tick_def a s Inr exec_part_def g c split: sum.split)
    moreover have "tick_trace hs n sv = xp_trace (exec_pass_over ?tc (hs_slot hs) (sv_world sv2))"
      by (simp add: tick_trace_def a s Inr is_ok_def)
    moreover have "settles h (wd_files w3) [] (wd_files (sv_world sv4))" "clean_store h (wd_files (sv_world sv4))"
      using k4 by (simp_all add: keeps_def settles_nil)
    ultimately show ?thesis using settles_trans[OF t2 settles_trans[of h _ _ "wd_files w3" "[]"]] X by simp
  qed
qed

section \<open>A history of the service\<close>

text \<open>Ticks with whatever hosts, restarts and edits by others between them that forget no attempt.\<close>

inductive service_history :: "json_host \<Rightarrow> service \<Rightarrow> (string \<times> string \<times> exec_result) list \<Rightarrow> service \<Rightarrow> bool" for h where
  start: "service_history h sv [] sv"
| tick: "service_history h sv tr sv' \<Longrightarrow> hosts_ok h hs sv' \<Longrightarrow>
    service_history h sv (tr @ tick_trace hs n sv') (snd (combined_tick hs n sv'))"
| other: "service_history h sv tr sv' \<Longrightarrow> keeps h (wd_files (sv_world sv')) (wd_files (sv_world sv'')) \<Longrightarrow> service_history h sv tr sv''"

text \<open>C4: Across everything the service does a packet is attempted at most once. Over any history of combined ticks,
  with restarts of the process and writes by others in between, no packet of a goal is applied or refused a
  second time, and none that was attempted before: the scheduler and the continuation, which run between the
  execution passes on the same store, lose no record of an attempt. Saves must succeed, and no other
  writer may remove the record of an attempt; attempts that end in an error leave no record and are not covered.\<close>

theorem service_attempts_once:
  assumes "clean_store h (wd_files (sv_world sv))" and "service_history h sv tr sv'"
  shows "clean_store h (wd_files (sv_world sv')) \<and> distinct (keys tr)
    \<and> (\<forall>(i, p) \<in> set (keys tr). p \<notin> attempted_in h (wd_files (sv_world sv)) i \<and> p \<in> attempted_in h (wd_files (sv_world sv')) i)"
proof -
  have "clean_store h (wd_files (sv_world sv')) \<and> settles h (wd_files (sv_world sv)) tr (wd_files (sv_world sv'))"
    using assms(2,1)
  proof (induction rule: service_history.induct)
    case (start sv)
    then show ?case by (simp add: settles_nil)
  next
    case (tick sv tr sv' hs n)
    then have "clean_store h (wd_files (sv_world sv'))" "settles h (wd_files (sv_world sv)) tr (wd_files (sv_world sv'))" by auto
    then show ?case using combined_tick_settles[of h sv' hs n] tick.hyps(2) settles_trans by blast
  next
    case (other sv tr sv' sv'')
    then have "settles h (wd_files (sv_world sv)) (tr @ []) (wd_files (sv_world sv''))"
      by (intro settles_trans[of _ _ _ "wd_files (sv_world sv')"] settles_nil) (auto simp: keeps_def)
    then show ?case using other.hyps(2) by (simp add: keeps_def)
  qed
  then show ?thesis by (simp add: settles_def)
qed

section \<open>What the service may touch\<close>

text \<open>Outside \<open>runs/forgekit\<close> files and index stay, and the last commit changes at most to what was staged.\<close>

definition confined :: "repo \<Rightarrow> repo \<Rightarrow> bool" where
  "confined r r' \<longleftrightarrow> (\<forall>p. \<not> prefix ''runs/forgekit/'' p \<longrightarrow>
     rp_work r' p = rp_work r p \<and> rp_index r' p = rp_index r p \<and> rp_head r' p \<in> {rp_head r p, rp_index r p})"

lemma confined_refl [simp]: "confined r r"
  by (simp add: confined_def)

lemma confined_trans: "confined r1 r2 \<Longrightarrow> confined r2 r3 \<Longrightarrow> confined r1 r3"
  unfolding confined_def by (metis insertE insertI1 insertI2 singletonD)

lemma confined_note:
  assumes "prefix ''runs/forgekit/'' q" and "\<And>p. p \<noteq> q \<Longrightarrow> rp_work r' p = rp_work r p \<and> rp_index r' p = rp_index r p \<and> rp_head r' p \<in> {rp_head r p, rp_index r p}"
  shows "confined r r'"
  using assms unfolding confined_def by metis

lemma execute_confined:
  assumes "git_documented (at_git a)" and "execute_approved_packet a persist approver (Some m) wanted g w = (r, w')"
  shows "confined (wd_repo w) (wd_repo w')"
  using assms(2)
proof (cases rule: execute_cases)
  case (error pid err)
  then show ?thesis by simp
next
  case (refused pid finding risk why)
  then show ?thesis by (simp add: save_quietly_repo)
next
  case (applied pid finding k)
  have n: "prefix ''runs/forgekit/'' (tk_rel_path (safe_task (at_wide a) pid finding))"
    using note_path_ok(2)[of "at_wide a" pid finding] by (auto simp: prefix_def)
  note R = apply_result[OF assms(1) applied(4)]
  show ?thesis
    by (rule confined_note[OF n]) (use R in \<open>cases "ending_of r"; auto\<close>)
qed

lemma attempts_confined:
  assumes "\<And>n. git_documented (at_git (slot n))"
  shows "confined (wd_repo (xp_world st)) (wd_repo (xp_world (attempt_packets tc slot i ps g st)))"
proof (induction ps arbitrary: g st)
  case Nil
  then show ?case by simp
next
  case (Cons p ps)
  obtain r w where e: "execute_approved_packet (slot (xp_n st)) True (tc_approver tc) (Some (tc_mutator tc)) (Some p) g (xp_world st) = (r, w)"
    by fastforce
  have "confined (wd_repo w) (wd_repo (xp_world (attempt_packets tc slot i ps g' (count_outcome i p r (st\<lparr>xp_world := w\<rparr>)))))" for g'
    using Cons.IH[of "count_outcome i p r (st\<lparr>xp_world := w\<rparr>)" g'] by simp
  then show ?case using confined_trans[OF execute_confined[OF assms e]] by (simp add: e)
qed

lemma exec_tick_confined:
  assumes "\<And>n. git_documented (at_git (slot n))"
  shows "confined (wd_repo w) (wd_repo (snd (exec_tick tc slot w)))"
proof -
  have one: "confined (wd_repo (xp_world st)) (wd_repo (xp_world (exec_goal tc slot goals g st)))" for goals g st
    using attempts_confined[OF assms]
    by (simp add: exec_goal_def record_governance_block_def save_quietly_repo Let_def split: prod.split)
  have "confined (wd_repo (xp_world st)) (wd_repo (xp_world (fold (exec_goal tc slot goals) gs st)))" for goals gs st
  proof (induction gs arbitrary: st)
    case Nil
    then show ?case by simp
  next
    case (Cons g gs)
    show ?case using confined_trans[OF one Cons.IH] by simp
  qed
  then show ?thesis
    by (simp add: exec_tick_def exec_pass_over_def start_exec_def Let_def split: sum.split) (metis exec_pass.select_convs(1))
qed

lemma autopilot_confined: "confined (wd_repo (sv_world sv)) (wd_repo (sv_world (snd (autopilot_part hs n sv))))"
proof -
  have nt: "prefix ''runs/forgekit/'' (tk_rel_path (note_task wide r f))" for wide r f
    using note_prefix[of wide r f] by (auto simp: prefix_def)
  have cycle: "cy_tree (run_cycle oc wide dk risk_of r fs new_arbiter tr) p = tr p" if "\<not> prefix ''runs/forgekit/'' p" for oc wide dk risk_of r fs tr p
  proof -
    have "cycle_inv oc wide risk_of r (set fs) tr (start_cycle new_arbiter tr)"
      by (auto simp: cycle_inv_def start_cycle_def new_arbiter_def free_def intro: exI[of _ "[]"])
    then have "cycle_inv oc wide risk_of r (set fs) tr (run_findings oc wide dk risk_of r fs (start_cycle new_arbiter tr))"
      by (rule run_findings_inv) (simp_all add: start_cycle_def)
    then have "cy_tree (run_findings oc wide dk risk_of r fs (start_cycle new_arbiter tr)) p = tr p"
      using that nt unfolding cycle_inv_def by metis
    then show ?thesis by (simp add: run_cycle_def start_cycle_def)
  qed
  have "snd (snd (autopilot_tick wide dk titles n ap tr)) p = tr p" if "\<not> prefix ''runs/forgekit/'' p" for wide dk titles ap tr p
    using cycle[OF that] by (simp add: autopilot_tick_def Let_def)
  then show ?thesis by (simp add: autopilot_part_def confined_def split: prod.split) (metis snd_conv)
qed

lemma combined_tick_confined:
  assumes "\<And>n. git_documented (at_git (hs_slot hs n))"
  shows "confined (wd_repo (sv_world sv)) (wd_repo (sv_world (snd (combined_tick hs n sv))))"
proof -
  obtain a sv1 where a: "autopilot_part hs n sv = (a, sv1)" by fastforce
  obtain s sv2 where s: "scheduler_part hs sv1 = (s, sv2)" by fastforce
  have c1: "confined (wd_repo (sv_world sv)) (wd_repo (sv_world sv1))" using autopilot_confined[of sv hs n] by (simp add: a)
  have c2: "wd_repo (sv_world sv2) = wd_repo (sv_world sv1)" using s by (auto simp: scheduler_part_def Let_def)
  obtain g sv3 where g: "exec_part hs sv2 = (g, sv3)" by fastforce
  have c3: "confined (wd_repo (sv_world sv2)) (wd_repo (sv_world sv3))"
    using exec_tick_confined[where slot = "hs_slot hs" and w = "sv_world sv2" and tc = "(hs_ticker hs)\<lparr>tc_logs := sv_logs sv2\<rparr>", OF assms] g
    by (auto simp: exec_part_def split: prod.splits)
  obtain c sv4 where c: "continuation_part hs sv3 = (c, sv4)" by fastforce
  have c4: "wd_repo (sv_world sv4) = wd_repo (sv_world sv3)" using c by (auto simp: continuation_part_def split: prod.splits)
  show ?thesis
    using c1 c3 confined_trans[of "wd_repo (sv_world sv)" "wd_repo (sv_world sv1)" "wd_repo (sv_world sv3)"]
    by (simp add: combined_tick_def a s g c c2 c4 split: sum.split)
qed

text \<open>C5: A service confined to its notes. Whatever the goals, packets, findings and failures, and however long the
  loop runs: outside \<open>runs/forgekit/\<close> no file on disk and no entry of the index changes, and the last commit
  holds there what it held or what others had staged. git is assumed to do what it documents.\<close>

theorem service_confined:
  assumes "\<And>k n. git_documented (at_git (hs_slot (hs k) n))"
    and "serve h c e0 e1 ev (\<lambda>k. combined_tick (hs k)) f killed sv = Some (Some (why, st))" and "\<not> prefix ''runs/forgekit/'' p"
  shows "rp_work (wd_repo (sv_world (sg_state st))) p = rp_work (wd_repo (sv_world sv)) p
    \<and> rp_index (wd_repo (sv_world (sg_state st))) p = rp_index (wd_repo (sv_world sv)) p
    \<and> rp_head (wd_repo (sv_world (sg_state st))) p \<in> {rp_head (wd_repo (sv_world sv)) p, rp_index (wd_repo (sv_world sv)) p}"
proof -
  let ?P = "\<lambda>s :: (service, goal_error) serving. confined (wd_repo (sv_world sv)) (wd_repo (sv_world (sg_state s)))"
  obtain t s where s: "serve_loop c ev (\<lambda>k. combined_tick (hs k)) (start_serving c e0 t f killed sv) = Some s"
    "sg_state st = sg_state s"
    using assms(2) by (auto simp: serve_def end_serving_def split: option.splits if_splits)
  have step: "?P (serve_turn c e (\<lambda>k. combined_tick (hs k)) u)" if "?P u" for e u
    using confined_trans[OF that combined_tick_confined[where hs = "hs (sg_run u)" and sv = "sg_state u" and n = "sg_tick u + 1", OF assms(1)]]
    by (auto simp: serve_turn_def Let_def split: prod.split sum.split)
  have "?P s"
    by (rule while_option_rule[where P = ?P, OF _ s(1)[unfolded serve_loop_def]]) (use step in \<open>simp_all add: start_serving_def\<close>)
  then show ?thesis using assms(3) by (simp add: s(2) confined_def)
qed

section \<open>Samples\<close>

definition sample_daemon :: daemon where
  "sample_daemon = \<lparr>da_max_ticks = 2, da_pid = 7, da_resume = True, da_notifier = False\<rparr>"

definition sample_turn :: turn_event where
  "sample_turn = \<lparr>te_stop = False, te_kill = False, te_ts = ''t'', te_note = [], te_beat_fails = False, te_notify_fails = False\<rparr>"

definition sample_service :: service where
  "sample_service = \<lparr>sv_world = sample_world, sv_logs = (\<lambda>_. []),
     sv_autopilot = sample_autopilot\<lparr>ap_orchestrator := sample_orchestrator\<lparr>or_kill_switch := True\<rparr>\<rparr>\<rparr>"

definition sample_hosts :: hosts where
  "sample_hosts = \<lparr>hs_wide = (\<lambda>_. False), hs_disk = (\<lambda>_. quiet_disk), hs_titles = [], hs_scheduler = sample_scheduler, hs_ticker = sample_ticker,
     hs_slot = (\<lambda>_. sample_attempt plain_git), hs_clock = (\<lambda>_. ''t''), hs_max_goals = 20, hs_max_attempts = 1\<rparr>"

lemma sample_resume: "resume_tick plain_json sample_daemon None = Some 0"
  by (simp add: resume_tick_def sample_daemon_def read_heartbeat_def)

theorem serve_bounded_witness:
  "\<exists>why (st :: (unit, unit) serving). serve plain_json sample_daemon sample_turn sample_turn (\<lambda>_. sample_turn)
      (\<lambda>k n w. (Inl (), w)) None False () = Some (Some (why, st)) \<and> sg_run st \<le> 2"
  using serve_bounded[OF sample_resume, of "\<lambda>_. sample_turn" sample_turn sample_turn "\<lambda>k n w. (Inl (), w)" False "()"]
  by (auto simp: sample_daemon_def)

lemma sample_hosts_ok: "hosts_ok plain_json sample_hosts sample_service"
proof -
  have f: "file_goal plain_json (wd_files sample_world) s = (if s = ''g'' then Some sample_goal else None)" for s
    by (simp add: sample_world_def file_goal_def goal_json_roundtrip_eq)
  have "fresh_ids plain_json (wd_files sample_world) sample_uuid"
    using sample_host by (simp add: fresh_ids_def f) (simp add: sample_uuid_def)
  then show ?thesis
    using sample_host(4) by (simp add: hosts_ok_def sample_hosts_def sample_service_def sample_scheduler_def sample_ticker_def sample_attempt_def)
qed

lemma sample_trace: "\<exists>r. tick_trace sample_hosts 1 sample_service = [(''g'', ''p1'', r)] \<and> xr_outcome r \<noteq> OUTCOME_ERROR"
proof -
  have n: "\<not> needs_packetizing sample_goal" by code_simp
  have l: "load_all plain_json (wd_files sample_world) = Inr [sample_goal]" by (rule sample_store(2))
  obtain x sv1 where a: "autopilot_part sample_hosts 1 sample_service = (x, sv1)" by fastforce
  then have sv1: "sv_world sv1 = sample_world" "sv_logs sv1 = (\<lambda>_. [])"
    by (auto simp: autopilot_part_def autopilot_tick_def run_cycle_def start_cycle_def sample_service_def sample_autopilot_def
        sample_orchestrator_def Let_def)
  have hs: "hs_scheduler sample_hosts = sample_scheduler" "(hs_ticker sample_hosts)\<lparr>tc_logs := (\<lambda>_. [])\<rparr> = sample_ticker"
    "hs_slot sample_hosts = (\<lambda>_. sample_attempt plain_git)" by (simp_all add: sample_hosts_def sample_ticker_def)
  have s: "scheduler_tick sample_scheduler (wd_files sample_world) (\<lambda>_. []) = start_sched (wd_files sample_world) (\<lambda>_. [])"
    using n by (simp add: scheduler_tick_def schedule_candidates_def py_take_def sample_scheduler_def l)
  have w: "sample_world\<lparr>wd_files := wd_files sample_world\<rparr> = sample_world" by simp
  have "tick_trace sample_hosts 1 sample_service = xp_trace (exec_pass_over sample_ticker (\<lambda>_. sample_attempt plain_git) sample_world)"
    by (simp add: tick_trace_def a scheduler_part_def hs sv1 s Let_def start_sched_def scheduler_outcome_def is_ok_def)
  then show ?thesis using sample_pass[of plain_git] by simp
qed

theorem service_attempts_once_witness:
  "\<exists>r. tick_trace sample_hosts 1 sample_service = [(''g'', ''p1'', r)]
    \<and> ''p1'' \<in> attempted_in plain_json (wd_files (sv_world (snd (combined_tick sample_hosts 1 sample_service)))) ''g''"
proof -
  have h: "service_history plain_json sample_service ([] @ tick_trace sample_hosts 1 sample_service) (snd (combined_tick sample_hosts 1 sample_service))"
    by (intro service_history.tick service_history.start sample_hosts_ok)
  have c: "clean_store plain_json (wd_files (sv_world sample_service))" using sample_store(1) by (simp add: sample_service_def)
  show ?thesis using sample_trace service_attempts_once[OF c h] by (auto simp: keys_def)
qed

theorem service_confined_witness:
  "\<exists>why st. serve plain_json sample_daemon sample_turn sample_turn (\<lambda>_. sample_turn) (\<lambda>_. combined_tick sample_hosts) None False sample_service
      = Some (Some (why, st)) \<and> rp_head (wd_repo (sv_world (sg_state st))) ''README.md'' = None"
proof -
  let ?tick = "\<lambda>_ :: nat. combined_tick sample_hosts"
  have b: "da_max_ticks sample_daemon \<noteq> 0 \<or> (\<exists>k :: nat. te_stop sample_turn \<or> te_kill sample_turn)" by (simp add: sample_daemon_def)
  obtain st where "serve_loop sample_daemon (\<lambda>_. sample_turn) ?tick (start_serving sample_daemon sample_turn 0 None False sample_service) = Some st"
    by (rule serve_loop_ends[OF b start_ok])
  then obtain why st where s: "serve plain_json sample_daemon sample_turn sample_turn (\<lambda>_. sample_turn) ?tick None False sample_service
      = Some (Some (why, st))" by (simp add: serve_def sample_resume)
  have "git_documented (at_git (hs_slot sample_hosts n))" for n
    using sample_gits_documented by (simp add: sample_hosts_def sample_attempt_def)
  then have "rp_head (wd_repo (sv_world (sg_state st))) ''README.md''
      \<in> {rp_head (wd_repo (sv_world sample_service)) ''README.md'', rp_index (wd_repo (sv_world sample_service)) ''README.md''}"
    using service_confined[OF _ s, of "''README.md''"] by simp
  then show ?thesis using s by (auto simp: sample_service_def sample_world_def empty_world_def)
qed

end
