(* ===== verification/Escalation.thy ===== *)
theory Escalation
  imports PyUnicode
begin

text \<open>
  Repeated failures (\<open>forgekit_runtime/lifecycle/failure_escalation.py\<close>): the same failure past a threshold is
  reported to files a person reads. A file is what reading it gives; what the disk, the notifier and the
  troubleshooting ledger do in a call is an argument of the call. Then the bounded loop over findings, which hands off, writes
  runbooks and waits (\<open>forgekit_runtime/runtime/loop.py\<close>, \<open>runbook.py\<close>).
\<close>

section \<open>Settings\<close>

definition DEFAULT_THRESHOLD :: int where "DEFAULT_THRESHOLD = 3"
definition MAX_THRESHOLD :: int where "MAX_THRESHOLD = 5"

type_synonym environment = "string \<Rightarrow> string option"

text \<open>\<open>str.isdigit\<close>: decimal digits, and others such as superscripts, which \<open>int\<close> does not read.\<close>

definition is_digit :: "talk_host \<Rightarrow> (string \<Rightarrow> bool) \<Rightarrow> string \<Rightarrow> bool" where
  "is_digit h other c = (let n = code_point c in if n < 128 then 48 \<le> n \<and> n \<le> 57 else th_digit h c \<noteq> None \<or> other c)"

definition env_text :: "environment \<Rightarrow> string \<Rightarrow> string" where
  "env_text env k = wide_strip (case env k of None \<Rightarrow> [] | Some s \<Rightarrow> s)"

text \<open>\<open>None\<close>: the \<open>ValueError\<close> of \<open>int\<close>.\<close>

definition resolve_threshold :: "talk_host \<Rightarrow> (string \<Rightarrow> bool) \<Rightarrow> environment \<Rightarrow> int option" where
  "resolve_threshold h other env =
     (let raw = env_text env ''FORGEKIT_BLOCKED_THRESHOLD''
      in if raw \<noteq> [] \<and> list_all (is_digit h other) (char_list raw)
         then map_option (\<lambda>i. max 1 (min MAX_THRESHOLD i)) (py_int (th_json h) (JStr raw)) else Some DEFAULT_THRESHOLD)"

definition notify_enabled :: "talk_host \<Rightarrow> environment \<Rightarrow> bool" where
  "notify_enabled h env \<longleftrightarrow> th_lower h (env_text env ''FORGEKIT_NOTIFY'') \<in> {''1'', ''true'', ''on'', ''yes''}"

section \<open>Failures\<close>

definition KIND_RENDERER :: string where "KIND_RENDERER = ''renderer''"
definition KIND_IMPORT :: string where "KIND_IMPORT = ''import''"
definition KIND_COMMAND :: string where "KIND_COMMAND = ''command''"
definition KIND_POLICY :: string where "KIND_POLICY = ''policy''"
definition KIND_DEPENDENCY :: string where "KIND_DEPENDENCY = ''dependency''"
definition KIND_STATUS_SURFACE :: string where "KIND_STATUS_SURFACE = ''status-surface''"

record failure_signature =
  sg_kind :: string
  sg_reason :: string
  sg_scope :: string

definition failure_key :: "talk_host \<Rightarrow> failure_signature \<Rightarrow> string" where
  "failure_key h s = py_join '':'' (map (\<lambda>p. py_join ''-'' (py_words (th_lower h (wide_strip p))))
     (filter (\<lambda>p. wide_strip p \<noteq> []) [sg_kind s, sg_reason s, sg_scope s]))"

text \<open>Why, what else to try, what next, and whether a person must decide.\<close>

definition remedy :: "string \<Rightarrow> string \<times> string list \<times> string \<times> bool" where
  "remedy k =
     (if k = KIND_RENDERER then ((utf8 [0xD130, 0xBBF8, 0xB110, 0xC774] @ '' true raster(tgp/sixel)''
       @ utf8 [0xB97C, 0x20, 0xC9C0, 0xC6D0, 0xD558, 0xC9C0, 0x20, 0xC54A, 0xC544] @ '' fallback '' @ utf8 [0xC73C,
       0xB85C, 0x20, 0xBC18, 0xBCF5, 0x20, 0xB80C, 0xB354, 0xB428]),
        [(''iTerm2 / WezTerm / Kitty '' @ utf8 [0xC5D0, 0xC11C, 0x20, 0xC2E4,
          0xD589]), (''Python 3.10+ console env(.venv-console) '' @ utf8 [0xC0AC,
          0xC6A9]), (''FORGEKIT_AVATAR=portrait|mark '' @ utf8 [0xB85C, 0x20, 0xACE0, 0xC815])],
        (utf8 [0xAD8C, 0xC7A5, 0x20, 0xD130, 0xBBF8, 0xB110, 0xC5D0, 0xC11C] @ '' `/render` '' @ utf8 [0xB85C]
          @ '' true-raster '' @ utf8 [0xC5EC, 0xBD80, 0x20, 0xD655, 0xC778]), False)
      else if k = KIND_IMPORT then ((utf8 [0xD544, 0xC218, 0x20, 0xB77C, 0xC774, 0xBE0C, 0xB7EC, 0xB9AC]
        @ '' import '' @ utf8 [0xAC00, 0x20, 0xBC18, 0xBCF5, 0x20, 0xC2E4, 0xD328, 0x28, 0xBC84, 0xC804, 0x2F,
        0xC124, 0xCE58, 0x20, 0xBB38, 0xC81C, 0x20, 0xAC00, 0xB2A5] @ '')''),
        [(''`pip install -e '' @ utf8 [0x27] @ ''.[console]'' @ utf8 [0x27, 0x60, 0x20, 0xC7AC, 0xC124,
          0xCE58]), (''Python 3.10+ '' @ utf8 [0xC778, 0xD130, 0xD504, 0xB9AC, 0xD130, 0x20, 0xC0AC,
          0xC6A9]), (utf8 [0xC758, 0xC874, 0xC131, 0x20, 0xBC84, 0xC804, 0x20, 0xC810, 0xAC80])],
        (''import '' @ utf8 [0xB300, 0xC0C1, 0x2F, 0xBC84, 0xC804, 0x20, 0xD655, 0xC778, 0x20, 0xD6C4, 0x20,
          0xC7AC, 0xC124, 0xCE58, 0xD558, 0xACE0] @ '' `/render` '' @ utf8 [0xB85C, 0x20, 0xC7AC, 0xAC80,
          0xC99D]), True)
      else if k = KIND_DEPENDENCY then ((utf8 [0xC678, 0xBD80, 0x20, 0xC758, 0xC874, 0xC131, 0x2F, 0xAD8C, 0xD55C,
        0xC774, 0x20, 0xBC18, 0xBCF5, 0xC801, 0xC73C, 0xB85C, 0x20, 0xCDA9, 0xC871, 0xB418, 0xC9C0, 0x20, 0xC54A,
        0xC74C]),
        [(utf8 [0xC790, 0xACA9, 0x2F, 0xD1A0, 0xD070, 0x2F, 0xAD8C, 0xD55C, 0x20, 0xC7AC, 0xD655,
          0xC778]), (utf8 [0xB124, 0xD2B8, 0xC6CC, 0xD06C, 0xB7, 0xC5D4, 0xB4DC, 0xD3EC, 0xC778, 0xD2B8, 0x20,
          0xC811, 0xADFC, 0xC131, 0x20, 0xD655, 0xC778]), (utf8 [0xCD5C, 0xC18C, 0x20, 0xAD8C, 0xD55C, 0xC73C,
          0xB85C, 0x20, 0xC7AC, 0xC2DC, 0xB3C4])],
        (utf8 [0xD544, 0xC694, 0xD55C, 0x20, 0xC790, 0xACA9, 0x2F, 0xAD8C, 0xD55C, 0xC744] @ '' operator ''
          @ utf8 [0xC5D0, 0xAC8C, 0x20, 0xC694, 0xCCAD]), True)
      else if k = KIND_POLICY then ((utf8 [0xC815, 0xCC45, 0x20, 0xAC8C, 0xC774, 0xD2B8, 0xAC00, 0x20, 0xAC19,
        0xC740, 0x20, 0xC774, 0xC720, 0xB85C, 0x20, 0xBC18, 0xBCF5, 0x20, 0xCC28, 0xB2E8]),
        [(utf8 [0xC694, 0xCCAD, 0x20, 0xBC94, 0xC704, 0xB97C, 0x20, 0xC815, 0xCC45, 0x20, 0xD5C8, 0xC6A9, 0x20,
          0xBC94, 0xC704, 0xB85C, 0x20, 0xCD95, 0xC18C]), (utf8 [0xD544, 0xC694, 0xD55C, 0x20, 0xC2B9, 0xC778,
          0x2F, 0xAD8C, 0xD55C, 0x20, 0xCE74, 0xB4DC, 0x20, 0xC694, 0xCCAD]), (utf8 [0xC815, 0xCC45, 0x20, 0xADFC,
          0xAC70, 0x20, 0xBB38, 0xC11C, 0x20, 0xC7AC, 0xD655, 0xC778])],
        (utf8 [0xC2B9, 0xC778, 0x20, 0xB9E4, 0xD2B8, 0xB9AD, 0xC2A4, 0xC5D0, 0x20, 0xB530, 0xB77C] @ '' operator ''
          @ utf8 [0xC2B9, 0xC778, 0x2F, 0xACB0, 0xC815, 0x20, 0xC694, 0xCCAD]), True)
      else if k = KIND_STATUS_SURFACE then ((utf8 [0xC0C1, 0xD0DC] @ '' surface(runtime/doctor/operator)''
        @ utf8 [0xAC00, 0x20, 0xBC18, 0xBCF5, 0xC801, 0xC73C, 0xB85C] @ '' unavailable''),
        [(''runtime '' @ utf8 [0xAE30, 0xB3D9, 0x20, 0xC5EC, 0xBD80, 0x20, 0xD655, 0xC778]), (''repo-root/DB ''
          @ utf8 [0xACBD, 0xB85C, 0x20, 0xD655, 0xC778]), (''yule_engineering '' @ utf8 [0xC124, 0xCE58, 0x20,
          0xD655, 0xC778])],
        (''`/doctor` '' @ utf8 [0xB85C, 0x20, 0xD658, 0xACBD, 0x20, 0xC810, 0xAC80, 0x20, 0xD6C4] @ '' runtime ''
          @ utf8 [0xC7AC, 0xAE30, 0xB3D9]), True)
      else if k = KIND_COMMAND then ((utf8 [0xAC19, 0xC740, 0x20, 0xBA85, 0xB839, 0xC774, 0x20, 0xAC19, 0xC740,
        0x20, 0xC774, 0xC720, 0xB85C, 0x20, 0xBC18, 0xBCF5, 0x20, 0xC2E4, 0xD328]),
        [(utf8 [0xBA85, 0xB839, 0x20, 0xC778, 0xC790, 0x2F, 0xB300, 0xC0C1, 0x20, 0xC7AC, 0xD655,
          0xC778]), (utf8 [0xC120, 0xD589, 0x20, 0xC0C1, 0xD0DC] @ ''(`/status`,`/doctor`) '' @ utf8 [0xC810,
          0xAC80]), (utf8 [0xB300, 0xCCB4, 0x20, 0xBA85, 0xB839, 0x20, 0xACBD, 0xB85C, 0x20, 0xC0AC, 0xC6A9])],
        (utf8 [0xC2E4, 0xD328, 0x20, 0xC6D0, 0xC778, 0xC744, 0x20, 0xC881, 0xD788, 0xACE0] @ '' operator ''
          @ utf8 [0xC5D0, 0xAC8C, 0x20, 0xACF5, 0xC720]), True)
      else ((utf8 [0xAC19, 0xC740, 0x20, 0xC2E4, 0xD328, 0xAC00, 0x20, 0xC784, 0xACC4, 0xAC12, 0x20, 0xC774,
        0xC0C1, 0x20, 0xBC18, 0xBCF5, 0xB428]), [(utf8 [0xC785, 0xB825, 0x2F, 0xD658, 0xACBD, 0x20, 0xC7AC, 0xD655,
        0xC778]), (utf8 [0xC120, 0xD589, 0x20, 0xC870, 0xAC74, 0x20, 0xC810, 0xAC80]), (utf8 [0xB300, 0xC548, 0x20,
        0xACBD, 0xB85C, 0x20, 0xC2DC, 0xB3C4])],
        (utf8 [0xC6D0, 0xC778, 0xC744, 0x20, 0xC881, 0xD600] @ '' operator '' @ utf8 [0xC5D0, 0xAC8C, 0x20, 0xBCF4,
          0xACE0]), True))"

text \<open>One failure as it is recorded.\<close>

record failure =
  fa_signature :: failure_signature
  fa_symptom :: string
  fa_evidence :: string
  fa_attempted_fix :: string
  fa_alternatives :: "string list"
  fa_timestamp :: string

record occurrence =
  fo_kind :: string
  fo_reason :: string
  fo_scope :: string
  fo_count :: nat
  fo_symptoms :: "string list"
  fo_evidence :: "string list"
  fo_attempts :: "string list"
  fo_alternatives :: "string list"

record escalation_report =
  er_key :: string
  er_kind :: string
  er_count :: nat
  er_threshold :: int
  er_symptom :: string
  er_evidence :: "string list"
  er_attempted_fixes :: "string list"
  er_why_failing :: string
  er_alternatives :: "string list"
  er_next_step :: string
  er_needs_operator :: bool

definition report_payload :: "escalation_report \<Rightarrow> json pydict" where
  "report_payload r = [(''signature_key'', JStr (er_key r)), (''kind'', JStr (er_kind r)), (''count'', JInt (int (er_count r))),
     (''threshold'', JInt (er_threshold r)), (''symptom'', JStr (er_symptom r)), (''evidence'', JList (map JStr (er_evidence r))),
     (''attempted_fixes'', JList (map JStr (er_attempted_fixes r))), (''why_failing'', JStr (er_why_failing r)),
     (''alternatives'', JList (map JStr (er_alternatives r))), (''next_step'', JStr (er_next_step r)),
     (''needs_operator'', JBool (er_needs_operator r))]"

record escalation_outcome =
  eo_escalated :: bool
  eo_advisory :: string
  eo_count :: nat
  eo_threshold :: int
  eo_report :: "escalation_report option"
  eo_surfaces :: "string list"

definition meets_minimum_surfaces :: "int \<Rightarrow> escalation_outcome \<Rightarrow> bool" where
  "meets_minimum_surfaces least o' \<longleftrightarrow> max 1 least \<le> int (length (eo_surfaces o'))"

section \<open>The files\<close>

text \<open>What reading a file gives: nothing, text that is not JSON, or a JSON value.\<close>

datatype json_file = Missing_File | Broken_File | Json_File json

text \<open>The disk in one call: an \<open>OSError\<close> may come before the file is touched, or leave something else in it.\<close>

datatype disk = Works | Refuses | Tears json_file

definition existing_entries :: "json_file \<Rightarrow> json list" where
  "existing_entries f = (case f of Json_File (JList xs) \<Rightarrow> xs | _ \<Rightarrow> [])"

definition append_json :: "disk \<Rightarrow> json pydict \<Rightarrow> json_file \<Rightarrow> bool \<times> json_file" where
  "append_json d entry f = (case d of Refuses \<Rightarrow> (False, f) | Tears g \<Rightarrow> (False, g)
     | Works \<Rightarrow> (let xs = existing_entries f @ [JObj entry]
         in (True, Json_File (JList (if 200 < length xs then drop (length xs - 200) xs else xs)))))"

definition read_escalations :: "bool \<Rightarrow> json_file \<Rightarrow> json list" where
  "read_escalations readable f = (if readable then existing_entries f else [])"

section \<open>The escalator\<close>

record escalator =
  es_env :: environment
  es_threshold :: int
  es_bridge :: bool
  es_occurrences :: "occurrence pydict"
  es_ledger :: json_file
  es_inbox :: json_file
  es_notified :: "(string \<times> string) list"
  es_bridged :: "escalation_report list"

text \<open>What surrounds a call: the disk for either file, the notifier (\<open>None\<close>: it raises) and the troubleshooting ledger.\<close>

record surroundings =
  su_ledger :: disk
  su_inbox :: disk
  su_notifier :: "bool option"
  su_bridge :: bool

text \<open>\<open>__post_init__\<close>: a threshold that is given is clamped, too.\<close>

definition new_escalator :: "talk_host \<Rightarrow> (string \<Rightarrow> bool) \<Rightarrow> environment \<Rightarrow> int option \<Rightarrow> bool \<Rightarrow> json_file \<Rightarrow> json_file \<Rightarrow> escalator option" where
  "new_escalator h other env threshold bridge ledger inbox =
     map_option (\<lambda>t. \<lparr>es_env = env, es_threshold = max 1 (min MAX_THRESHOLD t), es_bridge = bridge, es_occurrences = [], es_ledger = ledger,
         es_inbox = inbox, es_notified = [], es_bridged = []\<rparr>)
       (case threshold of Some t \<Rightarrow> Some t | None \<Rightarrow> resolve_threshold h other env)"

definition given :: "string \<Rightarrow> string list" where
  "given s = (if s = [] then [] else [s])"

definition first_occurrence :: "failure_signature \<Rightarrow> occurrence" where
  "first_occurrence s = \<lparr>fo_kind = sg_kind s, fo_reason = sg_reason s, fo_scope = sg_scope s, fo_count = 0, fo_symptoms = [], fo_evidence = [],
     fo_attempts = [], fo_alternatives = []\<rparr>"

definition add_failure :: "failure \<Rightarrow> occurrence \<Rightarrow> occurrence" where
  "add_failure f oc = oc\<lparr>fo_count := fo_count oc + 1, fo_symptoms := fo_symptoms oc @ given (fa_symptom f),
     fo_evidence := fo_evidence oc @ given (fa_evidence f), fo_attempts := fo_attempts oc @ given (fa_attempted_fix f),
     fo_alternatives := fo_alternatives oc @ filter (\<lambda>a. a \<noteq> []) (fa_alternatives f)\<rparr>"

definition build_report :: "int \<Rightarrow> occurrence \<Rightarrow> string \<Rightarrow> escalation_report" where
  "build_report threshold oc key =
     (let (why, others, next, person) = remedy (fo_kind oc)
      in \<lparr>er_key = key, er_kind = fo_kind oc, er_count = fo_count oc, er_threshold = threshold,
          er_symptom = (if fo_symptoms oc \<noteq> [] then List.last (fo_symptoms oc) else if fo_reason oc \<noteq> [] then fo_reason oc else key),
          er_evidence = dedup (fo_evidence oc), er_attempted_fixes = dedup (fo_attempts oc), er_why_failing = why,
          er_alternatives = dedup (fo_alternatives oc @ others), er_next_step = next, er_needs_operator = person\<rparr>)"

definition inbox_entry :: "escalation_report \<Rightarrow> json pydict \<Rightarrow> json pydict" where
  "inbox_entry r payload = dict_merge [(''request_type'', JStr (if er_needs_operator r then ''DECISION'' else ''INFO'')),
     (''title'', JStr ((utf8 [0xBC18, 0xBCF5, 0x20, 0xC2E4, 0xD328] @ '': '')
       @ er_key r)), (''next_step'', JStr (er_next_step r)), (''needs_operator'', JBool (er_needs_operator r))] payload"

definition notify_title :: "escalation_report \<Rightarrow> string" where
  "notify_title r = (''forgekit: '' @ utf8 [0xBC18, 0xBCF5, 0x20, 0xC2E4, 0xD328] @ '' '') @ show_nat (er_count r)
    @ ''/'' @ show_int (er_threshold r)"

definition notify_body :: "escalation_report \<Rightarrow> string" where
  "notify_body r = er_key r @ ('' '' @ utf8 [0x2014] @ '' '') @ er_next_step r"

definition write_surfaces :: "talk_host \<Rightarrow> surroundings \<Rightarrow> escalation_report \<Rightarrow> string \<Rightarrow> escalator \<Rightarrow> string list \<times> escalator" where
  "write_surfaces h su r timestamp es =
     (let payload = report_payload r @ [(''recorded_at'', JStr timestamp)];
          (kept, ledger) = append_json (su_ledger su) payload (es_ledger es);
          (sent, inbox) = append_json (su_inbox su) (inbox_entry r payload) (es_inbox es);
          asked = notify_enabled h (es_env es); bridged = (es_bridge es \<and> su_bridge su)
      in ((if kept then [''ledger''] else []) @ (if sent then [''operator_inbox''] else []) @ [''console_alert'']
            @ (if asked \<and> su_notifier su = Some True then [''notification''] else []) @ (if bridged then [''troubleshooting_ledger''] else []),
          es\<lparr>es_ledger := ledger, es_inbox := inbox, es_notified := es_notified es @ (if asked then [(notify_title r, notify_body r)] else []),
             es_bridged := es_bridged es @ (if bridged then [r] else [])\<rparr>))"

definition advisory :: "int \<Rightarrow> string \<Rightarrow> nat \<Rightarrow> string" where
  "advisory threshold key n = (''[dim]'' @ utf8 [0x21BB] @ '' '') @ key @ ('' '' @ utf8 [0xBC18, 0xBCF5] @ '' '')
    @ show_nat n @ ''/'' @ show_int threshold
     @ ('' '' @ utf8 [0x2014, 0x20, 0xC544, 0xC9C1, 0x20, 0xC2DC, 0xB3C4, 0x20, 0xC911, 0x20, 0x28, 0xC784, 0xACC4,
       0xAC12, 0x20, 0xB3C4, 0xB2EC, 0x20, 0xC2DC, 0x20, 0xC790, 0xB3D9, 0x20, 0xC5D0, 0xC2A4, 0xCEEC, 0xB808,
       0xC774, 0xC158] @ '')[/dim]'')"

definition escalated_advisory :: "int \<Rightarrow> string \<Rightarrow> nat \<Rightarrow> string list \<Rightarrow> string" where
  "escalated_advisory threshold key n surfaces = (utf8 [0x26A0] @ '' '') @ key @ '' '' @ show_nat n @ ''/''
    @ show_int threshold
     @ (utf8 [0xD68C, 0x20, 0x2014, 0x20, 0xC5D0, 0xC2A4, 0xCEEC, 0xB808, 0xC774, 0xC158] @ '' ('')
       @ py_join '', '' surfaces @ '')''"

definition record_failure :: "talk_host \<Rightarrow> surroundings \<Rightarrow> failure \<Rightarrow> escalator \<Rightarrow> escalation_outcome \<times> escalator" where
  "record_failure h su f es =
     (let key = failure_key h (fa_signature f);
          oc = add_failure f (case map_of (es_occurrences es) key of Some oc \<Rightarrow> oc | None \<Rightarrow> first_occurrence (fa_signature f));
          es = es\<lparr>es_occurrences := AList.update key oc (es_occurrences es)\<rparr>; t = es_threshold es
      in if int (fo_count oc) < t
         then (\<lparr>eo_escalated = False, eo_advisory = advisory t key (fo_count oc), eo_count = fo_count oc, eo_threshold = t, eo_report = None,
                eo_surfaces = []\<rparr>, es)
         else (let r = build_report t oc key; (surfaces, es) = write_surfaces h su r (fa_timestamp f) es
               in (\<lparr>eo_escalated = True, eo_advisory = escalated_advisory t key (fo_count oc) surfaces, eo_count = fo_count oc, eo_threshold = t,
                    eo_report = Some r, eo_surfaces = surfaces\<rparr>, es)))"

text \<open>The alert of the console: its level and text.\<close>

definition console_alert_for :: "escalation_report \<Rightarrow> string \<times> string" where
  "console_alert_for r = ((if er_needs_operator r then ''error'' else ''warn''),
     (utf8 [0xBC18, 0xBCF5, 0x20, 0xC2E4, 0xD328] @ '' '') @ er_key r @ '' '' @ show_nat (er_count r) @ ''/''
       @ show_int (er_threshold r) @ (utf8 [0xD68C, 0x20, 0x2014] @ '' '') @ er_next_step r)"

definition as_alert :: "escalation_outcome \<Rightarrow> (string \<times> string) option" where
  "as_alert o' = (if eo_escalated o' then map_option console_alert_for (eo_report o') else None)"

section \<open>Runbooks\<close>

definition AREA_DEPLOY :: string where "AREA_DEPLOY = ''deploy''"
definition AREA_IAM :: string where "AREA_IAM = ''iam''"
definition AREA_INFRA :: string where "AREA_INFRA = ''infra''"
definition AREA_SECRET :: string where "AREA_SECRET = ''secret''"

record runbook_note =
  rb_title :: string
  rb_area :: string
  rb_why_blocked :: string
  rb_requires :: "string list"
  rb_terraform_hint :: string
  rb_context :: string

definition area_kb :: "string \<Rightarrow> string \<times> string list \<times> string" where
  "area_kb a =
     (if a = AREA_DEPLOY then ((utf8 [0xD504, 0xB85C, 0xB355, 0xC158, 0x20, 0xBC30, 0xD3EC, 0xB294]
       @ '' forgekit '' @ utf8 [0xC758, 0x20, 0xC790, 0xC728, 0x20, 0xBC94, 0xC704, 0x20, 0xBC16]
       @ '' (approval matrix: production action).''),
        [(utf8 [0xBC30, 0xD3EC, 0x20, 0xB300, 0xC0C1, 0x20, 0xD658, 0xACBD, 0x2F, 0xB9AC, 0xC804]), (''rollout ''
          @ utf8 [0xC804, 0xB7B5] @ ''(blue-green/canary) '' @ utf8 [0xC2B9, 0xC778]), (utf8 [0xB864, 0xBC31, 0x20,
          0xAE30, 0xC900])],
        (''resource '' @ utf8 [0x22] @ ''null_resource'' @ utf8 [0x22, 0x20, 0x22] @ ''deploy'' @ utf8 [0x22]
          @ '' { # CI/CD '' @ utf8 [0xD30C, 0xC774, 0xD504, 0xB77C, 0xC778, 0x20, 0xD2B8, 0xB9AC, 0xAC70, 0xB85C,
          0x20, 0xB300, 0xCCB4] @ '' }''))
      else if a = AREA_IAM then ((''IAM '' @ utf8 [0xAD8C, 0xD55C, 0x20, 0xBD80, 0xC5EC, 0x2F, 0xBCC0, 0xACBD,
        0xC740, 0x20, 0xCD5C, 0xC18C, 0xAD8C, 0xD55C, 0xB7, 0xAC10, 0xC0AC, 0x20, 0xB300, 0xC0C1, 0xC774, 0xB77C,
        0x20, 0xC0AC, 0xB78C, 0x20, 0xC2B9, 0xC778, 0x20, 0xD544, 0xC218] @ ''.''),
        [(utf8 [0xD544, 0xC694, 0xD55C, 0x20, 0xC5ED, 0xD560, 0x2F, 0xC815, 0xCC45, 0x20, 0xBC94,
          0xC704]), (utf8 [0xBD80, 0xC5EC, 0x20, 0xB300, 0xC0C1] @ '' principal''), (utf8 [0xB9CC, 0xB8CC, 0x2F,
          0xD68C, 0xC218, 0x20, 0xC815, 0xCC45])],
        (''resource '' @ utf8 [0x22] @ ''aws_iam_policy'' @ utf8 [0x22, 0x20, 0x22, 0x78, 0x22] @ '' { # ''
          @ utf8 [0xCD5C, 0xC18C, 0xAD8C, 0xD55C] @ '' JSON, '' @ utf8 [0xC0AC, 0xB78C, 0x20, 0xAC80, 0xD1A0, 0x20,
          0xD6C4] @ '' apply }''))
      else if a = AREA_INFRA then ((utf8 [0xC778, 0xD504, 0xB77C] @ '' provisioning(apply)'' @ utf8 [0xC740, 0x20,
        0xBE44, 0xC6A9, 0x2F, 0xC0C1, 0xD0DC, 0x20, 0xBCC0, 0xACBD, 0xC774, 0xB77C] @ '' operator apply ''
        @ utf8 [0xAC00, 0x20, 0xD544, 0xC694] @ ''.''),
        [(utf8 [0xB9AC, 0xC18C, 0xC2A4, 0x20, 0xC885, 0xB958, 0x2F, 0xADDC, 0xBAA8]), (utf8 [0xC608, 0xC0B0, 0x20,
          0xD55C, 0xB3C4]), (utf8 [0xC0C1, 0xD0DC] @ ''(state) '' @ utf8 [0xBC31, 0xC5D4, 0xB4DC, 0x20, 0xC704,
          0xCE58])],
        (''terraform { backend '' @ utf8 [0x22, 0x73, 0x33, 0x22] @ '' {} } # plan '' @ utf8 [0xC740, 0x20, 0xC790,
          0xB3D9] @ '', apply '' @ utf8 [0xB294, 0x20, 0xC0AC, 0xB78C]))
      else if a = AREA_SECRET then ((''secret '' @ utf8 [0xC0DD, 0xC131, 0x2F, 0xD68C, 0xC804, 0xC740, 0x20,
        0xC790, 0xACA9, 0x20, 0xB178, 0xCD9C, 0x20, 0xC704, 0xD5D8, 0xC774, 0xB77C] @ '' forgekit ''
        @ utf8 [0xAC00, 0x20, 0xC9C1, 0xC811, 0x20, 0xC218, 0xD589, 0xD558, 0xC9C0, 0x20, 0xC54A, 0xC74C] @ ''.''),
        [(''secret '' @ utf8 [0xC774, 0xB984, 0x2F, 0xBC94, 0xC704]), (utf8 [0xC800, 0xC7A5, 0x20, 0xC704, 0xCE58]
          @ ''(secret manager)''), (utf8 [0xD68C, 0xC804, 0x20, 0xC8FC, 0xAE30])],
        (''# secret '' @ utf8 [0xAC12, 0xC740] @ '' Terraform state '' @ utf8 [0xC5D0, 0x20, 0xB0A8, 0xAE30,
          0xC9C0, 0x20, 0xB9D0, 0x20, 0xAC83, 0x20, 0x2014] @ '' secret manager '' @ utf8 [0xCC38, 0xC870, 0xB9CC]))
      else ((utf8 [0xC774, 0x20, 0xC791, 0xC5C5, 0xC740] @ '' forgekit '' @ utf8 [0xC758, 0x20, 0xC2E4, 0xD589,
        0x20, 0xAD8C, 0xD55C, 0x20, 0xBC16, 0xC785, 0xB2C8, 0xB2E4] @ ''.''), [(utf8 [0xD544, 0xC694, 0x20, 0xAD8C,
        0xD55C]), (utf8 [0xC2B9, 0xC778, 0xC790]), (utf8 [0xBC94, 0xC704])], (''# '' @ utf8 [0xAD8C, 0xD55C, 0x20,
        0xD655, 0xBCF4, 0x20, 0xD6C4, 0x20, 0xC218, 0xB3D9] @ '' apply'')))"

definition build_runbook :: "string \<Rightarrow> string \<Rightarrow> string \<Rightarrow> runbook_note" where
  "build_runbook area title context =
     (let (why, requires, hint) = area_kb area
      in \<lparr>rb_title = (if title \<noteq> [] then title else area @ ('' ('' @ utf8 [0xAD8C, 0xD55C, 0x20,
        0xD544, 0xC694] @ '')'')), rb_area = area, rb_why_blocked = why, rb_requires = requires,
          rb_terraform_hint = hint, rb_context = context\<rparr>)"

definition infer_area :: "talk_host \<Rightarrow> string \<Rightarrow> string" where
  "infer_area h s = (let t = th_lower h s; says = any_in t
     in if says [''secret'', (utf8 [0xD0A4]), (utf8 [0xC790, 0xACA9]), ''credential'', ''token''] then AREA_SECRET
        else if says [''iam'', (utf8 [0xAD8C, 0xD55C]), ''role'', ''policy''] then AREA_IAM
        else if says [''deploy'', (utf8 [0xBC30,
          0xD3EC]), ''rollout'', ''release''] then AREA_DEPLOY else AREA_INFRA)"

section \<open>The bounded loop\<close>

definition PHASE_OBSERVE :: string where "PHASE_OBSERVE = ''observe''"
definition PHASE_CLASSIFY :: string where "PHASE_CLASSIFY = ''classify''"
definition PHASE_PACKET :: string where "PHASE_PACKET = ''packet''"
definition PHASE_HANDOFF :: string where "PHASE_HANDOFF = ''handoff''"
definition PHASE_RUNBOOK :: string where "PHASE_RUNBOOK = ''runbook''"
definition PHASE_WAIT :: string where "PHASE_WAIT = ''wait''"
definition AUTONOMY_OBSERVE :: string where "AUTONOMY_OBSERVE = ''observe''"
definition AUTONOMY_BOUNDED :: string where "AUTONOMY_BOUNDED = ''bounded''"
definition CAT_INFRA :: string where "CAT_INFRA = ''infra''"

record gap =
  gp_project :: string
  gp_description :: string
  gp_category :: string
  gp_privileged :: bool

record loop_step =
  sp_iteration :: nat
  sp_phase :: string
  sp_detail :: string

text \<open>What the injected bridge returns: its dictionary, and the titles of what it could not split.\<close>

record handed_off =
  ho_dict :: json
  ho_blocked :: "string list"

record loop_result =
  lp_steps :: "loop_step list"
  lp_handoffs :: "json list"
  lp_runbooks :: "runbook_note list"
  lp_waiting :: bool
  lp_halt_reason :: string
  lp_escalated :: bool

definition blocked_count :: "loop_result \<Rightarrow> nat" where
  "blocked_count r = length (lp_runbooks r)"

text \<open>The runner is called with the iteration, so that its answers may differ; \<open>Inl\<close> is its exception.\<close>

record bounded_loop =
  bl_autonomy :: string
  bl_max_iterations :: int
  bl_runner :: "(nat \<Rightarrow> string \<Rightarrow> string \<Rightarrow> string + handed_off) option"

text \<open>The result, the escalator if there is one, and the gaps given to the runner.\<close>

record loop_state =
  lo_result :: loop_result
  lo_escalator :: "escalator option"
  lo_handed :: "gap list"

definition empty_result :: loop_result where
  "empty_result = \<lparr>lp_steps = [], lp_handoffs = [], lp_runbooks = [], lp_waiting = False, lp_halt_reason = [], lp_escalated = False\<rparr>"

definition log_step :: "nat \<Rightarrow> string \<Rightarrow> string \<Rightarrow> loop_state \<Rightarrow> loop_state" where
  "log_step n phase detail st = st\<lparr>lo_result := (lo_result st)\<lparr>lp_steps := lp_steps (lo_result st) @ [\<lparr>sp_iteration = n, sp_phase = phase, sp_detail = detail\<rparr>]\<rparr>\<rparr>"

definition wait_for_operator :: "runbook_note list \<Rightarrow> loop_state \<Rightarrow> loop_state" where
  "wait_for_operator notes st = st\<lparr>lo_result := (lo_result st)\<lparr>lp_runbooks := lp_runbooks (lo_result st) @ notes, lp_waiting := True\<rparr>\<rparr>"

definition tell :: "talk_host \<Rightarrow> surroundings \<Rightarrow> failure_signature \<Rightarrow> string \<Rightarrow> string \<Rightarrow> loop_state \<Rightarrow> escalation_outcome option \<times> loop_state" where
  "tell h su s symptom fix st = (case lo_escalator st of None \<Rightarrow> (None, st)
     | Some es \<Rightarrow> (let (o', es) = record_failure h su \<lparr>fa_signature = s, fa_symptom = symptom, fa_evidence = [], fa_attempted_fix = fix,
           fa_alternatives = [], fa_timestamp = []\<rparr> es in (Some o', st\<lparr>lo_escalator := Some es\<rparr>)))"

definition record_blocked :: "talk_host \<Rightarrow> surroundings \<Rightarrow> gap \<Rightarrow> loop_state \<Rightarrow> loop_state" where
  "record_blocked h su f st = snd (tell h su \<lparr>sg_kind = KIND_POLICY, sg_reason = ''privileged-blocked'',
       sg_scope = (if gp_project f \<noteq> [] then gp_project f else ''infra'')\<rparr> ((utf8 [0xAD8C, 0xD55C,
         0x20, 0xC5C6, 0xB294, 0x20, 0xC601, 0xC5ED, 0x20, 0xBC18, 0xBCF5, 0x20, 0xBC1C, 0xACAC] @ '': '')
         @ gp_description f)
     (''runbook note '' @ utf8 [0xC0DD, 0xC131] @ '' + operator '' @ utf8 [0xC2B9, 0xC778, 0x20, 0xB300, 0xAE30]) st)"

definition maybe_escalate :: "talk_host \<Rightarrow> surroundings \<Rightarrow> string \<Rightarrow> loop_state \<Rightarrow> loop_state" where
  "maybe_escalate h su reason st =
     (if \<not> lp_waiting (lo_result st) then st
      else case tell h su \<lparr>sg_kind = KIND_STATUS_SURFACE, sg_reason = ''always-on-'' @ reason, sg_scope = ''runtime''\<rparr>
             (''always-on '' @ utf8 [0xB8E8, 0xD504, 0xAC00] @ '' operator '' @ utf8 [0xC751, 0xB2F5, 0x20, 0xB300,
               0xAE30, 0xB85C, 0x20, 0xC815, 0xC9C0]) (utf8 [0xAD00, 0xCE21, 0x2192, 0xBD84, 0xB958, 0x2192,
               0xD328, 0xD0B7, 0x2192] @ ''handoff '' @ utf8 [0xC644, 0xB8CC, 0x2C, 0x20, 0xC2E4, 0xD589, 0xC740,
               0x20, 0xC2B9, 0xC778, 0x20, 0xD544, 0xC694]) st of
        (None, st) \<Rightarrow> st | (Some o', st) \<Rightarrow> st\<lparr>lo_result := (lo_result st)\<lparr>lp_escalated := eo_escalated o'\<rparr>\<rparr>)"

definition runbook_for :: "talk_host \<Rightarrow> string \<Rightarrow> string \<Rightarrow> runbook_note" where
  "runbook_for h title project = build_runbook (infer_area h title) title project"

definition hand_off :: "talk_host \<Rightarrow> bounded_loop \<Rightarrow> nat \<Rightarrow> gap \<Rightarrow> loop_state \<Rightarrow> (string + unit) \<times> loop_state" where
  "hand_off h L n f st = (case bl_runner L of
     None \<Rightarrow> (Inl (''handoff runner not configured '' @ (utf8 [0x2014] @ '' '')
       @ ''the operator app must call forgekit_runtime.runtime.loop.register_handoff_runner(...) ''
       @ ''(or pass handoff_runner=) before running a bounded loop.''), st)
   | Some run \<Rightarrow>
       (let st = st\<lparr>lo_handed := lo_handed st @ [f]\<rparr>
        in case run n (gp_description f) (gp_project f) of Inl e \<Rightarrow> (Inl e, st)
         | Inr ho \<Rightarrow>
             (let st = log_step n PHASE_HANDOFF (''gateway '' @ utf8 [0x2192]
               @ '' tech-lead split'') (log_step n PHASE_PACKET (''PM intake '' @ utf8 [0x2192] @ '' packet'') st);
                  st = st\<lparr>lo_result := (lo_result st)\<lparr>lp_handoffs := lp_handoffs (lo_result st) @ [ho_dict ho]\<rparr>\<rparr>;
                  st = wait_for_operator (map (\<lambda>t. runbook_for h t (gp_project f)) (ho_blocked ho)) st
              in (Inr (), log_step n PHASE_WAIT (''operator '' @ utf8 [0xAC80, 0xD1A0, 0x2F, 0xC2B9, 0xC778, 0x20,
                0xB300, 0xAE30]) st))))"

definition visit_gap :: "talk_host \<Rightarrow> bounded_loop \<Rightarrow> surroundings \<Rightarrow> nat \<Rightarrow> gap \<Rightarrow> loop_state \<Rightarrow> (string + unit) \<times> loop_state" where
  "visit_gap h L su n f st =
     (let st = log_step n PHASE_CLASSIFY (''category='' @ gp_category f) (log_step n PHASE_OBSERVE (gp_description f) st)
      in if bl_autonomy L = AUTONOMY_OBSERVE then (Inr (), log_step n PHASE_WAIT (''observe-only (watch) ''
        @ utf8 [0x2192, 0x20, 0xBCF4, 0xACE0, 0xB9CC]) st)
         else if gp_privileged f \<or> gp_category f = CAT_INFRA then
           (let note' = runbook_for h (gp_description f) (gp_project f);
                st = log_step n PHASE_WAIT (''operator '' @ utf8 [0xC2B9, 0xC778, 0x20, 0xD544, 0xC694, 0x20, 0x28,
                  0xAD8C, 0xD55C, 0x20, 0xC5C6, 0xC74C] @ '')'') (log_step n PHASE_RUNBOOK (''area=''
                  @ rb_area note') (wait_for_operator [note'] st))
            in (Inr (), record_blocked h su f st))
         else hand_off h L n f st)"

definition halt_because :: "string \<Rightarrow> loop_state \<Rightarrow> loop_state" where
  "halt_because why st = st\<lparr>lo_result := (lo_result st)\<lparr>lp_halt_reason := why\<rparr>\<rparr>"

text \<open>The surroundings of the iterations are numbered from one; those of the last report are at zero.\<close>

fun run_from :: "talk_host \<Rightarrow> bounded_loop \<Rightarrow> (nat \<Rightarrow> surroundings) \<Rightarrow> nat \<Rightarrow> gap list \<Rightarrow> loop_state \<Rightarrow> (string + unit) \<times> loop_state" where
  "run_from h L su n [] st =
     (Inr (), maybe_escalate h (su 0) ''operator-wait'' (halt_because (show_nat n @ (utf8 [0xAC1C] @ '' finding ''
       @ utf8 [0xCC98, 0xB9AC, 0x20, 0xD6C4, 0x20, 0xC815, 0xC9C0] @ '' (bounded, idle)'')) st))"
| "run_from h L su n (f # fs) st =
     (if bl_max_iterations L \<le> int n
      then (Inr (), maybe_escalate h (su 0) ''max-iterations'' (halt_because (''max_iterations(''
        @ show_int (bl_max_iterations L) @ ('') '' @ utf8 [0xB3C4, 0xB2EC, 0x20, 0x2014] @ '' bounded'')) st))
      else case visit_gap h L (su (n + 1)) (n + 1) f st of (Inl e, st) \<Rightarrow> (Inl e, st) | (Inr u, st) \<Rightarrow> run_from h L su (n + 1) fs st)"

definition run_bounded_loop :: "talk_host \<Rightarrow> bounded_loop \<Rightarrow> (nat \<Rightarrow> surroundings) \<Rightarrow> gap list \<Rightarrow> escalator option \<Rightarrow> (string + unit) \<times> loop_state" where
  "run_bounded_loop h L su fs es = run_from h L su 0 fs \<lparr>lo_result = empty_result, lo_escalator = es, lo_handed = []\<rparr>"

end
