(* ===== verification/EscalationProps.thy ===== *)
theory EscalationProps
  imports Escalation
begin

text \<open>What the escalator reports of a history of failures, and what the bounded loop may do.\<close>

section \<open>The escalator and the history\<close>

text \<open>The failures of a history with a given key.\<close>

definition same_failures :: "talk_host \<Rightarrow> string \<Rightarrow> failure list \<Rightarrow> failure list" where
  "same_failures h k fs = filter (\<lambda>f. failure_key h (fa_signature f) = k) fs"

definition record_all :: "talk_host \<Rightarrow> (surroundings \<times> failure) list \<Rightarrow> escalator \<Rightarrow> escalator" where
  "record_all h xs es = foldl (\<lambda>es (su, f). snd (record_failure h su f es)) es xs"

lemma record_all_simps [simp]:
  "record_all h [] es = es"
  "record_all h (xs @ [(su, f)]) es = snd (record_failure h su f (record_all h xs es))"
  by (simp_all add: record_all_def)

text \<open>The occurrence a list of failures amounts to.\<close>

definition occurrence_of :: "failure list \<Rightarrow> occurrence" where
  "occurrence_of gs = foldl (\<lambda>oc f. add_failure f oc) (first_occurrence (fa_signature (hd gs))) gs"

lemma occurrence_of_snoc: "gs \<noteq> [] \<Longrightarrow> occurrence_of (gs @ [f]) = add_failure f (occurrence_of gs)"
  by (simp add: occurrence_of_def)

lemma occurrence_of_single: "occurrence_of [f] = add_failure f (first_occurrence (fa_signature f))"
  by (simp add: occurrence_of_def)

lemma occurrence_of_fields:
  assumes "gs \<noteq> []"
  shows "fo_kind (occurrence_of gs) = sg_kind (fa_signature (hd gs))"
    "fo_reason (occurrence_of gs) = sg_reason (fa_signature (hd gs))"
    "fo_count (occurrence_of gs) = length gs"
    "fo_symptoms (occurrence_of gs) = concat (map (given \<circ> fa_symptom) gs)"
    "fo_evidence (occurrence_of gs) = concat (map (given \<circ> fa_evidence) gs)"
    "fo_attempts (occurrence_of gs) = concat (map (given \<circ> fa_attempted_fix) gs)"
    "fo_alternatives (occurrence_of gs) = concat (map (filter (\<lambda>a. a \<noteq> []) \<circ> fa_alternatives) gs)"
proof -
  have "fo_kind (foldl (\<lambda>oc f. add_failure f oc) oc gs) = fo_kind oc \<and> fo_reason (foldl (\<lambda>oc f. add_failure f oc) oc gs) = fo_reason oc
    \<and> fo_count (foldl (\<lambda>oc f. add_failure f oc) oc gs) = fo_count oc + length gs
    \<and> fo_symptoms (foldl (\<lambda>oc f. add_failure f oc) oc gs) = fo_symptoms oc @ concat (map (given \<circ> fa_symptom) gs)
    \<and> fo_evidence (foldl (\<lambda>oc f. add_failure f oc) oc gs) = fo_evidence oc @ concat (map (given \<circ> fa_evidence) gs)
    \<and> fo_attempts (foldl (\<lambda>oc f. add_failure f oc) oc gs) = fo_attempts oc @ concat (map (given \<circ> fa_attempted_fix) gs)
    \<and> fo_alternatives (foldl (\<lambda>oc f. add_failure f oc) oc gs) = fo_alternatives oc @ concat (map (filter (\<lambda>a. a \<noteq> []) \<circ> fa_alternatives) gs)" for oc gs
    by (induction gs arbitrary: oc) (simp_all add: add_failure_def)
  then show "fo_kind (occurrence_of gs) = sg_kind (fa_signature (hd gs))"
    "fo_reason (occurrence_of gs) = sg_reason (fa_signature (hd gs))"
    "fo_count (occurrence_of gs) = length gs"
    "fo_symptoms (occurrence_of gs) = concat (map (given \<circ> fa_symptom) gs)"
    "fo_evidence (occurrence_of gs) = concat (map (given \<circ> fa_evidence) gs)"
    "fo_attempts (occurrence_of gs) = concat (map (given \<circ> fa_attempted_fix) gs)"
    "fo_alternatives (occurrence_of gs) = concat (map (filter (\<lambda>a. a \<noteq> []) \<circ> fa_alternatives) gs)"
    by (simp_all add: occurrence_of_def first_occurrence_def)
qed

text \<open>What a record leaves of the escalator.\<close>

lemma surfaces_keep:
  "es_threshold (snd (write_surfaces h su r t es)) = es_threshold es"
  "es_occurrences (snd (write_surfaces h su r t es)) = es_occurrences es"
  by (simp_all add: write_surfaces_def Let_def split_beta)

lemma record_keeps: "es_threshold (snd (record_failure h su f es)) = es_threshold es"
  by (simp add: record_failure_def Let_def split_beta surfaces_keep)

definition next_occurrence :: "talk_host \<Rightarrow> failure \<Rightarrow> escalator \<Rightarrow> occurrence" where
  "next_occurrence h f es = add_failure f (case map_of (es_occurrences es) (failure_key h (fa_signature f)) of
     Some oc \<Rightarrow> oc | None \<Rightarrow> first_occurrence (fa_signature f))"

lemma record_occurrences:
  "es_occurrences (snd (record_failure h su f es)) = AList.update (failure_key h (fa_signature f)) (next_occurrence h f es) (es_occurrences es)"
  by (simp add: record_failure_def next_occurrence_def Let_def split_beta surfaces_keep)

lemma all_keep: "es_threshold (record_all h xs es) = es_threshold es"
  by (induction xs rule: rev_induct) (auto simp: record_keeps)

text \<open>The memory of the escalator is a function of the history.\<close>

lemma memory_is_history:
  assumes "es_occurrences es = []"
  shows "map_of (es_occurrences (record_all h xs es)) k
     = (let gs = same_failures h k (map snd xs) in if gs = [] then None else Some (occurrence_of gs))"
proof (induction xs arbitrary: k rule: rev_induct)
  case Nil
  then show ?case using assms by (simp add: same_failures_def)
next
  case (snoc x xs)
  obtain su f where x: "x = (su, f)" by force
  let ?k = "failure_key h (fa_signature f)" and ?gs = "same_failures h (failure_key h (fa_signature f)) (map snd xs)"
  have "next_occurrence h f (record_all h xs es) = occurrence_of (?gs @ [f])"
    using snoc.IH[of ?k] by (cases "?gs = []") (simp_all add: next_occurrence_def occurrence_of_single occurrence_of_snoc Let_def)
  then show ?case using snoc.IH[of k]
    by (simp add: x record_occurrences update_conv' same_failures_def)
qed

lemma next_of_history:
  assumes "es_occurrences es = []"
  shows "next_occurrence h f (record_all h xs es) = occurrence_of (same_failures h (failure_key h (fa_signature f)) (map snd xs @ [f]))"
proof -
  let ?gs = "same_failures h (failure_key h (fa_signature f)) (map snd xs)"
  show ?thesis using memory_is_history[OF assms, of h xs "failure_key h (fa_signature f)"]
    by (cases "?gs = []") (simp_all add: next_occurrence_def occurrence_of_single occurrence_of_snoc same_failures_def Let_def)
qed

lemma record_exact:
  "fst (record_failure h su f es) =
     (let k = failure_key h (fa_signature f); oc = next_occurrence h f es; t = es_threshold es; r = build_report t oc k;
          s = fst (write_surfaces h su r (fa_timestamp f) (es\<lparr>es_occurrences := AList.update k oc (es_occurrences es)\<rparr>))
      in if int (fo_count oc) < t
         then \<lparr>eo_escalated = False, eo_advisory = advisory t k (fo_count oc), eo_count = fo_count oc, eo_threshold = t, eo_report = None, eo_surfaces = []\<rparr>
         else \<lparr>eo_escalated = True, eo_advisory = escalated_advisory t k (fo_count oc) s, eo_count = fo_count oc, eo_threshold = t,
                eo_report = Some r, eo_surfaces = s\<rparr>)"
  by (simp add: record_failure_def next_occurrence_def Let_def split_beta)

lemma record_files:
  "es_ledger (snd (record_failure h su f es)) =
     (let oc = next_occurrence h f es; t = es_threshold es; r = build_report t oc (failure_key h (fa_signature f))
      in if int (fo_count oc) < t then es_ledger es
         else snd (append_json (su_ledger su) (report_payload r @ [(''recorded_at'', JStr (fa_timestamp f))]) (es_ledger es)))"
  "es_inbox (snd (record_failure h su f es)) =
     (let oc = next_occurrence h f es; t = es_threshold es; r = build_report t oc (failure_key h (fa_signature f))
      in if int (fo_count oc) < t then es_inbox es
         else snd (append_json (su_inbox su) (inbox_entry r (report_payload r @ [(''recorded_at'', JStr (fa_timestamp f))])) (es_inbox es)))"
  by (simp_all add: record_failure_def next_occurrence_def write_surfaces_def Let_def split_beta)

lemma append_json_works:
  "fst (append_json d e f) \<longleftrightarrow> d = Works"
  "d = Works \<Longrightarrow> \<exists>xs. snd (append_json d e f) = Json_File (JList (xs @ [JObj e])) \<and> length xs < 200"
proof -
  show "fst (append_json d e f) \<longleftrightarrow> d = Works" by (simp add: append_json_def Let_def split: disk.split)
  assume d: "d = Works"
  let ?xs = "existing_entries f"
  have "(if 200 < length (?xs @ [JObj e]) then drop (length (?xs @ [JObj e]) - 200) (?xs @ [JObj e]) else ?xs @ [JObj e])
      = drop (length ?xs + 1 - 200) ?xs @ [JObj e]"
    by simp
  then have "snd (append_json d e f) = Json_File (JList (drop (length ?xs + 1 - 200) ?xs @ [JObj e]))"
    unfolding append_json_def d Let_def by simp
  then show "\<exists>xs. snd (append_json d e f) = Json_File (JList (xs @ [JObj e])) \<and> length xs < 200"
    by (intro exI[of _ "drop (length ?xs + 1 - 200) ?xs"]) auto
qed

lemma surfaces_exact:
  "''console_alert'' \<in> set (fst (write_surfaces h su r t es))"
  "''ledger'' \<in> set (fst (write_surfaces h su r t es)) \<longleftrightarrow> su_ledger su = Works"
  "''operator_inbox'' \<in> set (fst (write_surfaces h su r t es)) \<longleftrightarrow> su_inbox su = Works"
  by (simp_all add: write_surfaces_def Let_def split_beta append_json_works)

lemma new_escalator_fields:
  assumes "new_escalator h other env t b l i = Some es"
  shows "es_occurrences es = []" "1 \<le> es_threshold es" "es_threshold es \<le> 5"
  using assms by (auto simp: new_escalator_def MAX_THRESHOLD_def)

lemma report_fields:
  assumes "gs \<noteq> []" and r: "r = build_report t (occurrence_of gs) k"
  shows "er_key r = k" "er_kind r = sg_kind (fa_signature (hd gs))" "er_count r = length gs" "er_threshold r = t"
    "distinct (er_evidence r)" "set (er_evidence r) = {e. e \<noteq> [] \<and> e \<in> fa_evidence ` set gs}"
    "distinct (er_attempted_fixes r)" "set (er_attempted_fixes r) = {e. e \<noteq> [] \<and> e \<in> fa_attempted_fix ` set gs}"
    "set (er_alternatives r) = {a. a \<noteq> [] \<and> (\<exists>g \<in> set gs. a \<in> set (fa_alternatives g))} \<union> set (fst (snd (remedy (er_kind r))))"
  unfolding r
  by (auto simp: build_report_def split_beta Let_def occurrence_of_fields[OF assms(1)] given_def set_dedup distinct_dedup split: if_splits)

text \<open>C23: The escalator refines the history of failures. Whatever was recorded before and whatever the disk and the notifier
  did, recording a failure counts the failures with its key since the start, and reports exactly if there are at least
  as many as the threshold, which is between one and five. Below it nothing is written. The report names the first
  kind, and has every evidence and every attempted fix that was given for the key, each once, and all alternatives given with those
  known for the kind. It always reaches the console, and the ledger or the inbox exactly if the disk takes it;
  there it is the last entry of at most two hundred. With either of them it is in two places.\<close>

theorem escalation_refines_history:
  assumes "new_escalator h other env t b l i = Some es" and "record_failure h su f (record_all h xs es) = (out, es')"
  defines "k \<equiv> failure_key h (fa_signature f)"
  defines "gs \<equiv> filter (\<lambda>g. failure_key h (fa_signature g) = k) (map snd xs @ [f])"
  shows "1 \<le> es_threshold es \<and> es_threshold es \<le> 5 \<and> eo_count out = length gs
    \<and> (eo_escalated out \<longleftrightarrow> es_threshold es \<le> int (length gs))
    \<and> (\<not> eo_escalated out \<longrightarrow> eo_report out = None \<and> eo_surfaces out = []
         \<and> es_ledger es' = es_ledger (record_all h xs es) \<and> es_inbox es' = es_inbox (record_all h xs es))
    \<and> (eo_escalated out \<longrightarrow> (\<exists>r. eo_report out = Some r \<and> er_key r = k \<and> er_kind r = sg_kind (fa_signature (hd gs)) \<and> er_count r = length gs
         \<and> distinct (er_evidence r) \<and> set (er_evidence r) = {e. e \<noteq> [] \<and> e \<in> fa_evidence ` set gs}
         \<and> distinct (er_attempted_fixes r) \<and> set (er_attempted_fixes r) = {e. e \<noteq> [] \<and> e \<in> fa_attempted_fix ` set gs}
         \<and> set (er_alternatives r) = {a. a \<noteq> [] \<and> (\<exists>g \<in> set gs. a \<in> set (fa_alternatives g))} \<union> set (fst (snd (remedy (er_kind r))))
         \<and> ''console_alert'' \<in> set (eo_surfaces out) \<and> (''ledger'' \<in> set (eo_surfaces out) \<longleftrightarrow> su_ledger su = Works)
         \<and> (''operator_inbox'' \<in> set (eo_surfaces out) \<longleftrightarrow> su_inbox su = Works)
         \<and> (su_ledger su = Works \<longrightarrow> (\<exists>ys. es_ledger es' = Json_File (JList (ys @ [JObj (report_payload r @ [(''recorded_at'', JStr (fa_timestamp f))])]))
              \<and> length ys < 200))
         \<and> (su_ledger su = Works \<or> su_inbox su = Works \<longrightarrow> meets_minimum_surfaces 2 out)))"
proof -
  note new = new_escalator_fields[OF assms(1)]
  let ?es = "record_all h xs es" and ?r = "build_report (es_threshold es) (occurrence_of gs) k"
  have gs: "gs \<noteq> []" "gs = same_failures h k (map snd xs @ [f])" by (simp_all add: gs_def k_def same_failures_def)
  have oc: "next_occurrence h f ?es = occurrence_of gs" using next_of_history[OF new(1)] gs(2) by (simp add: k_def)
  have out: "out = fst (record_failure h su f ?es)" "es' = snd (record_failure h su f ?es)" using assms(2) by simp_all
  have n: "fo_count (occurrence_of gs) = length gs" by (rule occurrence_of_fields(3)[OF gs(1)])
  show ?thesis
  proof (cases "es_threshold es \<le> int (length gs)")
    case False
    then show ?thesis using new(2,3) by (simp add: out record_exact record_files oc n all_keep Let_def)
  next
    case True
    let ?s = "fst (write_surfaces h su ?r (fa_timestamp f) (?es\<lparr>es_occurrences := AList.update k (occurrence_of gs) (es_occurrences ?es)\<rparr>))"
    have o: "eo_count out = length gs" "eo_escalated out" "eo_report out = Some ?r" "eo_surfaces out = ?s"
      using True by (simp_all add: out record_exact oc n all_keep Let_def k_def)
    have l: "es_ledger es' = snd (append_json (su_ledger su) (report_payload ?r @ [(''recorded_at'', JStr (fa_timestamp f))]) (es_ledger ?es))"
      using True by (simp add: out record_files oc n all_keep Let_def k_def)
    have s: "''console_alert'' \<in> set ?s" "''ledger'' \<in> set ?s \<longleftrightarrow> su_ledger su = Works" "''operator_inbox'' \<in> set ?s \<longleftrightarrow> su_inbox su = Works"
      by (simp_all add: surfaces_exact)
    have two: "meets_minimum_surfaces 2 out" if "su_ledger su = Works \<or> su_inbox su = Works"
    proof -
      have "card {a, ''console_alert''} \<le> card (set ?s)" if "a \<in> set ?s" for a using that s(1) by (intro card_mono) auto
      then have "2 \<le> card (set ?s)" using that s by fastforce
      then show ?thesis using card_length[of ?s] by (simp add: meets_minimum_surfaces_def o)
    qed
    have w: "su_ledger su = Works \<Longrightarrow> \<exists>ys. es_ledger es' = Json_File (JList (ys @ [JObj (report_payload ?r @ [(''recorded_at'', JStr (fa_timestamp f))])])) \<and> length ys < 200"
      unfolding l by (rule append_json_works(2))
    show ?thesis using True new(2,3) o s two w report_fields[OF gs(1) refl, of "es_threshold es" k] by simp
  qed
qed

text \<open>An example: a command that fails twice, with a threshold of two and a disk that works.\<close>

definition example_failure :: failure where
  "example_failure = \<lparr>fa_signature = \<lparr>sg_kind = KIND_COMMAND, sg_reason = ''exit 1'', sg_scope = ''build''\<rparr>, fa_symptom = ''build failed'',
     fa_evidence = ''log'', fa_attempted_fix = [], fa_alternatives = [], fa_timestamp = ''t''\<rparr>"

definition example_surroundings :: surroundings where
  "example_surroundings = \<lparr>su_ledger = Works, su_inbox = Works, su_notifier = None, su_bridge = False\<rparr>"

lemma distinct_single:
  assumes "distinct xs" "set xs = {a}"
  shows "xs = [a]"
proof -
  have "length xs = 1" using distinct_card[OF assms(1)] assms(2) by simp
  then show ?thesis using assms(2) by (cases xs) auto
qed

theorem escalation_refines_history_witness:
  "\<exists>es out es' r. new_escalator plain_talk (\<lambda>_. False) (\<lambda>_. None) (Some 2) False Missing_File Missing_File = Some es
     \<and> record_failure plain_talk example_surroundings example_failure (record_all plain_talk [(example_surroundings, example_failure)] es) = (out, es')
     \<and> eo_report out = Some r \<and> er_count r = 2 \<and> er_evidence r = [''log''] \<and> meets_minimum_surfaces 2 out"
proof -
  obtain es where es: "new_escalator plain_talk (\<lambda>_. False) (\<lambda>_. None) (Some 2) False Missing_File Missing_File = Some es" "es_threshold es = 2"
    by (simp add: new_escalator_def MAX_THRESHOLD_def)
  obtain out es' where o: "record_failure plain_talk example_surroundings example_failure
      (record_all plain_talk [(example_surroundings, example_failure)] es) = (out, es')" by force
  let ?gs = "[example_failure, example_failure]"
  have gs: "filter (\<lambda>g. failure_key plain_talk (fa_signature g) = failure_key plain_talk (fa_signature example_failure))
      (map snd [(example_surroundings, example_failure)] @ [example_failure]) = ?gs" by simp
  note e = escalation_refines_history[OF es(1) o, unfolded gs]
  have "eo_escalated out \<longleftrightarrow> es_threshold es \<le> int (length ?gs)" using e by blast
  then have "eo_escalated out" by (simp add: es(2))
  note told = mp[OF e[THEN conjunct2, THEN conjunct2, THEN conjunct2, THEN conjunct2, THEN conjunct2] this]
  obtain r where r: "eo_report out = Some r" "er_count r = length ?gs" "distinct (er_evidence r)"
      "set (er_evidence r) = {e. e \<noteq> [] \<and> e \<in> fa_evidence ` set ?gs}"
      "su_ledger example_surroundings = Works \<or> su_inbox example_surroundings = Works \<longrightarrow> meets_minimum_surfaces 2 out"
    by (rule exE[OF told]) (elim conjE, rule that; assumption)
  have "set (er_evidence r) = {''log''}" unfolding r(4) by (auto simp: example_failure_def)
  then have "er_evidence r = [''log'']" using r(3) by (rule distinct_single[rotated])
  moreover have "er_count r = 2" "meets_minimum_surfaces 2 out" using r(2,5) by (simp_all add: example_surroundings_def)
  ultimately show ?thesis using es(1) o r(1) by blast
qed


section \<open>The bounded loop\<close>

text \<open>The gaps the loop may hand off, and those it may only write a runbook for.\<close>

definition for_operator :: "gap \<Rightarrow> bool" where
  "for_operator f \<longleftrightarrow> gp_privileged f \<or> gp_category f = CAT_INFRA"

definition loop_phases :: "string set" where
  "loop_phases = {PHASE_OBSERVE, PHASE_CLASSIFY, PHASE_PACKET, PHASE_HANDOFF, PHASE_RUNBOOK, PHASE_WAIT}"

lemmas loop_simps = log_step_def wait_for_operator_def halt_because_def

lemma told_keeps: "lo_result (snd (tell h su s a b st)) = lo_result st" "lo_handed (snd (tell h su s a b st)) = lo_handed st"
  by (simp_all add: tell_def split_beta split: option.split)

lemma blocked_keeps: "lo_result (record_blocked h su f st) = lo_result st" "lo_handed (record_blocked h su f st) = lo_handed st"
  by (simp_all add: record_blocked_def told_keeps)

text \<open>What comes after the escalation changes only its flag.\<close>

definition note_outcome :: "escalation_outcome option \<times> loop_state \<Rightarrow> loop_state" where
  "note_outcome p = (case p of (None, st) \<Rightarrow> st | (Some o', st) \<Rightarrow> st\<lparr>lo_result := (lo_result st)\<lparr>lp_escalated := eo_escalated o'\<rparr>\<rparr>)"

lemma note_outcome_keeps:
  "lp_steps (lo_result (note_outcome p)) = lp_steps (lo_result (snd p))" "lp_handoffs (lo_result (note_outcome p)) = lp_handoffs (lo_result (snd p))"
  "lp_runbooks (lo_result (note_outcome p)) = lp_runbooks (lo_result (snd p))" "lp_waiting (lo_result (note_outcome p)) = lp_waiting (lo_result (snd p))"
  "lo_handed (note_outcome p) = lo_handed (snd p)"
  by (cases p; cases "fst p"; simp add: note_outcome_def)+

lemma escalate_keeps:
  "lp_steps (lo_result (maybe_escalate h su why st)) = lp_steps (lo_result st)"
  "lp_handoffs (lo_result (maybe_escalate h su why st)) = lp_handoffs (lo_result st)"
  "lp_runbooks (lo_result (maybe_escalate h su why st)) = lp_runbooks (lo_result st)"
  "lp_waiting (lo_result (maybe_escalate h su why st)) = lp_waiting (lo_result st)"
  "lo_handed (maybe_escalate h su why st) = lo_handed st"
  "\<not> lp_waiting (lo_result st) \<Longrightarrow> maybe_escalate h su why st = st"
  unfolding maybe_escalate_def note_outcome_def[symmetric] by (simp_all add: note_outcome_keeps told_keeps)

text \<open>One gap.\<close>

definition visit_ok :: "talk_host \<Rightarrow> bounded_loop \<Rightarrow> nat \<Rightarrow> gap \<Rightarrow> loop_state \<Rightarrow> (string + unit) \<Rightarrow> loop_state \<Rightarrow> bool" where
  "visit_ok h L n f st r st' \<longleftrightarrow>
     (\<exists>new. lp_steps (lo_result st') = lp_steps (lo_result st) @ new \<and> (\<forall>s \<in> set new. sp_iteration s = n \<and> sp_phase s \<in> loop_phases))
     \<and> (bl_autonomy L = AUTONOMY_OBSERVE \<longrightarrow> r = Inr () \<and> lo_handed st' = lo_handed st \<and> lp_waiting (lo_result st') = lp_waiting (lo_result st)
          \<and> lp_runbooks (lo_result st') = lp_runbooks (lo_result st) \<and> lo_escalator st' = lo_escalator st)
     \<and> (bl_autonomy L \<noteq> AUTONOMY_OBSERVE \<and> for_operator f \<longrightarrow> r = Inr () \<and> lo_handed st' = lo_handed st \<and> lp_waiting (lo_result st')
          \<and> lp_runbooks (lo_result st') = lp_runbooks (lo_result st) @ [runbook_for h (gp_description f) (gp_project f)])
     \<and> (bl_autonomy L \<noteq> AUTONOMY_OBSERVE \<and> \<not> for_operator f \<longrightarrow> (if r = Inr () then lo_handed st' = lo_handed st @ [f] \<and> lp_waiting (lo_result st')
            \<and> (\<exists>ns. lp_runbooks (lo_result st') = lp_runbooks (lo_result st) @ ns)
          else lo_handed st' \<in> {lo_handed st, lo_handed st @ [f]} \<and> lp_runbooks (lo_result st') = lp_runbooks (lo_result st)))"

lemma visit_exact:
  assumes "visit_gap h L su n f st = (r, st')"
  shows "visit_ok h L n f st r st'"
proof (cases "bl_autonomy L = AUTONOMY_OBSERVE \<or> for_operator f")
  case True
  then show ?thesis using assms
    by (auto simp: visit_gap_def visit_ok_def for_operator_def Let_def loop_simps blocked_keeps loop_phases_def split: if_splits)
next
  case False
  then have "hand_off h L n f (log_step n PHASE_CLASSIFY (''category='' @ gp_category f) (log_step n PHASE_OBSERVE (gp_description f) st)) = (r, st')"
    using assms by (simp add: visit_gap_def for_operator_def Let_def)
  then show ?thesis using False
    by (auto simp: hand_off_def visit_ok_def Let_def loop_simps loop_phases_def split: option.splits sum.splits)
qed

text \<open>The whole run.\<close>

definition run_ok :: "talk_host \<Rightarrow> bounded_loop \<Rightarrow> nat \<Rightarrow> gap list \<Rightarrow> loop_state \<Rightarrow> (string + unit) \<Rightarrow> loop_state \<Rightarrow> bool" where
  "run_ok h L n fs st r st' \<longleftrightarrow> (let vis = take (nat (bl_max_iterations L - int n)) fs in
     (\<exists>new. lp_steps (lo_result st') = lp_steps (lo_result st) @ new
        \<and> (\<forall>s \<in> set new. n < sp_iteration s \<and> int (sp_iteration s) \<le> bl_max_iterations L \<and> sp_phase s \<in> loop_phases))
     \<and> (\<exists>ns. lp_runbooks (lo_result st') = lp_runbooks (lo_result st) @ ns
          \<and> (bl_autonomy L = AUTONOMY_OBSERVE \<longrightarrow> ns = [])
          \<and> (bl_autonomy L \<noteq> AUTONOMY_OBSERVE \<and> r = Inr () \<longrightarrow> (\<forall>f \<in> set vis. for_operator f \<longrightarrow> runbook_for h (gp_description f) (gp_project f) \<in> set ns)))
     \<and> (bl_autonomy L = AUTONOMY_OBSERVE \<longrightarrow> r = Inr () \<and> lo_handed st' = lo_handed st \<and> lp_waiting (lo_result st') = lp_waiting (lo_result st)
          \<and> (\<not> lp_waiting (lo_result st) \<longrightarrow> lo_escalator st' = lo_escalator st))
     \<and> (bl_autonomy L \<noteq> AUTONOMY_OBSERVE \<longrightarrow> (\<exists>hs. lo_handed st' = lo_handed st @ hs \<and> prefix hs (filter (\<lambda>f. \<not> for_operator f) vis)
          \<and> (r = Inr () \<longrightarrow> hs = filter (\<lambda>f. \<not> for_operator f) vis \<and> (lp_waiting (lo_result st') \<longleftrightarrow> lp_waiting (lo_result st) \<or> vis \<noteq> [])))))"

lemma run_ends: "run_ok h L n [] st (Inr ()) (maybe_escalate h su why (halt_because b st))"
  "bl_max_iterations L \<le> int n \<Longrightarrow> run_ok h L n fs st (Inr ()) (maybe_escalate h su why (halt_because b st))"
  by (auto simp: run_ok_def escalate_keeps loop_simps Let_def)

lemma run_goes_on:
  assumes n: "int n < bl_max_iterations L" and v: "visit_ok h L (n + 1) f st (Inr u) st1" and k: "run_ok h L (n + 1) fs st1 r st'"
  shows "run_ok h L n (f # fs) st r st'"
proof -
  let ?vis = "take (nat (bl_max_iterations L - int (n + 1))) fs"
  have t: "take (nat (bl_max_iterations L - int n)) (f # fs) = f # ?vis"
  proof -
    have "nat (bl_max_iterations L - int n) = Suc (nat (bl_max_iterations L - int (n + 1)))" using n by simp
    then show ?thesis by simp
  qed
  obtain new1 where s1: "lp_steps (lo_result st1) = lp_steps (lo_result st) @ new1" "\<forall>s \<in> set new1. sp_iteration s = n + 1 \<and> sp_phase s \<in> loop_phases"
    using v by (auto simp: visit_ok_def)
  obtain new2 where s2: "lp_steps (lo_result st') = lp_steps (lo_result st1) @ new2"
      "\<forall>s \<in> set new2. n + 1 < sp_iteration s \<and> int (sp_iteration s) \<le> bl_max_iterations L \<and> sp_phase s \<in> loop_phases"
    using k by (auto simp: run_ok_def Let_def)
  have steps: "lp_steps (lo_result st') = lp_steps (lo_result st) @ (new1 @ new2)"
      "\<forall>s \<in> set (new1 @ new2). n < sp_iteration s \<and> int (sp_iteration s) \<le> bl_max_iterations L \<and> sp_phase s \<in> loop_phases"
    using s1 s2 n by auto
  obtain ns2 where r2: "lp_runbooks (lo_result st') = lp_runbooks (lo_result st1) @ ns2" "bl_autonomy L = AUTONOMY_OBSERVE \<longrightarrow> ns2 = []"
      "bl_autonomy L \<noteq> AUTONOMY_OBSERVE \<and> r = Inr () \<longrightarrow> (\<forall>f \<in> set ?vis. for_operator f \<longrightarrow> runbook_for h (gp_description f) (gp_project f) \<in> set ns2)"
    using k by (auto simp: run_ok_def Let_def)
  show ?thesis
  proof (cases "bl_autonomy L = AUTONOMY_OBSERVE")
    case True
    then have "lo_handed st1 = lo_handed st \<and> lp_waiting (lo_result st1) = lp_waiting (lo_result st) \<and> lp_runbooks (lo_result st1) = lp_runbooks (lo_result st)
        \<and> lo_escalator st1 = lo_escalator st" using v by (simp add: visit_ok_def)
    moreover have "r = Inr () \<and> lo_handed st' = lo_handed st1 \<and> lp_waiting (lo_result st') = lp_waiting (lo_result st1)
        \<and> (\<not> lp_waiting (lo_result st1) \<longrightarrow> lo_escalator st' = lo_escalator st1)" using k True by (simp add: run_ok_def Let_def)
    ultimately show ?thesis using True steps r2 unfolding run_ok_def t Let_def by auto
  next
    case False
    obtain hs where h: "lo_handed st' = lo_handed st1 @ hs" "prefix hs (filter (\<lambda>f. \<not> for_operator f) ?vis)"
        "r = Inr () \<longrightarrow> hs = filter (\<lambda>f. \<not> for_operator f) ?vis \<and> (lp_waiting (lo_result st') \<longleftrightarrow> lp_waiting (lo_result st1) \<or> ?vis \<noteq> [])"
      using k False by (auto simp: run_ok_def Let_def)
    have f: "lo_handed st1 = lo_handed st @ (if for_operator f then [] else [f])" "lp_waiting (lo_result st1)"
      using v False by (auto simp: visit_ok_def split: if_splits)
    obtain ns1 where r1: "lp_runbooks (lo_result st1) = lp_runbooks (lo_result st) @ ns1"
        "for_operator f \<longrightarrow> runbook_for h (gp_description f) (gp_project f) \<in> set ns1"
      using v False by (cases "for_operator f") (auto simp: visit_ok_def)
    have "lo_handed st' = lo_handed st @ ((if for_operator f then [] else [f]) @ hs)" using h(1) f(1) by simp
    moreover have "prefix ((if for_operator f then [] else [f]) @ hs) (filter (\<lambda>f. \<not> for_operator f) (f # ?vis))" using h(2) by simp
    moreover have "r = Inr () \<longrightarrow> (if for_operator f then [] else [f]) @ hs = filter (\<lambda>f. \<not> for_operator f) (f # ?vis)
        \<and> lp_waiting (lo_result st')" using h(3) f(2) by simp
    moreover have "lp_runbooks (lo_result st') = lp_runbooks (lo_result st) @ (ns1 @ ns2)" using r1 r2(1) by simp
    moreover have "r = Inr () \<longrightarrow> (\<forall>g \<in> set (f # ?vis). for_operator g \<longrightarrow> runbook_for h (gp_description g) (gp_project g) \<in> set (ns1 @ ns2))"
      using r1(2) r2(3) False by auto
    ultimately show ?thesis using False steps unfolding run_ok_def t Let_def by blast
  qed
qed

lemma run_stops:
  assumes n: "int n < bl_max_iterations L" and v: "visit_ok h L (n + 1) f st (Inl e) st'"
  shows "run_ok h L n (f # fs) st (Inl e) st'"
proof -
  let ?vis = "take (nat (bl_max_iterations L - int (n + 1))) fs"
  have "nat (bl_max_iterations L - int n) = Suc (nat (bl_max_iterations L - int (n + 1)))" using n by simp
  then have t: "take (nat (bl_max_iterations L - int n)) (f # fs) = f # ?vis" by simp
  have b: "bl_autonomy L \<noteq> AUTONOMY_OBSERVE" "\<not> for_operator f" using v by (auto simp: visit_ok_def)
  obtain new where "lp_steps (lo_result st') = lp_steps (lo_result st) @ new" "\<forall>s \<in> set new. sp_iteration s = n + 1 \<and> sp_phase s \<in> loop_phases"
    using v by (auto simp: visit_ok_def)
  then have steps: "lp_steps (lo_result st') = lp_steps (lo_result st) @ new"
      "\<forall>s \<in> set new. n < sp_iteration s \<and> int (sp_iteration s) \<le> bl_max_iterations L \<and> sp_phase s \<in> loop_phases"
    using n by auto
  have "lo_handed st' \<in> {lo_handed st, lo_handed st @ [f]}" "lp_runbooks (lo_result st') = lp_runbooks (lo_result st)"
    using v b by (auto simp: visit_ok_def)
  moreover have "prefix [] (filter (\<lambda>f. \<not> for_operator f) (f # ?vis))" "prefix [f] (filter (\<lambda>f. \<not> for_operator f) (f # ?vis))"
    using b by simp_all
  ultimately show ?thesis using b(1) steps unfolding run_ok_def t Let_def by fastforce
qed

lemma run_exact:
  assumes "run_from h L su n fs st = (r, st')"
  shows "run_ok h L n fs st r st'"
  using assms
proof (induction fs arbitrary: n st)
  case Nil
  then show ?case using run_ends(1) by auto
next
  case (Cons f fs)
  show ?case
  proof (cases "bl_max_iterations L \<le> int n")
    case True
    then show ?thesis using Cons.prems run_ends(2) by auto
  next
    case False
    obtain v st1 where v: "visit_gap h L (su (n + 1)) (n + 1) f st = (v, st1)" by force
    then have ok: "visit_ok h L (n + 1) f st v st1" by (rule visit_exact)
    show ?thesis
    proof (cases v)
      case (Inl e)
      then show ?thesis using Cons.prems False v run_stops ok by auto
    next
      case (Inr u)
      then have "run_from h L su (n + 1) fs st1 = (r, st')" using Cons.prems False v by simp
      then show ?thesis using Cons.IH run_goes_on ok Inr False by fastforce
    qed
  qed
qed

text \<open>C10: The always-on loop hands off and waits, and nothing else. However the runner, the disk and the notifier
  behave, it has only the six phases, none of which executes, in at most as many iterations as allowed. Told to observe, it hands
  nothing off, writes no runbook, waits for nobody and leaves the escalator as it was. Otherwise what it hands off are, in their
  order, gaps it visits that are neither privileged nor about infrastructure; and if the runner
  raised nothing, it is all of them, each privileged or infrastructural gap it visits has its runbook, and the loop waits
  for a person exactly if it visited a gap.\<close>

theorem bounded_loop_never_executes:
  assumes "run_bounded_loop h L su fs es = (r, st)"
  defines "vis \<equiv> take (nat (bl_max_iterations L)) fs"
  shows "(\<forall>s \<in> set (lp_steps (lo_result st)). 1 \<le> sp_iteration s \<and> int (sp_iteration s) \<le> bl_max_iterations L
      \<and> sp_phase s \<in> {PHASE_OBSERVE, PHASE_CLASSIFY, PHASE_PACKET, PHASE_HANDOFF, PHASE_RUNBOOK, PHASE_WAIT})
    \<and> (bl_autonomy L = AUTONOMY_OBSERVE \<longrightarrow> r = Inr () \<and> lo_handed st = [] \<and> lp_runbooks (lo_result st) = [] \<and> \<not> lp_waiting (lo_result st)
         \<and> lo_escalator st = es)
    \<and> (bl_autonomy L \<noteq> AUTONOMY_OBSERVE \<longrightarrow> prefix (lo_handed st) (filter (\<lambda>f. \<not> gp_privileged f \<and> gp_category f \<noteq> CAT_INFRA) vis)
         \<and> (r = Inr () \<longrightarrow> lo_handed st = filter (\<lambda>f. \<not> gp_privileged f \<and> gp_category f \<noteq> CAT_INFRA) vis
              \<and> (lp_waiting (lo_result st) \<longleftrightarrow> vis \<noteq> [])
              \<and> (\<forall>f \<in> set vis. gp_privileged f \<or> gp_category f = CAT_INFRA \<longrightarrow>
                   build_runbook (infer_area h (gp_description f)) (gp_description f) (gp_project f) \<in> set (lp_runbooks (lo_result st)))))"
proof -
  have "run_ok h L 0 fs \<lparr>lo_result = empty_result, lo_escalator = es, lo_handed = []\<rparr> r st"
    using assms(1) run_exact by (simp add: run_bounded_loop_def)
  then show ?thesis
    by (auto simp: run_ok_def Let_def empty_result_def vis_def for_operator_def loop_phases_def runbook_for_def)
qed

text \<open>An example: a missing button and a deployment, both in one run.\<close>

definition example_gaps :: "gap list" where
  "example_gaps = [\<lparr>gp_project = ''app'', gp_description = ''button'', gp_category = ''product'', gp_privileged = False\<rparr>,
     \<lparr>gp_project = ''app'', gp_description = ''deploy'', gp_category = ''infra'', gp_privileged = True\<rparr>]"

definition example_loop :: bounded_loop where
  "example_loop = \<lparr>bl_autonomy = AUTONOMY_BOUNDED, bl_max_iterations = 10, bl_runner = Some (\<lambda>_ _ _. Inr \<lparr>ho_dict = JNull, ho_blocked = []\<rparr>)\<rparr>"

lemma example_loop_returns: "fst (run_bounded_loop h example_loop su example_gaps None) = Inr ()"
  by (simp add: run_bounded_loop_def example_loop_def example_gaps_def visit_gap_def hand_off_def AUTONOMY_BOUNDED_def AUTONOMY_OBSERVE_def
    CAT_INFRA_def Let_def)

theorem bounded_loop_never_executes_witness:
  "\<exists>r st. run_bounded_loop plain_talk example_loop (\<lambda>_. example_surroundings) example_gaps None = (r, st) \<and> lo_handed st = take 1 example_gaps
     \<and> lp_waiting (lo_result st) \<and> lp_runbooks (lo_result st) \<noteq> []"
proof -
  obtain r st where e: "run_bounded_loop plain_talk example_loop (\<lambda>_. example_surroundings) example_gaps None = (r, st)" by force
  have r: "r = Inr ()" using example_loop_returns[of plain_talk "\<lambda>_. example_surroundings"] e by simp
  have b: "bl_autonomy example_loop \<noteq> AUTONOMY_OBSERVE" "take (nat (bl_max_iterations example_loop)) example_gaps = example_gaps"
    by (simp_all add: example_loop_def example_gaps_def AUTONOMY_BOUNDED_def AUTONOMY_OBSERVE_def)
  have "lo_handed st = filter (\<lambda>f. \<not> gp_privileged f \<and> gp_category f \<noteq> CAT_INFRA) example_gaps" "lp_waiting (lo_result st) \<longleftrightarrow> example_gaps \<noteq> []"
    "\<forall>f \<in> set example_gaps. gp_privileged f \<or> gp_category f = CAT_INFRA \<longrightarrow>
       build_runbook (infer_area plain_talk (gp_description f)) (gp_description f) (gp_project f) \<in> set (lp_runbooks (lo_result st))"
    using bounded_loop_never_executes[OF e] r b by (simp_all del: filter.simps)
  then show ?thesis using e by (auto simp: example_gaps_def CAT_INFRA_def)
qed

end
