(* ===== verification/AgentRuntime.thy ===== *)
theory AgentRuntime
  imports PyUnicode
begin

text \<open>
  The runtime loop of a role bot (\<open>packages/agent-runtime\<close>): what the stages exchange (\<open>models.py\<close>), the policy of
  each role (\<open>policies.py\<close>) and the loop over the seven stages (\<open>loop.py\<close>). A stage is an argument that may raise
  and may change the state it is run on; the message of an exception is a string.
\<close>

section \<open>Vocabulary\<close>

definition INTENT_NEW_WORK_REQUEST :: string where "INTENT_NEW_WORK_REQUEST = ''new_work_request''"
definition INTENT_CONTINUE_EXISTING_WORK :: string where "INTENT_CONTINUE_EXISTING_WORK = ''continue_existing_work''"
definition INTENT_SUMMARIZE_PREVIOUS_WORK :: string where "INTENT_SUMMARIZE_PREVIOUS_WORK = ''summarize_previous_work''"
definition INTENT_STATUS_QUESTION :: string where "INTENT_STATUS_QUESTION = ''status_question''"
definition INTENT_DIAGNOSTIC_QUESTION :: string where "INTENT_DIAGNOSTIC_QUESTION = ''diagnostic_question''"
definition INTENT_EXECUTE_EXISTING_STEP :: string where "INTENT_EXECUTE_EXISTING_STEP = ''execute_existing_step''"
definition INTENT_GENERAL_CHAT :: string where "INTENT_GENERAL_CHAT = ''general_chat''"
definition INTENT_CLARIFICATION_NEEDED :: string where "INTENT_CLARIFICATION_NEEDED = ''clarification_needed''"
definition INTENT_APPEND_CONTEXT :: string where "INTENT_APPEND_CONTEXT = ''append_context''"

lemmas intent_defs = INTENT_NEW_WORK_REQUEST_def INTENT_CONTINUE_EXISTING_WORK_def INTENT_SUMMARIZE_PREVIOUS_WORK_def
  INTENT_STATUS_QUESTION_def INTENT_DIAGNOSTIC_QUESTION_def INTENT_EXECUTE_EXISTING_STEP_def INTENT_GENERAL_CHAT_def
  INTENT_CLARIFICATION_NEEDED_def INTENT_APPEND_CONTEXT_def

definition KNOWN_INTENTS :: "string list" where
  "KNOWN_INTENTS = [INTENT_NEW_WORK_REQUEST, INTENT_CONTINUE_EXISTING_WORK, INTENT_SUMMARIZE_PREVIOUS_WORK, INTENT_STATUS_QUESTION,
     INTENT_DIAGNOSTIC_QUESTION, INTENT_EXECUTE_EXISTING_STEP, INTENT_GENERAL_CHAT, INTENT_CLARIFICATION_NEEDED, INTENT_APPEND_CONTEXT]"

definition ACTION_REPLY :: string where "ACTION_REPLY = ''reply''"
definition ACTION_ASK_CLARIFICATION :: string where "ACTION_ASK_CLARIFICATION = ''ask_clarification''"
definition ACTION_CREATE_SESSION :: string where "ACTION_CREATE_SESSION = ''create_session''"
definition ACTION_JOIN_SESSION :: string where "ACTION_JOIN_SESSION = ''join_session''"
definition ACTION_APPEND_CONTEXT :: string where "ACTION_APPEND_CONTEXT = ''append_context''"
definition ACTION_RUN_RESEARCH :: string where "ACTION_RUN_RESEARCH = ''run_research''"
definition ACTION_PUBLISH_FORUM :: string where "ACTION_PUBLISH_FORUM = ''publish_forum''"
definition ACTION_REQUEST_ROLE_TURN :: string where "ACTION_REQUEST_ROLE_TURN = ''request_role_turn''"
definition ACTION_RECORD_MEMORY :: string where "ACTION_RECORD_MEMORY = ''record_memory''"
definition ACTION_PROPOSE_APPROVAL :: string where "ACTION_PROPOSE_APPROVAL = ''propose_approval''"
definition ACTION_NOOP :: string where "ACTION_NOOP = ''noop''"

lemmas action_defs = ACTION_REPLY_def ACTION_ASK_CLARIFICATION_def ACTION_CREATE_SESSION_def ACTION_JOIN_SESSION_def
  ACTION_APPEND_CONTEXT_def ACTION_RUN_RESEARCH_def ACTION_PUBLISH_FORUM_def ACTION_REQUEST_ROLE_TURN_def
  ACTION_RECORD_MEMORY_def ACTION_PROPOSE_APPROVAL_def ACTION_NOOP_def

definition KNOWN_ACTIONS :: "string list" where
  "KNOWN_ACTIONS = [ACTION_REPLY, ACTION_ASK_CLARIFICATION, ACTION_CREATE_SESSION, ACTION_JOIN_SESSION, ACTION_APPEND_CONTEXT,
     ACTION_RUN_RESEARCH, ACTION_PUBLISH_FORUM, ACTION_REQUEST_ROLE_TURN, ACTION_RECORD_MEMORY, ACTION_PROPOSE_APPROVAL, ACTION_NOOP]"

definition GATEWAY_REPLY_ONLY :: string where "GATEWAY_REPLY_ONLY = ''gateway:reply_only''"
definition GATEWAY_ASK_CLARIFICATION :: string where "GATEWAY_ASK_CLARIFICATION = ''gateway:ask_clarification''"
definition GATEWAY_JOIN_EXISTING :: string where "GATEWAY_JOIN_EXISTING = ''gateway:join_existing''"
definition GATEWAY_APPEND_CONTEXT :: string where "GATEWAY_APPEND_CONTEXT = ''gateway:append_context''"
definition GATEWAY_HANDOFF_TECH_LEAD_NO_RESEARCH :: string where
  "GATEWAY_HANDOFF_TECH_LEAD_NO_RESEARCH = ''gateway:handoff_tech_lead_no_research''"
definition GATEWAY_TARGETED_RESEARCH :: string where "GATEWAY_TARGETED_RESEARCH = ''gateway:targeted_research''"
definition GATEWAY_FULL_RESEARCH :: string where "GATEWAY_FULL_RESEARCH = ''gateway:full_research''"

definition GATEWAY_DECISION_ACTIONS :: "string list" where
  "GATEWAY_DECISION_ACTIONS = [GATEWAY_REPLY_ONLY, GATEWAY_ASK_CLARIFICATION, GATEWAY_JOIN_EXISTING, GATEWAY_APPEND_CONTEXT,
     GATEWAY_HANDOFF_TECH_LEAD_NO_RESEARCH, GATEWAY_TARGETED_RESEARCH, GATEWAY_FULL_RESEARCH]"

lemmas gateway_defs = GATEWAY_REPLY_ONLY_def GATEWAY_ASK_CLARIFICATION_def GATEWAY_JOIN_EXISTING_def GATEWAY_APPEND_CONTEXT_def
  GATEWAY_HANDOFF_TECH_LEAD_NO_RESEARCH_def GATEWAY_TARGETED_RESEARCH_def GATEWAY_FULL_RESEARCH_def

definition COVERAGE_HIGH :: string where "COVERAGE_HIGH = ''high''"
definition COVERAGE_MEDIUM :: string where "COVERAGE_MEDIUM = ''medium''"
definition COVERAGE_LOW :: string where "COVERAGE_LOW = ''low''"

lemmas coverage_defs = COVERAGE_HIGH_def COVERAGE_MEDIUM_def COVERAGE_LOW_def

section \<open>What the stages exchange\<close>

record runtime_input =
  rn_role_id :: string
  rn_message_text :: string
  rn_channel_id :: "int option"
  rn_thread_id :: "int option"
  rn_author_id :: "int option"
  rn_message_id :: "int option"
  rn_attachments :: "json list"
  rn_user_links :: "string list"
  rn_mentions :: "int list"
  rn_received_at :: "pyfloat option"
  rn_last_proposed_prompt :: "string option"
  rn_policy :: "json pydict"

record observation =
  ob_role_id :: string
  ob_message_text :: string
  ob_normalized_text :: string
  ob_channel_id :: "int option"
  ob_thread_id :: "int option"
  ob_author_id :: "int option"
  ob_message_id :: "int option"
  ob_extracted_urls :: "string list"
  ob_has_attachments :: bool
  ob_received_at :: "pyfloat option"
  ob_last_proposed_prompt :: "string option"
  ob_metadata :: "json pydict"

record intent =
  in_id :: string
  in_confidence :: string
  in_reason :: string
  in_alt_intents :: "string list"
  in_metadata :: "json pydict"

record candidate =
  ca_session_id :: string
  ca_title :: string
  ca_score :: pyfloat
  ca_why :: string
  ca_state :: "string option"
  ca_task_type :: "string option"
  ca_thread_id :: "int option"
  ca_forum_thread_id :: "int option"
  ca_has_research_pack :: bool
  ca_has_synthesis :: bool
  ca_extra :: "json pydict"

record coverage =
  cv_level :: string
  cv_stale :: bool
  cv_sources :: "string list"
  cv_reason :: string

record recall =
  rc_session_id :: "string option"
  rc_thread_id :: "int option"
  rc_forum_thread_id :: "int option"
  rc_candidates :: "candidate list"
  rc_memory_hits :: "json list"
  rc_confidence :: string
  rc_reason :: string
  rc_coverage :: "coverage option"

record plan =
  pl_run :: bool
  pl_reason :: string
  pl_providers :: "string list"
  pl_max_calls :: int
  pl_role_targets :: "(string \<times> int) list"

record action =
  ac_id :: string
  ac_payload :: "json pydict"
  ac_reason :: string

record decision =
  de_intent :: intent
  de_plan :: plan
  de_actions :: "action list"
  de_notes :: string

record event_record =
  er_kind :: string
  er_data :: "json pydict"
  er_occurred_at :: "pyfloat option"

record runtime_result =
  rr_role_id :: string
  rr_observation :: observation
  rr_intent :: intent
  rr_recall :: recall
  rr_plan :: plan
  rr_decision :: decision
  rr_actions_taken :: "action list"
  rr_records :: "event_record list"
  rr_error :: "string option"

text \<open>The dataclasses with their defaults.\<close>

definition no_recall :: recall where
  "no_recall = \<lparr>rc_session_id = None, rc_thread_id = None, rc_forum_thread_id = None, rc_candidates = [], rc_memory_hits = [],
     rc_confidence = ''low'', rc_reason = [], rc_coverage = None\<rparr>"

definition no_plan :: plan where
  "no_plan = \<lparr>pl_run = False, pl_reason = [], pl_providers = [], pl_max_calls = 0, pl_role_targets = []\<rparr>"

definition intent_of :: "string \<Rightarrow> string \<Rightarrow> string \<Rightarrow> intent" where
  "intent_of i c r = \<lparr>in_id = i, in_confidence = c, in_reason = r, in_alt_intents = [], in_metadata = []\<rparr>"

definition action_of :: "string \<Rightarrow> json pydict \<Rightarrow> string \<Rightarrow> action" where
  "action_of i p r = \<lparr>ac_id = i, ac_payload = p, ac_reason = r\<rparr>"

definition primary_action_id :: "runtime_result \<Rightarrow> string option" where
  "primary_action_id r = (case rr_actions_taken r of a # _ \<Rightarrow> Some (ac_id a)
     | [] \<Rightarrow> (case de_actions (rr_decision r) of a # _ \<Rightarrow> Some (ac_id a) | [] \<Rightarrow> None))"

section \<open>Role policies\<close>

record role_policy =
  po_role_id :: string
  po_short_name :: string
  po_memory_role :: "string option"
  po_source_kinds :: "string list"
  po_note_kinds :: "string list"
  po_description :: string

definition GATEWAY_POLICY :: role_policy where
  "GATEWAY_POLICY = \<lparr>po_role_id = ''gateway'', po_short_name = ''gateway'', po_memory_role = None,
     po_source_kinds = [''session'', ''discord''], po_note_kinds = [''decision'', ''summary''],
     po_description = (utf8 [0xC6B4, 0xC601, 0x20, 0xB9E4, 0xB2C8, 0xC800, 0x20, 0x2014, 0x20, 0xC0C8, 0x20,
       0xC791, 0xC5C5, 0x2F, 0xAE30, 0xC874, 0x20, 0xC791, 0xC5C5, 0x2F, 0xC0C1, 0xD0DC, 0x2F, 0xC2B9, 0xC778,
       0xC744, 0x20, 0xBD84, 0xB958, 0xD558, 0xACE0, 0x20, 0xD750, 0xB984, 0xC744, 0x20, 0xC870, 0xC728, 0xD55C,
       0xB2E4] @ ''.'')\<rparr>"

definition TECH_LEAD :: role_policy where
  "TECH_LEAD = \<lparr>po_role_id = ''engineering-agent/tech-lead'', po_short_name = ''tech-lead'', po_memory_role = Some ''tech-lead'',
     po_source_kinds = [''session'', ''obsidian'', ''discord''], po_note_kinds = [''decision'', ''synthesis'', ''plan''],
     po_description = (utf8 [0xD300, 0xC7A5, 0x20, 0x2014, 0x20, 0xC791, 0xC5C5, 0x20, 0xBD84, 0xD574, 0x2C, 0x20,
       0xC5ED, 0xD560, 0xBCC4, 0x20, 0xC758, 0xACAC, 0x20, 0xC885, 0xD569, 0x2C, 0x20, 0xCDA9, 0xB3CC, 0x20,
       0xC870, 0xC815, 0x2C, 0x20, 0xD569, 0xC758, 0xC548, 0xACFC, 0x20, 0xC2B9, 0xC778, 0x20, 0xBB38, 0xC11C,
       0x20, 0xCD08, 0xC548] @ ''.'')\<rparr>"

definition AI_ENGINEER :: role_policy where
  "AI_ENGINEER = \<lparr>po_role_id = ''engineering-agent/ai-engineer'', po_short_name = ''ai-engineer'', po_memory_role = Some ''ai-engineer'',
     po_source_kinds = [''obsidian'', ''session'', ''research_pack''], po_note_kinds = [''research'', ''evaluation'', ''decision''],
     po_description = (''LLM/RAG/memory/prompt/model/evaluation '' @ utf8 [0xAD00, 0xC810, 0x20, 0xD310, 0xB2E8]
       @ ''.'')\<rparr>"

definition BACKEND_ENGINEER :: role_policy where
  "BACKEND_ENGINEER = \<lparr>po_role_id = ''engineering-agent/backend-engineer'', po_short_name = ''backend-engineer'',
     po_memory_role = Some ''backend-engineer'', po_source_kinds = [''session'', ''code'', ''obsidian''],
     po_note_kinds = [''decision'', ''design'', ''incident''],
     po_description = (''persistence/API/queue/state/reliability '' @ utf8 [0xAD00, 0xC810, 0x20, 0xD310, 0xB2E8]
       @ ''.'')\<rparr>"

definition FRONTEND_ENGINEER :: role_policy where
  "FRONTEND_ENGINEER = \<lparr>po_role_id = ''engineering-agent/frontend-engineer'', po_short_name = ''frontend-engineer'',
     po_memory_role = Some ''frontend-engineer'', po_source_kinds = [''discord'', ''obsidian'', ''session''],
     po_note_kinds = [''ux'', ''design'', ''decision''],
     po_description = (''Discord/Obsidian '' @ utf8 [0xD45C, 0xC2DC] @ '' UX, '' @ utf8 [0xC0AC, 0xC6A9, 0xC790,
       0x20, 0xD53C, 0xB4DC, 0xBC31, 0x20, 0xB8E8, 0xD504] @ '', UI '' @ utf8 [0xAD6C, 0xC870, 0x20, 0xAD00,
       0xC810, 0x20, 0xD310, 0xB2E8] @ ''.'')\<rparr>"

definition PRODUCT_DESIGNER :: role_policy where
  "PRODUCT_DESIGNER = \<lparr>po_role_id = ''engineering-agent/product-designer'', po_short_name = ''product-designer'',
     po_memory_role = Some ''product-designer'', po_source_kinds = [''obsidian'', ''discord'', ''session''],
     po_note_kinds = [''ux'', ''research'', ''decision''],
     po_description = (utf8 [0xC0AC, 0xC6A9, 0xC790, 0x20, 0xC758, 0xB3C4, 0x2C, 0x20, 0xC6B4, 0xC601, 0x20,
       0xD50C, 0xB85C, 0xC6B0, 0x2C, 0x20, 0xC815, 0xBCF4, 0x20, 0xAD6C, 0xC870, 0x2C, 0x20, 0xC2B9, 0xC778]
       @ '' UX '' @ utf8 [0xAD00, 0xC810, 0x20, 0xD310, 0xB2E8] @ ''.'')\<rparr>"

definition QA_ENGINEER :: role_policy where
  "QA_ENGINEER = \<lparr>po_role_id = ''engineering-agent/qa-engineer'', po_short_name = ''qa-engineer'', po_memory_role = Some ''qa-engineer'',
     po_source_kinds = [''session'', ''code'', ''discord''], po_note_kinds = [''test'', ''incident'', ''decision''],
     po_description = (utf8 [0xC2E4, 0xD328, 0x20, 0xCF00, 0xC774, 0xC2A4, 0x2C, 0x20, 0xD68C, 0xADC0, 0x20,
       0xD14C, 0xC2A4, 0xD2B8] @ '', smoke test, acceptance criteria '' @ utf8 [0xAD00, 0xC810, 0x20, 0xD310,
       0xB2E8] @ ''.'')\<rparr>"

definition DEVOPS_ENGINEER :: role_policy where
  "DEVOPS_ENGINEER = \<lparr>po_role_id = ''engineering-agent/devops-engineer'', po_short_name = ''devops-engineer'',
     po_memory_role = Some ''devops-engineer'', po_source_kinds = [''session'', ''code'', ''obsidian''],
     po_note_kinds = [''incident'', ''deploy'', ''decision''],
     po_description = (''env/'' @ utf8 [0xC2E4, 0xD589, 0x20, 0xD504, 0xB85C, 0xC138, 0xC2A4] @ ''/supervisor/''
       @ utf8 [0xBC30, 0xD3EC, 0x2F, 0xBAA8, 0xB2C8, 0xD130, 0xB9C1, 0x2F, 0xC7A5, 0xC560, 0x20, 0xBCF5, 0xAD6C,
       0x20, 0xAD00, 0xC810, 0x20, 0xD310, 0xB2E8] @ ''.'')\<rparr>"

definition DEFAULT_POLICY :: role_policy where
  "DEFAULT_POLICY = \<lparr>po_role_id = ''*'', po_short_name = ''default'', po_memory_role = None, po_source_kinds = [], po_note_kinds = [],
     po_description = (utf8 [0xC54C, 0x20, 0xC218, 0x20, 0xC5C6, 0xB294] @ '' role '' @ utf8 [0x2014]
       @ '' gateway-equivalent '' @ utf8 [0xAE30, 0xBCF8, 0x20, 0xC815, 0xCC45] @ ''.'')\<rparr>"

definition all_role_policies :: "role_policy list" where
  "all_role_policies = [GATEWAY_POLICY, TECH_LEAD, AI_ENGINEER, BACKEND_ENGINEER, FRONTEND_ENGINEER, PRODUCT_DESIGNER, QA_ENGINEER,
     DEVOPS_ENGINEER]"

definition policy_at :: "string \<Rightarrow> role_policy option" where
  "policy_at i = find_key po_role_id i all_role_policies"

definition role_policy_for :: "string \<Rightarrow> role_policy" where
  "role_policy_for role_id = (if role_id = [] then DEFAULT_POLICY
     else case policy_at role_id of Some p \<Rightarrow> p
       | None \<Rightarrow> (case policy_at (''engineering-agent/'' @ role_id) of Some p \<Rightarrow> p
           | None \<Rightarrow> if role_id = po_role_id GATEWAY_POLICY then GATEWAY_POLICY else DEFAULT_POLICY))"

section \<open>The loop\<close>

text \<open>\<open>https?://[^\s<>"]+\<close> at the front of a list of characters: the address and the rest.\<close>

definition url_char :: "string \<Rightarrow> bool" where
  "url_char c \<longleftrightarrow> \<not> space_char c \<and> c \<notin> {''<'', ''>'', [CHR 0x22]}"

definition url_after :: "string \<Rightarrow> string list \<Rightarrow> (string \<times> string list) option" where
  "url_after scheme cs =
     (let n = length scheme; body = takeWhile url_char (drop n cs)
      in if take n cs = map (\<lambda>c. [c]) scheme \<and> body \<noteq> [] then Some (scheme @ concat body, dropWhile url_char (drop n cs)) else None)"

definition url_here :: "string list \<Rightarrow> (string \<times> string list) option" where
  "url_here cs = (case url_after ''https://'' cs of Some r \<Rightarrow> Some r | None \<Rightarrow> url_after ''http://'' cs)"

lemma url_after_shorter: "url_after scheme cs = Some (u, rest) \<Longrightarrow> length rest < length cs"
  unfolding url_after_def Let_def
  by (auto split: if_splits) (metis (no_types, lifting) length_append length_drop length_greater_0_conv less_add_same_cancel2
      less_le_trans diff_le_self takeWhile_dropWhile_id)

lemma url_here_shorter: "url_here cs = Some (u, rest) \<Longrightarrow> length rest < length cs"
  by (auto simp: url_here_def split: option.splits dest: url_after_shorter)

function find_urls :: "string list \<Rightarrow> string list" where
  "find_urls [] = []"
| "find_urls (c # cs) = (case url_here (c # cs) of Some (u, rest) \<Rightarrow> u # find_urls rest | None \<Rightarrow> find_urls cs)"
  by pat_completeness auto
termination
  by (relation "measure length") (auto dest: url_here_shorter)

definition default_observe :: "talk_host \<Rightarrow> runtime_input \<Rightarrow> observation" where
  "default_observe h i =
     \<lparr>ob_role_id = rn_role_id i, ob_message_text = rn_message_text i, ob_normalized_text = th_lower h (squeeze (rn_message_text i)),
      ob_channel_id = rn_channel_id i, ob_thread_id = rn_thread_id i, ob_author_id = rn_author_id i, ob_message_id = rn_message_id i,
      ob_extracted_urls = find_urls (char_list (rn_message_text i)), ob_has_attachments = (rn_attachments i \<noteq> []),
      ob_received_at = rn_received_at i, ob_last_proposed_prompt = rn_last_proposed_prompt i, ob_metadata = []\<rparr>"

definition default_understand :: "observation \<Rightarrow> runtime_input \<Rightarrow> intent" where
  "default_understand ob i = intent_of INTENT_GENERAL_CHAT ''low'' ''default''"

definition default_recall :: "observation \<Rightarrow> intent \<Rightarrow> runtime_input \<Rightarrow> recall" where
  "default_recall ob it i = no_recall\<lparr>rc_reason := ''default''\<rparr>"

definition default_research :: "observation \<Rightarrow> intent \<Rightarrow> recall \<Rightarrow> runtime_input \<Rightarrow> plan" where
  "default_research ob it rc i = no_plan\<lparr>pl_reason := ''default''\<rparr>"

definition default_decide :: "observation \<Rightarrow> intent \<Rightarrow> recall \<Rightarrow> plan \<Rightarrow> runtime_input \<Rightarrow> decision" where
  "default_decide ob it rc pl i = \<lparr>de_intent = it, de_plan = pl, de_actions = [action_of ACTION_NOOP [] ''default''],
     de_notes = ''default-decision''\<rparr>"

text \<open>The stages a caller may replace, each with the state it runs on.\<close>

type_synonym ('s, 'a) stage = "'s \<Rightarrow> (string + 'a) \<times> 's"

record 's stages =
  sg_observe :: "(runtime_input \<Rightarrow> ('s, observation) stage) option"
  sg_understand :: "(observation \<Rightarrow> runtime_input \<Rightarrow> ('s, intent) stage) option"
  sg_recall :: "(observation \<Rightarrow> intent \<Rightarrow> runtime_input \<Rightarrow> ('s, recall) stage) option"
  sg_research :: "(observation \<Rightarrow> intent \<Rightarrow> recall \<Rightarrow> runtime_input \<Rightarrow> ('s, plan) stage) option"
  sg_decide :: "(observation \<Rightarrow> intent \<Rightarrow> recall \<Rightarrow> plan \<Rightarrow> runtime_input \<Rightarrow> ('s, decision) stage) option"
  sg_act :: "(decision \<Rightarrow> runtime_input \<Rightarrow> ('s, action list) stage) option"
  sg_record :: "(runtime_result \<Rightarrow> runtime_input \<Rightarrow> ('s, event_record list) stage) option"

definition pure_stage :: "'a \<Rightarrow> ('s, 'a) stage" where
  "pure_stage x s = (Inr x, s)"

definition join_error :: "string option \<Rightarrow> string \<Rightarrow> string option" where
  "join_error prev e = (case prev of Some p \<Rightarrow> (if p \<noteq> [] then Some (p @ ('' '' @ utf8 [0xB7]
    @ '' '') @ e) else Some e) | None \<Rightarrow> Some e)"

text \<open>One stage: its value, or the value that stands for its failure together with the error so far.\<close>

definition run_stage :: "string \<Rightarrow> (string \<Rightarrow> 'a) \<Rightarrow> ('s, 'a) stage \<Rightarrow> string option \<Rightarrow> 's \<Rightarrow> 'a \<times> string option \<times> 's" where
  "run_stage name failed f err s = (case f s of (Inr x, s) \<Rightarrow> (x, err, s) | (Inl e, s) \<Rightarrow> (failed e, join_error err (name @ '': '' @ e), s))"

definition observe_failed :: "runtime_input \<Rightarrow> string \<Rightarrow> runtime_result" where
  "observe_failed i e =
     (let it = intent_of INTENT_GENERAL_CHAT ''medium'' ''observe-failed''
      in \<lparr>rr_role_id = rn_role_id i,
          rr_observation = \<lparr>ob_role_id = rn_role_id i, ob_message_text = rn_message_text i, ob_normalized_text = [], ob_channel_id = None,
             ob_thread_id = None, ob_author_id = None, ob_message_id = None, ob_extracted_urls = [], ob_has_attachments = False,
             ob_received_at = None, ob_last_proposed_prompt = None, ob_metadata = []\<rparr>,
          rr_intent = it, rr_recall = no_recall, rr_plan = no_plan,
          rr_decision = \<lparr>de_intent = it, de_plan = no_plan, de_actions = [], de_notes = []\<rparr>,
          rr_actions_taken = [], rr_records = [], rr_error = Some (''observe: '' @ e)\<rparr>)"

definition decide_failed :: "intent \<Rightarrow> plan \<Rightarrow> string \<Rightarrow> decision" where
  "decide_failed it pl e = \<lparr>de_intent = it, de_plan = pl,
     de_actions = [action_of ACTION_REPLY [(''text'', JStr ((utf8 [0xB0B4, 0xBD80, 0x20, 0xCC98, 0xB9AC, 0x20,
       0xC911, 0x20, 0xC624, 0xB958, 0xAC00, 0x20, 0xBC1C, 0xC0DD, 0xD588, 0xC5B4, 0xC694, 0x2E, 0x20, 0xC7A0,
       0xC2DC, 0x20, 0xD6C4, 0x20, 0xB2E4, 0xC2DC, 0x20, 0xC2DC, 0xB3C4, 0xD574, 0x20, 0xC8FC, 0xC138, 0xC694]
       @ ''.'')))] ''decide-failed''],
     de_notes = ''decide-failed: '' @ e\<rparr>"

text \<open>The stages after Observe.\<close>

definition run_observed :: "'s stages \<Rightarrow> runtime_input \<Rightarrow> observation \<Rightarrow> 's \<Rightarrow> runtime_result \<times> 's" where
  "run_observed sg i ob s =
     (let (it, err, s) = run_stage ''understand'' (\<lambda>e. intent_of INTENT_GENERAL_CHAT ''low'' (''understand-failed: '' @ e))
            (case sg_understand sg of Some f \<Rightarrow> f ob i | None \<Rightarrow> pure_stage (default_understand ob i)) None s;
          (rc, err, s) = run_stage ''recall'' (\<lambda>e. no_recall\<lparr>rc_reason := ''recall-failed: '' @ e\<rparr>)
            (case sg_recall sg of Some f \<Rightarrow> f ob it i | None \<Rightarrow> pure_stage (default_recall ob it i)) err s;
          (pl, err, s) = run_stage ''research'' (\<lambda>e. no_plan\<lparr>pl_reason := ''research-failed: '' @ e\<rparr>)
            (case sg_research sg of Some f \<Rightarrow> f ob it rc i | None \<Rightarrow> pure_stage (default_research ob it rc i)) err s;
          (de, err, s) = run_stage ''decide'' (decide_failed it pl)
            (case sg_decide sg of Some f \<Rightarrow> f ob it rc pl i | None \<Rightarrow> pure_stage (default_decide ob it rc pl i)) err s;
          (ac, err, s) = run_stage ''act'' (\<lambda>e. [])
            (case sg_act sg of Some f \<Rightarrow> f de i | None \<Rightarrow> pure_stage (de_actions de)) err s;
          pre = \<lparr>rr_role_id = rn_role_id i, rr_observation = ob, rr_intent = it, rr_recall = rc, rr_plan = pl, rr_decision = de,
            rr_actions_taken = ac, rr_records = [], rr_error = err\<rparr>;
          (rs, err, s) = run_stage ''record'' (\<lambda>e. [])
            (case sg_record sg of Some f \<Rightarrow> f pre i | None \<Rightarrow> pure_stage []) err s
      in (pre\<lparr>rr_records := rs, rr_error := err\<rparr>, s))"

definition run_runtime_loop :: "talk_host \<Rightarrow> 's stages \<Rightarrow> runtime_input \<Rightarrow> 's \<Rightarrow> runtime_result \<times> 's" where
  "run_runtime_loop h sg i s =
     (case (case sg_observe sg of Some f \<Rightarrow> f i | None \<Rightarrow> pure_stage (default_observe h i)) s of
        (Inl e, s) \<Rightarrow> (observe_failed i e, s)
      | (Inr ob, s) \<Rightarrow> run_observed sg i ob s)"

end
