(* ===== verification/Recall.thy ===== *)
theory Recall
  imports AgentRuntime
begin

text \<open>
  Finding the work a message points at (\<open>recall.py\<close>): sessions of the workflow store, their scores against a
  message, the choice of one or of none, hits of the memory, and how well both cover the message. The lister of
  sessions and the memory search are arguments, as in the source; each may raise.
\<close>

section \<open>Sessions\<close>

text \<open>The fields of \<open>WorkflowSession\<close> that routing reads; a time is an instant, in seconds since 1970.\<close>

record wsession =
  ws_id :: string
  ws_prompt :: string
  ws_task_type :: string
  ws_state :: string
  ws_updated_at :: pyfloat
  ws_summary :: "string option"
  ws_channel_id :: "int option"
  ws_user_id :: "int option"
  ws_thread_id :: "int option"
  ws_extra :: "json pydict"

datatype raised = Type_Error string | Other_Error string

text \<open>\<open>list_sessions(limit=n)\<close>, and \<open>list_sessions()\<close>.\<close>

type_synonym lister = "int option \<Rightarrow> raised + wsession list"

definition list_limited :: "lister \<Rightarrow> int \<Rightarrow> raised + wsession list" where
  "list_limited f limit = (case f (Some limit) of Inl (Type_Error e) \<Rightarrow> f None | r \<Rightarrow> r)"

definition default_open_filter :: "talk_host \<Rightarrow> wsession \<Rightarrow> bool" where
  "default_open_filter h s \<longleftrightarrow> th_lower h (ws_state s) \<notin> {''completed'', ''rejected''}"

definition extract_forum_thread_id :: "talk_host \<Rightarrow> wsession \<Rightarrow> int option" where
  "extract_forum_thread_id h s =
     (let raw = dict_get_or (ws_extra s) ''research_forum_thread_id'' (dict_get (ws_extra s) ''forum_thread_id'')
      in if raw = JNull then None else py_int (th_json h) raw)"

definition cut_text :: "nat \<Rightarrow> string \<Rightarrow> string" where
  "cut_text n s = chars n s @ (if n < py_len s then ''...'' else [])"

definition is_dict :: "json \<Rightarrow> bool" where
  "is_dict j = (case j of JObj d \<Rightarrow> True | _ \<Rightarrow> False)"

definition dict_of :: "json \<Rightarrow> json pydict" where
  "dict_of j = (case j of JObj d \<Rightarrow> d | _ \<Rightarrow> [])"

definition session_to_candidate :: "talk_host \<Rightarrow> pyfloat \<Rightarrow> string \<Rightarrow> wsession \<Rightarrow> candidate" where
  "session_to_candidate h score why s =
     (let pack = dict_get (ws_extra s) ''research_pack''; syn = dict_get (ws_extra s) ''research_synthesis'';
          title = dict_get (dict_of pack) ''title''
      in \<lparr>ca_session_id = ws_id s,
          ca_title = (if is_dict pack \<and> truthy title then json_str (th_json h) title
            else case ws_summary s of Some t \<Rightarrow> (if t \<noteq> [] then t else cut_text 80 (ws_prompt s)) | None \<Rightarrow> cut_text 80 (ws_prompt s)),
          ca_score = score, ca_why = why, ca_state = Some (ws_state s), ca_task_type = Some (ws_task_type s),
          ca_thread_id = ws_thread_id s, ca_forum_thread_id = extract_forum_thread_id h s,
          ca_has_research_pack = (is_dict pack \<and> truthy pack), ca_has_synthesis = (is_dict syn \<and> truthy syn),
          ca_extra = [(''updated_at'', JStr (th_show_time h (ws_updated_at s)))]\<rparr>)"

section \<open>Scores\<close>

definition SCORE_HIGH :: pyfloat where "SCORE_HIGH = 0.45"
definition SCORE_MEDIUM :: pyfloat where "SCORE_MEDIUM = 0.20"
definition AMBIGUITY_MARGIN :: pyfloat where "AMBIGUITY_MARGIN = 0.10"
definition MAX_CANDIDATES_RETURNED :: nat where "MAX_CANDIDATES_RETURNED = 5"

definition RECENCY_CUES :: "string list" where
  "RECENCY_CUES = [
    (utf8 [0xC5B4, 0xC81C]), (utf8 [0xADF8, 0xC81C]), (utf8 [0xC9C0, 0xB09C, 0xBC88]),
    (utf8 [0xC9C0, 0xB09C, 0x20, 0xBC88]), (utf8 [0xBC29, 0xAE08]), (utf8 [0xC544, 0xAE4C]),
    (utf8 [0xC870, 0xAE08, 0x20, 0xC804]), (utf8 [0xC870, 0xAE08, 0xC804]), (utf8 [0xCD5C, 0xADFC]), ''yesterday'',
    ''earlier'', ''just now'']"

definition RECALL_STOPWORDS :: "string list" where
  "RECALL_STOPWORDS = [
    ''the'', ''and'', ''for'', ''with'', ''into'', ''from'', ''that'', ''this'', ''have'',
    (utf8 [0xADF8, 0xB9AC, 0xACE0]), (utf8 [0xADF8, 0xB798, 0xC11C]), (utf8 [0xADFC, 0xB370]),
    (utf8 [0xADF8, 0xB0E5]), (utf8 [0xB2E4, 0xC2DC]), (utf8 [0xC77C, 0xB2E8]), (utf8 [0xD558, 0xBA74]),
    (utf8 [0xD558, 0xC790]), (utf8 [0xCC98, 0xB7FC]), (utf8 [0xAD00, 0xB828]), (utf8 [0xB0B4, 0xC6A9]),
    (utf8 [0xBD80, 0xBD84]), (utf8 [0xC791, 0xC5C5]), (utf8 [0xC774, 0xC5B4, 0xC11C]), (utf8 [0xC815, 0xB9AC]),
    (utf8 [0xC815, 0xB9AC, 0xD574, 0xC918]), (utf8 [0xC694, 0xC57D]), (utf8 [0xC694, 0xC57D, 0xD574, 0xC918])]"

text \<open>\<open>[0-9A-Za-z]\<close> and the Hangul syllables.\<close>

definition token_char :: "string \<Rightarrow> bool" where
  "token_char c \<longleftrightarrow> (let n = code_point c in (48 \<le> n \<and> n \<le> 57) \<or> (65 \<le> n \<and> n \<le> 90) \<or> (97 \<le> n \<and> n \<le> 122)
     \<or> (44032 \<le> n \<and> n \<le> 55203))"

definition tokenize :: "talk_host \<Rightarrow> string list \<Rightarrow> string \<Rightarrow> string set" where
  "tokenize h stopwords s = set (filter (\<lambda>t. 2 \<le> py_len t \<and> t \<notin> set stopwords)
     (map concat (runs token_char (char_list (th_lower h s)))))"

text \<open>The largest overlap of the message with a field, and the first field that has it.\<close>

definition better_field :: "talk_host \<Rightarrow> string list \<Rightarrow> string set \<Rightarrow> string \<times> string \<Rightarrow> nat \<times> string \<Rightarrow> nat \<times> string" where
  "better_field h stopwords ts fld best = (let n = card (ts \<inter> tokenize h stopwords (snd fld)) in if fst best < n then (n, fst fld) else best)"

definition best_field :: "talk_host \<Rightarrow> string list \<Rightarrow> string set \<Rightarrow> (string \<times> string) list \<Rightarrow> nat \<times> string" where
  "best_field h stopwords ts fs = fold (better_field h stopwords ts) fs (0, [])"

text \<open>The fields of a session after its prompt: what a research pack or a synthesis left in its extra.\<close>

definition pack_fields :: "talk_host \<Rightarrow> json pydict \<Rightarrow> (string \<times> string) list" where
  "pack_fields h extra =
     (let pack = dict_of (dict_get extra ''research_pack''); syn = dict_of (dict_get extra ''research_synthesis'');
          entry = (\<lambda>d k l. if truthy (dict_get d k) then [(l, json_str (th_json h) (dict_get d k))] else [])
      in entry pack ''title'' ''pack.title'' @ entry pack ''summary'' ''pack.summary'' @ entry syn ''consensus'' ''synthesis.consensus'')"

definition summary_field :: "wsession \<Rightarrow> (string \<times> string) list" where
  "summary_field s = (case ws_summary s of Some t \<Rightarrow> (if t \<noteq> [] then [(''summary'', t)] else []) | None \<Rightarrow> [])"

definition session_fields :: "talk_host \<Rightarrow> wsession \<Rightarrow> (string \<times> string) list" where
  "session_fields h s = [(''prompt'', ws_prompt s), (''task_type'', ws_task_type s)] @ summary_field s @ pack_fields h (ws_extra s)"

text \<open>A result of float arithmetic is the exact one, rounded.\<close>

definition overlap_score :: "talk_host \<Rightarrow> nat \<Rightarrow> string \<Rightarrow> nat \<Rightarrow> pyfloat" where
  "overlap_score h n fld m =
     (let score = th_round h (real n / real (max 1 m))
      in if fld = ''prompt'' \<and> 2 \<le> n then min 1 (th_round h (score + th_round h 0.1)) else score)"

definition score_session :: "talk_host \<Rightarrow> string set \<Rightarrow> wsession \<Rightarrow> pyfloat \<times> string" where
  "score_session h ts s =
     (if ts = {} then (0, [])
      else let (n, fld) = best_field h RECALL_STOPWORDS ts (session_fields h s)
           in if n = 0 then (0, [])
              else (overlap_score h n fld (card ts),
                    (utf8 [0xB9E4, 0xCE6D] @ '' '') @ show_nat n @ ''/'' @ show_nat (card ts) @ ('' ''
                      @ utf8 [0xD1A0, 0xD070, 0x20, 0x28, 0xC601, 0xC5ED] @ '': '') @ fld @ '')''))"

section \<open>Session recall\<close>

definition resolve_thread_anchor :: "wsession list \<Rightarrow> runtime_input \<Rightarrow> string option" where
  "resolve_thread_anchor sessions i = (case rn_thread_id i of None \<Rightarrow> None
     | Some t \<Rightarrow> map_option ws_id (find (\<lambda>s. ws_thread_id s = Some t) sessions))"

definition find_anchor_session :: "lister \<Rightarrow> int \<Rightarrow> (wsession \<Rightarrow> bool) \<Rightarrow> runtime_input \<Rightarrow> raised + wsession option" where
  "find_anchor_session f limit state_filter i =
     (if rn_thread_id i = None \<and> rn_channel_id i = None then Inr None
      else case list_limited f limit of Inl e \<Rightarrow> Inl e
        | Inr raw \<Rightarrow>
            (let sessions = filter state_filter raw
             in Inr (case find (\<lambda>s. rn_thread_id i \<noteq> None \<and> ws_thread_id s = rn_thread_id i) sessions of Some s \<Rightarrow> Some s
                  | None \<Rightarrow> if rn_channel_id i \<noteq> None then find (\<lambda>s. ws_channel_id s = rn_channel_id i) sessions else None)))"

definition has_recency_cue :: "talk_host \<Rightarrow> observation \<Rightarrow> bool" where
  "has_recency_cue h ob = any_in (if ob_normalized_text ob \<noteq> [] then ob_normalized_text ob else th_lower h (ob_message_text ob)) RECENCY_CUES"

text \<open>The first of the sessions updated last.\<close>

fun most_recent :: "wsession list \<Rightarrow> wsession option" where
  "most_recent [] = None"
| "most_recent (s # ss) = (case most_recent ss of None \<Rightarrow> Some s | Some m \<Rightarrow> if ws_updated_at s < ws_updated_at m then Some m else Some s)"

definition scored_sessions :: "talk_host \<Rightarrow> string set \<Rightarrow> wsession list \<Rightarrow> (pyfloat \<times> wsession \<times> string) list" where
  "scored_sessions h ts sessions =
     sort_by (\<lambda>a b. fst b \<le> fst a) (filter (\<lambda>t. 0 < fst t) (map (\<lambda>s. (fst (score_session h ts s), s, snd (score_session h ts s))) sessions))"

definition matched :: "talk_host \<Rightarrow> wsession \<Rightarrow> candidate list \<Rightarrow> string \<Rightarrow> string \<Rightarrow> recall" where
  "matched h s cands conf why = no_recall\<lparr>rc_session_id := Some (ws_id s), rc_thread_id := ws_thread_id s,
     rc_forum_thread_id := extract_forum_thread_id h s, rc_candidates := cands, rc_confidence := conf, rc_reason := why\<rparr>"

text \<open>The choice by score: the best session, if it is good enough and ahead of the next by the margin.\<close>

definition choose_scored :: "talk_host \<Rightarrow> (pyfloat \<times> wsession \<times> string) list \<Rightarrow> recall" where
  "choose_scored h scored =
     (let (top, s, why) = hd scored; runner_up = (if 1 < length scored then fst (scored ! 1) else 0);
          margin = th_round h (top - runner_up);
          cands = map (\<lambda>(score, s, why). session_to_candidate h score why s) (take MAX_CANDIDATES_RETURNED scored);
          reason = ''top score '' @ th_fixed2 h top @ ('' '' @ utf8 [0xB7] @ '' '') @ why
      in if th_round h SCORE_HIGH \<le> top \<and> th_round h AMBIGUITY_MARGIN \<le> margin then matched h s cands ''high'' reason
         else if th_round h SCORE_MEDIUM \<le> top \<and> th_round h AMBIGUITY_MARGIN \<le> margin then matched h s cands ''medium'' reason
         else no_recall\<lparr>rc_candidates := cands,
           rc_reason := (''ambiguous '' @ utf8 [0xB7] @ '' top '') @ th_fixed2 h top @ '' vs runner-up ''
             @ th_fixed2 h runner_up @ '' (margin '' @ th_fixed2 h margin @ '')''\<rparr>)"

definition recall_among :: "talk_host \<Rightarrow> observation \<Rightarrow> runtime_input \<Rightarrow> wsession list \<Rightarrow> recall" where
  "recall_among h ob i sessions =
     (if sessions = [] then no_recall\<lparr>rc_reason := ''no open sessions''\<rparr>
      else case resolve_thread_anchor sessions i of
        Some a \<Rightarrow>
          (case find (\<lambda>s. ws_id s = a) sessions of
             Some s \<Rightarrow> matched h s (map (\<lambda>s. session_to_candidate h (if ws_id s = a then 1 else 0)
                 (if ws_id s = a then ''thread anchor'' else ''in scope'') s) (take MAX_CANDIDATES_RETURNED sessions)) ''high'' ''thread/channel anchor''
           | None \<Rightarrow> no_recall)
      | None \<Rightarrow>
          (let scored = scored_sessions h (tokenize h RECALL_STOPWORDS (ob_message_text ob)) sessions
           in if scored \<noteq> [] then choose_scored h scored
              else if has_recency_cue h ob then
                (case most_recent sessions of
                   Some s \<Rightarrow> matched h s [session_to_candidate h 0.5 ''recency fallback'' s] ''medium'' ''recency cue + latest open session''
                 | None \<Rightarrow> no_recall\<lparr>rc_reason := ''no token match''\<rparr>)
              else no_recall\<lparr>rc_reason := ''no token match''\<rparr>))"

definition compute_session_recall :: "talk_host \<Rightarrow> lister option \<Rightarrow> int \<Rightarrow> (wsession \<Rightarrow> bool) \<Rightarrow> observation \<Rightarrow> intent \<Rightarrow>
    runtime_input \<Rightarrow> raised + recall" where
  "compute_session_recall h lister limit state_filter ob it i = (case lister of
     None \<Rightarrow> Inr (no_recall\<lparr>rc_reason := ''no list_sessions_fn provided''\<rparr>)
   | Some f \<Rightarrow>
       (if in_id it = INTENT_NEW_WORK_REQUEST then
          (case find_anchor_session f limit state_filter i of Inl e \<Rightarrow> Inl e
           | Inr None \<Rightarrow> Inr (no_recall\<lparr>rc_reason := (''new work '' @ utf8 [0x2014]
             @ '' no anchor session'')\<rparr>)
           | Inr (Some s) \<Rightarrow> Inr (no_recall\<lparr>rc_candidates := [session_to_candidate h 0 ''anchor (channel/thread)'' s],
               rc_reason := (''new work '' @ utf8 [0x2014] @ '' anchor session in same channel/thread'')\<rparr>))
        else (case list_limited f limit of Inl e \<Rightarrow> Inl e
           | Inr raw \<Rightarrow> Inr (recall_among h ob i (filter state_filter raw)))))"

section \<open>Memory\<close>

record search_args =
  sa_limit :: int
  sa_role :: "string option"
  sa_note_kind :: "string option"
  sa_source_kind :: "string option"

definition head_of :: "'a list \<Rightarrow> 'a option" where
  "head_of xs = (case xs of [] \<Rightarrow> None | x # _ \<Rightarrow> Some x)"

text \<open>The search with the arguments of the role, or with the text alone when it does not take them.\<close>

definition run_memory_search :: "(string \<Rightarrow> search_args option \<Rightarrow> raised + json list) option \<Rightarrow> observation \<Rightarrow> runtime_input \<Rightarrow> int \<Rightarrow> json list" where
  "run_memory_search search ob i limit = (case search of None \<Rightarrow> []
     | Some f \<Rightarrow>
         (let text = wide_strip (ob_message_text ob); p = role_policy_for (rn_role_id i);
              args = \<lparr>sa_limit = limit, sa_role = po_memory_role p, sa_note_kind = head_of (po_note_kinds p),
                sa_source_kind = head_of (po_source_kinds p)\<rparr>
          in if text = [] then []
             else case (case f text (Some args) of Inl (Type_Error e) \<Rightarrow> f text None | r \<Rightarrow> r) of Inl e \<Rightarrow> [] | Inr hits \<Rightarrow> hits))"

definition make_recall_fn :: "talk_host \<Rightarrow> lister option \<Rightarrow> int \<Rightarrow> (wsession \<Rightarrow> bool) \<Rightarrow>
    (string \<Rightarrow> search_args option \<Rightarrow> raised + json list) option \<Rightarrow> int \<Rightarrow> observation \<Rightarrow> intent \<Rightarrow> runtime_input \<Rightarrow> raised + recall" where
  "make_recall_fn h lister limit state_filter search search_limit ob it i =
     (case compute_session_recall h lister limit state_filter ob it i of Inl e \<Rightarrow> Inl e
      | Inr base \<Rightarrow> (let hits = run_memory_search search ob i search_limit
          in Inr (if hits \<noteq> [] then base\<lparr>rc_memory_hits := hits\<rparr> else base)))"

section \<open>Coverage\<close>

definition COVERAGE_FRESH_HOURS :: int where "COVERAGE_FRESH_HOURS = 24"
definition COVERAGE_STALE_DAYS :: int where "COVERAGE_STALE_DAYS = 7"
definition COVERAGE_HIGH_MIN_MEMORY_HITS :: nat where "COVERAGE_HIGH_MIN_MEMORY_HITS = 2"
definition COVERAGE_MEDIUM_MIN_MEMORY_HITS :: nat where "COVERAGE_MEDIUM_MIN_MEMORY_HITS = 1"

text \<open>\<open>datetime.fromtimestamp\<close> takes the years 1 to 9999.\<close>

definition timestamp :: "real \<Rightarrow> real option" where
  "timestamp x = (if - 62135596800 \<le> x \<and> x < 253402300800 then Some x else None)"

fun replace_Z :: "string \<Rightarrow> string" where
  "replace_Z [] = []"
| "replace_Z (c # cs) = (if c = CHR ''Z'' then ''+00:00'' else [c]) @ replace_Z cs"

definition coerce_datetime :: "talk_host \<Rightarrow> json \<Rightarrow> real option" where
  "coerce_datetime h j = (case j of
     JBool b \<Rightarrow> timestamp (if b then 1 else 0) | JInt n \<Rightarrow> timestamp (real_of_int n) | JNum x \<Rightarrow> timestamp x
   | JStr s \<Rightarrow> (let t = wide_strip s in if t = [] then None else th_parse_time h (replace_Z t))
   | _ \<Rightarrow> None)"

text \<open>The first of the keys that holds a time.\<close>

fun first_time :: "talk_host \<Rightarrow> json pydict \<Rightarrow> string list \<Rightarrow> real option" where
  "first_time h d [] = None"
| "first_time h d (k # ks) = (case coerce_datetime h (dict_get d k) of Some t \<Rightarrow> Some t | None \<Rightarrow> first_time h d ks)"

definition candidate_timestamp :: "talk_host \<Rightarrow> candidate \<Rightarrow> real option" where
  "candidate_timestamp h c = first_time h (ca_extra c) [''updated_at'', ''last_activity_at'', ''last_message_at'']"

definition hit_timestamp :: "talk_host \<Rightarrow> json \<Rightarrow> real option" where
  "hit_timestamp h hit = (case hit of JObj d \<Rightarrow> first_time h d [''updated_at'', ''created_at'', ''ingested_at'', ''timestamp''] | _ \<Rightarrow> None)"

definition hit_label :: "talk_host \<Rightarrow> json \<Rightarrow> string" where
  "hit_label h hit =
     (let source = (case hit of JObj d \<Rightarrow> json_str (th_json h) (dict_get_or d ''backend'' (dict_get_or d ''source'' (JStr ''memory''))) | _ \<Rightarrow> ''memory'')
      in if prefix ''memory'' source then source else ''memory:'' @ source)"

definition session_timestamps :: "talk_host \<Rightarrow> recall \<Rightarrow> real list" where
  "session_timestamps h r = (case rc_session_id r of
     Some i \<Rightarrow> (if i = [] then [] else case find (\<lambda>c. ca_session_id c = i) (rc_candidates r) of
         Some c \<Rightarrow> (case candidate_timestamp h c of Some t \<Rightarrow> [t] | None \<Rightarrow> []) | None \<Rightarrow> [])
   | None \<Rightarrow> [])"

definition has_session :: "recall \<Rightarrow> bool" where
  "has_session r \<longleftrightarrow> rc_session_id r \<noteq> None \<and> rc_session_id r \<noteq> Some []"

definition recall_times :: "talk_host \<Rightarrow> recall \<Rightarrow> real list" where
  "recall_times h r = session_timestamps h r @ List.map_filter (hit_timestamp h) (rc_memory_hits r)"

definition recall_sources :: "talk_host \<Rightarrow> recall \<Rightarrow> string list" where
  "recall_sources h r = dedup_onto (if has_session r then [''session''] else []) (map (hit_label h) (rc_memory_hits r))"

definition py_bool :: "bool \<Rightarrow> string" where
  "py_bool b = (if b then ''True'' else ''False'')"

definition compute_recall_coverage :: "talk_host \<Rightarrow> real \<Rightarrow> recall \<Rightarrow> coverage" where
  "compute_recall_coverage h now r =
     (let times = recall_times h r; hits = length (rc_memory_hits r);
          fresh = (\<exists>t \<in> set times. now - real_of_int (COVERAGE_FRESH_HOURS * 3600) \<le> t);
          week = (\<exists>t \<in> set times. now - real_of_int (COVERAGE_STALE_DAYS * 86400) \<le> t);
          stale = (times = [] \<or> \<not> week)
      in if has_session r \<and> COVERAGE_HIGH_MIN_MEMORY_HITS \<le> hits \<and> fresh
           then \<lparr>cv_level = COVERAGE_HIGH, cv_stale = stale, cv_sources = recall_sources h r,
                 cv_reason = ''session+memory hits '' @ show_nat hits @ '' within '' @ show_int COVERAGE_FRESH_HOURS @ ''h''\<rparr>
         else if (has_session r \<or> COVERAGE_MEDIUM_MIN_MEMORY_HITS \<le> hits) \<and> week
           then \<lparr>cv_level = COVERAGE_MEDIUM, cv_stale = stale, cv_sources = recall_sources h r,
                 cv_reason = ''partial coverage (session='' @ py_bool (has_session r) @ '', memory='' @ show_nat hits @ '')''\<rparr>
         else \<lparr>cv_level = COVERAGE_LOW, cv_stale = stale, cv_sources = recall_sources h r,
                 cv_reason = ''no usable session match and no fresh memory hits''\<rparr>)"

end
