(* ===== verification/Decide.thy ===== *)
theory Decide
  imports Recall
begin

text \<open>
  From an intent and what recall found to the actions of a role bot (\<open>decide.py\<close>): the mapping of the runtime loop
  and the decision of the gateway, which recalls before it researches.
\<close>

definition opt_int :: "int option \<Rightarrow> json" where
  "opt_int x = (case x of None \<Rightarrow> JNull | Some n \<Rightarrow> JInt n)"

definition SESSION_SEEKING_INTENTS :: "string list" where
  "SESSION_SEEKING_INTENTS = [INTENT_CONTINUE_EXISTING_WORK, INTENT_SUMMARIZE_PREVIOUS_WORK, INTENT_EXECUTE_EXISTING_STEP]"

definition decide_with :: "intent \<Rightarrow> plan \<Rightarrow> action \<Rightarrow> string \<Rightarrow> decision" where
  "decide_with it pl a nt = \<lparr>de_intent = it, de_plan = pl, de_actions = [a], de_notes = nt\<rparr>"

definition pack_candidates :: "candidate list \<Rightarrow> json" where
  "pack_candidates cs = JList (map (\<lambda>c. JObj [(''session_id'', JStr (ca_session_id c)), (''title'', JStr (ca_title c)),
     (''score'', JNum (ca_score c)), (''why'', JStr (ca_why c)), (''state'', opt_json (ca_state c)), (''task_type'', opt_json (ca_task_type c)),
     (''thread_id'', opt_int (ca_thread_id c)), (''forum_thread_id'', opt_int (ca_forum_thread_id c)),
     (''has_research_pack'', JBool (ca_has_research_pack c)), (''has_synthesis'', JBool (ca_has_synthesis c))]) (take 5 cs))"

definition ask_which :: "string \<Rightarrow> recall \<Rightarrow> string \<Rightarrow> action" where
  "ask_which i rc why = action_of ACTION_ASK_CLARIFICATION
     [(''intent'', JStr i), (''reason'', JStr ''no_matched_session''), (''candidates'', pack_candidates (rc_candidates rc))] why"

definition matched_ids :: "string \<Rightarrow> recall \<Rightarrow> json pydict" where
  "matched_ids sid rc = [(''session_id'', JStr sid), (''thread_id'', opt_int (rc_thread_id rc)), (''forum_thread_id'', opt_int (rc_forum_thread_id rc))]"

definition decide_default :: "observation \<Rightarrow> intent \<Rightarrow> recall \<Rightarrow> plan \<Rightarrow> runtime_input \<Rightarrow> decision" where
  "decide_default ob it rc pl i =
     (if in_id it = INTENT_STATUS_QUESTION then
        decide_with it pl (action_of ACTION_REPLY [(''variant'', JStr ''status''), (''matched_session_id'', opt_json (rc_session_id rc))] ''status question'') ''status''
      else if in_id it = INTENT_DIAGNOSTIC_QUESTION then
        decide_with it pl (action_of ACTION_REPLY [(''variant'', JStr ''diagnostic''), (''matched_session_id'', opt_json (rc_session_id rc))]
          ''diagnostic question'') ''diagnostic''
      else if in_id it \<in> set SESSION_SEEKING_INTENTS then
        (case rc_session_id rc of
           Some sid \<Rightarrow> decide_with it pl (action_of ACTION_JOIN_SESSION (matched_ids sid rc @ [(''intent'', JStr (in_id it))])
             ((''matched existing work '' @ utf8 [0xB7] @ '' '') @ rc_reason rc)) ''join existing work''
         | None \<Rightarrow> decide_with it pl (ask_which (in_id it) rc ''no matched session for back-reference'') ((''ask clarification '' @ utf8 [0x2014] @ '' no session match'')))
      else if in_id it = INTENT_APPEND_CONTEXT then
        (case rc_session_id rc of
           Some sid \<Rightarrow> decide_with it pl (action_of ACTION_APPEND_CONTEXT (matched_ids sid rc) (''append to '' @ sid)) ''append context''
         | None \<Rightarrow> decide_with it pl (ask_which (in_id it) rc ''append-context but no matched session'') ((''ask clarification '' @ utf8 [0x2014] @ '' append context'')))
      else if in_id it = INTENT_NEW_WORK_REQUEST then
        decide_with it pl (action_of ACTION_CREATE_SESSION [(''prompt'', JStr (ob_message_text ob))] ''new work request'') ''create new session''
      else if in_id it = INTENT_CLARIFICATION_NEEDED then
        decide_with it pl (action_of ACTION_ASK_CLARIFICATION [(''reason'', JStr ''vague'')] ''clarification needed'') ((''ask clarification '' @ utf8 [0x2014] @ '' vague''))
      else decide_with it pl (action_of ACTION_REPLY [(''variant'', JStr ''chat'')] ''general chat / fallback'') ''general chat'')"

section \<open>The gateway\<close>

definition EXPLICIT_RESEARCH_RE :: "pattern_item list list" where
  "EXPLICIT_RESEARCH_RE = [[Lit ((utf8 [0xC870, 0xC0AC, 0xD574, 0xC918]))], [Lit ((utf8 [0xB9AC, 0xC11C, 0xCE58,
    0xB9CC]))], [Lit ((utf8 [0xB9AC, 0xC11C, 0xCE58])), Spaces, Lit ((utf8 [0xD574,
    0xC918]))], [Lit ''research'', Spaces, Lit ''only''],
     [Lit ''run'', Spaces, Lit ''research'']]"

definition DIRECTION_INQUIRY_RE :: "pattern_item list list" where
  "DIRECTION_INQUIRY_RE = [[Lit ((utf8 [0xC5B4, 0xB5BB, 0xAC8C])), Spaces, Lit ((utf8 [0xC0DD,
    0xAC01]))], [Lit ((utf8 [0xC5B4, 0xB5A4])), Spaces, Lit ((utf8 [0xBC29, 0xD5A5]))], [Lit ((utf8 [0xC5B4,
    0xB290])), Spaces, Lit ((utf8 [0xCABD]))],
     [Lit ((utf8 [0xC635, 0xC158, 0xC740]))], [Lit ((utf8 [0xCD94,
       0xCC9C])), Spaces, Lit ((utf8 [0xD574]))], [Lit ((utf8 [0xC5B4,
       0xB514])), Spaces, Lit ((utf8 [0xAC00])), Spaces, Lit ((utf8 [0xB098])), Spaces, Lit ((utf8 [0xC544]))],
     [Lit ''option''], [Lit ''recommend''], [Lit ''direction''], [Lit ''approach'']]"

definition GATEWAY_TARGETED_MAX_PROVIDER_CALLS :: int where
  "GATEWAY_TARGETED_MAX_PROVIDER_CALLS = 2"

definition gateway_action :: "string \<Rightarrow> string \<Rightarrow> json pydict \<Rightarrow> string \<Rightarrow> action" where
  "gateway_action i g extra why = action_of i (dict_merge [(''gateway_action'', JStr g)] extra) why"

definition gateway_decision :: "coverage \<Rightarrow> intent \<Rightarrow> plan \<Rightarrow> action \<Rightarrow> string \<Rightarrow> decision" where
  "gateway_decision cv it pl a nt = decide_with it pl a
     (nt @ '' [coverage='' @ cv_level cv @ '' stale='' @ py_bool (cv_stale cv) @ '' sources=''
        @ (if py_join '','' (cv_sources cv) \<noteq> [] then py_join '','' (cv_sources cv) else ''none'') @ '']'')"

definition explicit_research :: "observation \<Rightarrow> bool" where
  "explicit_research ob = searches EXPLICIT_RESEARCH_RE (ob_message_text ob)"

definition research_plan :: "plan \<Rightarrow> string \<Rightarrow> int \<Rightarrow> plan" where
  "research_plan pl why calls = \<lparr>pl_run = True, pl_reason = why, pl_providers = pl_providers pl, pl_max_calls = calls, pl_role_targets = pl_role_targets pl\<rparr>"

definition targeted_calls :: "plan \<Rightarrow> int" where
  "targeted_calls pl = (if pl_max_calls pl = 0 then max (pl_max_calls pl) GATEWAY_TARGETED_MAX_PROVIDER_CALLS
     else min (pl_max_calls pl) GATEWAY_TARGETED_MAX_PROVIDER_CALLS)"

definition no_coverage :: coverage where
  "no_coverage = \<lparr>cv_level = COVERAGE_LOW, cv_stale = True, cv_sources = [], cv_reason = []\<rparr>"

definition decide_gateway :: "observation \<Rightarrow> intent \<Rightarrow> recall \<Rightarrow> plan \<Rightarrow> runtime_input \<Rightarrow> decision" where
  "decide_gateway ob it rc pl i =
     (let cv = (case rc_coverage rc of Some c \<Rightarrow> c | None \<Rightarrow> no_coverage);
          sid = (case rc_session_id rc of Some s \<Rightarrow> s | None \<Rightarrow> []);
          chat_like = (in_id it \<in> {INTENT_STATUS_QUESTION, INTENT_DIAGNOSTIC_QUESTION, INTENT_GENERAL_CHAT});
          why = ''coverage='' @ cv_level cv @ '' stale='' @ py_bool (cv_stale cv)
      in if in_id it = INTENT_CLARIFICATION_NEEDED then
           gateway_decision cv it pl (gateway_action ACTION_ASK_CLARIFICATION GATEWAY_ASK_CLARIFICATION [(''variant'', JStr ''low_confidence'')]
             ''intent=clarification_needed'') ''ask clarification''
         else if in_id it \<in> set SESSION_SEEKING_INTENTS \<and> sid \<noteq> [] then
           gateway_decision cv it pl (gateway_action ACTION_JOIN_SESSION GATEWAY_JOIN_EXISTING [(''session_id'', JStr sid)]
             ''continue/summarize/execute with matched session'') ''join existing session''
         else if in_id it = INTENT_APPEND_CONTEXT \<and> sid \<noteq> [] then
           gateway_decision cv it pl (gateway_action ACTION_APPEND_CONTEXT GATEWAY_APPEND_CONTEXT [(''session_id'', JStr sid)]
             ''append context to matched session'') ''append context''
         else if chat_like \<and> cv_level cv = COVERAGE_HIGH \<and> \<not> cv_stale cv \<and> \<not> explicit_research ob then
           gateway_decision cv it pl (gateway_action ACTION_REPLY GATEWAY_REPLY_ONLY
             [(''variant'', JStr ''recall_grounded''), (''sources'', JList (map JStr (cv_sources cv)))]
             (''coverage=high stale=False intent='' @ in_id it)) ((''reply only '' @ utf8 [0x2014]
               @ '' recall grounded''))
         else if explicit_research ob then
           gateway_decision cv it (research_plan pl ''explicit research phrase'' (pl_max_calls pl))
             (gateway_action ACTION_RUN_RESEARCH GATEWAY_FULL_RESEARCH [(''mode'', JStr ''full''), (''trigger'', JStr ''explicit_phrase'')]
               ''explicit phrase'') ((''full research '' @ utf8 [0x2014] @ '' user explicit''))
         else if in_id it = INTENT_NEW_WORK_REQUEST then
           (if cv_level cv = COVERAGE_HIGH \<and> \<not> cv_stale cv \<and> searches DIRECTION_INQUIRY_RE (ob_message_text ob) then
              gateway_decision cv it pl (gateway_action ACTION_REQUEST_ROLE_TURN GATEWAY_HANDOFF_TECH_LEAD_NO_RESEARCH
                [(''role'', JStr ''tech-lead''), (''run_research'', JBool False), (''sources'', JList (map JStr (cv_sources cv)))]
                ''coverage=high + direction inquiry'') ''handoff to tech-lead without research''
            else if cv_level cv = COVERAGE_MEDIUM \<or> cv_level cv = COVERAGE_HIGH \<and> cv_stale cv then
              gateway_decision cv it (research_plan pl why (targeted_calls pl))
                (gateway_action ACTION_RUN_RESEARCH GATEWAY_TARGETED_RESEARCH
                  [(''mode'', JStr ''targeted''), (''max_provider_calls'', JInt GATEWAY_TARGETED_MAX_PROVIDER_CALLS)] why) ''targeted research''
            else gateway_decision cv it (research_plan pl why (pl_max_calls pl))
                (gateway_action ACTION_RUN_RESEARCH GATEWAY_FULL_RESEARCH [(''mode'', JStr ''full'')] (''coverage='' @ cv_level cv))
                ((''full research '' @ utf8 [0x2014] @ '' low coverage'')))
         else if chat_like then
           gateway_decision cv it pl (gateway_action ACTION_ASK_CLARIFICATION GATEWAY_ASK_CLARIFICATION
             [(''variant'', JStr ''coverage_insufficient''), (''coverage_level'', JStr (cv_level cv)), (''stale'', JBool (cv_stale cv))]
             ''chat intent without high+fresh coverage'') ((''clarify '' @ utf8 [0x2014] @ '' coverage too thin''))
         else gateway_decision cv it pl (gateway_action ACTION_ASK_CLARIFICATION GATEWAY_ASK_CLARIFICATION
             [(''variant'', JStr ''unmatched_intent''), (''intent_id'', JStr (in_id it))] ''no gateway branch matched'')
             ((''clarify '' @ utf8 [0x2014] @ '' no branch matched'')))"

end
