(* ===== verification/Understand.thy ===== *)
theory Understand
  imports AgentRuntime
begin

text \<open>
  The intent of a message (\<open>understand.py\<close>): the phrase banks, in the order of the source, and the classifier that
  tries them from the most specific to the least.
\<close>

section \<open>Phrase banks\<close>

definition BACKREFERENCE_PHRASES :: "string list" where
  "BACKREFERENCE_PHRASES = [
    (utf8 [0xC5B4, 0xC81C]), (utf8 [0xADF8, 0xC81C]), (utf8 [0xC774, 0xD2C0, 0x20, 0xC804]),
    (utf8 [0xC9C0, 0xB09C, 0xBC88]), (utf8 [0xC9C0, 0xB09C, 0x20, 0xBC88]), (utf8 [0xC9C0, 0xB09C, 0xC8FC]),
    (utf8 [0xC9C0, 0xB09C, 0x20, 0xC8FC]), (utf8 [0xC9C0, 0xB09C, 0xB2EC]), (utf8 [0xC9C0, 0xB09C, 0x20, 0xB2EC]),
    (utf8 [0xBC29, 0xAE08]), (utf8 [0xC544, 0xAE4C]), (utf8 [0xC870, 0xAE08, 0x20, 0xC804]),
    (utf8 [0xC870, 0xAE08, 0xC804]), (utf8 [0xC804, 0xC5D0]), (utf8 [0xADF8, 0x20, 0xC791, 0xC5C5]),
    (utf8 [0xADF8, 0xC791, 0xC5C5]), (utf8 [0xADF8, 0x20, 0xC138, 0xC158]), (utf8 [0xADF8, 0xC138, 0xC158]),
    (utf8 [0xADF8] @ '' thread''), (utf8 [0xADF8, 0x20, 0xD1A0, 0xC758]), (utf8 [0xADF8, 0x20, 0xD750, 0xB984]),
    (utf8 [0xC774, 0xC804, 0x20, 0xC791, 0xC5C5]), (utf8 [0xC774, 0xC804, 0xC791, 0xC5C5]),
    (utf8 [0xAE30, 0xC874, 0x20, 0xC791, 0xC5C5]), (utf8 [0xAE30, 0xC874, 0xC791, 0xC5C5]),
    (utf8 [0xAE30, 0xC874, 0x20, 0xC138, 0xC158]), (utf8 [0xAE30, 0xC874, 0x20, 0xD1A0, 0xC758]),
    (utf8 [0xAE30, 0xC874, 0x20, 0xD1A0, 0xB860]), (utf8 [0xAE30, 0xC874] @ '' thread''), ''yesterday'', ''earlier'',
    ''previous task'', ''the previous'', ''the prior'', ''last session'']"

definition NAMED_PROJECT_CUES :: "string list" where
  "NAMED_PROJECT_CUES = [
    (utf8 [0xD5E4, 0xB974, 0xBA54, 0xC2A4]), ''hermes'', (utf8 [0xD504, 0xB85C, 0xC81D, 0xD2B8] @ '' a''),
    (utf8 [0xD504, 0xB85C, 0xC81D, 0xD2B8] @ ''a''), ''project a'']"

definition CONTINUE_VERBS :: "string list" where
  "CONTINUE_VERBS = [
    (utf8 [0xC774, 0xC5B4, 0xAC00]), (utf8 [0xC774, 0xC5B4, 0x20, 0xAC00]),
    (utf8 [0xC774, 0xC5B4, 0xC11C, 0x20, 0xAC00]), (utf8 [0xC774, 0xC5B4, 0xC11C, 0xAC00]),
    (utf8 [0xC774, 0xC5B4, 0xC11C, 0x20, 0xC9C4, 0xD589]), (utf8 [0xC774, 0xC5B4, 0x20, 0xC9C4, 0xD589]),
    (utf8 [0xACC4, 0xC18D, 0x20, 0xAC00, 0xC790]), (utf8 [0xACC4, 0xC18D, 0x20, 0xC9C4, 0xD589]),
    (utf8 [0xACC4, 0xC18D, 0xD574]), (utf8 [0xC774, 0xC5B4, 0xC11C]), (utf8 [0xC774, 0xC5B4, 0xC11C, 0x20, 0xD574]),
    (utf8 [0xC774, 0xC5B4, 0xC11C, 0xD574]), (utf8 [0xADF8, 0xB300, 0xB85C, 0x20, 0xC9C4, 0xD589]),
    ''continue from'', ''pick up where'', ''keep going'', ''resume'']"

definition SUMMARY_VERBS :: "string list" where
  "SUMMARY_VERBS = [
    (utf8 [0xC694, 0xC57D]), (utf8 [0xC694, 0xC57D, 0xD574]), (utf8 [0xC694, 0xC57D, 0x20, 0xD574, 0xC918]),
    (utf8 [0xC694, 0xC57D, 0xD574, 0xC918]), (utf8 [0xC815, 0xB9AC, 0xD574, 0xC918]),
    (utf8 [0xC815, 0xB9AC, 0x20, 0xD574, 0xC918]), (utf8 [0xC815, 0xB9AC, 0x20, 0xD574, 0x20, 0xC918]),
    (utf8 [0xC815, 0xB9AC, 0x20, 0xD574, 0xC8FC]), (utf8 [0xC815, 0xB9AC, 0xD574, 0x20, 0xC8FC]),
    (utf8 [0xC815, 0xB9AC, 0xD574, 0x20, 0xC918]), ''summarize'', ''summary'', ''recap'', ''tldr'', ''tl;dr'']"

definition EXECUTE_STEP_PHRASES :: "string list" where
  "EXECUTE_STEP_PHRASES = [
    (''obsidian'' @ utf8 [0xC5D0, 0x20, 0xC815, 0xB9AC]), (''obsidian '' @ utf8 [0xC5D0, 0x20, 0xC815, 0xB9AC]),
    (''obsidian '' @ utf8 [0xC5D0, 0x20, 0xC800, 0xC7A5]), (''obsidian'' @ utf8 [0xC5D0, 0x20, 0xC800, 0xC7A5]),
    (utf8 [0xC635, 0xC2DC, 0xB514, 0xC5B8, 0xC5D0, 0x20, 0xC815, 0xB9AC]),
    (utf8 [0xC635, 0xC2DC, 0xB514, 0xC5B8, 0xC5D0, 0x20, 0xC800, 0xC7A5]),
    (utf8 [0xC635, 0xC2DC, 0xB514, 0xC5B8, 0xC5D0] @ '' export''), ''obsidian export'',
    (''obsidian '' @ utf8 [0xB3D9, 0xAE30, 0xD654]),
    (utf8 [0xC635, 0xC2DC, 0xB514, 0xC5B8, 0x20, 0xB3D9, 0xAE30, 0xD654]),
    (utf8 [0xC6B4, 0xC601, 0x2D, 0xB9AC, 0xC11C, 0xCE58, 0xC5D0, 0x20, 0xC815, 0xB9AC]),
    (utf8 [0xC6B4, 0xC601, 0x20, 0xB9AC, 0xC11C, 0xCE58, 0xC5D0, 0x20, 0xC815, 0xB9AC]),
    (utf8 [0xC6B4, 0xC601, 0x2D, 0xB9AC, 0xC11C, 0xCE58, 0x20, 0xC815, 0xB9AC]),
    (utf8 [0xC6B4, 0xC601, 0x20, 0xB9AC, 0xC11C, 0xCE58, 0x20, 0xC815, 0xB9AC]),
    (utf8 [0xC6B4, 0xC601, 0x2D, 0xB9AC, 0xC11C, 0xCE58, 0xC5D0, 0x20, 0xC800, 0xC7A5]),
    (utf8 [0xC6B4, 0xC601, 0x20, 0xB9AC, 0xC11C, 0xCE58, 0xC5D0, 0x20, 0xC800, 0xC7A5]),
    (utf8 [0xD1A0, 0xC758, 0x20, 0xAE30, 0xB85D, 0x20, 0xC815, 0xB9AC]),
    (utf8 [0xD1A0, 0xC758, 0xAE30, 0xB85D, 0x20, 0xC815, 0xB9AC]),
    (utf8 [0xD1A0, 0xC758, 0x20, 0xACB0, 0xACFC, 0x20, 0xC815, 0xB9AC]),
    (utf8 [0xD1A0, 0xC758, 0x20, 0xC815, 0xB9AC]), (utf8 [0xD68C, 0xC758, 0xB85D, 0x20, 0xC815, 0xB9AC]),
    (utf8 [0xD68C, 0xC758, 0x20, 0xC815, 0xB9AC]), (utf8 [0xD68C, 0xACE0, 0x20, 0xC815, 0xB9AC]),
    (utf8 [0xB178, 0xD2B8, 0x20, 0xC815, 0xB9AC]), (utf8 [0xACB0, 0xACFC, 0x20, 0xC815, 0xB9AC]),
    (utf8 [0xC774, 0x20, 0xC138, 0xC158, 0x20, 0xAE30, 0xC900]),
    (utf8 [0xC774, 0x20, 0xC138, 0xC158, 0x20, 0xAE30, 0xC900, 0xC73C, 0xB85C]),
    (utf8 [0xC774, 0x20, 0xC138, 0xC158, 0x20, 0xC815, 0xB9AC]),
    (utf8 [0xC774, 0x20, 0xC138, 0xC158, 0x20, 0xAE30, 0xB85D]),
    (utf8 [0xC774] @ '' thread '' @ utf8 [0xAE30, 0xC900]),
    (utf8 [0xC774, 0x20, 0xC2A4, 0xB808, 0xB4DC, 0x20, 0xAE30, 0xC900]), (''approval '' @ utf8 [0xB9CC, 0xB4E4]),
    (utf8 [0xC2B9, 0xC778, 0x20, 0xBB38, 0xC11C, 0x20, 0xB9CC, 0xB4E4]), (''approval '' @ utf8 [0xBB38, 0xC11C]),
    (''vault '' @ utf8 [0xC5D0, 0x20, 0xC800, 0xC7A5]), (''vault'' @ utf8 [0xC5D0, 0x20, 0xC800, 0xC7A5])]"

definition FORCE_CONTINUE_WORK_PHRASES :: "string list" where
  "FORCE_CONTINUE_WORK_PHRASES = [
    (utf8 [0xAE30, 0xC874, 0x20, 0xC138, 0xC158, 0xC73C, 0xB85C, 0x20, 0xC9C4, 0xD589]),
    (utf8 [0xAE30, 0xC874, 0x20, 0xC138, 0xC158, 0xC73C, 0xB85C, 0x20, 0xC2DC, 0xC791]),
    (utf8 [0xAE30, 0xC874, 0x20, 0xC138, 0xC158, 0x20, 0xC9C4, 0xD589]),
    (utf8 [0xAE30, 0xC874, 0x20, 0xC138, 0xC158, 0xC73C, 0xB85C, 0x20, 0xC774, 0xC5B4]),
    (utf8 [0xAE30, 0xC874, 0x20, 0xC791, 0xC5C5, 0xC73C, 0xB85C, 0x20, 0xC9C4, 0xD589]),
    (utf8 [0xAE30, 0xC874, 0x20, 0xC791, 0xC5C5, 0xC73C, 0xB85C, 0x20, 0xC2DC, 0xC791]),
    (utf8 [0xAE30, 0xC874, 0x20, 0xC791, 0xC5C5, 0x20, 0xC9C4, 0xD589]),
    (utf8 [0xAE30, 0xC874, 0x20, 0xC791, 0xC5C5, 0xC73C, 0xB85C, 0x20, 0xC774, 0xC5B4]),
    (utf8 [0xAE30, 0xC874, 0x20, 0xC791, 0xC5C5, 0xC73C, 0xB85C, 0x20, 0xB4F1, 0xB85D]),
    (utf8 [0xAE30, 0xC874] @ '' thread'' @ utf8 [0xB85C, 0x20, 0xC9C4, 0xD589]),
    (utf8 [0xAE30, 0xC874] @ '' thread'' @ utf8 [0xC5D0, 0xC11C, 0x20, 0xC9C4, 0xD589]),
    (utf8 [0xAE30, 0xC874] @ '' thread'' @ utf8 [0xC5D0, 0xC11C, 0x20, 0xC774, 0xC5B4]),
    (utf8 [0xAE30, 0xC874, 0x20, 0xC2A4, 0xB808, 0xB4DC, 0xB85C, 0x20, 0xC9C4, 0xD589]),
    (utf8 [0xAE30, 0xC874, 0x20, 0xC2A4, 0xB808, 0xB4DC, 0xC5D0, 0xC11C, 0x20, 0xC9C4, 0xD589]),
    (utf8 [0xAE30, 0xC874, 0x20, 0xC2A4, 0xB808, 0xB4DC, 0xC5D0, 0xC11C, 0x20, 0xC774, 0xC5B4]),
    (utf8 [0xC774] @ '' thread'' @ utf8 [0xB85C, 0x20, 0xC9C4, 0xD589]),
    (utf8 [0xC774] @ '' thread'' @ utf8 [0xC5D0, 0xC11C, 0x20, 0xC9C4, 0xD589]),
    (utf8 [0xC774] @ '' thread'' @ utf8 [0xC5D0, 0xC11C, 0x20, 0xC774, 0xC5B4]),
    (utf8 [0xC774] @ '' thread'' @ utf8 [0xC5D0, 0xC11C, 0x20, 0xAC00]),
    (utf8 [0xC774, 0x20, 0xC2A4, 0xB808, 0xB4DC, 0xB85C, 0x20, 0xC9C4, 0xD589]),
    (utf8 [0xC774, 0x20, 0xC2A4, 0xB808, 0xB4DC, 0xC5D0, 0xC11C, 0x20, 0xC9C4, 0xD589]),
    (utf8 [0xC774, 0x20, 0xC2A4, 0xB808, 0xB4DC, 0xC5D0, 0xC11C, 0x20, 0xC774, 0xC5B4]),
    (utf8 [0xC5EC, 0xAE30, 0xC11C, 0x20, 0xC9C4, 0xD589]), (utf8 [0xC5EC, 0xAE30, 0xC11C, 0x20, 0xC774, 0xC5B4]),
    (utf8 [0xC5EC, 0xAE30] @ '' thread'' @ utf8 [0xC5D0, 0xC11C]),
    (utf8 [0xC5EC, 0xAE30, 0x20, 0xC2A4, 0xB808, 0xB4DC, 0xC5D0, 0xC11C]),
    (utf8 [0xC774, 0x20, 0xC138, 0xC158, 0xC73C, 0xB85C, 0x20, 0xC9C4, 0xD589]),
    (utf8 [0xC774, 0x20, 0xC138, 0xC158, 0xC73C, 0xB85C, 0x20, 0xC774, 0xC5B4]), ''continue this thread'',
    ''continue this session'', ''stay on this thread'']"

definition APPEND_CONTEXT_PHRASES :: "string list" where
  "APPEND_CONTEXT_PHRASES = [
    (utf8 [0xAE30, 0xC874, 0x20, 0xC791, 0xC5C5, 0xC5D0, 0x20, 0xCC38, 0xACE0]),
    (utf8 [0xAE30, 0xC874, 0x20, 0xC791, 0xC5C5, 0xC5D0, 0x20, 0xC790, 0xB8CC]),
    (utf8 [0xAE30, 0xC874, 0x20, 0xC791, 0xC5C5, 0xC5D0, 0x20, 0xBD99]),
    (utf8 [0xAE30, 0xC874, 0x20, 0xC138, 0xC158, 0xC5D0, 0x20, 0xCC38, 0xACE0]),
    (utf8 [0xAE30, 0xC874, 0x20, 0xC138, 0xC158, 0xC5D0, 0x20, 0xBD99]),
    (utf8 [0xC774, 0x20, 0xC790, 0xB8CC, 0xB9CC, 0x20, 0xAE30, 0xC874]),
    (utf8 [0xC774, 0x20, 0xC790, 0xB8CC, 0xB9CC, 0x20, 0xCC38, 0xACE0]),
    (utf8 [0xC774, 0x20, 0xC790, 0xB8CC, 0xB97C, 0x20, 0xCC38, 0xACE0, 0xB85C]),
    (utf8 [0xC774, 0x20, 0xC790, 0xB8CC, 0x20, 0xCC38, 0xACE0, 0xB85C]),
    (utf8 [0xC774, 0x20, 0xB9C1, 0xD06C, 0xB9CC, 0x20, 0xCC38, 0xACE0]),
    (utf8 [0xCC38, 0xACE0, 0xB85C, 0x20, 0xBD99, 0xC5EC]), (utf8 [0xCC38, 0xACE0, 0xB9CC, 0x20, 0xBD99, 0xC5EC]),
    (utf8 [0xB9E5, 0xB77D, 0xB9CC, 0x20, 0xCD94, 0xAC00]), (''context'' @ utf8 [0xB9CC, 0x20, 0xCD94, 0xAC00]),
    ''append context'', ''as context only'', ''as a reference only'']"

definition STATUS_DIAGNOSTIC_PHRASES :: "string list" where
  "STATUS_DIAGNOSTIC_PHRASES = [
    (utf8 [0xC6B4, 0xC601, 0x20, 0xB9AC, 0xC11C, 0xCE58, 0xB294, 0x20, 0xC548, 0x20, 0xC5F4]),
    (utf8 [0xC6B4, 0xC601, 0x2D, 0xB9AC, 0xC11C, 0xCE58, 0xB294, 0x20, 0xC548, 0x20, 0xC5F4]),
    (utf8 [0xC6B4, 0xC601, 0x20, 0xB9AC, 0xC11C, 0xCE58, 0x20, 0xC548, 0x20, 0xC5F4]),
    (utf8 [0xC6B4, 0xC601, 0x2D, 0xB9AC, 0xC11C, 0xCE58, 0x20, 0xC548, 0x20, 0xC5F4]),
    (utf8 [0xC6B4, 0xC601, 0x20, 0xB9AC, 0xC11C, 0xCE58, 0x20, 0xC65C, 0x20, 0xC548, 0x20, 0xC5F4]),
    (utf8 [0xC6B4, 0xC601, 0x2D, 0xB9AC, 0xC11C, 0xCE58, 0x20, 0xC65C, 0x20, 0xC548, 0x20, 0xC5F4]),
    (utf8 [0xC6B4, 0xC601, 0x20, 0xB9AC, 0xC11C, 0xCE58, 0x20, 0xC65C]),
    (utf8 [0xC6B4, 0xC601, 0x2D, 0xB9AC, 0xC11C, 0xCE58, 0x20, 0xC65C]),
    (utf8 [0xB9AC, 0xC11C, 0xCE58, 0x20, 0xC65C, 0x20, 0xC2E4, 0xD328]),
    (utf8 [0xB9AC, 0xC11C, 0xCE58, 0x20, 0xC65C, 0x20, 0xC548]),
    (utf8 [0xB9AC, 0xC11C, 0xCE58, 0xB294, 0x20, 0xC65C, 0x20, 0xC548]),
    (utf8 [0xB9AC, 0xC11C, 0xCE58, 0x20, 0xC5B4, 0xB5BB, 0xAC8C, 0x20, 0xB410]),
    (utf8 [0xC65C, 0x20, 0xC548, 0x20, 0xB410]), (utf8 [0xC65C, 0x20, 0xC548, 0xB410]),
    (utf8 [0xC65C, 0x20, 0xBA48, 0xCDC4]), (utf8 [0xC65C, 0x20, 0xBA48, 0xCDB0]),
    (utf8 [0xC65C, 0x20, 0xB9C9, 0xD614]), (utf8 [0xC65C, 0x20, 0xB9C9, 0xD600]),
    (utf8 [0xC65C, 0x20, 0xC548, 0x20, 0xC5F4]), (utf8 [0xC65C, 0x20, 0xC548, 0xC5F4]),
    (utf8 [0xC65C, 0x20, 0xC548, 0x20, 0xC5F4, 0xB838]), (utf8 [0xC65C, 0x20, 0xC548, 0xC5F4, 0xB838]),
    (utf8 [0xC65C, 0x20, 0xBABB]), (utf8 [0xC65C, 0x20, 0xC2E4, 0xD328]),
    (utf8 [0xC9C0, 0xAE08, 0x20, 0xBB50, 0x20, 0xD558]), (utf8 [0xC9C0, 0xAE08, 0x20, 0xBB50, 0xD558]),
    (utf8 [0xC9C0, 0xAE08, 0x20, 0xBB34, 0xC5C7]),
    (utf8 [0xC9C0, 0xAE08, 0x20, 0xC5B4, 0xB5A4, 0x20, 0xC0C1, 0xD0DC]),
    (utf8 [0xC9C0, 0xAE08, 0x20, 0xC5B4, 0xB514, 0xAE4C, 0xC9C0]), (utf8 [0xD604, 0xC7AC, 0x20, 0xC0C1, 0xD0DC]),
    (utf8 [0xD604, 0xC7AC, 0x20, 0xC9C4, 0xD589]), (utf8 [0xC0C1, 0xD0DC, 0x20, 0xC54C, 0xB824]),
    (utf8 [0xC0C1, 0xD0DC, 0x20, 0xC880, 0x20, 0xC54C, 0xB824]), (utf8 [0xC0C1, 0xD0DC, 0x20, 0xD655, 0xC778]),
    (utf8 [0xC0C1, 0xD0DC, 0x20, 0xCCB4, 0xD06C]), (utf8 [0xB2E4, 0xC2DC, 0x20, 0xD655, 0xC778, 0xD574]),
    (utf8 [0xB2E4, 0xC2DC, 0x20, 0xD55C, 0xBC88, 0x20, 0xD655, 0xC778]),
    (utf8 [0xB2E4, 0xC2DC, 0x20, 0xD55C, 0x20, 0xBC88, 0x20, 0xD655, 0xC778]),
    (utf8 [0xC9C4, 0xD589, 0x20, 0xC0C1, 0xD669]), (utf8 [0xC9C4, 0xD589, 0xC0C1, 0xD669]),
    (utf8 [0xC9C4, 0xD589, 0x20, 0xC5B4, 0xB514]), (utf8 [0xC9C4, 0xD589, 0x20, 0xC5B4, 0xB5BB, 0xAC8C]),
    (utf8 [0xC5B4, 0xB514, 0xAE4C, 0xC9C0, 0x20, 0xB410]), (utf8 [0xC5B4, 0xB514, 0xAE4C, 0xC9C0, 0x20, 0xAC14]),
    (utf8 [0xC5B4, 0xB514, 0xAE4C, 0xC9C0, 0x20, 0xC9C4, 0xD589]), (utf8 [0xC5B4, 0xB5BB, 0xAC8C, 0x20, 0xB410]),
    (utf8 [0xC5B4, 0xB5BB, 0xAC8C, 0x20, 0xB418, 0xC5B4]), (utf8 [0xC5B4, 0xB5BB, 0xAC8C, 0x20, 0xB418, 0xACE0]),
    (utf8 [0xC5B4, 0xB5BB, 0xAC8C, 0x20, 0xC9C4, 0xD589]), (''obsidian '' @ utf8 [0xC65C, 0x20, 0xC548]),
    (''obsidian '' @ utf8 [0xC65C, 0x20, 0xBABB]), (''obsidian '' @ utf8 [0xC548, 0x20, 0xB4E4, 0xC5B4, 0xAC14]),
    (''obsidian '' @ utf8 [0xC548, 0xB4E4, 0xC5B4, 0xAC14]),
    (utf8 [0xC635, 0xC2DC, 0xB514, 0xC5B8, 0x20, 0xC65C, 0x20, 0xC548]),
    (utf8 [0xC635, 0xC2DC, 0xB514, 0xC5B8, 0x20, 0xC548, 0x20, 0xB4E4, 0xC5B4, 0xAC14]),
    (''forum '' @ utf8 [0xC65C, 0x20, 0xC548]), (''forum '' @ utf8 [0xC548, 0x20, 0xC5F4]),
    (utf8 [0xD3EC, 0xB7FC, 0x20, 0xC65C, 0x20, 0xC548]), (utf8 [0xD3EC, 0xB7FC, 0x20, 0xC548, 0x20, 0xC5F4]),
    ''what's the status'', ''what is the status'', ''what happened'', ''where are we'', ''why did it fail'',
    ''why didn't it'', ''status check'', ''status update'', ''progress check'']"

definition FORCE_NEW_WORK_PHRASES :: "string list" where
  "FORCE_NEW_WORK_PHRASES = [
    (utf8 [0xC0C8, 0x20, 0xC791, 0xC5C5, 0xC73C, 0xB85C, 0x20, 0xC9C4, 0xD589]),
    (utf8 [0xC0C8, 0x20, 0xC791, 0xC5C5, 0xC73C, 0xB85C, 0x20, 0xC2DC, 0xC791]),
    (utf8 [0xC0C8, 0xB85C, 0x20, 0xB4F1, 0xB85D]), (utf8 [0xC0C8, 0x20, 0xC2A4, 0xB808, 0xB4DC, 0xB85C]),
    (utf8 [0xC0C8] @ '' thread'' @ utf8 [0xB85C]), (utf8 [0xC0C8, 0x20, 0xC138, 0xC158, 0xC73C, 0xB85C]),
    ''new thread'', ''new session'', ''start a new task'']"

definition CONFIRMATION_STANDALONE :: "string list" where
  "CONFIRMATION_STANDALONE = [
    ''ok'', ''okay'', (utf8 [0xC624, 0xCF00, 0xC774]), (utf8 [0xC624, 0xCF00]), (utf8 [0xC624, 0xD0A4]), ''yes'',
    ''yep'', ''go'', (utf8 [0xACE0]), (utf8 [0x3131, 0x3131]), (utf8 [0xD655, 0xC815]), (utf8 [0xC9C4, 0xD589]),
    (utf8 [0xB4F1, 0xB85D])]"

definition CONFIRMATION_PHRASES :: "string list" where
  "CONFIRMATION_PHRASES = [
    (utf8 [0xC774, 0xB300, 0xB85C, 0x20, 0xC9C4, 0xD589]), (utf8 [0xC774, 0xB300, 0xB85C, 0x20, 0xB4F1, 0xB85D]),
    (utf8 [0xC774, 0xAC78, 0xB85C, 0x20, 0xB4F1, 0xB85D]), (utf8 [0xC774, 0xAC78, 0xB85C, 0x20, 0xC9C4, 0xD589]),
    (utf8 [0xADF8, 0xB7FC, 0x20, 0xC774, 0xAC78, 0xB85C]), (utf8 [0xADF8, 0xB7FC, 0x20, 0xB4F1, 0xB85D]),
    (utf8 [0xADF8, 0xB7FC, 0x20, 0xC9C4, 0xD589]), (utf8 [0xADF8, 0xB807, 0xAC8C, 0x20, 0xC9C4, 0xD589]),
    (utf8 [0xADF8, 0xB807, 0xAC8C, 0x20, 0xB4F1, 0xB85D]), (utf8 [0xC9C4, 0xD589, 0xD574, 0xC918]),
    (utf8 [0xC9C4, 0xD589, 0xD574, 0x20, 0xC8FC, 0xC138, 0xC694]), (utf8 [0xB4F1, 0xB85D, 0xD574, 0xC918]),
    (utf8 [0xB4F1, 0xB85D, 0xD574, 0x20, 0xC8FC, 0xC138, 0xC694]), (''yes '' @ utf8 [0xC9C4, 0xD589]),
    (''yes '' @ utf8 [0xB4F1, 0xB85D])]"

definition VAGUE_TOKENS :: "string list" where
  "VAGUE_TOKENS = [
    (utf8 [0xB3C4, 0xC640, 0xC918]), (utf8 [0xB3C4, 0xC640, 0x20, 0xC918]),
    (utf8 [0xD560, 0x20, 0xC77C, 0x20, 0xC788, 0xC5B4]), (utf8 [0xD560, 0xC77C, 0x20, 0xC788, 0xC5B4]),
    (utf8 [0xC791, 0xC5C5, 0x20, 0xC788, 0xC5B4]), (utf8 [0xBB50, 0x20, 0xD574, 0xC57C]),
    (utf8 [0xBB50, 0xD574, 0xC57C]), (utf8 [0xD560, 0x20, 0xAC70]), (utf8 [0xD560, 0xAC70])]"

definition WORK_NOUN_TOKENS :: "string list" where
  "WORK_NOUN_TOKENS = [
    (utf8 [0xC791, 0xC5C5]), ''task'', (utf8 [0xD504, 0xB85C, 0xC81D, 0xD2B8]), ''project'', (utf8 [0xC138, 0xC158]),
    (utf8 [0xD1A0, 0xC758]), ''thread'', (utf8 [0xAC80, 0xD1A0]), (utf8 [0xC774, 0xC288])]"

definition PLEASANTRY_TOKENS :: "string list" where
  "PLEASANTRY_TOKENS = [
    (utf8 [0xC548, 0xB155]), (utf8 [0x314E, 0x3147]), ''hi'', ''hello'', ''hey'', ''thanks'', ''thank you'',
    (utf8 [0xACE0, 0xB9C8]), (utf8 [0xAC10, 0xC0AC]), (utf8 [0xC218, 0xACE0]), (utf8 [0xC798, 0x20, 0xC790]),
    ''good night'', ''good morning'']"

section \<open>Classifier\<close>

definition normalize :: "talk_host \<Rightarrow> string \<Rightarrow> string" where
  "normalize h s = squeeze (th_lower h s)"

definition matches_any :: "string \<Rightarrow> string list \<Rightarrow> bool" where
  "matches_any s ks = any_in s ks"

definition has_work_noun :: "string \<Rightarrow> bool" where
  "has_work_noun s = matches_any s WORK_NOUN_TOKENS"

definition looks_too_vague :: "string \<Rightarrow> bool" where
  "looks_too_vague s \<longleftrightarrow> py_len s \<le> 3 \<or> length (py_words s) = 1 \<or> length (py_words s) \<le> 3 \<and> matches_any s VAGUE_TOKENS"

definition looks_like_pleasantry :: "string \<Rightarrow> bool" where
  "looks_like_pleasantry s \<longleftrightarrow> length (py_words s) \<le> 4 \<and> matches_any s PLEASANTRY_TOKENS"

definition DIAGNOSTIC_TOKENS :: "string list" where
  "DIAGNOSTIC_TOKENS = [(utf8 [0xC2E4, 0xD328]), (utf8 [0xC548, 0x20, 0xC5F4]), (utf8 [0xC548,
    0xC5F4]), (utf8 [0xB9C9, 0xD614]), (utf8 [0xB9C9, 0xD600]), (utf8 [0xC65C])]"

definition pending_proposal :: "runtime_input \<Rightarrow> bool" where
  "pending_proposal i = (case rn_last_proposed_prompt i of None \<Rightarrow> False | Some p \<Rightarrow> wide_strip p \<noteq> [])"

definition classify_text :: "string \<Rightarrow> runtime_input \<Rightarrow> intent" where
  "classify_text text i =
     (if text = [] then intent_of INTENT_CLARIFICATION_NEEDED ''high'' ''empty message''
      else if matches_any text FORCE_NEW_WORK_PHRASES then intent_of INTENT_NEW_WORK_REQUEST ''high'' ''explicit new-work phrase''
      else if matches_any text FORCE_CONTINUE_WORK_PHRASES
        then intent_of INTENT_CONTINUE_EXISTING_WORK ''high'' ''explicit continuation phrase''
      else if matches_any text STATUS_DIAGNOSTIC_PHRASES then
        (if any_in text DIAGNOSTIC_TOKENS then intent_of INTENT_DIAGNOSTIC_QUESTION ''high'' ''diagnostic phrase''
         else intent_of INTENT_STATUS_QUESTION ''high'' ''status phrase'')
      else if matches_any text APPEND_CONTEXT_PHRASES then intent_of INTENT_APPEND_CONTEXT ''high'' ''append-context phrase''
      else
        (let has_backref = matches_any text BACKREFERENCE_PHRASES \<or> matches_any text NAMED_PROJECT_CUES
         in if has_backref \<and> matches_any text SUMMARY_VERBS
              then intent_of INTENT_SUMMARIZE_PREVIOUS_WORK ''high'' ''back-reference + summarize verb''
            else if has_backref \<and> matches_any text CONTINUE_VERBS
              then intent_of INTENT_CONTINUE_EXISTING_WORK ''high'' ''back-reference + continue verb''
            else if matches_any text NAMED_PROJECT_CUES \<and> has_work_noun text
              then intent_of INTENT_CONTINUE_EXISTING_WORK ''medium'' ''named project + work noun''
            else if matches_any text EXECUTE_STEP_PHRASES
              then intent_of INTENT_EXECUTE_EXISTING_STEP ''high'' ''execute-step phrase''
            else if text \<in> set CONFIRMATION_STANDALONE then
              (if pending_proposal i then intent_of INTENT_NEW_WORK_REQUEST ''high'' ''confirm pending proposal''
               else intent_of INTENT_CLARIFICATION_NEEDED ''medium'' ''bare confirmation without pending proposal'')
            else if matches_any text CONFIRMATION_PHRASES then
              (if pending_proposal i then intent_of INTENT_NEW_WORK_REQUEST ''high'' ''confirmation phrase + pending proposal''
               else intent_of INTENT_NEW_WORK_REQUEST ''medium'' ''confirmation phrase without pending proposal'')
            else if looks_like_pleasantry text then intent_of INTENT_GENERAL_CHAT ''medium'' ''short pleasantry''
            else if looks_too_vague text then intent_of INTENT_CLARIFICATION_NEEDED ''medium'' ''vague short message''
            else intent_of INTENT_NEW_WORK_REQUEST ''medium'' ((''default '' @ utf8 [0x2014]
              @ '' substantive new task content''))))"

definition classify_intent_deterministic :: "talk_host \<Rightarrow> observation \<Rightarrow> runtime_input \<Rightarrow> intent" where
  "classify_intent_deterministic h ob i =
     classify_text (if ob_normalized_text ob \<noteq> [] then ob_normalized_text ob else normalize h (ob_message_text ob)) i"

text \<open>\<open>strip(' \<cdot>')\<close> removes blanks and middle dots.\<close>

definition annotate :: "intent \<Rightarrow> string \<Rightarrow> intent" where
  "annotate it sfx = it\<lparr>in_reason := (if in_reason it \<noteq> []
     then trim (\<lambda>c. c = '' '' \<or> c = (utf8 [0xB7])) (in_reason it @ ('' '' @ utf8 [0xB7] @ '' '')
       @ sfx) else sfx)\<rparr>"

text \<open>The classifier seam: an answer overrides, no answer or an exception falls to the rules.\<close>

definition make_understand_fn :: "talk_host \<Rightarrow> (observation \<Rightarrow> runtime_input \<Rightarrow> string + intent option) option \<Rightarrow>
    observation \<Rightarrow> runtime_input \<Rightarrow> intent" where
  "make_understand_fn h classifier ob i = (case classifier of
     None \<Rightarrow> classify_intent_deterministic h ob i
   | Some f \<Rightarrow> (case f ob i of
       Inl e \<Rightarrow> annotate (classify_intent_deterministic h ob i) ((''classifier exception ''
         @ utf8 [0x2192] @ '' deterministic fallback: '') @ e)
     | Inr (Some it) \<Rightarrow> it
     | Inr None \<Rightarrow> classify_intent_deterministic h ob i))"

lemma known_classify: "in_id (classify_text text i) \<in> set KNOWN_INTENTS"
  by (simp add: classify_text_def intent_of_def KNOWN_INTENTS_def Let_def)

end
