(* ===== verification/AgentRuntimeProps.thy ===== *)
theory AgentRuntimeProps
  imports Decide Understand
begin

text \<open>
  What the runtime of a role bot guarantees: recall attaches a message to open work only, and only to a clear winner;
  the gateway researches only new work or on request, and answers from memory only when it has some; a stage that
  fails costs its own result only.
\<close>

section \<open>An example\<close>

text \<open>One open session, a message that shares words with it, and a memory of two recent hits.\<close>

definition example_work :: wsession where
  "example_work = \<lparr>ws_id = ''s1'', ws_prompt = ''login page fails'', ws_task_type = ''bugfix'', ws_state = ''in_progress'', ws_updated_at = 900,
     ws_summary = None, ws_channel_id = Some 1, ws_user_id = Some 2, ws_thread_id = None, ws_extra = []\<rparr>"

definition example_message :: "string \<Rightarrow> observation" where
  "example_message s = \<lparr>ob_role_id = ''gateway'', ob_message_text = s, ob_normalized_text = s, ob_channel_id = Some 1, ob_thread_id = None,
     ob_author_id = Some 2, ob_message_id = None, ob_extracted_urls = [], ob_has_attachments = False, ob_received_at = None,
     ob_last_proposed_prompt = None, ob_metadata = []\<rparr>"

definition example_input :: "string \<Rightarrow> runtime_input" where
  "example_input s = \<lparr>rn_role_id = ''gateway'', rn_message_text = s, rn_channel_id = Some 1, rn_thread_id = None, rn_author_id = Some 2,
     rn_message_id = None, rn_attachments = [], rn_user_links = [], rn_mentions = [], rn_received_at = None, rn_last_proposed_prompt = None,
     rn_policy = []\<rparr>"

definition example_search :: "string \<Rightarrow> search_args option \<Rightarrow> raised + json list" where
  "example_search q a = Inr [JObj [(''updated_at'', JInt 950)], JObj [(''updated_at'', JInt 960)]]"

definition example_recall :: "string \<Rightarrow> string \<Rightarrow> raised + recall" where
  "example_recall i s = make_recall_fn plain_talk (Some (\<lambda>_. Inr [example_work])) 50 (default_open_filter plain_talk) (Some example_search) 5
     (example_message s) (intent_of i ''high'' []) (example_input s)"


lemma plain_round [simp]: "th_round plain_talk x = x"
  by (simp add: plain_talk_def)

text \<open>An ASCII word is none of the Korean ones.\<close>

lemma ascii_not_wide: "2048 \<le> n \<Longrightarrow> n < 65536 \<Longrightarrow> (of_char c :: nat) < 128 \<Longrightarrow> c # cs \<noteq> utf8 (n # ns)"
proof
  assume n: "2048 \<le> n" "n < 65536" and c: "(of_char c :: nat) < 128" and e: "c # cs = utf8 (n # ns)"
  from e n have "c = char_of (224 + n div 4096)" by (simp add: utf8_def)
  moreover have "(of_char (char_of (224 + n div 4096) :: char) :: nat) = (224 + n div 4096) mod 256" by simp
  moreover have "(224 + n div 4096) mod 256 = 224 + n div 4096" using n by simp
  ultimately show False using c by simp
qed

lemma wide_nonempty: "2048 \<le> n \<Longrightarrow> utf8 (n # ns) \<noteq> []"
  by (simp add: utf8_def Let_def)

lemma wide_not_prefix: "2048 \<le> n \<Longrightarrow> n < 65536 \<Longrightarrow> (of_char c :: nat) < 128 \<Longrightarrow> \<not> prefix (utf8 (n # ns)) (c # cs)"
  using ascii_not_wide[of n c _ ns] wide_nonempty[of n ns] by (cases "utf8 (n # ns)") auto

lemma example_words:
  "map concat (runs token_char (char_list ''login page again'')) = [''login'', ''page'', ''again'']"
  "map concat (runs token_char (char_list ''login page fails'')) = [''login'', ''page'', ''fails'']"
  "map concat (runs token_char (char_list ''bugfix'')) = [''bugfix'']"
  by (simp_all add: token_char_def Let_def continues_def)

lemma example_lower: "py_lower ''login page again'' = ''login page again''" "py_lower ''login page fails'' = ''login page fails''"
  "py_lower ''bugfix'' = ''bugfix''" "py_len ''login'' = 5" "py_len ''page'' = 4" "py_len ''again'' = 5" "py_len ''fails'' = 5" "py_len ''bugfix'' = 6"
  by code_simp+

lemma example_kept: "''login'' \<notin> set RECALL_STOPWORDS" "''page'' \<notin> set RECALL_STOPWORDS" "''again'' \<notin> set RECALL_STOPWORDS"
  "''fails'' \<notin> set RECALL_STOPWORDS" "''bugfix'' \<notin> set RECALL_STOPWORDS"
  by (simp_all add: RECALL_STOPWORDS_def ascii_not_wide)

lemma tokenize_plain: "tokenize plain_talk ws s = set (filter (\<lambda>t. 2 \<le> py_len t \<and> t \<notin> set ws) (map concat (runs token_char (char_list (py_lower s)))))"
  by (simp add: tokenize_def plain_talk_def)

lemma example_tokens:
  "tokenize plain_talk RECALL_STOPWORDS ''login page again'' = {''login'', ''page'', ''again''}"
  "tokenize plain_talk RECALL_STOPWORDS ''login page fails'' = {''login'', ''page'', ''fails''}"
  "tokenize plain_talk RECALL_STOPWORDS ''bugfix'' = {''bugfix''}"
  unfolding tokenize_plain example_lower(1-3) example_words by (simp_all add: example_lower(4-) example_kept)

lemma example_score: "fst (score_session plain_talk {''login'', ''page'', ''again''} example_work) = 23 / 30"
  by (simp add: score_session_def session_fields_def summary_field_def pack_fields_def example_work_def dict_get_def best_field_def
    better_field_def example_tokens overlap_score_def dict_of_def Let_def)

lemma example_open: "default_open_filter plain_talk example_work"
  by (simp add: default_open_filter_def example_work_def plain_talk_def py_lower_def py_lower_char_def)

lemma example_recalls:
  assumes "i \<noteq> INTENT_NEW_WORK_REQUEST"
  shows "\<exists>rc. example_recall i ''login page again'' = Inr rc \<and> rc_session_id rc = Some ''s1'' \<and> length (rc_memory_hits rc) = 2"
proof -
  have "recall_among plain_talk (example_message ''login page again'') (example_input ''login page again'') [example_work]
     = choose_scored plain_talk [(23 / 30, example_work, snd (score_session plain_talk {''login'', ''page'', ''again''} example_work))]"
    using example_score by (simp add: recall_among_def resolve_thread_anchor_def example_input_def example_message_def example_tokens
      scored_sessions_def del: eq_divide_eq_numeral1)
  moreover have "rc_session_id (choose_scored plain_talk [(23 / 30, example_work, w)]) = Some ''s1''" for w
    by (simp add: choose_scored_def Let_def SCORE_HIGH_def AMBIGUITY_MARGIN_def matched_def no_recall_def example_work_def)
  moreover have "run_memory_search (Some example_search) (example_message ''login page again'') (example_input ''login page again'') 5
      = [JObj [(''updated_at'', JInt 950)], JObj [(''updated_at'', JInt 960)]]"
    by (simp add: run_memory_search_def example_search_def example_message_def wide_strip_def trim_def space_char_def Let_def continues_def)
  ultimately show ?thesis
    using example_open assms by (simp add: example_recall_def make_recall_fn_def compute_session_recall_def intent_of_def list_limited_def Let_def)
qed

section \<open>Recall\<close>

text \<open>The open sessions a recall chooses from.\<close>

definition open_among :: "lister \<Rightarrow> int \<Rightarrow> (wsession \<Rightarrow> bool) \<Rightarrow> wsession list" where
  "open_among f limit flt = (case list_limited f limit of Inl e \<Rightarrow> [] | Inr raw \<Rightarrow> filter flt raw)"

lemma most_recent_mem: "most_recent ss = Some s \<Longrightarrow> s \<in> set ss \<and> (\<forall>s' \<in> set ss. ws_updated_at s' \<le> ws_updated_at s)"
proof (induction ss arbitrary: s)
  case Nil
  then show ?case by simp
next
  case (Cons a ss)
  show ?case
  proof (cases "most_recent ss")
    case None
    then have "ss = []" by (cases ss) (auto split: option.splits if_splits)
    then show ?thesis using Cons.prems by simp
  next
    case (Some m)
    then show ?thesis using Cons.IH[of m] Cons.prems by (auto split: if_splits)
  qed
qed

lemma most_recent_some: "ss \<noteq> [] \<Longrightarrow> most_recent ss \<noteq> None"
  by (cases ss) (auto split: option.splits)

lemma no_recall_simps [simp]: "rc_session_id no_recall = None" "rc_memory_hits no_recall = []" "rc_candidates no_recall = []"
  by (simp_all add: no_recall_def)

lemma matched_simps [simp]: "rc_session_id (matched h s cs c w) = Some (ws_id s)" "rc_memory_hits (matched h s cs c w) = []"
  "rc_candidates (matched h s cs c w) = cs"
  by (simp_all add: matched_def no_recall_def)

text \<open>
  Ranking, as recall and routing do it: sessions with a positive score, the best first. The head is ahead of
  every other session by at least what it is ahead of the next in the list.
\<close>

abbreviation ranked :: "('a \<Rightarrow> real) \<Rightarrow> ('a \<Rightarrow> 'b) \<Rightarrow> 'a list \<Rightarrow> (real \<times> 'a \<times> 'b) list" where
  "ranked f g ss \<equiv> sort_by (\<lambda>a b. fst b \<le> fst a) (filter (\<lambda>t. 0 < fst t) (map (\<lambda>s. (f s, s, g s)) ss))"

definition runner_up :: "(real \<times> 'a) list \<Rightarrow> real" where
  "runner_up rest = (if rest = [] then 0 else fst (hd rest))"

lemma ranked_mem: "(x, s, w) \<in> set (ranked f g ss) \<longleftrightarrow> s \<in> set ss \<and> x = f s \<and> w = g s \<and> 0 < x"
  by auto

lemma ranked_sorted: "sorted_wrt (\<lambda>a b. fst b \<le> fst a) (ranked f g ss)"
  by (rule sorted_wrt_sort_by[OF total_preorder_key_desc[of fst]])

lemma ranked_head:
  assumes "ranked f g ss = (x, s, w) # rest"
  shows "s \<in> set ss" "x = f s" "0 < x" "0 \<le> runner_up rest" "runner_up rest \<le> x"
    and "s' \<in> set ss \<Longrightarrow> s' \<noteq> s \<Longrightarrow> f s' \<le> runner_up rest"
proof -
  have m: "t \<in> set ((x, s, w) # rest) \<longleftrightarrow> t \<in> set (ranked f g ss)" for t using assms by simp
  have o: "sorted_wrt (\<lambda>a b. fst b \<le> fst a) ((x, s, w) # rest)" using ranked_sorted[of f g ss] by (simp add: assms)
  show s: "s \<in> set ss" "x = f s" "0 < x" using m[of "(x, s, w)"] ranked_mem[of x s w f g ss] by auto
  have pos: "0 < fst t" if "t \<in> set rest" for t using m[of t] that by auto
  show r: "0 \<le> runner_up rest" using pos by (cases rest) (auto simp: runner_up_def less_imp_le)
  show "runner_up rest \<le> x" using o s(3) by (cases rest) (auto simp: runner_up_def)
  show "f s' \<le> runner_up rest" if "s' \<in> set ss" "s' \<noteq> s"
  proof (cases "0 < f s'")
    case True
    then have "(f s', s', g s') \<in> set rest" using that m[of "(f s', s', g s')"] by auto
    then show ?thesis using o by (cases rest) (auto simp: runner_up_def)
  qed (use r in simp)
qed

lemma scored_mem: "(x, s, w) \<in> set (scored_sessions h ts ss) \<longleftrightarrow> s \<in> set ss \<and> x = fst (score_session h ts s) \<and> w = snd (score_session h ts s) \<and> 0 < x"
  by (auto simp: scored_sessions_def)

lemma scored_sessions_ranked: "scored_sessions h ts ss = ranked (\<lambda>s. fst (score_session h ts s)) (\<lambda>s. snd (score_session h ts s)) ss"
  by (simp add: scored_sessions_def)

lemma choose_scored_match:
  assumes "scored = (x, s, w) # rest" and "rc_session_id (choose_scored h scored) = Some sid"
  shows "ws_id s = sid \<and> (th_round h SCORE_HIGH \<le> x \<or> th_round h SCORE_MEDIUM \<le> x)
    \<and> th_round h AMBIGUITY_MARGIN \<le> th_round h (x - runner_up rest)"
  using assms by (cases rest) (auto simp: choose_scored_def Let_def runner_up_def split: if_splits)

lemma recall_among_match:
  assumes m: "mono (th_round h)" and r: "rc_session_id (recall_among h ob i ss) = Some sid"
  defines "score \<equiv> \<lambda>s. fst (score_session h (tokenize h RECALL_STOPWORDS (ob_message_text ob)) s)"
  shows "\<exists>s \<in> set ss. ws_id s = sid
    \<and> ((\<exists>s' \<in> set ss. ws_id s' = sid \<and> rn_thread_id i \<noteq> None \<and> ws_thread_id s' = rn_thread_id i)
       \<or> (rn_thread_id i \<noteq> None \<longrightarrow> (\<forall>s' \<in> set ss. ws_thread_id s' \<noteq> rn_thread_id i))
         \<and> (th_round h SCORE_MEDIUM \<le> score s
              \<and> (\<forall>s' \<in> set ss. s' \<noteq> s \<longrightarrow> th_round h AMBIGUITY_MARGIN \<le> th_round h (score s - score s'))
            \<or> has_recency_cue h ob \<and> (\<forall>s' \<in> set ss. score s' \<le> 0 \<and> ws_updated_at s' \<le> ws_updated_at s)))"
proof (cases "resolve_thread_anchor ss i")
  case (Some a)
  have ne: "ss \<noteq> []" using r by (auto simp: recall_among_def)
  obtain t s' where t: "rn_thread_id i = Some t" "find (\<lambda>s. ws_thread_id s = Some t) ss = Some s'" "ws_id s' = a"
    using Some by (auto simp: resolve_thread_anchor_def split: option.splits)
  then have s': "s' \<in> set ss" "ws_thread_id s' = rn_thread_id i" by (auto simp: find_Some_iff)
  obtain s where s: "find (\<lambda>s. ws_id s = a) ss = Some s" using s'(1) t(3) by (metis (mono_tags, lifting) find_None_iff option.exhaust)
  then have "s \<in> set ss" "ws_id s = a" by (auto simp: find_Some_iff)
  moreover have "sid = a" using r Some s ne by (simp add: recall_among_def \<open>ws_id s = a\<close>)
  ultimately show ?thesis using s' t by auto
next
  case None
  have ne: "ss \<noteq> []" using r by (auto simp: recall_among_def)
  have nt: "rn_thread_id i \<noteq> None \<longrightarrow> (\<forall>s' \<in> set ss. ws_thread_id s' \<noteq> rn_thread_id i)"
    using None by (auto simp: resolve_thread_anchor_def find_None_iff split: option.splits)
  define scored where "scored = scored_sessions h (tokenize h RECALL_STOPWORDS (ob_message_text ob)) ss"
  show ?thesis
  proof (cases scored)
    case Nil
    then have le: "\<forall>s' \<in> set ss. score s' \<le> 0"
      unfolding scored_def scored_sessions_def score_def by (auto simp: filter_empty_conv not_less)
    obtain s where s: "most_recent ss = Some s" using most_recent_some[OF ne] by auto
    have "has_recency_cue h ob \<and> ws_id s = sid"
      using r ne None Nil s by (auto simp: recall_among_def scored_def Let_def split: if_splits)
    then show ?thesis using most_recent_mem[OF s] le nt by blast
  next
    case (Cons top rest)
    obtain x s w where top: "top = (x, s, w)" by (cases top)
    have "rc_session_id (choose_scored h scored) = Some sid"
      using r ne None Cons by (simp add: recall_among_def scored_def Let_def)
    note c = choose_scored_match[OF Cons[unfolded top] this]
    note rh = ranked_head[OF Cons[unfolded top scored_def scored_sessions_ranked]]
    have x: "x = score s" using rh(2) by (simp add: score_def)
    have "SCORE_MEDIUM \<le> SCORE_HIGH" by (simp add: SCORE_MEDIUM_def SCORE_HIGH_def)
    then have good: "th_round h SCORE_MEDIUM \<le> score s" using c monoD[OF m, of SCORE_MEDIUM SCORE_HIGH] unfolding x by linarith
    have "th_round h AMBIGUITY_MARGIN \<le> th_round h (score s - score s')" if "s' \<in> set ss" "s' \<noteq> s" for s'
    proof -
      have "x - runner_up rest \<le> score s - score s'" using x rh(6)[OF that] by (simp add: score_def)
      then show ?thesis using c monoD[OF m, of "x - runner_up rest" "score s - score s'"] by linarith
    qed
    then show ?thesis using rh(1) c good nt by blast
  qed
qed

lemma recall_among_some:
  assumes "rc_session_id (recall_among h ob i ss) = Some sid"
  shows "\<exists>s \<in> set ss. ws_id s = sid"
proof (cases "resolve_thread_anchor ss i")
  case None
  then have "rc_session_id (choose_scored h sc) = Some sid \<Longrightarrow> sc \<noteq> [] \<Longrightarrow> (\<exists>(x, s, w) \<in> set sc. ws_id s = sid)" for sc
    using choose_scored_match[of sc] by (cases sc) fastforce+
  then show ?thesis using assms None scored_mem[of _ _ _ h _ ss]
    by (auto simp: recall_among_def Let_def split: if_splits option.splits dest!: most_recent_mem) blast
next
  case (Some a)
  then show ?thesis using assms by (auto simp: recall_among_def find_Some_iff split: if_splits option.splits)
qed

lemma choose_scored_hits [simp]: "rc_memory_hits (choose_scored h scored) = []"
  by (simp add: choose_scored_def Let_def split: prod.split)

lemma recall_among_hits [simp]: "rc_memory_hits (recall_among h ob i ss) = []"
  by (simp add: recall_among_def Let_def split: option.split)

lemma session_recall_match:
  assumes "compute_session_recall h (Some f) limit flt ob it i = Inr rc"
  shows "rc_memory_hits rc = [] \<and> (rc_session_id rc \<noteq> None \<longrightarrow> in_id it \<noteq> INTENT_NEW_WORK_REQUEST)
    \<and> (in_id it \<noteq> INTENT_NEW_WORK_REQUEST \<longrightarrow> rc = recall_among h ob i (open_among f limit flt))"
  using assms
  by (auto simp: compute_session_recall_def open_among_def split: if_splits sum.splits option.splits)

lemma make_recall_match:
  assumes "make_recall_fn h (Some f) limit flt search slimit ob it i = Inr rc" and "rc_session_id rc = Some sid"
  shows "in_id it \<noteq> INTENT_NEW_WORK_REQUEST \<and> rc_session_id (recall_among h ob i (open_among f limit flt)) = Some sid"
proof -
  obtain base where b: "compute_session_recall h (Some f) limit flt ob it i = Inr base" "rc_session_id base = Some sid"
    using assms by (auto simp: make_recall_fn_def Let_def split: sum.splits if_splits)
  then show ?thesis using session_recall_match[OF b(1)] by auto
qed

text \<open>C17: Recall attaches a message to a clear winner or to nothing. If it names a session, the message is no request for new
  work and the session is open; and it is the one of the thread the message was written in, or, where no open
  session has that thread, one that reaches the score threshold and is ahead of every other open session
  by the margin, or, where no session has a word in common with the message and the message speaks of what
  was just done, the one updated last. Rounding of floats is assumed to be monotone.\<close>

theorem recall_picks_clear_winner:
  assumes "mono (th_round h)"
    and "make_recall_fn h (Some f) limit flt search slimit ob it i = Inr rc" and "rc_session_id rc = Some sid"
  defines "ss \<equiv> open_among f limit flt" and "score \<equiv> \<lambda>s. fst (score_session h (tokenize h RECALL_STOPWORDS (ob_message_text ob)) s)"
  shows "in_id it \<noteq> INTENT_NEW_WORK_REQUEST
    \<and> (\<exists>s \<in> set ss. ws_id s = sid
      \<and> ((\<exists>s' \<in> set ss. ws_id s' = sid \<and> rn_thread_id i \<noteq> None \<and> ws_thread_id s' = rn_thread_id i)
         \<or> (rn_thread_id i \<noteq> None \<longrightarrow> (\<forall>s' \<in> set ss. ws_thread_id s' \<noteq> rn_thread_id i))
           \<and> (th_round h SCORE_MEDIUM \<le> score s
                \<and> (\<forall>s' \<in> set ss. s' \<noteq> s \<longrightarrow> th_round h AMBIGUITY_MARGIN \<le> th_round h (score s - score s'))
              \<or> has_recency_cue h ob \<and> (\<forall>s' \<in> set ss. score s' \<le> 0 \<and> ws_updated_at s' \<le> ws_updated_at s))))"
  using make_recall_match[OF assms(2,3)] recall_among_match[OF assms(1)] unfolding ss_def score_def by blast

theorem recall_picks_clear_winner_witness:
  "\<exists>rc. example_recall INTENT_APPEND_CONTEXT ''login page again'' = Inr rc \<and> rc_session_id rc = Some ''s1''
     \<and> (\<exists>s \<in> set (open_among (\<lambda>_. Inr [example_work]) 50 (default_open_filter plain_talk)). ws_id s = ''s1'')"
proof -
  have "INTENT_APPEND_CONTEXT \<noteq> INTENT_NEW_WORK_REQUEST" by (simp add: intent_defs)
  then obtain rc where rc: "example_recall INTENT_APPEND_CONTEXT ''login page again'' = Inr rc" "rc_session_id rc = Some ''s1''"
    using example_recalls by blast
  show ?thesis
    using rc recall_picks_clear_winner[OF _ rc(1)[unfolded example_recall_def] rc(2)] by (auto simp: mono_def)
qed

section \<open>The gateway\<close>

lemma gateway_action_label: "map_of (ac_payload (gateway_action a g [] w)) ''gateway_action'' = Some (JStr g)"
  by (simp add: gateway_action_def action_of_def dict_merge_def)

lemma gateway_payload:
  assumes "''gateway_action'' \<notin> fst ` set extra"
  shows "map_of (ac_payload (gateway_action a g extra w)) ''gateway_action'' = Some (JStr g)"
  using map_of_dict_merge_other[OF assms, of "[(''gateway_action'', JStr g)]"] by (simp add: gateway_action_def action_of_def)

lemma coverage_high:
  "cv_level (compute_recall_coverage h now rc) = COVERAGE_HIGH \<longleftrightarrow>
     has_session rc \<and> 2 \<le> length (rc_memory_hits rc) \<and> (\<exists>t \<in> set (recall_times h rc). now - 86400 \<le> t)"
  by (simp add: compute_recall_coverage_def Let_def coverage_defs COVERAGE_HIGH_MIN_MEMORY_HITS_def COVERAGE_FRESH_HOURS_def)

lemma coverage_medium:
  "cv_level (compute_recall_coverage h now rc) = COVERAGE_MEDIUM \<longrightarrow>
     (has_session rc \<or> rc_memory_hits rc \<noteq> []) \<and> (\<exists>t \<in> set (recall_times h rc). now - 604800 \<le> t)"
  by (auto simp: compute_recall_coverage_def Let_def coverage_defs COVERAGE_MEDIUM_MIN_MEMORY_HITS_def COVERAGE_STALE_DAYS_def Suc_le_eq)

text \<open>The pairs of action and label the gateway can emit.\<close>

definition gateway_pairs :: "(string \<times> string) set" where
  "gateway_pairs = {(ACTION_REPLY, GATEWAY_REPLY_ONLY), (ACTION_ASK_CLARIFICATION, GATEWAY_ASK_CLARIFICATION),
     (ACTION_JOIN_SESSION, GATEWAY_JOIN_EXISTING), (ACTION_APPEND_CONTEXT, GATEWAY_APPEND_CONTEXT),
     (ACTION_REQUEST_ROLE_TURN, GATEWAY_HANDOFF_TECH_LEAD_NO_RESEARCH), (ACTION_RUN_RESEARCH, GATEWAY_TARGETED_RESEARCH),
     (ACTION_RUN_RESEARCH, GATEWAY_FULL_RESEARCH)}"

text \<open>What holds of a decision, in terms of the coverage and the session it was given.\<close>

definition gateway_ok :: "observation \<Rightarrow> intent \<Rightarrow> coverage \<Rightarrow> string \<Rightarrow> plan \<Rightarrow> decision \<Rightarrow> bool" where
  "gateway_ok ob it cv sid pl d \<longleftrightarrow> (\<exists>a g. de_actions d = [a] \<and> map_of (ac_payload a) ''gateway_action'' = Some (JStr g) \<and> (ac_id a, g) \<in> gateway_pairs
     \<and> (g \<in> {GATEWAY_JOIN_EXISTING, GATEWAY_APPEND_CONTEXT} \<longrightarrow> map_of (ac_payload a) ''session_id'' = Some (JStr sid))
     \<and> (g = GATEWAY_JOIN_EXISTING \<longleftrightarrow> in_id it \<in> set SESSION_SEEKING_INTENTS \<and> sid \<noteq> [])
     \<and> (g = GATEWAY_APPEND_CONTEXT \<longleftrightarrow> in_id it = INTENT_APPEND_CONTEXT \<and> sid \<noteq> [])
     \<and> (g = GATEWAY_REPLY_ONLY \<longrightarrow> cv_level cv = COVERAGE_HIGH \<and> \<not> explicit_research ob)
     \<and> (g = GATEWAY_HANDOFF_TECH_LEAD_NO_RESEARCH \<longrightarrow> cv_level cv = COVERAGE_HIGH \<and> in_id it = INTENT_NEW_WORK_REQUEST)
     \<and> (pl_run (de_plan d) \<longleftrightarrow> pl_run pl \<or> ac_id a = ACTION_RUN_RESEARCH)
     \<and> (ac_id a = ACTION_RUN_RESEARCH \<longrightarrow> explicit_research ob \<or> in_id it = INTENT_NEW_WORK_REQUEST)
     \<and> (g = GATEWAY_TARGETED_RESEARCH \<longrightarrow> pl_max_calls (de_plan d) \<le> 2
          \<and> (cv_level cv = COVERAGE_MEDIUM \<or> cv_level cv = COVERAGE_HIGH) \<and> in_id it = INTENT_NEW_WORK_REQUEST))"

lemma gateway_okI:
  assumes "''gateway_action'' \<notin> fst ` set extra" and "(a, g) \<in> gateway_pairs"
    and "g \<in> {GATEWAY_JOIN_EXISTING, GATEWAY_APPEND_CONTEXT} \<Longrightarrow> extra = [(''session_id'', JStr sid)]"
    and "g = GATEWAY_JOIN_EXISTING \<longleftrightarrow> in_id it \<in> set SESSION_SEEKING_INTENTS \<and> sid \<noteq> []"
    and "g = GATEWAY_APPEND_CONTEXT \<longleftrightarrow> in_id it = INTENT_APPEND_CONTEXT \<and> sid \<noteq> []"
    and "g = GATEWAY_REPLY_ONLY \<Longrightarrow> cv_level cv = COVERAGE_HIGH \<and> \<not> explicit_research ob"
    and "g = GATEWAY_HANDOFF_TECH_LEAD_NO_RESEARCH \<Longrightarrow> cv_level cv = COVERAGE_HIGH \<and> in_id it = INTENT_NEW_WORK_REQUEST"
    and "pl_run p \<longleftrightarrow> pl_run pl \<or> a = ACTION_RUN_RESEARCH" and "a = ACTION_RUN_RESEARCH \<Longrightarrow> explicit_research ob \<or> in_id it = INTENT_NEW_WORK_REQUEST"
    and "g = GATEWAY_TARGETED_RESEARCH \<Longrightarrow> pl_max_calls p \<le> 2 \<and> (cv_level cv = COVERAGE_MEDIUM \<or> cv_level cv = COVERAGE_HIGH)
      \<and> in_id it = INTENT_NEW_WORK_REQUEST"
  shows "gateway_ok ob it cv sid pl (gateway_decision cv it p (gateway_action a g extra why) nt)"
  unfolding gateway_ok_def
proof (intro exI[of _ "gateway_action a g extra why"] exI[of _ g] conjI impI)
  show "map_of (ac_payload (gateway_action a g extra why)) ''gateway_action'' = Some (JStr g)" by (rule gateway_payload[OF assms(1)])
  show "map_of (ac_payload (gateway_action a g extra why)) ''session_id'' = Some (JStr sid)"
    if "g \<in> {GATEWAY_JOIN_EXISTING, GATEWAY_APPEND_CONTEXT}"
    using assms(3)[OF that] by (simp add: gateway_action_def action_of_def dict_merge_def)
qed (use assms in \<open>simp_all add: gateway_decision_def decide_with_def gateway_action_def action_of_def\<close>)

lemma gateway_ok_if:
  "(c \<Longrightarrow> gateway_ok ob it cv sid pl x) \<Longrightarrow> (\<not> c \<Longrightarrow> gateway_ok ob it cv sid pl y) \<Longrightarrow> gateway_ok ob it cv sid pl (if c then x else y)"
  by simp

text \<open>The labels are distinct, and so are the actions.\<close>

lemma gateway_distinct:
  "distinct GATEWAY_DECISION_ACTIONS" "distinct KNOWN_ACTIONS" "distinct [COVERAGE_HIGH, COVERAGE_MEDIUM, COVERAGE_LOW]"
  "distinct (rev GATEWAY_DECISION_ACTIONS)" "distinct (rev KNOWN_ACTIONS)" "distinct [COVERAGE_LOW, COVERAGE_MEDIUM, COVERAGE_HIGH]"
  unfolding GATEWAY_DECISION_ACTIONS_def KNOWN_ACTIONS_def gateway_defs action_defs coverage_defs by code_simp+

lemmas gateway_neq = gateway_distinct[unfolded GATEWAY_DECISION_ACTIONS_def KNOWN_ACTIONS_def, simplified]

lemma intent_apart:
  "INTENT_CLARIFICATION_NEEDED \<notin> set SESSION_SEEKING_INTENTS" "INTENT_CLARIFICATION_NEEDED \<noteq> INTENT_APPEND_CONTEXT"
  "INTENT_APPEND_CONTEXT \<notin> set SESSION_SEEKING_INTENTS" "INTENT_NEW_WORK_REQUEST \<notin> set SESSION_SEEKING_INTENTS"
  "INTENT_NEW_WORK_REQUEST \<noteq> INTENT_APPEND_CONTEXT"
  by (simp_all add: SESSION_SEEKING_INTENTS_def intent_defs)

lemma decide_gateway_ok:
  "gateway_ok ob it (case rc_coverage rc of Some c \<Rightarrow> c | None \<Rightarrow> no_coverage) (case rc_session_id rc of Some s \<Rightarrow> s | None \<Rightarrow> []) pl
     (decide_gateway ob it rc pl i)"
  unfolding decide_gateway_def Let_def
  by (intro gateway_ok_if gateway_okI)
    (simp_all add: gateway_pairs_def gateway_neq intent_apart research_plan_def targeted_calls_def GATEWAY_TARGETED_MAX_PROVIDER_CALLS_def,
      use intent_apart(3) in metis, blast)

text \<open>What recall supports: the session it names, when that is open and either of the message's thread, or a clear winner, or
  the newest when nothing compares and the message speaks of what was just done.\<close>

definition recall_supports :: "talk_host \<Rightarrow> observation \<Rightarrow> runtime_input \<Rightarrow> wsession list \<Rightarrow> recall \<Rightarrow> wsession \<Rightarrow> bool" where
  "recall_supports h ob i ss rc s \<longleftrightarrow> s \<in> set ss \<and> rc_session_id rc = Some (ws_id s)
     \<and> (let score = \<lambda>s. fst (score_session h (tokenize h RECALL_STOPWORDS (ob_message_text ob)) s)
        in (\<exists>s' \<in> set ss. ws_id s' = ws_id s \<and> rn_thread_id i \<noteq> None \<and> ws_thread_id s' = rn_thread_id i)
           \<or> (rn_thread_id i \<noteq> None \<longrightarrow> (\<forall>s' \<in> set ss. ws_thread_id s' \<noteq> rn_thread_id i))
             \<and> (th_round h 0.20 \<le> score s \<and> (\<forall>s' \<in> set ss. s' \<noteq> s \<longrightarrow> th_round h 0.10 \<le> th_round h (score s - score s'))
                \<or> has_recency_cue h ob \<and> (\<forall>s' \<in> set ss. score s' \<le> 0 \<and> ws_updated_at s' \<le> ws_updated_at s)))"

lemma recall_supports_named:
  assumes "mono (th_round h)" and "make_recall_fn h (Some f) limit flt search slimit ob it i = Inr rc" and "rc_session_id rc = Some sid"
  shows "\<exists>s. recall_supports h ob i (open_among f limit flt) rc s \<and> ws_id s = sid"
  using make_recall_match[OF assms(2,3)] recall_among_match[OF assms(1)] assms(3)
  unfolding recall_supports_def Let_def SCORE_MEDIUM_def[symmetric] AMBIGUITY_MARGIN_def[symmetric] by blast

text \<open>C16: The gateway on what recall found. It emits one action with one of the seven labels. It joins exactly when the message
  continues, summarises or executes earlier work and recall names a session, and it appends exactly when the
  message adds context and recall names one; the session of the action is then the one recall names, and recall has
  a reason for it: it is open, and it is of the thread of the message, or it reaches the score of recall and leads
  every other open session by the margin, or nothing compares, the message speaks of what was just done and it is
  the newest. So an ambiguous recall, which names no session, is never joined, whatever candidates it lists. The
  gateway answers from memory only when such a session and two memory hits were found, one source of the last
  day among them, and no research was asked for; it runs research only for new work or on an explicit request, and
  targeted research makes at most two provider calls, and only when a memory hit of the last week was found. The
  handover to the tech lead without research is never taken: recall names no session for new work, so its coverage
  is never high. Rounding of floats is assumed to be monotone.\<close>

theorem gateway_grounded:
  assumes "mono (th_round h)" and "make_recall_fn h (Some f) limit flt search slimit ob it i = Inr rc"
    and "d = decide_gateway ob it (rc\<lparr>rc_coverage := Some (compute_recall_coverage h now rc)\<rparr>) pl i"
  shows "\<exists>a g. de_actions d = [a] \<and> map_of (ac_payload a) ''gateway_action'' = Some (JStr g) \<and> g \<in> set GATEWAY_DECISION_ACTIONS
    \<and> (g = GATEWAY_JOIN_EXISTING \<longleftrightarrow> in_id it \<in> {INTENT_CONTINUE_EXISTING_WORK, INTENT_SUMMARIZE_PREVIOUS_WORK, INTENT_EXECUTE_EXISTING_STEP}
         \<and> rc_session_id rc \<notin> {None, Some []})
    \<and> (g = GATEWAY_APPEND_CONTEXT \<longleftrightarrow> in_id it = INTENT_APPEND_CONTEXT \<and> rc_session_id rc \<notin> {None, Some []})
    \<and> (g \<in> {GATEWAY_JOIN_EXISTING, GATEWAY_APPEND_CONTEXT} \<longrightarrow> in_id it \<noteq> INTENT_NEW_WORK_REQUEST
         \<and> (\<exists>s. recall_supports h ob i (open_among f limit flt) rc s \<and> map_of (ac_payload a) ''session_id'' = Some (JStr (ws_id s))))
    \<and> (g = GATEWAY_REPLY_ONLY \<longrightarrow> \<not> explicit_research ob \<and> 2 \<le> length (rc_memory_hits rc)
         \<and> (\<exists>t \<in> set (recall_times h rc). now - 86400 \<le> t) \<and> (\<exists>s. recall_supports h ob i (open_among f limit flt) rc s))
    \<and> g \<noteq> GATEWAY_HANDOFF_TECH_LEAD_NO_RESEARCH
    \<and> (pl_run (de_plan d) \<longleftrightarrow> pl_run pl \<or> ac_id a = ACTION_RUN_RESEARCH)
    \<and> (ac_id a = ACTION_RUN_RESEARCH \<longrightarrow> explicit_research ob \<or> in_id it = INTENT_NEW_WORK_REQUEST)
    \<and> (g = GATEWAY_TARGETED_RESEARCH \<longrightarrow> pl_max_calls (de_plan d) \<le> 2 \<and> rc_memory_hits rc \<noteq> []
         \<and> (\<exists>t \<in> set (recall_times h rc). now - 604800 \<le> t))"
proof -
  let ?cv = "compute_recall_coverage h now rc" and ?sid = "case rc_session_id rc of Some s \<Rightarrow> s | None \<Rightarrow> []"
  let ?ok = "recall_supports h ob i (open_among f limit flt) rc"
  have seek: "set SESSION_SEEKING_INTENTS = {INTENT_CONTINUE_EXISTING_WORK, INTENT_SUMMARIZE_PREVIOUS_WORK, INTENT_EXECUTE_EXISTING_STEP}"
    by (simp add: SESSION_SEEKING_INTENTS_def)
  have named: "?sid \<noteq> [] \<longleftrightarrow> rc_session_id rc \<notin> {None, Some []}" by (cases "rc_session_id rc") auto
  have new: "rc_session_id rc = None" if "in_id it = INTENT_NEW_WORK_REQUEST"
    using make_recall_match[OF assms(2)] that by (cases "rc_session_id rc") blast+
  have mem: "\<exists>s. ?ok s \<and> ws_id s = ?sid" if "?sid \<noteq> []"
    using that recall_supports_named[OF assms(1,2)] by (cases "rc_session_id rc") auto
  have high: "in_id it \<noteq> INTENT_NEW_WORK_REQUEST" if "cv_level ?cv = COVERAGE_HIGH"
    using that new by (auto simp: coverage_high has_session_def)
  have "gateway_ok ob it ?cv ?sid pl d" using decide_gateway_ok[of ob it "rc\<lparr>rc_coverage := Some ?cv\<rparr>" pl i] by (simp add: assms(3))
  then obtain a g where d: "de_actions d = [a]" "map_of (ac_payload a) ''gateway_action'' = Some (JStr g)" "(ac_id a, g) \<in> gateway_pairs"
    "g \<in> {GATEWAY_JOIN_EXISTING, GATEWAY_APPEND_CONTEXT} \<Longrightarrow> map_of (ac_payload a) ''session_id'' = Some (JStr ?sid)"
    "g = GATEWAY_JOIN_EXISTING \<longleftrightarrow> in_id it \<in> set SESSION_SEEKING_INTENTS \<and> ?sid \<noteq> []"
    "g = GATEWAY_APPEND_CONTEXT \<longleftrightarrow> in_id it = INTENT_APPEND_CONTEXT \<and> ?sid \<noteq> []"
    "g = GATEWAY_REPLY_ONLY \<Longrightarrow> cv_level ?cv = COVERAGE_HIGH \<and> \<not> explicit_research ob"
    "g = GATEWAY_HANDOFF_TECH_LEAD_NO_RESEARCH \<Longrightarrow> cv_level ?cv = COVERAGE_HIGH \<and> in_id it = INTENT_NEW_WORK_REQUEST"
    "pl_run (de_plan d) \<longleftrightarrow> pl_run pl \<or> ac_id a = ACTION_RUN_RESEARCH"
    "ac_id a = ACTION_RUN_RESEARCH \<Longrightarrow> explicit_research ob \<or> in_id it = INTENT_NEW_WORK_REQUEST"
    "g = GATEWAY_TARGETED_RESEARCH \<Longrightarrow> pl_max_calls (de_plan d) \<le> 2
       \<and> (cv_level ?cv = COVERAGE_MEDIUM \<or> cv_level ?cv = COVERAGE_HIGH) \<and> in_id it = INTENT_NEW_WORK_REQUEST"
    unfolding gateway_ok_def by blast
  have "g \<in> set GATEWAY_DECISION_ACTIONS" using d(3) by (auto simp: gateway_pairs_def GATEWAY_DECISION_ACTIONS_def)
  moreover have "in_id it \<noteq> INTENT_NEW_WORK_REQUEST \<and> (\<exists>s. ?ok s \<and> map_of (ac_payload a) ''session_id'' = Some (JStr (ws_id s)))"
    if "g \<in> {GATEWAY_JOIN_EXISTING, GATEWAY_APPEND_CONTEXT}"
  proof -
    have "?sid \<noteq> []" using that d(5,6) by auto
    then show ?thesis using d(4)[OF that] mem new by fastforce
  qed
  moreover have "\<not> explicit_research ob \<and> 2 \<le> length (rc_memory_hits rc) \<and> (\<exists>t \<in> set (recall_times h rc). now - 86400 \<le> t)
      \<and> (\<exists>s. ?ok s)" if "g = GATEWAY_REPLY_ONLY"
    using d(7)[OF that] mem by (auto simp: coverage_high has_session_def)
  moreover have "g \<noteq> GATEWAY_HANDOFF_TECH_LEAD_NO_RESEARCH" using d(8) high by blast
  moreover have "pl_max_calls (de_plan d) \<le> 2 \<and> rc_memory_hits rc \<noteq> [] \<and> (\<exists>t \<in> set (recall_times h rc). now - 604800 \<le> t)"
    if "g = GATEWAY_TARGETED_RESEARCH"
    using d(11)[OF that] high coverage_medium[of h now rc] new by (auto simp: has_session_def)
  ultimately show ?thesis using d(1,2,9,10) d(5,6)[unfolded seek named] by blast
qed

theorem gateway_grounded_witness:
  "\<exists>rc a g. example_recall INTENT_STATUS_QUESTION ''login page again'' = Inr rc \<and> rc_session_id rc = Some ''s1'' \<and> length (rc_memory_hits rc) = 2
     \<and> de_actions (decide_gateway (example_message ''login page again'') (intent_of INTENT_STATUS_QUESTION ''high'' [])
         (rc\<lparr>rc_coverage := Some (compute_recall_coverage plain_talk 1000 rc)\<rparr>) no_plan (example_input ''login page again'')) = [a]
     \<and> map_of (ac_payload a) ''gateway_action'' = Some (JStr g) \<and> g \<noteq> GATEWAY_HANDOFF_TECH_LEAD_NO_RESEARCH"
proof -
  have "INTENT_STATUS_QUESTION \<noteq> INTENT_NEW_WORK_REQUEST" by (simp add: intent_defs)
  then obtain rc where rc: "example_recall INTENT_STATUS_QUESTION ''login page again'' = Inr rc" "rc_session_id rc = Some ''s1''"
    "length (rc_memory_hits rc) = 2" using example_recalls by blast
  show ?thesis using rc gateway_grounded[OF _ rc(1)[unfolded example_recall_def] refl, where now = 1000 and pl = no_plan] by (auto simp: mono_def)
qed

end
