(* ===== verification/Routing.thy ===== *)
theory Routing
  imports Recall
begin

text \<open>
  Where a message of the engineering channel lands (\<open>agents/routing.py\<close>): the guards against prompts that are only
  commands or the bot's own words, the phrases that force a route, the scores against open work, and the
  routing decision. The store of sessions and its loader are arguments.
\<close>

section \<open>Prompts that are no task\<close>

definition COMMAND_ONLY_PROMPTS :: "string list" where
  "COMMAND_ONLY_PROMPTS = [
    (utf8 [0xC0C8, 0x20, 0xC791, 0xC5C5, 0xC73C, 0xB85C, 0x20, 0xC9C4, 0xD589]),
    (utf8 [0xC0C8, 0x20, 0xC791, 0xC5C5, 0xC73C, 0xB85C, 0x20, 0xC2DC, 0xC791]),
    (utf8 [0xC774, 0xB300, 0xB85C, 0x20, 0xC9C4, 0xD589]), (utf8 [0xC774, 0xB300, 0xB85C, 0x20, 0xB4F1, 0xB85D]),
    (utf8 [0xADF8, 0xB300, 0xB85C, 0x20, 0xC9C4, 0xD589]), (utf8 [0xADF8, 0xB300, 0xB85C, 0x20, 0xB4F1, 0xB85D]),
    (utf8 [0xAE30, 0xC874, 0x20, 0xC138, 0xC158, 0xC73C, 0xB85C, 0x20, 0xC9C4, 0xD589]),
    (utf8 [0xAE30, 0xC874, 0x20, 0xC138, 0xC158, 0xC73C, 0xB85C, 0x20, 0xC2DC, 0xC791]),
    (utf8 [0xAE30, 0xC874, 0x20, 0xC138, 0xC158, 0x20, 0xC9C4, 0xD589]),
    (utf8 [0xAE30, 0xC874, 0x20, 0xC791, 0xC5C5, 0xC73C, 0xB85C, 0x20, 0xC9C4, 0xD589]),
    (utf8 [0xAE30, 0xC874, 0x20, 0xC791, 0xC5C5, 0xC73C, 0xB85C, 0x20, 0xC2DC, 0xC791]),
    (utf8 [0xAE30, 0xC874, 0x20, 0xC791, 0xC5C5, 0x20, 0xC9C4, 0xD589]),
    (utf8 [0xC774] @ '' thread'' @ utf8 [0xB85C, 0x20, 0xC9C4, 0xD589]),
    (utf8 [0xC774] @ '' thread'' @ utf8 [0xC5D0, 0xC11C, 0x20, 0xC9C4, 0xD589]),
    (utf8 [0xC5EC, 0xAE30, 0xC11C, 0x20, 0xC9C4, 0xD589]),
    (utf8 [0xC5EC, 0xAE30, 0xC11C, 0x20, 0xC774, 0xC5B4, 0xAC00]), (utf8 [0xD655, 0xC815]), (utf8 [0xC9C4, 0xD589]),
    (utf8 [0xC9C4, 0xD589, 0xD574]), (utf8 [0xC9C4, 0xD589, 0xD574, 0xC918]),
    (utf8 [0xC9C4, 0xD589, 0x20, 0xD574, 0xC918]),
    (utf8 [0xC774, 0xB300, 0xB85C, 0x20, 0xC9C4, 0xD589, 0xD574, 0xC918]),
    (utf8 [0xC774, 0xB300, 0xB85C, 0x20, 0xC9C4, 0xD589, 0x20, 0xD574, 0xC918]), (utf8 [0xC2B9, 0xC778]),
    (utf8 [0xC2B9, 0xC778, 0xD560, 0xAC8C]), (utf8 [0xC2B9, 0xC778, 0x20, 0xD560, 0xAC8C]),
    (utf8 [0xC2B9, 0xC778, 0xD574, 0xC918]), (utf8 [0xC2B9, 0xC778, 0x20, 0xD574, 0xC918]),
    (utf8 [0xC2B9, 0xC778, 0xD588, 0xC5B4]), (utf8 [0xC218, 0xC815, 0x20, 0xC2B9, 0xC778]),
    (utf8 [0xC624, 0xCF00, 0xC774]), (utf8 [0xC624, 0xCF00, 0xC774, 0x20, 0xC9C4, 0xD589]),
    (utf8 [0xC624, 0xCF00, 0xC774, 0x20, 0xC9C4, 0xD589, 0xD574, 0xC918]), ''ok'', ''okay'', (utf8 [0xC608]),
    (utf8 [0xB124]), (utf8 [0xACC4, 0xC18D]), (utf8 [0xACC4, 0xC18D, 0x20, 0xD574]), (utf8 [0xACC4, 0xC18D, 0xD574]),
    (utf8 [0xACC4, 0xC18D, 0x20, 0xC9C4, 0xD589]), (utf8 [0xACC4, 0xC18D, 0x20, 0xC9C4, 0xD589, 0xD574]),
    (utf8 [0xC774, 0xC5B4, 0xC11C]), (utf8 [0xC774, 0xC5B4, 0xC11C, 0x20, 0xD574]),
    (utf8 [0xC774, 0xC5B4, 0xC11C, 0x20, 0xC9C4, 0xD589]),
    (utf8 [0xC774, 0xC5B4, 0xC11C, 0x20, 0xC9C4, 0xD589, 0xD574]),
    (utf8 [0xC2B9, 0xC778, 0xD558, 0xACE0, 0x20, 0xC9C4, 0xD589, 0xD574]),
    (utf8 [0xC2B9, 0xC778, 0xD558, 0xACE0, 0x20, 0xC9C4, 0xD589]),
    (utf8 [0xC791, 0xC5C5, 0x20, 0xC2B9, 0xC778, 0x20, 0xD560, 0xAC8C, 0x20, 0xC9C4, 0xD589, 0x20, 0xD574, 0xC918]),
    (utf8 [0xC791, 0xC5C5, 0x20, 0xC2B9, 0xC778, 0x20, 0xD560, 0xAC8C]),
    (utf8 [0xC791, 0xC5C5, 0x20, 0xC2B9, 0xC778, 0xD560, 0xAC8C]), (utf8 [0xC791, 0xC5C5, 0x20, 0xC2B9, 0xC778])]"

definition COMMAND_ONLY_TOKEN_FRAGMENTS :: "string list" where
  "COMMAND_ONLY_TOKEN_FRAGMENTS = [
    (utf8 [0xC774, 0xB300, 0xB85C]), (utf8 [0xADF8, 0xB300, 0xB85C]), (utf8 [0xC5EC, 0xAE30, 0xC11C]),
    (utf8 [0xAE30, 0xC874]), (utf8 [0xC138, 0xC158]), (utf8 [0xC138, 0xC158, 0xC73C, 0xB85C]), ''thread'',
    (utf8 [0xC791, 0xC5C5]), (utf8 [0xC791, 0xC5C5, 0xC73C, 0xB85C]), (utf8 [0xC9C4, 0xD589, 0xD574, 0xC918]),
    (utf8 [0xC9C4, 0xD589, 0x20, 0xD574, 0xC918]), (utf8 [0xC9C4, 0xD589, 0xD574]),
    (utf8 [0xC9C4, 0xD589, 0xD560, 0xAC8C]), (utf8 [0xC9C4, 0xD589]), (utf8 [0xC2B9, 0xC778, 0xD558, 0xACE0]),
    (utf8 [0xC2B9, 0xC778, 0xD560, 0xAC8C]), (utf8 [0xC2B9, 0xC778, 0x20, 0xD560, 0xAC8C]),
    (utf8 [0xC2B9, 0xC778, 0xD574, 0xC918]), (utf8 [0xC2B9, 0xC778, 0x20, 0xD574, 0xC918]),
    (utf8 [0xC2B9, 0xC778, 0xD588, 0xC5B4]), (utf8 [0xC2B9, 0xC778]), (utf8 [0xD655, 0xC815, 0xD574, 0xC918]),
    (utf8 [0xD655, 0xC815]), (utf8 [0xACC4, 0xC18D, 0xD574]), (utf8 [0xACC4, 0xC18D, 0x20, 0xC9C4, 0xD589]),
    (utf8 [0xACC4, 0xC18D]), (utf8 [0xC774, 0xC5B4, 0xC11C]), (utf8 [0xC774, 0xC5B4, 0xAC00]),
    (utf8 [0xC774, 0xC5B4]), (utf8 [0xC624, 0xCF00, 0xC774]), ''okay'', ''ok'', ''go ahead'', ''go'', ''yes'',
    ''proceed'', ''approve'', ''approved'', ''continue'', (utf8 [0xD560, 0xAC8C]), (utf8 [0xD574, 0xC918]),
    (utf8 [0xD574, 0xB77C]), (utf8 [0xD574])]"

fun replace_fuel :: "nat \<Rightarrow> string \<Rightarrow> string \<Rightarrow> string \<Rightarrow> string" where
  "replace_fuel 0 k r s = s"
| "replace_fuel (Suc n) k r [] = []"
| "replace_fuel (Suc n) k r (c # cs) = (if prefix k (c # cs) then r @ replace_fuel n k r (drop (length k) (c # cs)) else c # replace_fuel n k r cs)"

text \<open>\<open>s.replace(k, r)\<close> for a non-empty \<open>k\<close>; a step consumes at least one byte.\<close>

definition py_replace :: "string \<Rightarrow> string \<Rightarrow> string \<Rightarrow> string" where
  "py_replace k r s = replace_fuel (length s) k r s"

definition PARTICLES :: "string list" where
  "PARTICLES = [('' '' @ utf8 [0xC744] @ '' ''), ('' '' @ utf8 [0xB97C] @ '' ''), ('' '' @ utf8 [0xB3C4]
    @ '' ''), ('' '' @ utf8 [0xB294] @ '' ''), ('' '' @ utf8 [0xC740] @ '' ''), ('' '' @ utf8 [0xC774]
    @ '' ''), ('' '' @ utf8 [0xAC00] @ '' ''), ('' '' @ utf8 [0xC758] @ '' ''), ('' '' @ utf8 [0xC5D0]
    @ '' ''), ('' '' @ utf8 [0xC640] @ '' ''), ('' '' @ utf8 [0xACFC] @ '' ''), ('' '' @ utf8 [0xB9CC]
    @ '' ''), ('' '' @ utf8 [0xC880] @ '' '')]"

definition PUNCTUATION :: "string list" where
  "PUNCTUATION = ['','', ''.'', ''!'', ''?'', ''~'', (utf8 [0xB7]), ''/'', [CHR 0x5C], [CHR 0x27], [CHR 0x22]]"

text \<open>The fragments are tried from the longest to the shortest, those of one length in their order.\<close>

definition strips_to_empty :: "string \<Rightarrow> bool" where
  "strips_to_empty normalised =
     (let t = fold (\<lambda>k t. if py_contains k t then py_replace k '' '' t else t)
            (sort_by (\<lambda>a b. py_len b \<le> py_len a) COMMAND_ONLY_TOKEN_FRAGMENTS) normalised;
          t = fold (\<lambda>k t. py_replace k '' '' t) PARTICLES t;
          t = fold (\<lambda>k t. py_replace k '' '' t) PUNCTUATION t
      in py_len (squeeze t) \<le> 2)"

definition is_command_only_prompt :: "talk_host \<Rightarrow> string \<Rightarrow> bool" where
  "is_command_only_prompt h s =
     (let n = squeeze (th_lower h s) in n = [] \<or> py_len n \<le> 2 \<or> n \<in> set COMMAND_ONLY_PROMPTS \<or> strips_to_empty n)"

definition BOT_ECHO_FRAGMENTS :: "string list" where
  "BOT_ECHO_FRAGMENTS = [
    (utf8 [0xC88B, 0xC2B5, 0xB2C8, 0xB2E4, 0x2E, 0x20, 0xC774, 0xB300, 0xB85C, 0x20, 0xC791, 0xC5C5, 0xC744, 0x20,
      0xB4F1, 0xB85D, 0xD560, 0xAC8C, 0xC694]),
    (utf8 [0xC88B, 0xC2B5, 0xB2C8, 0xB2E4, 0x20, 0xC774, 0xB300, 0xB85C, 0x20, 0xC791, 0xC5C5, 0xC744, 0x20,
      0xB4F1, 0xB85D, 0xD560, 0xAC8C, 0xC694]),
    (''intake'' @ utf8 [0xAC00, 0x20, 0xB9CC, 0xB4E4, 0xC5B4, 0xC9C0, 0xBA74, 0x20, 0xC138, 0xC158] @ '' id''),
    (''intake'' @ utf8 [0xAC00, 0x20, 0xB9CC, 0xB4E4, 0xC5B4, 0xC9C0, 0xBA74, 0x20, 0xC138, 0xC158] @ '' ID''),
    (utf8 [0xC790, 0xB8CC, 0xAC00, 0x20, 0xBD80, 0xC871, 0xD569, 0xB2C8, 0xB2E4]),
    (utf8 [0xCC38, 0xACE0, 0xD560, 0x20, 0xB9C1, 0xD06C, 0xB098, 0x20, 0xC774, 0xBBF8, 0xC9C0, 0xB97C, 0x20,
      0xC62C, 0xB824, 0xC8FC, 0xC2E4, 0xAE4C, 0xC694]),
    (utf8 [0xCC38, 0xACE0, 0x20, 0xB9C1, 0xD06C, 0xB098, 0x20, 0xC774, 0xBBF8, 0xC9C0, 0xB97C, 0x20, 0xC62C,
      0xB824, 0xC8FC, 0xC138, 0xC694]),
    (utf8 [0xC5F4, 0xB824, 0x20, 0xC788, 0xB294] @ '' thread'' @ utf8 [0xB97C, 0x20, 0xCC3E, 0xC544, 0x20, 0xC774,
      0xC5B4, 0xAC08, 0xAC8C, 0xC694]),
    (utf8 [0xC774, 0x20, 0xC791, 0xC5C5, 0xC758, 0x20, 0xCF54, 0xB529, 0x20, 0xAD8C, 0xD55C, 0x20, 0xC81C, 0xC548,
      0xC744, 0x20, 0xC815, 0xB9AC, 0xD588, 0xC2B5, 0xB2C8, 0xB2E4]),
    (utf8 [0xCF54, 0xB529, 0x20, 0xAD8C, 0xD55C, 0x20, 0xC2B9, 0xC778, 0x20, 0xC644, 0xB8CC]),
    ''**[engineering-agent]'', ''engineer-agent intake'', (''engineer intake '' @ utf8 [0xC2E4, 0xD328]),
    (''research loop '' @ utf8 [0xC2E4, 0xD328])]"

definition is_bot_echo_phrase :: "talk_host \<Rightarrow> string \<Rightarrow> bool" where
  "is_bot_echo_phrase h s \<longleftrightarrow> any_in (th_lower h s) (map (th_lower h) BOT_ECHO_FRAGMENTS)"

definition is_non_actionable_prompt :: "talk_host \<Rightarrow> string \<Rightarrow> bool" where
  "is_non_actionable_prompt h s \<longleftrightarrow> is_command_only_prompt h s \<or> is_bot_echo_phrase h s"

section \<open>Phrases that force a route\<close>

definition EXPLICIT_NEW_WORK_PATTERNS :: "string list" where
  "EXPLICIT_NEW_WORK_PATTERNS = [
    (utf8 [0xC0C8, 0x20, 0xC791, 0xC5C5, 0xC73C, 0xB85C, 0x20, 0xC9C4, 0xD589]),
    (utf8 [0xC0C8, 0x20, 0xC791, 0xC5C5, 0xC73C, 0xB85C, 0x20, 0xB4F1, 0xB85D]),
    (utf8 [0xC0C8, 0x20, 0xC791, 0xC5C5, 0x20, 0xB9CC, 0xB4E4, 0xC5B4]),
    (utf8 [0xC0C8, 0x20, 0xC138, 0xC158, 0xC73C, 0xB85C]), ''create new work'', ''create a new task'',
    ''start a new session'']"

definition EXPLICIT_APPEND_PATTERNS :: "string list" where
  "EXPLICIT_APPEND_PATTERNS = [
    (utf8 [0xC774, 0x20, 0xC790, 0xB8CC, 0xB9CC, 0x20, 0xAE30, 0xC874, 0x20, 0xC791, 0xC5C5, 0xC5D0, 0x20, 0xCC38,
      0xACE0]),
    (utf8 [0xC774, 0x20, 0xC790, 0xB8CC, 0xB9CC, 0x20, 0xAE30, 0xC874, 0x20, 0xC791, 0xC5C5, 0xC5D0, 0x20, 0xBD99,
      0xC5EC]),
    (utf8 [0xCC38, 0xACE0, 0xB85C, 0xB9CC, 0x20, 0xBD99, 0xC5EC]),
    (utf8 [0xCC38, 0xACE0, 0xB9CC, 0x20, 0xBD99, 0xC5EC]), ''context only'', ''append only'']"

definition explicit_new_work :: "talk_host \<Rightarrow> string \<Rightarrow> bool" where
  "explicit_new_work h s \<longleftrightarrow> (\<exists>p \<in> set EXPLICIT_NEW_WORK_PATTERNS. py_contains p s \<or> py_contains p (th_lower h s))"

definition explicit_append_context :: "talk_host \<Rightarrow> string \<Rightarrow> bool" where
  "explicit_append_context h s \<longleftrightarrow> (\<exists>p \<in> set EXPLICIT_APPEND_PATTERNS. py_contains p s \<or> py_contains p (th_lower h s))"

definition hex_char :: "string \<Rightarrow> bool" where
  "hex_char c \<longleftrightarrow> (let n = code_point c in (48 \<le> n \<and> n \<le> 57) \<or> (65 \<le> n \<and> n \<le> 70) \<or> (97 \<le> n \<and> n \<le> 102))"

definition hex_run :: "string list \<Rightarrow> string option" where
  "hex_run cs = (let r = takeWhile hex_char cs in if 6 \<le> length r then Some (concat r) else None)"

definition quote_char :: "string \<Rightarrow> bool" where
  "quote_char c \<longleftrightarrow> c \<in> {''`'', [CHR 0x27], [CHR 0x22]}"

definition drop_one :: "(string \<Rightarrow> bool) \<Rightarrow> string list \<Rightarrow> string list" where
  "drop_one p cs = (case cs of c # cs' \<Rightarrow> if p c then cs' else cs | [] \<Rightarrow> [])"

text \<open>A literal at the front, up to case, and what follows it.\<close>

definition after_lit :: "string \<Rightarrow> string list \<Rightarrow> string list option" where
  "after_lit l cs = (if matches_here [Lit l] cs then Some (drop (length (char_list l)) cs) else None)"

text \<open>The two alternatives: the Korean words for an existing session and a number, and \<open>session[_-]?id\<close>.\<close>

definition session_ref :: "string list \<Rightarrow> string option" where
  "session_ref cs =
     (case (case after_lit ((utf8 [0xAE30, 0xC874])) cs of None \<Rightarrow> None
        | Some cs \<Rightarrow> (case after_lit ((utf8 [0xC138,
          0xC158])) (dropWhile space_char cs) of None \<Rightarrow> None
            | Some cs \<Rightarrow> hex_run (drop_one quote_char (dropWhile space_char cs)))) of
        Some r \<Rightarrow> Some r
      | None \<Rightarrow> (case after_lit ''session'' cs of None \<Rightarrow> None
          | Some cs \<Rightarrow> (case after_lit ''id'' (drop_one (\<lambda>c. c \<in> {''_'', ''-''}) cs) of None \<Rightarrow> None
              | Some cs \<Rightarrow>
                  (let sep = (\<lambda>c. space_char c \<or> c \<in> {'':'', ''=''} \<or> quote_char c)
                   in if takeWhile sep cs = [] then None else hex_run (dropWhile sep cs)))))"

definition explicit_session_request :: "string \<Rightarrow> string option" where
  "explicit_session_request s = first_match session_ref (char_list s)"

section \<open>Scores\<close>

definition ROUTE_SCORE_HIGH :: pyfloat where "ROUTE_SCORE_HIGH = 0.45"
definition ROUTE_SCORE_MEDIUM :: pyfloat where "ROUTE_SCORE_MEDIUM = 0.25"
definition SCORE_AMBIGUOUS_MARGIN :: pyfloat where "SCORE_AMBIGUOUS_MARGIN = 0.07"

definition ROUTING_STOPWORDS :: "string list" where
  "ROUTING_STOPWORDS = [
    ''the'', ''and'', ''for'', ''with'', ''into'', ''from'', ''that'', ''this'', ''have'',
    (utf8 [0xADF8, 0xB9AC, 0xACE0]), (utf8 [0xADF8, 0xB798, 0xC11C]), (utf8 [0xADFC, 0xB370]),
    (utf8 [0xADF8, 0xB0E5]), (utf8 [0xB2E4, 0xC2DC]), (utf8 [0xC77C, 0xB2E8]), (utf8 [0xD558, 0xBA74]),
    (utf8 [0xD558, 0xC790]), (utf8 [0xCC98, 0xB7FC]), (utf8 [0xAD00, 0xB828]), (utf8 [0xB0B4, 0xC6A9]),
    (utf8 [0xBD80, 0xBD84])]"

definition route_fields :: "talk_host \<Rightarrow> wsession \<Rightarrow> (string \<times> string) list" where
  "route_fields h s =
     (case dict_get (ws_extra s) ''canonical_prompt_override'' of
        JStr c \<Rightarrow> (if wide_strip c \<noteq> [] then [(''prompt'', c)] else if is_command_only_prompt h (ws_prompt s) then [] else [(''prompt'', ws_prompt s)])
      | _ \<Rightarrow> (if is_command_only_prompt h (ws_prompt s) then [] else [(''prompt'', ws_prompt s)]))
     @ [(''task_type'', ws_task_type s)] @ summary_field s @ pack_fields h (ws_extra s)"

definition score_one :: "talk_host \<Rightarrow> string set \<Rightarrow> wsession \<Rightarrow> pyfloat \<times> string" where
  "score_one h ts s =
     (if \<forall>f \<in> set (route_fields h s). tokenize h ROUTING_STOPWORDS (snd f) = {} then (0, [])
      else let (n, fld) = best_field h ROUTING_STOPWORDS ts (route_fields h s)
           in (overlap_score h n fld (card ts),
               ''`'' @ ws_id s @ (''` '' @ utf8 [0xB9E4, 0xCE6D] @ '' '') @ show_nat n @ ''/'' @ show_nat (card ts)
                 @ ('' '' @ utf8 [0xD1A0, 0xD070, 0x20, 0x28, 0xC601, 0xC5ED] @ '': '')
                 @ (if fld = [] then ''union'' else fld) @ '')''))"

definition score_sessions :: "talk_host \<Rightarrow> string \<Rightarrow> wsession list \<Rightarrow> (pyfloat \<times> wsession \<times> string) list" where
  "score_sessions h p sessions =
     (let ts = tokenize h ROUTING_STOPWORDS p
      in if ts = {} then []
         else sort_by (\<lambda>a b. fst b \<le> fst a) (filter (\<lambda>t. 0 < fst t) (map (\<lambda>s. (fst (score_one h ts s), s, snd (score_one h ts s))) sessions)))"

section \<open>The decision\<close>

datatype route_action = Join_Existing | Create_New | Ask_Which | Append_Only

record route_candidate =
  rk_session_id :: string
  rk_score :: pyfloat
  rk_title :: string
  rk_task_type :: string
  rk_thread_id :: "int option"
  rk_forum_thread_id :: "int option"
  rk_why :: string

record route_decision =
  ro_action :: route_action
  ro_session_id :: "string option"
  ro_thread_id :: "int option"
  ro_forum_thread_id :: "int option"
  ro_confidence :: string
  ro_reason :: string
  ro_candidates :: "route_candidate list"

definition route_to :: "route_action \<Rightarrow> string \<Rightarrow> string \<Rightarrow> route_candidate list \<Rightarrow> route_decision" where
  "route_to a conf why cs = \<lparr>ro_action = a, ro_session_id = None, ro_thread_id = None, ro_forum_thread_id = None, ro_confidence = conf,
     ro_reason = why, ro_candidates = cs\<rparr>"

definition decision_from_session :: "talk_host \<Rightarrow> wsession \<Rightarrow> route_action \<Rightarrow> string \<Rightarrow> string \<Rightarrow> route_candidate list \<Rightarrow> route_decision" where
  "decision_from_session h s a conf why cs = \<lparr>ro_action = a, ro_session_id = Some (ws_id s), ro_thread_id = ws_thread_id s,
     ro_forum_thread_id = extract_forum_thread_id h s, ro_confidence = conf, ro_reason = why, ro_candidates = cs\<rparr>"

definition route_title :: "wsession \<Rightarrow> string" where
  "route_title s =
     (let t = (case ws_summary s of Some t \<Rightarrow> t | None \<Rightarrow> []); t = (if t \<noteq> [] then t else if ws_prompt s \<noteq> [] then ws_prompt s else ws_id s)
      in if 80 < py_len t then chars 77 t @ (utf8 [0x2026]) else t)"

definition top_candidates :: "talk_host \<Rightarrow> (pyfloat \<times> wsession \<times> string) list \<Rightarrow> route_candidate list" where
  "top_candidates h scored = map (\<lambda>(score, s, why). \<lparr>rk_session_id = ws_id s, rk_score = score, rk_title = route_title s,
     rk_task_type = ws_task_type s, rk_thread_id = ws_thread_id s, rk_forum_thread_id = extract_forum_thread_id h s, rk_why = why\<rparr>) (take 3 scored)"

text \<open>Open sessions, newest first as the store lists them; a store that fails is an empty one.\<close>

definition list_open_sessions :: "lister \<Rightarrow> raised + wsession list" where
  "list_open_sessions f = (case f (Some 50) of Inl e \<Rightarrow> Inl e | Inr ss \<Rightarrow> Inr (filter (\<lambda>s. ws_state s \<notin> {''completed'', ''rejected''}) ss))"

definition resolve_open_sessions :: "wsession list option \<Rightarrow> (raised + wsession list) \<Rightarrow> wsession list" where
  "resolve_open_sessions given listed = (case given of Some ss \<Rightarrow> ss | None \<Rightarrow> (case listed of Inl e \<Rightarrow> [] | Inr ss \<Rightarrow> ss))"

text \<open>The part of the decision that compares with open work.\<close>

definition route_scored :: "talk_host \<Rightarrow> string \<Rightarrow> wsession list \<Rightarrow> route_decision" where
  "route_scored h text sessions =
     (if sessions = [] then route_to Create_New ''medium'' ((''no open sessions '' @ utf8 [0x2014]
       @ '' create_new_work'')) []
      else let scored = score_sessions h text sessions
           in if scored = [] \<or> fst (hd scored) \<le> 0 then route_to Create_New ''medium'' ''no similarity overlap with open sessions'' (top_candidates h scored)
              else let (top, s, why) = hd scored; second = (if 1 < length scored then fst (scored ! 1) else 0); cands = top_candidates h scored
                   in if top < th_round h ROUTE_SCORE_MEDIUM then route_to Create_New ''medium''
                        (''top similarity '' @ th_fixed2 h top @ ('' below medium threshold 0.25 '' @ utf8 [0x2014]
                          @ '' create_new_work'')) cands
                      else if th_round h ROUTE_SCORE_MEDIUM \<le> second \<and> th_round h (top - second) < th_round h SCORE_AMBIGUOUS_MARGIN
                        then route_to Ask_Which ''medium''
                          ((utf8 [0xC720, 0xC0AC, 0xD55C, 0x20, 0xD6C4, 0xBCF4, 0x20, 0x32, 0xAC74, 0x20, 0xC774,
                            0xC0C1, 0xC774, 0x20, 0xBE44, 0xC2B7, 0xD55C, 0x20, 0xC810, 0xC218, 0xB85C, 0x20,
                            0xB098, 0xC640, 0x20, 0xC5B4, 0xB290, 0x20, 0xC791, 0xC5C5, 0xC5D0, 0x20, 0xD569,
                            0xB958, 0xD560, 0xC9C0, 0x20, 0xC0AC, 0xC6A9, 0xC790, 0x20, 0xD655, 0xC778, 0xC774,
                            0x20, 0xD544, 0xC694, 0xD569, 0xB2C8, 0xB2E4] @ ''.'')) cands
                      else decision_from_session h s Join_Existing (if th_round h ROUTE_SCORE_HIGH \<le> top then ''high'' else ''medium'') why cands)"

definition decide_routing :: "talk_host \<Rightarrow> (string \<Rightarrow> raised + wsession option) \<Rightarrow> wsession list \<Rightarrow> int option \<Rightarrow> string \<Rightarrow> raised + route_decision" where
  "decide_routing h loader sessions thread_id p =
     (let text = wide_strip p
      in if text = [] then Inr (route_to Create_New ''low'' ((''empty prompt '' @ utf8 [0x2014]
        @ '' defaulting to create_new_work'')) [])
         else case explicit_session_request text of
           Some sid \<Rightarrow>
             (case loader sid of Inl e \<Rightarrow> Inl e
              | Inr (Some s) \<Rightarrow> Inr (decision_from_session h s Join_Existing ''high'' ((''explicit ''
                @ utf8 [0x27, 0xAE30, 0xC874, 0x20, 0xC138, 0xC158] @ '' '') @ sid @ '' override'') [])
              | Inr None \<Rightarrow> Inr (route_to Ask_Which ''low'' ((utf8 [0xC0AC, 0xC6A9, 0xC790, 0xAC00,
                0x20, 0xAE30, 0xC874, 0x20, 0xC138, 0xC158] @ '' `'') @ sid
                  @ (''`'' @ utf8 [0xB97C, 0x20, 0xC9C0, 0xBAA9, 0xD588, 0xC9C0, 0xB9CC, 0x20, 0xD574, 0xB2F9,
                    0x20, 0xC138, 0xC158, 0xC744, 0x20, 0xCC3E, 0xC9C0, 0x20, 0xBABB, 0xD588, 0xC2B5, 0xB2C8,
                    0xB2E4, 0x2E, 0x20, 0xC138, 0xC158] @ '' ID'' @ utf8 [0xB97C, 0x20, 0xB2E4, 0xC2DC, 0x20,
                    0xD655, 0xC778, 0xD558, 0xAC70, 0xB098, 0x20, 0xC0C8, 0x20, 0xC791, 0xC5C5, 0xC73C, 0xB85C,
                    0x20, 0xC9C4, 0xD589, 0xD558, 0xC138, 0xC694] @ ''.'')) []))
         | None \<Rightarrow> Inr
             (if explicit_new_work h text then route_to Create_New ''high'' ((''explicit '' @ utf8 [0x27, 0xC0C8,
               0x20, 0xC791, 0xC5C5, 0xC73C, 0xB85C, 0x20, 0xC9C4, 0xD589, 0x27] @ '' override'')) []
              else case (case thread_id of None \<Rightarrow> None | Some t \<Rightarrow> find (\<lambda>s. ws_thread_id s = Some t) sessions) of
                Some s \<Rightarrow> decision_from_session h s Join_Existing ''high''
                  ((''thread anchor '' @ utf8 [0x2014] @ '' session.thread_id='') @ show_int (the thread_id)) []
              | None \<Rightarrow>
                  if explicit_append_context h text then
                    (case sessions of s # _ \<Rightarrow> decision_from_session h s Append_Only ''medium'' ((''explicit '' @ utf8 [0x27, 0xC774, 0x20, 0xC790, 0xB8CC, 0xB9CC, 0x20, 0xAE30, 0xC874, 0x20, 0xC791, 0xC5C5, 0xC5D0, 0x20, 0xCC38, 0xACE0, 0xB85C, 0x20, 0xBD99, 0xC5EC, 0xC918, 0x27])) []
                     | [] \<Rightarrow> route_to Create_New ''medium'' ((''context append '' @ utf8 [0xC694,
                       0xCCAD, 0xC744, 0x20, 0xBC1B, 0xC558, 0xC9C0, 0xB9CC, 0x20, 0xC5F4, 0xB9B0, 0x20, 0xC791,
                       0xC5C5, 0xC774, 0x20, 0xC5C6, 0xC5B4, 0x20, 0xC0C8, 0x20, 0xC791, 0xC5C5, 0xC73C, 0xB85C,
                       0x20, 0xC2DC, 0xC791, 0xD569, 0xB2C8, 0xB2E4] @ ''.'')) [])
                  else route_scored h text sessions))"

end
