(* ===== verification/RoutingProps.thy ===== *)
theory RoutingProps
  imports AgentRuntimeProps Routing
begin

text \<open>
  What the routing of a request guarantees (\<open>routing.py\<close>): each of the four routes, and the error, for exactly the
  requests it is meant for.
\<close>

section \<open>Ranking\<close>










text \<open>A decision: what to do, with which session, how sure, and the sessions offered.\<close>

definition decided :: "route_decision \<Rightarrow> route_action \<Rightarrow> wsession option \<Rightarrow> string \<Rightarrow> (string \<times> real) list \<Rightarrow> bool" where
  "decided r a s conf offered \<longleftrightarrow> ro_action r = a \<and> ro_confidence r = conf
     \<and> ro_session_id r = map_option ws_id s \<and> ro_thread_id r = Option.bind s ws_thread_id
     \<and> map (\<lambda>c. (rk_session_id c, rk_score c)) (ro_candidates r) = offered"

lemma decided_simps [simp]:
  "decided (route_to a conf why cs) a' w conf' offered \<longleftrightarrow> a = a' \<and> conf = conf' \<and> w = None
     \<and> map (\<lambda>c. (rk_session_id c, rk_score c)) cs = offered"
  "decided (decision_from_session h s a conf why cs) a' (Some s) conf' offered \<longleftrightarrow> a = a' \<and> conf = conf'
     \<and> map (\<lambda>c. (rk_session_id c, rk_score c)) cs = offered"
  by (auto simp: decided_def route_to_def decision_from_session_def)




section \<open>The decision\<close>




end
