(* ===== verification/Clarify.thy ===== *)
theory Clarify
  imports Routing
begin

text \<open>
  The small predicates of the engineering channel: phrases about coding and research (\<open>phrase_detect.py\<close>), signals of
  confirmation and continuation (\<open>intent_detection.py\<close>), and the memory of a question the gateway has asked, with
  the reading of the answer (\<open>engineering/clarification.py\<close>).
\<close>

section \<open>Phrases\<close>

definition NO_CODING_INTENT_PHRASES :: "string list" where
  "NO_CODING_INTENT_PHRASES = [
    (utf8 [0xCF54, 0xB4DC, 0x20, 0xC218, 0xC815, 0xD558, 0xC9C0, 0x20, 0xB9D0]),
    (utf8 [0xCF54, 0xB4DC, 0x20, 0xC218, 0xC815, 0x20, 0xD558, 0xC9C0, 0x20, 0xB9D0]),
    (utf8 [0xCF54, 0xB4DC, 0x20, 0xC218, 0xC815, 0x20, 0xAE08, 0xC9C0]),
    (utf8 [0xC218, 0xC815, 0xD558, 0xC9C0, 0x20, 0xB9D0, 0xACE0, 0x20, 0xB9AC, 0xC11C, 0xCE58]),
    (utf8 [0xC218, 0xC815, 0x20, 0xD558, 0xC9C0, 0x20, 0xB9D0, 0xACE0, 0x20, 0xB9AC, 0xC11C, 0xCE58]),
    (utf8 [0xC218, 0xC815, 0xD558, 0xC9C0, 0x20, 0xB9D0, 0xACE0, 0x20, 0xC870, 0xC0AC]),
    (utf8 [0xB9AC, 0xC11C, 0xCE58, 0xB9CC, 0x20, 0xD574]),
    (utf8 [0xB9AC, 0xC11C, 0xCE58, 0xB9CC, 0x20, 0xC815, 0xB9AC]), (utf8 [0xC870, 0xC0AC, 0xB9CC, 0x20, 0xD574]),
    (utf8 [0xC870, 0xC0AC, 0xB9CC, 0x20, 0xC815, 0xB9AC]),
    (utf8 [0xCF54, 0xB4DC, 0x20, 0xBCC0, 0xACBD, 0x20, 0xD558, 0xC9C0, 0x20, 0xB9D0]),
    (utf8 [0xCF54, 0xB4DC, 0x20, 0xBCC0, 0xACBD, 0xD558, 0xC9C0, 0x20, 0xB9D0]),
    (utf8 [0xCF54, 0xB529, 0x20, 0xD558, 0xC9C0, 0x20, 0xB9D0, 0xACE0]),
    (utf8 [0xCF54, 0xB529, 0xD558, 0xC9C0, 0x20, 0xB9D0, 0xACE0]), ''no code change'', ''research only'']"

definition SOFT_RESEARCH_PHRASES :: "string list" where
  "SOFT_RESEARCH_PHRASES = [
    (utf8 [0xCF54, 0xB4DC, 0x20, 0xC218, 0xC815, 0x20, 0xC5C6, 0xC774]), (utf8 [0xCF54, 0xB4DC, 0x20, 0xC218,
      0xC815, 0xC5C6, 0xC774]), (utf8 [0xCF54, 0xB4DC, 0x20, 0xC218, 0xC815, 0xC740, 0x20, 0xC5C6]), (utf8 [0xC218,
      0xC815, 0x20, 0xC5C6, 0xC774, 0x20, 0xC790, 0xB8CC]), (utf8 [0xC790, 0xB8CC, 0x20, 0xC218, 0xC9D1, 0xC774,
      0x20, 0xBAA9, 0xD45C]), (utf8 [0xC790, 0xB8CC, 0xC218, 0xC9D1, 0xC774, 0x20, 0xBAA9, 0xD45C]), (utf8 [0xC790,
      0xB8CC, 0x20, 0xC218, 0xC9D1, 0xB9CC]), (utf8 [0xC790, 0xB8CC, 0xC218, 0xC9D1, 0xB9CC]), (utf8 [0xC870,
      0xC0AC, 0xD574, 0xC918]), (utf8 [0xC870, 0xC0AC, 0x20, 0xD574, 0xC918]), (utf8 [0xB9AC, 0xC11C, 0xCE58,
      0xD574, 0xC918]), (utf8 [0xB9AC, 0xC11C, 0xCE58, 0x20, 0xD574, 0xC918]), (utf8 [0xC815, 0xB9AC, 0xAE4C,
      0xC9C0, 0xB9CC]), (utf8 [0xC815, 0xB9AC, 0x20, 0xAE4C, 0xC9C0, 0xB9CC]), ''research-only'']"

definition RESEARCH_ONLY_PHRASES :: "string list" where
  "RESEARCH_ONLY_PHRASES = NO_CODING_INTENT_PHRASES @ SOFT_RESEARCH_PHRASES"

definition CONTINUATION_RESEARCH_KEYWORDS :: "string list" where
  "CONTINUATION_RESEARCH_KEYWORDS = [
    ''[research]'', (''['' @ utf8 [0xB9AC, 0xC11C, 0xCE58] @ '']''),
    (utf8 [0xC6B4, 0xC601, 0x2D, 0xB9AC, 0xC11C, 0xCE58]), (utf8 [0xC6B4, 0xC601, 0x20, 0xB9AC, 0xC11C, 0xCE58]),
    (utf8 [0xB9AC, 0xC11C, 0xCE58]), (utf8 [0xC870, 0xC0AC]), (utf8 [0xC790, 0xB8CC, 0x20, 0xBAA8, 0xC544]),
    (utf8 [0xC790, 0xB8CC, 0x20, 0xBAA8, 0xC9D1]), (utf8 [0xC790, 0xB8CC, 0x20, 0xC815, 0xB9AC]),
    (utf8 [0xC790, 0xB8CC, 0x20, 0xC880]), ''research'']"

definition CODING_PROPOSAL_REQUEST_PHRASES :: "string list" where
  "CODING_PROPOSAL_REQUEST_PHRASES = [
    (utf8 [0xCF54, 0xB529, 0x20, 0xAD8C, 0xD55C, 0x20, 0xC81C, 0xC548]),
    (utf8 [0xC218, 0xC815, 0x20, 0xAD8C, 0xD55C, 0x20, 0xC81C, 0xC548]),
    (utf8 [0xAD6C, 0xD604, 0x20, 0xAD8C, 0xD55C, 0x20, 0xC81C, 0xC548]),
    (utf8 [0xCF54, 0xB529, 0x20, 0xAD8C, 0xD55C, 0x20, 0xC815, 0xB9AC]),
    (utf8 [0xC218, 0xC815, 0x20, 0xAD8C, 0xD55C, 0x20, 0xC815, 0xB9AC]),
    (utf8 [0xCF54, 0xB529, 0x20, 0xAD8C, 0xD55C, 0x20, 0xBC1B, 0xC790]),
    (utf8 [0xCF54, 0xB529, 0x20, 0xAD8C, 0xD55C, 0x20, 0xC7A1, 0xC790]),
    (utf8 [0xC774, 0x20, 0xC791, 0xC5C5, 0x20, 0xCF54, 0xB529, 0x20, 0xAD8C, 0xD55C]),
    (utf8 [0xC774, 0x20, 0xC791, 0xC5C5, 0x20, 0xC218, 0xC815, 0x20, 0xAD8C, 0xD55C]),
    (utf8 [0xC774, 0x20, 0xC791, 0xC5C5, 0x20, 0xAD6C, 0xD604, 0x20, 0xAD8C, 0xD55C]),
    (utf8 [0xCF54, 0xB529, 0x20, 0xAD8C, 0xD55C, 0x20, 0xB9CC, 0xB4E4]), ''approval_required'',
    ''full_stack_single_repo'', ''full-stack-single-repo'', ''single_repo'', ''single-repo'', ''single_scope'',
    ''single-scope'', (utf8 [0xCF54, 0xB529, 0xC73C, 0xB85C, 0x20, 0xC9C4, 0xD589]),
    (utf8 [0xAD6C, 0xD604, 0xC73C, 0xB85C, 0x20, 0xC9C4, 0xD589]),
    (utf8 [0xD480, 0xC2A4, 0xD0DD, 0xC73C, 0xB85C, 0x20, 0xC9C4, 0xD589])]"

definition CODING_APPROVAL_PHRASES :: "string list" where
  "CODING_APPROVAL_PHRASES = [
    (utf8 [0xC218, 0xC815, 0x20, 0xC2B9, 0xC778]),
    (utf8 [0xCF54, 0xB529, 0x20, 0xC9C4, 0xD589, 0x20, 0xC2B9, 0xC778]),
    (utf8 [0xCF54, 0xB529, 0x20, 0xC2B9, 0xC778]),
    (utf8 [0xAD6C, 0xD604, 0x20, 0xC9C4, 0xD589, 0x20, 0xC2B9, 0xC778]),
    (utf8 [0xAD6C, 0xD604, 0x20, 0xC2B9, 0xC778]),
    (utf8 [0xC774, 0xB300, 0xB85C, 0x20, 0xAD6C, 0xD604, 0x20, 0xC9C4, 0xD589]),
    (utf8 [0xC774, 0xB300, 0xB85C, 0x20, 0xCF54, 0xB529, 0x20, 0xC9C4, 0xD589]),
    (utf8 [0xAD6C, 0xD604, 0x20, 0xC2DC, 0xC791]), (utf8 [0xCF54, 0xB529, 0x20, 0xC2DC, 0xC791]),
    (utf8 [0xAD8C, 0xD55C, 0x20, 0xC2B9, 0xC778])]"

definition says_any :: "talk_host \<Rightarrow> string list \<Rightarrow> string \<Rightarrow> bool" where
  "says_any h ks s \<longleftrightarrow> s \<noteq> [] \<and> any_in (squeeze (th_lower h s)) ks"

definition user_explicitly_blocked_coding :: "talk_host \<Rightarrow> string \<Rightarrow> bool" where
  "user_explicitly_blocked_coding h s = says_any h NO_CODING_INTENT_PHRASES s"

definition is_research_only_prompt :: "talk_host \<Rightarrow> string \<Rightarrow> bool" where
  "is_research_only_prompt h s = says_any h RESEARCH_ONLY_PHRASES s"

definition continuation_requests_research :: "talk_host \<Rightarrow> string \<Rightarrow> bool" where
  "continuation_requests_research h s = says_any h CONTINUATION_RESEARCH_KEYWORDS s"

definition is_coding_proposal_request :: "talk_host \<Rightarrow> string \<Rightarrow> bool" where
  "is_coding_proposal_request h s = says_any h CODING_PROPOSAL_REQUEST_PHRASES s"

definition is_coding_approval_phrase :: "talk_host \<Rightarrow> string \<Rightarrow> bool" where
  "is_coding_approval_phrase h s = says_any h CODING_APPROVAL_PHRASES s"

definition CONFIRMATION_KEYWORDS :: "string list" where
  "CONFIRMATION_KEYWORDS = [
    (utf8 [0xD655, 0xC815]), (utf8 [0xC9C4, 0xD589]), (utf8 [0xC2DC, 0xC791, 0xD574]),
    (utf8 [0xC2DC, 0xC791, 0xD558, 0xC790]), (utf8 [0xC2DC, 0xC791, 0xD560, 0xAC8C]),
    (utf8 [0xC2DC, 0xC791, 0xD569, 0xC2DC, 0xB2E4]), (utf8 [0xACE0, 0xACE0]), (utf8 [0x3131, 0x3131]),
    (utf8 [0x3131, 0x3131, 0x3131]), (utf8 [0xB9DE, 0xC544, 0x20, 0xC9C4, 0xD589]),
    (utf8 [0xADF8, 0xB300, 0xB85C, 0x20, 0xC9C4, 0xD589]), (utf8 [0xADF8, 0xB300, 0xB85C, 0x20, 0xAC00]),
    (utf8 [0xC624, 0xCF00, 0xC774, 0x20, 0xC9C4, 0xD589]), (utf8 [0xC624, 0xCF00, 0x20, 0xC9C4, 0xD589]),
    ''go ahead'', ''let's go'', ''lets go'', ''kick off'', ''kickoff'', ''proceed'', ''approve and start'']"

definition detect_confirmation_signal :: "talk_host \<Rightarrow> string \<Rightarrow> bool" where
  "detect_confirmation_signal h s = says_any h CONFIRMATION_KEYWORDS s"

definition CONTINUATION_SIGNALS :: "string list" where
  "CONTINUATION_SIGNALS = [
    (utf8 [0xC0C8, 0xB85C, 0x20, 0xB4F1, 0xB85D, 0xD558, 0xC9C0, 0x20, 0xB9D0, 0xACE0]), (utf8 [0xC0C8, 0xB85C,
      0x20, 0xB9CC, 0xB4E4, 0xC9C0, 0x20, 0xB9D0, 0xACE0]), (utf8 [0xC0C8, 0x20, 0xC2A4, 0xB808, 0xB4DC, 0x20,
      0xB9CC, 0xB4E4, 0xC9C0]), (utf8 [0xC0C8] @ '' thread '' @ utf8 [0xB9CC, 0xB4E4, 0xC9C0]), (utf8 [0xC0C8,
      0xB85C, 0xC6B4, 0x20, 0xC2A4, 0xB808, 0xB4DC]), (utf8 [0xC0C8] @ '' thread''), (utf8 [0xAE30, 0xC874, 0x20,
      0xC2A4, 0xB808, 0xB4DC]), (utf8 [0xAE30, 0xC874] @ '' thread''), (utf8 [0xC5F4, 0xB824, 0x20, 0xC788, 0xB294,
      0x20, 0xC2A4, 0xB808, 0xB4DC]), (utf8 [0xC5F4, 0xB824, 0xC788, 0xB294, 0x20, 0xC2A4, 0xB808,
      0xB4DC]), (utf8 [0xC5F4, 0xB824, 0x20, 0xC788, 0xB294] @ '' thread''), (utf8 [0xC5F4, 0xB824, 0xC788, 0xB294]
      @ '' thread''), (utf8 [0xC774, 0xC5B4, 0xAC00]), (utf8 [0xC774, 0xC5B4, 0x20, 0xAC00]), (utf8 [0xC774,
      0xC5B4,
      0xC11C]), ''continue existing'', ''reuse thread'', ''same thread'', ''do not create a new thread'', ''don't create a new thread'']"

definition should_continue_existing_thread :: "talk_host \<Rightarrow> string list \<Rightarrow> bool" where
  "should_continue_existing_thread h texts =
     (let n = py_join '' '' (map (\<lambda>s. squeeze (th_lower h s)) texts) in wide_strip n \<noteq> [] \<and> any_in n CONTINUATION_SIGNALS)"

definition FORCE_NEW_SIGNALS :: "string list" where
  "FORCE_NEW_SIGNALS = [
    (utf8 [0xC0C8, 0x20, 0xC791, 0xC5C5, 0xC73C, 0xB85C, 0x20, 0xC9C4, 0xD589]), (utf8 [0xC0C8, 0x20, 0xC791,
      0xC5C5, 0xC73C, 0xB85C, 0x20, 0xC2DC, 0xC791]), (utf8 [0xC0C8, 0xB85C, 0x20, 0xB4F1, 0xB85D,
      0xD574]), (utf8 [0xC0C8, 0xB85C, 0x20, 0xB4F1, 0xB85D]), (utf8 [0xC0C8, 0x20, 0xC2A4, 0xB808, 0xB4DC,
      0xB85C]), (utf8 [0xC0C8] @ '' thread'' @ utf8 [0xB85C]), (utf8 [0xC0C8, 0x20, 0xC138, 0xC158, 0xC73C,
      0xB85C]), ''new thread'', ''new session'']"

definition should_start_new_thread :: "talk_host \<Rightarrow> string \<Rightarrow> bool" where
  "should_start_new_thread h s = (let n = squeeze (th_lower h s) in n \<noteq> [] \<and> any_in n FORCE_NEW_SIGNALS)"

section \<open>Messages\<close>

text \<open>A Discord message as the router reads it; a thread has a parent, given by its id, its name or both.\<close>

record message =
  ms_channel_id :: "int option"
  ms_channel_name :: "string option"
  ms_has_parent :: bool
  ms_parent_id :: "int option"
  ms_parent_name :: "string option"
  ms_author_id :: "int option"
  ms_id :: "int option"

text \<open>\<open>channel.parent.id or channel.parent_id\<close> is one field, since Discord gives both or none. Is this a thread?\<close>

definition in_thread :: "message \<Rightarrow> bool" where
  "in_thread m \<longleftrightarrow> ms_parent_id m \<noteq> None \<or> ms_has_parent m"

definition thread_id_for_runtime :: "message \<Rightarrow> int option" where
  "thread_id_for_runtime m = (if in_thread m then ms_channel_id m else None)"

record route_context =
  rx_channel_id :: "int option"
  rx_channel_name :: "string option"
  rx_recall_first :: bool

definition normalize_channel_name :: "talk_host \<Rightarrow> string option \<Rightarrow> string" where
  "normalize_channel_name h n = (case n of None \<Rightarrow> [] | Some s \<Rightarrow> th_lower h (dropWhile (\<lambda>c. c = CHR ''#'') (wide_strip s)))"

definition configured :: "talk_host \<Rightarrow> route_context \<Rightarrow> bool" where
  "configured h rx \<longleftrightarrow> rx_channel_id rx \<noteq> None \<or> normalize_channel_name h (rx_channel_name rx) \<noteq> []"

definition is_engineering_channel :: "talk_host \<Rightarrow> message \<Rightarrow> route_context \<Rightarrow> bool" where
  "is_engineering_channel h m rx \<longleftrightarrow> configured h rx
     \<and> (rx_channel_id rx \<noteq> None \<and> (ms_channel_id m = rx_channel_id rx \<or> ms_parent_id m = rx_channel_id rx)
        \<or> (let target = normalize_channel_name h (rx_channel_name rx)
           in target \<noteq> [] \<and> (normalize_channel_name h (ms_channel_name m) = target \<or> normalize_channel_name h (ms_parent_name m) = target)))"

section \<open>Questions asked\<close>

definition CLARIFICATION_CACHE_TTL_SECONDS :: int where
  "CLARIFICATION_CACHE_TTL_SECONDS = 1800"

type_synonym cache_key = "int option \<times> int option"

record choice =
  ch_session_id :: string
  ch_title :: string
  ch_score :: pyfloat
  ch_thread_id :: "int option"
  ch_forum_thread_id :: "int option"
  ch_task_type :: "string option"

record question =
  qu_candidates :: "choice list"
  qu_canonical :: "string option"
  qu_created_at :: pyfloat

type_synonym cache = "cache_key \<Rightarrow> question option"

definition clarification_context_key :: "message \<Rightarrow> cache_key" where
  "clarification_context_key m = (ms_channel_id m, ms_author_id m)"

definition choice_of_candidate :: "candidate \<Rightarrow> choice" where
  "choice_of_candidate c = \<lparr>ch_session_id = ca_session_id c, ch_title = ca_title c, ch_score = ca_score c, ch_thread_id = ca_thread_id c,
     ch_forum_thread_id = ca_forum_thread_id c, ch_task_type = ca_task_type c\<rparr>"

definition choice_of_route :: "route_candidate \<Rightarrow> choice" where
  "choice_of_route c = \<lparr>ch_session_id = rk_session_id c, ch_title = rk_title c, ch_score = rk_score c, ch_thread_id = rk_thread_id c,
     ch_forum_thread_id = rk_forum_thread_id c, ch_task_type = Some (rk_task_type c)\<rparr>"

text \<open>
  An entry without candidates or without a prompt lacks the key; an empty list and \<open>None\<close> stand for that. A time of
  zero counts as none.
\<close>

definition remember_clarification_candidates :: "real \<Rightarrow> message \<Rightarrow> choice list \<Rightarrow> string option \<Rightarrow> cache \<Rightarrow> cache" where
  "remember_clarification_candidates now m cs canonical cache =
     (if cs = [] \<and> canonical = None then cache
      else let key = clarification_context_key m; old = cache key;
               kept = filter (\<lambda>c. ch_session_id c \<noteq> []) (take 5 cs);
               cs = (if kept \<noteq> [] then kept else case old of Some q \<Rightarrow> qu_candidates q | None \<Rightarrow> []);
               p = (case canonical of Some s \<Rightarrow> (let t = wide_strip s in if t = [] then None else Some t)
                    | None \<Rightarrow> (case old of Some q \<Rightarrow> qu_canonical q | None \<Rightarrow> None))
           in if cs = [] \<and> p = None then cache
              else cache(key \<mapsto> \<lparr>qu_candidates = cs, qu_canonical = p,
                qu_created_at = (case old of Some q \<Rightarrow> if qu_created_at q \<noteq> 0 then qu_created_at q else now | None \<Rightarrow> now)\<rparr>))"

text \<open>A read drops an entry that is too old.\<close>

definition fetch_fresh_cache_entry :: "real \<Rightarrow> cache_key \<Rightarrow> cache \<Rightarrow> question option \<times> cache" where
  "fetch_fresh_cache_entry now key cache = (case cache key of None \<Rightarrow> (None, cache)
     | Some q \<Rightarrow> if real_of_int CLARIFICATION_CACHE_TTL_SECONDS < now - qu_created_at q then (None, cache(key := None)) else (Some q, cache))"

definition recall_clarification_candidates :: "real \<Rightarrow> message \<Rightarrow> cache \<Rightarrow> choice list \<times> cache" where
  "recall_clarification_candidates now m cache =
     (let (q, cache) = fetch_fresh_cache_entry now (clarification_context_key m) cache
      in (case q of Some q \<Rightarrow> qu_candidates q | None \<Rightarrow> [], cache))"

definition recall_clarification_canonical_prompt :: "real \<Rightarrow> message \<Rightarrow> cache \<Rightarrow> string option \<times> cache" where
  "recall_clarification_canonical_prompt now m cache =
     (let (q, cache) = fetch_fresh_cache_entry now (clarification_context_key m) cache
      in (case q of Some q \<Rightarrow> (case qu_canonical q of Some p \<Rightarrow> (let t = wide_strip p in if t = [] then None else Some t) | None \<Rightarrow> None)
            | None \<Rightarrow> None, cache))"

definition clear_clarification_context :: "message \<Rightarrow> cache \<Rightarrow> cache" where
  "clear_clarification_context m cache = cache(clarification_context_key m := None)"

section \<open>The answer\<close>

definition ORDINAL_KO_PREFIXES :: "(string \<times> nat) list" where
  "ORDINAL_KO_PREFIXES = [
    ((utf8 [0xCCAB, 0xBC88, 0xC9F8]), 1), ((utf8 [0xCCAB, 0x20, 0xBC88, 0xC9F8]), 1), ((utf8 [0xCCAB,
      0xC9F8]), 1), ((utf8 [0xB450, 0xBC88, 0xC9F8]), 2), ((utf8 [0xB450, 0x20, 0xBC88,
      0xC9F8]), 2), ((utf8 [0xB458, 0xC9F8]), 2), ((utf8 [0xC138, 0xBC88, 0xC9F8]), 3), ((utf8 [0xC138, 0x20,
      0xBC88, 0xC9F8]), 3), ((utf8 [0xC14B, 0xC9F8]), 3), ((utf8 [0xB124, 0xBC88, 0xC9F8]), 4), ((utf8 [0xB124,
      0x20, 0xBC88, 0xC9F8]), 4), ((utf8 [0xB137, 0xC9F8]), 4), ((utf8 [0xB2E4, 0xC12F, 0xBC88,
      0xC9F8]), 5), ((utf8 [0xB2E4, 0xC12F, 0x20, 0xBC88, 0xC9F8]), 5), ((utf8 [0xB2E4, 0xC12F, 0xC9F8]), 5)]"

definition DEMONSTRATIVE_SELECTION_PHRASES :: "string list" where
  "DEMONSTRATIVE_SELECTION_PHRASES = [
    (utf8 [0xC774, 0xAC78, 0xB85C]), (utf8 [0xC774, 0xAC70, 0xB85C]), (utf8 [0xC774, 0xAC78, 0xB8E8]),
    (utf8 [0xC774, 0xAC70]), (utf8 [0xC800, 0xAC78, 0xB85C]), (utf8 [0xADF8, 0xAC78, 0xB85C]),
    (utf8 [0xC704, 0xC5D0, 0x20, 0xAC70]), (utf8 [0xC704, 0xC5D0, 0xAC70]), (utf8 [0xC704, 0x20, 0xAC70]),
    (utf8 [0xC704, 0x20, 0xAC83]), (utf8 [0xBC29, 0xAE08, 0x20, 0xADF8, 0xAC70]),
    (utf8 [0xBC29, 0xAE08, 0x20, 0xADF8, 0xAC83]), (utf8 [0xBC29, 0xAE08, 0x20, 0xAC70]),
    (utf8 [0xAE30, 0xC874, 0x20, 0xC138, 0xC158, 0xC73C, 0xB85C, 0x20, 0xC9C4, 0xD589]),
    (utf8 [0xAE30, 0xC874, 0x20, 0xC791, 0xC5C5, 0xC73C, 0xB85C, 0x20, 0xC9C4, 0xD589])]"

definition NEW_WORK_SELECTION_PHRASES :: "string list" where
  "NEW_WORK_SELECTION_PHRASES = [
    (utf8 [0xC0C8, 0x20, 0xC791, 0xC5C5, 0xC73C, 0xB85C, 0x20, 0xC9C4, 0xD589]),
    (utf8 [0xC0C8, 0x20, 0xC791, 0xC5C5, 0xC73C, 0xB85C, 0x20, 0xB4F1, 0xB85D]),
    (utf8 [0xC0C8, 0x20, 0xC791, 0xC5C5, 0xC73C, 0xB85C, 0x20, 0xC2DC, 0xC791]),
    (utf8 [0xC0C8, 0x20, 0xC791, 0xC5C5, 0x20, 0xB9CC, 0xB4E4, 0xC5B4]),
    (utf8 [0xC0C8, 0x20, 0xC138, 0xC158, 0xC73C, 0xB85C, 0x20, 0xC9C4, 0xD589]),
    (utf8 [0xC0C8, 0x20, 0xC138, 0xC158, 0xC73C, 0xB85C, 0x20, 0xB4F1, 0xB85D]),
    (utf8 [0xC0C8] @ '' thread'' @ utf8 [0xB85C]), (utf8 [0xC0C8, 0x20, 0xC2A4, 0xB808, 0xB4DC, 0xB85C]),
    ''create new work'', ''create a new task'', ''start a new session'', ''new thread'', ''new session'']"

text \<open>A decimal digit of any script, as \<open>\d\<close> and \<open>int\<close> read it; the host knows those outside ASCII.\<close>

definition digit_value :: "talk_host \<Rightarrow> string \<Rightarrow> nat option" where
  "digit_value h c = (let n = code_point c in if 48 \<le> n \<and> n \<le> 57 then Some (n - 48) else if n < 128 then None else th_digit h c)"

definition number_ends :: "string list \<Rightarrow> bool" where
  "number_ends cs \<longleftrightarrow> dropWhile space_char (drop_one (\<lambda>c. c = ''.'') (dropWhile space_char cs)) = []"

text \<open>The pattern of a bare number: one or two digits, a counting word or none, a full stop or none.\<close>

definition NUMBER_WORDS :: "string list" where
  "NUMBER_WORDS = [(utf8 [0xBC88]), (utf8 [0xBC88, 0xC9F8]), (utf8 [0xAC1C]), (utf8 [0xC704, 0xCE58]), []]"

definition numeric_selection :: "talk_host \<Rightarrow> string \<Rightarrow> nat option" where
  "numeric_selection h s =
     (let cs = dropWhile space_char (char_list s); ds = takeWhile (\<lambda>c. digit_value h c \<noteq> None) cs;
          rest = dropWhile space_char (drop (length ds) cs)
      in if ds \<noteq> [] \<and> length ds \<le> 2 \<and>
            (\<exists>w \<in> set NUMBER_WORDS. take (length (char_list w)) rest = char_list w \<and> number_ends (drop (length (char_list w)) rest))
         then Some (foldl (\<lambda>a c. a * 10 + the (digit_value h c)) 0 ds) else None)"

definition try_select_candidate :: "talk_host \<Rightarrow> string \<Rightarrow> choice list \<Rightarrow> choice option" where
  "try_select_candidate h s cs =
     (let t = th_lower h (wide_strip s)
      in if cs = [] \<or> t = [] then None
         else case numeric_selection h t of
           Some n \<Rightarrow> if 1 \<le> n \<and> n \<le> length cs then Some (cs ! (n - 1)) else None
         | None \<Rightarrow> (case find (\<lambda>(p, k). prefix p t \<and> k \<le> length cs) ORDINAL_KO_PREFIXES of
             Some (p, k) \<Rightarrow> Some (cs ! (k - 1))
           | None \<Rightarrow> if any_in t DEMONSTRATIVE_SELECTION_PHRASES \<and> length cs = 1 then Some (hd cs) else None))"

definition looks_like_new_work_selection :: "talk_host \<Rightarrow> string \<Rightarrow> bool" where
  "looks_like_new_work_selection h s =
     (let t = trim (\<lambda>c. c \<in> {'' '', ''.'', ''!'', ''?''}) (squeeze (th_lower h s)) in t \<noteq> [] \<and> any_in t NEW_WORK_SELECTION_PHRASES)"

end
