(* ===== verification/CodingAuth.thy ===== *)
theory CodingAuth
  imports Recall
begin

text \<open>
  Who may write code (\<open>coding/authorization.py\<close>) and the job the executor gets (\<open>coding/job.py\<close>): roles scored by the
  words of their profiles, the proposal shown to the user, its form in the session, and the prompt. The profiles
  (\<open>agents/engineering-agent/<role>/manifest.json\<close>, JSON objects) and the selection of research roles are arguments.
\<close>

section \<open>Roles\<close>

definition EXECUTOR_CANDIDATE_ROLES :: "string list" where
  "EXECUTOR_CANDIDATE_ROLES = [
    ''backend-engineer'', ''frontend-engineer'', ''ai-engineer'', ''devops-engineer'', ''qa-engineer'',
    ''product-designer'']"

definition DEFAULT_PARTICIPANT_PRIORITY :: "string list" where
  "DEFAULT_PARTICIPANT_PRIORITY = [
    ''backend-engineer'', ''ai-engineer'', ''devops-engineer'', ''frontend-engineer'', ''qa-engineer'',
    ''product-designer'']"

text \<open>The profile of a role: \<open>None\<close> if there is no such file; reading it may raise.\<close>

type_synonym profile_loader = "string \<Rightarrow> raised + json pydict option"

fun raised_text :: "raised \<Rightarrow> string" where
  "raised_text (Type_Error e) = e"
| "raised_text (Other_Error e) = e"

definition LIFECYCLE_MODE_IMPLEMENTATION :: string where "LIFECYCLE_MODE_IMPLEMENTATION = ''implementation''"
definition LIFECYCLE_MODE_RESEARCH_ONLY :: string where "LIFECYCLE_MODE_RESEARCH_ONLY = ''research_only''"

text \<open>The id of the session and the items of the lists come back from JSON as they are.\<close>

record proposal =
  cp_session_id :: json
  cp_user_request :: string
  cp_executor_role :: string
  cp_review_roles :: "json list"
  cp_participant_roles :: "json list"
  cp_write_scope :: "json list"
  cp_forbidden_scope :: "json list"
  cp_reason :: string
  cp_safety_rules :: "json list"
  cp_approval_required :: bool
  cp_metadata :: "json pydict"
  cp_lifecycle_mode :: string
  cp_research_leads :: "json list"

definition DEFAULT_SAFETY_RULES :: "string list" where
  "DEFAULT_SAFETY_RULES = [
    (utf8 [0xC0AC, 0xC6A9, 0xC790, 0x20, 0xC2B9, 0xC778] @ '' phrase'' @ utf8 [0xAC00, 0x20, 0xB3C4, 0xCC29,
      0xD558, 0xAE30, 0x20, 0xC804, 0x20, 0xC5B4, 0xB5A4] @ '' production write'' @ utf8 [0xB3C4, 0x20, 0xC2DC,
      0xC791, 0xD558, 0xC9C0, 0x20, 0xC54A, 0xB294, 0xB2E4]),
    (utf8 [0xC218, 0xC815, 0x20, 0xC804, 0x20, 0xC694, 0xC57D, 0xB41C, 0x20, 0xACC4, 0xD68D, 0xC744, 0x20, 0xBA3C,
      0xC800, 0x20, 0xC0AC, 0xC6A9, 0xC790, 0xC5D0, 0xAC8C, 0x20, 0xBCF4, 0xC5EC, 0x20, 0xC900, 0xB2E4]),
    (''agent '' @ utf8 [0xC790, 0xC728, 0x20, 0xAC00, 0xB2A5] @ '': secret '' @ utf8 [0xD0A4, 0x20, 0xC774, 0xB984,
      0x20, 0xC815, 0xC758] @ '', .env.example/compose/CI wiring, GitHub Actions secret '' @ utf8 [0xC774, 0xB984,
      0x20, 0xC81C, 0xC548, 0x2E, 0x20, 0xC2E4, 0xC81C] @ '' secret '' @ utf8 [0xAC12, 0x2F, 0xC800, 0xC7A5, 0x20,
      0xC704, 0xCE58, 0xB294] @ '' SECRET_REQUIRED '' @ utf8 [0xCE74, 0xB4DC, 0xB85C, 0x20, 0xC0AC, 0xB78C, 0xC5D0,
      0xAC8C, 0x20, 0xBC1B, 0xB294, 0xB2E4]),
    (''git reset --hard / git push --force / '' @ utf8 [0xC790, 0xB3D9] @ '' deploy '' @ utf8 [0xAC19, 0xC740]
      @ '' destructive '' @ utf8 [0xBA85, 0xB839, 0xC744, 0x20, 0xC2E4, 0xD589, 0xD558, 0xC9C0, 0x20, 0xC54A,
      0xB294, 0xB2E4]),
    (''write_scope '' @ utf8 [0xBC16, 0xC758, 0x20, 0xD30C, 0xC77C, 0xC744, 0x20, 0xC218, 0xC815, 0xD558, 0xC9C0,
      0x20, 0xC54A, 0xB294, 0xB2E4]),
    (utf8 [0xBCC0, 0xACBD, 0x20, 0xC804, 0xD6C4, 0x20, 0xAD00, 0xB828, 0x20, 0xB2E8, 0xC704, 0x2F, 0xD1B5, 0xD569,
      0x20, 0xD14C, 0xC2A4, 0xD2B8, 0xB97C, 0x20, 0xC2E4, 0xD589, 0xD558, 0xACE0, 0x20, 0xACB0, 0xACFC, 0xB97C,
      0x20, 0xBCF4, 0xACE0, 0xD55C, 0xB2E4]),
    (utf8 [0xC11C, 0xBC84] @ '' IP / SSH '' @ utf8 [0xC790, 0xACA9] @ '' / '' @ utf8 [0xC2E4, 0xC81C, 0x20, 0xB3C4,
      0xBA54, 0xC778] @ '' / '' @ utf8 [0xC6B4, 0xC601] @ '' DB endpoint / '' @ utf8 [0xD074, 0xB77C, 0xC6B0,
      0xB4DC, 0x20, 0xACC4, 0xC815, 0x20, 0xC2DD, 0xBCC4, 0xC790, 0xB294, 0x20, 0xCD94, 0xCE21, 0xD558, 0xC9C0,
      0x20, 0xC54A, 0xACE0] @ '' INFO_REQUIRED '' @ utf8 [0xB7] @ '' ACCESS_REQUIRED '' @ utf8 [0xCE74, 0xB4DC,
      0xB85C, 0x20, 0xC0AC, 0xB78C, 0xC5D0, 0xAC8C, 0x20, 0xBC1B, 0xB294, 0xB2E4]),
    (utf8 [0xC0AC, 0xB78C, 0x20, 0xC751, 0xB2F5, 0xC774, 0x20, 0xD544, 0xC694, 0xD55C, 0xB370, 0x20, 0x23, 0xC2B9,
      0xC778, 0x2D, 0xB300, 0xAE30, 0x20, 0xCE74, 0xB4DC, 0x20, 0xC5C6, 0xC774, 0x20, 0xC138, 0xC158, 0xC774, 0x20,
      0xBA48, 0xCD94, 0xB294, 0x20, 0xAC83, 0xC744, 0x20, 0xAE08, 0xC9C0, 0xD55C, 0xB2E4, 0x20, 0x2014, 0x20,
      0xBA48, 0xCD9C, 0x20, 0xB54C, 0xB294, 0x20, 0xBC18, 0xB4DC, 0xC2DC] @ '' operator action '' @ utf8 [0xCE74,
      0xB4DC, 0xB97C, 0x20, 0xAC8C, 0xC2DC, 0xD55C, 0xB2E4])]"

definition RESEARCH_ONLY_SAFETY_RULES :: "string list" where
  "RESEARCH_ONLY_SAFETY_RULES = [
    (utf8 [0xC870, 0xC0AC, 0x20, 0xB2E8, 0xACC4, 0xC5D0, 0xC11C, 0xB294, 0x20, 0xCF54, 0xB4DC, 0x2F, 0xBB38,
      0xC11C, 0x2F, 0xC124, 0xC815, 0x20, 0xC5B4, 0xB5A4, 0x20, 0xD30C, 0xC77C, 0xB3C4, 0x20, 0xC218, 0xC815,
      0xD558, 0xC9C0, 0x20, 0xC54A, 0xB294, 0xB2E4]),
    (''secret / .env / '' @ utf8 [0xC6B4, 0xC601, 0x20, 0xC790, 0xACA9, 0x20, 0xC99D, 0xBA85, 0xC5D0, 0x20, 0xC811,
      0xADFC, 0xD558, 0xC9C0, 0x20, 0xC54A, 0xB294, 0xB2E4]),
    (utf8 [0xC870, 0xC0AC, 0x20, 0xACB0, 0xACFC, 0xB294] @ '' research_pack'' @ utf8 [0xC5D0, 0x20, 0xAE30, 0xB85D,
      0xD558, 0xACE0, 0x20, 0xCD9C, 0xCC98] @ ''(URL '' @ utf8 [0xB610, 0xB294, 0x20, 0xB808, 0xD37C, 0xB7F0,
      0xC2A4, 0x29, 0xB97C, 0x20, 0xD568, 0xAED8, 0x20, 0xB0A8, 0xAE34, 0xB2E4]),
    (utf8 [0xAD6C, 0xD604, 0xC774, 0x20, 0xD544, 0xC694, 0xD574, 0xC9C0, 0xBA74, 0x20, 0xC0AC, 0xC6A9, 0xC790,
      0xAC00, 0x20, 0x27, 0xC218, 0xC815, 0x20, 0xAD8C, 0xD55C, 0x20, 0xC81C, 0xC548, 0x27, 0x20, 0xB610, 0xB294,
      0x20, 0x27, 0xAD6C, 0xD604, 0x20, 0xC9C4, 0xD589, 0x27, 0xC744, 0x20, 0xC694, 0xCCAD, 0xD560, 0x20, 0xB54C,
      0xAE4C, 0xC9C0, 0x20, 0xAE30, 0xB2E4, 0xB9B0, 0xB2E4])]"

definition AUTH_RESEARCH_ONLY_PHRASES :: "string list" where
  "AUTH_RESEARCH_ONLY_PHRASES = [
    (utf8 [0xCF54, 0xB4DC, 0x20, 0xC218, 0xC815, 0x20, 0xC5C6, 0xC774]),
    (utf8 [0xCF54, 0xB4DC, 0x20, 0xC218, 0xC815, 0xC5C6, 0xC774]),
    (utf8 [0xCF54, 0xB4DC, 0x20, 0xC218, 0xC815, 0xC740, 0x20, 0xC5C6]),
    (utf8 [0xCF54, 0xB4DC, 0x20, 0xC218, 0xC815, 0xD558, 0xC9C0, 0x20, 0xB9D0]),
    (utf8 [0xCF54, 0xB4DC, 0x20, 0xC218, 0xC815, 0x20, 0xD558, 0xC9C0, 0x20, 0xB9D0]),
    (utf8 [0xCF54, 0xB4DC, 0x20, 0xC218, 0xC815, 0x20, 0xAE08, 0xC9C0]),
    (utf8 [0xC218, 0xC815, 0x20, 0xC5C6, 0xC774, 0x20, 0xC790, 0xB8CC]),
    (utf8 [0xC218, 0xC815, 0xD558, 0xC9C0, 0x20, 0xB9D0, 0xACE0, 0x20, 0xB9AC, 0xC11C, 0xCE58]),
    (utf8 [0xC218, 0xC815, 0x20, 0xD558, 0xC9C0, 0x20, 0xB9D0, 0xACE0, 0x20, 0xB9AC, 0xC11C, 0xCE58]),
    (utf8 [0xC218, 0xC815, 0xD558, 0xC9C0, 0x20, 0xB9D0, 0xACE0, 0x20, 0xC870, 0xC0AC]),
    (utf8 [0xC790, 0xB8CC, 0x20, 0xC218, 0xC9D1, 0xC774, 0x20, 0xBAA9, 0xD45C]),
    (utf8 [0xC790, 0xB8CC, 0xC218, 0xC9D1, 0xC774, 0x20, 0xBAA9, 0xD45C]),
    (utf8 [0xC790, 0xB8CC, 0x20, 0xC218, 0xC9D1, 0xB9CC]), (utf8 [0xC790, 0xB8CC, 0xC218, 0xC9D1, 0xB9CC]),
    (utf8 [0xB9AC, 0xC11C, 0xCE58, 0xB9CC, 0x20, 0xD574]),
    (utf8 [0xB9AC, 0xC11C, 0xCE58, 0xB9CC, 0x20, 0xC815, 0xB9AC]), (utf8 [0xC870, 0xC0AC, 0xB9CC, 0x20, 0xD574]),
    (utf8 [0xC870, 0xC0AC, 0xB9CC, 0x20, 0xC815, 0xB9AC]), (utf8 [0xC870, 0xC0AC, 0xD574, 0xC918]),
    (utf8 [0xC870, 0xC0AC, 0x20, 0xD574, 0xC918]), (utf8 [0xB9AC, 0xC11C, 0xCE58, 0xD574, 0xC918]),
    (utf8 [0xB9AC, 0xC11C, 0xCE58, 0x20, 0xD574, 0xC918]), (utf8 [0xC815, 0xB9AC, 0xAE4C, 0xC9C0, 0xB9CC]),
    (utf8 [0xC815, 0xB9AC, 0x20, 0xAE4C, 0xC9C0, 0xB9CC]),
    (utf8 [0xCF54, 0xB529, 0x20, 0xD558, 0xC9C0, 0x20, 0xB9D0, 0xACE0]),
    (utf8 [0xCF54, 0xB529, 0xD558, 0xC9C0, 0x20, 0xB9D0, 0xACE0]), ''no code change'', ''research only'',
    ''research-only'']"

definition is_research_only_text :: "string \<Rightarrow> bool" where
  "is_research_only_text s \<longleftrightarrow> s \<noteq> [] \<and> any_in (squeeze s) AUTH_RESEARCH_ONLY_PHRASES"

section \<open>Scores\<close>

definition string_list :: "talk_host \<Rightarrow> json \<Rightarrow> string list" where
  "string_list h j = (case j of JStr s \<Rightarrow> [s] | JList xs \<Rightarrow> map (json_str (th_json h)) (filter (\<lambda>x. x \<noteq> JNull) xs) | _ \<Rightarrow> [])"

definition count_hits :: "talk_host \<Rightarrow> string list \<Rightarrow> string \<Rightarrow> nat" where
  "count_hits h ks hay = length (filter (\<lambda>k. k \<noteq> [] \<and> py_contains (th_lower h k) hay) ks)"

text \<open>Weights and counts are small: the float sums are exact, and multiples of a half.\<close>

definition score_executor :: "talk_host \<Rightarrow> json pydict \<Rightarrow> string \<Rightarrow> pyfloat" where
  "score_executor h p hay = (case dict_get p ''default_executor_priority'' of
     JObj b \<Rightarrow> 3 * real (count_hits h (string_list h (dict_get b ''high'')) hay)
       + 1.5 * real (count_hits h (string_list h (dict_get b ''medium'')) hay)
       - real (count_hits h (string_list h (dict_get b ''low'')) hay)
   | _ \<Rightarrow> 0)"

fun load_profiles :: "profile_loader \<Rightarrow> string list \<Rightarrow> raised + (string \<times> json pydict) list" where
  "load_profiles f [] = Inr []"
| "load_profiles f (r # rs) = (case f r of Inl e \<Rightarrow> Inl e
     | Inr p \<Rightarrow> (case load_profiles f rs of Inl e \<Rightarrow> Inl e
         | Inr ps \<Rightarrow> Inr (case p of None \<Rightarrow> ps | Some d \<Rightarrow> (r, d) # ps)))"

fun index_of :: "'a \<Rightarrow> 'a list \<Rightarrow> nat" where
  "index_of x [] = 0"
| "index_of x (y # ys) = (if y = x then 0 else Suc (index_of x ys))"

type_synonym scored_role = "pyfloat \<times> nat \<times> string"

text \<open>A higher score is better; equal scores go by the priority of the roles.\<close>

definition better_role :: "scored_role \<Rightarrow> scored_role \<Rightarrow> bool" where
  "better_role a b \<longleftrightarrow> fst b < fst a \<or> fst a = fst b \<and> fst (snd a) \<le> fst (snd b)"

definition scored_roles :: "talk_host \<Rightarrow> (string \<times> json pydict) list \<Rightarrow> string \<Rightarrow> scored_role list" where
  "scored_roles h ps hay = sort_by better_role (List.map_filter (\<lambda>r. map_option (\<lambda>p. (score_executor h p hay,
     index_of r DEFAULT_PARTICIPANT_PRIORITY, r)) (map_of ps r)) EXECUTOR_CANDIDATE_ROLES)"

definition positive_roles :: "scored_role list \<Rightarrow> string list" where
  "positive_roles scored = map (snd \<circ> snd) (filter (\<lambda>t. 0 < fst t) scored)"

definition research_leads :: "(string \<Rightarrow> string list option) \<Rightarrow> scored_role list \<Rightarrow> string \<Rightarrow> string list" where
  "research_leads active scored request =
     (let leads = dedup_onto (dedup (positive_roles scored)) (filter (\<lambda>r. r \<noteq> ''tech-lead'') (case active request of None \<Rightarrow> [] | Some rs \<Rightarrow> rs))
      in if leads = [] then [''backend-engineer''] else take 3 leads)"

definition scored_json :: "scored_role list \<Rightarrow> json" where
  "scored_json scored = JList (map (\<lambda>(x, _, r). JObj [(''role'', JStr r), (''score'', JNum x)]) scored)"

section \<open>The proposal\<close>

definition research_only_proposal :: "string \<Rightarrow> json \<Rightarrow> string list \<Rightarrow> scored_role list \<Rightarrow> proposal" where
  "research_only_proposal request sid leads scored =
     \<lparr>cp_session_id = sid, cp_user_request = request, cp_executor_role = [], cp_review_roles = [JStr ''tech-lead''],
      cp_participant_roles = JStr ''tech-lead'' # map JStr (filter (\<lambda>r. r \<noteq> ''tech-lead'') leads), cp_write_scope = [],
      cp_forbidden_scope = [JStr (utf8 [0xCF54, 0xB4DC, 0x2F, 0xBB38, 0xC11C, 0x2F, 0xC124, 0xC815, 0x20, 0xD30C,
        0xC77C, 0x20, 0xC218, 0xC815]), JStr (''secret / .env '' @ utf8 [0xC811, 0xADFC]), JStr (utf8 [0xC0AC,
        0xC6A9, 0xC790, 0x20, 0xC2B9, 0xC778, 0x20, 0xC5C6, 0xB294] @ '' destructive command'')],
      cp_reason = (''research-only '' @ utf8 [0xC694, 0xCCAD, 0x3A, 0x20, 0xC870, 0xC0AC, 0x20, 0xC911, 0xC2EC,
        0x20, 0xC5ED, 0xD560] @ '' '') @ (if leads \<noteq> [] then py_join '', '' leads else ''tech-lead'')
        @ ('' '' @ utf8 [0xAC00, 0x20, 0xC790, 0xB8CC, 0xB97C, 0x20, 0xC218, 0xC9D1, 0xD55C, 0xB2E4] @ ''. '')
          @ (utf8 [0xAD6C, 0xD604, 0xC774, 0x20, 0xD544, 0xC694, 0xD558, 0xBA74, 0x20, 0xC0AC, 0xC6A9, 0xC790,
          0xAC00, 0x20, 0xBCC4, 0xB3C4, 0xB85C, 0x20, 0x27, 0xC218, 0xC815, 0x20, 0xAD8C, 0xD55C, 0x20, 0xC81C,
          0xC548, 0x27, 0xC744, 0x20, 0xC694, 0xCCAD, 0xD574, 0xC57C, 0x20, 0xD55C, 0xB2E4] @ ''.''),
      cp_safety_rules = map JStr RESEARCH_ONLY_SAFETY_RULES, cp_approval_required = False,
      cp_metadata = [(''lifecycle_mode'', JStr LIFECYCLE_MODE_RESEARCH_ONLY), (''research_leads'', JList (map JStr leads)),
        (''scored_roles'', scored_json scored)],
      cp_lifecycle_mode = LIFECYCLE_MODE_RESEARCH_ONLY, cp_research_leads = map JStr leads\<rparr>"

definition fallback_proposal :: "string \<Rightarrow> json \<Rightarrow> string \<Rightarrow> proposal" where
  "fallback_proposal request sid why =
     \<lparr>cp_session_id = sid, cp_user_request = request, cp_executor_role = ''tech-lead'', cp_review_roles = [JStr ''tech-lead''],
      cp_participant_roles = [JStr ''tech-lead''], cp_write_scope = [],
      cp_forbidden_scope = [JStr (''production '' @ utf8 [0xCF54, 0xB4DC, 0x20, 0xC9C1, 0xC811, 0x20, 0xBCC0,
        0xACBD]), JStr (''secret / .env '' @ utf8 [0xC811, 0xADFC]), JStr (utf8 [0xC0AC, 0xC6A9, 0xC790, 0x20,
        0xC2B9, 0xC778, 0x20, 0xC5C6, 0xB294] @ '' destructive command'')],
      cp_reason = why, cp_safety_rules = map JStr DEFAULT_SAFETY_RULES, cp_approval_required = True, cp_metadata = [(''fallback'', JBool True)],
      cp_lifecycle_mode = LIFECYCLE_MODE_IMPLEMENTATION, cp_research_leads = []\<rparr>"

definition reviews :: "talk_host \<Rightarrow> (string \<times> json pydict) list \<Rightarrow> string \<Rightarrow> string \<Rightarrow> bool" where
  "reviews h ps hay r \<longleftrightarrow> (case map_of ps r of None \<Rightarrow> False
     | Some p \<Rightarrow> (case dict_get p ''default_reviewer_priority'' of
         JObj b \<Rightarrow> 0 < count_hits h (string_list h (dict_get b ''high'')) hay | _ \<Rightarrow> False))"

text \<open>The tech lead first, then the others by priority.\<close>

definition review_roles :: "talk_host \<Rightarrow> string \<Rightarrow> (string \<times> json pydict) list \<Rightarrow> string \<Rightarrow> string list" where
  "review_roles h executor ps hay =
     (let known = (\<lambda>r. map_of ps r \<noteq> None);
          review = (if known ''tech-lead'' then [''tech-lead''] else []) @ (if known ''qa-engineer'' \<and> executor \<noteq> ''qa-engineer'' then [''qa-engineer''] else []);
          review = review @ filter (\<lambda>r. r \<noteq> executor \<and> r \<notin> set review \<and> reviews h ps hay r) EXECUTOR_CANDIDATE_ROLES
      in (if ''tech-lead'' \<in> set review then [''tech-lead''] else []) @ filter (\<lambda>r. r \<in> set review) DEFAULT_PARTICIPANT_PRIORITY)"

definition participant_roles :: "string \<Rightarrow> string list \<Rightarrow> scored_role list \<Rightarrow> string list" where
  "participant_roles executor review scored = dedup_onto (dedup_onto [executor] review) (positive_roles scored)"

text \<open>\<open>f'{score:.1f}'\<close> of a positive multiple of a half.\<close>

definition score_text :: "pyfloat \<Rightarrow> string" where
  "score_text x = show_nat (nat \<lfloor>x\<rfloor>) @ (if x = real_of_int \<lfloor>x\<rfloor> then ''.0'' else ''.5'')"

definition format_reason :: "talk_host \<Rightarrow> string \<Rightarrow> string \<Rightarrow> pyfloat \<Rightarrow> string \<Rightarrow> json pydict \<Rightarrow> string" where
  "format_reason h role focus score hay p =
     (let high = (case dict_get p ''default_executor_priority'' of JObj b \<Rightarrow> string_list h (dict_get b ''high'') | _ \<Rightarrow> []);
          hits = filter (\<lambda>k. k \<noteq> [] \<and> py_contains (th_lower h k) hay) high; area = (if focus \<noteq> [] then focus else role)
      in if hits \<noteq> [] then role @ ('': '' @ utf8 [0x27]) @ area @ (utf8 [0x27, 0x20, 0xC601, 0xC5ED, 0xC758,
        0x20, 0xD575, 0xC2EC, 0x20, 0xD0A4, 0xC6CC, 0xB4DC] @ '' '') @ ''('' @ py_join '', '' (take 5 hits)
             @ ('')'' @ utf8 [0xAC00, 0x20, 0xC694, 0xCCAD, 0xC5D0, 0x20, 0xD3EC, 0xD568, 0xB418, 0xC5B4]
               @ '' executor'' @ utf8 [0xB85C, 0x20, 0xCD94, 0xCC9C] @ '' (score='') @ score_text score @ '')''
         else role @ ('': '' @ utf8 [0xB3C4, 0xBA54, 0xC778, 0x20, 0xB9E4, 0xCE6D, 0x20, 0xC810, 0xC218] @ '' '')
           @ score_text score @ (utf8 [0xB85C, 0x20, 0xAC00, 0xC7A5, 0x20, 0xB192, 0xC74C] @ '' '') @ ''('' @ area
           @ '')'')"

definition recommend_authorization :: "talk_host \<Rightarrow> profile_loader \<Rightarrow> (string \<Rightarrow> string list option) \<Rightarrow> string \<Rightarrow> json \<Rightarrow> raised + proposal" where
  "recommend_authorization h f active user_request sid =
     (let request = wide_strip user_request; hay = th_lower h request
      in if request = [] then Inr (fallback_proposal request sid (''user request is empty '' @ utf8 [0x2014]
        @ '' escalating to tech-lead for clarification''))
         else case load_profiles f (EXECUTOR_CANDIDATE_ROLES @ [''tech-lead'']) of
           Inl e \<Rightarrow> Inl e
         | Inr ps \<Rightarrow>
             (case scored_roles h ps hay of
                [] \<Rightarrow> Inr (fallback_proposal request sid ''no executor candidates available'')
              | (score, _, role) # _ \<Rightarrow>
                  (let scored = scored_roles h ps hay
                   in if is_research_only_text hay then
                        Inr (research_only_proposal request sid (research_leads active scored request) scored)
                      else if score \<le> 0 then
                        Inr (fallback_proposal request sid ((''no domain keyword matched any role ''
                          @ utf8 [0x2014] @ '' tech-lead should clarify '')
                          @ (''with the user (frontend / backend / ai / devops '' @ utf8 [0xC911, 0x20, 0xC5B4,
                            0xB290, 0x20, 0xC601, 0xC5ED, 0xC778, 0xC9C0] @ '')'')))
                      else
                        (let p = (case map_of ps role of Some p \<Rightarrow> p | None \<Rightarrow> []); review = review_roles h role ps hay;
                             focus = (if map_of p ''domain_focus'' = None then [] else wide_strip (json_str (th_json h) (dict_get p ''domain_focus'')))
                         in Inr \<lparr>cp_session_id = sid, cp_user_request = request, cp_executor_role = role, cp_review_roles = map JStr review,
                              cp_participant_roles = map JStr (participant_roles role review scored),
                              cp_write_scope = map JStr (string_list h (dict_get p ''write_scope_candidates'')),
                              cp_forbidden_scope = map JStr (string_list h (dict_get p ''forbidden_scope'')),
                              cp_reason = format_reason h role focus score hay p,
                              cp_safety_rules = map JStr DEFAULT_SAFETY_RULES, cp_approval_required = True,
                              cp_metadata = [(''executor_score'', JNum score), (''scored_roles'', scored_json scored)],
                              cp_lifecycle_mode = LIFECYCLE_MODE_IMPLEMENTATION, cp_research_leads = []\<rparr>))))"

section \<open>The form in the session\<close>

definition proposal_to_dict :: "proposal \<Rightarrow> json pydict" where
  "proposal_to_dict p = [(''session_id'', cp_session_id p), (''user_request'', JStr (cp_user_request p)),
     (''executor_role'', JStr (cp_executor_role p)), (''review_roles'', JList (cp_review_roles p)),
     (''participant_roles'', JList (cp_participant_roles p)), (''write_scope'', JList (cp_write_scope p)),
     (''forbidden_scope'', JList (cp_forbidden_scope p)), (''reason'', JStr (cp_reason p)), (''safety_rules'', JList (cp_safety_rules p)),
     (''approval_required'', JBool (cp_approval_required p)), (''metadata'', JObj (cp_metadata p)),
     (''lifecycle_mode'', JStr (cp_lifecycle_mode p)), (''research_leads'', JList (cp_research_leads p))]"

text \<open>\<open>tuple(d.get(k) or ())\<close> and \<open>dict(d.get(k) or {})\<close>; a value that is neither raises.\<close>

definition tuple_at :: "talk_host \<Rightarrow> json pydict \<Rightarrow> string \<Rightarrow> raised + json list" where
  "tuple_at h d k = (let j = dict_get d k in if \<not> truthy j then Inr []
     else case py_iter (th_json h) j of Some xs \<Rightarrow> Inr xs | None \<Rightarrow> Inl (Type_Error ''object is not iterable''))"

definition object_at :: "json pydict \<Rightarrow> string \<Rightarrow> raised + json pydict" where
  "object_at d k = (let j = dict_get d k in if \<not> truthy j then Inr []
     else case j of JObj o' \<Rightarrow> Inr o' | _ \<Rightarrow> Inl (Other_Error ''object is no mapping''))"

definition proposal_from_dict :: "talk_host \<Rightarrow> json pydict \<Rightarrow> raised + proposal" where
  "proposal_from_dict h d =
     (let str_or = (\<lambda>k v. json_str (th_json h) (dict_get_or d k (JStr v)));
          mode = str_or ''lifecycle_mode'' LIFECYCLE_MODE_IMPLEMENTATION
      in and_then (tuple_at h d ''review_roles'') (\<lambda>rr. and_then (tuple_at h d ''participant_roles'') (\<lambda>pr.
         and_then (tuple_at h d ''write_scope'') (\<lambda>ws. and_then (tuple_at h d ''forbidden_scope'') (\<lambda>fs.
         and_then (tuple_at h d ''safety_rules'') (\<lambda>sr. and_then (object_at d ''metadata'') (\<lambda>md.
         and_then (tuple_at h d ''research_leads'') (\<lambda>rl.
           Inr \<lparr>cp_session_id = dict_get d ''session_id'', cp_user_request = str_or ''user_request'' [],
             cp_executor_role = str_or ''executor_role'' (if mode = LIFECYCLE_MODE_RESEARCH_ONLY then [] else ''tech-lead''),
             cp_review_roles = rr, cp_participant_roles = pr, cp_write_scope = ws, cp_forbidden_scope = fs,
             cp_reason = str_or ''reason'' [], cp_safety_rules = sr,
             cp_approval_required = (case map_of d ''approval_required'' of None \<Rightarrow> True | Some v \<Rightarrow> truthy v),
             cp_metadata = md, cp_lifecycle_mode = mode, cp_research_leads = rl\<rparr>))))))))"

section \<open>Text for the user\<close>

definition ticked :: "talk_host \<Rightarrow> json list \<Rightarrow> string" where
  "ticked h rs = py_join '', '' (map (\<lambda>r. ''`'' @ json_str (th_json h) r @ ''`'') rs)"

definition bullets :: "talk_host \<Rightarrow> json list \<Rightarrow> string list" where
  "bullets h xs = map (\<lambda>x. ''- '' @ json_str (th_json h) x) xs"

definition format_research_only_message :: "talk_host \<Rightarrow> proposal \<Rightarrow> string" where
  "format_research_only_message h p = py_join [newline] (
     [(''**[engineering-agent] '' @ utf8 [0xC870, 0xC0AC, 0x20, 0xB2E8, 0xACC4, 0x20, 0x2014, 0x20, 0xCF54, 0xB4DC,
       0x20, 0xC218, 0xC815, 0xC740, 0x20, 0xD558, 0xC9C0, 0x20, 0xC54A, 0xC2B5, 0xB2C8, 0xB2E4]
       @ ''**''), [], (utf8 [0xC694, 0xCCAD] @ '': '') @ cp_user_request p,
      (utf8 [0xC870, 0xC0AC, 0x20, 0xC911, 0xC2EC, 0x20, 0xC5ED, 0xD560] @ '': '')
        @ ticked h (if cp_research_leads p \<noteq> [] then cp_research_leads p else [JStr ''tech-lead''])]
     @ (if cp_review_roles p \<noteq> [] then [(utf8 [0xAC80, 0xD1A0, 0x20, 0xC5ED, 0xD560] @ '': '')
       @ ticked h (cp_review_roles p)] else [])
     @ (if cp_forbidden_scope p \<noteq> [] then [[], (''**'' @ utf8 [0xC870, 0xC0AC, 0x20, 0xB2E8, 0xACC4, 0x20,
       0xAE08, 0xC9C0, 0x20, 0xC0AC, 0xD56D] @ ''**'')] @ bullets h (cp_forbidden_scope p) else [])
     @ [[], (utf8 [0xC774, 0xC720] @ '': '') @ cp_reason p]
     @ (if cp_safety_rules p \<noteq> [] then [[], ''**safety rules**''] @ bullets h (cp_safety_rules p) else [])
     @ [[], (utf8 [0xC870, 0xC0AC, 0x20, 0xACB0, 0xACFC, 0xB97C, 0x20, 0xBCF4, 0xACE0, 0x20, 0xC2E4, 0xC81C, 0x20,
       0xAD6C, 0xD604, 0xC774, 0x20, 0xD544, 0xC694, 0xD574, 0xC9C0, 0xBA74, 0x20, 0x60, 0xC218, 0xC815, 0x20,
       0xAD8C, 0xD55C, 0x20, 0xC81C, 0xC548, 0x60, 0x20, 0xB610, 0xB294, 0x20, 0x60, 0xAD6C, 0xD604, 0x20, 0xC9C4,
       0xD589, 0x60, 0xC774, 0xB77C, 0xACE0, 0x20, 0xB2F5, 0xD574, 0x20, 0xC8FC, 0xC138, 0xC694] @ ''.'')])"

definition format_authorization_message :: "talk_host \<Rightarrow> proposal \<Rightarrow> string" where
  "format_authorization_message h p = (if cp_lifecycle_mode p = LIFECYCLE_MODE_RESEARCH_ONLY then format_research_only_message h p
     else py_join [newline] (
     [(''**[engineering-agent] '' @ utf8 [0xCF54, 0xB529, 0x20, 0xAD8C, 0xD55C, 0x20, 0xC81C, 0xC548]
       @ ''**''), [], (utf8 [0xC694, 0xCCAD] @ '': '') @ cp_user_request p, ''executor: `'' @ cp_executor_role p
       @ ''`'']
     @ (if cp_review_roles p \<noteq> [] then [''reviewers: '' @ ticked h (cp_review_roles p)] else [])
     @ (if cp_participant_roles p \<noteq> [] then [''participants: '' @ ticked h (cp_participant_roles p)] else [])
     @ (if cp_write_scope p \<noteq> [] then [[], ''**write scope**''] @ bullets h (cp_write_scope p) else [])
     @ (if cp_forbidden_scope p \<noteq> [] then [[], ''**forbidden scope**''] @ bullets h (cp_forbidden_scope p) else [])
     @ [[], (utf8 [0xC774, 0xC720] @ '': '') @ cp_reason p]
     @ (if cp_safety_rules p \<noteq> [] then [[], ''**safety rules**''] @ bullets h (cp_safety_rules p) else [])
     @ (if cp_approval_required p then [[], (utf8 [0xC774, 0x20, 0xAD8C, 0xD55C, 0xC744, 0x20, 0xADF8, 0xB300,
       0xB85C, 0x20, 0xC9C4, 0xD589, 0xD558, 0xB824, 0xBA74, 0x20, 0x60, 0xC218, 0xC815, 0x20, 0xC2B9, 0xC778]
       @ ''` / `'' @ utf8 [0xC774, 0xB300, 0xB85C, 0x20, 0xAD6C, 0xD604, 0x20, 0xC9C4, 0xD589] @ ''` / `''
       @ utf8 [0xAD6C, 0xD604, 0x20, 0xC2DC, 0xC791, 0x60, 0xC774, 0xB77C, 0xACE0, 0x20, 0xB2F5, 0xD574, 0x20,
       0xC8FC, 0xC138, 0xC694] @ ''.'')] else [])))"

section \<open>The job\<close>

definition STATUS_PENDING_APPROVAL :: string where "STATUS_PENDING_APPROVAL = ''pending_approval''"
definition STATUS_READY :: string where "STATUS_READY = ''ready''"

record coding_job =
  cj_session_id :: json
  cj_user_request :: string
  cj_executor_role :: string
  cj_review_roles :: "json list"
  cj_participant_roles :: "json list"
  cj_write_scope :: "json list"
  cj_forbidden_scope :: "json list"
  cj_safety_rules :: "json list"
  cj_reason :: string
  cj_status :: string
  cj_generated_prompt :: string
  cj_created_at :: real
  cj_approved_at :: "real option"
  cj_metadata :: "json pydict"

text \<open>\<open>with_status\<close>: only a job that becomes ready takes the time of its approval.\<close>

definition with_status :: "coding_job \<Rightarrow> string \<Rightarrow> real option \<Rightarrow> coding_job" where
  "with_status j status t = (if status = STATUS_READY \<and> t \<noteq> None then j\<lparr>cj_status := status, cj_approved_at := t\<rparr> else j\<lparr>cj_status := status\<rparr>)"

definition coding_job_dict :: "talk_host \<Rightarrow> coding_job \<Rightarrow> json pydict" where
  "coding_job_dict h j = [(''session_id'', cj_session_id j), (''user_request'', JStr (cj_user_request j)),
     (''executor_role'', JStr (cj_executor_role j)), (''review_roles'', JList (cj_review_roles j)),
     (''participant_roles'', JList (cj_participant_roles j)), (''write_scope'', JList (cj_write_scope j)),
     (''forbidden_scope'', JList (cj_forbidden_scope j)), (''safety_rules'', JList (cj_safety_rules j)), (''reason'', JStr (cj_reason j)),
     (''status'', JStr (cj_status j)), (''generated_prompt'', JStr (cj_generated_prompt j)),
     (''created_at'', JStr (th_show_time h (cj_created_at j))),
     (''approved_at'', case cj_approved_at j of None \<Rightarrow> JNull | Some t \<Rightarrow> JStr (th_show_time h t)), (''metadata'', JObj (cj_metadata j))]"

definition numbered_steps :: "string list" where
  "numbered_steps = [(''1. '' @ utf8 [0xC218, 0xC815, 0x20, 0xC804, 0x20, 0xD604, 0xC7AC, 0x20, 0xCF54, 0xB4DC,
    0x20, 0xAD6C, 0xC870, 0xC640, 0x20, 0xC758, 0xB3C4, 0xB97C, 0x20, 0xC9E7, 0xAC8C, 0x20, 0xC694, 0xC57D, 0xD55C,
    0xB2E4] @ ''.''),
     (''2. '' @ utf8 [0xBB34, 0xC5C7, 0xC744, 0x20, 0xC5B4, 0xB514, 0xC5D0, 0x20, 0xC5B4, 0xB5BB, 0xAC8C, 0x20,
       0xBC14, 0xAFC0, 0xC9C0] @ '' 1~3 bullet '' @ utf8 [0xACC4, 0xD68D, 0xC744, 0x20, 0xC0AC, 0xC6A9, 0xC790,
       0xC5D0, 0xAC8C, 0x20, 0xBCF4, 0xC5EC, 0x20, 0xC900, 0xB2E4] @ ''.''),
     (''3. '' @ utf8 [0xC0AC, 0xC6A9, 0xC790, 0x20, 0xCD94, 0xAC00, 0x20, 0xC2B9, 0xC778, 0xC774, 0x20, 0xD544,
       0xC694, 0xD558, 0xBA74, 0x20, 0xBA48, 0xCD94, 0xACE0, 0x20, 0xBB3B, 0xB294, 0xB2E4] @ ''.''),
     (''4. write scope '' @ utf8 [0xC548, 0xC758, 0x20, 0xD30C, 0xC77C, 0xB9CC, 0x20, 0xC218, 0xC815, 0xD55C,
       0xB2E4] @ ''.''),
     (''5. '' @ utf8 [0xBCC0, 0xACBD, 0x20, 0xD6C4, 0x20, 0xAD00, 0xB828, 0x20, 0xB2E8, 0xC704, 0x2F, 0xD1B5,
       0xD569, 0x20, 0xD14C, 0xC2A4, 0xD2B8, 0xB97C, 0x20, 0xC2E4, 0xD589, 0xD55C, 0xB2E4] @ ''.''),
     (''6. '' @ utf8 [0xACB0, 0xACFC, 0x28, 0xBCC0, 0xACBD, 0x20, 0xD30C, 0xC77C] @ '' / '' @ utf8 [0xC2E4, 0xD589,
       0xD55C, 0x20, 0xD14C, 0xC2A4, 0xD2B8] @ '' / '' @ utf8 [0xB0A8, 0xC740, 0x20, 0xC704, 0xD5D8, 0x29, 0xB97C,
       0x20, 0xC0AC, 0xC6A9, 0xC790, 0xC5D0, 0xAC8C, 0x20, 0xBCF4, 0xACE0, 0xD55C, 0xB2E4] @ ''.''),
     (''7. destructive '' @ utf8 [0xBA85, 0xB839, 0x28, 0xD30C, 0xC77C, 0x20, 0xC0AD, 0xC81C]
       @ '' / git reset --hard / git push --force / '' @ utf8 [0xC790, 0xB3D9] @ '' deploy)'' @ utf8 [0xC740, 0x20,
       0xC808, 0xB300, 0x20, 0xC2E4, 0xD589, 0xD558, 0xC9C0, 0x20, 0xC54A, 0xB294, 0xB2E4] @ ''.'')]"

definition profile_text :: "talk_host \<Rightarrow> json pydict \<Rightarrow> string" where
  "profile_text h prof = (if map_of prof ''domain_focus'' = None then [] else json_str (th_json h) (dict_get prof ''domain_focus''))"

definition generate_executor_prompt :: "talk_host \<Rightarrow> proposal \<Rightarrow> json pydict \<Rightarrow> string" where
  "generate_executor_prompt h p prof =
     (let role = cp_executor_role p; focus = wide_strip (profile_text h prof);
          list = (\<lambda>k. string_list h (dict_get prof k)); section = (\<lambda>title xs. if xs \<noteq> [] then [[], title] @ map (\<lambda>x. ''- '' @ x) xs else [])
      in py_join [newline] (
        [(''# Coding Job '' @ utf8 [0x2014] @ '' executor: '') @ role]
        @ (if truthy (cp_session_id p) then [''session_id: `'' @ json_str (th_json h) (cp_session_id p) @ ''`''] else [])
        @ [[], (''## '' @ utf8 [0xC0AC, 0xC6A9, 0xC790, 0x20, 0xC694,
          0xCCAD]), if wide_strip (cp_user_request p) \<noteq> [] then wide_strip (cp_user_request p) else (''(empty '' @ utf8 [0x2014] @ '' clarify before writing)'')]
        @ (if focus \<noteq> [] then [[], (''## '' @ utf8 [0xB108, 0xC758, 0x20, 0xC5ED, 0xD560] @ '' / ''
          @ utf8 [0xC804, 0xBB38, 0xC131]), ''- '' @ role @ ('' '' @ utf8 [0x2014] @ '' '') @ focus]
             @ (if list ''decision_criteria'' \<noteq> [] then [(''- '' @ utf8 [0xACB0, 0xC815, 0x20, 0xAE30,
               0xC900] @ '':'')] @ map (\<lambda>x. ''  - '' @ x) (list ''decision_criteria'') else []) else [])
        @ [[], (''## write scope ('' @ utf8 [0xC774, 0x20, 0xC601, 0xC5ED, 0xB9CC, 0x20, 0xC218, 0xC815, 0x20,
          0xAC00, 0xB2A5] @ '')'')]
        @ (if cp_write_scope p \<noteq> [] then bullets h (cp_write_scope p) else [(''- ('' @ utf8 [0xBA85, 0xC2DC,
          0xB41C] @ '' write scope'' @ utf8 [0xAC00, 0x20, 0xC5C6, 0xC2B5, 0xB2C8, 0xB2E4, 0x20, 0x2014, 0x20,
          0xC0AC, 0xC6A9, 0xC790, 0xC5D0, 0xAC8C, 0x20, 0xB2E4, 0xC2DC, 0x20, 0xD655, 0xC778, 0xD558, 0xC138,
          0xC694] @ '')'')])
        @ [[], (''## forbidden scope ('' @ utf8 [0xC808, 0xB300, 0x20, 0xC218, 0xC815, 0x20, 0xAE08, 0xC9C0] @ '')'')]
        @ (if cp_forbidden_scope p \<noteq> [] then bullets h (cp_forbidden_scope p)
           else [(''- (forbidden scope '' @ utf8 [0xBBF8, 0xC9C0, 0xC815, 0x20, 0x2014, 0x20, 0xC548, 0xC804,
             0xC744, 0x20, 0xC704, 0xD574] @ '' destructive '' @ utf8 [0xBA85, 0xB839, 0xC740, 0x20, 0xBAA8,
             0xB450, 0x20, 0xAE08, 0xC9C0, 0xB85C, 0x20, 0xAC04, 0xC8FC] @ '')'')])
        @ [[], (''## safety rules ('' @ utf8 [0xC808, 0xB300, 0x20, 0xC704, 0xBC18, 0x20, 0xAE08, 0xC9C0] @ '')'')]
          @ bullets h (cp_safety_rules p)
        @ section (''## '' @ utf8 [0xAC80, 0xD1A0, 0x20, 0xCCB4, 0xD06C, 0xB9AC, 0xC2A4, 0xD2B8, 0x20, 0x28,
          0xC791, 0xC5C5, 0x20, 0xB05D, 0xC5D0] @ '' self-check)'') (list ''review_checklist'')
        @ section (''## '' @ utf8 [0xB9AC, 0xC2A4, 0xD06C, 0x20, 0xD3EC, 0xCEE4, 0xC2A4]) (list ''risk_focus'')
        @ section (''## '' @ utf8 [0xD488, 0xC9C8, 0x20, 0xAE30, 0xC900]) (list ''quality_bar'')
        @ [[], (''## '' @ utf8 [0xC791, 0xC5C5, 0x20, 0xC808, 0xCC28, 0x20, 0x28, 0xBC18, 0xB4DC, 0xC2DC, 0x20,
          0xC774, 0x20, 0xC21C, 0xC11C] @ '')'')] @ numbered_steps
        @ (if cp_review_roles p \<noteq> [] then [[], (''## reviewer '' @ utf8 [0xD1B5, 0xC9C0, 0x20, 0xB300,
          0xC0C1])] @ map (\<lambda>r. ''- `'' @ json_str (th_json h) r @ ''`'') (cp_review_roles p) else [])
        @ [[], (''## '' @ utf8 [0xCC38, 0xC5EC] @ '' / '' @ utf8 [0xD611, 0xC5C5] @ '' role'')]
          @ map (\<lambda>r. ''- `'' @ json_str (th_json h) r @ ''`'') (cp_participant_roles p)
        @ [[], (''## '' @ utf8 [0xCD94, 0xCC9C, 0x20, 0xC0AC, 0xC720]) @ [newline] @ cp_reason p]))"

definition build_coding_job_from_proposal :: "talk_host \<Rightarrow> profile_loader \<Rightarrow> real \<Rightarrow> proposal \<Rightarrow> string \<Rightarrow> real option \<Rightarrow> raised + coding_job" where
  "build_coding_job_from_proposal h f now p status approved_at =
     (if cp_lifecycle_mode p = LIFECYCLE_MODE_RESEARCH_ONLY then
        Inl (Other_Error ((''research-only proposal'' @ utf8 [0xC5D0, 0xB294] @ '' executor'' @ utf8 [0xAC00, 0x20,
          0xC5C6, 0xC2B5, 0xB2C8, 0xB2E4] @ ''. '') @ (utf8 [0xAD6C, 0xD604, 0xC774, 0x20, 0xD544, 0xC694, 0xD558,
          0xBA74, 0x20, 0x27, 0xC218, 0xC815, 0x20, 0xAD8C, 0xD55C, 0x20, 0xC81C, 0xC548, 0x27, 0xC744, 0x20,
          0xB2E4, 0xC2DC, 0x20, 0xC694, 0xCCAD, 0xD574, 0x20, 0xC8FC, 0xC138, 0xC694] @ ''.'')))
      else case f (cp_executor_role p) of Inl e \<Rightarrow> Inl e
        | Inr prof \<Rightarrow>
            (let prof = (case prof of None \<Rightarrow> [] | Some d \<Rightarrow> d)
             in Inr \<lparr>cj_session_id = cp_session_id p, cj_user_request = cp_user_request p, cj_executor_role = cp_executor_role p,
                  cj_review_roles = cp_review_roles p, cj_participant_roles = cp_participant_roles p, cj_write_scope = cp_write_scope p,
                  cj_forbidden_scope = cp_forbidden_scope p, cj_safety_rules = cp_safety_rules p, cj_reason = cp_reason p, cj_status = status,
                  cj_generated_prompt = generate_executor_prompt h p prof, cj_created_at = now, cj_approved_at = approved_at,
                  cj_metadata = [(''proposal_metadata'', JObj (cp_metadata p)), (''role_domain_focus'', JStr (profile_text h prof))]\<rparr>))"

end
