(* ===== verification/Gateway.thy ===== *)
theory Gateway
  imports Clarify CodingAuth
begin

text \<open>
  What the router of the engineering channel works on (\<open>engineering_channel_router/models.py\<close>), what is injected into it,
  and how it keeps a session (\<open>session_persistence.py\<close>, \<open>lifecycle/persistence.py\<close>, \<open>research/persistence.py\<close>). The state
  is the memory of questions and the list of what has been done; an injected function may depend on all that was
  done before. Sending a message is assumed to succeed.
\<close>

section \<open>Data\<close>

text \<open>What was collected while the conversation ran; a research pack is its form as a dictionary.\<close>

record collection =
  co_stop_reason :: "string option"
  co_under_covered_roles :: "json list"
  co_active_roles :: "json list"
  co_mode :: "string option"
  co_collector_name :: json
  co_query :: json
  co_auto_collected_count :: json

record outcome =
  oc_content :: string
  oc_confirmed :: bool
  oc_intake_prompt :: "string option"
  oc_write_requested :: bool
  oc_thread_topic :: "string option"
  oc_research_pack :: "json pydict option"
  oc_collection_outcome :: "collection option"
  oc_role_for_research :: "string option"
  oc_is_status_query :: bool

definition plain_outcome :: "string \<Rightarrow> outcome" where
  "plain_outcome s = \<lparr>oc_content = s, oc_confirmed = False, oc_intake_prompt = None, oc_write_requested = False, oc_thread_topic = None,
     oc_research_pack = None, oc_collection_outcome = None, oc_role_for_research = None, oc_is_status_query = False\<rparr>"

text \<open>The conversation answers with an outcome or with text alone.\<close>

datatype reply = Outcome outcome | Plain_Text string

definition coerce_outcome :: "reply \<Rightarrow> outcome" where
  "coerce_outcome r = (case r of Outcome oc \<Rightarrow> oc | Plain_Text s \<Rightarrow> plain_outcome s)"

record intake_result =
  it_message :: "string option"
  it_session :: "wsession option"
  it_plan :: json

record thread_kickoff =
  ki_thread_id :: "int option"
  ki_message :: "string option"

record thread_continuation =
  cn_session :: "wsession option"
  cn_thread_id :: "int option"
  cn_message :: "string option"

record loop_report =
  lr_follow_up_message :: "string option"
  lr_forum_status_message :: "string option"
  lr_forum_thread_id :: "int option"
  lr_forum_thread_url :: "string option"
  lr_insufficient :: bool
  lr_error :: "string option"
  lr_forum_comment_mode :: "string option"
  lr_kickoff_posted :: "bool option"
  lr_kickoff_error :: "string option"

definition no_report :: loop_report where
  "no_report = \<lparr>lr_follow_up_message = None, lr_forum_status_message = None, lr_forum_thread_id = None, lr_forum_thread_url = None,
     lr_insufficient = False, lr_error = None, lr_forum_comment_mode = None, lr_kickoff_posted = None, lr_kickoff_error = None\<rparr>"

text \<open>What the research worker says about the job of a session.\<close>

datatype research_run = Duplicate_In_Flight | Claimed_By_Other_Worker | Ran loop_report

record route_result =
  rt_handled :: bool
  rt_conversation_message :: "string option"
  rt_intake_message :: "string option"
  rt_kickoff_message :: "string option"
  rt_session_id :: "string option"
  rt_thread_id :: "int option"
  rt_research_loop_report :: "loop_report option"
  rt_error :: "string option"
  rt_routing_decision :: "route_decision option"

definition handled :: route_result where
  "handled = \<lparr>rt_handled = True, rt_conversation_message = None, rt_intake_message = None, rt_kickoff_message = None, rt_session_id = None,
     rt_thread_id = None, rt_research_loop_report = None, rt_error = None, rt_routing_decision = None\<rparr>"

definition not_handled :: route_result where
  "not_handled = handled\<lparr>rt_handled := False\<rparr>"

text \<open>The answer of the approval worker, as far as the gate reads it.\<close>

record approval_card =
  ac_has_proposal :: bool
  ac_skipped_reason :: "string option"
  ac_job_id :: "string option"

text \<open>What a vault note is made from and what it becomes; a pack and a synthesis are read from their stored form.\<close>

record pack =
  pk_summary :: "string option"
  pk_data :: json

record vault_note =
  nt_title :: json
  nt_filename :: string
  nt_path :: string
  nt_content :: string

text \<open>The note as it was written: its path below the vault, its file name, and the name it should have had.\<close>

record written =
  wn_path :: string
  wn_name :: string
  wn_original :: "string option"

text \<open>\<open>ObsidianWriteError\<close>, and any other exception of the writer.\<close>

datatype write_failure = Write_Error string | Write_Raised string

section \<open>State\<close>

text \<open>What the router does to the world, in order.\<close>

datatype gw_event =
    Sent string
  | Conversed string
  | Continued string bool
  | Intake string bool
  | Kicked_Off "wsession option"
  | Researched string
  | Stored wsession
  | Carded wsession
  | Wrote_Note vault_note string

type_synonym gw_trace = "gw_event list"

record gw_state =
  gs_cache :: cache
  gs_trace :: gw_trace

definition emit :: "gw_event \<Rightarrow> gw_state \<Rightarrow> gw_state" where
  "emit e st = st\<lparr>gs_trace := gs_trace st @ [e]\<rparr>"

definition send :: "string \<Rightarrow> gw_state \<Rightarrow> gw_state" where
  "send s st = emit (Sent s) st"

definition send_opt :: "string option \<Rightarrow> gw_state \<Rightarrow> gw_state" where
  "send_opt m st = (case m of None \<Rightarrow> st | Some s \<Rightarrow> if s = [] then st else send s st)"

text \<open>
  What is injected, and the parts of the repository that are arguments here: the store of sessions
  (\<open>gh_list\<close> is the lister given to the router, \<open>gh_store\<close>, \<open>gh_load\<close> and \<open>gh_update\<close> the store itself), the
  conversation, intake, threads, research and reports, the analyses of a new session, and the vault. A
  result \<open>Inl\<close> is an exception; where only its text matters it is a string.
\<close>

record gateway =
  gh_talk :: talk_host
  gh_now :: "gw_trace \<Rightarrow> real"
  gh_list :: "(gw_trace \<Rightarrow> lister) option"
  gh_store :: "gw_trace \<Rightarrow> lister"
  gh_load :: "gw_trace \<Rightarrow> string \<Rightarrow> raised + wsession option"
  gh_update :: "gw_trace \<Rightarrow> wsession \<Rightarrow> string option"
  gh_profiles :: profile_loader
  gh_active :: "string \<Rightarrow> string list option"
  gh_card :: "(gw_trace \<Rightarrow> wsession \<Rightarrow> string \<Rightarrow> string + approval_card) option"
  gh_converse :: "gw_trace \<Rightarrow> string \<Rightarrow> raised + reply"
  gh_continue :: "(gw_trace \<Rightarrow> string \<Rightarrow> bool \<Rightarrow> string option \<Rightarrow> raised + thread_continuation option) option"
  gh_intake :: "gw_trace \<Rightarrow> string \<Rightarrow> bool \<Rightarrow> string + intake_result"
  gh_kickoff :: "gw_trace \<Rightarrow> wsession option \<Rightarrow> json \<Rightarrow> string option \<Rightarrow> string + thread_kickoff option"
  gh_research :: "(gw_trace \<Rightarrow> wsession \<Rightarrow> string \<Rightarrow> outcome \<Rightarrow> int option \<Rightarrow> string + research_run) option"
  gh_report :: "wsession \<Rightarrow> string \<Rightarrow> collection option \<Rightarrow> (json pydict \<times> string) option"
  gh_roles :: "wsession \<Rightarrow> string \<Rightarrow> json pydict"
  gh_context :: "wsession \<Rightarrow> string \<Rightarrow> json pydict"
  gh_council :: "wsession \<Rightarrow> string \<Rightarrow> json pydict"
  gh_naive_time :: "real \<Rightarrow> string"
  gh_local_time :: "real \<Rightarrow> string"
  gh_vault_root :: "string + string"
  gh_read_pack :: "json \<Rightarrow> string + pack"
  gh_read_synthesis :: "json \<Rightarrow> json option"
  gh_knowledge_note :: "wsession \<Rightarrow> pack \<Rightarrow> json option \<Rightarrow> json \<Rightarrow> json \<Rightarrow> vault_note option"
  gh_research_note :: "wsession \<Rightarrow> pack \<Rightarrow> json option \<Rightarrow> json \<Rightarrow> json \<Rightarrow> string + vault_note"
  gh_write_note :: "gw_trace \<Rightarrow> vault_note \<Rightarrow> string \<Rightarrow> write_failure + written"

section \<open>Keeping a session\<close>

text \<open>\<open>update_session\<close>: the row as it is written; \<open>Some\<close> is the text of its exception.\<close>

definition update_session :: "gateway \<Rightarrow> wsession \<Rightarrow> gw_state \<Rightarrow> string option \<times> gw_state" where
  "update_session g s st = (case gh_update g (gs_trace st) s of Some e \<Rightarrow> (Some e, st)
     | None \<Rightarrow> (None, emit (Stored (s\<lparr>ws_updated_at := gh_now g (gs_trace st)\<rparr>)) st))"

definition extend_extra :: "json pydict \<Rightarrow> wsession \<Rightarrow> wsession" where
  "extend_extra d s = s\<lparr>ws_extra := dict_merge (ws_extra s) d\<rparr>"

definition persistence_failure :: "string \<Rightarrow> string \<Rightarrow> string list \<Rightarrow> wsession \<Rightarrow> wsession" where
  "persistence_failure step why ks s = extend_extra [(''persistence_error'', JObj [(''step'', JStr step), (''reason'', JStr why),
     (''keys'', JList (map JStr (sort ks)))])] s"

text \<open>\<open>_persist_extra_keys\<close>: the session with the new keys, stored or marked with the failure.\<close>

definition persist_extra_keys :: "gateway \<Rightarrow> json pydict \<Rightarrow> wsession \<Rightarrow> gw_state \<Rightarrow> wsession \<times> gw_state" where
  "persist_extra_keys g d s st =
     (let s = extend_extra d s
      in case update_session g s st of (None, st) \<Rightarrow> (s, st) | (Some e, st) \<Rightarrow> (persistence_failure ''update_session'' e (map fst d) s, st))"

text \<open>
  \<open>merge_session_extra\<close>: the same, but a success takes the mark of an old failure off the copy it
  returns, after the row is written.
\<close>

definition merge_session_extra :: "gateway \<Rightarrow> json pydict \<Rightarrow> wsession \<Rightarrow> gw_state \<Rightarrow> wsession \<times> gw_state" where
  "merge_session_extra g d s st =
     (if d = [] then (s, st)
      else let s = extend_extra d s
           in case update_session g s st of
             (None, st) \<Rightarrow> (s\<lparr>ws_extra := filter (\<lambda>(k, _). k \<noteq> ''persistence_error'') (ws_extra s)\<rparr>, st)
           | (Some e, st) \<Rightarrow> (persistence_failure ''update_session'' e (map fst d) s, st))"

definition persist_thread_link :: "gateway \<Rightarrow> int option \<Rightarrow> wsession \<Rightarrow> gw_state \<Rightarrow> wsession \<times> gw_state" where
  "persist_thread_link g t s st =
     (if t = None \<or> ws_thread_id s = t then (s, st)
      else let s = s\<lparr>ws_thread_id := t\<rparr>
           in case update_session g s st of (None, st) \<Rightarrow> (s, st)
             | (Some e, st) \<Rightarrow> (persistence_failure ''update_session (thread_id)'' e [''thread_id''] s, st))"

definition entry :: "string \<Rightarrow> json option \<Rightarrow> json pydict" where
  "entry k v = (case v of None \<Rightarrow> [] | Some j \<Rightarrow> [(k, j)])"

definition forum_link :: "loop_report \<Rightarrow> json pydict" where
  "forum_link r =
     (let member = (lr_forum_comment_mode r = Some ''member-bots'');
          posted = (if member then lr_kickoff_posted r else None); err = (if member then lr_kickoff_error r else None);
          p = (case posted of None \<Rightarrow> JNull | Some b \<Rightarrow> JBool b); e = (case err of None \<Rightarrow> JNull | Some t \<Rightarrow> if t = [] then JNull else JStr t)
      in entry ''research_forum_thread_id'' (map_option JInt (lr_forum_thread_id r))
         @ entry ''research_forum_thread_url'' (map_option JStr (lr_forum_thread_url r))
         @ entry ''forum_comment_mode'' (map_option JStr (lr_forum_comment_mode r))
         @ (if posted \<noteq> None \<or> err \<noteq> None then [(''research_open_call_posted'', p), (''research_open_call_error'', e),
             (''forum_kickoff_posted'', p), (''forum_kickoff_error'', e)] else []))"

text \<open>
  \<open>persist_research_forum_status\<close>: nobody keeps the copy it returns, but the keys are set on the session
  itself, too.
\<close>

definition persist_research_forum_status :: "gateway \<Rightarrow> loop_report \<Rightarrow> wsession \<Rightarrow> gw_state \<Rightarrow> wsession \<times> gw_state" where
  "persist_research_forum_status g r s st = (if ws_id s = [] then (s, st)
     else (extend_extra (forum_link r) s, snd (merge_session_extra g (forum_link r) s st)))"

definition source_count :: "talk_host \<Rightarrow> json pydict option \<Rightarrow> collection option \<Rightarrow> int" where
  "source_count h pack co = (case pack of
     Some p \<Rightarrow> (case dict_get p ''sources'' of JList xs \<Rightarrow> int (length xs) | _ \<Rightarrow> 0)
   | None \<Rightarrow> (case co of None \<Rightarrow> 0
       | Some c \<Rightarrow> if truthy (co_auto_collected_count c) then (case py_int (th_json h) (co_auto_collected_count c) of Some n \<Rightarrow> n | None \<Rightarrow> 0) else 0))"

definition collection_json :: "collection \<Rightarrow> json" where
  "collection_json c = JObj [(''mode'', opt_json (co_mode c)), (''collector_name'', co_collector_name c), (''query'', co_query c),
     (''auto_collected_count'', co_auto_collected_count c)]"

definition research_keys :: "talk_host \<Rightarrow> json pydict option \<Rightarrow> collection option \<Rightarrow> json pydict" where
  "research_keys h pack co =
     (let n = source_count h pack co
      in (case pack of
            Some p \<Rightarrow> [(''research_pack'', JObj p), (''research_source_count'', JInt n),
              (''research_status'', JStr (if 0 < n then ''ready'' else ''insufficient''))]
          | None \<Rightarrow> (if co = None then [] else [(''research_source_count'', JInt n), (''research_status'', JStr ''insufficient'')]))
         @ (case co of None \<Rightarrow> []
            | Some c \<Rightarrow> (case co_stop_reason c of None \<Rightarrow> [] | Some r \<Rightarrow> if r = [] then [] else [(''research_stop_reason'', JStr r)])
                @ (if co_under_covered_roles c \<noteq> [] then [(''research_missing_roles'', JList (co_under_covered_roles c))] else [])
                @ (if co_active_roles c \<noteq> [] then [(''research_active_roles'', JList (co_active_roles c))] else [])
                @ [(''research_collection'', collection_json c)]))"

text \<open>\<open>persist_research_artifacts\<close>, without a synthesis: the stored session, or the old one with the failure.\<close>

definition maybe_persist_research_pack :: "gateway \<Rightarrow> json pydict option \<Rightarrow> collection option \<Rightarrow> wsession option \<Rightarrow> gw_state \<Rightarrow> wsession option \<times> gw_state" where
  "maybe_persist_research_pack g pack co so st = (case so of None \<Rightarrow> (None, st)
     | Some s \<Rightarrow>
         (if pack = None \<and> co = None then (Some s, st)
          else let keys = research_keys (gh_talk g) pack co;
                   new = s\<lparr>ws_extra := filter (\<lambda>(k, _). k \<noteq> ''research_pack_error'') (dict_merge (ws_extra s) keys)\<rparr>
               in case update_session g new st of
                 (None, st') \<Rightarrow> (Some (new\<lparr>ws_updated_at := gh_now g (gs_trace st)\<rparr>), st')
               | (Some e, st') \<Rightarrow> (Some (extend_extra [(''research_pack_error'', JObj [(''step'', JStr ''persist_research_artifacts''),
                   (''reason'', JStr e)])] s), st')))"

text \<open>Does this session still run?\<close>

definition is_terminal :: "talk_host \<Rightarrow> wsession \<Rightarrow> bool" where
  "is_terminal h s \<longleftrightarrow> th_lower h (ws_state s) \<in> {''completed'', ''rejected''}"

text \<open>The sessions the gates look through; a lister that fails lists none.\<close>

definition gate_sessions :: "gateway \<Rightarrow> gw_state \<Rightarrow> wsession list" where
  "gate_sessions g st = (case gh_list g of None \<Rightarrow> [] | Some f \<Rightarrow> (case list_limited (f (gs_trace st)) 50 of Inl e \<Rightarrow> [] | Inr ss \<Rightarrow> ss))"

definition load_session_by_id :: "gateway \<Rightarrow> string option \<Rightarrow> gw_state \<Rightarrow> wsession option" where
  "load_session_by_id g i st = (case i of None \<Rightarrow> None | Some k \<Rightarrow> if k = [] then None else find (\<lambda>s. ws_id s = k) (gate_sessions g st))"

text \<open>The channel a session belongs to: of a thread, its parent.\<close>

definition scoped_channel_id :: "message \<Rightarrow> int option" where
  "scoped_channel_id m = (if in_thread m then ms_parent_id m else ms_channel_id m)"

end
