(* ===== verification/CodingGate.thy ===== *)
theory CodingGate
  imports Gateway
begin

text \<open>
  The gate in front of the conversation that proposes and grants the right to write code
  (\<open>engineering_channel_router/coding_gate.py\<close>).
\<close>

text \<open>The session of the thread, else the newest in the channel, else the newest.\<close>

definition nearest_session :: "message \<Rightarrow> (wsession \<Rightarrow> bool) \<Rightarrow> wsession list \<Rightarrow> wsession option" where
  "nearest_session m by_author ss =
     (if ss = [] then None
      else case (if in_thread m \<and> ms_channel_id m \<noteq> None then find (\<lambda>s. ws_thread_id s = ms_channel_id m) ss else None) of
        Some s \<Rightarrow> Some s
      | None \<Rightarrow>
          (let same = (if scoped_channel_id m = None then [] else filter (\<lambda>s. ws_channel_id s = scoped_channel_id m \<and> by_author s) ss)
           in if same \<noteq> [] then most_recent same else most_recent ss))"

definition of_author :: "message \<Rightarrow> wsession \<Rightarrow> bool" where
  "of_author m s \<longleftrightarrow> ms_author_id m = None \<or> ws_user_id s = ms_author_id m"

definition find_session_with_pending_coding_proposal :: "gateway \<Rightarrow> message \<Rightarrow> gw_state \<Rightarrow> wsession option" where
  "find_session_with_pending_coding_proposal g m st =
     nearest_session m (of_author m) (filter (\<lambda>s. truthy (dict_get (ws_extra s) ''coding_proposal'')) (gate_sessions g st))"

definition find_latest_open_session :: "gateway \<Rightarrow> message \<Rightarrow> gw_state \<Rightarrow> wsession option" where
  "find_latest_open_session g m st = nearest_session m (\<lambda>_. True) (filter (\<lambda>s. \<not> is_terminal (gh_talk g) s) (gate_sessions g st))"

definition proposal_keys :: "proposal \<Rightarrow> json pydict" where
  "proposal_keys p = [(''coding_proposal'', JObj (proposal_to_dict p)), (''coding_job'', JNull)]"

definition persist_coding_proposal :: "gateway \<Rightarrow> proposal \<Rightarrow> wsession \<Rightarrow> gw_state \<Rightarrow> wsession \<times> gw_state" where
  "persist_coding_proposal g p s st = persist_extra_keys g (proposal_keys p) s st"

definition persist_coding_job :: "gateway \<Rightarrow> json pydict \<Rightarrow> wsession \<Rightarrow> gw_state \<Rightarrow> wsession \<times> gw_state" where
  "persist_coding_job g j s st = persist_extra_keys g [(''coding_job'', JObj j), (''coding_proposal'', JNull)] s st"

text \<open>The card in the approval channel, for the session with its new keys; a failure is logged only.\<close>

definition enqueue_card :: "gateway \<Rightarrow> message \<Rightarrow> string \<Rightarrow> proposal \<Rightarrow> wsession \<Rightarrow> gw_state \<Rightarrow> gw_state" where
  "enqueue_card g m text p s st = (case gh_card g of None \<Rightarrow> st
     | Some f \<Rightarrow>
         (if \<not> cp_approval_required p then st
          else case f (gs_trace st) s (if ws_prompt s \<noteq> [] then ws_prompt s else text) of Inl e \<Rightarrow> st
            | Inr c \<Rightarrow>
                (let st = emit (Carded s) st
                 in if ac_has_proposal c \<and> ac_skipped_reason c = None then
                      send ((utf8 [0x1F4E8] @ '' `#'' @ utf8 [0xC2B9, 0xC778, 0x2D, 0xB300, 0xAE30, 0x60, 0x20,
                        0xCE74, 0xB4DC, 0x20, 0xAC8C, 0xC2DC, 0x20, 0xC644, 0xB8CC] @ '' (job=`'')
                        @ (case ac_job_id c of Some i \<Rightarrow> if i = [] then ''-'' else i | None \<Rightarrow> ''-'') @ ''`).'') st
                    else if ac_skipped_reason c = Some ''duplicate_approval_in_flight'' then
                      send (utf8 [0x2139, 0xFE0F, 0x20, 0xAC19, 0xC740, 0x20, 0xC791, 0xC5C5, 0xC758] @ '' `#''
                        @ utf8 [0xC2B9, 0xC778, 0x2D, 0xB300, 0xAE30, 0x60, 0x20, 0xCE74, 0xB4DC, 0xAC00, 0x20,
                        0xC774, 0xBBF8, 0x20, 0xAC8C, 0xC2DC, 0xB3FC, 0x20, 0xC788, 0xC5B4, 0xC694] @ ''.'') st
                    else st)))"

definition propose_coding :: "gateway \<Rightarrow> message \<Rightarrow> string \<Rightarrow> gw_state \<Rightarrow> (raised + route_result) \<times> gw_state" where
  "propose_coding g m text st = (case find_latest_open_session g m st of
     None \<Rightarrow> (Inr handled, send (py_join [newline] [(utf8 [0xD604, 0xC7AC, 0x20, 0xCC44, 0xB110, 0xC5D0,
       0x20, 0xB9E4, 0xCE6D, 0xB418, 0xB294, 0x20, 0xC5F4, 0xB9B0] @ '' engineering-agent '' @ utf8 [0xC138,
       0xC158, 0xC774, 0x20, 0xBCF4, 0xC774, 0xC9C0, 0x20, 0xC54A, 0xC544, 0xC694] @ ''.''),
       (utf8 [0xBA3C, 0xC800, 0x20, 0xC791, 0xC5C5, 0xC744, 0x20, 0xC811, 0xC218, 0xD574, 0xC11C, 0x20, 0xC138,
         0xC158, 0xC744, 0x20, 0xB9CC, 0xB4E4, 0xACE0, 0x20, 0xB2E4, 0xC2DC, 0x20, 0x60, 0xCF54, 0xB529, 0x20,
         0xAD8C, 0xD55C, 0x20, 0xC81C, 0xC548, 0x60, 0xC774, 0xB77C, 0xACE0, 0x20, 0xB2F5, 0xD574, 0x20, 0xC8FC,
         0xC138, 0xC694] @ ''.'')]) st)
   | Some s \<Rightarrow>
       (case recommend_authorization (gh_talk g) (gh_profiles g) (gh_active g) (ws_prompt s) (JStr (ws_id s)) of
          Inl e \<Rightarrow> (Inl e, st)
        | Inr p \<Rightarrow>
            (let (_, st) = persist_coding_proposal g p s st; st = send (format_authorization_message (gh_talk g) p) st;
                 st = enqueue_card g m text p (extend_extra (proposal_keys p) s) st
             in (Inr (handled\<lparr>rt_session_id := Some (ws_id s), rt_thread_id := ws_thread_id s\<rparr>), st))))"

definition approval_message :: "talk_host \<Rightarrow> coding_job \<Rightarrow> real \<Rightarrow> string" where
  "approval_message h j t = py_join [newline] [(''**[engineering-agent] '' @ utf8 [0xCF54, 0xB529, 0x20, 0xAD8C,
    0xD55C, 0x20, 0xC2B9, 0xC778, 0x20, 0xC644, 0xB8CC] @ ''**''), [], ''executor: `'' @ cj_executor_role j @ ''`'',
     (utf8 [0xC138, 0xC158] @ '': '') @ (if truthy (cj_session_id j) then ''thread `''
       @ json_str (th_json h) (cj_session_id j) @ ''`'' else (''(session id '' @ utf8 [0xBBF8, 0xAE30, 0xB85D]
       @ '')'')),
     (utf8 [0xC2B9, 0xC778, 0x20, 0xC2DC, 0xAC01] @ '': '') @ th_show_time h t, [],
     (utf8 [0xC774, 0xC81C] @ '' executor'' @ utf8 [0xC5D0, 0xAC8C, 0x20, 0xC548, 0xC804, 0xD55C] @ '' prompt''
       @ utf8 [0xAC00, 0x20, 0xC804, 0xB2EC, 0xB420, 0x20, 0xC900, 0xBE44, 0xAC00, 0x20, 0xB410, 0xC5B4, 0xC694,
       0x2E, 0x20, 0xC2E4, 0xC81C, 0x20, 0xCF54, 0xB4DC, 0x20, 0xBCC0, 0xACBD, 0xC740] @ '' executor''
       @ utf8 [0xAC00, 0x20, 0xACC4, 0xD68D, 0xC744, 0x20, 0xBCF4, 0xC5EC, 0x20, 0xB4DC, 0xB9B0, 0x20, 0xB4A4,
       0xC5D0, 0xB9CC, 0x20, 0xC9C4, 0xD589, 0xD569, 0xB2C8, 0xB2E4] @ ''.'')]"

definition approve_coding :: "gateway \<Rightarrow> message \<Rightarrow> gw_state \<Rightarrow> (raised + route_result) \<times> gw_state" where
  "approve_coding g m st = (case find_session_with_pending_coding_proposal g m st of
     None \<Rightarrow> (Inr handled, send (py_join [newline] [(utf8 [0xC9C0, 0xAE08, 0xC740, 0x20, 0xB300, 0xAE30,
       0x20, 0xC911, 0xC778, 0x20, 0xCF54, 0xB529, 0x20, 0xAD8C, 0xD55C, 0x20, 0xC81C, 0xC548, 0xC774, 0x20,
       0xC5C6, 0xC5B4, 0xC694] @ ''.''),
       (utf8 [0xBA3C, 0xC800, 0x20, 0x60, 0xCF54, 0xB529, 0x20, 0xAD8C, 0xD55C, 0x20, 0xC81C, 0xC548, 0x60, 0x20,
         0xC774, 0xB77C, 0xACE0, 0x20, 0xB2F5, 0xD574, 0xC11C] @ '' Tech Lead '' @ utf8 [0xCD94, 0xCC9C, 0xC744,
         0x20, 0xBC1B, 0xC544, 0x20, 0xC8FC, 0xC138, 0xC694] @ ''.'')]) st)
   | Some s \<Rightarrow>
       (case dict_get (ws_extra s) ''coding_proposal'' of
          JObj payload \<Rightarrow>
            (let h = gh_talk g; now = gh_now g (gs_trace st)
             in case proposal_from_dict h payload of Inl e \<Rightarrow> (Inl e, st)
               | Inr p \<Rightarrow>
                   (case build_coding_job_from_proposal h (gh_profiles g) now p STATUS_READY (Some now) of
                      Inl e \<Rightarrow> (Inr (handled\<lparr>rt_error := Some (raised_text e)\<rparr>),
                        send ((utf8 [0x26A0, 0xFE0F, 0x20, 0xCF54, 0xB529, 0x20, 0xAD8C, 0xD55C, 0x20, 0xC2B9,
                          0xC778, 0x20, 0xC911, 0x20, 0xC624, 0xB958, 0xAC00, 0x20, 0xBC1C, 0xC0DD, 0xD588, 0xC5B4,
                          0xC694] @ '': '') @ raised_text e) st)
                    | Inr j \<Rightarrow>
                        (let (_, st) = persist_coding_job g (coding_job_dict h j) s st
                         in (Inr (handled\<lparr>rt_session_id := Some (ws_id s), rt_thread_id := ws_thread_id s\<rparr>), send (approval_message h j now) st))))
        | _ \<Rightarrow> (Inr handled, send (utf8 [0xB300, 0xAE30, 0x20, 0xC911, 0xC778, 0x20, 0xCF54, 0xB529,
          0x20, 0xAD8C, 0xD55C, 0x20, 0xC81C, 0xC548] @ '' payload'' @ utf8 [0xB97C, 0x20, 0xC77D, 0xC9C0, 0x20,
          0xBABB, 0xD588, 0xC5B4, 0xC694, 0x2E, 0x20, 0xB2E4, 0xC2DC, 0x20, 0x60, 0xCF54, 0xB529, 0x20, 0xAD8C,
          0xD55C, 0x20, 0xC81C, 0xC548, 0x60, 0xC744, 0x20, 0xC2DC, 0xB3C4, 0xD574, 0x20, 0xC8FC, 0xC138, 0xC694]
          @ ''.'') st)))"

text \<open>\<open>Inr None\<close>: the message is none of the gate's business.\<close>

definition run_coding_authorization_gate :: "gateway \<Rightarrow> message \<Rightarrow> string \<Rightarrow> gw_state \<Rightarrow> (raised + route_result option) \<times> gw_state" where
  "run_coding_authorization_gate g m text st =
     (let h = gh_talk g; some = (\<lambda>(r, st). (case r of Inl e \<Rightarrow> Inl e | Inr x \<Rightarrow> Inr (Some x), st))
      in if user_explicitly_blocked_coding h text then (Inr None, st)
         else if is_coding_proposal_request h text then some (propose_coding g m text st)
         else if is_coding_approval_phrase h text then some (approve_coding g m st)
         else (Inr None, st))"

end
