(* ===== verification/Readiness.thy ===== *)
theory Readiness
  imports Clarify
begin

text \<open>
  How far a session is (\<open>lifecycle/status.py\<close>): research, roles, synthesis, and whether its record may be saved. All is
  read from the \<open>extra\<close> of the session.
\<close>

definition RESEARCH_STATUS_MISSING :: string where "RESEARCH_STATUS_MISSING = ''missing''"
definition RESEARCH_STATUS_INSUFFICIENT :: string where "RESEARCH_STATUS_INSUFFICIENT = ''insufficient''"
definition RESEARCH_STATUS_READY :: string where "RESEARCH_STATUS_READY = ''ready''"
definition REPORT_STATUS_INTERIM :: string where "REPORT_STATUS_INTERIM = ''interim''"
definition REPORT_STATUS_INSUFFICIENT :: string where "REPORT_STATUS_INSUFFICIENT = ''insufficient''"
definition REPORT_STATUS_READY :: string where "REPORT_STATUS_READY = ''ready''"

section \<open>Reading\<close>

definition clean_item :: "json \<Rightarrow> string option" where
  "clean_item j = (case j of JStr s \<Rightarrow> (let t = wide_strip s in if t = [] then None else Some t) | _ \<Rightarrow> None)"

definition coerce_str_list :: "talk_host \<Rightarrow> json \<Rightarrow> string list" where
  "coerce_str_list h j = (if \<not> truthy j then []
     else case j of JStr s \<Rightarrow> (case clean_item j of None \<Rightarrow> [] | Some t \<Rightarrow> [t])
       | _ \<Rightarrow> (case py_iter (th_json h) j of None \<Rightarrow> [] | Some xs \<Rightarrow> List.map_filter clean_item xs))"

text \<open>\<open>str(d.get(k) or '').strip().lower()\<close>.\<close>

definition label_at :: "talk_host \<Rightarrow> json pydict \<Rightarrow> string \<Rightarrow> string" where
  "label_at h d k = th_lower h (wide_strip (json_str (th_json h) (dict_get_or d k (JStr []))))"

section \<open>Roles\<close>

definition compute_role_coverage :: "string list \<Rightarrow> string list \<Rightarrow> string list \<times> string list" where
  "compute_role_coverage active played = (filter (\<lambda>r. r \<in> set played) active, filter (\<lambda>r. r \<notin> set played) active)"

definition resolve_played_roles :: "talk_host \<Rightarrow> json pydict \<Rightarrow> string list" where
  "resolve_played_roles h d =
     (let played = coerce_str_list h (dict_get d ''played_roles'');
          played = (if played = [] then coerce_str_list h (dict_get d ''team_played_roles'') else played)
      in dedup (played @ (case dict_get d ''team_conversation'' of JObj t \<Rightarrow> coerce_str_list h (dict_get t ''played_roles'') | _ \<Rightarrow> [])))"

section \<open>Research\<close>

text \<open>\<open>len(j)\<close>, 0 where it raises.\<close>

definition json_len :: "json \<Rightarrow> int" where
  "json_len j = (case j of JList xs \<Rightarrow> int (length xs) | JStr s \<Rightarrow> int (py_len s) | JObj d \<Rightarrow> int (length d) | _ \<Rightarrow> 0)"

definition compute_research_source_count :: "talk_host \<Rightarrow> json pydict \<Rightarrow> int" where
  "compute_research_source_count h d = (case dict_get d ''research_source_count'' of
     JInt i \<Rightarrow> i
   | JBool b \<Rightarrow> if b then 1 else 0
   | JNum x \<Rightarrow> the (py_int (th_json h) (JNum x))
   | _ \<Rightarrow> (case dict_get d ''research_pack'' of JObj p \<Rightarrow> json_len (dict_get p ''sources'') | _ \<Rightarrow> 0))"

definition has_pack :: "json pydict \<Rightarrow> bool" where
  "has_pack d \<longleftrightarrow> (case dict_get d ''research_pack'' of JObj p \<Rightarrow> p \<noteq> [] | _ \<Rightarrow> False)"

definition compute_research_status :: "talk_host \<Rightarrow> json pydict \<Rightarrow> string \<times> int \<times> bool" where
  "compute_research_status h d =
     (let n = compute_research_source_count h d; persisted = label_at h d ''research_status''
      in if persisted \<in> {RESEARCH_STATUS_INSUFFICIENT, RESEARCH_STATUS_READY} then (persisted, n, has_pack d)
         else if has_pack d \<and> 0 < n then (RESEARCH_STATUS_READY, n, True)
         else if has_pack d then (RESEARCH_STATUS_INSUFFICIENT, n, True)
         else (RESEARCH_STATUS_MISSING, n, False))"

definition has_synthesis :: "json pydict \<Rightarrow> bool" where
  "has_synthesis d \<longleftrightarrow> (case dict_get d ''research_synthesis'' of
     JObj s \<Rightarrow> (case dict_get s ''consensus'' of JStr c \<Rightarrow> wide_strip c \<noteq> [] | _ \<Rightarrow> False) | _ \<Rightarrow> False)"

definition record_status :: "talk_host \<Rightarrow> json \<Rightarrow> string option" where
  "record_status h j = (case j of JObj r \<Rightarrow> Some (label_at h r ''status'') | _ \<Rightarrow> None)"

text \<open>A session without recorded role results counts as one with evidence.\<close>

definition has_role_research_evidence :: "talk_host \<Rightarrow> json pydict \<Rightarrow> bool" where
  "has_role_research_evidence h d \<longleftrightarrow> (case dict_get d ''role_research_results'' of
     JObj b \<Rightarrow> b = [] \<or> list_ex (\<lambda>(_, r). record_status h r = Some ''ok'') b | _ \<Rightarrow> True)"

definition missing_role_research_roles :: "talk_host \<Rightarrow> json pydict \<Rightarrow> string list" where
  "missing_role_research_roles h d = (case dict_get d ''role_research_results'' of
     JObj b \<Rightarrow> sort (map fst (filter (\<lambda>(_, r). case record_status h r of None \<Rightarrow> False | Some s \<Rightarrow> s \<noteq> [] \<and> s \<noteq> ''ok'') b)) | _ \<Rightarrow> [])"

section \<open>The gates\<close>

definition compute_report_status :: "talk_host \<Rightarrow> json pydict \<Rightarrow> string \<times> string list" where
  "compute_report_status h d =
     (let (_, n, pack) = compute_research_status h d
      in if \<not> pack \<or> n \<le> 0 \<or> label_at h d ''research_status'' = RESEARCH_STATUS_INSUFFICIENT
         then (REPORT_STATUS_INSUFFICIENT, coerce_str_list h (dict_get d ''research_missing_roles''))
         else let missing = snd (compute_role_coverage (coerce_str_list h (dict_get d ''active_research_roles'')) (resolve_played_roles h d))
              in if missing \<noteq> [] \<or> \<not> has_synthesis d \<or> \<not> has_role_research_evidence h d then (REPORT_STATUS_INTERIM, missing)
                 else (REPORT_STATUS_READY, []))"

text \<open>\<open>None\<close> is a yes, \<open>Some\<close> the reason of a no.\<close>

definition can_generate_final_work_report :: "talk_host \<Rightarrow> json pydict \<Rightarrow> string option" where
  "can_generate_final_work_report h d =
     (let (status, missing) = compute_report_status h d
      in if status = REPORT_STATUS_READY then None
         else if status = REPORT_STATUS_INSUFFICIENT then Some (''research_pack '' @ utf8 [0xBBF8, 0xC218, 0xC9D1]
           @ '' / '' @ utf8 [0xC790, 0xB8CC, 0x20, 0x30, 0xAC74])
         else if missing \<noteq> [] then Some ((utf8 [0xC5ED, 0xD560, 0x20, 0xD1A0, 0xC758, 0x20, 0xBBF8, 0xC644,
           0xB8CC] @ '' ('') @ py_join '', '' missing @ '')'')
         else if \<not> has_synthesis d then Some (''tech-lead synthesis '' @ utf8 [0xBBF8, 0xC791, 0xC131])
         else if \<not> has_role_research_evidence h d then
           (let failed = missing_role_research_roles h d
            in if failed \<noteq> [] then Some ((utf8 [0xC5ED, 0xD560, 0x20, 0xC5F0, 0xAD6C, 0x20, 0xACB0, 0xACFC,
              0x20, 0xBD80, 0xC871, 0x20, 0x2014] @ '' status=ok '' @ utf8 [0xC778] @ '' role '' @ utf8 [0xC5C6,
              0xC74C, 0x20, 0x28, 0xC2E4, 0xD328] @ '': '') @ py_join '', '' failed @ '')'')
               else Some (utf8 [0xC5ED, 0xD560, 0x20, 0xC5F0, 0xAD6C, 0x20, 0xACB0, 0xACFC, 0x20, 0xBD80, 0xC871,
                 0x20, 0x2014] @ '' role_research_results '' @ utf8 [0xC5D0] @ '' status=ok '' @ utf8 [0xC778]
                 @ '' role '' @ utf8 [0xC5C6, 0xC74C]))
         else Some (''lifecycle '' @ utf8 [0xBBF8, 0xC644, 0xB8CC]))"

definition can_write_obsidian_record :: "talk_host \<Rightarrow> json pydict \<Rightarrow> string option" where
  "can_write_obsidian_record h d =
     (let (status, n, _) = compute_research_status h d
      in if \<not> (status = RESEARCH_STATUS_READY \<or> 0 < n) then Some (''research_pack '' @ utf8 [0xBBF8,
        0xC218, 0xC9D1, 0x20, 0x28, 0xC790, 0xB8CC, 0x20, 0x30, 0xAC74, 0x29, 0x20, 0xC0C1, 0xD0DC, 0xB77C, 0x20,
        0xC800, 0xC7A5, 0xD560, 0x20, 0xC218, 0x20, 0xC5C6, 0xC5B4, 0xC694])
         else case dict_get d ''work_report'' of
           JObj w \<Rightarrow>
             (let s = label_at h w ''status''
              in if s \<in> {REPORT_STATUS_INSUFFICIENT, REPORT_STATUS_INTERIM} then
                   (case dict_get_or w ''missing_roles'' (JList []) of
                      JList (m # ms) \<Rightarrow> Some ((utf8 [0xC5ED, 0xD560, 0x20, 0xD1A0, 0xC758, 0x20, 0xBBF8,
                        0xC644, 0xB8CC] @ '' ('') @ py_join '', '' (map (json_str (th_json h)) (m # ms)) @ ('') ''
                        @ utf8 [0xB77C, 0x20, 0xC800, 0xC7A5, 0xD560, 0x20, 0xC218, 0x20, 0xC5C6, 0xC5B4, 0xC694]))
                    | _ \<Rightarrow> Some (''work_report status='' @ s @ ('' '' @ utf8 [0xB77C] @ '' final ''
                      @ utf8 [0xC800, 0xC7A5, 0x20, 0xB2E8, 0xACC4, 0xAC00, 0x20, 0xC544, 0xB2C8, 0xC5D0, 0xC694])))
                 else None)
         | _ \<Rightarrow> None)"

record lifecycle_status =
  ls_research_status :: string
  ls_source_count :: int
  ls_has_research_pack :: bool
  ls_has_synthesis :: bool
  ls_active_roles :: "string list"
  ls_played_roles :: "string list"
  ls_missing_roles :: "string list"
  ls_report_status :: string
  ls_obsidian_block_reason :: "string option"

definition compute_lifecycle_status :: "talk_host \<Rightarrow> json pydict \<Rightarrow> lifecycle_status" where
  "compute_lifecycle_status h d =
     (let (rs, n, pack) = compute_research_status h d; active = coerce_str_list h (dict_get d ''active_research_roles'');
          played = resolve_played_roles h d; missing = snd (compute_role_coverage active played); (st, rest) = compute_report_status h d
      in \<lparr>ls_research_status = rs, ls_source_count = n, ls_has_research_pack = (pack \<and> 0 < n), ls_has_synthesis = has_synthesis d,
          ls_active_roles = active, ls_played_roles = played, ls_missing_roles = (if missing \<noteq> [] then missing else rest),
          ls_report_status = st, ls_obsidian_block_reason = can_write_obsidian_record h d\<rparr>)"

section \<open>What the gates agree on\<close>

text \<open>A final report: research with sources, every active role played, a synthesis and evidence.\<close>

lemma report_ready_iff:
  "fst (compute_report_status h d) = REPORT_STATUS_READY \<longleftrightarrow> has_pack d \<and> 0 < compute_research_source_count h d
     \<and> label_at h d ''research_status'' \<noteq> RESEARCH_STATUS_INSUFFICIENT
     \<and> set (coerce_str_list h (dict_get d ''active_research_roles'')) \<subseteq> set (resolve_played_roles h d)
     \<and> has_synthesis d \<and> has_role_research_evidence h d"
  by (auto simp: compute_report_status_def compute_research_status_def compute_role_coverage_def Let_def filter_empty_conv
    REPORT_STATUS_READY_def REPORT_STATUS_INSUFFICIENT_def REPORT_STATUS_INTERIM_def split: if_splits)

lemma final_report_iff: "can_generate_final_work_report h d = None \<longleftrightarrow> fst (compute_report_status h d) = REPORT_STATUS_READY"
  by (auto simp: can_generate_final_work_report_def Let_def split: prod.split)

lemma record_allowed_iff:
  "can_write_obsidian_record h d = None \<longleftrightarrow>
     (label_at h d ''research_status'' = RESEARCH_STATUS_READY \<or> 0 < compute_research_source_count h d)
     \<and> (\<forall>w. dict_get d ''work_report'' = JObj w \<longrightarrow> label_at h w ''status'' \<notin> {REPORT_STATUS_INSUFFICIENT, REPORT_STATUS_INTERIM})"
  by (auto simp: can_write_obsidian_record_def compute_research_status_def Let_def RESEARCH_STATUS_READY_def RESEARCH_STATUS_MISSING_def
    RESEARCH_STATUS_INSUFFICIENT_def split: if_splits json.splits list.splits)

text \<open>What the report calls ready may be saved, if the stored report agrees.\<close>

lemma report_ready_may_save:
  assumes "can_generate_final_work_report h d = None"
    and "\<And>w. dict_get d ''work_report'' = JObj w \<Longrightarrow> label_at h w ''status'' = fst (compute_report_status h d)"
  shows "can_write_obsidian_record h d = None"
proof -
  have r: "fst (compute_report_status h d) = REPORT_STATUS_READY" using assms(1) by (simp add: final_report_iff)
  then have "0 < compute_research_source_count h d" by (simp add: report_ready_iff)
  then show ?thesis using assms(2) r unfolding record_allowed_iff
    by (simp add: REPORT_STATUS_READY_def REPORT_STATUS_INSUFFICIENT_def REPORT_STATUS_INTERIM_def)
qed

end
