(* ===== verification/ObsidianGate.thy ===== *)
theory ObsidianGate
  imports CodingGate Readiness
begin

text \<open>
  Saving a session to the vault (\<open>obsidian/approval.py\<close> and \<open>engineering_channel_router/obsidian_gate.py\<close>): a preview stores a
  proposal in the session, words of approval write the note. The reader of packs, the renderers and the
  writer of notes are arguments.
\<close>

section \<open>Phrases\<close>

definition OBSIDIAN_SAVE_PHRASES :: "string list" where
  "OBSIDIAN_SAVE_PHRASES = [(''obsidian'' @ utf8 [0xC5D0, 0x20, 0xC815, 0xB9AC]), (''obsidian '' @ utf8 [0xC5D0,
    0x20, 0xC815, 0xB9AC]), (''obsidian'' @ utf8 [0xC5D0, 0x20, 0xC800, 0xC7A5]), (''obsidian '' @ utf8 [0xC5D0,
    0x20, 0xC800, 0xC7A5]), (''obsidian '' @ utf8 [0xB178, 0xD2B8, 0x20, 0xC815, 0xB9AC]), (''obsidian ''
    @ utf8 [0xB3D9, 0xAE30, 0xD654]), (utf8 [0xC635, 0xC2DC, 0xB514, 0xC5B8, 0xC5D0, 0x20, 0xC815,
    0xB9AC]), (utf8 [0xC635, 0xC2DC, 0xB514, 0xC5B8, 0xC5D0, 0x20, 0xC800, 0xC7A5]), (utf8 [0xC635, 0xC2DC, 0xB514,
    0xC5B8, 0x20, 0xC815, 0xB9AC]), (utf8 [0xC635, 0xC2DC, 0xB514, 0xC5B8, 0x20, 0xB3D9, 0xAE30,
    0xD654]), (utf8 [0xC774, 0x20, 0xC138, 0xC158, 0x20, 0xAE30, 0xC900, 0xC73C, 0xB85C, 0x20, 0xC800,
    0xC7A5]), (utf8 [0xD1A0, 0xC758, 0x20, 0xAE30, 0xB85D] @ '' obsidian'' @ utf8 [0xC5D0, 0x20,
    0xB0A8]), (utf8 [0xD1A0, 0xC758, 0x20, 0xAE30, 0xB85D, 0x20, 0xC635, 0xC2DC, 0xB514, 0xC5B8, 0xC5D0, 0x20,
    0xB0A8]), (''vault'' @ utf8 [0xC5D0, 0x20, 0xC800, 0xC7A5]), (''vault '' @ utf8 [0xC5D0, 0x20, 0xC800,
    0xC7A5]), ''save to obsidian'', ''save to vault'']"

definition APPROVAL_STANDALONE :: "string list" where
  "APPROVAL_STANDALONE = [(utf8 [0xC800, 0xC7A5, 0x20, 0xC2B9, 0xC778]), (utf8 [0xC800, 0xC7A5, 0xC2B9,
    0xC778]), (utf8 [0xC800, 0xC7A5, 0x20, 0xD574, 0xC918]), (utf8 [0xC800, 0xC7A5, 0xD574,
    0xC918]), (utf8 [0xC774, 0xB300, 0xB85C, 0x20, 0xC800, 0xC7A5]), (utf8 [0xC774, 0xB300, 0xB85C, 0x20, 0xC800,
    0xC7A5, 0xD574]), (utf8 [0xC774, 0xB300, 0xB85C, 0x20, 0xC800, 0xC7A5, 0xD574, 0xC918]), (utf8 [0xC774, 0xB300,
    0xB85C, 0xC800, 0xC7A5]), (utf8 [0xC774, 0xB300, 0xB85C, 0x20, 0xBCF4, 0xB0B4, 0xC918]), (''vault ''
    @ utf8 [0xC800, 0xC7A5, 0x20, 0xC2B9, 0xC778]), (''obsidian '' @ utf8 [0xC800, 0xC7A5, 0x20, 0xC2B9,
    0xC778]), (utf8 [0xC635, 0xC2DC, 0xB514, 0xC5B8, 0x20, 0xC800, 0xC7A5, 0x20, 0xC2B9,
    0xC778]), ''save approved'', ''approve save'', ''approve and save'', ''go ahead and save'']"

definition BARE_APPROVAL_TOKENS :: "string list" where
  "BARE_APPROVAL_TOKENS = [(utf8 [0xC2B9, 0xC778]), (utf8 [0xD655,
    0xC778]), ''approve'', ''approved'', ''go'', ''ok'']"

definition is_obsidian_save_request :: "talk_host \<Rightarrow> string \<Rightarrow> bool" where
  "is_obsidian_save_request h s \<longleftrightarrow> (let n = squeeze (th_lower h s) in n \<noteq> [] \<and> any_in n OBSIDIAN_SAVE_PHRASES)"

definition is_obsidian_approval :: "talk_host \<Rightarrow> bool \<Rightarrow> string \<Rightarrow> bool" where
  "is_obsidian_approval h pending s \<longleftrightarrow>
     (let n = squeeze (th_lower h s)
      in n \<noteq> [] \<and> (n \<in> set APPROVAL_STANDALONE
        \<or> list_ex (\<lambda>p. 4 \<le> py_len p \<and> py_contains p n \<and> py_len n \<le> py_len p + 12) APPROVAL_STANDALONE
        \<or> pending \<and> n \<in> set BARE_APPROVAL_TOKENS))"

text \<open>A session named by twelve hexadecimal digits (\<open>lifecycle/resolver.py\<close>): the digits, and what follows the match.\<close>

definition id_prefix :: "string list \<Rightarrow> string list" where
  "id_prefix cs = (case after_lit ''id'' cs of None \<Rightarrow> cs
     | Some cs \<Rightarrow> dropWhile space_char (drop_one (\<lambda>c. c \<in> {'':'', ''=''}) (dropWhile space_char cs)))"

definition explicit_id_at :: "string list \<Rightarrow> (string \<times> string list) option" where
  "explicit_id_at cs =
     (case (case after_lit (utf8 [0xC138,
       0xC158]) cs of Some r \<Rightarrow> Some r | None \<Rightarrow> after_lit ''session'' cs) of None \<Rightarrow> None
      | Some cs \<Rightarrow>
          (let cs = drop_one quote_char (id_prefix (dropWhile space_char cs)); ds = take 12 cs
           in if length ds = 12 \<and> list_all hex_char ds then Some (concat ds, drop_one quote_char (drop 12 cs)) else None))"

definition extract_explicit_session_id :: "string \<Rightarrow> string option" where
  "extract_explicit_session_id s = map_option py_lower (first_match (\<lambda>cs. map_option fst (explicit_id_at cs)) (char_list s))"

lemma drop_one_length: "length (drop_one p cs) \<le> length cs"
  by (simp add: drop_one_def split: list.split)

lemma after_lit_length: "after_lit l cs = Some r \<Longrightarrow> length r \<le> length cs"
  by (auto simp: after_lit_def split: if_splits)

lemma explicit_id_at_length:
  assumes "explicit_id_at cs = Some (i, r)"
  shows "length r < length cs"
proof -
  obtain a where a: "length a \<le> length cs" and
    e: "12 \<le> length (drop_one quote_char (id_prefix (dropWhile space_char a)))" "r = drop_one quote_char (drop 12 (drop_one quote_char (id_prefix (dropWhile space_char a))))"
    using assms after_lit_length by (fastforce simp: explicit_id_at_def Let_def split: option.splits if_splits)
  have p: "length (id_prefix b) \<le> length b" for b
  proof (cases "after_lit ''id'' b")
    case None
    then show ?thesis by (simp add: id_prefix_def)
  next
    case (Some c)
    have "length (dropWhile space_char (drop_one (\<lambda>c. c \<in> {'':'', ''=''}) (dropWhile space_char c))) \<le> length c"
      using length_dropWhile_le drop_one_length le_trans by blast
    then show ?thesis using Some after_lit_length[OF Some] by (simp add: id_prefix_def)
  qed
  let ?x = "drop_one quote_char (id_prefix (dropWhile space_char a))"
  have "length ?x \<le> length cs"
    using drop_one_length[of quote_char "id_prefix (dropWhile space_char a)"] p[of "dropWhile space_char a"] length_dropWhile_le[of space_char a] a by linarith
  then show ?thesis using e drop_one_length[of quote_char "drop 12 ?x"] by simp
qed

text \<open>\<open>_EXPLICIT_SESSION_ID_RE.sub('', text)\<close>.\<close>

function without_ids :: "string list \<Rightarrow> string list" where
  "without_ids [] = []"
| "without_ids (c # cs) = (case explicit_id_at (c # cs) of Some (i, r) \<Rightarrow> without_ids r | None \<Rightarrow> c # without_ids cs)"
  by pat_completeness auto
termination
  by (relation "measure length") (auto dest: explicit_id_at_length)

definition ID_FILLERS :: "string list" where
  "ID_FILLERS = [(utf8 [0xAE30, 0xC900, 0xC73C, 0xB85C]), (utf8 [0xAE30, 0xC900, 0x20, 0xC73C,
    0xB85C]), (utf8 [0xAE30, 0xC900, 0xC5D0, 0xC11C]), (utf8 [0xAE30, 0xC900])]"

definition strip_filler :: "string \<Rightarrow> string" where
  "strip_filler s = (case find (\<lambda>f. prefix f s) ID_FILLERS of None \<Rightarrow> s | Some f \<Rightarrow> wide_strip (drop (length f) s))"

text \<open>Words of approval, possibly after the name of a session.\<close>

definition approves_save :: "talk_host \<Rightarrow> string \<Rightarrow> bool" where
  "approves_save h s \<longleftrightarrow> is_obsidian_approval h False s
     \<or> (extract_explicit_session_id s \<noteq> None
        \<and> (let t = wide_strip (concat (without_ids (char_list s))) in t \<noteq> [] \<and> is_obsidian_approval h False (strip_filler t)))"

section \<open>The proposal in the session\<close>

text \<open>\<open>(extra.get('obsidian') or {}).get('pending_proposal')\<close>.\<close>

definition get_pending_proposal :: "wsession \<Rightarrow> raised + json pydict option" where
  "get_pending_proposal s =
     (let o' = dict_get (ws_extra s) ''obsidian''
      in if \<not> truthy o' then Inr None
         else case o' of JObj d \<Rightarrow> Inr (case dict_get d ''pending_proposal'' of JObj p \<Rightarrow> Some p | _ \<Rightarrow> None)
           | _ \<Rightarrow> Inl (Other_Error ''object has no attribute get''))"

fun with_pending :: "wsession list \<Rightarrow> raised + wsession list" where
  "with_pending [] = Inr []"
| "with_pending (s # ss) = (case get_pending_proposal s of Inl e \<Rightarrow> Inl e
     | Inr p \<Rightarrow> (case with_pending ss of Inl e \<Rightarrow> Inl e | Inr r \<Rightarrow> Inr (if p = None then r else s # r)))"

definition find_session_with_pending_proposal :: "gateway \<Rightarrow> message \<Rightarrow> gw_state \<Rightarrow> raised + wsession option" where
  "find_session_with_pending_proposal g m st =
     (case with_pending (gate_sessions g st) of Inl e \<Rightarrow> Inl e | Inr ss \<Rightarrow> Inr (nearest_session m (of_author m) ss))"

text \<open>\<open>update_session\<close>, whose exception the callers here do not catch.\<close>

definition save_session :: "gateway \<Rightarrow> wsession \<Rightarrow> gw_state \<Rightarrow> (raised + wsession) \<times> gw_state" where
  "save_session g s st = (case update_session g s st of
     (None, st') \<Rightarrow> (Inr (s\<lparr>ws_updated_at := gh_now g (gs_trace st)\<rparr>), st')
   | (Some e, st') \<Rightarrow> (Inl (Other_Error e), st'))"

definition set_obsidian :: "json pydict \<Rightarrow> wsession \<Rightarrow> wsession" where
  "set_obsidian d s = extend_extra [(''obsidian'', JObj d)] s"

definition store_pending_proposal :: "gateway \<Rightarrow> json pydict \<Rightarrow> string \<Rightarrow> string \<Rightarrow> wsession \<Rightarrow> gw_state \<Rightarrow> (raised + wsession) \<times> gw_state" where
  "store_pending_proposal g payload title path s st = (case object_at (ws_extra s) ''obsidian'' of Inl e \<Rightarrow> (Inl e, st)
     | Inr d \<Rightarrow> save_session g (set_obsidian (dict_merge d [(''pending_proposal'', JObj payload), (''pending_note_title'', JStr title),
         (''pending_path'', JStr path)]) s) st)"

definition clear_pending_proposal :: "gateway \<Rightarrow> wsession \<Rightarrow> gw_state \<Rightarrow> (raised + wsession) \<times> gw_state" where
  "clear_pending_proposal g s st = (case object_at (ws_extra s) ''obsidian'' of Inl e \<Rightarrow> (Inl e, st)
     | Inr d \<Rightarrow> save_session g (set_obsidian (filter (\<lambda>(k, _). k \<notin> {''pending_proposal'', ''pending_note_title'', ''pending_path''}) d) s) st)"

definition record_write_event :: "gateway \<Rightarrow> string \<Rightarrow> string option \<Rightarrow> string option \<Rightarrow> wsession \<Rightarrow> gw_state \<Rightarrow> (raised + wsession) \<times> gw_state" where
  "record_write_event g status path err s st =
     (case object_at (ws_extra s) ''obsidian'' of Inl e \<Rightarrow> (Inl e, st)
      | Inr d \<Rightarrow>
          (case tuple_at (gh_talk g) d ''events'' of Inl e \<Rightarrow> (Inl e, st)
           | Inr evs \<Rightarrow>
               (let t = JStr (gh_local_time g (gh_now g (gs_trace st)));
                    ev = JObj [(''status'', JStr status), (''vault_relative_path'', opt_json path), (''error'', opt_json err), (''occurred_at'', t)];
                    given = (\<lambda>k v. case v of None \<Rightarrow> [] | Some x \<Rightarrow> if x = [] then [] else [(k, JStr x)])
                in save_session g (set_obsidian (dict_merge d ([(''events'', JList (evs @ [ev])), (''last_write_status'', JStr status), (''last_write_at'', t)]
                     @ given ''last_write_path'' path @ given ''last_write_error'' err)) s) st)))"

section \<open>The note\<close>

definition read_synthesis :: "gateway \<Rightarrow> wsession \<Rightarrow> json option" where
  "read_synthesis g s = (let j = dict_get (ws_extra s) ''research_synthesis'' in if truthy j then gh_read_synthesis g j else None)"

definition render_note_for_session :: "gateway \<Rightarrow> wsession \<Rightarrow> pack \<Rightarrow> json \<Rightarrow> json \<Rightarrow> string + vault_note" where
  "render_note_for_session g s p project layout = (case gh_knowledge_note g s p (read_synthesis g s) project layout of
     Some n \<Rightarrow> Inr n | None \<Rightarrow> gh_research_note g s p (read_synthesis g s) project layout)"

text \<open>\<open>str.splitlines\<close>; a line feed after a carriage return belongs to it.\<close>

definition line_break :: "string \<Rightarrow> bool" where
  "line_break c \<longleftrightarrow> (let n = code_point c in (10 \<le> n \<and> n \<le> 13) \<or> (28 \<le> n \<and> n \<le> 30) \<or> n = 133 \<or> n = 8232 \<or> n = 8233)"

fun lines_of :: "bool \<Rightarrow> string \<Rightarrow> string list \<Rightarrow> string list" where
  "lines_of after_cr acc [] = (if acc = [] then [] else [acc])"
| "lines_of after_cr acc (c # cs) = (if after_cr \<and> c = [newline] then lines_of False acc cs
     else if line_break c then acc # lines_of (code_point c = 13) [] cs else lines_of False (acc @ c) cs)"

definition section_titles :: "vault_note \<Rightarrow> string list" where
  "section_titles n = map (\<lambda>l. wide_strip (drop 3 l)) (filter (prefix ''## '') (lines_of False [] (char_list (nt_content n))))"

definition right_strip :: "string \<Rightarrow> string" where
  "right_strip s = concat (rev (dropWhile space_char (rev (char_list s))))"

definition format_preview_message :: "string \<Rightarrow> string \<Rightarrow> string \<Rightarrow> string list \<Rightarrow> string \<Rightarrow> string" where
  "format_preview_message title path summary sections sid =
     (let lines = (if sections \<noteq> [] then py_join [newline] (map (\<lambda>t. ''- ''
       @ t) sections) else (''- ('' @ utf8 [0xC5C6, 0xC74C] @ '')''));
          block = (if 600 < py_len summary then right_strip (chars 600 summary) @ (utf8 [0x2026]) else summary)
      in py_join [newline] [(''**[engineering-agent] Obsidian '' @ utf8 [0xC800, 0xC7A5, 0x20, 0xBBF8, 0xB9AC,
        0xBCF4, 0xAE30] @ ''**''), (utf8 [0xC138, 0xC158] @ '': `'') @ sid @ ''`'', (utf8 [0xC81C, 0xBAA9]
        @ '': '') @ title,
           (utf8 [0xC800, 0xC7A5, 0x20, 0xACBD, 0xB85C] @ '': `'') @ path @ ''`'', [], (utf8 [0xC694, 0xC57D]
             @ '':''), block, [], (utf8 [0xD3EC, 0xD568, 0x20, 0xC139, 0xC158] @ '':''), lines, [],
           (utf8 [0xC800, 0xC7A5, 0xD558, 0xB824, 0xBA74, 0x20, 0x60, 0xC800, 0xC7A5, 0x20, 0xC2B9, 0xC778, 0x60,
             0x20, 0xC774, 0xB77C, 0xACE0, 0x20, 0xB2F5, 0xD574, 0x20, 0xC8FC, 0xC138, 0xC694] @ ''. '')
             @ (utf8 [0xC218, 0xC815, 0xC774, 0x20, 0xD544, 0xC694, 0xD558, 0xBA74, 0x20, 0xBCC0, 0xACBD, 0x20,
             0xC694, 0xCCAD, 0xB9CC, 0x20, 0xB2F5, 0xD574, 0x20, 0xC8FC, 0xC2DC, 0xBA74, 0x20, 0xB2E4, 0xC2DC,
             0x20, 0xBBF8, 0xB9AC, 0xBCF4, 0xAE30, 0xB97C, 0x20, 0xB9CC, 0xB4E4, 0xC5B4, 0x20, 0xB4DC, 0xB9B4,
             0xAC8C, 0xC694] @ ''.'')])"

record save_proposal =
  sv_title :: string
  sv_path :: string
  sv_preview :: string
  sv_payload :: "json pydict"

definition int_json :: "int option \<Rightarrow> json" where
  "int_json x = (case x of None \<Rightarrow> JNull | Some i \<Rightarrow> JInt i)"

text \<open>The error tells \<open>ObsidianApprovalError\<close> from other exceptions.\<close>

datatype save_failure = Approval_Error string | Save_Raised string

definition build_save_proposal :: "gateway \<Rightarrow> int option \<Rightarrow> real \<Rightarrow> wsession \<Rightarrow> save_failure + save_proposal" where
  "build_save_proposal g actor now s =
     (let payload = dict_get (ws_extra s) ''research_pack''
      in if \<not> truthy payload then Inl (Approval_Error ((utf8 [0xC138, 0xC158] @ '' `'') @ ws_id s @ (''` ''
        @ utf8 [0xC5D0, 0x20, 0xC800, 0xC7A5, 0xD560] @ '' research_pack '' @ utf8 [0xC774, 0x20, 0xC5C6, 0xC5B4,
        0xC694] @ ''. '') @ (utf8 [0xD1A0, 0xC758, 0x2F, 0xC790, 0xB8CC, 0x20, 0xC815, 0xB9AC, 0xAC00, 0x20,
        0xB05D, 0xB09C, 0x20, 0xB4A4, 0x20, 0xB2E4, 0xC2DC, 0x20, 0xC694, 0xCCAD, 0xD574, 0x20, 0xC8FC, 0xC138,
        0xC694] @ ''.'')))
         else case gh_read_pack g payload of
           Inl e \<Rightarrow> Inl (Approval_Error ((utf8 [0xC138, 0xC158] @ '' `'') @ ws_id s @ (''` ''
             @ utf8 [0xC758] @ '' research_pack '' @ utf8 [0xC744, 0x20, 0xC77D, 0xC9C0, 0x20, 0xBABB, 0xD588,
             0xC5B4, 0xC694] @ '': '') @ e))
         | Inr p \<Rightarrow>
             (case render_note_for_session g s p JNull JNull of Inl e \<Rightarrow> Inl (Save_Raised e)
              | Inr n \<Rightarrow>
                  (let titles = section_titles n; title = json_str (th_json (gh_talk g)) (if truthy (nt_title n) then nt_title n else JStr (nt_filename n));
                       t = wide_strip (case pk_summary p of None \<Rightarrow> [] | Some t \<Rightarrow> t); summary = (if t \<noteq> [] then t else (''('' @ utf8 [0xC694, 0xC57D, 0x20, 0xBBF8, 0xD3EC, 0xD568] @ '')''))
                   in Inr \<lparr>sv_title = title, sv_path = nt_path n, sv_preview = format_preview_message title (nt_path n) summary titles (ws_id s),
                        sv_payload = [(''session_id'', JStr (ws_id s)), (''title'', JStr title), (''vault_relative_path'', JStr (nt_path n)),
                          (''summary'', JStr summary), (''sections'', JList (map JStr titles)), (''channel_id'', int_json (ws_channel_id s)),
                          (''thread_id'', int_json (ws_thread_id s)), (''user_id'', int_json (ws_user_id s)), (''actor_user_id'', int_json actor),
                          (''project'', JNull), (''layout'', JNull), (''created_at'', JStr (gh_naive_time g now))]\<rparr>)))"

section \<open>Writing\<close>

text \<open>A failure that is recorded in the session; the recording may fail itself.\<close>

definition failed_write :: "gateway \<Rightarrow> string \<Rightarrow> string \<Rightarrow> string \<Rightarrow> wsession \<Rightarrow> gw_state \<Rightarrow> (save_failure + wsession \<times> string) \<times> gw_state" where
  "failed_write g status err msg s st = (case record_write_event g status None (Some err) s st of
     (Inl e, st) \<Rightarrow> (Inl (Save_Raised (raised_text e)), st) | (Inr s, st) \<Rightarrow> (Inr (s, msg), st))"

definition written_message :: "written \<Rightarrow> string" where
  "written_message w = py_join [newline] [(''Obsidian '' @ utf8 [0xC800, 0xC7A5, 0x20, 0xC644, 0xB8CC, 0x20,
    0x2705]), ''vault relative path: `'' @ wn_path w @ ''`'']
     @ (case wn_original w of None \<Rightarrow> []
        | Some o' \<Rightarrow> py_join [newline] [[], (utf8 [0xAE30, 0xC874, 0x20, 0xD30C, 0xC77C, 0xACFC, 0x20,
          0xCDA9, 0xB3CC, 0xD574, 0x20, 0xC790, 0xB3D9, 0xC73C, 0xB85C] @ '' `'') @ wn_name w @ (''` ''
          @ utf8 [0xB85C, 0x20, 0xC800, 0xC7A5, 0xD588, 0xC5B4, 0xC694] @ '' '') @ (''('' @ utf8 [0xC6D0, 0xB798,
          0x20, 0xACBD, 0xB85C] @ '': `'') @ o' @ ''`).''])"

definition after_write :: "gateway \<Rightarrow> written \<Rightarrow> wsession \<Rightarrow> gw_state \<Rightarrow> (save_failure + wsession \<times> string) \<times> gw_state" where
  "after_write g w s st = (case clear_pending_proposal g s st of (Inl e, st) \<Rightarrow> (Inl (Save_Raised (raised_text e)), st)
     | (Inr s, st) \<Rightarrow> (case record_write_event g ''written'' (Some (wn_path w)) None s st of
         (Inl e, st) \<Rightarrow> (Inl (Save_Raised (raised_text e)), st) | (Inr s, st) \<Rightarrow> (Inr (s, written_message w), st)))"

definition write_rendered :: "gateway \<Rightarrow> vault_note \<Rightarrow> string \<Rightarrow> wsession \<Rightarrow> gw_state \<Rightarrow> (save_failure + wsession \<times> string) \<times> gw_state" where
  "write_rendered g n vault s st = (case gh_write_note g (gs_trace st) n vault of
     Inl (Write_Error e) \<Rightarrow> failed_write g ''write_failed'' e ((utf8 [0x26A0, 0xFE0F] @ '' Obsidian ''
       @ utf8 [0xC4F0, 0xAE30, 0x20, 0xC2E4, 0xD328] @ '': '') @ e @ (''. vault '' @ utf8 [0xAD8C, 0xD55C, 0xC774,
       0xB098, 0x20, 0xACBD, 0xB85C, 0xB97C, 0x20, 0xD655, 0xC778, 0xD558, 0xACE0, 0x20, 0xB2E4, 0xC2DC, 0x20,
       0x60, 0xC800, 0xC7A5, 0x20, 0xC2B9, 0xC778, 0x60, 0x20, 0xD574, 0x20, 0xC8FC, 0xC138, 0xC694] @ ''.'')) s st
   | Inl (Write_Raised e) \<Rightarrow> failed_write g ''write_failed'' e ((utf8 [0x26A0, 0xFE0F] @ '' Obsidian ''
     @ utf8 [0xC4F0, 0xAE30, 0x20, 0xC911, 0x20, 0xC608, 0xC0C1, 0xCE58, 0x20, 0xBABB, 0xD55C, 0x20, 0xC624,
     0xB958] @ '': '') @ e @ (''. '' @ utf8 [0xC7A0, 0xC2DC, 0x20, 0xB4A4, 0x20, 0xB2E4, 0xC2DC, 0x20, 0xC2DC,
     0xB3C4, 0xD574, 0x20, 0xC8FC, 0xC138, 0xC694] @ ''.'')) s st
   | Inr w \<Rightarrow> after_write g w s (emit (Wrote_Note n vault) st))"

definition execute_pending_proposal :: "gateway \<Rightarrow> wsession \<Rightarrow> gw_state \<Rightarrow> (save_failure + wsession \<times> string) \<times> gw_state" where
  "execute_pending_proposal g s st = (case get_pending_proposal s of
     Inl e \<Rightarrow> (Inl (Save_Raised (raised_text e)), st)
   | Inr None \<Rightarrow> (Inl (Approval_Error ((utf8 [0xC9C0, 0xAE08, 0xC740, 0x20, 0xB300, 0xAE30, 0x20,
     0xC911, 0xC778] @ '' Obsidian '' @ utf8 [0xC800, 0xC7A5, 0x20, 0xC81C, 0xC548, 0xC774, 0x20, 0xC5C6, 0xC5B4,
     0xC694] @ ''. '') @ (utf8 [0xBA3C, 0xC800] @ '' `Obsidian'' @ utf8 [0xC5D0, 0x20, 0xC815, 0xB9AC, 0xD574,
     0xC918, 0x60, 0x20, 0xCC98, 0xB7FC, 0x20, 0xC800, 0xC7A5, 0x20, 0xBBF8, 0xB9AC, 0xBCF4, 0xAE30, 0xB97C, 0x20,
     0xC694, 0xCCAD, 0xD574, 0x20, 0xC8FC, 0xC138, 0xC694] @ ''.''))), st)
   | Inr (Some []) \<Rightarrow> (Inl (Approval_Error ((utf8 [0xC9C0, 0xAE08, 0xC740, 0x20, 0xB300, 0xAE30, 0x20,
     0xC911, 0xC778] @ '' Obsidian '' @ utf8 [0xC800, 0xC7A5, 0x20, 0xC81C, 0xC548, 0xC774, 0x20, 0xC5C6, 0xC5B4,
     0xC694] @ ''. '') @ (utf8 [0xBA3C, 0xC800] @ '' `Obsidian'' @ utf8 [0xC5D0, 0x20, 0xC815, 0xB9AC, 0xD574,
     0xC918, 0x60, 0x20, 0xCC98, 0xB7FC, 0x20, 0xC800, 0xC7A5, 0x20, 0xBBF8, 0xB9AC, 0xBCF4, 0xAE30, 0xB97C, 0x20,
     0xC694, 0xCCAD, 0xD574, 0x20, 0xC8FC, 0xC138, 0xC694] @ ''.''))), st)
   | Inr (Some pending) \<Rightarrow>
       (case gh_vault_root g of
          Inl e \<Rightarrow> failed_write g ''vault_unavailable'' e (py_join [newline] [(utf8 [0x26A0, 0xFE0F]
            @ '' Obsidian vault '' @ utf8 [0xACBD, 0xB85C, 0xB97C, 0x20, 0xC0AC, 0xC6A9, 0xD560, 0x20, 0xC218,
            0x20, 0xC5C6, 0xC5B4, 0xC694] @ '': '') @ e,
            (''`OBSIDIAN_VAULT_PATH` '' @ utf8 [0xD658, 0xACBD, 0x20, 0xBCC0, 0xC218, 0xB97C, 0x20, 0xD655, 0xC778,
              0xD558, 0xACE0, 0x20, 0xB2E4, 0xC2DC, 0x20, 0x60, 0xC800, 0xC7A5, 0x20, 0xC2B9, 0xC778, 0x60, 0x20,
              0xD574, 0x20, 0xC8FC, 0xC138, 0xC694] @ ''.'')]) s st
        | Inr vault \<Rightarrow>
            (let payload = dict_get (ws_extra s) ''research_pack''
             in if \<not> truthy payload then failed_write g ''missing_pack'' ''research_pack disappeared from session.extra''
                  ((utf8 [0x26A0, 0xFE0F, 0x20, 0xC138, 0xC158, 0xC5D0] @ '' research_pack '' @ utf8 [0xC774, 0x20,
                    0xB354, 0x20, 0xC774, 0xC0C1, 0x20, 0xBCF4, 0xC774, 0xC9C0, 0x20, 0xC54A, 0xC544, 0x20, 0xC800,
                    0xC7A5, 0xC744, 0x20, 0xC9C4, 0xD589, 0xD560, 0x20, 0xC218, 0x20, 0xC5C6, 0xC5B4, 0xC694]
                    @ ''. '') @ (utf8 [0xB2E4, 0xC2DC] @ '' `Obsidian'' @ utf8 [0xC5D0, 0x20, 0xC815, 0xB9AC,
                    0xD574, 0xC918, 0x60, 0x20, 0xB85C, 0x20, 0xBBF8, 0xB9AC, 0xBCF4, 0xAE30, 0xBD80, 0xD130, 0x20,
                    0xB9CC, 0xB4E4, 0xC5B4, 0x20, 0xC8FC, 0xC138, 0xC694] @ ''.'')) s st
                else case gh_read_pack g payload of
                  Inl e \<Rightarrow> failed_write g ''pack_parse_error'' e ((utf8 [0x26A0, 0xFE0F, 0x20, 0xC800,
                    0xC7A5, 0x20, 0xC9C1, 0xC804] @ '' research_pack '' @ utf8 [0xD30C, 0xC2F1, 0xC774, 0x20,
                    0xC2E4, 0xD328, 0xD588, 0xC5B4, 0xC694] @ '': '') @ e @ (''. vault '' @ utf8 [0xACBD, 0xB85C]
                    @ '' / '' @ utf8 [0xC138, 0xC158, 0x20, 0xC0C1, 0xD0DC, 0xB97C, 0x20, 0xD655, 0xC778, 0xD558,
                    0xACE0, 0x20, 0xB2E4, 0xC2DC, 0x20, 0xC2DC, 0xB3C4, 0xD574, 0x20, 0xC8FC, 0xC138, 0xC694]
                    @ ''.'')) s st
                | Inr p \<Rightarrow>
                    (case render_note_for_session g s p (dict_get_or pending ''project'' JNull) (dict_get_or pending ''layout'' JNull) of
                       Inl e \<Rightarrow> (Inl (Save_Raised e), st)
                     | Inr n \<Rightarrow> write_rendered g n vault s st))))"

section \<open>The gate\<close>

definition save_for :: "gateway \<Rightarrow> wsession \<Rightarrow> gw_state \<Rightarrow> route_result \<times> gw_state" where
  "save_for g s st = (case can_write_obsidian_record (gh_talk g) (ws_extra s) of
     Some why \<Rightarrow> (handled\<lparr>rt_session_id := Some (ws_id s), rt_error := Some (''obsidian approval blocked: '' @ why)\<rparr>,
       send (py_join [newline] [(''Obsidian '' @ utf8 [0xC800, 0xC7A5, 0xC744, 0x20, 0xC9C4, 0xD589, 0xD558,
         0xC9C0, 0x20, 0xC54A, 0xC558, 0xC5B4, 0xC694] @ ''.''), (utf8 [0xCC28, 0xB2E8, 0x20, 0xC0AC, 0xC720]
         @ '': '') @ why, (''lifecycle '' @ utf8 [0xC774, 0x20, 0xC644, 0xB8CC, 0xB418, 0xBA74, 0x20, 0xB2E4,
         0xC2DC, 0x20, 0x60, 0xC800, 0xC7A5, 0x20, 0xC2B9, 0xC778, 0x60, 0x20, 0xC73C, 0xB85C, 0x20, 0xB2F5,
         0xD574, 0x20, 0xC8FC, 0xC138, 0xC694] @ ''.'')]) st)
   | None \<Rightarrow> (case execute_pending_proposal g s st of
       (Inl (Approval_Error e), st) \<Rightarrow> (handled\<lparr>rt_error := Some e\<rparr>, send ((utf8 [0x26A0,
         0xFE0F] @ '' Obsidian '' @ utf8 [0xC800, 0xC7A5, 0x20, 0xC2E4, 0xD328] @ '': '') @ e) st)
     | (Inl (Save_Raised e), st) \<Rightarrow> (handled\<lparr>rt_error := Some e\<rparr>, send ((utf8 [0x26A0,
       0xFE0F] @ '' Obsidian '' @ utf8 [0xC800, 0xC7A5, 0x20, 0xC911, 0x20, 0xC608, 0xC0C1, 0xCE58, 0x20, 0xBABB,
       0xD55C, 0x20, 0xC624, 0xB958] @ '': '') @ e) st)
     | (Inr (s, msg), st) \<Rightarrow> (handled\<lparr>rt_session_id := Some (ws_id s)\<rparr>, send msg st)))"

definition load_session :: "gateway \<Rightarrow> string \<Rightarrow> gw_state \<Rightarrow> wsession option" where
  "load_session g i st = (case gh_load g (gs_trace st) i of Inl e \<Rightarrow> None | Inr s \<Rightarrow> s)"

definition run_obsidian_approval_gate :: "gateway \<Rightarrow> message \<Rightarrow> string \<Rightarrow> gw_state \<Rightarrow> (raised + route_result option) \<times> gw_state" where
  "run_obsidian_approval_gate g m text st =
     (if \<not> approves_save (gh_talk g) text then (Inr None, st)
      else case extract_explicit_session_id text of
        Some i \<Rightarrow>
          (case load_session g i st of
             None \<Rightarrow> (Inr (Some (handled\<lparr>rt_error := Some (''obsidian approval: explicit session '' @ i @ '' not found'')\<rparr>)),
               send (py_join [newline] [(utf8 [0xC138, 0xC158] @ '' `'') @ i @ (''` '' @ utf8 [0xC744, 0x20,
                 0xCC3E, 0xC9C0, 0x20, 0xBABB, 0xD588, 0xC5B4, 0xC694] @ ''.''), (''session id '' @ utf8 [0xAC00,
                 0x20, 0xC815, 0xD655, 0xD55C, 0xC9C0, 0x20, 0xD655, 0xC778, 0xD558, 0xAC70, 0xB098, 0x2C, 0x20,
                 0xC0C8, 0x20, 0xC791, 0xC5C5, 0xC774, 0xB77C, 0xBA74, 0x20, 0x60, 0xC0C8, 0x20, 0xC791, 0xC5C5,
                 0xC73C, 0xB85C, 0x20, 0xC9C4, 0xD589, 0x60, 0xC774, 0xB77C, 0xACE0, 0x20, 0xB2F5, 0xD574, 0x20,
                 0xC8FC, 0xC138, 0xC694] @ ''.'')]) st)
           | Some s \<Rightarrow> (let (r, st) = save_for g s st in (Inr (Some r), st)))
      | None \<Rightarrow>
          (case find_session_with_pending_proposal g m st of
             Inl e \<Rightarrow> (Inl e, st)
           | Inr None \<Rightarrow> (Inr (Some handled), send (py_join [newline] [(utf8 [0xC9C0, 0xAE08, 0xC740,
             0x20, 0xB300, 0xAE30, 0x20, 0xC911, 0xC778] @ '' Obsidian '' @ utf8 [0xC800, 0xC7A5, 0x20, 0xC81C,
             0xC548, 0xC774, 0x20, 0xC5C6, 0xC5B4, 0xC694] @ ''.''),
               (utf8 [0xBA3C, 0xC800] @ '' `Obsidian'' @ utf8 [0xC5D0, 0x20, 0xC815, 0xB9AC, 0xD574, 0xC918, 0x60,
                 0x20, 0xCC98, 0xB7FC, 0x20, 0xC800, 0xC7A5, 0x20, 0xBBF8, 0xB9AC, 0xBCF4, 0xAE30, 0xB97C, 0x20,
                 0xB9CC, 0xB4E4, 0xC5B4, 0x20, 0xC8FC, 0xC138, 0xC694] @ ''.'')]) st)
           | Inr (Some s) \<Rightarrow> (let (r, st) = save_for g s st in (Inr (Some r), st))))"

text \<open>The preview: the proposal is stored, and shown even if storing it failed.\<close>

definition run_obsidian_preview_branch :: "gateway \<Rightarrow> message \<Rightarrow> json pydict \<Rightarrow> gw_state \<Rightarrow> route_result \<times> gw_state" where
  "run_obsidian_preview_branch g m payload st =
     (let target = (case dict_get payload ''session_id'' of JNull \<Rightarrow> None | j \<Rightarrow> Some (json_str (th_json (gh_talk g)) j))
      in case load_session_by_id g target st of
        None \<Rightarrow> (handled\<lparr>rt_error := Some ''obsidian preview: matched session not loadable''\<rparr>,
          send (py_join [newline] [(''**[engineering-agent] Obsidian '' @ utf8 [0xC800, 0xC7A5, 0x20, 0xB300,
            0xC0C1, 0x20, 0xC138, 0xC158, 0xC744, 0x20, 0xCC3E, 0xC9C0, 0x20, 0xBABB, 0xD588, 0xC5B4, 0xC694]
            @ ''.**''), (utf8 [0xC5B4, 0xB5A4, 0x20, 0xC138, 0xC158, 0xC744, 0x20, 0xC800, 0xC7A5, 0xD560, 0xC9C0,
            0x20, 0x60, 0xAE30, 0xC874, 0x20, 0xC138, 0xC158] @ '' <id>` '' @ utf8 [0xCC98, 0xB7FC, 0x20, 0xB2F5,
            0xD574, 0x20, 0xC8FC, 0xC138, 0xC694] @ ''.'')]) st)
      | Some s \<Rightarrow>
          (case build_save_proposal g (ms_author_id m) (gh_now g (gs_trace st)) s of
             Inl (Approval_Error e) \<Rightarrow> (handled\<lparr>rt_error := Some e\<rparr>, send ((utf8 [0x26A0,
               0xFE0F] @ '' '') @ e) st)
           | Inl (Save_Raised e) \<Rightarrow> (handled\<lparr>rt_error := Some e\<rparr>, send ((utf8 [0x26A0,
             0xFE0F] @ '' Obsidian '' @ utf8 [0xBBF8, 0xB9AC, 0xBCF4, 0xAE30, 0x20, 0xC0DD, 0xC131, 0x20, 0xC2E4,
             0xD328] @ '': '') @ e) st)
           | Inr p \<Rightarrow>
               (let st = (case store_pending_proposal g (sv_payload p) (sv_title p) (sv_path p) s st of (Inr _, st) \<Rightarrow> st
                      | (Inl e, st) \<Rightarrow> send (py_join [newline] [(utf8 [0x26A0, 0xFE0F, 0x20, 0xC800,
                        0xC7A5, 0x20, 0xC81C, 0xC548, 0x20, 0xAE30, 0xB85D, 0x20, 0xC2E4, 0xD328] @ '': '')
                        @ raised_text e, (utf8 [0xBBF8, 0xB9AC, 0xBCF4, 0xAE30, 0xB294, 0x20, 0xC544, 0xB798,
                        0xC5D0, 0xC11C, 0x20, 0xD655, 0xC778, 0xD558, 0xC2E4, 0x20, 0xC218, 0x20, 0xC788, 0xC5B4,
                        0xC694] @ ''.'')]) st)
                in (handled\<lparr>rt_session_id := Some (ws_id s), rt_thread_id := ws_thread_id s\<rparr>, send (sv_preview p) st))))"

end
