(* ===== verification/Router.thy ===== *)
theory Router
  imports ObsidianGate Understand Decide
begin

text \<open>
  The router of the engineering channel (\<open>engineering_channel_router/main.py\<close>, \<open>runtime_preflight.py\<close>, \<open>research_loop.py\<close>,
  \<open>reporting.py\<close>, \<open>router_messages.py\<close>): one message goes through the gates of coding and saving, the answer to a
  question asked before, recall, the conversation and the routing, and at most starts one piece of work. What is
  injected knows the message, too; a \<open>gateway\<close> holds it applied to the message.
\<close>

section \<open>Texts\<close>

definition CLARIFICATION_CANONICAL_MISSING :: string where
  "CLARIFICATION_CANONICAL_MISSING = py_join [newline] [(utf8 [0xC9C1, 0xC804] @ '' clarification ''
    @ utf8 [0xCE90, 0xC2DC, 0xC5D0, 0xC11C, 0x20, 0xC6D0, 0xBB38] @ '' task '' @ utf8 [0xBCF8, 0xBB38, 0xC744,
    0x20, 0xCC3E, 0xC9C0, 0x20, 0xBABB, 0xD588, 0xC5B4, 0xC694] @ ''.''), (utf8 [0xC9C4, 0xD589, 0xD560, 0x20,
    0xC5C5, 0xBB34, 0x20, 0xC6D0, 0xBB38, 0xC744, 0x20, 0xB2E4, 0xC2DC, 0x20, 0xC54C, 0xB824, 0xC8FC, 0xC138,
    0xC694, 0x2E, 0x20, 0x22, 0xC0C8, 0x20, 0xC791, 0xC5C5, 0xC73C, 0xB85C, 0x20, 0xC9C4, 0xD589, 0x22, 0xC740]
    @ '' routing '' @ utf8 [0xBA85, 0xB839, 0xC774, 0xB77C, 0x20, 0xC791, 0xC5C5, 0x20, 0xBCF8, 0xBB38, 0xC73C,
    0xB85C, 0x20, 0xC0AC, 0xC6A9, 0xD560, 0x20, 0xC218, 0x20, 0xC5C6, 0xC5B4, 0xC694] @ ''.'')]"

definition DRIVE_CLARIFICATION_NON_ACTIONABLE :: string where
  "DRIVE_CLARIFICATION_NON_ACTIONABLE = (utf8 [0xBC29, 0xAE08, 0x20, 0xBC1B, 0xC740, 0x20, 0xBA54, 0xC2DC, 0xC9C0,
    0xB294] @ '' routing '' @ utf8 [0xBA85, 0xB839, 0x28, 0x60, 0xC0C8, 0x20, 0xC791, 0xC5C5, 0xC73C, 0xB85C, 0x20,
    0xC9C4, 0xD589] @ ''`) '' @ utf8 [0xC774, 0xB77C] @ '' session.prompt '' @ utf8 [0xB85C, 0x20, 0xC4F8, 0x20,
    0xC218, 0x20, 0xC5C6, 0xACE0, 0x2C, 0x20, 0xC9C1, 0xC804] @ '' clarification '' @ utf8 [0xCE90, 0xC2DC, 0xC5D0,
    0xC11C, 0xB3C4, 0x20, 0xC6D0, 0xBB38] @ '' task '' @ utf8 [0xBCF8, 0xBB38, 0xC744, 0x20, 0xCC3E, 0xC9C0, 0x20,
    0xBABB, 0xD588, 0xC5B4, 0xC694, 0x2E, 0x20, 0xC9C4, 0xD589, 0xD560, 0x20, 0xC5C5, 0xBB34, 0x20, 0xC6D0, 0xBB38,
    0xC744, 0x20, 0xB2E4, 0xC2DC, 0x20, 0xC54C, 0xB824, 0xC8FC, 0xC138, 0xC694] @ ''.'')"

definition BOT_ECHO_CLARIFICATION :: string where
  "BOT_ECHO_CLARIFICATION = py_join [newline] [(utf8 [0xBC29, 0xAE08, 0x20, 0xBC1B, 0xC740, 0x20, 0xBA54, 0xC2DC,
    0xC9C0, 0xAC00] @ '' gateway'' @ utf8 [0xAC00, 0x20, 0xBCF4, 0xB0B8, 0x20, 0xC548, 0xB0B4, 0xBB38, 0x20,
    0xBB38, 0xAD6C, 0xC640, 0x20, 0xB611, 0xAC19, 0xC544, 0xC11C, 0x20, 0xC0C8, 0x20, 0xC791, 0xC5C5, 0xC73C,
    0xB85C, 0x20, 0xB4F1, 0xB85D, 0xD558, 0xC9C0, 0x20, 0xC54A, 0xC558, 0xC5B4, 0xC694] @ ''.''), (utf8 [0xC9C4,
    0xD589, 0xD560, 0x20, 0xC5C5, 0xBB34, 0x20, 0xC6D0, 0xBB38, 0xC744, 0x20, 0xB2E4, 0xC2DC, 0x20, 0xC54C, 0xB824,
    0xC8FC, 0xC138, 0xC694, 0x2E, 0x20, 0xC9E7, 0xC740, 0x20, 0xD655, 0xC778, 0x20, 0xBB38, 0xAD6C, 0xB294, 0x20,
    0xC791, 0xC5C5, 0x20, 0xBCF8, 0xBB38, 0xC73C, 0xB85C, 0x20, 0xC0AC, 0xC6A9, 0xD560, 0x20, 0xC218, 0x20, 0xC5C6,
    0xC5B4, 0xC694] @ ''.'')]"

definition NON_ACTIONABLE_ROUTING_CLARIFICATION :: string where
  "NON_ACTIONABLE_ROUTING_CLARIFICATION = py_join [newline] [(utf8 [0xC9C4, 0xD589, 0xD560, 0x20, 0xC5C5, 0xBB34,
    0x20, 0xC6D0, 0xBB38, 0xC744, 0x20, 0xB2E4, 0xC2DC, 0x20, 0xC54C, 0xB824, 0xC8FC, 0xC138, 0xC694, 0x2E, 0x20,
    0x22, 0xC774, 0xB300, 0xB85C, 0x20, 0xC9C4, 0xD589, 0x22] @ '' / '' @ utf8 [0x22, 0xC0C8, 0x20, 0xC791, 0xC5C5,
    0xC73C, 0xB85C, 0x20, 0xC9C4, 0xD589, 0x22, 0x20, 0xAC19, 0xC740, 0x20, 0xD655, 0xC778, 0x20, 0xBB38, 0xAD6C,
    0xB294, 0x20, 0xC791, 0xC5C5, 0x20, 0xBCF8, 0xBB38, 0xC73C, 0xB85C, 0x20, 0xC0AC, 0xC6A9, 0xD560, 0x20, 0xC218,
    0x20, 0xC5C6, 0xC5B4, 0xC694] @ ''.''), (utf8 [0xAE30, 0xC874, 0x20, 0xC791, 0xC5C5, 0xC744, 0x20, 0xC774,
    0xC5B4, 0xAC00, 0xB824, 0xBA74, 0x20, 0x60, 0xAE30, 0xC874, 0x20, 0xC138, 0xC158] @ '' <id>`'' @ utf8 [0xB85C,
    0x20, 0xB2F5, 0xD574, 0x20, 0xC8FC, 0xC138, 0xC694] @ ''.'')]"

definition ENGINEERING_THREAD_NOT_FOUND :: string where
  "ENGINEERING_THREAD_NOT_FOUND = py_join [newline] [(utf8 [0xC5F4, 0xB824, 0x20, 0xC788, 0xB294]
    @ '' engineering-agent thread'' @ utf8 [0xB97C, 0x20, 0xCC3E, 0xC9C0, 0x20, 0xBABB, 0xD574, 0xC11C, 0x20,
    0xC0C8, 0x20, 0xC791, 0xC5C5, 0x20, 0xC138, 0xC158, 0xC740, 0x20, 0xB9CC, 0xB4E4, 0xC9C0, 0x20, 0xC54A, 0xC558,
    0xC2B5, 0xB2C8, 0xB2E4] @ ''.''), (utf8 [0xC774, 0xC5B4, 0xAC08] @ '' thread '' @ utf8 [0xC548, 0xC5D0, 0xC11C,
    0x20, 0xB2E4, 0xC2DC, 0x20, 0xB9D0, 0xD574, 0xC8FC, 0xC2DC, 0xAC70, 0xB098, 0x2C, 0x20, 0xC0C8, 0x20, 0xC791,
    0xC5C5, 0xC73C, 0xB85C, 0x20, 0xC2DC, 0xC791, 0xD558, 0xB824, 0xBA74, 0x20, 0x60, 0xC0C8, 0x20, 0xC791, 0xC5C5,
    0xC73C, 0xB85C, 0x20, 0xC9C4, 0xD589, 0x60, 0xC774, 0xB77C, 0xACE0, 0x20, 0xB2F5, 0xD574, 0x20, 0xC8FC, 0xC138,
    0xC694] @ ''.'')]"

definition DEFENSIVE_INTAKE_NON_ACTIONABLE :: string where
  "DEFENSIVE_INTAKE_NON_ACTIONABLE = (utf8 [0xC9C4, 0xD589, 0xD560, 0x20, 0xC5C5, 0xBB34, 0x20, 0xC6D0, 0xBB38,
    0xC744, 0x20, 0xB2E4, 0xC2DC, 0x20, 0xC54C, 0xB824, 0xC8FC, 0xC138, 0xC694, 0x2E, 0x20, 0x22, 0xC774, 0xB300,
    0xB85C, 0x20, 0xC9C4, 0xD589, 0x22] @ '' / '' @ utf8 [0x22, 0xC0C8, 0x20, 0xC791, 0xC5C5, 0xC73C, 0xB85C, 0x20,
    0xC9C4, 0xD589, 0x22, 0x20, 0xAC19, 0xC740, 0x20, 0xD655, 0xC778, 0x20, 0xBB38, 0xAD6C, 0xB098] @ '' gateway ''
    @ utf8 [0xC548, 0xB0B4, 0xBB38, 0xC740, 0x20, 0xC791, 0xC5C5, 0x20, 0xBCF8, 0xBB38, 0xC73C, 0xB85C, 0x20,
    0xC0AC, 0xC6A9, 0xD560, 0x20, 0xC218, 0x20, 0xC5C6, 0xC5B4, 0xC694] @ ''.'')"

definition format_intake_failure :: "string \<Rightarrow> string" where
  "format_intake_failure e = (utf8 [0x26A0, 0xFE0F] @ '' engineer intake '' @ utf8 [0xC2E4, 0xD328] @ '': '') @ e"

definition format_kickoff_failure_short :: "string \<Rightarrow> string" where
  "format_kickoff_failure_short e = (utf8 [0x26A0, 0xFE0F] @ '' thread kickoff '' @ utf8 [0xC2E4, 0xD328] @ '': '')
    @ e"

definition format_kickoff_failure :: "string \<Rightarrow> string option \<Rightarrow> string" where
  "format_kickoff_failure e i = py_join [newline] [format_kickoff_failure_short e,
     (utf8 [0xC138, 0xC158] @ '' `'')
       @ (case i of None \<Rightarrow> ''?'' | Some s \<Rightarrow> if s = [] then ''?'' else s) @ (''` ''
       @ utf8 [0xC740, 0x20, 0xC774, 0xBBF8, 0x20, 0xC0DD, 0xC131, 0xB418, 0xC5B4, 0x20, 0xC788, 0xC2B5, 0xB2C8,
       0xB2E4] @ ''.'')]"

text \<open>Type, thread and score of a candidate, between parentheses.\<close>

definition candidate_tail :: "talk_host \<Rightarrow> string option \<Rightarrow> int option \<Rightarrow> pyfloat \<Rightarrow> string" where
  "candidate_tail h ty t x = ''('' @ py_join ('' '' @ utf8 [0xB7]
    @ '' '') ((case ty of None \<Rightarrow> [] | Some s \<Rightarrow> if s = [] then [] else [s])
     @ (case t of None \<Rightarrow> [] | Some i \<Rightarrow> [''thread `'' @ show_int i @ ''`'']) @ [''score '' @ th_fixed2 h x]) @ '')''"

definition format_clarification_message :: "talk_host \<Rightarrow> route_decision \<Rightarrow> string" where
  "format_clarification_message h d = py_join [newline] (
     [(''**[engineering-agent] '' @ utf8 [0xC5B4, 0xB290, 0x20, 0xC791, 0xC5C5, 0xC5D0, 0x20, 0xD569, 0xB958,
       0xD560, 0xAE4C, 0xC694] @ ''?**'')] @ (if ro_reason d = [] then [] else [ro_reason d])
     @ (if ro_candidates d = [] then []
        else [] # map (\<lambda>(i, c). show_nat i @ ''. `'' @ rk_session_id c @ (''` '' @ utf8 [0x2014] @ '' '')
          @ rk_title c @ '' '' @ candidate_tail h (Some (rk_task_type c)) (rk_thread_id c) (rk_score c))
               (zip [1, 2, 3] (ro_candidates d)))
     @ [[], (utf8 [0xC774, 0xC5B4, 0xAC08, 0x20, 0xC138, 0xC158] @ '' ID'' @ utf8 [0xB97C, 0x20, 0x60, 0xAE30,
       0xC874, 0x20, 0xC138, 0xC158] @ '' <id>`'' @ utf8 [0xCC98, 0xB7FC, 0x20, 0xB2F5, 0xD558, 0xC2DC, 0xAC70,
       0xB098] @ '', `'' @ utf8 [0xC0C8, 0x20, 0xC791, 0xC5C5, 0xC73C, 0xB85C, 0x20, 0xC9C4, 0xD589, 0x60, 0xC774,
       0xB77C, 0xACE0, 0x20, 0xB2F5, 0xD574, 0x20, 0xC8FC, 0xC138, 0xC694] @ ''.'')])"

definition intent_label :: "string \<Rightarrow> string" where
  "intent_label i = (if i = INTENT_CONTINUE_EXISTING_WORK then (utf8 [0xAE30, 0xC874, 0x20, 0xC791, 0xC5C5, 0x20,
    0xC774, 0xC5B4, 0xAC00, 0xAE30])
     else if i = INTENT_SUMMARIZE_PREVIOUS_WORK then (utf8 [0xC774, 0xC804, 0x20, 0xC791, 0xC5C5, 0x20, 0xC694,
       0xC57D])
     else if i = INTENT_EXECUTE_EXISTING_STEP then (utf8 [0xAE30, 0xC874, 0x20, 0xC791, 0xC5C5, 0x20, 0xD6C4,
       0xC18D, 0x20, 0xC2E4, 0xD589])
     else if i = INTENT_APPEND_CONTEXT then (utf8 [0xAE30, 0xC874, 0x20, 0xC791, 0xC5C5, 0xC5D0, 0x20, 0xC790,
       0xB8CC, 0x20, 0xCCA8, 0xBD80]) else (utf8 [0xAE30, 0xC874, 0x20, 0xC791, 0xC5C5, 0x20, 0xCC98, 0xB9AC]))"

definition format_runtime_preflight_clarification :: "talk_host \<Rightarrow> string \<Rightarrow> candidate list \<Rightarrow> string" where
  "format_runtime_preflight_clarification h i cs = py_join [newline] (
     [(''**[engineering-agent] '' @ utf8 [0xC5B4, 0xB5A4, 0x20, 0xC791, 0xC5C5, 0xC744, 0x20, 0xAC00, 0xB9AC,
       0xD0A4, 0xC2DC, 0xB294, 0xC9C0, 0x20, 0xD655, 0xC778, 0xC774, 0x20, 0xD544, 0xC694, 0xD574, 0xC694]
       @ ''.**''), (utf8 [0xC694, 0xCCAD, 0x20, 0xC758, 0xB3C4] @ '': '') @ intent_label i, []]
     @ (if cs = [] then []
        else (utf8 [0xCD5C, 0xADFC, 0x20, 0xC5F4, 0xB9B0, 0x20, 0xD6C4, 0xBCF4, 0x20, 0xC138, 0xC158, 0xC774,
          0xC5D0, 0xC694] @ '':'') # map (\<lambda>c. ''- `'' @ ca_session_id c @ (''` '' @ utf8 [0x2014] @ '' '')
          @ (if ca_title c \<noteq> [] then ca_title c else ca_session_id c)
               @ '' '' @ candidate_tail h (ca_task_type c) (ca_thread_id c) (ca_score c)) (take 3 cs) @ [[]])
     @ [(utf8 [0xC774, 0xC5B4, 0xAC08, 0x20, 0xC138, 0xC158] @ '' ID'' @ utf8 [0xB97C, 0x20, 0x60, 0xAE30, 0xC874,
       0x20, 0xC138, 0xC158] @ '' <id>` '' @ utf8 [0xCC98, 0xB7FC, 0x20, 0xB2F5, 0xD558, 0xC2DC, 0xAC70, 0xB098,
       0x2C, 0x20, 0xC0C8, 0x20, 0xC791, 0xC5C5, 0xC774, 0xB77C, 0xBA74, 0x20, 0x60, 0xC0C8, 0x20, 0xC791, 0xC5C5,
       0xC73C, 0xB85C, 0x20, 0xC9C4, 0xD589, 0x60, 0xC774, 0xB77C, 0xACE0, 0x20, 0xB2F5, 0xD574, 0x20, 0xC8FC,
       0xC138, 0xC694] @ ''.'')])"

section \<open>Questions\<close>

definition remembered :: "gateway \<Rightarrow> message \<Rightarrow> gw_state \<Rightarrow> string option \<times> gw_state" where
  "remembered g m st = (let (p, c) = recall_clarification_canonical_prompt (gh_now g (gs_trace st)) m (gs_cache st) in (p, st\<lparr>gs_cache := c\<rparr>))"

definition remembered_choices :: "gateway \<Rightarrow> message \<Rightarrow> gw_state \<Rightarrow> choice list \<times> gw_state" where
  "remembered_choices g m st = (let (cs, c) = recall_clarification_candidates (gh_now g (gs_trace st)) m (gs_cache st) in (cs, st\<lparr>gs_cache := c\<rparr>))"

definition forget :: "message \<Rightarrow> gw_state \<Rightarrow> gw_state" where
  "forget m st = st\<lparr>gs_cache := clear_clarification_context m (gs_cache st)\<rparr>"

definition remember :: "gateway \<Rightarrow> message \<Rightarrow> choice list \<Rightarrow> string \<Rightarrow> gw_state \<Rightarrow> gw_state" where
  "remember g m cs p st = st\<lparr>gs_cache := remember_clarification_candidates (gh_now g (gs_trace st)) m cs (Some p) (gs_cache st)\<rparr>"

section \<open>Research and reports\<close>

definition research_blocked :: "talk_host \<Rightarrow> string \<Rightarrow> bool" where
  "research_blocked h p \<longleftrightarrow> p \<noteq> [] \<and> is_non_actionable_prompt h p"

text \<open>The report, and the session with the keys that were set on it.\<close>

definition run_research_loop_hook :: "gateway \<Rightarrow> outcome \<Rightarrow> string \<Rightarrow> int option \<Rightarrow> wsession \<Rightarrow> gw_state \<Rightarrow> loop_report option \<times> wsession \<times> gw_state" where
  "run_research_loop_hook g oc p t s st = (case gh_research g of None \<Rightarrow> (None, s, st)
     | Some f \<Rightarrow>
         (let run = f (gs_trace st) s p oc t; st = emit (Researched p) st
          in case run of
            Inl e \<Rightarrow> (Some (no_report\<lparr>lr_error := Some e\<rparr>), s, send ((utf8 [0x26A0,
              0xFE0F] @ '' research loop '' @ utf8 [0xC2E4, 0xD328] @ '': '') @ e) st)
          | Inr Duplicate_In_Flight \<Rightarrow> (Some no_report, s, send ((utf8 [0x23F3, 0x20, 0xC774, 0x20,
            0xC138, 0xC158, 0xC740, 0x20, 0xC774, 0xBBF8, 0x20, 0xC6B4, 0xC601, 0x2D, 0xB9AC, 0xC11C, 0xCE58, 0x20,
            0xC218, 0xC9D1, 0xC774, 0x20, 0xC9C4, 0xD589, 0x20, 0xC911, 0xC774, 0xC5D0, 0xC694] @ ''. '')
            @ (utf8 [0xB05D, 0xB098, 0xB294, 0x20, 0xB300, 0xB85C] @ '' thread'' @ utf8 [0xC5D0, 0x20, 0xACB0,
            0xACFC, 0xAC00, 0x20, 0xC62C, 0xB77C, 0xC635, 0xB2C8, 0xB2E4] @ ''.'')) st)
          | Inr Claimed_By_Other_Worker \<Rightarrow> (Some no_report, s, st)
          | Inr (Ran r) \<Rightarrow>
              (let (s, st) = persist_research_forum_status g r s st;
                   said = (\<lambda>m. case m of None \<Rightarrow> False | Some x \<Rightarrow> x \<noteq> []);
                   st = send_opt (lr_follow_up_message r) st; st = send_opt (lr_forum_status_message r) st;
                   st = (if said (lr_error r) \<and> \<not> said (lr_follow_up_message r) \<and> \<not> said (lr_forum_status_message r)
                         then send ((utf8 [0x26A0, 0xFE0F] @ '' research loop: '') @ the (lr_error r)) st else st)
               in (Some r, s, st))))"

definition emit_work_report_preview :: "gateway \<Rightarrow> collection option \<Rightarrow> string \<Rightarrow> wsession \<Rightarrow> gw_state \<Rightarrow> gw_state" where
  "emit_work_report_preview g co p s st = (case gh_report g s p co of None \<Rightarrow> st
     | Some (d, body) \<Rightarrow>
         (let st = snd (persist_extra_keys g [(''work_report'', JObj d)] s st) in if body = [] then st else send body st))"

section \<open>Joining\<close>

definition opt_text :: "string \<Rightarrow> string option" where
  "opt_text s = (if s = [] then None else Some s)"

text \<open>
  \<open>Inr None\<close>: no thread was found. Research is run for a join if the caller asks for it (\<open>research\<close>), not for an append.
\<close>

definition handle_join_or_append :: "gateway \<Rightarrow> outcome \<Rightarrow> route_decision \<Rightarrow> string \<Rightarrow> bool \<Rightarrow> gw_state \<Rightarrow> (raised + route_result option) \<times> gw_state" where
  "handle_join_or_append g oc d p research st = (case gh_continue g of None \<Rightarrow> (Inr None, st)
     | Some f \<Rightarrow>
         (let found = f (gs_trace st) p (oc_write_requested oc) (oc_thread_topic oc); st = emit (Continued p (oc_write_requested oc)) st
          in case found of Inl e \<Rightarrow> (Inl e, st) | Inr None \<Rightarrow> (Inr None, st)
          | Inr (Some cn) \<Rightarrow>
              (let (so, st) = maybe_persist_research_pack g (oc_research_pack oc) (oc_collection_outcome oc) (cn_session cn) st;
                   st = send_opt (cn_message cn) st;
                   (report, st) = (case so of None \<Rightarrow> (None, st)
                     | Some s \<Rightarrow> (if ro_action d \<noteq> Append_Only \<and> \<not> research_blocked (gh_talk g) p \<and> research \<and> gh_research g \<noteq> None
                         then let (r, s, st) = run_research_loop_hook g oc p (cn_thread_id cn) s st
                              in (r, emit_work_report_preview g (oc_collection_outcome oc) p s st)
                         else (None, st)))
               in (Inr (Some (handled\<lparr>rt_conversation_message := opt_text (oc_content oc), rt_kickoff_message := cn_message cn,
                     rt_session_id := map_option ws_id so, rt_thread_id := cn_thread_id cn, rt_research_loop_report := report,
                     rt_routing_decision := Some d\<rparr>)), st))))"

text \<open>A join with nothing from the conversation, as the gates and the preflight make it.\<close>

definition bare_outcome :: "string \<Rightarrow> outcome" where
  "bare_outcome p = (plain_outcome [])\<lparr>oc_intake_prompt := Some p\<rparr>"

definition join_decision :: "string option \<Rightarrow> int option \<Rightarrow> int option \<Rightarrow> string \<Rightarrow> string \<Rightarrow> route_decision" where
  "join_decision i t f conf why = \<lparr>ro_action = Join_Existing, ro_session_id = i, ro_thread_id = t, ro_forum_thread_id = f,
     ro_confidence = conf, ro_reason = why, ro_candidates = []\<rparr>"

definition handle_clarification_selection :: "gateway \<Rightarrow> choice \<Rightarrow> string \<Rightarrow> string option \<Rightarrow> gw_state \<Rightarrow> (raised + route_result option) \<times> gw_state" where
  "handle_clarification_selection g c text canonical st =
     (let t = wide_strip (case canonical of None \<Rightarrow> [] | Some s \<Rightarrow> s); p = (if t \<noteq> [] then t else text)
      in handle_join_or_append g (bare_outcome p) (join_decision (Some (ch_session_id c)) (ch_thread_id c) (ch_forum_thread_id c) ''high''
           ''clarification follow-up selection'') p False st)"

section \<open>Starting work\<close>

text \<open>What is stored with a new session; an analysis that fails or finds nothing stores nothing.\<close>

definition store_keys :: "gateway \<Rightarrow> (wsession \<Rightarrow> json pydict) \<Rightarrow> wsession option \<times> gw_state \<Rightarrow> wsession option \<times> gw_state" where
  "store_keys g f r = (case r of (None, st) \<Rightarrow> (None, st)
     | (Some s, st) \<Rightarrow> if f s = [] then (Some s, st) else (let (s, st) = persist_extra_keys g (f s) s st in (Some s, st)))"

definition lifecycle_keys :: "gateway \<Rightarrow> string \<Rightarrow> json pydict" where
  "lifecycle_keys g p = (case recommend_authorization (gh_talk g) (gh_profiles g) (gh_active g) p JNull of Inl e \<Rightarrow> []
     | Inr a \<Rightarrow> if cp_lifecycle_mode a = LIFECYCLE_MODE_RESEARCH_ONLY
         then [(''lifecycle_mode'', JStr LIFECYCLE_MODE_RESEARCH_ONLY), (''executor_role'', JNull), (''research_leads'', JList (cp_research_leads a))]
         else [(''lifecycle_mode'', JStr LIFECYCLE_MODE_IMPLEMENTATION)])"

definition prepare_session :: "gateway \<Rightarrow> string \<Rightarrow> string \<Rightarrow> wsession option \<Rightarrow> gw_state \<Rightarrow> wsession option \<times> gw_state" where
  "prepare_session g p text so st =
     store_keys g (\<lambda>s. gh_context g s text) (store_keys g (\<lambda>_. lifecycle_keys g p) (store_keys g (\<lambda>s. gh_roles g s p) (so, st)))"

definition take_in :: "gateway \<Rightarrow> string \<Rightarrow> bool \<Rightarrow> gw_state \<Rightarrow> (string + intake_result) \<times> gw_state" where
  "take_in g p write st = (gh_intake g (gs_trace st) p write, emit (Intake p write) st)"

definition kick_off :: "gateway \<Rightarrow> wsession option \<Rightarrow> json \<Rightarrow> string option \<Rightarrow> gw_state \<Rightarrow> (string + thread_kickoff option) \<times> gw_state" where
  "kick_off g so pl topic st = (gh_kickoff g (gs_trace st) so pl topic, emit (Kicked_Off so) st)"

definition link_thread :: "gateway \<Rightarrow> string \<Rightarrow> int option \<Rightarrow> wsession option \<Rightarrow> gw_state \<Rightarrow> wsession option \<times> gw_state" where
  "link_thread g p t so st = (case so of None \<Rightarrow> (None, st)
     | Some s \<Rightarrow> (let (s, st) = persist_thread_link g t s st in store_keys g (\<lambda>s. gh_council g s p) (Some s, st)))"

text \<open>Research, if it may run, and the report at the end.\<close>

definition close_turn :: "gateway \<Rightarrow> outcome \<Rightarrow> string \<Rightarrow> bool \<Rightarrow> int option \<Rightarrow> wsession option \<Rightarrow> gw_state \<Rightarrow> loop_report option \<times> gw_state" where
  "close_turn g oc p research t so st = (case so of None \<Rightarrow> (None, st)
     | Some s \<Rightarrow>
         (let (r, s, st) = (if research \<and> \<not> research_blocked (gh_talk g) p then run_research_loop_hook g oc p t s st else (None, s, st))
          in (r, emit_work_report_preview g (oc_collection_outcome oc) p s st)))"

definition create_work :: "gateway \<Rightarrow> outcome \<Rightarrow> string \<Rightarrow> string \<Rightarrow> route_decision \<Rightarrow> gw_state \<Rightarrow> route_result \<times> gw_state" where
  "create_work g oc p text d st =
     (let said = handled\<lparr>rt_conversation_message := opt_text (oc_content oc)\<rparr>
      in case take_in g p (oc_write_requested oc) st of
        (Inl e, st) \<Rightarrow> (said\<lparr>rt_error := Some e\<rparr>, send (format_intake_failure e) st)
      | (Inr it, st) \<Rightarrow>
          (let (so, st) = maybe_persist_research_pack g (oc_research_pack oc) (oc_collection_outcome oc) (it_session it) st;
               (so, st) = prepare_session g p (if text \<noteq> [] then text else p) so st;
               sid = map_option ws_id so; st = send_opt (it_message it) st;
               (started, st) = kick_off g so (it_plan it) (oc_thread_topic oc) st;
               (so, km, t, err, st) = (case started of
                   Inl e \<Rightarrow> (so, None, None, Some e, send (format_kickoff_failure e sid) st)
                 | Inr None \<Rightarrow> (so, None, None, None, st)
                 | Inr (Some ki) \<Rightarrow> (let (so, st) = link_thread g p (ki_thread_id ki) so st in (so, ki_message ki, ki_thread_id ki, None, st)));
               (report, st) = close_turn g oc p True t so st
           in (said\<lparr>rt_intake_message := it_message it, rt_kickoff_message := km, rt_session_id := sid, rt_thread_id := t,
                 rt_research_loop_report := report, rt_error := err, rt_routing_decision := Some d\<rparr>, st)))"

definition drive_clarification_create_new_work :: "gateway \<Rightarrow> string \<Rightarrow> gw_state \<Rightarrow> route_result \<times> gw_state" where
  "drive_clarification_create_new_work g p st =
     (if is_non_actionable_prompt (gh_talk g) p then (handled, send DRIVE_CLARIFICATION_NON_ACTIONABLE st)
      else case take_in g p False st of
        (Inl e, st) \<Rightarrow> (handled\<lparr>rt_error := Some e\<rparr>, send (format_intake_failure e) st)
      | (Inr it, st) \<Rightarrow>
          (let (so, st) = prepare_session g p p (it_session it) st; sid = map_option ws_id so; st = send_opt (it_message it) st;
               (started, st) = kick_off g so (it_plan it) None st;
               (so, km, t, err, on, st) = (case started of
                   Inl e \<Rightarrow> (so, None, None, Some e, False, send (format_kickoff_failure_short e) st)
                 | Inr None \<Rightarrow> (so, None, None, None, False, st)
                 | Inr (Some ki) \<Rightarrow> (let (so, st) = link_thread g p (ki_thread_id ki) so st
                     in (so, ki_message ki, ki_thread_id ki, None, True, send_opt (ki_message ki) st)));
               (report, st) = close_turn g (plain_outcome []) p on t so st
           in (handled\<lparr>rt_session_id := sid, rt_thread_id := t, rt_kickoff_message := km, rt_research_loop_report := report, rt_error := err\<rparr>, st)))"

section \<open>Answers to a question\<close>

text \<open>A message that names a session joins it; what is appended is the prompt asked about, if there is one.\<close>

definition forum_id :: "gateway \<Rightarrow> wsession \<Rightarrow> int option" where
  "forum_id g s = py_int (th_json (gh_talk g)) (dict_get_or (ws_extra s) ''research_forum_thread_id'' (dict_get (ws_extra s) ''forum_thread_id''))"

definition explicit_join :: "gateway \<Rightarrow> message \<Rightarrow> string \<Rightarrow> gw_state \<Rightarrow> (raised + route_result option) \<times> gw_state" where
  "explicit_join g m text st =
     (if gh_continue g = None then (Inr None, st)
      else case explicit_session_request text of None \<Rightarrow> (Inr None, st)
      | Some i \<Rightarrow>
          (case load_session g i st of None \<Rightarrow> (Inr None, st)
           | Some s \<Rightarrow>
               (let (canonical, st) = remembered g m st; p = wide_strip (case canonical of Some c \<Rightarrow> c | None \<Rightarrow> text)
                in if p = [] then (Inr None, st)
                   else case handle_join_or_append g (bare_outcome p) (join_decision (Some (ws_id s)) (ws_thread_id s) (forum_id g s) ''high''
                          ((''explicit '' @ [CHR 0x27] @ (utf8 [0xAE30, 0xC874, 0x20, 0xC138, 0xC158] @ '' '') @ i
                            @ [CHR 0x27] @ '' override''))) p False st of
                     (Inr (Some r), st) \<Rightarrow> (Inr (Some r), forget m st)
                   | r \<Rightarrow> r)))"

definition clarified_new_work :: "gateway \<Rightarrow> message \<Rightarrow> string \<Rightarrow> gw_state \<Rightarrow> (raised + route_result option) \<times> gw_state" where
  "clarified_new_work g m text st =
     (if \<not> looks_like_new_work_selection (gh_talk g) text then (Inr None, st)
      else let (canonical, st) = remembered g m st; (cs, st) = remembered_choices g m st
           in case canonical of
             Some p \<Rightarrow> (let (r, st) = drive_clarification_create_new_work g p st in (Inr (Some r), forget m st))
           | None \<Rightarrow> (if cs \<noteq> [] \<or> gs_cache st (clarification_context_key m) \<noteq> None
               then (Inr (Some handled), forget m (send CLARIFICATION_CANONICAL_MISSING st)) else (Inr None, st)))"

section \<open>Preflight\<close>

definition PREFLIGHT_SHORT_CIRCUIT_INTENTS :: "string list" where
  "PREFLIGHT_SHORT_CIRCUIT_INTENTS = [INTENT_CONTINUE_EXISTING_WORK, INTENT_SUMMARIZE_PREVIOUS_WORK, INTENT_EXECUTE_EXISTING_STEP, INTENT_APPEND_CONTEXT]"

definition input_of :: "message \<Rightarrow> string \<Rightarrow> runtime_input" where
  "input_of m text = \<lparr>rn_role_id = ''gateway'', rn_message_text = text, rn_channel_id = ms_channel_id m, rn_thread_id = thread_id_for_runtime m,
     rn_author_id = ms_author_id m, rn_message_id = ms_id m, rn_attachments = [], rn_user_links = [], rn_mentions = [], rn_received_at = None,
     rn_last_proposed_prompt = None, rn_policy = []\<rparr>"

definition observation_for_runtime :: "talk_host \<Rightarrow> runtime_input \<Rightarrow> observation" where
  "observation_for_runtime h i = \<lparr>ob_role_id = rn_role_id i, ob_message_text = rn_message_text i, ob_normalized_text = squeeze (th_lower h (rn_message_text i)),
     ob_channel_id = rn_channel_id i, ob_thread_id = rn_thread_id i, ob_author_id = rn_author_id i, ob_message_id = rn_message_id i,
     ob_extracted_urls = [], ob_has_attachments = (rn_attachments i \<noteq> []), ob_received_at = None, ob_last_proposed_prompt = rn_last_proposed_prompt i,
     ob_metadata = []\<rparr>"

definition str_at :: "json pydict \<Rightarrow> string \<Rightarrow> string option" where
  "str_at d k = (case dict_get d k of JStr s \<Rightarrow> Some s | _ \<Rightarrow> None)"

definition int_at :: "json pydict \<Rightarrow> string \<Rightarrow> int option" where
  "int_at d k = (case dict_get d k of JInt i \<Rightarrow> Some i | _ \<Rightarrow> None)"

definition ask_preflight :: "gateway \<Rightarrow> message \<Rightarrow> string \<Rightarrow> intent \<Rightarrow> recall \<Rightarrow> route_result \<Rightarrow> gw_state \<Rightarrow> route_result \<times> gw_state" where
  "ask_preflight g m text it rc r st =
     (r, send (format_runtime_preflight_clarification (gh_talk g) (in_id it) (rc_candidates rc)) (remember g m (map choice_of_candidate (rc_candidates rc)) text st))"

text \<open>Research on a join: only on words that ask for it, and for a session without a pack.\<close>

definition join_runs_research :: "gateway \<Rightarrow> string \<Rightarrow> json pydict \<Rightarrow> gw_state \<Rightarrow> bool" where
  "join_runs_research g text payload st \<longleftrightarrow> gh_research g \<noteq> None \<and> continuation_requests_research (gh_talk g) text
     \<and> (case load_session_by_id g (str_at payload ''session_id'') st of None \<Rightarrow> True | Some s \<Rightarrow> \<not> truthy (dict_get (ws_extra s) ''research_pack''))"

definition preflight_join :: "gateway \<Rightarrow> message \<Rightarrow> string \<Rightarrow> intent \<Rightarrow> recall \<Rightarrow> json pydict \<Rightarrow> gw_state \<Rightarrow> (raised + route_result option) \<times> gw_state" where
  "preflight_join g m text it rc payload st =
     (let (canonical, st) = remembered g m st; p = (case canonical of Some c \<Rightarrow> c | None \<Rightarrow> text)
      in case handle_join_or_append g (bare_outcome p) (join_decision (str_at payload ''session_id'') (int_at payload ''thread_id'')
            (int_at payload ''forum_thread_id'') (in_confidence it) ((''runtime preflight '' @ utf8 [0xB7] @ '' '')
              @ in_id it)) p (join_runs_research g text payload st) st of
          (Inl e, st) \<Rightarrow> (Inl e, st)
        | (Inr (Some r), st) \<Rightarrow> (Inr (Some r), if canonical = None then st else forget m st)
        | (Inr None, st) \<Rightarrow> (let (r, st) = ask_preflight g m text it rc (handled\<lparr>rt_error := Some ''runtime preflight: continuation thread not reachable''\<rparr>) st
             in (Inr (Some r), st)))"

definition preflight_act :: "gateway \<Rightarrow> message \<Rightarrow> string \<Rightarrow> intent \<Rightarrow> recall \<Rightarrow> action \<Rightarrow> gw_state \<Rightarrow> (raised + route_result option) \<times> gw_state" where
  "preflight_act g m text it rc a st =
     (if in_id it = INTENT_EXECUTE_EXISTING_STEP \<and> is_obsidian_save_request (gh_talk g) text \<and> ac_id a = ACTION_JOIN_SESSION then
        (let (r, st) = run_obsidian_preview_branch g m (ac_payload a) st in (Inr (Some r), st))
      else if ac_id a = ACTION_JOIN_SESSION \<and> gh_continue g \<noteq> None then preflight_join g m text it rc (ac_payload a) st
      else if ac_id a \<in> {ACTION_ASK_CLARIFICATION, ACTION_APPEND_CONTEXT} then
        (let (r, st) = ask_preflight g m text it rc handled st in (Inr (Some r), st))
      else (Inr None, st))"

definition preflight_classify :: "gateway \<Rightarrow> message \<Rightarrow> string \<Rightarrow> gw_state \<Rightarrow> (raised + route_result option) \<times> gw_state" where
  "preflight_classify g m text st =
     (let h = gh_talk g; i = input_of m text; ob = observation_for_runtime h i; it = classify_intent_deterministic h ob i
      in if in_id it \<notin> set PREFLIGHT_SHORT_CIRCUIT_INTENTS then (Inr None, st)
         else case make_recall_fn h (map_option (\<lambda>f. f (gs_trace st)) (gh_list g)) 50 (default_open_filter h) None 5 ob it i of
           Inl e \<Rightarrow> (Inl e, st)
         | Inr rc \<Rightarrow>
             (let rc = rc\<lparr>rc_coverage := Some (compute_recall_coverage h (gh_now g (gs_trace st)) rc)\<rparr>
              in case de_actions (decide_default ob it rc no_plan i) of [] \<Rightarrow> (Inr None, st) | a # _ \<Rightarrow> preflight_act g m text it rc a st))"

definition run_runtime_preflight :: "gateway \<Rightarrow> message \<Rightarrow> string \<Rightarrow> gw_state \<Rightarrow> (raised + route_result option) \<times> gw_state" where
  "run_runtime_preflight g m text st =
     (let (cs, st) = remembered_choices g m st; (canonical, st) = remembered g m st;
          (r, st) = (case try_select_candidate (gh_talk g) text cs of None \<Rightarrow> (Inr None, st)
             | Some c \<Rightarrow> handle_clarification_selection g c text canonical st)
      in case r of Inl e \<Rightarrow> (Inl e, st) | Inr (Some x) \<Rightarrow> (Inr (Some x), forget m st)
       | Inr None \<Rightarrow> (if canonical \<noteq> None \<and> extract_explicit_session_id text \<noteq> None then (Inr None, st) else preflight_classify g m text st))"

section \<open>The conversation and the routing\<close>

definition routed :: "gateway \<Rightarrow> message \<Rightarrow> string \<Rightarrow> gw_state \<Rightarrow> route_decision" where
  "routed g m text st = (case decide_routing (gh_talk g) (gh_load g (gs_trace st)) (resolve_open_sessions None (list_open_sessions (gh_store g (gs_trace st))))
       (thread_id_for_runtime m) text of
     Inr d \<Rightarrow> d | Inl e \<Rightarrow> route_to Create_New ''low'' (''decide_routing fallback: '' @ raised_text e) [])"

definition wants_continuation :: "gateway \<Rightarrow> string \<Rightarrow> string \<Rightarrow> bool" where
  "wants_continuation g text p \<longleftrightarrow> should_continue_existing_thread (gh_talk g) [text, p] \<and> \<not> should_start_new_thread (gh_talk g) text"

definition join_or_tell :: "gateway \<Rightarrow> outcome \<Rightarrow> route_decision \<Rightarrow> route_decision \<Rightarrow> string \<Rightarrow> gw_state \<Rightarrow> (raised + route_result) \<times> gw_state" where
  "join_or_tell g oc d shown p st = (case handle_join_or_append g oc d p True st of
     (Inl e, st) \<Rightarrow> (Inl e, st) | (Inr (Some r), st) \<Rightarrow> (Inr r, st)
   | (Inr None, st) \<Rightarrow> (Inr (handled\<lparr>rt_conversation_message := opt_text (oc_content oc), rt_error := Some ''existing engineering thread not found'',
       rt_routing_decision := Some shown\<rparr>), send ENGINEERING_THREAD_NOT_FOUND st))"

definition act_on_route :: "gateway \<Rightarrow> message \<Rightarrow> outcome \<Rightarrow> string \<Rightarrow> string \<Rightarrow> route_decision \<Rightarrow> gw_state \<Rightarrow> (raised + route_result) \<times> gw_state" where
  "act_on_route g m oc text p d st =
     (let said = handled\<lparr>rt_conversation_message := opt_text (oc_content oc)\<rparr>
      in if ro_action d = Ask_Which then
           (Inr (said\<lparr>rt_routing_decision := Some d\<rparr>),
            send (format_clarification_message (gh_talk g) d) (remember g m (map choice_of_route (ro_candidates d)) p st))
         else if ro_action d \<in> {Join_Existing, Append_Only} then join_or_tell g oc d d p st
         else if wants_continuation g text p then
           join_or_tell g oc ((join_decision None None None ''low'' ''explicit continuation phrase fallback (no scored match)'')\<lparr>ro_candidates := ro_candidates d\<rparr>) d p st
         else if is_non_actionable_prompt (gh_talk g) p then (Inr (said\<lparr>rt_routing_decision := Some d\<rparr>), send DEFENSIVE_INTAKE_NON_ACTIONABLE st)
         else (let (r, st) = create_work g oc p text d st in (Inr r, st)))"

definition route_outcome :: "gateway \<Rightarrow> message \<Rightarrow> string \<Rightarrow> outcome \<Rightarrow> gw_state \<Rightarrow> (raised + route_result) \<times> gw_state" where
  "route_outcome g m text oc st =
     (let h = gh_talk g; said = handled\<lparr>rt_conversation_message := opt_text (oc_content oc)\<rparr>
      in if oc_is_status_query oc then (Inr said, st)
         else let (canonical, st) = remembered g m st;
                  p = (case canonical of Some c \<Rightarrow> c
                       | None \<Rightarrow> wide_strip (case oc_intake_prompt oc of Some x \<Rightarrow> if x \<noteq> [] then x else text | None \<Rightarrow> text));
                  input = (case canonical of Some c \<Rightarrow> if wide_strip text \<noteq> [] then wide_strip text else c | None \<Rightarrow> if p \<noteq> [] then p else text)
              in if canonical = None \<and> \<not> (oc_confirmed oc \<or> detect_confirmation_signal h text) \<or> p = [] then (Inr said, st)
                 else if is_non_actionable_prompt h input \<and> canonical = None \<and> thread_id_for_runtime m = None
                   then (Inr said, send (if is_bot_echo_phrase h input then BOT_ECHO_CLARIFICATION else NON_ACTIONABLE_ROUTING_CLARIFICATION) st)
                 else act_on_route g m oc text p (routed g m input st) (if canonical = None then st else forget m st))"

definition converse :: "gateway \<Rightarrow> message \<Rightarrow> string \<Rightarrow> gw_state \<Rightarrow> (raised + route_result) \<times> gw_state" where
  "converse g m text st =
     (let answer = gh_converse g (gs_trace st) text; st = emit (Conversed text) st
      in case answer of Inl e \<Rightarrow> (Inl e, st)
       | Inr reply \<Rightarrow> (let oc = coerce_outcome reply in route_outcome g m text oc (send_opt (opt_text (oc_content oc)) st)))"

text \<open>The stages in their order; the first with a result ends the turn.\<close>

fun first_stage :: "(gw_state \<Rightarrow> (raised + route_result option) \<times> gw_state) list \<Rightarrow> gw_state \<Rightarrow> (raised + route_result option) \<times> gw_state" where
  "first_stage [] st = (Inr None, st)"
| "first_stage (f # fs) st = (case f st of (Inr None, st) \<Rightarrow> first_stage fs st | r \<Rightarrow> r)"

definition gates :: "gateway \<Rightarrow> message \<Rightarrow> string \<Rightarrow> (gw_state \<Rightarrow> (raised + route_result option) \<times> gw_state) list" where
  "gates g m text = (let listed = (\<lambda>f. if gh_list g = None then [] else [f])
     in listed (run_coding_authorization_gate g m text) @ listed (run_obsidian_approval_gate g m text)
        @ [explicit_join g m text, clarified_new_work g m text] @ listed (run_runtime_preflight g m text))"

definition route_engineering_message :: "gateway \<Rightarrow> route_context \<Rightarrow> message \<Rightarrow> string \<Rightarrow> gw_state \<Rightarrow> (raised + route_result) \<times> gw_state" where
  "route_engineering_message g rx m prompt st =
     (let text = wide_strip prompt
      in if \<not> is_engineering_channel (gh_talk g) m rx \<or> text = [] then (Inr not_handled, st)
         else case first_stage (gates g m text) st of
           (Inl e, st) \<Rightarrow> (Inl e, st) | (Inr (Some r), st) \<Rightarrow> (Inr r, st) | (Inr None, st) \<Rightarrow> converse g m text st)"

end
