(* ===== verification/CodingAuthProps.thy ===== *)
theory CodingAuthProps
  imports CodingAuth AgentRuntimeProps
begin

text \<open>
  What a proposal to write code guarantees: who may write is the best match among the candidates, within the scope of
  that role's profile; research never comes with a right to write; and a proposal survives its form in the session.
\<close>

lemma load_profiles_get:
  assumes "load_profiles f rs = Inr ps" and "r \<in> set rs"
  shows "f r = Inr (map_of ps r)"
  using assms
proof (induction rs arbitrary: ps)
  case Nil
  then show ?case by simp
next
  case (Cons a rs)
  obtain pa qs where a: "f a = Inr pa" "load_profiles f rs = Inr qs" "ps = (case pa of None \<Rightarrow> qs | Some d \<Rightarrow> (a, d) # qs)"
    using Cons.prems(1) by (auto split: sum.splits)
  have dom: "map_of qs b = None" if "b \<notin> set rs" for b using a(2) that
  proof (induction rs arbitrary: qs)
    case Nil
    then show ?case by simp
  next
    case (Cons c rs)
    then show ?case by (fastforce split: sum.splits option.splits)
  qed
  show ?case
  proof (cases "r = a")
    case True
    then show ?thesis using a dom Cons.IH[OF a(2)] by (cases "a \<in> set rs") (auto split: option.splits)
  next
    case False
    then show ?thesis using Cons.prems(2) a Cons.IH[OF a(2)] by (auto split: option.splits)
  qed
qed

lemma total_better_role: "total_preorder better_role"
  unfolding total_preorder_def better_role_def by auto

lemma scored_roles_mem: "(x, t, r) \<in> set (scored_roles h ps hay) \<longleftrightarrow>
    r \<in> set EXECUTOR_CANDIDATE_ROLES \<and> t = index_of r DEFAULT_PARTICIPANT_PRIORITY \<and> (\<exists>p. map_of ps r = Some p \<and> x = score_executor h p hay)"
  by (auto simp: scored_roles_def List.map_filter_def image_iff split: option.splits)

lemma scored_roles_best:
  assumes "scored_roles h ps hay = (x, t, r) # rest"
  shows "r \<in> set EXECUTOR_CANDIDATE_ROLES \<and> (\<exists>p. map_of ps r = Some p \<and> x = score_executor h p hay)
    \<and> (\<forall>r' \<in> set EXECUTOR_CANDIDATE_ROLES. \<forall>p'. map_of ps r' = Some p' \<longrightarrow> score_executor h p' hay < x
       \<or> score_executor h p' hay = x \<and> index_of r DEFAULT_PARTICIPANT_PRIORITY \<le> index_of r' DEFAULT_PARTICIPANT_PRIORITY)"
proof -
  have m: "(x, t, r) \<in> set (scored_roles h ps hay)" by (simp add: assms)
  then have t: "t = index_of r DEFAULT_PARTICIPANT_PRIORITY" by (simp add: scored_roles_mem)
  have "sorted_wrt better_role (scored_roles h ps hay)" unfolding scored_roles_def by (rule sorted_wrt_sort_by[OF total_better_role])
  then have b: "\<forall>u \<in> set rest. better_role (x, t, r) u" by (simp add: assms)
  have "score_executor h p' hay < x \<or> score_executor h p' hay = x \<and> index_of r DEFAULT_PARTICIPANT_PRIORITY \<le> index_of r' DEFAULT_PARTICIPANT_PRIORITY"
    if "r' \<in> set EXECUTOR_CANDIDATE_ROLES" "map_of ps r' = Some p'" for r' p'
  proof -
    have "(score_executor h p' hay, index_of r' DEFAULT_PARTICIPANT_PRIORITY, r') \<in> set (scored_roles h ps hay)"
      using that by (simp add: scored_roles_mem)
    then show ?thesis using b t by (auto simp: assms better_role_def)
  qed
  then show ?thesis using m by (simp add: scored_roles_mem)
qed

lemma review_roles_mem:
  "executor \<noteq> ''tech-lead'' \<Longrightarrow> executor \<notin> set (review_roles h executor ps hay)"
  "map_of ps ''tech-lead'' \<noteq> None \<Longrightarrow> ''tech-lead'' \<in> set (review_roles h executor ps hay)"
  by (auto simp: review_roles_def Let_def)

lemma candidate_not_lead: "r \<in> set EXECUTOR_CANDIDATE_ROLES \<Longrightarrow> r \<noteq> ''tech-lead'' \<and> r \<noteq> []"
  by (auto simp: EXECUTOR_CANDIDATE_ROLES_def)

text \<open>The three kinds of proposal.\<close>

lemma recommend_cases:
  assumes "recommend_authorization h f active req sid = Inr p"
  defines "request \<equiv> wide_strip req"
  defines "hay \<equiv> th_lower h request"
  shows "(\<exists>why. p = fallback_proposal request sid why) \<or> (\<exists>leads scored. p = research_only_proposal request sid leads scored)
    \<or> (\<exists>ps x t r rest prof. load_profiles f (EXECUTOR_CANDIDATE_ROLES @ [''tech-lead'']) = Inr ps
         \<and> scored_roles h ps hay = (x, t, r) # rest \<and> \<not> is_research_only_text hay \<and> 0 < x \<and> map_of ps r = Some prof
         \<and> cp_session_id p = sid \<and> cp_user_request p = request \<and> cp_executor_role p = r
         \<and> cp_review_roles p = map JStr (review_roles h r ps hay)
         \<and> cp_write_scope p = map JStr (string_list h (dict_get prof ''write_scope_candidates''))
         \<and> cp_forbidden_scope p = map JStr (string_list h (dict_get prof ''forbidden_scope''))
         \<and> cp_approval_required p \<and> cp_lifecycle_mode p = LIFECYCLE_MODE_IMPLEMENTATION)"
proof (cases "request = []")
  case True
  then show ?thesis using assms(1) by (auto simp: recommend_authorization_def request_def Let_def)
next
  case False
  obtain ps where ps: "load_profiles f (EXECUTOR_CANDIDATE_ROLES @ [''tech-lead'']) = Inr ps"
    using assms(1) False by (auto simp: recommend_authorization_def request_def Let_def split: sum.splits)
  show ?thesis
  proof (cases "scored_roles h ps hay")
    case Nil
    then show ?thesis using assms(1) False ps by (auto simp: recommend_authorization_def request_def hay_def Let_def)
  next
    case (Cons u rest)
    obtain x t r where u: "u = (x, t, r)" by (cases u)
    obtain prof where prof: "map_of ps r = Some prof" using scored_roles_best[of h ps hay x t r rest] Cons u by auto
    consider "is_research_only_text hay" | "\<not> is_research_only_text hay" "x \<le> 0" | "\<not> is_research_only_text hay" "0 < x" by linarith
    then show ?thesis
    proof cases
      case 3
      then show ?thesis using assms(1) False ps Cons u prof
        by (intro disjI2 exI[of _ ps] exI[of _ x] exI[of _ t] exI[of _ r] exI[of _ rest] exI[of _ prof])
          (auto simp: recommend_authorization_def request_def[symmetric] hay_def[symmetric] Let_def)
    qed (use assms(1) False ps Cons u in \<open>auto simp: recommend_authorization_def request_def[symmetric] hay_def[symmetric] Let_def\<close>)
  qed
qed

text \<open>An example: one role has a profile, and the request names its word.\<close>

definition example_profiles :: profile_loader where
  "example_profiles r = Inr (if r = ''backend-engineer'' then Some [(''default_executor_priority'', JObj [(''high'', JList [JStr ''api''])]),
     (''write_scope_candidates'', JList [JStr ''src/api''])] else None)"

definition example_proposal :: "raised + proposal" where
  "example_proposal = recommend_authorization plain_talk example_profiles (\<lambda>_. None) ''fix api'' JNull"

lemma example_request: "wide_strip ''fix api'' = ''fix api''" "th_lower plain_talk ''fix api'' = ''fix api''" "squeeze ''fix api'' = ''fix api''"
  by (simp_all add: wide_strip_def trim_def space_char_def continues_def Let_def plain_talk_def py_lower_def py_lower_char_def squeeze_def py_words_def)

lemma example_not_research: "\<not> is_research_only_text ''fix api''"
  by (simp add: is_research_only_text_def any_in_def AUTH_RESEARCH_ONLY_PHRASES_def example_request wide_not_prefix wide_nonempty)

lemma example_profile_list: "load_profiles example_profiles (EXECUTOR_CANDIDATE_ROLES @ [''tech-lead'']) =
    Inr [(''backend-engineer'', [(''default_executor_priority'', JObj [(''high'', JList [JStr ''api''])]), (''write_scope_candidates'', JList [JStr ''src/api''])])]"
  by (simp add: example_profiles_def EXECUTOR_CANDIDATE_ROLES_def)

lemma example_lower_api: "th_lower plain_talk ''api'' = ''api''"
  by (simp add: plain_talk_def py_lower_def py_lower_char_def)

lemma example_proposed: "\<exists>p. example_proposal = Inr p \<and> cp_executor_role p = ''backend-engineer''"
proof -
  let ?ps = "[(''backend-engineer'', [(''default_executor_priority'', JObj [(''high'', JList [JStr ''api''])]), (''write_scope_candidates'', JList [JStr ''src/api''])])]"
  have "scored_roles plain_talk ?ps ''fix api'' = [(3, 0, ''backend-engineer'')]"
    by (simp add: scored_roles_def EXECUTOR_CANDIDATE_ROLES_def DEFAULT_PARTICIPANT_PRIORITY_def List.map_filter_def score_executor_def
      string_list_def count_hits_def example_lower_api)
  then show ?thesis
    unfolding example_proposal_def recommend_authorization_def Let_def example_request example_profile_list
    by (simp add: Let_def example_not_research example_profile_list)
qed

text \<open>C15: The right to write code is proposed only to a match, within its scope, and under review. A proposal without an
  approval is a research proposal: it names no executor and no scope, and no job can be built from it. Any other
  proposal needs the approval of the user; it names the tech lead and no scope, or the candidate role with the best
  positive score for the request (the earliest by priority among equals), with the scope of that role's profile, no
  phrase of the request asking for research only, and reviewers that include the tech lead and not the executor.\<close>

theorem authorization_sound:
  assumes "recommend_authorization h f active req sid = Inr p"
  defines "hay \<equiv> th_lower h (wide_strip req)"
  shows "(\<not> cp_approval_required p \<and> cp_executor_role p = [] \<and> cp_write_scope p = []
      \<and> (\<forall>now status t j. build_coding_job_from_proposal h f now p status t \<noteq> Inr j))
    \<or> (cp_approval_required p \<and> cp_executor_role p = ''tech-lead'' \<and> cp_write_scope p = [])
    \<or> (cp_approval_required p \<and> cp_executor_role p \<in> set EXECUTOR_CANDIDATE_ROLES \<and> \<not> is_research_only_text hay
       \<and> (\<exists>prof. f (cp_executor_role p) = Inr (Some prof) \<and> 0 < score_executor h prof hay
           \<and> cp_write_scope p = map JStr (string_list h (dict_get prof ''write_scope_candidates''))
           \<and> cp_forbidden_scope p = map JStr (string_list h (dict_get prof ''forbidden_scope''))
           \<and> (\<forall>r \<in> set EXECUTOR_CANDIDATE_ROLES. \<forall>q. f r = Inr (Some q) \<longrightarrow> score_executor h q hay < score_executor h prof hay
                \<or> score_executor h q hay = score_executor h prof hay
                  \<and> index_of (cp_executor_role p) DEFAULT_PARTICIPANT_PRIORITY \<le> index_of r DEFAULT_PARTICIPANT_PRIORITY))
       \<and> JStr (cp_executor_role p) \<notin> set (cp_review_roles p)
       \<and> (\<forall>q. f ''tech-lead'' = Inr (Some q) \<longrightarrow> JStr ''tech-lead'' \<in> set (cp_review_roles p)))"
  using recommend_cases[OF assms(1)]
proof (elim disjE exE conjE)
  fix ps x t r rest prof
  assume l: "load_profiles f (EXECUTOR_CANDIDATE_ROLES @ [''tech-lead'']) = Inr ps" and s: "scored_roles h ps (th_lower h (wide_strip req)) = (x, t, r) # rest"
    and g: "\<not> is_research_only_text (th_lower h (wide_strip req))" "0 < x" "map_of ps r = Some prof" "cp_executor_role p = r"
      "cp_review_roles p = map JStr (review_roles h r ps (th_lower h (wide_strip req)))"
      "cp_write_scope p = map JStr (string_list h (dict_get prof ''write_scope_candidates''))"
      "cp_forbidden_scope p = map JStr (string_list h (dict_get prof ''forbidden_scope''))" "cp_approval_required p"
  note b = scored_roles_best[OF s]
  have get: "f r' = Inr (map_of ps r')" if "r' \<in> set EXECUTOR_CANDIDATE_ROLES \<or> r' = ''tech-lead''" for r'
    using load_profiles_get[OF l, of r'] that by auto
  have r: "r \<in> set EXECUTOR_CANDIDATE_ROLES" "f r = Inr (Some prof)" "x = score_executor h prof hay"
    using b g(3) get by (auto simp: hay_def)
  have "JStr r \<notin> set (cp_review_roles p)" using review_roles_mem(1)[of r h ps] candidate_not_lead[OF r(1)] g(5) by auto
  moreover have "JStr ''tech-lead'' \<in> set (cp_review_roles p)" if "f ''tech-lead'' = Inr (Some q)" for q
  proof -
    have "map_of ps ''tech-lead'' = Some q" using get[of "''tech-lead''"] that by simp
    then show ?thesis using review_roles_mem(2)[of ps h r "th_lower h (wide_strip req)"] g(5) by simp
  qed
  moreover have "score_executor h q hay < x \<or> score_executor h q hay = x \<and> index_of r DEFAULT_PARTICIPANT_PRIORITY \<le> index_of r' DEFAULT_PARTICIPANT_PRIORITY"
    if "r' \<in> set EXECUTOR_CANDIDATE_ROLES" "f r' = Inr (Some q)" for r' q
    using b that get[of r'] by (auto simp: hay_def)
  ultimately show ?thesis using r g by (auto simp: hay_def)
qed (simp_all add: fallback_proposal_def research_only_proposal_def build_coding_job_from_proposal_def)

theorem authorization_sound_witness:
  "\<exists>p. example_proposal = Inr p \<and> cp_executor_role p = ''backend-engineer'' \<and> cp_approval_required p
     \<and> (\<exists>prof. example_profiles ''backend-engineer'' = Inr (Some prof)
          \<and> cp_write_scope p = map JStr (string_list plain_talk (dict_get prof ''write_scope_candidates'')))"
proof -
  obtain p where p: "example_proposal = Inr p" "cp_executor_role p = ''backend-engineer''" using example_proposed by blast
  show ?thesis using p authorization_sound[OF p(1)[unfolded example_proposal_def]] by auto
qed

text \<open>Reading a value back.\<close>

lemma tuple_at_list: "dict_get d k = JList xs \<Longrightarrow> tuple_at h d k = Inr xs"
  by (simp add: tuple_at_def py_iter_def)

lemma object_at_object: "dict_get d k = JObj m \<Longrightarrow> object_at d k = Inr m"
  by (simp add: object_at_def)

lemma text_at: "dict_get d k = JStr s \<Longrightarrow> s \<noteq> [] \<or> v = [] \<Longrightarrow> json_str h (dict_get_or d k (JStr v)) = s"
  by (auto simp: dict_get_or_def)

lemma proposal_dict_get [simp]:
  "dict_get (proposal_to_dict p) ''session_id'' = cp_session_id p" "dict_get (proposal_to_dict p) ''user_request'' = JStr (cp_user_request p)"
  "dict_get (proposal_to_dict p) ''executor_role'' = JStr (cp_executor_role p)" "dict_get (proposal_to_dict p) ''review_roles'' = JList (cp_review_roles p)"
  "dict_get (proposal_to_dict p) ''participant_roles'' = JList (cp_participant_roles p)"
  "dict_get (proposal_to_dict p) ''write_scope'' = JList (cp_write_scope p)" "dict_get (proposal_to_dict p) ''forbidden_scope'' = JList (cp_forbidden_scope p)"
  "dict_get (proposal_to_dict p) ''reason'' = JStr (cp_reason p)" "dict_get (proposal_to_dict p) ''safety_rules'' = JList (cp_safety_rules p)"
  "map_of (proposal_to_dict p) ''approval_required'' = Some (JBool (cp_approval_required p))" "dict_get (proposal_to_dict p) ''metadata'' = JObj (cp_metadata p)"
  "dict_get (proposal_to_dict p) ''lifecycle_mode'' = JStr (cp_lifecycle_mode p)" "dict_get (proposal_to_dict p) ''research_leads'' = JList (cp_research_leads p)"
  by (simp_all add: proposal_to_dict_def)

lemma proposal_restored:
  assumes "cp_lifecycle_mode p \<noteq> []" and "cp_executor_role p \<noteq> [] \<or> cp_lifecycle_mode p = LIFECYCLE_MODE_RESEARCH_ONLY"
  shows "proposal_from_dict h (proposal_to_dict p) = Inr p"
  using assms
  by (auto simp add: proposal_from_dict_def tuple_at_list object_at_object text_at Let_def)

text \<open>C40: A proposal comes back from the session as it was stored, so what the user approves is what was shown.\<close>

theorem proposal_roundtrip:
  assumes "recommend_authorization h f active req sid = Inr p"
  shows "proposal_from_dict h (proposal_to_dict p) = Inr p"
proof (rule proposal_restored)
  show "cp_lifecycle_mode p \<noteq> []"
    using recommend_cases[OF assms]
    by (auto simp: fallback_proposal_def research_only_proposal_def LIFECYCLE_MODE_RESEARCH_ONLY_def LIFECYCLE_MODE_IMPLEMENTATION_def)
  show "cp_executor_role p \<noteq> [] \<or> cp_lifecycle_mode p = LIFECYCLE_MODE_RESEARCH_ONLY"
    using recommend_cases[OF assms] scored_roles_best candidate_not_lead
    by (fastforce simp: fallback_proposal_def research_only_proposal_def)
qed

theorem proposal_roundtrip_witness: "\<exists>p. example_proposal = Inr p \<and> proposal_from_dict plain_talk (proposal_to_dict p) = Inr p"
proof -
  obtain p where p: "example_proposal = Inr p" using example_proposed by blast
  show ?thesis using p proposal_roundtrip[OF p[unfolded example_proposal_def]] by blast
qed

end
