(* ===== verification/CodingGateProps.thy ===== *)
theory CodingGateProps
  imports CodingGate CodingAuthProps
begin

text \<open>What the coding gate guarantees: a job becomes ready only from a stored proposal and on the words that approve it.\<close>

section \<open>What a step adds\<close>

text \<open>\<open>adds P st st'\<close>: the step from \<open>st\<close> to \<open>st'\<close> does only what \<open>P\<close> allows.\<close>

definition adds :: "(gw_event \<Rightarrow> bool) \<Rightarrow> gw_state \<Rightarrow> gw_state \<Rightarrow> bool" where
  "adds P st st' \<longleftrightarrow> (\<exists>new. gs_trace st' = gs_trace st @ new \<and> list_all P new)"

lemma adds_refl [simp, intro]: "adds P st st"
  by (simp add: adds_def)

lemma adds_trans: "adds P st st1 \<Longrightarrow> adds P st1 st2 \<Longrightarrow> adds P st st2"
  by (auto simp: adds_def)

lemma adds_emit [intro]: "adds P st st1 \<Longrightarrow> P e \<Longrightarrow> adds P st (emit e st1)"
  by (auto simp: adds_def emit_def)

lemma adds_send [intro]: "adds P st st1 \<Longrightarrow> P (Sent s) \<Longrightarrow> adds P st (send s st1)"
  by (simp add: send_def adds_emit)

lemma adds_send_opt [intro]: "adds P st st1 \<Longrightarrow> (\<And>s. P (Sent s)) \<Longrightarrow> adds P st (send_opt m st1)"
  by (auto simp: send_opt_def split: option.split)

lemma adds_mono: "adds P st st' \<Longrightarrow> (\<And>e. P e \<Longrightarrow> Q e) \<Longrightarrow> adds Q st st'"
  by (auto simp: adds_def list_all_iff)

lemma adds_member: "adds P st st' \<Longrightarrow> gs_trace st' = gs_trace st @ new \<Longrightarrow> e \<in> set new \<Longrightarrow> P e"
  by (auto simp: adds_def list_all_iff)

lemma adds_trace: "adds P st st' \<Longrightarrow> \<exists>new. gs_trace st' = gs_trace st @ new \<and> (\<forall>e \<in> set new. P e)"
  by (auto simp: adds_def list_all_iff)

lemma adds_cache: "adds P (st\<lparr>gs_cache := c\<rparr>) st' = adds P st st'" "adds P st (st'\<lparr>gs_cache := c\<rparr>) = adds P st st'"
  by (simp_all add: adds_def)

lemma cache_simps [simp]: "gs_cache (emit e st) = gs_cache st" "gs_cache (send s st) = gs_cache st" "gs_cache (send_opt m st) = gs_cache st"
  by (simp_all add: emit_def send_def send_opt_def split: option.split)

section \<open>Writing a session\<close>

lemma adds_update:
  assumes "\<And>t. P (Stored (s\<lparr>ws_updated_at := t\<rparr>))"
  shows "adds P st (snd (update_session g s st))"
  using assms by (auto simp: update_session_def split: option.split)

lemma update_cache [simp]: "gs_cache (snd (update_session g s st)) = gs_cache st"
  by (simp add: update_session_def split: option.split)

lemma adds_persist:
  assumes "\<And>t. P (Stored ((extend_extra d s)\<lparr>ws_updated_at := t\<rparr>))"
  shows "adds P st (snd (persist_extra_keys g d s st))"
  using adds_update[of P "extend_extra d s" st g] assms
  by (cases "update_session g (extend_extra d s) st") (simp add: persist_extra_keys_def Let_def split: option.split)

lemma persist_cache [simp]: "gs_cache (snd (persist_extra_keys g d s st)) = gs_cache st"
  using update_cache[of g "extend_extra d s" st]
  by (cases "update_session g (extend_extra d s) st") (simp add: persist_extra_keys_def Let_def del: update_cache split: option.split)

lemma nearest_session_mem: "nearest_session m f ss = Some s \<Longrightarrow> s \<in> set ss"
  by (auto simp: nearest_session_def Let_def find_Some_iff split: if_splits option.splits dest!: most_recent_mem)

section \<open>The gate\<close>

text \<open>What the gate may do: it talks, posts a card, and stores a proposal, or the job of the proposal that was stored.\<close>

definition job_granted :: "gateway \<Rightarrow> string \<Rightarrow> wsession list \<Rightarrow> wsession \<Rightarrow> json pydict \<Rightarrow> bool" where
  "job_granted g text ss s j \<longleftrightarrow> is_coding_approval_phrase (gh_talk g) text \<and> \<not> is_coding_proposal_request (gh_talk g) text
     \<and> \<not> user_explicitly_blocked_coding (gh_talk g) text
     \<and> (\<exists>s0 \<in> set ss. \<exists>payload p. ws_id s0 = ws_id s \<and> dict_get (ws_extra s0) ''coding_proposal'' = JObj payload
          \<and> proposal_from_dict (gh_talk g) payload = Inr p \<and> cp_lifecycle_mode p \<noteq> LIFECYCLE_MODE_RESEARCH_ONLY
          \<and> dict_get j ''executor_role'' = JStr (cp_executor_role p) \<and> dict_get j ''write_scope'' = JList (cp_write_scope p)
          \<and> dict_get j ''forbidden_scope'' = JList (cp_forbidden_scope p) \<and> dict_get j ''status'' = JStr STATUS_READY)
     \<and> dict_get (ws_extra s) ''coding_proposal'' = JNull"

fun gate_may :: "gateway \<Rightarrow> string \<Rightarrow> wsession list \<Rightarrow> gw_event \<Rightarrow> bool" where
  "gate_may g text ss (Sent s) = True"
| "gate_may g text ss (Carded s) = is_coding_proposal_request (gh_talk g) text"
| "gate_may g text ss (Stored s) = (\<forall>j. dict_get (ws_extra s) ''coding_job'' = JObj j \<longrightarrow> job_granted g text ss s j)"
| "gate_may g text ss e = False"

lemma extend_extra_get: "dict_get (ws_extra (extend_extra [(k1, v1), (k2, v2)] s)) k = (if k = k2 then v2 else if k = k1 then v1 else dict_get (ws_extra s) k)"
  by (simp add: extend_extra_def dict_merge_def dict_get_update)

lemma extend_extra_id [simp]: "ws_id (extend_extra d s) = ws_id s"
  by (simp add: extend_extra_def)

lemma enqueue_card_cases: "enqueue_card g m text p s st = st \<or> enqueue_card g m text p s st = emit (Carded s) st
    \<or> (\<exists>t. enqueue_card g m text p s st = send t (emit (Carded s) st))"
proof (cases "gh_card g")
  case None
  then show ?thesis by (simp add: enqueue_card_def)
next
  case (Some f)
  show ?thesis
  proof (cases "f (gs_trace st) s (if ws_prompt s \<noteq> [] then ws_prompt s else text)")
    case (Inl e)
    then show ?thesis using Some by (simp add: enqueue_card_def)
  next
    case (Inr c)
    then show ?thesis using Some unfolding enqueue_card_def Let_def by simp blast
  qed
qed

lemma adds_card: "is_coding_proposal_request (gh_talk g) text \<Longrightarrow> adds (gate_may g text ss) st st1 \<Longrightarrow>
    adds (gate_may g text ss) st (enqueue_card g m text p s st1)"
  using enqueue_card_cases[of g m "text" p s st1] by (auto intro!: adds_send adds_emit)

lemma card_cache [simp]: "gs_cache (enqueue_card g m text p s st) = gs_cache st"
  using enqueue_card_cases[of g m "text" p s st] by auto

lemma propose_adds:
  assumes "is_coding_proposal_request (gh_talk g) text"
  shows "adds (gate_may g text ss) st (snd (propose_coding g m text st)) \<and> gs_cache (snd (propose_coding g m text st)) = gs_cache st"
proof -
  have a: "adds (gate_may g text ss) st (snd (persist_coding_proposal g p s st))" for p s
    unfolding persist_coding_proposal_def by (rule adds_persist) (simp add: proposal_keys_def extend_extra_get)
  have c: "gs_cache (snd (persist_coding_proposal g p s st)) = gs_cache st" for p s
    unfolding persist_coding_proposal_def by simp
  have d: "snd (propose_coding g m text st) = enqueue_card g m text p e (send t (snd (persist_coding_proposal g p s st)))"
    if "find_latest_open_session g m st = Some s" "e = extend_extra (proposal_keys p) s" "t = format_authorization_message (gh_talk g) p"
      "recommend_authorization (gh_talk g) (gh_profiles g) (gh_active g) (ws_prompt s) (JStr (ws_id s)) = Inr p" for s p e t
    using that by (simp add: propose_coding_def Let_def split_beta)
  show ?thesis
  proof (cases "find_latest_open_session g m st")
    case None
    then show ?thesis by (auto simp: propose_coding_def)
  next
    case (Some s)
    show ?thesis
    proof (cases "recommend_authorization (gh_talk g) (gh_profiles g) (gh_active g) (ws_prompt s) (JStr (ws_id s))")
      case (Inl e)
      then show ?thesis using Some by (simp add: propose_coding_def)
    next
      case (Inr p)
      show ?thesis unfolding d[OF Some refl refl Inr]
        by (simp add: c adds_card[OF assms] adds_send a)
    qed
  qed
qed

lemma approve_adds:
  assumes "is_coding_approval_phrase (gh_talk g) text" "\<not> is_coding_proposal_request (gh_talk g) text"
    "\<not> user_explicitly_blocked_coding (gh_talk g) text"
  shows "adds (gate_may g text (gate_sessions g st)) st (snd (approve_coding g m st)) \<and> gs_cache (snd (approve_coding g m st)) = gs_cache st"
proof (cases "find_session_with_pending_coding_proposal g m st")
  case None
  then show ?thesis by (auto simp: approve_coding_def)
next
  case (Some s)
  then have s: "s \<in> set (gate_sessions g st)"
    using nearest_session_mem by (fastforce simp: find_session_with_pending_coding_proposal_def)
  let ?now = "gh_now g (gs_trace st)" and ?h = "gh_talk g"
  have a: "adds (gate_may g text (gate_sessions g st)) st (snd (persist_coding_job g (coding_job_dict ?h j) s st))"
    if "dict_get (ws_extra s) ''coding_proposal'' = JObj payload" "proposal_from_dict ?h payload = Inr p"
      "build_coding_job_from_proposal ?h (gh_profiles g) ?now p STATUS_READY (Some ?now) = Inr j" for payload p j
  proof -
    have "job_granted g text (gate_sessions g st) ((extend_extra [(''coding_job'', JObj (coding_job_dict ?h j)), (''coding_proposal'', JNull)] s)\<lparr>ws_updated_at := t\<rparr>)
        (coding_job_dict ?h j)" for t
      using assms s that
      by (auto simp: job_granted_def extend_extra_get build_coding_job_from_proposal_def coding_job_dict_def Let_def split: if_splits sum.splits)
    then show ?thesis unfolding persist_coding_job_def by (intro adds_persist) (auto simp: extend_extra_get)
  qed
  have c: "gs_cache (snd (persist_coding_job g j s st)) = gs_cache st" for j
    unfolding persist_coding_job_def by simp
  show ?thesis
  proof (cases "\<exists>payload p j. dict_get (ws_extra s) ''coding_proposal'' = JObj payload \<and> proposal_from_dict ?h payload = Inr p
      \<and> build_coding_job_from_proposal ?h (gh_profiles g) ?now p STATUS_READY (Some ?now) = Inr j")
    case True
    then obtain payload p j where t: "dict_get (ws_extra s) ''coding_proposal'' = JObj payload" "proposal_from_dict ?h payload = Inr p"
      "build_coding_job_from_proposal ?h (gh_profiles g) ?now p STATUS_READY (Some ?now) = Inr j" by blast
    have "snd (approve_coding g m st) = send (approval_message ?h j ?now) (snd (persist_coding_job g (coding_job_dict ?h j) s st))"
      using Some t by (simp add: approve_coding_def Let_def split_beta)
    then show ?thesis using a[OF t] by (simp add: c adds_send)
  next
    case False
    then have "\<exists>m'. snd (approve_coding g m st) = st \<or> snd (approve_coding g m st) = send m' st"
      using Some by (auto simp: approve_coding_def Let_def split: json.split sum.split)
    then show ?thesis using adds_send[OF adds_refl] by (metis cache_simps(2) gate_may.simps(1) adds_refl)
  qed
qed

lemma gate_adds:
  "adds (gate_may g text (gate_sessions g st)) st (snd (run_coding_authorization_gate g m text st))
    \<and> gs_cache (snd (run_coding_authorization_gate g m text st)) = gs_cache st"
  using propose_adds[of g "text" "gate_sessions g st" st m] approve_adds[of g "text" st m]
  by (auto simp: run_coding_authorization_gate_def Let_def split: prod.split sum.split)

text \<open>An example: the words of approval, and a session that holds the example of a proposal.\<close>

definition example_approval :: string where
  "example_approval = [CHR 0xEA, CHR 0xB5, CHR 0xAC, CHR 0xED, CHR 0x98, CHR 0x84, CHR 0x20, CHR 0xEC, CHR 0x8A, CHR 0xB9, CHR 0xEC, CHR 0x9D, CHR 0xB8]"

lemma approval_bytes: "utf8 [0xAD6C, 0xD604, 0x20, 0xC2B9, 0xC778] = example_approval"
  by (simp add: example_approval_def utf8_def Let_def char_of_def bit_0)

lemma approval_lower: "squeeze (th_lower plain_talk example_approval) = example_approval"
proof -
  have "char_list example_approval = [[CHR 0xEA, CHR 0xB5, CHR 0xAC], [CHR 0xED, CHR 0x98, CHR 0x84], [CHR 0x20],
      [CHR 0xEC, CHR 0x8A, CHR 0xB9], [CHR 0xEC, CHR 0x9D, CHR 0xB8]]"
    unfolding example_approval_def by (simp add: continues_def)
  then have "squeeze example_approval = example_approval"
    unfolding squeeze_def py_words_def by (simp add: space_char_def example_approval_def)
  then show ?thesis by (simp add: plain_talk_def py_lower_def py_lower_char_def example_approval_def)
qed

lemma approval_says:
  "is_coding_approval_phrase plain_talk example_approval" "\<not> is_coding_proposal_request plain_talk example_approval"
  "\<not> user_explicitly_blocked_coding plain_talk example_approval"
  unfolding is_coding_approval_phrase_def is_coding_proposal_request_def user_explicitly_blocked_coding_def says_any_def approval_lower
  subgoal by (simp add: any_in_def CODING_APPROVAL_PHRASES_def approval_bytes example_approval_def)
  subgoal by (simp add: any_in_def CODING_PROPOSAL_REQUEST_PHRASES_def example_approval_def utf8_def char_of_def bit_0)
  subgoal by (simp add: any_in_def NO_CODING_INTENT_PHRASES_def example_approval_def utf8_def char_of_def bit_0)
  done

definition example_session :: "proposal \<Rightarrow> wsession" where
  "example_session p = example_work\<lparr>ws_extra := [(''coding_proposal'', JObj (proposal_to_dict p))]\<rparr>"

definition example_gateway :: "wsession list \<Rightarrow> gateway" where
  "example_gateway ss = \<lparr>gh_talk = plain_talk, gh_now = (\<lambda>_. 0), gh_list = Some (\<lambda>_ _. Inr ss), gh_store = (\<lambda>_ _. Inr ss), gh_load = (\<lambda>_ _. Inr None),
     gh_update = (\<lambda>_ _. None), gh_profiles = example_profiles, gh_active = (\<lambda>_. None), gh_card = None, gh_converse = (\<lambda>_ s. Inr (Plain_Text s)),
     gh_continue = None, gh_intake = (\<lambda>_ _ _. Inl []), gh_kickoff = (\<lambda>_ _ _ _. Inr None), gh_research = None, gh_report = (\<lambda>_ _ _. None),
     gh_roles = (\<lambda>_ _. []), gh_context = (\<lambda>_ _. []), gh_council = (\<lambda>_ _. []), gh_naive_time = (\<lambda>_. []), gh_local_time = (\<lambda>_. []), gh_vault_root = Inr ''vault'',
     gh_read_pack = (\<lambda>j. Inr \<lparr>pk_summary = None, pk_data = j\<rparr>), gh_read_synthesis = Some, gh_knowledge_note = (\<lambda>_ _ _ _ _. None),
     gh_research_note = (\<lambda>s _ _ _ _. Inr \<lparr>nt_title = JNull, nt_filename = ws_id s, nt_path = ws_id s, nt_content = []\<rparr>),
     gh_write_note = (\<lambda>_ n _. Inr \<lparr>wn_path = nt_path n, wn_name = nt_filename n, wn_original = None\<rparr>)\<rparr>"

definition example_sender :: message where
  "example_sender = \<lparr>ms_channel_id = None, ms_channel_name = None, ms_has_parent = False, ms_parent_id = None, ms_parent_name = None,
     ms_author_id = None, ms_id = None\<rparr>"

lemma example_gate:
  assumes "example_proposal = Inr p"
  shows "\<exists>j t. gs_trace (snd (run_coding_authorization_gate (example_gateway [example_session p]) example_sender example_approval \<lparr>gs_cache = c, gs_trace = []\<rparr>))
      = [Stored (extend_extra [(''coding_job'', JObj j), (''coding_proposal'', JNull)] (example_session p)\<lparr>ws_updated_at := 0\<rparr>), Sent t]"
proof -
  let ?g = "example_gateway [example_session p]" and ?s = "example_session p" and ?st = "\<lparr>gs_cache = c, gs_trace = []\<rparr>"
  have x: "cp_executor_role p = ''backend-engineer''" using example_proposed assms by (metis sum.inject(2))
  have "p \<noteq> fallback_proposal q i why" "p \<noteq> research_only_proposal q i leads sc" for q i why leads sc
    using x by (auto simp: fallback_proposal_def research_only_proposal_def)
  then have mode: "cp_lifecycle_mode p = LIFECYCLE_MODE_IMPLEMENTATION" "cp_executor_role p = ''backend-engineer''"
    using recommend_cases[OF assms[unfolded example_proposal_def]] x by blast+
  have r: "proposal_from_dict plain_talk (proposal_to_dict p) = Inr p"
    using mode by (intro proposal_restored) (auto simp: LIFECYCLE_MODE_IMPLEMENTATION_def)
  have "find_session_with_pending_coding_proposal ?g example_sender ?st = Some ?s"
    by (simp add: find_session_with_pending_coding_proposal_def gate_sessions_def nearest_session_def scoped_channel_id_def list_limited_def
      example_gateway_def example_sender_def in_thread_def example_session_def proposal_to_dict_def)
  moreover have "\<exists>j. build_coding_job_from_proposal plain_talk example_profiles 0 p STATUS_READY (Some 0) = Inr j"
    using mode by (simp add: build_coding_job_from_proposal_def example_profiles_def Let_def LIFECYCLE_MODE_IMPLEMENTATION_def LIFECYCLE_MODE_RESEARCH_ONLY_def)
  ultimately show ?thesis using r
    by (auto simp: run_coding_authorization_gate_def approval_says approve_coding_def Let_def example_gateway_def example_session_def
      persist_coding_job_def persist_extra_keys_def update_session_def emit_def send_def)
qed
text \<open>C12: The right to write code is granted only by the user, and only for what was proposed. Whatever message the gate
  reads, it only sends text, posts cards and stores sessions; and when it stores a session with a job, the message
  contains a phrase of approval, no phrase that asks for a proposal and none that rules coding out, and the job
  is that of the proposal stored in a listed session: its executor and its scopes, ready, from a proposal that is
  not for research only, which the session gives up in exchange.\<close>

theorem coding_ready_gated:
  assumes "run_coding_authorization_gate g m text st = (r, st')"
  shows "\<exists>new. gs_trace st' = gs_trace st @ new \<and> gs_cache st' = gs_cache st
    \<and> (\<forall>e \<in> set new. (\<exists>s. e = Sent s) \<or> (\<exists>s. e = Carded s) \<or> (\<exists>s. e = Stored s))
    \<and> (\<forall>s j. Stored s \<in> set new \<and> dict_get (ws_extra s) ''coding_job'' = JObj j \<longrightarrow>
        is_coding_approval_phrase (gh_talk g) text \<and> \<not> is_coding_proposal_request (gh_talk g) text
        \<and> \<not> user_explicitly_blocked_coding (gh_talk g) text \<and> dict_get (ws_extra s) ''coding_proposal'' = JNull
        \<and> (\<exists>s0 \<in> set (gate_sessions g st). \<exists>payload p. ws_id s0 = ws_id s \<and> dict_get (ws_extra s0) ''coding_proposal'' = JObj payload
             \<and> proposal_from_dict (gh_talk g) payload = Inr p \<and> cp_lifecycle_mode p \<noteq> LIFECYCLE_MODE_RESEARCH_ONLY
             \<and> dict_get j ''executor_role'' = JStr (cp_executor_role p) \<and> dict_get j ''write_scope'' = JList (cp_write_scope p)
             \<and> dict_get j ''forbidden_scope'' = JList (cp_forbidden_scope p) \<and> dict_get j ''status'' = JStr STATUS_READY))"
proof -
  have g: "adds (gate_may g text (gate_sessions g st)) st st'" "gs_cache st' = gs_cache st"
    using gate_adds[of g "text" st m] by (simp_all add: assms)
  then obtain new where new: "gs_trace st' = gs_trace st @ new" "\<forall>e \<in> set new. gate_may g text (gate_sessions g st) e"
    using adds_trace by blast
  have "(\<exists>s. e = Sent s) \<or> (\<exists>s. e = Carded s) \<or> (\<exists>s. e = Stored s)" if "e \<in> set new" for e
    using new(2) that by (cases e) auto
  moreover have "job_granted g text (gate_sessions g st) s j" if "Stored s \<in> set new" "dict_get (ws_extra s) ''coding_job'' = JObj j" for s j
    using new(2) that by fastforce
  ultimately show ?thesis using new(1) g(2) unfolding job_granted_def by blast
qed

theorem coding_ready_gated_witness:
  "\<exists>p st' r. example_proposal = Inr p
     \<and> run_coding_authorization_gate (example_gateway [example_session p]) example_sender example_approval \<lparr>gs_cache = \<lambda>_. None, gs_trace = []\<rparr> = (r, st')
     \<and> (\<exists>s j. Stored s \<in> set (gs_trace st') \<and> dict_get (ws_extra s) ''coding_job'' = JObj j \<and> dict_get j ''status'' = JStr STATUS_READY)"
proof -
  obtain p where p: "example_proposal = Inr p" using example_proposed by blast
  obtain r st' where e: "run_coding_authorization_gate (example_gateway [example_session p]) example_sender example_approval
      \<lparr>gs_cache = \<lambda>_. None, gs_trace = []\<rparr> = (r, st')" by force
  obtain j t where t: "gs_trace st' = [Stored (extend_extra [(''coding_job'', JObj j), (''coding_proposal'', JNull)] (example_session p)\<lparr>ws_updated_at := 0\<rparr>), Sent t]"
    using example_gate[OF p, of "\<lambda>_. None"] by (auto simp: e)
  let ?s = "extend_extra [(''coding_job'', JObj j), (''coding_proposal'', JNull)] (example_session p)\<lparr>ws_updated_at := 0\<rparr>"
  have "Stored ?s \<in> set (gs_trace st')" "dict_get (ws_extra ?s) ''coding_job'' = JObj j" by (simp_all add: t extend_extra_get)
  moreover have "dict_get j ''status'' = JStr STATUS_READY"
    using coding_ready_gated[OF e] calculation by (fastforce simp: t)
  ultimately show ?thesis using p e by blast
qed

end
