(* ===== verification/ObsidianGateProps.thy ===== *)
theory ObsidianGateProps
  imports ObsidianGate CodingGateProps
begin

text \<open>What saving guarantees: a note is written only on words of approval, from a proposal, for a session that is ready.\<close>

section \<open>Effects of the writes to a session\<close>

named_theorems adds_rules "how the operations extend the list of effects"

lemmas [adds_rules] = adds_refl

lemma adds_after: "adds P st st1 \<Longrightarrow> adds P st1 st2 \<Longrightarrow> adds P st st2"
  by (rule adds_trans)

lemma adds_cache_upd [adds_rules]: "adds P st st1 \<Longrightarrow> adds P st (st1\<lparr>gs_cache := c\<rparr>)"
  by (simp add: adds_cache)

lemma adds_emitted [adds_rules]: "adds P st st1 \<Longrightarrow> P e \<Longrightarrow> adds P st (emit e st1)"
  by (rule adds_emit)

lemma adds_sent [adds_rules]: "adds P st st1 \<Longrightarrow> P (Sent s) \<Longrightarrow> adds P st (send s st1)"
  by (rule adds_send)

lemma adds_sent_opt [adds_rules]: "adds P st st1 \<Longrightarrow> (\<And>s. P (Sent s)) \<Longrightarrow> adds P st (send_opt m st1)"
  by (rule adds_send_opt)

lemma adds_updated [adds_rules]: "adds P st st1 \<Longrightarrow> (\<And>s. P (Stored s)) \<Longrightarrow> adds P st (snd (update_session g s st1))"
  using adds_update adds_trans by blast

lemma adds_saved [adds_rules]: "adds P st st1 \<Longrightarrow> (\<And>s. P (Stored s)) \<Longrightarrow> adds P st (snd (save_session g s st1))"
  using adds_updated[of P st st1 g s] by (cases "update_session g s st1") (auto simp: save_session_def split: option.splits)

lemma adds_persisted [adds_rules]: "adds P st st1 \<Longrightarrow> (\<And>s. P (Stored s)) \<Longrightarrow> adds P st (snd (persist_extra_keys g d s st1))"
  using adds_persist adds_trans by blast

lemma adds_merged [adds_rules]: "adds P st st1 \<Longrightarrow> (\<And>s. P (Stored s)) \<Longrightarrow> adds P st (snd (merge_session_extra g d s st1))"
  using adds_updated[of P st st1 g "extend_extra d s"]
  by (cases "update_session g (extend_extra d s) st1") (auto simp: merge_session_extra_def Let_def split: option.splits)

lemma adds_linked [adds_rules]: "adds P st st1 \<Longrightarrow> (\<And>s. P (Stored s)) \<Longrightarrow> adds P st (snd (persist_thread_link g t s st1))"
  using adds_updated[of P st st1 g "s\<lparr>ws_thread_id := t\<rparr>"]
  by (cases "update_session g (s\<lparr>ws_thread_id := t\<rparr>) st1") (auto simp: persist_thread_link_def Let_def split: option.splits)

lemma adds_forum [adds_rules]: "adds P st st1 \<Longrightarrow> (\<And>s. P (Stored s)) \<Longrightarrow> adds P st (snd (persist_research_forum_status g r s st1))"
  by (simp add: persist_research_forum_status_def adds_rules)

lemma adds_pack [adds_rules]: "adds P st st1 \<Longrightarrow> (\<And>s. P (Stored s)) \<Longrightarrow> adds P st (snd (maybe_persist_research_pack g pk co so st1))"
proof (cases so)
  case (Some s)
  assume a: "adds P st st1" "\<And>s. P (Stored s)"
  let ?new = "s\<lparr>ws_extra := filter (\<lambda>(k, _). k \<noteq> ''research_pack_error'') (dict_merge (ws_extra s) (research_keys (gh_talk g) pk co))\<rparr>"
  show ?thesis using adds_updated[of P st st1 g ?new] a Some
    by (cases "update_session g ?new st1") (auto simp: maybe_persist_research_pack_def Let_def split: option.splits)
qed (simp add: maybe_persist_research_pack_def)

section \<open>Saving\<close>

lemma adds_stored_proposal [adds_rules]: "adds P st st1 \<Longrightarrow> (\<And>s. P (Stored s)) \<Longrightarrow> adds P st (snd (store_pending_proposal g d t p s st1))"
  by (auto simp: store_pending_proposal_def split: sum.split intro!: adds_rules)

lemma adds_cleared [adds_rules]: "adds P st st1 \<Longrightarrow> (\<And>s. P (Stored s)) \<Longrightarrow> adds P st (snd (clear_pending_proposal g s st1))"
  by (auto simp: clear_pending_proposal_def split: sum.split intro!: adds_rules)

lemma adds_recorded [adds_rules]: "adds P st st1 \<Longrightarrow> (\<And>s. P (Stored s)) \<Longrightarrow> adds P st (snd (record_write_event g a b c s st1))"
  by (auto simp: record_write_event_def Let_def split: sum.split intro!: adds_rules)

lemma adds_preview:
  assumes "adds P st st1" "\<And>s. P (Stored s)" "\<And>s. P (Sent s)"
  shows "adds P st (snd (run_obsidian_preview_branch g m d st1))"
proof -
  have s: "adds P st (case store_pending_proposal g a b c s st1 of (Inr _, st) \<Rightarrow> st | (Inl e, st) \<Rightarrow> send (f e) st)" for a b c s f
  proof -
    obtain r st2 where e: "store_pending_proposal g a b c s st1 = (r, st2)" by force
    then have "adds P st st2" using adds_stored_proposal[OF assms(1,2), of g a b c s] by simp
    then show ?thesis using assms(3) by (cases r) (simp_all add: e adds_sent)
  qed
  show ?thesis using assms
    by (auto simp: run_obsidian_preview_branch_def Let_def split: option.split sum.split save_failure.split intro!: s adds_rules)
qed

lemma adds_failed [adds_rules]: "adds P st st1 \<Longrightarrow> (\<And>s. P (Stored s)) \<Longrightarrow> adds P st (snd (failed_write g a b c s st1))"
  using adds_recorded[of P st st1 g a None "Some b" s]
  by (cases "record_write_event g a None (Some b) s st1") (auto simp: failed_write_def split: sum.split)

lemma adds_after_write [adds_rules]: "adds P st st1 \<Longrightarrow> (\<And>s. P (Stored s)) \<Longrightarrow> adds P st (snd (after_write g w s st1))"
proof -
  assume a: "adds P st st1" "\<And>s. P (Stored s)"
  obtain r st2 where c: "clear_pending_proposal g s st1 = (r, st2)" by force
  then have c2: "adds P st st2" using adds_cleared[OF a, of g s] by simp
  show ?thesis
  proof (cases r)
    case (Inl e)
    then show ?thesis using c c2 by (simp add: after_write_def)
  next
    case (Inr s')
    then show ?thesis using c adds_recorded[OF c2 a(2), of g "''written''" "Some (wn_path w)" None s']
      by (cases "record_write_event g ''written'' (Some (wn_path w)) None s' st2") (auto simp: after_write_def split: sum.split)
  qed
qed


text \<open>A step that only talks and stores.\<close>

fun plain :: "gw_event \<Rightarrow> bool" where
  "plain (Sent s) = True"
| "plain (Stored s) = True"
| "plain e = False"

lemma plain_stored [simp]: "plain (Stored s)" "plain (Sent x)"
  by simp_all

text \<open>The note \<open>n\<close> is that of session \<open>s\<close>, which has a proposal and may be saved.\<close>

definition note_of :: "gateway \<Rightarrow> wsession \<Rightarrow> vault_note \<Rightarrow> string \<Rightarrow> bool" where
  "note_of g s n v \<longleftrightarrow> gh_vault_root g = Inr v \<and> can_write_obsidian_record (gh_talk g) (ws_extra s) = None
     \<and> truthy (dict_get (ws_extra s) ''research_pack'')
     \<and> (\<exists>p pk. get_pending_proposal s = Inr (Some p) \<and> p \<noteq> [] \<and> gh_read_pack g (dict_get (ws_extra s) ''research_pack'') = Inr pk
          \<and> render_note_for_session g s pk (dict_get_or p ''project'' JNull) (dict_get_or p ''layout'' JNull) = Inr n)"

lemma write_cases:
  "adds plain st (snd (write_rendered g n v s st)) \<or> adds plain (emit (Wrote_Note n v) st) (snd (write_rendered g n v s st))"
  by (auto simp: write_rendered_def split: sum.split write_failure.split intro!: adds_rules)

lemma written_cases:
  assumes "can_write_obsidian_record (gh_talk g) (ws_extra s) = None"
  shows "adds plain st (snd (execute_pending_proposal g s st))
    \<or> (\<exists>n v. note_of g s n v \<and> adds plain (emit (Wrote_Note n v) st) (snd (execute_pending_proposal g s st)))"
proof (cases "\<exists>p pk n v. get_pending_proposal s = Inr (Some p) \<and> p \<noteq> [] \<and> gh_vault_root g = Inr v \<and> truthy (dict_get (ws_extra s) ''research_pack'')
    \<and> gh_read_pack g (dict_get (ws_extra s) ''research_pack'') = Inr pk
    \<and> render_note_for_session g s pk (dict_get_or p ''project'' JNull) (dict_get_or p ''layout'' JNull) = Inr n")
  case True
  then obtain p pk n v where t: "get_pending_proposal s = Inr (Some p)" "p \<noteq> []" "gh_vault_root g = Inr v" "truthy (dict_get (ws_extra s) ''research_pack'')"
    "gh_read_pack g (dict_get (ws_extra s) ''research_pack'') = Inr pk"
    "render_note_for_session g s pk (dict_get_or p ''project'' JNull) (dict_get_or p ''layout'' JNull) = Inr n" by blast
  then have "execute_pending_proposal g s st = write_rendered g n v s st"
    by (auto simp: execute_pending_proposal_def Let_def split: list.split)
  moreover have "note_of g s n v" using t assms unfolding note_of_def by blast
  ultimately show ?thesis using write_cases[of st g n v s] by auto
next
  case False
  have "adds plain st (snd (execute_pending_proposal g s st))"
    using False by (auto simp: execute_pending_proposal_def Let_def split: sum.split option.split list.split intro!: adds_rules)
  then show ?thesis ..
qed

lemma save_cases:
  "adds plain st (snd (save_for g s st)) \<or> (\<exists>n v. note_of g s n v \<and> adds plain (emit (Wrote_Note n v) st) (snd (save_for g s st)))"
proof (cases "can_write_obsidian_record (gh_talk g) (ws_extra s)")
  case None
  obtain r st1 where e: "execute_pending_proposal g s st = (r, st1)" by force
  have "adds plain st0 (snd (save_for g s st))" if "adds plain st0 st1" for st0
    using that None by (auto simp: save_for_def e split: sum.split save_failure.split intro!: adds_rules)
  then show ?thesis using written_cases[OF None, of st] e by auto
next
  case (Some why)
  then show ?thesis by (simp add: save_for_def adds_rules)
qed

lemma with_pending_mem: "with_pending ss = Inr r \<Longrightarrow> set r \<subseteq> set ss"
  by (induction ss arbitrary: r) (fastforce split: sum.splits if_splits)+

text \<open>The session an approval is about: the one named, or one of those listed.\<close>

definition approval_about :: "gateway \<Rightarrow> string \<Rightarrow> gw_state \<Rightarrow> wsession \<Rightarrow> bool" where
  "approval_about g x st s \<longleftrightarrow> (case extract_explicit_session_id x of
     Some i \<Rightarrow> gh_load g (gs_trace st) i = Inr (Some s) | None \<Rightarrow> s \<in> set (gate_sessions g st))"

lemma gate_cases:
  "adds plain st (snd (run_obsidian_approval_gate g m x st))
   \<or> (\<exists>s n v. approves_save (gh_talk g) x \<and> approval_about g x st s \<and> note_of g s n v
        \<and> adds plain (emit (Wrote_Note n v) st) (snd (run_obsidian_approval_gate g m x st)))"
proof (cases "\<exists>s. approves_save (gh_talk g) x \<and> approval_about g x st s
    \<and> snd (run_obsidian_approval_gate g m x st) = snd (save_for g s st)")
  case True
  then show ?thesis using save_cases[of st g] by metis
next
  case False
  have f: "s \<in> set (gate_sessions g st)" if "find_session_with_pending_proposal g m st = Inr (Some s)" for s
    using that with_pending_mem nearest_session_mem by (fastforce simp: find_session_with_pending_proposal_def split: sum.splits)
  have l: "gh_load g (gs_trace st) i = Inr (Some s)" if "load_session g i st = Some s" for i s
    using that by (simp add: load_session_def split: sum.splits)
  have "adds plain st (snd (run_obsidian_approval_gate g m x st))"
    using False f l
    by (auto simp: run_obsidian_approval_gate_def approval_about_def split_beta Let_def split: option.split sum.split intro!: adds_rules)
  then show ?thesis ..
qed


section \<open>The property\<close>

text \<open>An example: a session with a pack and a proposal.\<close>

definition example_saved :: wsession where
  "example_saved = example_work\<lparr>ws_extra := [(''research_status'', JStr ''ready''), (''research_pack'', JObj [(''title'', JStr ''login'')]),
     (''obsidian'', JObj [(''pending_proposal'', JObj [(''title'', JStr ''login'')])])]\<rparr>"

lemma example_words_of_approval: "approves_save plain_talk ''save approved''" "extract_explicit_session_id ''save approved'' = None"
proof -
  have l: "squeeze (th_lower plain_talk ''save approved'') = ''save approved''"
    by (simp add: plain_talk_def py_lower_def py_lower_char_def squeeze_def py_words_def space_char_def continues_def)
  then show "approves_save plain_talk ''save approved''"
    by (simp add: approves_save_def is_obsidian_approval_def APPROVAL_STANDALONE_def)
  show "extract_explicit_session_id ''save approved'' = None"
    by (simp add: extract_explicit_session_id_def explicit_id_at_def after_lit_def continues_def utf8_def char_of_def bit_0 fold_case_def
      py_lower_char_def Let_def)
qed

lemma example_note_written:
  "\<exists>n v b. gs_trace (snd (run_obsidian_approval_gate (example_gateway [example_saved]) m ''save approved'' \<lparr>gs_cache = c, gs_trace = []\<rparr>))
     = Wrote_Note n v # b"
proof -
  let ?g = "example_gateway [example_saved]" and ?st = "\<lparr>gs_cache = c, gs_trace = []\<rparr>"
  have "nearest_session m (of_author m) [example_saved] = Some example_saved"
    by (simp add: nearest_session_def Let_def)
  then have f: "find_session_with_pending_proposal ?g m ?st = Inr (Some example_saved)"
    by (simp add: find_session_with_pending_proposal_def gate_sessions_def list_limited_def example_gateway_def get_pending_proposal_def example_saved_def)
  have ok: "can_write_obsidian_record plain_talk (ws_extra example_saved) = None"
    by (simp add: record_allowed_iff example_saved_def label_at_def dict_get_or_def RESEARCH_STATUS_READY_def plain_talk_def wide_strip_def
      trim_def space_char_def continues_def py_lower_def py_lower_char_def Let_def)
  have "gs_trace (snd (execute_pending_proposal ?g example_saved ?st)) =
      Wrote_Note \<lparr>nt_title = JNull, nt_filename = ws_id example_saved, nt_path = ws_id example_saved, nt_content = []\<rparr> ''vault''
        # drop 1 (gs_trace (snd (execute_pending_proposal ?g example_saved ?st)))"
    by (simp add: execute_pending_proposal_def get_pending_proposal_def write_rendered_def render_note_for_session_def after_write_def
      clear_pending_proposal_def record_write_event_def save_session_def update_session_def object_at_def tuple_at_def set_obsidian_def
      extend_extra_def dict_merge_def dict_get_update example_saved_def example_gateway_def emit_def Let_def)
  then obtain n v b where b: "gs_trace (snd (execute_pending_proposal ?g example_saved ?st)) = Wrote_Note n v # b" by blast
  obtain r st1 where e: "execute_pending_proposal ?g example_saved ?st = (r, st1)" by force
  have t: "gh_talk ?g = plain_talk" by (simp add: example_gateway_def)
  have "adds plain st1 (snd (save_for ?g example_saved ?st))"
    by (auto simp: save_for_def t ok e split: sum.split save_failure.split intro!: adds_rules)
  then have "\<exists>b. gs_trace (snd (save_for ?g example_saved ?st)) = Wrote_Note n v # b" using b by (auto simp: e adds_def)
  then show ?thesis
    using f by (auto simp: run_obsidian_approval_gate_def t example_words_of_approval split_beta Let_def)
qed

text \<open>C13: Nothing is written to the vault without being asked for, proposed and ready. Whatever message the gate of saving
  reads, it only sends text and stores sessions, with one exception: it may write one note, first of all. Then the
  message has words that approve saving; the note is rendered anew from the stored pack of the session the message
  names, or of one that is listed; that session has a proposal, the vault is configured, its research is ready or has
  a source, and its stored report, if any, is neither interim nor insufficient.\<close>

theorem vault_write_gated:
  assumes "run_obsidian_approval_gate g m x st = (r, st')"
  shows "\<exists>new. gs_trace st' = gs_trace st @ new \<and> (list_all plain new
    \<or> (\<exists>n v b s p pk. new = Wrote_Note n v # b \<and> list_all plain b \<and> approves_save (gh_talk g) x
         \<and> (case extract_explicit_session_id x of Some i \<Rightarrow> gh_load g (gs_trace st) i = Inr (Some s) | None \<Rightarrow> s \<in> set (gate_sessions g st))
         \<and> get_pending_proposal s = Inr (Some p) \<and> p \<noteq> [] \<and> gh_vault_root g = Inr v
         \<and> gh_read_pack g (dict_get (ws_extra s) ''research_pack'') = Inr pk
         \<and> render_note_for_session g s pk (dict_get_or p ''project'' JNull) (dict_get_or p ''layout'' JNull) = Inr n
         \<and> (label_at (gh_talk g) (ws_extra s) ''research_status'' = RESEARCH_STATUS_READY \<or> 0 < compute_research_source_count (gh_talk g) (ws_extra s))
         \<and> (\<forall>w. dict_get (ws_extra s) ''work_report'' = JObj w \<longrightarrow>
              label_at (gh_talk g) w ''status'' \<notin> {REPORT_STATUS_INSUFFICIENT, REPORT_STATUS_INTERIM})))"
  using gate_cases[of st g m x]
proof (elim disjE exE conjE)
  assume "adds plain st (snd (run_obsidian_approval_gate g m x st))"
  then show ?thesis by (auto simp: assms adds_def)
next
  fix s n v
  assume a: "approves_save (gh_talk g) x" "approval_about g x st s" "note_of g s n v"
    and "adds plain (emit (Wrote_Note n v) st) (snd (run_obsidian_approval_gate g m x st))"
  then obtain b where b: "gs_trace st' = gs_trace st @ Wrote_Note n v # b" "list_all plain b"
    by (auto simp: assms adds_def emit_def)
  show ?thesis
    using a b unfolding note_of_def approval_about_def record_allowed_iff
    by (intro exI[of _ "Wrote_Note n v # b"] conjI disjI2) blast+
qed

theorem vault_write_gated_witness:
  "\<exists>r st' n v b p. run_obsidian_approval_gate (example_gateway [example_saved]) example_sender ''save approved'' \<lparr>gs_cache = \<lambda>_. None, gs_trace = []\<rparr> = (r, st')
     \<and> gs_trace st' = Wrote_Note n v # b \<and> list_all plain b \<and> get_pending_proposal example_saved = Inr (Some p) \<and> p \<noteq> []"
proof -
  let ?g = "example_gateway [example_saved]" and ?st = "\<lparr>gs_cache = \<lambda>_. None, gs_trace = []\<rparr>"
  obtain r st' where e: "run_obsidian_approval_gate ?g example_sender ''save approved'' ?st = (r, st')" by force
  then obtain n v b where b: "gs_trace st' = Wrote_Note n v # b"
    using example_note_written[of example_sender "\<lambda>_. None"] by auto
  have "gate_sessions ?g ?st = [example_saved]" by (simp add: gate_sessions_def example_gateway_def list_limited_def)
  then show ?thesis using e b vault_write_gated[OF e] by (fastforce simp: example_words_of_approval)
qed

end
