(* ===== verification/RouterProps.thy ===== *)
theory RouterProps
  imports Router ObsidianGateProps
begin

text \<open>What the router guarantees of a message: what it may start, and when it may write.\<close>

section \<open>Steps that start nothing\<close>

text \<open>A calm step talks, reads and stores; research it runs is not on a bare command.\<close>

fun calm :: "talk_host \<Rightarrow> gw_event \<Rightarrow> bool" where
  "calm h (Intake p w) = False"
| "calm h (Kicked_Off so) = False"
| "calm h (Wrote_Note n v) = False"
| "calm h (Researched p) = (\<not> research_blocked h p)"
| "calm h e = True"

fun busy :: "talk_host \<Rightarrow> gw_event \<Rightarrow> bool" where
  "busy h (Kicked_Off so) = True"
| "busy h e = calm h e"

lemma calm_busy: "calm h e \<Longrightarrow> busy h e"
  by (cases e) auto

lemma plain_calm: "plain e \<Longrightarrow> calm h e"
  by (cases e) auto

lemma adds_stored_keys [adds_rules]: "adds P st (snd r) \<Longrightarrow> (\<And>s. P (Stored s)) \<Longrightarrow> adds P st (snd (store_keys g f r))"
  by (cases r) (auto simp: store_keys_def Let_def split_beta adds_rules split: option.split)

lemma adds_prepared [adds_rules]: "adds P st st1 \<Longrightarrow> (\<And>s. P (Stored s)) \<Longrightarrow> adds P st (snd (prepare_session g p x so st1))"
  unfolding prepare_session_def by (intro adds_stored_keys) auto

lemma adds_link_thread [adds_rules]: "adds P st st1 \<Longrightarrow> (\<And>s. P (Stored s)) \<Longrightarrow> adds P st (snd (link_thread g p t so st1))"
  by (auto simp: link_thread_def Let_def split_beta split: option.split intro!: adds_stored_keys adds_linked)

lemma adds_reported [adds_rules]: "adds P st st1 \<Longrightarrow> (\<And>s. P (Stored s)) \<Longrightarrow> (\<And>s. P (Sent s)) \<Longrightarrow> adds P st (emit_work_report_preview g co p s st1)"
  by (auto simp: emit_work_report_preview_def Let_def split: option.split intro!: adds_sent adds_persisted)

lemma adds_research:
  assumes "adds P st st1" "\<And>s. P (Stored s)" "\<And>s. P (Sent s)" "P (Researched p)"
  shows "adds P st (snd (snd (run_research_loop_hook g oc p t s st1)))"
  using assms
  by (auto simp: run_research_loop_hook_def Let_def split_beta split: option.split sum.split research_run.split intro!: adds_rules)


lemma adds_joined:
  assumes "adds (calm (gh_talk g)) st st1"
  shows "adds (calm (gh_talk g)) st (snd (handle_join_or_append g oc d p research st1))"
proof (cases "gh_continue g")
  case None
  then show ?thesis using assms by (simp add: handle_join_or_append_def)
next
  case (Some f)
  let ?st = "emit (Continued p (oc_write_requested oc)) st1"
  have c: "adds (calm (gh_talk g)) st ?st" using assms by (simp add: adds_rules)
  show ?thesis
  proof (cases "f (gs_trace st1) p (oc_write_requested oc) (oc_thread_topic oc)")
    case (Inl e)
    then show ?thesis using Some c by (simp add: handle_join_or_append_def)
  next
    case (Inr found)
    show ?thesis
    proof (cases found)
      case None
      then show ?thesis using Some Inr c by (simp add: handle_join_or_append_def)
    next
      case (Some cn)
      let ?r = "maybe_persist_research_pack g (oc_research_pack oc) (oc_collection_outcome oc) (cn_session cn) ?st"
      have m: "adds (calm (gh_talk g)) st (send_opt (cn_message cn) (snd ?r))" using c by (simp add: adds_rules)
      show ?thesis using m \<open>gh_continue g = Some f\<close> Inr Some
        by (auto simp: handle_join_or_append_def Let_def split_beta split: option.split intro!: adds_reported adds_research)
    qed
  qed
qed

lemma adds_selected: "adds (calm (gh_talk g)) st st1 \<Longrightarrow> adds (calm (gh_talk g)) st (snd (handle_clarification_selection g c x canonical st1))"
  by (simp add: handle_clarification_selection_def Let_def adds_joined)

lemma adds_remembered [adds_rules]: "adds P st st1 \<Longrightarrow> adds P st (snd (remembered g m st1))"
  by (simp add: remembered_def split_beta Let_def adds_rules)

lemma adds_choices [adds_rules]: "adds P st st1 \<Longrightarrow> adds P st (snd (remembered_choices g m st1))"
  by (simp add: remembered_choices_def split_beta Let_def adds_rules)

lemma adds_forget [adds_rules]: "adds P st st1 \<Longrightarrow> adds P st (forget m st1)"
  by (simp add: forget_def adds_rules)

lemma adds_remember [adds_rules]: "adds P st st1 \<Longrightarrow> adds P st (remember g m cs p st1)"
  by (simp add: remember_def adds_rules)

lemma adds_explicit: "adds (calm (gh_talk g)) st st1 \<Longrightarrow> adds (calm (gh_talk g)) st (snd (explicit_join g m x st1))"
proof -
  assume a: "adds (calm (gh_talk g)) st st1"
  have f: "adds (calm (gh_talk g)) st (snd (case fst r of Inl e \<Rightarrow> (Inl e, snd r) | Inr None \<Rightarrow> (Inr None, snd r) | Inr (Some x) \<Rightarrow> (Inr (Some x), forget m (snd r))))"
    if "adds (calm (gh_talk g)) st (snd r)" for r :: "(raised + route_result option) \<times> gw_state"
    using that by (auto split: sum.split option.split intro: adds_rules)
  show ?thesis using a
    by (auto simp: explicit_join_def Let_def split_beta split: option.split intro!: f adds_joined adds_rules)
qed


section \<open>Steps that start work\<close>

definition works :: "talk_host \<Rightarrow> gw_state \<Rightarrow> gw_state \<Rightarrow> bool" where
  "works h st st' \<longleftrightarrow> adds (calm h) st st'
     \<or> (\<exists>p w st1. adds (calm h) st st1 \<and> \<not> is_non_actionable_prompt h p \<and> adds (busy h) (emit (Intake p w) st1) st')"

lemma works_calm [intro]: "adds (calm h) st st' \<Longrightarrow> works h st st'"
  by (simp add: works_def)

lemma works_after: "adds (calm h) st st1 \<Longrightarrow> works h st1 st' \<Longrightarrow> works h st st'"
  unfolding works_def using adds_trans by blast

lemma works_then: "works h st st1 \<Longrightarrow> adds (calm h) st1 st' \<Longrightarrow> works h st st'"
  unfolding works_def using adds_trans adds_mono[OF _ calm_busy] by meson

lemma busy_stored [simp]: "busy h (Stored s)" "busy h (Sent x)" "busy h (Kicked_Off so)" "calm h (Stored s)" "calm h (Sent x)"
  by simp_all

lemma adds_kicked: "adds (busy h) st st1 \<Longrightarrow> adds (busy h) st (snd (kick_off g so pl tp st1))"
  by (simp add: kick_off_def adds_rules)

lemma adds_closed:
  assumes "adds (busy (gh_talk g)) st st1"
  shows "adds (busy (gh_talk g)) st (snd (close_turn g oc p research t so st1))"
  using assms by (auto simp: close_turn_def Let_def split_beta split: option.split intro!: adds_reported adds_research)

lemma create_works:
  assumes "\<not> is_non_actionable_prompt (gh_talk g) p"
  shows "works (gh_talk g) st (snd (create_work g oc p x d st))"
proof -
  let ?b = "adds (busy (gh_talk g)) (emit (Intake p (oc_write_requested oc)) st)"
  have "?b (snd (create_work g oc p x d st))"
  proof (cases "gh_intake g (gs_trace st) p (oc_write_requested oc)")
    case (Inl e)
    then show ?thesis by (simp add: create_work_def take_in_def adds_rules)
  next
    case (Inr it)
    let ?x = "if x \<noteq> [] then x else p"
    obtain so1 st1 where 1: "maybe_persist_research_pack g (oc_research_pack oc) (oc_collection_outcome oc) (it_session it) (emit (Intake p (oc_write_requested oc)) st) = (so1, st1)" by force
    obtain so2 st2 where 2: "prepare_session g p ?x so1 st1 = (so2, st2)" by force
    obtain started st3 where 3: "kick_off g so2 (it_plan it) (oc_thread_topic oc) (send_opt (it_message it) st2) = (started, st3)" by force
    have b1: "?b st1" using adds_pack[OF adds_refl, of "busy (gh_talk g)"] 1 by (metis busy_stored(1) snd_conv)
    have b2: "?b st2" using adds_prepared[OF b1, of g p ?x so1] 2 by simp
    have "?b (send_opt (it_message it) st2)" using b2 by (simp add: adds_rules)
    from adds_kicked[OF this] have b3: "?b st3" using 3 by (metis snd_conv)
    show ?thesis
    proof (cases started)
      case (Inl e)
      have "?b (send (format_kickoff_failure e (map_option ws_id so2)) st3)" using b3 by (simp add: adds_rules)
      then show ?thesis using Inr Inl 1 2 3 by (simp add: create_work_def take_in_def Let_def split_beta adds_closed)
    next
      case k: (Inr ko)
      show ?thesis
      proof (cases ko)
        case None
        then show ?thesis using Inr k 1 2 3 b3 by (simp add: create_work_def take_in_def Let_def split_beta adds_closed)
      next
        case (Some ki)
        have "?b (snd (link_thread g p (ki_thread_id ki) so2 st3))" using b3 by (simp add: adds_rules)
        then show ?thesis using Inr k Some 1 2 3 by (simp add: create_work_def take_in_def Let_def split_beta adds_closed)
      qed
    qed
  qed
  then show ?thesis unfolding works_def using assms adds_refl by blast
qed

lemma drive_works: "works (gh_talk g) st (snd (drive_clarification_create_new_work g p st))"
proof (cases "is_non_actionable_prompt (gh_talk g) p")
  case True
  then show ?thesis by (simp add: drive_clarification_create_new_work_def works_calm adds_rules)
next
  case False
  let ?b = "adds (busy (gh_talk g)) (emit (Intake p False) st)"
  have "?b (snd (drive_clarification_create_new_work g p st))"
  proof (cases "gh_intake g (gs_trace st) p False")
    case (Inl e)
    then show ?thesis using False by (simp add: drive_clarification_create_new_work_def take_in_def adds_rules)
  next
    case (Inr it)
    obtain so2 st2 where 2: "prepare_session g p p (it_session it) (emit (Intake p False) st) = (so2, st2)" by force
    obtain started st3 where 3: "kick_off g so2 (it_plan it) None (send_opt (it_message it) st2) = (started, st3)" by force
    have b2: "?b st2" using adds_prepared[OF adds_refl, of "busy (gh_talk g)"] 2 by (metis busy_stored(1) snd_conv)
    have "?b (send_opt (it_message it) st2)" using b2 by (simp add: adds_rules)
    from adds_kicked[OF this] have b3: "?b st3" using 3 by (metis snd_conv)
    show ?thesis
    proof (cases started)
      case (Inl e)
      have "?b (send (format_kickoff_failure_short e) st3)" using b3 by (simp add: adds_rules)
      then show ?thesis using False Inr Inl 2 3 by (simp add: drive_clarification_create_new_work_def take_in_def Let_def split_beta adds_closed)
    next
      case k: (Inr ko)
      show ?thesis
      proof (cases ko)
        case None
        then show ?thesis using False Inr k 2 3 b3 by (simp add: drive_clarification_create_new_work_def take_in_def Let_def split_beta adds_closed)
      next
        case (Some ki)
        have "?b (send_opt (ki_message ki) (snd (link_thread g p (ki_thread_id ki) so2 st3)))" using b3 by (simp add: adds_rules)
        then show ?thesis using False Inr k Some 2 3 by (simp add: drive_clarification_create_new_work_def take_in_def Let_def split_beta adds_closed)
      qed
    qed
  qed
  then show ?thesis unfolding works_def using False adds_refl by blast
qed

lemma clarified_works: "works (gh_talk g) st (snd (clarified_new_work g m x st))"
proof (cases "looks_like_new_work_selection (gh_talk g) x")
  case False
  then show ?thesis by (simp add: clarified_new_work_def works_calm adds_rules)
next
  case True
  let ?st = "snd (remembered_choices g m (snd (remembered g m st)))"
  have a: "adds (calm (gh_talk g)) st ?st" by (simp add: adds_rules)
  show ?thesis
  proof (cases "fst (remembered g m st)")
    case None
    then show ?thesis using True a by (auto simp: clarified_new_work_def Let_def split_beta intro!: works_calm adds_rules)
  next
    case (Some p)
    have "works (gh_talk g) st (forget m (snd (drive_clarification_create_new_work g p ?st)))"
      by (rule works_then[OF works_after[OF a drive_works[of g _ p]]]) (rule adds_forget, rule adds_refl)
    then show ?thesis using True Some by (simp add: clarified_new_work_def Let_def split_beta)
  qed
qed


section \<open>The stages\<close>

lemma adds_asked:
  assumes "adds (calm (gh_talk g)) st st1"
  shows "adds (calm (gh_talk g)) st (snd (ask_preflight g m x it rc r st1))"
  using assms by (simp add: ask_preflight_def adds_rules)

lemma adds_preflight_join:
  assumes "adds (calm (gh_talk g)) st st1"
  shows "adds (calm (gh_talk g)) st (snd (preflight_join g m x it rc payload st1))"
proof -
  have f: "adds (calm (gh_talk g)) st (snd (case fst r of Inl e \<Rightarrow> (Inl e, snd r)
      | Inr None \<Rightarrow> (Inr (Some (fst (ask_preflight g m x it rc err (snd r)))), snd (ask_preflight g m x it rc err (snd r)))
      | Inr (Some y) \<Rightarrow> (Inr (Some y), if c = None then snd r else forget m (snd r))))"
    if "adds (calm (gh_talk g)) st (snd r)" for r :: "(raised + route_result option) \<times> gw_state" and c :: "string option" and err
    using that by (auto split: sum.split option.split intro: adds_rules adds_asked)
  show ?thesis unfolding preflight_join_def Let_def split_beta
    by (rule f) (intro adds_joined adds_remembered assms)
qed

lemma adds_acted:
  assumes "adds (calm (gh_talk g)) st st1"
  shows "adds (calm (gh_talk g)) st (snd (preflight_act g m x it rc a st1))"
  using assms by (auto simp: preflight_act_def Let_def split_beta intro!: adds_preview adds_preflight_join adds_asked)

lemma adds_classified:
  assumes "adds (calm (gh_talk g)) st st1"
  shows "adds (calm (gh_talk g)) st (snd (preflight_classify g m x st1))"
  using assms by (auto simp: preflight_classify_def Let_def split: sum.split list.split intro!: adds_acted)

lemma adds_preflight:
  assumes "adds (calm (gh_talk g)) st st1"
  shows "adds (calm (gh_talk g)) st (snd (run_runtime_preflight g m x st1))"
proof -
  let ?st = "snd (remembered g m (snd (remembered_choices g m st1)))" and ?c = "fst (remembered g m (snd (remembered_choices g m st1)))"
  let ?r = "case try_select_candidate (gh_talk g) x (fst (remembered_choices g m st1)) of None \<Rightarrow> (Inr None, ?st)
    | Some c \<Rightarrow> handle_clarification_selection g c x ?c ?st"
  have "adds (calm (gh_talk g)) st ?st" using assms by (simp add: adds_rules)
  then have "adds (calm (gh_talk g)) st (snd ?r)" by (auto split: option.split intro: adds_selected)
  then have "adds (calm (gh_talk g)) st (snd (case fst ?r of Inl e \<Rightarrow> (Inl e, snd ?r) | Inr (Some y) \<Rightarrow> (Inr (Some y), forget m (snd ?r))
      | Inr None \<Rightarrow> (if ?c \<noteq> None \<and> extract_explicit_session_id x \<noteq> None then (Inr None, snd ?r) else preflight_classify g m x (snd ?r))))"
    by (auto split: sum.split option.split intro: adds_forget adds_classified)
  then show ?thesis unfolding run_runtime_preflight_def Let_def split_beta by simp
qed

lemma join_tells:
  assumes "adds (calm (gh_talk g)) st st1"
  shows "adds (calm (gh_talk g)) st (snd (join_or_tell g oc d shown p st1))"
proof -
  obtain r st2 where e: "handle_join_or_append g oc d p True st1 = (r, st2)" by force
  then have "adds (calm (gh_talk g)) st st2" using adds_joined[OF assms] by (metis snd_conv)
  then show ?thesis by (auto simp: join_or_tell_def e split: sum.split option.split intro: adds_rules)
qed

lemma act_works: "works (gh_talk g) st (snd (act_on_route g m oc x p d st))"
  by (auto simp: act_on_route_def Let_def split_beta intro!: works_calm[OF join_tells] create_works works_calm[OF adds_sent] adds_rules)

lemma outcome_works: "works (gh_talk g) st (snd (route_outcome g m x oc st))"
proof -
  let ?st = "snd (remembered g m st)"
  have a: "adds (calm (gh_talk g)) st ?st" "adds (calm (gh_talk g)) st (forget m ?st)" by (simp_all add: adds_rules)
  have w: "works (gh_talk g) st (snd (act_on_route g m oc x p d ?st))" "works (gh_talk g) st (snd (act_on_route g m oc x p d (forget m ?st)))" for p d
    using works_after[OF a(1) act_works] works_after[OF a(2) act_works] by blast+
  show ?thesis using a w
    by (auto simp: route_outcome_def Let_def split_beta intro!: works_calm[OF adds_sent] works_calm)
qed

lemma converse_works: "works (gh_talk g) st (snd (converse g m x st))"
proof (cases "gh_converse g (gs_trace st) x")
  case (Inl e)
  then show ?thesis by (simp add: converse_def works_calm adds_rules)
next
  case (Inr r)
  have "adds (calm (gh_talk g)) st (send_opt t (emit (Conversed x) st))" for t by (simp add: adds_rules)
  then show ?thesis using Inr works_after[OF _ outcome_works] by (simp add: converse_def Let_def)
qed


text \<open>What a stage that passes the message on has done.\<close>

lemma coding_gate_calm: "adds (calm (gh_talk g)) st (snd (run_coding_authorization_gate g m x st))"
proof -
  have "calm (gh_talk g) e" if "gate_may g x (gate_sessions g st) e" for e
    using that by (cases e) auto
  then show ?thesis using gate_adds[of g x st m] adds_mono by blast
qed

lemma passed_unchanged:
  "run_coding_authorization_gate g m x st = (Inr None, st1) \<Longrightarrow> st1 = st
    \<and> (user_explicitly_blocked_coding (gh_talk g) x \<or> \<not> is_coding_proposal_request (gh_talk g) x \<and> \<not> is_coding_approval_phrase (gh_talk g) x)"
  "run_obsidian_approval_gate g m x st = (Inr None, st1) \<Longrightarrow> st1 = st \<and> \<not> approves_save (gh_talk g) x"
  by (auto simp: run_coding_authorization_gate_def run_obsidian_approval_gate_def Let_def split_beta split: if_splits sum.splits option.splits)

lemma clarified_passed:
  assumes "clarified_new_work g m x st = (Inr None, st1)"
  shows "adds (calm (gh_talk g)) st st1"
proof -
  have "adds (calm (gh_talk g)) st (snd (remembered_choices g m (snd (remembered g m st))))" by (simp add: adds_rules)
  then show ?thesis using assms by (auto simp: clarified_new_work_def Let_def split_beta split: if_splits option.splits)
qed

definition later_gates :: "gateway \<Rightarrow> message \<Rightarrow> string \<Rightarrow> (gw_state \<Rightarrow> (raised + route_result option) \<times> gw_state) list" where
  "later_gates g m x = [explicit_join g m x, clarified_new_work g m x] @ (if gh_list g = None then [] else [run_runtime_preflight g m x])"

text \<open>A stage starts at most one piece of work, and none if it passes the message on.\<close>

definition stage_ok :: "talk_host \<Rightarrow> (gw_state \<Rightarrow> (raised + route_result option) \<times> gw_state) \<Rightarrow> bool" where
  "stage_ok h f \<longleftrightarrow> (\<forall>st. works h st (snd (f st)) \<and> (fst (f st) = Inr None \<longrightarrow> adds (calm h) st (snd (f st))))"

lemma stage_calm: "(\<And>st. adds (calm h) st (snd (f st))) \<Longrightarrow> stage_ok h f"
  by (auto simp: stage_ok_def)

lemma stage_clarified: "stage_ok (gh_talk g) (clarified_new_work g m x)"
  using clarified_works clarified_passed by (fastforce simp: stage_ok_def prod_eq_iff)

lemma stages_ok: "list_all (stage_ok h) fs \<Longrightarrow> stage_ok h (first_stage fs)"
proof (induction fs)
  case Nil
  then show ?case by (simp add: stage_calm)
next
  case (Cons f fs)
  have ok: "stage_ok h f" "stage_ok h (first_stage fs)" using Cons by simp_all
  have "works h st (snd (first_stage (f # fs) st)) \<and> (fst (first_stage (f # fs) st) = Inr None \<longrightarrow> adds (calm h) st (snd (first_stage (f # fs) st)))" for st
  proof (cases "fst (f st) = Inr None")
    case True
    then have e: "first_stage (f # fs) st = first_stage fs (snd (f st))" by (cases "f st") simp
    have "adds (calm h) st (snd (f st))" using ok(1) True by (simp add: stage_ok_def)
    then show ?thesis using ok(2) unfolding e stage_ok_def by (meson works_after adds_trans)
  next
    case False
    then have "first_stage (f # fs) st = f st" by (cases "f st") (auto split: sum.split option.split)
    then show ?thesis using ok(1) by (simp add: stage_ok_def)
  qed
  then show ?case unfolding stage_ok_def by blast
qed

lemma rest_works:
  "works (gh_talk g) st (snd (case first_stage (later_gates g m x) st of
     (Inl e, st) \<Rightarrow> (Inl e, st) | (Inr (Some r), st) \<Rightarrow> (Inr r, st) | (Inr None, st) \<Rightarrow> converse g m x st))"
proof -
  have "list_all (stage_ok (gh_talk g)) (later_gates g m x)"
    by (auto simp: later_gates_def stage_clarified intro!: stage_calm adds_explicit adds_preflight adds_refl)
  then have ok: "stage_ok (gh_talk g) (first_stage (later_gates g m x))" by (rule stages_ok)
  obtain r st1 where e: "first_stage (later_gates g m x) st = (r, st1)" by force
  have "works (gh_talk g) st st1" "r = Inr None \<longrightarrow> adds (calm (gh_talk g)) st st1"
    using ok e unfolding stage_ok_def by (metis fst_conv snd_conv)+
  then show ?thesis using works_after[OF _ converse_works] by (auto simp: e split: sum.split option.split)
qed


section \<open>The property\<close>

text \<open>Events that start or write something, and those of a gate that decides on the message itself.\<close>

fun opens :: "gw_event \<Rightarrow> bool" where
  "opens (Intake p w) = True"
| "opens (Kicked_Off so) = True"
| "opens (Wrote_Note n v) = True"
| "opens e = False"

fun settles :: "gw_event \<Rightarrow> bool" where
  "settles (Sent s) = True"
| "settles (Carded s) = True"
| "settles (Stored s) = True"
| "settles (Wrote_Note n v) = True"
| "settles e = False"

lemma calm_opens: "calm h e \<Longrightarrow> \<not> opens e" "busy h e \<Longrightarrow> opens e \<Longrightarrow> \<exists>so. e = Kicked_Off so"
    "calm h (Researched p) \<Longrightarrow> \<not> research_blocked h p" "busy h (Researched p) \<Longrightarrow> \<not> research_blocked h p"
  by (cases e; simp)+

lemma plain_settles: "plain e \<Longrightarrow> settles e" "plain e \<Longrightarrow> \<not> opens e"
  by (cases e; simp)+

lemma coding_gate_settles: "adds settles st (snd (run_coding_authorization_gate g m x st))"
proof -
  have "settles e" if "gate_may g x (gate_sessions g st) e" for e
    using that by (cases e) auto
  then show ?thesis using gate_adds[of g x st m] adds_mono by blast
qed

lemma snd_of: "(a, b) = p \<Longrightarrow> b = snd p"
  by auto

text \<open>What one message did, in one of three ways.\<close>

definition turn_shape :: "talk_host \<Rightarrow> gw_event list \<Rightarrow> bool" where
  "turn_shape h new \<longleftrightarrow> (\<forall>p. Researched p \<in> set new \<longrightarrow> \<not> research_blocked h p)
     \<and> ((\<forall>e \<in> set new. \<not> opens e)
        \<or> (\<exists>a p w b. new = a @ Intake p w # b \<and> \<not> is_non_actionable_prompt h p \<and> (\<forall>e \<in> set a. \<not> opens e)
             \<and> (\<forall>e \<in> set b. opens e \<longrightarrow> (\<exists>so. e = Kicked_Off so)))
        \<or> (\<exists>n v b. new = Wrote_Note n v # b \<and> (\<forall>e \<in> set b. \<not> opens e)))"

lemma calm_shape: "list_all (calm h) new \<Longrightarrow> turn_shape h new"
  unfolding turn_shape_def list_all_iff using calm_opens(1,3) by blast

lemma works_shape:
  assumes "works h st st'"
  shows "\<exists>new. gs_trace st' = gs_trace st @ new \<and> turn_shape h new \<and> (\<forall>n v. Wrote_Note n v \<notin> set new)"
  using assms unfolding works_def
proof (elim disjE exE conjE)
  assume "adds (calm h) st st'"
  then obtain new where n: "gs_trace st' = gs_trace st @ new" "list_all (calm h) new" by (auto simp: adds_def)
  then have "\<forall>a v. Wrote_Note a v \<notin> set new" by (auto simp: list_all_iff)
  then show ?thesis using n calm_shape by blast
next
  fix p w st1
  assume a: "adds (calm h) st st1" "\<not> is_non_actionable_prompt h p" "adds (busy h) (emit (Intake p w) st1) st'"
  obtain u where u: "gs_trace st1 = gs_trace st @ u" "list_all (calm h) u" using a(1) by (auto simp: adds_def)
  obtain v where v: "gs_trace st' = gs_trace st1 @ Intake p w # v" "list_all (busy h) v" using a(3) by (auto simp: adds_def emit_def)
  have t: "gs_trace st' = gs_trace st @ (u @ Intake p w # v)" using u v by simp
  have "\<forall>e \<in> set u. \<not> opens e" "\<forall>e \<in> set v. opens e \<longrightarrow> (\<exists>so. e = Kicked_Off so)"
    using u(2) v(2) calm_opens(1,2) unfolding list_all_iff by blast+
  moreover have "\<forall>q. Researched q \<in> set (u @ Intake p w # v) \<longrightarrow> \<not> research_blocked h q"
    using u(2) v(2) calm_opens(3,4) unfolding list_all_iff by auto
  ultimately have "turn_shape h (u @ Intake p w # v)" using a(2) unfolding turn_shape_def by blast
  moreover have "\<forall>n y. Wrote_Note n y \<notin> set (u @ Intake p w # v)" using u(2) v(2) by (auto simp: list_all_iff)
  ultimately show ?thesis using t by blast
qed

text \<open>What each stage of the route leaves behind, where the stage settles the message, and where it lets it pass.\<close>

definition lawful_turn :: "gateway \<Rightarrow> string \<Rightarrow> gw_event list \<Rightarrow> bool" where
  "lawful_turn g x new \<longleftrightarrow> turn_shape (gh_talk g) new \<and> ((\<exists>n v. Wrote_Note n v \<in> set new) \<longrightarrow> approves_save (gh_talk g) x)
    \<and> (gh_list g \<noteq> None \<and> (\<not> user_explicitly_blocked_coding (gh_talk g) x
          \<and> (is_coding_proposal_request (gh_talk g) x \<or> is_coding_approval_phrase (gh_talk g) x)
          \<or> approves_save (gh_talk g) x) \<longrightarrow> list_all settles new)"

abbreviation route_stages :: "gateway \<Rightarrow> message \<Rightarrow> string \<Rightarrow> (gw_state \<Rightarrow> (raised + route_result option) \<times> gw_state) list
    \<Rightarrow> gw_state \<Rightarrow> (raised + route_result) \<times> gw_state" where
  "route_stages g m x fs st \<equiv> (case first_stage fs st of
     (Inl e, st) \<Rightarrow> (Inl e, st) | (Inr (Some r), st) \<Rightarrow> (Inr r, st) | (Inr None, st) \<Rightarrow> converse g m x st)"

lemma calm_lawful: "list_all (calm (gh_talk g)) new \<Longrightarrow> list_all settles new \<Longrightarrow> lawful_turn g x new"
  unfolding lawful_turn_def using calm_shape[of "gh_talk g" new] by (auto simp: list_all_iff)

lemma coding_stage_turn:
  assumes "run_coding_authorization_gate g m x st = (c, st')"
  shows "\<exists>new. gs_trace st' = gs_trace st @ new \<and> lawful_turn g x new"
proof -
  obtain new where n: "gs_trace st' = gs_trace st @ new" "list_all (calm (gh_talk g)) new" "list_all settles new"
    using coding_gate_calm[of g st m x] coding_gate_settles[of st g m x] assms by (auto simp: adds_def)
  then show ?thesis using calm_lawful by blast
qed

lemma plain_lawful: "list_all plain new \<Longrightarrow> lawful_turn g x new"
  using plain_calm plain_settles(1) by (intro calm_lawful) (auto simp: list_all_iff)

lemma note_lawful:
  assumes "approves_save (gh_talk g) x" "list_all plain b"
  shows "lawful_turn g x (Wrote_Note n v # b)"
proof -
  have o: "\<forall>e \<in> set b. \<not> opens e" "list_all settles (Wrote_Note n v # b)" using assms(2) plain_settles by (auto simp: list_all_iff)
  moreover have "\<forall>p. Researched p \<notin> set (Wrote_Note n v # b)" using assms(2) by (auto simp: list_all_iff)
  ultimately have "turn_shape (gh_talk g) (Wrote_Note n v # b)" unfolding turn_shape_def by blast
  then show ?thesis unfolding lawful_turn_def using o(2) assms(1) by blast
qed

lemma saving_stage_turn:
  assumes "run_obsidian_approval_gate g m x st = (s, st')"
  shows "\<exists>new. gs_trace st' = gs_trace st @ new \<and> lawful_turn g x new"
  using gate_cases[of st g m x]
proof (elim disjE exE conjE)
  assume "adds plain st (snd (run_obsidian_approval_gate g m x st))"
  then show ?thesis using assms plain_lawful by (auto simp: adds_def)
next
  fix sess n v
  assume a: "approves_save (gh_talk g) x" and "adds plain (emit (Wrote_Note n v) st) (snd (run_obsidian_approval_gate g m x st))"
  then obtain b where "gs_trace st' = gs_trace st @ Wrote_Note n v # b" "list_all plain b" using assms by (auto simp: adds_def emit_def)
  then show ?thesis using note_lawful[OF a] by blast
qed

lemma later_stages_turn:
  assumes "st' = snd (route_stages g m x (later_gates g m x) st)" and "gh_list g \<noteq> None \<Longrightarrow> \<not> approves_save (gh_talk g) x
      \<and> (user_explicitly_blocked_coding (gh_talk g) x
          \<or> \<not> is_coding_proposal_request (gh_talk g) x \<and> \<not> is_coding_approval_phrase (gh_talk g) x)"
  shows "\<exists>new. gs_trace st' = gs_trace st @ new \<and> lawful_turn g x new"
proof -
  have "works (gh_talk g) st st'" using rest_works[of g st m x] assms(1) by simp
  then obtain new where "gs_trace st' = gs_trace st @ new" "turn_shape (gh_talk g) new" "\<forall>n v. Wrote_Note n v \<notin> set new"
    using works_shape by blast
  then show ?thesis unfolding lawful_turn_def using assms(2) by blast
qed

text \<open>The gates run first, and a gate that lets a message pass leaves no trace; the later stages see the state of the start.\<close>

lemma stages_turn:
  assumes "route_stages g m x (gates g m x) st = (r, st')"
  shows "\<exists>new. gs_trace st' = gs_trace st @ new \<and> lawful_turn g x new"
proof (cases "gh_list g = None")
  case True
  then have "gates g m x = later_gates g m x" by (simp add: gates_def later_gates_def Let_def)
  then show ?thesis using later_stages_turn[of st' g m x st] assms True by simp
next
  case False
  then have gs: "gates g m x = run_coding_authorization_gate g m x # run_obsidian_approval_gate g m x # later_gates g m x"
    by (simp add: gates_def later_gates_def Let_def)
  obtain c st1 where c: "run_coding_authorization_gate g m x st = (c, st1)" by force
  obtain s st2 where s: "run_obsidian_approval_gate g m x st = (s, st2)" by force
  consider "c \<noteq> Inr None" | "c = Inr None" "s \<noteq> Inr None" | "c = Inr None" "s = Inr None" by blast
  then show ?thesis
  proof cases
    case 1
    then have "st' = st1" using assms c by (auto simp: gs split: sum.splits option.splits)
    then show ?thesis using coding_stage_turn[OF c] by simp
  next
    case 2
    then have "st1 = st" using passed_unchanged(1)[of g m x st st1] c by simp
    then have "st' = st2" using assms c s 2 by (auto simp: gs split: sum.splits option.splits)
    then show ?thesis using saving_stage_turn[OF s] by simp
  next
    case 3
    note coding = passed_unchanged(1)[of g m x st st1] and saving = passed_unchanged(2)[of g m x st st2]
    have "first_stage (gates g m x) st = first_stage (later_gates g m x) st"
      using c s 3 coding saving by (simp add: gs)
    then have "st' = snd (route_stages g m x (later_gates g m x) st)" using assms by (simp add: snd_of)
    then show ?thesis using later_stages_turn coding saving c s 3 by blast
  qed
qed

text \<open>C11: A message starts at most one piece of work, and only when it may. Outside the engineering channel, or without text,
  nothing happens. Otherwise research is never run on a bare command or an echo of the bot, and the turn
  has one of three forms: it starts and writes nothing; or it takes in one task, whose prompt is neither a bare command
  nor an echo, and only after that may open its thread; or it writes one note, first of all, on words that approve
  saving. A message that proposes or approves coding, without ruling it out, or that approves saving is settled by its gate:
  it is neither put to the conversation nor continued, researched or taken in.\<close>

theorem message_starts_one_work:
  assumes "route_engineering_message g rx m prompt st = (r, st')"
  defines "h \<equiv> gh_talk g" and "x \<equiv> wide_strip prompt"
  shows "\<exists>new. gs_trace st' = gs_trace st @ new \<and> (new \<noteq> [] \<longrightarrow> is_engineering_channel h m rx \<and> x \<noteq> []) \<and> turn_shape h new
    \<and> ((\<exists>n v. Wrote_Note n v \<in> set new) \<longrightarrow> approves_save h x)
    \<and> (gh_list g \<noteq> None \<and> (\<not> user_explicitly_blocked_coding h x \<and> (is_coding_proposal_request h x \<or> is_coding_approval_phrase h x)
          \<or> approves_save h x) \<longrightarrow> list_all settles new)"
proof (cases "is_engineering_channel h m rx \<and> x \<noteq> []")
  case False
  then have "st' = st" using assms(1) by (auto simp: route_engineering_message_def h_def x_def Let_def)
  then show ?thesis by (simp add: turn_shape_def)
next
  case True
  then have "route_stages g m x (gates g m x) st = (r, st')"
    using assms(1) unfolding route_engineering_message_def h_def x_def Let_def by simp
  then obtain new where "gs_trace st' = gs_trace st @ new" "lawful_turn g x new" using stages_turn by blast
  then show ?thesis using True unfolding lawful_turn_def h_def by blast
qed

text \<open>An example: a message in the configured channel that approves saving.\<close>

definition example_route :: route_context where
  "example_route = \<lparr>rx_channel_id = Some 1, rx_channel_name = None, rx_recall_first = False\<rparr>"

definition example_order :: message where
  "example_order = example_sender\<lparr>ms_channel_id := Some 1\<rparr>"

lemma example_words_only_save:
  "wide_strip ''save approved'' = ''save approved''"
  "\<not> is_coding_proposal_request plain_talk ''save approved''" "\<not> is_coding_approval_phrase plain_talk ''save approved''"
proof -
  show "wide_strip ''save approved'' = ''save approved''"
    by (simp add: wide_strip_def trim_def space_char_def continues_def Let_def)
  have l: "squeeze (th_lower plain_talk ''save approved'') = ''save approved''"
    by (simp add: plain_talk_def py_lower_def py_lower_char_def squeeze_def py_words_def space_char_def continues_def)
  show "\<not> is_coding_proposal_request plain_talk ''save approved''"
    unfolding is_coding_proposal_request_def says_any_def l
    by (simp add: any_in_def CODING_PROPOSAL_REQUEST_PHRASES_def wide_not_prefix wide_nonempty)
  show "\<not> is_coding_approval_phrase plain_talk ''save approved''"
    unfolding is_coding_approval_phrase_def says_any_def l
    by (simp add: any_in_def CODING_APPROVAL_PHRASES_def wide_not_prefix wide_nonempty)
qed

lemma example_route_written:
  "\<exists>n v b. gs_trace (snd (route_engineering_message (example_gateway [example_saved]) example_route example_order ''save approved''
      \<lparr>gs_cache = c, gs_trace = []\<rparr>)) = Wrote_Note n v # b"
proof -
  let ?g = "example_gateway [example_saved]" and ?x = "''save approved''" and ?st = "\<lparr>gs_cache = c, gs_trace = []\<rparr>"
  obtain n v b where b: "gs_trace (snd (run_obsidian_approval_gate ?g example_order ?x ?st)) = Wrote_Note n v # b"
    using example_note_written by blast
  obtain s st1 where s: "run_obsidian_approval_gate ?g example_order ?x ?st = (s, st1)" by force
  then have "s \<noteq> Inr None" using b passed_unchanged(2)[of ?g example_order ?x ?st st1] by auto
  moreover have t: "gh_talk ?g = plain_talk" "gh_list ?g \<noteq> None" by (simp_all add: example_gateway_def)
  moreover have "run_coding_authorization_gate ?g example_order ?x ?st = (Inr None, ?st)"
    by (simp add: run_coding_authorization_gate_def t example_words_only_save Let_def)
  moreover have "is_engineering_channel plain_talk example_order example_route"
    by (simp add: is_engineering_channel_def configured_def example_route_def example_order_def)
  ultimately have "snd (route_engineering_message ?g example_route example_order ?x ?st) = st1"
    by (auto simp: route_engineering_message_def example_words_only_save gates_def s Let_def split: sum.split option.split)
  then show ?thesis using b s by simp
qed

theorem message_starts_one_work_witness:
  "\<exists>r st' n v b. route_engineering_message (example_gateway [example_saved]) example_route example_order ''save approved''
       \<lparr>gs_cache = \<lambda>_. None, gs_trace = []\<rparr> = (r, st')
     \<and> gs_trace st' = Wrote_Note n v # b \<and> (\<forall>e \<in> set b. \<not> opens e) \<and> list_all settles b"
proof -
  let ?g = "example_gateway [example_saved]" and ?st = "\<lparr>gs_cache = \<lambda>_. None, gs_trace = []\<rparr>"
  obtain r st' where e: "route_engineering_message ?g example_route example_order ''save approved'' ?st = (r, st')" by force
  obtain n v b where b: "gs_trace st' = Wrote_Note n v # b" using example_route_written[of "\<lambda>_. None"] e by auto
  have t: "gh_talk ?g = plain_talk" "gh_list ?g \<noteq> None" by (simp_all add: example_gateway_def)
  have "turn_shape plain_talk (Wrote_Note n v # b)" "list_all settles (Wrote_Note n v # b)"
    using message_starts_one_work[OF e] by (simp_all add: b t example_words_only_save example_words_of_approval)
  then show ?thesis using e b by (auto simp: turn_shape_def Cons_eq_append_conv)
qed

end
