(* ===== verification/Spec2Isabelle.thy ===== *)
theory Spec2Isabelle
  imports JobRecoveryProps Heartbeat Supervisor AutonomyLock GoalTickProps CIRetry WorkerLoopProps ExecGate
    ServeProps EscalationProps RoutingProps RouterProps
begin

text \<open>
  \<^bold>\<open>A verification library for the control plane of ForgeKit.\<close>

  ForgeKit runs software agents without a person at the keyboard: a durable queue of jobs served by worker
  processes, a supervisor that keeps those processes alive, a plane of long-lived goals that a daemon
  advances tick by tick and executes by committing to a repository, a lane of design artifacts that must be
  signed before anything is built, and policies that decide what may run without a human. Work enters through
  a conversation, whose messages are classified, matched to earlier work and, for code, turned into a proposal
  that a person approves. The library models that control plane, the part whose mistakes would lose work, run
  work twice or run work nobody approved. Paths are relative to \<open>src/\<close>; EA stands for
  \<open>apps/engineering-agent/src/yule_engineering/agents\<close>, AR for
  \<open>packages/agent-runtime/src/yule_agent_runtime\<close>, DG for \<open>apps/discord-gateway/src/yule_discord\<close>, FR for \<open>packages/forgekit-runtime/src/forgekit_runtime\<close>.

  \<^bold>\<open>Parts and theories.\<close>

  \<^item> \<^theory_text>\<open>Prelude\<close>, \<^theory_text>\<open>Interfaces\<close>, \<^theory_text>\<open>PyJson\<close>: Python values, strings, dictionaries and JSON as the code reads
    them; stable sorting; tables of rows; and the interfaces between components as locales
    (\<open>guarded_moves\<close>, \<open>terminal_moves\<close>, \<open>keyed_table\<close>, \<open>bounded_retry\<close>, \<open>event_loop\<close>), each interpreted on the
    components that provide it.
  \<^item> \<^theory_text>\<open>JobState\<close>, \<^theory_text>\<open>JobQueue\<close>, \<^theory_text>\<open>JobQueueLemmas\<close>, \<^theory_text>\<open>JobQueueHistory\<close>, \<^theory_text>\<open>JobQueueProps\<close>: the eleven job states
    and their transition table (EA\<open>/job_queue/state_machine.py\<close>) and every method of the queue
    (\<open>store.py\<close>): enqueue with dedup and parents, pick under a lease, renewal, transitions, retries, promotion
    and the reaper. The two SQLite tables are the lists of a \<open>queue_db\<close> record, one definition per method; a
    locked database is an argument. Histories of calls (\<open>queue_op\<close>, \<open>run_queue\<close>) carry the invariants.
  \<^item> \<^theory_text>\<open>JobRecovery\<close>, \<^theory_text>\<open>JobRecoveryProps\<close>: the same tables under several processes. \<open>store_op\<close> is one transaction: a
    call of the queue; the read or the write of a requeue, which the code makes in two transactions; the revival of a
    terminally failed coding job, which \<open>coding_execute_recovery.py\<close> writes in SQL of its own with the counter reset to
    zero; and the withdrawal of saved approval cards (\<open>pr_merge_continuation_worker.py\<close>). These are all the writers of the
    tables. The two sweeps of the recovery are modelled with their tests and notes; the progress they stamp on a session is not.
  \<^item> \<^theory_text>\<open>Heartbeat\<close>, \<^theory_text>\<open>WorkerLoop\<close>, \<^theory_text>\<open>WorkerLoopProps\<close>: the heartbeat table and the watchdog sweep
    (\<open>heartbeat.py\<close>), and the two process loops around queue and heartbeats (\<open>worker_loop.py\<close>).
  \<^item> \<^theory_text>\<open>CircuitBreaker\<close>, \<^theory_text>\<open>Supervisor\<close>: the restart breaker with its SQLite mirror, the service inventory, the
    supervision loop of one child process and the shutdown drain
    (\<open>packages/runtime-primitives/src/yule_runtime_primitives\<close>).
  \<^item> \<^theory_text>\<open>AutonomyLock\<close>: the in-process lease registry (EA\<open>/job_queue/autonomy_lock.py\<close>).
  \<^item> \<^theory_text>\<open>ApprovalPolicy\<close>, \<^theory_text>\<open>AutonomyPolicy\<close>: the four-level approval policy (EA\<open>/approval_policy.py\<close>) and the
    five-level autonomy ladder that bridges into it (EA\<open>/lifecycle/autonomy_policy.py\<close>).
  \<^item> \<^theory_text>\<open>AgentOps\<close>, \<^theory_text>\<open>CompletionHook\<close>: the audit log kept in a session (EA\<open>/lifecycle/agent_ops_log.py\<close>) and the
    hook every finished job goes through (EA\<open>/job_queue/completion_hook.py\<close>).
  \<^item> \<^theory_text>\<open>CIStatus\<close>, \<^theory_text>\<open>CIRetry\<close>: aggregation of check runs, the retry log and policy (\<open>ci_status.py\<close>) and one poll of
    the retry orchestrator (\<open>ci_retry_orchestrator.py\<close>).
  \<^item> \<^theory_text>\<open>Goal\<close>, \<^theory_text>\<open>GoalPlan\<close>, \<^theory_text>\<open>GoalStore\<close>, \<^theory_text>\<open>GoalTick\<close>, \<^theory_text>\<open>GoalTickProps\<close>: goals with their evidence, the planning
    functions, the store of one JSON file per goal (\<open>packages/forgekit-goal\<close>), and the daemon's continuation
    tick (FR\<open>/runtime/goal_continuation_tick.py\<close>).
  \<^item> \<^theory_text>\<open>PyText\<close>, \<^theory_text>\<open>Identity\<close>, \<^theory_text>\<open>Attribution\<close>: text as Python cuts and compares it, the registry of agent
    identities (\<open>packages/forgekit-config/.../identity/registry.py\<close>), and the git authors and commit trailers
    derived from it (\<open>models.py\<close>, \<open>attribution.py\<close>).
  \<^item> \<^theory_text>\<open>DesignArtifacts\<close>, \<^theory_text>\<open>DesignLane\<close>, \<^theory_text>\<open>DesignLaneProps\<close>, \<^theory_text>\<open>ExecGate\<close>: the artifacts of a design with their
    validators, the lane from brief to work order, readiness and its replay from the governance log, and the
    gates before execution (FR\<open>/decision_lane\<close>).
  \<^item> \<^theory_text>\<open>Autopilot\<close>, \<^theory_text>\<open>Mutator\<close>, \<^theory_text>\<open>AutopilotCycle\<close>, \<^theory_text>\<open>AutopilotCycleProps\<close>: the internal approval chain, the bounded
    writer of files, the cycle of one repository with its arbiter, and the daemon's pass over it
    (FR\<open>/autopilot\<close>, FR\<open>/runtime/autopilot_tick.py\<close>).
  \<^item> \<^theory_text>\<open>Packets\<close>, \<^theory_text>\<open>Governance\<close>, \<^theory_text>\<open>GoalExec\<close>, \<^theory_text>\<open>GoalExecProps\<close>, \<^theory_text>\<open>GoalCommit\<close>: improvement packets and how they are
    linked to goals, the design gate of a goal, and the bridge from an approved packet to a commit
    (FR\<open>/selfimprove\<close>, FR\<open>/runtime/goal_governance.py\<close>). \<open>world\<close> is the goal store and the repository: last
    commit, index and files.
  \<^item> \<^theory_text>\<open>GoalRun\<close>, \<^theory_text>\<open>GoalRunProps\<close>, \<^theory_text>\<open>GoalScheduler\<close>, \<^theory_text>\<open>GoalSchedulerProps\<close>: the daemon's execution and scheduler ticks
    (FR\<open>/runtime/goal_exec_tick.py\<close>, \<open>goal_scheduler_tick.py\<close>).
  \<^item> \<^theory_text>\<open>Serve\<close>, \<^theory_text>\<open>ServeProps\<close>: the always-on service: the tick that composes the four passes
    (\<open>apps/forgekit-console/.../cli/runtime_cmd.py\<close>), the heartbeat file, the kill switch and the loop of the
    daemon (FR\<open>/runtime/heartbeat.py\<close>, \<open>daemon.py\<close>). \<open>service\<close> is what it keeps: the world, the governance logs
    and, in memory, the autopilot.
  \<^item> \<^theory_text>\<open>PyUnicode\<close>: text outside ASCII, white space, words and the small patterns of the conversation code.
  \<^item> \<^theory_text>\<open>Escalation\<close>, \<^theory_text>\<open>EscalationProps\<close>: repeated failures and their reports
    (FR\<open>/lifecycle/failure_escalation.py\<close>), and the bounded loop over observed gaps with its runbooks
    (FR\<open>/runtime/loop.py\<close>, \<open>runbook.py\<close>). \<open>escalator\<close> holds the occurrences and the two files; \<open>surroundings\<close> is what
    disk and notifier do in one call.
  \<^item> \<^theory_text>\<open>AgentRuntime\<close>, \<^theory_text>\<open>Understand\<close>, \<^theory_text>\<open>Recall\<close>, \<^theory_text>\<open>Decide\<close>, \<^theory_text>\<open>AgentRuntimeProps\<close>: the turn of an agent
    (AR\<open>/models.py\<close>, \<open>policies.py\<close>, \<open>loop.py\<close>): observe, classify the intent (\<open>understand.py\<close>), recall sessions and
    memory (\<open>recall.py\<close>) and decide (\<open>decide.py\<close>), with the failure of every stage.
  \<^item> \<^theory_text>\<open>Routing\<close>, \<^theory_text>\<open>RoutingProps\<close>: which session a request joins (EA\<open>/routing.py\<close>).
  \<^item> \<^theory_text>\<open>Clarify\<close>: the memory of questions asked in a channel and the phrases that steer the gateway
    (DG\<open>/engineering/clarification.py\<close>, \<open>phrase_detect.py\<close>, DG\<open>/engineering_channel_router/intent_detection.py\<close>).
  \<^item> \<^theory_text>\<open>CodingAuth\<close>, \<^theory_text>\<open>CodingAuthProps\<close>: who is proposed to write code, within which scope, and the job an approved
    proposal becomes (EA\<open>/coding/authorization.py\<close>, \<open>job.py\<close>).
  \<^item> \<^theory_text>\<open>Gateway\<close>, \<^theory_text>\<open>CodingGate\<close>, \<^theory_text>\<open>CodingGateProps\<close>: the records and the persistence of the router
    (DG\<open>/engineering_channel_router/models.py\<close>, \<open>session_persistence.py\<close>, EA\<open>/lifecycle/persistence.py\<close>,
    EA\<open>/research/persistence.py\<close>) and the gate of coding (\<open>coding_gate.py\<close>). \<open>gw_state\<close> is the memory of questions and
    the list of effects; \<open>gateway\<close> holds what is injected.
  \<^item> \<^theory_text>\<open>Readiness\<close>, \<^theory_text>\<open>ObsidianGate\<close>, \<^theory_text>\<open>ObsidianGateProps\<close>: how far a session is
    (EA\<open>/lifecycle/status.py\<close>), and the gate that previews a note and, on approval, writes it to the vault
    (EA\<open>/obsidian/approval.py\<close>, \<open>obsidian_gate.py\<close> of the router).
  \<^item> \<^theory_text>\<open>Router\<close>, \<^theory_text>\<open>RouterProps\<close>: the router of the engineering channel (\<open>main.py\<close>, \<open>runtime_preflight.py\<close>,
    \<open>research_loop.py\<close>, \<open>reporting.py\<close>, \<open>router_messages.py\<close>), as a list of stages, each of which may end the turn, and
    the conversation with the routing after it. \<open>first_stage\<close> runs them in the order of the code; what a turn does is
    read off the effects it adds.

  \<^bold>\<open>How the parts meet.\<close> The router puts a message to the coding gate, the saving gate, the answers to a question
  and the preflight, which observes and classifies it and matches it to an open session, and only then to the conversation; what
  remains is routed, joined or taken in as new work. The coding gate stores a proposal in the session and, on approval,
  the job that the executor takes from it. A worker loop picks a job from the queue, beats and serves it; the watch loop reaps
  the leases of workers that stopped; the supervisor respawns them until the breaker opens. A finished job
  goes through the completion hook, which asks the autonomy policy for a level and appends to the audit log;
  a job with a pull request is polled by the CI orchestrator, which may requeue it. The scheduler tick
  finds packets for active goals and splits big ones; the execution tick asks the design gate, which replays
  the governance log, and applies packets through the bridge; the continuation tick closes finished steps,
  replans stuck ones and advances plans. All three share the goal store, and what one records is what the
  next decides on: an attempt once recorded is never repeated. The service runs the autopilot and these three
  in one tick, over and over, until it is stopped; a restarted one counts on from the last heartbeat. The loop
  over observed gaps tells the escalator what it may not do and that it waits.

  \<^bold>\<open>Conventions.\<close> Errors are values of a sum type, an operation that can raise returns \<open>Inl\<close> and the state as
  it was left. The clock, generated ids, failures of the operating system and answers of services outside
  the repository are arguments or fields of an event; what other processes do in between is a list of
  operations. Wall-clock times are real numbers; strings are lists of UTF-8 bytes. Functions are total:
  loops over data are structural or have a measure; the service loops, which need not return, are
  \<open>partial_function (option)\<close> or \<open>while_option\<close>, and it is proved when they return. The only fuel is the length
  of the text in \<open>replace_fuel\<close>, whose every step consumes a byte. \<open>py_strip\<close> and \<open>py_lower\<close> are Python's on ASCII text: they
  stand where the code treats identifiers, kinds, paths and English words, and leave other bytes alone, where Python
  would also strip Unicode white space and lower other scripts; the conversation uses \<open>wide_strip\<close> instead. A tuple that
  is only read as a sequence is a list, as are the roles and scores in the metadata of a proposal. Lower case outside ASCII there, the rounding of floats and
  the text of times come from a host (\<open>talk_host\<close>); what is assumed of them is a hypothesis.

  \<^bold>\<open>What the lemmas show.\<close> The invariants of the queue, the goal plane and the breaker along every history;
  exactness of picking, reaping, routing, aggregation and completion on every branch; exclusion by leases and locks;
  what each transaction may do to a job, the two writers that pass by the transition table included; bounds on retries,
  restarts and replans, with what they cost when processes interleave or a save is swallowed; round trips of the audit log, the retry log and goals; refinement
  of the goal store and the breaker's mirror to maps; equivalence of the trimmed restart ledger with a
  sliding window; that decisions above level 2 always reach a person; that only gated, safely worded packets are
  committed, as one note each, and no packet twice over any history of ticks, restarts included; that the service
  touches nothing outside its notes; that scheduling only proposes, and the loop over
  gaps hands off nothing privileged; that a failure repeated up to the threshold is reported with what its history holds;
  that a message joins earlier work only on a clear match, starts at most one piece of work, and none on a bare command;
  that code may be written only by the role proposed, in its scope, and a note only for a ready session, both on words of approval;
  and that the loops serve, stay alive and return. Where the code differs from its documentation, a lemma states what it does.

  \<^bold>\<open>Not modelled.\<close> The chat client and its commands, consoles and renderers (text only), role selection and the analyses
  stored with a new session, the collection of research, work reports and notes (the router takes what they return), language-model providers and
  embeddings, the editing subprocess, wire protocols, scheduling of the operating system, SQLite
  itself. git is an argument: what \<open>ls-files\<close>, \<open>add\<close>, \<open>commit\<close> and \<open>checkout\<close> document is the hypothesis
  \<open>git_documented\<close>, with a git that satisfies it in the witnesses. Of modelled files, the functions that only
  format text for people.
\<close>

end
